(* ===== verification/Hush_Prelude.thy ===== *)
theory Hush_Prelude
  imports Main "HOL-Library.Word"
begin

text \<open>
  Shared vocabulary of the development: bytes and identifiers, points in time, HTTP
  responses, and the SQL table operations that the \<open>internal/db\<close> queries are written
  in. A table is the list of its rows in insertion order; \<open>INSERT\<close> appends, \<open>UPDATE\<close>
  maps over the matching rows, \<open>DELETE\<close> filters. The lemmas of this theory are the
  automation of the component proofs: the collection \<open>sql\<close> holds the table laws.
\<close>

named_theorems sql \<open>laws of the table operations\<close>

type_synonym byte = "8 word"
type_synonym bytes = "byte list"
type_synonym uint64 = "64 word"

text \<open>Points in time and durations are integers, in nanoseconds as in Go's \<open>time\<close>.\<close>

type_synonym time = int

abbreviation second :: time where
  "second \<equiv> 1000000000"

abbreviation minute :: time where
  "minute \<equiv> 60 * second"

abbreviation hour :: time where
  "hour \<equiv> 60 * minute"

abbreviation day :: time where
  "day \<equiv> 24 * hour"

text \<open>Counters below the top of their range do not wrap.\<close>

lemma unat_Suc64: "unat (n::uint64) < 2 ^ 64 - 1 \<Longrightarrow> unat (n + 1) = Suc (unat n)"
  by (subst unat_word_ariths(1)) simp

section \<open>HTTP responses\<close>

text \<open>
  \<open>writeJSON(w, status, map[string]string{"error": msg})\<close> is \<open>Fail status msg\<close>;
  a handler that answers with data is \<open>Done status data\<close>, with \<open>()\<close>-like payloads
  where only \<open>WriteHeader\<close> is called.
\<close>

datatype 'a response = Fail nat string | Done nat 'a

fun resp_status :: "'a response \<Rightarrow> nat" where
  "resp_status (Fail s _) = s"
| "resp_status (Done s _) = s"

section \<open>Outages\<close>

text \<open>
  Whether the next database or backend call fails is not up to the program: a provider
  carries the list of the outcomes to come (\<open>True\<close> is an error) and every call takes one;
  past the end of the list calls succeed.
\<close>

fun next_fault :: "bool list \<Rightarrow> bool \<times> bool list" where
  "next_fault [] = (False, [])"
| "next_fault (b # bs) = (b, bs)"

section \<open>SQL tables\<close>

definition sql_update :: "('r \<Rightarrow> bool) \<Rightarrow> ('r \<Rightarrow> 'r) \<Rightarrow> 'r list \<Rightarrow> 'r list" where
  "sql_update p f rs = map (\<lambda>r. if p r then f r else r) rs"

definition sql_delete :: "('r \<Rightarrow> bool) \<Rightarrow> 'r list \<Rightarrow> 'r list" where
  "sql_delete p rs = filter (\<lambda>r. \<not> p r) rs"

definition sql_count :: "('r \<Rightarrow> bool) \<Rightarrow> 'r list \<Rightarrow> nat" where
  "sql_count p rs = length (filter p rs)"

definition sql_exists :: "('r \<Rightarrow> bool) \<Rightarrow> 'r list \<Rightarrow> bool" where
  "sql_exists p rs = list_ex p rs"

lemma set_sql_update [sql]: "set (sql_update p f rs) = (\<lambda>r. if p r then f r else r) ` set rs"
  by (simp add: sql_update_def)

lemma length_sql_update [sql]: "length (sql_update p f rs) = length rs"
  by (simp add: sql_update_def)

lemma set_sql_delete [sql]: "set (sql_delete p rs) = {r \<in> set rs. \<not> p r}"
  by (simp add: sql_delete_def)

lemma sql_exists_iff [sql]: "sql_exists p rs \<longleftrightarrow> (\<exists>r \<in> set rs. p r)"
  by (simp add: sql_exists_def list_ex_iff)

lemma sql_exists_delete [sql]: "sql_exists p (sql_delete q rs) \<longleftrightarrow> (\<exists>r \<in> set rs. p r \<and> \<not> q r)"
  by (auto simp: sql_exists_iff set_sql_delete)

lemma sql_delete_id: "(\<And>r. r \<in> set rs \<Longrightarrow> \<not> p r) \<Longrightarrow> sql_delete p rs = rs"
  by (simp add: sql_delete_def)

lemma sql_update_id: "(\<And>r. r \<in> set rs \<Longrightarrow> \<not> p r) \<Longrightarrow> sql_update p f rs = rs"
  by (simp add: sql_update_def map_idI)

lemma map_sql_update: "(\<And>r. g (f r) = g r) \<Longrightarrow> map g (sql_update p f rs) = map g rs"
  by (simp add: sql_update_def)

lemma distinct_map_sql_delete [sql]: "distinct (map g rs) \<Longrightarrow> distinct (map g (sql_delete p rs))"
  by (simp add: sql_delete_def distinct_map_filter)

lemma find_Some_iff_mem: "find p rs = Some r \<Longrightarrow> r \<in> set rs \<and> p r"
  by (auto simp: find_Some_iff)

lemma find_unique:
  assumes "r \<in> set rs" and "p r" and "\<And>r'. r' \<in> set rs \<Longrightarrow> p r' \<Longrightarrow> r' = r"
  shows "find p rs = Some r"
proof (cases "find p rs")
  case None
  with assms(1,2) show ?thesis by (meson find_None_iff)
next
  case (Some r')
  then have "r' = r" by (meson assms(3) find_Some_iff_mem)
  with Some show ?thesis by simp
qed

lemma find_None_all: "find p rs = None \<longleftrightarrow> (\<forall>r \<in> set rs. \<not> p r)"
  by (auto simp: find_None_iff)

lemma find_append: "find p (xs @ ys) = (case find p xs of None \<Rightarrow> find p ys | Some r \<Rightarrow> Some r)"
  by (induction xs) auto

lemma find_sql_delete_None: "(\<And>r. p r \<Longrightarrow> q r) \<Longrightarrow> find p (sql_delete q rs) = None"
  by (auto simp: find_None_iff sql_delete_def)

lemma find_sql_delete_other: "(\<And>r. p r \<Longrightarrow> \<not> q r) \<Longrightarrow> find p (sql_delete q rs) = find p rs"
  by (induction rs) (auto simp: sql_delete_def)

end
