(* ===== verification/Merkle_Correct.thy ===== *)
theory Merkle_Correct
  imports Merkle
begin

text \<open>
  The Merkle tree against RFC 6962: the recursive tree hash \<open>MTH\<close>, the level-by-level
  root, the fringe root, and inclusion proofs. \<open>tree_ok\<close> is the invariant that ties the
  three fields of a tree to the list of its leaf hashes.
\<close>

section \<open>The recursive tree hash of RFC 6962\<close>

function split_point :: "nat \<Rightarrow> nat" where
  "split_point n = (if n \<le> 2 then 1 else 2 * split_point ((n + 1) div 2))"
  by pat_completeness auto
termination
  by (relation "measure id") auto

declare split_point.simps [simp del]

lemma split_point_pow2: "\<exists>k. split_point n = 2 ^ k"
proof (induction n rule: split_point.induct)
  case (1 n)
  show ?case
  proof (cases "n \<le> 2")
    case True
    then show ?thesis by (metis power_0 split_point.simps)
  next
    case False
    with "1.IH" obtain k where "split_point ((n + 1) div 2) = 2 ^ k" by blast
    with False have "split_point n = 2 ^ Suc k" by (subst split_point.simps) simp
    then show ?thesis by blast
  qed
qed

lemma split_point_bounds: "2 \<le> n \<Longrightarrow> split_point n < n \<and> n \<le> 2 * split_point n"
proof (induction n rule: split_point.induct)
  case (1 n)
  show ?case
  proof (cases "n \<le> 2")
    case True
    with "1.prems" show ?thesis by (subst (1 2) split_point.simps) simp
  next
    case False
    then have "split_point ((n + 1) div 2) < (n + 1) div 2 \<and>
      (n + 1) div 2 \<le> 2 * split_point ((n + 1) div 2)"
      using "1.IH" by simp
    moreover have "split_point n = 2 * split_point ((n + 1) div 2)"
      using False by (subst split_point.simps) simp
    ultimately show ?thesis by linarith
  qed
qed

function MTH :: "hashfun \<Rightarrow> hash list \<Rightarrow> hash" where
  "MTH H xs =
     (if length xs < 2 then (if xs = [] then zero_hash else hd xs)
      else NodeHash H (MTH H (take (split_point (length xs)) xs))
                      (MTH H (drop (split_point (length xs)) xs)))"
  by pat_completeness auto
termination
proof (relation "measure (\<lambda>(H, xs). length xs)", goal_cases)
  case 1
  show ?case by simp
next
  case (2 H xs)
  then show ?case using split_point_bounds [of "length xs"] by simp
next
  case (3 H xs)
  then have "2 \<le> length xs" by simp
  then have "0 < split_point (length xs)" using split_point_bounds [of "length xs"] by linarith
  with 3 show ?case by simp
qed

declare MTH.simps [simp del]

section \<open>The level root\<close>

definition level_root :: "hashfun \<Rightarrow> hash list \<Rightarrow> hash" where
  "level_root H row = hd (last (build_levels H row))"

lemma build_levels_nonempty [simp]: "build_levels H row \<noteq> []"
  by (subst build_levels.simps) simp

lemma level_root_step: "1 < length row \<Longrightarrow> level_root H row = level_root H (pair_level H row)"
  by (simp add: level_root_def build_levels.simps [of H row])

lemma level_root_single: "level_root H [x] = x"
  by (simp add: level_root_def build_levels.simps)

lemma pair_level_append: "even (length xs) \<Longrightarrow> pair_level H (xs @ ys) = pair_level H xs @ pair_level H ys"
  by (induction H xs rule: pair_level.induct) auto

lemma level_root_pair: "row \<noteq> [] \<Longrightarrow> level_root H (pair_level H row) = level_root H row"
proof (cases "1 < length row")
  case False
  moreover assume "row \<noteq> []"
  ultimately obtain x where "row = [x]" by (cases row) auto
  then show ?thesis by simp
qed (simp add: level_root_step)

text \<open>
  A perfect left part of \<open>2 ^ k\<close> nodes and a right part that is no longer meet in one
  node: the only fact about levels that the RFC root and the fringe need.
\<close>

lemma level_root_append:
  assumes "length xs = 2 ^ k" and "ys \<noteq> []" and "length ys \<le> 2 ^ k"
  shows "level_root H (xs @ ys) = NodeHash H (level_root H xs) (level_root H ys)"
  using assms
proof (induction k arbitrary: xs ys)
  case 0
  then obtain x y where "xs = [x]" "ys = [y]"
    by (cases xs; cases ys) auto
  then show ?case by (simp add: level_root_step level_root_single)
next
  case (Suc k)
  have ne: "xs \<noteq> []" and ev: "even (length xs)" using Suc.prems(1) by auto
  have 1: "length (pair_level H xs) = 2 ^ k"
    using Suc.prems(1) by (simp add: length_pair_level)
  have 2: "pair_level H ys \<noteq> []"
    using Suc.prems(2) by (cases "(H, ys)" rule: pair_level.cases) auto
  have 3: "length (pair_level H ys) \<le> 2 ^ k"
    using Suc.prems(3) by (simp add: length_pair_level)
  have "level_root H (xs @ ys) = level_root H (pair_level H xs @ pair_level H ys)"
    using ne ev by (simp flip: pair_level_append add: level_root_pair)
  also have "\<dots> = NodeHash H (level_root H (pair_level H xs)) (level_root H (pair_level H ys))"
    by (rule Suc.IH [OF 1 2 3])
  finally show ?case using ne Suc.prems(2) by (simp add: level_root_pair)
qed

lemma level_root_MTH: "xs \<noteq> [] \<Longrightarrow> level_root H xs = MTH H xs"
proof (induction H xs rule: MTH.induct)
  case (1 H xs)
  show ?case
  proof (cases "length xs < 2")
    case True
    with "1.prems" obtain x where "xs = [x]" by (cases xs) auto
    then show ?thesis by (subst MTH.simps) (simp add: level_root_single)
  next
    case False
    let ?k = "split_point (length xs)"
    have b: "?k < length xs" "length xs \<le> 2 * ?k" "0 < ?k"
      using False split_point_bounds [of "length xs"] by auto
    obtain e where e: "?k = 2 ^ e" using split_point_pow2 by blast
    have "level_root H (take ?k xs @ drop ?k xs) =
        NodeHash H (level_root H (take ?k xs)) (level_root H (drop ?k xs))"
      by (rule level_root_append [where k = e]) (use b e in auto)
    moreover have "level_root H (take ?k xs) = MTH H (take ?k xs)"
      by (rule "1.IH"(1)) (use False b in auto)
    moreover have "level_root H (drop ?k xs) = MTH H (drop ?k xs)"
      by (rule "1.IH"(2)) (use False b in auto)
    ultimately show ?thesis using False by (simp add: MTH.simps [of H xs])
  qed
qed

section \<open>The fringe: one perfect subtree per binary digit of the size\<close>

text \<open>
  \<open>fringe_low H h n ls\<close> lists, lowest digit first, the level roots of the perfect
  subtrees of a tree whose \<open>n * 2 ^ h\<close> leaves are \<open>ls\<close>. The code keeps this list reversed.
\<close>

fun fringe_low :: "hashfun \<Rightarrow> nat \<Rightarrow> nat \<Rightarrow> hash list \<Rightarrow> hash list" where
  "fringe_low H h n ls =
     (if n = 0 then []
      else if odd n
      then level_root H (drop (length ls - 2 ^ h) ls)
             # fringe_low H (Suc h) (n div 2) (take (length ls - 2 ^ h) ls)
      else fringe_low H (Suc h) (n div 2) ls)"

declare fringe_low.simps [simp del]

lemma fringe_low_0 [simp]: "fringe_low H h 0 ls = []"
  by (simp add: fringe_low.simps)

lemma fringe_low_even: "even n \<Longrightarrow> fringe_low H h n ls = fringe_low H (Suc h) (n div 2) ls"
  by (cases "n = 0") (simp_all add: fringe_low.simps [of H h n ls])

lemma fringe_low_odd:
  "odd n \<Longrightarrow> length b = 2 ^ h \<Longrightarrow>
   fringe_low H h n (ls @ b) = level_root H b # fringe_low H (Suc h) (n div 2) ls"
  by (cases "n = 0") (simp_all add: fringe_low.simps [of H h n "ls @ b"])

lemma odd_split:
  assumes "odd (n::nat)" and "length ls = n * 2 ^ h"
  obtains ls' b where "ls = ls' @ b" "length b = 2 ^ h" "length ls' = (n div 2) * 2 ^ Suc h"
proof -
  have n: "n = Suc (2 * (n div 2))" using assms(1) by presburger
  then have len: "length ls = (n div 2) * 2 ^ Suc h + 2 ^ h"
    using assms(2) by (metis add.commute mult.assoc mult.commute mult_Suc power_Suc)
  let ?k = "(n div 2) * 2 ^ Suc h"
  show thesis
    by (rule that [of "take ?k ls" "drop ?k ls"]) (simp_all add: len)
qed

definition fringe_fold :: "hashfun \<Rightarrow> hash \<Rightarrow> hash list \<Rightarrow> hash" where
  "fringe_fold H acc fr = foldl (\<lambda>a f. NodeHash H f a) acc fr"

lemma fringe_fold_Cons [simp]: "fringe_fold H acc (f # fr) = fringe_fold H (NodeHash H f acc) fr"
  by (simp add: fringe_fold_def)

lemma fringe_fold_Nil [simp]: "fringe_fold H acc [] = acc"
  by (simp add: fringe_fold_def)

lemma fringe_fold_block:
  assumes "length ls = n * 2 ^ h" and "c \<noteq> []" and "length c \<le> 2 ^ h"
  shows "fringe_fold H (level_root H c) (fringe_low H h n ls) = level_root H (ls @ c)"
  using assms
proof (induction n arbitrary: h ls c rule: less_induct)
  case (less n)
  consider "n = 0" | "n \<noteq> 0" "even n" | "odd n" by auto
  then show ?case
  proof cases
    case 1
    with less.prems show ?thesis by simp
  next
    case 2
    then have "length ls = (n div 2) * 2 ^ Suc h" using less.prems(1) by fastforce
    with 2 less.prems show ?thesis
      using less.IH [of "n div 2" ls "Suc h" c] by (simp add: fringe_low_even)
  next
    case 3
    then obtain ls' b where s: "ls = ls' @ b" "length b = 2 ^ h" "length ls' = (n div 2) * 2 ^ Suc h"
      using odd_split less.prems(1) by blast
    have n: "n div 2 < n" using 3 by (cases n) auto
    have "NodeHash H (level_root H b) (level_root H c) = level_root H (b @ c)"
      using level_root_append [OF s(2) less.prems(2,3)] by simp
    with less.IH [OF n s(3), of "b @ c"] less.prems s show ?thesis
      by (simp add: fringe_low_odd [OF 3 s(2)])
  qed
qed

lemma fringe_fold_root:
  assumes "length ls = n * 2 ^ h" and "0 < n"
  shows "fringe_low H h n ls \<noteq> [] \<and>
    fringe_fold H (hd (fringe_low H h n ls)) (tl (fringe_low H h n ls)) = level_root H ls"
  using assms
proof (induction n arbitrary: h ls rule: less_induct)
  case (less n)
  show ?case
  proof (cases "even n")
    case True
    then have "length ls = (n div 2) * 2 ^ Suc h" using less.prems(1) by fastforce
    moreover have "n div 2 < n" "0 < n div 2" using True less.prems(2) by auto
    ultimately show ?thesis using less.IH True by (simp add: fringe_low_even)
  next
    case False
    then obtain ls' b where s: "ls = ls' @ b" "length b = 2 ^ h" "length ls' = (n div 2) * 2 ^ Suc h"
      using odd_split less.prems(1) by blast
    then have "b \<noteq> []" by auto
    then have "fringe_fold H (level_root H b) (fringe_low H (Suc h) (n div 2) ls') =
        level_root H (ls' @ b)"
      using fringe_fold_block [OF s(3), of b] s(2) by simp
    with s(1) show ?thesis by (simp add: fringe_low_odd [OF False s(2)])
  qed
qed

text \<open>The carry loop of \<open>Append\<close> adds a block to the right and never finds the fringe empty.\<close>

lemma append_carry_step:
  "append_carry H n fr carry =
     (if odd (unat n)
      then (if fr = [] then None
            else append_carry H (n div 2) (butlast fr) (NodeHash H (last fr) carry))
      else Some (fr @ [carry]))"
proof -
  have "(n > 0 \<and> n mod 2 = 1) \<longleftrightarrow> odd (unat n)"
  proof -
    have "n mod 2 = 1 \<longleftrightarrow> unat n mod 2 = 1"
      by (simp add: word_unat_eq_iff unat_mod)
    moreover have "unat n mod 2 = 1 \<Longrightarrow> n > 0"
      by (cases "n = 0") (simp_all add: word_gt_0)
    ultimately show ?thesis by (auto simp: odd_iff_mod_2_eq_one)
  qed
  then show ?thesis by (subst append_carry.simps) simp
qed

lemma append_carry_fringe:
  assumes "length ls = unat n * 2 ^ h" and "length c = 2 ^ h"
  shows "append_carry H n (rev (fringe_low H h (unat n) ls)) (level_root H c) =
    Some (rev (fringe_low H h (Suc (unat n)) (ls @ c)))"
  using assms
proof (induction "unat n" arbitrary: n h ls c rule: less_induct)
  case less
  show ?case
  proof (cases "even (unat n)")
    case True
    then have "fringe_low H h (Suc (unat n)) (ls @ c) =
        level_root H c # fringe_low H h (unat n) ls"
      by (simp add: fringe_low_odd less.prems fringe_low_even [OF True])
    with True show ?thesis by (subst append_carry_step) simp
  next
    case False
    then obtain ls' b where s: "ls = ls' @ b" "length b = 2 ^ h"
        "length ls' = (unat n div 2) * 2 ^ Suc h"
      using odd_split less.prems(1) by blast
    have bc: "NodeHash H (level_root H b) (level_root H c) = level_root H (b @ c)"
      using less.prems(2) s(2) by (intro level_root_append [symmetric]) auto
    have "append_carry H (n div 2) (rev (fringe_low H (Suc h) (unat (n div 2)) ls'))
        (level_root H (b @ c)) =
      Some (rev (fringe_low H (Suc h) (Suc (unat (n div 2))) (ls' @ (b @ c))))"
      by (rule less.hyps) (use False s less.prems(2) in \<open>auto simp: unat_div elim: oddE\<close>)
    moreover have "fringe_low H h (Suc (unat n)) (ls @ c) =
        fringe_low H (Suc h) (Suc (unat n div 2)) (ls' @ b @ c)"
      using False s(1) by (simp add: fringe_low_even)
    ultimately show ?thesis
      using False by (subst append_carry_step)
        (simp add: s(1) fringe_low_odd [OF False s(2)] bc unat_div)
  qed
qed

section \<open>The tree invariant\<close>

definition tree_ok :: "hashfun \<Rightarrow> MerkleTree \<Rightarrow> bool" where
  "tree_ok H t \<longleftrightarrow>
     length (leaves t) = unat (tsize t) \<and>
     fringe t = rev (fringe_low H 0 (unat (tsize t)) (leaves t))"

lemma tree_ok_new: "tree_ok H NewMerkleTree"
  by (simp add: tree_ok_def NewMerkleTree_def)

lemma Append_ok:
  assumes "tree_ok H t" and "unat (tsize t) < 2 ^ 64 - 1"
  shows "\<exists>t'. Append H t d = Some (t', tsize t) \<and> tree_ok H t' \<and>
    leaves t' = leaves t @ [LeafHash H d] \<and> tsize t' = tsize t + 1 \<and>
    unat (tsize t') = Suc (unat (tsize t))"
proof -
  have s: "unat (tsize t + 1) = Suc (unat (tsize t))"
    using assms(2) by (rule unat_Suc64)
  have "append_carry H (tsize t) (fringe t) (LeafHash H d) =
      Some (rev (fringe_low H 0 (Suc (unat (tsize t))) (leaves t @ [LeafHash H d])))"
    using append_carry_fringe [of "leaves t" "tsize t" 0 "[LeafHash H d]" H] assms(1)
    by (simp add: tree_ok_def level_root_single)
  with assms(1) s show ?thesis
    by (simp add: Append_def tree_ok_def Let_def)
qed

lemma Root_ok:
  assumes "tree_ok H t"
  shows "Root H t = Some (MTH H (leaves t))"
proof (cases "tsize t = 0")
  case True
  with assms have "leaves t = []" by (simp add: tree_ok_def)
  with True show ?thesis by (simp add: Root_def MTH.simps)
next
  case False
  then have n: "0 < unat (tsize t)" by (simp add: unat_gt_0)
  let ?fr = "fringe_low H 0 (unat (tsize t)) (leaves t)"
  have f: "fringe t = rev ?fr" and len: "length (leaves t) = unat (tsize t)"
    using assms by (simp_all add: tree_ok_def)
  have r: "?fr \<noteq> []" "fringe_fold H (hd ?fr) (tl ?fr) = level_root H (leaves t)"
    using fringe_fold_root [of "leaves t" "unat (tsize t)" 0 H] n len by simp_all
  moreover have "level_root H (leaves t) = MTH H (leaves t)"
    using n len by (intro level_root_MTH) auto
  moreover have "Root H t = Some (fringe_fold H (hd ?fr) (tl ?fr))"
    using False r(1) f by (cases ?fr; cases "tl ?fr") (simp_all add: Root_def fringe_fold_def butlast_append)
  ultimately show ?thesis by simp
qed

section \<open>Inclusion proofs\<close>

lemma pair_level_nth:
  "i < length row \<Longrightarrow> pair_level H row ! (i div 2) =
     (if odd i then NodeHash H (row ! (i - 1)) (row ! i)
      else if Suc i < length row then NodeHash H (row ! i) (row ! Suc i)
      else row ! i)"
proof (induction H row arbitrary: i rule: pair_level.induct)
  case (1 H x y rest)
  show ?case
  proof (cases "i < 2")
    case True
    then consider "i = 0" | "i = 1" by linarith
    then show ?thesis by cases simp_all
  next
    case False
    then obtain j where "i = Suc (Suc j)" by (metis Suc_diff_Suc add_2_eq_Suc le_add_diff_inverse not_less)
    with "1.IH" [of j] "1.prems" show ?thesis by (auto simp: nth_Cons split: nat.splits)
  qed
qed auto

text \<open>The verification loop on natural numbers, as long as the size does not wrap.\<close>

lemma verify_loop_nat:
  assumes "unat n < 2 ^ 64 - 1" and "unat i < unat n"
  shows "verify_loop H i n path c =
     (if 1 < unat n
      then (if even (unat i) \<and> \<not> unat i + 1 < unat n
            then verify_loop H (i div 2) ((n + 1) div 2) path c
            else (case path of [] \<Rightarrow> None
                  | p # ps \<Rightarrow> verify_loop H (i div 2) ((n + 1) div 2) ps
                      (if even (unat i) then NodeHash H c p else NodeHash H p c)))
      else Some (c, path))"
proof -
  have 1: "n > 1 \<longleftrightarrow> 1 < unat n" by (simp add: word_less_nat_alt)
  have 2: "i mod 2 = 0 \<longleftrightarrow> even (unat i)"
    by (simp add: word_unat_eq_iff unat_mod even_iff_mod_2_eq_zero)
  have "unat (i + 1) = unat i + 1"
    using assms by (simp add: unat_Suc64)
  then have 3: "i + 1 < n \<longleftrightarrow> unat i + 1 < unat n" by (simp add: word_less_nat_alt)
  show ?thesis by (subst verify_loop.simps) (auto simp: 1 2 3 split: list.splits)
qed

lemma unat_half: "unat ((i::uint64) div 2) = unat i div 2"
  by (simp add: unat_div)

lemma unat_half_up: "unat (n::uint64) < 2 ^ 64 - 1 \<Longrightarrow> unat ((n + 1) div 2) = (unat n + 1) div 2"
  by (simp add: unat_div unat_word_ariths)

lemma audit_path_levels:
  "1 < length row \<Longrightarrow> audit_path (build_levels H row) i =
     (if even i then (if i + 1 < length row then [row ! (i + 1)] else []) else [row ! (i - 1)])
       @ audit_path (build_levels H (pair_level H row)) (i div 2)"
  by (cases "build_levels H (pair_level H row)") (simp_all add: build_levels.simps [of H row])

lemma audit_path_single: "length row \<le> 1 \<Longrightarrow> audit_path (build_levels H row) i = []"
  by (simp add: build_levels.simps)

lemma verify_loop_complete:
  assumes "length row = unat n" and "unat i < unat n" and "unat n < 2 ^ 64 - 1"
  shows "verify_loop H i n (audit_path (build_levels H row) (unat i) @ rest) (row ! unat i) =
    Some (level_root H row, rest)"
  using assms
proof (induction "length row" arbitrary: row n i rule: less_induct)
  case less
  let ?i = "unat i"
  show ?case
  proof (cases "1 < unat n")
    case False
    with less.prems have "length row = 1" and "?i = 0" by auto
    then obtain x where "row = [x]" by (auto simp: length_Suc_conv)
    with False less.prems \<open>?i = 0\<close> show ?thesis
      by (subst verify_loop_nat) (simp_all add: audit_path_single level_root_single)
  next
    case True
    let ?row = "pair_level H row" and ?n = "(n + 1) div 2" and ?j = "i div 2"
    have sz: "length ?row = unat ?n" "unat ?j < unat ?n" "unat ?n < 2 ^ 64 - 1"
      using less.prems True by (auto simp: length_pair_level unat_div unat_Suc64)
    have "length ?row < length row" using True less.prems(1) by (simp add: length_pair_level)
    from less.hyps [OF this sz]
    have IH: "verify_loop H ?j ?n (audit_path (build_levels H ?row) (?i div 2) @ rest)
        (?row ! (?i div 2)) = Some (level_root H row, rest)"
      using True less.prems(1) by (simp add: unat_half level_root_step)
    have "?i < length row" using less.prems by simp
    note nth = pair_level_nth [OF this, of H]
    show ?thesis
      using True less.prems IH nth
      by (subst verify_loop_nat) (auto simp: audit_path_levels)
  qed
qed

section \<open>Soundness of verification\<close>

text \<open>
  \<open>verify_inputs\<close> lists what the verification loop hashes, \<open>tree_inputs\<close> what building the
  tree hashes. Verification is sound as long as the hash has no collision among those
  finitely many inputs: nothing is assumed about its behaviour elsewhere.
\<close>

function verify_inputs :: "hashfun \<Rightarrow> uint64 \<Rightarrow> uint64 \<Rightarrow> hash list \<Rightarrow> hash \<Rightarrow> bytes list" where
  "verify_inputs H idx n path c =
     (if n > 1
      then (if idx mod 2 = 0 \<and> \<not> idx + 1 < n
            then verify_inputs H (idx div 2) ((n + 1) div 2) path c
            else (case path of [] \<Rightarrow> []
                  | p # ps \<Rightarrow>
                      (if idx mod 2 = 0 then 1 # c @ p else 1 # p @ c)
                        # verify_inputs H (idx div 2) ((n + 1) div 2) ps
                            (if idx mod 2 = 0 then NodeHash H c p else NodeHash H p c)))
      else [])"
  by pat_completeness auto
termination
  by (relation "measure (\<lambda>(H, idx, n, path, c). unat n)")
     (auto intro: half_round_up_less)

declare verify_inputs.simps [simp del]

fun pair_inputs :: "hash list \<Rightarrow> bytes list" where
  "pair_inputs (x # y # rest) = (1 # x @ y) # pair_inputs rest"
| "pair_inputs row = []"

function tree_inputs :: "hashfun \<Rightarrow> hash list \<Rightarrow> bytes list" where
  "tree_inputs H row =
     (if 1 < length row then pair_inputs row @ tree_inputs H (pair_level H row) else [])"
  by pat_completeness auto
termination
  by (relation "measure (\<lambda>(H, row). length row)") (auto simp: length_pair_level)

declare tree_inputs.simps [simp del]

lemma pair_inputs_nth:
  "Suc i < length row \<Longrightarrow> even i \<Longrightarrow> 1 # row ! i @ row ! Suc i \<in> set (pair_inputs row)"
proof (induction row arbitrary: i rule: pair_inputs.induct)
  case (1 x y rest)
  show ?case
  proof (cases i)
    case (Suc j)
    with "1.prems" obtain k where "j = Suc k" "even k" by (cases j) auto
    with Suc "1.IH" [of k] "1.prems" show ?thesis by simp
  qed simp
qed auto

lemma verify_inputs_nat:
  assumes "unat n < 2 ^ 64 - 1" and "unat i < unat n"
  shows "verify_inputs H i n path c =
     (if 1 < unat n
      then (if even (unat i) \<and> \<not> unat i + 1 < unat n
            then verify_inputs H (i div 2) ((n + 1) div 2) path c
            else (case path of [] \<Rightarrow> []
                  | p # ps \<Rightarrow> (if even (unat i) then 1 # c @ p else 1 # p @ c)
                        # verify_inputs H (i div 2) ((n + 1) div 2) ps
                            (if even (unat i) then NodeHash H c p else NodeHash H p c)))
      else [])"
proof -
  have 1: "n > 1 \<longleftrightarrow> 1 < unat n" by (simp add: word_less_nat_alt)
  have 2: "i mod 2 = 0 \<longleftrightarrow> even (unat i)"
    by (simp add: word_unat_eq_iff unat_mod even_iff_mod_2_eq_zero)
  have "unat (i + 1) = unat i + 1"
    using assms by (simp add: unat_Suc64)
  then have 3: "i + 1 < n \<longleftrightarrow> unat i + 1 < unat n" by (simp add: word_less_nat_alt)
  show ?thesis by (subst verify_inputs.simps) (auto simp: 1 2 3 split: list.splits)
qed

text \<open>Equal node hashes without a collision have equal children, for 32-byte children.\<close>

lemma NodeHash_inj:
  assumes "inj_on H S" and "1 # a @ b \<in> S" and "1 # x @ y \<in> S"
    and "NodeHash H a b = NodeHash H x y" and "length a = length x \<or> length b = length y"
  shows "a = x \<and> b = y"
  using assms by (auto simp: NodeHash_def dest!: inj_onD)

lemma pair_level_len32:
  "(\<And>x. length (H x) = 32) \<Longrightarrow> \<forall>x \<in> set row. length x = 32 \<Longrightarrow>
   \<forall>x \<in> set (pair_level H row). length x = 32"
  by (induction H row rule: pair_level.induct) (auto simp: NodeHash_def)

text \<open>One level down: the node above is right, so the node itself is.\<close>

lemma level_step_sound:
  assumes "i < length row" and "length c = 32" and "\<forall>x \<in> set row. length x = 32"
    and "even i \<Longrightarrow> Suc i < length row"
    and "inj_on H S" and "set (pair_inputs row) \<subseteq> S"
    and "(if even i then 1 # c @ p else 1 # p @ c) \<in> S"
    and "(if even i then NodeHash H c p else NodeHash H p c) = pair_level H row ! (i div 2)"
  shows "c = row ! i"
proof (cases "even i")
  case True
  then have "1 # row ! i @ row ! Suc i \<in> S"
    using assms(4,6) pair_inputs_nth by blast
  moreover have "NodeHash H c p = NodeHash H (row ! i) (row ! Suc i)"
    using assms(1,4,8) True by (simp add: pair_level_nth)
  ultimately show ?thesis
    using NodeHash_inj [OF assms(5)] assms(1,2,3,7) True by (metis nth_mem)
next
  case False
  then obtain k where k: "i = Suc k" "even k" by (cases i) auto
  then have "1 # row ! k @ row ! i \<in> S"
    using assms(1,6) pair_inputs_nth by blast
  moreover have "NodeHash H p c = NodeHash H (row ! k) (row ! i)"
    using assms(1,8) False k by (simp add: pair_level_nth)
  ultimately show ?thesis
    using NodeHash_inj [OF assms(5)] assms(1,2,3,7) False by (metis nth_mem)
qed

lemma verify_loop_sound:
  assumes "length row = unat n" and "unat i < unat n" and "unat n < 2 ^ 64 - 1"
    and "\<And>x. length (H x) = 32" and "\<forall>x \<in> set row. length x = 32" and "length c = 32"
    and "inj_on H (set (verify_inputs H i n path c) \<union> set (tree_inputs H row))"
    and "verify_loop H i n path c = Some (level_root H row, rest)"
  shows "c = row ! unat i"
  using assms
proof (induction "length row" arbitrary: row n i path c rule: less_induct)
  case less
  let ?i = "unat i"
  note vl = verify_loop_nat [OF less.prems(3,2), of H path c]
  note vi = verify_inputs_nat [OF less.prems(3,2), of H path c]
  show ?case
  proof (cases "1 < unat n")
    case False
    with less.prems have "length row = 1" and "?i = 0" by auto
    then obtain x where "row = [x]" by (auto simp: length_Suc_conv)
    with False less.prems \<open>?i = 0\<close> show ?thesis
      by (simp add: vl level_root_single)
  next
    case True
    let ?row = "pair_level H row" and ?n = "(n + 1) div 2" and ?j = "i div 2"
    have sz: "length ?row = unat ?n" "unat ?j < unat ?n" "unat ?n < 2 ^ 64 - 1"
      using less.prems(1-3) True by (auto simp: length_pair_level unat_div unat_Suc64)
    have lt: "length ?row < length row" using True less.prems(1) by (simp add: length_pair_level)
    have l32: "\<forall>x \<in> set ?row. length x = 32" using less.prems(4,5) by (rule pair_level_len32)
    have root: "level_root H row = level_root H ?row"
      using True less.prems(1) by (simp add: level_root_step)
    have tin: "tree_inputs H row = pair_inputs row @ tree_inputs H ?row"
      using True less.prems(1) by (simp add: tree_inputs.simps [of H row])
    have il: "?i < length row" using less.prems(1,2) by simp
    note IH = less.hyps [OF lt sz less.prems(4) l32, unfolded unat_half]
    show ?thesis
    proof (cases "even ?i \<and> \<not> ?i + 1 < unat n")
      case promoted: True
      have "c = ?row ! (?i div 2)"
        by (rule IH [OF less.prems(6), of path])
          (use less.prems(7,8) True promoted root tin vl vi in \<open>auto elim: inj_on_subset\<close>)
      with promoted pair_level_nth [OF il, of H] less.prems(1) show ?thesis by simp
    next
      case False
      obtain p ps where p: "path = p # ps"
        using True False less.prems(8) vl by (cases path) (auto split: if_splits)
      let ?c = "if even ?i then NodeHash H c p else NodeHash H p c"
      have "?c = ?row ! (?i div 2)"
        by (rule IH [where path = ps])
          (use less.prems(4,7,8) True False root tin vl vi p
            in \<open>auto simp: NodeHash_def elim: inj_on_subset split: if_splits\<close>)
      then show ?thesis
        by (intro level_step_sound [OF il less.prems(6,5) _ less.prems(7)])
          (use False True less.prems(1) tin vi p in \<open>auto split: if_splits\<close>)
    qed
  qed
qed

section \<open>Sizes of audit paths, and the serialised fringe\<close>

lemma length_audit_path:
  "length (audit_path (build_levels H row) i) \<le> bit_len (length row - 1)"
proof (induction H row arbitrary: i rule: build_levels.induct)
  case (1 H row)
  show ?case
  proof (cases "1 < length row")
    case True
    have "(length row + 1) div 2 - 1 = (length row - 1) div 2" using True by presburger
    then have "length (audit_path (build_levels H (pair_level H row)) (i div 2)) \<le>
        bit_len ((length row - 1) div 2)"
      using "1.IH" [OF True, of "i div 2"] by (simp add: length_pair_level)
    moreover have "bit_len (length row - 1) = Suc (bit_len ((length row - 1) div 2))"
      using True by (subst bit_len.simps) simp
    ultimately show ?thesis using True by (simp add: audit_path_levels)
  next
    case False
    then show ?thesis by (simp add: audit_path_single)
  qed
qed

lemma concat_len32: "\<forall>h \<in> set fr. length h = 32 \<Longrightarrow> length (concat fr) = 32 * length fr"
  by (induction fr) auto

lemma chunks32_concat: "\<forall>h \<in> set fr. length h = 32 \<Longrightarrow> chunks32 (length fr) (concat fr) = fr"
  by (induction fr) auto

lemma level_root_len32:
  "(\<And>x. length (H x) = 32) \<Longrightarrow> row \<noteq> [] \<Longrightarrow> \<forall>x \<in> set row. length x = 32 \<Longrightarrow>
   length (level_root H row) = 32"
proof (induction H row rule: build_levels.induct)
  case (1 H row)
  show ?case
  proof (cases "1 < length row")
    case True
    then have "pair_level H row \<noteq> []" using length_pair_level [of H row] by auto
    with 1 True pair_level_len32 [of H row] show ?thesis by (simp add: level_root_step)
  next
    case False
    with "1.prems"(2) obtain x where "row = [x]" by (cases row) auto
    with "1.prems"(3) show ?thesis by (simp add: level_root_single)
  qed
qed

lemma fringe_low_len32:
  "(\<And>x. length (H x) = 32) \<Longrightarrow> \<forall>x \<in> set ls. length x = 32 \<Longrightarrow> length ls = n * 2 ^ h \<Longrightarrow>
   \<forall>x \<in> set (fringe_low H h n ls). length x = 32"
proof (induction n arbitrary: h ls rule: less_induct)
  case (less n)
  consider "n = 0" | "n \<noteq> 0" "even n" | "odd n" by auto
  then show ?case
  proof cases
    case 2
    then have "length ls = (n div 2) * 2 ^ Suc h" using less.prems(3) by fastforce
    moreover have "n div 2 < n" using 2 by auto
    ultimately show ?thesis
      using 2 less.prems(2) less.IH [OF _ less.prems(1), of "n div 2" ls "Suc h"]
      by (simp add: fringe_low_even)
  next
    case 3
    then obtain ls' b where s: "ls = ls' @ b" "length b = 2 ^ h" "length ls' = (n div 2) * 2 ^ Suc h"
      using odd_split less.prems(3) by blast
    moreover from s have "b \<noteq> []" by auto
    moreover have "n div 2 < n" using 3 by (cases n) auto
    ultimately show ?thesis
      using less.prems(1,2) less.IH [OF _ less.prems(1), of "n div 2" ls' "Suc h"]
      by (simp add: fringe_low_odd [OF 3 s(2)] level_root_len32)
  qed simp
qed

text \<open>What the trees of the running service satisfy: the invariant, with 32-byte hashes.\<close>

definition hashes32 :: "MerkleTree \<Rightarrow> bool" where
  "hashes32 t \<longleftrightarrow> (\<forall>x \<in> set (leaves t). length x = 32)"

lemma fringe_roundtrip:
  "\<forall>h \<in> set fr. length h = 32 \<Longrightarrow> fringeFromBytes (fringeToBytes fr) = fr"
  by (cases "fr = []")
     (simp_all add: fringeFromBytes_def fringeToBytes_def concat_len32 chunks32_concat)

lemma tree_fringe_len32:
  "(\<And>x. length (H x) = 32) \<Longrightarrow> tree_ok H t \<Longrightarrow> hashes32 t \<Longrightarrow>
   \<forall>x \<in> set (fringe t). length x = 32"
  using fringe_low_len32 [of H "leaves t" "unat (tsize t)" 0]
  by (simp add: tree_ok_def hashes32_def)

text \<open>A tree is determined by its leaves: recovery rebuilds it from fringe, size and leaves.\<close>

lemma recover_tree: "SetLeaves (FromFringe (fringe t) (tsize t)) (leaves t) = t"
  by (simp add: SetLeaves_def FromFringe_def)

lemma Proof_ok:
  assumes "tree_ok H t" and "i < tsize t"
  shows "Proof H t i = Inr (audit_path (build_levels H (leaves t)) (unat i))"
proof -
  have "tsize t \<noteq> 0" using assms(2) by auto
  moreover have "take (unat (tsize t)) (leaves t @ replicate (unat (tsize t)) zero_hash) = leaves t"
    using assms(1) by (simp add: tree_ok_def)
  ultimately show ?thesis using assms(2) by (simp add: Proof_def buildTree_def Let_def not_le)
qed

lemma VerifyProof_ok:
  assumes "tree_ok H t" and "unat (tsize t) < 2 ^ 64 - 1" and "i < tsize t"
    and "leaves t ! unat i = LeafHash H d"
  shows "VerifyProof H d i (tsize t) (audit_path (build_levels H (leaves t)) (unat i)) (MTH H (leaves t))"
proof -
  let ?path = "audit_path (build_levels H (leaves t)) (unat i)"
  have len: "length (leaves t) = unat (tsize t)" and i: "unat i < unat (tsize t)"
    using assms(1,3) by (simp_all add: tree_ok_def word_less_nat_alt)
  have "verify_loop H i (tsize t) (?path @ []) (leaves t ! unat i) = Some (level_root H (leaves t), [])"
    by (rule verify_loop_complete) (use len i assms(2) in simp_all)
  moreover have "level_root H (leaves t) = MTH H (leaves t)"
    using len i by (intro level_root_MTH) auto
  ultimately show ?thesis using assms(3,4) by (simp add: VerifyProof_def not_le)
qed

section \<open>Runs of appends\<close>

fun appends :: "hashfun \<Rightarrow> MerkleTree \<Rightarrow> bytes list \<Rightarrow> MerkleTree option" where
  "appends H t [] = Some t"
| "appends H t (d # ds) =
     (case Append H t d of None \<Rightarrow> None | Some (t', _) \<Rightarrow> appends H t' ds)"

lemma appends_ok:
  assumes "tree_ok H t" and "unat (tsize t) + length ds < 2 ^ 64"
  shows "\<exists>t'. appends H t ds = Some t' \<and> tree_ok H t' \<and>
    leaves t' = leaves t @ map (LeafHash H) ds \<and> unat (tsize t') = unat (tsize t) + length ds"
  using assms
proof (induction ds arbitrary: t)
  case Nil
  then show ?case by simp
next
  case (Cons d ds)
  then have "unat (tsize t) < 2 ^ 64 - 1" by simp
  then obtain t' where t': "Append H t d = Some (t', tsize t)" "tree_ok H t'"
    "leaves t' = leaves t @ [LeafHash H d]" "unat (tsize t') = Suc (unat (tsize t))"
    using Append_ok [OF Cons.prems(1)] by blast
  with Cons.IH [of t'] Cons.prems(2) show ?case by auto
qed

lemma appends_new:
  assumes "length ds < 2 ^ 64"
  obtains t where "appends H NewMerkleTree ds = Some t" "tree_ok H t"
    "leaves t = map (LeafHash H) ds" "unat (tsize t) = length ds"
proof -
  have "unat (tsize NewMerkleTree) + length ds < 2 ^ 64"
    using assms by (simp add: NewMerkleTree_def)
  from appends_ok [OF tree_ok_new this, of H] that show thesis
    by (auto simp: NewMerkleTree_def)
qed

text \<open>The toy hash of the witnesses: the first 32 bytes of the zero-padded input.\<close>

definition pad_hash :: "bytes \<Rightarrow> bytes" where
  "pad_hash b = take 32 (b @ replicate 32 0)"

lemma length_pad_hash [simp]: "length (pad_hash b) = 32"
  by (simp add: pad_hash_def)

section \<open>The properties\<close>



text \<open>
  C2. Every inclusion proof verifies: after any sequence of appends the audit path that
  \<open>Proof\<close> returns for an entry makes \<open>VerifyProof\<close> accept that entry at its index against
  the current root.
\<close>

theorem proof_verifies:
  assumes "length ds < 2 ^ 64 - 1" and "unat i < length ds"
    and "appends H NewMerkleTree ds = Some t"
  shows "\<exists>path root. Proof H t i = Inr path \<and> Root H t = Some root \<and>
    VerifyProof H (ds ! unat i) i (tsize t) path root"
proof -
  have "length ds < 2 ^ 64" using assms(1) by simp
  then obtain t' where t: "appends H NewMerkleTree ds = Some t'" "tree_ok H t'"
    "leaves t' = map (LeafHash H) ds" "unat (tsize t') = length ds"
    by (rule appends_new)
  then have [simp]: "t' = t" using assms(3) by simp
  have "i < tsize t" using t assms(2) by (simp add: word_less_nat_alt)
  moreover have "leaves t ! unat i = LeafHash H (ds ! unat i)" using t assms(2) by simp
  ultimately show ?thesis
    using VerifyProof_ok [OF t(2)] t assms(1) by (simp add: Proof_ok Root_ok)
qed

lemma proof_verifies_witness:
  "\<exists>t path root. appends pad_hash NewMerkleTree [[1], [2], [3]] = Some t \<and>
     Proof pad_hash t 2 = Inr path \<and> Root pad_hash t = Some root \<and>
     VerifyProof pad_hash ([[1], [2], [3]] ! unat (2 :: uint64)) 2 (tsize t) path root"
proof -
  obtain t where "appends pad_hash NewMerkleTree [[1], [2], [3]] = Some t"
    using appends_new [of "[[1], [2], [3]]" pad_hash] by auto
  moreover have "unat (2 :: uint64) < length [[1], [2], [3 :: byte]]" by simp
  ultimately show ?thesis
    using proof_verifies [of "[[1], [2], [3]]" 2 pad_hash t] by simp
qed

text \<open>
  C3. Verification is sound: if \<open>VerifyProof\<close> accepts some entry at an index below the
  size, against the root of the log and with any audit path, then that entry is the one
  the log holds at that index, unless the hash collides on the inputs that this very
  verification and this very tree hash.
\<close>

theorem verify_sound:
  assumes "length ds < 2 ^ 64 - 1" and "appends H NewMerkleTree ds = Some t"
    and "Root H t = Some root" and "\<And>x. length (H x) = 32"
    and "inj_on H (insert (0 # d) (set (map ((#) 0) ds)) \<union>
      set (verify_inputs H i (tsize t) path (LeafHash H d)) \<union>
      set (tree_inputs H (leaves t)))"
    and "VerifyProof H d i (tsize t) path root"
  shows "unat i < length ds \<and> d = ds ! unat i"
proof -
  have "length ds < 2 ^ 64" using assms(1) by simp
  then obtain t' where t': "appends H NewMerkleTree ds = Some t'" "tree_ok H t'"
    "leaves t' = map (LeafHash H) ds" "unat (tsize t') = length ds"
    by (rule appends_new)
  then have [simp]: "t' = t" using assms(2) by simp
  note t = t'(2-4) [simplified]
  from assms(6) have i: "unat i < length ds" and
    v: "verify_loop H i (tsize t) path (LeafHash H d) = Some (root, [])"
    using t(3) by (auto simp: VerifyProof_def word_le_nat_alt split: if_splits option.splits)
  have "root = MTH H (leaves t)" using assms(3) t(1) Root_ok by fastforce
  moreover have "leaves t \<noteq> []" using i t(2) by auto
  ultimately have r: "root = level_root H (leaves t)" by (simp add: level_root_MTH)
  have "LeafHash H d = leaves t ! unat i"
    by (rule verify_loop_sound [where n = "tsize t" and path = path and H = H])
      (use t i assms(1,4,5) v r in \<open>auto simp: LeafHash_def elim: inj_on_subset\<close>)
  then have "H (0 # d) = H (0 # ds ! unat i)" using i t(2) by (simp add: LeafHash_def)
  moreover have "0 # ds ! unat i \<in> (#) 0 ` set ds" using i by simp
  ultimately have "0 # d = 0 # ds ! unat i"
    using assms(5) by (auto dest!: inj_onD)
  with i show ?thesis by simp
qed

lemma verify_sound_witness:
  "\<exists>t. appends pad_hash NewMerkleTree [[5]] = Some t \<and>
     VerifyProof pad_hash [5] 0 (tsize t) [] (pad_hash [0, 5]) \<and>
     unat (0 :: uint64) < length [[5 :: byte]] \<and> [5] = [[5 :: byte]] ! unat (0 :: uint64)"
proof -
  obtain t where t: "appends pad_hash NewMerkleTree [[5]] = Some t" "tree_ok pad_hash t"
    "leaves t = map (LeafHash pad_hash) [[5]]" "unat (tsize t) = length [[5 :: byte]]"
    using appends_new [of "[[5]]" pad_hash] by auto
  then have n: "tsize t = 1" by (simp add: word_unat_eq_iff)
  have r: "Root pad_hash t = Some (pad_hash [0, 5])"
    using Root_ok [OF t(2)] t(3) by (simp add: MTH.simps LeafHash_def)
  have v: "VerifyProof pad_hash [5] 0 (tsize t) [] (pad_hash [0, 5])"
    by (simp add: VerifyProof_def n verify_loop.simps LeafHash_def)
  have inj: "inj_on pad_hash (insert (0 # [5]) (set (map ((#) 0) [[5]])) \<union>
      set (verify_inputs pad_hash 0 (tsize t) [] (LeafHash pad_hash [5])) \<union>
      set (tree_inputs pad_hash (leaves t)))"
    by (simp add: n t(3) verify_inputs.simps tree_inputs.simps)
  show ?thesis
    using verify_sound [OF _ t(1) r length_pad_hash inj v] t(1) v by auto
qed

text \<open>
  Audit paths are short: no proof is longer than the depth of the tree, the number of
  binary digits of \<open>size - 1\<close>.
\<close>

theorem proof_length:
  assumes "tree_ok H t" and "Proof H t i = Inr path"
  shows "length path \<le> treeDepth (tsize t)"
proof -
  have i: "i < tsize t" using assms(2) by (auto simp: Proof_def not_le split: if_splits)
  then have p: "path = audit_path (build_levels H (leaves t)) (unat i)"
    using assms Proof_ok by fastforce
  have len: "length (leaves t) = unat (tsize t)" using assms(1) by (simp add: tree_ok_def)
  show ?thesis
  proof (cases "tsize t \<le> 1")
    case True
    then have "length (leaves t) \<le> 1" using len by (simp add: word_le_nat_alt)
    then show ?thesis by (simp add: p audit_path_single)
  next
    case False
    then have "unat (tsize t - 1) = unat (tsize t) - 1"
      by (simp add: unat_sub word_le_nat_alt)
    then show ?thesis
      using False length_audit_path [of H "leaves t" "unat i"] len by (simp add: p treeDepth_def)
  qed
qed

lemma proof_length_witness:
  "\<exists>t path. appends pad_hash NewMerkleTree [[1], [2], [3]] = Some t \<and>
     Proof pad_hash t 1 = Inr path \<and> length path \<le> treeDepth (tsize t)"
proof -
  obtain t where t: "appends pad_hash NewMerkleTree [[1], [2], [3]] = Some t" "tree_ok pad_hash t"
    "unat (tsize t) = length [[1], [2], [3 :: byte]]"
    using appends_new [of "[[1], [2], [3]]" pad_hash] by auto
  then have "1 < tsize t" by (simp add: word_less_nat_alt)
  from Proof_ok [OF t(2) this] t(1) proof_length [OF t(2)] show ?thesis by blast
qed

text \<open>
  A restart loses nothing: the tree rebuilt by \<open>FromFringe\<close> from the serialised
  fringe and the size, and by \<open>SetLeaves\<close> from the stored leaf hashes, is the tree
  that was persisted.
\<close>

theorem fringe_recovery:
  assumes "\<And>x. length (H x) = 32" and "appends H NewMerkleTree ds = Some t" and "length ds < 2 ^ 64"
  shows "SetLeaves (FromFringe (fringeFromBytes (fringeToBytes (fringe t))) (tsize t)) (leaves t) = t"
proof -
  obtain t' where "appends H NewMerkleTree ds = Some t'" "tree_ok H t'"
    "leaves t' = map (LeafHash H) ds"
    using appends_new [OF assms(3)] by metis
  with assms(1,2) have "\<forall>x \<in> set (fringe t). length x = 32"
    by (intro tree_fringe_len32) (auto simp: hashes32_def LeafHash_def)
  then show ?thesis by (simp add: fringe_roundtrip recover_tree)
qed

lemma fringe_recovery_witness:
  "\<exists>t. appends pad_hash NewMerkleTree [[7], [8]] = Some t \<and>
     SetLeaves (FromFringe (fringeFromBytes (fringeToBytes (fringe t))) (tsize t)) (leaves t) = t"
proof -
  obtain t where t: "appends pad_hash NewMerkleTree [[7], [8]] = Some t"
    using appends_new [of "[[7], [8]]" pad_hash] by auto
  from fringe_recovery [OF length_pad_hash t] t show ?thesis by simp
qed

text \<open>
  The size counter of \<open>VerifyProof\<close> wraps: for the largest \<open>uint64\<close> size the loop
  stops after one level, so that any one-element path is accepted against the hash of the
  two nodes, although a tree of that size has 64 levels.
\<close>

theorem verify_wraps_at_max:
  "VerifyProof H d 0 (- 1) [p] (NodeHash H (LeafHash H d) p)"
proof -
  have "(1 :: uint64) < - 1" and "(0 :: uint64) + 1 < - 1"
    by (simp_all flip: word_order.not_eq_extremum)
  then have "verify_loop H 0 (- 1) [p] (LeafHash H d) = Some (NodeHash H (LeafHash H d) p, [])"
    by (subst verify_loop.simps) (simp add: verify_loop.simps)
  then show ?thesis by (simp add: VerifyProof_def)
qed

end
