(* ===== verification/Codec.thy ===== *)
theory Codec
  imports Hush_Prelude
begin

text \<open>
  The text encodings of Go's standard library that the handlers use: \<open>encoding/hex\<close> and
  \<open>encoding/base64\<close> (standard and URL alphabet, padded and raw), with their round trips.
  Strings are byte strings, as in Go.
\<close>

definition bytes_of_string :: "string \<Rightarrow> bytes" where
  "bytes_of_string s = map of_char s"

section \<open>Hexadecimal\<close>

definition hex_digits :: string where
  "hex_digits = ''0123456789abcdef''"

fun index_of :: "'a \<Rightarrow> 'a list \<Rightarrow> nat option" where
  "index_of c [] = None"
| "index_of c (x # xs) = (if x = c then Some 0 else map_option Suc (index_of c xs))"

lemma index_of_nth: "distinct xs \<Longrightarrow> n < length xs \<Longrightarrow> index_of (xs ! n) xs = Some n"
proof (induction xs arbitrary: n)
  case Nil
  then show ?case by simp
next
  case (Cons x xs)
  then show ?case by (cases n) auto
qed

definition hex_encode :: "bytes \<Rightarrow> string" where
  "hex_encode bs = concat (map (\<lambda>b. [hex_digits ! (unat b div 16), hex_digits ! (unat b mod 16)]) bs)"

definition hex_val :: "char \<Rightarrow> nat option" where
  "hex_val c =
     (case index_of c hex_digits of
        Some n \<Rightarrow> Some n
      | None \<Rightarrow> map_option (\<lambda>n. n + 10) (index_of c ''ABCDEF''))"

fun hex_decode :: "string \<Rightarrow> bytes option" where
  "hex_decode [] = Some []"
| "hex_decode [c] = None"
| "hex_decode (c # d # s) =
     (case (hex_val c, hex_val d, hex_decode s) of
        (Some h, Some l, Some bs) \<Rightarrow> Some (word_of_nat (16 * h + l) # bs)
      | _ \<Rightarrow> None)"

lemma length_hex_encode: "length (hex_encode bs) = 2 * length bs"
  by (induction bs) (simp_all add: hex_encode_def)

lemma hex_val_digit: "n < 16 \<Longrightarrow> hex_val (hex_digits ! n) = Some n"
proof -
  assume "n < 16"
  moreover have "distinct hex_digits" and "length hex_digits = 16"
    by (simp_all add: hex_digits_def)
  ultimately show ?thesis by (simp add: hex_val_def index_of_nth)
qed

lemma unat_byte_less: "unat (b::byte) < 256"
  using unsigned_less [of b, where 'a = nat] by simp

theorem hex_roundtrip: "hex_decode (hex_encode bs) = Some bs"
proof (induction bs)
  case Nil
  show ?case by (simp add: hex_encode_def)
next
  case (Cons b bs)
  have "unat b div 16 < 16" using unat_byte_less [of b] by (simp add: less_mult_imp_div_less)
  moreover have "(word_of_nat (16 * (unat b div 16) + unat b mod 16) :: byte) = b" by simp
  ultimately show ?case using Cons by (simp add: hex_encode_def hex_val_digit)
qed

section \<open>Base64\<close>

definition std_alphabet :: string where
  "std_alphabet = ''ABCDEFGHIJKLMNOPQRSTUVWXYZabcdefghijklmnopqrstuvwxyz0123456789+/''"

definition url_alphabet :: string where
  "url_alphabet = ''ABCDEFGHIJKLMNOPQRSTUVWXYZabcdefghijklmnopqrstuvwxyz0123456789-_''"

datatype b64_encoding = StdEncoding | RawStdEncoding | URLEncoding | RawURLEncoding

fun b64_alphabet :: "b64_encoding \<Rightarrow> string" where
  "b64_alphabet StdEncoding = std_alphabet"
| "b64_alphabet RawStdEncoding = std_alphabet"
| "b64_alphabet URLEncoding = url_alphabet"
| "b64_alphabet RawURLEncoding = url_alphabet"

fun b64_padded :: "b64_encoding \<Rightarrow> bool" where
  "b64_padded StdEncoding = True"
| "b64_padded URLEncoding = True"
| "b64_padded _ = False"

fun sextets :: "bytes \<Rightarrow> nat list" where
  "sextets (a # b # c # r) =
     (unat a div 4) # ((unat a mod 4) * 16 + unat b div 16) # ((unat b mod 16) * 4 + unat c div 64)
       # (unat c mod 64) # sextets r"
| "sextets [a, b] =
     [unat a div 4, (unat a mod 4) * 16 + unat b div 16, (unat b mod 16) * 4]"
| "sextets [a] = [unat a div 4, (unat a mod 4) * 16]"
| "sextets [] = []"

definition EncodeToString :: "b64_encoding \<Rightarrow> bytes \<Rightarrow> string" where
  "EncodeToString enc bs =
     map (\<lambda>n. b64_alphabet enc ! n) (sextets bs)
       @ (if b64_padded enc then replicate ((3 - length bs mod 3) mod 3) (CHR ''='') else [])"

text \<open>Four sextets are three bytes; two or three sextets at the end are one or two bytes.\<close>

fun bytes_of_sextets :: "nat list \<Rightarrow> bytes option" where
  "bytes_of_sextets (p # q # r # s # rest) =
     map_option (\<lambda>bs. word_of_nat (p * 4 + q div 16) # word_of_nat ((q mod 16) * 16 + r div 4)
       # word_of_nat ((r mod 4) * 64 + s) # bs) (bytes_of_sextets rest)"
| "bytes_of_sextets [p, q, r] =
     Some [word_of_nat (p * 4 + q div 16), word_of_nat ((q mod 16) * 16 + r div 4)]"
| "bytes_of_sextets [p, q] = Some [word_of_nat (p * 4 + q div 16)]"
| "bytes_of_sextets [p] = None"
| "bytes_of_sextets [] = Some []"

fun all_some :: "'a option list \<Rightarrow> 'a list option" where
  "all_some [] = Some []"
| "all_some (x # xs) =
     (case (x, all_some xs) of (Some v, Some vs) \<Rightarrow> Some (v # vs) | _ \<Rightarrow> None)"

text \<open>
  The decoder skips carriage returns and line feeds. A padded encoding wants the padding
  that completes the last quantum, and nothing after it; a raw one wants none.
\<close>

definition DecodeString :: "b64_encoding \<Rightarrow> string \<Rightarrow> bytes option" where
  "DecodeString enc s =
     (let t = filter (\<lambda>c. c \<noteq> CHR 0x0D \<and> c \<noteq> CHR 0x0A) s;
          body = takeWhile (\<lambda>c. c \<noteq> CHR ''='') t;
          pad = dropWhile (\<lambda>c. c \<noteq> CHR ''='') t
      in if pad \<noteq> (if b64_padded enc then replicate ((4 - length body mod 4) mod 4) (CHR ''='') else [])
            \<or> length body mod 4 = 1
         then None
         else case all_some (map (\<lambda>c. index_of c (b64_alphabet enc)) body) of
                None \<Rightarrow> None
              | Some ns \<Rightarrow> bytes_of_sextets ns)"

lemma all_some_map: "(\<And>x. x \<in> set xs \<Longrightarrow> f x = Some (g x)) \<Longrightarrow> all_some (map f xs) = Some (map g xs)"
  by (induction xs) auto

lemma alphabet_props:
  "distinct (b64_alphabet enc) \<and> length (b64_alphabet enc) = 64 \<and>
   CHR ''='' \<notin> set (b64_alphabet enc) \<and> CHR 0x0D \<notin> set (b64_alphabet enc) \<and>
   CHR 0x0A \<notin> set (b64_alphabet enc)"
  by (cases enc) (simp_all add: std_alphabet_def url_alphabet_def)

lemma sextets_less: "n \<in> set (sextets bs) \<Longrightarrow> n < 64"
proof (induction bs rule: sextets.induct)
  case (1 a b c r)
  with unat_byte_less [of a] unat_byte_less [of b] unat_byte_less [of c] show ?case by auto
next
  case (2 a b)
  with unat_byte_less [of a] unat_byte_less [of b] show ?case by auto
next
  case (3 a)
  with unat_byte_less [of a] show ?case by auto
qed simp

lemma sextets_mod:
  "length (sextets bs) mod 4 = (if length bs mod 3 = 0 then 0 else length bs mod 3 + 1)"
proof (induction bs rule: sextets.induct)
  case (1 a b c r)
  have "length (sextets (a # b # c # r)) mod 4 = length (sextets r) mod 4" by simp
  moreover have "length (a # b # c # r) mod 3 = length r mod 3" by simp
  ultimately show ?case using 1 by metis
qed simp_all

lemma length_sextets:
  "length (sextets bs) mod 4 \<noteq> 1 \<and>
   (4 - length (sextets bs) mod 4) mod 4 = (3 - length bs mod 3) mod 3"
proof -
  consider "length bs mod 3 = 0" | "length bs mod 3 = 1" | "length bs mod 3 = 2" by linarith
  then show ?thesis by cases (simp_all add: sextets_mod)
qed

lemma digit_join:
  fixes x y k :: nat
  assumes "y < k"
  shows "(x * k + y) div k = x" and "(x * k + y) mod k = y"
  using assms by simp_all

lemma byte_digits:
  fixes b :: byte
  shows "unat b div 16 < 16" and "unat b div 64 < 4" and "unat b div 4 * 4 + unat b mod 4 = unat b"
    and "unat b div 16 * 16 + unat b mod 16 = unat b" and "unat b div 64 * 64 + unat b mod 64 = unat b"
  using unat_byte_less [of b] by (simp_all add: less_mult_imp_div_less)

lemma bytes_of_sextets_sextets: "bytes_of_sextets (sextets bs) = Some bs"
proof (induction bs rule: sextets.induct)
  case (1 a b c r)
  then show ?case by (simp add: digit_join byte_digits)
next
  case (2 a b)
  have "unat b mod 16 * 4 div 4 = unat b mod 16" by simp
  then show ?case by (simp add: digit_join byte_digits)
next
  case (3 a)
  have "unat a mod 4 * 16 div 16 = unat a mod 4" by simp
  then show ?case by (simp add: byte_digits)
qed simp

theorem base64_roundtrip: "DecodeString enc (EncodeToString enc bs) = Some bs"
proof -
  let ?al = "b64_alphabet enc" and ?ss = "sextets bs"
  let ?body = "map (\<lambda>n. ?al ! n) ?ss"
  let ?pad = "if b64_padded enc then replicate ((3 - length bs mod 3) mod 3) (CHR ''='') else []"
  note al = alphabet_props [of enc]
  have mem: "c \<in> set ?al" if "c \<in> set ?body" for c
    using that al sextets_less by (auto intro!: nth_mem)
  then have ne: "c \<noteq> CHR 0x0D \<and> c \<noteq> CHR 0x0A \<and> c \<noteq> CHR ''=''" if "c \<in> set ?body" for c
    using that al by metis
  have f: "filter (\<lambda>c. c \<noteq> CHR 0x0D \<and> c \<noteq> CHR 0x0A) (?body @ ?pad) = ?body @ ?pad"
    by (intro filter_True) (use ne in \<open>auto simp del: set_map split: if_splits\<close>)
  have t: "takeWhile (\<lambda>c. c \<noteq> CHR ''='') (?body @ ?pad) = ?body"
    "dropWhile (\<lambda>c. c \<noteq> CHR ''='') (?body @ ?pad) = ?pad"
    using ne by (auto simp: takeWhile_append dropWhile_append takeWhile_eq_all_conv simp del: set_map)
  have "all_some (map (\<lambda>n. index_of (?al ! n) ?al) ?ss) = Some (map (\<lambda>n. n) ?ss)"
    using al sextets_less by (intro all_some_map) (auto simp: index_of_nth)
  then have "all_some (map (\<lambda>c. index_of c ?al) ?body) = Some ?ss"
    by (simp add: comp_def)
  with length_sextets [of bs] show ?thesis
    unfolding DecodeString_def EncodeToString_def Let_def f t
    by (simp add: bytes_of_sextets_sextets)
qed

end
