(* ===== verification/Transparency.thy ===== *)
theory Transparency
  imports Merkle_Correct Codec
begin

text \<open>
  The transparency log: entries and the signer (\<open>entry.go\<close>, \<open>signer.go\<close>), the store
  interface (\<open>store.go\<close>) as a record of functions with its contract as a locale, the
  PostgreSQL store behind it (\<open>internal/db/transparency.go\<close> and the adapter of
  \<open>cmd/hush/main.go\<close>) as its provider, and the service (\<open>service.go\<close>). SHA-256, Ed25519 and
  the CBOR encoder are the functions of \<open>log_env\<close>.
\<close>

section \<open>Entries and the signer\<close>

text \<open>A Go byte slice that may be \<open>nil\<close> is an option: CBOR and SQL tell \<open>nil\<close> from empty.\<close>

record LogEntry =
  OperationType :: string
  UserPublicKey :: "bytes option"
  SubjectKey :: "bytes option"
  Timestamp :: int
  UserSignature :: "bytes option"

datatype cbor_struct =
    logEntryFields1To4 string "bytes option" "bytes option" int
  | logEntryFull string "bytes option" "bytes option" int "bytes option"

record log_env =
  sha256 :: hashfun
  cbor_marshal :: "cbor_struct \<Rightarrow> bytes option"
  ed25519_sign :: "bytes \<Rightarrow> bytes \<Rightarrow> bytes"
  ed25519_verify :: "bytes \<Rightarrow> bytes \<Rightarrow> bytes \<Rightarrow> bool"

definition nil_bytes :: "bytes option \<Rightarrow> bytes" where
  "nil_bytes b = (case b of None \<Rightarrow> [] | Some x \<Rightarrow> x)"

definition OpRegister :: string where "OpRegister = ''register''"
definition OpDeviceAdd :: string where "OpDeviceAdd = ''device_add''"
definition OpDeviceRevoke :: string where "OpDeviceRevoke = ''device_revoke''"
definition OpKeyPackage :: string where "OpKeyPackage = ''keypackage''"
definition OpMLSCredential :: string where "OpMLSCredential = ''mls_credential''"
definition OpAccountRecovery :: string where "OpAccountRecovery = ''account_recovery''"

definition SerializeForUserSign :: "log_env \<Rightarrow> LogEntry \<Rightarrow> bytes option" where
  "SerializeForUserSign E e =
     cbor_marshal E (logEntryFields1To4 (OperationType e) (UserPublicKey e) (SubjectKey e) (Timestamp e))"

definition MarshalCBOR :: "log_env \<Rightarrow> LogEntry \<Rightarrow> bytes option" where
  "MarshalCBOR E e =
     cbor_marshal E (logEntryFull (OperationType e) (UserPublicKey e) (SubjectKey e) (Timestamp e)
       (UserSignature e))"

definition entry_LeafHash :: "log_env \<Rightarrow> LogEntry \<Rightarrow> hash option" where
  "entry_LeafHash E e =
     (case MarshalCBOR E e of None \<Rightarrow> None | Some b \<Rightarrow> Some (sha256 E (0 # b)))"

definition Sign :: "log_env \<Rightarrow> bytes \<Rightarrow> bytes \<Rightarrow> bytes" where
  "Sign E privKey data = ed25519_sign E privKey data"

definition Countersign :: "log_env \<Rightarrow> bytes \<Rightarrow> LogEntry \<Rightarrow> uint64 \<Rightarrow> hash \<Rightarrow> bytes option" where
  "Countersign E privKey e leafIndex root =
     (case MarshalCBOR E e of
        None \<Rightarrow> None
      | Some fullCBOR \<Rightarrow>
          Some (ed25519_sign E privKey (fullCBOR @ leafIndexBigEndian leafIndex @ root)))"

section \<open>The store interface\<close>

text \<open>One row of \<open>transparency_log_entries\<close>; the generated \<open>id\<close> and \<open>logged_at\<close> are left out.\<close>

record log_row =
  lr_leaf_index :: int
  lr_operation :: string
  lr_user_pub_key :: bytes
  lr_subject_key :: "bytes option"
  lr_entry_cbor :: bytes
  lr_leaf_hash :: bytes
  lr_user_sig :: bytes
  lr_log_sig :: bytes

record TreeHead =
  th_size :: uint64
  th_root :: bytes
  th_fringe :: bytes
  th_sig :: bytes

text \<open>
  \<open>TransparencyStore\<close> as the Go interface value: every method takes the store and returns
  the store after the call; \<open>None\<close> is a non-nil error.
\<close>

record 'st TransparencyStore =
  InsertLogEntry :: "uint64 \<Rightarrow> LogEntry \<Rightarrow> bytes \<Rightarrow> bytes \<Rightarrow> bytes \<Rightarrow> 'st \<Rightarrow> unit option \<times> 'st"
  GetLogEntriesByPubKey :: "bytes \<Rightarrow> 'st \<Rightarrow> log_row list option \<times> 'st"
  GetAllLeafHashes :: "'st \<Rightarrow> hash list option \<times> 'st"
  GetLatestTreeHead :: "'st \<Rightarrow> TreeHead option option \<times> 'st"
  InsertTreeHead :: "uint64 \<Rightarrow> bytes \<Rightarrow> bytes \<Rightarrow> bytes \<Rightarrow> 'st \<Rightarrow> unit option \<times> 'st"

section \<open>The service\<close>

datatype log_error =
    ErrSerializeForVerify | ErrUserSignature | ErrMarshalEntry | ErrLeafHash | ErrCountersign
  | ErrPersistEntry | ErrGetEntries | ErrRecover | ErrLoadLeafHashes | ErrPanic

record AppendResult =
  ar_LeafIndex :: uint64
  ar_TreeSize :: uint64
  ar_AuditPath :: "hash list"
  ar_RootHash :: hash
  ar_LogSignature :: bytes

record 'st TransparencyService =
  tree :: MerkleTree
  signer :: bytes
  store :: 'st

text \<open>
  The signature check of \<open>AppendEntry\<close>: skipped for a nil or empty signature;
  \<open>ed25519.Verify\<close> panics on a public key that is not 32 bytes.
\<close>

definition check_user_signature :: "log_env \<Rightarrow> LogEntry \<Rightarrow> log_error option" where
  "check_user_signature E e =
     (let sig = nil_bytes (UserSignature e); pub = nil_bytes (UserPublicKey e)
      in if sig = [] then None
         else case SerializeForUserSign E e of
                None \<Rightarrow> Some ErrSerializeForVerify
              | Some payload \<Rightarrow>
                  (if length pub \<noteq> 32 then Some ErrPanic
                   else if \<not> ed25519_verify E pub payload sig then Some ErrUserSignature
                   else None))"

text \<open>
  Steps 4 to 6 of \<open>AppendEntry\<close>, after the in-memory append: proof, countersignature,
  the entry row, and the tree head, whose failure is only logged.
\<close>

definition persist_append ::
  "log_env \<Rightarrow> 'st TransparencyStore \<Rightarrow> 'st TransparencyService \<Rightarrow> LogEntry \<Rightarrow> bytes \<Rightarrow> hash \<Rightarrow>
   uint64 \<Rightarrow> hash \<Rightarrow> (log_error + AppendResult) \<times> 'st TransparencyService" where
  "persist_append E S s e cborBytes leafH leafIndex root =
     (let treeSize = tsize (tree s);
          auditPath = (case Proof (sha256 E) (tree s) leafIndex of Inl _ \<Rightarrow> [] | Inr p \<Rightarrow> p)
      in case Countersign E (signer s) e leafIndex root of
           None \<Rightarrow> (Inl ErrCountersign, s)
         | Some logSig \<Rightarrow>
             (case InsertLogEntry S leafIndex e cborBytes leafH logSig (store s) of
                (None, st) \<Rightarrow> (Inl ErrPersistEntry, s\<lparr>store := st\<rparr>)
              | (Some _, st) \<Rightarrow>
                  (let fringeBytes = fringeToBytes (fringe (tree s));
                       headSig = Sign E (signer s) (root @ fringeBytes);
                       st' = snd (InsertTreeHead S treeSize root fringeBytes headSig st)
                   in (Inr \<lparr>ar_LeafIndex = leafIndex, ar_TreeSize = treeSize,
                            ar_AuditPath = auditPath, ar_RootHash = root,
                            ar_LogSignature = logSig\<rparr>,
                       s\<lparr>store := st'\<rparr>))))"

definition AppendEntry ::
  "log_env \<Rightarrow> 'st TransparencyStore \<Rightarrow> 'st TransparencyService \<Rightarrow> LogEntry \<Rightarrow>
   (log_error + AppendResult) \<times> 'st TransparencyService" where
  "AppendEntry E S s e =
     (case check_user_signature E e of
        Some err \<Rightarrow> (Inl err, s)
      | None \<Rightarrow>
          (case MarshalCBOR E e of
             None \<Rightarrow> (Inl ErrMarshalEntry, s)
           | Some cborBytes \<Rightarrow>
               (case entry_LeafHash E e of
                  None \<Rightarrow> (Inl ErrLeafHash, s)
                | Some leafH \<Rightarrow>
                    (case Append (sha256 E) (tree s) cborBytes of
                       None \<Rightarrow>
                         (Inl ErrPanic,
                          s\<lparr>tree := (tree s)\<lparr>leaves := leaves (tree s) @ [LeafHash (sha256 E) cborBytes],
                                         fringe := []\<rparr>\<rparr>)
                     | Some (t, leafIndex) \<Rightarrow>
                         (case Root (sha256 E) t of
                            None \<Rightarrow> (Inl ErrPanic, s\<lparr>tree := t\<rparr>)
                          | Some root \<Rightarrow>
                              persist_append E S (s\<lparr>tree := t\<rparr>) e cborBytes leafH leafIndex root)))))"

text \<open>\<open>RecoverFromDB\<close> and \<open>NewTransparencyService\<close>.\<close>

definition RecoverFromDB ::
  "'st TransparencyStore \<Rightarrow> 'st TransparencyService \<Rightarrow> log_error option \<times> 'st TransparencyService" where
  "RecoverFromDB S s =
     (case GetLatestTreeHead S (store s) of
        (None, st) \<Rightarrow> (Some ErrRecover, s\<lparr>store := st\<rparr>)
      | (Some None, st) \<Rightarrow> (None, s\<lparr>store := st\<rparr>)
      | (Some (Some head), st) \<Rightarrow>
          (let t = FromFringe (fringeFromBytes (th_fringe head)) (th_size head)
           in case GetAllLeafHashes S st of
                (None, st') \<Rightarrow> (Some ErrLoadLeafHashes, s\<lparr>tree := t, store := st'\<rparr>)
              | (Some leafHashes, st') \<Rightarrow> (None, s\<lparr>tree := SetLeaves t leafHashes, store := st'\<rparr>)))"

definition NewTransparencyService ::
  "'st TransparencyStore \<Rightarrow> 'st \<Rightarrow> bytes \<Rightarrow> (log_error + 'st TransparencyService) \<times> 'st" where
  "NewTransparencyService S st privKey =
     (case RecoverFromDB S \<lparr>tree = NewMerkleTree, signer = privKey, store = st\<rparr> of
        (Some err, s) \<Rightarrow> (Inl err, store s)
      | (None, s) \<Rightarrow> (Inr s, store s))"

definition AppendEntrySkipSig ::
  "log_env \<Rightarrow> 'st TransparencyStore \<Rightarrow> 'st TransparencyService \<Rightarrow> LogEntry \<Rightarrow>
   log_error option \<times> 'st TransparencyService" where
  "AppendEntrySkipSig E S s e =
     (case AppendEntry E S s (e\<lparr>UserSignature := None\<rparr>) of
        (Inl err, s') \<Rightarrow> (Some err, s')
      | (Inr _, s') \<Rightarrow> (None, s'))"

text \<open>The \<open>transparency.key_change\<close> event for one user, if the hub is wired and the id known.\<close>

record KeyChange =
  kc_user :: string
  kc_operation :: string
  kc_leafIndex :: uint64
  kc_treeRoot :: string

definition broadcastKeyChange :: "bool \<Rightarrow> string \<Rightarrow> LogEntry \<Rightarrow> AppendResult \<Rightarrow> KeyChange list" where
  "broadcastKeyChange wired userID e result =
     (if \<not> wired \<or> userID = [] then []
      else [\<lparr>kc_user = userID, kc_operation = OperationType e, kc_leafIndex = ar_LeafIndex result,
             kc_treeRoot = hex_encode (ar_RootHash result)\<rparr>])"

definition AppendAndNotify ::
  "log_env \<Rightarrow> 'st TransparencyStore \<Rightarrow> bool \<Rightarrow> 'st TransparencyService \<Rightarrow> LogEntry \<Rightarrow> string \<Rightarrow>
   (log_error option \<times> KeyChange list) \<times> 'st TransparencyService" where
  "AppendAndNotify E S wired s e userID =
     (let e' = e\<lparr>UserSignature := None\<rparr>
      in case AppendEntry E S s e' of
           (Inl err, s') \<Rightarrow> ((Some err, []), s')
         | (Inr result, s') \<Rightarrow> ((None, broadcastKeyChange wired userID e' result), s'))"

text \<open>
  \<open>GetProof\<close> takes the lock once for root and size and once more for every entry, so other
  requests may append in between: \<open>tree_at k\<close> is the tree under the \<open>k\<close>-th lock. Without
  interleaving it is constant.
\<close>

record InclusionProof =
  ip_LeafIndex :: uint64
  ip_TreeSize :: uint64
  ip_AuditPath :: "hash list"
  ip_RootHash :: hash
  ip_LogSig :: bytes
  ip_AuditPathHex :: "string list"
  ip_RootHashHex :: string
  ip_LogSignatureB64 :: string

record ProofResponse =
  pr_Entries :: "log_row list"
  pr_Proofs :: "InclusionProof list"
  pr_TreeSize :: uint64
  pr_RootHash :: hash

definition countersignProof :: "log_env \<Rightarrow> bytes \<Rightarrow> log_row \<Rightarrow> hash \<Rightarrow> bytes" where
  "countersignProof E privKey row root =
     Sign E privKey (lr_entry_cbor row @ leafIndexBigEndian (word_of_int (lr_leaf_index row)) @ root)"

fun entry_proofs ::
  "log_env \<Rightarrow> bytes \<Rightarrow> (nat \<Rightarrow> MerkleTree) \<Rightarrow> nat \<Rightarrow> uint64 \<Rightarrow> hash \<Rightarrow> log_row list \<Rightarrow> InclusionProof list" where
  "entry_proofs E privKey tree_at k treeSize root [] = []"
| "entry_proofs E privKey tree_at k treeSize root (row # rows) =
     (let idx = word_of_int (lr_leaf_index row);
          rest = entry_proofs E privKey tree_at (Suc k) treeSize root rows
      in case Proof (sha256 E) (tree_at k) idx of
           Inl _ \<Rightarrow> rest
         | Inr auditPath \<Rightarrow>
             (let logSig = countersignProof E privKey row root
              in \<lparr>ip_LeafIndex = idx, ip_TreeSize = treeSize, ip_AuditPath = auditPath,
                  ip_RootHash = root, ip_LogSig = logSig,
                  ip_AuditPathHex = map hex_encode auditPath, ip_RootHashHex = hex_encode root,
                  ip_LogSignatureB64 = EncodeToString StdEncoding logSig\<rparr> # rest))"

definition GetProof ::
  "log_env \<Rightarrow> 'st TransparencyStore \<Rightarrow> 'st TransparencyService \<Rightarrow> (nat \<Rightarrow> MerkleTree) \<Rightarrow> bytes \<Rightarrow>
   (log_error + ProofResponse) \<times> 'st" where
  "GetProof E S s tree_at pubKey =
     (case GetLogEntriesByPubKey S pubKey (store s) of
        (None, st) \<Rightarrow> (Inl ErrGetEntries, st)
      | (Some entries, st) \<Rightarrow>
          (case Root (sha256 E) (tree_at 0) of
             None \<Rightarrow> (Inl ErrPanic, st)
           | Some root \<Rightarrow>
               (let treeSize = tsize (tree_at 0)
                in (Inr \<lparr>pr_Entries = entries,
                         pr_Proofs = entry_proofs E (signer s) tree_at 1 treeSize root entries,
                         pr_TreeSize = treeSize, pr_RootHash = root\<rparr>, st))))"

end
