(* ===== verification/Transparency_Service.thy ===== *)
theory Transparency_Service
  imports Transparency
begin

text \<open>
  The contract of \<open>TransparencyStore\<close> as a locale, and what the service guarantees over any
  store that keeps it: every successful append is provable at once, errors before the
  append change nothing, and a restart rebuilds the tree.
\<close>

section \<open>What a successful append did\<close>

lemma AppendEntry_Inr:
  assumes "AppendEntry E S s e = (Inr res, s')" and "tree_ok (sha256 E) (tree s)"
    and "unat (tsize (tree s)) < 2 ^ 64 - 1"
  obtains cbor t' logSig st u x st' where
    "MarshalCBOR E e = Some cbor" "tree_ok (sha256 E) t'"
    "leaves t' = leaves (tree s) @ [LeafHash (sha256 E) cbor]"
    "tsize t' = tsize (tree s) + 1" "unat (tsize t') = Suc (unat (tsize (tree s)))"
    "Countersign E (signer s) e (tsize (tree s)) (MTH (sha256 E) (leaves t')) = Some logSig"
    "InsertLogEntry S (tsize (tree s)) e cbor (LeafHash (sha256 E) cbor) logSig (store s) = (Some u, st)"
    "InsertTreeHead S (tsize t') (MTH (sha256 E) (leaves t')) (fringeToBytes (fringe t'))
       (Sign E (signer s) (MTH (sha256 E) (leaves t') @ fringeToBytes (fringe t'))) st = (x, st')"
    "s' = s\<lparr>tree := t', store := st'\<rparr>"
    "res = \<lparr>ar_LeafIndex = tsize (tree s), ar_TreeSize = tsize t',
       ar_AuditPath = audit_path (build_levels (sha256 E) (leaves t')) (unat (tsize (tree s))),
       ar_RootHash = MTH (sha256 E) (leaves t'), ar_LogSignature = logSig\<rparr>"
proof -
  let ?H = "sha256 E"
  obtain cbor where c: "MarshalCBOR E e = Some cbor"
    using assms(1) by (auto simp: AppendEntry_def split: option.splits)
  obtain t' where t': "Append ?H (tree s) cbor = Some (t', tsize (tree s))" "tree_ok ?H t'"
    "leaves t' = leaves (tree s) @ [LeafHash ?H cbor]" "tsize t' = tsize (tree s) + 1"
    "unat (tsize t') = Suc (unat (tsize (tree s)))"
    using Append_ok [OF assms(2,3)] by blast
  let ?root = "MTH ?H (leaves t')" and ?s = "s\<lparr>tree := t'\<rparr>" and ?lh = "LeafHash ?H cbor"
  have r: "Root ?H t' = Some ?root" by (rule Root_ok [OF t'(2)])
  have "tsize (tree s) < tsize t'" using t'(5) by (simp add: word_less_nat_alt)
  note P = Proof_ok [OF t'(2) this]
  from assms(1) have p: "persist_append E S ?s e cbor ?lh (tsize (tree s)) ?root = (Inr res, s')"
    by (simp add: AppendEntry_def entry_LeafHash_def LeafHash_def c t' r split: option.splits)
  then obtain logSig where sig: "Countersign E (signer s) e (tsize (tree s)) ?root = Some logSig"
    by (auto simp: persist_append_def Let_def split: option.splits)
  obtain st u where i: "InsertLogEntry S (tsize (tree s)) e cbor ?lh logSig (store s) = (Some u, st)"
    using p sig by (auto simp: persist_append_def Let_def split: option.splits prod.splits)
  obtain x st' where "InsertTreeHead S (tsize t') ?root (fringeToBytes (fringe t'))
      (Sign E (signer s) (?root @ fringeToBytes (fringe t'))) st = (x, st')"
    by (metis surj_pair)
  with p sig i P show thesis
    by (intro that [OF c t'(2-5) sig i]) (auto simp: persist_append_def Let_def)
qed

section \<open>The contract of the store\<close>

text \<open>
  \<open>hashes\<close> are the persisted leaf hashes in index order and \<open>head\<close> the latest tree head.
  A failing call changes neither.
\<close>

locale transparency_store =
  fixes S :: "'st TransparencyStore"
    and hashes :: "'st \<Rightarrow> hash list"
    and head :: "'st \<Rightarrow> TreeHead option"
    and ok :: "'st \<Rightarrow> bool"
  assumes insert_entry:
    "ok st \<Longrightarrow> unat idx = length (hashes st) \<Longrightarrow> unat idx < 2 ^ 63 \<Longrightarrow> length lh = 32 \<Longrightarrow>
     InsertLogEntry S idx e cbor lh sig st = (r, st') \<Longrightarrow>
     ok st' \<and> head st' = head st \<and> hashes st' = hashes st @ (if r = None then [] else [lh])"
  and insert_head:
    "ok st \<Longrightarrow> unat n < 2 ^ 63 \<Longrightarrow> (\<And>h. head st = Some h \<Longrightarrow> th_size h < n) \<Longrightarrow>
     InsertTreeHead S n root fr sg st = (r, st') \<Longrightarrow>
     ok st' \<and> hashes st' = hashes st \<and>
     head st' = (if r = None then head st
                 else Some \<lparr>th_size = n, th_root = root, th_fringe = fr, th_sig = sg\<rparr>)"
  and all_leaf_hashes:
    "ok st \<Longrightarrow> GetAllLeafHashes S st = (ra, st') \<Longrightarrow>
     ok st' \<and> hashes st' = hashes st \<and> head st' = head st \<and> (ra = None \<or> ra = Some (hashes st))"
  and latest_head:
    "ok st \<Longrightarrow> GetLatestTreeHead S st = (rl, st') \<Longrightarrow>
     ok st' \<and> hashes st' = hashes st \<and> head st' = head st \<and> (rl = None \<or> rl = Some (head st))"
begin

text \<open>
  \<open>mem_ok\<close>: memory and database hold the same leaves. \<open>head_ok\<close>: the stored head is the
  state of the tree. The heads never run ahead of the tree.
\<close>

definition mem_ok :: "log_env \<Rightarrow> 'st TransparencyService \<Rightarrow> bool" where
  "mem_ok E s \<longleftrightarrow>
     tree_ok (sha256 E) (tree s) \<and> hashes32 (tree s) \<and> ok (store s) \<and>
     leaves (tree s) = hashes (store s) \<and>
     (\<forall>h. head (store s) = Some h \<longrightarrow> th_size h \<le> tsize (tree s))"

definition head_ok :: "'st TransparencyService \<Rightarrow> bool" where
  "head_ok s \<longleftrightarrow>
     (case head (store s) of
        None \<Rightarrow> tsize (tree s) = 0
      | Some h \<Rightarrow> th_size h = tsize (tree s) \<and> th_fringe h = fringeToBytes (fringe (tree s)))"

lemma append_success:
  assumes m: "mem_ok E s" and len: "\<And>x. length (sha256 E x) = 32"
    and sz: "unat (tsize (tree s)) < 2 ^ 63 - 1"
    and a: "AppendEntry E S s e = (Inr res, s')"
  shows "\<exists>cbor. MarshalCBOR E e = Some cbor \<and> mem_ok E s' \<and>
    leaves (tree s') = leaves (tree s) @ [LeafHash (sha256 E) cbor] \<and>
    ar_LeafIndex res = tsize (tree s) \<and> ar_TreeSize res = tsize (tree s) + 1 \<and>
    ar_TreeSize res = tsize (tree s') \<and>
    ar_RootHash res = MTH (sha256 E) (leaves (tree s')) \<and>
    Proof (sha256 E) (tree s') (ar_LeafIndex res) = Inr (ar_AuditPath res) \<and>
    Countersign E (signer s) e (ar_LeafIndex res) (ar_RootHash res) = Some (ar_LogSignature res) \<and>
    signer s' = signer s"
proof -
  let ?H = "sha256 E"
  have t: "tree_ok ?H (tree s)" "hashes32 (tree s)" "leaves (tree s) = hashes (store s)" "ok (store s)"
    "\<And>h. head (store s) = Some h \<Longrightarrow> th_size h \<le> tsize (tree s)"
    using m by (simp_all add: mem_ok_def)
  have "unat (tsize (tree s)) < 2 ^ 64 - 1" using sz by simp
  then obtain cbor t' logSig st u x st' where d:
    "MarshalCBOR E e = Some cbor" "tree_ok ?H t'" "leaves t' = leaves (tree s) @ [LeafHash ?H cbor]"
    "tsize t' = tsize (tree s) + 1" "unat (tsize t') = Suc (unat (tsize (tree s)))"
    "Countersign E (signer s) e (tsize (tree s)) (MTH ?H (leaves t')) = Some logSig"
    "InsertLogEntry S (tsize (tree s)) e cbor (LeafHash ?H cbor) logSig (store s) = (Some u, st)"
    "InsertTreeHead S (tsize t') (MTH ?H (leaves t')) (fringeToBytes (fringe t'))
       (Sign E (signer s) (MTH ?H (leaves t') @ fringeToBytes (fringe t'))) st = (x, st')"
    "s' = s\<lparr>tree := t', store := st'\<rparr>"
    "res = \<lparr>ar_LeafIndex = tsize (tree s), ar_TreeSize = tsize t',
       ar_AuditPath = audit_path (build_levels ?H (leaves t')) (unat (tsize (tree s))),
       ar_RootHash = MTH ?H (leaves t'), ar_LogSignature = logSig\<rparr>"
    by (rule AppendEntry_Inr [OF a t(1)])
  have idx: "unat (tsize (tree s)) = length (hashes (store s))"
    using t(1,3) by (simp add: tree_ok_def)
  have i63: "unat (tsize (tree s)) < 2 ^ 63" using sz by simp
  have lh: "length (LeafHash ?H cbor) = 32" by (simp add: LeafHash_def len)
  have ins: "ok st" "head st = head (store s)" "hashes st = hashes (store s) @ [LeafHash ?H cbor]"
    using insert_entry [OF t(4) idx i63 lh d(7)] by auto
  have lt: "tsize (tree s) < tsize t'" using d(5) by (simp add: word_less_nat_alt)
  have below: "th_size h < tsize t'" if "head st = Some h" for h
    using t(5) [of h] ins(2) lt that by (metis order.strict_trans1)
  have "unat (tsize t') < 2 ^ 63" using d(5) sz by simp
  note hd = insert_head [OF ins(1) this below d(8)]
  have "th_size h \<le> tsize t'" if "head st' = Some h" for h
    using hd below that by (cases x) (simp_all add: less_imp_le)
  then have "mem_ok E s'"
    using t(2,3) lh ins(3) hd d(2,3) by (simp add: mem_ok_def d(9) hashes32_def)
  then show ?thesis
    using d(1-6,9,10) Proof_ok [OF d(2) lt] by simp
qed

text \<open>A restart that can read the store rebuilds the tree from the head and the leaf hashes.\<close>

lemma restart_tree:
  assumes m: "mem_ok E s" and h: "head_ok s" and len: "\<And>x. length (sha256 E x) = 32"
    and n: "NewTransparencyService S (store s) key = (Inr s', st')"
  shows "tree s' = tree s \<and> signer s' = key \<and> mem_ok E s' \<and> head_ok s'"
proof -
  have t: "tree_ok (sha256 E) (tree s)" "hashes32 (tree s)" "leaves (tree s) = hashes (store s)"
    "ok (store s)"
    using m by (simp_all add: mem_ok_def)
  have fr: "fringeFromBytes (fringeToBytes (fringe (tree s))) = fringe (tree s)"
    using fringe_roundtrip [OF tree_fringe_len32 [OF len t(1,2)]] .
  obtain r1 st1 where g1: "GetLatestTreeHead S (store s) = (r1, st1)" by (metis surj_pair)
  note l1 = latest_head [OF t(4) g1]
  obtain r2 st2 where g2: "GetAllLeafHashes S st1 = (r2, st2)" by (metis surj_pair)
  have l2: "ok st2 \<and> hashes st2 = hashes st1 \<and> head st2 = head st1 \<and> (r2 = None \<or> r2 = Some (hashes st1))"
    using all_leaf_hashes [OF _ g2] l1 by blast
  have e: "tree_ok (sha256 E) NewMerkleTree" "hashes32 NewMerkleTree"
    by (simp_all add: tree_ok_new hashes32_def) (simp add: NewMerkleTree_def)
  show ?thesis
  proof (cases "head (store s)")
    case None
    then have z: "tsize (tree s) = 0" using h by (simp add: head_ok_def)
    then have "leaves (tree s) = []" "fringe (tree s) = []" using t(1) by (simp_all add: tree_ok_def)
    then have "tree s = NewMerkleTree" using z by (simp add: NewMerkleTree_def)
    moreover have "s' = \<lparr>tree = NewMerkleTree, signer = key, store = st1\<rparr>"
      using n g1 l1 None by (auto simp: NewTransparencyService_def RecoverFromDB_def)
    ultimately show ?thesis
      using l1 t None e by (simp add: mem_ok_def head_ok_def NewMerkleTree_def)
  next
    case (Some hd)
    then have hd: "th_size hd = tsize (tree s)" "th_fringe hd = fringeToBytes (fringe (tree s))"
      using h by (simp_all add: head_ok_def)
    have "r1 = Some (Some hd)" and r2: "r2 = Some (hashes (store s))"
      using n g1 l1 l2 Some g2
      by (auto simp: NewTransparencyService_def RecoverFromDB_def split: option.splits)
    then have "s' = \<lparr>tree = tree s, signer = key, store = st2\<rparr>"
      using n g1 g2 hd fr t(3) recover_tree [of "tree s"]
      by (auto simp: NewTransparencyService_def RecoverFromDB_def Let_def)
    then show ?thesis
      using l1 l2 t Some hd by (simp add: mem_ok_def head_ok_def)
  qed
qed

end

text \<open>
  Whatever fails before the rows are written leaves the service as it was; a countersigner
  that could marshal the entry once does not fail.
\<close>

lemma AppendEntry_Inl:
  assumes "AppendEntry E S s e = (Inl err, s')" and "tree_ok (sha256 E) (tree s)"
    and "unat (tsize (tree s)) < 2 ^ 64 - 1"
  obtains (unchanged) "s' = s" "check_user_signature E e \<noteq> None \<or> MarshalCBOR E e = None" "err \<noteq> ErrPersistEntry"
  | (persist) cbor t' logSig st where
      "err = ErrPersistEntry" "MarshalCBOR E e = Some cbor" "check_user_signature E e = None"
      "tree_ok (sha256 E) t'" "leaves t' = leaves (tree s) @ [LeafHash (sha256 E) cbor]"
      "tsize t' = tsize (tree s) + 1"
      "InsertLogEntry S (tsize (tree s)) e cbor (LeafHash (sha256 E) cbor) logSig (store s) = (None, st)"
      "s' = s\<lparr>tree := t', store := st\<rparr>"
proof -
  let ?H = "sha256 E"
  show thesis
  proof (cases "check_user_signature E e = None \<and> MarshalCBOR E e \<noteq> None")
    case False
    then show thesis
      using assms(1)
      by (intro unchanged) (auto simp: AppendEntry_def check_user_signature_def Let_def
          split: option.splits if_splits)
  next
    case True
    then obtain cbor where c: "MarshalCBOR E e = Some cbor" "check_user_signature E e = None" by auto
    obtain t' where t': "Append ?H (tree s) cbor = Some (t', tsize (tree s))" "tree_ok ?H t'"
      "leaves t' = leaves (tree s) @ [LeafHash ?H cbor]" "tsize t' = tsize (tree s) + 1"
      using Append_ok [OF assms(2,3)] by blast
    have "persist_append E S (s\<lparr>tree := t'\<rparr>) e cbor (LeafHash ?H cbor) (tsize (tree s))
        (MTH ?H (leaves t')) = (Inl err, s')"
      using assms(1) c t' Root_ok [OF t'(2)]
      by (simp add: AppendEntry_def entry_LeafHash_def LeafHash_def)
    then have "err = ErrPersistEntry \<and> (\<exists>logSig st.
        InsertLogEntry S (tsize (tree s)) e cbor (LeafHash ?H cbor) logSig (store s) = (None, st) \<and>
        s' = s\<lparr>tree := t', store := st\<rparr>)"
      using c(1) by (auto simp: persist_append_def Countersign_def Let_def split: option.splits prod.splits)
    then show thesis using persist [OF _ c t'(2-4)] by blast
  qed
qed

end
