(* ===== verification/Transparency_DB.thy ===== *)
theory Transparency_DB
  imports Transparency_Service
begin

text \<open>
  The PostgreSQL store behind the transparency log: \<open>internal/db/transparency.go\<close> over the
  two tables of migration 19, and the adapter \<open>poolTransparencyStore\<close> of
  \<open>cmd/hush/main.go\<close>. It is shown to keep the contract of the store interface; the
  properties of the running log follow through that interpretation.
\<close>

section \<open>Tables and queries\<close>

text \<open>\<open>outages\<close> says which of the calls to come fail for reasons outside the program.\<close>

record log_db =
  log_entries :: "log_row list"
  tree_heads :: "TreeHead list"
  outages :: "bool list"

text \<open>The \<open>CHECK\<close> of the column \<open>operation\<close>.\<close>

definition log_operations :: "string list" where
  "log_operations = [OpRegister, OpDeviceAdd, OpDeviceRevoke, OpKeyPackage, OpMLSCredential,
     OpAccountRecovery]"

definition InsertTransparencyLogEntry ::
  "uint64 \<Rightarrow> string \<Rightarrow> bytes \<Rightarrow> bytes option \<Rightarrow> bytes \<Rightarrow> bytes \<Rightarrow> bytes \<Rightarrow> bytes \<Rightarrow> log_db \<Rightarrow>
   unit option \<times> log_db" where
  "InsertTransparencyLogEntry leafIndex operation userPubKey subjectKey entryCBOR leafH userSig logSig d =
     (let (down, os) = next_fault (outages d); d' = d\<lparr>outages := os\<rparr>
      in if down \<or> operation \<notin> set log_operations \<or>
            sql_exists (\<lambda>r. lr_leaf_index r = sint leafIndex) (log_entries d)
         then (None, d')
         else (Some (), d'\<lparr>log_entries := log_entries d @
                [\<lparr>lr_leaf_index = sint leafIndex, lr_operation = operation,
                  lr_user_pub_key = userPubKey, lr_subject_key = subjectKey,
                  lr_entry_cbor = entryCBOR, lr_leaf_hash = leafH, lr_user_sig = userSig,
                  lr_log_sig = logSig\<rparr>]\<rparr>))"

definition GetTransparencyLogEntriesByPubKey :: "bytes \<Rightarrow> log_db \<Rightarrow> log_row list option \<times> log_db" where
  "GetTransparencyLogEntriesByPubKey pubKey d =
     (let (down, os) = next_fault (outages d); d' = d\<lparr>outages := os\<rparr>
      in if down then (None, d')
         else (Some (sort_key lr_leaf_index (filter (\<lambda>r. lr_user_pub_key r = pubKey) (log_entries d))), d'))"

text \<open>\<open>copy(hash[:], h)\<close> into a 32-byte array.\<close>

definition copy32 :: "bytes \<Rightarrow> hash" where
  "copy32 h = take 32 h @ replicate (32 - length h) 0"

definition db_GetAllLeafHashes :: "log_db \<Rightarrow> hash list option \<times> log_db" where
  "db_GetAllLeafHashes d =
     (let (down, os) = next_fault (outages d); d' = d\<lparr>outages := os\<rparr>
      in if down then (None, d')
         else (Some (map (\<lambda>r. copy32 (lr_leaf_hash r)) (sort_key lr_leaf_index (log_entries d))), d'))"

definition latest_tree_head :: "TreeHead list \<Rightarrow> TreeHead option" where
  "latest_tree_head hs =
     (case rev (sort_key (\<lambda>h. sint (th_size h)) hs) of [] \<Rightarrow> None | h # _ \<Rightarrow> Some h)"

definition GetLatestTransparencyTreeHead :: "log_db \<Rightarrow> TreeHead option option \<times> log_db" where
  "GetLatestTransparencyTreeHead d =
     (let (down, os) = next_fault (outages d); d' = d\<lparr>outages := os\<rparr>
      in if down then (None, d') else (Some (latest_tree_head (tree_heads d)), d'))"

definition InsertTransparencyTreeHead ::
  "uint64 \<Rightarrow> bytes \<Rightarrow> bytes \<Rightarrow> bytes \<Rightarrow> log_db \<Rightarrow> unit option \<times> log_db" where
  "InsertTransparencyTreeHead treeSize rootH fr headSig d =
     (let (down, os) = next_fault (outages d); d' = d\<lparr>outages := os\<rparr>;
          new = \<lparr>th_size = treeSize, th_root = rootH, th_fringe = fr, th_sig = headSig\<rparr>
      in if down then (None, d')
         else if sql_exists (\<lambda>h. th_size h = treeSize) (tree_heads d)
         then (Some (), d'\<lparr>tree_heads := sql_update (\<lambda>h. th_size h = treeSize) (\<lambda>_. new) (tree_heads d)\<rparr>)
         else (Some (), d'\<lparr>tree_heads := tree_heads d @ [new]\<rparr>))"

text \<open>The adapter: nil keys and signatures become empty, since the columns are \<open>NOT NULL\<close>.\<close>

definition adapter_InsertLogEntry ::
  "uint64 \<Rightarrow> LogEntry \<Rightarrow> bytes \<Rightarrow> bytes \<Rightarrow> bytes \<Rightarrow> log_db \<Rightarrow> unit option \<times> log_db" where
  "adapter_InsertLogEntry leafIndex e cborBytes leafH logSig d =
     InsertTransparencyLogEntry leafIndex (OperationType e) (nil_bytes (UserPublicKey e))
       (SubjectKey e) cborBytes leafH (nil_bytes (UserSignature e)) logSig d"

definition poolTransparencyStore :: "log_db TransparencyStore" where
  "poolTransparencyStore =
     \<lparr>InsertLogEntry = adapter_InsertLogEntry,
      GetLogEntriesByPubKey = GetTransparencyLogEntriesByPubKey,
      GetAllLeafHashes = db_GetAllLeafHashes,
      GetLatestTreeHead = GetLatestTransparencyTreeHead,
      InsertTreeHead = InsertTransparencyTreeHead\<rparr>"

lemmas log_db_defs = poolTransparencyStore_def adapter_InsertLogEntry_def
  InsertTransparencyLogEntry_def InsertTransparencyTreeHead_def db_GetAllLeafHashes_def
  GetLatestTransparencyTreeHead_def GetTransparencyLogEntriesByPubKey_def

section \<open>The provider keeps the contract\<close>

text \<open>
  The rows are the leaves 0, 1, 2, ... in order with 32-byte hashes, and the tree heads are
  distinct sizes within \<open>BIGINT\<close>.
\<close>

definition leaf_hashes :: "log_db \<Rightarrow> hash list" where
  "leaf_hashes d = map lr_leaf_hash (log_entries d)"

definition db_ok :: "log_db \<Rightarrow> bool" where
  "db_ok d \<longleftrightarrow>
     map lr_leaf_index (log_entries d) = map int [0..<length (log_entries d)] \<and>
     (\<forall>r \<in> set (log_entries d). length (lr_leaf_hash r) = 32) \<and>
     (\<forall>h \<in> set (tree_heads d). unat (th_size h) < 2 ^ 63) \<and>
     sorted_wrt (\<lambda>h h'. th_size h < th_size h') (tree_heads d)"

lemma sint_small:
  assumes "unat (n :: uint64) < 2 ^ 63"
  shows "sint n = uint n"
proof -
  have "int (unat n) < int (2 ^ 63)" using assms by (simp only: of_nat_less_iff)
  then have "uint n < 2 ^ 63" by (simp only: uint_nat of_nat_power of_nat_numeral)
  moreover have "- (2 ^ 63) \<le> uint n" by (rule order_trans [OF _ uint_ge_0]) simp
  ultimately show ?thesis
    by (simp add: sint_uint signed_take_bit_int_eq_self)
qed

lemma copy32_id [simp]: "length h = 32 \<Longrightarrow> copy32 h = h"
  by (simp add: copy32_def)

lemma rows_sorted: "db_ok d \<Longrightarrow> sort_key lr_leaf_index (log_entries d) = log_entries d"
  by (rule sort_key_id_if_sorted) (simp add: db_ok_def sorted_wrt_map sorted_wrt_iff_nth_less)

lemma row_index:
  assumes "db_ok d" and "i < length (log_entries d)"
  shows "lr_leaf_index (log_entries d ! i) = int i"
proof -
  have "map lr_leaf_index (log_entries d) ! i = map int [0..<length (log_entries d)] ! i"
    using assms(1) by (simp add: db_ok_def)
  then show ?thesis using assms(2) by simp
qed

lemma row_index_less:
  assumes "db_ok d" and "r \<in> set (log_entries d)"
  obtains i where "i < length (log_entries d)" "r = log_entries d ! i" "lr_leaf_index r = int i"
  using assms row_index [OF assms(1)] by (metis in_set_conv_nth)

lemma heads_sorted:
  "db_ok d \<Longrightarrow> sort_key (\<lambda>h. sint (th_size h)) (tree_heads d) = tree_heads d"
proof (rule sort_key_id_if_sorted)
  assume d: "db_ok d"
  have "sorted_wrt (\<lambda>h h'. sint (th_size h) \<le> sint (th_size h')) (tree_heads d)"
    by (rule sorted_wrt_mono_rel [of _ "\<lambda>h h'. th_size h < th_size h'"])
       (use d in \<open>auto simp: db_ok_def sint_small word_less_def\<close>)
  then show "sorted (map (\<lambda>h. sint (th_size h)) (tree_heads d))"
    by (simp add: sorted_wrt_map)
qed

lemma latest_head_last:
  assumes "db_ok d"
  shows "latest_tree_head (tree_heads d) = (if tree_heads d = [] then None else Some (last (tree_heads d)))"
proof (cases "tree_heads d" rule: rev_cases)
  case Nil
  then show ?thesis by (simp add: latest_tree_head_def)
next
  case (snoc hs h)
  with heads_sorted [OF assms] show ?thesis by (simp add: latest_tree_head_def)
qed

lemma latest_head_max:
  assumes "db_ok d" and "h \<in> set (tree_heads d)" and "latest_tree_head (tree_heads d) = Some m"
  shows "th_size h \<le> th_size m"
proof -
  from assms(2) have ne: "tree_heads d \<noteq> []" by auto
  have "tree_heads d = butlast (tree_heads d) @ [last (tree_heads d)]" using ne by simp
  moreover have "m = last (tree_heads d)"
    using assms(1,3) ne by (simp add: latest_head_last)
  moreover have "sorted_wrt (\<lambda>h h'. th_size h < th_size h') (tree_heads d)"
    using assms(1) by (simp add: db_ok_def)
  ultimately show ?thesis
    using assms(2) by (metis (no_types, lifting) Un_iff empty_iff less_imp_le list.set(1) order_refl
        set_ConsD set_append sorted_wrt_append list.set_intros(1))
qed

interpretation pool_store: transparency_store poolTransparencyStore leaf_hashes
  "\<lambda>d. latest_tree_head (tree_heads d)" db_ok
proof (unfold_locales, goal_cases)
  case (1 st idx lh e cbor sig r st')
  then have i: "sint idx = int (length (log_entries st))"
    by (simp add: sint_small leaf_hashes_def uint_nat)
  have "\<not> sql_exists (\<lambda>r. lr_leaf_index r = sint idx) (log_entries st)"
    unfolding sql_exists_iff i by (auto elim: row_index_less [OF 1(1)])
  with 1 i show ?case
    by (auto simp: log_db_defs Let_def leaf_hashes_def db_ok_def split: prod.splits if_splits)
next
  case (2 st n root fr sg r st')
  have below: "th_size h < n" if "h \<in> set (tree_heads st)" for h
    using 2(1,3) that latest_head_max [OF 2(1) that]
    by (metis latest_head_last empty_iff le_less_trans list.set(1))
  then have "\<not> sql_exists (\<lambda>h. th_size h = n) (tree_heads st)"
    by (auto simp: sql_exists_iff)
  with below 2(1,2,4) have r: "db_ok st' \<and> leaf_hashes st' = leaf_hashes st \<and>
      tree_heads st' = tree_heads st @ (if r = None then []
        else [\<lparr>th_size = n, th_root = root, th_fringe = fr, th_sig = sg\<rparr>])"
    by (auto simp: log_db_defs Let_def leaf_hashes_def db_ok_def sorted_wrt_append
        split: prod.splits if_splits)
  then show ?case using latest_head_last [OF 2(1)] latest_head_last [of st'] by auto
next
  case (3 st ra st')
  then show ?case
    by (auto simp: log_db_defs Let_def leaf_hashes_def rows_sorted db_ok_def
        split: prod.splits if_splits)
next
  case (4 st rl st')
  then show ?case
    by (auto simp: log_db_defs Let_def leaf_hashes_def db_ok_def split: prod.splits if_splits)
qed

section \<open>The running log\<close>

text \<open>
  \<open>log_ok\<close>: the in-memory tree and the rows hold the same leaves, each the leaf hash of the
  stored entry. \<open>head_saved\<close>: the stored
  tree head is the state of the tree, as it is unless the last \<open>InsertTreeHead\<close> failed.
\<close>

definition log_ok :: "log_env \<Rightarrow> log_db TransparencyService \<Rightarrow> bool" where
  "log_ok E s \<longleftrightarrow>
     tree_ok (sha256 E) (tree s) \<and> hashes32 (tree s) \<and> db_ok (store s) \<and>
     leaves (tree s) = leaf_hashes (store s) \<and>
     (\<forall>r \<in> set (log_entries (store s)). lr_leaf_hash r = LeafHash (sha256 E) (lr_entry_cbor r)) \<and>
     (\<forall>h \<in> set (tree_heads (store s)). th_size h \<le> tsize (tree s))"

definition head_saved :: "log_db TransparencyService \<Rightarrow> bool" where
  "head_saved s \<longleftrightarrow>
     (case latest_tree_head (tree_heads (store s)) of
        None \<Rightarrow> tsize (tree s) = 0
      | Some h \<Rightarrow> th_size h = tsize (tree s) \<and> th_fringe h = fringeToBytes (fringe (tree s)))"

lemma log_ok_mem_ok:
  "log_ok E s \<longleftrightarrow> pool_store.mem_ok E s \<and>
     (\<forall>r \<in> set (log_entries (store s)). lr_leaf_hash r = LeafHash (sha256 E) (lr_entry_cbor r))"
proof -
  have "(\<forall>h \<in> set (tree_heads (store s)). th_size h \<le> tsize (tree s)) \<longleftrightarrow>
      (\<forall>h. latest_tree_head (tree_heads (store s)) = Some h \<longrightarrow> th_size h \<le> tsize (tree s))"
    if d: "db_ok (store s)"
    using latest_head_max [OF d] latest_head_last [OF d]
    by (metis (no_types, lifting) last_in_set list.set_cases list.simps(3) option.inject option.simps(3) order_trans)
  then show ?thesis unfolding log_ok_def pool_store.mem_ok_def by blast
qed

lemma head_saved_head_ok: "head_saved s \<longleftrightarrow> pool_store.head_ok s"
  by (simp add: head_saved_def pool_store.head_ok_def)

definition fresh_log :: "bytes \<Rightarrow> bool list \<Rightarrow> log_db TransparencyService" where
  "fresh_log key os = \<lparr>tree = NewMerkleTree, signer = key,
     store = \<lparr>log_entries = [], tree_heads = [], outages = os\<rparr>\<rparr>"

lemma fresh_log_ok: "log_ok E (fresh_log key os)" "head_saved (fresh_log key os)"
  by (simp_all add: log_ok_def head_saved_def fresh_log_def tree_ok_new db_ok_def leaf_hashes_def
      latest_tree_head_def hashes32_def) (simp_all add: NewMerkleTree_def)

lemma log_ok_size: "log_ok E s \<Longrightarrow> unat (tsize (tree s)) = length (log_entries (store s))"
  by (metis leaf_hashes_def length_map log_ok_def tree_ok_def)

end
