(* ===== verification/Transparency_Props.thy ===== *)
theory Transparency_Props
  imports Transparency_DB
begin

text \<open>
  What the transparency log promises over its database: a signed answer is provable, a
  refused one leaves no trace, a restart changes nothing, and the outages after which
  these promises are lost.
\<close>

section \<open>Appending over the database\<close>

text \<open>One successful append: the new row, and a tree head unless that write failed.\<close>

lemma pool_insert_Some:
  "InsertLogEntry poolTransparencyStore idx e cbor lh sig d = (Some u, d') \<Longrightarrow>
   log_entries d' = log_entries d @
     [\<lparr>lr_leaf_index = sint idx, lr_operation = OperationType e,
       lr_user_pub_key = nil_bytes (UserPublicKey e), lr_subject_key = SubjectKey e,
       lr_entry_cbor = cbor, lr_leaf_hash = lh, lr_user_sig = nil_bytes (UserSignature e),
       lr_log_sig = sig\<rparr>] \<and>
   tree_heads d' = tree_heads d \<and> outages d' = snd (next_fault (outages d))"
  by (auto simp: log_db_defs Let_def split: prod.splits if_splits)

lemma pool_insert_None:
  "InsertLogEntry poolTransparencyStore idx e cbor lh sig d = (None, d') \<Longrightarrow>
   log_entries d' = log_entries d \<and> tree_heads d' = tree_heads d"
  by (auto simp: log_db_defs Let_def split: prod.splits if_splits)

lemma pool_head_rows:
  "InsertTreeHead poolTransparencyStore n root fr sg d = (x, d') \<Longrightarrow> log_entries d' = log_entries d"
  by (auto simp: log_db_defs Let_def split: prod.splits if_splits)

lemma pool_append:
  assumes "AppendEntry E poolTransparencyStore s e = (Inr res, s')" and "tree_ok (sha256 E) (tree s)"
    and "unat (tsize (tree s)) < 2 ^ 64 - 1"
  obtains cbor row where "MarshalCBOR E e = Some cbor"
    "log_entries (store s') = log_entries (store s) @ [row]"
    "lr_leaf_index row = sint (tsize (tree s))" "lr_operation row = OperationType e"
    "lr_user_pub_key row = nil_bytes (UserPublicKey e)" "lr_entry_cbor row = cbor"
    "lr_leaf_hash row = LeafHash (sha256 E) cbor" "lr_log_sig row = ar_LogSignature res"
    "ar_LeafIndex res = tsize (tree s)" "signer s' = signer s"
proof -
  obtain cbor t' logSig st u x st' where
    c: "MarshalCBOR E e = Some cbor" and
    i: "InsertLogEntry poolTransparencyStore (tsize (tree s)) e cbor (LeafHash (sha256 E) cbor) logSig
       (store s) = (Some u, st)" and
    h: "InsertTreeHead poolTransparencyStore (tsize t') (MTH (sha256 E) (leaves t'))
       (fringeToBytes (fringe t'))
       (Sign E (signer s) (MTH (sha256 E) (leaves t') @ fringeToBytes (fringe t'))) st = (x, st')" and
    s: "s' = s\<lparr>tree := t', store := st'\<rparr>" and
    r: "res = \<lparr>ar_LeafIndex = tsize (tree s), ar_TreeSize = tsize t',
       ar_AuditPath = audit_path (build_levels (sha256 E) (leaves t')) (unat (tsize (tree s))),
       ar_RootHash = MTH (sha256 E) (leaves t'), ar_LogSignature = logSig\<rparr>"
    by (rule AppendEntry_Inr [OF assms])
  have "log_entries (store s') = log_entries (store s) @
      [\<lparr>lr_leaf_index = sint (tsize (tree s)), lr_operation = OperationType e,
        lr_user_pub_key = nil_bytes (UserPublicKey e), lr_subject_key = SubjectKey e,
        lr_entry_cbor = cbor, lr_leaf_hash = LeafHash (sha256 E) cbor,
        lr_user_sig = nil_bytes (UserSignature e), lr_log_sig = logSig\<rparr>]"
    using pool_insert_Some [OF i] pool_head_rows [OF h] s by simp
  from that [OF c this] r s show thesis by simp
qed

lemma pool_insert_None_iff:
  assumes "log_ok E s" and "unat (tsize (tree s)) < 2 ^ 63"
  shows "fst (InsertLogEntry poolTransparencyStore (tsize (tree s)) e cbor lh sig (store s)) = None \<longleftrightarrow>
    fst (next_fault (outages (store s))) \<or> OperationType e \<notin> set log_operations"
proof -
  have "db_ok (store s)" using assms(1) by (simp add: log_ok_def)
  moreover have "sint (tsize (tree s)) = int (length (log_entries (store s)))"
    using log_ok_size [OF assms(1)] sint_small [OF assms(2)] by (simp add: uint_nat)
  ultimately have "\<not> sql_exists (\<lambda>r. lr_leaf_index r = sint (tsize (tree s))) (log_entries (store s))"
    by (auto simp: sql_exists_iff elim: row_index_less)
  then show ?thesis by (simp add: log_db_defs Let_def split: prod.splits)
qed

lemma append_Inr_iff:
  assumes "log_ok E s" and "unat (tsize (tree s)) < 2 ^ 63"
  shows "(\<exists>res. fst (AppendEntry E poolTransparencyStore s e) = Inr res) \<longleftrightarrow>
    check_user_signature E e = None \<and> MarshalCBOR E e \<noteq> None \<and>
    OperationType e \<in> set log_operations \<and> \<not> fst (next_fault (outages (store s)))"
proof -
  have t: "tree_ok (sha256 E) (tree s)" "unat (tsize (tree s)) < 2 ^ 64 - 1"
    using assms by (simp_all add: log_ok_def)
  note P = pool_insert_None_iff [OF assms, of e]
  obtain r s' where a: "AppendEntry E poolTransparencyStore s e = (r, s')" by (metis surj_pair)
  show ?thesis
  proof (cases r)
    case (Inl err)
    with a have "AppendEntry E poolTransparencyStore s e = (Inl err, s')" by simp
    then show ?thesis
      by (cases rule: AppendEntry_Inl [OF _ t]) (use a Inl P in \<open>auto dest!: arg_cong [of _ _ fst]\<close>)
  next
    case (Inr res)
    with a have i: "AppendEntry E poolTransparencyStore s e = (Inr res, s')" by simp
    then have "check_user_signature E e = None"
      by (auto simp: AppendEntry_def split: option.splits)
    moreover obtain cbor logSig u st where "MarshalCBOR E e = Some cbor"
      "InsertLogEntry poolTransparencyStore (tsize (tree s)) e cbor (LeafHash (sha256 E) cbor) logSig
         (store s) = (Some u, st)"
      using AppendEntry_Inr [OF i t] by metis
    ultimately show ?thesis using P [of cbor "LeafHash (sha256 E) cbor" logSig] a Inr by auto
  qed
qed

text \<open>Writing a larger tree head makes it the latest one, whatever the rows are.\<close>

lemma pool_head_latest:
  assumes "db_ok d0" and "tree_heads d = tree_heads d0" and "outages d = []"
    and "\<And>h. h \<in> set (tree_heads d0) \<Longrightarrow> th_size h < n" and "unat n < 2 ^ 63"
    and "InsertTreeHead poolTransparencyStore n root fr sg d = (x, d')"
  shows "latest_tree_head (tree_heads d') = Some \<lparr>th_size = n, th_root = root, th_fringe = fr, th_sig = sg\<rparr> \<and>
    outages d' = []"
proof -
  let ?d0 = "d0\<lparr>outages := []\<rparr>"
  have "db_ok ?d0" using assms(1) by (simp add: db_ok_def)
  moreover have "th_size h < n" if "latest_tree_head (tree_heads ?d0) = Some h" for h
    using that latest_head_last [OF assms(1)] assms(4) by (auto split: if_splits)
  moreover obtain y d1 where i: "InsertTreeHead poolTransparencyStore n root fr sg ?d0 = (y, d1)"
    by (metis surj_pair)
  ultimately have "latest_tree_head (tree_heads d1) = (if y = None then latest_tree_head (tree_heads ?d0)
      else Some \<lparr>th_size = n, th_root = root, th_fringe = fr, th_sig = sg\<rparr>)"
    using pool_store.insert_head [OF _ assms(5) _ i] by blast
  moreover have "y = Some () \<and> tree_heads d1 = tree_heads d' \<and> outages d' = []"
    using i assms(2,3,6) by (auto simp: log_db_defs Let_def split: if_splits)
  ultimately show ?thesis by simp
qed

text \<open>Without outages a successful append saves its tree head.\<close>

lemma append_saves_head:
  assumes "AppendEntry E poolTransparencyStore s e = (Inr res, s')" and "tree_ok (sha256 E) (tree s)"
    and "unat (tsize (tree s)) < 2 ^ 63 - 1" and "outages (store s) = []"
    and "db_ok d0" and "tree_heads (store s) = tree_heads d0"
    and "\<And>h. h \<in> set (tree_heads d0) \<Longrightarrow> th_size h \<le> tsize (tree s)"
  shows "head_saved s' \<and> outages (store s') = [] \<and> tsize (tree s') = tsize (tree s) + 1"
proof -
  have lt: "unat (tsize (tree s)) < 2 ^ 64 - 1" using assms(3) by simp
  obtain cbor t' logSig st u x st' where
    t: "tsize t' = tsize (tree s) + 1" "unat (tsize t') = Suc (unat (tsize (tree s)))" and
    i: "InsertLogEntry poolTransparencyStore (tsize (tree s)) e cbor (LeafHash (sha256 E) cbor) logSig
       (store s) = (Some u, st)" and
    h: "InsertTreeHead poolTransparencyStore (tsize t') (MTH (sha256 E) (leaves t'))
       (fringeToBytes (fringe t'))
       (Sign E (signer s) (MTH (sha256 E) (leaves t') @ fringeToBytes (fringe t'))) st = (x, st')" and
    s: "s' = s\<lparr>tree := t', store := st'\<rparr>"
    by (rule AppendEntry_Inr [OF assms(1,2) lt])
  have st: "tree_heads st = tree_heads d0" "outages st = []"
    using pool_insert_Some [OF i] assms(4,6) by simp_all
  have "tsize (tree s) < tsize t'" using t(2) by (simp add: word_less_nat_alt)
  then have "th_size g < tsize t'" if "g \<in> set (tree_heads d0)" for g
    using assms(7) [OF that] by (rule le_less_trans [rotated])
  moreover have "unat (tsize t') < 2 ^ 63" using t(2) assms(3) by simp
  ultimately have "latest_tree_head (tree_heads st') = Some \<lparr>th_size = tsize t',
      th_root = MTH (sha256 E) (leaves t'), th_fringe = fringeToBytes (fringe t'),
      th_sig = Sign E (signer s) (MTH (sha256 E) (leaves t') @ fringeToBytes (fringe t'))\<rparr> \<and> outages st' = []"
    by (rule pool_head_latest [OF assms(5) st _ _ h])
  then show ?thesis by (simp add: s t(1) head_saved_def)
qed

text \<open>What a restart reads.\<close>

lemma restart_reads:
  assumes "NewTransparencyService poolTransparencyStore d key = (Inr s', d')"
  shows "tree s' = (case latest_tree_head (tree_heads d) of
      None \<Rightarrow> NewMerkleTree
    | Some h \<Rightarrow> \<lparr>leaves = map (\<lambda>r. copy32 (lr_leaf_hash r)) (sort_key lr_leaf_index (log_entries d)),
                 fringe = fringeFromBytes (th_fringe h), tsize = th_size h\<rparr>) \<and>
    log_entries (store s') = log_entries d \<and> tree_heads (store s') = tree_heads d \<and> signer s' = key"
  using assms
  by (auto simp: NewTransparencyService_def RecoverFromDB_def log_db_defs Let_def SetLeaves_def
      FromFringe_def split: prod.splits option.splits if_splits)

lemma new_tree_sel [simp]: "tsize NewMerkleTree = 0" "leaves NewMerkleTree = []" "fringe NewMerkleTree = []"
  by (simp_all add: NewMerkleTree_def)

text \<open>The toy environment of the witnesses: any bytes may stand for CBOR and signatures.\<close>

definition toy_log :: log_env where
  "toy_log = \<lparr>sha256 = pad_hash,
     cbor_marshal = (\<lambda>c. case c of logEntryFields1To4 op _ _ ts \<Rightarrow> Some [1, word_of_int ts]
       | logEntryFull op _ _ ts _ \<Rightarrow> Some [2, word_of_int ts]),
     ed25519_sign = (\<lambda>k m. k @ m), ed25519_verify = (\<lambda>pk m sg. sg = m)\<rparr>"

definition toy_entry :: "int \<Rightarrow> LogEntry" where
  "toy_entry ts = \<lparr>OperationType = OpRegister, UserPublicKey = Some (replicate 32 9),
     SubjectKey = None, Timestamp = ts, UserSignature = None\<rparr>"

lemma toy_hash [simp]: "length (sha256 toy_log x) = 32"
  by (simp add: toy_log_def)

lemma toy_append:
  assumes "log_ok toy_log s" and "unat (tsize (tree s)) < 2 ^ 63"
    and "\<not> fst (next_fault (outages (store s)))"
  obtains res s' where "AppendEntry toy_log poolTransparencyStore s (toy_entry ts) = (Inr res, s')"
  using append_Inr_iff [OF assms(1,2), of "toy_entry ts"] assms(3)
  by (auto simp: toy_entry_def toy_log_def check_user_signature_def nil_bytes_def MarshalCBOR_def
      log_operations_def) (metis prod.collapse)

lemma append_keeps_log_ok:
  assumes "log_ok E s" and "\<And>x. length (sha256 E x) = 32" and "unat (tsize (tree s)) < 2 ^ 63 - 1"
    and "AppendEntry E poolTransparencyStore s e = (Inr res, s')"
  shows "log_ok E s'"
proof -
  have m: "pool_store.mem_ok E s" and t: "tree_ok (sha256 E) (tree s)" "unat (tsize (tree s)) < 2 ^ 64 - 1"
    using assms(1,3) log_ok_mem_ok by (auto simp: log_ok_def)
  obtain cbor row where "log_entries (store s') = log_entries (store s) @ [row]"
    "lr_leaf_hash row = LeafHash (sha256 E) (lr_entry_cbor row)"
    by (rule pool_append [OF assms(4) t]) simp
  then show ?thesis
    using assms(1) pool_store.append_success [OF m assms(2-4)] by (auto simp: log_ok_mem_ok)
qed

text \<open>The proofs of one \<open>GetProof\<close> call under a tree that does not change meanwhile.\<close>

lemma entry_proofs_ok:
  assumes "tree_ok (sha256 E) t" and "unat (tsize t) < 2 ^ 63"
    and "\<And>row. row \<in> set rows \<Longrightarrow> \<exists>i. lr_leaf_index row = int i \<and> i < length (leaves t) \<and>
      leaves t ! i = LeafHash (sha256 E) (lr_entry_cbor row)"
  shows "list_all2 (\<lambda>row p. int (unat (ip_LeafIndex p)) = lr_leaf_index row \<and>
      VerifyProof (sha256 E) (lr_entry_cbor row) (ip_LeafIndex p) (tsize t) (ip_AuditPath p) (MTH (sha256 E) (leaves t)) \<and>
      ip_LogSig p = countersignProof E key row (MTH (sha256 E) (leaves t)))
    rows (entry_proofs E key (\<lambda>_. t) k (tsize t) (MTH (sha256 E) (leaves t)) rows)"
  using assms(3)
proof (induction rows arbitrary: k)
  case Nil
  then show ?case by simp
next
  case (Cons row rows)
  let ?idx = "word_of_int (lr_leaf_index row) :: uint64"
  obtain i where i: "lr_leaf_index row = int i" "i < length (leaves t)"
    "leaves t ! i = LeafHash (sha256 E) (lr_entry_cbor row)"
    using Cons.prems [of row] by auto
  have len: "length (leaves t) = unat (tsize t)" using assms(1) by (simp add: tree_ok_def)
  have "i < 2 ^ LENGTH(64)" using i(2) len assms(2) by simp
  then have u: "unat ?idx = i" by (simp add: i(1) unat_of_nat take_bit_nat_eq_self)
  then have lt: "?idx < tsize t" and ui: "uint ?idx = int i"
    using i(2) len by (simp_all add: word_less_nat_alt uint_nat del: of_nat_unat)
  have "unat (tsize t) < 2 ^ 64 - 1" using assms(2) by simp
  from VerifyProof_ok [OF assms(1) this lt, of "lr_entry_cbor row"] Proof_ok [OF assms(1) lt]
  show ?case using Cons.IH [of "Suc k"] Cons.prems i u ui by (simp add: Let_def)
qed

section \<open>The properties\<close>

text \<open>
  C4. An append that returns a countersignature has logged the entry: its row is written
  last, at the index the answer names, the returned audit path verifies the stored CBOR
  against the returned root and size, the signature covers CBOR, index and root, and
  memory and database agree again.
\<close>

theorem append_is_provable:
  assumes "log_ok E s" and "\<And>x. length (sha256 E x) = 32"
    and "unat (tsize (tree s)) < 2 ^ 63 - 1"
    and "AppendEntry E poolTransparencyStore s e = (Inr res, s')"
  shows "\<exists>cbor row. MarshalCBOR E e = Some cbor \<and> log_ok E s' \<and>
    log_entries (store s') = log_entries (store s) @ [row] \<and>
    lr_leaf_index row = int (unat (ar_LeafIndex res)) \<and> lr_entry_cbor row = cbor \<and>
    ar_TreeSize res = tsize (tree s') \<and>
    VerifyProof (sha256 E) cbor (ar_LeafIndex res) (ar_TreeSize res) (ar_AuditPath res) (ar_RootHash res) \<and>
    ar_LogSignature res = ed25519_sign E (signer s)
      (cbor @ leafIndexBigEndian (ar_LeafIndex res) @ ar_RootHash res)"
proof -
  let ?H = "sha256 E"
  have m: "pool_store.mem_ok E s" using assms(1) log_ok_mem_ok by blast
  have ok: "tree_ok ?H (tree s)" and lt: "unat (tsize (tree s)) < 2 ^ 64 - 1"
    using assms(1,3) by (simp_all add: log_ok_def)
  obtain cbor where c: "MarshalCBOR E e = Some cbor" "pool_store.mem_ok E s'"
    "leaves (tree s') = leaves (tree s) @ [LeafHash ?H cbor]" "ar_LeafIndex res = tsize (tree s)"
    "ar_TreeSize res = tsize (tree s) + 1" "ar_TreeSize res = tsize (tree s')"
    "ar_RootHash res = MTH ?H (leaves (tree s'))"
    "Proof ?H (tree s') (ar_LeafIndex res) = Inr (ar_AuditPath res)"
    "Countersign E (signer s) e (ar_LeafIndex res) (ar_RootHash res) = Some (ar_LogSignature res)"
    using pool_store.append_success [OF m assms(2-4)] by blast
  obtain row where r: "log_entries (store s') = log_entries (store s) @ [row]"
    "lr_leaf_index row = sint (tsize (tree s))" "lr_entry_cbor row = cbor"
    "lr_leaf_hash row = LeafHash ?H cbor"
    using pool_append [OF assms(4) ok lt] c(1) by (metis option.inject)
  have ok': "tree_ok ?H (tree s')" using c(2) by (simp add: pool_store.mem_ok_def)
  have sz: "unat (tsize (tree s')) = Suc (unat (tsize (tree s)))"
    using unat_Suc64 [OF lt] c(5,6) by simp
  then have i: "ar_LeafIndex res < tsize (tree s')" and lt': "unat (tsize (tree s')) < 2 ^ 64 - 1"
    using c(4) assms(3) by (simp_all add: word_less_nat_alt)
  have "leaves (tree s') ! unat (ar_LeafIndex res) = LeafHash ?H cbor"
    using c(3,4) ok by (simp add: tree_ok_def nth_append)
  from VerifyProof_ok [OF ok' lt' i this] Proof_ok [OF ok' i]
  have "VerifyProof ?H cbor (ar_LeafIndex res) (ar_TreeSize res) (ar_AuditPath res) (ar_RootHash res)"
    using c(6-8) by simp
  moreover have "log_ok E s'" by (rule append_keeps_log_ok [OF assms])
  moreover have "lr_leaf_index row = int (unat (ar_LeafIndex res))"
    using r(2) c(4) assms(3) sint_small [of "tsize (tree s)"] by simp
  ultimately show ?thesis
    using c(1,6,9) r by (simp add: Countersign_def)
qed

lemma append_is_provable_witness:
  "\<exists>res s' cbor row. AppendEntry toy_log poolTransparencyStore (fresh_log [5] []) (toy_entry 3) = (Inr res, s') \<and>
    MarshalCBOR toy_log (toy_entry 3) = Some cbor \<and> log_ok toy_log s' \<and>
    log_entries (store s') = log_entries (store (fresh_log [5] [])) @ [row] \<and>
    VerifyProof (sha256 toy_log) cbor (ar_LeafIndex res) (ar_TreeSize res) (ar_AuditPath res) (ar_RootHash res)"
proof -
  let ?s = "fresh_log [5] []"
  have sz: "unat (tsize (tree ?s)) < 2 ^ 63 - 1" by (simp add: fresh_log_def NewMerkleTree_def)
  then obtain res s' where a: "AppendEntry toy_log poolTransparencyStore ?s (toy_entry 3) = (Inr res, s')"
    by (rule_tac toy_append [OF fresh_log_ok(1), of "[5]" "[]" 3]) (simp_all add: fresh_log_def NewMerkleTree_def)
  from append_is_provable [OF fresh_log_ok(1) toy_hash sz a] a show ?thesis by blast
qed

text \<open>
  An append is refused exactly when the user's signature does not verify, the entry
  does not marshal, its operation is not one the log knows, or the row cannot be written;
  a refusal writes no row and no tree head, and unless it came from the row insert it
  changes nothing at all.
\<close>

theorem append_refusal:
  assumes "log_ok E s" and "unat (tsize (tree s)) < 2 ^ 63"
  shows "((\<exists>err. fst (AppendEntry E poolTransparencyStore s e) = Inl err) \<longleftrightarrow>
      check_user_signature E e \<noteq> None \<or> MarshalCBOR E e = None \<or>
      OperationType e \<notin> set log_operations \<or> fst (next_fault (outages (store s)))) \<and>
    (\<forall>err s'. AppendEntry E poolTransparencyStore s e = (Inl err, s') \<longrightarrow>
      log_entries (store s') = log_entries (store s) \<and> tree_heads (store s') = tree_heads (store s) \<and>
      (check_user_signature E e \<noteq> None \<or> MarshalCBOR E e = None \<longrightarrow> s' = s))"
proof -
  have t: "tree_ok (sha256 E) (tree s)" "unat (tsize (tree s)) < 2 ^ 64 - 1"
    using assms by (simp_all add: log_ok_def)
  have "(\<exists>err. fst (AppendEntry E poolTransparencyStore s e) = Inl err) \<longleftrightarrow>
      \<not> (\<exists>res. fst (AppendEntry E poolTransparencyStore s e) = Inr res)"
    by (cases "fst (AppendEntry E poolTransparencyStore s e)") auto
  note iff = this [unfolded append_Inr_iff [OF assms] de_Morgan_conj not_not]
  have keep: "log_entries (store s') = log_entries (store s) \<and> tree_heads (store s') = tree_heads (store s) \<and>
      (check_user_signature E e \<noteq> None \<or> MarshalCBOR E e = None \<longrightarrow> s' = s)"
    if a: "AppendEntry E poolTransparencyStore s e = (Inl err, s')" for err s'
    by (cases rule: AppendEntry_Inl [OF a t]) (auto dest: pool_insert_None)
  show ?thesis by (intro conjI allI impI, rule iff) (use keep in blast)+
qed

lemma append_refusal_witness:
  "(\<exists>err. fst (AppendEntry toy_log poolTransparencyStore (fresh_log [5] [True]) (toy_entry 3)) = Inl err) \<longleftrightarrow>
      check_user_signature toy_log (toy_entry 3) \<noteq> None \<or> MarshalCBOR toy_log (toy_entry 3) = None \<or>
      OperationType (toy_entry 3) \<notin> set log_operations \<or> fst (next_fault [True])"
proof -
  have "unat (tsize (tree (fresh_log [5] [True]))) < 2 ^ 63"
    by (simp add: fresh_log_def NewMerkleTree_def)
  from append_refusal [OF fresh_log_ok(1) this, of toy_log "toy_entry 3"] show ?thesis
    by (simp add: fresh_log_def)
qed

text \<open>
  C5. A restart loses nothing: the service built from the database of a consistent log,
  whose last tree head was saved, has the same tree, so the same root and the same proofs,
  and is consistent again.
\<close>

theorem restart_rebuilds:
  assumes "log_ok E s" and "head_saved s" and "\<And>x. length (sha256 E x) = 32"
    and "NewTransparencyService poolTransparencyStore (store s) key = (Inr s', d)"
  shows "tree s' = tree s \<and> signer s' = key \<and> log_ok E s' \<and> head_saved s'"
proof -
  have m: "pool_store.mem_ok E s" "pool_store.head_ok s"
    using assms(1,2) log_ok_mem_ok head_saved_head_ok by blast+
  note R = pool_store.restart_tree [OF m assms(3,4)]
  have "log_entries (store s') = log_entries (store s)"
    using assms(4) by (auto simp: NewTransparencyService_def RecoverFromDB_def log_db_defs Let_def
        split: prod.splits option.splits if_splits)
  with R assms(1) show ?thesis by (simp add: log_ok_mem_ok head_saved_head_ok)
qed

lemma restart_rebuilds_witness:
  "\<exists>res s s'. AppendEntry toy_log poolTransparencyStore (fresh_log [5] []) (toy_entry 3) = (Inr res, s) \<and>
     fst (NewTransparencyService poolTransparencyStore (store s) [6]) = Inr s' \<and>
     tree s' = tree s \<and> signer s' = [6] \<and> log_ok toy_log s' \<and> head_saved s'"
proof -
  let ?s = "fresh_log [5] []"
  have f: "tree ?s = NewMerkleTree" "outages (store ?s) = []" "tree_heads (store ?s) = []"
    "unat (tsize (tree ?s)) = 0"
    by (simp_all add: fresh_log_def NewMerkleTree_def)
  have sz: "unat (tsize (tree ?s)) < 2 ^ 63 - 1" by (subst f(4)) simp
  obtain res s where a: "AppendEntry toy_log poolTransparencyStore ?s (toy_entry 3) = (Inr res, s)"
    by (rule toy_append [OF fresh_log_ok(1), of "[5]" "[]" 3]) (simp_all add: f)
  have ok: "db_ok (store ?s)" using fresh_log_ok(1) log_ok_def by blast
  have h: "head_saved s" "outages (store s) = []"
    using append_saves_head [OF a _ sz f(2) ok refl] f tree_ok_new by auto
  have "log_ok toy_log s" by (rule append_keeps_log_ok [OF fresh_log_ok(1) toy_hash sz a])
  moreover obtain r d where n: "NewTransparencyService poolTransparencyStore (store s) [6] = (r, d)"
    by (metis surj_pair)
  moreover obtain s' where "r = Inr s'"
    using n h(2) by (auto simp: NewTransparencyService_def RecoverFromDB_def log_db_defs Let_def
        split: prod.splits option.splits)
  ultimately show ?thesis
    using restart_rebuilds [OF _ h(1) toy_hash] a by (metis fst_conv)
qed

text \<open>
  C6. A failed row insert is not rolled back in memory: the in-memory tree keeps the leaf,
  the next entry is logged one index further with a countersignature, no row ever has the
  skipped index, and after a restart the tree has one leaf less than its size.
\<close>

theorem insert_failure_gap:
  assumes "log_ok E s" and "unat (tsize (tree s)) < 2 ^ 63 - 2"
    and "AppendEntry E poolTransparencyStore s e1 = (Inl ErrPersistEntry, s1)" and "outages (store s1) = []"
    and "AppendEntry E poolTransparencyStore s1 e2 = (Inr res, s2)"
    and "NewTransparencyService poolTransparencyStore (store s2) key = (Inr s3, d)"
  shows "ar_LeafIndex res = tsize (tree s) + 1 \<and>
    (\<forall>r \<in> set (log_entries (store s2)). lr_leaf_index r \<noteq> int (unat (tsize (tree s)))) \<and>
    unat (tsize (tree s3)) = Suc (length (leaves (tree s3))) \<and> \<not> tree_ok (sha256 E) (tree s3)"
proof -
  let ?n = "tsize (tree s)"
  have t: "tree_ok (sha256 E) (tree s)" "unat ?n < 2 ^ 64 - 1" and d: "db_ok (store s)"
    and hs: "\<And>h. h \<in> set (tree_heads (store s)) \<Longrightarrow> th_size h \<le> ?n"
    using assms(1,2) by (simp_all add: log_ok_def)
  obtain cbor t' logSig st where
    t': "tree_ok (sha256 E) t'" "tsize t' = ?n + 1" and
    i: "InsertLogEntry poolTransparencyStore ?n e1 cbor (LeafHash (sha256 E) cbor) logSig (store s) = (None, st)" and
    s1: "s1 = s\<lparr>tree := t', store := st\<rparr>"
    by (cases rule: AppendEntry_Inl [OF assms(3) t]) auto
  have st: "log_entries st = log_entries (store s)" "tree_heads st = tree_heads (store s)"
    using pool_insert_None [OF i] by simp_all
  have n: "unat (?n + 1) = Suc (unat ?n)" by (rule unat_Suc64 [OF t(2)])
  have lt: "?n < ?n + 1" using n by (simp add: word_less_nat_alt)
  have sz: "unat (tsize (tree s1)) < 2 ^ 63 - 1" "unat (tsize (tree s1)) < 2 ^ 64 - 1"
    using assms(2) n by (simp_all add: s1 t'(2))
  have ok1: "tree_ok (sha256 E) (tree s1)" by (simp add: s1 t'(1))
  have le: "th_size h \<le> tsize (tree s1)" if "h \<in> set (tree_heads (store s))" for h
    using hs [OF that] lt by (simp add: s1 t'(2))
  obtain row where row: "log_entries (store s2) = log_entries (store s) @ [row]"
    "lr_leaf_index row = sint (?n + 1)" "ar_LeafIndex res = ?n + 1"
    using pool_append [OF assms(5) ok1 sz(2)] by (auto simp: s1 st t'(2))
  have saved: "head_saved s2" "outages (store s2) = []" "tsize (tree s2) = ?n + 1 + 1"
    using append_saves_head [OF assms(5) ok1 sz(1) assms(4) d _ le] by (simp_all add: s1 st t'(2))
  have idx: "lr_leaf_index row = int (Suc (unat ?n))"
    using row(2) sint_small [of "?n + 1"] n assms(2) by (simp add: uint_nat del: of_nat_unat)
  have "lr_leaf_index r \<noteq> int (unat ?n)" if "r \<in> set (log_entries (store s2))" for r
    using that row(1) idx log_ok_size [OF assms(1)] by (auto elim: row_index_less [OF d])
  moreover have nn: "unat (?n + 1 + 1) = Suc (Suc (unat ?n))"
    using unat_Suc64 [of "?n + 1"] n assms(2) by simp
  moreover have "length (leaves (tree s3)) = length (log_entries (store s2)) \<and> tsize (tree s3) = ?n + 1 + 1"
  proof -
    have "tsize (tree s2) \<noteq> 0" using nn saved(3) by auto
    then show ?thesis
      using restart_reads [OF assms(6)] saved(1,3) by (auto simp: head_saved_def split: option.splits)
  qed
  ultimately show ?thesis
    using row(1,3) log_ok_size [OF assms(1)] by (simp add: tree_ok_def)
qed

lemma insert_failure_gap_witness:
  "\<exists>s1 res s2 s3. fst (AppendEntry toy_log poolTransparencyStore (fresh_log [5] [True]) (toy_entry 3)) = Inl ErrPersistEntry \<and>
    AppendEntry toy_log poolTransparencyStore s1 (toy_entry 4) = (Inr res, s2) \<and>
    ar_LeafIndex res = 1 \<and> (\<forall>r \<in> set (log_entries (store s2)). lr_leaf_index r \<noteq> 0) \<and>
    fst (NewTransparencyService poolTransparencyStore (store s2) [5]) = Inr s3 \<and>
    \<not> tree_ok (sha256 toy_log) (tree s3)"
proof -
  let ?s = "fresh_log [5] [True]"
  let ?c = "[2, 3] :: bytes"
  let ?t = "\<lparr>leaves = [LeafHash pad_hash ?c], fringe = [LeafHash pad_hash ?c], tsize = 1\<rparr>"
  let ?s1 = "?s\<lparr>tree := ?t, store := (store ?s)\<lparr>outages := []\<rparr>\<rparr>"
  have s: "tsize (tree ?s) = 0" "outages (store ?s1) = []" by (simp_all add: fresh_log_def)
  have "append_carry pad_hash 0 [] (LeafHash pad_hash ?c) = Some [LeafHash pad_hash ?c]"
    by (simp add: append_carry.simps)
  then have a1: "AppendEntry toy_log poolTransparencyStore ?s (toy_entry 3) = (Inl ErrPersistEntry, ?s1)"
    by (simp add: AppendEntry_def check_user_signature_def nil_bytes_def MarshalCBOR_def toy_log_def
        toy_entry_def entry_LeafHash_def LeafHash_def Append_def Root_def persist_append_def
        Countersign_def log_db_defs Let_def fresh_log_def)
  have "append_carry pad_hash 1 [LeafHash pad_hash ?c] (LeafHash pad_hash [2, 4]) =
      Some [NodeHash pad_hash (LeafHash pad_hash ?c) (LeafHash pad_hash [2, 4])]"
    by (simp add: append_carry.simps)
  then have "\<exists>res s2. AppendEntry toy_log poolTransparencyStore ?s1 (toy_entry 4) = (Inr res, s2) \<and>
      outages (store s2) = []"
    by (simp add: AppendEntry_def check_user_signature_def nil_bytes_def MarshalCBOR_def toy_log_def
        toy_entry_def entry_LeafHash_def LeafHash_def Append_def Root_def persist_append_def
        Countersign_def log_db_defs Let_def fresh_log_def log_operations_def sql_exists_def)
  then obtain res s2 where a2: "AppendEntry toy_log poolTransparencyStore ?s1 (toy_entry 4) = (Inr res, s2)"
    "outages (store s2) = []" by blast
  obtain r d where n: "NewTransparencyService poolTransparencyStore (store s2) [5] = (r, d)"
    by (metis surj_pair)
  then obtain s3 where "r = Inr s3"
    using a2(2) by (auto simp: NewTransparencyService_def RecoverFromDB_def log_db_defs Let_def
        split: prod.splits option.splits)
  with n insert_failure_gap [OF fresh_log_ok(1) _ a1 s(2) a2(1)] a1 a2 s(1) show ?thesis
    by (intro exI [of _ ?s1] exI [of _ res] exI [of _ s2] exI [of _ s3]) simp
qed

text \<open>
  A tree head that was not saved forks the log at the next start: the service restarts
  on the older head, the first entry it accepts afterwards is refused by the database, and
  the in-memory log of the size already countersigned has another leaf at that index, so
  another root.
\<close>

theorem head_failure_forks:
  assumes "log_ok E s" and "head_saved s" and "\<And>x. length (sha256 E x) = 32"
    and "unat (tsize (tree s)) < 2 ^ 63 - 1"
    and "AppendEntry E poolTransparencyStore s e1 = (Inr res, s1)"
    and "tree_heads (store s1) = tree_heads (store s)"
    and "NewTransparencyService poolTransparencyStore (store s1) key = (Inr s2, d)"
    and "check_user_signature E e2 = None" and "MarshalCBOR E e1 = Some cbor1"
    and "MarshalCBOR E e2 = Some cbor2"
    and "AppendEntry E poolTransparencyStore s2 e2 = (r, s3)"
  shows "r = Inl ErrPersistEntry \<and> tsize (tree s3) = ar_TreeSize res \<and>
    ar_RootHash res = MTH (sha256 E) (leaves (tree s) @ [LeafHash (sha256 E) cbor1]) \<and>
    Root (sha256 E) (tree s3) = Some (MTH (sha256 E) (leaves (tree s) @ [LeafHash (sha256 E) cbor2]))"
proof -
  let ?H = "sha256 E" and ?n = "tsize (tree s)"
  have t: "tree_ok ?H (tree s)" "hashes32 (tree s)" "unat ?n < 2 ^ 64 - 1" and d: "db_ok (store s)"
    using assms(1,4) by (simp_all add: log_ok_def)
  have m: "pool_store.mem_ok E s" using assms(1) log_ok_mem_ok by blast
  have res: "ar_TreeSize res = ?n + 1" "ar_RootHash res = MTH ?H (leaves (tree s) @ [LeafHash ?H cbor1])"
    using pool_store.append_success [OF m assms(3-5)] assms(9) by auto
  obtain row where row: "log_entries (store s1) = log_entries (store s) @ [row]" "lr_leaf_index row = sint ?n"
    by (rule pool_append [OF assms(5) t(1,3)])
  have fr: "fringeFromBytes (fringeToBytes (fringe (tree s))) = fringe (tree s)"
    by (rule fringe_roundtrip [OF tree_fringe_len32 [OF assms(3) t(1,2)]])
  define ls where "ls = leaves (tree s2)"
  have new: "?n = 0 \<Longrightarrow> fringe (tree s) = []" using t(1) by (simp add: tree_ok_def)
  have s2: "tree s2 = (tree s)\<lparr>leaves := ls\<rparr>" "log_entries (store s2) = log_entries (store s1)"
    using restart_reads [OF assms(7)] assms(2,6) fr new
    by (auto simp: head_saved_def ls_def split: option.splits)
  obtain t' where t': "Append ?H (tree s) cbor2 = Some (t', ?n)" "tree_ok ?H t'"
    "leaves t' = leaves (tree s) @ [LeafHash ?H cbor2]" "tsize t' = ?n + 1"
    using Append_ok [OF t(1,3)] by blast
  then have a: "Append ?H (tree s2) cbor2 = Some (t'\<lparr>leaves := ls @ [LeafHash ?H cbor2]\<rparr>, ?n)"
    by (auto simp: s2 Append_def Let_def split: option.splits)
  have r: "Root ?H (t'\<lparr>leaves := ls @ [LeafHash ?H cbor2]\<rparr>) = Some (MTH ?H (leaves t'))"
    using Root_ok [OF t'(2)] by (cases "fringe t'") (simp_all add: Root_def split: if_splits)
  have "sql_exists (\<lambda>r. lr_leaf_index r = sint ?n) (log_entries (store s2))"
    using row by (simp add: s2 sql_exists_iff)
  then have i: "\<exists>st. InsertLogEntry poolTransparencyStore ?n e2 cbor2 lh sg (store s2) = (None, st)" for lh sg
    by (simp add: log_db_defs Let_def split: prod.splits)
  have "r = Inl ErrPersistEntry \<and> tree s3 = t'\<lparr>leaves := ls @ [LeafHash ?H cbor2]\<rparr>"
    using assms(8,10,11) a r i [of "?H (0 # cbor2)" "ed25519_sign E (signer s2)
        (cbor2 @ leafIndexBigEndian ?n @ MTH ?H (leaves t'))"]
    by (auto simp: AppendEntry_def entry_LeafHash_def persist_append_def Countersign_def Let_def)
  with res r t'(3,4) show ?thesis by simp
qed

lemma head_failure_forks_witness:
  "\<exists>res s1 s2 s3. AppendEntry toy_log poolTransparencyStore (fresh_log [5] [False, True]) (toy_entry 3) = (Inr res, s1) \<and>
    fst (NewTransparencyService poolTransparencyStore (store s1) [5]) = Inr s2 \<and>
    AppendEntry toy_log poolTransparencyStore s2 (toy_entry 4) = (Inl ErrPersistEntry, s3) \<and>
    tsize (tree s3) = ar_TreeSize res \<and> ar_RootHash res = MTH pad_hash [LeafHash pad_hash [2, 3]] \<and>
    Root pad_hash (tree s3) = Some (MTH pad_hash [LeafHash pad_hash [2, 4]])"
proof -
  let ?s = "fresh_log [5] [False, True]"
  have "append_carry pad_hash 0 [] (LeafHash pad_hash [2, 3]) = Some [LeafHash pad_hash [2, 3]]"
    by (simp add: append_carry.simps)
  then have "\<exists>res s1. AppendEntry toy_log poolTransparencyStore ?s (toy_entry 3) = (Inr res, s1) \<and>
      tree_heads (store s1) = [] \<and> outages (store s1) = []"
    by (simp add: AppendEntry_def check_user_signature_def nil_bytes_def MarshalCBOR_def toy_log_def
        toy_entry_def entry_LeafHash_def LeafHash_def Append_def Root_def persist_append_def
        Countersign_def log_db_defs Let_def fresh_log_def log_operations_def sql_exists_def)
  then obtain res s1 where a: "AppendEntry toy_log poolTransparencyStore ?s (toy_entry 3) = (Inr res, s1)"
    "tree_heads (store s1) = []" "outages (store s1) = []" by blast
  obtain r2 d where n: "NewTransparencyService poolTransparencyStore (store s1) [5] = (r2, d)"
    by (metis surj_pair)
  then obtain s2 where s2: "r2 = Inr s2"
    using a(3) by (auto simp: NewTransparencyService_def RecoverFromDB_def log_db_defs Let_def
        split: prod.splits option.splits)
  obtain r s3 where a2: "AppendEntry toy_log poolTransparencyStore s2 (toy_entry 4) = (r, s3)"
    by (metis surj_pair)
  have c: "check_user_signature toy_log (toy_entry 4) = None" "MarshalCBOR toy_log (toy_entry 3) = Some [2, 3]"
    "MarshalCBOR toy_log (toy_entry 4) = Some [2, 4]"
    by (simp_all add: check_user_signature_def nil_bytes_def MarshalCBOR_def toy_log_def toy_entry_def)
  have s: "unat (tsize (tree ?s)) < 2 ^ 63 - 1" "tree_heads (store s1) = tree_heads (store ?s)"
    "leaves (tree ?s) = []" "sha256 toy_log = pad_hash"
    using a(2) by (simp_all add: fresh_log_def toy_log_def)
  from head_failure_forks [OF fresh_log_ok toy_hash s(1) a(1) s(2) n [unfolded s2] c a2]
  show ?thesis using a(1) a2 n s2 s(3,4) by (metis append_Nil fst_conv)
qed

text \<open>
  The proofs handed out verify: on a consistent log that nobody appends to meanwhile,
  \<open>GetProof\<close> returns every row of the key in index order, each with its index, an audit
  path that \<open>VerifyProof\<close> accepts for the stored CBOR against the returned size and root,
  and the countersignature over CBOR, index and root.
\<close>

theorem get_proof_verifies:
  assumes "log_ok E s" and "unat (tsize (tree s)) < 2 ^ 63"
    and "GetProof E poolTransparencyStore s (\<lambda>_. tree s) pk = (Inr resp, d)"
  shows "pr_Entries resp = filter (\<lambda>r. lr_user_pub_key r = pk) (log_entries (store s)) \<and>
    list_all2 (\<lambda>row p. int (unat (ip_LeafIndex p)) = lr_leaf_index row \<and>
        VerifyProof (sha256 E) (lr_entry_cbor row) (ip_LeafIndex p) (pr_TreeSize resp) (ip_AuditPath p)
          (pr_RootHash resp) \<and>
        ip_LogSig p = countersignProof E (signer s) row (pr_RootHash resp))
      (pr_Entries resp) (pr_Proofs resp)"
proof -
  let ?rows = "filter (\<lambda>r. lr_user_pub_key r = pk) (log_entries (store s))"
  have d: "db_ok (store s)" and t: "tree_ok (sha256 E) (tree s)" "leaves (tree s) = leaf_hashes (store s)"
    and h: "\<And>r. r \<in> set (log_entries (store s)) \<Longrightarrow> lr_leaf_hash r = LeafHash (sha256 E) (lr_entry_cbor r)"
    using assms(1) by (simp_all add: log_ok_def)
  have "sorted (map lr_leaf_index (log_entries (store s)))"
    using rows_sorted [OF d] sorted_sort_key by metis
  then have srt: "sort_key lr_leaf_index ?rows = ?rows"
    by (intro sort_key_id_if_sorted) (rule sorted_filter)
  have root: "Root (sha256 E) (tree s) = Some (MTH (sha256 E) (leaves (tree s)))" by (rule Root_ok [OF t(1)])
  have "pr_Entries resp = ?rows \<and> pr_TreeSize resp = tsize (tree s) \<and>
      pr_RootHash resp = MTH (sha256 E) (leaves (tree s)) \<and>
      pr_Proofs resp = entry_proofs E (signer s) (\<lambda>_. tree s) 1 (tsize (tree s)) (MTH (sha256 E) (leaves (tree s))) ?rows"
    using assms(3) srt root by (auto simp: GetProof_def log_db_defs Let_def split: prod.splits if_splits)
  moreover have "\<exists>i. lr_leaf_index row = int i \<and> i < length (leaves (tree s)) \<and>
      leaves (tree s) ! i = LeafHash (sha256 E) (lr_entry_cbor row)" if row: "row \<in> set ?rows" for row
  proof -
    have "row \<in> set (log_entries (store s))" using row by simp
    then show ?thesis
      by (rule row_index_less [OF d]) (use h in \<open>auto simp: t(2) leaf_hashes_def\<close>)
  qed
  ultimately show ?thesis using entry_proofs_ok [OF t(1) assms(2), of ?rows "signer s" 1] by simp
qed

lemma get_proof_verifies_witness:
  "\<exists>resp d. GetProof toy_log poolTransparencyStore (fresh_log [5] []) (\<lambda>_. NewMerkleTree) [9] = (Inr resp, d) \<and>
     list_all2 (\<lambda>row p. VerifyProof (sha256 toy_log) (lr_entry_cbor row) (ip_LeafIndex p) (pr_TreeSize resp)
       (ip_AuditPath p) (pr_RootHash resp)) (pr_Entries resp) (pr_Proofs resp)"
proof -
  let ?s = "fresh_log [5] []"
  have t: "tree ?s = NewMerkleTree" by (simp add: fresh_log_def)
  have "\<exists>resp d. GetProof toy_log poolTransparencyStore ?s (\<lambda>_. tree ?s) [9] = (Inr resp, d)"
    by (simp add: t GetProof_def log_db_defs Root_def fresh_log_def Let_def)
  then obtain resp d where g: "GetProof toy_log poolTransparencyStore ?s (\<lambda>_. tree ?s) [9] = (Inr resp, d)"
    by blast
  have "unat (tsize (tree ?s)) < 2 ^ 63" by (simp add: t)
  from get_proof_verifies [OF fresh_log_ok(1) this g]
  have "list_all2 (\<lambda>row p. VerifyProof (sha256 toy_log) (lr_entry_cbor row) (ip_LeafIndex p) (pr_TreeSize resp)
       (ip_AuditPath p) (pr_RootHash resp)) (pr_Entries resp) (pr_Proofs resp)"
    by (auto elim: list_all2_mono)
  with g show ?thesis by (auto simp: t)
qed

text \<open>
  A proof raced by an append does not verify: \<open>GetProof\<close> reads root and size under one
  lock and each audit path under a later one, so when the second leaf is appended in
  between, every proof it returns for the first is rejected against the returned root.
\<close>

theorem stale_proof_rejected:
  assumes "tree_ok (sha256 E) t" and "tsize t = 1"
    and "Append (sha256 E) t cbor = Some (t', idx)"
    and "GetProof E S s (\<lambda>k. if k = 0 then t else t') pk = (Inr resp, d)"
    and "p \<in> set (pr_Proofs resp)"
  shows "pr_TreeSize resp = 1 \<and> pr_RootHash resp = MTH (sha256 E) (leaves t) \<and>
    \<not> VerifyProof (sha256 E) data (ip_LeafIndex p) (ip_TreeSize p) (ip_AuditPath p) (ip_RootHash p)"
proof -
  obtain a where a: "leaves t = [a]"
    using assms(1,2) by (auto simp: tree_ok_def length_Suc_conv)
  obtain b where t': "tree_ok (sha256 E) t'" "leaves t' = [a, b]" "tsize t' = 2"
    using Append_ok [OF assms(1), of cbor] assms(2,3) a by auto
  have lv: "audit_path (build_levels (sha256 E) [a, b]) i \<noteq> []" if "i < 2" for i
    using that by (auto simp: build_levels.simps less_2_cases_iff)
  have path: "ap \<noteq> []" if pr: "Proof (sha256 E) t' i = Inr ap" for i ap
  proof -
    have lt: "i < tsize t'" using pr by (auto simp: Proof_def split: if_splits)
    then have "unat i < 2" by (simp add: t'(3) word_less_nat_alt)
    then show ?thesis using Proof_ok [OF t'(1) lt] pr lv t'(2) by auto
  qed
  have all: "\<forall>p \<in> set (entry_proofs E key (\<lambda>k. if k = 0 then t else t') (Suc k) 1 root rows).
      ip_TreeSize p = 1 \<and> ip_AuditPath p \<noteq> []" for key k root rows
    by (induction rows arbitrary: k) (auto simp: Let_def path split: sum.splits)
  have r: "pr_TreeSize resp = 1" "pr_RootHash resp = MTH (sha256 E) (leaves t)"
    "pr_Proofs resp = entry_proofs E (signer s) (\<lambda>k. if k = 0 then t else t') (Suc 0) 1
       (MTH (sha256 E) (leaves t)) (pr_Entries resp)"
    using assms(2,4) Root_ok [OF assms(1)]
    by (auto simp: GetProof_def Let_def split: prod.splits option.splits)
  then have "ip_TreeSize p = 1" "ip_AuditPath p \<noteq> []" using all assms(5) by simp_all
  then have "\<not> VerifyProof (sha256 E) data (ip_LeafIndex p) (ip_TreeSize p) (ip_AuditPath p) (ip_RootHash p)"
    by (simp add: VerifyProof_def verify_loop.simps)
  with r show ?thesis by simp
qed

lemma stale_proof_rejected_witness:
  "\<exists>t t' s resp d p. tree_ok pad_hash t \<and> tsize t = 1 \<and> Append pad_hash t [8] = Some (t', 1) \<and>
    GetProof toy_log poolTransparencyStore s (\<lambda>k. if k = 0 then t else t') [9] = (Inr resp, d) \<and>
    p \<in> set (pr_Proofs resp) \<and>
    \<not> VerifyProof pad_hash [7] (ip_LeafIndex p) (ip_TreeSize p) (ip_AuditPath p) (ip_RootHash p)"
proof -
  let ?row = "\<lparr>lr_leaf_index = 0, lr_operation = OpRegister, lr_user_pub_key = [9],
     lr_subject_key = None, lr_entry_cbor = [7], lr_leaf_hash = LeafHash pad_hash [7],
     lr_user_sig = [], lr_log_sig = []\<rparr>"
  let ?s = "\<lparr>tree = NewMerkleTree, signer = [5],
     store = \<lparr>log_entries = [?row], tree_heads = [], outages = []\<rparr>\<rparr>"
  have H: "sha256 toy_log = pad_hash" by (simp add: toy_log_def)
  obtain t where t: "tree_ok pad_hash t" "tsize t = 1"
    using Append_ok [OF tree_ok_new, of pad_hash "[7]"] by auto
  obtain t' where t': "Append pad_hash t [8] = Some (t', 1)" "tree_ok pad_hash t'" "tsize t' = 2"
    using Append_ok [OF t(1), of "[8]"] t(2) by auto
  have "(0 :: uint64) < tsize t'" by (simp add: t'(3))
  from Proof_ok [OF t'(2) this] Root_ok [OF t(1)]
  have "\<exists>resp d p. GetProof toy_log poolTransparencyStore ?s (\<lambda>k. if k = 0 then t else t') [9] = (Inr resp, d) \<and>
      p \<in> set (pr_Proofs resp)"
    by (simp add: GetProof_def log_db_defs H Let_def)
  then obtain resp d p where g: "GetProof toy_log poolTransparencyStore ?s (\<lambda>k. if k = 0 then t else t') [9] = (Inr resp, d)"
    "p \<in> set (pr_Proofs resp)" by blast
  from stale_proof_rejected [of toy_log, unfolded H, OF t t'(1) g, of "[7]"] t t'(1) g show ?thesis by blast
qed

text \<open>
  Entries without a user key are invisible to their user: an entry appended with a nil
  \<open>UserPublicKey\<close> (as device revocations and MLS credentials are) is stored under the empty
  key, and the proofs of every real key are computed over the same rows as before.
\<close>

theorem keyless_entries_hidden:
  assumes "log_ok E s" and "unat (tsize (tree s)) < 2 ^ 63 - 1" and "UserPublicKey e = None"
    and "AppendEntry E poolTransparencyStore s e = (Inr res, s')" and "pk \<noteq> []"
  shows "length (log_entries (store s')) = Suc (length (log_entries (store s))) \<and>
    filter (\<lambda>r. lr_user_pub_key r = pk) (log_entries (store s')) =
      filter (\<lambda>r. lr_user_pub_key r = pk) (log_entries (store s)) \<and>
    (\<forall>rows d. GetTransparencyLogEntriesByPubKey pk (store s') = (Some rows, d) \<longrightarrow>
      set rows \<subseteq> set (log_entries (store s)))"
proof -
  have t: "tree_ok (sha256 E) (tree s)" "unat (tsize (tree s)) < 2 ^ 64 - 1"
    using assms(1,2) by (simp_all add: log_ok_def)
  obtain row where r: "log_entries (store s') = log_entries (store s) @ [row]"
    "lr_user_pub_key row = nil_bytes (UserPublicKey e)"
    by (rule pool_append [OF assms(4) t])
  then have "lr_user_pub_key row \<noteq> pk" using assms(3,5) by (simp add: nil_bytes_def)
  with r show ?thesis
    by (auto simp: GetTransparencyLogEntriesByPubKey_def Let_def split: prod.splits if_splits)
qed

lemma keyless_entries_hidden_witness:
  "\<exists>res s'. AppendEntry toy_log poolTransparencyStore (fresh_log [5] []) ((toy_entry 3)\<lparr>UserPublicKey := None\<rparr>) = (Inr res, s') \<and>
    length (log_entries (store s')) = 1 \<and> filter (\<lambda>r. lr_user_pub_key r = [9]) (log_entries (store s')) = []"
proof -
  let ?s = "fresh_log [5] []" and ?e = "(toy_entry 3)\<lparr>UserPublicKey := None\<rparr>"
  have sz: "unat (tsize (tree ?s)) < 2 ^ 63 - 1" "unat (tsize (tree ?s)) < 2 ^ 63"
    by (simp_all add: fresh_log_def)
  have "\<exists>res. fst (AppendEntry toy_log poolTransparencyStore ?s ?e) = Inr res"
    using append_Inr_iff [OF fresh_log_ok(1) sz(2), of toy_log ?e]
    by (simp add: fresh_log_def toy_entry_def toy_log_def check_user_signature_def nil_bytes_def
        MarshalCBOR_def log_operations_def)
  then obtain res s' where a: "AppendEntry toy_log poolTransparencyStore ?s ?e = (Inr res, s')"
    by (metis prod.collapse)
  from keyless_entries_hidden [OF fresh_log_ok(1) sz(1) _ a, of "[9]"] a show ?thesis
    by (auto simp: fresh_log_def)
qed

end
