(* ===== verification/Go_Strings.thy ===== *)
theory Go_Strings
  imports Hush_Prelude
begin

text \<open>
  What the code uses of Go's \<open>strings\<close> package, on strings as lists of bytes:
  \<open>TrimSpace\<close> with the UTF-8 encodings of all Unicode spaces, prefixes, \<open>Split\<close>.
\<close>

definition space_seqs :: "string list" where
  "space_seqs = map (map char_of)
     ([[9], [10], [11], [12], [13], [32], [0xC2, 0x85], [0xC2, 0xA0], [0xE1, 0x9A, 0x80]] @
      map (\<lambda>k. [0xE2, 0x80, k]) [0x80..<0x8B] @
      [[0xE2, 0x80, 0xA8], [0xE2, 0x80, 0xA9], [0xE2, 0x80, 0xAF], [0xE2, 0x81, 0x9F],
       [0xE3, 0x80, 0x80 :: nat]])"

fun drop_prefix :: "string \<Rightarrow> string \<Rightarrow> string option" where
  "drop_prefix [] s = Some s"
| "drop_prefix (p # ps) (c # cs) = (if p = c then drop_prefix ps cs else None)"
| "drop_prefix (p # ps) [] = None"

lemma drop_prefix_length: "drop_prefix p s = Some r \<Longrightarrow> length s = length p + length r"
  by (induction p s rule: drop_prefix.induct) (auto split: if_splits)

lemma drop_prefix_append [simp]: "drop_prefix p (p @ s) = Some s"
  by (induction p) auto

fun drop_any :: "string list \<Rightarrow> string \<Rightarrow> string option" where
  "drop_any [] s = None"
| "drop_any (p # ps) s =
     (case drop_prefix p s of Some r \<Rightarrow> Some r | None \<Rightarrow> drop_any ps s)"

lemma drop_any_shorter: "drop_any ps s = Some r \<Longrightarrow> [] \<notin> set ps \<Longrightarrow> length r < length s"
  by (induction ps s rule: drop_any.induct)
     (auto split: option.splits dest!: drop_prefix_length simp: neq_Nil_conv)

text \<open>Strip spaces from the front; the sequences are read backwards for the back.\<close>

function trim_front :: "string list \<Rightarrow> string \<Rightarrow> string" where
  "trim_front ps s =
     (case drop_any (filter (\<lambda>p. p \<noteq> []) ps) s of None \<Rightarrow> s | Some r \<Rightarrow> trim_front ps r)"
  by pat_completeness auto
termination
  by (relation "measure (\<lambda>(ps, s). length s)") (auto dest: drop_any_shorter)

declare trim_front.simps [simp del]

definition TrimSpace :: "string \<Rightarrow> string" where
  "TrimSpace s = rev (trim_front (map rev space_seqs) (rev (trim_front space_seqs s)))"

lemma drop_any_Nil [simp]: "[] \<notin> set ps \<Longrightarrow> drop_any ps [] = None"
proof (induction ps)
  case (Cons p ps)
  then show ?case by (cases p) auto
qed simp

lemma trim_front_Nil [simp]: "trim_front ps [] = []"
  by (subst trim_front.simps) simp

lemma TrimSpace_Nil [simp]: "TrimSpace [] = []"
  by (simp add: TrimSpace_def)

text \<open>A string whose first and last bytes are visible ASCII keeps both ends.\<close>

definition visible :: "char \<Rightarrow> bool" where
  "visible c \<longleftrightarrow> 32 < (of_char c :: nat) \<and> (of_char c :: nat) < 128"

lemma drop_any_None: "(\<And>p. p \<in> set ps \<Longrightarrow> p \<noteq> [] \<and> hd p \<noteq> c) \<Longrightarrow> drop_any ps (c # cs) = None"
proof (induction ps)
  case (Cons p ps)
  then have "p \<noteq> [] \<and> hd p \<noteq> c" by simp
  then have "drop_prefix p (c # cs) = None" by (cases p) auto
  with Cons show ?case by simp
qed simp

lemma trim_front_id:
  "(\<And>p. p \<in> set ps \<Longrightarrow> p \<noteq> [] \<and> hd p \<noteq> c) \<Longrightarrow> trim_front ps (c # cs) = c # cs"
  by (subst trim_front.simps) (simp add: drop_any_None)

lemma space_heads:
  assumes "p \<in> set space_seqs \<union> set (map rev space_seqs)"
  shows "p \<noteq> [] \<and> \<not> visible (hd p)"
proof -
  have "\<forall>p \<in> set space_seqs. p \<noteq> [] \<and> \<not> visible (hd p) \<and> \<not> visible (last p)"
    by (simp add: space_seqs_def visible_def upt_rec)
  with assms show ?thesis by (auto simp: hd_rev)
qed

lemma TrimSpace_id:
  assumes "s \<noteq> []" and "visible (hd s)" and "visible (last s)"
  shows "TrimSpace s = s"
proof -
  obtain c cs where c: "s = c # cs" using assms(1) by (cases s) auto
  have "trim_front space_seqs s = s"
    unfolding c by (rule trim_front_id) (use space_heads assms(2) c in fastforce)
  moreover obtain d ds where d: "rev s = d # ds" using assms(1) by (cases "rev s") auto
  then have "d = last s" by (metis hd_rev list.sel(1))
  then have "trim_front (map rev space_seqs) (d # ds) = d # ds"
    by (intro trim_front_id) (use space_heads assms(3) in fastforce)
  ultimately show ?thesis by (metis TrimSpace_def d rev_rev_ident)
qed

text \<open>\<open>strings.Split(s, sep)[0]\<close> for a one-byte separator.\<close>

definition split_first :: "char \<Rightarrow> string \<Rightarrow> string" where
  "split_first sep s = takeWhile (\<lambda>c. c \<noteq> sep) s"

definition HasPrefix :: "string \<Rightarrow> string \<Rightarrow> bool" where
  "HasPrefix s p = (drop_prefix p s \<noteq> None)"

section \<open>Numbers\<close>

text \<open>Decimal digits, \<open>strconv.Itoa\<close> and \<open>strconv.Atoi\<close> on 64-bit integers.\<close>

definition is_digit :: "char \<Rightarrow> bool" where
  "is_digit c \<longleftrightarrow> 48 \<le> (of_char c :: nat) \<and> (of_char c :: nat) \<le> 57"

definition digits_value :: "string \<Rightarrow> int" where
  "digits_value = foldl (\<lambda>n c. 10 * n + int (of_char c - 48)) 0"

fun digits_of :: "nat \<Rightarrow> string" where
  "digits_of n = (if n < 10 then [char_of (48 + n)] else digits_of (n div 10) @ [char_of (48 + n mod 10)])"

declare digits_of.simps [simp del]

definition itoa :: "int \<Rightarrow> string" where
  "itoa n = (if n < 0 then CHR ''-'' # digits_of (nat (- n)) else digits_of (nat n))"

definition signed_value :: "string \<Rightarrow> (string \<Rightarrow> string) \<Rightarrow> int option" where
  "signed_value t digits =
     (let signed = (t \<noteq> [] \<and> (hd t = CHR ''-'' \<or> hd t = CHR ''+''));
          ds = digits (if signed then tl t else t);
          n = (if signed \<and> hd t = CHR ''-'' then - digits_value ds else digits_value ds)
      in if ds = [] \<or> \<not> list_all is_digit ds \<or> n < - (2 ^ 63) \<or> n \<ge> 2 ^ 63 then None else Some n)"

definition Atoi :: "string \<Rightarrow> int option" where
  "Atoi s = signed_value s (\<lambda>ds. ds)"

text \<open>
  \<open>fmt.Sscanf(s, "%d", &n)\<close> for an \<open>int64\<close>: leading spaces other than a newline are skipped, a
  sign and a digit sequence are read, what follows is ignored.
\<close>

definition Sscanf_d :: "string \<Rightarrow> int option" where
  "Sscanf_d s =
     signed_value (trim_front (filter (\<lambda>p. p \<noteq> [CHR ''\<newline>'']) space_seqs) s) (takeWhile is_digit)"

lemma of_char_digit: "n < 10 \<Longrightarrow> (of_char (char_of (48 + n) :: char) :: nat) = 48 + n"
  by simp

lemma digits_of_digits: "list_all is_digit (digits_of n) \<and> digits_of n \<noteq> []"
proof (induction n rule: digits_of.induct)
  case (1 n)
  have d: "is_digit (char_of (48 + m))" if "m < 10" for m :: nat
    using that by (simp add: is_digit_def)
  show ?case
  proof (cases "n < 10")
    case True
    then show ?thesis by (subst (1 2) digits_of.simps) (simp add: d)
  next
    case False
    with 1 have "list_all is_digit (digits_of (n div 10))" by blast
    with False show ?thesis by (subst (1 2) digits_of.simps) (simp add: d)
  qed
qed

lemma digits_value_digits_of: "digits_value (digits_of n) = int n"
proof (induction n rule: digits_of.induct)
  case (1 n)
  show ?case
  proof (cases "n < 10")
    case True
    then show ?thesis by (subst digits_of.simps) (simp add: digits_value_def)
  next
    case False
    then have "digits_value (digits_of (n div 10)) = int (n div 10)" by (rule 1)
    moreover have "10 * int (n div 10) + int (n mod 10) = int n" by presburger
    ultimately show ?thesis using False by (subst digits_of.simps) (simp add: digits_value_def)
  qed
qed

lemma takeWhile_digits: "takeWhile is_digit (digits_of n) = digits_of n"
  using digits_of_digits [of n] by (simp add: takeWhile_eq_all_conv list_all_iff)

lemma signed_value_itoa:
  assumes "- (2 ^ 63) \<le> n" and "n < 2 ^ 63" and "\<And>m. f (digits_of m) = digits_of m"
  shows "signed_value (itoa n) f = Some n"
proof (cases "n < 0")
  case True
  then show ?thesis using assms digits_of_digits
    by (simp add: signed_value_def itoa_def Let_def digits_value_digits_of)
next
  case False
  have h: "is_digit (hd (digits_of (nat n)))"
    using digits_of_digits [of "nat n"] by (cases "digits_of (nat n)") auto
  then have "hd (digits_of (nat n)) \<noteq> CHR ''-''" "hd (digits_of (nat n)) \<noteq> CHR ''+''"
    by (auto simp: is_digit_def)
  with False show ?thesis using assms digits_of_digits
    by (simp add: signed_value_def itoa_def Let_def digits_value_digits_of)
qed

lemma Atoi_itoa: "- (2 ^ 63) \<le> n \<Longrightarrow> n < 2 ^ 63 \<Longrightarrow> Atoi (itoa n) = Some n"
  by (simp add: Atoi_def signed_value_itoa)

lemma itoa_visible: "itoa n = c # cs \<Longrightarrow> visible c"
proof (cases "n < 0")
  case True
  then show "itoa n = c # cs \<Longrightarrow> visible c" by (auto simp: itoa_def visible_def)
next
  case False
  assume "itoa n = c # cs"
  with False have "digits_of (nat n) = c # cs" by (simp add: itoa_def)
  with digits_of_digits [of "nat n"] have "is_digit c" by simp
  then show "visible c" by (simp add: is_digit_def visible_def)
qed

lemma itoa_Nil [simp]: "itoa n \<noteq> []"
  using digits_of_digits by (simp add: itoa_def)

lemma Sscanf_itoa: "- (2 ^ 63) \<le> n \<Longrightarrow> n < 2 ^ 63 \<Longrightarrow> Sscanf_d (itoa n) = Some n"
proof -
  assume r: "- (2 ^ 63) \<le> n" "n < 2 ^ 63"
  obtain c cs where c: "itoa n = c # cs" by (cases "itoa n") auto
  then have "visible c" by (rule itoa_visible)
  then have "trim_front (filter (\<lambda>p. p \<noteq> [CHR ''\<newline>'']) space_seqs) (c # cs) = c # cs"
    by (intro trim_front_id) (use space_heads in fastforce)
  with c have "Sscanf_d (itoa n) = signed_value (itoa n) (takeWhile is_digit)"
    by (simp add: Sscanf_d_def)
  also have "\<dots> = Some n" by (rule signed_value_itoa) (use r in \<open>simp_all add: takeWhile_digits\<close>)
  finally show ?thesis .
qed

end
