(* ===== verification/Auth_DB.thy ===== *)
theory Auth_DB
  imports Go_Strings
begin

text \<open>
  The tables behind authentication and devices, and their queries: \<open>internal/db/users.go\<close>,
  \<open>sessions.go\<close>, \<open>auth_nonces.go\<close>, \<open>device_keys.go\<close>, \<open>invites.go\<close>, and from \<open>instance.go\<close>
  and \<open>mls.go\<close> what registration and login use. \<open>now\<close> is the database's \<open>now()\<close>; identifiers
  are strings, and a value PostgreSQL cannot cast to \<open>UUID\<close> is one of the failures that
  \<open>db_faults\<close> stands for. Foreign keys and unique constraints are checked.
\<close>

section \<open>Rows\<close>

record User =
  u_ID :: string
  u_Username :: string
  u_RootPublicKey :: bytes
  u_DisplayName :: string
  u_Role :: string
  u_CreatedAt :: time

record Session =
  s_ID :: string
  s_UserID :: string
  s_TokenHash :: string
  s_ExpiresAt :: time

record AuthNonce =
  n_Nonce :: string
  n_UserPublicKey :: bytes
  n_ExpiresAt :: time

record DeviceKey =
  dk_UserID :: string
  dk_DeviceID :: string
  dk_DevicePublicKey :: bytes
  dk_Certificate :: "bytes option"
  dk_CertifiedAt :: time
  dk_LastSeen :: "time option"
  dk_Label :: "string option"

text \<open>The older \<open>devices\<close> table: the devices with MLS credentials and their labels.\<close>

record DeviceRow =
  dv_UserID :: string
  dv_DeviceID :: string
  dv_Label :: "string option"
  dv_LastSeen :: time

record InstanceConfig =
  ic_RegistrationMode :: string
  ic_MaxRegisteredUsers :: "int option"

record InstanceBan =
  ib_ID :: string
  ib_UserID :: string
  ib_ActorID :: string
  ib_Reason :: string
  ib_ExpiresAt :: "time option"
  ib_CreatedAt :: time
  ib_LiftedAt :: "time option"
  ib_LiftedBy :: "string option"

record InviteCode =
  iv_Code :: string
  iv_ServerID :: "string option"
  iv_CreatedBy :: string
  iv_ExpiresAt :: time
  iv_MaxUses :: int
  iv_Uses :: int

record auth_db =
  users :: "User list"
  sessions :: "Session list"
  auth_nonces :: "AuthNonce list"
  device_keys :: "DeviceKey list"
  devices :: "DeviceRow list"
  instance_config :: "InstanceConfig option"
  instance_bans :: "InstanceBan list"
  invite_codes :: "InviteCode list"
  db_faults :: "bool list"

datatype db_error =
    DbOutage | DbNoRows | DbForeignKey | DbCheck | DbUnique string | ErrInstanceUserLimitReached

type_synonym 'a query = "auth_db \<Rightarrow> (db_error + 'a) \<times> auth_db"

text \<open>Every query first asks whether the database answers.\<close>

definition db_query :: "'a query \<Rightarrow> 'a query" where
  "db_query q d =
     (case next_fault (db_faults d) of
        (True, fs) \<Rightarrow> (Inl DbOutage, d\<lparr>db_faults := fs\<rparr>)
      | (False, fs) \<Rightarrow> q (d\<lparr>db_faults := fs\<rparr>))"

text \<open>\<open>NULLIF(x, '')\<close>.\<close>

definition nullif_empty :: "string \<Rightarrow> string option" where
  "nullif_empty s = (if s = [] then None else Some s)"

section \<open>Nonces\<close>

definition InsertAuthNonce :: "string \<Rightarrow> bytes \<Rightarrow> time \<Rightarrow> unit query" where
  "InsertAuthNonce nonce publicKey expiresAt = db_query (\<lambda>d.
     if sql_exists (\<lambda>r. n_Nonce r = nonce) (auth_nonces d)
     then (Inl (DbUnique ''auth_nonces_pkey''), d)
     else (Inr (), d\<lparr>auth_nonces := auth_nonces d @
            [\<lparr>n_Nonce = nonce, n_UserPublicKey = publicKey, n_ExpiresAt = expiresAt\<rparr>]\<rparr>))"

definition ConsumeAuthNonce :: "time \<Rightarrow> string \<Rightarrow> bytes query" where
  "ConsumeAuthNonce now nonce = db_query (\<lambda>d.
     let live = (\<lambda>r. n_Nonce r = nonce \<and> n_ExpiresAt r > now)
     in case find live (auth_nonces d) of
          None \<Rightarrow> (Inl DbNoRows, d)
        | Some r \<Rightarrow> (Inr (n_UserPublicKey r), d\<lparr>auth_nonces := sql_delete live (auth_nonces d)\<rparr>))"

definition DeleteAuthNonce :: "string \<Rightarrow> unit query" where
  "DeleteAuthNonce nonce = db_query (\<lambda>d.
     (Inr (), d\<lparr>auth_nonces := sql_delete (\<lambda>r. n_Nonce r = nonce) (auth_nonces d)\<rparr>))"

definition PurgeExpiredNonces :: "time \<Rightarrow> nat query" where
  "PurgeExpiredNonces now = db_query (\<lambda>d.
     let old = (\<lambda>r. n_ExpiresAt r < now)
     in (Inr (sql_count old (auth_nonces d)), d\<lparr>auth_nonces := sql_delete old (auth_nonces d)\<rparr>))"

section \<open>Sessions\<close>

definition CreateSession :: "string \<Rightarrow> string \<Rightarrow> string \<Rightarrow> time \<Rightarrow> Session query" where
  "CreateSession sessionID userID tokenHash expiresAt = db_query (\<lambda>d.
     let s = \<lparr>s_ID = sessionID, s_UserID = userID, s_TokenHash = tokenHash, s_ExpiresAt = expiresAt\<rparr>
     in if sql_exists (\<lambda>r. s_ID r = sessionID) (sessions d) then (Inl (DbUnique ''sessions_pkey''), d)
        else if \<not> sql_exists (\<lambda>u. u_ID u = userID) (users d) then (Inl DbForeignKey, d)
        else (Inr s, d\<lparr>sessions := sessions d @ [s]\<rparr>))"

definition GetSessionByTokenHash :: "time \<Rightarrow> string \<Rightarrow> Session query" where
  "GetSessionByTokenHash now tokenHash = db_query (\<lambda>d.
     case find (\<lambda>r. s_TokenHash r = tokenHash \<and> s_ExpiresAt r > now) (sessions d) of
       None \<Rightarrow> (Inl DbNoRows, d)
     | Some s \<Rightarrow> (Inr s, d))"

definition DeleteSessionByID :: "string \<Rightarrow> unit query" where
  "DeleteSessionByID sessionID = db_query (\<lambda>d.
     (Inr (), d\<lparr>sessions := sql_delete (\<lambda>r. s_ID r = sessionID) (sessions d)\<rparr>))"

definition PurgeExpiredSessions :: "time \<Rightarrow> nat query" where
  "PurgeExpiredSessions now = db_query (\<lambda>d.
     let old = (\<lambda>r. s_ExpiresAt r < now)
     in (Inr (sql_count old (sessions d)), d\<lparr>sessions := sql_delete old (sessions d)\<rparr>))"

section \<open>Device keys\<close>

definition dk_is :: "string \<Rightarrow> string \<Rightarrow> DeviceKey \<Rightarrow> bool" where
  "dk_is userID deviceID r \<longleftrightarrow> dk_UserID r = userID \<and> dk_DeviceID r = deviceID"

definition BackfillRootDeviceKey ::
  "time \<Rightarrow> string \<Rightarrow> string \<Rightarrow> string \<Rightarrow> bytes \<Rightarrow> bool query" where
  "BackfillRootDeviceKey now userID deviceID label devicePublicKey = db_query (\<lambda>d.
     if sql_exists (dk_is userID deviceID) (device_keys d) then (Inr False, d)
     else if \<not> sql_exists (\<lambda>u. u_ID u = userID) (users d) then (Inl DbForeignKey, d)
     else (Inr True, d\<lparr>device_keys := device_keys d @
            [\<lparr>dk_UserID = userID, dk_DeviceID = deviceID, dk_DevicePublicKey = devicePublicKey,
              dk_Certificate = None, dk_CertifiedAt = now, dk_LastSeen = None,
              dk_Label = nullif_empty label\<rparr>]\<rparr>))"

definition InsertDeviceKey ::
  "time \<Rightarrow> string \<Rightarrow> string \<Rightarrow> string \<Rightarrow> bytes \<Rightarrow> bytes option \<Rightarrow> unit query" where
  "InsertDeviceKey now userID deviceID label devicePublicKey certificate = db_query (\<lambda>d.
     if sql_exists (dk_is userID deviceID) (device_keys d)
     then (Inr (), d\<lparr>device_keys := sql_update (dk_is userID deviceID)
            (\<lambda>r. r\<lparr>dk_DevicePublicKey := devicePublicKey, dk_Certificate := certificate,
                   dk_CertifiedAt := now,
                   dk_Label := (case nullif_empty label of None \<Rightarrow> dk_Label r | Some l \<Rightarrow> Some l)\<rparr>)
            (device_keys d)\<rparr>)
     else if \<not> sql_exists (\<lambda>u. u_ID u = userID) (users d) then (Inl DbForeignKey, d)
     else (Inr (), d\<lparr>device_keys := device_keys d @
            [\<lparr>dk_UserID = userID, dk_DeviceID = deviceID, dk_DevicePublicKey = devicePublicKey,
              dk_Certificate = certificate, dk_CertifiedAt = now, dk_LastSeen = None,
              dk_Label = nullif_empty label\<rparr>]\<rparr>))"

definition ListDeviceKeys :: "string \<Rightarrow> DeviceKey list query" where
  "ListDeviceKeys userID = db_query (\<lambda>d.
     (Inr (sort_key dk_CertifiedAt (filter (\<lambda>r. dk_UserID r = userID) (device_keys d))), d))"

definition IsDeviceActive :: "string \<Rightarrow> string \<Rightarrow> bool query" where
  "IsDeviceActive userID deviceID = db_query (\<lambda>d.
     (Inr (sql_exists (dk_is userID deviceID) (device_keys d)), d))"

definition RevokeDeviceKey :: "string \<Rightarrow> string \<Rightarrow> unit query" where
  "RevokeDeviceKey userID deviceID = db_query (\<lambda>d.
     (Inr (), d\<lparr>device_keys := sql_delete (dk_is userID deviceID) (device_keys d)\<rparr>))"

definition RevokeAllDeviceKeys :: "string \<Rightarrow> unit query" where
  "RevokeAllDeviceKeys userID = db_query (\<lambda>d.
     (Inr (), d\<lparr>device_keys := sql_delete (\<lambda>r. dk_UserID r = userID) (device_keys d)\<rparr>))"

definition UpdateDeviceLastSeen :: "time \<Rightarrow> string \<Rightarrow> string \<Rightarrow> unit query" where
  "UpdateDeviceLastSeen now userID deviceID = db_query (\<lambda>d.
     (Inr (), d\<lparr>device_keys := sql_update (dk_is userID deviceID)
        (\<lambda>r. r\<lparr>dk_LastSeen := Some now\<rparr>) (device_keys d)\<rparr>))"

definition UpsertDevice :: "time \<Rightarrow> string \<Rightarrow> string \<Rightarrow> string \<Rightarrow> unit query" where
  "UpsertDevice now userID deviceID label = db_query (\<lambda>d.
     let same = (\<lambda>r. dv_UserID r = userID \<and> dv_DeviceID r = deviceID)
     in if sql_exists same (devices d)
        then (Inr (), d\<lparr>devices := sql_update same (\<lambda>r. r\<lparr>dv_LastSeen := now\<rparr>) (devices d)\<rparr>)
        else if \<not> sql_exists (\<lambda>u. u_ID u = userID) (users d) then (Inl DbForeignKey, d)
        else (Inr (), d\<lparr>devices := devices d @
               [\<lparr>dv_UserID = userID, dv_DeviceID = deviceID, dv_Label = nullif_empty label,
                 dv_LastSeen = now\<rparr>]\<rparr>))"

section \<open>Users, invites, bans\<close>

text \<open>One transaction: the limit is read under \<open>FOR UPDATE\<close>, an error rolls everything back.\<close>

definition CreateUserWithPublicKey ::
  "time \<Rightarrow> string \<Rightarrow> string \<Rightarrow> string \<Rightarrow> bytes \<Rightarrow> User query" where
  "CreateUserWithPublicKey now newID username displayName publicKey = db_query (\<lambda>d.
     let limit = (case instance_config d of None \<Rightarrow> None | Some c \<Rightarrow> ic_MaxRegisteredUsers c);
         u = \<lparr>u_ID = newID, u_Username = username, u_RootPublicKey = publicKey,
              u_DisplayName = displayName, u_Role = ''member'', u_CreatedAt = now\<rparr>
     in if (case limit of None \<Rightarrow> False | Some m \<Rightarrow> int (length (users d)) \<ge> m)
        then (Inl ErrInstanceUserLimitReached, d)
        else if sql_exists (\<lambda>r. u_ID r = newID) (users d) then (Inl (DbUnique ''users_pkey''), d)
        else if sql_exists (\<lambda>r. u_Username r = username) (users d)
        then (Inl (DbUnique ''users_username_key''), d)
        else if sql_exists (\<lambda>r. u_RootPublicKey r = publicKey) (users d)
        then (Inl (DbUnique ''users_root_public_key_unique''), d)
        else (Inr u, d\<lparr>users := users d @ [u]\<rparr>))"

definition GetUserByID :: "string \<Rightarrow> User query" where
  "GetUserByID uid = db_query (\<lambda>d.
     case find (\<lambda>u. u_ID u = uid) (users d) of None \<Rightarrow> (Inl DbNoRows, d) | Some u \<Rightarrow> (Inr u, d))"

definition GetUserByUsername :: "string \<Rightarrow> User query" where
  "GetUserByUsername name = db_query (\<lambda>d.
     case find (\<lambda>u. u_Username u = name) (users d) of None \<Rightarrow> (Inl DbNoRows, d) | Some u \<Rightarrow> (Inr u, d))"

text \<open>\<open>(nil, nil)\<close> when no user has the key.\<close>

definition GetUserByPublicKey :: "bytes \<Rightarrow> User option query" where
  "GetUserByPublicKey pk = db_query (\<lambda>d. (Inr (find (\<lambda>u. u_RootPublicKey u = pk) (users d)), d))"

definition GetInstanceConfig :: "InstanceConfig query" where
  "GetInstanceConfig = db_query (\<lambda>d.
     case instance_config d of None \<Rightarrow> (Inl DbNoRows, d) | Some c \<Rightarrow> (Inr c, d))"

definition ban_active :: "time \<Rightarrow> string \<Rightarrow> InstanceBan \<Rightarrow> bool" where
  "ban_active now userID b \<longleftrightarrow> ib_UserID b = userID \<and> ib_LiftedAt b = None \<and>
     (case ib_ExpiresAt b of None \<Rightarrow> True | Some t \<Rightarrow> t > now)"

definition GetActiveInstanceBan :: "time \<Rightarrow> string \<Rightarrow> InstanceBan option query" where
  "GetActiveInstanceBan now userID = db_query (\<lambda>d.
     (Inr (case rev (sort_key ib_CreatedAt (filter (ban_active now userID) (instance_bans d))) of
             [] \<Rightarrow> None | b # _ \<Rightarrow> Some b), d))"

definition GetInviteByCode :: "string \<Rightarrow> InviteCode option query" where
  "GetInviteByCode code = db_query (\<lambda>d. (Inr (find (\<lambda>i. iv_Code i = code) (invite_codes d)), d))"

definition ClaimInviteUse :: "time \<Rightarrow> string \<Rightarrow> bool query" where
  "ClaimInviteUse now code = db_query (\<lambda>d.
     let valid = (\<lambda>i. iv_Code i = code \<and> iv_Uses i < iv_MaxUses i \<and> iv_ExpiresAt i > now)
     in (Inr (sql_exists valid (invite_codes d)),
         d\<lparr>invite_codes := sql_update valid (\<lambda>i. i\<lparr>iv_Uses := iv_Uses i + 1\<rparr>) (invite_codes d)\<rparr>))"

end
