(* ===== verification/Auth.thy ===== *)
theory Auth
  imports Auth_DB Transparency_DB
begin

text \<open>
  Authentication: challenge nonces and signatures (\<open>internal/auth/challenge.go\<close>), session
  tokens (\<open>internal/auth/jwt.go\<close>), the handlers of \<open>internal/api/auth.go\<close> and the
  middleware \<open>RequireAuth\<close> (\<open>internal/api/middleware.go\<close>). The JWT library, Ed25519,
  SHA-256, the URL parser and Unicode lower-casing are functions of \<open>auth_env\<close>; fresh
  UUIDs, random bytes and the time are arguments of the handlers.
\<close>

section \<open>The environment\<close>

record Claims =
  c_Subject :: string
  c_ID :: string
  c_IssuedAt :: time
  c_ExpiresAt :: time
  c_SessionID :: string
  c_IsGuest :: bool
  c_IsFederated :: bool
  c_FederatedIdentityID :: string
  c_DeviceID :: string

record auth_env =
  ae_log :: log_env
  ae_wired :: bool
  jwt_sign :: "string \<Rightarrow> Claims \<Rightarrow> string option"
  jwt_parse :: "string \<Rightarrow> time \<Rightarrow> string \<Rightarrow> Claims option"
  url_parse :: "string \<Rightarrow> (string \<times> string \<times> string) option"
  ToLower :: "string \<Rightarrow> string"
  jwtSecret :: string
  jwtExpiry :: time
  guestSessionDuration :: time

section \<open>Challenges\<close>

definition NonceLen :: nat where
  "NonceLen = 32"

definition ChallengeV2Header :: string where
  "ChallengeV2Header = ''HUSH-AUTH-CHALLENGE-V2''"

text \<open>\<open>rnd\<close> is what \<open>rand.Read\<close> fills the buffer with, \<open>None\<close> when it fails.\<close>

definition GenerateNonce :: "bytes option \<Rightarrow> string option" where
  "GenerateNonce rnd = (case rnd of None \<Rightarrow> None | Some b \<Rightarrow> Some (hex_encode (take NonceLen b)))"

definition VerifySignature :: "auth_env \<Rightarrow> bytes \<Rightarrow> string \<Rightarrow> bytes \<Rightarrow> bool" where
  "VerifySignature A publicKey nonceHex signature =
     (if length publicKey \<noteq> 32 then False
      else if length signature \<noteq> 64 then False
      else case hex_decode nonceHex of
             None \<Rightarrow> False
           | Some nonceBytes \<Rightarrow> ed25519_verify (ae_log A) publicKey nonceBytes signature)"

definition BuildChallengeV2Payload :: "string \<Rightarrow> string \<Rightarrow> bytes" where
  "BuildChallengeV2Payload nonceHex audience =
     bytes_of_string (ChallengeV2Header @ ''\<newline>audience='' @ audience @ ''\<newline>nonce='' @ nonceHex)"

definition VerifyChallengeV2Signature :: "auth_env \<Rightarrow> bytes \<Rightarrow> string \<Rightarrow> string \<Rightarrow> bytes \<Rightarrow> bool" where
  "VerifyChallengeV2Signature A publicKey nonceHex audience signature =
     (if length publicKey \<noteq> 32 then False
      else if length signature \<noteq> 64 then False
      else if TrimSpace audience = [] then False
      else if hex_decode nonceHex = None then False
      else ed25519_verify (ae_log A) publicKey (BuildChallengeV2Payload nonceHex audience) signature)"

definition NormalizeAudience :: "auth_env \<Rightarrow> string \<Rightarrow> string" where
  "NormalizeAudience A raw =
     (let s = TrimSpace raw
      in if s = [] then []
         else case url_parse A s of
                None \<Rightarrow> []
              | Some (us, uh, up) \<Rightarrow>
                  (let scheme = ToLower A us; host = ToLower A uh;
                       port = (if (scheme = ''https'' \<and> up = ''443'') \<or> (scheme = ''http'' \<and> up = ''80'')
                               then [] else up)
                   in if scheme \<noteq> ''http'' \<and> scheme \<noteq> ''https'' then []
                      else if host = [] then []
                      else if port \<noteq> [] then scheme @ ''://'' @ host @ '':'' @ port
                      else scheme @ ''://'' @ host))"

section \<open>Tokens\<close>

definition signJWT ::
  "auth_env \<Rightarrow> time \<Rightarrow> string \<Rightarrow> string \<Rightarrow> string \<Rightarrow> string \<Rightarrow> time \<Rightarrow> bool \<Rightarrow> string option" where
  "signJWT A now userID sessionID deviceID secret expiresAt isGuest =
     jwt_sign A secret
       \<lparr>c_Subject = userID, c_ID = sessionID, c_IssuedAt = now, c_ExpiresAt = expiresAt,
        c_SessionID = sessionID, c_IsGuest = isGuest, c_IsFederated = False,
        c_FederatedIdentityID = [], c_DeviceID = deviceID\<rparr>"

definition SignJWT ::
  "auth_env \<Rightarrow> time \<Rightarrow> string \<Rightarrow> string \<Rightarrow> string \<Rightarrow> string \<Rightarrow> time \<Rightarrow> string option" where
  "SignJWT A now userID sessionID deviceID secret expiresAt =
     signJWT A now userID sessionID deviceID secret expiresAt False"

definition SignGuestJWT ::
  "auth_env \<Rightarrow> time \<Rightarrow> string \<Rightarrow> string \<Rightarrow> string \<Rightarrow> time \<Rightarrow> string option" where
  "SignGuestJWT A now guestID sessionID secret expiresAt =
     signJWT A now guestID sessionID [] secret expiresAt True"

definition SignFederatedJWT ::
  "auth_env \<Rightarrow> time \<Rightarrow> string \<Rightarrow> string \<Rightarrow> string \<Rightarrow> time \<Rightarrow> string option" where
  "SignFederatedJWT A now federatedID sessionID secret expiresAt =
     jwt_sign A secret
       \<lparr>c_Subject = federatedID, c_ID = sessionID, c_IssuedAt = now, c_ExpiresAt = expiresAt,
        c_SessionID = sessionID, c_IsGuest = False, c_IsFederated = True,
        c_FederatedIdentityID = federatedID, c_DeviceID = []\<rparr>"

definition ValidateJWT :: "auth_env \<Rightarrow> time \<Rightarrow> string \<Rightarrow> string \<Rightarrow> Claims option" where
  "ValidateJWT A now token secret = jwt_parse A secret now token"

definition TokenHash :: "auth_env \<Rightarrow> string \<Rightarrow> string" where
  "TokenHash A token = hex_encode (sha256 (ae_log A) (bytes_of_string token))"

section \<open>The handlers' state\<close>

text \<open>
  \<open>tlog\<close> is the transparency service, \<open>None\<close> when the instance runs without one, and
  \<open>notices\<close> the key-change events it has sent to the hub.
\<close>

record auth_state =
  adb :: auth_db
  tlog :: "log_db TransparencyService option"
  notices :: "KeyChange list"

definition run_db :: "'a query \<Rightarrow> auth_state \<Rightarrow> (db_error + 'a) \<times> auth_state" where
  "run_db q s = (case q (adb s) of (r, d) \<Rightarrow> (r, s\<lparr>adb := d\<rparr>))"

text \<open>A failed append is only logged.\<close>

definition log_key_event :: "auth_env \<Rightarrow> LogEntry \<Rightarrow> string \<Rightarrow> auth_state \<Rightarrow> auth_state" where
  "log_key_event A e userID s =
     (case tlog s of
        None \<Rightarrow> s
      | Some t \<Rightarrow>
          (case AppendAndNotify (ae_log A) poolTransparencyStore (ae_wired A) t e userID of
             ((_, ks), t') \<Rightarrow> s\<lparr>tlog := Some t', notices := notices s @ ks\<rparr>))"

record RegisterRequest =
  rr_Username :: string
  rr_DisplayName :: string
  rr_PublicKey :: string
  rr_DeviceID :: string
  rr_Label :: string
  rr_InviteCode :: string

record VerifyRequest =
  vr_PublicKey :: string
  vr_Nonce :: string
  vr_Signature :: string
  vr_DeviceID :: string
  vr_Label :: string
  vr_ChallengeVersion :: int
  vr_Audience :: string

text \<open>The parts of the HTTP request that the code reads.\<close>

record http_request =
  rq_TLS :: bool
  rq_ForwardedProto :: string
  rq_Host :: string
  rq_Authorization :: string

record AuthResponse =
  au_Token :: string
  au_User :: User

definition requestOrigin :: "http_request \<Rightarrow> string" where
  "requestOrigin r =
     (let scheme = (if rq_TLS r then ''https'' else ''http'');
          scheme' = (if rq_ForwardedProto r \<noteq> [] then TrimSpace (split_first (CHR '','') (rq_ForwardedProto r))
                     else scheme)
      in scheme' @ ''://'' @ rq_Host r)"

section \<open>The handlers\<close>

definition username_char :: "char \<Rightarrow> bool" where
  "username_char c \<longleftrightarrow>
     c \<in> set ''abcdefghijklmnopqrstuvwxyzABCDEFGHIJKLMNOPQRSTUVWXYZ0123456789._-''"

definition validateUsername :: "string \<Rightarrow> string option" where
  "validateUsername s =
     (if s = [] then Some ''username is required''
      else if length s > 128 then Some ''username too long''
      else if \<not> list_all username_char s
      then Some ''username may only contain letters, numbers, dots, underscores, and hyphens''
      else None)"

definition sendAuthResponse ::
  "auth_env \<Rightarrow> time \<Rightarrow> string \<Rightarrow> User \<Rightarrow> string \<Rightarrow> auth_state \<Rightarrow> AuthResponse response \<times> auth_state" where
  "sendAuthResponse A now sessionID user deviceID s =
     (let expiresAt = now + jwtExpiry A
      in case SignJWT A now (u_ID user) sessionID deviceID (jwtSecret A) expiresAt of
           None \<Rightarrow> (Fail 500 ''could not create session'', s)
         | Some token \<Rightarrow>
             (case run_db (CreateSession sessionID (u_ID user) (TokenHash A token) expiresAt) s of
                (Inl _, s') \<Rightarrow> (Fail 500 ''could not create session'', s')
              | (Inr _, s') \<Rightarrow> (Done 200 \<lparr>au_Token = token, au_User = user\<rparr>, s')))"

text \<open>The registration gate: closed, by invite (which claims a use), or open.\<close>

definition registration_gate ::
  "time \<Rightarrow> string \<Rightarrow> InstanceConfig \<Rightarrow> auth_state \<Rightarrow> string option \<times> auth_state" where
  "registration_gate now inviteCode cfg s =
     (if ic_RegistrationMode cfg = ''closed'' then (Some ''Registration is closed'', s)
      else if ic_RegistrationMode cfg = ''invite_only'' then
        (if inviteCode = [] then (Some ''An invite code is required'', s)
         else case run_db (GetInviteByCode inviteCode) s of
                (Inl _, s') \<Rightarrow> (Some ''Invalid invite code'', s')
              | (Inr None, s') \<Rightarrow> (Some ''Invalid invite code'', s')
              | (Inr (Some _), s') \<Rightarrow>
                  (case run_db (ClaimInviteUse now inviteCode) s' of
                     (Inr True, s'') \<Rightarrow> (None, s'')
                   | (_, s'') \<Rightarrow> (Some ''Invite code has expired or reached its use limit'', s'')))
      else (None, s))"

definition recover_account ::
  "auth_env \<Rightarrow> time \<Rightarrow> string \<Rightarrow> string \<Rightarrow> RegisterRequest \<Rightarrow> bytes \<Rightarrow> User \<Rightarrow> auth_state \<Rightarrow>
   AuthResponse response \<times> auth_state" where
  "recover_account A now newDev sessionID req publicKey existing s =
     (let e = \<lparr>OperationType = OpAccountRecovery, UserPublicKey = Some publicKey, SubjectKey = None,
               Timestamp = now div second, UserSignature = None\<rparr>;
          s1 = log_key_event A e (u_ID existing) s;
          deviceID = (if rr_DeviceID req = [] then newDev else rr_DeviceID req);
          s2 = snd (run_db (InsertDeviceKey now (u_ID existing) deviceID (rr_Label req) publicKey None) s1)
      in sendAuthResponse A now sessionID existing deviceID s2)"

text \<open>What \<open>register\<close> does for a key that no user has.\<close>

definition register_new ::
  "auth_env \<Rightarrow> time \<Rightarrow> string \<Rightarrow> string \<Rightarrow> string \<Rightarrow> RegisterRequest \<Rightarrow> bytes \<Rightarrow> auth_state \<Rightarrow>
   AuthResponse response \<times> auth_state" where
  "register_new A now newID newDev sessionID req publicKey s =
     (case run_db (CreateUserWithPublicKey now newID (rr_Username req) (rr_DisplayName req) publicKey) s of
        (Inl ErrInstanceUserLimitReached, s') \<Rightarrow> (Fail 403 ''Registration limit reached'', s')
      | (Inl (DbUnique c), s') \<Rightarrow>
          (if c = ''users_root_public_key_unique'' then (Fail 409 ''Public key already registered'', s')
           else (Fail 409 ''Username already taken'', s'))
      | (Inl _, s') \<Rightarrow> (Fail 500 ''registration failed'', s')
      | (Inr user, s') \<Rightarrow>
          (let deviceID = (if rr_DeviceID req = [] then newDev else rr_DeviceID req);
               s1 = snd (run_db (InsertDeviceKey now (u_ID user) deviceID (rr_Label req) publicKey None) s');
               e = \<lparr>OperationType = OpRegister, UserPublicKey = Some publicKey, SubjectKey = None,
                    Timestamp = now div second, UserSignature = None\<rparr>;
               s2 = log_key_event A e (u_ID user) s1
           in sendAuthResponse A now sessionID user deviceID s2))"

definition register ::
  "auth_env \<Rightarrow> time \<Rightarrow> string \<Rightarrow> string \<Rightarrow> string \<Rightarrow> RegisterRequest option \<Rightarrow> auth_state \<Rightarrow>
   AuthResponse response \<times> auth_state" where
  "register A now newID newDev sessionID body s =
     (case body of
        None \<Rightarrow> (Fail 400 ''invalid body'', s)
      | Some req0 \<Rightarrow>
          (let req = req0\<lparr>rr_Username := TrimSpace (rr_Username req0),
                         rr_DisplayName := TrimSpace (rr_DisplayName req0),
                         rr_Label := TrimSpace (rr_Label req0)\<rparr>
           in case validateUsername (rr_Username req) of
                Some msg \<Rightarrow> (Fail 400 msg, s)
              | None \<Rightarrow>
          (case DecodeString StdEncoding (rr_PublicKey req) of
             None \<Rightarrow> (Fail 400 ''invalid publicKey encoding'', s)
           | Some publicKey \<Rightarrow>
               (if length publicKey \<noteq> 32 then (Fail 400 ''publicKey must be 32 bytes (Ed25519)'', s)
                else case run_db GetInstanceConfig s of
                  (Inl _, s1) \<Rightarrow> (Fail 500 ''registration failed'', s1)
                | (Inr cfg, s1) \<Rightarrow>
               (case registration_gate now (rr_InviteCode req) cfg s1 of
                  (Some msg, s2) \<Rightarrow> (Fail 403 msg, s2)
                | (None, s2) \<Rightarrow>
               (case run_db (GetUserByPublicKey publicKey) s2 of
                  (Inr (Some existing), s3) \<Rightarrow>
                    recover_account A now newDev sessionID req publicKey existing s3
                | (_, s3) \<Rightarrow>
               (case run_db (GetUserByUsername (rr_Username req)) s3 of
                  (Inr existing, s4) \<Rightarrow>
                    (case run_db (GetActiveInstanceBan now (u_ID existing)) s4 of
                       (Inr (Some ban), s5) \<Rightarrow> (Fail 403 (''Registration blocked. Reason: '' @ ib_Reason ban), s5)
                     | (_, s5) \<Rightarrow> register_new A now newID newDev sessionID req publicKey s5)
                | (Inl _, s4) \<Rightarrow> register_new A now newID newDev sessionID req publicKey s4)))))))"

record GuestAuthResponse =
  ga_Token :: string
  ga_GuestID :: string
  ga_ExpiresAt :: time

text \<open>\<open>pubKey\<close> is the generated ephemeral key, \<open>None\<close> when the key generation fails.\<close>

definition guestAuth :: "auth_env \<Rightarrow> time \<Rightarrow> bytes option \<Rightarrow> string \<Rightarrow> GuestAuthResponse response" where
  "guestAuth A now pubKey sessionID =
     (case pubKey of
        None \<Rightarrow> Fail 500 ''could not create guest session''
      | Some pk \<Rightarrow>
          (let guestID = ''guest_'' @ EncodeToString RawURLEncoding (take 8 pk);
               expiresAt = now + guestSessionDuration A
           in case SignGuestJWT A now guestID sessionID (jwtSecret A) expiresAt of
                None \<Rightarrow> Fail 500 ''could not create guest session''
              | Some token \<Rightarrow>
                  Done 200 \<lparr>ga_Token = token, ga_GuestID = guestID, ga_ExpiresAt = expiresAt\<rparr>))"

definition nonceTTL :: time where
  "nonceTTL = 60 * second"

text \<open>The body of \<open>challenge\<close> is its one field \<open>publicKey\<close>.\<close>

definition challenge :: "time \<Rightarrow> bytes option \<Rightarrow> string option \<Rightarrow> auth_state \<Rightarrow> string response \<times> auth_state" where
  "challenge now rnd body s =
     (case body of
        None \<Rightarrow> (Fail 400 ''invalid body'', s)
      | Some pk64 \<Rightarrow>
          (case DecodeString StdEncoding pk64 of
             None \<Rightarrow> (Fail 400 ''invalid publicKey'', s)
           | Some publicKey \<Rightarrow>
               (if length publicKey \<noteq> 32 then (Fail 400 ''invalid publicKey'', s)
                else case GenerateNonce rnd of
                       None \<Rightarrow> (Fail 500 ''could not generate challenge'', s)
                     | Some nonce \<Rightarrow>
                         (case run_db (InsertAuthNonce nonce publicKey (now + nonceTTL)) s of
                            (Inl _, s') \<Rightarrow> (Fail 500 ''could not generate challenge'', s')
                          | (Inr _, s') \<Rightarrow> (Done 200 nonce, s')))))"

definition ensureVerifiedDeviceRegistered ::
  "time \<Rightarrow> string \<Rightarrow> string \<Rightarrow> string \<Rightarrow> bytes \<Rightarrow> auth_state \<Rightarrow> auth_state" where
  "ensureVerifiedDeviceRegistered now userID deviceID label publicKey s =
     (if TrimSpace deviceID = [] then s
      else case run_db (BackfillRootDeviceKey now userID deviceID (TrimSpace label) publicKey) s of
             (Inr True, s') \<Rightarrow> snd (run_db (UpsertDevice now userID deviceID (TrimSpace label)) s')
           | (_, s') \<Rightarrow> s')"

text \<open>The choice between the v1 and v2 challenge protocols, and its verdict.\<close>

definition challenge_ok :: "auth_env \<Rightarrow> http_request \<Rightarrow> VerifyRequest \<Rightarrow> bytes \<Rightarrow> bytes \<Rightarrow> bool" where
  "challenge_ok A r req publicKey signature =
     (if vr_ChallengeVersion req = 2 \<or> TrimSpace (vr_Audience req) \<noteq> []
      then (let expected = NormalizeAudience A (requestOrigin r);
                declared = NormalizeAudience A (vr_Audience req)
            in if expected = [] \<or> declared = [] \<or> declared \<noteq> expected then False
               else VerifyChallengeV2Signature A publicKey (vr_Nonce req) declared signature)
      else if vr_ChallengeVersion req \<noteq> 0 then False
      else VerifySignature A publicKey (vr_Nonce req) signature)"

definition verify ::
  "auth_env \<Rightarrow> time \<Rightarrow> http_request \<Rightarrow> string \<Rightarrow> VerifyRequest option \<Rightarrow> auth_state \<Rightarrow>
   AuthResponse response \<times> auth_state" where
  "verify A now r sessionID body s =
     (case body of
        None \<Rightarrow> (Fail 400 ''invalid body'', s)
      | Some req \<Rightarrow>
     (case DecodeString StdEncoding (vr_PublicKey req) of
        None \<Rightarrow> (Fail 401 ''Authentication failed'', s)
      | Some publicKey \<Rightarrow>
     (if length publicKey \<noteq> 32 then (Fail 401 ''Authentication failed'', s)
      else case DecodeString StdEncoding (vr_Signature req) of
        None \<Rightarrow> (Fail 401 ''Authentication failed'', s)
      | Some signature \<Rightarrow>
     (case run_db (ConsumeAuthNonce now (vr_Nonce req)) s of
        (Inl _, s1) \<Rightarrow> (Fail 401 ''Challenge expired, please try again'', s1)
      | (Inr storedKey, s1) \<Rightarrow>
     (if storedKey \<noteq> publicKey then (Fail 401 ''Authentication failed'', s1)
      else if \<not> challenge_ok A r req publicKey signature then (Fail 401 ''Authentication failed'', s1)
      else case run_db (GetUserByPublicKey publicKey) s1 of
        (Inl _, s2) \<Rightarrow> (Fail 401 ''Authentication failed'', s2)
      | (Inr None, s2) \<Rightarrow> (Fail 404 ''unknown public key'', s2)
      | (Inr (Some user), s2) \<Rightarrow>
     (case run_db (GetActiveInstanceBan now (u_ID user)) s2 of
        (Inr (Some ban), s3) \<Rightarrow> (Fail 403 (''Account banned: '' @ ib_Reason ban), s3)
      | (_, s3) \<Rightarrow>
          (let s4 = ensureVerifiedDeviceRegistered now (u_ID user) (vr_DeviceID req) (vr_Label req) publicKey s3
           in sendAuthResponse A now sessionID user (vr_DeviceID req) s4)))))))"

text \<open>The goroutine that \<open>verify\<close> leaves behind: \<open>last_seen\<close> of the device, best effort.\<close>

definition verify_last_seen :: "time \<Rightarrow> string \<Rightarrow> string \<Rightarrow> bytes \<Rightarrow> auth_state \<Rightarrow> auth_state" where
  "verify_last_seen now userID deviceID publicKey s =
     (if deviceID \<noteq> [] then snd (run_db (UpdateDeviceLastSeen now userID deviceID) s)
      else case run_db (ListDeviceKeys userID) s of
             (Inl _, s') \<Rightarrow> s'
           | (Inr ds, s') \<Rightarrow>
               (case find (\<lambda>d. dk_DevicePublicKey d = publicKey) ds of
                  None \<Rightarrow> s'
                | Some d \<Rightarrow> snd (run_db (UpdateDeviceLastSeen now userID (dk_DeviceID d)) s')))"

definition federatedVerify :: "AuthResponse response" where
  "federatedVerify = Fail 403 ''federation is not supported in this MVP''"

definition logout :: "string \<Rightarrow> auth_state \<Rightarrow> unit response \<times> auth_state" where
  "logout sessionID s =
     (if sessionID = [] then (Fail 401 ''not authenticated'', s)
      else (Done 204 (), snd (run_db (DeleteSessionByID sessionID) s)))"

definition me :: "string \<Rightarrow> auth_state \<Rightarrow> User response \<times> auth_state" where
  "me userID s =
     (if userID = [] then (Fail 401 ''not authenticated'', s)
      else case run_db (GetUserByID userID) s of
             (Inl _, s') \<Rightarrow> (Fail 401 ''user not found'', s')
           | (Inr u, s') \<Rightarrow> (Done 200 u, s'))"

definition checkUsername :: "string \<Rightarrow> auth_state \<Rightarrow> bool response \<times> auth_state" where
  "checkUsername param s =
     (let username = TrimSpace param
      in case validateUsername username of
           Some msg \<Rightarrow> (Fail 400 msg, s)
         | None \<Rightarrow>
             (case run_db (GetUserByUsername username) s of
                (Inl DbNoRows, s') \<Rightarrow> (Done 200 True, s')
              | (Inl _, s') \<Rightarrow> (Fail 500 ''username check failed'', s')
              | (Inr _, s') \<Rightarrow> (Done 200 False, s')))"

section \<open>The middleware\<close>

record auth_context =
  cx_UserID :: string
  cx_SessionID :: string
  cx_DeviceID :: string
  cx_IsGuest :: bool

definition bearerToken :: "http_request \<Rightarrow> string" where
  "bearerToken r =
     (case drop_prefix ''Bearer '' (rq_Authorization r) of None \<Rightarrow> [] | Some t \<Rightarrow> TrimSpace t)"

definition RequireAuth ::
  "auth_env \<Rightarrow> time \<Rightarrow> http_request \<Rightarrow> auth_state \<Rightarrow> auth_context response \<times> auth_state" where
  "RequireAuth A now r s =
     (let token = bearerToken r
      in if token = [] then (Fail 401 ''missing or invalid authorization'', s)
         else case ValidateJWT A now token (jwtSecret A) of
           None \<Rightarrow> (Fail 401 ''invalid or expired token'', s)
         | Some c \<Rightarrow>
         (let ctx = \<lparr>cx_UserID = c_Subject c, cx_SessionID = c_SessionID c,
                      cx_DeviceID = c_DeviceID c, cx_IsGuest = c_IsGuest c\<rparr>
          in if c_IsFederated c then (Fail 403 ''federation is not supported in this MVP'', s)
             else if c_IsGuest c then (Done 200 ctx, s)
             else case run_db (GetSessionByTokenHash now (TokenHash A token)) s of
               (Inl _, s1) \<Rightarrow> (Fail 401 ''session not found or expired'', s1)
             | (Inr sess, s1) \<Rightarrow>
                 (if s_ID sess \<noteq> c_SessionID c then (Fail 401 ''session not found or expired'', s1)
                  else if s_UserID sess \<noteq> c_Subject c then (Fail 401 ''session mismatch'', s1)
                  else if c_DeviceID c = [] then (Done 200 ctx, s1)
                  else case run_db (IsDeviceActive (c_Subject c) (c_DeviceID c)) s1 of
                    (Inl _, s2) \<Rightarrow> (Fail 500 ''device revocation check failed'', s2)
                  | (Inr active, s2) \<Rightarrow>
                      (if active then (Done 200 ctx, s2) else (Fail 401 ''device revoked'', s2)))))"

end
