(* ===== verification/Auth_Nonces.thy ===== *)
theory Auth_Nonces
  imports Auth
begin

text \<open>
  The contract of the nonce table as a locale: the login challenge and the device-linking
  codes both rest on it. A nonce is redeemed at most once for every time it was issued.
\<close>

section \<open>Runs of nonce operations\<close>

datatype nonce_op = NInsert string bytes time | NConsume time string

text \<open>The outcome of every operation, in order.\<close>

fun run_nonce_ops ::
  "(string \<Rightarrow> bytes \<Rightarrow> time \<Rightarrow> 'st \<Rightarrow> ('e + unit) \<times> 'st) \<Rightarrow> (time \<Rightarrow> string \<Rightarrow> 'st \<Rightarrow> ('e + bytes) \<times> 'st) \<Rightarrow>
   nonce_op list \<Rightarrow> 'st \<Rightarrow> (nonce_op \<times> bool) list \<times> 'st" where
  "run_nonce_ops ins con [] st = ([], st)"
| "run_nonce_ops ins con (NInsert n b t # ops) st =
     (let (r, st1) = ins n b t st; (log, st2) = run_nonce_ops ins con ops st1
      in ((NInsert n b t, \<not> isl r) # log, st2))"
| "run_nonce_ops ins con (NConsume t n # ops) st =
     (let (r, st1) = con t n st; (log, st2) = run_nonce_ops ins con ops st1
      in ((NConsume t n, \<not> isl r) # log, st2))"

fun issued :: "string \<Rightarrow> nonce_op \<times> bool \<Rightarrow> bool" where
  "issued n (NInsert m _ _, okay) = (m = n \<and> okay)"
| "issued n (NConsume _ _, _) = False"

fun redeemed :: "string \<Rightarrow> nonce_op \<times> bool \<Rightarrow> bool" where
  "redeemed n (NConsume _ m, okay) = (m = n \<and> okay)"
| "redeemed n (NInsert _ _ _, _) = False"

section \<open>The contract\<close>

locale nonce_store =
  fixes ins :: "string \<Rightarrow> bytes \<Rightarrow> time \<Rightarrow> 'st \<Rightarrow> ('e + unit) \<times> 'st"
    and con :: "time \<Rightarrow> string \<Rightarrow> 'st \<Rightarrow> ('e + bytes) \<times> 'st"
    and pending :: "'st \<Rightarrow> string \<Rightarrow> (bytes \<times> time) option"
    and ok :: "'st \<Rightarrow> bool"
  assumes ins_Inr: "ok st \<Longrightarrow> ins n b t st = (Inr u, st') \<Longrightarrow>
      ok st' \<and> pending st n = None \<and> pending st' = (pending st)(n \<mapsto> (b, t))"
  and ins_Inl: "ok st \<Longrightarrow> ins n b t st = (Inl e, st') \<Longrightarrow> ok st' \<and> pending st' = pending st"
  and con_Inr: "ok st \<Longrightarrow> con now n st = (Inr b', st') \<Longrightarrow>
      ok st' \<and> (\<exists>t. pending st n = Some (b', t) \<and> now < t) \<and> pending st' = (pending st)(n := None)"
  and con_Inl: "ok st \<Longrightarrow> con now n st = (Inl e', st') \<Longrightarrow> ok st' \<and> pending st' = pending st"
begin

text \<open>An issued nonce gives back what it was issued for, in time, and only once.\<close>

lemma redeem_once:
  assumes "ok st" and "ins n b t st = (Inr u, st1)" and "con now n st1 = (Inr b', st2)"
  shows "b' = b \<and> now < t \<and> (\<forall>now'. isl (fst (con now' n st2)))"
proof -
  have 1: "ok st1" "pending st1 = (pending st)(n \<mapsto> (b, t))" using ins_Inr [OF assms(1,2)] by simp_all
  have 2: "ok st2" "pending st2 n = None" "b' = b \<and> now < t"
    using con_Inr [OF 1(1) assms(3)] 1(2) by auto
  have "isl (fst (con now' n st2))" for now'
  proof (cases "con now' n st2")
    case (Pair r st3)
    then show ?thesis using 2(2) by (cases r) (auto dest!: con_Inr [OF 2(1)])
  qed
  with 2(3) show ?thesis by blast
qed

lemma redeemed_le_issued:
  assumes "ok st" and "run_nonce_ops ins con ops st = (log, st')"
  shows "length (filter (redeemed n) log) \<le>
    length (filter (issued n) log) + (if pending st n = None then 0 else 1)"
  using assms
proof (induction ops arbitrary: st log)
  case Nil
  then show ?case by simp
next
  case (Cons op ops)
  show ?case
  proof (cases op)
    case (NInsert m b t)
    obtain r st1 where i: "ins m b t st = (r, st1)" by (metis surj_pair)
    obtain log' where l: "run_nonce_ops ins con ops st1 = (log', st')" "log = (op, \<not> isl r) # log'"
      using Cons.prems(2) NInsert i by (auto simp: Let_def split: prod.splits)
    have "ok st1" using ins_Inr [OF Cons.prems(1)] ins_Inl [OF Cons.prems(1)] i by (cases r) auto
    note IH = Cons.IH [OF this l(1)]
    show ?thesis
      using IH l(2) NInsert i
      by (cases r) (auto dest!: ins_Inr [OF Cons.prems(1)] ins_Inl [OF Cons.prems(1)] split: if_splits)
  next
    case (NConsume t m)
    obtain r st1 where i: "con t m st = (r, st1)" by (metis surj_pair)
    obtain log' where l: "run_nonce_ops ins con ops st1 = (log', st')" "log = (op, \<not> isl r) # log'"
      using Cons.prems(2) NConsume i by (auto simp: Let_def split: prod.splits)
    have "ok st1" using con_Inr [OF Cons.prems(1)] con_Inl [OF Cons.prems(1)] i by (cases r) auto
    note IH = Cons.IH [OF this l(1)]
    show ?thesis
      using IH l(2) NConsume i
      by (cases r) (auto dest!: con_Inr [OF Cons.prems(1)] con_Inl [OF Cons.prems(1)] split: if_splits)
  qed
qed

end

section \<open>The table keeps it\<close>

definition pending_nonce :: "auth_db \<Rightarrow> string \<Rightarrow> (bytes \<times> time) option" where
  "pending_nonce d n =
     map_option (\<lambda>r. (n_UserPublicKey r, n_ExpiresAt r)) (find (\<lambda>r. n_Nonce r = n) (auth_nonces d))"

definition nonces_ok :: "auth_db \<Rightarrow> bool" where
  "nonces_ok d \<longleftrightarrow> distinct (map n_Nonce (auth_nonces d))"

lemma pending_nonce_mem:
  assumes "nonces_ok d" and "r \<in> set (auth_nonces d)"
  shows "pending_nonce d (n_Nonce r) = Some (n_UserPublicKey r, n_ExpiresAt r)"
proof -
  have "find (\<lambda>r'. n_Nonce r' = n_Nonce r) (auth_nonces d) = Some r"
    by (rule find_unique) (use assms in \<open>auto simp: nonces_ok_def distinct_map dest: inj_onD\<close>)
  then show ?thesis by (simp add: pending_nonce_def)
qed

lemma pending_nonce_None: "pending_nonce d n = None \<longleftrightarrow> (\<forall>r \<in> set (auth_nonces d). n_Nonce r \<noteq> n)"
  by (simp add: pending_nonce_def find_None_all)

lemma pending_nonce_Some:
  "pending_nonce d n = Some (b, t) \<Longrightarrow>
   \<exists>r \<in> set (auth_nonces d). n_Nonce r = n \<and> n_UserPublicKey r = b \<and> n_ExpiresAt r = t"
  by (auto simp: pending_nonce_def dest: find_Some_iff_mem)

interpretation nonce_table: nonce_store InsertAuthNonce ConsumeAuthNonce pending_nonce nonces_ok
proof (unfold_locales, goal_cases)
  case (1 st n b t u st')
  then have f: "\<forall>r \<in> set (auth_nonces st). n_Nonce r \<noteq> n"
    and e: "auth_nonces st' = auth_nonces st @ [\<lparr>n_Nonce = n, n_UserPublicKey = b, n_ExpiresAt = t\<rparr>]"
    by (auto simp: InsertAuthNonce_def db_query_def sql_exists_iff split: prod.splits bool.splits if_splits)
  have "pending_nonce st' m = ((pending_nonce st)(n \<mapsto> (b, t))) m" for m
    using f by (cases "m = n") (auto simp: pending_nonce_def e find_append find_None_all
        split: option.splits dest: find_Some_iff_mem)
  then show ?case using 1(1) f e by (auto simp: nonces_ok_def pending_nonce_None)
next
  case (2 st n b t e st')
  then show ?case
    by (auto simp: InsertAuthNonce_def db_query_def nonces_ok_def pending_nonce_def
        split: prod.splits bool.splits if_splits)
next
  case (3 st now n b' st')
  let ?live = "\<lambda>r. n_Nonce r = n \<and> n_ExpiresAt r > now"
  obtain r where r: "find ?live (auth_nonces st) = Some r" "b' = n_UserPublicKey r"
    and e: "auth_nonces st' = sql_delete ?live (auth_nonces st)"
    using 3(2) by (auto simp: ConsumeAuthNonce_def db_query_def Let_def
        split: prod.splits bool.splits option.splits)
  note m = find_Some_iff_mem [OF r(1)]
  have live: "?live r' \<longleftrightarrow> n_Nonce r' = n" if "r' \<in> set (auth_nonces st)" for r'
    using that m 3(1) by (auto simp: nonces_ok_def distinct_map dest: inj_onD)
  have "sql_delete ?live (auth_nonces st) = sql_delete (\<lambda>r. n_Nonce r = n) (auth_nonces st)"
    unfolding sql_delete_def by (rule filter_cong) (use live in auto)
  then have "pending_nonce st' k = ((pending_nonce st)(n := None)) k" for k
    by (cases "k = n") (auto simp: pending_nonce_def e find_sql_delete_None
        find_sql_delete_other [where p = "\<lambda>r. n_Nonce r = k" and q = "\<lambda>r. n_Nonce r = n"])
  moreover have "pending_nonce st n = Some (b', n_ExpiresAt r)"
    using pending_nonce_mem [OF 3(1)] m r(2) by blast
  ultimately show ?case
    using m 3(1) by (auto simp: nonces_ok_def e distinct_map_sql_delete)
next
  case (4 st now n e' st')
  then show ?case
    by (auto simp: ConsumeAuthNonce_def db_query_def nonces_ok_def pending_nonce_def Let_def
        split: prod.splits bool.splits option.splits)
qed

end
