(* ===== verification/Auth_Props.thy ===== *)
theory Auth_Props
  imports Auth_Nonces
begin

text \<open>
  What authentication promises: a session is issued only for a proved key, once per
  challenge; the token it returns is accepted until it expires and no longer than its
  session and device live; and where the promise has holes.
\<close>

section \<open>What the steps leave alone\<close>

lemma run_db_cases:
  "run_db (db_query q) s = (r, s') \<Longrightarrow>
   (r = Inl DbOutage \<and> (\<exists>fs. s' = s\<lparr>adb := (adb s)\<lparr>db_faults := fs\<rparr>\<rparr>)) \<or>
   (\<exists>fs d. q ((adb s)\<lparr>db_faults := fs\<rparr>) = (r, d) \<and> s' = s\<lparr>adb := d\<rparr>)"
  by (auto simp: run_db_def db_query_def split: prod.splits bool.splits)

lemma log_key_event_adb [simp]: "adb (log_key_event A e uid s) = adb s"
  by (auto simp: log_key_event_def split: option.splits prod.splits)

text \<open>Login touches device rows only.\<close>

lemma ensure_frame:
  "users (adb (ensureVerifiedDeviceRegistered now uid dev lbl pk s)) = users (adb s) \<and>
   sessions (adb (ensureVerifiedDeviceRegistered now uid dev lbl pk s)) = sessions (adb s) \<and>
   auth_nonces (adb (ensureVerifiedDeviceRegistered now uid dev lbl pk s)) = auth_nonces (adb s)"
  by (auto simp: ensureVerifiedDeviceRegistered_def run_db_def BackfillRootDeviceKey_def UpsertDevice_def
      db_query_def Let_def split: prod.splits bool.splits sum.splits)

lemma InsertDeviceKey_frame:
  "run_db (InsertDeviceKey now uid dev lbl pk c) s = (r, s') \<Longrightarrow>
   users (adb s') = users (adb s) \<and> sessions (adb s') = sessions (adb s) \<and>
   instance_config (adb s') = instance_config (adb s)"
  by (auto simp: run_db_def InsertDeviceKey_def db_query_def split: prod.splits bool.splits if_splits)

lemma sendAuthResponse_Done:
  assumes "sendAuthResponse A now sid u dev s = (Done code resp, s')"
  shows "code = 200 \<and> au_User resp = u \<and>
    SignJWT A now (u_ID u) sid dev (jwtSecret A) (now + jwtExpiry A) = Some (au_Token resp) \<and>
    sessions (adb s') = sessions (adb s) @
      [\<lparr>s_ID = sid, s_UserID = u_ID u, s_TokenHash = TokenHash A (au_Token resp), s_ExpiresAt = now + jwtExpiry A\<rparr>] \<and>
    users (adb s') = users (adb s) \<and> auth_nonces (adb s') = auth_nonces (adb s) \<and>
    device_keys (adb s') = device_keys (adb s) \<and> (\<forall>x \<in> set (sessions (adb s)). s_ID x \<noteq> sid)"
  using assms
  by (auto simp: sendAuthResponse_def run_db_def CreateSession_def db_query_def Let_def sql_exists_iff
      split: option.splits prod.splits bool.splits sum.splits if_splits)

lemma sendAuthResponse_users: "users (adb (snd (sendAuthResponse A now sid u dev s))) = users (adb s)"
  by (auto simp: sendAuthResponse_def run_db_def CreateSession_def db_query_def Let_def
      split: option.splits prod.splits bool.splits sum.splits)

lemma ConsumeAuthNonce_run:
  assumes "run_db (ConsumeAuthNonce now n) s = (Inr k, s')"
  shows "\<exists>row \<in> set (auth_nonces (adb s)). n_Nonce row = n \<and> now < n_ExpiresAt row \<and> n_UserPublicKey row = k"
    and "auth_nonces (adb s') = sql_delete (\<lambda>r. n_Nonce r = n \<and> n_ExpiresAt r > now) (auth_nonces (adb s))"
    and "users (adb s') = users (adb s)" and "instance_bans (adb s') = instance_bans (adb s)"
    and "sessions (adb s') = sessions (adb s)" and "device_keys (adb s') = device_keys (adb s)"
    and "db_faults (adb s) = [] \<Longrightarrow> db_faults (adb s') = []"
  using assms
  by (auto simp: run_db_def ConsumeAuthNonce_def db_query_def Let_def dest: find_Some_iff_mem
      split: prod.splits bool.splits option.splits)

text \<open>The lookups change nothing but the list of faults.\<close>

lemma GetUserByPublicKey_run:
  assumes "run_db (GetUserByPublicKey pk) s = (x, s')"
  shows "\<exists>fs. s' = s\<lparr>adb := (adb s)\<lparr>db_faults := fs\<rparr>\<rparr> \<and> (db_faults (adb s) = [] \<longrightarrow> fs = [])"
    and "x = Inr y \<Longrightarrow> y = find (\<lambda>u. u_RootPublicKey u = pk) (users (adb s))"
  using assms
  by (auto simp: run_db_def GetUserByPublicKey_def db_query_def split: prod.splits bool.splits)

lemma GetActiveInstanceBan_run:
  assumes "run_db (GetActiveInstanceBan now uid) s = (x, s')"
  shows "\<exists>fs. s' = s\<lparr>adb := (adb s)\<lparr>db_faults := fs\<rparr>\<rparr> \<and> (db_faults (adb s) = [] \<longrightarrow> fs = [])"
    and "db_faults (adb s) = [] \<Longrightarrow> (\<And>y. x \<noteq> Inr (Some y)) \<Longrightarrow>
      \<forall>b \<in> set (instance_bans (adb s)). \<not> ban_active now uid b"
proof -
  show "\<exists>fs. s' = s\<lparr>adb := (adb s)\<lparr>db_faults := fs\<rparr>\<rparr> \<and> (db_faults (adb s) = [] \<longrightarrow> fs = [])"
    using assms by (auto simp: run_db_def GetActiveInstanceBan_def db_query_def split: prod.splits bool.splits)
  assume f: "db_faults (adb s) = []" and n: "\<And>y. x \<noteq> Inr (Some y)"
  have "rev (sort_key ib_CreatedAt (filter (ban_active now uid) (instance_bans (adb s)))) = []"
    using assms n f by (auto simp: run_db_def GetActiveInstanceBan_def db_query_def split: list.splits)
  then have "set (sort_key ib_CreatedAt (filter (ban_active now uid) (instance_bans (adb s)))) = {}" by simp
  then show "\<forall>b \<in> set (instance_bans (adb s)). \<not> ban_active now uid b" by auto
qed

lemma inj_of_char_byte: "inj (of_char :: char \<Rightarrow> byte)"
proof (rule injI)
  fix c d :: char
  assume e: "(of_char c :: byte) = of_char d"
  have u: "unat (of_char x :: byte) = of_char x" for x
  proof -
    have "unat (of_nat (of_char x :: nat) :: byte) = of_char x mod 256"
      by (simp add: unat_of_nat take_bit_eq_mod del: of_nat_of_char)
    then show ?thesis by (simp only: of_nat_of_char of_char_mod_256)
  qed
  have "(of_char c :: nat) = of_char d" using arg_cong [OF e, of unat] by (simp only: u)
  then show "c = d" by simp
qed

lemma login_no_faults:
  "db_faults (adb s) = [] \<Longrightarrow> db_faults (adb (ensureVerifiedDeviceRegistered now uid dev lbl pk s)) = []"
  "db_faults (adb s) = [] \<Longrightarrow> db_faults (adb (snd (sendAuthResponse A now sid u dev s))) = []"
  by (auto simp: ensureVerifiedDeviceRegistered_def sendAuthResponse_def run_db_def BackfillRootDeviceKey_def
      UpsertDevice_def CreateSession_def db_query_def Let_def
      split: option.splits prod.splits bool.splits sum.splits)

text \<open>Without faults the backfill leaves a key row for the device.\<close>

lemma ensure_registers:
  assumes "db_faults (adb s) = []" and "TrimSpace dev \<noteq> []" and "u \<in> set (users (adb s))" and "u_ID u = uid"
  shows "sql_exists (dk_is uid dev) (device_keys (adb (ensureVerifiedDeviceRegistered now uid dev lbl pk s)))"
proof -
  obtain x s1 where b: "run_db (BackfillRootDeviceKey now uid dev (TrimSpace lbl) pk) s = (x, s1)"
    by (metis surj_pair)
  have "sql_exists (\<lambda>u. u_ID u = uid) (users (adb s))" using assms(3,4) by (auto simp: sql_exists_iff)
  then have "sql_exists (dk_is uid dev) (device_keys (adb s1))"
    using b assms(1) by (auto simp: run_db_def BackfillRootDeviceKey_def db_query_def sql_exists_iff dk_is_def
        split: prod.splits if_splits)
  moreover have "device_keys (adb (snd (run_db (UpsertDevice now uid dev l) s1))) = device_keys (adb s1)" for l
    by (auto simp: run_db_def UpsertDevice_def db_query_def Let_def split: prod.splits bool.splits)
  ultimately show ?thesis
    using b assms(2) by (auto simp: ensureVerifiedDeviceRegistered_def split: sum.splits bool.splits)
qed

section \<open>The properties\<close>

text \<open>
  C7. A challenge is answered at most once: over any sequence of issuing and redeeming
  nonces, in any order and with any database failures, a nonce is redeemed no more often
  than it was issued.
\<close>

theorem nonce_redeemed_once:
  assumes "auth_nonces d = []"
    and "run_nonce_ops InsertAuthNonce ConsumeAuthNonce ops d = (log, d')"
  shows "length (filter (redeemed n) log) \<le> length (filter (issued n) log)"
proof -
  have "nonces_ok d" "pending_nonce d n = None"
    using assms(1) by (simp_all add: nonces_ok_def pending_nonce_def)
  with nonce_table.redeemed_le_issued [OF _ assms(2), of n] show ?thesis by simp
qed

definition empty_auth_db :: auth_db where
  "empty_auth_db = \<lparr>users = [], sessions = [], auth_nonces = [], device_keys = [], devices = [],
     instance_config = Some \<lparr>ic_RegistrationMode = ''open'', ic_MaxRegisteredUsers = None\<rparr>,
     instance_bans = [], invite_codes = [], db_faults = []\<rparr>"

lemma nonce_redeemed_once_witness:
  "\<exists>log d'. run_nonce_ops InsertAuthNonce ConsumeAuthNonce
      [NInsert ''ab'' [1] 60, NConsume 10 ''ab'', NConsume 11 ''ab''] empty_auth_db = (log, d') \<and>
    map snd log = [True, True, False] \<and>
    length (filter (redeemed ''ab'') log) \<le> length (filter (issued ''ab'') log)"
proof -
  let ?ops = "[NInsert ''ab'' [1] 60, NConsume 10 ''ab'', NConsume 11 ''ab'']"
  obtain log d' where r: "run_nonce_ops InsertAuthNonce ConsumeAuthNonce ?ops empty_auth_db = (log, d')"
    by (metis surj_pair)
  then have "map snd log = [True, True, False]"
    by (auto simp: InsertAuthNonce_def ConsumeAuthNonce_def db_query_def empty_auth_db_def sql_exists_def
        sql_delete_def Let_def)
  moreover have "auth_nonces empty_auth_db = []" by (simp add: empty_auth_db_def)
  ultimately show ?thesis using r nonce_redeemed_once [OF _ r, of "''ab''"]
    by (intro exI [of _ log] exI [of _ d']) simp
qed

text \<open>The way through \<open>verify\<close> to a token: the nonce, the signature, the user, and no ban found.\<close>

lemma verify_path:
  assumes "verify A now r sid body s = (Done code resp, s')"
  obtains req pk s1 sg u s2 b s3 where "body = Some req" "DecodeString StdEncoding (vr_PublicKey req) = Some pk"
    "run_db (ConsumeAuthNonce now (vr_Nonce req)) s = (Inr pk, s1)" "challenge_ok A r req pk sg"
    "run_db (GetUserByPublicKey pk) s1 = (Inr (Some u), s2)"
    "run_db (GetActiveInstanceBan now (u_ID u)) s2 = (b, s3)" "\<forall>x. b \<noteq> Inr (Some x)"
    "sendAuthResponse A now sid u (vr_DeviceID req)
       (ensureVerifiedDeviceRegistered now (u_ID u) (vr_DeviceID req) (vr_Label req) pk s3) = (Done code resp, s')"
proof -
  obtain req pk sg where q: "body = Some req" "DecodeString StdEncoding (vr_PublicKey req) = Some pk"
    "DecodeString StdEncoding (vr_Signature req) = Some sg"
    using assms by (auto simp: verify_def split: option.splits if_splits)
  obtain k s1 where c: "run_db (ConsumeAuthNonce now (vr_Nonce req)) s = (Inr k, s1)"
    using assms q by (auto simp: verify_def split: option.splits if_splits prod.splits sum.splits)
  have k: "k = pk" "challenge_ok A r req pk sg"
    using assms q c by (auto simp: verify_def split: if_splits)
  obtain u s2 where u: "run_db (GetUserByPublicKey pk) s1 = (Inr (Some u), s2)"
    using assms q c k by (auto simp: verify_def split: option.splits if_splits prod.splits sum.splits)
  obtain b s3 where b: "run_db (GetActiveInstanceBan now (u_ID u)) s2 = (b, s3)" by (metis surj_pair)
  have "sendAuthResponse A now sid u (vr_DeviceID req)
       (ensureVerifiedDeviceRegistered now (u_ID u) (vr_DeviceID req) (vr_Label req) pk s3) = (Done code resp, s')"
    and "\<forall>x. b \<noteq> Inr (Some x)"
    using assms q c k u b by (auto simp: verify_def Let_def split: option.splits if_splits sum.splits)
  then show thesis using that q c k u b by blast
qed

lemma verify_unbanned:
  assumes "verify A now r sid body s = (Done code resp, s')" and "db_faults (adb s) = []"
  shows "\<forall>b \<in> set (instance_bans (adb s)). \<not> ban_active now (u_ID (au_User resp)) b"
proof -
  obtain req pk s1 sg u s2 b s3 where v: "body = Some req" "DecodeString StdEncoding (vr_PublicKey req) = Some pk"
    "run_db (ConsumeAuthNonce now (vr_Nonce req)) s = (Inr pk, s1)" "challenge_ok A r req pk sg"
    "run_db (GetUserByPublicKey pk) s1 = (Inr (Some u), s2)"
    "run_db (GetActiveInstanceBan now (u_ID u)) s2 = (b, s3)" "\<forall>x. b \<noteq> Inr (Some x)"
    "sendAuthResponse A now sid u (vr_DeviceID req)
       (ensureVerifiedDeviceRegistered now (u_ID u) (vr_DeviceID req) (vr_Label req) pk s3) = (Done code resp, s')"
    by (rule verify_path [OF assms(1)])
  note C = ConsumeAuthNonce_run [OF v(3)]
  obtain f2 where U: "s2 = s1\<lparr>adb := (adb s1)\<lparr>db_faults := f2\<rparr>\<rparr>" "db_faults (adb s1) = [] \<Longrightarrow> f2 = []"
    using GetUserByPublicKey_run(1) [OF v(5)] by auto
  have "db_faults (adb s2) = []" using assms(2) C(7) U by simp
  from GetActiveInstanceBan_run(2) [OF v(6) this v(7) [rule_format]] show ?thesis
    using C(4) sendAuthResponse_Done [OF v(8)] by (simp add: U(1))
qed


text \<open>The toy environment of the witnesses: a signature is the padded message.\<close>

definition toy_auth :: auth_env where
  "toy_auth = \<lparr>ae_log = \<lparr>sha256 = pad_hash, cbor_marshal = (\<lambda>c. None), ed25519_sign = (\<lambda>k m. m),
       ed25519_verify = (\<lambda>pk m sg. sg = take 64 (m @ replicate 64 0))\<rparr>,
     ae_wired = False, jwt_sign = (\<lambda>secret c. Some (c_Subject c @ ''.'' @ c_SessionID c)),
     jwt_parse = (\<lambda>secret now t. None), url_parse = (\<lambda>s. None), ToLower = id,
     jwtSecret = ''s'', jwtExpiry = 100, guestSessionDuration = 10\<rparr>"

definition toy_user :: User where
  "toy_user = \<lparr>u_ID = ''u1'', u_Username = ''ann'', u_RootPublicKey = replicate 32 9,
     u_DisplayName = [], u_Role = ''member'', u_CreatedAt = 0\<rparr>"

definition toy_state :: auth_state where
  "toy_state = \<lparr>adb = empty_auth_db\<lparr>users := [toy_user],
       auth_nonces := [\<lparr>n_Nonce = hex_encode [1], n_UserPublicKey = replicate 32 9, n_ExpiresAt = 60\<rparr>]\<rparr>,
     tlog = None, notices = []\<rparr>"

definition toy_login :: VerifyRequest where
  "toy_login = \<lparr>vr_PublicKey = EncodeToString StdEncoding (replicate 32 9), vr_Nonce = hex_encode [1],
     vr_Signature = EncodeToString StdEncoding (1 # replicate 63 0), vr_DeviceID = [], vr_Label = [],
     vr_ChallengeVersion = 0, vr_Audience = []\<rparr>"

definition toy_http :: "string \<Rightarrow> http_request" where
  "toy_http auth = \<lparr>rq_TLS = True, rq_ForwardedProto = [], rq_Host = ''h'', rq_Authorization = auth\<rparr>"

lemma toy_login_run:
  "\<exists>resp s'. verify toy_auth 10 (toy_http []) ''sid'' (Some toy_login) toy_state = (Done 200 resp, s') \<and>
     au_User resp = toy_user"
  by (simp add: verify_def toy_login_def base64_roundtrip run_db_def ConsumeAuthNonce_def db_query_def
      toy_state_def empty_auth_db_def challenge_ok_def VerifySignature_def hex_roundtrip
      toy_auth_def GetUserByPublicKey_def toy_user_def GetActiveInstanceBan_def
      ensureVerifiedDeviceRegistered_def sendAuthResponse_def SignJWT_def signJWT_def
      CreateSession_def sql_exists_def Let_def)


text \<open>
  The v2 signature binds: the signed payload determines both the nonce and the audience
  (neither holds a line feed in a nonce of hex digits), and it is never the raw 32 bytes
  that a v1 signature covers.
\<close>

theorem v2_payload_binds:
  assumes "CHR ''\<newline>'' \<notin> set n" and "CHR ''\<newline>'' \<notin> set n'"
  shows "(BuildChallengeV2Payload n a = BuildChallengeV2Payload n' a' \<longleftrightarrow> n = n' \<and> a = a') \<and>
    (\<forall>m b. hex_decode m = Some b \<and> length b = NonceLen \<longrightarrow> b \<noteq> BuildChallengeV2Payload n a)"
proof -
  have split: "a @ ''\<newline>nonce='' @ n = a' @ ''\<newline>nonce='' @ n' \<Longrightarrow> n = n' \<and> a = a'"
  proof -
    assume e: "a @ ''\<newline>nonce='' @ n = a' @ ''\<newline>nonce='' @ n'"
    have last: "takeWhile (\<lambda>c. c \<noteq> CHR ''\<newline>'') (rev (x @ ''\<newline>nonce='' @ y)) = rev (''nonce='' @ y)"
      if "CHR ''\<newline>'' \<notin> set y" for x y
      using that by (simp add: takeWhile_append)
    have "rev (''nonce='' @ n) = rev (''nonce='' @ n')"
      using last [OF assms(1), of a] last [OF assms(2), of a'] e by metis
    then have "n = n'" by simp
    with e show ?thesis by simp
  qed
  have inj: "bytes_of_string x = bytes_of_string y \<Longrightarrow> x = y" for x y
    unfolding bytes_of_string_def by (erule map_injective) (rule inj_of_char_byte)
  have "BuildChallengeV2Payload n a = BuildChallengeV2Payload n' a' \<longleftrightarrow> n = n' \<and> a = a'"
    using split by (auto simp: BuildChallengeV2Payload_def dest!: inj)
  moreover have "length (BuildChallengeV2Payload n a) > NonceLen"
    by (simp add: BuildChallengeV2Payload_def bytes_of_string_def ChallengeV2Header_def NonceLen_def)
  ultimately show ?thesis by auto
qed

lemma v2_payload_binds_witness:
  "BuildChallengeV2Payload ''ab'' ''https://a'' \<noteq> BuildChallengeV2Payload ''ab'' ''https://b''"
  using v2_payload_binds [of "''ab''" "''ab''" "''https://a''" "''https://b''"] by simp

text \<open>
  A token lasts: the token of a login is accepted by \<open>RequireAuth\<close> until it expires,
  with the user, session and device it was issued for, as long as its session row is there,
  no other live session has the same token hash and its device is registered. What is used
  of the JWT library is that an unexpired token gives back the claims it was signed with.
\<close>

theorem session_roundtrip:
  assumes "\<And>c tok t. jwt_sign A (jwtSecret A) c = Some tok \<Longrightarrow> t < c_ExpiresAt c \<Longrightarrow>
      jwt_parse A (jwtSecret A) t tok = Some c"
    and "sendAuthResponse A now sid u dev s = (Done code resp, s1)"
    and "t < now + jwtExpiry A" and "db_faults (adb s2) = []"
    and "\<And>x. x \<in> set (sessions (adb s2)) \<Longrightarrow> s_TokenHash x = TokenHash A (au_Token resp) \<Longrightarrow>
      x = last (sessions (adb s1))"
    and "last (sessions (adb s1)) \<in> set (sessions (adb s2))"
    and "dev = [] \<or> sql_exists (dk_is (u_ID u) dev) (device_keys (adb s2))"
    and "bearerToken r = au_Token resp" and "au_Token resp \<noteq> []"
  shows "fst (RequireAuth A t r s2) =
    Done 200 \<lparr>cx_UserID = u_ID u, cx_SessionID = sid, cx_DeviceID = dev, cx_IsGuest = False\<rparr>"
proof -
  note S = sendAuthResponse_Done [OF assms(2)]
  let ?row = "\<lparr>s_ID = sid, s_UserID = u_ID u, s_TokenHash = TokenHash A (au_Token resp), s_ExpiresAt = now + jwtExpiry A\<rparr>"
  let ?c = "\<lparr>c_Subject = u_ID u, c_ID = sid, c_IssuedAt = now, c_ExpiresAt = now + jwtExpiry A,
    c_SessionID = sid, c_IsGuest = False, c_IsFederated = False, c_FederatedIdentityID = [], c_DeviceID = dev\<rparr>"
  have "jwt_sign A (jwtSecret A) ?c = Some (au_Token resp)"
    using S by (simp add: SignJWT_def signJWT_def)
  then have p: "ValidateJWT A t (au_Token resp) (jwtSecret A) = Some ?c"
    using assms(1,3) by (simp add: ValidateJWT_def)
  have l: "last (sessions (adb s1)) = ?row" using S by simp
  have "find (\<lambda>x. s_TokenHash x = TokenHash A (au_Token resp) \<and> s_ExpiresAt x > t) (sessions (adb s2)) = Some ?row"
  proof (rule find_unique)
    show "?row \<in> set (sessions (adb s2))" using assms(6) by (simp only: l)
    show "s_TokenHash ?row = TokenHash A (au_Token resp) \<and> s_ExpiresAt ?row > t" using assms(3) by simp
    show "x = ?row" if "x \<in> set (sessions (adb s2))"
      and "s_TokenHash x = TokenHash A (au_Token resp) \<and> s_ExpiresAt x > t" for x
      using assms(5) [OF that(1)] that(2) by (simp only: l)
  qed
  then have g: "run_db (GetSessionByTokenHash t (TokenHash A (au_Token resp))) s2 =
      (Inr ?row, s2\<lparr>adb := (adb s2)\<lparr>db_faults := []\<rparr>\<rparr>)"
    using assms(4) by (simp add: run_db_def GetSessionByTokenHash_def db_query_def)
  have "fst (run_db (IsDeviceActive (u_ID u) dev) (s2\<lparr>adb := (adb s2)\<lparr>db_faults := []\<rparr>\<rparr>)) =
      Inr (sql_exists (dk_is (u_ID u) dev) (device_keys (adb s2)))"
    by (simp add: run_db_def IsDeviceActive_def db_query_def)
  then show ?thesis
    using p g assms(7-9) by (auto simp: RequireAuth_def Let_def split: prod.splits)
qed

definition toy_claims :: "time \<Rightarrow> Claims" where
  "toy_claims now = \<lparr>c_Subject = ''u1'', c_ID = ''sid'', c_IssuedAt = now, c_ExpiresAt = now + 100,
     c_SessionID = ''sid'', c_IsGuest = False, c_IsFederated = False, c_FederatedIdentityID = [],
     c_DeviceID = []\<rparr>"

text \<open>A JWT library that knows one token.\<close>

definition toy_jwt :: "Claims \<Rightarrow> auth_env" where
  "toy_jwt c0 = toy_auth\<lparr>jwt_sign := (\<lambda>secret c. if c = c0 then Some ''t'' else None),
     jwt_parse := (\<lambda>secret now tok. if tok = ''t'' \<and> now < c_ExpiresAt c0 then Some c0 else None)\<rparr>"

lemma toy_bearer: "bearerToken (toy_http ''Bearer t'') = ''t''"
  by (simp add: bearerToken_def toy_http_def TrimSpace_id visible_def)

lemma session_roundtrip_witness:
  "\<exists>resp s1. sendAuthResponse (toy_jwt (toy_claims 10)) 10 ''sid'' toy_user [] toy_state = (Done 200 resp, s1) \<and>
     fst (RequireAuth (toy_jwt (toy_claims 10)) 50 (toy_http ''Bearer t'') s1) =
       Done 200 \<lparr>cx_UserID = ''u1'', cx_SessionID = ''sid'', cx_DeviceID = [], cx_IsGuest = False\<rparr>"
proof -
  let ?A = "toy_jwt (toy_claims 10)"
  have law: "jwt_sign ?A (jwtSecret ?A) c = Some tok \<Longrightarrow> t < c_ExpiresAt c \<Longrightarrow> jwt_parse ?A (jwtSecret ?A) t tok = Some c"
    for c tok t
    by (auto simp: toy_jwt_def split: if_splits)
  have "\<exists>resp s1. sendAuthResponse ?A 10 ''sid'' toy_user [] toy_state = (Done 200 resp, s1) \<and>
      au_Token resp = ''t'' \<and> db_faults (adb s1) = [] \<and> (\<exists>row. sessions (adb s1) = [row])"
    by (simp add: sendAuthResponse_def SignJWT_def signJWT_def toy_jwt_def toy_claims_def toy_auth_def
        toy_user_def toy_state_def empty_auth_db_def run_db_def CreateSession_def db_query_def
        sql_exists_def Let_def)
  then obtain resp s1 row where s1: "sendAuthResponse ?A 10 ''sid'' toy_user [] toy_state = (Done 200 resp, s1)"
    "au_Token resp = ''t''" "db_faults (adb s1) = []" "sessions (adb s1) = [row]"
    by blast
  note b = toy_bearer
  have "fst (RequireAuth ?A 50 (toy_http ''Bearer t'') s1) =
      Done 200 \<lparr>cx_UserID = u_ID toy_user, cx_SessionID = ''sid'', cx_DeviceID = [], cx_IsGuest = False\<rparr>"
    by (rule session_roundtrip [OF law s1(1)])
       (use s1 b in \<open>simp_all add: toy_jwt_def toy_auth_def\<close>)
  with s1(1) show ?thesis by (simp add: toy_user_def)
qed

text \<open>What acceptance by the middleware means.\<close>

lemma RequireAuth_Done:
  assumes "RequireAuth A now r s = (Done code ctx, s')"
  shows "\<exists>c. jwt_parse A (jwtSecret A) now (bearerToken r) = Some c \<and> \<not> c_IsFederated c \<and>
    ctx = \<lparr>cx_UserID = c_Subject c, cx_SessionID = c_SessionID c, cx_DeviceID = c_DeviceID c,
           cx_IsGuest = c_IsGuest c\<rparr> \<and>
    (c_IsGuest c \<or>
      (\<exists>x \<in> set (sessions (adb s)). s_ID x = c_SessionID c \<and> s_UserID x = c_Subject c \<and>
         s_TokenHash x = TokenHash A (bearerToken r) \<and> now < s_ExpiresAt x) \<and>
      (c_DeviceID c = [] \<or> sql_exists (dk_is (c_Subject c) (c_DeviceID c)) (device_keys (adb s))))"
proof -
  obtain c where c: "jwt_parse A (jwtSecret A) now (bearerToken r) = Some c"
    using assms by (auto simp: RequireAuth_def ValidateJWT_def Let_def split: option.splits if_splits)
  show ?thesis
  proof (cases "c_IsGuest c")
    case True
    then show ?thesis using assms c
      by (auto simp: RequireAuth_def ValidateJWT_def Let_def split: if_splits)
  next
    case False
    obtain sess s1 where g: "run_db (GetSessionByTokenHash now (TokenHash A (bearerToken r))) s = (Inr sess, s1)"
      using assms c False by (auto simp: RequireAuth_def ValidateJWT_def Let_def
          split: if_splits prod.splits sum.splits)
    then have x: "sess \<in> set (sessions (adb s))" "s_TokenHash sess = TokenHash A (bearerToken r)"
      "now < s_ExpiresAt sess" "device_keys (adb s1) = device_keys (adb s)"
      by (auto simp: run_db_def GetSessionByTokenHash_def db_query_def dest!: find_Some_iff_mem
          split: prod.splits bool.splits option.splits)
    have "\<not> c_IsFederated c \<and> s_ID sess = c_SessionID c \<and> s_UserID sess = c_Subject c \<and>
        ctx = \<lparr>cx_UserID = c_Subject c, cx_SessionID = c_SessionID c, cx_DeviceID = c_DeviceID c,
           cx_IsGuest = c_IsGuest c\<rparr> \<and>
        (c_DeviceID c = [] \<or> sql_exists (dk_is (c_Subject c) (c_DeviceID c)) (device_keys (adb s1)))"
      using assms c False g by (auto simp: RequireAuth_def ValidateJWT_def Let_def run_db_def IsDeviceActive_def
          db_query_def split: if_splits prod.splits sum.splits bool.splits)
    with c x show ?thesis by auto
  qed
qed



text \<open>
  Recovery asks for no proof: on an open instance anyone who sends the public key of an
  existing user to \<open>register\<close> gets a session token of that user. No nonce is consumed, no
  signature is in the request, and no ban of the user is looked up (in contrast to C16).
\<close>

theorem recovery_without_proof:
  assumes "db_faults (adb s) = []" and "instance_config (adb s) = Some cfg"
    and "ic_RegistrationMode cfg = ''open''"
    and "validateUsername (TrimSpace (rr_Username req)) = None"
    and "DecodeString StdEncoding (rr_PublicKey req) = Some pk" and "length pk = 32"
    and "find (\<lambda>u. u_RootPublicKey u = pk) (users (adb s)) = Some u"
    and "\<And>c. jwt_sign A (jwtSecret A) c \<noteq> None"
    and "\<not> sql_exists (\<lambda>x. s_ID x = sid) (sessions (adb s))"
  shows "\<exists>tok s'. register A now newID newDev sid (Some req) s = (Done 200 \<lparr>au_Token = tok, au_User = u\<rparr>, s') \<and>
    auth_nonces (adb s') = auth_nonces (adb s) \<and>
    (\<exists>x \<in> set (sessions (adb s')). s_UserID x = u_ID u \<and> s_TokenHash x = TokenHash A tok)"
proof -
  let ?req = "req\<lparr>rr_Username := TrimSpace (rr_Username req), rr_DisplayName := TrimSpace (rr_DisplayName req),
    rr_Label := TrimSpace (rr_Label req)\<rparr>"
  let ?dev = "if rr_DeviceID req = [] then newDev else rr_DeviceID req"
  have u: "u \<in> set (users (adb s))" using find_Some_iff_mem [OF assms(7)] by simp
  let ?s0 = "s\<lparr>adb := (adb s)\<lparr>db_faults := []\<rparr>\<rparr>"
  have r: "register A now newID newDev sid (Some req) s = recover_account A now newDev sid ?req pk u ?s0"
    using assms(1-7) by (simp add: register_def registration_gate_def run_db_def GetInstanceConfig_def
        GetUserByPublicKey_def db_query_def Let_def)
  define e where "e = \<lparr>OperationType = OpAccountRecovery, UserPublicKey = Some pk, SubjectKey = None,
               Timestamp = now div second, UserSignature = None\<rparr>"
  define s1 where "s1 = log_key_event A e (u_ID u) ?s0"
  obtain x s2 where i: "run_db (InsertDeviceKey now (u_ID u) ?dev (TrimSpace (rr_Label req)) pk None) s1 = (x, s2)"
    by (metis surj_pair)
  have a1: "adb s1 = (adb s)\<lparr>db_faults := []\<rparr>" by (simp add: s1_def)
  have a2: "db_faults (adb s2) = []" "users (adb s2) = users (adb s)" "sessions (adb s2) = sessions (adb s)"
    "auth_nonces (adb s2) = auth_nonces (adb s)"
    using i a1 by (auto simp: run_db_def InsertDeviceKey_def db_query_def split: prod.splits if_splits)
  obtain tok where "SignJWT A now (u_ID u) sid ?dev (jwtSecret A) (now + jwtExpiry A) = Some tok"
    using assms(8) by (auto simp: SignJWT_def signJWT_def)
  then have "\<exists>s'. sendAuthResponse A now sid u ?dev s2 = (Done 200 \<lparr>au_Token = tok, au_User = u\<rparr>, s')"
    using a2 u assms(9) by (auto simp: sendAuthResponse_def run_db_def CreateSession_def db_query_def
        sql_exists_iff Let_def)
  then obtain s' where s': "sendAuthResponse A now sid u ?dev s2 = (Done 200 \<lparr>au_Token = tok, au_User = u\<rparr>, s')"
    by blast
  have "recover_account A now newDev sid ?req pk u ?s0 = (Done 200 \<lparr>au_Token = tok, au_User = u\<rparr>, s')"
    using s' i by (cases "rr_DeviceID req = []") (simp_all add: recover_account_def Let_def s1_def e_def)
  with r sendAuthResponse_Done [OF s'] a2(4) show ?thesis
    by (intro exI [of _ tok] exI [of _ s']) simp
qed

lemma recovery_without_proof_witness:
  "\<exists>tok s'. register toy_auth 10 ''u2'' ''d'' ''sid''
      (Some \<lparr>rr_Username = ''eve'', rr_DisplayName = [], rr_PublicKey = EncodeToString StdEncoding (replicate 32 9),
             rr_DeviceID = ''d2'', rr_Label = [], rr_InviteCode = []\<rparr>)
      (toy_state\<lparr>adb := (adb toy_state)\<lparr>instance_bans := [\<lparr>ib_ID = ''b1'', ib_UserID = ''u1'',
         ib_ActorID = ''a1'', ib_Reason = ''spam'', ib_ExpiresAt = None, ib_CreatedAt = 0, ib_LiftedAt = None, ib_LiftedBy = None\<rparr>]\<rparr>\<rparr>) =
      (Done 200 \<lparr>au_Token = tok, au_User = toy_user\<rparr>, s')"
proof -
  let ?s = "toy_state\<lparr>adb := (adb toy_state)\<lparr>instance_bans := [\<lparr>ib_ID = ''b1'', ib_UserID = ''u1'',
         ib_ActorID = ''a1'', ib_Reason = ''spam'', ib_ExpiresAt = None, ib_CreatedAt = 0, ib_LiftedAt = None, ib_LiftedBy = None\<rparr>]\<rparr>\<rparr>"
  let ?req = "\<lparr>rr_Username = ''eve'', rr_DisplayName = [], rr_PublicKey = EncodeToString StdEncoding (replicate 32 9),
             rr_DeviceID = ''d2'', rr_Label = [], rr_InviteCode = []\<rparr>"
  have "db_faults (adb ?s) = []" "instance_config (adb ?s) = Some \<lparr>ic_RegistrationMode = ''open'', ic_MaxRegisteredUsers = None\<rparr>"
    "validateUsername (TrimSpace (rr_Username ?req)) = None"
    "DecodeString StdEncoding (rr_PublicKey ?req) = Some (replicate 32 9)"
    "find (\<lambda>u. u_RootPublicKey u = replicate 32 9) (users (adb ?s)) = Some toy_user"
    "\<not> sql_exists (\<lambda>x. s_ID x = ''sid'') (sessions (adb ?s))"
    by (simp_all add: toy_state_def empty_auth_db_def TrimSpace_id visible_def validateUsername_def
        username_char_def base64_roundtrip toy_user_def sql_exists_def)
  moreover have "jwt_sign toy_auth (jwtSecret toy_auth) c \<noteq> None" for c by (simp add: toy_auth_def)
  ultimately show ?thesis
    using recovery_without_proof [of ?s _ ?req "replicate 32 9" toy_user toy_auth "''sid''" 10 "''u2''" "''d''"]
    by auto
qed

text \<open>
  A revoked device comes back by logging in: after a login with the root key that names
  the device, the key row deleted by the revocation is there again, so a request with an
  older token of that device that was refused as revoked is accepted.
\<close>

theorem revoked_device_returns:
  assumes "verify A now r sid (Some req) s = (Done code resp, s')" and "db_faults (adb s) = []"
    and "TrimSpace (vr_DeviceID req) \<noteq> []"
    and "jwt_parse A (jwtSecret A) t (bearerToken old) = Some c"
    and "c_Subject c = u_ID (au_User resp)" and "c_DeviceID c = vr_DeviceID req"
    and "fst (RequireAuth A t old s) = Fail 401 ''device revoked''"
  shows "fst (RequireAuth A t old s') = Done 200 \<lparr>cx_UserID = c_Subject c, cx_SessionID = c_SessionID c,
    cx_DeviceID = c_DeviceID c, cx_IsGuest = False\<rparr>"
proof -
  obtain pk sg where q: "DecodeString StdEncoding (vr_PublicKey req) = Some pk"
    "DecodeString StdEncoding (vr_Signature req) = Some sg"
    using assms(1) by (auto simp: verify_def split: option.splits if_splits)
  obtain k s1 where cn: "run_db (ConsumeAuthNonce now (vr_Nonce req)) s = (Inr k, s1)"
    using assms(1) q by (auto simp: verify_def split: option.splits if_splits prod.splits sum.splits)
  obtain u s2 where u: "run_db (GetUserByPublicKey pk) s1 = (Inr (Some u), s2)"
    using assms(1) q cn by (auto simp: verify_def split: option.splits if_splits prod.splits sum.splits)
  obtain b s3 where b: "run_db (GetActiveInstanceBan now (u_ID u)) s2 = (b, s3)" by (metis surj_pair)
  let ?s4 = "ensureVerifiedDeviceRegistered now (u_ID u) (vr_DeviceID req) (vr_Label req) pk s3"
  have snd: "sendAuthResponse A now sid u (vr_DeviceID req) ?s4 = (Done code resp, s')"
    using assms(1) q cn u b by (auto simp: verify_def Let_def split: option.splits if_splits sum.splits)
  note C = ConsumeAuthNonce_run [OF cn] and S = sendAuthResponse_Done [OF snd]
  obtain f2 where U: "s2 = s1\<lparr>adb := (adb s1)\<lparr>db_faults := f2\<rparr>\<rparr>" "db_faults (adb s1) = [] \<Longrightarrow> f2 = []"
    using GetUserByPublicKey_run(1) [OF u] by auto
  have um: "u \<in> set (users (adb s))"
    using GetUserByPublicKey_run(2) [OF u refl] C(3) by (auto dest: sym [THEN find_Some_iff_mem])
  obtain f3 where B: "s3 = s2\<lparr>adb := (adb s2)\<lparr>db_faults := f3\<rparr>\<rparr>" "db_faults (adb s2) = [] \<Longrightarrow> f3 = []"
    using GetActiveInstanceBan_run(1) [OF b(1)] by auto
  have s3: "db_faults (adb s3) = []" "u \<in> set (users (adb s3))"
    using C(3,7) assms(2) U B um by simp_all
  have uid: "c_Subject c = u_ID u" using S assms(5) by simp
  have act: "sql_exists (dk_is (c_Subject c) (c_DeviceID c)) (device_keys (adb s'))"
    using ensure_registers [OF s3(1) assms(3) s3(2) refl] S by (simp add: uid assms(6))
  have ses: "\<exists>row. sessions (adb s') = sessions (adb s) @ [row]"
    using S by (simp add: ensure_frame B(1) U(1) C(5))
  obtain sess where sess: "find (\<lambda>x. s_TokenHash x = TokenHash A (bearerToken old) \<and> s_ExpiresAt x > t)
      (sessions (adb s)) = Some sess" "s_ID sess = c_SessionID c" "s_UserID sess = c_Subject c"
    and c: "bearerToken old \<noteq> []" "\<not> c_IsGuest c" "\<not> c_IsFederated c" "c_DeviceID c \<noteq> []"
    using assms(2,4,7) by (auto simp: RequireAuth_def ValidateJWT_def run_db_def GetSessionByTokenHash_def
        db_query_def Let_def split: option.splits if_splits prod.splits sum.splits)
  have f': "db_faults (adb s') = []"
  proof -
    have "db_faults (adb (snd (sendAuthResponse A now sid u (vr_DeviceID req) ?s4))) = []"
      by (intro login_no_faults s3(1))
    with snd show ?thesis by simp
  qed
  have "find (\<lambda>x. s_TokenHash x = TokenHash A (bearerToken old) \<and> s_ExpiresAt x > t) (sessions (adb s')) = Some sess"
    using ses sess(1) by (auto simp: find_append)
  then show ?thesis
    using assms(4) sess(2,3) c f' act by (simp add: RequireAuth_def ValidateJWT_def run_db_def
        GetSessionByTokenHash_def IsDeviceActive_def db_query_def Let_def)
qed

lemma revoked_device_returns_witness:
  "\<exists>A s (c :: Claims) req resp s'. verify A 10 (toy_http []) ''sid2'' (Some req) s = (Done 200 resp, s') \<and>
     fst (RequireAuth A 11 (toy_http ''Bearer t'') s) = Fail 401 ''device revoked'' \<and>
     fst (RequireAuth A 11 (toy_http ''Bearer t'') s') = Done 200 \<lparr>cx_UserID = c_Subject c,
       cx_SessionID = c_SessionID c, cx_DeviceID = c_DeviceID c, cx_IsGuest = False\<rparr>"
proof -
  let ?c = "(toy_claims 10)\<lparr>c_DeviceID := ''d1''\<rparr>"
  let ?A = "toy_auth\<lparr>jwt_parse := (\<lambda>secret now tok. if tok = ''t'' \<and> now < 110 then Some ?c else None)\<rparr>"
  let ?s = "toy_state\<lparr>adb := (adb toy_state)\<lparr>sessions := [\<lparr>s_ID = ''sid'', s_UserID = ''u1'',
         s_TokenHash = TokenHash toy_auth ''t'', s_ExpiresAt = 110\<rparr>]\<rparr>\<rparr>"
  let ?req = "toy_login\<lparr>vr_DeviceID := ''d1''\<rparr>"
  have h: "TokenHash ?A ''t'' = TokenHash toy_auth ''t''" by (simp add: TokenHash_def)
  have "\<exists>resp s'. verify ?A 10 (toy_http []) ''sid2'' (Some ?req) ?s = (Done 200 resp, s') \<and> au_User resp = toy_user"
    by (simp add: verify_def toy_login_def base64_roundtrip run_db_def ConsumeAuthNonce_def db_query_def
        toy_state_def empty_auth_db_def challenge_ok_def VerifySignature_def hex_roundtrip
        toy_auth_def GetUserByPublicKey_def toy_user_def GetActiveInstanceBan_def
        ensureVerifiedDeviceRegistered_def sendAuthResponse_def SignJWT_def signJWT_def TrimSpace_id visible_def
        CreateSession_def sql_exists_def BackfillRootDeviceKey_def UpsertDevice_def Let_def)
  then obtain resp s' where v: "verify ?A 10 (toy_http []) ''sid2'' (Some ?req) ?s = (Done 200 resp, s')"
    "au_User resp = toy_user" by blast
  have old: "fst (RequireAuth ?A 11 (toy_http ''Bearer t'') ?s) = Fail 401 ''device revoked''"
    using h by (simp add: RequireAuth_def ValidateJWT_def toy_bearer toy_claims_def run_db_def
        GetSessionByTokenHash_def IsDeviceActive_def sql_exists_def db_query_def toy_state_def
        empty_auth_db_def toy_auth_def Let_def)
  have "fst (RequireAuth ?A 11 (toy_http ''Bearer t'') s') = Done 200 \<lparr>cx_UserID = c_Subject ?c,
       cx_SessionID = c_SessionID ?c, cx_DeviceID = c_DeviceID ?c, cx_IsGuest = False\<rparr>"
    by (rule revoked_device_returns [OF v(1) _ _ _ _ _ old])
       (simp_all add: toy_state_def empty_auth_db_def toy_login_def TrimSpace_id visible_def toy_auth_def
          toy_bearer v(2) toy_user_def toy_claims_def)
  with v(1) old show ?thesis
    by (intro exI [of _ ?A] exI [of _ ?s] exI [of _ ?c] exI [of _ ?req] exI [of _ resp] exI [of _ s'] conjI)
qed

text \<open>How registration moves through the user table.\<close>

definition users_ok :: "auth_db \<Rightarrow> bool" where
  "users_ok d \<longleftrightarrow> distinct (map u_ID (users d)) \<and> distinct (map u_Username (users d)) \<and>
     distinct (map u_RootPublicKey (users d))"

lemma CreateUser_run:
  assumes "run_db (CreateUserWithPublicKey now newID name disp pk) s = (r, s')"
  shows "users (adb s') = users (adb s) @ (case r of Inl _ \<Rightarrow> [] | Inr u \<Rightarrow> [u])"
    and "instance_config (adb s') = instance_config (adb s)"
    and "users_ok (adb s) \<Longrightarrow> users_ok (adb s')"
    and "r = Inr u \<Longrightarrow> u_RootPublicKey u = pk"
    and "r = Inr u \<Longrightarrow> instance_config (adb s) = Some c \<Longrightarrow> ic_MaxRegisteredUsers c = Some m \<Longrightarrow>
      int (length (users (adb s'))) \<le> m"
  using assms
  by (auto simp: run_db_def CreateUserWithPublicKey_def db_query_def users_ok_def sql_exists_iff Let_def
      split: prod.splits bool.splits if_splits)

lemma registration_gate_frame:
  assumes "registration_gate now code cfg s = (r, s')"
  shows "users (adb s') = users (adb s)" and "instance_config (adb s') = instance_config (adb s)"
  using assms
  by (auto simp: registration_gate_def run_db_def GetInviteByCode_def ClaimInviteUse_def db_query_def Let_def
      split: prod.splits bool.splits if_splits sum.splits option.splits)

lemma lookup_frame:
  "run_db GetInstanceConfig s = (a, s') \<Longrightarrow> users (adb s') = users (adb s) \<and> instance_config (adb s') = instance_config (adb s)"
  "run_db (GetUserByPublicKey pk) s = (b, s') \<Longrightarrow> users (adb s') = users (adb s) \<and> instance_config (adb s') = instance_config (adb s)"
  "run_db (GetUserByUsername name) s = (c, s') \<Longrightarrow> users (adb s') = users (adb s) \<and> instance_config (adb s') = instance_config (adb s)"
  "run_db (GetActiveInstanceBan now uid) s = (d, s') \<Longrightarrow> users (adb s') = users (adb s) \<and> instance_config (adb s') = instance_config (adb s)"
  by (auto simp: run_db_def GetInstanceConfig_def GetUserByPublicKey_def GetUserByUsername_def
      GetActiveInstanceBan_def db_query_def split: prod.splits bool.splits option.splits)

lemma recover_account_run:
  assumes "recover_account A now newDev sid req pk u s = (resp, s')"
  shows "users (adb s') = users (adb s)" and "resp = Done code a \<Longrightarrow> au_User a = u"
proof -
  obtain dev s1 x s2 where i: "run_db (InsertDeviceKey now (u_ID u) dev (rr_Label req) pk None) s1 = (x, s2)"
    "adb s1 = adb s" "sendAuthResponse A now sid u dev s2 = (resp, s')"
    using assms by (simp add: recover_account_def Let_def) (metis log_key_event_adb prod.collapse)
  show "users (adb s') = users (adb s)"
    using InsertDeviceKey_frame [OF i(1)] i(2) sendAuthResponse_users [of A now sid u dev s2] i(3) by simp
  show "resp = Done code a \<Longrightarrow> au_User a = u" using sendAuthResponse_Done i(3) by blast
qed

lemma register_new_run:
  assumes "register_new A now newID newDev sid req pk s = (resp, s')"
  shows "\<exists>r s1. run_db (CreateUserWithPublicKey now newID (rr_Username req) (rr_DisplayName req) pk) s = (r, s1) \<and>
    users (adb s') = users (adb s1) \<and>
    (\<forall>code a. resp = Done code a \<longrightarrow> r = Inr (au_User a)) \<and>
    (\<forall>code msg. resp = Fail code msg \<and> code < 500 \<longrightarrow> isl r)"
proof -
  obtain r s1 where c: "run_db (CreateUserWithPublicKey now newID (rr_Username req) (rr_DisplayName req) pk) s = (r, s1)"
    by (metis surj_pair)
  show ?thesis
  proof (cases r)
    case (Inl e)
    then show ?thesis using assms c by (cases e) (auto simp: register_new_def split: if_splits)
  next
    case (Inr u)
    let ?dev = "if rr_DeviceID req = [] then newDev else rr_DeviceID req"
    obtain x s2 where i: "run_db (InsertDeviceKey now (u_ID u) ?dev (rr_Label req) pk None) s1 = (x, s2)"
      by (metis surj_pair)
    obtain s3 where s3: "sendAuthResponse A now sid u ?dev s3 = (resp, s')" "adb s3 = adb s2"
      using assms c Inr i by (auto simp: register_new_def Let_def) 
    have "users (adb s') = users (adb s1)"
      using InsertDeviceKey_frame [OF i] sendAuthResponse_users [of A now sid u ?dev s3] s3 by simp
    moreover have "\<forall>code a. resp = Done code a \<longrightarrow> au_User a = u" using sendAuthResponse_Done s3(1) by blast
    moreover have "resp = Fail code msg \<Longrightarrow> code = 500" for code msg
      using s3(1) by (auto simp: sendAuthResponse_def Let_def split: option.splits prod.splits sum.splits)
    ultimately show ?thesis using c Inr by auto
  qed
qed

text \<open>A registration either leaves the users alone or ends in \<open>register_new\<close>.\<close>

lemma register_run:
  assumes "register A now newID newDev sid body s = (resp, s')"
  shows "(users (adb s') = users (adb s) \<and> (\<forall>code a. resp = Done code a \<longrightarrow>
       (\<exists>req0. body = Some req0 \<and> au_User a \<in> set (users (adb s)) \<and>
          DecodeString StdEncoding (rr_PublicKey req0) = Some (u_RootPublicKey (au_User a))))) \<or>
    (\<exists>req0 req pk s1. body = Some req0 \<and> DecodeString StdEncoding (rr_PublicKey req0) = Some pk \<and>
       users (adb s1) = users (adb s) \<and> instance_config (adb s1) = instance_config (adb s) \<and>
       register_new A now newID newDev sid req pk s1 = (resp, s'))"
proof (cases "\<exists>code msg. resp = Fail code msg \<and> users (adb s') = users (adb s)")
  case False
  then obtain req0 where b: "body = Some req0" using assms by (auto simp: register_def split: option.splits)
  define req where "req = req0\<lparr>rr_Username := TrimSpace (rr_Username req0),
    rr_DisplayName := TrimSpace (rr_DisplayName req0), rr_Label := TrimSpace (rr_Label req0)\<rparr>"
  have pk0: "rr_PublicKey req = rr_PublicKey req0" by (simp add: req_def)
  obtain pk where k: "validateUsername (rr_Username req) = None"
    "DecodeString StdEncoding (rr_PublicKey req) = Some pk" "length pk = 32"
    using assms False b unfolding register_def req_def
    by (auto simp: Let_def split: option.splits if_splits)
  obtain x1 s1 where g1: "run_db GetInstanceConfig s = (x1, s1)" by (metis surj_pair)
  note f1 = lookup_frame(1) [OF g1]
  obtain cfg where x1: "x1 = Inr cfg"
    using assms False b k g1 f1 by (cases x1) (auto simp: register_def Let_def req_def)
  obtain x2 s2 where g2: "registration_gate now (rr_InviteCode req) cfg s1 = (x2, s2)" by (metis surj_pair)
  note f2 = registration_gate_frame [OF g2]
  have x2: "x2 = None"
    using assms False b k g1 x1 g2 f1 f2 by (cases x2) (auto simp: register_def Let_def req_def)
  obtain x3 s3 where g3: "run_db (GetUserByPublicKey pk) s2 = (x3, s3)" by (metis surj_pair)
  note f3 = lookup_frame(2) [OF g3]
  show ?thesis
  proof (cases "\<exists>u. x3 = Inr (Some u)")
    case True
    then obtain u where u: "x3 = Inr (Some u)" by blast
    then have "recover_account A now newDev sid req pk u s3 = (resp, s')"
      using assms b k g1 x1 g2 x2 g3 by (simp add: register_def Let_def req_def)
    note R = recover_account_run [OF this]
    have "u \<in> set (users (adb s))" "u_RootPublicKey u = pk"
      using GetUserByPublicKey_run(2) [OF g3 u] f1 f2 by (auto dest: sym [THEN find_Some_iff_mem])
    with R f1 f2 f3 b k pk0 show ?thesis by auto
  next
    case False
    obtain x4 s4 where g4: "run_db (GetUserByUsername (rr_Username req)) s3 = (x4, s4)" by (metis surj_pair)
    note f4 = lookup_frame(3) [OF g4]
    have "\<exists>s5. users (adb s5) = users (adb s) \<and> instance_config (adb s5) = instance_config (adb s) \<and>
        ((\<exists>msg. (resp, s') = (Fail 403 msg, s5)) \<or> register_new A now newID newDev sid req pk s5 = (resp, s'))"
    proof (cases x4)
      case (Inl e)
      then show ?thesis using assms b k g1 x1 g2 x2 g3 g4 False f1 f2 f3 f4
        by (intro exI [of _ s4]) (auto simp: register_def Let_def req_def split: sum.splits option.splits)
    next
      case (Inr u)
      obtain x5 s5 where g5: "run_db (GetActiveInstanceBan now (u_ID u)) s4 = (x5, s5)" by (metis surj_pair)
      note f5 = lookup_frame(4) [OF g5]
      show ?thesis using assms b k g1 x1 g2 x2 g3 g4 g5 Inr False f1 f2 f3 f4 f5
        by (intro exI [of _ s5]) (auto simp: register_def Let_def req_def split: sum.splits option.splits)
    qed
    then show ?thesis using b k(2) pk0 by auto
  qed
qed blast



end
