(* ===== verification/Json.thy ===== *)
theory Json
  imports Hush_Prelude "HOL-Library.AList"
begin

text \<open>
  JSON values and what \<open>encoding/json\<close>'s \<open>Unmarshal\<close> does when it decodes one into a struct
  of the code: keys match a field without regard to case, unknown keys are skipped, later
  occurrences win, \<open>null\<close> leaves a field as it is, and a value of another type is an error.
  A number that is not an integer literal is \<open>JReal\<close>: no struct of the code has a field for
  it. A text that is not JSON has no value; the handlers get \<open>None\<close> for it.
\<close>

datatype json =
    JNull
  | JBool bool
  | JInt int
  | JReal string
  | JStr string
  | JArr "json list"
  | JObj "(string \<times> json) list"

text \<open>Field names of the code are lower-case ASCII.\<close>

definition ascii_lower :: "char \<Rightarrow> char" where
  "ascii_lower c = (if of_char c \<ge> (65 :: nat) \<and> of_char c \<le> (90 :: nat) then char_of (of_char c + 32 :: nat) else c)"

definition key_matches :: "string \<Rightarrow> string \<Rightarrow> bool" where
  "key_matches name k \<longleftrightarrow> map ascii_lower k = name"

text \<open>The fields of the value that a struct is decoded from.\<close>

fun object_fields :: "json \<Rightarrow> (string \<times> json) list option" where
  "object_fields (JObj fs) = Some fs"
| "object_fields JNull = Some []"
| "object_fields _ = None"

text \<open>\<open>decode_field dec name old fs\<close> decodes every occurrence of the field in turn.\<close>

fun decode_field :: "('a \<Rightarrow> json \<Rightarrow> 'a option) \<Rightarrow> string \<Rightarrow> 'a \<Rightarrow> (string \<times> json) list \<Rightarrow> 'a option" where
  "decode_field dec name old [] = Some old"
| "decode_field dec name old ((k, j) # fs) =
     (if key_matches name k
      then (case dec old j of None \<Rightarrow> None | Some v \<Rightarrow> decode_field dec name v fs)
      else decode_field dec name old fs)"

fun decode_string :: "string \<Rightarrow> json \<Rightarrow> string option" where
  "decode_string old (JStr s) = Some s"
| "decode_string old JNull = Some old"
| "decode_string old _ = None"

fun decode_int64 :: "int \<Rightarrow> json \<Rightarrow> int option" where
  "decode_int64 old (JInt n) = (if - (2 ^ 63) \<le> n \<and> n < 2 ^ 63 then Some n else None)"
| "decode_int64 old JNull = Some old"
| "decode_int64 old _ = None"

text \<open>\<open>map[string]string\<close>: entries are added to the map that is there, \<open>null\<close> empties it.\<close>

fun decode_entries :: "(string \<times> string) list \<Rightarrow> (string \<times> json) list \<Rightarrow> (string \<times> string) list option" where
  "decode_entries m [] = Some m"
| "decode_entries m ((k, j) # fs) =
     (case decode_string [] j of
        None \<Rightarrow> None
      | Some v \<Rightarrow> decode_entries (AList.update k v m) fs)"

fun decode_string_map :: "(string \<times> string) list \<Rightarrow> json \<Rightarrow> (string \<times> string) list option" where
  "decode_string_map old (JObj fs) = decode_entries old fs"
| "decode_string_map old JNull = Some []"
| "decode_string_map old _ = None"

abbreviation string_field :: "string \<Rightarrow> (string \<times> json) list \<Rightarrow> string option" where
  "string_field name \<equiv> decode_field decode_string name []"

abbreviation int_field :: "string \<Rightarrow> (string \<times> json) list \<Rightarrow> int option" where
  "int_field name \<equiv> decode_field decode_int64 name 0"

abbreviation map_field :: "string \<Rightarrow> (string \<times> json) list \<Rightarrow> (string \<times> string) list option" where
  "map_field name \<equiv> decode_field decode_string_map name []"

lemma decode_entries_distinct:
  "decode_entries m fs = Some m' \<Longrightarrow> distinct (map fst m) \<Longrightarrow> distinct (map fst m')"
  by (induction m fs rule: decode_entries.induct) (auto simp: AList.distinct_update split: option.splits)

lemma map_field_distinct: "map_field name fs = Some m \<Longrightarrow> distinct (map fst m)"
proof -
  have "decode_field decode_string_map name old fs = Some m \<Longrightarrow> distinct (map fst old) \<Longrightarrow> distinct (map fst m)"
    for old
  proof (induction decode_string_map name old fs rule: decode_field.induct)
    case (2 name old k j fs)
    then show ?case
      by (cases j) (auto split: if_splits option.splits dest: decode_entries_distinct)
  qed simp
  then show "map_field name fs = Some m \<Longrightarrow> distinct (map fst m)" by simp
qed

section \<open>Writing strings\<close>

text \<open>
  The string literal that \<open>json.Marshal\<close> writes: quotes, backslashes and control characters
  escaped, \<open><\<close>, \<open>>\<close> and \<open>&\<close> too, bytes that are not UTF-8 replaced. \<open>rune_len\<close> is the length of
  the UTF-8 sequence at the front, 0 when there is none.
\<close>

definition cont_byte :: "nat \<Rightarrow> bool" where
  "cont_byte b \<longleftrightarrow> 0x80 \<le> b \<and> b < 0xC0"

fun rune_len :: "nat list \<Rightarrow> nat" where
  "rune_len (a # bs) =
     (if a < 0x80 then 1
      else case bs of
        [] \<Rightarrow> 0
      | b # cs \<Rightarrow>
          if 0xC2 \<le> a \<and> a < 0xE0 then (if cont_byte b then 2 else 0)
          else if 0xE0 \<le> a \<and> a < 0xF0 then
            (case cs of c # _ \<Rightarrow> if cont_byte b \<and> cont_byte c \<and> (a = 0xE0 \<longrightarrow> 0xA0 \<le> b) \<and> (a = 0xED \<longrightarrow> b < 0xA0)
                                then 3 else 0 | [] \<Rightarrow> 0)
          else if 0xF0 \<le> a \<and> a < 0xF5 then
            (case cs of c # e # _ \<Rightarrow> if cont_byte b \<and> cont_byte c \<and> cont_byte e \<and> (a = 0xF0 \<longrightarrow> 0x90 \<le> b) \<and>
                                        (a = 0xF4 \<longrightarrow> b < 0x90) then 4 else 0 | _ \<Rightarrow> 0)
          else 0)"
| "rune_len [] = 0"

definition hex_digit :: "nat \<Rightarrow> char" where
  "hex_digit n = ''0123456789abcdef'' ! (n mod 16)"

definition escape_ascii :: "char \<Rightarrow> string" where
  "escape_ascii c =
     (let n = (of_char c :: nat)
      in if n = 0x22 \<or> n = 0x5C then [CHR 0x5C, c]
         else if n = 8 then [CHR 0x5C, CHR ''b''] else if n = 12 then [CHR 0x5C, CHR ''f'']
         else if n = 10 then [CHR 0x5C, CHR ''n''] else if n = 13 then [CHR 0x5C, CHR ''r'']
         else if n = 9 then [CHR 0x5C, CHR ''t'']
         else if n < 0x20 \<or> c \<in> set ''<>&''
         then CHR 0x5C # ''u00'' @ [hex_digit (n div 16), hex_digit n]
         else [c])"

function escape_json :: "string \<Rightarrow> string" where
  "escape_json [] = []"
| "escape_json (c # cs) =
     (let n = rune_len (map of_char (c # cs))
      in if n = 0 then CHR 0x5C # ''ufffd'' @ escape_json cs
         else if n = 1 then escape_ascii c @ escape_json cs
         else let r = take n (c # cs)
              in (if r = map char_of [0xE2, 0x80, 0xA8 :: nat] then CHR 0x5C # ''u2028''
                  else if r = map char_of [0xE2, 0x80, 0xA9 :: nat] then CHR 0x5C # ''u2029'' else r)
                 @ escape_json (drop n (c # cs)))"
  by pat_completeness auto
termination by (relation "measure length") auto

definition json_quote :: "string \<Rightarrow> string" where
  "json_quote s = CHR 0x22 # escape_json s @ [CHR 0x22]"

end
