(* ===== verification/Chat_Rows.thy ===== *)
theory Chat_Rows
  imports Json
begin

text \<open>
  The rows of the tables behind guilds, channels, messages and MLS groups
  (\<open>internal/models/models.go\<close>, \<open>migrations/\<close>). A row has the columns that the modelled
  queries read or write.
\<close>

section \<open>Rows\<close>

record Server =
  sv_ID :: string
  sv_EncryptedMetadata :: "bytes option"
  sv_MemberCount :: int
  sv_TextChannelCount :: int
  sv_VoiceChannelCount :: int
  sv_StorageBytes :: int
  sv_MessageCount :: int
  sv_ActiveMembers30d :: int
  sv_LastActiveAt :: "time option"
  sv_AccessPolicy :: string
  sv_Discoverable :: bool
  sv_AdminLabelEncrypted :: "bytes option"
  sv_CreatedAt :: time
  sv_MemberCapOverride :: "int option"
  sv_IsDm :: bool
  sv_Category :: "string option"
  sv_PublicName :: "string option"
  sv_PublicDescription :: "string option"

text \<open>Levels of \<open>server_members.permission_level\<close>.\<close>

definition PermissionLevelMember :: int where
  "PermissionLevelMember = 0"

definition PermissionLevelMod :: int where
  "PermissionLevelMod = 1"

definition PermissionLevelAdmin :: int where
  "PermissionLevelAdmin = 2"

definition PermissionLevelOwner :: int where
  "PermissionLevelOwner = 3"

lemmas permission_levels = PermissionLevelMember_def PermissionLevelMod_def PermissionLevelAdmin_def
  PermissionLevelOwner_def

text \<open>A new row with the defaults of the columns.\<close>

definition new_server :: "string \<Rightarrow> time \<Rightarrow> bytes option \<Rightarrow> Server" where
  "new_server serverID now encryptedMetadata =
     \<lparr>sv_ID = serverID, sv_EncryptedMetadata = encryptedMetadata, sv_MemberCount = 0, sv_TextChannelCount = 0,
      sv_VoiceChannelCount = 0, sv_StorageBytes = 0, sv_MessageCount = 0, sv_ActiveMembers30d = 0,
      sv_LastActiveAt = None, sv_AccessPolicy = ''open'', sv_Discoverable = False,
      sv_AdminLabelEncrypted = None, sv_CreatedAt = now, sv_MemberCapOverride = None, sv_IsDm = False,
      sv_Category = None, sv_PublicName = None, sv_PublicDescription = None\<rparr>"

record Channel =
  ch_ID :: string
  ch_ServerID :: "string option"
  ch_EncryptedMetadata :: "bytes option"
  ch_Type :: string
  ch_ParentID :: "string option"
  ch_Position :: int

record ServerMember =
  sm_ServerID :: string
  sm_UserID :: "string option"
  sm_FederatedIdentityID :: "string option"
  sm_PermissionLevel :: int
  sm_JoinedAt :: time

record Mute =
  mu_ID :: string
  mu_ServerID :: "string option"
  mu_UserID :: string
  mu_ActorID :: string
  mu_Reason :: string
  mu_ExpiresAt :: "time option"
  mu_CreatedAt :: time
  mu_LiftedAt :: "time option"
  mu_LiftedBy :: "string option"

record Message =
  ms_ID :: string
  ms_ChannelID :: string
  ms_SenderID :: "string option"
  ms_FederatedSenderID :: "string option"
  ms_RecipientID :: "string option"
  ms_Ciphertext :: bytes
  ms_Timestamp :: time

record ReadMarker =
  rm_ChannelID :: string
  rm_UserID :: string
  rm_ReadUpToMsgID :: "string option"
  rm_ReadUpToTs :: "time option"
  rm_UpdatedAt :: time

record KeyPackage =
  kp_ID :: string
  kp_UserID :: string
  kp_DeviceID :: string
  kp_Bytes :: bytes
  kp_LastResort :: bool
  kp_ExpiresAt :: time
  kp_ConsumedAt :: "time option"
  kp_CreatedAt :: time
  kp_Ciphersuite :: int

record MLSCredential =
  mc_UserID :: string
  mc_DeviceID :: string
  mc_CredentialBytes :: bytes
  mc_SigningPubKey :: bytes
  mc_IdentityVersion :: int
  mc_UpdatedAt :: time

record GroupInfo =
  gi_ChannelID :: "string option"
  gi_ServerID :: "string option"
  gi_GroupType :: string
  gi_Bytes :: bytes
  gi_Epoch :: int
  gi_Ciphersuite :: int
  gi_UpdatedAt :: time

record MLSCommit =
  co_ID :: string
  co_ChannelID :: string
  co_Epoch :: int
  co_Bytes :: bytes
  co_SenderID :: string
  co_CreatedAt :: time
  co_Ciphersuite :: int

record PendingWelcome =
  pw_ID :: string
  pw_ChannelID :: string
  pw_RecipientUserID :: string
  pw_WelcomeBytes :: bytes
  pw_SenderID :: string
  pw_Epoch :: int
  pw_CreatedAt :: time
  pw_Ciphersuite :: int

text \<open>Metadata columns are JSON objects.\<close>

type_synonym metadata = "(string \<times> json) list"

record Ban =
  bn_ID :: string
  bn_ServerID :: "string option"
  bn_UserID :: string
  bn_ActorID :: string
  bn_Reason :: string
  bn_ExpiresAt :: "time option"
  bn_CreatedAt :: time
  bn_LiftedAt :: "time option"
  bn_LiftedBy :: "string option"

record AuditLogEntry =
  al_ID :: string
  al_ServerID :: "string option"
  al_ActorID :: string
  al_TargetID :: "string option"
  al_Action :: string
  al_Reason :: string
  al_Metadata :: "metadata option"
  al_CreatedAt :: time

record SystemMessage =
  sy_ID :: string
  sy_ServerID :: string
  sy_EventType :: string
  sy_ActorID :: string
  sy_TargetID :: "string option"
  sy_Reason :: string
  sy_Metadata :: "metadata option"
  sy_CreatedAt :: time

record TemplateChannel =
  tc_Name :: string
  tc_Type :: string
  tc_ParentRef :: "string option"
  tc_Position :: int

record ServerTemplate =
  st_ID :: string
  st_Name :: string
  st_Channels :: "TemplateChannel list"
  st_IsDefault :: bool
  st_Position :: int
  st_CreatedAt :: time
  st_UpdatedAt :: time

record Attachment =
  at_ID :: string
  at_ChannelID :: string
  at_OwnerID :: string
  at_StorageKey :: string
  at_Size :: int
  at_ContentType :: string
  at_CreatedAt :: time
  at_DeletedAt :: "time option"

definition MaxAttachmentBytes :: int where
  "MaxAttachmentBytes = 25 * 1024 * 1024"

text \<open>The columns of the instance configuration that concern guilds.\<close>

record GuildPolicy =
  gp_ServerCreationPolicy :: string
  gp_MaxServersPerUser :: "int option"
  gp_MaxMembersPerServer :: "int option"
  gp_MaxAttachmentBytes :: int
  gp_MaxGuildAttachmentStorageBytes :: "int option"
  gp_MessageRetentionDays :: int
  gp_SystemMessageRetentionDays :: "int option"

end
