(* ===== verification/Hub.thy ===== *)
theory Hub
  imports Chat_Rows "HOL-Library.Monad_Syntax"
begin

text \<open>
  The WebSocket hub (\<open>internal/ws/hub.go\<close>): connected clients, their channel and server
  subscriptions, presence, and the broadcasts. A Go map is the list of its keys or entries
  without repetition. A client is shared by pointer between the maps, so the maps hold
  client ids and the clients live in a heap. The send channel of a client is its queue of
  at most 256 frames and a flag saying that \<open>readPump\<close> has closed it; a send on a closed
  channel panics, which is the result \<open>None\<close>. Frames are the values that the code
  marshals to JSON.
\<close>

section \<open>Frames\<close>

record new_message =
  nm_ID :: string
  nm_ChannelID :: string
  nm_SenderID :: "string option"
  nm_FederatedSenderID :: "string option"
  nm_SenderDeviceID :: string
  nm_Ciphertext :: string
  nm_Timestamp :: time

record history_item =
  hi_ID :: string
  hi_ChannelID :: string
  hi_SenderID :: "string option"
  hi_FederatedSenderID :: "string option"
  hi_Ciphertext :: string
  hi_Timestamp :: time

datatype frame =
    PresenceUpdate "string list"
  | ErrorFrame string string
  | RateLimited int
  | Pong
  | MessageNew new_message
  | MessageSendAck string string string time
  | MessageHistoryResponse "history_item list"
  | Typing string string string
  | MLSCommitFrame string int string string string string
  | MLSAddRequestFrame string string string string
  | RawFrame json
  | KeyPackagesLow
  | MemberJoined string string
  | MemberLeft string string
  | MemberKicked string string
  | MemberBanned string string
  | MemberMuted string string
  | MemberRoleChanged string string int
  | MessageDeleted string string
  | ServerUpdated string "bytes option"
  | ServerDeleted string
  | ChannelCreated Channel
  | ChannelDeleted string
  | ChannelMoved string "string option" int
  | SystemMessageFrame string SystemMessage

section \<open>State\<close>

record Client =
  cl_userID :: string
  cl_deviceID :: string
  cl_federatedIdentityID :: string
  cl_send :: "frame list"
  cl_closed :: bool
  cl_consecutiveHits :: int
  cl_connOpen :: bool

record Hub =
  heap :: "string \<Rightarrow> Client option"
  clients :: "string list"
  channels :: "(string \<times> string list) list"
  servers :: "(string \<times> string list) list"
  presence :: "string list"

definition NewHub :: Hub where
  "NewHub = \<lparr>heap = (\<lambda>_. None), clients = [], channels = [], servers = [], presence = []\<rparr>"

definition send_capacity :: nat where
  "send_capacity = 256"

definition NewClient :: "string \<Rightarrow> string \<Rightarrow> string \<Rightarrow> Client" where
  "NewClient userID deviceID federatedIdentityID =
     \<lparr>cl_userID = userID, cl_deviceID = deviceID, cl_federatedIdentityID = federatedIdentityID,
      cl_send = [], cl_closed = False, cl_consecutiveHits = 0, cl_connOpen = True\<rparr>"

section \<open>Map operations on key lists\<close>

definition key_insert :: "'a \<Rightarrow> 'a list \<Rightarrow> 'a list" where
  "key_insert x xs = (if x \<in> set xs then xs else xs @ [x])"

definition key_delete :: "'a \<Rightarrow> 'a list \<Rightarrow> 'a list" where
  "key_delete x xs = filter (\<lambda>y. y \<noteq> x) xs"

text \<open>\<open>m[k][id] = c\<close>, creating the inner map on demand.\<close>

fun sub_insert :: "string \<Rightarrow> string \<Rightarrow> (string \<times> string list) list \<Rightarrow> (string \<times> string list) list" where
  "sub_insert k x [] = [(k, [x])]"
| "sub_insert k x ((k', ids) # m) =
     (if k = k' then (k', key_insert x ids) # m else (k', ids) # sub_insert k x m)"

text \<open>\<open>delete(m[k], id)\<close>, and the entry too when it is empty then.\<close>

definition sub_delete :: "string \<Rightarrow> string \<Rightarrow> (string \<times> string list) list \<Rightarrow> (string \<times> string list) list" where
  "sub_delete k x m =
     filter (\<lambda>(k', ids). k' \<noteq> k \<or> ids \<noteq> [])
       (map (\<lambda>(k', ids). if k' = k then (k', key_delete x ids) else (k', ids)) m)"

definition subscribers :: "string \<Rightarrow> (string \<times> string list) list \<Rightarrow> string list" where
  "subscribers k m = (case map_of m k of None \<Rightarrow> [] | Some ids \<Rightarrow> ids)"

section \<open>Sending\<close>

text \<open>\<open>select { case c.send <- msg: default: }\<close>.\<close>

definition try_send :: "frame \<Rightarrow> string \<Rightarrow> Hub \<Rightarrow> Hub option" where
  "try_send f cid h =
     (case heap h cid of
        None \<Rightarrow> Some h
      | Some c \<Rightarrow>
          (if cl_closed c then None
           else if length (cl_send c) \<ge> send_capacity then Some h
           else Some (h\<lparr>heap := (heap h)(cid \<mapsto> c\<lparr>cl_send := cl_send c @ [f]\<rparr>)\<rparr>)))"

fun send_all :: "frame \<Rightarrow> string list \<Rightarrow> Hub \<Rightarrow> Hub option" where
  "send_all f [] h = Some h"
| "send_all f (cid # cids) h = do { h' \<leftarrow> try_send f cid h; send_all f cids h' }"

definition client_at :: "Hub \<Rightarrow> string \<Rightarrow> Client" where
  "client_at h cid = (case heap h cid of None \<Rightarrow> NewClient [] [] [] | Some c \<Rightarrow> c)"

definition broadcastPresenceLocked :: "Hub \<Rightarrow> Hub option" where
  "broadcastPresenceLocked h = send_all (PresenceUpdate (presence h)) (clients h) h"

section \<open>Operations\<close>

definition presence_key :: "Client \<Rightarrow> string" where
  "presence_key c =
     (if cl_federatedIdentityID c \<noteq> [] then ''fed:'' @ cl_federatedIdentityID c else cl_userID c)"

definition Register :: "string \<Rightarrow> Hub \<Rightarrow> Hub option" where
  "Register cid h =
     broadcastPresenceLocked
       (h\<lparr>clients := key_insert cid (clients h),
          presence := key_insert (presence_key (client_at h cid)) (presence h)\<rparr>)"

definition hasOtherClientForUser :: "string \<Rightarrow> Hub \<Rightarrow> bool" where
  "hasOtherClientForUser userID h = list_ex (\<lambda>i. cl_userID (client_at h i) = userID) (clients h)"

definition hasOtherClientForFederatedUser :: "string \<Rightarrow> Hub \<Rightarrow> bool" where
  "hasOtherClientForFederatedUser fid h =
     list_ex (\<lambda>i. cl_federatedIdentityID (client_at h i) = fid) (clients h)"

definition Unregister :: "string \<Rightarrow> Hub \<Rightarrow> Hub option" where
  "Unregister cid h =
     (let c = client_at h cid;
          h1 = h\<lparr>clients := key_delete cid (clients h),
                 channels := map (\<lambda>(k, ids). (k, key_delete cid ids)) (channels h),
                 servers := map (\<lambda>(k, ids). (k, key_delete cid ids)) (servers h)\<rparr>;
          stays = (if cl_federatedIdentityID c \<noteq> [] then hasOtherClientForFederatedUser (cl_federatedIdentityID c) h1
                   else hasOtherClientForUser (cl_userID c) h1)
      in broadcastPresenceLocked
           (if stays then h1 else h1\<lparr>presence := key_delete (presence_key c) (presence h1)\<rparr>))"

definition Subscribe :: "string \<Rightarrow> string \<Rightarrow> Hub \<Rightarrow> Hub" where
  "Subscribe cid channelID h = h\<lparr>channels := sub_insert channelID cid (channels h)\<rparr>"

definition Unsubscribe :: "string \<Rightarrow> string \<Rightarrow> Hub \<Rightarrow> Hub" where
  "Unsubscribe cid channelID h = h\<lparr>channels := sub_delete channelID cid (channels h)\<rparr>"

definition SubscribeToServer :: "string \<Rightarrow> string \<Rightarrow> Hub \<Rightarrow> Hub" where
  "SubscribeToServer cid serverID h = h\<lparr>servers := sub_insert serverID cid (servers h)\<rparr>"

definition UnsubscribeFromServer :: "string \<Rightarrow> string \<Rightarrow> Hub \<Rightarrow> Hub" where
  "UnsubscribeFromServer cid serverID h = h\<lparr>servers := sub_delete serverID cid (servers h)\<rparr>"

definition BroadcastToServer :: "string \<Rightarrow> frame \<Rightarrow> Hub \<Rightarrow> Hub option" where
  "BroadcastToServer serverID f h = send_all f (subscribers serverID (servers h)) h"

definition BroadcastToAll :: "frame \<Rightarrow> Hub \<Rightarrow> Hub option" where
  "BroadcastToAll f h = send_all f (clients h) h"

definition BroadcastToUser :: "string \<Rightarrow> frame \<Rightarrow> Hub \<Rightarrow> Hub option" where
  "BroadcastToUser userID f h =
     send_all f (filter (\<lambda>i. cl_userID (client_at h i) = userID) (clients h)) h"

definition BroadcastToFederatedUser :: "string \<Rightarrow> frame \<Rightarrow> Hub \<Rightarrow> Hub option" where
  "BroadcastToFederatedUser fid f h =
     send_all f (filter (\<lambda>i. cl_federatedIdentityID (client_at h i) = fid) (clients h)) h"

definition BroadcastToUserInChannel :: "string \<Rightarrow> string \<Rightarrow> frame \<Rightarrow> Hub \<Rightarrow> Hub option" where
  "BroadcastToUserInChannel channelID userID f h =
     send_all f (filter (\<lambda>i. cl_userID (client_at h i) = userID) (subscribers channelID (channels h))) h"

definition Broadcast :: "string \<Rightarrow> frame \<Rightarrow> string \<Rightarrow> Hub \<Rightarrow> Hub option" where
  "Broadcast channelID f excludeClientID h =
     send_all f (filter (\<lambda>i. i \<noteq> excludeClientID) (subscribers channelID (channels h))) h"

text \<open>Closing a connection makes its \<open>readPump\<close> fail; the hub maps are left to \<open>Unregister\<close>.\<close>

definition close_conns :: "(Client \<Rightarrow> bool) \<Rightarrow> Hub \<Rightarrow> Hub" where
  "close_conns p h = h\<lparr>heap := (\<lambda>i. case heap h i of None \<Rightarrow> None
     | Some c \<Rightarrow> Some (if i \<in> set (clients h) \<and> p c then c\<lparr>cl_connOpen := False\<rparr> else c))\<rparr>"

definition DisconnectDevice :: "string \<Rightarrow> string \<Rightarrow> Hub \<Rightarrow> Hub" where
  "DisconnectDevice userID deviceID h =
     (if userID = [] \<or> deviceID = [] then h
      else close_conns (\<lambda>c. cl_userID c = userID \<and> cl_deviceID c = deviceID) h)"

definition DisconnectUser :: "string \<Rightarrow> Hub \<Rightarrow> Hub" where
  "DisconnectUser userID h = close_conns (\<lambda>c. cl_userID c = userID) h"

record HubStats =
  hs_Clients :: nat
  hs_PresentIdentities :: nat
  hs_SubscribedChannels :: nat
  hs_SubscribedServers :: nat

definition Stats :: "Hub \<Rightarrow> HubStats" where
  "Stats h = \<lparr>hs_Clients = length (clients h), hs_PresentIdentities = length (presence h),
     hs_SubscribedChannels = length (channels h), hs_SubscribedServers = length (servers h)\<rparr>"

section \<open>Connections\<close>

text \<open>
  \<open>readPump\<close> closes the send channel when it returns (\<open>defer close(c.send)\<close>), and only then
  does \<open>Run\<close> unregister the client; \<open>writePump\<close> takes frames from the front of the queue.
\<close>

definition close_send :: "string \<Rightarrow> Hub \<Rightarrow> Hub" where
  "close_send cid h =
     (case heap h cid of None \<Rightarrow> h
      | Some c \<Rightarrow> h\<lparr>heap := (heap h)(cid \<mapsto> c\<lparr>cl_closed := True\<rparr>)\<rparr>)"

definition write_one :: "string \<Rightarrow> Hub \<Rightarrow> frame option \<times> Hub" where
  "write_one cid h =
     (case heap h cid of
        None \<Rightarrow> (None, h)
      | Some c \<Rightarrow>
          (case cl_send c of [] \<Rightarrow> (None, h)
           | f # fs \<Rightarrow> (Some f, h\<lparr>heap := (heap h)(cid \<mapsto> c\<lparr>cl_send := fs\<rparr>)\<rparr>)))"

text \<open>The handler of a new connection: a fresh client, registered.\<close>

definition connect_client :: "string \<Rightarrow> Client \<Rightarrow> Hub \<Rightarrow> Hub option" where
  "connect_client cid c h = Register cid (h\<lparr>heap := (heap h)(cid \<mapsto> c)\<rparr>)"

end
