(* ===== verification/Chat_DB.thy ===== *)
theory Chat_DB
  imports Auth_DB Chat_Rows
begin

text \<open>
  The tables behind guilds, channels and messages, and their queries:
  \<open>internal/db/messages.go\<close>, \<open>read_markers.go\<close>, \<open>server_members.go\<close>, and from \<open>channels.go\<close>,
  \<open>moderation.go\<close> and \<open>servers.go\<close> what the message handlers use. The
  database brings its clock, its \<open>gen_random_uuid()\<close> and its failures along, as functions of the number of statements executed so far.
\<close>

section \<open>The database\<close>

record chat_db =
  cd_users :: "string list"
  cd_federated :: "string list"
  cd_servers :: "Server list"
  cd_channels :: "Channel list"
  cd_members :: "ServerMember list"
  cd_mutes :: "Mute list"
  cd_messages :: "Message list"
  cd_markers :: "ReadMarker list"
  cd_credentials :: "MLSCredential list"
  cd_key_packages :: "KeyPackage list"
  cd_group_info :: "GroupInfo list"
  cd_commits :: "MLSCommit list"
  cd_welcomes :: "PendingWelcome list"
  cd_bans :: "Ban list"
  cd_audit :: "AuditLogEntry list"
  cd_system :: "SystemMessage list"
  cd_templates :: "ServerTemplate list"
  cd_attachments :: "Attachment list"
  cd_policy :: GuildPolicy
  cd_tick :: nat
  cd_fault :: "nat \<Rightarrow> bool"
  cd_clock :: "nat \<Rightarrow> time"
  cd_uuid :: "nat \<Rightarrow> string"

type_synonym 'a chat_op = "chat_db \<Rightarrow> (db_error + 'a) \<times> chat_db"

text \<open>One statement: it fails, or it runs with the current time and a fresh UUID.\<close>

definition chat_query :: "(time \<Rightarrow> string \<Rightarrow> 'a chat_op) \<Rightarrow> 'a chat_op" where
  "chat_query q d =
     (let t = cd_tick d; d' = d\<lparr>cd_tick := Suc t\<rparr>
      in if cd_fault d t then (Inl DbOutage, d') else q (cd_clock d t) (cd_uuid d t) d')"

definition chat_read :: "(time \<Rightarrow> chat_db \<Rightarrow> 'a) \<Rightarrow> 'a chat_op" where
  "chat_read p = chat_query (\<lambda>now _ d. (Inr (p now d), d))"

section \<open>Channels and members\<close>

definition GetChannelByID :: "string \<Rightarrow> Channel option chat_op" where
  "GetChannelByID channelID = chat_read (\<lambda>_ d. find (\<lambda>c. ch_ID c = channelID) (cd_channels d))"

definition channel_member :: "chat_db \<Rightarrow> string \<Rightarrow> string \<Rightarrow> bool" where
  "channel_member d channelID userID =
     list_ex (\<lambda>m. list_ex (\<lambda>c. ch_ServerID c = Some (sm_ServerID m) \<and> ch_ID c = channelID \<and>
                                sm_UserID m = Some userID) (cd_channels d)) (cd_members d)"

definition IsChannelMember :: "string \<Rightarrow> string \<Rightarrow> bool chat_op" where
  "IsChannelMember channelID userID = chat_read (\<lambda>_ d. channel_member d channelID userID)"

text \<open>A unique index allows a user one membership of a guild.\<close>

definition AddServerMember :: "string \<Rightarrow> string \<Rightarrow> int \<Rightarrow> unit chat_op" where
  "AddServerMember serverID userID permissionLevel = chat_query (\<lambda>now _ d.
     if \<not> sql_exists (\<lambda>s. sv_ID s = serverID) (cd_servers d) \<or> userID \<notin> set (cd_users d)
     then (Inl DbForeignKey, d)
     else if permissionLevel < 0 \<or> permissionLevel > 3 then (Inl DbCheck, d)
     else if sql_exists (\<lambda>m. sm_ServerID m = serverID \<and> sm_UserID m = Some userID) (cd_members d)
     then (Inl (DbUnique ''idx_sm_local''), d)
     else (Inr (), d\<lparr>cd_members := cd_members d @
            [\<lparr>sm_ServerID = serverID, sm_UserID = Some userID, sm_FederatedIdentityID = None,
              sm_PermissionLevel = permissionLevel, sm_JoinedAt = now\<rparr>]\<rparr>))"

definition AddFederatedServerMember :: "string \<Rightarrow> string \<Rightarrow> int \<Rightarrow> unit chat_op" where
  "AddFederatedServerMember serverID federatedIdentityID permissionLevel = chat_query (\<lambda>now _ d.
     if \<not> sql_exists (\<lambda>s. sv_ID s = serverID) (cd_servers d) \<or> federatedIdentityID \<notin> set (cd_federated d)
     then (Inl DbForeignKey, d)
     else if permissionLevel < 0 \<or> permissionLevel > 3 then (Inl DbCheck, d)
     else if sql_exists (\<lambda>m. sm_ServerID m = serverID \<and> sm_FederatedIdentityID m = Some federatedIdentityID)
               (cd_members d)
     then (Inl (DbUnique ''idx_sm_federated''), d)
     else (Inr (), d\<lparr>cd_members := cd_members d @
            [\<lparr>sm_ServerID = serverID, sm_UserID = None, sm_FederatedIdentityID = Some federatedIdentityID,
              sm_PermissionLevel = permissionLevel, sm_JoinedAt = now\<rparr>]\<rparr>))"

definition RemoveServerMember :: "string \<Rightarrow> string \<Rightarrow> unit chat_op" where
  "RemoveServerMember serverID userID = chat_query (\<lambda>_ _ d.
     (Inr (), d\<lparr>cd_members :=
        sql_delete (\<lambda>m. sm_ServerID m = serverID \<and> sm_UserID m = Some userID) (cd_members d)\<rparr>))"

definition RemoveFederatedServerMember :: "string \<Rightarrow> string \<Rightarrow> unit chat_op" where
  "RemoveFederatedServerMember serverID federatedIdentityID = chat_query (\<lambda>_ _ d.
     (Inr (), d\<lparr>cd_members :=
        sql_delete (\<lambda>m. sm_ServerID m = serverID \<and> sm_FederatedIdentityID m = Some federatedIdentityID)
          (cd_members d)\<rparr>))"

definition GetServerMemberLevel :: "string \<Rightarrow> string \<Rightarrow> int chat_op" where
  "GetServerMemberLevel serverID userID = chat_query (\<lambda>_ _ d.
     case find (\<lambda>m. sm_ServerID m = serverID \<and> sm_UserID m = Some userID) (cd_members d) of
       None \<Rightarrow> (Inl DbNoRows, d)
     | Some m \<Rightarrow> (Inr (sm_PermissionLevel m), d))"

definition GetServerMemberLevelByFederatedID :: "string \<Rightarrow> string \<Rightarrow> int chat_op" where
  "GetServerMemberLevelByFederatedID serverID federatedIdentityID = chat_query (\<lambda>_ _ d.
     case find (\<lambda>m. sm_ServerID m = serverID \<and> sm_FederatedIdentityID m = Some federatedIdentityID)
            (cd_members d) of
       None \<Rightarrow> (Inl DbNoRows, d)
     | Some m \<Rightarrow> (Inr (sm_PermissionLevel m), d))"

definition UpdateServerMemberLevel :: "string \<Rightarrow> string \<Rightarrow> int \<Rightarrow> unit chat_op" where
  "UpdateServerMemberLevel serverID userID permissionLevel = chat_query (\<lambda>_ _ d.
     let same = (\<lambda>m. sm_ServerID m = serverID \<and> sm_UserID m = Some userID)
     in if sql_exists same (cd_members d) \<and> (permissionLevel < 0 \<or> permissionLevel > 3) then (Inl DbCheck, d)
        else (Inr (), d\<lparr>cd_members :=
               sql_update same (\<lambda>m. m\<lparr>sm_PermissionLevel := permissionLevel\<rparr>) (cd_members d)\<rparr>))"

text \<open>The newest row of a descending sort by creation.\<close>

definition mute_active :: "time \<Rightarrow> string \<Rightarrow> string \<Rightarrow> Mute \<Rightarrow> bool" where
  "mute_active now serverID userID m \<longleftrightarrow> mu_ServerID m = Some serverID \<and> mu_UserID m = userID \<and>
     mu_LiftedAt m = None \<and> (case mu_ExpiresAt m of None \<Rightarrow> True | Some t \<Rightarrow> t > now)"

definition GetActiveMute :: "string \<Rightarrow> string \<Rightarrow> Mute option chat_op" where
  "GetActiveMute serverID userID = chat_read (\<lambda>now d.
     case rev (sort_key mu_CreatedAt (filter (mute_active now serverID userID) (cd_mutes d))) of
       [] \<Rightarrow> None | m # _ \<Rightarrow> Some m)"

definition IncrementGuildMessageCount :: "string \<Rightarrow> unit chat_op" where
  "IncrementGuildMessageCount channelID = chat_query (\<lambda>now _ d.
     let owner = (case find (\<lambda>c. ch_ID c = channelID) (cd_channels d) of
                    None \<Rightarrow> None | Some c \<Rightarrow> ch_ServerID c)
     in (Inr (), d\<lparr>cd_servers := sql_update (\<lambda>s. Some (sv_ID s) = owner)
          (\<lambda>s. s\<lparr>sv_MessageCount := sv_MessageCount s + 1, sv_LastActiveAt := Some now\<rparr>) (cd_servers d)\<rparr>))"

section \<open>Messages\<close>

definition known :: "string list \<Rightarrow> string option \<Rightarrow> bool" where
  "known ids r = (case r of None \<Rightarrow> True | Some i \<Rightarrow> i \<in> set ids)"

definition InsertMessage ::
  "string \<Rightarrow> string option \<Rightarrow> string option \<Rightarrow> string option \<Rightarrow> bytes \<Rightarrow> Message chat_op" where
  "InsertMessage channelID senderID federatedSenderID recipientID ciphertext = chat_query (\<lambda>now uuid d.
     let m = \<lparr>ms_ID = uuid, ms_ChannelID = channelID, ms_SenderID = senderID,
              ms_FederatedSenderID = federatedSenderID, ms_RecipientID = recipientID,
              ms_Ciphertext = ciphertext, ms_Timestamp = now\<rparr>
     in if (senderID \<noteq> None) = (federatedSenderID \<noteq> None) then (Inl DbCheck, d)
        else if sql_exists (\<lambda>r. ms_ID r = uuid) (cd_messages d) then (Inl (DbUnique ''messages_pkey''), d)
        else if \<not> sql_exists (\<lambda>c. ch_ID c = channelID) (cd_channels d) \<or> \<not> known (cd_users d) senderID
             \<or> \<not> known (cd_federated d) federatedSenderID \<or> \<not> known (cd_users d) recipientID
        then (Inl DbForeignKey, d)
        else (Inr m, d\<lparr>cd_messages := cd_messages d @ [m]\<rparr>))"

text \<open>The zero value of \<open>time.Time\<close>, 1 January of year 1.\<close>

definition zero_time :: time where
  "zero_time = - 62135596800 * second"

definition visible_to :: "string \<Rightarrow> Message \<Rightarrow> bool" where
  "visible_to userID m \<longleftrightarrow> ms_RecipientID m = None \<or> ms_RecipientID m = Some userID"

text \<open>\<open>ORDER BY timestamp DESC\<close>; between equal timestamps the later row comes first.\<close>

definition GetMessages :: "string \<Rightarrow> string \<Rightarrow> time \<Rightarrow> int \<Rightarrow> Message list chat_op" where
  "GetMessages channelID recipientID before limit =
     (if limit \<le> 0 then (\<lambda>d. (Inr [], d))
      else chat_read (\<lambda>_ d. take (nat limit) (rev (sort_key ms_Timestamp
             (filter (\<lambda>m. ms_ChannelID m = channelID \<and> visible_to recipientID m \<and>
                          (before = zero_time \<or> ms_Timestamp m < before)) (cd_messages d))))))"

definition GetMessagesAfter :: "string \<Rightarrow> string \<Rightarrow> time \<Rightarrow> int \<Rightarrow> Message list chat_op" where
  "GetMessagesAfter channelID recipientID after limit =
     (if limit \<le> 0 then (\<lambda>d. (Inr [], d))
      else chat_read (\<lambda>_ d. take (nat limit) (sort_key ms_Timestamp
             (filter (\<lambda>m. ms_ChannelID m = channelID \<and> visible_to recipientID m \<and>
                          ms_Timestamp m > after) (cd_messages d)))))"

definition GetMessageByID :: "string \<Rightarrow> Message option chat_op" where
  "GetMessageByID messageID = chat_read (\<lambda>_ d. find (\<lambda>m. ms_ID m = messageID) (cd_messages d))"

text \<open>A deleted message is forgotten by the read markers (\<open>ON DELETE SET NULL\<close>).\<close>

definition drop_messages :: "(Message \<Rightarrow> bool) \<Rightarrow> chat_db \<Rightarrow> chat_db" where
  "drop_messages p d =
     d\<lparr>cd_messages := sql_delete p (cd_messages d),
       cd_markers := sql_update
         (\<lambda>r. sql_exists (\<lambda>m. p m \<and> rm_ReadUpToMsgID r = Some (ms_ID m)) (cd_messages d))
         (\<lambda>r. r\<lparr>rm_ReadUpToMsgID := None\<rparr>) (cd_markers d)\<rparr>"

definition DeleteMessage :: "string \<Rightarrow> string \<Rightarrow> unit chat_op" where
  "DeleteMessage messageID serverID = chat_query (\<lambda>_ _ d.
     let hit = (\<lambda>m. ms_ID m = messageID \<and>
                     sql_exists (\<lambda>c. ch_ID c = ms_ChannelID m \<and> ch_ServerID c = Some serverID) (cd_channels d))
     in if sql_exists hit (cd_messages d)
        then (Inr (), drop_messages hit d)
        else (Inl DbNoRows, d))"

definition PurgeExpiredMessages :: "int \<Rightarrow> nat chat_op" where
  "PurgeExpiredMessages retentionDays =
     (if retentionDays \<le> 0 then (\<lambda>d. (Inr 0, d))
      else chat_query (\<lambda>now _ d.
        let old = (\<lambda>m. ms_Timestamp m < now - retentionDays * day)
        in (Inr (sql_count old (cd_messages d)), drop_messages old d)))"

section \<open>Read markers\<close>

definition marker_of :: "chat_db \<Rightarrow> string \<Rightarrow> string \<Rightarrow> time option" where
  "marker_of d channelID userID =
     (case find (\<lambda>r. rm_ChannelID r = channelID \<and> rm_UserID r = userID) (cd_markers d) of
        None \<Rightarrow> None | Some r \<Rightarrow> rm_ReadUpToTs r)"

text \<open>Without a marker, or with a null one, \<open>COALESCE\<close> gives minus infinity.\<close>

definition unread :: "chat_db \<Rightarrow> string \<Rightarrow> string \<Rightarrow> Message \<Rightarrow> bool" where
  "unread d channelID userID m \<longleftrightarrow> ms_ChannelID m = channelID \<and> visible_to userID m \<and>
     ms_SenderID m \<noteq> Some userID \<and>
     (case marker_of d channelID userID of None \<Rightarrow> True | Some t \<Rightarrow> ms_Timestamp m > t)"

definition GetUnreadCount :: "string \<Rightarrow> string \<Rightarrow> nat chat_op" where
  "GetUnreadCount channelID userID = chat_read (\<lambda>_ d. sql_count (unread d channelID userID) (cd_messages d))"

definition MarkChannelRead :: "string \<Rightarrow> string \<Rightarrow> string \<Rightarrow> unit chat_op" where
  "MarkChannelRead channelID userID messageID d =
     (case chat_query (\<lambda>_ _ d.
             case find (\<lambda>m. ms_ID m = messageID \<and> ms_ChannelID m = channelID \<and> visible_to userID m)
                    (cd_messages d) of
               None \<Rightarrow> (Inl DbNoRows, d)
             | Some m \<Rightarrow> (Inr (ms_Timestamp m), d)) d of
        (Inl e, d) \<Rightarrow> (Inl e, d)
      | (Inr ts, d) \<Rightarrow> chat_query (\<lambda>now _ d.
          let same = (\<lambda>r. rm_ChannelID r = channelID \<and> rm_UserID r = userID);
              older = (\<lambda>r. same r \<and> (case rm_ReadUpToTs r of None \<Rightarrow> True | Some t \<Rightarrow> t < ts))
          in if sql_exists same (cd_markers d)
             then (Inr (), d\<lparr>cd_markers := sql_update older
                    (\<lambda>r. r\<lparr>rm_ReadUpToMsgID := Some messageID, rm_ReadUpToTs := Some ts,
                           rm_UpdatedAt := now\<rparr>) (cd_markers d)\<rparr>)
             else if userID \<notin> set (cd_users d) then (Inl DbForeignKey, d)
             else (Inr (), d\<lparr>cd_markers := cd_markers d @
                    [\<lparr>rm_ChannelID = channelID, rm_UserID = userID, rm_ReadUpToMsgID = Some messageID,
                      rm_ReadUpToTs = Some ts, rm_UpdatedAt = now\<rparr>]\<rparr>)) d)"

end
