(* ===== verification/Mls_DB.thy ===== *)
theory Mls_DB
  imports Chat_DB "HOL-Library.List_Lexorder" "HOL-Library.Char_ord"
begin

text \<open>
  The MLS tables: credentials and key packages (\<open>internal/db/mls.go\<close>), group information,
  the commit queue and pending welcomes (\<open>internal/db/mls_groups.go\<close>). The server never
  looks into the blobs; it stamps rows with its ciphersuite and hands out only rows of it.
\<close>

text \<open>\<open>version.CurrentMLSCiphersuite\<close>.\<close>

definition CurrentMLSCiphersuite :: int where
  "CurrentMLSCiphersuite = 77"

section \<open>Credentials\<close>

definition mc_is :: "string \<Rightarrow> string \<Rightarrow> MLSCredential \<Rightarrow> bool" where
  "mc_is userID deviceID r \<longleftrightarrow> mc_UserID r = userID \<and> mc_DeviceID r = deviceID"

definition UpsertMLSCredential :: "string \<Rightarrow> string \<Rightarrow> bytes \<Rightarrow> bytes \<Rightarrow> int \<Rightarrow> unit chat_op" where
  "UpsertMLSCredential userID deviceID credentialBytes signingPublicKey identityVersion = chat_query (\<lambda>now _ d.
     let row = \<lparr>mc_UserID = userID, mc_DeviceID = deviceID, mc_CredentialBytes = credentialBytes,
                mc_SigningPubKey = signingPublicKey, mc_IdentityVersion = identityVersion,
                mc_UpdatedAt = now\<rparr>
     in if sql_exists (mc_is userID deviceID) (cd_credentials d)
        then (Inr (), d\<lparr>cd_credentials := sql_update (mc_is userID deviceID) (\<lambda>_. row) (cd_credentials d)\<rparr>)
        else if userID \<notin> set (cd_users d) then (Inl DbForeignKey, d)
        else (Inr (), d\<lparr>cd_credentials := cd_credentials d @ [row]\<rparr>))"

text \<open>\<open>(nil, nil, 0, nil)\<close> without a row.\<close>

definition GetMLSCredential :: "string \<Rightarrow> string \<Rightarrow> MLSCredential option chat_op" where
  "GetMLSCredential userID deviceID = chat_read (\<lambda>_ d. find (mc_is userID deviceID) (cd_credentials d))"

definition ListDeviceIDsForUser :: "string \<Rightarrow> string list chat_op" where
  "ListDeviceIDsForUser userID = chat_read (\<lambda>_ d.
     sort (map mc_DeviceID (filter (\<lambda>r. mc_UserID r = userID) (cd_credentials d))))"

section \<open>Key packages\<close>

definition insert_key_package ::
  "string \<Rightarrow> string \<Rightarrow> bytes \<Rightarrow> bool \<Rightarrow> time \<Rightarrow> unit chat_op" where
  "insert_key_package userID deviceID kp lastResort expiresAt = chat_query (\<lambda>now uuid d.
     if userID \<notin> set (cd_users d) then (Inl DbForeignKey, d)
     else if sql_exists (\<lambda>r. kp_ID r = uuid) (cd_key_packages d) then (Inl (DbUnique ''mls_key_packages_pkey''), d)
     else (Inr (), d\<lparr>cd_key_packages := cd_key_packages d @
            [\<lparr>kp_ID = uuid, kp_UserID = userID, kp_DeviceID = deviceID, kp_Bytes = kp,
              kp_LastResort = lastResort, kp_ExpiresAt = expiresAt, kp_ConsumedAt = None,
              kp_CreatedAt = now, kp_Ciphersuite = CurrentMLSCiphersuite\<rparr>]\<rparr>))"

text \<open>A batch and a transaction leave the table as it was when a statement fails.\<close>

definition in_tx :: "'a chat_op \<Rightarrow> 'a chat_op" where
  "in_tx q d =
     (case q d of
        (Inl e, d') \<Rightarrow> (Inl e, d\<lparr>cd_tick := cd_tick d'\<rparr>)
      | (Inr x, d') \<Rightarrow> (Inr x, d'))"

fun insert_batch :: "string \<Rightarrow> string \<Rightarrow> bytes list \<Rightarrow> time \<Rightarrow> unit chat_op" where
  "insert_batch userID deviceID [] expiresAt d = (Inr (), d)"
| "insert_batch userID deviceID (kp # kps) expiresAt d =
     (case insert_key_package userID deviceID kp False expiresAt d of
        (Inl e, d) \<Rightarrow> (Inl e, d)
      | (Inr _, d) \<Rightarrow> insert_batch userID deviceID kps expiresAt d)"

definition InsertMLSKeyPackages :: "string \<Rightarrow> string \<Rightarrow> bytes list \<Rightarrow> time \<Rightarrow> unit chat_op" where
  "InsertMLSKeyPackages userID deviceID packages expiresAt =
     in_tx (insert_batch userID deviceID packages expiresAt)"

text \<open>1 January 2099.\<close>

definition farFuture :: time where
  "farFuture = 4070908800 * second"

definition last_resort_row :: "string \<Rightarrow> string \<Rightarrow> KeyPackage \<Rightarrow> bool" where
  "last_resort_row userID deviceID r \<longleftrightarrow> kp_UserID r = userID \<and> kp_DeviceID r = deviceID \<and>
     kp_LastResort r \<and> kp_Ciphersuite r = CurrentMLSCiphersuite"

definition InsertMLSLastResortKeyPackage :: "string \<Rightarrow> string \<Rightarrow> bytes \<Rightarrow> unit chat_op" where
  "InsertMLSLastResortKeyPackage userID deviceID keyPackageBytes = in_tx (\<lambda>d.
     case chat_query (\<lambda>_ _ d. (Inr (), d\<lparr>cd_key_packages :=
            sql_delete (last_resort_row userID deviceID) (cd_key_packages d)\<rparr>)) d of
       (Inl e, d) \<Rightarrow> (Inl e, d)
     | (Inr _, d) \<Rightarrow> insert_key_package userID deviceID keyPackageBytes True farFuture d)"

definition usable_kp :: "time \<Rightarrow> string \<Rightarrow> string \<Rightarrow> KeyPackage \<Rightarrow> bool" where
  "usable_kp now userID deviceID r \<longleftrightarrow> kp_UserID r = userID \<and> kp_DeviceID r = deviceID \<and>
     kp_Ciphersuite r = CurrentMLSCiphersuite \<and> kp_ConsumedAt r = None \<and> \<not> kp_LastResort r \<and>
     kp_ExpiresAt r > now"

text \<open>
  One statement consumes a package; SQL leaves open which of several, the model takes the
  first. Only when there is none does a second statement look for the last resort.
\<close>

definition ConsumeMLSKeyPackage :: "string \<Rightarrow> string \<Rightarrow> bytes option chat_op" where
  "ConsumeMLSKeyPackage userID deviceID d =
     (case chat_query (\<lambda>now _ d.
             case find (usable_kp now userID deviceID) (cd_key_packages d) of
               None \<Rightarrow> (Inl DbNoRows, d)
             | Some r \<Rightarrow> (Inr (kp_Bytes r), d\<lparr>cd_key_packages :=
                 sql_update (\<lambda>r'. kp_ID r' = kp_ID r) (\<lambda>r'. r'\<lparr>kp_ConsumedAt := Some now\<rparr>)
                   (cd_key_packages d)\<rparr>)) d of
        (Inr b, d) \<Rightarrow> (Inr (Some b), d)
      | (Inl e, d) \<Rightarrow>
          if e \<noteq> DbNoRows then (Inl e, d)
          else chat_read (\<lambda>_ d. map_option kp_Bytes
                 (find (\<lambda>r. last_resort_row userID deviceID r \<and> kp_ConsumedAt r = None) (cd_key_packages d))) d)"

definition CountUnusedMLSKeyPackages :: "string \<Rightarrow> string \<Rightarrow> nat chat_op" where
  "CountUnusedMLSKeyPackages userID deviceID =
     chat_read (\<lambda>now d. sql_count (usable_kp now userID deviceID) (cd_key_packages d))"

definition purgeable_kp :: "time \<Rightarrow> KeyPackage \<Rightarrow> bool" where
  "purgeable_kp now r \<longleftrightarrow>
     (kp_ConsumedAt r \<noteq> None \<and> kp_CreatedAt r < now - 30 * day) \<or>
     (kp_ConsumedAt r = None \<and> kp_ExpiresAt r < now \<and> \<not> kp_LastResort r)"

definition PurgeExpiredMLSKeyPackages :: "nat chat_op" where
  "PurgeExpiredMLSKeyPackages = chat_query (\<lambda>now _ d.
     let ids = map kp_ID (take 10000 (filter (purgeable_kp now) (cd_key_packages d)));
         old = (\<lambda>r. kp_ID r \<in> set ids)
     in (Inr (sql_count old (cd_key_packages d)),
         d\<lparr>cd_key_packages := sql_delete old (cd_key_packages d)\<rparr>))"

section \<open>Group information\<close>

definition gi_channel :: "string \<Rightarrow> string \<Rightarrow> GroupInfo \<Rightarrow> bool" where
  "gi_channel channelID groupType r \<longleftrightarrow> gi_ChannelID r = Some channelID \<and> gi_GroupType r = groupType \<and>
     gi_Ciphersuite r = CurrentMLSCiphersuite"

definition gi_guild :: "string \<Rightarrow> GroupInfo \<Rightarrow> bool" where
  "gi_guild serverID r \<longleftrightarrow> gi_ServerID r = Some serverID \<and> gi_GroupType r = ''metadata'' \<and>
     gi_Ciphersuite r = CurrentMLSCiphersuite"

definition UpsertMLSGroupInfo :: "string \<Rightarrow> string \<Rightarrow> bytes \<Rightarrow> int \<Rightarrow> unit chat_op" where
  "UpsertMLSGroupInfo channelID groupType groupInfoBytes epoch = chat_query (\<lambda>now _ d.
     if groupType \<notin> {''text'', ''voice'', ''metadata''} then (Inl DbCheck, d)
     else if sql_exists (gi_channel channelID groupType) (cd_group_info d)
     then (Inr (), d\<lparr>cd_group_info := sql_update (gi_channel channelID groupType)
            (\<lambda>r. r\<lparr>gi_Bytes := groupInfoBytes, gi_Epoch := epoch, gi_UpdatedAt := now\<rparr>) (cd_group_info d)\<rparr>)
     else if \<not> sql_exists (\<lambda>c. ch_ID c = channelID) (cd_channels d) then (Inl DbForeignKey, d)
     else (Inr (), d\<lparr>cd_group_info := cd_group_info d @
            [\<lparr>gi_ChannelID = Some channelID, gi_ServerID = None, gi_GroupType = groupType,
              gi_Bytes = groupInfoBytes, gi_Epoch = epoch, gi_Ciphersuite = CurrentMLSCiphersuite,
              gi_UpdatedAt = now\<rparr>]\<rparr>))"

text \<open>\<open>(nil, 0, nil)\<close> without a row.\<close>

definition GetMLSGroupInfo :: "string \<Rightarrow> string \<Rightarrow> (bytes \<times> int) option chat_op" where
  "GetMLSGroupInfo channelID groupType = chat_read (\<lambda>_ d.
     map_option (\<lambda>r. (gi_Bytes r, gi_Epoch r)) (find (gi_channel channelID groupType) (cd_group_info d)))"

definition DeleteMLSGroupInfo :: "string \<Rightarrow> string \<Rightarrow> unit chat_op" where
  "DeleteMLSGroupInfo channelID groupType = chat_query (\<lambda>_ _ d.
     (Inr (), d\<lparr>cd_group_info := sql_delete (gi_channel channelID groupType) (cd_group_info d)\<rparr>))"

definition UpsertMLSGuildMetadataGroupInfo :: "string \<Rightarrow> bytes \<Rightarrow> int \<Rightarrow> unit chat_op" where
  "UpsertMLSGuildMetadataGroupInfo serverID groupInfoBytes epoch = chat_query (\<lambda>now _ d.
     if sql_exists (gi_guild serverID) (cd_group_info d)
     then (Inr (), d\<lparr>cd_group_info := sql_update (gi_guild serverID)
            (\<lambda>r. r\<lparr>gi_Bytes := groupInfoBytes, gi_Epoch := epoch, gi_UpdatedAt := now\<rparr>) (cd_group_info d)\<rparr>)
     else if \<not> sql_exists (\<lambda>s. sv_ID s = serverID) (cd_servers d) then (Inl DbForeignKey, d)
     else (Inr (), d\<lparr>cd_group_info := cd_group_info d @
            [\<lparr>gi_ChannelID = None, gi_ServerID = Some serverID, gi_GroupType = ''metadata'',
              gi_Bytes = groupInfoBytes, gi_Epoch = epoch, gi_Ciphersuite = CurrentMLSCiphersuite,
              gi_UpdatedAt = now\<rparr>]\<rparr>))"

definition GetMLSGuildMetadataGroupInfo :: "string \<Rightarrow> (bytes \<times> int) option chat_op" where
  "GetMLSGuildMetadataGroupInfo serverID = chat_read (\<lambda>_ d.
     map_option (\<lambda>r. (gi_Bytes r, gi_Epoch r)) (find (gi_guild serverID) (cd_group_info d)))"

definition DeleteMLSGuildMetadataGroupInfo :: "string \<Rightarrow> unit chat_op" where
  "DeleteMLSGuildMetadataGroupInfo serverID = chat_query (\<lambda>_ _ d.
     (Inr (), d\<lparr>cd_group_info := sql_delete (gi_guild serverID) (cd_group_info d)\<rparr>))"

section \<open>The commit queue\<close>

definition AppendMLSCommit :: "string \<Rightarrow> int \<Rightarrow> bytes \<Rightarrow> string \<Rightarrow> unit chat_op" where
  "AppendMLSCommit channelID epoch commitBytes senderID = chat_query (\<lambda>now uuid d.
     if sql_exists (\<lambda>r. co_ID r = uuid) (cd_commits d) then (Inl (DbUnique ''mls_commits_pkey''), d)
     else if \<not> sql_exists (\<lambda>c. ch_ID c = channelID) (cd_channels d) \<or> senderID \<notin> set (cd_users d)
     then (Inl DbForeignKey, d)
     else (Inr (), d\<lparr>cd_commits := cd_commits d @
            [\<lparr>co_ID = uuid, co_ChannelID = channelID, co_Epoch = epoch, co_Bytes = commitBytes,
              co_SenderID = senderID, co_CreatedAt = now, co_Ciphersuite = CurrentMLSCiphersuite\<rparr>]\<rparr>))"

record MLSCommitRow =
  cr_Epoch :: int
  cr_CommitBytes :: bytes
  cr_SenderID :: string
  cr_CreatedAt :: time

text \<open>
  Rows without an epoch of their own get their number in the order of creation, ties broken
  by id. Rows of the same effective epoch come in any order; here in that of creation.
\<close>

definition numbered_commits :: "string \<Rightarrow> MLSCommit list \<Rightarrow> MLSCommitRow list" where
  "numbered_commits channelID rows =
     (let rs = sort_key co_CreatedAt (sort_key co_ID
                 (filter (\<lambda>r. co_ChannelID r = channelID \<and> co_Ciphersuite r = CurrentMLSCiphersuite) rows))
      in map (\<lambda>(n, r). \<lparr>cr_Epoch = (if co_Epoch r > 0 then co_Epoch r else int n + 1),
                         cr_CommitBytes = co_Bytes r, cr_SenderID = co_SenderID r,
                         cr_CreatedAt = co_CreatedAt r\<rparr>) (enumerate 0 rs))"

definition GetMLSCommitsSinceEpoch :: "string \<Rightarrow> int \<Rightarrow> int \<Rightarrow> MLSCommitRow list chat_op" where
  "GetMLSCommitsSinceEpoch channelID sinceEpoch limit = chat_query (\<lambda>_ _ d.
     if limit < 0 then (Inl DbCheck, d)
     else (Inr (take (nat limit) (sort_key cr_Epoch
            (filter (\<lambda>r. cr_Epoch r > sinceEpoch) (numbered_commits channelID (cd_commits d))))), d))"

definition PurgeOldMLSCommits :: "int \<Rightarrow> nat chat_op" where
  "PurgeOldMLSCommits maxPerChannel = chat_query (\<lambda>_ _ d.
     let excess = filter (\<lambda>c. int (sql_count (\<lambda>r. co_ChannelID r = co_ChannelID c \<and> co_Epoch r \<ge> co_Epoch c)
                                     (cd_commits d)) > maxPerChannel) (cd_commits d);
         ids = map co_ID (take 10000 (sort_key co_Epoch excess));
         old = (\<lambda>r. co_ID r \<in> set ids)
     in (Inr (sql_count old (cd_commits d)), d\<lparr>cd_commits := sql_delete old (cd_commits d)\<rparr>))"

section \<open>Pending welcomes\<close>

definition StorePendingWelcome :: "string \<Rightarrow> string \<Rightarrow> string \<Rightarrow> bytes \<Rightarrow> int \<Rightarrow> unit chat_op" where
  "StorePendingWelcome channelID recipientUserID senderID welcomeBytes epoch = chat_query (\<lambda>now uuid d.
     if sql_exists (\<lambda>r. pw_ID r = uuid) (cd_welcomes d) then (Inl (DbUnique ''mls_pending_welcomes_pkey''), d)
     else if \<not> sql_exists (\<lambda>c. ch_ID c = channelID) (cd_channels d) \<or> recipientUserID \<notin> set (cd_users d)
          \<or> senderID \<notin> set (cd_users d)
     then (Inl DbForeignKey, d)
     else (Inr (), d\<lparr>cd_welcomes := cd_welcomes d @
            [\<lparr>pw_ID = uuid, pw_ChannelID = channelID, pw_RecipientUserID = recipientUserID,
              pw_WelcomeBytes = welcomeBytes, pw_SenderID = senderID, pw_Epoch = epoch,
              pw_CreatedAt = now, pw_Ciphersuite = CurrentMLSCiphersuite\<rparr>]\<rparr>))"

definition GetPendingWelcomes :: "string \<Rightarrow> PendingWelcome list chat_op" where
  "GetPendingWelcomes recipientUserID = chat_read (\<lambda>_ d.
     sort_key pw_CreatedAt (filter (\<lambda>r. pw_RecipientUserID r = recipientUserID \<and>
       pw_Ciphersuite r = CurrentMLSCiphersuite) (cd_welcomes d)))"

definition DeletePendingWelcome :: "string \<Rightarrow> unit chat_op" where
  "DeletePendingWelcome welcomeID = chat_query (\<lambda>_ _ d.
     (Inr (), d\<lparr>cd_welcomes := sql_delete (\<lambda>r. pw_ID r = welcomeID \<and> pw_Ciphersuite r = CurrentMLSCiphersuite)
       (cd_welcomes d)\<rparr>))"

end
