(* ===== verification/Ws.thy ===== *)
theory Ws
  imports Hub Mls_DB Codec
begin

text \<open>
  The WebSocket protocol: the read loop and dispatcher of a connection
  (\<open>internal/ws/client.go\<close>) and the message handlers (\<open>internal/ws/handlers.go\<close>). The state
  is the hub and the database; a handler answers through the send queues of the hub, and
  is \<open>None\<close> when a send panics. A frame that arrives is its JSON value. The two
  \<open>time.Parse\<close> layouts are functions of \<open>ws_env\<close>; the rate limiter's answer is an argument.
\<close>

section \<open>State and environment\<close>

record world =
  hub :: Hub
  cdb :: chat_db

record ws_env =
  we_store :: bool
  Parse_RFC3339Nano :: "string \<Rightarrow> time option"
  Parse_RFC3339 :: "string \<Rightarrow> time option"

definition messageHistoryLimitMax :: int where
  "messageHistoryLimitMax = 50"

definition maxFanoutRecipients :: nat where
  "maxFanoutRecipients = 200"

definition maxCiphertextBytes :: nat where
  "maxCiphertextBytes = 8 * 1024"

definition wsMaxConsecutiveHit :: int where
  "wsMaxConsecutiveHit = 10"

definition run_chat :: "'a chat_op \<Rightarrow> world \<Rightarrow> (db_error + 'a) \<times> world" where
  "run_chat q w = (case q (cdb w) of (r, d) \<Rightarrow> (r, w\<lparr>cdb := d\<rparr>))"

definition run_hub :: "(Hub \<Rightarrow> Hub option) \<Rightarrow> world \<Rightarrow> world option" where
  "run_hub f w = map_option (\<lambda>h. w\<lparr>hub := h\<rparr>) (f (hub w))"

abbreviation client :: "world \<Rightarrow> string \<Rightarrow> Client" where
  "client w cid \<equiv> client_at (hub w) cid"

definition sendError :: "string \<Rightarrow> string \<Rightarrow> string \<Rightarrow> world \<Rightarrow> world option" where
  "sendError cid code msg = run_hub (try_send (ErrorFrame code msg) cid)"

section \<open>Payloads\<close>

record send_payload =
  sp_ChannelID :: string
  sp_Ciphertext :: string
  sp_CiphertextByRecipient :: "(string \<times> string) list"
  sp_LocalID :: string

definition decode_send :: "json \<Rightarrow> send_payload option" where
  "decode_send raw = do {
     fs \<leftarrow> object_fields raw;
     c \<leftarrow> string_field ''channel_id'' fs;
     t \<leftarrow> string_field ''ciphertext'' fs;
     m \<leftarrow> map_field ''ciphertext_by_recipient'' fs;
     l \<leftarrow> string_field ''local_id'' fs;
     Some \<lparr>sp_ChannelID = c, sp_Ciphertext = t, sp_CiphertextByRecipient = m, sp_LocalID = l\<rparr> }"

definition decode_channel :: "json \<Rightarrow> string option" where
  "decode_channel raw = do { fs \<leftarrow> object_fields raw; string_field ''channel_id'' fs }"

record history_payload =
  hp_ChannelID :: string
  hp_Before :: string
  hp_Limit :: int

definition decode_history :: "json \<Rightarrow> history_payload option" where
  "decode_history raw = do {
     fs \<leftarrow> object_fields raw;
     c \<leftarrow> string_field ''channel_id'' fs;
     b \<leftarrow> string_field ''before'' fs;
     l \<leftarrow> int_field ''limit'' fs;
     Some \<lparr>hp_ChannelID = c, hp_Before = b, hp_Limit = l\<rparr> }"

definition decode_mark_read :: "json \<Rightarrow> (string \<times> string) option" where
  "decode_mark_read raw = do {
     fs \<leftarrow> object_fields raw;
     c \<leftarrow> string_field ''channel_id'' fs;
     m \<leftarrow> string_field ''message_id'' fs;
     Some (c, m) }"

record commit_payload =
  cp_ChannelID :: string
  cp_CommitBytes :: string
  cp_GroupInfo :: string
  cp_Epoch :: int
  cp_GroupType :: string
  cp_Ciphersuite :: int

definition decode_commit :: "json \<Rightarrow> commit_payload option" where
  "decode_commit raw = do {
     fs \<leftarrow> object_fields raw;
     c \<leftarrow> string_field ''channel_id'' fs;
     b \<leftarrow> string_field ''commit_bytes'' fs;
     g \<leftarrow> string_field ''group_info'' fs;
     e \<leftarrow> int_field ''epoch'' fs;
     t \<leftarrow> string_field ''group_type'' fs;
     s \<leftarrow> int_field ''ciphersuite'' fs;
     Some \<lparr>cp_ChannelID = c, cp_CommitBytes = b, cp_GroupInfo = g, cp_Epoch = e, cp_GroupType = t,
           cp_Ciphersuite = s\<rparr> }"

definition decode_leave :: "json \<Rightarrow> (string \<times> string) option" where
  "decode_leave raw = do {
     fs \<leftarrow> object_fields raw;
     c \<leftarrow> string_field ''channel_id'' fs;
     p \<leftarrow> string_field ''proposal_bytes'' fs;
     Some (c, p) }"

section \<open>Access checks\<close>

definition canAccessServer :: "ws_env \<Rightarrow> string \<Rightarrow> string \<Rightarrow> world \<Rightarrow> bool \<times> world" where
  "canAccessServer E cid serverID w =
     (if \<not> we_store E then (False, w)
      else if cl_federatedIdentityID (client w cid) \<noteq> []
      then (case run_chat (GetServerMemberLevelByFederatedID serverID (cl_federatedIdentityID (client w cid))) w of
              (r, w') \<Rightarrow> (\<not> isl r, w'))
      else if cl_userID (client w cid) = [] then (False, w)
      else case run_chat (GetServerMemberLevel serverID (cl_userID (client w cid))) w of
             (r, w') \<Rightarrow> (\<not> isl r, w'))"

definition canAccessChannel :: "ws_env \<Rightarrow> string \<Rightarrow> string \<Rightarrow> world \<Rightarrow> bool \<times> world" where
  "canAccessChannel E cid channelID w =
     (if \<not> we_store E \<or> cl_userID (client w cid) = [] then (False, w)
      else case run_chat (IsChannelMember channelID (cl_userID (client w cid))) w of
             (Inl _, w') \<Rightarrow> (False, w')
           | (Inr ok, w') \<Rightarrow> (ok, w'))"

definition resolveServerIDFromPayload :: "ws_env \<Rightarrow> json \<Rightarrow> world \<Rightarrow> string \<times> world" where
  "resolveServerIDFromPayload E raw w =
     (if \<not> we_store E then ([], w)
      else case decode_channel raw of
        None \<Rightarrow> ([], w)
      | Some channelID \<Rightarrow>
          (if channelID = [] then ([], w)
           else case run_chat (GetChannelByID channelID) w of
             (Inr (Some ch), w') \<Rightarrow> ((case ch_ServerID ch of None \<Rightarrow> [] | Some s \<Rightarrow> s), w')
           | (_, w') \<Rightarrow> ([], w')))"

definition isMuted :: "ws_env \<Rightarrow> string \<Rightarrow> string \<Rightarrow> world \<Rightarrow> bool \<times> world" where
  "isMuted E cid serverID w =
     (if \<not> we_store E \<or> serverID = [] then (False, w)
      else case run_chat (GetActiveMute serverID (cl_userID (client w cid))) w of
             (Inl _, w') \<Rightarrow> (False, w')
           | (Inr m, w') \<Rightarrow> (m \<noteq> None, w'))"

text \<open>
  The check that opens most handlers: \<open>onError\<close> sees a failed query, \<open>onForbidden\<close> a user
  who is no member.
\<close>

definition require_member ::
  "string \<Rightarrow> string \<Rightarrow> (world \<Rightarrow> world option) \<Rightarrow> world \<Rightarrow> world option" where
  "require_member cid channelID k w =
     (case run_chat (IsChannelMember channelID (cl_userID (client w cid))) w of
        (Inl _, w') \<Rightarrow> sendError cid ''internal'' ''check membership failed'' w'
      | (Inr ok, w') \<Rightarrow>
          (if ok then k w' else sendError cid ''forbidden'' ''not a channel member'' w'))"

section \<open>Sending\<close>

definition resolveSenderIdentity :: "Client \<Rightarrow> string option \<times> string option" where
  "resolveSenderIdentity c =
     (if cl_federatedIdentityID c \<noteq> [] then (None, Some (cl_federatedIdentityID c))
      else (Some (cl_userID c), None))"

definition messageNewBroadcast :: "Message \<Rightarrow> string \<Rightarrow> new_message" where
  "messageNewBroadcast m senderDeviceID =
     \<lparr>nm_ID = ms_ID m, nm_ChannelID = ms_ChannelID m, nm_SenderID = ms_SenderID m,
      nm_FederatedSenderID = ms_FederatedSenderID m, nm_SenderDeviceID = senderDeviceID,
      nm_Ciphertext = EncodeToString StdEncoding (ms_Ciphertext m), nm_Timestamp = ms_Timestamp m\<rparr>"

definition messageToMap :: "Message \<Rightarrow> history_item" where
  "messageToMap m =
     \<lparr>hi_ID = ms_ID m, hi_ChannelID = ms_ChannelID m, hi_SenderID = ms_SenderID m,
      hi_FederatedSenderID = ms_FederatedSenderID m,
      hi_Ciphertext = EncodeToString StdEncoding (ms_Ciphertext m), hi_Timestamp = ms_Timestamp m\<rparr>"

definition send_ack :: "string \<Rightarrow> string \<Rightarrow> Message \<Rightarrow> world \<Rightarrow> world option" where
  "send_ack cid localID m w =
     (if localID = [] then Some w
      else run_hub (try_send (MessageSendAck localID (ms_ID m) (ms_ChannelID m) (ms_Timestamp m)) cid) w)"

text \<open>The loop over the recipients: what is malformed, too large or not storable is skipped.\<close>

fun fanout_loop :: "string \<Rightarrow> string \<Rightarrow> (string \<times> string) list \<Rightarrow> world \<Rightarrow> world option" where
  "fanout_loop cid channelID [] w = Some w"
| "fanout_loop cid channelID ((recipientID, b64) # rest) w =
     (if recipientID = [] \<or> b64 = [] then fanout_loop cid channelID rest w
      else case DecodeString StdEncoding b64 of
        None \<Rightarrow> fanout_loop cid channelID rest w
      | Some ct \<Rightarrow>
          (if length ct > maxCiphertextBytes then fanout_loop cid channelID rest w
           else (case resolveSenderIdentity (client w cid) of (senderID, federatedSenderID) \<Rightarrow>
             (case run_chat (InsertMessage channelID senderID federatedSenderID (Some recipientID) ct) w of
                (Inl _, w') \<Rightarrow> fanout_loop cid channelID rest w'
              | (Inr m, w') \<Rightarrow> do {
                  w'' \<leftarrow> run_hub (BroadcastToUserInChannel channelID recipientID (MessageNew
                            ((messageNewBroadcast m (cl_deviceID (client w cid)))\<lparr>nm_Ciphertext := b64\<rparr>))) w';
                  fanout_loop cid channelID rest w'' }))))"

definition handleMessageSendFanout ::
  "string \<Rightarrow> string \<Rightarrow> (string \<times> string) list \<Rightarrow> string \<Rightarrow> world \<Rightarrow> world option" where
  "handleMessageSendFanout cid channelID ciphertextByRecipient localID w0 = do {
     w \<leftarrow> fanout_loop cid channelID ciphertextByRecipient w0;
     (case resolveSenderIdentity (client w cid) of (senderID, federatedSenderID) \<Rightarrow>
       (case run_chat (InsertMessage channelID senderID federatedSenderID (Some (cl_userID (client w cid))) []) w of
          (Inl _, w') \<Rightarrow> Some w'
        | (Inr m, w') \<Rightarrow> do {
            w'' \<leftarrow> send_ack cid localID m w';
            run_hub (BroadcastToUserInChannel channelID (cl_userID (client w cid))
              (MessageNew (messageNewBroadcast m (cl_deviceID (client w cid))))) w'' })) }"

text \<open>
  The goroutine that counts the message is run where it is started; it touches no table the
  rest of the handler uses.
\<close>

definition handleMessageSend :: "ws_env \<Rightarrow> string \<Rightarrow> json \<Rightarrow> world \<Rightarrow> world option" where
  "handleMessageSend E cid raw w =
     (if \<not> we_store E then sendError cid ''forbidden'' ''store unavailable'' w
      else case decode_send raw of
        None \<Rightarrow> sendError cid ''bad_request'' ''channel_id required'' w
      | Some p \<Rightarrow>
      (if sp_ChannelID p = [] then sendError cid ''bad_request'' ''channel_id required'' w
       else require_member cid (sp_ChannelID p) (\<lambda>w1.
         (case run_chat (GetChannelByID (sp_ChannelID p)) w1 of (ch, w2) \<Rightarrow>
           if (case ch of Inr (Some c) \<Rightarrow> ch_Type c = ''system'' | _ \<Rightarrow> False)
           then sendError cid ''forbidden'' ''cannot send messages to system channel'' w2
           else if sp_CiphertextByRecipient p \<noteq> []
           then (if length (sp_CiphertextByRecipient p) > maxFanoutRecipients
                 then sendError cid ''bad_request'' ''too many fan-out recipients'' w2
                 else handleMessageSendFanout cid (sp_ChannelID p) (sp_CiphertextByRecipient p) (sp_LocalID p) w2)
           else if sp_Ciphertext p = []
           then sendError cid ''bad_request'' ''ciphertext or ciphertext_by_recipient required'' w2
           else case DecodeString StdEncoding (sp_Ciphertext p) of
             None \<Rightarrow> sendError cid ''bad_request'' ''invalid ciphertext base64'' w2
           | Some ct \<Rightarrow>
           (if length ct > maxCiphertextBytes then sendError cid ''bad_request'' ''ciphertext too large'' w2
            else (case resolveSenderIdentity (client w cid) of (senderID, federatedSenderID) \<Rightarrow>
              (case run_chat (InsertMessage (sp_ChannelID p) senderID federatedSenderID None ct) w2 of
                 (Inl _, w3) \<Rightarrow> sendError cid ''internal'' ''failed to store message'' w3
               | (Inr m, w3) \<Rightarrow>
                   (case run_chat (IncrementGuildMessageCount (sp_ChannelID p)) w3 of (_, w4) \<Rightarrow> do {
                      w5 \<leftarrow> send_ack cid (sp_LocalID p) m w4;
                      run_hub (Broadcast (sp_ChannelID p)
                        (MessageNew (messageNewBroadcast m (cl_deviceID (client w cid)))) []) w5 })))))) w))"

section \<open>History, typing, read markers\<close>

definition history_limit :: "int \<Rightarrow> int" where
  "history_limit l =
     (let limit = (if l \<le> 0 then messageHistoryLimitMax else l)
      in if limit > messageHistoryLimitMax then messageHistoryLimitMax else limit)"

definition parse_before :: "ws_env \<Rightarrow> string \<Rightarrow> time option" where
  "parse_before E s =
     (if s = [] then Some zero_time
      else case Parse_RFC3339Nano E s of None \<Rightarrow> Parse_RFC3339 E s | Some t \<Rightarrow> Some t)"

definition handleMessageHistory :: "ws_env \<Rightarrow> string \<Rightarrow> json \<Rightarrow> world \<Rightarrow> world option" where
  "handleMessageHistory E cid raw w =
     (if \<not> we_store E then sendError cid ''forbidden'' ''store unavailable'' w
      else case decode_history raw of
        None \<Rightarrow> sendError cid ''bad_request'' ''invalid message_history payload'' w
      | Some p \<Rightarrow>
      (if hp_ChannelID p = [] then sendError cid ''bad_request'' ''channel_id required'' w
       else case parse_before E (hp_Before p) of
         None \<Rightarrow> sendError cid ''bad_request'' ''invalid before timestamp'' w
       | Some before \<Rightarrow> require_member cid (hp_ChannelID p) (\<lambda>w1.
           (case run_chat (GetMessages (hp_ChannelID p) (cl_userID (client w cid)) before
                             (history_limit (hp_Limit p))) w1 of
              (Inl _, w2) \<Rightarrow> sendError cid ''internal'' ''failed to load history'' w2
            | (Inr ms, w2) \<Rightarrow> run_hub (try_send (MessageHistoryResponse (map messageToMap ms)) cid) w2)) w))"

definition handleTyping :: "ws_env \<Rightarrow> string \<Rightarrow> string \<Rightarrow> json \<Rightarrow> world \<Rightarrow> world option" where
  "handleTyping E cid msgType raw w =
     (case decode_channel raw of
        None \<Rightarrow> Some w
      | Some channelID \<Rightarrow>
          (if channelID = [] \<or> \<not> we_store E then Some w
           else case run_chat (IsChannelMember channelID (cl_userID (client w cid))) w of
             (Inr True, w') \<Rightarrow> run_hub (Broadcast channelID (Typing msgType channelID (cl_userID (client w cid))) []) w'
           | (_, w') \<Rightarrow> Some w'))"

definition handleMarkRead :: "ws_env \<Rightarrow> string \<Rightarrow> json \<Rightarrow> world \<Rightarrow> world option" where
  "handleMarkRead E cid raw w =
     (if \<not> we_store E then sendError cid ''forbidden'' ''store unavailable'' w
      else case decode_mark_read raw of
        None \<Rightarrow> sendError cid ''bad_request'' ''channel_id and message_id required'' w
      | Some (channelID, messageID) \<Rightarrow>
      (if channelID = [] \<or> messageID = []
       then sendError cid ''bad_request'' ''channel_id and message_id required'' w
       else require_member cid channelID (\<lambda>w1.
         (case run_chat (MarkChannelRead channelID (cl_userID (client w cid)) messageID) w1 of
            (Inl _, w2) \<Rightarrow> sendError cid ''internal'' ''failed to mark channel read'' w2
          | (Inr _, w2) \<Rightarrow> Some w2)) w))"

section \<open>MLS relays\<close>

definition decode_nonempty :: "string \<Rightarrow> bytes option" where
  "decode_nonempty s = (case DecodeString StdEncoding s of None \<Rightarrow> None | Some b \<Rightarrow> if b = [] then None else Some b)"

definition handleMLSCommit :: "ws_env \<Rightarrow> string \<Rightarrow> json \<Rightarrow> world \<Rightarrow> world option" where
  "handleMLSCommit E cid raw w =
     (if \<not> we_store E then sendError cid ''forbidden'' ''store unavailable'' w
      else case decode_commit raw of
        None \<Rightarrow> sendError cid ''bad_request'' ''channel_id required'' w
      | Some p \<Rightarrow>
      (if cp_ChannelID p = [] then sendError cid ''bad_request'' ''channel_id required'' w
       else if cp_Ciphersuite p = 0 then sendError cid ''bad_request'' ''ciphersuite required'' w
       else if cp_Ciphersuite p \<noteq> CurrentMLSCiphersuite
       then sendError cid ''mls_ciphersuite_mismatch'' ''ciphersuite does not match server'' w
       else let groupType = (if cp_GroupType p \<noteq> ''voice'' then ''text'' else cp_GroupType p)
       in require_member cid (cp_ChannelID p) (\<lambda>w1.
         case decode_nonempty (cp_CommitBytes p) of
           None \<Rightarrow> sendError cid ''bad_request'' ''invalid commit_bytes base64'' w1
         | Some commitBytes \<Rightarrow>
         (case decode_nonempty (cp_GroupInfo p) of
           None \<Rightarrow> sendError cid ''bad_request'' ''invalid group_info base64'' w1
         | Some groupInfoBytes \<Rightarrow>
         (case run_chat (UpsertMLSGroupInfo (cp_ChannelID p) groupType groupInfoBytes (cp_Epoch p)) w1 of
            (Inl _, w2) \<Rightarrow> sendError cid ''internal'' ''failed to store group info'' w2
          | (Inr _, w2) \<Rightarrow>
         (case run_chat (AppendMLSCommit (cp_ChannelID p) (cp_Epoch p) commitBytes (cl_userID (client w cid))) w2 of
            (Inl _, w3) \<Rightarrow> sendError cid ''internal'' ''failed to queue commit'' w3
          | (Inr _, w3) \<Rightarrow>
              run_hub (Broadcast (cp_ChannelID p) (MLSCommitFrame (cp_ChannelID p) (cp_Epoch p)
                (cp_CommitBytes p) (cl_userID (client w cid)) (cl_deviceID (client w cid)) groupType) []) w3)))) w))"

definition handleMLSLeaveProposal :: "ws_env \<Rightarrow> string \<Rightarrow> json \<Rightarrow> world \<Rightarrow> world option" where
  "handleMLSLeaveProposal E cid raw w =
     (if \<not> we_store E then sendError cid ''forbidden'' ''store unavailable'' w
      else case decode_leave raw of
        None \<Rightarrow> sendError cid ''bad_request'' ''channel_id required'' w
      | Some (channelID, proposal) \<Rightarrow>
      (if channelID = [] then sendError cid ''bad_request'' ''channel_id required'' w
       else require_member cid channelID (\<lambda>w1.
         run_hub (Broadcast channelID (MLSAddRequestFrame channelID proposal (cl_userID (client w cid))
           (cl_deviceID (client w cid))) []) w1) w))"

definition handleMLSAddRequest :: "ws_env \<Rightarrow> string \<Rightarrow> json \<Rightarrow> world \<Rightarrow> world option" where
  "handleMLSAddRequest E cid raw w =
     (if \<not> we_store E then sendError cid ''forbidden'' ''store unavailable'' w
      else case decode_channel raw of
        None \<Rightarrow> sendError cid ''bad_request'' ''channel_id required'' w
      | Some channelID \<Rightarrow>
      (if channelID = [] then sendError cid ''bad_request'' ''channel_id required'' w
       else require_member cid channelID (\<lambda>w1. run_hub (Broadcast channelID (RawFrame raw) cid) w1) w))"

section \<open>Dispatch\<close>

definition Handle :: "ws_env \<Rightarrow> string \<Rightarrow> string \<Rightarrow> json \<Rightarrow> world \<Rightarrow> world option" where
  "Handle E cid msgType raw w =
     (if msgType \<in> {''message.send'', ''typing.start'', ''typing.stop''}
      then (case resolveServerIDFromPayload E raw w of (serverID, w1) \<Rightarrow>
            (case isMuted E cid serverID w1 of (muted, w2) \<Rightarrow>
               if muted then sendError cid ''muted'' ''You are muted and cannot send messages.'' w2
               else if msgType = ''message.send'' then handleMessageSend E cid raw w2
               else handleTyping E cid msgType raw w2))
      else if msgType = ''message.history'' then handleMessageHistory E cid raw w
      else if msgType = ''mls.commit'' then handleMLSCommit E cid raw w
      else if msgType = ''mls.leave_proposal'' then handleMLSLeaveProposal E cid raw w
      else if msgType = ''mls.add_request'' then handleMLSAddRequest E cid raw w
      else if msgType = ''message.mark_read'' then handleMarkRead E cid raw w
      else Some w)"

record envelope =
  ev_Type :: string
  ev_ChannelID :: string
  ev_ServerID :: string

text \<open>The fields that are decoded and not used can still fail to decode.\<close>

definition decode_envelope :: "json \<Rightarrow> envelope option" where
  "decode_envelope raw = do {
     fs \<leftarrow> object_fields raw;
     t \<leftarrow> string_field ''type'' fs;
     c \<leftarrow> string_field ''channel_id'' fs;
     s \<leftarrow> string_field ''server_id'' fs;
     _ \<leftarrow> string_field ''target_user_id'' fs;
     _ \<leftarrow> string_field ''token'' fs;
     _ \<leftarrow> string_field ''payload'' fs;
     Some \<lparr>ev_Type = t, ev_ChannelID = c, ev_ServerID = s\<rparr> }"

definition handleMessage :: "ws_env \<Rightarrow> string \<Rightarrow> json option \<Rightarrow> world \<Rightarrow> world option" where
  "handleMessage E cid frame w =
     (case Option.bind frame decode_envelope of
        None \<Rightarrow> Some w
      | Some msg \<Rightarrow>
      (let raw = the frame; t = ev_Type msg; ch = ev_ChannelID msg; srv = ev_ServerID msg
       in if t = ''subscribe'' then
            (if ch = [] then Some w
             else case canAccessChannel E cid ch w of (ok, w') \<Rightarrow>
               if ok then Some (w'\<lparr>hub := Subscribe cid ch (hub w')\<rparr>)
               else sendError cid ''forbidden'' ''not a channel member'' w')
          else if t = ''unsubscribe'' then
            (if ch \<noteq> [] then Some (w\<lparr>hub := Unsubscribe cid ch (hub w)\<rparr>) else Some w)
          else if t = ''subscribe.server'' then
            (if srv = [] then Some w
             else case canAccessServer E cid srv w of (ok, w') \<Rightarrow>
               if ok then Some (w'\<lparr>hub := SubscribeToServer cid srv (hub w')\<rparr>)
               else sendError cid ''forbidden'' ''not a server member'' w')
          else if t = ''unsubscribe.server'' then
            (if srv \<noteq> [] then Some (w\<lparr>hub := UnsubscribeFromServer cid srv (hub w)\<rparr>) else Some w)
          else if t = ''ping'' then run_hub (try_send Pong cid) w
          else if t = ''voice.mute_state'' then
            (if srv = [] then Some w
             else case canAccessServer E cid srv w of (ok, w') \<Rightarrow>
               if ok then run_hub (BroadcastToServer srv (RawFrame raw)) w'
               else sendError cid ''forbidden'' ''not a server member'' w')
          else if t \<in> {''message.send'', ''message.history'', ''typing.start'', ''typing.stop''}
          then Handle E cid t raw w
          else Some w))"

section \<open>The read loop\<close>

text \<open>
  One turn of \<open>readPump\<close>. The error frame of the rate limiter is a plain channel send, which
  waits while the queue is full: \<open>Blocked\<close>. \<open>Disconnect\<close> is the state after the deferred
  \<open>close(c.send)\<close>.
\<close>

datatype pump = Continue world | Disconnect world | Blocked world

definition peek_type :: "json option \<Rightarrow> string option" where
  "peek_type frame = do { raw \<leftarrow> frame; fs \<leftarrow> object_fields raw; string_field ''type'' fs }"

definition set_hits :: "string \<Rightarrow> int \<Rightarrow> world \<Rightarrow> world" where
  "set_hits cid n w = w\<lparr>hub := (hub w)\<lparr>heap := (heap (hub w))(cid \<mapsto> (client w cid)\<lparr>cl_consecutiveHits := n\<rparr>)\<rparr>\<rparr>"

definition readPump_turn :: "ws_env \<Rightarrow> bool \<Rightarrow> string \<Rightarrow> json option \<Rightarrow> world \<Rightarrow> pump option" where
  "readPump_turn E allow cid frame w =
     (if peek_type frame = Some ''message.send'' then
        (if allow then map_option Continue (handleMessage E cid frame (set_hits cid 0 w))
         else let w1 = set_hits cid (cl_consecutiveHits (client w cid) + 1) w
              in if length (cl_send (client w1 cid)) \<ge> send_capacity then Some (Blocked w1)
                 else case run_hub (try_send (RateLimited 2) cid) w1 of
                   None \<Rightarrow> None
                 | Some w2 \<Rightarrow>
                     (if cl_consecutiveHits (client w2 cid) \<ge> wsMaxConsecutiveHit
                      then Some (Disconnect (w2\<lparr>hub := close_send cid (hub w2)\<rparr>))
                      else Some (Continue w2)))
      else map_option Continue (handleMessage E cid frame w))"

end
