(* ===== verification/Hub_Props.thy ===== *)
theory Hub_Props
  imports Hub
begin

text \<open>
  The hub as a state machine: connections come, subscribe, are broadcast to, close and are
  unregistered, in any order the goroutines can produce. The invariant of the reachable
  states, what a broadcast delivers, and the state in which one panics.
\<close>

section \<open>Sends change queues only\<close>

definition same_hub :: "Hub \<Rightarrow> Hub \<Rightarrow> bool" where
  "same_hub h h' \<longleftrightarrow> clients h' = clients h \<and> channels h' = channels h \<and> servers h' = servers h \<and>
     presence h' = presence h \<and>
     (\<forall>i. map_option (\<lambda>c. c\<lparr>cl_send := []\<rparr>) (heap h' i) = map_option (\<lambda>c. c\<lparr>cl_send := []\<rparr>) (heap h i))"

lemma same_hub_refl [simp]: "same_hub h h"
  by (simp add: same_hub_def)

lemma same_hub_trans: "same_hub h h' \<Longrightarrow> same_hub h' h'' \<Longrightarrow> same_hub h h''"
  by (simp add: same_hub_def)

text \<open>Exactly the open, not full targets get the frame; a closed target is a panic.\<close>

lemma send_all_exact:
  assumes "distinct cids"
  shows "send_all f cids h =
    (if \<exists>i \<in> set cids. \<exists>c. heap h i = Some c \<and> cl_closed c then None
     else Some (h\<lparr>heap := (\<lambda>i. case heap h i of None \<Rightarrow> None
       | Some c \<Rightarrow> Some (if i \<in> set cids \<and> length (cl_send c) < send_capacity
                         then c\<lparr>cl_send := cl_send c @ [f]\<rparr> else c))\<rparr>))"
  using assms
proof (induction cids arbitrary: h)
  case Nil
  have "(\<lambda>i. case heap h i of None \<Rightarrow> None
       | Some c \<Rightarrow> Some (if i \<in> set [] \<and> length (cl_send c) < send_capacity
                         then c\<lparr>cl_send := cl_send c @ [f]\<rparr> else c)) = heap h"
    by (rule ext) (auto split: option.splits)
  then show ?case unfolding send_all.simps by (subst \<open>_ = heap h\<close>) simp
next
  case (Cons i cids)
  let ?new = "\<lambda>c. if length (cl_send c) < send_capacity then c\<lparr>cl_send := cl_send c @ [f]\<rparr> else c"
  show ?case
  proof (cases "heap h i")
    case None
    then have "try_send f i h = Some h" by (simp add: try_send_def)
    moreover have "(\<lambda>j. case heap h j of None \<Rightarrow> None | Some c \<Rightarrow> Some (if j \<in> set (i # cids) \<and> length (cl_send c) < send_capacity
        then c\<lparr>cl_send := cl_send c @ [f]\<rparr> else c)) = (\<lambda>j. case heap h j of None \<Rightarrow> None | Some c \<Rightarrow>
        Some (if j \<in> set cids \<and> length (cl_send c) < send_capacity then c\<lparr>cl_send := cl_send c @ [f]\<rparr> else c))"
      using None by (intro ext) (auto split: option.splits)
    ultimately show ?thesis using Cons None by simp
  next
    case (Some c)
    show ?thesis
    proof (cases "cl_closed c")
      case True
      with Some show ?thesis by (auto simp: try_send_def)
    next
      case False
      let ?h = "h\<lparr>heap := (heap h)(i \<mapsto> ?new c)\<rparr>"
      have t: "try_send f i h = Some ?h"
        using Some False by (auto simp: try_send_def fun_upd_idem)
      have closed: "(\<exists>j \<in> set cids. \<exists>c. heap ?h j = Some c \<and> cl_closed c) \<longleftrightarrow>
          (\<exists>j \<in> set (i # cids). \<exists>c. heap h j = Some c \<and> cl_closed c)"
        using Cons.prems Some False by (auto split: if_splits)
      have "(\<lambda>j. case heap ?h j of None \<Rightarrow> None | Some c \<Rightarrow>
          Some (if j \<in> set cids \<and> length (cl_send c) < send_capacity then c\<lparr>cl_send := cl_send c @ [f]\<rparr> else c)) =
          (\<lambda>j. case heap h j of None \<Rightarrow> None | Some c \<Rightarrow>
          Some (if j \<in> set (i # cids) \<and> length (cl_send c) < send_capacity then c\<lparr>cl_send := cl_send c @ [f]\<rparr> else c))"
        using Cons.prems Some by (intro ext) (auto split: option.splits)
      then show ?thesis using Cons.IH [of ?h] Cons.prems t closed by simp
    qed
  qed
qed

lemma try_send_same: "try_send f i h = Some h' \<Longrightarrow> same_hub h h'"
  by (auto simp: try_send_def same_hub_def split: option.splits if_splits)

lemma send_all_same: "send_all f cids h = Some h' \<Longrightarrow> same_hub h h'"
  by (induction f cids h rule: send_all.induct)
     (auto split: Option.bind_splits dest: try_send_same intro: same_hub_trans)

lemma same_hub_at:
  assumes "same_hub h h'"
  shows "(heap h' i = None) = (heap h i = None)"
    and "cl_userID (client_at h' i) = cl_userID (client_at h i)"
    and "cl_federatedIdentityID (client_at h' i) = cl_federatedIdentityID (client_at h i)"
    and "cl_closed (client_at h' i) = cl_closed (client_at h i)"
    and "presence_key (client_at h' i) = presence_key (client_at h i)"
proof -
  have "map_option (\<lambda>c. c\<lparr>cl_send := []\<rparr>) (heap h' i) = map_option (\<lambda>c. c\<lparr>cl_send := []\<rparr>) (heap h i)"
    using assms by (simp add: same_hub_def)
  then consider (none) "heap h' i = None" "heap h i = None"
    | (some) c c' where "heap h i = Some c" "heap h' i = Some c'" "c'\<lparr>cl_send := []\<rparr> = c\<lparr>cl_send := []\<rparr>"
    by (cases "heap h i"; cases "heap h' i") auto
  then have "(heap h' i = None) = (heap h i = None) \<and>
    cl_userID (client_at h' i) = cl_userID (client_at h i) \<and>
    cl_federatedIdentityID (client_at h' i) = cl_federatedIdentityID (client_at h i) \<and>
    cl_closed (client_at h' i) = cl_closed (client_at h i)"
  proof cases
    case some
    have "cl_userID (c'\<lparr>cl_send := []\<rparr>) = cl_userID (c\<lparr>cl_send := []\<rparr>)"
      "cl_federatedIdentityID (c'\<lparr>cl_send := []\<rparr>) = cl_federatedIdentityID (c\<lparr>cl_send := []\<rparr>)"
      "cl_closed (c'\<lparr>cl_send := []\<rparr>) = cl_closed (c\<lparr>cl_send := []\<rparr>)"
      by (simp_all only: some(3))
    with some(1,2) show ?thesis by (simp add: client_at_def)
  qed (simp add: client_at_def)
  then show "(heap h' i = None) = (heap h i = None)"
    "cl_userID (client_at h' i) = cl_userID (client_at h i)"
    "cl_federatedIdentityID (client_at h' i) = cl_federatedIdentityID (client_at h i)"
    "cl_closed (client_at h' i) = cl_closed (client_at h i)"
    "presence_key (client_at h' i) = presence_key (client_at h i)"
    by (simp_all add: presence_key_def)
qed

section \<open>The subscription maps\<close>

lemma set_key_insert [simp]: "set (key_insert x xs) = insert x (set xs)"
  by (auto simp: key_insert_def)

lemma distinct_key_insert [simp]: "distinct xs \<Longrightarrow> distinct (key_insert x xs)"
  by (auto simp: key_insert_def)

lemma set_key_delete [simp]: "set (key_delete x xs) = set xs - {x}"
  by (auto simp: key_delete_def)

lemma distinct_key_delete [simp]: "distinct xs \<Longrightarrow> distinct (key_delete x xs)"
  by (simp add: key_delete_def)

text \<open>A well-formed subscription map over a set of clients.\<close>

definition subs_ok :: "string set \<Rightarrow> (string \<times> string list) list \<Rightarrow> bool" where
  "subs_ok ids m \<longleftrightarrow> distinct (map fst m) \<and> (\<forall>(k, xs) \<in> set m. distinct xs \<and> set xs \<subseteq> ids)"

lemma fst_sub_insert: "set (map fst (sub_insert k x m)) = insert k (set (map fst m))"
  by (induction k x m rule: sub_insert.induct) auto

lemma subs_ok_insert: "subs_ok ids m \<Longrightarrow> x \<in> ids \<Longrightarrow> subs_ok ids (sub_insert k x m)"
proof (induction k x m rule: sub_insert.induct)
  case (2 k x k' xs m)
  then have IH: "subs_ok ids (sub_insert k x m)" if "k \<noteq> k'" using that by (simp add: subs_ok_def)
  show ?case
  proof (cases "k = k'")
    case False
    with IH 2(2) show ?thesis using fst_sub_insert [of k x m] by (auto simp: subs_ok_def)
  qed (use 2(2,3) in \<open>auto simp: subs_ok_def\<close>)
qed (simp add: subs_ok_def)

lemma subs_ok_delete: "subs_ok ids m \<Longrightarrow> subs_ok ids (sub_delete k x m)"
proof -
  assume m: "subs_ok ids m"
  have "map fst (map (\<lambda>(k', ids). if k' = k then (k', key_delete x ids) else (k', ids)) m) = map fst m"
    by (auto simp: split_def)
  then have "distinct (map fst (map (\<lambda>(k', ids). if k' = k then (k', key_delete x ids) else (k', ids)) m))"
    using m by (simp only: subs_ok_def)
  then show ?thesis using m
    by (fastforce simp: subs_ok_def sub_delete_def distinct_map_filter split: if_splits)
qed

lemma subs_ok_mono: "subs_ok ids m \<Longrightarrow> ids \<subseteq> ids' \<Longrightarrow> subs_ok ids' m"
  by (fastforce simp: subs_ok_def)

lemma subs_ok_remove:
  "subs_ok ids m \<Longrightarrow> subs_ok (ids - {x}) (map (\<lambda>(k, xs). (k, key_delete x xs)) m)"
  by (fastforce simp: subs_ok_def split_def comp_def)

lemma subscribers_ok: "subs_ok ids m \<Longrightarrow> distinct (subscribers k m) \<and> set (subscribers k m) \<subseteq> ids"
  by (auto simp: subscribers_def subs_ok_def split: option.splits dest!: map_of_SomeD)

lemma image_remove:
  assumes "f i \<notin> f ` (A - {i})"
  shows "f ` A - {f i} = f ` (A - {i})"
proof
  show "f ` (A - {i}) \<subseteq> f ` A - {f i}"
  proof
    fix y
    assume y: "y \<in> f ` (A - {i})"
    then have "y \<noteq> f i" using assms by blast
    with y show "y \<in> f ` A - {f i}" by blast
  qed
qed blast

lemma send_all_None:
  "distinct cids \<Longrightarrow> i \<in> set cids \<Longrightarrow> heap h i = Some c \<Longrightarrow> cl_closed c \<Longrightarrow> send_all f cids h = None"
  by (subst send_all_exact) auto

section \<open>The state machine\<close>

text \<open>
  One step: a connection is set up (with a fresh id and a user, as the handler does), a
  running \<open>readPump\<close> changes its subscriptions, anyone broadcasts, a \<open>writePump\<close> sends one
  frame, a connection is torn down: \<open>readPump\<close> returns and closes the queue, later \<open>Run\<close>
  unregisters. Steps that would panic are not steps; they are the subject of C25.
\<close>

definition running :: "string \<Rightarrow> Hub \<Rightarrow> bool" where
  "running i h \<longleftrightarrow> i \<in> set (clients h) \<and> \<not> cl_closed (client_at h i)"

inductive hub_step :: "Hub \<Rightarrow> Hub \<Rightarrow> bool" where
  connect: "heap h i = None \<Longrightarrow> connect_client i (NewClient u d []) h = Some h' \<Longrightarrow> hub_step h h'"
| subscribe: "running i h \<Longrightarrow> hub_step h (Subscribe i k h)"
| unsubscribe: "running i h \<Longrightarrow> hub_step h (Unsubscribe i k h)"
| subscribe_server: "running i h \<Longrightarrow> hub_step h (SubscribeToServer i k h)"
| unsubscribe_server: "running i h \<Longrightarrow> hub_step h (UnsubscribeFromServer i k h)"
| to_server: "BroadcastToServer k f h = Some h' \<Longrightarrow> hub_step h h'"
| to_all: "BroadcastToAll f h = Some h' \<Longrightarrow> hub_step h h'"
| to_user: "BroadcastToUser u f h = Some h' \<Longrightarrow> hub_step h h'"
| to_user_in_channel: "BroadcastToUserInChannel k u f h = Some h' \<Longrightarrow> hub_step h h'"
| to_channel: "Broadcast k f ex h = Some h' \<Longrightarrow> hub_step h h'"
| own_send: "running i h \<Longrightarrow> try_send f i h = Some h' \<Longrightarrow> hub_step h h'"
| write_frame: "hub_step h (snd (write_one i h))"
| disconnect_device: "hub_step h (DisconnectDevice u d h)"
| disconnect_user: "hub_step h (DisconnectUser u h)"
| close: "running i h \<Longrightarrow> hub_step h (close_send i h)"
| unregister: "i \<in> set (clients h) \<Longrightarrow> cl_closed (client_at h i) \<Longrightarrow> Unregister i h = Some h' \<Longrightarrow> hub_step h h'"

inductive hub_reachable :: "Hub \<Rightarrow> bool" where
  start: "hub_reachable NewHub"
| step: "hub_reachable h \<Longrightarrow> hub_step h h' \<Longrightarrow> hub_reachable h'"

definition hub_ok :: "Hub \<Rightarrow> bool" where
  "hub_ok h \<longleftrightarrow> distinct (clients h) \<and> (\<forall>i \<in> set (clients h). heap h i \<noteq> None) \<and>
     subs_ok (set (clients h)) (channels h) \<and> subs_ok (set (clients h)) (servers h) \<and>
     distinct (presence h) \<and> set (presence h) = (\<lambda>i. cl_userID (client_at h i)) ` set (clients h) \<and>
     (\<forall>i. cl_federatedIdentityID (client_at h i) = [])"

definition queues_ok :: "Hub \<Rightarrow> bool" where
  "queues_ok h \<longleftrightarrow> (\<forall>i c. heap h i = Some c \<longrightarrow> length (cl_send c) \<le> send_capacity)"

lemma hub_ok_same: "hub_ok h \<Longrightarrow> same_hub h h' \<Longrightarrow> hub_ok h'"
proof -
  assume ok: "hub_ok h" and s: "same_hub h h'"
  have "clients h' = clients h" "channels h' = channels h" "servers h' = servers h" "presence h' = presence h"
    using s by (simp_all add: same_hub_def)
  with ok same_hub_at [OF s] show ?thesis by (simp add: hub_ok_def)
qed

lemma try_send_queues: "queues_ok h \<Longrightarrow> try_send f i h = Some h' \<Longrightarrow> queues_ok h'"
  by (auto simp: try_send_def queues_ok_def split: option.splits if_splits)

lemma send_all_queues: "queues_ok h \<Longrightarrow> send_all f cids h = Some h' \<Longrightarrow> queues_ok h'"
  by (induction f cids h rule: send_all.induct) (auto split: Option.bind_splits dest: try_send_queues)

lemma queues_ok_other: "queues_ok h \<Longrightarrow> heap h' = heap h \<Longrightarrow> queues_ok h'"
  by (simp add: queues_ok_def)

lemma hub_ok_subs:
  "hub_ok h \<Longrightarrow> subs_ok (set (clients h)) m \<Longrightarrow> hub_ok (h\<lparr>channels := m\<rparr>)"
  "hub_ok h \<Longrightarrow> subs_ok (set (clients h)) m \<Longrightarrow> hub_ok (h\<lparr>servers := m\<rparr>)"
  by (simp_all add: hub_ok_def client_at_def)

lemma client_at_upd: "client_at (h\<lparr>heap := (heap h)(i \<mapsto> c)\<rparr>) j = (if j = i then c else client_at h j)"
  by (simp add: client_at_def)

lemma hub_ok_heap:
  assumes "hub_ok h" and "heap h i = Some c" and "cl_userID c' = cl_userID c"
    and "cl_federatedIdentityID c' = cl_federatedIdentityID c"
  shows "hub_ok (h\<lparr>heap := (heap h)(i \<mapsto> c')\<rparr>)"
proof -
  have u: "cl_userID (client_at (h\<lparr>heap := (heap h)(i \<mapsto> c')\<rparr>) j) = cl_userID (client_at h j)"
    and f: "cl_federatedIdentityID (client_at (h\<lparr>heap := (heap h)(i \<mapsto> c')\<rparr>) j) = cl_federatedIdentityID (client_at h j)" for j
    using assms(2-4) by (simp_all add: client_at_def)
  show ?thesis using assms(1) by (simp add: hub_ok_def u f)
qed

lemma hub_ok_Register:
  assumes "hub_ok h" and "heap h i = None" and "connect_client i (NewClient u d []) h = Some h'"
  shows "hub_ok h'"
proof -
  have i: "i \<notin> set (clients h)" using assms(1,2) by (auto simp: hub_ok_def)
  define h1 where "h1 = h\<lparr>heap := (heap h)(i \<mapsto> NewClient u d []), clients := clients h @ [i],
    presence := key_insert u (presence h)\<rparr>"
  have at: "client_at h1 j = (if j = i then NewClient u d [] else client_at h j)" for j
    by (simp add: h1_def client_at_def)
  have pk: "presence_key (client_at (h\<lparr>heap := (heap h)(i \<mapsto> NewClient u d [])\<rparr>) i) = u"
    by (simp add: client_at_def presence_key_def NewClient_def)
  have "hub_ok h1"
  proof -
    have "set (clients h1) = insert i (set (clients h))" by (simp add: h1_def)
    moreover have "subs_ok (insert i (set (clients h))) (channels h)" "subs_ok (insert i (set (clients h))) (servers h)"
      using assms(1) by (auto simp: hub_ok_def intro: subs_ok_mono)
    moreover have "(\<lambda>j. cl_userID (client_at h1 j)) ` insert i (set (clients h)) =
        insert u ((\<lambda>j. cl_userID (client_at h j)) ` set (clients h))"
      using i by (auto simp: at NewClient_def image_iff)
    ultimately show ?thesis using assms(1) i
      by (auto simp: hub_ok_def at NewClient_def) (auto simp: h1_def)
  qed
  moreover have "broadcastPresenceLocked h1 = Some h'"
    using assms(3) i pk by (simp add: connect_client_def Register_def h1_def key_insert_def)
  then have "same_hub h1 h'" unfolding broadcastPresenceLocked_def by (rule send_all_same)
  ultimately show ?thesis by (rule hub_ok_same)
qed

lemma hub_ok_Unregister:
  assumes "hub_ok h" and "Unregister i h = Some h'"
  shows "hub_ok h'" and "set (clients h') = set (clients h) - {i}"
    and "length (channels h') = length (channels h)"
    and "cl_userID (client_at h' j) = cl_userID (client_at h j)"
proof -
  define h1 where "h1 = h\<lparr>clients := key_delete i (clients h),
    channels := map (\<lambda>(k, ids). (k, key_delete i ids)) (channels h),
    servers := map (\<lambda>(k, ids). (k, key_delete i ids)) (servers h)\<rparr>"
  define h2 where "h2 = (if hasOtherClientForUser (cl_userID (client_at h i)) h1 then h1
    else h1\<lparr>presence := key_delete (cl_userID (client_at h i)) (presence h1)\<rparr>)"
  have fed: "cl_federatedIdentityID (client_at h i) = []" using assms(1) by (simp add: hub_ok_def)
  have at: "client_at h1 j = client_at h j" "client_at h2 j = client_at h j" for j
    by (simp_all add: h1_def h2_def client_at_def)
  have other: "hasOtherClientForUser u h1 \<longleftrightarrow> u \<in> (\<lambda>j. cl_userID (client_at h j)) ` (set (clients h) - {i})" for u
    by (auto simp: hasOtherClientForUser_def list_ex_iff at) (auto simp: h1_def)
  have ch: "set (clients h2) = set (clients h) - {i}" by (simp add: h1_def h2_def)
  have pres: "set (presence h2) = (\<lambda>j. cl_userID (client_at h j)) ` (set (clients h) - {i})"
  proof -
    let ?u = "\<lambda>j. cl_userID (client_at h j)"
    have "set (presence h) = ?u ` set (clients h)" using assms(1) by (simp add: hub_ok_def)
    moreover have "set (presence h2) =
        (if ?u i \<in> ?u ` (set (clients h) - {i}) then set (presence h) else set (presence h) - {?u i})"
      using other [of "?u i"] by (simp add: h2_def) (simp add: h1_def)
    moreover have "?u ` set (clients h) - {?u i} = ?u ` (set (clients h) - {i})"
      if "?u i \<notin> ?u ` (set (clients h) - {i})"
      by (rule image_remove [of ?u, OF that])
    ultimately show ?thesis by (cases "?u i \<in> ?u ` (set (clients h) - {i})") auto
  qed
  have "hub_ok h2"
  proof -
    have sel: "channels h2 = map (\<lambda>(k, ids). (k, key_delete i ids)) (channels h)"
      "servers h2 = map (\<lambda>(k, ids). (k, key_delete i ids)) (servers h)" "heap h2 = heap h"
      "clients h2 = key_delete i (clients h)"
      by (simp_all add: h1_def h2_def)
    have "distinct (presence h2)" using assms(1) by (simp add: h1_def h2_def hub_ok_def)
    moreover have "subs_ok (set (clients h2)) (channels h2)" "subs_ok (set (clients h2)) (servers h2)"
      unfolding ch sel(1,2) using assms(1) subs_ok_remove by (simp_all add: hub_ok_def)
    moreover have "distinct (clients h2)" "\<forall>j \<in> set (clients h2). heap h2 j \<noteq> None"
      using assms(1) by (simp_all add: sel(3,4) hub_ok_def)
    moreover have "\<forall>j. cl_federatedIdentityID (client_at h2 j) = []"
      using assms(1) by (simp add: hub_ok_def at(2))
    ultimately show ?thesis unfolding hub_ok_def using pres ch at(2) by simp
  qed
  moreover have "broadcastPresenceLocked h2 = Some h'"
    using assms(2) fed by (simp add: Unregister_def Let_def h1_def h2_def presence_key_def split: if_splits)
  then have s: "same_hub h2 h'" unfolding broadcastPresenceLocked_def by (rule send_all_same)
  ultimately show "hub_ok h'" by (rule hub_ok_same)
  show "set (clients h') = set (clients h) - {i}" using s ch by (simp add: same_hub_def)
  show "length (channels h') = length (channels h)" using s by (simp add: same_hub_def h2_def h1_def)
  show "cl_userID (client_at h' j) = cl_userID (client_at h j)"
    using same_hub_at(2) [OF s, of j] by (simp only: at)
qed

lemma close_conns_ok: "hub_ok h \<Longrightarrow> hub_ok (close_conns p h)"
proof -
  assume ok: "hub_ok h"
  have "cl_userID (client_at (close_conns p h) j) = cl_userID (client_at h j) \<and>
      cl_federatedIdentityID (client_at (close_conns p h) j) = cl_federatedIdentityID (client_at h j) \<and>
      (heap (close_conns p h) j = None) = (heap h j = None)" for j
    by (auto simp: client_at_def close_conns_def split: option.splits)
  then show ?thesis using ok by (simp add: hub_ok_def) (simp add: close_conns_def)
qed

lemma send_step: "send_all f cids h = Some h' \<Longrightarrow> hub_ok h \<and> queues_ok h \<Longrightarrow> hub_ok h' \<and> queues_ok h'"
  using hub_ok_same [OF _ send_all_same] send_all_queues by blast

lemmas broadcast_defs = BroadcastToServer_def BroadcastToAll_def BroadcastToUser_def
  BroadcastToUserInChannel_def Broadcast_def broadcastPresenceLocked_def

lemma hub_step_ok: "hub_step h h' \<Longrightarrow> hub_ok h \<and> queues_ok h \<Longrightarrow> hub_ok h' \<and> queues_ok h'"
proof (induction rule: hub_step.induct)
  case (connect h i u d h')
  have "queues_ok (h\<lparr>heap := (heap h)(i \<mapsto> NewClient u d [])\<rparr>)"
    using connect(3) by (auto simp: queues_ok_def NewClient_def)
  then have "queues_ok h'"
    using connect(2) unfolding connect_client_def Register_def broadcastPresenceLocked_def
    by (elim send_all_queues [rotated]) (erule queues_ok_other, simp)
  then show ?case using hub_ok_Register connect by blast
next
  case (own_send i h f h')
  then show ?case using hub_ok_same try_send_same try_send_queues by blast
next
  case (write_frame h i)
  then show ?case
    by (auto simp: write_one_def queues_ok_def intro!: hub_ok_heap split: option.splits list.splits)
       (metis Suc_leD length_Cons)
next
  case (close i h)
  then show ?case
    by (auto simp: close_send_def queues_ok_def intro!: hub_ok_heap split: option.splits)
next
  case (unregister i h h')
  have "queues_ok h'"
    using unregister(3,4) unfolding Unregister_def Let_def broadcastPresenceLocked_def
    by (elim send_all_queues [rotated]) (auto intro: queues_ok_other)
  then show ?case using hub_ok_Unregister unregister by blast
next
  case (disconnect_device h u d)
  then show ?case
    by (auto simp: DisconnectDevice_def close_conns_ok)
       (auto simp: queues_ok_def close_conns_def split: option.splits)
next
  case (disconnect_user h u)
  then show ?case
    by (auto simp: DisconnectUser_def close_conns_ok)
       (auto simp: queues_ok_def close_conns_def split: option.splits)
qed (auto simp: broadcast_defs running_def Subscribe_def Unsubscribe_def SubscribeToServer_def
      UnsubscribeFromServer_def subs_ok_insert subs_ok_delete hub_ok_def client_at_def queues_ok_def
      dest: send_step)

lemma hub_reachable_ok: "hub_reachable h \<Longrightarrow> hub_ok h \<and> queues_ok h"
proof (induction rule: hub_reachable.induct)
  case start
  show ?case by (simp add: hub_ok_def queues_ok_def NewHub_def subs_ok_def client_at_def NewClient_def)
next
  case (step h h')
  then show ?case using hub_step_ok by blast
qed

section \<open>The properties\<close>

text \<open>
  C11. The hub never loses track: in every reachable state the present users are exactly
  the users of the registered connections, each listed once, only registered connections
  are subscribed to channels and servers, and no send queue exceeds its 256 frames.
\<close>

theorem hub_invariant:
  assumes "hub_reachable h"
  shows "set (presence h) = (\<lambda>i. cl_userID (client_at h i)) ` set (clients h) \<and> distinct (presence h) \<and>
    (\<forall>k. set (subscribers k (channels h)) \<subseteq> set (clients h)) \<and>
    (\<forall>k. set (subscribers k (servers h)) \<subseteq> set (clients h)) \<and>
    (\<forall>i c. heap h i = Some c \<longrightarrow> length (cl_send c) \<le> 256)"
  using hub_reachable_ok [OF assms] subscribers_ok
  by (simp add: hub_ok_def queues_ok_def send_capacity_def)

text \<open>A hub with one subscribed connection.\<close>

definition toy_hub :: Hub where
  "toy_hub = \<lparr>heap = [''a'' \<mapsto> (NewClient ''u'' ''d'' [])\<lparr>cl_send := [PresenceUpdate [''u'']]\<rparr>],
     clients = [''a''], channels = [(''k'', [''a''])], servers = [], presence = [''u'']\<rparr>"

lemma toy_hub_reachable: "hub_reachable toy_hub"
proof -
  let ?h = "toy_hub\<lparr>channels := []\<rparr>"
  have "connect_client ''a'' (NewClient ''u'' ''d'' []) NewHub = Some ?h"
    by (simp add: connect_client_def Register_def broadcastPresenceLocked_def NewHub_def key_insert_def
        client_at_def presence_key_def NewClient_def try_send_def send_capacity_def toy_hub_def)
  then have "hub_step NewHub ?h" by (intro hub_step.connect) (simp add: NewHub_def)
  moreover have "running ''a'' ?h" by (simp add: running_def toy_hub_def client_at_def NewClient_def)
  then have "hub_step ?h (Subscribe ''a'' ''k'' ?h)" by (rule hub_step.subscribe)
  moreover have "Subscribe ''a'' ''k'' ?h = toy_hub" by (simp add: Subscribe_def toy_hub_def)
  ultimately show ?thesis by (metis hub_reachable.intros)
qed

lemma hub_invariant_witness:
  "set (presence toy_hub) = {''u''} \<and> (\<forall>k. set (subscribers k (channels toy_hub)) \<subseteq> {''a''})"
  using hub_invariant [OF toy_hub_reachable] by (simp add: toy_hub_def client_at_def NewClient_def)

text \<open>
  A broadcast delivers exactly: in a reachable state, when no subscriber of the channel
  is being torn down, every subscribed connection other than the excluded one has the frame
  appended to its queue once, unless the queue is full, and nothing else changes.
\<close>

theorem broadcast_exact:
  assumes "hub_reachable h"
    and "\<And>i. i \<in> set (subscribers k (channels h)) \<Longrightarrow> i \<noteq> ex \<Longrightarrow> \<not> cl_closed (client_at h i)"
  shows "\<exists>h'. Broadcast k f ex h = Some h' \<and> clients h' = clients h \<and> channels h' = channels h \<and>
    servers h' = servers h \<and> presence h' = presence h \<and>
    (\<forall>i. heap h' i = (case heap h i of None \<Rightarrow> None | Some c \<Rightarrow>
       Some (if i \<in> set (subscribers k (channels h)) \<and> i \<noteq> ex \<and> length (cl_send c) < 256
             then c\<lparr>cl_send := cl_send c @ [f]\<rparr> else c)))"
proof -
  have "subs_ok (set (clients h)) (channels h)"
    using hub_reachable_ok [OF assms(1)] by (simp add: hub_ok_def)
  then have "distinct (subscribers k (channels h))" using subscribers_ok by blast
  then have "distinct (filter (\<lambda>i. i \<noteq> ex) (subscribers k (channels h)))" by simp
  note E = send_all_exact [OF this, of f h]
  have "\<not> (\<exists>i \<in> set (filter (\<lambda>i. i \<noteq> ex) (subscribers k (channels h))). \<exists>c. heap h i = Some c \<and> cl_closed c)"
  proof
    assume "\<exists>i \<in> set (filter (\<lambda>i. i \<noteq> ex) (subscribers k (channels h))). \<exists>c. heap h i = Some c \<and> cl_closed c"
    then obtain i c where i: "i \<in> set (subscribers k (channels h))" "i \<noteq> ex" "heap h i = Some c" "cl_closed c"
      by auto
    then show False using assms(2) [OF i(1,2)] by (simp add: client_at_def)
  qed
  with E show ?thesis
    by (auto simp: Broadcast_def send_capacity_def split: option.splits)
qed

lemma broadcast_exact_witness:
  "\<exists>h'. Broadcast ''k'' Pong [] toy_hub = Some h' \<and>
     map_option cl_send (heap h' ''a'') = Some [PresenceUpdate [''u''], Pong]"
proof -
  have "\<not> cl_closed (client_at toy_hub i)" if "i \<in> set (subscribers ''k'' (channels toy_hub))" for i
    using that by (simp add: toy_hub_def subscribers_def client_at_def NewClient_def)
  then obtain h' where "Broadcast ''k'' Pong [] toy_hub = Some h'"
    "\<forall>i. heap h' i = (case heap toy_hub i of None \<Rightarrow> None | Some c \<Rightarrow>
       Some (if i \<in> set (subscribers ''k'' (channels toy_hub)) \<and> i \<noteq> [] \<and> length (cl_send c) < 256
             then c\<lparr>cl_send := cl_send c @ [Pong]\<rparr> else c))"
    using broadcast_exact [OF toy_hub_reachable, of "''k''" "[]" Pong] by blast
  then show ?thesis by (simp add: toy_hub_def subscribers_def NewClient_def)
qed

text \<open>
  A disconnect can bring the server down: from every reachable state with a subscriber
  the teardown reaches a state, between \<open>readPump\<close> closing the send channel and \<open>Run\<close>
  unregistering the client, in which any broadcast to the channel sends on the closed
  channel and panics; so does the registration of a new connection.
\<close>

theorem broadcast_panics_while_closing:
  assumes "hub_reachable h" and "i \<in> set (subscribers k (channels h))" and "\<not> cl_closed (client_at h i)"
    and "i \<noteq> ex"
  shows "hub_reachable (close_send i h) \<and> Broadcast k f ex (close_send i h) = None \<and>
    (\<forall>j c. heap h j = None \<longrightarrow> connect_client j c (close_send i h) = None)"
proof -
  let ?h = "close_send i h"
  have ok: "hub_ok h" using hub_reachable_ok [OF assms(1)] by simp
  have mem: "i \<in> set (clients h)" using ok subscribers_ok assms(2) by (auto simp: hub_ok_def)
  then obtain c where c: "heap h i = Some c" using ok by (auto simp: hub_ok_def)
  have "running i h" using mem assms(3) by (simp add: running_def)
  then have r: "hub_reachable ?h" using assms(1) hub_reachable.step hub_step.close by blast
  have closed: "heap ?h i = Some (c\<lparr>cl_closed := True\<rparr>)" and same: "channels ?h = channels h" "clients ?h = clients h"
    using c by (simp_all add: close_send_def)
  have d: "distinct (subscribers k (channels h))" using ok subscribers_ok by (auto simp: hub_ok_def)
  have "distinct (filter (\<lambda>i. i \<noteq> ex) (subscribers k (channels ?h)))" using d same by simp
  then have "Broadcast k f ex ?h = None"
    unfolding Broadcast_def by (rule send_all_None) (use closed same assms(2,4) in auto)
  moreover have "connect_client j c' ?h = None" if j: "heap h j = None" for j c'
  proof -
    let ?h1 = "?h\<lparr>heap := (heap ?h)(j \<mapsto> c')\<rparr>"
    let ?h2 = "?h1\<lparr>clients := key_insert j (clients ?h1),
      presence := key_insert (presence_key (client_at ?h1 j)) (presence ?h1)\<rparr>"
    have "i \<noteq> j" using c j by auto
    then have "heap ?h2 i = Some (c\<lparr>cl_closed := True\<rparr>)" using closed by simp
    moreover have "i \<in> set (clients ?h2)" "distinct (clients ?h2)" using mem ok same by (simp_all add: hub_ok_def)
    moreover have "cl_closed (c\<lparr>cl_closed := True\<rparr>)" by simp
    ultimately have "send_all f (clients ?h2) ?h2 = None" for f by (intro send_all_None)
    then show ?thesis by (simp only: connect_client_def Register_def broadcastPresenceLocked_def)
  qed
  ultimately show ?thesis using r by blast
qed

lemma broadcast_panics_while_closing_witness:
  "hub_reachable (close_send ''a'' toy_hub) \<and> Broadcast ''k'' Pong [] (close_send ''a'' toy_hub) = None"
  using broadcast_panics_while_closing [OF toy_hub_reachable, of "''a''" "''k''" "[]" Pong]
  by (simp add: toy_hub_def subscribers_def client_at_def NewClient_def)

text \<open>
  Unregistering is complete but leaks: afterwards no channel, server or client list
  holds the connection, its user stays present exactly if another connection is theirs, yet
  the map entries of channels left without subscribers stay, so that the subscribed-channel
  count of \<open>Stats\<close> does not go down (as it does after \<open>Unsubscribe\<close>).
\<close>

theorem unregister_complete:
  assumes "hub_reachable h" and "i \<in> set (clients h)" and "Unregister i h = Some h'"
  shows "set (clients h') = set (clients h) - {i} \<and>
    (\<forall>k. i \<notin> set (subscribers k (channels h')) \<and> i \<notin> set (subscribers k (servers h'))) \<and>
    (cl_userID (client_at h i) \<in> set (presence h') \<longleftrightarrow>
       (\<exists>j \<in> set (clients h) - {i}. cl_userID (client_at h j) = cl_userID (client_at h i))) \<and>
    hs_SubscribedChannels (Stats h') = hs_SubscribedChannels (Stats h)"
proof -
  have ok: "hub_ok h" using hub_reachable_ok [OF assms(1)] by simp
  note U = hub_ok_Unregister [OF ok assms(3)]
  have sub: "set (subscribers k (channels h')) \<subseteq> set (clients h')" "set (subscribers k (servers h')) \<subseteq> set (clients h')" for k
    using U(1) subscribers_ok by (auto simp: hub_ok_def)
  have "set (presence h') = (\<lambda>j. cl_userID (client_at h' j)) ` set (clients h')"
    using U(1) by (simp add: hub_ok_def)
  then have "set (presence h') = (\<lambda>j. cl_userID (client_at h j)) ` (set (clients h) - {i})"
    by (simp only: U(2,4))
  then have "cl_userID (client_at h i) \<in> set (presence h') \<longleftrightarrow>
       (\<exists>j \<in> set (clients h) - {i}. cl_userID (client_at h j) = cl_userID (client_at h i))"
    by (simp add: image_iff eq_commute)
  moreover have "i \<notin> set (subscribers k (channels h')) \<and> i \<notin> set (subscribers k (servers h'))" for k
    using sub [of k] U(2) by blast
  ultimately show ?thesis using U(2,3) by (simp add: Stats_def)
qed

lemma unregister_complete_witness:
  "\<exists>h'. Unregister ''a'' toy_hub = Some h' \<and> clients h' = [] \<and> presence h' = [] \<and>
     hs_SubscribedChannels (Stats h') = hs_SubscribedChannels (Stats toy_hub)"
proof -
  have u: "Unregister ''a'' toy_hub = Some (toy_hub\<lparr>clients := [], channels := [(''k'', [])], presence := []\<rparr>)"
    by (simp add: Unregister_def toy_hub_def key_delete_def hasOtherClientForUser_def client_at_def
        NewClient_def presence_key_def broadcastPresenceLocked_def Let_def)
  from unregister_complete [OF toy_hub_reachable _ u] u show ?thesis by (simp add: toy_hub_def)
qed

end
