(* ===== verification/Ws_Facts.thy ===== *)
theory Ws_Facts
  imports Ws Hub_Props "HOL-Library.Multiset"
begin

text \<open>
  What the parts of the protocol do to the state, once for all handlers. \<open>frame_sink\<close> is the
  interface between the handlers and the hub: a way of sending that leaves everything but
  queues alone and reaches its targets only; the sends of the hub are its interpretations.
  \<open>moves P\<close> relates the states before and after a handler that keeps the tables of guilds,
  read markers and MLS groups and adds messages that satisfy \<open>P\<close>.
\<close>

section \<open>Sending as an interface\<close>

definition queue :: "Hub \<Rightarrow> string \<Rightarrow> frame list" where
  "queue h i = (case heap h i of None \<Rightarrow> [] | Some c \<Rightarrow> cl_send c)"

locale frame_sink =
  fixes deliver :: "frame \<Rightarrow> Hub \<Rightarrow> Hub option"
    and targets :: "Hub \<Rightarrow> string set"
  assumes same: "deliver f h = Some h' \<Longrightarrow> same_hub h h'"
    and grows: "deliver f h = Some h' \<Longrightarrow>
      \<exists>n. queue h' i = queue h i @ replicate n f \<and> (n = 0 \<or> i \<in> targets h)"
begin

lemma others_unchanged: "deliver f h = Some h' \<Longrightarrow> i \<notin> targets h \<Longrightarrow> queue h' i = queue h i"
  using grows [of f h h' i] by auto

lemma received: "deliver f h = Some h' \<Longrightarrow> g \<in> set (queue h' i) \<Longrightarrow> g \<in> set (queue h i) \<or> g = f \<and> i \<in> targets h"
  using grows [of f h h' i] by auto

lemma keeps_prefix: "deliver f h = Some h' \<Longrightarrow> \<exists>fs. queue h' i = queue h i @ fs \<and> set fs \<subseteq> {f}"
  using grows [of f h h' i] by force

end

lemma try_send_grows:
  "try_send f cid h = Some h' \<Longrightarrow> \<exists>n. queue h' i = queue h i @ replicate n f \<and> (n = 0 \<or> i = cid)"
proof -
  assume t: "try_send f cid h = Some h'"
  show ?thesis
  proof (cases "h' = h")
    case True
    then show ?thesis by (intro exI [of _ 0]) simp
  next
    case False
    with t obtain c where c: "heap h cid = Some c"
      and h': "h' = h\<lparr>heap := (heap h)(cid \<mapsto> c\<lparr>cl_send := cl_send c @ [f]\<rparr>)\<rparr>"
      by (auto simp: try_send_def split: option.splits if_splits)
    show ?thesis
    proof (cases "i = cid")
      case True
      then show ?thesis using c h' by (intro exI [of _ 1]) (simp add: queue_def)
    next
      case False
      then show ?thesis using h' by (intro exI [of _ 0]) (simp add: queue_def)
    qed
  qed
qed

lemma send_all_grows:
  "send_all f cids h = Some h' \<Longrightarrow> \<exists>n. queue h' i = queue h i @ replicate n f \<and> (n = 0 \<or> i \<in> set cids)"
proof (induction f cids h rule: send_all.induct)
  case (1 f h)
  then show ?case by auto
next
  case (2 f cid cids h)
  then obtain h1 where h1: "try_send f cid h = Some h1" "send_all f cids h1 = Some h'"
    by (auto split: Option.bind_splits)
  obtain m where m: "queue h1 i = queue h i @ replicate m f" "m = 0 \<or> i = cid"
    using try_send_grows [OF h1(1)] by blast
  obtain n where n: "queue h' i = queue h1 i @ replicate n f" "n = 0 \<or> i \<in> set cids"
    using "2.IH" [OF h1] by blast
  have "queue h' i = queue h i @ replicate (m + n) f" using m n by (simp add: replicate_add)
  then show ?case using m(2) n(2) by (intro exI [of _ "m + n"]) auto
qed

interpretation own_sink: frame_sink "\<lambda>f. try_send f cid" "\<lambda>_. {cid}" for cid
  by unfold_locales (use try_send_same try_send_grows in \<open>auto\<close>)

interpretation channel_sink: frame_sink "\<lambda>f. Broadcast k f ex" "\<lambda>h. set (subscribers k (channels h)) - {ex}" for k ex
proof unfold_locales
  fix f h h' i
  assume "Broadcast k f ex h = Some h'"
  then have s: "send_all f (filter (\<lambda>i. i \<noteq> ex) (subscribers k (channels h))) h = Some h'"
    by (simp add: Broadcast_def)
  show "same_hub h h'" using send_all_same [OF s] .
  show "\<exists>n. queue h' i = queue h i @ replicate n f \<and> (n = 0 \<or> i \<in> set (subscribers k (channels h)) - {ex})"
    using send_all_grows [OF s, of i] by auto
qed

interpretation server_sink: frame_sink "BroadcastToServer k" "\<lambda>h. set (subscribers k (servers h))" for k
proof unfold_locales
  fix f h h' i
  assume "BroadcastToServer k f h = Some h'"
  then have s: "send_all f (subscribers k (servers h)) h = Some h'" by (simp add: BroadcastToServer_def)
  show "same_hub h h'" using send_all_same [OF s] .
  show "\<exists>n. queue h' i = queue h i @ replicate n f \<and> (n = 0 \<or> i \<in> set (subscribers k (servers h)))"
    using send_all_grows [OF s, of i] by auto
qed

interpretation user_sink: frame_sink "BroadcastToUserInChannel k u"
  "\<lambda>h. {i \<in> set (subscribers k (channels h)). cl_userID (client_at h i) = u}" for k u
proof unfold_locales
  fix f h h' i
  assume "BroadcastToUserInChannel k u f h = Some h'"
  then have s: "send_all f (filter (\<lambda>i. cl_userID (client_at h i) = u) (subscribers k (channels h))) h = Some h'"
    by (simp add: BroadcastToUserInChannel_def)
  show "same_hub h h'" using send_all_same [OF s] .
  show "\<exists>n. queue h' i = queue h i @ replicate n f \<and>
      (n = 0 \<or> i \<in> {i \<in> set (subscribers k (channels h)). cl_userID (client_at h i) = u})"
    using send_all_grows [OF s, of i] by auto
qed

section \<open>Moves of the state\<close>

definition identity :: "Client \<Rightarrow> string \<times> string \<times> string" where
  "identity c = (cl_userID c, cl_deviceID c, cl_federatedIdentityID c)"

definition same_guilds :: "chat_db \<Rightarrow> chat_db \<Rightarrow> bool" where
  "same_guilds d d' \<longleftrightarrow> cd_members d' = cd_members d \<and> cd_channels d' = cd_channels d \<and>
     cd_mutes d' = cd_mutes d \<and> cd_users d' = cd_users d \<and> cd_fault d' = cd_fault d \<and>
     cd_clock d' = cd_clock d \<and> cd_uuid d' = cd_uuid d \<and> cd_markers d' = cd_markers d \<and>
     cd_group_info d' = cd_group_info d \<and> cd_commits d' = cd_commits d"

definition moves :: "(Message \<Rightarrow> bool) \<Rightarrow> world \<Rightarrow> world \<Rightarrow> bool" where
  "moves P w w' \<longleftrightarrow> same_guilds (cdb w) (cdb w') \<and>
     (\<exists>ms. cd_messages (cdb w') = cd_messages (cdb w) @ ms \<and> (\<forall>m \<in> set ms. P m)) \<and>
     (\<forall>i. identity (client w' i) = identity (client w i))"

lemma moves_refl [simp, intro]: "moves P w w"
  by (simp add: moves_def same_guilds_def)

lemma moves_trans [trans]: "moves P w w' \<Longrightarrow> moves P w' w'' \<Longrightarrow> moves P w w''"
  unfolding moves_def same_guilds_def by fastforce

lemma moves_identity: "moves P w w' \<Longrightarrow> client w i = c \<Longrightarrow>
  cl_userID (client w' i) = cl_userID c \<and> cl_deviceID (client w' i) = cl_deviceID c \<and>
  cl_federatedIdentityID (client w' i) = cl_federatedIdentityID c"
  by (auto simp: moves_def identity_def)

lemma moves_hub: "same_hub (hub w) h \<Longrightarrow> moves P w (w\<lparr>hub := h\<rparr>)"
proof -
  assume s: "same_hub (hub w) h"
  have "identity (client_at h i) = identity (client_at (hub w) i)" for i
  proof -
    from s have "map_option (\<lambda>c. c\<lparr>cl_send := []\<rparr>) (heap h i) = map_option (\<lambda>c. c\<lparr>cl_send := []\<rparr>) (heap (hub w) i)"
      by (simp add: same_hub_def)
    then show ?thesis
      by (cases "heap h i"; cases "heap (hub w) i")
         (simp_all add: client_at_def identity_def, metis Client.select_convs(1-3) Client.surjective Client.update_convs(4))
  qed
  then show ?thesis by (simp add: moves_def same_guilds_def)
qed

context frame_sink
begin

lemma moves_deliver: "run_hub (deliver f) w = Some w' \<Longrightarrow> moves P w w'"
  using same moves_hub by (auto simp: run_hub_def)

end

lemma moves_sendError: "sendError cid code msg w = Some w' \<Longrightarrow> moves P w w'"
  unfolding sendError_def by (rule own_sink.moves_deliver)

section \<open>Queries\<close>

text \<open>A query that leaves guilds, messages, read markers and MLS groups alone.\<close>

definition quiet :: "'a chat_op \<Rightarrow> bool" where
  "quiet q \<longleftrightarrow> (\<forall>d. same_guilds d (snd (q d)) \<and> cd_messages (snd (q d)) = cd_messages d)"

lemma quiet_read [intro]: "quiet (chat_read p)"
  by (simp add: quiet_def chat_read_def chat_query_def same_guilds_def Let_def)

lemma quiet_query [intro]:
  "(\<And>now u d. same_guilds d (snd (q now u d)) \<and> cd_messages (snd (q now u d)) = cd_messages d) \<Longrightarrow> quiet (chat_query q)"
  by (fastforce simp: quiet_def chat_query_def same_guilds_def Let_def)

lemma quiet_queries:
  "quiet (GetChannelByID c)" "quiet (IsChannelMember c u)" "quiet (GetActiveMute s u)"
  "quiet (GetServerMemberLevel s u)" "quiet (GetServerMemberLevelByFederatedID s u)"
  "quiet (IncrementGuildMessageCount c)" "quiet (GetMessages c u before lim)"
  unfolding GetChannelByID_def IsChannelMember_def GetActiveMute_def GetServerMemberLevel_def
    GetServerMemberLevelByFederatedID_def IncrementGuildMessageCount_def
    GetMessages_def
  by (rule quiet_read | rule quiet_query; simp add: same_guilds_def Let_def split: option.splits
      | auto simp: quiet_def chat_read_def chat_query_def same_guilds_def Let_def)+

lemma run_chat_quiet:
  assumes "run_chat q w = (r, w')" and "quiet q"
  shows "moves P w w'" and "hub w' = hub w" and "q (cdb w) = (r, cdb w')"
proof -
  have "same_guilds (cdb w) (snd (q (cdb w)))" "cd_messages (snd (q (cdb w))) = cd_messages (cdb w)"
    using assms(2) by (simp_all add: quiet_def)
  then show "moves P w w'" "hub w' = hub w" "q (cdb w) = (r, cdb w')"
    using assms(1) by (auto simp: run_chat_def moves_def split: prod.splits)
qed

lemma run_chat_InsertMessage:
  assumes "run_chat (InsertMessage ch sid fid rid ct) w = (r, w')"
  shows "hub w' = hub w"
    and "r = Inr m \<Longrightarrow> ms_ChannelID m = ch \<and> ms_SenderID m = sid \<and> ms_FederatedSenderID m = fid \<and>
      ms_RecipientID m = rid \<and> ms_Ciphertext m = ct \<and> ms_ID m = cd_uuid (cdb w) (cd_tick (cdb w)) \<and>
      ms_Timestamp m = cd_clock (cdb w) (cd_tick (cdb w)) \<and> cd_messages (cdb w') = cd_messages (cdb w) @ [m]"
    and "(\<And>m. r = Inr m \<Longrightarrow> P m) \<Longrightarrow> moves P w w'"
  using assms
  by (auto simp: run_chat_def InsertMessage_def chat_query_def moves_def same_guilds_def Let_def
      split: prod.splits if_splits)

section \<open>The handlers move the state\<close>

definition healthy :: "chat_db \<Rightarrow> bool" where
  "healthy d \<longleftrightarrow> (\<forall>n. \<not> cd_fault d n)"

lemma healthy_read: "healthy d \<Longrightarrow> chat_read p d = (Inr (p (cd_clock d (cd_tick d)) (d\<lparr>cd_tick := Suc (cd_tick d)\<rparr>)), d\<lparr>cd_tick := Suc (cd_tick d)\<rparr>)"
  by (simp add: chat_read_def chat_query_def healthy_def Let_def)

lemma healthy_moves: "moves P w w' \<Longrightarrow> healthy (cdb w') = healthy (cdb w)"
  by (simp add: moves_def same_guilds_def healthy_def)

text \<open>What the sender of a stored message must be, seen from the state \<open>w\<close>.\<close>

definition by_member :: "string \<Rightarrow> world \<Rightarrow> Message \<Rightarrow> bool" where
  "by_member cid w m \<longleftrightarrow>
     channel_member (cdb w) (ms_ChannelID m) (cl_userID (client w cid)) \<and>
     (ms_SenderID m, ms_FederatedSenderID m) = resolveSenderIdentity (client w cid) \<and>
     length (ms_Ciphertext m) \<le> maxCiphertextBytes"

definition channel_of :: "chat_db \<Rightarrow> string \<Rightarrow> Channel option" where
  "channel_of d channelID = find (\<lambda>c. ch_ID c = channelID) (cd_channels d)"

definition not_system :: "world \<Rightarrow> Message \<Rightarrow> bool" where
  "not_system w m \<longleftrightarrow> (\<forall>c. channel_of (cdb w) (ms_ChannelID m) = Some c \<longrightarrow> ch_Type c \<noteq> ''system'')"

lemma moves_channel_member: "moves P w w' \<Longrightarrow> channel_member (cdb w') c u = channel_member (cdb w) c u"
  by (simp add: moves_def same_guilds_def channel_member_def)

lemma moves_channel_of: "moves P w w' \<Longrightarrow> channel_of (cdb w') = channel_of (cdb w)"
  by (simp add: moves_def same_guilds_def channel_of_def fun_eq_iff)

lemma moves_sender: "moves P w w' \<Longrightarrow> resolveSenderIdentity (client w' i) = resolveSenderIdentity (client w i)"
  by (simp add: moves_def identity_def resolveSenderIdentity_def)

lemma moves_user: "moves P w w' \<Longrightarrow> cl_userID (client w' i) = cl_userID (client w i)"
  by (simp add: moves_def identity_def)

lemma moves_mono: "moves P w w' \<Longrightarrow> (\<And>m. P m \<Longrightarrow> Q m) \<Longrightarrow> moves Q w w'"
  unfolding moves_def by blast

lemma moves_run_hub:
  assumes "run_hub f w = Some w'" and "\<And>h'. f (hub w) = Some h' \<Longrightarrow> same_hub (hub w) h'"
  shows "moves P w w'"
  using assms moves_hub by (auto simp: run_hub_def)

lemma require_member_cases:
  assumes "require_member cid ch k w = Some w'"
  obtains (refused) w1 code msg where "moves (\<lambda>_. False) w w1" "sendError cid code msg w1 = Some w'"
  | (member) w1 where "moves (\<lambda>_. False) w w1" "hub w1 = hub w"
      "channel_member (cdb w) ch (cl_userID (client w cid))" "k w1 = Some w'"
      "cdb w1 = (cdb w)\<lparr>cd_tick := Suc (cd_tick (cdb w))\<rparr>"
proof -
  obtain r w1 where r: "run_chat (IsChannelMember ch (cl_userID (client w cid))) w = (r, w1)" by force
  note q = run_chat_quiet [OF r quiet_queries(2)]
  show thesis
  proof (cases "\<exists>e. r = Inl e \<or> r = Inr False")
    case True
    then have "sendError cid ''internal'' ''check membership failed'' w1 = Some w' \<or>
        sendError cid ''forbidden'' ''not a channel member'' w1 = Some w'"
      using assms r by (auto simp: require_member_def)
    then have "\<exists>code msg. sendError cid code msg w1 = Some w'" by (elim disjE) (intro exI, assumption)+
    with q(1) refused show ?thesis by blast
  next
    case False
    then have r': "r = Inr True" by (cases r) auto
    with q(3) have d: "cdb w1 = (cdb w)\<lparr>cd_tick := Suc (cd_tick (cdb w))\<rparr>"
      and m: "channel_member (cdb w) ch (cl_userID (client w cid))"
      by (auto simp: IsChannelMember_def chat_read_def chat_query_def channel_member_def Let_def split: if_splits)
    have "k w1 = Some w'" using assms r r' by (simp add: require_member_def)
    then show ?thesis by (rule member [OF q(1) q(2) m _ d])
  qed
qed

text \<open>Messages stored in channel \<open>ch\<close> by a client that is a member of it.\<close>

definition authored :: "string \<Rightarrow> world \<Rightarrow> string \<Rightarrow> Message \<Rightarrow> bool" where
  "authored cid w ch m \<longleftrightarrow> by_member cid w m \<and> ms_ChannelID m = ch"

lemma moves_authored: "moves P w w' \<Longrightarrow> authored cid w' = authored cid w"
  using moves_channel_member moves_sender moves_user
  by (simp add: fun_eq_iff authored_def by_member_def)

lemma insert_authored:
  assumes "run_chat (InsertMessage ch (fst (resolveSenderIdentity (client w cid)))
      (snd (resolveSenderIdentity (client w cid))) rid ct) w = (r, w')"
    and "channel_member (cdb w) ch (cl_userID (client w cid))" and "length ct \<le> maxCiphertextBytes"
  shows "moves (authored cid w ch) w w'"
proof (rule run_chat_InsertMessage(3) [OF assms(1)])
  fix m
  assume "r = Inr m"
  from run_chat_InsertMessage(2) [OF assms(1) this] assms(2,3)
  show "authored cid w ch m" by (simp add: authored_def by_member_def)
qed

lemma fanout_loop_moves:
  assumes "fanout_loop cid ch l w = Some w'" and "channel_member (cdb w) ch (cl_userID (client w cid))"
  shows "moves (authored cid w ch) w w'"
  using assms
proof (induction l arbitrary: w)
  case Nil
  then show ?case by simp
next
  case (Cons p rest)
  obtain u b64 where p: "p = (u, b64)" by force
  note step = Cons.prems(1) [unfolded p fanout_loop.simps]
  consider (skip) "fanout_loop cid ch rest w = Some w'"
      "u = [] \<or> b64 = [] \<or> DecodeString StdEncoding b64 = None \<or>
       (\<exists>ct. DecodeString StdEncoding b64 = Some ct \<and> length ct > maxCiphertextBytes)"
    | (insert) ct where "\<not> (u = [] \<or> b64 = [])" "DecodeString StdEncoding b64 = Some ct" "length ct \<le> maxCiphertextBytes"
    using step by (auto split: if_splits option.splits)
  then show ?case
  proof cases
    case skip
    then show ?thesis using Cons.IH Cons.prems(2) by blast
  next
    case insert
    let ?ids = "resolveSenderIdentity (client w cid)"
    obtain r w1 where r: "run_chat (InsertMessage ch (fst ?ids) (snd ?ids) (Some u) ct) w = (r, w1)" by force
    note m1 = insert_authored [OF r Cons.prems(2) insert(3)]
    have mem: "channel_member (cdb w2) ch (cl_userID (client w2 cid))" if "moves P w w2" for P w2
      using that Cons.prems(2) moves_channel_member moves_user by metis
    show ?thesis
    proof (cases r)
      case (Inl e)
      with step insert r have "fanout_loop cid ch rest w1 = Some w'" by (simp add: split_def)
      then have "moves (authored cid w1 ch) w1 w'" using mem [OF m1] by (rule Cons.IH)
      then show ?thesis using m1 moves_authored [OF m1] moves_trans by metis
    next
      case (Inr m)
      with step insert r obtain w2 where
        w2: "run_hub (BroadcastToUserInChannel ch u (MessageNew
               ((messageNewBroadcast m (cl_deviceID (client w cid)))\<lparr>nm_Ciphertext := b64\<rparr>))) w1 = Some w2"
        and rest: "fanout_loop cid ch rest w2 = Some w'"
        by (auto simp: split_def split: Option.bind_splits)
      have m2: "moves (authored cid w ch) w w2" using m1 user_sink.moves_deliver [OF w2] moves_trans by metis
      have "moves (authored cid w2 ch) w2 w'" using rest mem [OF m2] by (rule Cons.IH)
      then show ?thesis using m2 moves_authored [OF m2] moves_trans by metis
    qed
  qed
qed

lemma send_ack_moves: "send_ack cid l m w = Some w' \<Longrightarrow> moves P w w'"
  by (auto simp: send_ack_def split: if_splits intro: own_sink.moves_deliver)

lemma handleMessageSendFanout_moves:
  assumes "handleMessageSendFanout cid ch l local w = Some w'"
    and "channel_member (cdb w) ch (cl_userID (client w cid))"
  shows "moves (authored cid w ch) w w'"
proof -
  from assms(1) obtain w1 where w1: "fanout_loop cid ch l w = Some w1"
    by (auto simp: handleMessageSendFanout_def split: Option.bind_splits)
  have m1: "moves (authored cid w ch) w w1" using fanout_loop_moves [OF w1 assms(2)] .
  have mem: "channel_member (cdb w1) ch (cl_userID (client w1 cid))"
    using assms(2) moves_channel_member [OF m1] moves_user [OF m1] by metis
  let ?ids = "resolveSenderIdentity (client w1 cid)"
  obtain r w2 where r: "run_chat (InsertMessage ch (fst ?ids) (snd ?ids) (Some (cl_userID (client w1 cid))) []) w1 = (r, w2)"
    by force
  have m2: "moves (authored cid w ch) w w2"
    using m1 insert_authored [OF r mem] moves_authored [OF m1] moves_trans by (metis list.size(3) zero_le)
  show ?thesis
  proof (cases r)
    case (Inl e)
    with assms(1) w1 r m2 show ?thesis by (simp add: handleMessageSendFanout_def split_def)
  next
    case (Inr m)
    with assms(1) w1 r obtain w3 where w3: "send_ack cid local m w2 = Some w3"
      and w': "run_hub (BroadcastToUserInChannel ch (cl_userID (client w1 cid))
              (MessageNew (messageNewBroadcast m (cl_deviceID (client w1 cid))))) w3 = Some w'"
      by (auto simp: handleMessageSendFanout_def split_def split: Option.bind_splits)
    show ?thesis using m2 send_ack_moves [OF w3] user_sink.moves_deliver [OF w'] moves_trans by metis
  qed
qed

text \<open>The channel a frame names is the one \<open>message.send\<close> works on.\<close>

lemma decode_send_channel: "decode_send raw = Some p \<Longrightarrow> decode_channel raw = Some (sp_ChannelID p)"
  by (auto simp: decode_send_def decode_channel_def split: Option.bind_splits)

definition sendable :: "string \<Rightarrow> world \<Rightarrow> json \<Rightarrow> Message \<Rightarrow> bool" where
  "sendable cid w raw m \<longleftrightarrow> by_member cid w m \<and> (healthy (cdb w) \<longrightarrow> not_system w m) \<and>
     decode_channel raw = Some (ms_ChannelID m) \<and> ms_ChannelID m \<noteq> []"

lemma moves_sendable: "moves P w w' \<Longrightarrow> sendable cid w' raw = sendable cid w raw"
  using moves_channel_member moves_sender moves_user healthy_moves moves_channel_of
  by (simp add: fun_eq_iff sendable_def by_member_def not_system_def)

lemma channel_lookup:
  assumes "run_chat (GetChannelByID c) w = (r, w')"
  shows "moves P w w'" and "hub w' = hub w" and "healthy (cdb w) \<Longrightarrow> r = Inr (channel_of (cdb w) c)"
    and "healthy (cdb w) \<Longrightarrow> cdb w' = (cdb w)\<lparr>cd_tick := Suc (cd_tick (cdb w))\<rparr>"
  using run_chat_quiet [OF assms quiet_queries(1)]
  by (simp_all add: GetChannelByID_def healthy_read channel_of_def)

lemma handleMessageSend_moves:
  assumes "handleMessageSend E cid raw w = Some w'"
  shows "moves (sendable cid w raw) w w'"
proof (cases "\<exists>code msg. sendError cid code msg w = Some w'")
  case True
  then show ?thesis using moves_sendError by blast
next
  case False
  with assms obtain p where E: "we_store E" and p: "decode_send raw = Some p" and ch: "sp_ChannelID p \<noteq> []"
    by (fastforce simp: handleMessageSend_def split: if_splits option.splits)
  let ?ch = "sp_ChannelID p"
  note step = assms [unfolded handleMessageSend_def p, simplified E ch if_False not_True_eq_False simp_thms option.case]
  from step show ?thesis
  proof (cases rule: require_member_cases)
    case (refused w1 code msg)
    have "moves (sendable cid w raw) w w1" using moves_mono [OF refused(1)] by blast
    then show ?thesis using moves_sendError [OF refused(2)] by (rule moves_trans)
  next
    case (member w1)
    obtain r w2 where r: "run_chat (GetChannelByID ?ch) w1 = (r, w2)" by force
    note l = channel_lookup [OF r]
    have m2: "moves P w w2" for P
      using moves_mono [OF member(1), of P] l(1) moves_trans by blast
    let ?sys = "case r of Inr (Some c) \<Rightarrow> ch_Type c = ''system'' | _ \<Rightarrow> False"
    have mem2: "channel_member (cdb w2) ?ch (cl_userID (client w2 cid))"
      using member(3) moves_channel_member [OF m2] moves_user [OF m2] by metis
    have sendable: "authored cid w2 ?ch m \<Longrightarrow> sendable cid w raw m" if "\<not> ?sys" for m
    proof -
      assume a: "authored cid w2 ?ch m"
      then have "ms_ChannelID m = ?ch" and "by_member cid w m"
        using moves_authored [OF m2] by (auto simp: authored_def)
      moreover have "not_system w m" if "healthy (cdb w)"
        using that \<open>\<not> ?sys\<close> l(3) healthy_moves [OF member(1)] moves_channel_of [OF member(1)] \<open>ms_ChannelID m = ?ch\<close>
        by (auto simp: not_system_def)
      ultimately show ?thesis using decode_send_channel [OF p] ch by (simp add: sendable_def)
    qed
    show ?thesis
    proof (cases "\<exists>code msg. sendError cid code msg w2 = Some w'")
      case True
      then obtain code msg where "sendError cid code msg w2 = Some w'" by blast
      then show ?thesis by (rule moves_trans [OF m2 moves_sendError])
    next
      case no: False
      note step2 = member(4) [unfolded r prod.case]
      from no step2 have sys: "\<not> ?sys" by (auto split: if_splits)
      show ?thesis
      proof (cases "sp_CiphertextByRecipient p = []")
        case False
        with no step2 sys have "handleMessageSendFanout cid ?ch (sp_CiphertextByRecipient p) (sp_LocalID p) w2 = Some w'"
          by (auto split: if_splits)
        from moves_mono [OF handleMessageSendFanout_moves [OF this mem2] sendable [OF sys]]
        show ?thesis by (rule moves_trans [OF m2])
      next
        case True
        let ?ids = "resolveSenderIdentity (client w cid)"
        from no step2 sys True obtain ct where ct: "DecodeString StdEncoding (sp_Ciphertext p) = Some ct"
          "sp_Ciphertext p \<noteq> []" "length ct \<le> maxCiphertextBytes"
          by (fastforce split: if_splits option.splits)
        obtain r3 w3 where r3: "run_chat (InsertMessage ?ch (fst ?ids) (snd ?ids) None ct) w2 = (r3, w3)" by force
        have "moves (authored cid w2 ?ch) w2 w3"
          using insert_authored [of ?ch w2 cid None ct r3 w3] r3 moves_sender [OF m2] mem2 ct(3) by metis
        from moves_trans [OF m2 moves_mono [OF this sendable [OF sys]]]
        have m3: "moves (sendable cid w raw) w w3" .
        show ?thesis
        proof (cases r3)
          case (Inl e)
          with step2 sys True ct r3 have "sendError cid ''internal'' ''failed to store message'' w3 = Some w'"
            by (simp add: split_def)
          then show ?thesis by (rule moves_trans [OF m3 moves_sendError])
        next
          case (Inr m)
          obtain r4 w4 where r4: "run_chat (IncrementGuildMessageCount ?ch) w3 = (r4, w4)" by force
          note m4 = run_chat_quiet(1) [OF r4 quiet_queries(6)]
          from step2 sys True ct r3 r4 Inr have "Option.bind (send_ack cid (sp_LocalID p) m w4)
              (run_hub (Broadcast ?ch (MessageNew (messageNewBroadcast m (cl_deviceID (client w cid)))) [])) = Some w'"
            by (simp add: split_def)
          then obtain w5 where w5: "send_ack cid (sp_LocalID p) m w4 = Some w5"
            and w': "run_hub (Broadcast ?ch (MessageNew (messageNewBroadcast m (cl_deviceID (client w cid)))) []) w5 = Some w'"
            by (auto split: Option.bind_splits)
          show ?thesis
            by (rule moves_trans [OF moves_trans [OF m3 m4]
                  moves_trans [OF send_ack_moves [OF w5] channel_sink.moves_deliver [OF w']]])
        qed
      qed
    qed
  qed
qed

lemma handleTyping_moves:
  assumes "handleTyping E cid t raw w = Some w'"
  shows "moves P w w'"
proof (cases "w' = w")
  case False
  with assms obtain ch where ch: "decode_channel raw = Some ch" "\<not> (ch = [] \<or> \<not> we_store E)"
    by (auto simp: handleTyping_def split: option.splits if_splits)
  obtain r w1 where r: "run_chat (IsChannelMember ch (cl_userID (client w cid))) w = (r, w1)" by force
  note m1 = run_chat_quiet(1) [OF r quiet_queries(2)]
  from assms ch r have "w' = w1 \<or>
      run_hub (Broadcast ch (Typing t ch (cl_userID (client w cid))) []) w1 = Some w'"
    by (auto simp: handleTyping_def split: sum.splits bool.splits)
  then show ?thesis using m1 channel_sink.moves_deliver moves_trans by metis
qed simp

lemma handleMessageHistory_moves:
  assumes "handleMessageHistory E cid raw w = Some w'"
  shows "moves (\<lambda>_. False) w w'"
proof (cases "\<exists>code msg. sendError cid code msg w = Some w'")
  case True
  then show ?thesis using moves_sendError by blast
next
  case False
  with assms obtain p before where E: "we_store E" and p: "decode_history raw = Some p"
    and ch: "hp_ChannelID p \<noteq> []" and b: "parse_before E (hp_Before p) = Some before"
    by (fastforce simp: handleMessageHistory_def split: if_splits option.splits)
  note step = assms [unfolded handleMessageHistory_def p, simplified E ch b if_False not_True_eq_False simp_thms option.case]
  from step show ?thesis
  proof (cases rule: require_member_cases)
    case (refused w1 code msg)
    show ?thesis by (rule moves_trans [OF refused(1) moves_sendError [OF refused(2)]])
  next
    case (member w1)
    obtain r w2 where r: "run_chat (GetMessages (hp_ChannelID p) (cl_userID (client w cid)) before
        (history_limit (hp_Limit p))) w1 = (r, w2)" by force
    note m2 = run_chat_quiet(1) [OF r quiet_queries(7)]
    show ?thesis
    proof (cases r)
      case (Inl e)
      with member(4) r have "sendError cid ''internal'' ''failed to load history'' w2 = Some w'" by simp
      from moves_trans [OF moves_trans [OF member(1) m2] moves_sendError [OF this]] show ?thesis .
    next
      case (Inr ms)
      with member(4) r have "run_hub (try_send (MessageHistoryResponse (map messageToMap ms)) cid) w2 = Some w'" by simp
      from moves_trans [OF moves_trans [OF member(1) m2] own_sink.moves_deliver [OF this]] show ?thesis .
    qed
  qed
qed

text \<open>What the dispatcher can do: only the send handlers store messages.\<close>

definition not_muted :: "string \<Rightarrow> world \<Rightarrow> Message \<Rightarrow> bool" where
  "not_muted cid w m \<longleftrightarrow>
     (\<forall>c s mu. channel_of (cdb w) (ms_ChannelID m) = Some c \<longrightarrow> ch_ServerID c = Some s \<longrightarrow> s \<noteq> [] \<longrightarrow>
        mu \<in> set (cd_mutes (cdb w)) \<longrightarrow>
        \<not> mute_active (cd_clock (cdb w) (cd_tick (cdb w) + 1)) s (cl_userID (client w cid)) mu)"

lemma newest_None: "(case rev (sort_key k xs) of [] \<Rightarrow> None | m # _ \<Rightarrow> Some m) = None \<longleftrightarrow> xs = []"
proof -
  have "rev (sort_key k xs) = [] \<longleftrightarrow> xs = []" by (metis length_0_conv length_rev length_sort)
  then show ?thesis by (cases "rev (sort_key k xs)") auto
qed

lemma mute_gate:
  assumes "resolveServerIDFromPayload E raw w = (srv, w1)" and "isMuted E cid srv w1 = (muted, w2)"
  shows "moves P w w2" and "hub w2 = hub w"
    and "\<lbrakk>\<not> muted; we_store E; healthy (cdb w); decode_channel raw = Some ch; ch \<noteq> []; ms_ChannelID m = ch\<rbrakk>
      \<Longrightarrow> not_muted cid w m"
proof -
  have w1: "moves P w w1 \<and> hub w1 = hub w" for P
  proof (cases "w1 = w")
    case False
    with assms(1) obtain c r where r: "run_chat (GetChannelByID c) w = (r, w1)"
      by (fastforce simp: resolveServerIDFromPayload_def split: if_splits option.splits prod.splits sum.splits)
    then show ?thesis using channel_lookup by blast
  qed simp
  have w2: "moves P w1 w2 \<and> hub w2 = hub w1" for P
  proof (cases "w2 = w1")
    case False
    with assms(2) obtain r where r: "run_chat (GetActiveMute srv (cl_userID (client w1 cid))) w1 = (r, w2)"
      by (fastforce simp: isMuted_def split: if_splits option.splits prod.splits sum.splits)
    then show ?thesis using run_chat_quiet [OF r quiet_queries(3)] by blast
  qed simp
  show "moves P w w2" and "hub w2 = hub w" using w1 w2 moves_trans by metis+
  show "not_muted cid w m" if a: "\<not> muted" "we_store E" "healthy (cdb w)" "decode_channel raw = Some ch" "ch \<noteq> []"
    "ms_ChannelID m = ch"
  proof (unfold not_muted_def, intro allI impI)
    fix c s mu
    assume c: "channel_of (cdb w) (ms_ChannelID m) = Some c" "ch_ServerID c = Some s" "s \<noteq> []"
      "mu \<in> set (cd_mutes (cdb w))"
    obtain r w1' where r: "run_chat (GetChannelByID ch) w = (r, w1')" by force
    note l = channel_lookup [OF r]
    have "srv = s" "w1 = w1'" using assms(1) a c l(3) r by (auto simp: resolveServerIDFromPayload_def)
    moreover have "cdb w1' = (cdb w)\<lparr>cd_tick := Suc (cd_tick (cdb w))\<rparr>" using l(4) a by simp
    moreover have "healthy (cdb w1')" using l(1) healthy_moves a by blast
    ultimately have "\<not> (\<exists>mu \<in> set (cd_mutes (cdb w)).
        mute_active (cd_clock (cdb w) (Suc (cd_tick (cdb w)))) s (cl_userID (client w1 cid)) mu)"
      using assms(2) a c
      by (auto simp: isMuted_def run_chat_def GetActiveMute_def healthy_read newest_None filter_empty_conv)
    then show "\<not> mute_active (cd_clock (cdb w) (cd_tick (cdb w) + 1)) s (cl_userID (client w cid)) mu"
      using c w1 by auto
  qed
qed

lemma Handle_moves:
  assumes "Handle E cid t raw w = Some w'"
    and t: "t \<in> {''message.send'', ''message.history'', ''typing.start'', ''typing.stop''}"
  shows "moves (\<lambda>m. sendable cid w raw m \<and> (healthy (cdb w) \<longrightarrow> not_muted cid w m)) w w'"
    (is "moves ?P w w'")
proof (cases "t = ''message.history''")
  case True
  with assms(1) have "handleMessageHistory E cid raw w = Some w'" by (simp add: Handle_def)
  from moves_mono [OF handleMessageHistory_moves [OF this]] show ?thesis by blast
next
  case False
  obtain srv w1 where g1: "resolveServerIDFromPayload E raw w = (srv, w1)" by force
  obtain muted w2 where g2: "isMuted E cid srv w1 = (muted, w2)" by force
  note gate = mute_gate [OF g1 g2]
  show ?thesis
  proof (cases muted)
    case True
    with assms(1) t False g1 g2 have "sendError cid ''muted'' ''You are muted and cannot send messages.'' w2 = Some w'"
      by (simp add: Handle_def)
    then show ?thesis by (rule moves_trans [OF gate(1) moves_sendError])
  next
    case unmuted: False
    show ?thesis
    proof (cases "t = ''message.send''")
      case False
      with assms(1) t \<open>t \<noteq> ''message.history''\<close> unmuted g1 g2 have "handleTyping E cid t raw w2 = Some w'"
        by (auto simp: Handle_def)
      then show ?thesis by (rule moves_trans [OF gate(1) handleTyping_moves])
    next
      case True
      with assms(1) unmuted g1 g2 have h: "handleMessageSend E cid raw w2 = Some w'" by (simp add: Handle_def)
      show ?thesis
      proof (cases "we_store E")
        case False
        with h have "sendError cid ''forbidden'' ''store unavailable'' w2 = Some w'" by (simp add: handleMessageSend_def)
        then show ?thesis by (rule moves_trans [OF gate(1) moves_sendError])
      next
        case E: True
        have "moves ?P w2 w'"
        proof (rule moves_mono [OF handleMessageSend_moves [OF h]])
          fix m
          assume "sendable cid w2 raw m"
          then have s: "sendable cid w raw m" using moves_sendable [OF gate(1)] by simp
          moreover have "not_muted cid w m" if "healthy (cdb w)"
            using s by (intro gate(3) [OF unmuted E that]) (auto simp: sendable_def)
          ultimately show "?P m" by simp
        qed
        then show ?thesis by (rule moves_trans [OF gate(1)])
      qed
    qed
  qed
qed

lemma canAccessChannel_moves:
  assumes "canAccessChannel E cid ch w = (ok, w1)"
  shows "moves P w w1" and "hub w1 = hub w" and "ok \<Longrightarrow> channel_member (cdb w) ch (cl_userID (client w cid))"
proof -
  have "(moves P w w1 \<and> hub w1 = hub w) \<and> (ok \<longrightarrow> channel_member (cdb w) ch (cl_userID (client w cid)))"
  proof (cases "\<not> we_store E \<or> cl_userID (client w cid) = []")
    case True
    then show ?thesis using assms by (auto simp: canAccessChannel_def)
  next
    case False
    obtain r w2 where r: "run_chat (IsChannelMember ch (cl_userID (client w cid))) w = (r, w2)" by force
    note q = run_chat_quiet [OF r quiet_queries(2)]
    from assms False r have "w1 = w2" and "ok \<longrightarrow> r = Inr True"
      by (auto simp: canAccessChannel_def split: sum.splits)
    moreover have "channel_member (cdb w) ch (cl_userID (client w cid))" if "r = Inr True"
      using q(3) that by (auto simp: IsChannelMember_def chat_read_def chat_query_def channel_member_def Let_def split: if_splits)
    ultimately show ?thesis using q(1,2) by blast
  qed
  then show "moves P w w1" and "hub w1 = hub w" and "ok \<Longrightarrow> channel_member (cdb w) ch (cl_userID (client w cid))"
    by auto
qed

lemma canAccessServer_moves:
  assumes "canAccessServer E cid s w = (ok, w1)"
  shows "moves P w w1" and "hub w1 = hub w"
proof -
  consider "w1 = w"
    | r where "run_chat (GetServerMemberLevelByFederatedID s (cl_federatedIdentityID (client w cid))) w = (r, w1)"
    | r where "run_chat (GetServerMemberLevel s (cl_userID (client w cid))) w = (r, w1)"
    using assms by (auto simp: canAccessServer_def split: if_splits prod.splits)
  then have "moves P w w1 \<and> hub w1 = hub w"
  proof cases
    case 2
    from run_chat_quiet [OF 2 quiet_queries(5)] show ?thesis by blast
  next
    case 3
    from run_chat_quiet [OF 3 quiet_queries(4)] show ?thesis by blast
  qed simp
  then show "moves P w w1" and "hub w1 = hub w" by auto
qed

lemma moves_subs:
  "heap h = heap (hub w) \<Longrightarrow> moves P w (w\<lparr>hub := h\<rparr>)"
  by (simp add: moves_def same_guilds_def client_at_def)

lemma heap_subs:
  "heap (Subscribe c k h) = heap h" "heap (Unsubscribe c k h) = heap h"
  "heap (SubscribeToServer c k h) = heap h" "heap (UnsubscribeFromServer c k h) = heap h"
  by (simp_all add: Subscribe_def Unsubscribe_def SubscribeToServer_def UnsubscribeFromServer_def)

text \<open>The cases of the dispatcher.\<close>

lemma handleMessage_cases:
  assumes "handleMessage E cid frame w = Some w'"
  obtains (nothing) "w' = w"
  | (handler) raw t where "frame = Some raw" "t \<in> {''message.send'', ''message.history'', ''typing.start'', ''typing.stop''}"
      "Handle E cid t raw w = Some w'"
  | (error) w1 code msg where "\<And>P. moves P w w1" "hub w1 = hub w" "sendError cid code msg w1 = Some w'"
  | (subscribed) w1 ch where "canAccessChannel E cid ch w = (True, w1)" "w' = w1\<lparr>hub := Subscribe cid ch (hub w1)\<rparr>"
  | (maps) w1 h where "\<And>P. moves P w w1" "hub w1 = hub w" "w' = w1\<lparr>hub := h\<rparr>" "heap h = heap (hub w)"
      "channels h = channels (hub w) \<or> (\<exists>ch. h = Unsubscribe cid ch (hub w))"
  | (pong) "run_hub (try_send Pong cid) w = Some w'"
  | (relay) w1 s raw where "\<And>P. moves P w w1" "hub w1 = hub w" "run_hub (BroadcastToServer s (RawFrame raw)) w1 = Some w'"
proof (cases "Option.bind frame decode_envelope")
  case None
  with assms have "w' = w" by (simp add: handleMessage_def)
  then show thesis by (rule nothing)
next
  case (Some ev)
  then obtain raw where raw: "frame = Some raw" by (cases frame) auto
  with Some have ev: "decode_envelope raw = Some ev" by simp
  note step = assms [unfolded handleMessage_def raw Option.bind.bind_lunit ev option.case Let_def option.sel]
  obtain ok1 w1 where a: "canAccessChannel E cid (ev_ChannelID ev) w = (ok1, w1)" by force
  note am = canAccessChannel_moves(1,2) [OF a]
  obtain ok2 w2 where b: "canAccessServer E cid (ev_ServerID ev) w = (ok2, w2)" by force
  note bm = canAccessServer_moves [OF b]
  note step = step [unfolded a b prod.case]
  consider (1) "ev_Type ev = ''subscribe''" | (2) "ev_Type ev = ''unsubscribe''" | (3) "ev_Type ev = ''subscribe.server''"
    | (4) "ev_Type ev = ''unsubscribe.server''" | (5) "ev_Type ev = ''ping''" | (6) "ev_Type ev = ''voice.mute_state''"
    | (7) "ev_Type ev \<in> {''message.send'', ''message.history'', ''typing.start'', ''typing.stop''}"
    | (8) "w' = w"
    using step by (auto split: if_splits)
  then show thesis
  proof cases
    case 1
    have "w' = w \<or> sendError cid ''forbidden'' ''not a channel member'' w1 = Some w' \<or>
        ok1 \<and> w' = w1\<lparr>hub := Subscribe cid (ev_ChannelID ev) (hub w1)\<rparr>"
      using step 1 by (auto split: if_splits)
    then show thesis
    proof (elim disjE conjE)
      assume "ok1" and "w' = w1\<lparr>hub := Subscribe cid (ev_ChannelID ev) (hub w1)\<rparr>"
      with a show thesis by (intro subscribed) simp_all
    next
      assume "w' = w"
      then show thesis by (rule nothing)
    next
      assume "sendError cid ''forbidden'' ''not a channel member'' w1 = Some w'"
      then show thesis by (rule error [OF am])
    qed
  next
    case 2
    have "w' = w \<or> w' = w\<lparr>hub := Unsubscribe cid (ev_ChannelID ev) (hub w)\<rparr>"
      using step 2 by (auto split: if_splits)
    then show thesis
    proof
      assume "w' = w\<lparr>hub := Unsubscribe cid (ev_ChannelID ev) (hub w)\<rparr>"
      then show thesis by (rule maps [OF moves_refl refl]) (auto simp: heap_subs)
    qed (rule nothing)
  next
    case 3
    have "w' = w \<or> sendError cid ''forbidden'' ''not a server member'' w2 = Some w' \<or>
        w' = w2\<lparr>hub := SubscribeToServer cid (ev_ServerID ev) (hub w2)\<rparr>"
      using step 3 by (auto split: if_splits)
    then show thesis
    proof (elim disjE)
      assume "w' = w2\<lparr>hub := SubscribeToServer cid (ev_ServerID ev) (hub w2)\<rparr>"
      then show thesis by (rule maps [OF bm]) (simp_all add: heap_subs bm(2) SubscribeToServer_def)
    next
      assume "w' = w"
      then show thesis by (rule nothing)
    next
      assume "sendError cid ''forbidden'' ''not a server member'' w2 = Some w'"
      then show thesis by (rule error [OF bm])
    qed
  next
    case 4
    have "w' = w \<or> w' = w\<lparr>hub := UnsubscribeFromServer cid (ev_ServerID ev) (hub w)\<rparr>"
      using step 4 by (auto split: if_splits)
    then show thesis
    proof
      assume "w' = w\<lparr>hub := UnsubscribeFromServer cid (ev_ServerID ev) (hub w)\<rparr>"
      then show thesis by (rule maps [OF moves_refl refl]) (simp_all add: heap_subs UnsubscribeFromServer_def)
    qed (rule nothing)
  next
    case 5
    then show thesis using step pong by simp
  next
    case 6
    have "w' = w \<or> sendError cid ''forbidden'' ''not a server member'' w2 = Some w' \<or>
        run_hub (BroadcastToServer (ev_ServerID ev) (RawFrame raw)) w2 = Some w'"
      using step 6 by (auto split: if_splits)
    then show thesis
    proof (elim disjE)
      assume "w' = w"
      then show thesis by (rule nothing)
    next
      assume "sendError cid ''forbidden'' ''not a server member'' w2 = Some w'"
      then show thesis by (rule error [OF bm])
    next
      assume "run_hub (BroadcastToServer (ev_ServerID ev) (RawFrame raw)) w2 = Some w'"
      then show thesis by (rule relay [OF bm])
    qed
  next
    case 7
    then have "Handle E cid (ev_Type ev) raw w = Some w'" using step by auto
    then show thesis using handler raw 7 by blast
  next
    case 8
    then show thesis by (rule nothing)
  qed
qed

lemma handleMessage_moves:
  assumes "handleMessage E cid frame w = Some w'"
  shows "moves (\<lambda>m. by_member cid w m \<and> (healthy (cdb w) \<longrightarrow> not_system w m \<and> not_muted cid w m)) w w'"
    (is "moves ?P w w'")
  using assms
proof (cases rule: handleMessage_cases)
  case (handler raw t)
  from moves_mono [OF Handle_moves [OF handler(3,2)], of ?P] show ?thesis by (simp add: sendable_def)
next
  case (error w1 code msg)
  then show ?thesis using moves_trans moves_sendError by blast
next
  case (subscribed w1 ch)
  then show ?thesis using canAccessChannel_moves(1) [OF subscribed(1)] moves_subs heap_subs moves_trans by metis
next
  case (maps w1 h)
  then show ?thesis using moves_subs [of h w1] moves_trans by metis
next
  case pong
  then show ?thesis by (rule own_sink.moves_deliver)
next
  case (relay w1 s raw)
  then show ?thesis using moves_trans server_sink.moves_deliver by blast
qed simp

section \<open>Deliveries\<close>

lemma same_hub_closed: "same_hub h h' \<Longrightarrow> cl_closed (client_at h' i) = cl_closed (client_at h i)"
proof -
  assume "same_hub h h'"
  then have "map_option (\<lambda>c. c\<lparr>cl_send := []\<rparr>) (heap h' i) = map_option (\<lambda>c. c\<lparr>cl_send := []\<rparr>) (heap h i)"
    by (simp add: same_hub_def)
  then show ?thesis
    by (cases "heap h i"; cases "heap h' i")
       (simp_all add: client_at_def, metis Client.select_convs(5) Client.surjective Client.update_convs(4))
qed

definition queued :: "Hub \<Rightarrow> string \<Rightarrow> frame \<Rightarrow> frame list" where
  "queued h i f = (if length (queue h i) < send_capacity then [f] else [])"

text \<open>Open connections of the registry; a send to them never panics and queues the frame.\<close>

definition open_clients :: "string set \<Rightarrow> Hub \<Rightarrow> bool" where
  "open_clients ids h \<longleftrightarrow> (\<forall>i \<in> ids. heap h i \<noteq> None \<and> \<not> cl_closed (client_at h i))"

lemma open_clients_same: "same_hub h h' \<Longrightarrow> open_clients ids h' = open_clients ids h"
  unfolding open_clients_def using same_hub_closed same_hub_at(1) by metis

lemma send_all_queue:
  assumes "distinct cids" and "open_clients (set cids) h"
  shows "\<exists>h'. send_all f cids h = Some h' \<and> same_hub h h' \<and>
    (\<forall>i. queue h' i = queue h i @ (if i \<in> set cids then queued h i f else []))"
proof -
  have "\<not> (\<exists>i \<in> set cids. \<exists>c. heap h i = Some c \<and> cl_closed c)"
    using assms(2) by (auto simp: open_clients_def client_at_def)
  with send_all_exact [OF assms(1), of f h]
  have e: "send_all f cids h = Some (h\<lparr>heap := (\<lambda>i. case heap h i of None \<Rightarrow> None
       | Some c \<Rightarrow> Some (if i \<in> set cids \<and> length (cl_send c) < send_capacity
                         then c\<lparr>cl_send := cl_send c @ [f]\<rparr> else c))\<rparr>)" (is "_ = Some ?h'")
    by simp
  moreover have "queue ?h' i = queue h i @ (if i \<in> set cids then queued h i f else [])" for i
    using assms(2) by (auto simp: queue_def queued_def open_clients_def split: option.splits)
  ultimately show ?thesis using send_all_same [OF e] by blast
qed

lemma try_send_queue:
  assumes "open_clients {cid} h"
  shows "\<exists>h'. try_send f cid h = Some h' \<and> same_hub h h' \<and>
    (\<forall>i. queue h' i = queue h i @ (if i = cid then queued h i f else []))"
  using send_all_queue [of "[cid]" h f] assms by (auto split: Option.bind_splits)

lemma subscribers_open:
  assumes "hub_ok h" and "\<forall>i \<in> set (subscribers k (channels h)). \<not> cl_closed (client_at h i)"
  shows "distinct (subscribers k (channels h))" and "open_clients (set (subscribers k (channels h))) h"
proof -
  have "subs_ok (set (clients h)) (channels h)" using assms(1) by (simp add: hub_ok_def)
  then have "distinct (subscribers k (channels h)) \<and> set (subscribers k (channels h)) \<subseteq> set (clients h)"
    using subscribers_ok by blast
  then show "distinct (subscribers k (channels h))" and "open_clients (set (subscribers k (channels h))) h"
    using assms by (auto simp: open_clients_def hub_ok_def)
qed

lemma Broadcast_queue:
  assumes "hub_ok h" and "\<forall>i \<in> set (subscribers k (channels h)). \<not> cl_closed (client_at h i)"
  shows "\<exists>h'. Broadcast k f ex h = Some h' \<and> same_hub h h' \<and>
    (\<forall>i. queue h' i = queue h i @ (if i \<in> set (subscribers k (channels h)) - {ex} then queued h i f else []))"
proof -
  note s = subscribers_open [OF assms]
  let ?ids = "filter (\<lambda>i. i \<noteq> ex) (subscribers k (channels h))"
  have "distinct ?ids" "open_clients (set ?ids) h" using s by (auto simp: open_clients_def)
  from send_all_queue [OF this, of f] show ?thesis by (auto simp: Broadcast_def)
qed

lemma same_hub_maps: "same_hub h h' \<Longrightarrow> clients h' = clients h \<and> channels h' = channels h \<and> servers h' = servers h"
  by (simp add: same_hub_def)

text \<open>The row that an insert by user \<open>u\<close> adds in state \<open>d\<close>.\<close>

definition new_row :: "chat_db \<Rightarrow> string \<Rightarrow> string \<Rightarrow> string option \<Rightarrow> bytes \<Rightarrow> Message" where
  "new_row d ch u rid ct =
     \<lparr>ms_ID = cd_uuid d (cd_tick d), ms_ChannelID = ch, ms_SenderID = Some u,
      ms_FederatedSenderID = None, ms_RecipientID = rid, ms_Ciphertext = ct,
      ms_Timestamp = cd_clock d (cd_tick d)\<rparr>"

lemma insert_success:
  assumes "healthy d" and "u \<in> set (cd_users d)" and "known (cd_users d) rid"
    and "ch \<in> ch_ID ` set (cd_channels d)" and "\<forall>m \<in> set (cd_messages d). ms_ID m \<noteq> cd_uuid d (cd_tick d)"
  shows "InsertMessage ch (Some u) None rid ct d = (Inr (new_row d ch u rid ct),
    d\<lparr>cd_tick := Suc (cd_tick d), cd_messages := cd_messages d @ [new_row d ch u rid ct]\<rparr>)"
proof -
  have "\<not> sql_exists (\<lambda>r. ms_ID r = cd_uuid d (cd_tick d)) (cd_messages d)"
    using assms(5) by (simp add: sql_exists_iff)
  moreover have "sql_exists (\<lambda>c. ch_ID c = ch) (cd_channels d)" using assms(4) by (auto simp: sql_exists_iff)
  moreover have "known (cd_users d) (Some u)" "known (cd_federated d) None" using assms(2) by (simp_all add: known_def)
  ultimately show ?thesis
    using assms(1,3) unfolding new_row_def by (simp add: InsertMessage_def chat_query_def healthy_def Let_def)
qed

lemma member_channel: "channel_member d ch u \<Longrightarrow> ch \<in> ch_ID ` set (cd_channels d)"
  by (auto simp: channel_member_def list_ex_iff)

text \<open>A well-formed \<open>message.send\<close> of a member to an ordinary channel.\<close>

definition good_send :: "world \<Rightarrow> string \<Rightarrow> send_payload \<Rightarrow> bytes \<Rightarrow> bool" where
  "good_send w cid p ct \<longleftrightarrow>
     sp_ChannelID p \<noteq> [] \<and> sp_CiphertextByRecipient p = [] \<and> sp_Ciphertext p \<noteq> [] \<and>
     DecodeString StdEncoding (sp_Ciphertext p) = Some ct \<and> length ct \<le> maxCiphertextBytes \<and>
     channel_member (cdb w) (sp_ChannelID p) (cl_userID (client w cid)) \<and>
     (\<forall>c. channel_of (cdb w) (sp_ChannelID p) = Some c \<longrightarrow> ch_Type c \<noteq> ''system'') \<and>
     cl_userID (client w cid) \<in> set (cd_users (cdb w)) \<and>
     (\<forall>m \<in> set (cd_messages (cdb w)). ms_ID m \<noteq> cd_uuid (cdb w) (cd_tick (cdb w) + 2))"

abbreviation later :: "nat \<Rightarrow> chat_db \<Rightarrow> chat_db" where
  "later n d \<equiv> d\<lparr>cd_tick := cd_tick d + n\<rparr>"

lemma run_chat_read:
  "healthy (cdb w) \<Longrightarrow> run_chat (chat_read p) w = (Inr (p (cd_clock (cdb w) (cd_tick (cdb w))) (later 1 (cdb w))), w\<lparr>cdb := later 1 (cdb w)\<rparr>)"
  by (simp add: run_chat_def healthy_read)

lemma handleMessageSend_effect:
  assumes ok: "hub_ok (hub w)" and h: "healthy (cdb w)" and E: "we_store E"
    and p: "decode_send raw = Some p" and g: "good_send w cid p ct"
    and op: "\<forall>i \<in> set (subscribers (sp_ChannelID p) (channels (hub w))). i \<noteq> [] \<and> \<not> cl_closed (client w i)"
    and own: "open_clients {cid} (hub w)"
  defines "m \<equiv> new_row (later 2 (cdb w)) (sp_ChannelID p) (cl_userID (client w cid)) None ct"
  defines "ack \<equiv> MessageSendAck (sp_LocalID p) (ms_ID m) (sp_ChannelID p) (ms_Timestamp m)"
  defines "new \<equiv> MessageNew (messageNewBroadcast m (cl_deviceID (client w cid)))"
  shows "\<exists>w' h1. handleMessageSend E cid raw w = Some w' \<and> cd_messages (cdb w') = cd_messages (cdb w) @ [m] \<and>
    same_hub (hub w) h1 \<and> same_hub h1 (hub w') \<and>
    (\<forall>i. queue h1 i = queue (hub w) i @ (if i = cid \<and> sp_LocalID p \<noteq> [] then queued (hub w) i ack else [])) \<and>
    (\<forall>i. queue (hub w') i = queue h1 i @
       (if i \<in> set (subscribers (sp_ChannelID p) (channels (hub w))) then queued h1 i new else []))"
proof -
  let ?ch = "sp_ChannelID p" and ?u = "cl_userID (client w cid)"
  let ?w1 = "w\<lparr>cdb := later 1 (cdb w)\<rparr>" and ?w2 = "w\<lparr>cdb := later 2 (cdb w)\<rparr>"
  let ?d3 = "(later 3 (cdb w))\<lparr>cd_messages := cd_messages (cdb w) @ [m]\<rparr>"
  have fed: "cl_federatedIdentityID (client w cid) = []" using ok by (simp add: hub_ok_def)
  have q1: "run_chat (IsChannelMember ?ch ?u) w = (Inr True, ?w1)"
    using h g by (simp add: IsChannelMember_def run_chat_read good_send_def channel_member_def)
  have h1: "healthy (cdb ?w1)" "healthy (cdb ?w2)" using h by (simp_all add: healthy_def)
  have q2: "run_chat (GetChannelByID ?ch) ?w1 = (Inr (channel_of (cdb w) ?ch), ?w2)"
    using h1(1) by (simp add: GetChannelByID_def run_chat_read channel_of_def)
  have "?ch \<in> ch_ID ` set (cd_channels (cdb w))" using g member_channel by (auto simp: good_send_def)
  then have "InsertMessage ?ch (Some ?u) None None ct (cdb ?w2) = (Inr m, ?d3)"
    using insert_success [OF h1(2), of ?u None ?ch ct] g unfolding good_send_def m_def
    by (simp add: known_def numeral_2_eq_2 numeral_3_eq_3)
  then have q3: "run_chat (InsertMessage ?ch (Some ?u) None None ct) ?w2 = (Inr m, w\<lparr>cdb := ?d3\<rparr>)"
    by (simp add: run_chat_def)
  obtain r4 w4 where q4: "run_chat (IncrementGuildMessageCount ?ch) (w\<lparr>cdb := ?d3\<rparr>) = (r4, w4)" by force
  have w4: "hub w4 = hub w" "cd_messages (cdb w4) = cd_messages (cdb w) @ [m]"
    using run_chat_quiet(1) [OF q4 quiet_queries(6), of "\<lambda>_. False"]
      run_chat_quiet(2) [OF q4 quiet_queries(6)] by (auto simp: moves_def)
  have sys: "\<not> (case channel_of (cdb w) ?ch of None \<Rightarrow> False | Some c \<Rightarrow> ch_Type c = ''system'')"
    using g by (auto simp: good_send_def split: option.splits)
  have red: "handleMessageSend E cid raw w =
      Option.bind (send_ack cid (sp_LocalID p) m w4) (run_hub (Broadcast ?ch new []))"
    using E p g q1 q2 q3 q4 sys fed
    by (simp add: handleMessageSend_def require_member_def good_send_def resolveSenderIdentity_def new_def)
  have mc: "ms_ChannelID m = ?ch" by (simp add: m_def new_row_def)
  have "\<exists>h1. send_ack cid (sp_LocalID p) m w4 = Some (w4\<lparr>hub := h1\<rparr>) \<and> same_hub (hub w) h1 \<and>
    (\<forall>i. queue h1 i = queue (hub w) i @ (if i = cid \<and> sp_LocalID p \<noteq> [] then queued (hub w) i ack else []))"
  proof (cases "sp_LocalID p = []")
    case True
    then show ?thesis using w4(1) by (intro exI [of _ "hub w"]) (simp add: send_ack_def)
  next
    case False
    from try_send_queue [OF own, of ack] False mc w4(1) show ?thesis
      by (auto simp: send_ack_def run_hub_def ack_def)
  qed
  then obtain h1 where a: "send_ack cid (sp_LocalID p) m w4 = Some (w4\<lparr>hub := h1\<rparr>)" and s1: "same_hub (hub w) h1"
    and k1: "\<forall>i. queue h1 i = queue (hub w) i @ (if i = cid \<and> sp_LocalID p \<noteq> [] then queued (hub w) i ack else [])"
    by blast
  have ch1: "channels h1 = channels (hub w)" using same_hub_maps [OF s1] by simp
  have op1: "\<forall>i \<in> set (subscribers ?ch (channels h1)). \<not> cl_closed (client_at h1 i)"
    using op same_hub_closed [OF s1] ch1 by simp
  from Broadcast_queue [OF hub_ok_same [OF ok s1] op1, of new "[]"] obtain h2 where
    b: "Broadcast ?ch new [] h1 = Some h2" and s2: "same_hub h1 h2"
    and k2: "\<forall>i. queue h2 i = queue h1 i @ (if i \<in> set (subscribers ?ch (channels h1)) - {[]} then queued h1 i new else [])"
    by blast
  have "set (subscribers ?ch (channels h1)) - {[]} = set (subscribers ?ch (channels (hub w)))"
    using op ch1 by auto
  then have k3: "\<forall>i. queue h2 i = queue h1 i @
      (if i \<in> set (subscribers ?ch (channels (hub w))) then queued h1 i new else [])"
    using k2 by simp
  have "handleMessageSend E cid raw w = Some (w4\<lparr>hub := h2\<rparr>)"
    using red a b by (simp add: run_hub_def)
  then show ?thesis using w4(2) s1 s2 k1 k3
    by (intro exI [of _ "w4\<lparr>hub := h2\<rparr>"] exI [of _ h1]) simp
qed

section \<open>What reaches whom\<close>

definition delivers :: "(string \<Rightarrow> frame \<Rightarrow> bool) \<Rightarrow> world \<Rightarrow> world \<Rightarrow> bool" where
  "delivers Q w w' \<longleftrightarrow> (\<forall>i. \<exists>fs. queue (hub w') i = queue (hub w) i @ fs \<and> (\<forall>f \<in> set fs. Q i f))"

lemma delivers_refl [simp]: "hub w' = hub w \<Longrightarrow> delivers Q w w'"
  by (simp add: delivers_def)

lemma delivers_trans: "delivers Q w w' \<Longrightarrow> delivers Q w' w'' \<Longrightarrow> delivers Q w w''"
  unfolding delivers_def by (metis Un_iff append.assoc set_append)

context frame_sink
begin

lemma delivers_deliver:
  assumes "run_hub (deliver f) w = Some w'" and "\<And>i. i \<in> targets (hub w) \<Longrightarrow> Q i f"
  shows "delivers Q w w'"
proof -
  from assms(1) have d: "deliver f (hub w) = Some (hub w')" by (auto simp: run_hub_def)
  have "\<exists>fs. queue (hub w') i = queue (hub w) i @ fs \<and> (\<forall>f \<in> set fs. Q i f)" for i
  proof (cases "i \<in> targets (hub w)")
    case True
    from keeps_prefix [OF d, of i] obtain fs where "queue (hub w') i = queue (hub w) i @ fs" "set fs \<subseteq> {f}" by blast
    with assms(2) [OF True] show ?thesis by blast
  next
    case False
    from others_unchanged [OF d this] show ?thesis by simp
  qed
  then show ?thesis by (simp add: delivers_def)
qed

end

text \<open>A row or frame of a fan-out belongs to one entry of the recipients' map.\<close>

definition addressed :: "(string \<times> string) list \<Rightarrow> Message \<Rightarrow> bool" where
  "addressed l m \<longleftrightarrow> (\<exists>u b64. ms_RecipientID m = Some u \<and> (u, b64) \<in> set l \<and>
     DecodeString StdEncoding b64 = Some (ms_Ciphertext m))"

definition own_share :: "world \<Rightarrow> (string \<times> string) list \<Rightarrow> string \<Rightarrow> frame \<Rightarrow> bool" where
  "own_share w l i f \<longleftrightarrow> (\<exists>nm. f = MessageNew nm \<and> (cl_userID (client w i), nm_Ciphertext nm) \<in> set l)"

lemma fanout_loop_delivers:
  assumes "fanout_loop cid ch l w = Some w'" and "set l \<subseteq> set L"
    and "\<And>i. cl_userID (client w i) = cl_userID (client w0 i)"
  shows "moves (addressed L) w w' \<and> delivers (own_share w0 L) w w'"
  using assms
proof (induction l arbitrary: w)
  case Nil
  then show ?case by simp
next
  case (Cons p rest)
  obtain u b64 where p: "p = (u, b64)" by force
  note step = Cons.prems(1) [unfolded p fanout_loop.simps]
  have sub: "set rest \<subseteq> set L" and mem: "(u, b64) \<in> set L" using Cons.prems(2) p by auto
  consider (skip) "fanout_loop cid ch rest w = Some w'"
    | (insert) ct where "\<not> (u = [] \<or> b64 = [])" "DecodeString StdEncoding b64 = Some ct" "length ct \<le> maxCiphertextBytes"
    using step by (auto split: if_splits option.splits)
  then show ?case
  proof cases
    case skip
    then show ?thesis using Cons.IH sub Cons.prems(3) by blast
  next
    case insert
    let ?ids = "resolveSenderIdentity (client w cid)"
    obtain r w1 where r: "run_chat (InsertMessage ch (fst ?ids) (snd ?ids) (Some u) ct) w = (r, w1)" by force
    have m1: "moves (addressed L) w w1"
    proof (rule run_chat_InsertMessage(3) [OF r])
      fix m
      assume "r = Inr m"
      from run_chat_InsertMessage(2) [OF r this] insert(2) mem show "addressed L m" by (auto simp: addressed_def)
    qed
    have d1: "delivers (own_share w0 L) w w1" using run_chat_InsertMessage(1) [OF r] by simp
    show ?thesis
    proof (cases r)
      case (Inl e)
      with step insert r have "fanout_loop cid ch rest w1 = Some w'" by (simp add: split_def)
      from Cons.IH [OF this sub] Cons.prems(3) moves_user [OF m1]
      have "moves (addressed L) w1 w' \<and> delivers (own_share w0 L) w1 w'" by simp
      then show ?thesis using moves_trans [OF m1] delivers_trans [OF d1] by blast
    next
      case (Inr m)
      with step insert r obtain w2 where
        w2: "run_hub (BroadcastToUserInChannel ch u (MessageNew
               ((messageNewBroadcast m (cl_deviceID (client w cid)))\<lparr>nm_Ciphertext := b64\<rparr>))) w1 = Some w2"
        and rest: "fanout_loop cid ch rest w2 = Some w'"
        by (auto simp: split_def split: Option.bind_splits)
      have m2: "moves (addressed L) w w2" by (rule moves_trans [OF m1 user_sink.moves_deliver [OF w2]])
      have "delivers (own_share w0 L) w1 w2"
        using mem Cons.prems(3) moves_user [OF m1] by (intro user_sink.delivers_deliver [OF w2]) (auto simp: own_share_def)
      then have d2: "delivers (own_share w0 L) w w2" by (rule delivers_trans [OF d1])
      from Cons.IH [OF rest sub] Cons.prems(3) moves_user [OF m2]
      have "moves (addressed L) w2 w' \<and> delivers (own_share w0 L) w2 w'" by simp
      then show ?thesis using moves_trans [OF m2] delivers_trans [OF d2] by blast
    qed
  qed
qed

text \<open>Besides, the sender's own copy, without ciphertext, and the acknowledgement.\<close>

definition self_copy :: "string \<Rightarrow> Message \<Rightarrow> bool" where
  "self_copy u m \<longleftrightarrow> ms_RecipientID m = Some u \<and> ms_Ciphertext m = []"

definition sender_frame :: "world \<Rightarrow> string \<Rightarrow> string \<Rightarrow> frame \<Rightarrow> bool" where
  "sender_frame w cid i f \<longleftrightarrow>
     (i = cid \<and> (\<exists>l m c t. f = MessageSendAck l m c t)) \<or>
     (cl_userID (client w i) = cl_userID (client w cid) \<and> (\<exists>nm. f = MessageNew nm \<and> nm_Ciphertext nm = []))"

lemma delivers_mono: "delivers Q w w' \<Longrightarrow> (\<And>i f. Q i f \<Longrightarrow> Q' i f) \<Longrightarrow> delivers Q' w w'"
  unfolding delivers_def by meson

lemma fanout_delivers:
  assumes "handleMessageSendFanout cid ch l local w = Some w'"
  shows "moves (\<lambda>m. addressed l m \<or> self_copy (cl_userID (client w cid)) m) w w' \<and>
    delivers (\<lambda>i f. own_share w l i f \<or> sender_frame w cid i f) w w'" (is "moves ?P w w' \<and> delivers ?Q w w'")
proof -
  from assms obtain w1 where w1: "fanout_loop cid ch l w = Some w1"
    by (auto simp: handleMessageSendFanout_def split: Option.bind_splits)
  have "moves (addressed l) w w1" and "delivers (own_share w l) w w1"
    using fanout_loop_delivers [OF w1 subset_refl refl] by blast+
  then have m1: "moves ?P w w1" and d1: "delivers ?Q w w1"
    using moves_mono [of "addressed l" w w1 ?P] delivers_mono [of "own_share w l" w w1 ?Q] by blast+
  let ?ids = "resolveSenderIdentity (client w1 cid)" and ?u = "cl_userID (client w1 cid)"
  have u: "?u = cl_userID (client w cid)" using moves_user [OF m1] .
  obtain r w2 where r: "run_chat (InsertMessage ch (fst ?ids) (snd ?ids) (Some ?u) []) w1 = (r, w2)" by force
  have "moves ?P w1 w2"
  proof (rule run_chat_InsertMessage(3) [OF r])
    fix m
    assume "r = Inr m"
    from run_chat_InsertMessage(2) [OF r this] u show "?P m" by (simp add: self_copy_def)
  qed
  then have m2: "moves ?P w w2" by (rule moves_trans [OF m1])
  have d2: "delivers ?Q w w2" by (rule delivers_trans [OF d1]) (simp add: run_chat_InsertMessage(1) [OF r])
  show ?thesis
  proof (cases r)
    case (Inl e)
    with assms w1 r have "w' = w2" by (simp add: handleMessageSendFanout_def split_def)
    with m2 d2 show ?thesis by simp
  next
    case (Inr m)
    with assms w1 r have "Option.bind (send_ack cid local m w2) (run_hub (BroadcastToUserInChannel ch ?u
        (MessageNew (messageNewBroadcast m (cl_deviceID (client w1 cid)))))) = Some w'"
      by (simp add: handleMessageSendFanout_def split_def)
    then obtain w3 where w3: "send_ack cid local m w2 = Some w3"
      and w': "run_hub (BroadcastToUserInChannel ch ?u (MessageNew (messageNewBroadcast m (cl_deviceID (client w1 cid))))) w3 = Some w'"
      by (auto split: Option.bind_splits)
    have "delivers ?Q w2 w3"
      using w3 by (auto simp: send_ack_def sender_frame_def split: if_splits intro!: own_sink.delivers_deliver)
    moreover have m3: "moves ?P w w3" by (rule moves_trans [OF m2 send_ack_moves [OF w3]])
    moreover have "ms_Ciphertext m = []" using run_chat_InsertMessage(2) [OF r Inr] by simp
    then have "nm_Ciphertext (messageNewBroadcast m (cl_deviceID (client w1 cid))) = []"
      by (simp add: messageNewBroadcast_def EncodeToString_def)
    then have "delivers ?Q w3 w'"
      using u moves_user [OF m3] by (intro user_sink.delivers_deliver [OF w']) (auto simp: sender_frame_def)
    ultimately show ?thesis using d2 delivers_trans moves_trans [OF m3 user_sink.moves_deliver [OF w']] by blast
  qed
qed

section \<open>The newest rows\<close>

lemma newest_rows:
  fixes k :: "'a \<Rightarrow> int"
  defines "ms \<equiv> \<lambda>n xs. take n (rev (sort_key k xs))"
  shows "mset (ms n xs) \<subseteq># mset xs" and "sorted_wrt (\<lambda>a b. k a \<ge> k b) (ms n xs)"
    and "length (ms n xs) = min n (length xs)"
    and "\<lbrakk>x \<in># mset xs - mset (ms n xs); y \<in> set (ms n xs)\<rbrakk> \<Longrightarrow> k x \<le> k y"
proof -
  let ?r = "rev (sort_key k xs)"
  have m: "mset ?r = mset xs" by simp
  have split: "mset (take n ?r) + mset (drop n ?r) = mset xs" by (metis append_take_drop_id m mset_append)
  then show "mset (ms n xs) \<subseteq># mset xs" unfolding ms_def by (metis mset_subset_eq_add_left)
  have "sorted_wrt (\<lambda>a b. k a \<le> k b) (sort_key k xs)" using sorted_sort_key [of k xs] by (simp add: sorted_map)
  then have s: "sorted_wrt (\<lambda>a b. k a \<ge> k b) ?r" by (simp add: sorted_wrt_rev)
  then show "sorted_wrt (\<lambda>a b. k a \<ge> k b) (ms n xs)" unfolding ms_def by (rule sorted_wrt_take)
  show "length (ms n xs) = min n (length xs)" unfolding ms_def by (simp add: min.commute)
  show "k x \<le> k y" if "x \<in># mset xs - mset (ms n xs)" "y \<in> set (ms n xs)"
  proof -
    have "mset xs - mset (take n ?r) = mset (drop n ?r)" using split by (metis add_diff_cancel_left')
    with that(1) have "x \<in> set (drop n ?r)" unfolding ms_def by simp
    moreover have "sorted_wrt (\<lambda>a b. k a \<ge> k b) (take n ?r @ drop n ?r)" using s by simp
    ultimately show ?thesis using that(2) unfolding ms_def sorted_wrt_append by blast
  qed
qed

section \<open>Read markers\<close>

lemma marker_update:
  assumes "\<And>r. older r \<longleftrightarrow> rm_ChannelID r = ch \<and> rm_UserID r = u \<and>
      (case rm_ReadUpToTs r of None \<Rightarrow> True | Some t \<Rightarrow> t < ts)"
    and "\<And>r. rm_ChannelID (f r) = rm_ChannelID r \<and> rm_UserID (f r) = rm_UserID r \<and> rm_ReadUpToTs (f r) = Some ts"
    and "\<exists>r \<in> set rs. rm_ChannelID r = ch \<and> rm_UserID r = u"
  shows "\<exists>r t. find (\<lambda>r. rm_ChannelID r = ch \<and> rm_UserID r = u) (sql_update older f rs) = Some r \<and>
    rm_ReadUpToTs r = Some t \<and> t \<ge> ts \<and>
    (\<forall>r0 t0. find (\<lambda>r. rm_ChannelID r = ch \<and> rm_UserID r = u) rs = Some r0 \<longrightarrow> rm_ReadUpToTs r0 = Some t0 \<longrightarrow> t = max t0 ts)"
  using assms(3)
proof (induction rs)
  case (Cons r rs)
  show ?case
  proof (cases "rm_ChannelID r = ch \<and> rm_UserID r = u")
    case True
    then show ?thesis using assms(1,2)
      by (cases "rm_ReadUpToTs r") (auto simp: sql_update_def max_def)
  next
    case False
    then show ?thesis using Cons assms(1) by (auto simp: sql_update_def)
  qed
qed simp

text \<open>The marker is at least the message's time, and is the maximum of it and the old one.\<close>

lemma MarkChannelRead_marker:
  assumes "healthy d" and "find (\<lambda>m. ms_ID m = mid \<and> ms_ChannelID m = ch \<and> visible_to u m) (cd_messages d) = Some m"
    and "u \<in> set (cd_users d)"
  shows "\<exists>d' t. MarkChannelRead ch u mid d = (Inr (), d') \<and> marker_of d' ch u = Some t \<and> t \<ge> ms_Timestamp m \<and>
    (\<forall>t0. marker_of d ch u = Some t0 \<longrightarrow> t = max t0 (ms_Timestamp m))"
proof -
  let ?same = "\<lambda>r. rm_ChannelID r = ch \<and> rm_UserID r = u" and ?ts = "ms_Timestamp m"
  show ?thesis
  proof (cases "\<exists>r \<in> set (cd_markers d). ?same r")
    case True
    let ?older = "\<lambda>r. ?same r \<and> (case rm_ReadUpToTs r of None \<Rightarrow> True | Some t \<Rightarrow> t < ?ts)"
    let ?f = "\<lambda>now r. r\<lparr>rm_ReadUpToMsgID := Some mid, rm_ReadUpToTs := Some ?ts, rm_UpdatedAt := now\<rparr>"
    have e: "sql_exists ?same (cd_markers d)" using True by (simp add: sql_exists_iff)
    let ?rows = "sql_update ?older (?f (cd_clock d (Suc (cd_tick d)))) (cd_markers d)"
    let ?d' = "(later 2 d)\<lparr>cd_markers := ?rows\<rparr>"
    have A: "MarkChannelRead ch u mid d = (Inr (), ?d')"
      using assms e by (simp add: MarkChannelRead_def chat_query_def healthy_def Let_def)
    have "\<exists>r t. find ?same ?rows = Some r \<and> rm_ReadUpToTs r = Some t \<and> t \<ge> ?ts \<and>
      (\<forall>r0 t0. find ?same (cd_markers d) = Some r0 \<longrightarrow> rm_ReadUpToTs r0 = Some t0 \<longrightarrow> t = max t0 ?ts)"
      by (rule marker_update) (use True in simp_all)
    then obtain r t where r: "find ?same ?rows = Some r" "rm_ReadUpToTs r = Some t" "t \<ge> ?ts"
      and m: "\<forall>r0 t0. find ?same (cd_markers d) = Some r0 \<longrightarrow> rm_ReadUpToTs r0 = Some t0 \<longrightarrow> t = max t0 ?ts"
      by (elim exE conjE)
    have B: "marker_of ?d' ch u = Some t" using r(1,2) by (simp add: marker_of_def)
    have C: "t = max t0 ?ts" if "marker_of d ch u = Some t0" for t0
    proof (cases "find ?same (cd_markers d)")
      case (Some r0)
      with that have "rm_ReadUpToTs r0 = Some t0" by (simp add: marker_of_def)
      with m Some show ?thesis by blast
    qed (use that in \<open>simp add: marker_of_def\<close>)
    from A B C r(3) show ?thesis by blast
  next
    case False
    then have e: "\<not> sql_exists ?same (cd_markers d)" by (simp add: sql_exists_iff)
    have n: "find ?same (cd_markers d) = None" using False by (simp add: find_None_all)
    show ?thesis using assms e n
      by (simp add: MarkChannelRead_def chat_query_def healthy_def Let_def marker_of_def find_append)
  qed
qed

end
