(* ===== verification/Ws_Props.thy ===== *)
theory Ws_Props
  imports Ws_Facts
begin

text \<open>
  Properties of the WebSocket protocol: who can store messages, what a send delivers, what
  history shows, whom a fan-out reaches, and which frames the dispatcher drops.
\<close>

section \<open>A small world\<close>

text \<open>
  The hub of \<open>toy_hub\<close>: user \<open>u\<close> on device \<open>d\<close>, subscribed to channel \<open>k\<close> of guild \<open>g\<close>, and
  a second connection \<open>b\<close> of user \<open>v\<close>, subscribed too.
\<close>

definition toy_policy :: GuildPolicy where
  "toy_policy = \<lparr>gp_ServerCreationPolicy = ''open'', gp_MaxServersPerUser = None,
     gp_MaxMembersPerServer = None, gp_MaxAttachmentBytes = 100, gp_MaxGuildAttachmentStorageBytes = None,
     gp_MessageRetentionDays = 30, gp_SystemMessageRetentionDays = None\<rparr>"

definition toy_db :: chat_db where
  "toy_db = \<lparr>cd_users = [''u'', ''v''], cd_federated = [],
     cd_servers = [new_server ''g'' 0 None],
     cd_channels = [\<lparr>ch_ID = ''k'', ch_ServerID = Some ''g'', ch_EncryptedMetadata = None, ch_Type = ''text'',
                     ch_ParentID = None, ch_Position = 0\<rparr>],
     cd_members = [\<lparr>sm_ServerID = ''g'', sm_UserID = Some ''u'', sm_FederatedIdentityID = None,
                    sm_PermissionLevel = 0, sm_JoinedAt = 0\<rparr>],
     cd_mutes = [], cd_messages = [], cd_markers = [], cd_credentials = [], cd_key_packages = [],
     cd_group_info = [], cd_commits = [], cd_welcomes = [], cd_bans = [], cd_audit = [],
     cd_system = [], cd_templates = [], cd_attachments = [], cd_policy = toy_policy, cd_tick = 0, cd_fault = (\<lambda>_. False),
     cd_clock = int, cd_uuid = (\<lambda>n. ''m'' @ replicate n (CHR ''x''))\<rparr>"

definition toy_world :: world where
  "toy_world = \<lparr>hub = toy_hub, cdb = toy_db\<rparr>"

definition toy_env :: ws_env where
  "toy_env = \<lparr>we_store = True, Parse_RFC3339Nano = (\<lambda>_. None), Parse_RFC3339 = (\<lambda>_. None)\<rparr>"

definition toy_send :: json where
  "toy_send = JObj [(''type'', JStr ''message.send''), (''channel_id'', JStr ''k''),
     (''ciphertext'', JStr ''AQ==''), (''local_id'', JStr ''l'')]"

lemma toy_healthy: "healthy toy_db"
  by (simp add: healthy_def toy_db_def)

lemma toy_subscribers: "subscribers ''k'' (channels toy_hub) = [''a'']"
  by (simp add: subscribers_def toy_hub_def)

lemma toy_client: "client_at toy_hub ''a'' = (NewClient ''u'' ''d'' [])\<lparr>cl_send := [PresenceUpdate [''u'']]\<rparr>"
  by (simp add: client_at_def toy_hub_def)

lemma toy_ok: "hub_ok toy_hub"
  using hub_reachable_ok [OF toy_hub_reachable] by simp

lemma toy_open: "open_clients {''a''} toy_hub"
  by (simp add: open_clients_def toy_client NewClient_def) (simp add: toy_hub_def)

lemma decode_toy_send: "decode_send toy_send =
    Some \<lparr>sp_ChannelID = ''k'', sp_Ciphertext = ''AQ=='', sp_CiphertextByRecipient = [], sp_LocalID = ''l''\<rparr>"
  by code_simp

lemma decode_AQ: "DecodeString StdEncoding ''AQ=='' = Some [1]"
  by code_simp

section \<open>Storing messages\<close>

text \<open>
  C12. Only members store messages: whatever frame a connection sends, the messages table
  only grows, and every new row is in a channel whose guild the connection's user belongs
  to, carries that user (or federated identity) as its sender, and is at most 8192 bytes
  long. While the database answers, the channel is not a system channel and the user has no
  mute in the guild that is active when it is checked.
\<close>

theorem message_send_authorized:
  assumes "handleMessage E cid frame w = Some w'"
  shows "\<exists>ms. cd_messages (cdb w') = cd_messages (cdb w) @ ms \<and>
    (\<forall>m \<in> set ms. channel_member (cdb w) (ms_ChannelID m) (cl_userID (client w cid)) \<and>
       (ms_SenderID m, ms_FederatedSenderID m) = resolveSenderIdentity (client w cid) \<and>
       length (ms_Ciphertext m) \<le> 8192 \<and>
       (healthy (cdb w) \<longrightarrow>
          (\<forall>c. channel_of (cdb w) (ms_ChannelID m) = Some c \<longrightarrow> ch_Type c \<noteq> ''system'' \<and>
             (\<forall>s mu. ch_ServerID c = Some s \<longrightarrow> s \<noteq> [] \<longrightarrow> mu \<in> set (cd_mutes (cdb w)) \<longrightarrow>
                \<not> mute_active (cd_clock (cdb w) (cd_tick (cdb w) + 1)) s (cl_userID (client w cid)) mu))))"
  using handleMessage_moves [OF assms]
  unfolding moves_def by_member_def not_system_def not_muted_def maxCiphertextBytes_def
  by fastforce

lemma toy_good_send: "good_send toy_world ''a'' (the (decode_send toy_send)) [1]"
proof -
  have "channel_of toy_db ''k'' = Some \<lparr>ch_ID = ''k'', ch_ServerID = Some ''g'', ch_EncryptedMetadata = None,
      ch_Type = ''text'', ch_ParentID = None, ch_Position = 0\<rparr>"
    by (simp add: channel_of_def toy_db_def)
  moreover have "channel_member toy_db ''k'' ''u''" by (simp add: channel_member_def toy_db_def)
  moreover have "cd_users toy_db = [''u'', ''v'']" "cd_messages toy_db = []" by (simp_all add: toy_db_def)
  ultimately show ?thesis
    by (simp add: good_send_def decode_toy_send decode_AQ toy_world_def toy_client NewClient_def maxCiphertextBytes_def)
qed

lemma toy_sent:
  "map_option (\<lambda>w. length (cd_messages (cdb w))) (handleMessage toy_env ''a'' (Some toy_send) toy_world) = Some 1"
  by code_simp

lemma message_send_authorized_witness:
  "\<exists>w' m. handleMessage toy_env ''a'' (Some toy_send) toy_world = Some w' \<and> cd_messages (cdb w') = [m] \<and>
     channel_member toy_db (ms_ChannelID m) ''u'' \<and> ms_SenderID m = Some ''u''"
proof -
  obtain w' where w': "handleMessage toy_env ''a'' (Some toy_send) toy_world = Some w'"
    and l: "length (cd_messages (cdb w')) = 1"
    using toy_sent by (cases "handleMessage toy_env ''a'' (Some toy_send) toy_world") auto
  then obtain m where m: "cd_messages (cdb w') = [m]" by (cases "cd_messages (cdb w')") auto
  moreover have "cd_messages (cdb toy_world) = []" by (simp add: toy_world_def toy_db_def)
  ultimately have "channel_member (cdb toy_world) (ms_ChannelID m) (cl_userID (client toy_world ''a''))"
    "(ms_SenderID m, ms_FederatedSenderID m) = resolveSenderIdentity (client toy_world ''a'')"
    using message_send_authorized [OF w'] by auto
  then show ?thesis
    using w' m by (auto simp: toy_world_def toy_client NewClient_def resolveSenderIdentity_def)
qed

text \<open>
  C13. A message is delivered: when a member sends a well-formed \<open>message.send\<close> and the
  subscribers are connected, exactly one row is stored, with the decoded ciphertext and the
  sender's user id; the sender gets the acknowledgement with the id of that row before the
  echo, every subscriber gets one \<open>message.new\<close> frame with it unless its queue is full, no
  other connection gets anything, and the frame decodes to the ciphertext.
\<close>

theorem message_send_delivers:
  assumes "hub_reachable (hub w)" and "healthy (cdb w)" and "we_store E"
    and "decode_send raw = Some p" and "good_send w cid p ct"
    and "\<forall>i \<in> set (subscribers (sp_ChannelID p) (channels (hub w))). i \<noteq> [] \<and> \<not> cl_closed (client w i)"
    and "open_clients {cid} (hub w)"
  defines "subs \<equiv> set (subscribers (sp_ChannelID p) (channels (hub w)))"
  shows "\<exists>w' m frame. handleMessageSend E cid raw w = Some w' \<and> cd_messages (cdb w') = cd_messages (cdb w) @ [m] \<and>
    ms_ChannelID m = sp_ChannelID p \<and> ms_SenderID m = Some (cl_userID (client w cid)) \<and>
    ms_RecipientID m = None \<and> ms_Ciphertext m = ct \<and>
    nm_ID frame = ms_ID m \<and> DecodeString StdEncoding (nm_Ciphertext frame) = Some ct \<and>
    (\<forall>i. i \<noteq> cid \<longrightarrow> queue (hub w') i = queue (hub w) i @
       (if i \<in> subs \<and> length (queue (hub w) i) < 256 then [MessageNew frame] else [])) \<and>
    (length (queue (hub w) cid) < 255 \<longrightarrow> queue (hub w') cid = queue (hub w) cid @
       (if sp_LocalID p = [] then [] else [MessageSendAck (sp_LocalID p) (ms_ID m) (sp_ChannelID p) (ms_Timestamp m)]) @
       (if cid \<in> subs then [MessageNew frame] else []))"
proof -
  let ?m = "new_row (later 2 (cdb w)) (sp_ChannelID p) (cl_userID (client w cid)) None ct"
  let ?frame = "messageNewBroadcast ?m (cl_deviceID (client w cid))"
  let ?ack = "MessageSendAck (sp_LocalID p) (ms_ID ?m) (sp_ChannelID p) (ms_Timestamp ?m)"
  have ok: "hub_ok (hub w)" using hub_reachable_ok [OF assms(1)] by simp
  obtain w' h1 where w': "handleMessageSend E cid raw w = Some w'" "cd_messages (cdb w') = cd_messages (cdb w) @ [?m]"
    and k1: "\<forall>i. queue h1 i = queue (hub w) i @ (if i = cid \<and> sp_LocalID p \<noteq> [] then queued (hub w) i ?ack else [])"
    and k2: "\<forall>i. queue (hub w') i = queue h1 i @ (if i \<in> subs then queued h1 i (MessageNew ?frame) else [])"
    using handleMessageSend_effect [OF ok assms(2-7)] unfolding subs_def by blast
  have "\<forall>i. i \<noteq> cid \<longrightarrow> queue (hub w') i = queue (hub w) i @
       (if i \<in> subs \<and> length (queue (hub w) i) < 256 then [MessageNew ?frame] else [])"
    using k1 k2 by (simp add: queued_def send_capacity_def)
  moreover have "length (queue (hub w) cid) < 255 \<longrightarrow> queue (hub w') cid = queue (hub w) cid @
       (if sp_LocalID p = [] then [] else [?ack]) @ (if cid \<in> subs then [MessageNew ?frame] else [])"
    using spec [OF k1, of cid] spec [OF k2, of cid] by (simp add: queued_def send_capacity_def)
  ultimately show ?thesis using w'
    by (intro exI [of _ w'] exI [of _ ?m] exI [of _ ?frame])
       (simp add: new_row_def messageNewBroadcast_def base64_roundtrip)
qed

lemma message_send_delivers_witness:
  "\<exists>w' (m :: Message) frame. handleMessageSend toy_env ''a'' toy_send toy_world = Some w' \<and> ms_Ciphertext m = [1] \<and>
     queue (hub w') ''a'' = [PresenceUpdate [''u''], MessageSendAck ''l'' (ms_ID m) ''k'' (ms_Timestamp m), MessageNew frame]"
proof -
  let ?p = "the (decode_send toy_send)"
  have a: "hub_reachable (hub toy_world)" "healthy (cdb toy_world)" "we_store toy_env"
    "decode_send toy_send = Some ?p" "open_clients {''a''} (hub toy_world)"
    using toy_hub_reachable toy_healthy toy_open by (simp_all add: toy_world_def toy_env_def decode_toy_send)
  have subs: "subscribers (sp_ChannelID ?p) (channels (hub toy_world)) = [''a'']" "sp_LocalID ?p = ''l''"
    "sp_ChannelID ?p = ''k''"
    by (simp_all add: decode_toy_send toy_world_def toy_subscribers)
  have "\<forall>i \<in> set (subscribers (sp_ChannelID ?p) (channels (hub toy_world))). i \<noteq> [] \<and> \<not> cl_closed (client toy_world i)"
    by (simp add: subs toy_world_def toy_client toy_subscribers NewClient_def)
  note X = message_send_delivers [OF a(1-4) toy_good_send this a(5)]
  from X obtain w' and m :: Message and frame where w': "handleMessageSend toy_env ''a'' toy_send toy_world = Some w'"
    and m: "ms_Ciphertext m = [1]"
    and q: "length (queue (hub toy_world) ''a'') < 255 \<longrightarrow> queue (hub w') ''a'' = queue (hub toy_world) ''a'' @
       (if sp_LocalID ?p = [] then [] else [MessageSendAck (sp_LocalID ?p) (ms_ID m) (sp_ChannelID ?p) (ms_Timestamp m)]) @
       (if ''a'' \<in> set (subscribers (sp_ChannelID ?p) (channels (hub toy_world))) then [MessageNew frame] else [])"
    by (elim exE conjE) (rule that, assumption+)
  have "queue (hub toy_world) ''a'' = [PresenceUpdate [''u'']]"
    by (simp add: queue_def toy_world_def toy_hub_def)
  with q have "queue (hub w') ''a'' =
      [PresenceUpdate [''u''], MessageSendAck ''l'' (ms_ID m) ''k'' (ms_Timestamp m), MessageNew frame]"
    by (simp add: subs toy_world_def toy_subscribers)
  with w' m show ?thesis by blast
qed

section \<open>History\<close>

text \<open>
  C14. History shows a member the newest visible rows, and a non-member nothing: the
  answer lists rows of the channel that are addressed to everybody or to the caller and lie
  before the cursor, newest first, at most 50, as many as asked for or there are, and no row
  left out is newer than one that is shown.
\<close>

theorem history_exact:
  assumes "healthy (cdb w)" and "we_store E" and "decode_history raw = Some p" and "hp_ChannelID p \<noteq> []"
    and "parse_before E (hp_Before p) = Some before"
    and "open_clients {cid} (hub w)" and "length (queue (hub w) cid) < 256"
  defines "u \<equiv> cl_userID (client w cid)"
  defines "vis \<equiv> filter (\<lambda>m. ms_ChannelID m = hp_ChannelID p \<and> (ms_RecipientID m = None \<or> ms_RecipientID m = Some u) \<and>
      (before = zero_time \<or> ms_Timestamp m < before)) (cd_messages (cdb w))"
  shows "\<exists>w' answer. handleMessageHistory E cid raw w = Some w' \<and> cd_messages (cdb w') = cd_messages (cdb w) \<and>
    queue (hub w') cid = queue (hub w) cid @ [answer] \<and>
    (if channel_member (cdb w) (hp_ChannelID p) u
     then \<exists>ms. answer = MessageHistoryResponse (map messageToMap ms) \<and> mset ms \<subseteq># mset vis \<and>
            sorted_wrt (\<lambda>a b. ms_Timestamp a \<ge> ms_Timestamp b) ms \<and>
            length ms = min (if 0 < hp_Limit p \<and> hp_Limit p \<le> 50 then nat (hp_Limit p) else 50) (length vis) \<and>
            (\<forall>x \<in># mset vis - mset ms. \<forall>y \<in> set ms. ms_Timestamp x \<le> ms_Timestamp y)
     else answer = ErrorFrame ''forbidden'' ''not a channel member'')"
proof -
  let ?ch = "hp_ChannelID p" and ?w1 = "w\<lparr>cdb := later 1 (cdb w)\<rparr>" and ?w2 = "w\<lparr>cdb := later 2 (cdb w)\<rparr>"
  let ?n = "nat (history_limit (hp_Limit p))"
  define ms where "ms = take ?n (rev (sort_key ms_Timestamp vis))"
  have lim: "history_limit (hp_Limit p) > 0" "?n = (if 0 < hp_Limit p \<and> hp_Limit p \<le> 50 then nat (hp_Limit p) else 50)"
    by (auto simp: history_limit_def messageHistoryLimitMax_def Let_def)
  have q1: "run_chat (IsChannelMember ?ch u) w = (Inr (channel_member (cdb w) ?ch u), ?w1)"
    using assms(1) by (simp add: IsChannelMember_def run_chat_read channel_member_def)
  have "healthy (cdb ?w1)" using assms(1) by (simp add: healthy_def)
  then have q2: "run_chat (GetMessages ?ch u before (history_limit (hp_Limit p))) ?w1 = (Inr ms, ?w2)"
    using lim(1) by (simp add: GetMessages_def run_chat_read ms_def vis_def visible_to_def)
  define answer where "answer = (if channel_member (cdb w) ?ch u then MessageHistoryResponse (map messageToMap ms)
      else ErrorFrame ''forbidden'' ''not a channel member'')"
  define w3 where "w3 = (if channel_member (cdb w) ?ch u then ?w2 else ?w1)"
  have w3: "hub w3 = hub w" "cd_messages (cdb w3) = cd_messages (cdb w)" by (simp_all add: w3_def)
  have red: "handleMessageHistory E cid raw w = run_hub (try_send answer cid) w3"
    using assms(2-5) q1 q2
    by (simp add: handleMessageHistory_def require_member_def sendError_def u_def answer_def w3_def)
  from try_send_queue [OF assms(6), of answer] w3(1) obtain h where
    t: "try_send answer cid (hub w3) = Some h" and k: "\<forall>i. queue h i = queue (hub w) i @ (if i = cid then queued (hub w) i answer else [])"
    by auto
  have "queue h cid = queue (hub w) cid @ [answer]" using k assms(7) by (simp add: queued_def send_capacity_def)
  moreover have "handleMessageHistory E cid raw w = Some (w3\<lparr>hub := h\<rparr>)" using red t by (simp add: run_hub_def)
  moreover note newest_rows [where k = ms_Timestamp and n = ?n and xs = vis, folded ms_def]
  ultimately show ?thesis using w3(2) lim(2)
    by (intro exI [of _ "w3\<lparr>hub := h\<rparr>"] exI [of _ answer]) (auto simp: answer_def)
qed

definition toy_history :: json where
  "toy_history = JObj [(''channel_id'', JStr ''k''), (''limit'', JInt 1)]"

definition old_row :: Message where
  "old_row = \<lparr>ms_ID = ''1'', ms_ChannelID = ''k'', ms_SenderID = Some ''v'', ms_FederatedSenderID = None,
     ms_RecipientID = None, ms_Ciphertext = [1], ms_Timestamp = 10\<rparr>"

definition recent_row :: Message where
  "recent_row = old_row\<lparr>ms_ID := ''2'', ms_Timestamp := 20\<rparr>"

definition history_world :: world where
  "history_world = toy_world\<lparr>cdb := toy_db\<lparr>cd_messages := [recent_row, old_row]\<rparr>\<rparr>"

lemma history_exact_witness:
  "\<exists>w'. handleMessageHistory toy_env ''a'' toy_history history_world = Some w' \<and>
     queue (hub w') ''a'' = queue toy_hub ''a'' @ [MessageHistoryResponse [messageToMap recent_row]]"
proof -
  let ?p = "\<lparr>hp_ChannelID = ''k'', hp_Before = [], hp_Limit = 1\<rparr>"
  have p: "decode_history toy_history = Some ?p" by code_simp
  have b: "parse_before toy_env (hp_Before ?p) = Some zero_time" by (simp add: parse_before_def)
  have a: "healthy (cdb history_world)" "we_store toy_env" "open_clients {''a''} (hub history_world)"
    "length (queue (hub history_world) ''a'') < 256" and c: "hp_ChannelID ?p \<noteq> []"
    using toy_healthy toy_open by (simp_all add: history_world_def healthy_def toy_world_def toy_env_def queue_def toy_hub_def)
  have d: "hub history_world = toy_hub" "cd_messages (cdb history_world) = [recent_row, old_row]"
    by (simp_all add: history_world_def toy_world_def)
  have e: "cl_userID (client_at toy_hub ''a'') = ''u''" by (simp add: toy_client NewClient_def)
  have m: "channel_member (cdb history_world) ''k'' ''u''"
    by (simp add: history_world_def toy_db_def channel_member_def)
  from history_exact [OF a(1,2) p c b a(3,4)] obtain w' ms where
    w': "handleMessageHistory toy_env ''a'' toy_history history_world = Some w'"
    and q: "queue (hub w') ''a'' = queue toy_hub ''a'' @ [MessageHistoryResponse (map messageToMap ms)]"
    and sub: "mset ms \<subseteq># {#recent_row, old_row#}" and len: "length ms = 1"
    and new: "\<forall>x \<in># {#recent_row, old_row#} - mset ms. \<forall>y \<in> set ms. ms_Timestamp x \<le> ms_Timestamp y"
    using m unfolding d e by (auto simp: old_row_def recent_row_def)
  from len obtain y where y: "ms = [y]" by (cases ms) auto
  with sub have "y = recent_row \<or> y = old_row" by auto
  then have "y = recent_row"
  proof
    assume "y = old_row"
    then have "recent_row \<in># {#recent_row, old_row#} - mset ms" using y by simp
    with new y \<open>y = old_row\<close> show ?thesis by (auto simp: old_row_def recent_row_def)
  qed
  with w' q y show ?thesis by simp
qed

section \<open>Fan-out\<close>

text \<open>
  C15. A fan-out is confidential: a ciphertext handed in for one recipient is stored as a
  row that only this recipient can see, and reaches only connections of this recipient;
  the only other frames are the sender's acknowledgement and the empty copy for the
  sender's own connections.
\<close>

theorem fanout_confidential:
  assumes "handleMessageSendFanout cid ch recipients local w = Some w'"
  shows "(\<forall>i. \<exists>fs. queue (hub w') i = queue (hub w) i @ fs \<and>
      (\<forall>f \<in> set fs. (\<exists>nm. f = MessageNew nm \<and>
           ((cl_userID (client w i), nm_Ciphertext nm) \<in> set recipients \<or>
            cl_userID (client w i) = cl_userID (client w cid) \<and> nm_Ciphertext nm = [])) \<or>
         (i = cid \<and> (\<exists>l m c t. f = MessageSendAck l m c t)))) \<and>
    (\<exists>ms. cd_messages (cdb w') = cd_messages (cdb w) @ ms \<and>
      (\<forall>m \<in> set ms. \<exists>u. (\<forall>v. visible_to v m \<longleftrightarrow> v = u) \<and>
         ((\<exists>b64. (u, b64) \<in> set recipients \<and> DecodeString StdEncoding b64 = Some (ms_Ciphertext m)) \<or>
          u = cl_userID (client w cid) \<and> ms_Ciphertext m = [])))"
proof -
  note f = fanout_delivers [OF assms]
  have "\<exists>u. (\<forall>v. visible_to v m \<longleftrightarrow> v = u) \<and>
         ((\<exists>b64. (u, b64) \<in> set recipients \<and> DecodeString StdEncoding b64 = Some (ms_Ciphertext m)) \<or>
          u = cl_userID (client w cid) \<and> ms_Ciphertext m = [])"
    if "addressed recipients m \<or> self_copy (cl_userID (client w cid)) m" for m
    using that by (auto simp: addressed_def self_copy_def visible_to_def)
  with f have rows: "\<exists>ms. cd_messages (cdb w') = cd_messages (cdb w) @ ms \<and>
      (\<forall>m \<in> set ms. \<exists>u. (\<forall>v. visible_to v m \<longleftrightarrow> v = u) \<and>
         ((\<exists>b64. (u, b64) \<in> set recipients \<and> DecodeString StdEncoding b64 = Some (ms_Ciphertext m)) \<or>
          u = cl_userID (client w cid) \<and> ms_Ciphertext m = []))"
    unfolding moves_def by blast
  have "delivers (\<lambda>i f. (\<exists>nm. f = MessageNew nm \<and>
           ((cl_userID (client w i), nm_Ciphertext nm) \<in> set recipients \<or>
            cl_userID (client w i) = cl_userID (client w cid) \<and> nm_Ciphertext nm = [])) \<or>
         (i = cid \<and> (\<exists>l m c t. f = MessageSendAck l m c t))) w w'"
    by (rule delivers_mono [OF conjunct2 [OF f]]) (auto simp: own_share_def sender_frame_def)
  with rows show ?thesis by (simp add: delivers_def)
qed

lemma toy_fanout:
  "map_option (\<lambda>w. length (cd_messages (cdb w)))
     (handleMessageSendFanout ''a'' ''k'' [(''v'', ''AQ=='')] ''l'' toy_world) = Some 2"
  by code_simp

lemma fanout_confidential_witness:
  "\<exists>w' ms. handleMessageSendFanout ''a'' ''k'' [(''v'', ''AQ=='')] ''l'' toy_world = Some w' \<and>
     cd_messages (cdb w') = ms \<and> length ms = 2 \<and>
     (\<forall>m \<in> set ms. visible_to ''v'' m \<longrightarrow> ms_Ciphertext m = [1])"
proof -
  obtain w' where w': "handleMessageSendFanout ''a'' ''k'' [(''v'', ''AQ=='')] ''l'' toy_world = Some w'"
    and l: "length (cd_messages (cdb w')) = 2"
    using toy_fanout by (cases "handleMessageSendFanout ''a'' ''k'' [(''v'', ''AQ=='')] ''l'' toy_world") auto
  have "cd_messages (cdb toy_world) = []" "cl_userID (client toy_world ''a'') = ''u''"
    by (simp_all add: toy_world_def toy_db_def toy_client NewClient_def)
  then have "\<forall>m \<in> set (cd_messages (cdb w')). \<exists>u. (\<forall>v. visible_to v m \<longleftrightarrow> v = u) \<and>
         ((\<exists>b64. (u, b64) = (''v'', ''AQ=='') \<and> DecodeString StdEncoding b64 = Some (ms_Ciphertext m)) \<or>
          u = ''u'' \<and> ms_Ciphertext m = [])"
    using conjunct2 [OF fanout_confidential [OF w']] by simp
  then have "\<forall>m \<in> set (cd_messages (cdb w')). visible_to ''v'' m \<longrightarrow> ms_Ciphertext m = [1]"
    using decode_AQ by fastforce
  with w' l show ?thesis by blast
qed

section \<open>What the dispatcher drops\<close>

text \<open>
  Read markers never move: the handler of \<open>message.mark_read\<close> does advance the marker of
  a member to the message, or leaves it where it is further on, but the dispatcher of the
  read loop drops the frame, as it drops \<open>mls.commit\<close>, \<open>mls.leave_proposal\<close> and
  \<open>mls.add_request\<close>. No frame whatever changes a read marker, a stored group or the commit
  queue over the WebSocket.
\<close>

theorem read_marker_unreachable:
  assumes "healthy (cdb w)" and "we_store E" and "decode_mark_read raw = Some (ch, mid)" and "ch \<noteq> []" and "mid \<noteq> []"
    and "channel_member (cdb w) ch (cl_userID (client w cid))" and "cl_userID (client w cid) \<in> set (cd_users (cdb w))"
    and "find (\<lambda>m. ms_ID m = mid \<and> ms_ChannelID m = ch \<and> visible_to (cl_userID (client w cid)) m) (cd_messages (cdb w)) = Some m"
  shows "(\<exists>w' t. Handle E cid ''message.mark_read'' raw w = Some w' \<and> t \<ge> ms_Timestamp m \<and>
      marker_of (cdb w') ch (cl_userID (client w cid)) = Some t \<and>
      (\<forall>t0. marker_of (cdb w) ch (cl_userID (client w cid)) = Some t0 \<longrightarrow> t = max t0 (ms_Timestamp m))) \<and>
    (\<forall>ev. decode_envelope raw = Some ev \<longrightarrow>
      ev_Type ev \<in> {''message.mark_read'', ''mls.commit'', ''mls.leave_proposal'', ''mls.add_request''} \<longrightarrow>
      handleMessage E cid (Some raw) w = Some w) \<and>
    (\<forall>frame w'. handleMessage E cid frame w = Some w' \<longrightarrow> cd_markers (cdb w') = cd_markers (cdb w) \<and>
      cd_group_info (cdb w') = cd_group_info (cdb w) \<and> cd_commits (cdb w') = cd_commits (cdb w))"
proof (intro conjI)
  let ?u = "cl_userID (client w cid)" and ?w1 = "w\<lparr>cdb := later 1 (cdb w)\<rparr>"
  have q1: "run_chat (IsChannelMember ch ?u) w = (Inr True, ?w1)"
    using assms(1,6) by (simp add: IsChannelMember_def run_chat_read channel_member_def)
  have "healthy (cdb ?w1)" using assms(1) by (simp add: healthy_def)
  from MarkChannelRead_marker [OF this, of mid ch ?u m] assms(7,8)
  obtain d t where "MarkChannelRead ch ?u mid (cdb ?w1) = (Inr (), d)" "marker_of d ch ?u = Some t" "t \<ge> ms_Timestamp m"
    "\<forall>t0. marker_of (cdb ?w1) ch ?u = Some t0 \<longrightarrow> t = max t0 (ms_Timestamp m)" by auto
  then show "\<exists>w' t. Handle E cid ''message.mark_read'' raw w = Some w' \<and> t \<ge> ms_Timestamp m \<and>
      marker_of (cdb w') ch ?u = Some t \<and> (\<forall>t0. marker_of (cdb w) ch ?u = Some t0 \<longrightarrow> t = max t0 (ms_Timestamp m))"
    using assms(2-5) q1
    by (intro exI [of _ "w\<lparr>cdb := d\<rparr>"] exI [of _ t])
       (simp add: Handle_def handleMarkRead_def require_member_def run_chat_def marker_of_def)
  show "\<forall>ev. decode_envelope raw = Some ev \<longrightarrow>
      ev_Type ev \<in> {''message.mark_read'', ''mls.commit'', ''mls.leave_proposal'', ''mls.add_request''} \<longrightarrow>
      handleMessage E cid (Some raw) w = Some w"
    by (auto simp: handleMessage_def Let_def)
  show "\<forall>frame w'. handleMessage E cid frame w = Some w' \<longrightarrow> cd_markers (cdb w') = cd_markers (cdb w) \<and>
      cd_group_info (cdb w') = cd_group_info (cdb w) \<and> cd_commits (cdb w') = cd_commits (cdb w)"
    using handleMessage_moves by (auto simp: moves_def same_guilds_def)
qed

definition toy_mark :: json where
  "toy_mark = JObj [(''type'', JStr ''message.mark_read''), (''channel_id'', JStr ''k''), (''message_id'', JStr ''2'')]"

lemma read_marker_unreachable_witness:
  "(\<exists>w' t. Handle toy_env ''a'' ''message.mark_read'' toy_mark history_world = Some w' \<and>
     marker_of (cdb w') ''k'' ''u'' = Some t \<and> t \<ge> 20) \<and>
   handleMessage toy_env ''a'' (Some toy_mark) history_world = Some history_world"
proof -
  have u: "cl_userID (client history_world ''a'') = ''u''"
    by (simp add: history_world_def toy_world_def toy_client NewClient_def)
  have h: "healthy (cdb history_world)" "we_store toy_env"
    using toy_healthy by (simp_all add: history_world_def healthy_def toy_env_def)
  have dm: "decode_mark_read toy_mark = Some (''k'', ''2'')" by code_simp
  have de: "decode_envelope toy_mark = Some \<lparr>ev_Type = ''message.mark_read'', ev_ChannelID = ''k'', ev_ServerID = []\<rparr>"
    by code_simp
  have m: "channel_member (cdb history_world) ''k'' ''u''" "''u'' \<in> set (cd_users (cdb history_world))"
    "find (\<lambda>m. ms_ID m = ''2'' \<and> ms_ChannelID m = ''k'' \<and> visible_to ''u'' m) (cd_messages (cdb history_world)) = Some recent_row"
    by (simp_all add: history_world_def toy_db_def channel_member_def recent_row_def old_row_def visible_to_def)
  have "ms_Timestamp recent_row = 20" by (simp add: recent_row_def)
  then show ?thesis
    using read_marker_unreachable [OF h dm, of "''a''", unfolded u, OF _ _ m] de by fastforce
qed

end
