(* ===== verification/Mls.thy ===== *)
theory Mls
  imports Ws Auth
begin

text \<open>
  The MLS endpoints (\<open>internal/api/mls.go\<close>, \<open>internal/api/mls_ciphersuite.go\<close>): credentials,
  key packages, group information, the commit queue and pending welcomes. The user and
  device of the session, the URL parameters and the decoded body (\<open>None\<close> when it does not
  decode) are arguments; \<open>uuid_ok\<close> is whether \<open>uuid.Parse\<close> accepts a string. A broadcast that
  panics is \<open>None\<close>. A goroutine runs where it is started.
\<close>

section \<open>Requests and answers\<close>

datatype mls_body =
    NoContent
  | KeyPackageBody string
  | CountBody nat
  | GroupInfoBody string int
  | CommitsBody "(int \<times> string \<times> string \<times> time) list"
  | WelcomesBody "(string \<times> string \<times> string \<times> string \<times> int \<times> time) list"

type_synonym mls_answer = "mls_body response"

record upload_credential =
  uc_DeviceID :: string
  uc_CredentialBytes :: bytes
  uc_SigningPublicKey :: bytes
  uc_Ciphersuite :: int

record upload_key_packages =
  uk_DeviceID :: string
  uk_KeyPackages :: "bytes list"
  uk_ExpiresAt :: time
  uk_LastResort :: bool
  uk_Ciphersuite :: int

record put_group_info =
  pg_GroupInfo :: string
  pg_Epoch :: int
  pg_Ciphersuite :: int

record post_commit =
  pc_CommitBytes :: string
  pc_GroupInfo :: string
  pc_Epoch :: int
  pc_Ciphersuite :: int

text \<open>The whole server state: accounts and transparency log, hub and chat database.\<close>

record app =
  accounts :: auth_state
  site :: world

definition run_site :: "'a chat_op \<Rightarrow> app \<Rightarrow> (db_error + 'a) \<times> app" where
  "run_site q s = (case run_chat q (site s) of (r, w) \<Rightarrow> (r, s\<lparr>site := w\<rparr>))"

definition maxKeyPackagesPerUpload :: nat where
  "maxKeyPackagesPerUpload = 200"

definition KeyPackageLowThreshold :: nat where
  "KeyPackageLowThreshold = 10"

definition commitsDefaultLimit :: int where
  "commitsDefaultLimit = 100"

definition commitsMaxLimit :: int where
  "commitsMaxLimit = 1000"

text \<open>\<open>None\<close> when the request may go on.\<close>

definition validateMLSCiphersuiteHTTP :: "int \<Rightarrow> 'a response option" where
  "validateMLSCiphersuiteHTTP declared =
     (if declared = 0 then Some (Fail 400 ''ciphersuite is required; current server suite is 77'')
      else if declared \<noteq> CurrentMLSCiphersuite then Some (Fail 400 ''mls_ciphersuite_mismatch'')
      else None)"

definition commits_limit :: "string \<Rightarrow> int" where
  "commits_limit l =
     (if l = [] then commitsDefaultLimit
      else let n = (case Sscanf_d l of None \<Rightarrow> commitsDefaultLimit
                    | Some n \<Rightarrow> if n \<le> 0 then commitsDefaultLimit else n)
           in if n > commitsMaxLimit then commitsMaxLimit else n)"

section \<open>Credentials and key packages\<close>

definition uploadCredential ::
  "auth_env \<Rightarrow> time \<Rightarrow> string \<Rightarrow> upload_credential option \<Rightarrow> app \<Rightarrow> mls_answer \<times> app" where
  "uploadCredential A now userID body s =
     (case body of
        None \<Rightarrow> (Fail 400 ''invalid body'', s)
      | Some req \<Rightarrow>
      (let deviceID = TrimSpace (uc_DeviceID req)
       in if deviceID = [] then (Fail 400 ''deviceId is required'', s)
          else if uc_CredentialBytes req = [] then (Fail 400 ''credentialBytes is required'', s)
          else if uc_SigningPublicKey req = [] then (Fail 400 ''signingPublicKey is required'', s)
          else case validateMLSCiphersuiteHTTP (uc_Ciphersuite req) of
            Some bad \<Rightarrow> (bad, s)
          | None \<Rightarrow>
          (if userID = [] then (Fail 401 ''not authenticated'', s)
           else case run_site (UpsertMLSCredential userID deviceID (uc_CredentialBytes req)
                                 (uc_SigningPublicKey req) 1) s of
             (Inl _, s1) \<Rightarrow> (Fail 500 ''upload failed'', s1)
           | (Inr _, s1) \<Rightarrow>
               (let e = \<lparr>OperationType = OpMLSCredential, UserPublicKey = None,
                         SubjectKey = Some (uc_SigningPublicKey req), Timestamp = now div second,
                         UserSignature = None\<rparr>
                in (Done 204 NoContent, s1\<lparr>accounts := log_key_event A e userID (accounts s1)\<rparr>)))))"

text \<open>The last-resort path returns before the log is told.\<close>

definition uploadKeyPackages ::
  "auth_env \<Rightarrow> time \<Rightarrow> string \<Rightarrow> upload_key_packages option \<Rightarrow> app \<Rightarrow> mls_answer \<times> app" where
  "uploadKeyPackages A now userID body s =
     (case body of
        None \<Rightarrow> (Fail 400 ''invalid body'', s)
      | Some req \<Rightarrow>
      (let deviceID = TrimSpace (uk_DeviceID req)
       in if deviceID = [] then (Fail 400 ''deviceId is required'', s)
          else if uk_KeyPackages req = [] then (Fail 400 ''keyPackages must not be empty'', s)
          else case validateMLSCiphersuiteHTTP (uk_Ciphersuite req) of
            Some bad \<Rightarrow> (bad, s)
          | None \<Rightarrow>
          (if userID = [] then (Fail 401 ''not authenticated'', s)
           else if uk_LastResort req \<and> length (uk_KeyPackages req) = 1
           then (case run_site (InsertMLSLastResortKeyPackage userID deviceID (hd (uk_KeyPackages req))) s of
                   (Inl _, s1) \<Rightarrow> (Fail 500 ''upload failed'', s1)
                 | (Inr _, s1) \<Rightarrow> (Done 204 NoContent, s1))
           else if length (uk_KeyPackages req) > maxKeyPackagesPerUpload
           then (Fail 400 ''too many key packages'', s)
           else if uk_ExpiresAt req = zero_time then (Fail 400 ''expiresAt is required'', s)
           else case run_site (InsertMLSKeyPackages userID deviceID (uk_KeyPackages req) (uk_ExpiresAt req)) s of
             (Inl _, s1) \<Rightarrow> (Fail 500 ''upload failed'', s1)
           | (Inr _, s1) \<Rightarrow>
               (let e = \<lparr>OperationType = OpKeyPackage, UserPublicKey = None, SubjectKey = None,
                         Timestamp = now div second, UserSignature = None\<rparr>
                in (Done 204 NoContent, s1\<lparr>accounts := log_key_event A e userID (accounts s1)\<rparr>)))))"

definition getKeyPackageCount :: "string \<Rightarrow> string \<Rightarrow> world \<Rightarrow> mls_answer \<times> world" where
  "getKeyPackageCount userID deviceID w =
     (if userID = [] then (Fail 401 ''not authenticated'', w)
      else if deviceID = [] then (Fail 400 ''deviceId required'', w)
      else case run_chat (CountUnusedMLSKeyPackages userID deviceID) w of
        (Inl _, w') \<Rightarrow> (Fail 500 ''failed to count key packages'', w')
      | (Inr n, w') \<Rightarrow> (Done 200 (CountBody n), w'))"

definition maybeSendKeyPackagesLow :: "string \<Rightarrow> string \<Rightarrow> world \<Rightarrow> world option" where
  "maybeSendKeyPackagesLow userID deviceID w =
     (case run_chat (CountUnusedMLSKeyPackages userID deviceID) w of
        (Inl _, w') \<Rightarrow> Some w'
      | (Inr n, w') \<Rightarrow>
          (if n \<ge> KeyPackageLowThreshold then Some w'
           else run_hub (BroadcastToUser userID KeyPackagesLow) w'))"

definition consumeKeyPackage ::
  "(string \<Rightarrow> bool) \<Rightarrow> string \<Rightarrow> string \<Rightarrow> world \<Rightarrow> (mls_answer \<times> world) option" where
  "consumeKeyPackage uuid_ok targetUserID deviceID w =
     (if targetUserID = [] \<or> \<not> uuid_ok targetUserID then Some (Fail 400 ''invalid userId'', w)
      else if deviceID = [] then Some (Fail 400 ''deviceId is required'', w)
      else case run_chat (ConsumeMLSKeyPackage targetUserID deviceID) w of
        (Inl _, w') \<Rightarrow> Some (Fail 500 ''failed to consume key package'', w')
      | (Inr None, w') \<Rightarrow> Some (Fail 404 ''no key package available'', w')
      | (Inr (Some kp), w') \<Rightarrow> do {
          w'' \<leftarrow> maybeSendKeyPackagesLow targetUserID deviceID w';
          Some (Done 200 (KeyPackageBody (EncodeToString StdEncoding kp)), w'') })"

section \<open>Group information and commits\<close>

definition resolveGroupType :: "string \<Rightarrow> string" where
  "resolveGroupType t = (if t = ''voice'' then ''voice'' else ''text'')"

definition getGroupInfo :: "(string \<Rightarrow> bool) \<Rightarrow> string \<Rightarrow> string \<Rightarrow> world \<Rightarrow> mls_answer \<times> world" where
  "getGroupInfo uuid_ok channelID t w =
     (if \<not> uuid_ok channelID then (Fail 400 ''invalid channelId'', w)
      else case run_chat (GetMLSGroupInfo channelID (resolveGroupType t)) w of
        (Inl _, w') \<Rightarrow> (Fail 500 ''failed to get group info'', w')
      | (Inr None, w') \<Rightarrow> (Fail 404 ''group not found'', w')
      | (Inr (Some (b, epoch)), w') \<Rightarrow> (Done 200 (GroupInfoBody (EncodeToString StdEncoding b) epoch), w'))"

definition putGroupInfo ::
  "(string \<Rightarrow> bool) \<Rightarrow> string \<Rightarrow> string \<Rightarrow> put_group_info option \<Rightarrow> world \<Rightarrow> mls_answer \<times> world" where
  "putGroupInfo uuid_ok channelID t body w =
     (if \<not> uuid_ok channelID then (Fail 400 ''invalid channelId'', w)
      else case body of
        None \<Rightarrow> (Fail 400 ''invalid body'', w)
      | Some req \<Rightarrow>
      (if pg_GroupInfo req = [] then (Fail 400 ''groupInfo is required'', w)
       else case validateMLSCiphersuiteHTTP (pg_Ciphersuite req) of
         Some bad \<Rightarrow> (bad, w)
       | None \<Rightarrow>
       (case DecodeString StdEncoding (pg_GroupInfo req) of
          None \<Rightarrow> (Fail 400 ''invalid groupInfo base64'', w)
        | Some b \<Rightarrow>
            (if b = [] then (Fail 400 ''groupInfo must not be empty'', w)
             else case run_chat (UpsertMLSGroupInfo channelID (resolveGroupType t) b (pg_Epoch req)) w of
               (Inl _, w') \<Rightarrow> (Fail 500 ''failed to store group info'', w')
             | (Inr _, w') \<Rightarrow> (Done 204 NoContent, w')))))"

text \<open>The optional group information is stored first, the commit after it, each on its own.\<close>

definition commit_group_info ::
  "string \<Rightarrow> string \<Rightarrow> post_commit \<Rightarrow> world \<Rightarrow> mls_answer option \<times> world" where
  "commit_group_info channelID groupType req w =
     (if pc_GroupInfo req = [] then (None, w)
      else case DecodeString StdEncoding (pc_GroupInfo req) of
        None \<Rightarrow> (Some (Fail 400 ''invalid groupInfo base64''), w)
      | Some b \<Rightarrow>
          (case run_chat (UpsertMLSGroupInfo channelID groupType b (pc_Epoch req)) w of
             (Inl _, w') \<Rightarrow> (Some (Fail 500 ''failed to store group info''), w')
           | (Inr _, w') \<Rightarrow> (None, w')))"

definition postCommit ::
  "(string \<Rightarrow> bool) \<Rightarrow> string \<Rightarrow> string \<Rightarrow> string \<Rightarrow> string \<Rightarrow> post_commit option \<Rightarrow> world \<Rightarrow>
   (mls_answer \<times> world) option" where
  "postCommit uuid_ok userID deviceID channelID t body w =
     (if \<not> uuid_ok channelID then Some (Fail 400 ''invalid channelId'', w)
      else if userID = [] then Some (Fail 401 ''not authenticated'', w)
      else case body of
        None \<Rightarrow> Some (Fail 400 ''invalid body'', w)
      | Some req \<Rightarrow>
      (if pc_CommitBytes req = [] then Some (Fail 400 ''commitBytes is required'', w)
       else case validateMLSCiphersuiteHTTP (pc_Ciphersuite req) of
         Some bad \<Rightarrow> Some (bad, w)
       | None \<Rightarrow>
       (case DecodeString StdEncoding (pc_CommitBytes req) of
          None \<Rightarrow> Some (Fail 400 ''invalid commitBytes base64'', w)
        | Some commitBytes \<Rightarrow>
       (case commit_group_info channelID (resolveGroupType t) req w of
          (Some bad, w1) \<Rightarrow> Some (bad, w1)
        | (None, w1) \<Rightarrow>
       (case run_chat (AppendMLSCommit channelID (pc_Epoch req) commitBytes userID) w1 of
          (Inl _, w2) \<Rightarrow> Some (Fail 500 ''failed to store commit'', w2)
        | (Inr _, w2) \<Rightarrow> do {
            w3 \<leftarrow> run_hub (Broadcast channelID (MLSCommitFrame channelID (pc_Epoch req) (pc_CommitBytes req)
                    userID deviceID (resolveGroupType t)) []) w2;
            Some (Done 204 NoContent, w3) })))))"

definition getCommitsSinceEpoch ::
  "(string \<Rightarrow> bool) \<Rightarrow> string \<Rightarrow> string \<Rightarrow> string \<Rightarrow> world \<Rightarrow> mls_answer \<times> world" where
  "getCommitsSinceEpoch uuid_ok channelID since l w =
     (if \<not> uuid_ok channelID then (Fail 400 ''invalid channelId'', w)
      else case (if since = [] then Some 0 else Sscanf_d since) of
        None \<Rightarrow> (Fail 400 ''invalid since_epoch'', w)
      | Some sinceEpoch \<Rightarrow>
          (case run_chat (GetMLSCommitsSinceEpoch channelID sinceEpoch (commits_limit l)) w of
             (Inl _, w') \<Rightarrow> (Fail 500 ''failed to get commits'', w')
           | (Inr cs, w') \<Rightarrow> (Done 200 (CommitsBody (map (\<lambda>c. (cr_Epoch c,
               EncodeToString StdEncoding (cr_CommitBytes c), cr_SenderID c, cr_CreatedAt c)) cs)), w')))"

section \<open>Pending welcomes\<close>

definition getPendingWelcomes :: "string \<Rightarrow> world \<Rightarrow> mls_answer \<times> world" where
  "getPendingWelcomes userID w =
     (if userID = [] then (Fail 401 ''not authenticated'', w)
      else case run_chat (GetPendingWelcomes userID) w of
        (Inl _, w') \<Rightarrow> (Fail 500 ''failed to get pending welcomes'', w')
      | (Inr ws, w') \<Rightarrow> (Done 200 (WelcomesBody (map (\<lambda>p. (pw_ID p, pw_ChannelID p,
          EncodeToString StdEncoding (pw_WelcomeBytes p), pw_SenderID p, pw_Epoch p, pw_CreatedAt p)) ws)), w'))"

definition deletePendingWelcome :: "string \<Rightarrow> world \<Rightarrow> mls_answer \<times> world" where
  "deletePendingWelcome welcomeID w =
     (if welcomeID = [] then (Fail 400 ''welcomeId is required'', w)
      else case run_chat (DeletePendingWelcome welcomeID) w of
        (Inl _, w') \<Rightarrow> (Fail 500 ''failed to delete pending welcome'', w')
      | (Inr _, w') \<Rightarrow> (Done 204 NoContent, w'))"

section \<open>Guild metadata\<close>

definition getGuildGroupInfo :: "(string \<Rightarrow> bool) \<Rightarrow> string \<Rightarrow> world \<Rightarrow> mls_answer \<times> world" where
  "getGuildGroupInfo uuid_ok guildID w =
     (if \<not> uuid_ok guildID then (Fail 400 ''invalid guildId'', w)
      else case run_chat (GetMLSGuildMetadataGroupInfo guildID) w of
        (Inl _, w') \<Rightarrow> (Fail 500 ''failed to get guild group info'', w')
      | (Inr None, w') \<Rightarrow> (Fail 404 ''guild group info not found'', w')
      | (Inr (Some (b, epoch)), w') \<Rightarrow> (Done 200 (GroupInfoBody (EncodeToString StdEncoding b) epoch), w'))"

definition putGuildGroupInfo ::
  "(string \<Rightarrow> bool) \<Rightarrow> string \<Rightarrow> string \<Rightarrow> put_group_info option \<Rightarrow> world \<Rightarrow> mls_answer \<times> world" where
  "putGuildGroupInfo uuid_ok userID guildID body w =
     (if \<not> uuid_ok guildID then (Fail 400 ''invalid guildId'', w)
      else case run_chat (GetServerMemberLevel guildID userID) w of (r, w1) \<Rightarrow>
        if (case r of Inl _ \<Rightarrow> True | Inr level \<Rightarrow> level < PermissionLevelMember)
        then (Fail 403 ''guild membership required'', w1)
        else case body of
          None \<Rightarrow> (Fail 400 ''invalid body'', w1)
        | Some req \<Rightarrow>
        (if pg_GroupInfo req = [] then (Fail 400 ''groupInfo is required'', w1)
         else case validateMLSCiphersuiteHTTP (pg_Ciphersuite req) of
           Some bad \<Rightarrow> (bad, w1)
         | None \<Rightarrow>
         (case DecodeString StdEncoding (pg_GroupInfo req) of
            None \<Rightarrow> (Fail 400 ''invalid groupInfo base64'', w1)
          | Some b \<Rightarrow>
              (if b = [] then (Fail 400 ''groupInfo must not be empty'', w1)
               else case run_chat (UpsertMLSGuildMetadataGroupInfo guildID b (pg_Epoch req)) w1 of
                 (Inl _, w2) \<Rightarrow> (Fail 500 ''failed to store guild group info'', w2)
               | (Inr _, w2) \<Rightarrow> (Done 204 NoContent, w2)))))"

definition deleteGuildGroupInfo :: "(string \<Rightarrow> bool) \<Rightarrow> string \<Rightarrow> string \<Rightarrow> world \<Rightarrow> mls_answer \<times> world" where
  "deleteGuildGroupInfo uuid_ok userID guildID w =
     (if \<not> uuid_ok guildID then (Fail 400 ''invalid guildId'', w)
      else case run_chat (GetServerMemberLevel guildID userID) w of (r, w1) \<Rightarrow>
        if (case r of Inl _ \<Rightarrow> True | Inr level \<Rightarrow> level < PermissionLevelAdmin)
        then (Fail 403 ''admin permission required'', w1)
        else case run_chat (DeleteMLSGuildMetadataGroupInfo guildID) w1 of
          (Inl _, w2) \<Rightarrow> (Fail 500 ''failed to delete guild group info'', w2)
        | (Inr _, w2) \<Rightarrow> (Done 204 NoContent, w2))"

section \<open>Routes\<close>

text \<open>The thirteen routes of \<open>MLSRoutes\<close>, for a request that \<open>RequireAuth\<close> has let through.\<close>

datatype mls_request =
    PostCredentials "upload_credential option"
  | PostKeyPackages "upload_key_packages option"
  | GetKeyPackageCount string
  | GetKeyPackage string string
  | GetGroupInfo string string
  | PutGroupInfo string string "put_group_info option"
  | PostCommit string string "post_commit option"
  | GetCommits string string string
  | GetWelcomes
  | DeleteWelcome string
  | GetGuildInfo string
  | PutGuildInfo string "put_group_info option"
  | DeleteGuildInfo string

definition on_site :: "(world \<Rightarrow> mls_answer \<times> world) \<Rightarrow> app \<Rightarrow> (mls_answer \<times> app) option" where
  "on_site f s = (case f (site s) of (a, w) \<Rightarrow> Some (a, s\<lparr>site := w\<rparr>))"

definition on_hub :: "(world \<Rightarrow> (mls_answer \<times> world) option) \<Rightarrow> app \<Rightarrow> (mls_answer \<times> app) option" where
  "on_hub f s = map_option (\<lambda>(a, w). (a, s\<lparr>site := w\<rparr>)) (f (site s))"

record mls_env =
  me_auth :: auth_env
  me_now :: time
  uuid_ok :: "string \<Rightarrow> bool"

fun MLSRoutes :: "mls_env \<Rightarrow> string \<Rightarrow> string \<Rightarrow> mls_request \<Rightarrow> app \<Rightarrow> (mls_answer \<times> app) option" where
  "MLSRoutes E userID deviceID (PostCredentials b) s = Some (uploadCredential (me_auth E) (me_now E) userID b s)"
| "MLSRoutes E userID deviceID (PostKeyPackages b) s = Some (uploadKeyPackages (me_auth E) (me_now E) userID b s)"
| "MLSRoutes E userID deviceID (GetKeyPackageCount dev) s = on_site (getKeyPackageCount userID dev) s"
| "MLSRoutes E userID deviceID (GetKeyPackage u dev) s = on_hub (consumeKeyPackage (uuid_ok E) u dev) s"
| "MLSRoutes E userID deviceID (GetGroupInfo ch t) s = on_site (getGroupInfo (uuid_ok E) ch t) s"
| "MLSRoutes E userID deviceID (PutGroupInfo ch t b) s = on_site (putGroupInfo (uuid_ok E) ch t b) s"
| "MLSRoutes E userID deviceID (PostCommit ch t b) s = on_hub (postCommit (uuid_ok E) userID deviceID ch t b) s"
| "MLSRoutes E userID deviceID (GetCommits ch since l) s = on_site (getCommitsSinceEpoch (uuid_ok E) ch since l) s"
| "MLSRoutes E userID deviceID GetWelcomes s = on_site (getPendingWelcomes userID) s"
| "MLSRoutes E userID deviceID (DeleteWelcome i) s = on_site (deletePendingWelcome i) s"
| "MLSRoutes E userID deviceID (GetGuildInfo g) s = on_site (getGuildGroupInfo (uuid_ok E) g) s"
| "MLSRoutes E userID deviceID (PutGuildInfo g b) s = on_site (putGuildGroupInfo (uuid_ok E) userID g b) s"
| "MLSRoutes E userID deviceID (DeleteGuildInfo g) s = on_site (deleteGuildGroupInfo (uuid_ok E) userID g) s"

text \<open>Requests one after another, each with its time and session, and their answers.\<close>

fun serve_mls ::
  "mls_env \<Rightarrow> (time \<times> string \<times> string \<times> mls_request) list \<Rightarrow> app \<Rightarrow> (mls_answer list \<times> app) option" where
  "serve_mls E [] s = Some ([], s)"
| "serve_mls E ((now, u, dev, r) # rs) s = do {
     (a, s') \<leftarrow> MLSRoutes (E\<lparr>me_now := now\<rparr>) u dev r s;
     (as, s'') \<leftarrow> serve_mls E rs s';
     Some (a # as, s'') }"

end
