(* ===== verification/Db_Frame.thy ===== *)
theory Db_Frame
  imports Ws
begin

text \<open>
  How handlers act on the database. The locale \<open>db_frame\<close> is a relation between databases that
  every step respects; it lifts the relation from queries to handlers, once for all
  relations. \<open>lands P r\<close> says that the handler result \<open>r\<close>, if there is one, leaves a database with
  \<open>P\<close>, and \<open>holds P w\<close> that the state \<open>w\<close> has it; the rules \<open>lands\<close> take a handler apart along its text.
\<close>

named_theorems lands \<open>rules for the parts of a handler\<close>

definition holds :: "(chat_db \<Rightarrow> bool) \<Rightarrow> world \<Rightarrow> bool" where
  "holds P w \<longleftrightarrow> P (cdb w)"

definition lands :: "(chat_db \<Rightarrow> bool) \<Rightarrow> ('a \<times> world) option \<Rightarrow> bool" where
  "lands P r \<longleftrightarrow> (\<forall>a w. r = Some (a, w) \<longrightarrow> holds P w)"

definition arrives :: "(chat_db \<Rightarrow> bool) \<Rightarrow> world option \<Rightarrow> bool" where
  "arrives P r \<longleftrightarrow> (\<forall>w. r = Some w \<longrightarrow> holds P w)"

lemma lands_Some [lands]: "holds P w \<Longrightarrow> lands P (Some (a, w))"
  by (simp add: lands_def)

lemma arrives_Some [lands]: "holds P w \<Longrightarrow> arrives P (Some w)"
  by (simp add: arrives_def)

lemma lands_map [lands]: "arrives P r \<Longrightarrow> lands P (map_option (\<lambda>w. (a, w)) r)"
  by (auto simp: lands_def arrives_def)

lemma lands_bind [lands]:
  "arrives P r \<Longrightarrow> (\<And>w. holds P w \<Longrightarrow> lands P (k w)) \<Longrightarrow> lands P (Option.bind r k)"
  "arrives P r \<Longrightarrow> (\<And>w. holds P w \<Longrightarrow> arrives P (l w)) \<Longrightarrow> arrives P (Option.bind r l)"
  by (auto simp: lands_def arrives_def bind_eq_Some_conv)

lemma lands_if [lands]:
  "(b \<Longrightarrow> lands P x) \<Longrightarrow> (\<not> b \<Longrightarrow> lands P y) \<Longrightarrow> lands P (if b then x else y)"
  "(b \<Longrightarrow> arrives P x') \<Longrightarrow> (\<not> b \<Longrightarrow> arrives P y') \<Longrightarrow> arrives P (if b then x' else y')"
  by auto

lemma lands_case_option [lands]:
  "(x = None \<Longrightarrow> lands P n) \<Longrightarrow> (\<And>v. x = Some v \<Longrightarrow> lands P (s v)) \<Longrightarrow> lands P (case x of None \<Rightarrow> n | Some v \<Rightarrow> s v)"
  "(x = None \<Longrightarrow> arrives P n') \<Longrightarrow> (\<And>v. x = Some v \<Longrightarrow> arrives P (s' v)) \<Longrightarrow>
   arrives P (case x of None \<Rightarrow> n' | Some v \<Rightarrow> s' v)"
  by (auto split: option.splits)

lemma lands_case_sum [lands]:
  "(\<And>e. r = Inl e \<Longrightarrow> lands P (f e)) \<Longrightarrow> (\<And>x. r = Inr x \<Longrightarrow> lands P (g x)) \<Longrightarrow>
   lands P (case r of Inl e \<Rightarrow> f e | Inr x \<Rightarrow> g x)"
  "(\<And>e. r = Inl e \<Longrightarrow> arrives P (f' e)) \<Longrightarrow> (\<And>x. r = Inr x \<Longrightarrow> arrives P (g' x)) \<Longrightarrow>
   arrives P (case r of Inl e \<Rightarrow> f' e | Inr x \<Rightarrow> g' x)"
  by (auto split: sum.splits)

lemma lands_Let [lands]: "lands P (f x) \<Longrightarrow> lands P (Let x f)"
  by simp

lemma run_hub_cdb: "run_hub f w = Some w' \<Longrightarrow> cdb w' = cdb w"
  by (auto simp: run_hub_def)

lemma arrives_run_hub [lands]: "holds P w \<Longrightarrow> arrives P (run_hub f w)"
  by (auto simp: arrives_def holds_def dest: run_hub_cdb)

locale db_frame =
  fixes R :: "chat_db \<Rightarrow> chat_db \<Rightarrow> bool"
  assumes refl [simp, intro]: "R d d"
    and trans [trans]: "R d d' \<Longrightarrow> R d' d'' \<Longrightarrow> R d d''"
begin

definition keeps :: "'a chat_op \<Rightarrow> bool" where
  "keeps q \<longleftrightarrow> (\<forall>d. R d (snd (q d)))"

lemma run_chat_R: "run_chat q w = (r, w') \<Longrightarrow> keeps q \<Longrightarrow> R (cdb w) (cdb w')"
  by (auto simp: run_chat_def keeps_def split: prod.splits dest: spec [of _ "cdb w"])

text \<open>A property that no step of the relation breaks, and the rule for a query under it.\<close>

definition closed :: "(chat_db \<Rightarrow> bool) \<Rightarrow> bool" where
  "closed P \<longleftrightarrow> (\<forall>d d'. P d \<longrightarrow> R d d' \<longrightarrow> P d')"

lemma closed_R: "closed (R d)"
  using trans by (auto simp: closed_def)

lemma closed_imp: "closed P \<Longrightarrow> P d \<Longrightarrow> R d d' \<Longrightarrow> P d'"
  by (auto simp: closed_def)

lemma lands_run:
  "keeps q \<Longrightarrow> closed P \<Longrightarrow> holds P w \<Longrightarrow> (\<And>r w'. run_chat q w = (r, w') \<Longrightarrow> holds P w' \<Longrightarrow> lands P (h r w')) \<Longrightarrow>
   lands P (case run_chat q w of (r, w') \<Rightarrow> h r w')"
  by (cases "run_chat q w") (auto simp: holds_def dest: run_chat_R closed_imp)

lemma lands_via:
  "keeps q \<Longrightarrow> closed P \<Longrightarrow> holds P w \<Longrightarrow> (\<And>r w'. run_chat q w = (r, w') \<Longrightarrow> holds P w' \<Longrightarrow> lands Q (h r w')) \<Longrightarrow>
   lands Q (case run_chat q w of (r, w') \<Rightarrow> h r w')"
  by (cases "run_chat q w") (auto simp: holds_def dest: run_chat_R closed_imp)

lemma arrives_run:
  "keeps q \<Longrightarrow> closed P \<Longrightarrow> holds P w \<Longrightarrow> (\<And>r w'. run_chat q w = (r, w') \<Longrightarrow> holds P w' \<Longrightarrow> arrives P (h r w')) \<Longrightarrow>
   arrives P (case run_chat q w of (r, w') \<Rightarrow> h r w')"
  by (cases "run_chat q w") (auto simp: holds_def dest: run_chat_R closed_imp)

lemma snd_run: "keeps q \<Longrightarrow> closed P \<Longrightarrow> holds P w \<Longrightarrow> holds P (snd (run_chat q w))"
  using run_chat_R [of q w "fst (run_chat q w)" "snd (run_chat q w)"] closed_imp by (simp add: holds_def)

end

text \<open>Statements also count; a relation that does not look at the count lifts from their bodies.\<close>

locale tick_frame = db_frame +
  assumes tick: "R d (d\<lparr>cd_tick := t\<rparr>)"
begin

lemma keeps_query: "(\<And>now uuid d. R d (snd (q now uuid d))) \<Longrightarrow> keeps (chat_query q)"
  unfolding keeps_def chat_query_def Let_def using tick trans by (simp split: if_splits) blast

lemma keeps_read: "keeps (chat_read p)"
  unfolding chat_read_def by (rule keeps_query) simp

lemma keeps_tx: "keeps q \<Longrightarrow> keeps (in_tx q)"
  unfolding keeps_def
proof (intro allI)
  fix d
  assume "\<forall>d. R d (snd (q d))"
  then have "R d (snd (q d))" ..
  then show "R d (snd (in_tx q d))" using tick by (cases "q d") (auto simp: in_tx_def split: sum.splits)
qed

end

end
