(* ===== verification/Mls_Facts.thy ===== *)
theory Mls_Facts
  imports Mls Ws_Facts Db_Frame
begin

text \<open>
  What an MLS request can do to the database: for every relation of the locale \<open>db_frame\<close>, a
  handler respects what its queries respect; then the stock of key packages.
\<close>

section \<open>Handlers keep what their queries keep\<close>

context db_frame
begin

lemma run_site_R: "run_site q s = (r, s') \<Longrightarrow> keeps q \<Longrightarrow> R (cdb (site s)) (cdb (site s'))"
  by (auto simp: run_site_def split: prod.splits dest: run_chat_R)

lemma uploadCredential_R:
  assumes "uploadCredential A now u body s = (a, s')"
    and "\<And>dev c k. keeps (UpsertMLSCredential u dev c k 1)"
  shows "R (cdb (site s)) (cdb (site s'))"
  using assms(1) run_site_R [OF _ assms(2)]
  by (fastforce simp: uploadCredential_def Let_def split: option.splits if_splits prod.splits sum.splits)

lemma uploadKeyPackages_R:
  assumes "uploadKeyPackages A now u body s = (a, s')"
    and "\<And>dev k req. body = Some req \<Longrightarrow> TrimSpace (uk_DeviceID req) = dev \<Longrightarrow> uk_LastResort req \<Longrightarrow>
           uk_KeyPackages req = [k] \<Longrightarrow> keeps (InsertMLSLastResortKeyPackage u dev k)"
    and "\<And>dev req. body = Some req \<Longrightarrow> TrimSpace (uk_DeviceID req) = dev \<Longrightarrow>
           \<not> (uk_LastResort req \<and> length (uk_KeyPackages req) = 1) \<Longrightarrow>
           keeps (InsertMLSKeyPackages u dev (uk_KeyPackages req) (uk_ExpiresAt req))"
  shows "R (cdb (site s)) (cdb (site s'))"
proof (cases body)
  case None
  with assms(1) show ?thesis by (simp add: uploadKeyPackages_def)
next
  case (Some req)
  let ?dev = "TrimSpace (uk_DeviceID req)"
  show ?thesis
  proof (cases "uk_LastResort req \<and> length (uk_KeyPackages req) = 1")
    case True
    then obtain k where k: "uk_KeyPackages req = [k]" "uk_LastResort req"
      by (cases "uk_KeyPackages req") auto
    with assms(1) Some run_site_R [OF _ assms(2) [OF Some HOL.refl k(2,1)]] show ?thesis
      by (fastforce simp: uploadKeyPackages_def Let_def split: option.splits if_splits prod.splits sum.splits)
  next
    case False
    with assms(1) Some run_site_R [OF _ assms(3) [OF Some HOL.refl False]] show ?thesis
      by (fastforce simp: uploadKeyPackages_def Let_def split: option.splits if_splits prod.splits sum.splits)
  qed
qed

lemma maybeSendKeyPackagesLow_R:
  assumes "maybeSendKeyPackagesLow u dev w = Some w'" and "keeps (CountUnusedMLSKeyPackages u dev)"
  shows "R (cdb w) (cdb w')"
  using assms(1) run_chat_R [OF _ assms(2)]
  by (fastforce simp: maybeSendKeyPackagesLow_def split: prod.splits sum.splits if_splits dest: run_hub_cdb)

lemma consumeKeyPackage_R:
  assumes "consumeKeyPackage ok u dev w = Some (a, w')"
    and "keeps (ConsumeMLSKeyPackage u dev)" and "keeps (CountUnusedMLSKeyPackages u dev)"
  shows "R (cdb w) (cdb w')"
proof -
  from assms(1) consider "w' = w"
    | r where "run_chat (ConsumeMLSKeyPackage u dev) w = (r, w')"
    | r w1 where "run_chat (ConsumeMLSKeyPackage u dev) w = (r, w1)" "maybeSendKeyPackagesLow u dev w1 = Some w'"
    by (auto simp: consumeKeyPackage_def split: if_splits prod.splits sum.splits option.splits Option.bind_splits)
  then show ?thesis
  proof cases
    case 1
    then show ?thesis by simp
  next
    case 2
    then show ?thesis by (rule run_chat_R) (rule assms(2))
  next
    case 3
    then show ?thesis
      using trans run_chat_R [OF _ assms(2)] maybeSendKeyPackagesLow_R [OF _ assms(3)] by blast
  qed
qed

lemma postCommit_R:
  assumes "postCommit ok u dev ch t body w = Some (a, w')"
    and "\<And>b e. keeps (UpsertMLSGroupInfo ch (resolveGroupType t) b e)"
    and "\<And>b e. keeps (AppendMLSCommit ch e b u)"
  shows "R (cdb w) (cdb w')"
proof -
  have g: "commit_group_info ch (resolveGroupType t) req w = (o', w1) \<Longrightarrow> R (cdb w) (cdb w1)" for req o' w1
    using run_chat_R [OF _ assms(2)]
    by (fastforce simp: commit_group_info_def split: if_splits option.splits prod.splits sum.splits)
  from assms(1) consider "w' = w"
    | req o' where "commit_group_info ch (resolveGroupType t) req w = (o', w')"
    | req w1 e b r w2 where "commit_group_info ch (resolveGroupType t) req w = (None, w1)"
        "run_chat (AppendMLSCommit ch e b u) w1 = (r, w2)" "cdb w' = cdb w2"
    by (fastforce simp: postCommit_def split: if_splits option.splits prod.splits sum.splits Option.bind_splits
        dest: run_hub_cdb)
  then show ?thesis
  proof cases
    case 1
    then show ?thesis by simp
  next
    case 2
    then show ?thesis by (rule g)
  next
    case 3
    with trans g run_chat_R [OF _ assms(3)] show ?thesis by metis
  qed
qed

lemma putGroupInfo_R:
  assumes "putGroupInfo ok ch t body w = (a, w')"
    and "\<And>b e. keeps (UpsertMLSGroupInfo ch (resolveGroupType t) b e)"
  shows "R (cdb w) (cdb w')"
  using assms(1) run_chat_R [OF _ assms(2)]
  by (fastforce simp: putGroupInfo_def split: if_splits option.splits prod.splits sum.splits)

lemma reader_R:
  "getKeyPackageCount u dev w = (a, w') \<Longrightarrow> keeps (CountUnusedMLSKeyPackages u dev) \<Longrightarrow> R (cdb w) (cdb w')"
  "getGroupInfo ok ch t w = (a, w') \<Longrightarrow> keeps (GetMLSGroupInfo ch (resolveGroupType t)) \<Longrightarrow> R (cdb w) (cdb w')"
  "getCommitsSinceEpoch ok ch since l w = (a, w') \<Longrightarrow> (\<And>e n. keeps (GetMLSCommitsSinceEpoch ch e n)) \<Longrightarrow>
     R (cdb w) (cdb w')"
  "getPendingWelcomes u w = (a, w') \<Longrightarrow> keeps (GetPendingWelcomes u) \<Longrightarrow> R (cdb w) (cdb w')"
  "deletePendingWelcome i w = (a, w') \<Longrightarrow> keeps (DeletePendingWelcome i) \<Longrightarrow> R (cdb w) (cdb w')"
  "getGuildGroupInfo ok g w = (a, w') \<Longrightarrow> keeps (GetMLSGuildMetadataGroupInfo g) \<Longrightarrow> R (cdb w) (cdb w')"
  by (auto simp: getKeyPackageCount_def getGroupInfo_def getCommitsSinceEpoch_def getPendingWelcomes_def
      deletePendingWelcome_def getGuildGroupInfo_def
      split: if_splits option.splits prod.splits sum.splits dest: run_chat_R)

lemma guild_R:
  assumes "keeps (GetServerMemberLevel g u)"
  shows "putGuildGroupInfo ok u g body w = (a, w') \<Longrightarrow>
      (\<And>b e level. fst (GetServerMemberLevel g u (cdb w)) = Inr level \<Longrightarrow> level \<ge> PermissionLevelMember \<Longrightarrow>
         keeps (UpsertMLSGuildMetadataGroupInfo g b e)) \<Longrightarrow> R (cdb w) (cdb w')"
    and "deleteGuildGroupInfo ok u g w = (a, w') \<Longrightarrow>
      (\<And>level. fst (GetServerMemberLevel g u (cdb w)) = Inr level \<Longrightarrow> level \<ge> PermissionLevelAdmin \<Longrightarrow>
         keeps (DeleteMLSGuildMetadataGroupInfo g)) \<Longrightarrow> R (cdb w) (cdb w')"
proof -
  let ?q = "run_chat (GetServerMemberLevel g u) w"
  have q: "fst (GetServerMemberLevel g u (cdb w)) = fst ?q"
    by (simp add: run_chat_def split: prod.splits)
  have r: "R (cdb w) (cdb (snd ?q))"
    using run_chat_R [OF _ assms, of w "fst ?q" "snd ?q"] by simp
  { assume a: "putGuildGroupInfo ok u g body w = (a, w')"
      and k: "\<And>b e level. fst (GetServerMemberLevel g u (cdb w)) = Inr level \<Longrightarrow>
        level \<ge> PermissionLevelMember \<Longrightarrow> keeps (UpsertMLSGuildMetadataGroupInfo g b e)"
    from a consider "w' = w" | "w' = snd ?q"
      | level b e r where "fst ?q = Inr level" "level \<ge> PermissionLevelMember"
          "run_chat (UpsertMLSGuildMetadataGroupInfo g b e) (snd ?q) = (r, w')"
      unfolding putGuildGroupInfo_def
      by (cases ?q) (auto split: if_splits option.splits prod.splits sum.splits)
    then show "R (cdb w) (cdb w')"
    proof cases
      case 3
      with k q have "keeps (UpsertMLSGuildMetadataGroupInfo g b e)" by metis
      with 3(3) have "R (cdb (snd ?q)) (cdb w')" by (rule run_chat_R)
      with r show ?thesis by (rule trans)
    qed (use r in simp_all) }
  { assume a: "deleteGuildGroupInfo ok u g w = (a, w')"
      and k: "\<And>level. fst (GetServerMemberLevel g u (cdb w)) = Inr level \<Longrightarrow>
        level \<ge> PermissionLevelAdmin \<Longrightarrow> keeps (DeleteMLSGuildMetadataGroupInfo g)"
    from a consider "w' = w" | "w' = snd ?q"
      | level r where "fst ?q = Inr level" "level \<ge> PermissionLevelAdmin"
          "run_chat (DeleteMLSGuildMetadataGroupInfo g) (snd ?q) = (r, w')"
      unfolding deleteGuildGroupInfo_def
      by (cases ?q) (auto split: if_splits option.splits prod.splits sum.splits)
    then show "R (cdb w) (cdb w')"
    proof cases
      case 3
      with k q have "keeps (DeleteMLSGuildMetadataGroupInfo g)" by metis
      with 3(3) have "R (cdb (snd ?q)) (cdb w')" by (rule run_chat_R)
      with r show ?thesis by (rule trans)
    qed (use r in simp_all) }
qed

end

section \<open>The stock of a key package\<close>

text \<open>
  \<open>stock u dev b\<close> counts the rows that can still be handed out once: ordinary packages of the
  device with the bytes \<open>b\<close> that nobody has consumed. \<open>last_resort u dev b\<close> says that \<open>b\<close> is the
  last-resort package, which is handed out again and again.
\<close>

definition in_stock :: "string \<Rightarrow> string \<Rightarrow> bytes \<Rightarrow> KeyPackage \<Rightarrow> bool" where
  "in_stock u dev b r \<longleftrightarrow> kp_UserID r = u \<and> kp_DeviceID r = dev \<and> \<not> kp_LastResort r \<and>
     kp_ConsumedAt r = None \<and> kp_Bytes r = b"

definition stock :: "string \<Rightarrow> string \<Rightarrow> bytes \<Rightarrow> chat_db \<Rightarrow> nat" where
  "stock u dev b d = sql_count (in_stock u dev b) (cd_key_packages d)"

definition last_resort :: "string \<Rightarrow> string \<Rightarrow> bytes \<Rightarrow> chat_db \<Rightarrow> bool" where
  "last_resort u dev b d \<longleftrightarrow> (\<exists>r \<in> set (cd_key_packages d). kp_UserID r = u \<and> kp_DeviceID r = dev \<and>
     kp_LastResort r \<and> kp_Bytes r = b)"

definition no_gain :: "string \<Rightarrow> string \<Rightarrow> bytes \<Rightarrow> chat_db \<Rightarrow> chat_db \<Rightarrow> bool" where
  "no_gain u dev b d d' \<longleftrightarrow> stock u dev b d' \<le> stock u dev b d \<and> (last_resort u dev b d' \<longrightarrow> last_resort u dev b d)"

interpretation shelf: tick_frame "no_gain u dev b" for u dev b
  by unfold_locales (auto simp: no_gain_def stock_def last_resort_def)

lemma no_gain_same: "cd_key_packages d' = cd_key_packages d \<Longrightarrow> no_gain u dev b d d'"
  by (simp add: no_gain_def stock_def last_resort_def)

lemma sql_count_update_le:
  "(\<And>r. r \<in> set rs \<Longrightarrow> p r \<Longrightarrow> q (f r) \<Longrightarrow> q r) \<Longrightarrow> sql_count q (sql_update p f rs) \<le> sql_count q rs"
  by (induction rs) (auto simp: sql_count_def sql_update_def)

lemma sql_count_update_less:
  assumes "r \<in> set rs" and "p r" and "q r" and "\<And>r. p r \<Longrightarrow> \<not> q (f r)"
  shows "sql_count q (sql_update p f rs) < sql_count q rs"
  using assms(1)
proof (induction rs)
  case (Cons x xs)
  have le: "sql_count q (sql_update p f xs) \<le> sql_count q xs"
    by (rule sql_count_update_le) (use assms(4) in blast)
  show ?case
  proof (cases "x = r")
    case True
    with le assms(2-4) show ?thesis by (auto simp: sql_count_def sql_update_def)
  next
    case False
    with Cons have "sql_count q (sql_update p f xs) < sql_count q xs" by simp
    with assms(4) show ?thesis by (auto simp: sql_count_def sql_update_def)
  qed
qed simp

lemma sql_count_delete_le: "sql_count q (sql_delete p rs) \<le> sql_count q rs"
  by (induction rs) (auto simp: sql_count_def sql_delete_def)

lemma shelf_readers:
  "shelf.keeps u dev b (CountUnusedMLSKeyPackages v dv)" "shelf.keeps u dev b (GetMLSGroupInfo ch t)"
  "shelf.keeps u dev b (GetMLSCommitsSinceEpoch ch e n)" "shelf.keeps u dev b (GetPendingWelcomes v)"
  "shelf.keeps u dev b (DeletePendingWelcome i)" "shelf.keeps u dev b (GetMLSGuildMetadataGroupInfo g)"
  "shelf.keeps u dev b (GetServerMemberLevel g v)" "shelf.keeps u dev b (DeleteMLSGuildMetadataGroupInfo g)"
  "shelf.keeps u dev b (UpsertMLSGuildMetadataGroupInfo g bs e)" "shelf.keeps u dev b (UpsertMLSGroupInfo ch t bs e)"
  "shelf.keeps u dev b (AppendMLSCommit ch e bs v)" "shelf.keeps u dev b (UpsertMLSCredential v dv c k ver)"
  unfolding CountUnusedMLSKeyPackages_def GetMLSGroupInfo_def GetMLSCommitsSinceEpoch_def GetPendingWelcomes_def
    DeletePendingWelcome_def GetMLSGuildMetadataGroupInfo_def GetServerMemberLevel_def
    DeleteMLSGuildMetadataGroupInfo_def UpsertMLSGuildMetadataGroupInfo_def UpsertMLSGroupInfo_def
    AppendMLSCommit_def UpsertMLSCredential_def chat_read_def
  by (rule shelf.keeps_query, rule no_gain_same, simp add: Let_def split: option.splits)+

lemma ConsumeMLSKeyPackage_cases:
  assumes "ConsumeMLSKeyPackage v dv d = (res, d')"
  obtains (sold) r t where "r \<in> set (cd_key_packages d)" "usable_kp t v dv r" "res = Inr (Some (kp_Bytes r))"
      "cd_key_packages d' = sql_update (\<lambda>r'. kp_ID r' = kp_ID r) (\<lambda>r'. r'\<lparr>kp_ConsumedAt := Some t\<rparr>) (cd_key_packages d)"
  | (lent) r where "r \<in> set (cd_key_packages d)" "last_resort_row v dv r" "res = Inr (Some (kp_Bytes r))"
      "cd_key_packages d' = cd_key_packages d"
  | (none) "res = Inr None \<or> (\<exists>e. res = Inl e)" "cd_key_packages d' = cd_key_packages d"
proof -
  let ?now = "cd_clock d (cd_tick d)"
  show ?thesis
  proof (cases "cd_fault d (cd_tick d)")
    case True
    with assms have "res = Inl DbOutage \<and> cd_key_packages d' = cd_key_packages d"
      by (auto simp: ConsumeMLSKeyPackage_def chat_query_def Let_def)
    then show ?thesis by (intro none) auto
  next
    case ok: False
    show ?thesis
    proof (cases "find (usable_kp ?now v dv) (cd_key_packages d)")
      case (Some r)
      with assms ok have "res = Inr (Some (kp_Bytes r))"
        "cd_key_packages d' = sql_update (\<lambda>r'. kp_ID r' = kp_ID r) (\<lambda>r'. r'\<lparr>kp_ConsumedAt := Some ?now\<rparr>) (cd_key_packages d)"
        by (auto simp: ConsumeMLSKeyPackage_def chat_query_def Let_def)
      with find_Some_iff_mem [OF Some] show ?thesis by (intro sold) auto
    next
      case None
      let ?f = "find (\<lambda>r. last_resort_row v dv r \<and> kp_ConsumedAt r = None) (cd_key_packages d)"
      from None assms ok have k: "cd_key_packages d' = cd_key_packages d"
        "res = Inl DbOutage \<or> res = Inr (map_option kp_Bytes ?f)"
        by (auto simp: ConsumeMLSKeyPackage_def chat_query_def chat_read_def Let_def split: if_splits)
      show ?thesis
      proof (cases "?f")
        case None
        with k show ?thesis by (intro none) auto
      next
        case (Some r)
        show ?thesis
        proof (cases "res = Inl DbOutage")
          case True
          with k show ?thesis by (intro none) auto
        next
          case False
          with k Some find_Some_iff_mem [OF Some] show ?thesis by (intro lent [of r]) auto
        qed
      qed
    qed
  qed
qed

lemma shelf_consume: "shelf.keeps u dev b (ConsumeMLSKeyPackage v dv)"
  unfolding shelf.keeps_def
proof
  fix d
  obtain res d' where c: "ConsumeMLSKeyPackage v dv d = (res, d')" by fastforce
  then show "no_gain u dev b d (snd (ConsumeMLSKeyPackage v dv d))"
  proof (cases rule: ConsumeMLSKeyPackage_cases)
    case (sold r t)
    then have "stock u dev b d' \<le> stock u dev b d"
      unfolding stock_def sold(4) by (intro sql_count_update_le) (simp add: in_stock_def)
    moreover have "last_resort u dev b d' \<Longrightarrow> last_resort u dev b d"
      unfolding last_resort_def sold(4) by (auto simp: sql split: if_splits)
    ultimately show ?thesis using c by (simp add: no_gain_def)
  qed (use c in \<open>simp_all add: no_gain_same\<close>)
qed

text \<open>Uploads: only packages of the device itself, at most as many as it sends.\<close>

definition gains :: "string \<Rightarrow> string \<Rightarrow> bytes \<Rightarrow> nat \<Rightarrow> chat_db \<Rightarrow> chat_db \<Rightarrow> bool" where
  "gains u dev b n d d' \<longleftrightarrow>
     stock u dev b d' \<le> stock u dev b d + n \<and> (last_resort u dev b d' \<longrightarrow> last_resort u dev b d)"

lemma gains_0: "gains u dev b 0 = no_gain u dev b"
  by (simp add: gains_def no_gain_def fun_eq_iff)

lemma gains_same: "cd_key_packages d' = cd_key_packages d \<Longrightarrow> gains u dev b n d d'"
  by (simp add: gains_def stock_def last_resort_def)

lemma gains_trans: "gains u dev b m d d' \<Longrightarrow> gains u dev b n d' d'' \<Longrightarrow> gains u dev b (m + n) d d''"
  by (auto simp: gains_def)

lemma gains_mono: "gains u dev b m d d' \<Longrightarrow> m \<le> n \<Longrightarrow> gains u dev b n d d'"
  by (auto simp: gains_def)

lemma insert_key_package_gains:
  assumes "insert_key_package v dv k lr e d = (res, d')"
    and "\<not> (lr \<and> v = u \<and> dv = dev \<and> k = b)"
  shows "gains u dev b (if v = u \<and> dv = dev \<and> k = b then 1 else 0) d d'"
proof -
  from assms(1) consider "cd_key_packages d' = cd_key_packages d"
    | uuid now where "cd_key_packages d' = cd_key_packages d @ [\<lparr>kp_ID = uuid, kp_UserID = v, kp_DeviceID = dv,
        kp_Bytes = k, kp_LastResort = lr, kp_ExpiresAt = e, kp_ConsumedAt = None, kp_CreatedAt = now,
        kp_Ciphersuite = CurrentMLSCiphersuite\<rparr>]"
    by (auto simp: insert_key_package_def chat_query_def Let_def split: if_splits)
  then show ?thesis
  proof cases
    case 1
    then show ?thesis by (rule gains_same)
  next
    case 2
    with assms(2) show ?thesis
      by (auto simp: gains_def stock_def last_resort_def sql_count_def in_stock_def)
  qed
qed

lemma insert_batch_gains:
  "insert_batch v dv ks e d = (res, d') \<Longrightarrow> gains u dev b (if v = u \<and> dv = dev then count_list ks b else 0) d d'"
proof (induction ks arbitrary: d)
  case Nil
  then show ?case by (simp add: gains_same)
next
  case (Cons k ks)
  obtain r1 d1 where i: "insert_key_package v dv k False e d = (r1, d1)" by fastforce
  have g: "gains u dev b (if v = u \<and> dv = dev \<and> k = b then 1 else 0) d d1"
    by (rule insert_key_package_gains [OF i]) simp
  show ?case
  proof (cases r1)
    case (Inl err)
    with Cons.prems i have "d' = d1" by simp
    with g show ?thesis by (auto intro: gains_mono)
  next
    case (Inr x)
    with Cons.prems i have "insert_batch v dv ks e d1 = (res, d')" by simp
    then have "gains u dev b (if v = u \<and> dv = dev then count_list ks b else 0) d1 d'" by (rule Cons.IH)
    from gains_trans [OF g this] show ?thesis by (rule gains_mono) auto
  qed
qed

lemma in_tx_gains:
  assumes "\<And>res d'. q d = (res, d') \<Longrightarrow> gains u dev b n d d'" and "in_tx q d = (res, d')"
  shows "gains u dev b n d d'"
  using assms by (auto simp: in_tx_def split: prod.splits sum.splits intro: gains_same)

lemma InsertMLSKeyPackages_gains:
  "InsertMLSKeyPackages v dv ks e d = (res, d') \<Longrightarrow> gains u dev b (if v = u \<and> dv = dev then count_list ks b else 0) d d'"
  unfolding InsertMLSKeyPackages_def by (rule in_tx_gains [OF insert_batch_gains])

lemma InsertMLSLastResort_gains:
  assumes "\<not> (v = u \<and> dv = dev \<and> k = b)" and "InsertMLSLastResortKeyPackage v dv k d = (res, d')"
  shows "gains u dev b 0 d d'"
  using _ assms(2) [unfolded InsertMLSLastResortKeyPackage_def]
proof (rule in_tx_gains)
  fix res d'
  assume q: "(case chat_query (\<lambda>_ _ d. (Inr (), d\<lparr>cd_key_packages :=
            sql_delete (last_resort_row v dv) (cd_key_packages d)\<rparr>)) d of
       (Inl e, d) \<Rightarrow> (Inl e, d)
     | (Inr _, d) \<Rightarrow> insert_key_package v dv k True farFuture d) = (res, d')"
  have clear: "gains u dev b 0 d (snd (chat_query (\<lambda>_ _ d. (Inr (), d\<lparr>cd_key_packages :=
            sql_delete (last_resort_row v dv) (cd_key_packages d)\<rparr>)) d))" (is "gains u dev b 0 d ?d1")
    by (auto simp: chat_query_def Let_def gains_def stock_def last_resort_def sql sql_count_delete_le)
  from q consider "d' = ?d1" | "insert_key_package v dv k True farFuture ?d1 = (res, d')"
    by (cases "chat_query (\<lambda>_ _ d. (Inr (), d\<lparr>cd_key_packages :=
            sql_delete (last_resort_row v dv) (cd_key_packages d)\<rparr>)) d") (auto split: sum.splits)
  then show "gains u dev b 0 d d'"
  proof cases
    case 1
    with clear show ?thesis by simp
  next
    case 2
    from insert_key_package_gains [OF 2, of u dev b] assms(1) have "gains u dev b 0 ?d1 d'" by auto
    from gains_trans [OF clear this] show ?thesis by simp
  qed
qed

end
