(* ===== verification/Mls_Props.thy ===== *)
theory Mls_Props
  imports Mls_Facts Ws_Props Auth_Props
begin

text \<open>
  Properties of the MLS endpoints: a key package is handed out once, a reader that pages
  through the commit queue gets all of it, who may change what, and what the group
  endpoints do not check.
\<close>

section \<open>Key packages are handed out once\<close>

abbreviation db_of :: "app \<Rightarrow> chat_db" where
  "db_of s \<equiv> cdb (site s)"

definition sends_last_resort :: "string \<Rightarrow> string \<Rightarrow> bytes \<Rightarrow> string \<Rightarrow> mls_request \<Rightarrow> bool" where
  "sends_last_resort u dev b v q \<longleftrightarrow> (case q of
     PostKeyPackages (Some req) \<Rightarrow> v = u \<and> TrimSpace (uk_DeviceID req) = dev \<and> uk_LastResort req \<and> uk_KeyPackages req = [b]
   | _ \<Rightarrow> False)"

definition sent :: "string \<Rightarrow> string \<Rightarrow> bytes \<Rightarrow> string \<Rightarrow> mls_request \<Rightarrow> nat" where
  "sent u dev b v q = (case q of
     PostKeyPackages (Some req) \<Rightarrow>
       if v = u \<and> TrimSpace (uk_DeviceID req) = dev then count_list (uk_KeyPackages req) b else 0
   | _ \<Rightarrow> 0)"

definition hands_out :: "string \<Rightarrow> string \<Rightarrow> bytes \<Rightarrow> mls_request \<Rightarrow> mls_answer \<Rightarrow> bool" where
  "hands_out u dev b q a \<longleftrightarrow>
     q = GetKeyPackage u dev \<and> a = Done 200 (KeyPackageBody (EncodeToString StdEncoding b))"

lemma run_site_gains:
  assumes "run_site q s = (r, s')" and "\<And>d res d'. q d = (res, d') \<Longrightarrow> gains u dev b n d d'"
  shows "gains u dev b n (db_of s) (db_of s')"
  using assms(1) by (auto simp: run_site_def run_chat_def split: prod.splits dest: assms(2))

lemma uploadKeyPackages_gains:
  assumes "uploadKeyPackages A now v body s = (a, s')"
    and "\<not> sends_last_resort u dev b v (PostKeyPackages body)"
  shows "gains u dev b (sent u dev b v (PostKeyPackages body)) (db_of s) (db_of s')"
proof (cases body)
  case None
  with assms(1) show ?thesis by (simp add: uploadKeyPackages_def gains_same)
next
  case (Some req)
  let ?dv = "TrimSpace (uk_DeviceID req)"
  let ?n = "if v = u \<and> ?dv = dev then count_list (uk_KeyPackages req) b else 0"
  from assms(1) Some consider "site s' = site s"
    | k r s1 where "uk_LastResort req" "uk_KeyPackages req = [k]"
        "run_site (InsertMLSLastResortKeyPackage v ?dv k) s = (r, s1)" "site s' = site s1"
    | r s1 where "run_site (InsertMLSKeyPackages v ?dv (uk_KeyPackages req) (uk_ExpiresAt req)) s = (r, s1)"
        "site s' = site s1"
    by (fastforce simp: uploadKeyPackages_def Let_def length_Suc_conv
        split: option.splits if_splits prod.splits sum.splits)
  then have "gains u dev b ?n (db_of s) (db_of s')"
  proof cases
    case 1
    then show ?thesis by (simp add: gains_same)
  next
    case 2
    with assms(2) Some have "\<not> (v = u \<and> ?dv = dev \<and> k = b)" by (auto simp: sends_last_resort_def)
    then have "gains u dev b 0 (db_of s) (db_of s1)"
      by (intro run_site_gains [OF 2(3)] InsertMLSLastResort_gains)
    with 2(4) show ?thesis by (auto intro: gains_mono)
  next
    case 3
    have "gains u dev b ?n (db_of s) (db_of s1)"
      by (rule run_site_gains [OF 3(1)]) (rule InsertMLSKeyPackages_gains)
    with 3(2) show ?thesis by simp
  qed
  with Some show ?thesis by (simp add: sent_def)
qed

lemma on_site_R: "on_site f s = Some (a, s') \<Longrightarrow> (\<And>w'. f (site s) = (a, w') \<Longrightarrow> P (cdb w')) \<Longrightarrow> P (db_of s')"
  by (auto simp: on_site_def split: prod.splits)

lemma on_hub_R: "on_hub f s = Some (a, s') \<Longrightarrow> (\<And>w'. f (site s) = Some (a, w') \<Longrightarrow> P (cdb w')) \<Longrightarrow> P (db_of s')"
  by (auto simp: on_hub_def)

lemma MLSRoutes_gains:
  assumes "MLSRoutes E v dv q s = Some (a, s')" and "\<not> sends_last_resort u dev b v q"
  shows "gains u dev b (sent u dev b v q) (db_of s) (db_of s')"
proof (cases "\<exists>body. q = PostKeyPackages body")
  case True
  with assms show ?thesis by (auto intro: uploadKeyPackages_gains)
next
  case False
  then have [simp]: "sent u dev b v q = 0" by (cases q) (auto simp: sent_def)
  have "no_gain u dev b (db_of s) (db_of s')"
  proof (cases q)
    case (PostCredentials body)
    with assms(1) show ?thesis by (auto intro: shelf.uploadCredential_R shelf_readers)
  next
    case (PostKeyPackages body)
    with False show ?thesis by simp
  next
    case (GetKeyPackage w dw)
    with assms(1) show ?thesis by (auto elim!: on_hub_R intro: shelf.consumeKeyPackage_R shelf_readers shelf_consume)
  next
    case (PostCommit ch t body)
    with assms(1) show ?thesis by (auto elim!: on_hub_R intro: shelf.postCommit_R shelf_readers)
  next
    case (PutGroupInfo ch t body)
    with assms(1) show ?thesis by (auto elim!: on_site_R intro: shelf.putGroupInfo_R shelf_readers)
  next
    case (PutGuildInfo g body)
    with assms(1) show ?thesis by (auto elim!: on_site_R intro: shelf.guild_R shelf_readers)
  next
    case (DeleteGuildInfo g)
    with assms(1) show ?thesis by (auto elim!: on_site_R intro: shelf.guild_R shelf_readers)
  qed (use assms(1) in \<open>auto elim!: on_site_R intro: shelf.reader_R shelf_readers\<close>)
  then show ?thesis by (simp add: gains_0)
qed

lemma consume_hands_out:
  assumes "consumeKeyPackage ok u dev w = Some (Done 200 (KeyPackageBody (EncodeToString StdEncoding b)), w')"
    and "\<not> last_resort u dev b (cdb w)"
  shows "stock u dev b (cdb w') < stock u dev b (cdb w)"
proof -
  from assms(1) obtain kp w1 where c: "run_chat (ConsumeMLSKeyPackage u dev) w = (Inr (Some kp), w1)"
      "maybeSendKeyPackagesLow u dev w1 = Some w'"
      "EncodeToString StdEncoding kp = EncodeToString StdEncoding b"
    by (auto simp: consumeKeyPackage_def split: if_splits prod.splits sum.splits option.splits Option.bind_splits)
  then have "kp = b" by (metis base64_roundtrip option.inject)
  with c(1) have q: "ConsumeMLSKeyPackage u dev (cdb w) = (Inr (Some b), cdb w1)"
    by (auto simp: run_chat_def split: prod.splits)
  then have less: "stock u dev b (cdb w1) < stock u dev b (cdb w)"
  proof (cases rule: ConsumeMLSKeyPackage_cases)
    case (sold r t)
    then show ?thesis unfolding stock_def sold(4)
      by (intro sql_count_update_less [of r]) (auto simp: usable_kp_def in_stock_def)
  next
    case (lent r)
    with assms(2) show ?thesis by (auto simp: last_resort_def last_resort_row_def)
  qed simp
  have "no_gain u dev b (cdb w1) (cdb w')"
    by (rule shelf.maybeSendKeyPackagesLow_R [OF c(2)]) (rule shelf_readers)
  with less show ?thesis by (simp add: no_gain_def)
qed

lemma MLSRoutes_hands_out:
  assumes "MLSRoutes E v dv q s = Some (a, s')" and "hands_out u dev b q a"
    and "\<not> last_resort u dev b (db_of s)"
  shows "stock u dev b (db_of s') < stock u dev b (db_of s)"
  using assms by (auto simp: hands_out_def elim!: on_hub_R intro: consume_hands_out)

text \<open>
  C16. A key package is handed out once. Over any sequence of MLS requests, of any users,
  bytes \<open>b\<close> that are no last-resort package of the device are answered to \<open>GET
  /key-packages/u/dev\<close> at most as often as they were in stock before, plus once for every
  copy that the user \<open>u\<close> itself uploaded for the device meanwhile.
\<close>

theorem key_package_handed_out_once:
  assumes "serve_mls E reqs s = Some (as, s')"
    and "\<not> last_resort u dev b (db_of s)"
    and "\<forall>(now, v, dv, q) \<in> set reqs. \<not> sends_last_resort u dev b v q"
  shows "length (filter (\<lambda>((now, v, dv, q), a). hands_out u dev b q a) (zip reqs as)) + stock u dev b (db_of s')
    \<le> stock u dev b (db_of s) + sum_list (map (\<lambda>(now, v, dv, q). sent u dev b v q) reqs)"
  using assms
proof (induction reqs arbitrary: s as)
  case Nil
  then show ?case by simp
next
  case (Cons x reqs)
  obtain now v dv q where x: "x = (now, v, dv, q)" by (cases x)
  with Cons.prems(1) obtain a s1 as1 where m: "MLSRoutes (E\<lparr>me_now := now\<rparr>) v dv q s = Some (a, s1)"
    and r: "serve_mls E reqs s1 = Some (as1, s')" and as: "as = a # as1"
    by (auto split: Option.bind_splits)
  have g: "gains u dev b (sent u dev b v q) (db_of s) (db_of s1)"
    by (rule MLSRoutes_gains [OF m]) (use Cons.prems(3) x in simp)
  then have "\<not> last_resort u dev b (db_of s1)" using Cons.prems(2) by (simp add: gains_def)
  with Cons.IH [OF r] Cons.prems(3)
  have ih: "length (filter (\<lambda>((now, v, dv, q), a). hands_out u dev b q a) (zip reqs as1)) + stock u dev b (db_of s')
    \<le> stock u dev b (db_of s1) + sum_list (map (\<lambda>(now, v, dv, q). sent u dev b v q) reqs)" by simp
  show ?case
  proof (cases "hands_out u dev b q a")
    case True
    with MLSRoutes_hands_out [OF m] Cons.prems(2) have "stock u dev b (db_of s1) < stock u dev b (db_of s)" by simp
    with ih x as True show ?thesis by simp
  next
    case False
    with ih g x as show ?thesis by (simp add: gains_def)
  qed
qed

text \<open>A device uploads a package; two peers ask for one.\<close>

definition toy_mls :: mls_env where
  "toy_mls = \<lparr>me_auth = toy_auth, me_now = 0, uuid_ok = (\<lambda>_. True)\<rparr>"

definition toy_app :: app where
  "toy_app = \<lparr>accounts = toy_state\<lparr>tlog := None\<rparr>, site = toy_world\<rparr>"

definition toy_requests :: "(time \<times> string \<times> string \<times> mls_request) list" where
  "toy_requests =
     [(0, ''v'', ''d'', PostKeyPackages (Some \<lparr>uk_DeviceID = ''d'', uk_KeyPackages = [[1]],
         uk_ExpiresAt = 100, uk_LastResort = False, uk_Ciphersuite = 77\<rparr>)),
      (1, ''u'', ''d'', GetKeyPackage ''v'' ''d''), (2, ''u'', ''d'', GetKeyPackage ''v'' ''d'')]"

lemma toy_served:
  "map_option fst (serve_mls toy_mls toy_requests toy_app) =
     Some [Done 204 NoContent, Done 200 (KeyPackageBody ''AQ==''),
           Fail 404 ''no key package available'']"
proof -
  have t: "TrimSpace ''d'' = ''d''" by (simp add: TrimSpace_id visible_def)
  have e: "EncodeToString StdEncoding [1] = ''AQ==''" by code_simp
  show ?thesis
    by (simp add: toy_requests_def toy_app_def toy_mls_def uploadKeyPackages_def t e validateMLSCiphersuiteHTTP_def
        CurrentMLSCiphersuite_def maxKeyPackagesPerUpload_def zero_time_def run_site_def run_chat_def toy_world_def
        toy_db_def InsertMLSKeyPackages_def in_tx_def insert_key_package_def chat_query_def chat_read_def Let_def
        sql_exists_def log_key_event_def toy_state_def on_hub_def consumeKeyPackage_def ConsumeMLSKeyPackage_def
        usable_kp_def sql_update_def maybeSendKeyPackagesLow_def CountUnusedMLSKeyPackages_def sql_count_def
        KeyPackageLowThreshold_def run_hub_def BroadcastToUser_def toy_hub_def client_at_def NewClient_def
        last_resort_row_def)
qed

lemma key_package_handed_out_once_witness:
  "\<exists>as s'. serve_mls toy_mls toy_requests toy_app = Some (as, s') \<and>
     length (filter (\<lambda>((now, v, dv, q), a). hands_out ''v'' ''d'' [1] q a) (zip toy_requests as)) = 1 \<and>
     stock ''v'' ''d'' [1] (db_of s') = 0"
proof -
  obtain as s' where s: "serve_mls toy_mls toy_requests toy_app = Some (as, s')"
    and as: "as = [Done 204 NoContent, Done 200 (KeyPackageBody ''AQ==''),
           Fail 404 ''no key package available'']"
    using toy_served by auto
  have d: "cd_key_packages (db_of toy_app) = []"
    by (simp add: toy_app_def toy_world_def toy_db_def)
  have t: "TrimSpace ''d'' = ''d''" by (simp add: TrimSpace_id visible_def)
  have e: "EncodeToString StdEncoding [1] = ''AQ==''" by code_simp
  have "length (filter (\<lambda>((now, v, dv, q), a). hands_out ''v'' ''d'' [1] q a) (zip toy_requests as))
      + stock ''v'' ''d'' [1] (db_of s')
    \<le> stock ''v'' ''d'' [1] (db_of toy_app) + sum_list (map (\<lambda>(now, v, dv, q). sent ''v'' ''d'' [1] v q) toy_requests)"
    by (rule key_package_handed_out_once [OF s])
       (auto simp: last_resort_def d toy_requests_def sends_last_resort_def)
  moreover have "length (filter (\<lambda>((now, v, dv, q), a). hands_out ''v'' ''d'' [1] q a) (zip toy_requests as)) = 1"
    by (simp add: toy_requests_def as hands_out_def e)
  moreover have "stock ''v'' ''d'' [1] (db_of toy_app) + sum_list (map (\<lambda>(now, v, dv, q). sent ''v'' ''d'' [1] v q) toy_requests) = 1"
    by (simp add: stock_def d sql_count_def toy_requests_def sent_def t)
  ultimately show ?thesis using s by auto
qed

section \<open>Catching up with the commit queue\<close>

definition commit_item :: "MLSCommitRow \<Rightarrow> int \<times> string \<times> string \<times> time" where
  "commit_item c = (cr_Epoch c, EncodeToString StdEncoding (cr_CommitBytes c), cr_SenderID c, cr_CreatedAt c)"

definition ordered_commits :: "string \<Rightarrow> chat_db \<Rightarrow> MLSCommitRow list" where
  "ordered_commits ch d = sort_key cr_Epoch (numbered_commits ch (cd_commits d))"

text \<open>A reader asks for the next page until it gets an empty one, at most \<open>n\<close> times.\<close>

fun catch_up ::
  "(string \<Rightarrow> bool) \<Rightarrow> string \<Rightarrow> string \<Rightarrow> nat \<Rightarrow> int \<Rightarrow> world \<Rightarrow> (int \<times> string \<times> string \<times> time) list \<times> world" where
  "catch_up ok ch l 0 e w = ([], w)"
| "catch_up ok ch l (Suc n) e w =
     (case getCommitsSinceEpoch ok ch (itoa e) l w of
        (Done _ (CommitsBody cs), w') \<Rightarrow>
          (if cs = [] then ([], w')
           else case catch_up ok ch l n (fst (last cs)) w' of (rest, w'') \<Rightarrow> (cs @ rest, w''))
      | (_, w') \<Rightarrow> ([], w'))"

lemma commits_limit_range: "1 \<le> commits_limit l \<and> commits_limit l \<le> commitsMaxLimit"
  by (auto simp: commits_limit_def commitsDefaultLimit_def commitsMaxLimit_def Let_def split: option.splits)

lemma getCommitsSinceEpoch_page:
  assumes "healthy (cdb w)" and "ok ch" and "- (2 ^ 63) \<le> e" and "e < 2 ^ 63"
  shows "getCommitsSinceEpoch ok ch (itoa e) l w =
     (Done 200 (CommitsBody (map commit_item (take (nat (commits_limit l))
        (filter (\<lambda>c. cr_Epoch c > e) (ordered_commits ch (cdb w)))))),
      w\<lparr>cdb := (cdb w)\<lparr>cd_tick := Suc (cd_tick (cdb w))\<rparr>\<rparr>)"
proof -
  from assms commits_limit_range [of l] show ?thesis
    by (simp add: getCommitsSinceEpoch_def Sscanf_itoa run_chat_def GetMLSCommitsSinceEpoch_def chat_query_def
        healthy_def Let_def ordered_commits_def commit_item_def [abs_def] filter_sort)
qed

lemma next_page:
  assumes "sorted (map f L)" and "distinct (map f L)" and "take k (filter (\<lambda>x. f x > (e :: int)) L) = cs" and "cs \<noteq> []"
  shows "filter (\<lambda>x. f x > e) L = cs @ filter (\<lambda>x. f x > f (last cs)) L"
proof -
  let ?P = "filter (\<lambda>x. f x > e) L"
  define ds where "ds = drop k ?P"
  have P: "?P = cs @ ds" using append_take_drop_id [of k ?P] unfolding assms(3) ds_def by simp
  have s: "sorted_wrt (<) (map f ?P)"
    using assms(1,2) by (simp add: strict_sorted_iff sorted_filter distinct_map_filter)
  obtain ys y where y: "cs = ys @ [y]" using assms(4) by (cases cs rule: rev_cases) auto
  have o: "(\<forall>x \<in> set ys. f x < f y) \<and> (\<forall>x \<in> set ds. f y < f x)"
    using s unfolding P y by (auto simp: sorted_wrt_append)
  have "y \<in> set ?P" unfolding P y by simp
  then have "e < f y" by simp
  then have "filter (\<lambda>x. f x > f y) L = filter (\<lambda>x. f x > f y) ?P"
    by (simp add: filter_filter) (rule filter_cong, auto)
  also have "\<dots> = filter (\<lambda>x. f x > f y) cs @ filter (\<lambda>x. f x > f y) ds"
    unfolding P by simp
  also have "\<dots> = ds"
    using o y by (auto simp: filter_empty_conv filter_id_conv)
  finally show ?thesis using P y by simp
qed

text \<open>One page: the request after epoch \<open>e\<close> yields the first commits past \<open>e\<close>, leaves the rows alone,
  and what lies past the page is what lies past its last epoch.\<close>

lemma catch_up_page:
  assumes "healthy (cdb w)" and "ok ch" and "- (2 ^ 63) \<le> e" and "e < 2 ^ 63"
    and "distinct (map cr_Epoch (numbered_commits ch (cd_commits (cdb w))))"
    and "filter (\<lambda>c. cr_Epoch c > e) (ordered_commits ch (cdb w)) \<noteq> []"
  shows "\<exists>cs. cs \<noteq> [] \<and> e < cr_Epoch (last cs) \<and> last cs \<in> set (numbered_commits ch (cd_commits (cdb w))) \<and>
    filter (\<lambda>c. cr_Epoch c > e) (ordered_commits ch (cdb w)) =
      cs @ filter (\<lambda>c. cr_Epoch c > cr_Epoch (last cs)) (ordered_commits ch (cdb w)) \<and>
    fst (catch_up ok ch l (Suc n) e w) = map commit_item cs @ fst (catch_up ok ch l n (cr_Epoch (last cs))
      (w\<lparr>cdb := (cdb w)\<lparr>cd_tick := Suc (cd_tick (cdb w))\<rparr>\<rparr>))"
proof -
  let ?L = "ordered_commits ch (cdb w)" and ?k = "nat (commits_limit l)"
  let ?w = "w\<lparr>cdb := (cdb w)\<lparr>cd_tick := Suc (cd_tick (cdb w))\<rparr>\<rparr>"
  define cs where "cs = take ?k (filter (\<lambda>c. cr_Epoch c > e) ?L)"
  have p: "getCommitsSinceEpoch ok ch (itoa e) l w = (Done 200 (CommitsBody (map commit_item cs)), ?w)"
    using getCommitsSinceEpoch_page [where ok = ok and ch = ch, OF assms(1-4)] by (simp add: cs_def)
  have some: "cs \<noteq> []" using assms(6) commits_limit_range [of l] by (simp add: cs_def)
  have "last cs \<in> set (filter (\<lambda>c. cr_Epoch c > e) ?L)"
    using some by (metis cs_def in_set_takeD last_in_set)
  then have e: "e < cr_Epoch (last cs)" "last cs \<in> set (numbered_commits ch (cd_commits (cdb w)))"
    by (simp_all add: ordered_commits_def)
  have "filter (\<lambda>c. cr_Epoch c > e) ?L = cs @ filter (\<lambda>c. cr_Epoch c > cr_Epoch (last cs)) ?L"
  proof (rule next_page)
    show "sorted (map cr_Epoch ?L)" by (simp add: ordered_commits_def)
    show "distinct (map cr_Epoch ?L)"
      using assms(5) by (metis distinct_sort mset_eq_imp_distinct_iff mset_map mset_sort ordered_commits_def)
    show "take ?k (filter (\<lambda>c. cr_Epoch c > e) ?L) = cs" by (simp add: cs_def)
  qed (rule some)
  moreover have "fst (last (map commit_item cs)) = cr_Epoch (last cs)"
    using some by (simp add: last_map commit_item_def)
  then have "fst (catch_up ok ch l (Suc n) e w) = map commit_item cs @ fst (catch_up ok ch l n (cr_Epoch (last cs)) ?w)"
    using p some by (simp split: prod.splits)
  ultimately show ?thesis using some e by blast
qed


definition toy_commit :: "string \<Rightarrow> int \<Rightarrow> MLSCommit" where
  "toy_commit i e = \<lparr>co_ID = i, co_ChannelID = ''k'', co_Epoch = e, co_Bytes = [1], co_SenderID = ''u'',
     co_CreatedAt = 10 - e, co_Ciphersuite = 77\<rparr>"

definition commits_world :: world where
  "commits_world = toy_world\<lparr>cdb := toy_db\<lparr>cd_commits := [toy_commit ''2'' 2, toy_commit ''1'' 1]\<rparr>\<rparr>"

lemma toy_numbered:
  "map cr_Epoch (numbered_commits ''k'' [toy_commit ''2'' 2, toy_commit ''1'' 1]) = [2, 1]"
  by (simp add: numbered_commits_def toy_commit_def CurrentMLSCiphersuite_def)

lemma toy_ordered: "map cr_Epoch (ordered_commits ''k'' (cdb commits_world)) = [1, 2]"
  by (simp add: ordered_commits_def numbered_commits_def toy_commit_def CurrentMLSCiphersuite_def
      commits_world_def toy_world_def)


section \<open>Who may change what\<close>

text \<open>
  \<open>mls_kept u G D\<close>: what requests of user \<open>u\<close> leave alone, when \<open>u\<close> may write the metadata of
  the guilds \<open>G\<close> and delete those of the guilds \<open>D\<close>.
\<close>

definition guild_blob :: "chat_db \<Rightarrow> string \<Rightarrow> GroupInfo list" where
  "guild_blob d g = filter (\<lambda>r. gi_ChannelID r = None \<and> gi_ServerID r = Some g) (cd_group_info d)"

definition packages_of :: "chat_db \<Rightarrow> string \<Rightarrow> KeyPackage list" where
  "packages_of d v = map (\<lambda>r. r\<lparr>kp_ConsumedAt := None\<rparr>) (filter (\<lambda>r. kp_UserID r = v) (cd_key_packages d))"

definition credentials_of :: "chat_db \<Rightarrow> string \<Rightarrow> MLSCredential list" where
  "credentials_of d v = filter (\<lambda>r. mc_UserID r = v) (cd_credentials d)"

definition outside_mls :: "chat_db \<Rightarrow> chat_db" where
  "outside_mls d = d\<lparr>cd_credentials := [], cd_key_packages := [], cd_group_info := [], cd_commits := [],
     cd_welcomes := [], cd_tick := 0\<rparr>"

definition mls_kept :: "string \<Rightarrow> string set \<Rightarrow> string set \<Rightarrow> chat_db \<Rightarrow> chat_db \<Rightarrow> bool" where
  "mls_kept u G D d d' \<longleftrightarrow>
     outside_mls d' = outside_mls d \<and>
     (\<forall>v. v \<noteq> u \<longrightarrow> credentials_of d' v = credentials_of d v \<and> packages_of d' v = packages_of d v) \<and>
     (\<forall>g. g \<notin> G \<and> g \<notin> D \<longrightarrow> guild_blob d' g = guild_blob d g) \<and>
     (\<forall>g. g \<notin> D \<longrightarrow> guild_blob d g \<noteq> [] \<longrightarrow> guild_blob d' g \<noteq> [])"

interpretation mls_guard: tick_frame "mls_kept u G D" for u G D
  by unfold_locales (auto simp: mls_kept_def outside_mls_def credentials_of_def packages_of_def guild_blob_def)

lemma filter_sql_update_other:
  "(\<And>r. q r \<Longrightarrow> \<not> p r) \<Longrightarrow> (\<And>r. p r \<Longrightarrow> \<not> q (f r)) \<Longrightarrow> filter q (sql_update p f rs) = filter q rs"
  by (induction rs) (auto simp: sql_update_def)

lemma filter_sql_delete_other: "(\<And>r. q r \<Longrightarrow> \<not> p r) \<Longrightarrow> filter q (sql_delete p rs) = filter q rs"
  by (induction rs) (auto simp: sql_delete_def)

lemma filter_sql_update_same:
  "(\<And>r. q (f r) = q r) \<Longrightarrow> (\<And>r. g (f r) = g r) \<Longrightarrow> map g (filter q (sql_update p f rs)) = map g (filter q rs)"
  by (induction rs) (auto simp: sql_update_def)

lemmas kept_defs = mls_kept_def outside_mls_def credentials_of_def packages_of_def guild_blob_def

lemma guard_queries:
  "mls_guard.keeps u G D (CountUnusedMLSKeyPackages v dv)" "mls_guard.keeps u G D (GetMLSGroupInfo ch t)"
  "mls_guard.keeps u G D (GetMLSCommitsSinceEpoch ch e n)" "mls_guard.keeps u G D (GetPendingWelcomes v)"
  "mls_guard.keeps u G D (DeletePendingWelcome i)" "mls_guard.keeps u G D (GetMLSGuildMetadataGroupInfo g)"
  "mls_guard.keeps u G D (GetServerMemberLevel g v)" "mls_guard.keeps u G D (AppendMLSCommit ch e bs v)"
  unfolding CountUnusedMLSKeyPackages_def GetMLSGroupInfo_def GetMLSCommitsSinceEpoch_def GetPendingWelcomes_def
    DeletePendingWelcome_def GetMLSGuildMetadataGroupInfo_def GetServerMemberLevel_def
    AppendMLSCommit_def chat_read_def
  by (rule mls_guard.keeps_query, simp add: kept_defs Let_def split: option.splits)+

lemma guard_credential: "mls_guard.keeps u G D (UpsertMLSCredential u dv c k ver)"
  unfolding UpsertMLSCredential_def
  by (rule mls_guard.keeps_query) (auto simp: kept_defs Let_def mc_is_def intro!: filter_sql_update_other)

lemma channel_update_other:
  "(\<And>r. gi_ChannelID (f r) = gi_ChannelID r) \<Longrightarrow>
   filter (\<lambda>r. gi_ChannelID r = None \<and> gi_ServerID r = Some g) (sql_update (gi_channel ch t) f rs) =
   filter (\<lambda>r. gi_ChannelID r = None \<and> gi_ServerID r = Some g) rs"
  by (intro filter_sql_update_other) (auto simp: gi_channel_def)

lemma guard_group_info: "mls_guard.keeps u G D (UpsertMLSGroupInfo ch t bs e)"
  unfolding UpsertMLSGroupInfo_def by (rule mls_guard.keeps_query) (simp add: kept_defs channel_update_other)

lemma guild_update_other:
  "h \<noteq> g \<Longrightarrow> (\<And>r. gi_ServerID (f r) = gi_ServerID r) \<Longrightarrow>
   filter (\<lambda>r. gi_ChannelID r = None \<and> gi_ServerID r = Some h) (sql_update (gi_guild g) f rs) =
   filter (\<lambda>r. gi_ChannelID r = None \<and> gi_ServerID r = Some h) rs"
  by (intro filter_sql_update_other) (auto simp: gi_guild_def)

lemma guild_delete_other:
  "h \<noteq> g \<Longrightarrow> filter (\<lambda>r. gi_ChannelID r = None \<and> gi_ServerID r = Some h) (sql_delete (gi_guild g) rs) =
   filter (\<lambda>r. gi_ChannelID r = None \<and> gi_ServerID r = Some h) rs"
  by (intro filter_sql_delete_other) (auto simp: gi_guild_def)

lemma guild_update_empty:
  "(\<And>r. gi_ServerID (f r) = gi_ServerID r) \<Longrightarrow> (\<And>r. gi_ChannelID (f r) = gi_ChannelID r) \<Longrightarrow>
   filter (\<lambda>r. gi_ChannelID r = None \<and> gi_ServerID r = Some h) (sql_update p f rs) = [] \<longleftrightarrow>
   filter (\<lambda>r. gi_ChannelID r = None \<and> gi_ServerID r = Some h) rs = []"
  by (induction rs) (auto simp: sql_update_def)

lemma guard_guild_put: "g \<in> G \<Longrightarrow> mls_guard.keeps u G D (UpsertMLSGuildMetadataGroupInfo g bs e)"
  unfolding UpsertMLSGuildMetadataGroupInfo_def
proof (rule mls_guard.keeps_query)
  fix now uuid d
  assume g: "g \<in> G"
  then have o: "h \<notin> G \<Longrightarrow> h \<noteq> g" for h by auto
  show "mls_kept u G D d (snd (if sql_exists (gi_guild g) (cd_group_info d)
     then (Inr (), d\<lparr>cd_group_info := sql_update (gi_guild g)
            (\<lambda>r. r\<lparr>gi_Bytes := bs, gi_Epoch := e, gi_UpdatedAt := now\<rparr>) (cd_group_info d)\<rparr>)
     else if \<not> sql_exists (\<lambda>s. sv_ID s = g) (cd_servers d) then (Inl DbForeignKey, d)
     else (Inr (), d\<lparr>cd_group_info := cd_group_info d @
            [\<lparr>gi_ChannelID = None, gi_ServerID = Some g, gi_GroupType = ''metadata'',
              gi_Bytes = bs, gi_Epoch = e, gi_Ciphersuite = CurrentMLSCiphersuite,
              gi_UpdatedAt = now\<rparr>]\<rparr>)))"
    using g by (simp add: kept_defs guild_update_other o guild_update_empty)
qed

lemma guard_guild_delete: "g \<in> D \<Longrightarrow> mls_guard.keeps u G D (DeleteMLSGuildMetadataGroupInfo g)"
  unfolding DeleteMLSGuildMetadataGroupInfo_def
proof (rule mls_guard.keeps_query)
  fix now :: time and uuid :: string and d
  assume "g \<in> D"
  then have o: "h \<notin> D \<Longrightarrow> h \<noteq> g" for h by auto
  show "mls_kept u G D d (snd (Inr (), d\<lparr>cd_group_info := sql_delete (gi_guild g) (cd_group_info d)\<rparr>))"
    by (simp add: kept_defs guild_delete_other o)
qed

section \<open>Key packages of others\<close>

lemma guard_insert: "mls_kept u G D d (snd (insert_key_package u dv k lr e d))"
proof -
  have "mls_guard.keeps u G D (insert_key_package u dv k lr e)"
    unfolding insert_key_package_def by (rule mls_guard.keeps_query) (simp add: kept_defs)
  then show ?thesis by (simp add: mls_guard.keeps_def)
qed

lemma guard_batch: "mls_kept u G D d (snd (insert_batch u dv ks e d))"
proof (induction ks arbitrary: d)
  case (Cons k ks)
  have i: "mls_kept u G D d (snd (insert_key_package u dv k False e d))" by (rule guard_insert)
  then show ?case using Cons.IH mls_guard.trans
    by (cases "insert_key_package u dv k False e d") (auto split: sum.splits)
qed simp

lemma last_resort_delete_other:
  "v \<noteq> u \<Longrightarrow> filter (\<lambda>r. kp_UserID r = v) (sql_delete (last_resort_row u dv) rs) = filter (\<lambda>r. kp_UserID r = v) rs"
  by (intro filter_sql_delete_other) (auto simp: last_resort_row_def)

lemma guard_uploads:
  "mls_guard.keeps u G D (InsertMLSKeyPackages u dv ks e)"
  "mls_guard.keeps u G D (InsertMLSLastResortKeyPackage u dv k)"
proof -
  show "mls_guard.keeps u G D (InsertMLSKeyPackages u dv ks e)"
    unfolding InsertMLSKeyPackages_def by (rule mls_guard.keeps_tx) (simp add: mls_guard.keeps_def guard_batch)
  have clear: "mls_guard.keeps u G D (chat_query (\<lambda>_ _ d. (Inr (), d\<lparr>cd_key_packages :=
            sql_delete (last_resort_row u dv) (cd_key_packages d)\<rparr>)))"
    by (rule mls_guard.keeps_query) (simp add: kept_defs last_resort_delete_other)
  show "mls_guard.keeps u G D (InsertMLSLastResortKeyPackage u dv k)"
    unfolding InsertMLSLastResortKeyPackage_def
  proof (rule mls_guard.keeps_tx, unfold mls_guard.keeps_def, rule allI)
    fix d
    let ?q = "chat_query (\<lambda>_ _ d. (Inr (), d\<lparr>cd_key_packages :=
            sql_delete (last_resort_row u dv) (cd_key_packages d)\<rparr>)) d"
    have "mls_kept u G D d (snd ?q)" using clear by (simp add: mls_guard.keeps_def)
    then show "mls_kept u G D d (snd (case ?q of (Inl e, d) \<Rightarrow> (Inl e, d)
        | (Inr _, d) \<Rightarrow> insert_key_package u dv k True farFuture d))"
      using guard_insert mls_guard.trans by (cases ?q) (auto split: sum.splits)
  qed
qed

lemma guard_consume: "mls_guard.keeps u G D (ConsumeMLSKeyPackage v dv)"
proof -
  have "mls_kept u G D d (snd (ConsumeMLSKeyPackage v dv d))" for d
  proof -
    obtain res d' where c: "ConsumeMLSKeyPackage v dv d = (res, d')" by fastforce
    from c have o: "outside_mls d' = outside_mls d \<and> cd_credentials d' = cd_credentials d \<and> cd_group_info d' = cd_group_info d"
      by (auto simp: ConsumeMLSKeyPackage_def chat_query_def chat_read_def outside_mls_def Let_def
          split: if_splits option.splits)
    from c have "packages_of d' w = packages_of d w" for w
    proof (cases rule: ConsumeMLSKeyPackage_cases)
      case (sold r t)
      then show ?thesis by (simp add: packages_of_def filter_sql_update_same)
    qed (simp_all add: packages_of_def)
    with o c show ?thesis by (simp add: mls_kept_def credentials_of_def guild_blob_def)
  qed
  then show ?thesis by (simp add: mls_guard.keeps_def)
qed

lemmas guards = guard_queries guard_credential guard_group_info guard_guild_put guard_guild_delete
  guard_uploads guard_consume

lemma member_level:
  "fst (GetServerMemberLevel g u d) = Inr level \<Longrightarrow>
   \<exists>m \<in> set (cd_members d). sm_ServerID m = g \<and> sm_UserID m = Some u \<and> sm_PermissionLevel m = level"
  by (auto simp: GetServerMemberLevel_def chat_query_def Let_def split: if_splits option.splits
      dest!: find_Some_iff_mem)

definition guilds_with :: "int \<Rightarrow> string \<Rightarrow> chat_db \<Rightarrow> string set" where
  "guilds_with level u d = {sm_ServerID m | m. m \<in> set (cd_members d) \<and> sm_UserID m = Some u \<and> sm_PermissionLevel m \<ge> level}"

lemma guilds_withI: "fst (GetServerMemberLevel g u d) = Inr l \<Longrightarrow> l \<ge> level \<Longrightarrow> g \<in> guilds_with level u d"
  by (auto simp: guilds_with_def dest!: member_level)


definition toy_group_info :: put_group_info where
  "toy_group_info = \<lparr>pg_GroupInfo = ''AQ=='', pg_Epoch = 1, pg_Ciphersuite = 77\<rparr>"

lemma toy_put_guild:
  "\<exists>s'. MLSRoutes toy_mls ''v'' ''d'' (PutGuildInfo ''g'' (Some toy_group_info)) toy_app =
     Some (Fail 403 ''guild membership required'', s')"
  by (simp add: on_site_def toy_app_def toy_mls_def putGuildGroupInfo_def run_chat_def GetServerMemberLevel_def
      chat_query_def toy_world_def toy_db_def Let_def)


section \<open>What the commit endpoint checks\<close>

definition stored_group_info :: "chat_db \<Rightarrow> string \<Rightarrow> string \<Rightarrow> (bytes \<times> int) option" where
  "stored_group_info d ch t = map_option (\<lambda>r. (gi_Bytes r, gi_Epoch r)) (find (gi_channel ch t) (cd_group_info d))"

definition commit_row :: "chat_db \<Rightarrow> string \<Rightarrow> int \<Rightarrow> bytes \<Rightarrow> string \<Rightarrow> MLSCommit" where
  "commit_row d ch e b u = \<lparr>co_ID = cd_uuid d (cd_tick d), co_ChannelID = ch, co_Epoch = e, co_Bytes = b,
     co_SenderID = u, co_CreatedAt = cd_clock d (cd_tick d), co_Ciphersuite = CurrentMLSCiphersuite\<rparr>"

lemma suite_ok [simp]: "validateMLSCiphersuiteHTTP CurrentMLSCiphersuite = None"
  by (simp add: validateMLSCiphersuiteHTTP_def CurrentMLSCiphersuite_def)

lemma find_sql_update:
  "(\<And>r. p (f r) = p r) \<Longrightarrow> find p (sql_update p f rs) = map_option f (find p rs)"
  by (induction rs) (auto simp: sql_update_def)

lemma UpsertMLSGroupInfo_stores:
  assumes "\<not> cd_fault d (cd_tick d)" and "ch \<in> ch_ID ` set (cd_channels d)" and "t \<in> {''text'', ''voice''}"
  obtains d' where "UpsertMLSGroupInfo ch t b e d = (Inr (), d')" and "stored_group_info d' ch t = Some (b, e)"
    and "cd_commits d' = cd_commits d" and "cd_tick d' = Suc (cd_tick d)" and "cd_fault d' = cd_fault d"
    and "cd_users d' = cd_users d" and "cd_channels d' = cd_channels d" and "cd_uuid d' = cd_uuid d"
    and "cd_clock d' = cd_clock d"
proof (cases "sql_exists (gi_channel ch t) (cd_group_info d)")
  case True
  let ?d = "d\<lparr>cd_tick := Suc (cd_tick d), cd_group_info := sql_update (gi_channel ch t)
    (\<lambda>r. r\<lparr>gi_Bytes := b, gi_Epoch := e, gi_UpdatedAt := cd_clock d (cd_tick d)\<rparr>) (cd_group_info d)\<rparr>"
  have "UpsertMLSGroupInfo ch t b e d = (Inr (), ?d)"
    using assms True by (auto simp: UpsertMLSGroupInfo_def chat_query_def Let_def)
  moreover have "find (gi_channel ch t) (cd_group_info d) \<noteq> None"
    using True by (auto simp: find_None_iff sql_exists_iff)
  then have "stored_group_info ?d ch t = Some (b, e)"
    by (auto simp: stored_group_info_def find_sql_update gi_channel_def)
  ultimately show ?thesis by (rule that) simp_all
next
  case False
  let ?r = "\<lparr>gi_ChannelID = Some ch, gi_ServerID = None, gi_GroupType = t, gi_Bytes = b, gi_Epoch = e,
    gi_Ciphersuite = CurrentMLSCiphersuite, gi_UpdatedAt = cd_clock d (cd_tick d)\<rparr>"
  let ?d = "d\<lparr>cd_tick := Suc (cd_tick d), cd_group_info := cd_group_info d @ [?r]\<rparr>"
  have "sql_exists (\<lambda>c. ch_ID c = ch) (cd_channels d)" using assms(2) by (auto simp: sql_exists_iff)
  then have "UpsertMLSGroupInfo ch t b e d = (Inr (), ?d)"
    using assms False by (auto simp: UpsertMLSGroupInfo_def chat_query_def Let_def)
  moreover have "find (gi_channel ch t) (cd_group_info d) = None"
    using False by (auto simp: find_None_iff sql_exists_iff)
  then have "stored_group_info ?d ch t = Some (b, e)"
    by (auto simp: stored_group_info_def find_append gi_channel_def)
  ultimately show ?thesis by (rule that) simp_all
qed

text \<open>
  What posting a commit takes and does. Any authenticated user, member of the guild or not,
  replaces the group information of a channel and queues its bytes as a commit, which every
  subscriber is sent. The two writes are not one transaction: when the second fails, the
  answer is an error, the new group information stays and no commit leads to it.
\<close>

theorem post_commit_effect:
  fixes w :: world
  defines "d \<equiv> cdb w"
  assumes "hub_reachable (hub w)" and "\<forall>i \<in> set (subscribers ch (channels (hub w))). i \<noteq> [] \<and> \<not> cl_closed (client w i)"
    and "ok ch" and "u \<noteq> []" and "u \<in> set (cd_users d)" and "ch \<in> ch_ID ` set (cd_channels d)"
    and "pc_CommitBytes req \<noteq> []" and "DecodeString StdEncoding (pc_CommitBytes req) = Some cb"
    and "pc_GroupInfo req \<noteq> []" and "DecodeString StdEncoding (pc_GroupInfo req) = Some gb"
    and "pc_Ciphersuite req = CurrentMLSCiphersuite" and "\<not> cd_fault d (cd_tick d)"
    and "\<forall>r \<in> set (cd_commits d). co_ID r \<noteq> cd_uuid d (Suc (cd_tick d))"
  shows "\<exists>a w'. postCommit ok u dev ch t (Some req) w = Some (a, w') \<and>
    stored_group_info (cdb w') ch (resolveGroupType t) = Some (gb, pc_Epoch req) \<and>
    (if cd_fault d (Suc (cd_tick d))
     then a = Fail 500 ''failed to store commit'' \<and> cd_commits (cdb w') = cd_commits d \<and> hub w' = hub w
     else a = Done 204 NoContent \<and>
          cd_commits (cdb w') = cd_commits d @ [commit_row (later 1 d) ch (pc_Epoch req) cb u] \<and>
          (\<forall>i \<in> set (subscribers ch (channels (hub w))). queue (hub w') i = queue (hub w) i @
             queued (hub w) i (MLSCommitFrame ch (pc_Epoch req) (pc_CommitBytes req) u dev (resolveGroupType t))))"
proof -
  let ?t = "resolveGroupType t"
  let ?f = "MLSCommitFrame ch (pc_Epoch req) (pc_CommitBytes req) u dev ?t"
  have "?t \<in> {''text'', ''voice''}" by (simp add: resolveGroupType_def)
  with assms obtain d1 where u1: "UpsertMLSGroupInfo ch ?t gb (pc_Epoch req) d = (Inr (), d1)"
    and g1: "stored_group_info d1 ch ?t = Some (gb, pc_Epoch req)"
    and c1: "cd_commits d1 = cd_commits d" "cd_tick d1 = Suc (cd_tick d)" "cd_fault d1 = cd_fault d"
      "cd_users d1 = cd_users d" "cd_channels d1 = cd_channels d" "cd_uuid d1 = cd_uuid d" "cd_clock d1 = cd_clock d"
    by (elim UpsertMLSGroupInfo_stores [of d ch ?t])
  have gi: "commit_group_info ch ?t req w = (None, w\<lparr>cdb := d1\<rparr>)"
    using assms u1 by (simp add: commit_group_info_def run_chat_def d_def)
  let ?r = "commit_row (later 1 d) ch (pc_Epoch req) cb u"
  let ?d2 = "d1\<lparr>cd_tick := Suc (cd_tick d1), cd_commits := cd_commits d1 @ [?r]\<rparr>"
  obtain h where h: "Broadcast ch ?f [] (hub w) = Some h"
    "\<forall>i. queue h i = queue (hub w) i @ (if i \<in> set (subscribers ch (channels (hub w))) - {[]} then queued (hub w) i ?f else [])"
    using Broadcast_queue [of "hub w" ch ?f "[]", OF hub_reachable_ok [OF assms(2), THEN conjunct1]] assms by blast
  show ?thesis
  proof (cases "cd_fault d (Suc (cd_tick d))")
    case True
    then have "run_chat (AppendMLSCommit ch (pc_Epoch req) cb u) (w\<lparr>cdb := d1\<rparr>) =
      (Inl DbOutage, w\<lparr>cdb := d1\<lparr>cd_tick := Suc (cd_tick d1)\<rparr>\<rparr>)"
      by (simp add: run_chat_def AppendMLSCommit_def chat_query_def c1 Let_def)
    then have "postCommit ok u dev ch t (Some req) w =
        Some (Fail 500 ''failed to store commit'', w\<lparr>cdb := d1\<lparr>cd_tick := Suc (cd_tick d1)\<rparr>\<rparr>)"
      using assms gi by (simp add: postCommit_def)
    with True g1 c1 show ?thesis by (simp add: stored_group_info_def)
  next
    case False
    have "\<not> sql_exists (\<lambda>r. co_ID r = cd_uuid d (Suc (cd_tick d))) (cd_commits d)"
      "sql_exists (\<lambda>c. ch_ID c = ch) (cd_channels d)"
      using assms by (auto simp: sql_exists_iff)
    with False assms(6) have "run_chat (AppendMLSCommit ch (pc_Epoch req) cb u) (w\<lparr>cdb := d1\<rparr>) = (Inr (), w\<lparr>cdb := ?d2\<rparr>)"
      by (simp add: run_chat_def AppendMLSCommit_def chat_query_def c1 Let_def commit_row_def)
    then have "postCommit ok u dev ch t (Some req) w = Some (Done 204 NoContent, w\<lparr>cdb := ?d2, hub := h\<rparr>)"
      using assms gi h(1) by (simp add: postCommit_def run_hub_def)
    moreover have "stored_group_info ?d2 ch ?t = Some (gb, pc_Epoch req)"
      using g1 by (simp add: stored_group_info_def)
    ultimately show ?thesis using False h(2) assms(3) c1 by auto
  qed
qed

definition toy_post_commit :: post_commit where
  "toy_post_commit = \<lparr>pc_CommitBytes = ''AQ=='', pc_GroupInfo = ''Ag=='', pc_Epoch = 1, pc_Ciphersuite = 77\<rparr>"

text \<open>User \<open>v\<close> is no member of guild \<open>g\<close>, which owns channel \<open>k\<close>.\<close>

lemma post_commit_effect_witness:
  "\<not> channel_member toy_db ''k'' ''v'' \<and>
   (\<exists>w'. postCommit (\<lambda>_. True) ''v'' ''d'' ''k'' [] (Some toy_post_commit) toy_world = Some (Done 204 NoContent, w') \<and>
     stored_group_info (cdb w') ''k'' ''text'' = Some ([2], 1) \<and>
     cd_commits (cdb w') = [commit_row (later 1 toy_db) ''k'' 1 [1] ''v''])"
proof -
  have m: "\<not> channel_member toy_db ''k'' ''v''" by (simp add: channel_member_def toy_db_def)
  have b: "DecodeString StdEncoding ''AQ=='' = Some [1]" "DecodeString StdEncoding ''Ag=='' = Some [2]"
    by code_simp+
  have w: "hub toy_world = toy_hub" "cdb toy_world = toy_db" by (simp_all add: toy_world_def)
  have d: "''v'' \<in> set (cd_users toy_db)" "''k'' \<in> ch_ID ` set (cd_channels toy_db)" "cd_commits toy_db = []"
    "\<not> cd_fault toy_db n" for n
    by (simp_all add: toy_db_def)
  have c: "\<forall>i \<in> set (subscribers ''k'' (channels toy_hub)). i \<noteq> [] \<and> \<not> cl_closed (client_at toy_hub i)"
    by (simp add: toy_client toy_subscribers NewClient_def)
  have r: "pc_CommitBytes toy_post_commit = ''AQ==''" "pc_GroupInfo toy_post_commit = ''Ag==''"
    "pc_Epoch toy_post_commit = 1" "pc_Ciphersuite toy_post_commit = CurrentMLSCiphersuite"
    by (simp_all add: toy_post_commit_def CurrentMLSCiphersuite_def)
  show ?thesis
    using post_commit_effect [of toy_world "''k''" "\<lambda>_. True" "''v''" toy_post_commit "[1]" "[2]" "''d''" "[]",
        unfolded w r] m b c d toy_hub_reachable
    by (auto simp: resolveGroupType_def)
qed

end
