(* ===== verification/Guild_DB.thy ===== *)
theory Guild_DB
  imports Mls_DB
begin

text \<open>
  The remaining guild queries: \<open>internal/db/servers.go\<close>, \<open>channels.go\<close>, \<open>moderation.go\<close>,
  \<open>system_messages.go\<close> and the guild part of \<open>instance.go\<close>, with the cascades that the foreign
  keys of \<open>migrations/\<close> declare.
\<close>

section \<open>Deletion cascades\<close>

text \<open>
  Deleting a channel removes what refers to it; children of it lose their parent
  (\<open>ON DELETE SET NULL\<close>).
\<close>

definition drop_channels :: "(Channel \<Rightarrow> bool) \<Rightarrow> chat_db \<Rightarrow> chat_db" where
  "drop_channels p d =
     (let gone = map ch_ID (filter p (cd_channels d));
          d1 = drop_messages (\<lambda>m. ms_ChannelID m \<in> set gone) d
      in d1\<lparr>cd_channels := map (\<lambda>c. c\<lparr>ch_ParentID := (case ch_ParentID c of None \<Rightarrow> None
                               | Some i \<Rightarrow> if i \<in> set gone then None else Some i)\<rparr>)
                             (sql_delete p (cd_channels d1)),
            cd_markers := sql_delete (\<lambda>r. rm_ChannelID r \<in> set gone) (cd_markers d1),
            cd_group_info := sql_delete (\<lambda>r. case gi_ChannelID r of None \<Rightarrow> False | Some i \<Rightarrow> i \<in> set gone)
                               (cd_group_info d1),
            cd_commits := sql_delete (\<lambda>r. co_ChannelID r \<in> set gone) (cd_commits d1),
            cd_welcomes := sql_delete (\<lambda>r. pw_ChannelID r \<in> set gone) (cd_welcomes d1),
            cd_attachments := sql_delete (\<lambda>r. at_ChannelID r \<in> set gone) (cd_attachments d1)\<rparr>)"

definition drop_server :: "string \<Rightarrow> chat_db \<Rightarrow> chat_db" where
  "drop_server g d =
     (let d1 = drop_channels (\<lambda>c. ch_ServerID c = Some g) d
      in d1\<lparr>cd_servers := sql_delete (\<lambda>s. sv_ID s = g) (cd_servers d1),
            cd_members := sql_delete (\<lambda>m. sm_ServerID m = g) (cd_members d1),
            cd_bans := sql_delete (\<lambda>b. bn_ServerID b = Some g) (cd_bans d1),
            cd_mutes := sql_delete (\<lambda>m. mu_ServerID m = Some g) (cd_mutes d1),
            cd_audit := sql_delete (\<lambda>a. al_ServerID a = Some g) (cd_audit d1),
            cd_system := sql_delete (\<lambda>s. sy_ServerID s = g) (cd_system d1),
            cd_group_info := sql_delete (\<lambda>r. gi_ServerID r = Some g) (cd_group_info d1)\<rparr>)"

section \<open>Servers\<close>

definition CreateServer :: "bytes option \<Rightarrow> Server chat_op" where
  "CreateServer encryptedMetadata = chat_query (\<lambda>now uuid d.
     let s = new_server uuid now encryptedMetadata
     in if sql_exists (\<lambda>r. sv_ID r = uuid) (cd_servers d) then (Inl (DbUnique ''servers_pkey''), d)
        else (Inr s, d\<lparr>cd_servers := cd_servers d @ [s]\<rparr>))"

definition UpdateServerEncryptedMetadata :: "string \<Rightarrow> bytes option \<Rightarrow> unit chat_op" where
  "UpdateServerEncryptedMetadata serverID encryptedMetadata = chat_query (\<lambda>_ _ d.
     if sql_exists (\<lambda>s. sv_ID s = serverID) (cd_servers d)
     then (Inr (), d\<lparr>cd_servers := sql_update (\<lambda>s. sv_ID s = serverID)
            (\<lambda>s. s\<lparr>sv_EncryptedMetadata := encryptedMetadata\<rparr>) (cd_servers d)\<rparr>)
     else (Inl DbNoRows, d))"

definition GetServerByID :: "string \<Rightarrow> Server option chat_op" where
  "GetServerByID serverID = chat_read (\<lambda>_ d. find (\<lambda>s. sv_ID s = serverID) (cd_servers d))"

definition DeleteServer :: "string \<Rightarrow> unit chat_op" where
  "DeleteServer serverID = chat_query (\<lambda>_ _ d. (Inr (), drop_server serverID d))"

record GuildBillingStats =
  gb_ID :: string
  gb_MemberCount :: nat
  gb_StorageBytes :: int
  gb_MessageCount :: int
  gb_ActiveMembers30d :: int
  gb_LastActiveAt :: "time option"
  gb_CreatedAt :: time
  gb_MemberCapOverride :: "int option"

definition ListGuildBillingStats :: "GuildBillingStats list chat_op" where
  "ListGuildBillingStats = chat_read (\<lambda>_ d.
     map (\<lambda>s. \<lparr>gb_ID = sv_ID s, gb_MemberCount = sql_count (\<lambda>m. sm_ServerID m = sv_ID s) (cd_members d),
               gb_StorageBytes = sv_StorageBytes s, gb_MessageCount = sv_MessageCount s,
               gb_ActiveMembers30d = sv_ActiveMembers30d s, gb_LastActiveAt = sv_LastActiveAt s,
               gb_CreatedAt = sv_CreatedAt s, gb_MemberCapOverride = sv_MemberCapOverride s\<rparr>)
       (sort_key sv_CreatedAt (cd_servers d)))"

definition IncrementGuildMemberCount :: "string \<Rightarrow> int \<Rightarrow> unit chat_op" where
  "IncrementGuildMemberCount serverID delta = chat_query (\<lambda>_ _ d.
     (Inr (), d\<lparr>cd_servers := sql_update (\<lambda>s. sv_ID s = serverID)
        (\<lambda>s. s\<lparr>sv_MemberCount := sv_MemberCount s + delta\<rparr>) (cd_servers d)\<rparr>))"

definition UpdateGuildChannelCounts :: "string \<Rightarrow> unit chat_op" where
  "UpdateGuildChannelCounts serverID = chat_query (\<lambda>_ _ d.
     let n = (\<lambda>t. int (sql_count (\<lambda>c. ch_ServerID c = Some serverID \<and> ch_Type c = t) (cd_channels d)))
     in (Inr (), d\<lparr>cd_servers := sql_update (\<lambda>s. sv_ID s = serverID)
          (\<lambda>s. s\<lparr>sv_TextChannelCount := n ''text'', sv_VoiceChannelCount := n ''voice''\<rparr>) (cd_servers d)\<rparr>))"

definition CountOwnedServers :: "string \<Rightarrow> nat chat_op" where
  "CountOwnedServers userID = chat_read (\<lambda>_ d.
     length (filter (\<lambda>m. sm_UserID m = Some userID \<and> sm_PermissionLevel m = PermissionLevelOwner \<and>
                         sql_exists (\<lambda>s. sv_ID s = sm_ServerID m \<and> \<not> sv_IsDm s) (cd_servers d)) (cd_members d)))"

section \<open>Configuration and templates\<close>

definition GetInstancePolicy :: "GuildPolicy chat_op" where
  "GetInstancePolicy = chat_read (\<lambda>_ d. cd_policy d)"

definition GetServerTemplateByID :: "string \<Rightarrow> ServerTemplate chat_op" where
  "GetServerTemplateByID i = chat_query (\<lambda>_ _ d.
     case find (\<lambda>t. st_ID t = i) (cd_templates d) of None \<Rightarrow> (Inl DbNoRows, d) | Some t \<Rightarrow> (Inr t, d))"

definition GetDefaultServerTemplate :: "ServerTemplate option chat_op" where
  "GetDefaultServerTemplate = chat_read (\<lambda>_ d. find st_IsDefault (cd_templates d))"

section \<open>Channels\<close>

text \<open>A value out of the range of a 32-bit \<open>INT\<close>, like \<open>channels.position\<close>, is an error.\<close>

definition int4 :: "int \<Rightarrow> bool" where
  "int4 n \<longleftrightarrow> - (2 ^ 31) \<le> n \<and> n < 2 ^ 31"

definition UpdateServerMemberCapOverride :: "string \<Rightarrow> int option \<Rightarrow> unit chat_op" where
  "UpdateServerMemberCapOverride serverID cap = chat_query (\<lambda>_ _ d.
     if \<not> (case cap of None \<Rightarrow> True | Some n \<Rightarrow> int4 n) then (Inl DbCheck, d)
     else (Inr (), d\<lparr>cd_servers := sql_update (\<lambda>s. sv_ID s = serverID)
            (\<lambda>s. s\<lparr>sv_MemberCapOverride := cap\<rparr>) (cd_servers d)\<rparr>))"

definition channel_types :: "string set" where
  "channel_types = {''text'', ''voice'', ''category'', ''system''}"

definition CreateChannel :: "string \<Rightarrow> bytes option \<Rightarrow> string \<Rightarrow> string option \<Rightarrow> int \<Rightarrow> Channel chat_op" where
  "CreateChannel serverID encryptedMetadata channelType parentID position = chat_query (\<lambda>_ uuid d.
     let c = \<lparr>ch_ID = uuid, ch_ServerID = Some serverID, ch_EncryptedMetadata = encryptedMetadata,
              ch_Type = channelType, ch_ParentID = parentID, ch_Position = position\<rparr>
     in if channelType \<notin> channel_types \<or> \<not> int4 position then (Inl DbCheck, d)
        else if sql_exists (\<lambda>r. ch_ID r = uuid) (cd_channels d) then (Inl (DbUnique ''channels_pkey''), d)
        else if \<not> sql_exists (\<lambda>s. sv_ID s = serverID) (cd_servers d) \<or>
                (case parentID of None \<Rightarrow> False | Some i \<Rightarrow> \<not> sql_exists (\<lambda>r. ch_ID r = i) (cd_channels d))
        then (Inl DbForeignKey, d)
        else (Inr c, d\<lparr>cd_channels := cd_channels d @ [c]\<rparr>))"

definition ListChannels :: "string \<Rightarrow> Channel list chat_op" where
  "ListChannels serverID = chat_read (\<lambda>_ d.
     sort_key ch_Position (filter (\<lambda>c. ch_ServerID c = Some serverID) (cd_channels d)))"

definition GetChannelByTypeAndPosition :: "string \<Rightarrow> string \<Rightarrow> int \<Rightarrow> Channel option chat_op" where
  "GetChannelByTypeAndPosition serverID channelType position = chat_query (\<lambda>_ _ d.
     if \<not> int4 position then (Inl DbCheck, d)
     else (Inr (find (\<lambda>c. ch_ServerID c = Some serverID \<and> ch_Type c = channelType \<and> ch_Position c = position)
             (cd_channels d)), d))"

definition DeleteChannel :: "string \<Rightarrow> string \<Rightarrow> unit chat_op" where
  "DeleteChannel channelID serverID = chat_query (\<lambda>_ _ d.
     let hit = (\<lambda>c. ch_ID c = channelID \<and> ch_ServerID c = Some serverID)
     in if sql_exists hit (cd_channels d) then (Inr (), drop_channels hit d) else (Inl DbNoRows, d))"

text \<open>Chaining of statements that stops at the first error.\<close>

definition bind_op :: "'a chat_op \<Rightarrow> ('a \<Rightarrow> 'b chat_op) \<Rightarrow> 'b chat_op" where
  "bind_op q k d = (case q d of (Inl e, d') \<Rightarrow> (Inl e, d') | (Inr x, d') \<Rightarrow> k x d')"

definition return_op :: "'a \<Rightarrow> 'a chat_op" where
  "return_op x d = (Inr x, d)"

text \<open>The ids to delete: of a category its children too, children first.\<close>

definition tree_ids :: "string \<Rightarrow> string \<Rightarrow> string \<Rightarrow> string list chat_op" where
  "tree_ids channelID serverID rootType =
     (if rootType = ''category''
      then bind_op (chat_read (\<lambda>_ d. map ch_ID (filter (\<lambda>c. ch_ParentID c = Some channelID \<and>
                      ch_ServerID c = Some serverID) (cd_channels d))))
             (\<lambda>children. return_op (children @ [channelID]))
      else return_op [channelID])"

definition DeleteChannelTree :: "string \<Rightarrow> string \<Rightarrow> (string list \<times> string list) chat_op" where
  "DeleteChannelTree channelID serverID = in_tx
     (bind_op (chat_query (\<lambda>_ _ d.
        case find (\<lambda>c. ch_ID c = channelID \<and> ch_ServerID c = Some serverID) (cd_channels d) of
          None \<Rightarrow> (Inl DbNoRows, d) | Some c \<Rightarrow> (Inr (ch_Type c), d)))
     (\<lambda>rootType. bind_op (tree_ids channelID serverID rootType)
     (\<lambda>targetIDs. bind_op (chat_read (\<lambda>_ d. map at_StorageKey (filter (\<lambda>a. at_ChannelID a \<in> set targetIDs \<and>
                     at_DeletedAt a = None) (cd_attachments d))))
     (\<lambda>storageKeys. chat_query (\<lambda>_ _ d.
        let hit = (\<lambda>c. ch_ServerID c = Some serverID \<and> ch_ID c \<in> set targetIDs);
            deleted = map ch_ID (filter hit (cd_channels d))
        in (Inr (filter (\<lambda>i. i \<in> set deleted) targetIDs, storageKeys), drop_channels hit d))))))"

text \<open>Positions of the siblings of a channel; the guild is no part of the scope.\<close>

definition in_scope :: "string \<Rightarrow> bool \<Rightarrow> string option \<Rightarrow> Channel \<Rightarrow> bool" where
  "in_scope channelID isCategory parentID c \<longleftrightarrow> ch_ID c \<noteq> channelID \<and>
     (if isCategory then ch_Type c = ''category''
      else case parentID of None \<Rightarrow> ch_ParentID c = None \<and> ch_Type c \<noteq> ''category''
           | Some i \<Rightarrow> ch_ParentID c = Some i)"

definition shiftPositions ::
  "string \<Rightarrow> bool \<Rightarrow> string option \<Rightarrow> (int \<Rightarrow> int \<Rightarrow> bool) \<Rightarrow> int \<Rightarrow> int \<Rightarrow> unit chat_op" where
  "shiftPositions channelID isCategory parentID cmp pivotPos delta = chat_query (\<lambda>_ _ d.
     let hit = (\<lambda>c. in_scope channelID isCategory parentID c \<and> cmp (ch_Position c) pivotPos)
     in if sql_exists (\<lambda>c. hit c \<and> \<not> int4 (ch_Position c + delta)) (cd_channels d) then (Inl DbCheck, d)
        else (Inr (), d\<lparr>cd_channels := sql_update hit (\<lambda>c. c\<lparr>ch_Position := ch_Position c + delta\<rparr>)
               (cd_channels d)\<rparr>))"

text \<open>A parent without a guild makes the scan of its \<open>server_id\<close> fail.\<close>

definition check_parent :: "string \<Rightarrow> string option \<Rightarrow> unit chat_op" where
  "check_parent serverID newParentID =
     (case newParentID of
        None \<Rightarrow> return_op ()
      | Some i \<Rightarrow> chat_query (\<lambda>_ _ d.
          case find (\<lambda>c. ch_ID c = i) (cd_channels d) of
            None \<Rightarrow> (Inl DbNoRows, d)
          | Some p \<Rightarrow> (case ch_ServerID p of
                None \<Rightarrow> (Inl DbOutage, d)
              | Some s \<Rightarrow> (if s \<noteq> serverID then Inl DbNoRows else Inr (), d))))"

definition MoveChannel :: "string \<Rightarrow> string \<Rightarrow> string option \<Rightarrow> int \<Rightarrow> unit chat_op" where
  "MoveChannel channelID serverID newParentID newPosition = in_tx
     (bind_op (chat_query (\<lambda>_ _ d.
        case find (\<lambda>c. ch_ID c = channelID \<and> ch_ServerID c = Some serverID) (cd_channels d) of
          None \<Rightarrow> (Inl DbNoRows, d) | Some c \<Rightarrow> (Inr c, d)))
     (\<lambda>c. bind_op (check_parent serverID newParentID)
     (\<lambda>_. let isCategory = (ch_Type c = ''category'')
      in bind_op (shiftPositions channelID isCategory (ch_ParentID c) (>) (ch_Position c) (- 1))
     (\<lambda>_. bind_op (shiftPositions channelID isCategory newParentID (\<ge>) newPosition 1)
     (\<lambda>_. chat_query (\<lambda>_ _ d. if \<not> int4 newPosition then (Inl DbCheck, d)
        else (Inr (), d\<lparr>cd_channels := sql_update (\<lambda>c. ch_ID c = channelID)
          (\<lambda>c. c\<lparr>ch_ParentID := newParentID, ch_Position := newPosition\<rparr>) (cd_channels d)\<rparr>)))))))"

section \<open>Bans, mutes, audit log\<close>

definition actors_known :: "chat_db \<Rightarrow> string \<Rightarrow> string list \<Rightarrow> bool" where
  "actors_known d serverID us \<longleftrightarrow>
     sql_exists (\<lambda>s. sv_ID s = serverID) (cd_servers d) \<and> set us \<subseteq> set (cd_users d)"

definition InsertBan :: "string \<Rightarrow> string \<Rightarrow> string \<Rightarrow> string \<Rightarrow> time option \<Rightarrow> Ban chat_op" where
  "InsertBan serverID userID actorID reason expiresAt = chat_query (\<lambda>now uuid d.
     let b = \<lparr>bn_ID = uuid, bn_ServerID = Some serverID, bn_UserID = userID, bn_ActorID = actorID,
              bn_Reason = reason, bn_ExpiresAt = expiresAt, bn_CreatedAt = now, bn_LiftedAt = None,
              bn_LiftedBy = None\<rparr>
     in if sql_exists (\<lambda>r. bn_ID r = uuid) (cd_bans d) then (Inl (DbUnique ''bans_pkey''), d)
        else if \<not> actors_known d serverID [userID, actorID] then (Inl DbForeignKey, d)
        else (Inr b, d\<lparr>cd_bans := cd_bans d @ [b]\<rparr>))"

definition guild_ban_active :: "time \<Rightarrow> string \<Rightarrow> Ban \<Rightarrow> bool" where
  "guild_ban_active now serverID b \<longleftrightarrow> bn_ServerID b = Some serverID \<and> bn_LiftedAt b = None \<and>
     (case bn_ExpiresAt b of None \<Rightarrow> True | Some t \<Rightarrow> t > now)"

definition GetActiveBan :: "string \<Rightarrow> string \<Rightarrow> Ban option chat_op" where
  "GetActiveBan serverID userID = chat_read (\<lambda>now d.
     case rev (sort_key bn_CreatedAt (filter (\<lambda>b. guild_ban_active now serverID b \<and> bn_UserID b = userID) (cd_bans d))) of
       [] \<Rightarrow> None | b # _ \<Rightarrow> Some b)"

definition ListActiveBans :: "string \<Rightarrow> Ban list chat_op" where
  "ListActiveBans serverID = chat_read (\<lambda>now d.
     rev (sort_key bn_CreatedAt (filter (guild_ban_active now serverID) (cd_bans d))))"

definition LiftBan :: "string \<Rightarrow> string \<Rightarrow> unit chat_op" where
  "LiftBan banID liftedByID = chat_query (\<lambda>now _ d.
     let hit = (\<lambda>b. bn_ID b = banID \<and> bn_LiftedAt b = None)
     in if sql_exists hit (cd_bans d) \<and> liftedByID \<notin> set (cd_users d) then (Inl DbForeignKey, d)
        else (Inr (), d\<lparr>cd_bans := sql_update hit
               (\<lambda>b. b\<lparr>bn_LiftedAt := Some now, bn_LiftedBy := Some liftedByID\<rparr>) (cd_bans d)\<rparr>))"

definition InsertMute :: "string \<Rightarrow> string \<Rightarrow> string \<Rightarrow> string \<Rightarrow> time option \<Rightarrow> Mute chat_op" where
  "InsertMute serverID userID actorID reason expiresAt = chat_query (\<lambda>now uuid d.
     let m = \<lparr>mu_ID = uuid, mu_ServerID = Some serverID, mu_UserID = userID, mu_ActorID = actorID,
              mu_Reason = reason, mu_ExpiresAt = expiresAt, mu_CreatedAt = now, mu_LiftedAt = None,
              mu_LiftedBy = None\<rparr>
     in if sql_exists (\<lambda>r. mu_ID r = uuid) (cd_mutes d) then (Inl (DbUnique ''mutes_pkey''), d)
        else if \<not> actors_known d serverID [userID, actorID] then (Inl DbForeignKey, d)
        else (Inr m, d\<lparr>cd_mutes := cd_mutes d @ [m]\<rparr>))"

definition ListActiveMutes :: "string \<Rightarrow> Mute list chat_op" where
  "ListActiveMutes serverID = chat_read (\<lambda>now d.
     rev (sort_key mu_CreatedAt (filter (\<lambda>m. mute_active now serverID (mu_UserID m) m) (cd_mutes d))))"

definition LiftMute :: "string \<Rightarrow> string \<Rightarrow> unit chat_op" where
  "LiftMute muteID liftedByID = chat_query (\<lambda>now _ d.
     let hit = (\<lambda>m. mu_ID m = muteID \<and> mu_LiftedAt m = None)
     in if sql_exists hit (cd_mutes d) \<and> liftedByID \<notin> set (cd_users d) then (Inl DbForeignKey, d)
        else (Inr (), d\<lparr>cd_mutes := sql_update hit
               (\<lambda>m. m\<lparr>mu_LiftedAt := Some now, mu_LiftedBy := Some liftedByID\<rparr>) (cd_mutes d)\<rparr>))"

definition InsertAuditLog ::
  "string \<Rightarrow> string \<Rightarrow> string option \<Rightarrow> string \<Rightarrow> string \<Rightarrow> metadata option \<Rightarrow> unit chat_op" where
  "InsertAuditLog serverID actorID targetID action reason meta = chat_query (\<lambda>now uuid d.
     let a = \<lparr>al_ID = uuid, al_ServerID = Some serverID, al_ActorID = actorID, al_TargetID = targetID,
              al_Action = action, al_Reason = reason, al_Metadata = meta, al_CreatedAt = now\<rparr>
     in if sql_exists (\<lambda>r. al_ID r = uuid) (cd_audit d) then (Inl (DbUnique ''audit_log_pkey''), d)
        else if \<not> actors_known d serverID [actorID] \<or> \<not> known (cd_users d) targetID then (Inl DbForeignKey, d)
        else (Inr (), d\<lparr>cd_audit := cd_audit d @ [a]\<rparr>))"

record AuditLogFilter =
  af_Action :: string
  af_ActorID :: string
  af_TargetID :: string

definition audit_matches :: "AuditLogFilter option \<Rightarrow> AuditLogEntry \<Rightarrow> bool" where
  "audit_matches f a \<longleftrightarrow> (case f of None \<Rightarrow> True
     | Some f \<Rightarrow> (af_Action f = [] \<or> al_Action a = af_Action f) \<and>
                (af_ActorID f = [] \<or> al_ActorID a = af_ActorID f) \<and>
                (af_TargetID f = [] \<or> al_TargetID a = Some (af_TargetID f)))"

definition ListAuditLog :: "string \<Rightarrow> int \<Rightarrow> int \<Rightarrow> AuditLogFilter option \<Rightarrow> AuditLogEntry list chat_op" where
  "ListAuditLog serverID limit offset f = chat_read (\<lambda>_ d.
     take (nat limit) (drop (nat offset) (rev (sort_key al_CreatedAt
       (filter (\<lambda>a. al_ServerID a = Some serverID \<and> audit_matches f a) (cd_audit d))))))"

section \<open>System messages\<close>

definition InsertSystemMessage ::
  "string \<Rightarrow> string \<Rightarrow> string \<Rightarrow> string option \<Rightarrow> string \<Rightarrow> metadata option \<Rightarrow> SystemMessage chat_op" where
  "InsertSystemMessage serverID eventType actorID targetID reason meta = chat_query (\<lambda>now uuid d.
     let m = \<lparr>sy_ID = uuid, sy_ServerID = serverID, sy_EventType = eventType, sy_ActorID = actorID,
              sy_TargetID = targetID, sy_Reason = reason, sy_Metadata = meta, sy_CreatedAt = now\<rparr>
     in if sql_exists (\<lambda>r. sy_ID r = uuid) (cd_system d) then (Inl (DbUnique ''system_messages_pkey''), d)
        else if \<not> actors_known d serverID [actorID] \<or> \<not> known (cd_users d) targetID then (Inl DbForeignKey, d)
        else (Inr m, d\<lparr>cd_system := cd_system d @ [m]\<rparr>))"

definition ListSystemMessages :: "string \<Rightarrow> time \<Rightarrow> int \<Rightarrow> SystemMessage list chat_op" where
  "ListSystemMessages serverID before limit = chat_read (\<lambda>_ d.
     take (nat limit) (rev (sort_key sy_CreatedAt (filter (\<lambda>m. sy_ServerID m = serverID \<and>
       (before = zero_time \<or> sy_CreatedAt m < before)) (cd_system d)))))"

definition PurgeExpiredSystemMessages :: "int \<Rightarrow> nat chat_op" where
  "PurgeExpiredSystemMessages retentionDays = chat_query (\<lambda>now _ d.
     let old = (\<lambda>m. sy_CreatedAt m < now - retentionDays * day)
     in (Inr (sql_count old (cd_system d)), d\<lparr>cd_system := sql_delete old (cd_system d)\<rparr>))"

definition GetSystemMessageRetentionDays :: "int option chat_op" where
  "GetSystemMessageRetentionDays = chat_read (\<lambda>_ d. gp_SystemMessageRetentionDays (cd_policy d))"

end
