(* ===== verification/Guild.thy ===== *)
theory Guild
  imports Ws Guild_DB
begin

text \<open>
  Guild endpoints: \<open>internal/api/servers.go\<close>, \<open>channels.go\<close>, \<open>system_messages.go\<close> and the middleware
  \<open>RequireGuildMember\<close>. A handler gets the guild, the user and the user's level from the
  request context, the decoded body (\<open>None\<close> when it does not decode) and the query strings;
  \<open>None\<close> as a result is a broadcast that panics. What is handed to the object store or to
  LiveKit appears in the answer.
\<close>

section \<open>Answers\<close>

datatype guild_body =
    Empty
  | ServerBody Server
  | ChannelBody Channel
  | ChannelsBody "Channel list"
  | MessagesBody "history_item list"
  | DeletedBody "string list" "string list"
  | EvictedBody "(string \<times> string) list"
  | BansBody "Ban list"
  | MutesBody "Mute list"
  | AuditBody "AuditLogEntry list"
  | SystemBody "SystemMessage list"
  | BillingBody "GuildBillingStats list"
  | Accepted

type_synonym guild_result = "(guild_body response \<times> world) option"

abbreviation fail :: "nat \<Rightarrow> string \<Rightarrow> world \<Rightarrow> guild_result" where
  "fail status msg w \<equiv> Some (Fail status msg, w)"

definition no_content :: "world option \<Rightarrow> guild_result" where
  "no_content r = map_option (\<lambda>w. (Done 204 Empty, w)) r"

definition to_server :: "string \<Rightarrow> frame \<Rightarrow> world \<Rightarrow> world option" where
  "to_server serverID f = run_hub (BroadcastToServer serverID f)"

section \<open>Membership and system messages\<close>

definition RequireGuildMember ::
  "string \<Rightarrow> string \<Rightarrow> string \<Rightarrow> (int \<Rightarrow> world \<Rightarrow> guild_result) \<Rightarrow> world \<Rightarrow> guild_result" where
  "RequireGuildMember serverID fedID userID k w =
     (if serverID = [] then fail 400 ''missing server ID'' w
      else case run_chat (if fedID \<noteq> [] then GetServerMemberLevelByFederatedID serverID fedID
                          else GetServerMemberLevel serverID userID) w of
        (Inl _, w') \<Rightarrow> fail 403 ''not a guild member'' w'
      | (Inr level, w') \<Rightarrow> k level w')"

definition EmitSystemMessage ::
  "string \<Rightarrow> string \<Rightarrow> string \<Rightarrow> string option \<Rightarrow> string \<Rightarrow> metadata option \<Rightarrow> world \<Rightarrow> world option" where
  "EmitSystemMessage serverID eventType actorID targetID reason meta w =
     (case run_chat (InsertSystemMessage serverID eventType actorID targetID reason meta) w of
        (Inl _, w') \<Rightarrow> Some w'
      | (Inr m, w') \<Rightarrow> to_server serverID (SystemMessageFrame serverID m) w')"

definition parse_limit :: "int \<Rightarrow> string \<Rightarrow> int option" where
  "parse_limit max_limit s =
     (if s = [] then Some max_limit
      else case Atoi s of
        None \<Rightarrow> None
      | Some n \<Rightarrow> if n < 1 then None else if n > max_limit then Some max_limit else Some n)"

definition systemMessagesLimitMax :: int where
  "systemMessagesLimitMax = 50"

definition listSystemMessages :: "ws_env \<Rightarrow> string \<Rightarrow> string \<Rightarrow> string \<Rightarrow> world \<Rightarrow> guild_result" where
  "listSystemMessages E serverID beforeStr limitStr w =
     (case parse_limit systemMessagesLimitMax limitStr of
        None \<Rightarrow> fail 400 ''invalid limit'' w
      | Some limit \<Rightarrow>
      (case parse_before E beforeStr of
         None \<Rightarrow> fail 400 ''invalid before timestamp'' w
       | Some before \<Rightarrow>
       (case run_chat (ListSystemMessages serverID before limit) w of
          (Inl _, w') \<Rightarrow> fail 500 ''failed to list system messages'' w'
        | (Inr ms, w') \<Rightarrow> Some (Done 200 (SystemBody ms), w'))))"

section \<open>Creating a guild\<close>

definition effectiveMemberCap :: "Server option \<Rightarrow> GuildPolicy option \<Rightarrow> int option" where
  "effectiveMemberCap server cfg =
     (case Option.bind server sv_MemberCapOverride of
        Some c \<Rightarrow> Some c
      | None \<Rightarrow> Option.bind cfg gp_MaxMembersPerServer)"

definition fallbackTemplate :: "TemplateChannel list" where
  "fallbackTemplate =
     [\<lparr>tc_Name = ''system'', tc_Type = ''system'', tc_ParentRef = None, tc_Position = - 1\<rparr>,
      \<lparr>tc_Name = ''general'', tc_Type = ''text'', tc_ParentRef = None, tc_Position = 0\<rparr>,
      \<lparr>tc_Name = ''General'', tc_Type = ''voice'', tc_ParentRef = None, tc_Position = 1\<rparr>]"

definition metadata_json :: "string \<Rightarrow> bytes" where
  "metadata_json literal = bytes_of_string
     (''{'' @ json_quote ''n'' @ '':'' @ literal @ '','' @ json_quote ''d'' @ '':'' @ json_quote [] @ ''}'')"

definition plaintextMetadata :: "string \<Rightarrow> bytes" where
  "plaintextMetadata name = metadata_json (json_quote name)"

record create_server =
  cs_EncryptedMetadata :: "bytes option"
  cs_Name :: string
  cs_TemplateID :: "string option"

definition resolve_template :: "string option \<Rightarrow> world \<Rightarrow> TemplateChannel list \<times> world" where
  "resolve_template templateID w =
     (let (t1, w1) = (case templateID of
            None \<Rightarrow> ([], w)
          | Some i \<Rightarrow> (case run_chat (GetServerTemplateByID i) w of
                        (Inr t, w') \<Rightarrow> (st_Channels t, w') | (Inl _, w') \<Rightarrow> ([], w')));
          (t2, w2) = (if t1 \<noteq> [] then (t1, w1)
            else case run_chat GetDefaultServerTemplate w1 of
                   (Inr (Some t), w') \<Rightarrow> (st_Channels t, w') | (_, w') \<Rightarrow> ([], w'));
          t3 = (if t2 = [] then fallbackTemplate else t2)
      in (if list_ex (\<lambda>tc. tc_Type tc = ''system'') t3 then t3
          else \<lparr>tc_Name = ''system'', tc_Type = ''system'', tc_ParentRef = None, tc_Position = - 1\<rparr> # t3, w2))"

text \<open>The channel of a template entry, the one there or a new one; no id when a query fails.\<close>

definition template_channel ::
  "string \<Rightarrow> TemplateChannel \<Rightarrow> string option \<Rightarrow> world \<Rightarrow> (string option \<times> world) option" where
  "template_channel serverID tc parentID w =
     (case run_chat (GetChannelByTypeAndPosition serverID (tc_Type tc) (tc_Position tc)) w of
        (Inl _, w') \<Rightarrow> Some (None, w')
      | (Inr (Some c), w') \<Rightarrow> Some (Some (ch_ID c), w')
      | (Inr None, w') \<Rightarrow>
          (case run_chat (CreateChannel serverID
                   (if tc_Name tc \<noteq> [] then Some (plaintextMetadata (tc_Name tc)) else None)
                   (tc_Type tc) parentID (tc_Position tc)) w' of
             (Inl _, w'') \<Rightarrow> Some (None, w'')
           | (Inr c, w'') \<Rightarrow> map_option (\<lambda>w. (Some (ch_ID c), w)) (to_server serverID (ChannelCreated c) w'')))"

text \<open>
  Pass 1 makes the entries without a parent and remembers the categories by name, pass 2 the
  others. Both count the entries that fail.
\<close>

fun template_pass1 ::
  "string \<Rightarrow> TemplateChannel list \<Rightarrow> nat \<Rightarrow> (string \<times> string) list \<Rightarrow> world \<Rightarrow>
   (nat \<times> (string \<times> string) list \<times> world) option" where
  "template_pass1 serverID [] failures cats w = Some (failures, cats, w)"
| "template_pass1 serverID (tc # tcs) failures cats w =
     (if tc_ParentRef tc \<noteq> None then template_pass1 serverID tcs failures cats w
      else do {
        (r, w') \<leftarrow> template_channel serverID tc None w;
        (case r of
           None \<Rightarrow> template_pass1 serverID tcs (failures + 1) cats w'
         | Some i \<Rightarrow> template_pass1 serverID tcs failures
                      (if tc_Type tc = ''category'' then (tc_Name tc, i) # cats else cats) w') })"

fun template_pass2 ::
  "string \<Rightarrow> TemplateChannel list \<Rightarrow> nat \<Rightarrow> (string \<times> string) list \<Rightarrow> world \<Rightarrow> (nat \<times> world) option" where
  "template_pass2 serverID [] failures cats w = Some (failures, w)"
| "template_pass2 serverID (tc # tcs) failures cats w =
     (case tc_ParentRef tc of
        None \<Rightarrow> template_pass2 serverID tcs failures cats w
      | Some ref \<Rightarrow>
      (case map_of cats ref of
         None \<Rightarrow> template_pass2 serverID tcs (failures + 1) cats w
       | Some parentID \<Rightarrow> do {
           (r, w') \<leftarrow> template_channel serverID tc (Some parentID) w;
           template_pass2 serverID tcs (case r of None \<Rightarrow> failures + 1 | Some _ \<Rightarrow> failures) cats w' }))"

definition may_create :: "string \<Rightarrow> GuildPolicy \<Rightarrow> world \<Rightarrow> (nat \<times> string) option \<times> world" where
  "may_create userID cfg w =
     (if gp_ServerCreationPolicy cfg = ''disabled''
      then (Some (403, ''server creation is disabled on this instance''), w)
      else if gp_ServerCreationPolicy cfg = ''paid''
      then (Some (403, ''This instance requires a subscription to create servers.''), w)
      else case gp_MaxServersPerUser cfg of
        None \<Rightarrow> (None, w)
      | Some cap \<Rightarrow>
          (case run_chat (CountOwnedServers userID) w of
             (Inl _, w') \<Rightarrow> (Some (500, ''failed to check server limits''), w')
           | (Inr owned, w') \<Rightarrow>
               (if int owned \<ge> cap
                then (Some (403, ''you have reached the maximum number of servers you can create''), w')
                else (None, w'))))"

definition populate_server :: "Server \<Rightarrow> string \<Rightarrow> string option \<Rightarrow> world \<Rightarrow> guild_result" where
  "populate_server server userID templateID w0 = do {
     w1 \<leftarrow> run_hub (BroadcastToUser userID (MemberJoined (sv_ID server) userID)) w0;
     (case resolve_template templateID w1 of (template, w2) \<Rightarrow> do {
        (failures1, cats, w3) \<leftarrow> template_pass1 (sv_ID server) template 0 [] w2;
        (failures, w4) \<leftarrow> template_pass2 (sv_ID server) template failures1 cats w3;
        w5 \<leftarrow> EmitSystemMessage (sv_ID server) ''server_created'' userID None [] None w4;
        w6 \<leftarrow> (if failures > 0
               then EmitSystemMessage (sv_ID server) ''template_partial_failure'' userID None
                      ''Some default channels could not be created'' None w5
               else Some w5);
        Some (Done 201 (ServerBody server), w6) }) }"

definition createServer :: "string \<Rightarrow> create_server option \<Rightarrow> world \<Rightarrow> guild_result" where
  "createServer userID body w =
     (if userID = [] then fail 401 ''not authenticated'' w
      else case run_chat GetInstancePolicy w of
        (Inl _, w1) \<Rightarrow> fail 500 ''failed to verify creation policy'' w1
      | (Inr cfg, w1) \<Rightarrow>
      (case may_create userID cfg w1 of
         (Some (status, msg), w2) \<Rightarrow> fail status msg w2
       | (None, w2) \<Rightarrow>
      (case body of
         None \<Rightarrow> fail 400 ''invalid body'' w2
       | Some req \<Rightarrow>
      (let meta = (if (cs_EncryptedMetadata req = None \<or> cs_EncryptedMetadata req = Some []) \<and> cs_Name req \<noteq> []
                   then Some (plaintextMetadata (cs_Name req)) else cs_EncryptedMetadata req)
       in case run_chat (CreateServer meta) w2 of
         (Inl _, w3) \<Rightarrow> fail 500 ''failed to create server'' w3
       | (Inr server, w3) \<Rightarrow>
      (case run_chat (AddServerMember (sv_ID server) userID PermissionLevelOwner) w3 of
         (Inl _, w4) \<Rightarrow> fail 500 ''failed to add creator as guild owner'' w4
       | (Inr _, w4) \<Rightarrow> populate_server server userID (cs_TemplateID req) w4)))))"

section \<open>The guild itself\<close>

definition updateServer :: "string \<Rightarrow> int \<Rightarrow> bytes option option \<Rightarrow> world \<Rightarrow> guild_result" where
  "updateServer serverID level body w =
     (if level < PermissionLevelAdmin
      then fail 403 ''admin level or higher required to update guild metadata'' w
      else case body of
        None \<Rightarrow> fail 400 ''invalid body'' w
      | Some meta \<Rightarrow>
          (case run_chat (UpdateServerEncryptedMetadata serverID meta) w of
             (Inl _, w') \<Rightarrow> fail 500 ''failed to update guild metadata'' w'
           | (Inr _, w') \<Rightarrow> no_content (to_server serverID (ServerUpdated serverID meta) w')))"

definition getServer :: "string \<Rightarrow> world \<Rightarrow> guild_result" where
  "getServer serverID w =
     (case run_chat (GetServerByID serverID) w of
        (Inl _, w') \<Rightarrow> fail 500 ''failed to get server'' w'
      | (Inr None, w') \<Rightarrow> fail 404 ''server not found'' w'
      | (Inr (Some s), w') \<Rightarrow> Some (Done 200 (ServerBody s), w'))"

definition deleteServer :: "string \<Rightarrow> int \<Rightarrow> world \<Rightarrow> guild_result" where
  "deleteServer serverID level w =
     (if level \<noteq> PermissionLevelOwner then fail 403 ''only the guild owner can delete the server'' w
      else case run_chat (DeleteServer serverID) w of
        (Inl _, w') \<Rightarrow> fail 500 ''failed to delete server'' w'
      | (Inr _, w') \<Rightarrow> no_content (to_server serverID (ServerDeleted serverID) w'))"

definition changeRole ::
  "string \<Rightarrow> string \<Rightarrow> string \<Rightarrow> int \<Rightarrow> int option \<Rightarrow> world \<Rightarrow> guild_result" where
  "changeRole serverID targetUserID actorID actorLevel body w =
     (if targetUserID = actorID then fail 400 ''cannot change your own role'' w
      else if actorLevel < PermissionLevelAdmin then fail 403 ''admin level or higher required'' w
      else case body of
        None \<Rightarrow> fail 400 ''invalid body'' w
      | Some newLevel \<Rightarrow>
      (if newLevel < PermissionLevelMember \<or> newLevel > PermissionLevelOwner
       then fail 400 ''permissionLevel must be 0-3'' w
       else case run_chat (GetServerMemberLevel serverID targetUserID) w of
         (Inl _, w1) \<Rightarrow> fail 404 ''target user not found in this guild'' w1
       | (Inr targetLevel, w1) \<Rightarrow>
      (if actorLevel \<le> targetLevel
       then fail 403 ''cannot modify a member with equal or higher permission level'' w1
       else if actorLevel \<le> newLevel
       then fail 403 ''cannot assign a permission level equal or higher than your own'' w1
       else case run_chat (UpdateServerMemberLevel serverID targetUserID newLevel) w1 of
         (Inl _, w2) \<Rightarrow> fail 500 ''failed to update permission level'' w2
       | (Inr _, w2) \<Rightarrow>
      (let meta = [(''old_level'', JInt targetLevel), (''new_level'', JInt newLevel)];
           w3 = snd (run_chat (InsertAuditLog serverID actorID (Some targetUserID) ''level_change''
                       ''permission level changed via guild management'' (Some meta)) w2)
       in no_content (do {
            w4 \<leftarrow> EmitSystemMessage serverID ''role_changed'' actorID (Some targetUserID)
                    ''permission level changed'' (Some meta) w3;
            to_server serverID (MemberRoleChanged serverID targetUserID newLevel) w4 })))))"

definition leaveServer :: "string \<Rightarrow> string \<Rightarrow> int \<Rightarrow> world \<Rightarrow> guild_result" where
  "leaveServer serverID actorID level w =
     (if actorID = [] then fail 401 ''not authenticated'' w
      else if level = PermissionLevelOwner
      then fail 400 ''guild owner cannot leave; transfer ownership first'' w
      else case run_chat (RemoveServerMember serverID actorID) w of
        (Inl _, w') \<Rightarrow> fail 500 ''failed to leave guild'' w'
      | (Inr _, w') \<Rightarrow> no_content (do {
          w1 \<leftarrow> to_server serverID (MemberLeft serverID actorID) w';
          EmitSystemMessage serverID ''member_left'' actorID None [] None w1 }))"

definition joinServer :: "string \<Rightarrow> string \<Rightarrow> world \<Rightarrow> guild_result" where
  "joinServer serverID userID w =
     (if userID = [] then fail 401 ''not authenticated'' w
      else case run_chat (GetServerByID serverID) w of
        (Inl _, w1) \<Rightarrow> fail 500 ''failed to look up guild'' w1
      | (Inr None, w1) \<Rightarrow> fail 404 ''guild not found'' w1
      | (Inr (Some server), w1) \<Rightarrow>
      (case run_chat GetInstancePolicy w1 of (r, w2) \<Rightarrow>
       let cfg = (case r of Inl _ \<Rightarrow> None | Inr c \<Rightarrow> Some c)
       in if (case effectiveMemberCap (Some server) cfg of None \<Rightarrow> False | Some cap \<Rightarrow> sv_MemberCount server \<ge> cap)
          then fail 403 ''this server has reached its member limit'' w2
          else if sv_IsDm server then fail 403 ''DM guilds cannot be joined via this endpoint'' w2
          else if \<not> sv_Discoverable server then fail 403 ''guild is not discoverable'' w2
          else if sv_AccessPolicy server = ''request'' then Some (Done 202 Accepted, w2)
          else if sv_AccessPolicy server \<noteq> ''open'' then fail 403 ''guild is not open to direct joins'' w2
          else case run_chat (GetServerMemberLevel serverID userID) w2 of
            (Inr _, w3) \<Rightarrow> fail 409 ''already a member of this guild'' w3
          | (Inl _, w3) \<Rightarrow>
          (case run_chat (GetActiveBan serverID userID) w3 of
             (Inl _, w4) \<Rightarrow> fail 500 ''failed to verify membership eligibility'' w4
           | (Inr (Some _), w4) \<Rightarrow> fail 403 ''you are banned from this guild'' w4
           | (Inr None, w4) \<Rightarrow>
          (case run_chat (AddServerMember serverID userID PermissionLevelMember) w4 of
             (Inl _, w5) \<Rightarrow> fail 500 ''failed to join guild'' w5
           | (Inr _, w5) \<Rightarrow> do {
               w6 \<leftarrow> to_server serverID (MemberJoined serverID userID)
                       (snd (run_chat (IncrementGuildMemberCount serverID 1) w5));
               w7 \<leftarrow> run_hub (BroadcastToUser userID (MemberJoined serverID userID)) w6;
               w8 \<leftarrow> EmitSystemMessage serverID ''member_joined'' userID None [] None w7;
               Some (Done 201 (ServerBody server), w8) }))))"

text \<open>\<open>role\<close> is the answer of \<open>GetUserRole\<close>, a query on the accounts.\<close>

definition listGuildBillingStats :: "(db_error + string) \<Rightarrow> world \<Rightarrow> guild_result" where
  "listGuildBillingStats role w =
     (case role of
        Inl _ \<Rightarrow> fail 500 ''failed to verify role'' w
      | Inr r \<Rightarrow>
          (if r \<noteq> ''admin'' then fail 403 ''instance admin required'' w
           else case run_chat ListGuildBillingStats w of
             (Inl _, w') \<Rightarrow> fail 500 ''failed to load billing stats'' w'
           | (Inr gs, w') \<Rightarrow> Some (Done 200 (BillingBody gs), w')))"

section \<open>Channels\<close>

definition channelMessagesLimitMax :: int where
  "channelMessagesLimitMax = 50"

record create_channel =
  cc_EncryptedMetadata :: "bytes option"
  cc_Name :: string
  cc_Type :: string
  cc_ParentID :: "string option"
  cc_Position :: "int option"

text \<open>Here the name goes into the JSON text as it is.\<close>

definition createChannel :: "string \<Rightarrow> string \<Rightarrow> int \<Rightarrow> create_channel option \<Rightarrow> world \<Rightarrow> guild_result" where
  "createChannel serverID userID level body w =
     (if userID = [] then fail 401 ''not authenticated'' w
      else if level < PermissionLevelAdmin
      then fail 403 ''admin level or higher required to create channels'' w
      else case body of
        None \<Rightarrow> fail 400 ''invalid body'' w
      | Some req \<Rightarrow>
      (let meta = (if (cc_EncryptedMetadata req = None \<or> cc_EncryptedMetadata req = Some []) \<and> cc_Name req \<noteq> []
                   then Some (metadata_json (CHR 0x22 # cc_Name req @ [CHR 0x22]))
                   else cc_EncryptedMetadata req);
           position = (case cc_Position req of None \<Rightarrow> 0 | Some p \<Rightarrow> p)
       in if cc_Type req \<noteq> ''text'' \<and> cc_Type req \<noteq> ''voice'' \<and> cc_Type req \<noteq> ''category''
          then fail 400 ''type must be text, voice, or category'' w
          else if cc_Type req = ''category'' \<and> cc_ParentID req \<noteq> None
          then fail 400 ''categories cannot be nested'' w
          else case run_chat (CreateChannel serverID meta (cc_Type req) (cc_ParentID req) position) w of
            (Inl _, w') \<Rightarrow> fail 500 ''failed to create channel'' w'
          | (Inr c, w') \<Rightarrow>
              map_option (\<lambda>w. (Done 201 (ChannelBody c), w)) (to_server serverID (ChannelCreated c) w')))"

definition listChannels :: "string \<Rightarrow> world \<Rightarrow> guild_result" where
  "listChannels serverID w =
     (case run_chat (ListChannels serverID) w of
        (Inl _, w') \<Rightarrow> fail 500 ''failed to list channels'' w'
      | (Inr cs, w') \<Rightarrow> Some (Done 200 (ChannelsBody cs), w'))"

definition getMessages ::
  "ws_env \<Rightarrow> string \<Rightarrow> string \<Rightarrow> string \<Rightarrow> string \<Rightarrow> string \<Rightarrow> world \<Rightarrow> guild_result" where
  "getMessages E channelID userID beforeStr afterStr limitStr w =
     (if channelID = [] then fail 400 ''channel id required'' w
      else if userID = [] then fail 401 ''not authenticated'' w
      else case parse_limit channelMessagesLimitMax limitStr of
        None \<Rightarrow> fail 400 ''invalid limit'' w
      | Some limit \<Rightarrow>
      (if beforeStr \<noteq> [] \<and> afterStr \<noteq> [] then fail 400 ''before and after are mutually exclusive'' w
       else case parse_before E beforeStr of
         None \<Rightarrow> fail 400 ''invalid before timestamp'' w
       | Some before \<Rightarrow>
      (case parse_before E afterStr of
         None \<Rightarrow> fail 400 ''invalid after timestamp'' w
       | Some after \<Rightarrow>
      (case run_chat (IsChannelMember channelID userID) w of
         (Inl _, w1) \<Rightarrow> fail 500 ''failed to check membership'' w1
       | (Inr False, w1) \<Rightarrow> fail 403 ''not a channel member'' w1
       | (Inr True, w1) \<Rightarrow>
      (case run_chat (if after \<noteq> zero_time then GetMessagesAfter channelID userID after limit
                      else GetMessages channelID userID before limit) w1 of
         (Inl _, w2) \<Rightarrow> fail 500 ''failed to load messages'' w2
       | (Inr ms, w2) \<Rightarrow> Some (Done 200 (MessagesBody (map messageToMap ms)), w2))))))"

fun announce_deleted :: "string \<Rightarrow> string list \<Rightarrow> world \<Rightarrow> world option" where
  "announce_deleted serverID [] w = Some w"
| "announce_deleted serverID (i # is) w = do {
     w' \<leftarrow> to_server serverID (ChannelDeleted i) w;
     announce_deleted serverID is w' }"

definition owned_by :: "string \<Rightarrow> Channel option \<Rightarrow> bool" where
  "owned_by serverID c = (case c of None \<Rightarrow> False | Some c \<Rightarrow> ch_ServerID c = Some serverID)"

text \<open>The storage keys go to the object store, one delete each.\<close>

definition deleteChannel :: "string \<Rightarrow> string \<Rightarrow> int \<Rightarrow> world \<Rightarrow> guild_result" where
  "deleteChannel serverID channelID level w =
     (if channelID = [] then fail 400 ''channel id required'' w
      else if level < PermissionLevelAdmin
      then fail 403 ''admin level or higher required to delete channel'' w
      else case run_chat (GetChannelByID channelID) w of
        (Inl _, w1) \<Rightarrow> fail 500 ''failed to get channel'' w1
      | (Inr c, w1) \<Rightarrow>
      (if \<not> owned_by serverID c then fail 404 ''channel not found'' w1
       else if ch_Type (the c) = ''system'' then fail 403 ''system channels cannot be deleted'' w1
       else case run_chat (DeleteChannelTree channelID serverID) w1 of
         (Inl e, w2) \<Rightarrow> (if e = DbNoRows then fail 404 ''channel not found'' w2
                        else fail 500 ''failed to delete channel'' w2)
       | (Inr (ids, keys), w2) \<Rightarrow>
           map_option (\<lambda>w. (Done 200 (DeletedBody ids keys), w)) (announce_deleted serverID ids w2)))"

definition check_new_parent :: "string \<Rightarrow> string option \<Rightarrow> world \<Rightarrow> (nat \<times> string) option \<times> world" where
  "check_new_parent serverID parentID w =
     (case parentID of
        None \<Rightarrow> (None, w)
      | Some i \<Rightarrow>
          (case run_chat (GetChannelByID i) w of
             (Inl _, w') \<Rightarrow> (Some (400, ''parent channel not found''), w')
           | (Inr None, w') \<Rightarrow> (Some (400, ''parent channel not found''), w')
           | (Inr (Some p), w') \<Rightarrow>
               (if ch_ServerID p \<noteq> Some serverID then (Some (404, ''parent channel not found''), w')
                else if ch_Type p \<noteq> ''category'' then (Some (400, ''parent must be a category channel''), w')
                else (None, w'))))"

definition moveChannel ::
  "string \<Rightarrow> string \<Rightarrow> int \<Rightarrow> (string option \<times> int) option \<Rightarrow> world \<Rightarrow> guild_result" where
  "moveChannel serverID channelID level body w =
     (if channelID = [] then fail 400 ''channel id required'' w
      else if level < PermissionLevelAdmin then fail 403 ''admin level or higher required'' w
      else case body of
        None \<Rightarrow> fail 400 ''invalid body'' w
      | Some (parentID, position) \<Rightarrow>
      (if position < 0 then fail 400 ''position must be >= 0'' w
       else case run_chat (GetChannelByID channelID) w of
         (Inl _, w1) \<Rightarrow> fail 500 ''failed to get channel'' w1
       | (Inr c, w1) \<Rightarrow>
      (if \<not> owned_by serverID c then fail 404 ''channel not found'' w1
       else if ch_Type (the c) = ''system'' then fail 403 ''system channels cannot be moved'' w1
       else case check_new_parent serverID parentID w1 of
         (Some (status, msg), w2) \<Rightarrow> fail status msg w2
       | (None, w2) \<Rightarrow>
      (case run_chat (MoveChannel channelID serverID parentID position) w2 of
         (Inl e, w3) \<Rightarrow> (if e = DbNoRows then fail 404 ''channel not found'' w3
                        else fail 500 ''failed to move channel'' w3)
       | (Inr _, w3) \<Rightarrow> no_content (to_server serverID (ChannelMoved channelID parentID position) w3)))))"

end
