(* ===== verification/Moderation.thy ===== *)
theory Moderation
  imports Guild
begin

text \<open>
  Moderation of a guild (\<open>internal/api/moderation.go\<close>): kick, ban, mute and their reversals,
  deletion of messages, the audit log; and the routes of \<open>ServerRoutes\<close>. A removal from a
  LiveKit room is a pair of room and user in the answer. A disconnect that the code delays by
  half a second is the last thing the handler does.
\<close>

section \<open>Requests\<close>

record moderation_request =
  mr_UserID :: string
  mr_Reason :: string
  mr_ExpiresIn :: "int option"

text \<open>
  \<open>time.Duration(n) * time.Second\<close> is a product of 64-bit integers.
\<close>

definition seconds_duration :: "int \<Rightarrow> time" where
  "seconds_duration n = sint (word_of_int (n * second) :: 64 word)"

definition expiry :: "time \<Rightarrow> int option \<Rightarrow> time option" where
  "expiry now expiresIn = map_option (\<lambda>n. now + seconds_duration n) expiresIn"

definition expiry_metadata :: "int option \<Rightarrow> metadata" where
  "expiry_metadata expiresIn = (case expiresIn of None \<Rightarrow> [] | Some n \<Rightarrow> [(''expires_in'', JInt n)])"

text \<open>
  The checks that open the handlers, in their order. \<open>self\<close> is the message for a target that is
  the actor, empty where this is not checked; \<open>need\<close> is the least level.
\<close>

definition check_request ::
  "string \<Rightarrow> moderation_request option \<Rightarrow> string \<Rightarrow> int \<Rightarrow> int \<Rightarrow> (nat \<times> string) option" where
  "check_request actorID body self need actorLevel =
     (if actorID = [] then Some (401, ''not authenticated'')
      else case body of
        None \<Rightarrow> Some (400, ''invalid request body'')
      | Some req \<Rightarrow>
          (if mr_UserID req = [] then Some (400, ''userId is required'')
           else if TrimSpace (mr_Reason req) = [] then Some (400, ''reason is required'')
           else if self \<noteq> [] \<and> mr_UserID req = actorID then Some (400, self)
           else if actorLevel < need
           then Some (403, if need = PermissionLevelMod then ''mod level or higher required''
                           else ''admin level or higher required'')
           else None))"

definition check_target ::
  "string \<Rightarrow> string \<Rightarrow> int \<Rightarrow> string \<Rightarrow> (world \<Rightarrow> guild_result) \<Rightarrow> world \<Rightarrow> guild_result" where
  "check_target serverID userID actorLevel refusal k w =
     (case run_chat (GetServerMemberLevel serverID userID) w of
        (Inl _, w') \<Rightarrow> fail 404 ''target user not found in this guild'' w'
      | (Inr targetLevel, w') \<Rightarrow>
          (if actorLevel \<le> targetLevel then fail 403 refusal w' else k w'))"

section \<open>Kick and ban\<close>

definition evictUserFromGuildVoice :: "string \<Rightarrow> string \<Rightarrow> world \<Rightarrow> (string \<times> string) list \<times> world" where
  "evictUserFromGuildVoice serverID userID w =
     (case run_chat (ListChannels serverID) w of
        (Inl _, w') \<Rightarrow> ([], w')
      | (Inr cs, w') \<Rightarrow> (map (\<lambda>c. (''channel-'' @ ch_ID c, userID)) (filter (\<lambda>c. ch_Type c = ''voice'') cs), w'))"

text \<open>What kick and ban do once the membership is gone.\<close>

definition after_removal ::
  "string \<Rightarrow> string \<Rightarrow> moderation_request \<Rightarrow> string \<Rightarrow> string \<Rightarrow> metadata option \<Rightarrow> frame \<Rightarrow> world \<Rightarrow> guild_result" where
  "after_removal serverID actorID req action event meta f w =
     (let uid = mr_UserID req
      in case evictUserFromGuildVoice serverID uid w of (rooms, w1) \<Rightarrow>
         let w2 = snd (run_chat (InsertAuditLog serverID actorID (Some uid) action (mr_Reason req) meta) w1)
         in do {
           w3 \<leftarrow> EmitSystemMessage serverID event actorID (Some uid) (mr_Reason req) meta w2;
           w4 \<leftarrow> to_server serverID f w3;
           Some (Done 204 (EvictedBody rooms), w4\<lparr>hub := DisconnectUser uid (hub w4)\<rparr>) })"

definition kickMember ::
  "string \<Rightarrow> string \<Rightarrow> int \<Rightarrow> moderation_request option \<Rightarrow> world \<Rightarrow> guild_result" where
  "kickMember serverID actorID actorLevel body w =
     (case check_request actorID body ''cannot kick yourself'' PermissionLevelMod actorLevel of
        Some (status, msg) \<Rightarrow> fail status msg w
      | None \<Rightarrow>
      (let req = the body
       in check_target serverID (mr_UserID req) actorLevel ''cannot kick a member with equal or higher permission level''
         (\<lambda>w1. case run_chat (RemoveServerMember serverID (mr_UserID req)) w1 of
            (Inl _, w2) \<Rightarrow> fail 500 ''failed to remove member'' w2
          | (Inr _, w2) \<Rightarrow> after_removal serverID actorID req ''kick'' ''member_kicked'' None
                            (MemberKicked serverID (mr_UserID req)) w2) w))"

text \<open>A removal that fails after the ban is only logged.\<close>

definition banMember ::
  "time \<Rightarrow> string \<Rightarrow> string \<Rightarrow> int \<Rightarrow> moderation_request option \<Rightarrow> world \<Rightarrow> guild_result" where
  "banMember now serverID actorID actorLevel body w =
     (case check_request actorID body ''cannot ban yourself'' PermissionLevelAdmin actorLevel of
        Some (status, msg) \<Rightarrow> fail status msg w
      | None \<Rightarrow>
      (let req = the body
       in check_target serverID (mr_UserID req) actorLevel ''cannot ban a member with equal or higher permission level''
         (\<lambda>w1. case run_chat (InsertBan serverID (mr_UserID req) actorID (mr_Reason req)
                                 (expiry now (mr_ExpiresIn req))) w1 of
            (Inl _, w2) \<Rightarrow> fail 500 ''failed to create ban'' w2
          | (Inr _, w2) \<Rightarrow>
              (let w3 = snd (run_chat (RemoveServerMember serverID (mr_UserID req)) w2)
               in after_removal serverID actorID req ''ban'' ''member_banned''
                    (Some (expiry_metadata (mr_ExpiresIn req))) (MemberBanned serverID (mr_UserID req)) w3)) w))"

definition unbanMember ::
  "string \<Rightarrow> string \<Rightarrow> int \<Rightarrow> moderation_request option \<Rightarrow> world \<Rightarrow> guild_result" where
  "unbanMember serverID actorID actorLevel body w =
     (case check_request actorID body [] PermissionLevelAdmin actorLevel of
        Some (status, msg) \<Rightarrow> fail status msg w
      | None \<Rightarrow>
      (let req = the body
       in case run_chat (GetActiveBan serverID (mr_UserID req)) w of
         (Inl _, w1) \<Rightarrow> fail 500 ''failed to lookup ban'' w1
       | (Inr None, w1) \<Rightarrow> fail 404 ''no active ban found for this user'' w1
       | (Inr (Some ban), w1) \<Rightarrow>
       (case run_chat (LiftBan (bn_ID ban) actorID) w1 of
          (Inl _, w2) \<Rightarrow> fail 500 ''failed to lift ban'' w2
        | (Inr _, w2) \<Rightarrow>
            (let w3 = snd (run_chat (InsertAuditLog serverID actorID (Some (mr_UserID req)) ''unban''
                             (mr_Reason req) None) w2)
             in no_content (EmitSystemMessage serverID ''member_unbanned'' actorID (Some (mr_UserID req))
                  (mr_Reason req) None w3)))))"

section \<open>Mute\<close>

definition muteMember ::
  "time \<Rightarrow> string \<Rightarrow> string \<Rightarrow> int \<Rightarrow> moderation_request option \<Rightarrow> world \<Rightarrow> guild_result" where
  "muteMember now serverID actorID actorLevel body w =
     (case check_request actorID body ''cannot mute yourself'' PermissionLevelMod actorLevel of
        Some (status, msg) \<Rightarrow> fail status msg w
      | None \<Rightarrow>
      (let req = the body; meta = Some (expiry_metadata (mr_ExpiresIn req))
       in check_target serverID (mr_UserID req) actorLevel ''cannot mute a member with equal or higher permission level''
         (\<lambda>w1. case run_chat (InsertMute serverID (mr_UserID req) actorID (mr_Reason req)
                                 (expiry now (mr_ExpiresIn req))) w1 of
            (Inl _, w2) \<Rightarrow> fail 500 ''failed to create mute'' w2
          | (Inr _, w2) \<Rightarrow>
              (let w3 = snd (run_chat (InsertAuditLog serverID actorID (Some (mr_UserID req)) ''mute''
                               (mr_Reason req) meta) w2)
               in no_content (do {
                    w4 \<leftarrow> EmitSystemMessage serverID ''member_muted'' actorID (Some (mr_UserID req))
                            (mr_Reason req) meta w3;
                    to_server serverID (MemberMuted serverID (mr_UserID req)) w4 }))) w))"

definition unmuteMember ::
  "string \<Rightarrow> string \<Rightarrow> int \<Rightarrow> moderation_request option \<Rightarrow> world \<Rightarrow> guild_result" where
  "unmuteMember serverID actorID actorLevel body w =
     (case check_request actorID body [] PermissionLevelMod actorLevel of
        Some (status, msg) \<Rightarrow> fail status msg w
      | None \<Rightarrow>
      (let req = the body
       in case run_chat (GetActiveMute serverID (mr_UserID req)) w of
         (Inl _, w1) \<Rightarrow> fail 500 ''failed to lookup mute'' w1
       | (Inr None, w1) \<Rightarrow> fail 404 ''no active mute found for this user'' w1
       | (Inr (Some mute), w1) \<Rightarrow>
       (case run_chat (LiftMute (mu_ID mute) actorID) w1 of
          (Inl _, w2) \<Rightarrow> fail 500 ''failed to lift mute'' w2
        | (Inr _, w2) \<Rightarrow>
            (let w3 = snd (run_chat (InsertAuditLog serverID actorID (Some (mr_UserID req)) ''unmute''
                             (mr_Reason req) None) w2)
             in no_content (EmitSystemMessage serverID ''member_unmuted'' actorID (Some (mr_UserID req))
                  (mr_Reason req) None w3)))))"

section \<open>Messages and lists\<close>

definition deleteMessage :: "string \<Rightarrow> string \<Rightarrow> int \<Rightarrow> string \<Rightarrow> world \<Rightarrow> guild_result" where
  "deleteMessage serverID actorID actorLevel messageID w =
     (if actorID = [] then fail 401 ''not authenticated'' w
      else if messageID = [] then fail 400 ''messageId is required'' w
      else case run_chat (GetMessageByID messageID) w of
        (Inl _, w1) \<Rightarrow> fail 500 ''failed to lookup message'' w1
      | (Inr None, w1) \<Rightarrow> fail 404 ''message not found'' w1
      | (Inr (Some m), w1) \<Rightarrow>
      (case run_chat (GetChannelByID (ms_ChannelID m)) w1 of
         (Inl _, w2) \<Rightarrow> fail 500 ''failed to resolve message channel'' w2
       | (Inr c, w2) \<Rightarrow>
      (if \<not> owned_by serverID c then fail 404 ''message not found'' w2
       else if ms_SenderID m \<noteq> Some actorID \<and> actorLevel < PermissionLevelMod
       then fail 403 ''mod level or higher required to delete others' messages'' w2
       else case run_chat (DeleteMessage messageID serverID) w2 of
         (Inl e, w3) \<Rightarrow> (if e = DbNoRows then fail 404 ''message not found'' w3
                        else fail 500 ''failed to delete message'' w3)
       | (Inr _, w3) \<Rightarrow>
           (let meta = [(''message_id'', JStr messageID),
                        (''sender_id'', case ms_SenderID m of None \<Rightarrow> JNull | Some u \<Rightarrow> JStr u),
                        (''channel_id'', JStr (ms_ChannelID m))];
                w4 = snd (run_chat (InsertAuditLog serverID actorID (ms_SenderID m) ''message_delete''
                            ''message deleted'' (Some meta)) w3)
            in no_content (to_server serverID (MessageDeleted messageID (ms_ChannelID m)) w4)))))"

definition listBans :: "string \<Rightarrow> int \<Rightarrow> world \<Rightarrow> guild_result" where
  "listBans serverID actorLevel w =
     (if actorLevel < PermissionLevelAdmin then fail 403 ''admin level or higher required'' w
      else case run_chat (ListActiveBans serverID) w of
        (Inl _, w') \<Rightarrow> fail 500 ''failed to list bans'' w'
      | (Inr bs, w') \<Rightarrow> Some (Done 200 (BansBody bs), w'))"

definition listMutes :: "string \<Rightarrow> int \<Rightarrow> world \<Rightarrow> guild_result" where
  "listMutes serverID actorLevel w =
     (if actorLevel < PermissionLevelAdmin then fail 403 ''admin level or higher required'' w
      else case run_chat (ListActiveMutes serverID) w of
        (Inl _, w') \<Rightarrow> fail 500 ''failed to list mutes'' w'
      | (Inr ms, w') \<Rightarrow> Some (Done 200 (MutesBody ms), w'))"

definition auditLogDefaultLimit :: int where
  "auditLogDefaultLimit = 50"

definition auditLogMaxLimit :: int where
  "auditLogMaxLimit = 100"

definition audit_limit :: "string \<Rightarrow> int" where
  "audit_limit s =
     (let n = (case (if s = [] then None else Atoi s) of
                 Some n \<Rightarrow> if n > 0 then n else auditLogDefaultLimit
               | None \<Rightarrow> auditLogDefaultLimit)
      in if n > auditLogMaxLimit then auditLogMaxLimit else n)"

definition audit_offset :: "string \<Rightarrow> int" where
  "audit_offset s =
     (case (if s = [] then None else Atoi s) of Some n \<Rightarrow> if n \<ge> 0 then n else 0 | None \<Rightarrow> 0)"

definition getAuditLog ::
  "string \<Rightarrow> string \<Rightarrow> int \<Rightarrow> string \<Rightarrow> string \<Rightarrow> AuditLogFilter \<Rightarrow> world \<Rightarrow> guild_result" where
  "getAuditLog serverID actorID actorLevel limitStr offsetStr f w =
     (if actorID = [] then fail 401 ''not authenticated'' w
      else if actorLevel < PermissionLevelAdmin then fail 403 ''admin level or higher required'' w
      else let f' = (if af_Action f \<noteq> [] \<or> af_ActorID f \<noteq> [] \<or> af_TargetID f \<noteq> [] then Some f else None)
      in case run_chat (ListAuditLog serverID (audit_limit limitStr) (audit_offset offsetStr) f') w of
        (Inl _, w') \<Rightarrow> fail 500 ''failed to load audit log'' w'
      | (Inr es, w') \<Rightarrow> Some (Done 200 (AuditBody es), w'))"

section \<open>Routes\<close>

text \<open>The routes of a guild behind \<open>RequireGuildMember\<close>.\<close>

datatype member_request =
    GetServer
  | UpdateServer "bytes option option"
  | DeleteServerReq
  | ChangeRole string "int option"
  | LeaveServer
  | CreateChannelReq "create_channel option"
  | ListChannelsReq
  | GetMessagesReq string string string string
  | DeleteChannelReq string
  | MoveChannelReq string "(string option \<times> int) option"
  | Kick "moderation_request option"
  | BanReq "moderation_request option"
  | Unban "moderation_request option"
  | MuteReq "moderation_request option"
  | Unmute "moderation_request option"
  | DeleteMessageReq string
  | GetAuditLog string string AuditLogFilter
  | ListBans
  | ListMutes
  | ListSystem string string

datatype guild_request =
    CreateServerReq "create_server option"
  | JoinServer string
  | OnServer string member_request

fun member_route :: "ws_env \<Rightarrow> time \<Rightarrow> string \<Rightarrow> string \<Rightarrow> member_request \<Rightarrow> int \<Rightarrow> world \<Rightarrow> guild_result" where
  "member_route E now g u GetServer level w = getServer g w"
| "member_route E now g u (UpdateServer b) level w = updateServer g level b w"
| "member_route E now g u DeleteServerReq level w = deleteServer g level w"
| "member_route E now g u (ChangeRole v b) level w = changeRole g v u level b w"
| "member_route E now g u LeaveServer level w = leaveServer g u level w"
| "member_route E now g u (CreateChannelReq b) level w = createChannel g u level b w"
| "member_route E now g u ListChannelsReq level w = listChannels g w"
| "member_route E now g u (GetMessagesReq c before after lim) level w = getMessages E c u before after lim w"
| "member_route E now g u (DeleteChannelReq c) level w = deleteChannel g c level w"
| "member_route E now g u (MoveChannelReq c b) level w = moveChannel g c level b w"
| "member_route E now g u (Kick b) level w = kickMember g u level b w"
| "member_route E now g u (BanReq b) level w = banMember now g u level b w"
| "member_route E now g u (Unban b) level w = unbanMember g u level b w"
| "member_route E now g u (MuteReq b) level w = muteMember now g u level b w"
| "member_route E now g u (Unmute b) level w = unmuteMember g u level b w"
| "member_route E now g u (DeleteMessageReq m) level w = deleteMessage g u level m w"
| "member_route E now g u (GetAuditLog l off f) level w = getAuditLog g u level l off f w"
| "member_route E now g u ListBans level w = listBans g level w"
| "member_route E now g u ListMutes level w = listMutes g level w"
| "member_route E now g u (ListSystem before lim) level w = listSystemMessages E g before lim w"

text \<open>\<open>RequireAuth\<close> admits local users only, so the federated identity is empty.\<close>

fun ServerRoutes :: "ws_env \<Rightarrow> time \<Rightarrow> string \<Rightarrow> guild_request \<Rightarrow> world \<Rightarrow> guild_result" where
  "ServerRoutes E now u (CreateServerReq b) w = createServer u b w"
| "ServerRoutes E now u (JoinServer g) w = joinServer g u w"
| "ServerRoutes E now u (OnServer g r) w = RequireGuildMember g [] u (member_route E now g u r) w"

end
