(* ===== verification/Guild_Facts.thy ===== *)
theory Guild_Facts
  imports Moderation Db_Frame
begin

text \<open>
  What the guild handlers do to the memberships: the relation \<open>same_members\<close>, which all
  queries but five keep, and the effect of those five.
\<close>

section \<open>Chained statements\<close>

context db_frame
begin

lemma keeps_return: "keeps (return_op x)"
  by (simp add: keeps_def return_op_def)

lemma keeps_pure: "keeps (\<lambda>d. (x, d))"
  by (simp add: keeps_def)

lemma keeps_bind: "keeps q \<Longrightarrow> (\<And>x. keeps (k x)) \<Longrightarrow> keeps (bind_op q k)"
  unfolding keeps_def
proof (intro allI)
  fix d
  assume q: "\<forall>d. R d (snd (q d))" and k: "\<And>x. \<forall>d. R d (snd (k x d))"
  have "R d (snd (q d))" using q ..
  then show "R d (snd (bind_op q k d))"
    using k trans by (cases "q d") (auto simp: bind_op_def split: sum.splits)
qed

end

section \<open>Handlers that only write logs\<close>

text \<open>The system messages and the audit log; what a removal from a guild brings along.\<close>

lemma to_server_arrives: "holds P w \<Longrightarrow> arrives P (to_server g f w)"
  by (simp add: to_server_def lands)

lemma no_content_lands: "arrives P r \<Longrightarrow> lands P (no_content r)"
  by (simp add: no_content_def lands)

lemma holds_hub: "holds P w \<Longrightarrow> holds P (w\<lparr>hub := h\<rparr>)"
  by (simp add: holds_def)

locale log_frame = tick_frame +
  assumes audit: "R d (d\<lparr>cd_audit := a\<rparr>)" and system: "R d (d\<lparr>cd_system := m\<rparr>)"
begin

lemma keeps_logs:
  "keeps (InsertAuditLog g u tg act r me)" "keeps (InsertSystemMessage g ev u tg r me)" "keeps (ListChannels g)"
  unfolding InsertAuditLog_def InsertSystemMessage_def ListChannels_def
  by (rule keeps_query keeps_read; simp add: Let_def audit system)+

lemma emit_arrives:
  "closed P \<Longrightarrow> holds P w \<Longrightarrow> arrives P (EmitSystemMessage g ev a tg r m w)"
  unfolding EmitSystemMessage_def
  by (rule arrives_run [OF keeps_logs(2)] | assumption | rule lands to_server_arrives)+

lemma evict_lands:
  "closed P \<Longrightarrow> holds P w \<Longrightarrow> (\<And>rooms w1. holds P w1 \<Longrightarrow> lands P (k rooms w1)) \<Longrightarrow>
   lands P (case evictUserFromGuildVoice g u w of (rooms, w1) \<Rightarrow> k rooms w1)"
proof -
  assume P: "closed P" "holds P w" and k: "\<And>rooms w1. holds P w1 \<Longrightarrow> lands P (k rooms w1)"
  then have "holds P (snd (run_chat (ListChannels g) w))" by (intro snd_run keeps_logs)
  then show ?thesis
    using k by (cases "run_chat (ListChannels g) w") (auto simp: evictUserFromGuildVoice_def split: sum.splits)
qed

lemma after_removal_lands:
  "closed P \<Longrightarrow> holds P w \<Longrightarrow> lands P (after_removal g u req act ev meta f w)"
  unfolding after_removal_def Let_def
  by (assumption | rule evict_lands lands emit_arrives to_server_arrives snd_run keeps_logs holds_hub)+

end

section \<open>Queries that leave the memberships alone\<close>

definition same_members :: "chat_db \<Rightarrow> chat_db \<Rightarrow> bool" where
  "same_members d d' \<longleftrightarrow> cd_members d' = cd_members d \<and> map sv_ID (cd_servers d') = map sv_ID (cd_servers d)"

interpretation roster: log_frame same_members
  by unfold_locales (auto simp: same_members_def)

lemma drop_channels_members [simp]:
  "cd_members (drop_channels p d) = cd_members d" "cd_servers (drop_channels p d) = cd_servers d"
  by (simp_all add: drop_channels_def drop_messages_def Let_def)

lemma roster_reads:
  "roster.keeps (GetServerByID g)" "roster.keeps ListGuildBillingStats" "roster.keeps (CountOwnedServers u)"
  "roster.keeps GetInstancePolicy" "roster.keeps GetDefaultServerTemplate" "roster.keeps (ListChannels g)"
  "roster.keeps (GetActiveBan g u)" "roster.keeps (ListActiveBans g)" "roster.keeps (ListActiveMutes g)"
  "roster.keeps (GetActiveMute g u)" "roster.keeps (ListAuditLog g l off f)" "roster.keeps (ListSystemMessages g bf l)"
  "roster.keeps (GetChannelByID c)" "roster.keeps (IsChannelMember c u)" "roster.keeps (GetMessageByID m)"
  unfolding GetServerByID_def ListGuildBillingStats_def CountOwnedServers_def GetInstancePolicy_def
    GetDefaultServerTemplate_def ListChannels_def GetActiveBan_def ListActiveBans_def ListActiveMutes_def
    GetActiveMute_def ListAuditLog_def ListSystemMessages_def GetChannelByID_def IsChannelMember_def
    GetMessageByID_def
  by (rule roster.keeps_read)+

lemma roster_history:
  "roster.keeps (GetMessages c u bf l)" "roster.keeps (GetMessagesAfter c u bf l)"
  by (auto simp: GetMessages_def GetMessagesAfter_def intro: roster.keeps_read roster.keeps_pure)

lemma roster_writes:
  "roster.keeps (GetServerMemberLevel g u)" "roster.keeps (UpdateServerEncryptedMetadata g b)"
  "roster.keeps (IncrementGuildMemberCount g n)" "roster.keeps (GetServerTemplateByID i)"
  "roster.keeps (CreateChannel g b ty p pos)" "roster.keeps (GetChannelByTypeAndPosition g ty pos)"
  "roster.keeps (InsertBan g u a r ex)" "roster.keeps (LiftBan i a)" "roster.keeps (InsertMute g u a r ex)"
  "roster.keeps (LiftMute i a)" "roster.keeps (InsertAuditLog g a tg act r me)"
  "roster.keeps (InsertSystemMessage g ev a tg r me)" "roster.keeps (DeleteMessage m g)"
  "roster.keeps (shiftPositions c cat p cmp pos n)"
  unfolding GetServerMemberLevel_def UpdateServerEncryptedMetadata_def IncrementGuildMemberCount_def
    GetServerTemplateByID_def CreateChannel_def GetChannelByTypeAndPosition_def InsertBan_def LiftBan_def
    InsertMute_def LiftMute_def InsertAuditLog_def InsertSystemMessage_def DeleteMessage_def shiftPositions_def
  by (rule roster.keeps_query; simp add: same_members_def Let_def map_sql_update drop_messages_def split: option.splits)+

lemma roster_channels:
  "roster.keeps (DeleteChannelTree c g)" "roster.keeps (MoveChannel c g p pos)"
proof -
  have q: "roster.keeps (chat_query q)" if "\<And>now uuid d. same_members d (snd (q now uuid d))"
    for q :: "time \<Rightarrow> string \<Rightarrow> 'b chat_op"
    using that by (rule roster.keeps_query)
  have p: "roster.keeps (check_parent g p)"
    unfolding check_parent_def
    by (cases p) (auto intro!: q roster.keeps_return simp: same_members_def split: option.splits)
  have t: "roster.keeps (tree_ids c g ty)" for ty
    unfolding tree_ids_def by (auto intro: roster.keeps_bind roster.keeps_read roster.keeps_return)
  show "roster.keeps (DeleteChannelTree c g)"
    unfolding DeleteChannelTree_def
    by (intro roster.keeps_tx roster.keeps_bind roster.keeps_query roster.keeps_read t)
       (simp_all add: same_members_def Let_def split: option.splits)
  show "roster.keeps (MoveChannel c g p pos)"
    unfolding MoveChannel_def Let_def
    by (intro roster.keeps_tx roster.keeps_bind roster.keeps_query p roster_writes)
       (simp_all add: same_members_def split: option.splits)
qed

lemmas roster_queries = roster_reads roster_history roster_writes roster_channels

section \<open>Handlers that leave the memberships alone\<close>

lemmas roster_rules = lands to_server_arrives no_content_lands roster.emit_arrives roster.lands_run roster.arrives_run
  roster.snd_run roster_queries

lemma check_target_lands:
  "roster.closed P \<Longrightarrow> holds P w \<Longrightarrow> (\<And>w'. holds P w' \<Longrightarrow> lands P (k w')) \<Longrightarrow> lands P (check_target g u l m k w)"
  unfolding check_target_def by (assumption | rule roster_rules)+

lemma lands_case_prod:
  "(\<And>x y. z = (x, y) \<Longrightarrow> lands P (f x y)) \<Longrightarrow> lands P (case z of (x, y) \<Rightarrow> f x y)"
  by (cases z) auto

lemma lands_case_bool:
  "(b \<Longrightarrow> lands P x) \<Longrightarrow> (\<not> b \<Longrightarrow> lands P y) \<Longrightarrow> lands P (case b of True \<Rightarrow> x | False \<Rightarrow> y)"
  by (cases b) auto

lemma history_query:
  "roster.keeps (if b then GetMessagesAfter c u after limit else GetMessages c u before limit)"
  by (simp add: roster_history)

lemma readers_land:
  "roster.closed P \<Longrightarrow> holds P w \<Longrightarrow> lands P (getServer g w)"
  "roster.closed P \<Longrightarrow> holds P w \<Longrightarrow> lands P (listChannels g w)"
  "roster.closed P \<Longrightarrow> holds P w \<Longrightarrow> lands P (listSystemMessages E g bf lim w)"
  "roster.closed P \<Longrightarrow> holds P w \<Longrightarrow> lands P (getMessages E c u bf af lim w)"
  "roster.closed P \<Longrightarrow> holds P w \<Longrightarrow> lands P (listBans g l w)"
  "roster.closed P \<Longrightarrow> holds P w \<Longrightarrow> lands P (listMutes g l w)"
  "roster.closed P \<Longrightarrow> holds P w \<Longrightarrow> lands P (getAuditLog g u l lim off f w)"
  unfolding getServer_def listChannels_def listSystemMessages_def getMessages_def listBans_def listMutes_def
    getAuditLog_def Let_def
  by (assumption | rule roster_rules lands_case_bool history_query)+

lemma announce_arrives: "holds P w \<Longrightarrow> arrives P (announce_deleted g ids w)"
proof (induction ids arbitrary: w)
  case (Cons i ids)
  then show ?case unfolding announce_deleted.simps by (intro lands to_server_arrives)
qed (simp add: lands)

lemma check_new_parent_closed:
  "roster.closed P \<Longrightarrow> holds P w \<Longrightarrow> holds P (snd (check_new_parent g p w))"
proof (cases p)
  case (Some i)
  assume "roster.closed P" "holds P w"
  then have "holds P (snd (run_chat (GetChannelByID i) w))" by (intro roster.snd_run roster_queries)
  with Some show ?thesis
    by (cases "run_chat (GetChannelByID i) w") (auto simp: check_new_parent_def split: sum.splits option.splits)
qed (simp add: check_new_parent_def)

lemma channels_land:
  "roster.closed P \<Longrightarrow> holds P w \<Longrightarrow> lands P (createChannel g u l b w)"
  "roster.closed P \<Longrightarrow> holds P w \<Longrightarrow> lands P (updateServer g l b' w)"
  "roster.closed P \<Longrightarrow> holds P w \<Longrightarrow> lands P (deleteMessage g u l m w)"
  unfolding createChannel_def updateServer_def deleteMessage_def Let_def
  by (assumption | rule roster_rules)+

lemma deleteChannel_lands:
  "roster.closed P \<Longrightarrow> holds P w \<Longrightarrow> lands P (deleteChannel g c l w)"
  unfolding deleteChannel_def
  by (assumption | rule roster_rules announce_arrives lands_case_prod)+

lemma parent_lands:
  "roster.closed P \<Longrightarrow> holds P w \<Longrightarrow> (\<And>r w2. holds P w2 \<Longrightarrow> lands P (k r w2)) \<Longrightarrow>
   lands P (case check_new_parent g q w of (r, w2) \<Rightarrow> k r w2)"
  using check_new_parent_closed [of P w g q] by (cases "check_new_parent g q w") auto

lemma moveChannel_lands:
  "roster.closed P \<Longrightarrow> holds P w \<Longrightarrow> lands P (moveChannel g c l b w)"
  unfolding moveChannel_def by (assumption | rule roster_rules parent_lands lands_case_prod)+

lemma moderation_lands:
  "roster.closed P \<Longrightarrow> holds P w \<Longrightarrow> lands P (unbanMember g u l b w)"
  "roster.closed P \<Longrightarrow> holds P w \<Longrightarrow> lands P (muteMember now g u l b w)"
  "roster.closed P \<Longrightarrow> holds P w \<Longrightarrow> lands P (unmuteMember g u l b w)"
  unfolding unbanMember_def muteMember_def unmuteMember_def Let_def
  by (assumption | rule roster_rules check_target_lands lands_case_prod)+

section \<open>Levels\<close>

definition level_of :: "chat_db \<Rightarrow> string \<Rightarrow> string \<Rightarrow> int option" where
  "level_of d g u = map_option sm_PermissionLevel
     (find (\<lambda>m. sm_ServerID m = g \<and> sm_UserID m = Some u) (cd_members d))"

definition server_ids :: "chat_db \<Rightarrow> string set" where
  "server_ids d = sv_ID ` set (cd_servers d)"

lemma same_members_level: "same_members d d' \<Longrightarrow> level_of d' = level_of d"
  by (simp add: same_members_def level_of_def fun_eq_iff)

lemma same_members_ids: "same_members d d' \<Longrightarrow> server_ids d' = server_ids d"
  unfolding same_members_def server_ids_def by (metis list.set_map)

lemma level_of_append: "level_of (d\<lparr>cd_members := cd_members d @ [m]\<rparr>) g u =
    (case level_of d g u of
       None \<Rightarrow> if sm_ServerID m = g \<and> sm_UserID m = Some u then Some (sm_PermissionLevel m) else None
     | Some l \<Rightarrow> Some l)"
  by (simp add: level_of_def find_append split: option.splits)

lemma level_of_None: "level_of d g u = None \<longleftrightarrow> \<not> sql_exists (\<lambda>m. sm_ServerID m = g \<and> sm_UserID m = Some u) (cd_members d)"
  by (auto simp: level_of_def find_None_iff sql_exists_iff)

lemma find_delete: "find p (sql_delete q rs) = find (\<lambda>r. p r \<and> \<not> q r) rs"
  by (induction rs) (auto simp: sql_delete_def)

lemma GetServerMemberLevel_level:
  "run_chat (GetServerMemberLevel g u) w = (Inr l, w') \<Longrightarrow> level_of (cdb w) g u = Some l"
  by (auto simp: run_chat_def GetServerMemberLevel_def chat_query_def level_of_def Let_def
      split: if_splits prod.splits option.splits)

lemma RemoveServerMember_levels:
  assumes "run_chat (RemoveServerMember g v) w = (r, w')"
  shows "same_members (cdb w) (cdb w') \<and> isl r \<or>
    (\<forall>g' v'. level_of (cdb w') g' v' = (if g' = g \<and> v' = v then None else level_of (cdb w) g' v')) \<and>
    server_ids (cdb w') = server_ids (cdb w)"
proof (cases "cd_fault (cdb w) (cd_tick (cdb w))")
  case True
  with assms show ?thesis
    by (auto simp: run_chat_def RemoveServerMember_def chat_query_def same_members_def Let_def)
next
  case False
  with assms have d: "cdb w' = (cdb w)\<lparr>cd_tick := Suc (cd_tick (cdb w)), cd_members :=
      sql_delete (\<lambda>m. sm_ServerID m = g \<and> sm_UserID m = Some v) (cd_members (cdb w))\<rparr>"
    by (auto simp: run_chat_def RemoveServerMember_def chat_query_def Let_def)
  have "level_of (cdb w') g' v' = (if g' = g \<and> v' = v then None else level_of (cdb w) g' v')" for g' v'
  proof (cases "g' = g \<and> v' = v")
    case True
    then show ?thesis unfolding level_of_def d by (simp add: find_sql_delete_None)
  next
    case False
    then have "find (\<lambda>m. sm_ServerID m = g' \<and> sm_UserID m = Some v')
        (sql_delete (\<lambda>m. sm_ServerID m = g \<and> sm_UserID m = Some v) (cd_members (cdb w))) =
      find (\<lambda>m. sm_ServerID m = g' \<and> sm_UserID m = Some v') (cd_members (cdb w))"
      by (intro find_sql_delete_other) auto
    with False show ?thesis by (auto simp: level_of_def d)
  qed
  then show ?thesis by (simp add: d server_ids_def)
qed

lemma UpdateServerMemberLevel_levels:
  assumes "run_chat (UpdateServerMemberLevel g v l) w = (r, w')"
  shows "same_members (cdb w) (cdb w') \<or>
    (\<forall>g' v'. level_of (cdb w') g' v' = (if g' = g \<and> v' = v then map_option (\<lambda>_. l) (level_of (cdb w) g' v')
       else level_of (cdb w) g' v')) \<and> server_ids (cdb w') = server_ids (cdb w)"
proof -
  let ?same = "\<lambda>m. sm_ServerID m = g \<and> sm_UserID m = Some v"
  from assms consider "same_members (cdb w) (cdb w')"
    | "cdb w' = (cdb w)\<lparr>cd_tick := Suc (cd_tick (cdb w)),
        cd_members := sql_update ?same (\<lambda>m. m\<lparr>sm_PermissionLevel := l\<rparr>) (cd_members (cdb w))\<rparr>"
    by (auto simp: run_chat_def UpdateServerMemberLevel_def chat_query_def same_members_def Let_def split: if_splits)
  then show ?thesis
  proof cases
    case 1
    then show ?thesis by simp
  next
    case 2
    have "map_option sm_PermissionLevel (find (\<lambda>m. sm_ServerID m = g' \<and> sm_UserID m = Some v')
          (sql_update ?same (\<lambda>m. m\<lparr>sm_PermissionLevel := l\<rparr>) rs)) =
        (if g' = g \<and> v' = v then map_option (\<lambda>_. l) (map_option sm_PermissionLevel (find ?same rs))
         else map_option sm_PermissionLevel (find (\<lambda>m. sm_ServerID m = g' \<and> sm_UserID m = Some v') rs))" for g' v' rs
      by (induction rs) (auto simp: sql_update_def)
    from this [of _ _ "cd_members (cdb w)"]
    have "level_of (cdb w') g' v' = (if g' = g \<and> v' = v then map_option (\<lambda>_. l) (level_of (cdb w) g' v')
       else level_of (cdb w) g' v')" for g' v'
      unfolding level_of_def 2 by auto
    moreover have "server_ids (cdb w') = server_ids (cdb w)" by (simp add: 2 server_ids_def)
    ultimately show ?thesis by blast
  qed
qed

lemma AddServerMember_levels:
  assumes "run_chat (AddServerMember g v l) w = (r, w')"
  shows "same_members (cdb w) (cdb w') \<and> isl r \<or> level_of (cdb w) g v = None \<and> g \<in> server_ids (cdb w) \<and>
    (\<forall>g' v'. level_of (cdb w') g' v' = (if g' = g \<and> v' = v then Some l else level_of (cdb w) g' v')) \<and>
    server_ids (cdb w') = server_ids (cdb w)"
proof -
  let ?row = "\<lparr>sm_ServerID = g, sm_UserID = Some v, sm_FederatedIdentityID = None,
              sm_PermissionLevel = l, sm_JoinedAt = cd_clock (cdb w) (cd_tick (cdb w))\<rparr>"
  let ?d = "(cdb w)\<lparr>cd_tick := Suc (cd_tick (cdb w))\<rparr>"
  from assms consider "same_members (cdb w) (cdb w') \<and> isl r"
    | "cdb w' = ?d\<lparr>cd_members := cd_members ?d @ [?row]\<rparr>"
        "\<not> sql_exists (\<lambda>m. sm_ServerID m = g \<and> sm_UserID m = Some v) (cd_members (cdb w))"
        "sql_exists (\<lambda>s. sv_ID s = g) (cd_servers (cdb w))"
    by (auto simp: run_chat_def AddServerMember_def chat_query_def same_members_def Let_def split: if_splits)
  then show ?thesis
  proof cases
    case 1
    then show ?thesis by simp
  next
    case 2
    have o: "level_of ?d = level_of (cdb w)" by (simp add: level_of_def fun_eq_iff)
    have "level_of (cdb w) g v = None" using 2(2) by (simp add: level_of_None)
    moreover have "g \<in> server_ids (cdb w)" using 2(3) by (auto simp: sql_exists_iff server_ids_def)
    ultimately show ?thesis
      unfolding 2(1) level_of_append o by (auto simp: server_ids_def split: option.splits)
  qed
qed

lemma CreateServer_levels:
  assumes "run_chat (CreateServer b) w = (r, w')"
  shows "level_of (cdb w') = level_of (cdb w) \<and>
    (case r of Inl _ \<Rightarrow> server_ids (cdb w') = server_ids (cdb w)
     | Inr s \<Rightarrow> sv_ID s \<notin> server_ids (cdb w) \<and> server_ids (cdb w') = insert (sv_ID s) (server_ids (cdb w)))"
proof -
  let ?t = "cd_tick (cdb w)" and ?d = "(cdb w)\<lparr>cd_tick := Suc (cd_tick (cdb w))\<rparr>"
  let ?s = "new_server (cd_uuid (cdb w) ?t) (cd_clock (cdb w) ?t) b"
  have i: "sv_ID (new_server i n b) = i" for i n by (simp add: new_server_def)
  from assms consider "isl r" "cdb w' = ?d"
    | "r = Inr ?s" "cdb w' = ?d\<lparr>cd_servers := cd_servers ?d @ [?s]\<rparr>"
      "\<not> sql_exists (\<lambda>s. sv_ID s = cd_uuid (cdb w) ?t) (cd_servers (cdb w))"
    by (auto simp: run_chat_def CreateServer_def chat_query_def Let_def split: if_splits)
  then show ?thesis
  proof cases
    case 1
    then show ?thesis by (cases r) (simp_all add: level_of_def server_ids_def fun_eq_iff)
  next
    case 2
    then show ?thesis by (auto simp: level_of_def server_ids_def fun_eq_iff i sql_exists_iff)
  qed
qed

lemma DeleteServer_levels:
  assumes "run_chat (DeleteServer g) w = (r, w')"
  shows "same_members (cdb w) (cdb w') \<or>
    (\<forall>g' v'. level_of (cdb w') g' v' = (if g' = g then None else level_of (cdb w) g' v')) \<and>
    server_ids (cdb w') = server_ids (cdb w) - {g}"
proof (cases "cd_fault (cdb w) (cd_tick (cdb w))")
  case True
  with assms show ?thesis by (auto simp: run_chat_def DeleteServer_def chat_query_def same_members_def Let_def)
next
  case False
  with assms have d: "cd_members (cdb w') = sql_delete (\<lambda>m. sm_ServerID m = g) (cd_members (cdb w))"
    and e: "cd_servers (cdb w') = sql_delete (\<lambda>s. sv_ID s = g) (cd_servers (cdb w))"
    by (auto simp: run_chat_def DeleteServer_def chat_query_def drop_server_def Let_def)
  have "level_of (cdb w') g' v' = (if g' = g then None else level_of (cdb w) g' v')" for g' v'
  proof (cases "g' = g")
    case True
    then show ?thesis unfolding level_of_def d by (auto simp: find_None_all sql)
  next
    case False
    then have "find (\<lambda>m. sm_ServerID m = g' \<and> sm_UserID m = Some v')
        (sql_delete (\<lambda>m. sm_ServerID m = g) (cd_members (cdb w))) =
      find (\<lambda>m. sm_ServerID m = g' \<and> sm_UserID m = Some v') (cd_members (cdb w))"
      by (intro find_sql_delete_other) auto
    with False show ?thesis by (auto simp: level_of_def d)
  qed
  moreover have "server_ids (cdb w') = server_ids (cdb w) - {g}" by (auto simp: server_ids_def e sql)
  ultimately show ?thesis by simp
qed

section \<open>Changes of a membership\<close>

text \<open>The member that a kick, a ban or a role change is about.\<close>

fun target_of :: "member_request \<Rightarrow> string option" where
  "target_of (Kick b) = map_option mr_UserID b"
| "target_of (BanReq b) = map_option mr_UserID b"
| "target_of (ChangeRole v b) = Some v"
| "target_of r = None"

text \<open>What the request \<open>r\<close> of the user \<open>u\<close> may do to the level of \<open>v\<close> in the guild \<open>g\<close>.\<close>

definition change_ok ::
  "string \<Rightarrow> guild_request \<Rightarrow> chat_db \<Rightarrow> string \<Rightarrow> string \<Rightarrow> int option \<Rightarrow> bool" where
  "change_ok u r d g v new \<longleftrightarrow>
     new = level_of d g v
     \<or> r = JoinServer g \<and> v = u \<and> level_of d g u = None \<and> new = Some PermissionLevelMember
     \<or> (\<exists>b. r = CreateServerReq b) \<and> v = u \<and> g \<notin> server_ids d \<and> level_of d g u = None \<and>
         new = Some PermissionLevelOwner
     \<or> r = OnServer g LeaveServer \<and> v = u \<and> new = None \<and> level_of d g u \<noteq> Some PermissionLevelOwner
     \<or> (\<exists>m l t. r = OnServer g m \<and> target_of m = Some v \<and>
         level_of d g u = Some l \<and> level_of d g v = Some t \<and> t < l \<and>
         (new = None \<or> (\<exists>n. new = Some n \<and> PermissionLevelMember \<le> n \<and> n < l)))
     \<or> r = OnServer g DeleteServerReq \<and> new = None \<and> level_of d g u = Some PermissionLevelOwner"

definition step_ok :: "string \<Rightarrow> guild_request \<Rightarrow> chat_db \<Rightarrow> chat_db \<Rightarrow> bool" where
  "step_ok u x d d' \<longleftrightarrow> (\<forall>g v. change_ok u x d g v (level_of d' g v)) \<and>
     (\<forall>g \<in> server_ids d. x = OnServer g DeleteServerReq \<and> level_of d g u = Some PermissionLevelOwner \<or>
        g \<in> server_ids d')"

lemma step_ok_closed: "roster.closed (step_ok u x d)"
  by (simp add: roster.closed_def step_ok_def same_members_level same_members_ids)

lemma same_step_ok: "same_members d d' \<Longrightarrow> step_ok u x d d'"
  by (simp add: step_ok_def change_ok_def same_members_level same_members_ids)

lemma same_holds: "holds (same_members d) w \<Longrightarrow> holds (step_ok u x d) w"
  by (simp add: holds_def same_step_ok)

lemmas before_run = roster.lands_via [OF _ roster.closed_R]

lemma step_run:
  "(\<And>r w'. run_chat q w = (r, w') \<Longrightarrow> holds Q w') \<Longrightarrow>
   (\<And>r w'. run_chat q w = (r, w') \<Longrightarrow> holds Q w' \<Longrightarrow> lands Q (h r w')) \<Longrightarrow>
   lands Q (case run_chat q w of (r, w') \<Rightarrow> h r w')"
  by (cases "run_chat q w") auto

lemma check_target_before:
  "holds (same_members d) w \<Longrightarrow>
   (\<And>t w'. holds (same_members d) w' \<Longrightarrow> level_of d g v = Some t \<Longrightarrow> t < l \<Longrightarrow> lands (step_ok u x d) (k w')) \<Longrightarrow>
   lands (step_ok u x d) (check_target g v l m k w)"
proof -
  assume w: "holds (same_members d) w" and k: "\<And>t w'. holds (same_members d) w' \<Longrightarrow>
    level_of d g v = Some t \<Longrightarrow> t < l \<Longrightarrow> lands (step_ok u x d) (k w')"
  obtain r w' where q: "run_chat (GetServerMemberLevel g v) w = (r, w')" by fastforce
  have w': "holds (same_members d) w'"
    using roster.run_chat_R [OF q] roster_queries w roster.trans by (auto simp: holds_def)
  have "level_of d g v = Some t" if "r = Inr t" for t
    using GetServerMemberLevel_level q that w same_members_level unfolding holds_def by metis
  then show ?thesis
    unfolding check_target_def q using w' by (auto simp: lands_def same_holds dest: k split: sum.splits if_splits)
qed

section \<open>The five changes\<close>

lemma changed_one:
  assumes "\<forall>g' v'. level_of d' g' v' = (if g' = g \<and> v' = v then new else level_of d g' v')"
    and "change_ok u x d g v new" and "server_ids d \<subseteq> server_ids d'"
  shows "step_ok u x d d'"
  using assms by (auto simp: step_ok_def change_ok_def)

lemma same_of: "holds (same_members d) w \<Longrightarrow> level_of (cdb w) = level_of d \<and> server_ids (cdb w) = server_ids d"
  by (simp add: holds_def same_members_level same_members_ids)

lemma same_next: "holds (same_members d) w \<Longrightarrow> same_members (cdb w) (cdb w') \<Longrightarrow> holds (step_ok u x d) w'"
  unfolding holds_def by (rule same_step_ok) (rule roster.trans)

lemma removal_ok:
  assumes "run_chat (RemoveServerMember g v) w = (r, w')" and w: "holds (same_members d) w"
    and c: "change_ok u x d g v None"
  shows "holds (step_ok u x d) w'"
  using RemoveServerMember_levels [OF assms(1)]
proof
  assume "same_members (cdb w) (cdb w') \<and> isl r"
  then show ?thesis using w by (blast intro: same_next)
next
  assume "(\<forall>g' v'. level_of (cdb w') g' v' = (if g' = g \<and> v' = v then None else level_of (cdb w) g' v')) \<and>
    server_ids (cdb w') = server_ids (cdb w)"
  then show ?thesis using changed_one [OF _ c] same_of [OF w] by (simp add: holds_def)
qed

lemma relevel_ok:
  assumes "run_chat (UpdateServerMemberLevel g v n) w = (r, w')" and w: "holds (same_members d) w"
    and t: "level_of d g v = Some t" and c: "change_ok u x d g v (Some n)"
  shows "holds (step_ok u x d) w'"
  using UpdateServerMemberLevel_levels [OF assms(1)]
proof
  assume "same_members (cdb w) (cdb w')"
  then show ?thesis using w by (blast intro: same_next)
next
  assume "(\<forall>g' v'. level_of (cdb w') g' v' = (if g' = g \<and> v' = v then map_option (\<lambda>_. n) (level_of (cdb w) g' v')
       else level_of (cdb w) g' v')) \<and> server_ids (cdb w') = server_ids (cdb w)"
  then have "\<forall>g' v'. level_of (cdb w') g' v' = (if g' = g \<and> v' = v then Some n else level_of d g' v')"
    "server_ids d \<subseteq> server_ids (cdb w')"
    using same_of [OF w] t by auto
  then show ?thesis using changed_one [OF _ c] by (simp add: holds_def)
qed

lemma deletion_ok:
  assumes "run_chat (DeleteServer g) w = (r, w')" and w: "holds (same_members d) w"
    and owner: "level_of d g u = Some PermissionLevelOwner" and x: "x = OnServer g DeleteServerReq"
  shows "holds (step_ok u x d) w'"
  using DeleteServer_levels [OF assms(1)]
proof
  assume "same_members (cdb w) (cdb w')"
  then show ?thesis using w by (blast intro: same_next)
next
  assume "(\<forall>g' v'. level_of (cdb w') g' v' = (if g' = g then None else level_of (cdb w) g' v')) \<and>
    server_ids (cdb w') = server_ids (cdb w) - {g}"
  then show ?thesis using owner x same_of [OF w] by (auto simp: holds_def step_ok_def change_ok_def)
qed

lemma joining_ok:
  assumes "run_chat (AddServerMember g u l) w = (r, w')" and w: "level_of (cdb w) = level_of d" "server_ids d \<subseteq> server_ids (cdb w)"
    and l: "level_of d g u = None \<Longrightarrow> change_ok u x d g u (Some l)"
  shows "holds (step_ok u x d) w'"
  using AddServerMember_levels [OF assms(1)]
proof
  assume "same_members (cdb w) (cdb w') \<and> isl r"
  then show ?thesis using w same_members_level [of "cdb w" "cdb w'"] same_members_ids [of "cdb w" "cdb w'"]
    by (auto simp: holds_def step_ok_def change_ok_def)
next
  assume "level_of (cdb w) g u = None \<and> g \<in> server_ids (cdb w) \<and>
    (\<forall>g' v'. level_of (cdb w') g' v' = (if g' = g \<and> v' = u then Some l else level_of (cdb w) g' v')) \<and>
    server_ids (cdb w') = server_ids (cdb w)"
  then show ?thesis
    using changed_one [of "cdb w'" g u "Some l" d u x] l w by (simp add: holds_def)
qed

end
