(* ===== verification/Guild_Steps.thy ===== *)
theory Guild_Steps
  imports Guild_Facts
begin

text \<open>
  Every request to \<open>ServerRoutes\<close> changes the memberships as \<open>step_ok\<close> allows: the handlers
  that change them, the creation of a guild, and the routes.
\<close>

section \<open>Rules for the five changes\<close>

lemma fail_same: "holds (same_members d) w \<Longrightarrow> lands (step_ok u x d) (Some (a, w))"
  by (rule lands_Some) (rule same_holds)

lemma removal_run:
  "holds (same_members d) w \<Longrightarrow> change_ok u x d g v None \<Longrightarrow>
   (\<And>r w'. holds (step_ok u x d) w' \<Longrightarrow> lands (step_ok u x d) (h r w')) \<Longrightarrow>
   lands (step_ok u x d) (case run_chat (RemoveServerMember g v) w of (r, w') \<Rightarrow> h r w')"
  by (rule step_run) (simp_all add: removal_ok)

lemma removal_snd:
  "holds (same_members d) w \<Longrightarrow> change_ok u x d g v None \<Longrightarrow>
   holds (step_ok u x d) (snd (run_chat (RemoveServerMember g v) w))"
  using removal_ok [of g v w] by (cases "run_chat (RemoveServerMember g v) w") simp

lemma relevel_run:
  "holds (same_members d) w \<Longrightarrow> level_of d g v = Some t \<Longrightarrow> change_ok u x d g v (Some n) \<Longrightarrow>
   (\<And>r w'. holds (step_ok u x d) w' \<Longrightarrow> lands (step_ok u x d) (h r w')) \<Longrightarrow>
   lands (step_ok u x d) (case run_chat (UpdateServerMemberLevel g v n) w of (r, w') \<Rightarrow> h r w')"
  by (rule step_run) (simp_all add: relevel_ok)

lemma deletion_run:
  "holds (same_members d) w \<Longrightarrow> level_of d g u = Some PermissionLevelOwner \<Longrightarrow> x = OnServer g DeleteServerReq \<Longrightarrow>
   (\<And>r w'. holds (step_ok u x d) w' \<Longrightarrow> lands (step_ok u x d) (h r w')) \<Longrightarrow>
   lands (step_ok u x d) (case run_chat (DeleteServer g) w of (r, w') \<Rightarrow> h r w')"
  by (rule step_run) (simp_all add: deletion_ok)

lemma joining_run:
  "level_of (cdb w) = level_of d \<Longrightarrow> server_ids d \<subseteq> server_ids (cdb w) \<Longrightarrow>
   (level_of d g u = None \<Longrightarrow> change_ok u x d g u (Some l)) \<Longrightarrow>
   (\<And>r w'. holds (step_ok u x d) w' \<Longrightarrow> lands (step_ok u x d) (h r w')) \<Longrightarrow>
   lands (step_ok u x d) (case run_chat (AddServerMember g u l) w of (r, w') \<Rightarrow> h r w')"
  by (rule step_run) (simp_all add: joining_ok)

lemma lower_may_go:
  "level_of d g u = Some l \<Longrightarrow> level_of d g v = Some t \<Longrightarrow> t < l \<Longrightarrow> target_of m = Some v \<Longrightarrow>
   change_ok u (OnServer g m) d g v None"
  by (simp add: change_ok_def)

lemma lower_may_change:
  "level_of d g u = Some l \<Longrightarrow> level_of d g v = Some t \<Longrightarrow> \<not> l \<le> t \<Longrightarrow> \<not> l \<le> n \<Longrightarrow>
   \<not> (n < PermissionLevelMember \<or> n > PermissionLevelOwner) \<Longrightarrow>
   change_ok u (OnServer g (ChangeRole v b)) d g v (Some n)"
  by (simp add: change_ok_def)

lemma may_leave:
  "level_of d g u = Some l \<Longrightarrow> l \<noteq> PermissionLevelOwner \<Longrightarrow> change_ok u (OnServer g LeaveServer) d g u None"
  by (simp add: change_ok_def)

lemma may_join:
  "level_of d g u = None \<Longrightarrow> change_ok u (JoinServer g) d g u (Some PermissionLevelMember)"
  by (simp add: change_ok_def)

text \<open>A request that passes its checks has a body.\<close>

lemma checked_target:
  "check_request u body self need l = None \<Longrightarrow> target_of (Kick body) = Some (mr_UserID (the body))"
  "check_request u body self need l = None \<Longrightarrow> target_of (BanReq body) = Some (mr_UserID (the body))"
  by (auto simp: check_request_def split: if_splits option.splits)

section \<open>The handlers\<close>

text \<open>The level that the role change reads.\<close>

lemma level_read:
  "run_chat (GetServerMemberLevel g v) w = (Inr t, w') \<Longrightarrow> holds (same_members d) w \<Longrightarrow> level_of d g v = Some t"
  using GetServerMemberLevel_level [of g v w t w'] same_of by simp

lemma level_run:
  "holds (same_members d) w \<Longrightarrow>
   (\<And>e w'. holds (same_members d) w' \<Longrightarrow> lands Q (f e w')) \<Longrightarrow>
   (\<And>t w'. holds (same_members d) w' \<Longrightarrow> level_of d g v = Some t \<Longrightarrow> lands Q (k t w')) \<Longrightarrow>
   lands Q (case run_chat (GetServerMemberLevel g v) w of (Inl e, w') \<Rightarrow> f e w' | (Inr t, w') \<Rightarrow> k t w')"
  by (rule before_run, rule roster_queries, assumption, rule lands_case_sum) (auto dest: level_read)

lemmas step_rules = lands_case_option(1) removal_run relevel_run deletion_run check_target_before level_run
  fail_same

lemma kick_steps:
  "holds (same_members d) w \<Longrightarrow> level_of d g u = Some l \<Longrightarrow> lands (step_ok u (OnServer g (Kick body)) d) (kickMember g u l body w)"
  unfolding kickMember_def Let_def
  by (assumption | rule step_ok_closed checked_target lower_may_go step_rules roster.after_removal_lands lands_case_prod lands)+

lemma ban_steps:
  "holds (same_members d) w \<Longrightarrow> level_of d g u = Some l \<Longrightarrow> lands (step_ok u (OnServer g (BanReq body)) d) (banMember now g u l body w)"
  unfolding banMember_def Let_def
  by (assumption | rule step_ok_closed checked_target lower_may_go removal_snd step_rules roster.after_removal_lands before_run roster_queries
      lands_case_prod lands)+

lemma role_steps:
  "holds (same_members d) w \<Longrightarrow> level_of d g u = Some l \<Longrightarrow> lands (step_ok u (OnServer g (ChangeRole v body)) d) (changeRole g v u l body w)"
  unfolding changeRole_def Let_def
  by (assumption | rule step_ok_closed lower_may_change step_rules roster_rules lands_case_prod)+

lemma leave_steps:
  "holds (same_members d) w \<Longrightarrow> level_of d g u = Some l \<Longrightarrow> lands (step_ok u (OnServer g LeaveServer) d) (leaveServer g u l w)"
  unfolding leaveServer_def
  by (assumption | rule step_ok_closed may_leave step_rules roster_rules)+

lemma delete_steps:
  "holds (same_members d) w \<Longrightarrow> level_of d g u = Some l \<Longrightarrow> lands (step_ok u (OnServer g DeleteServerReq) d) (deleteServer g l w)"
  unfolding deleteServer_def
  by (rule lands_if, rule fail_same, assumption, rule deletion_run) (simp_all add: roster_rules)

lemma same_ids: "holds (same_members d) w \<Longrightarrow> server_ids d \<subseteq> server_ids (cdb w)"
  by (simp add: same_of)

lemma join_steps:
  "holds (same_members d) w \<Longrightarrow> lands (step_ok u (JoinServer g) d) (joinServer g u w)"
  unfolding joinServer_def Let_def
  by (assumption | rule fail_same step_ok_closed joining_run may_join
      before_run roster_queries same_of [THEN conjunct1] same_ids lands_case_option lands_case_sum lands_case_prod lands_if
      lands_bind to_server_arrives arrives_run_hub roster.emit_arrives roster.snd_run lands_Some)+

section \<open>Creation of a guild\<close>

lemma template_channel_lands:
  "roster.closed P \<Longrightarrow> holds P w \<Longrightarrow> lands P (template_channel g tc p w)"
  unfolding template_channel_def
  by (assumption | rule roster_rules lands_case_prod)+

lemma pass1_holds:
  "template_pass1 g tcs n cats w = Some (n', cats', w') \<Longrightarrow> roster.closed P \<Longrightarrow> holds P w \<Longrightarrow> holds P w'"
proof (induction g tcs n cats w rule: template_pass1.induct)
  case (2 g tc tcs n cats w)
  show ?case
  proof (cases "tc_ParentRef tc = None")
    case False
    with 2 show ?thesis by simp
  next
    case True
    with "2.prems"(1) obtain r w1 where t: "template_channel g tc None w = Some (r, w1)"
      by (auto simp: bind_eq_Some_conv)
    have "holds P w1" using template_channel_lands [of P w g tc None] "2.prems" t by (auto simp: lands_def)
    then show ?thesis using "2.IH"(2,3) "2.prems" True t by (cases r) auto
  qed
qed simp

lemma pass2_holds:
  "template_pass2 g tcs n cats w = Some (n', w') \<Longrightarrow> roster.closed P \<Longrightarrow> holds P w \<Longrightarrow> holds P w'"
proof (induction g tcs n cats w rule: template_pass2.induct)
  case (2 g tc tcs n cats w)
  show ?case
  proof (cases "tc_ParentRef tc")
    case None
    with 2 show ?thesis by simp
  next
    case (Some ref)
    show ?thesis
    proof (cases "map_of cats ref")
      case None
      with 2 Some show ?thesis by simp
    next
      case (Some p)
      with "2.prems"(1) \<open>tc_ParentRef tc = Some ref\<close> obtain r w1 where t: "template_channel g tc (Some p) w = Some (r, w1)"
        by (auto simp: bind_eq_Some_conv)
      have "holds P w1" using template_channel_lands [of P w g tc "Some p"] "2.prems" t by (auto simp: lands_def)
      then show ?thesis using "2.IH"(3) "2.prems" \<open>tc_ParentRef tc = Some ref\<close> Some t by auto
    qed
  qed
qed simp

lemma resolve_template_holds:
  assumes "resolve_template i w = (t, w')" and P: "roster.closed P" "holds P w"
  shows "holds P w'"
proof -
  have q: "holds P v" if "run_chat (GetServerTemplateByID j) w = (r, v)" for j r v
    using roster.snd_run [of "GetServerTemplateByID j" P w] roster_queries P that by simp
  have q': "holds P v' " if "holds P v" "run_chat GetDefaultServerTemplate v = (r, v')" for v r v'
    using roster.snd_run [of GetDefaultServerTemplate P v] roster_queries P that by simp
  show ?thesis
    using assms(1) P(2)
    by (auto simp: resolve_template_def Let_def intro: q q' split: option.splits prod.splits sum.splits if_splits)
qed

lemma populate_lands:
  assumes P: "roster.closed P"
  shows "holds P w \<Longrightarrow> lands P (populate_server s u i w)"
proof -
  have resolve: "lands P (case resolve_template i w of (t, w') \<Rightarrow> k t w')"
    if "holds P w" "\<And>t w'. holds P w' \<Longrightarrow> lands P (k t w')" for k :: "_ \<Rightarrow> _ \<Rightarrow> guild_result" and w
    using resolve_template_holds [OF _ P that(1)] that(2) by (auto split: prod.splits)
  have pass1: "lands P (Option.bind (template_pass1 g tcs n cats w) (\<lambda>(n, cats, w'). k n cats w'))"
    if "holds P w" "\<And>n cats w'. holds P w' \<Longrightarrow> lands P (k n cats w')"
    for g tcs n cats w and k :: "_ \<Rightarrow> _ \<Rightarrow> _ \<Rightarrow> guild_result"
  proof (cases "template_pass1 g tcs n cats w")
    case (Some z)
    obtain n' cats' w' where z: "z = (n', cats', w')" by (cases z) auto
    then have "holds P w'" using pass1_holds [OF _ P that(1)] Some by blast
    then show ?thesis using that(2) Some z by simp
  qed (simp add: lands_def)
  have pass2: "lands P (Option.bind (template_pass2 g tcs n cats w) (\<lambda>(n, w'). k n w'))"
    if "holds P w" "\<And>n w'. holds P w' \<Longrightarrow> lands P (k n w')"
    for g tcs n cats w and k :: "_ \<Rightarrow> _ \<Rightarrow> guild_result"
  proof (cases "template_pass2 g tcs n cats w")
    case (Some z)
    obtain n' w' where z: "z = (n', w')" by (cases z) auto
    then have "holds P w'" using pass2_holds [OF _ P that(1)] Some by blast
    then show ?thesis using that(2) Some z by simp
  qed (simp add: lands_def)
  show "holds P w \<Longrightarrow> lands P (populate_server s u i w)"
    unfolding populate_server_def
    by (assumption | rule P resolve pass1 pass2 lands_bind roster.emit_arrives arrives_run_hub lands_if(2) arrives_Some lands_Some)+
qed

lemma may_create_holds:
  "may_create u cfg w = (r, w') \<Longrightarrow> roster.closed P \<Longrightarrow> holds P w \<Longrightarrow> holds P w'"
proof -
  assume m: "may_create u cfg w = (r, w')" and P: "roster.closed P" "holds P w"
  have "holds P v" if "run_chat (CountOwnedServers u) w = (r, v)" for r v
    using roster.snd_run [of "CountOwnedServers u" P w] roster_queries P that by simp
  then show "holds P w'"
    using m P(2) by (auto simp: may_create_def split: if_splits option.splits prod.splits sum.splits)
qed

lemma CreateServer_run:
  assumes w: "holds (same_members d) w"
    and f: "\<And>e w'. holds (step_ok u x d) w' \<Longrightarrow> lands (step_ok u x d) (f e w')"
    and k: "\<And>s w'. level_of (cdb w') = level_of d \<Longrightarrow> server_ids d \<subseteq> server_ids (cdb w') \<Longrightarrow> sv_ID s \<notin> server_ids d \<Longrightarrow> lands (step_ok u x d) (k s w')"
  shows "lands (step_ok u x d) (case run_chat (CreateServer b) w of (Inl e, w') \<Rightarrow> f e w' | (Inr s, w') \<Rightarrow> k s w')"
proof -
  obtain r w' where q: "run_chat (CreateServer b) w = (r, w')" by fastforce
  have "level_of (cdb w') = level_of d" "\<And>s. r = Inr s \<Longrightarrow> sv_ID s \<notin> server_ids d"
    "server_ids d \<subseteq> server_ids (cdb w')"
    using CreateServer_levels [OF q] same_of [OF w] by (auto split: sum.splits)
  moreover from this have "holds (step_ok u x d) w'" by (auto simp: holds_def step_ok_def change_ok_def)
  ultimately show ?thesis using f [of w'] k [of w'] by (auto simp: q split: sum.splits)
qed

lemma may_create_run:
  "holds (same_members d) w \<Longrightarrow> (\<And>st msg w'. holds (same_members d) w' \<Longrightarrow> lands Q (f st msg w')) \<Longrightarrow>
   (\<And>w'. holds (same_members d) w' \<Longrightarrow> lands Q (k w')) \<Longrightarrow>
   lands Q (case may_create u cfg w of (Some (st, msg), w') \<Rightarrow> f st msg w' | (None, w') \<Rightarrow> k w')"
  using may_create_holds [OF _ roster.closed_R] by (cases "may_create u cfg w") (auto split: option.splits)

lemma create_steps:
  assumes w: "holds (same_members d) w"
  shows "lands (step_ok u (CreateServerReq body) d) (createServer u body w)"
proof -
  have created: "lands (step_ok u (CreateServerReq body) d)
      (case run_chat (AddServerMember (sv_ID s) u PermissionLevelOwner) w3 of
         (Inl _, w4) \<Rightarrow> fail 500 ''failed to add creator as guild owner'' w4
       | (Inr _, w4) \<Rightarrow> populate_server s u i w4)"
    if "level_of (cdb w3) = level_of d" "server_ids d \<subseteq> server_ids (cdb w3)" "sv_ID s \<notin> server_ids d" for s w3 i
    by (rule joining_run) (simp_all add: that lands_case_sum lands_Some populate_lands step_ok_closed change_ok_def)
  show ?thesis
    unfolding createServer_def Let_def
    by (assumption | rule w fail_same lands_Some created may_create_run
        CreateServer_run before_run roster_queries lands_case_option lands_case_sum lands_if)+
qed

section \<open>The routes\<close>

lemma member_steps:
  assumes w: "holds (same_members d) w" and l: "level_of d g u = Some l"
  shows "lands (step_ok u (OnServer g r) d) (member_route E now g u r l w)"
proof -
  have s: "holds (step_ok u y d) w" for y using w by (rule same_holds)
  note lands = readers_land channels_land deleteChannel_lands moveChannel_lands moderation_lands
  show ?thesis
    by (cases r) (simp_all add: kick_steps [OF w l] ban_steps [OF w l] role_steps [OF w l] leave_steps [OF w l]
        delete_steps [OF w l] lands [OF step_ok_closed s])
qed

lemma local_member: "RequireGuildMember g [] u k w =
    (if g = [] then fail 400 ''missing server ID'' w
     else case run_chat (GetServerMemberLevel g u) w of
       (Inl _, w') \<Rightarrow> fail 403 ''not a guild member'' w'
     | (Inr level, w') \<Rightarrow> k level w')"
  by (simp add: RequireGuildMember_def)

lemma guild_steps: "lands (step_ok u r (cdb w)) (ServerRoutes E now u r w)"
proof -
  have w: "holds (same_members (cdb w)) w" by (simp add: holds_def)
  have "lands (step_ok u (OnServer g m) (cdb w)) (RequireGuildMember g [] u (member_route E now g u m) w)" for g m
    unfolding local_member
    by (assumption | rule w fail_same lands_if level_run member_steps)+
  then show ?thesis by (cases r) (simp_all add: create_steps [OF w] join_steps [OF w])
qed

end
