(* ===== verification/Guild_Bans.thy ===== *)
theory Guild_Bans
  imports Guild_Steps
begin

text \<open>
  What a ban leaves behind when the database answers every query, what a later join makes of
  it, and how a channel move renumbers the channels.
\<close>

section \<open>Only logs change\<close>

definition quiet :: "chat_db \<Rightarrow> chat_db \<Rightarrow> bool" where
  "quiet d d' \<longleftrightarrow> d'\<lparr>cd_tick := 0, cd_audit := [], cd_system := []\<rparr> = d\<lparr>cd_tick := 0, cd_audit := [], cd_system := []\<rparr>"

interpretation quiet: log_frame quiet
  by unfold_locales (simp_all add: quiet_def)

lemma quiet_simps:
  assumes "quiet d d'"
  shows "cd_bans d' = cd_bans d" "level_of d' = level_of d" "cd_fault d' = cd_fault d" "cd_clock d' = cd_clock d"
    "cd_channels d' = cd_channels d"
proof -
  let ?c = "\<lambda>d. d\<lparr>cd_tick := 0, cd_audit := [], cd_system := []\<rparr>"
  have e: "?c d' = ?c d" using assms by (simp add: quiet_def)
  have "cd_bans (?c d') = cd_bans (?c d)" "cd_members (?c d') = cd_members (?c d)"
    "cd_fault (?c d') = cd_fault (?c d)" "cd_clock (?c d') = cd_clock (?c d)"
    "cd_channels (?c d') = cd_channels (?c d)" by (simp_all only: e)
  then show "cd_bans d' = cd_bans d" "level_of d' = level_of d" "cd_fault d' = cd_fault d" "cd_clock d' = cd_clock d"
    "cd_channels d' = cd_channels d"
    by (simp_all add: level_of_def fun_eq_iff)
qed

section \<open>The effect of a ban\<close>

text \<open>The row of a ban that the request asks for, whatever its id and its time.\<close>

definition ban_row :: "time \<Rightarrow> string \<Rightarrow> string \<Rightarrow> moderation_request \<Rightarrow> Ban \<Rightarrow> bool" where
  "ban_row now g u req b \<longleftrightarrow> bn_ServerID b = Some g \<and> bn_UserID b = mr_UserID req \<and> bn_ActorID b = u \<and>
     bn_Reason b = mr_Reason req \<and> bn_ExpiresAt b = expiry now (mr_ExpiresIn req) \<and> bn_LiftedAt b = None"

lemma InsertBan_healthy:
  assumes "run_chat (InsertBan g v u reason ex) w = (Inr b, w')"
  shows "cdb w' = (cdb w)\<lparr>cd_tick := Suc (cd_tick (cdb w)), cd_bans := cd_bans (cdb w) @ [b]\<rparr> \<and>
    bn_ServerID b = Some g \<and> bn_UserID b = v \<and> bn_ActorID b = u \<and> bn_Reason b = reason \<and>
    bn_ExpiresAt b = ex \<and> bn_LiftedAt b = None"
  using assms by (auto simp: run_chat_def InsertBan_def chat_query_def Let_def split: if_splits)

lemma RemoveServerMember_healthy:
  assumes "run_chat (RemoveServerMember g v) w = (r, w')" and "\<And>n. \<not> cd_fault (cdb w) n"
  shows "level_of (cdb w') g v = None \<and> cd_bans (cdb w') = cd_bans (cdb w) \<and> cd_fault (cdb w') = cd_fault (cdb w) \<and>
    cd_clock (cdb w') = cd_clock (cdb w)"
  using assms by (auto simp: run_chat_def RemoveServerMember_def chat_query_def level_of_def sql find_None_all Let_def)

lemma GetServerMemberLevel_quiet: "quiet.keeps (GetServerMemberLevel g v)"
  unfolding GetServerMemberLevel_def by (rule quiet.keeps_query) (simp split: option.splits)

lemma check_target_done:
  assumes "check_target g v l m k w = Some (Done c b, w')"
  obtains w1 where "k w1 = Some (Done c b, w')" and "quiet (cdb w) (cdb w1)"
proof -
  obtain r w1 where q: "run_chat (GetServerMemberLevel g v) w = (r, w1)" by fastforce
  have "quiet (cdb w) (cdb w1)" using quiet.run_chat_R [OF q GetServerMemberLevel_quiet] .
  moreover have "k w1 = Some (Done c b, w')"
    using assms unfolding check_target_def q by (auto split: sum.splits if_splits)
  ultimately show ?thesis by (rule that [rotated])
qed

lemma ban_effect:
  assumes "banMember now g u l body w = Some (Done c b, w')" and "\<And>n. \<not> cd_fault (cdb w) n"
  obtains req row where "body = Some req" and "ban_row now g u req row"
    and "cd_bans (cdb w') = cd_bans (cdb w) @ [row]" and "level_of (cdb w') g (mr_UserID req) = None"
    and "cd_clock (cdb w') = cd_clock (cdb w)" and "cd_fault (cdb w') = cd_fault (cdb w)"
proof -
  obtain req where req: "body = Some req"
    and none: "check_request u body ''cannot ban yourself'' PermissionLevelAdmin l = None"
    using assms(1) by (cases body) (auto simp: banMember_def check_request_def split: option.splits if_splits)
  let ?v = "mr_UserID req"
  let ?ins = "InsertBan g ?v u (mr_Reason req) (expiry now (mr_ExpiresIn req))"
  let ?rest = "\<lambda>w1. case run_chat ?ins w1 of
      (Inl e, w2) \<Rightarrow> fail 500 ''failed to create ban'' w2
    | (Inr _, w2) \<Rightarrow> after_removal g u req ''ban'' ''member_banned'' (Some (expiry_metadata (mr_ExpiresIn req)))
        (MemberBanned g ?v) (snd (run_chat (RemoveServerMember g ?v) w2))"
  have "check_target g ?v l ''cannot ban a member with equal or higher permission level'' ?rest w = Some (Done c b, w')"
    using assms(1) none unfolding banMember_def Let_def req option.sel by simp
  then obtain w1 where rest: "?rest w1 = Some (Done c b, w')" and w1: "quiet (cdb w) (cdb w1)"
    by (rule check_target_done)
  obtain row w2 where ins: "run_chat ?ins w1 = (Inr row, w2)" using rest by (auto split: prod.splits sum.splits)
  obtain r w3 where rem: "run_chat (RemoveServerMember g ?v) w2 = (r, w3)" by fastforce
  have i: "cdb w2 = (cdb w1)\<lparr>cd_tick := Suc (cd_tick (cdb w1)), cd_bans := cd_bans (cdb w1) @ [row]\<rparr>"
    and row: "ban_row now g u req row"
    using InsertBan_healthy [OF ins] by (auto simp: ban_row_def)
  have "\<not> cd_fault (cdb w2) n" for n using assms(2) by (simp add: i quiet_simps [OF w1])
  note m = RemoveServerMember_healthy [OF rem this]
  have "after_removal g u req ''ban'' ''member_banned'' (Some (expiry_metadata (mr_ExpiresIn req)))
      (MemberBanned g ?v) w3 = Some (Done c b, w')" using rest by (simp add: ins rem)
  moreover have "lands (quiet (cdb w3)) (after_removal g u req ''ban'' ''member_banned''
      (Some (expiry_metadata (mr_ExpiresIn req))) (MemberBanned g ?v) w3)"
    by (intro quiet.after_removal_lands quiet.closed_R) (simp add: holds_def)
  ultimately have "quiet (cdb w3) (cdb w')" by (simp add: lands_def holds_def)
  note e = quiet_simps [OF this] and s = quiet_simps [OF w1]
  show ?thesis
    by (rule that [OF req row]) (use m in \<open>simp_all add: e s i\<close>)
qed

section \<open>Joining past a ban\<close>

lemma active_ban_found:
  assumes "b \<in> set (cd_bans (cdb w))" and "bn_UserID b = u" and "\<And>k. guild_ban_active (cd_clock (cdb w) k) g b"
    and "run_chat (GetActiveBan g u) w = (r, w')"
  shows "r \<noteq> Inr None"
proof -
  have "filter (\<lambda>b. guild_ban_active t g b \<and> bn_UserID b = u) (cd_bans (cdb w)) \<noteq> []"
    if "t = cd_clock (cdb w) (cd_tick (cdb w))" for t
    using assms(1-3) that by (auto simp: filter_empty_conv)
  then have "sort_key bn_CreatedAt (filter (\<lambda>b. guild_ban_active t g b \<and> bn_UserID b = u) (cd_bans (cdb w))) \<noteq> []"
    if "t = cd_clock (cdb w) (cd_tick (cdb w))" for t
    using that by (metis length_0_conv length_sort)
  then show ?thesis
    using assms(4) by (auto simp: run_chat_def GetActiveBan_def chat_read_def chat_query_def Let_def neq_Nil_conv
        split: if_splits list.splits)
qed

text \<open>A relation that keeps the bans, the clock and the memberships.\<close>

definition same_bans :: "chat_db \<Rightarrow> chat_db \<Rightarrow> bool" where
  "same_bans d d' \<longleftrightarrow> cd_bans d' = cd_bans d \<and> cd_clock d' = cd_clock d \<and> cd_members d' = cd_members d"

interpretation bans: tick_frame same_bans
  by unfold_locales (auto simp: same_bans_def)

lemma bans_reads:
  "bans.keeps (GetServerByID g)" "bans.keeps GetInstancePolicy" "bans.keeps (GetActiveBan g u)"
  "bans.keeps (GetServerMemberLevel g u)"
  unfolding GetServerByID_def GetInstancePolicy_def GetActiveBan_def GetServerMemberLevel_def
  by (rule bans.keeps_read bans.keeps_query; simp add: same_bans_def split: option.splits)+

definition banned_for_good :: "string \<Rightarrow> string \<Rightarrow> chat_db \<Rightarrow> bool" where
  "banned_for_good g u d \<longleftrightarrow> (\<exists>b \<in> set (cd_bans d). bn_UserID b = u \<and> (\<forall>k. guild_ban_active (cd_clock d k) g b))"

lemmas bans_run = bans.lands_via [OF _ bans.closed_R]

lemma banned_same: "banned_for_good g u d \<Longrightarrow> holds (same_bans d) w \<Longrightarrow> banned_for_good g u (cdb w)"
  by (simp add: banned_for_good_def same_bans_def holds_def)

lemma ban_found_run:
  assumes b: "banned_for_good g u d" and w: "holds (same_bans d) w"
    and f: "\<And>e w'. holds (same_bans d) w' \<Longrightarrow> lands Q (f e w')"
    and s: "\<And>b w'. holds (same_bans d) w' \<Longrightarrow> lands Q (s b w')"
  shows "lands Q (case run_chat (GetActiveBan g u) w of
      (Inl e, w') \<Rightarrow> f e w' | (Inr None, w') \<Rightarrow> n w' | (Inr (Some b), w') \<Rightarrow> s b w')"
proof (rule bans_run [OF _ w])
  show "bans.keeps (GetActiveBan g u)" by (rule bans_reads)
  fix r w'
  assume q: "run_chat (GetActiveBan g u) w = (r, w')" and w': "holds (same_bans d) w'"
  have "r \<noteq> Inr None"
    using banned_same [OF b w] active_ban_found [OF _ _ _ q] by (auto simp: banned_for_good_def)
  then show "lands Q (case r of Inl e \<Rightarrow> f e w' | Inr None \<Rightarrow> n w' | Inr (Some b) \<Rightarrow> s b w')"
    using f [OF w'] s [OF w'] by (auto split: sum.splits option.splits)
qed

lemma banned_join_lands:
  assumes b: "banned_for_good g u (cdb w)"
  shows "lands (same_bans (cdb w)) (joinServer g u w)"
proof -
  have w: "holds (same_bans (cdb w)) w" by (simp add: holds_def)
  show ?thesis
    unfolding joinServer_def Let_def
    by (assumption | rule w b lands_Some ban_found_run bans_run bans_reads lands_case_option lands_case_sum lands_case_prod
        lands_if)+
qed

section \<open>Channel moves\<close>

text \<open>Where a successful move leaves a channel, as a function of the row before.\<close>

definition shifted :: "Channel \<Rightarrow> string option \<Rightarrow> int \<Rightarrow> Channel \<Rightarrow> int" where
  "shifted old p pos x =
     (let cat = (ch_Type old = ''category'');
          y = (if in_scope (ch_ID old) cat (ch_ParentID old) x \<and> ch_Position x > ch_Position old
               then ch_Position x - 1 else ch_Position x)
      in if in_scope (ch_ID old) cat p x \<and> y \<ge> pos then y + 1 else y)"

definition moved :: "Channel \<Rightarrow> string option \<Rightarrow> int \<Rightarrow> Channel \<Rightarrow> Channel" where
  "moved old p pos x =
     (if ch_ID x = ch_ID old then x\<lparr>ch_ParentID := p, ch_Position := pos\<rparr>
      else x\<lparr>ch_Position := shifted old p pos x\<rparr>)"

lemma in_scope_position: "in_scope c cat p (x\<lparr>ch_Position := y\<rparr>) = in_scope c cat p x"
  by (simp add: in_scope_def split: option.splits)

lemma shifts_moved:
  "sql_update (\<lambda>x. ch_ID x = ch_ID old) (\<lambda>x. x\<lparr>ch_ParentID := p, ch_Position := pos\<rparr>)
     (sql_update (\<lambda>x. in_scope (ch_ID old) (ch_Type old = ''category'') p x \<and> pos \<le> ch_Position x)
       (\<lambda>x. x\<lparr>ch_Position := ch_Position x + 1\<rparr>)
       (sql_update (\<lambda>x. in_scope (ch_ID old) (ch_Type old = ''category'') (ch_ParentID old) x \<and>
            ch_Position old < ch_Position x) (\<lambda>x. x\<lparr>ch_Position := ch_Position x + - 1\<rparr>) chs)) =
   map (moved old p pos) chs"
  unfolding sql_update_def map_map
proof (rule map_cong [OF HOL.refl], goal_cases)
  case (1 x)
  let ?cat = "ch_Type old = ''category''"
  show ?case
  proof (cases "ch_ID x = ch_ID old")
    case True
    then have "\<not> in_scope (ch_ID old) ?cat q x" for q by (simp add: in_scope_def)
    with True show ?thesis by (simp add: moved_def)
  next
    case False
    then show ?thesis by (simp add: moved_def shifted_def in_scope_position Let_def)
  qed
qed

lemma bind_op_Inr:
  assumes "bind_op q k d = (Inr y, d')"
  obtains x d1 where "q d = (Inr x, d1)" and "k x d1 = (Inr y, d')"
  using assms by (auto simp: bind_op_def split: prod.splits sum.splits)

lemma chat_query_Inr: "chat_query q d = (Inr x, d') \<Longrightarrow>
    q (cd_clock d (cd_tick d)) (cd_uuid d (cd_tick d)) (d\<lparr>cd_tick := Suc (cd_tick d)\<rparr>) = (Inr x, d')"
  by (simp add: chat_query_def Let_def split: if_splits)

lemma check_parent_channels: "check_parent g p d = (Inr y, d') \<Longrightarrow> cd_channels d' = cd_channels d"
  by (cases p) (auto simp: check_parent_def return_op_def dest!: chat_query_Inr split: option.splits if_splits)

lemma shiftPositions_channels: "shiftPositions c cat p cmp piv n d = (Inr y, d') \<Longrightarrow>
    cd_channels d' = sql_update (\<lambda>x. in_scope c cat p x \<and> cmp (ch_Position x) piv)
      (\<lambda>x. x\<lparr>ch_Position := ch_Position x + n\<rparr>) (cd_channels d)"
  by (auto simp: shiftPositions_def Let_def dest!: chat_query_Inr split: if_splits)

lemma MoveChannel_effect:
  assumes "MoveChannel c g p pos d = (r, d')"
  shows "isl r \<and> cd_channels d' = cd_channels d \<or>
    (\<exists>old \<in> set (cd_channels d). r = Inr () \<and> ch_ID old = c \<and> ch_ServerID old = Some g \<and>
       cd_channels d' = map (moved old p pos) (cd_channels d))"
proof (cases r)
  case (Inl e)
  with assms show ?thesis
    unfolding MoveChannel_def in_tx_def by (auto split: prod.splits sum.splits)
next
  case (Inr x)
  note in_tx_Inr = assms [unfolded Inr MoveChannel_def in_tx_def]
  obtain old d1 where 1: "chat_query (\<lambda>_ _ d. case find (\<lambda>x. ch_ID x = c \<and> ch_ServerID x = Some g) (cd_channels d) of
        None \<Rightarrow> (Inl DbNoRows, d) | Some c \<Rightarrow> (Inr c, d)) d = (Inr old, d1)"
    and rest: "bind_op (check_parent g p) (\<lambda>_. let cat = (ch_Type old = ''category'') in
      bind_op (shiftPositions c cat (ch_ParentID old) (>) (ch_Position old) (- 1)) (\<lambda>_.
      bind_op (shiftPositions c cat p (\<ge>) pos 1) (\<lambda>_. chat_query (\<lambda>_ _ d. if \<not> int4 pos then (Inl DbCheck, d)
        else (Inr (), d\<lparr>cd_channels := sql_update (\<lambda>x. ch_ID x = c)
          (\<lambda>x. x\<lparr>ch_ParentID := p, ch_Position := pos\<rparr>) (cd_channels d)\<rparr>))))) d1 = (Inr x, d')"
    using in_tx_Inr by (auto split: prod.splits sum.splits elim: bind_op_Inr)
  have d1: "cd_channels d1 = cd_channels d"
    and f: "find (\<lambda>x. ch_ID x = c \<and> ch_ServerID x = Some g) (cd_channels d) = Some old"
    using chat_query_Inr [OF 1] by (auto split: option.splits)
  have c: "ch_ID old = c" "ch_ServerID old = Some g" "old \<in> set (cd_channels d)"
    using find_Some_iff_mem [OF f] by auto
  from rest have "cd_channels d' = map (moved old p pos) (cd_channels d)"
    unfolding Let_def
    by (auto elim!: bind_op_Inr dest!: chat_query_Inr check_parent_channels shiftPositions_channels split: if_splits
        simp: shifts_moved [symmetric] c d1)
  with Inr c show ?thesis by auto
qed

lemma GetChannelByID_channels:
  "run_chat (GetChannelByID i) w = (r, w') \<Longrightarrow> cd_channels (cdb w') = cd_channels (cdb w)"
  by (auto simp: run_chat_def GetChannelByID_def chat_read_def chat_query_def Let_def split: if_splits)

lemma check_new_parent_channels:
  "check_new_parent g p w = (r, w') \<Longrightarrow> cd_channels (cdb w') = cd_channels (cdb w)"
  by (auto simp: check_new_parent_def dest!: GetChannelByID_channels
      split: option.splits prod.splits sum.splits if_splits)

lemma MoveChannel_run:
  assumes "run_chat (MoveChannel c g p pos) w = (r, w')"
  shows "isl r \<and> cd_channels (cdb w') = cd_channels (cdb w) \<or>
    (\<exists>old \<in> set (cd_channels (cdb w)). \<not> isl r \<and> ch_ID old = c \<and> ch_ServerID old = Some g \<and>
       cd_channels (cdb w') = map (moved old p pos) (cd_channels (cdb w)))"
  using assms MoveChannel_effect [of c g p pos "cdb w" r "cdb w'"]
  by (auto simp: run_chat_def split: prod.splits)

lemma to_server_cdb: "to_server g f w = Some w' \<Longrightarrow> cdb w' = cdb w"
  by (simp add: to_server_def run_hub_cdb)

lemma moveChannel_effect:
  assumes "moveChannel g c level body w = Some (a, w')"
  shows "(\<exists>st m. a = Fail st m) \<and> cd_channels (cdb w') = cd_channels (cdb w) \<or>
    a = Done 204 Empty \<and> PermissionLevelAdmin \<le> level \<and> (\<exists>p pos old. body = Some (p, pos) \<and> 0 \<le> pos \<and>
      old \<in> set (cd_channels (cdb w)) \<and> ch_ID old = c \<and> ch_ServerID old = Some g \<and>
      cd_channels (cdb w') = map (moved old p pos) (cd_channels (cdb w)))"
proof (cases "c = [] \<or> level < PermissionLevelAdmin \<or> body = None \<or> snd (the body) < 0")
  case True
  with assms show ?thesis by (auto simp: moveChannel_def split: if_splits option.splits)
next
  case False
  then obtain p pos where b: "body = Some (p, pos)" "0 \<le> pos" "PermissionLevelAdmin \<le> level" "c \<noteq> []" by auto
  obtain r1 w1 where q1: "run_chat (GetChannelByID c) w = (r1, w1)" by fastforce
  obtain r2 w2 where q2: "check_new_parent g p w1 = (r2, w2)" by fastforce
  obtain r3 w3 where q3: "run_chat (MoveChannel c g p pos) w2 = (r3, w3)" by fastforce
  have s: "cd_channels (cdb w1) = cd_channels (cdb w)" "cd_channels (cdb w2) = cd_channels (cdb w)"
    using GetChannelByID_channels [OF q1] check_new_parent_channels [OF q2] by simp_all
  have "(\<exists>st m. a = Fail st m) \<and> cd_channels (cdb w') = cd_channels (cdb w) \<or>
    cdb w' = cdb w3 \<and> (if isl r3 then \<exists>st m. a = Fail st m else a = Done 204 Empty)"
    using assms b s by (auto simp: moveChannel_def no_content_def q1 q2 q3 dest!: to_server_cdb
        split: if_splits option.splits sum.splits)
  then show ?thesis using MoveChannel_run [OF q3] b by (auto simp: s)
qed

end
