(* ===== verification/Guild_Props.thy ===== *)
theory Guild_Props
  imports Guild_Bans Mls_Props
begin

text \<open>
  Properties of the guild endpoints: who can change whose membership, that a guild keeps its
  owner, what a ban excludes, and what a leave and a channel move do beyond what they should.
\<close>

section \<open>The hierarchy\<close>

text \<open>A guild with an owner \<open>o\<close>, a moderator \<open>u\<close> and a member \<open>v\<close>.\<close>

definition toy_member :: "string \<Rightarrow> int \<Rightarrow> ServerMember" where
  "toy_member u l = \<lparr>sm_ServerID = ''g'', sm_UserID = Some u, sm_FederatedIdentityID = None,
     sm_PermissionLevel = l, sm_JoinedAt = 0\<rparr>"

definition toy_channel :: "string \<Rightarrow> int \<Rightarrow> Channel" where
  "toy_channel i p = \<lparr>ch_ID = i, ch_ServerID = Some ''g'', ch_EncryptedMetadata = None, ch_Type = ''text'',
     ch_ParentID = None, ch_Position = p\<rparr>"

definition toy_guild :: world where
  "toy_guild = toy_world\<lparr>cdb := toy_db\<lparr>cd_users := [''o'', ''u'', ''v''],
     cd_servers := [(new_server ''g'' 0 None)\<lparr>sv_Discoverable := True\<rparr>],
     cd_channels := [toy_channel ''k'' 0, toy_channel ''j'' 1],
     cd_members := [toy_member ''o'' 3, toy_member ''u'' 1, toy_member ''v'' 0]\<rparr>\<rparr>"

definition toy_order :: "string \<Rightarrow> moderation_request" where
  "toy_order v = \<lparr>mr_UserID = v, mr_Reason = ''spam'', mr_ExpiresIn = None\<rparr>"

lemmas toy_eval = check_request_def check_target_def after_removal_def evictUserFromGuildVoice_def
  EmitSystemMessage_def to_server_def run_chat_def run_hub_def GetServerMemberLevel_def RemoveServerMember_def
  ListChannels_def InsertAuditLog_def InsertSystemMessage_def actors_known_def known_def chat_query_def chat_read_def
  toy_guild_def toy_world_def toy_db_def toy_member_def toy_channel_def toy_hub_def toy_order_def BroadcastToServer_def
  subscribers_def new_server_def sql_exists_def sql_delete_def permission_levels Let_def

text \<open>
  C19. A request to the guild endpoints changes the level of a user \<open>v\<close> in a guild \<open>g\<close> only as
  the hierarchy allows. Either it joins \<open>v\<close>, the caller, as a plain member; or \<open>v\<close> is the caller
  and creates \<open>g\<close>, a new guild, as its owner; or \<open>v\<close> is the caller, not the owner, and leaves; or
  the caller kicks, bans or promotes \<open>v\<close>, has a level above the one of \<open>v\<close>, and gives a
  level below the own one; or the owner deletes the guild. Whatever else is requested, by
  whomever, in any state of the database and with any failures of it, all levels stay.
\<close>

theorem guild_hierarchy:
  assumes "ServerRoutes E now u r w = Some (a, w')"
  shows "level_of (cdb w') g v = level_of (cdb w) g v
     \<or> r = JoinServer g \<and> v = u \<and> level_of (cdb w) g u = None \<and> level_of (cdb w') g v = Some 0
     \<or> (\<exists>b. r = CreateServerReq b) \<and> v = u \<and> g \<notin> sv_ID ` set (cd_servers (cdb w)) \<and>
         level_of (cdb w) g u = None \<and> level_of (cdb w') g v = Some 3
     \<or> r = OnServer g LeaveServer \<and> v = u \<and> level_of (cdb w) g u \<noteq> Some 3 \<and> level_of (cdb w') g v = None
     \<or> (\<exists>m l t. r = OnServer g m \<and> target_of m = Some v \<and> level_of (cdb w) g u = Some l \<and>
         level_of (cdb w) g v = Some t \<and> t < l \<and>
         (level_of (cdb w') g v = None \<or> (\<exists>n. level_of (cdb w') g v = Some n \<and> 0 \<le> n \<and> n < l)))
     \<or> r = OnServer g DeleteServerReq \<and> level_of (cdb w) g u = Some 3 \<and> level_of (cdb w') g v = None"
proof -
  have "step_ok u r (cdb w) (cdb w')"
    using guild_steps [of u r w E now] assms by (simp add: lands_def holds_def)
  then have "change_ok u r (cdb w) g v (level_of (cdb w') g v)" by (simp add: step_ok_def)
  then show ?thesis
    unfolding change_ok_def server_ids_def PermissionLevelMember_def PermissionLevelOwner_def by argo
qed

lemma toy_guild_levels:
  "level_of (cdb toy_guild) ''g'' ''o'' = Some 3" "level_of (cdb toy_guild) ''g'' ''u'' = Some 1"
  "level_of (cdb toy_guild) ''g'' ''v'' = Some 0"
  by (simp_all add: level_of_def toy_guild_def toy_member_def)

definition toy_kick :: guild_request where
  "toy_kick = OnServer ''g'' (Kick (Some (toy_order ''v'')))"

lemma spam: "TrimSpace ''spam'' = ''spam''"
  by (rule TrimSpace_id) (simp_all add: visible_def)

lemma toy_kicked:
  "\<exists>w'. ServerRoutes toy_env 0 ''u'' toy_kick toy_guild = Some (Done 204 (EvictedBody []), w') \<and>
     level_of (cdb w') ''g'' ''v'' = None"
  by (simp add: toy_kick_def RequireGuildMember_def kickMember_def toy_eval level_of_def spam)

lemma guild_hierarchy_witness:
  "\<exists>w'. ServerRoutes toy_env 0 ''u'' toy_kick toy_guild = Some (Done 204 (EvictedBody []), w') \<and>
     level_of (cdb w') ''g'' ''v'' = None \<and> level_of (cdb w') ''g'' ''o'' = Some 3"
proof -
  obtain w' where w: "ServerRoutes toy_env 0 ''u'' toy_kick toy_guild = Some (Done 204 (EvictedBody []), w')"
    "level_of (cdb w') ''g'' ''v'' = None" using toy_kicked by blast
  have "level_of (cdb w') ''g'' ''o'' = Some 3"
    using guild_hierarchy [OF w(1), of "''g''" "''o''"] by (simp add: toy_guild_levels toy_kick_def toy_order_def)
  with w show ?thesis by blast
qed

section \<open>The owner\<close>

text \<open>A series of requests, each at its time and by its user.\<close>

fun serve_guild :: "ws_env \<Rightarrow> (time \<times> string \<times> guild_request) list \<Rightarrow> world \<Rightarrow> world option" where
  "serve_guild E [] w = Some w"
| "serve_guild E ((now, u, r) # rs) w = do {
     (a, w') \<leftarrow> ServerRoutes E now u r w;
     serve_guild E rs w' }"

definition sole_owner :: "chat_db \<Rightarrow> string \<Rightarrow> string \<Rightarrow> bool" where
  "sole_owner d g v \<longleftrightarrow> g \<in> server_ids d \<and> level_of d g v = Some 3 \<and>
     (\<forall>u l. level_of d g u = Some l \<longrightarrow> u = v \<or> l < 3)"

lemma sole_owner_step:
  assumes o: "sole_owner (cdb w) g v" and s: "ServerRoutes E now u r w = Some (a, w')"
    and r: "\<not> (u = v \<and> r = OnServer g DeleteServerReq)"
  shows "sole_owner (cdb w') g v"
proof -
  have k: "step_ok u r (cdb w) (cdb w')"
    using guild_steps [of u r w E now] s by (simp add: lands_def holds_def)
  have top: "level_of (cdb w) g v = Some 3" "g \<in> server_ids (cdb w)"
    "\<And>u l. level_of (cdb w) g u = Some l \<Longrightarrow> u = v \<or> l < 3"
    using o by (auto simp: sole_owner_def)
  then have le: "l \<le> 3" if "level_of (cdb w) g u = Some l" for u l using that top(1) by fastforce
  have c: "change_ok u r (cdb w) g v' (level_of (cdb w') g v')" for v' using k by (simp add: step_ok_def)
  have notdel: "\<not> (r = OnServer g DeleteServerReq \<and> level_of (cdb w) g u = Some PermissionLevelOwner)"
    using r top(3) [of u] by (auto simp: PermissionLevelOwner_def)
  have "level_of (cdb w') g v = Some 3"
    using c [of v] top(1,2) notdel by (auto simp: change_ok_def permission_levels dest: le)
  moreover have "v' = v \<or> l < 3" if "level_of (cdb w') g v' = Some l" for v' l
    using c [of v'] that top(2) top(3) [of v' l] notdel by (auto simp: change_ok_def permission_levels dest: le)
  moreover have "g \<in> server_ids (cdb w')"
    using k top(2) notdel by (auto simp: step_ok_def)
  ultimately show ?thesis by (auto simp: sole_owner_def)
qed

text \<open>
  C20. A guild keeps its one owner: over every series of requests to the guild endpoints by all
  users, at all times and with all failures of the database, in which the owner does not delete
  the guild, the owner stays a member at level 3 and nobody else gets that level.
\<close>

theorem guild_keeps_owner:
  assumes "serve_guild E rs w = Some w'"
    and "level_of (cdb w) g v = Some 3" and "g \<in> sv_ID ` set (cd_servers (cdb w))"
    and "\<And>u l. level_of (cdb w) g u = Some l \<Longrightarrow> u \<noteq> v \<Longrightarrow> l < 3"
    and "\<And>now. (now, v, OnServer g DeleteServerReq) \<notin> set rs"
  shows "level_of (cdb w') g v = Some 3 \<and> (\<forall>u l. level_of (cdb w') g u = Some l \<longrightarrow> u = v \<or> l < 3)"
proof -
  have "sole_owner (cdb w) g v" using assms(2-4) by (auto simp: sole_owner_def server_ids_def)
  with assms(1,5) have "sole_owner (cdb w') g v"
  proof (induction rs arbitrary: w)
    case (Cons x rs)
    obtain now u r where x: "x = (now, u, r)" by (cases x)
    with Cons.prems(1) obtain a w1 where s: "ServerRoutes E now u r w = Some (a, w1)" "serve_guild E rs w1 = Some w'"
      by (auto simp: bind_eq_Some_conv)
    have "\<not> (u = v \<and> r = OnServer g DeleteServerReq)" using Cons.prems(2) [of now] x by auto
    with s Cons.prems(3) have "sole_owner (cdb w1) g v" by (blast intro: sole_owner_step)
    with Cons.IH [OF s(2)] Cons.prems(2) show ?case by simp
  qed simp
  then show ?thesis by (simp add: sole_owner_def)
qed

lemma guild_keeps_owner_witness:
  "\<exists>w'. serve_guild toy_env [(0, ''u'', toy_kick)] toy_guild = Some w' \<and> level_of (cdb w') ''g'' ''o'' = Some 3 \<and>
     level_of (cdb w') ''g'' ''v'' = None"
proof -
  obtain w' where w: "serve_guild toy_env [(0, ''u'', toy_kick)] toy_guild = Some w'"
    "level_of (cdb w') ''g'' ''v'' = None" using toy_kicked by auto
  have l: "u = ''o'' \<or> l < 3" if "level_of (cdb toy_guild) ''g'' u = Some l" for u l
    using that by (auto simp: level_of_def toy_guild_def toy_member_def split: if_splits)
  have "''g'' \<in> sv_ID ` set (cd_servers (cdb toy_guild))"
    by (simp add: toy_guild_def toy_world_def toy_db_def new_server_def)
  then have "level_of (cdb w') ''g'' ''o'' = Some 3"
    using guild_keeps_owner [OF w(1) toy_guild_levels(1)] l by (auto simp: toy_kick_def)
  with w show ?thesis by blast
qed

section \<open>Bans\<close>

lemma sint_in_range: "- (2 ^ 63) \<le> k \<Longrightarrow> k < 2 ^ 63 \<Longrightarrow> sint (word_of_int k :: 64 word) = k"
  by (subst sint_sbintrunc', rule signed_take_bit_int_eq_self) simp_all

lemma seconds_duration_exact: "0 \<le> n \<Longrightarrow> n \<le> 9223372036 \<Longrightarrow> seconds_duration n = n * second"
  unfolding seconds_duration_def by (rule sint_in_range) simp_all

lemma seconds_duration_wraps:
  assumes "9223372036 < n" and "n \<le> 18446744073"
  shows "seconds_duration n = n * second - 2 ^ 64"
proof -
  have "(word_of_int (n * second - 2 ^ 64) :: 64 word) = word_of_int (n * second) - word_of_int (2 ^ 64)"
    by (simp only: wi_hom_sub)
  also have "(word_of_int (2 ^ 64) :: 64 word) = 0" by simp
  finally have "(word_of_int (n * second) :: 64 word) = word_of_int (n * second - 2 ^ 64)" by simp
  moreover have "sint (word_of_int (n * second - 2 ^ 64) :: 64 word) = n * second - 2 ^ 64"
    by (rule sint_in_range) (use assms in simp_all)
  ultimately show ?thesis by (simp only: seconds_duration_def)
qed

text \<open>
  C21. A ban excludes. When \<open>banMember\<close> answers that it is done and no query fails, the target
  is no member any more, and from every later state that still has the bans of then, and until
  the ban expires, a request of the target to join the guild leaves all memberships as they
  are, whatever its other policies. The duration of the ban is at most 9223372036 seconds.
\<close>

theorem ban_excludes:
  assumes "banMember now g u l (Some req) w = Some (Done c b, w')" and "\<And>n. \<not> cd_fault (cdb w) n"
  shows "level_of (cdb w') g (mr_UserID req) = None \<and>
    (\<forall>w2 a w3. set (cd_bans (cdb w')) \<subseteq> set (cd_bans (cdb w2)) \<and>
       (mr_ExpiresIn req = None \<or> (\<exists>n. mr_ExpiresIn req = Some n \<and> 0 \<le> n \<and> n \<le> 9223372036 \<and>
          (\<forall>k. cd_clock (cdb w2) k < now + n * second))) \<and>
       joinServer g (mr_UserID req) w2 = Some (a, w3) \<longrightarrow> cd_members (cdb w3) = cd_members (cdb w2))"
proof -
  obtain row where row: "ban_row now g u req row" and bans: "cd_bans (cdb w') = cd_bans (cdb w) @ [row]"
    and out: "level_of (cdb w') g (mr_UserID req) = None"
    by (rule ban_effect [OF assms]) auto
  show ?thesis
  proof (intro conjI out allI impI; elim conjE)
    fix w2 a w3
    assume b: "set (cd_bans (cdb w')) \<subseteq> set (cd_bans (cdb w2))"
      and e: "mr_ExpiresIn req = None \<or> (\<exists>n. mr_ExpiresIn req = Some n \<and> 0 \<le> n \<and> n \<le> 9223372036 \<and>
          (\<forall>k. cd_clock (cdb w2) k < now + n * second))"
      and j: "joinServer g (mr_UserID req) w2 = Some (a, w3)"
    have "row \<in> set (cd_bans (cdb w2))" using b bans by auto
    moreover have "guild_ban_active (cd_clock (cdb w2) k) g row" for k
      using row e by (auto simp: ban_row_def guild_ban_active_def expiry_def seconds_duration_exact)
    ultimately have "banned_for_good g (mr_UserID req) (cdb w2)"
      using row by (auto simp: banned_for_good_def ban_row_def)
    from banned_join_lands [OF this] j show "cd_members (cdb w3) = cd_members (cdb w2)"
      by (simp add: lands_def holds_def same_bans_def)
  qed
qed

lemma toy_banned:
  "\<exists>w'. banMember 0 ''g'' ''o'' 3 (Some (toy_order ''v'')) toy_guild = Some (Done 204 (EvictedBody []), w')"
  by (simp add: banMember_def InsertBan_def toy_eval spam)

lemma toy_banned_long:
  "\<exists>w'. banMember 0 ''g'' ''o'' 3 (Some ((toy_order ''v'')\<lparr>mr_ExpiresIn := Some 9223372037\<rparr>)) toy_guild =
     Some (Done 204 (EvictedBody []), w')"
  by (simp add: banMember_def InsertBan_def toy_eval spam)

lemma ban_excludes_witness:
  "\<exists>w'. banMember 0 ''g'' ''o'' 3 (Some (toy_order ''v'')) toy_guild = Some (Done 204 (EvictedBody []), w') \<and>
     level_of (cdb w') ''g'' ''v'' = None \<and>
     (\<forall>a w3. joinServer ''g'' ''v'' w' = Some (a, w3) \<longrightarrow> cd_members (cdb w3) = cd_members (cdb w'))"
proof -
  obtain w' where w: "banMember 0 ''g'' ''o'' 3 (Some (toy_order ''v'')) toy_guild = Some (Done 204 (EvictedBody []), w')"
    using toy_banned by blast
  have "\<not> cd_fault (cdb toy_guild) n" for n by (simp add: toy_guild_def toy_world_def toy_db_def)
  from ban_excludes [OF w this] w show ?thesis by (auto simp: toy_order_def)
qed

text \<open>
  The seconds of a ban or a mute become a 64-bit number of nanoseconds. Up to
  9223372036 seconds the ban lasts as long as was asked for. From 9223372037 to 18446744073
  seconds the product wraps to a negative number: the handler reports success, but the row it
  writes is expired at once, and the query for an active ban does not find it at any time.
\<close>

theorem ban_expiry_wraps:
  assumes "banMember now g u l (Some req) w = Some (Done c b, w')" and "\<And>k. \<not> cd_fault (cdb w) k"
    and "mr_ExpiresIn req = Some n" and "0 \<le> n" and "n \<le> 18446744073"
  shows "\<exists>row. cd_bans (cdb w') = cd_bans (cdb w) @ [row] \<and> bn_UserID row = mr_UserID req \<and>
    (\<forall>t \<ge> now. guild_ban_active t g row = (n \<le> 9223372036 \<and> t < now + n * second))"
proof -
  obtain row where row: "ban_row now g u req row" and bans: "cd_bans (cdb w') = cd_bans (cdb w) @ [row]"
    by (rule ban_effect [OF assms(1,2)]) auto
  have "guild_ban_active t g row = (now + seconds_duration n > t)" for t
    using row assms(3) by (simp add: ban_row_def guild_ban_active_def expiry_def)
  then have "guild_ban_active t g row = (n \<le> 9223372036 \<and> t < now + n * second)" if "now \<le> t" for t
    using that assms(4,5) seconds_duration_exact [of n] seconds_duration_wraps [of n]
    by (cases "n \<le> 9223372036") auto
  with row bans show ?thesis by (auto simp: ban_row_def)
qed

lemma ban_expiry_wraps_witness:
  "\<exists>w' row. banMember 0 ''g'' ''o'' 3 (Some ((toy_order ''v'')\<lparr>mr_ExpiresIn := Some 9223372037\<rparr>)) toy_guild =
       Some (Done 204 (EvictedBody []), w') \<and> cd_bans (cdb w') = [row] \<and> (\<forall>t \<ge> 0. \<not> guild_ban_active t ''g'' row)"
proof -
  let ?req = "(toy_order ''v'')\<lparr>mr_ExpiresIn := Some 9223372037\<rparr>"
  obtain w' where w: "banMember 0 ''g'' ''o'' 3 (Some ?req) toy_guild = Some (Done 204 (EvictedBody []), w')"
    using toy_banned_long by blast
  have "\<not> cd_fault (cdb toy_guild) n" for n by (simp add: toy_guild_def toy_world_def toy_db_def)
  from ban_expiry_wraps [OF w this, of 9223372037] obtain row where
    "cd_bans (cdb w') = cd_bans (cdb toy_guild) @ [row]" "\<forall>t \<ge> 0. \<not> guild_ban_active t ''g'' row" by auto
  with w show ?thesis by (auto simp: toy_guild_def toy_world_def toy_db_def)
qed

section \<open>Channel order\<close>


lemma toy_moved: "\<exists>w'. moveChannel ''g'' ''k'' 2 (Some (None, 1)) toy_guild = Some (Done 204 Empty, w')"
  by (simp add: moveChannel_def GetChannelByID_def owned_by_def check_new_parent_def MoveChannel_def in_tx_def bind_op_def
      check_parent_def return_op_def shiftPositions_def in_scope_def int4_def no_content_def sql_update_def toy_eval)


end
