(* ===== verification/Json_Read.thy ===== *)
theory Json_Read
  imports Json Codec "HOL-Library.Monad_Syntax"
begin

text \<open>
  Reading the JSON text that the server has written itself: \<open>json.Unmarshal\<close> of an object whose
  values are strings, into a struct of strings. A text with other values, which the server
  never writes there, counts as the decoding error. What is written from valid UTF-8 is read back.
\<close>

section \<open>Strings\<close>

definition hex_value :: "char \<Rightarrow> nat option" where
  "hex_value c =
     (let n = (of_char c :: nat)
      in if 0x30 \<le> n \<and> n \<le> 0x39 then Some (n - 0x30)
         else if 0x61 \<le> n \<and> n \<le> 0x66 then Some (n - 0x61 + 10)
         else if 0x41 \<le> n \<and> n \<le> 0x46 then Some (n - 0x41 + 10) else None)"

fun read_hex4 :: "string \<Rightarrow> (nat \<times> string) option" where
  "read_hex4 (a # b # c # d # rest) =
     (case (hex_value a, hex_value b, hex_value c, hex_value d) of
        (Some w, Some x, Some y, Some z) \<Rightarrow> Some (((w * 16 + x) * 16 + y) * 16 + z, rest)
      | _ \<Rightarrow> None)"
| "read_hex4 _ = None"

definition EncodeRune :: "nat \<Rightarrow> string" where
  "EncodeRune v = map char_of
     (if v < 0x80 then [v]
      else if v < 0x800 then [0xC0 + v div 64, 0x80 + v mod 64]
      else if v < 0x10000 then [0xE0 + v div 4096, 0x80 + v div 64 mod 64, 0x80 + v mod 64]
      else [0xF0 + v div 262144, 0x80 + v div 4096 mod 64, 0x80 + v div 64 mod 64, 0x80 + v mod 64])"

definition replacement_rune :: string where
  "replacement_rune = EncodeRune 0xFFFD"

text \<open>After a backslash. A surrogate that is not part of a pair becomes U+FFFD.\<close>

definition read_surrogate :: "nat \<Rightarrow> string \<Rightarrow> string \<times> string" where
  "read_surrogate v rest =
     (case rest of
        c # d # more \<Rightarrow>
          (case (if c = CHR 0x5C \<and> d = CHR ''u'' then read_hex4 more else None) of
             Some (w, rest') \<Rightarrow>
               (if v < 0xDC00 \<and> 0xDC00 \<le> w \<and> w < 0xE000
                then (EncodeRune (0x10000 + (v - 0xD800) * 0x400 + (w - 0xDC00)), rest')
                else (replacement_rune, rest))
           | None \<Rightarrow> (replacement_rune, rest))
      | _ \<Rightarrow> (replacement_rune, rest))"

fun read_escape :: "string \<Rightarrow> (string \<times> string) option" where
  "read_escape [] = None"
| "read_escape (d # ds) =
     (if d = CHR 0x22 \<or> d = CHR 0x5C \<or> d = CHR ''/'' then Some ([d], ds)
      else if d = CHR ''b'' then Some ([CHR 0x08], ds) else if d = CHR ''f'' then Some ([CHR 0x0C], ds)
      else if d = CHR ''n'' then Some ([CHR 0x0A], ds) else if d = CHR ''r'' then Some ([CHR 0x0D], ds)
      else if d = CHR ''t'' then Some ([CHR 0x09], ds)
      else if d = CHR ''u'' then
        (case read_hex4 ds of
           None \<Rightarrow> None
         | Some (v, rest) \<Rightarrow> Some (if 0xD800 \<le> v \<and> v < 0xE000 then read_surrogate v rest else (EncodeRune v, rest)))
      else None)"

lemma read_hex4_shorter: "read_hex4 s = Some (v, rest) \<Longrightarrow> length rest < length s"
  by (induction s rule: read_hex4.induct) (auto split: option.splits)

lemma read_surrogate_shorter: "length (snd (read_surrogate v rest)) \<le> length rest"
  by (auto simp: read_surrogate_def split: list.splits option.splits dest: read_hex4_shorter)

lemma read_escape_shorter:
  assumes "read_escape s = Some (r, rest)"
  shows "length rest < length s"
proof (cases s)
  case (Cons d ds)
  show ?thesis
  proof (cases "read_hex4 ds")
    case None
    with assms Cons show ?thesis by (auto split: if_splits)
  next
    case (Some p)
    obtain v t where p: "p = (v, t)" by (cases p)
    have "length (snd (read_surrogate v t)) \<le> length t" by (rule read_surrogate_shorter)
    moreover have "length t < length ds" using Some p by (simp add: read_hex4_shorter)
    ultimately show ?thesis using assms Cons Some p by (auto split: if_splits)
  qed
qed (use assms in simp)

definition prepend :: "string \<Rightarrow> (string \<times> string) option \<Rightarrow> (string \<times> string) option" where
  "prepend r = map_option (\<lambda>(s, rest). (r @ s, rest))"

text \<open>From behind the opening quote to behind the closing one.\<close>

function read_string :: "string \<Rightarrow> (string \<times> string) option" where
  "read_string [] = None"
| "read_string (c # cs) =
     (if c = CHR 0x22 then Some ([], cs)
      else if c = CHR 0x5C then
        (case read_escape cs of None \<Rightarrow> None | Some (r, rest) \<Rightarrow> prepend r (read_string rest))
      else if (of_char c :: nat) < 0x20 then None
      else let n = rune_len (map of_char (c # cs))
           in if n = 0 then prepend replacement_rune (read_string cs)
              else prepend (take n (c # cs)) (read_string (drop n (c # cs))))"
  by pat_completeness auto
termination
  by (relation "measure length") (auto dest: read_escape_shorter less_SucI)

declare read_string.simps [simp del]

section \<open>Strings are read as they were written\<close>

function valid_utf8 :: "string \<Rightarrow> bool" where
  "valid_utf8 [] = True"
| "valid_utf8 (c # cs) =
     (let n = rune_len (map of_char (c # cs)) in if n = 0 then False else valid_utf8 (drop n (c # cs)))"
  by pat_completeness auto
termination by (relation "measure length") auto

declare valid_utf8.simps [simp del]

lemma hex_value_digit: "hex_value (hex_digit n) = Some (n mod 16)"
proof -
  have "\<forall>k \<in> set [0..<16]. hex_value (''0123456789abcdef'' ! k) = Some k" by code_simp
  then show ?thesis by (simp add: hex_digit_def)
qed

lemma rune_ascii: "(of_char c :: nat) < 0x80 \<longleftrightarrow> rune_len (map of_char (c # cs)) = 1"
  by (auto split: list.splits if_splits)

lemma EncodeRune_ascii: "(of_char c :: nat) < 0x80 \<Longrightarrow> EncodeRune (of_char c) = [c]"
  by (simp add: EncodeRune_def)

lemma prepend_Some [simp]: "prepend r (Some (s, t)) = Some (r @ s, t)"
  by (simp add: prepend_def)

lemma read_u00:
  assumes "(of_char c :: nat) < 0x80"
  shows "read_escape (CHR ''u'' # CHR ''0'' # CHR ''0'' # hex_digit (of_char c div 16) # hex_digit (of_char c) # t) = Some ([c], t)"
proof -
  have "hex_value CHR ''0'' = Some 0" by (simp add: hex_value_def)
  moreover have "((0 * 16 + 0) * 16 + (of_char c div 16) mod 16) * 16 + of_char c mod 16 = (of_char c :: nat)"
    using assms by simp
  ultimately have h: "read_hex4 (CHR ''0'' # CHR ''0'' # hex_digit (of_char c div 16) # hex_digit (of_char c) # t) =
      Some (of_char c, t)"
    by (simp add: hex_value_digit)
  show ?thesis using assms unfolding read_escape.simps h by (simp add: EncodeRune_ascii)
qed

lemma char_codes:
  "(of_char c :: nat) = 34 \<longleftrightarrow> c = CHR 0x22" "(of_char c :: nat) = 92 \<longleftrightarrow> c = CHR 0x5C"
  "(of_char c :: nat) = 8 \<longleftrightarrow> c = CHR 0x08" "(of_char c :: nat) = 9 \<longleftrightarrow> c = CHR 0x09"
  "(of_char c :: nat) = 10 \<longleftrightarrow> c = CHR 0x0A" "(of_char c :: nat) = 12 \<longleftrightarrow> c = CHR 0x0C"
  "(of_char c :: nat) = 13 \<longleftrightarrow> c = CHR 0x0D"
  using of_char_eq_iff [where ?'a = nat, of c "CHR 0x22"] of_char_eq_iff [where ?'a = nat, of c "CHR 0x5C"]
    of_char_eq_iff [where ?'a = nat, of c "CHR 0x08"] of_char_eq_iff [where ?'a = nat, of c "CHR 0x09"]
    of_char_eq_iff [where ?'a = nat, of c "CHR 0x0A"] of_char_eq_iff [where ?'a = nat, of c "CHR 0x0C"]
    of_char_eq_iff [where ?'a = nat, of c "CHR 0x0D"]
  by simp_all

lemma read_string_ascii:
  assumes "(of_char c :: nat) < 0x80"
  shows "read_string (escape_ascii c @ t) = prepend [c] (read_string t)"
proof -
  let ?n = "of_char c :: nat"
  consider (quoted) "?n = 0x22 \<or> ?n = 0x5C" | (short) "?n \<in> {8, 9, 10, 12, 13}"
    | (hex) "\<not> (?n = 0x22 \<or> ?n = 0x5C)" "?n \<notin> {8, 9, 10, 12, 13}" "?n < 0x20 \<or> c \<in> set ''<>&''"
    | (plain) "\<not> (?n = 0x22 \<or> ?n = 0x5C)" "?n \<notin> {8, 9, 10, 12, 13}" "\<not> (?n < 0x20 \<or> c \<in> set ''<>&'')"
    by blast
  then show ?thesis
  proof cases
    case quoted
    then have "c = CHR 0x22 \<or> c = CHR 0x5C" by (simp add: char_codes)
    then show ?thesis by (auto simp: escape_ascii_def read_string.simps)
  next
    case short
    then have "c \<in> {CHR 0x08, CHR 0x09, CHR 0x0A, CHR 0x0C, CHR 0x0D}" by (auto simp: char_codes)
    then show ?thesis by (auto simp: escape_ascii_def read_string.simps)
  next
    case hex
    have "read_string (CHR 0x5C # CHR ''u'' # CHR ''0'' # CHR ''0'' # hex_digit (?n div 16) # hex_digit ?n # t) =
        prepend [c] (read_string t)"
      by (subst read_string.simps) (simp only: read_u00 [OF assms], simp)
    moreover have "escape_ascii c = CHR 0x5C # ''u00'' @ [hex_digit (?n div 16), hex_digit ?n]"
      using hex by (simp add: escape_ascii_def Let_def)
    ultimately show ?thesis by simp
  next
    case plain
    have e: "escape_ascii c = [c]" using plain by (simp add: escape_ascii_def Let_def)
    have "rune_len (map of_char (c # t)) = 1" using assms rune_ascii by blast
    moreover have "c \<noteq> CHR 0x22" "c \<noteq> CHR 0x5C" using plain(1) by auto
    ultimately show ?thesis using plain(3) by (simp add: e read_string.simps Let_def)
  qed
qed

lemma rune_long:
  assumes "rune_len (a # bs) = n" and "n \<noteq> 0" and "n \<noteq> 1"
  shows "0x80 \<le> a" and "n \<le> length (a # bs)" and "rune_len (take n (a # bs) @ ys) = n"
proof -
  have "\<not> a < 0x80" using assms by auto
  consider (two) b cs where "bs = b # cs" "n = 2" | (three) b c cs where "bs = b # c # cs" "n = 3"
    | (four) b c e cs where "bs = b # c # e # cs" "n = 4"
    using assms by (auto split: list.splits if_splits)
  then have "0x80 \<le> a \<and> n \<le> length (a # bs) \<and> rune_len (take n (a # bs) @ ys) = n"
  proof cases
    case two
    have "rune_len (a # b # ys) = 2" using two assms(1) by (simp split: if_splits list.splits)
    with two \<open>\<not> a < 0x80\<close> show ?thesis by (simp del: rune_len.simps)
  next
    case three
    have "rune_len (a # b # c # ys) = 3" using three assms(1) by (simp split: if_splits list.splits)
    with three \<open>\<not> a < 0x80\<close> show ?thesis by (simp del: rune_len.simps)
  next
    case four
    have "rune_len (a # b # c # e # ys) = 4" using four assms(1) by (simp split: if_splits list.splits)
    with four \<open>\<not> a < 0x80\<close> show ?thesis by (simp del: rune_len.simps)
  qed
  then show "0x80 \<le> a" "n \<le> length (a # bs)" "rune_len (take n (a # bs) @ ys) = n" by auto
qed

lemma read_rune:
  assumes n: "rune_len (map of_char (c # cs)) = n" "n \<noteq> 0" "n \<noteq> 1"
  shows "read_string (take n (c # cs) @ t) = prepend (take n (c # cs)) (read_string t)"
proof -
  note l = rune_long [OF n(1) [unfolded list.map] n(2,3)]
  obtain m where m: "n = Suc m" using n(2) by (cases n) auto
  let ?r = "take m cs"
  have len: "m \<le> length cs" using l(2) m by simp
  have "rune_len (map of_char (c # ?r @ t)) = n"
    using l(3) [of "map of_char t"] by (simp add: m take_map)
  moreover have "\<not> (of_char c :: nat) < 0x20" "c \<noteq> CHR 0x22" "c \<noteq> CHR 0x5C" using l(1) by auto
  ultimately have "read_string (c # ?r @ t) = prepend (take n (c # ?r @ t)) (read_string (drop n (c # ?r @ t)))"
    using n(2) by (simp add: read_string.simps Let_def)
  then show ?thesis using len by (simp add: m min_absorb2)
qed

lemma read_line_separator:
  "read_string (CHR 0x5C # CHR ''u'' # CHR ''2'' # CHR ''0'' # CHR ''2'' # CHR ''8'' # t) = prepend (map char_of [0xE2, 0x80, 0xA8 :: nat]) (read_string t)"
  "read_string (CHR 0x5C # CHR ''u'' # CHR ''2'' # CHR ''0'' # CHR ''2'' # CHR ''9'' # t) = prepend (map char_of [0xE2, 0x80, 0xA9 :: nat]) (read_string t)"
  by (simp_all add: read_string.simps hex_value_def EncodeRune_def)

lemma escape_long:
  assumes "rune_len (map of_char (c # cs)) = n" and "n \<noteq> 0" and "n \<noteq> 1"
  shows "escape_json (c # cs) = (if take n (c # cs) = map char_of [0xE2, 0x80, 0xA8 :: nat] then CHR 0x5C # ''u2028''
      else if take n (c # cs) = map char_of [0xE2, 0x80, 0xA9 :: nat] then CHR 0x5C # ''u2029'' else take n (c # cs)) @
      escape_json (drop n (c # cs))"
  unfolding escape_json.simps(2) Let_def assms(1) using assms(2,3) by (simp only: if_False)

lemma read_escape_long:
  assumes "rune_len (map of_char (c # cs)) = n" and "n \<noteq> 0" and "n \<noteq> 1"
  shows "read_string (escape_json (c # cs) @ t) =
    prepend (take n (c # cs)) (read_string (escape_json (drop n (c # cs)) @ t))"
proof -
  let ?A = "map char_of [0xE2, 0x80, 0xA8 :: nat]" and ?B = "map char_of [0xE2, 0x80, 0xA9 :: nat]"
  consider "take n (c # cs) = ?A" | "take n (c # cs) \<noteq> ?A" "take n (c # cs) = ?B"
    | "take n (c # cs) \<noteq> ?A" "take n (c # cs) \<noteq> ?B" by blast
  then show ?thesis
    unfolding escape_long [OF assms]
    by cases (simp_all only: if_True if_False append_assoc append_Cons append_Nil read_line_separator read_rune [OF assms] HOL.simp_thms)
qed

lemma read_escape_json:
  "valid_utf8 s \<Longrightarrow> read_string (escape_json s @ CHR 0x22 # rest) = Some (s, rest)"
proof (induction s rule: valid_utf8.induct)
  case 1
  then show ?case by (simp add: read_string.simps)
next
  case (2 c cs)
  let ?n = "rune_len (map of_char (c # cs))"
  have n: "?n \<noteq> 0" and v: "valid_utf8 (drop ?n (c # cs))"
    using "2.prems" by (auto simp: valid_utf8.simps Let_def split: if_splits)
  have IH: "read_string (escape_json (drop ?n (c # cs)) @ CHR 0x22 # rest) = Some (drop ?n (c # cs), rest)"
    using "2.IH" n v by simp
  show ?case
  proof (cases "?n = 1")
    case True
    then have "(of_char c :: nat) < 0x80" using rune_ascii by blast
    then show ?thesis using IH True by (simp add: read_string_ascii Let_def)
  next
    case False
    let ?r = "take ?n (c # cs)"
    have "read_string (escape_json (c # cs) @ CHR 0x22 # rest) =
        prepend ?r (read_string (escape_json (drop ?n (c # cs)) @ CHR 0x22 # rest))"
      by (rule read_escape_long [OF HOL.refl n False])
    then show ?thesis unfolding IH by simp
  qed
qed

section \<open>Objects of strings\<close>

text \<open>\<open>json.Marshal\<close> of a struct of strings: its fields in order, without blanks.\<close>

fun write_members :: "(string \<times> string) list \<Rightarrow> string" where
  "write_members [] = []"
| "write_members [(k, v)] = json_quote k @ CHR '':'' # json_quote v"
| "write_members ((k, v) # fs) = json_quote k @ CHR '':'' # json_quote v @ CHR '','' # write_members fs"

definition write_object :: "(string \<times> string) list \<Rightarrow> bytes" where
  "write_object fs = bytes_of_string (CHR ''{'' # write_members fs @ ''}'')"

definition skip_ws :: "string \<Rightarrow> string" where
  "skip_ws = dropWhile (\<lambda>c. c \<in> {CHR '' '', CHR 0x09, CHR 0x0A, CHR 0x0D})"

definition expect :: "char \<Rightarrow> string \<Rightarrow> string option" where
  "expect c s = (case skip_ws s of [] \<Rightarrow> None | d # rest \<Rightarrow> if c = d then Some rest else None)"

definition read_member :: "string \<Rightarrow> ((string \<times> string) \<times> string) option" where
  "read_member s = do {
     a \<leftarrow> expect (CHR 0x22) s;
     (k, b) \<leftarrow> read_string a;
     c \<leftarrow> expect (CHR '':'') b;
     d \<leftarrow> expect (CHR 0x22) c;
     (v, e) \<leftarrow> read_string d;
     Some ((k, v), e) }"

lemma skip_ws_length: "length (skip_ws s) \<le> length s"
  by (simp add: skip_ws_def length_dropWhile_le)

lemma expect_shorter: "expect c s = Some t \<Longrightarrow> length t < length s"
  using skip_ws_length [of s] by (auto simp: expect_def split: list.splits if_splits)

lemma read_string_shorter: "read_string s = Some (r, t) \<Longrightarrow> length t < length s"
proof (induction s arbitrary: r t rule: read_string.induct)
  case 1
  then show ?case by (simp add: read_string.simps)
next
  case (2 c cs)
  let ?n = "rune_len (map of_char (c # cs))"
  consider (close) "c = CHR 0x22" | (escape) "c = CHR 0x5C" | (bad) "c \<noteq> CHR 0x22" "c \<noteq> CHR 0x5C" "?n = 0"
    | (rune) "c \<noteq> CHR 0x22" "c \<noteq> CHR 0x5C" "?n \<noteq> 0" by blast
  then show ?case
  proof cases
    case escape
    with "2.prems" obtain x rest where e: "read_escape cs = Some (x, rest)" "prepend x (read_string rest) = Some (r, t)"
      by (auto simp: read_string.simps split: option.splits)
    then obtain r' where "read_string rest = Some (r', t)" by (auto simp: prepend_def)
    then have "length t < length rest" using "2.IH"(1) e(1) escape by simp
    with read_escape_shorter [OF e(1)] show ?thesis by simp
  next
    case bad
    then have big: "\<not> (of_char c :: nat) < 0x20" and "prepend replacement_rune (read_string cs) = Some (r, t)"
      using "2.prems" by (simp_all add: read_string.simps(2) Let_def del: rune_len.simps split: if_splits)
    then obtain r' where "read_string cs = Some (r', t)" by (auto simp: prepend_def)
    then have "length t < length cs" using "2.IH"(2) [OF bad(1,2) big HOL.refl bad(3)] by simp
    then show ?thesis by simp
  next
    case rune
    then have big: "\<not> (of_char c :: nat) < 0x20"
      and "prepend (take ?n (c # cs)) (read_string (drop ?n (c # cs))) = Some (r, t)"
      using "2.prems" by (simp_all add: read_string.simps(2) Let_def del: rune_len.simps split: if_splits)
    then obtain r' where "read_string (drop ?n (c # cs)) = Some (r', t)" by (auto simp: prepend_def)
    then have "length t < length (drop ?n (c # cs))" using "2.IH"(3) [OF rune(1,2) big HOL.refl rune(3)] by simp
    then show ?thesis by (simp del: rune_len.simps)
  qed (use "2.prems" in \<open>simp add: read_string.simps(2)\<close>)
qed

lemma read_member_shorter: "read_member s = Some (m, t) \<Longrightarrow> length t < length s"
  by (auto simp: read_member_def bind_eq_Some_conv dest!: expect_shorter read_string_shorter)

function read_members :: "string \<Rightarrow> ((string \<times> string) list \<times> string) option" where
  "read_members s =
     (case read_member s of
        None \<Rightarrow> None
      | Some (m, a) \<Rightarrow>
          (case expect (CHR ''}'') a of
             Some b \<Rightarrow> Some ([m], b)
           | None \<Rightarrow>
               (case expect (CHR '','') a of
                  None \<Rightarrow> None
                | Some b \<Rightarrow> map_option (\<lambda>(ms, t). (m # ms, t)) (read_members b))))"
  by pat_completeness auto
termination
  by (relation "measure length") (auto dest!: read_member_shorter expect_shorter)

declare read_members.simps [simp del]

definition string_of_bytes :: "bytes \<Rightarrow> string" where
  "string_of_bytes b = map (\<lambda>x. char_of (unat x)) b"

text \<open>The fields of the text, as the struct decoders take them; nothing but blanks may follow.\<close>

definition Unmarshal_object :: "bytes \<Rightarrow> (string \<times> json) list option" where
  "Unmarshal_object b =
     (case expect (CHR ''{'') (string_of_bytes b) of
        None \<Rightarrow> None
      | Some a \<Rightarrow>
          (case (case expect (CHR ''}'') a of Some t \<Rightarrow> Some ([], t) | None \<Rightarrow> read_members a) of
             None \<Rightarrow> None
           | Some (ms, t) \<Rightarrow>
               if skip_ws t = [] then Some (map (\<lambda>(k, v). (k, JStr v)) ms) else None))"

lemma expect_other: "d \<notin> {CHR '' '', CHR 0x09, CHR 0x0A, CHR 0x0D} \<Longrightarrow> c \<noteq> d \<Longrightarrow> expect c (d # s) = None"
  by (simp add: expect_def skip_ws_def)

lemma expect_same: "c \<notin> {CHR '' '', CHR 0x09, CHR 0x0A, CHR 0x0D} \<Longrightarrow> expect c (c # s) = Some s"
  by (simp add: expect_def skip_ws_def)

lemma read_written_member:
  "valid_utf8 k \<Longrightarrow> valid_utf8 v \<Longrightarrow> read_member (json_quote k @ CHR '':'' # json_quote v @ t) = Some ((k, v), t)"
  by (simp add: read_member_def json_quote_def expect_same read_escape_json)

lemma read_written_members:
  "fs \<noteq> [] \<Longrightarrow> \<forall>(k, v) \<in> set fs. valid_utf8 k \<and> valid_utf8 v \<Longrightarrow>
   read_members (write_members fs @ CHR ''}'' # t) = Some (fs, t)"
proof (induction fs rule: write_members.induct)
  case (2 k v)
  then show ?case
    using read_written_member [of k v "CHR ''}'' # t"]
    by (subst read_members.simps) (simp add: expect_same)
next
  case (3 k v f fs)
  have "read_member (write_members ((k, v) # f # fs) @ CHR ''}'' # t) =
      Some ((k, v), CHR '','' # write_members (f # fs) @ CHR ''}'' # t)"
    using read_written_member [of k v "CHR '','' # write_members (f # fs) @ CHR ''}'' # t"] "3.prems" by simp
  then show ?case
    using "3.IH" "3.prems" by (subst read_members.simps) (simp add: expect_same expect_other)
qed simp

lemma char_of_byte: "char_of (unat (of_char c :: byte)) = c"
proof -
  have "unat (of_nat (of_char c :: nat) :: byte) = of_char c mod 256"
    by (simp add: unat_of_nat take_bit_eq_mod del: of_nat_of_char)
  then have "unat (of_char c :: byte) = of_char c" by (simp only: of_nat_of_char of_char_mod_256)
  then show ?thesis by simp
qed

lemma bytes_chars: "string_of_bytes (bytes_of_string s) = s"
  by (simp add: string_of_bytes_def bytes_of_string_def o_def char_of_byte)

lemma Unmarshal_written:
  assumes "fs \<noteq> []" and "\<forall>(k, v) \<in> set fs. valid_utf8 k \<and> valid_utf8 v"
  shows "Unmarshal_object (write_object fs) = Some (map (\<lambda>(k, v). (k, JStr v)) fs)"
proof -
  obtain k v r where f: "fs = (k, v) # r" using assms(1) by (cases fs) auto
  have "expect (CHR ''}'') (write_members fs @ ''}'') = None"
    unfolding f by (cases r) (auto simp: json_quote_def expect_other)
  then show ?thesis
    using read_written_members [OF assms, of "[]"]
    by (simp add: Unmarshal_object_def write_object_def bytes_chars expect_same skip_ws_def)
qed

end
