(* ===== verification/Devices.thy ===== *)
theory Devices
  imports Mls Json_Read
begin

text \<open>
  Devices of an account (\<open>internal/api/devices.go\<close>): the list, direct certification, revocation,
  and the linking of a new device through a stored request, a claim and a relayed result. The
  four kinds of link records live in the table of the login nonces, under prefixed names, as JSON.
  Fresh identifiers, random numbers and the time are arguments. Rows of device keys are known by account
  and device; their own serial identifier, which the list only shows, is left out.
\<close>

section \<open>Requests and stored records\<close>

record certify_request =
  cf_DevicePublicKey :: string
  cf_Certificate :: string
  cf_DeviceID :: string
  cf_Label :: string
  cf_SigningDeviceID :: string

record link_request =
  lk_DevicePublicKey :: string
  lk_SessionPublicKey :: string
  lk_DeviceID :: string
  lk_Label :: string
  lk_InstanceURL :: string

record resolve_request =
  rs_RequestID :: string
  rs_Secret :: string
  rs_Code :: string

record approve_request =
  ap_ClaimToken :: string
  ap_Certificate :: string
  ap_SigningDeviceID :: string
  ap_RelayCiphertext :: string
  ap_RelayIV :: string
  ap_RelayPublicKey :: string

record storedLinkRequest =
  sq_RequestID :: string
  sq_Secret :: string
  sq_Code :: string
  sq_DeviceID :: string
  sq_DevicePublicKey :: string
  sq_SessionPublicKey :: string
  sq_Label :: string
  sq_InstanceURL :: string
  sq_ExpiresAt :: string

record storedLinkResult =
  sr_RelayCiphertext :: string
  sr_RelayIV :: string
  sr_RelayPublicKey :: string
  sr_DeviceID :: string
  sr_InstanceURL :: string

definition omitempty :: "string \<Rightarrow> string \<Rightarrow> (string \<times> string) list" where
  "omitempty name v = (if v = [] then [] else [(name, v)])"

definition marshal_link_request :: "storedLinkRequest \<Rightarrow> bytes" where
  "marshal_link_request p = write_object
     ([(''requestId'', sq_RequestID p), (''secret'', sq_Secret p), (''code'', sq_Code p),
       (''deviceId'', sq_DeviceID p), (''devicePublicKey'', sq_DevicePublicKey p),
       (''sessionPublicKey'', sq_SessionPublicKey p)] @
      omitempty ''label'' (sq_Label p) @ omitempty ''instanceUrl'' (sq_InstanceURL p) @
      [(''expiresAt'', sq_ExpiresAt p)])"

definition decodeStoredLinkRequest :: "bytes \<Rightarrow> storedLinkRequest option" where
  "decodeStoredLinkRequest b = do {
     fs \<leftarrow> Unmarshal_object b;
     requestID \<leftarrow> string_field ''requestid'' fs;
     secret \<leftarrow> string_field ''secret'' fs;
     code \<leftarrow> string_field ''code'' fs;
     deviceID \<leftarrow> string_field ''deviceid'' fs;
     devicePublicKey \<leftarrow> string_field ''devicepublickey'' fs;
     sessionPublicKey \<leftarrow> string_field ''sessionpublickey'' fs;
     label \<leftarrow> string_field ''label'' fs;
     instanceURL \<leftarrow> string_field ''instanceurl'' fs;
     expiresAt \<leftarrow> string_field ''expiresat'' fs;
     Some \<lparr>sq_RequestID = requestID, sq_Secret = secret, sq_Code = code, sq_DeviceID = deviceID,
           sq_DevicePublicKey = devicePublicKey, sq_SessionPublicKey = sessionPublicKey,
           sq_Label = label, sq_InstanceURL = instanceURL, sq_ExpiresAt = expiresAt\<rparr> }"

definition marshal_link_result :: "storedLinkResult \<Rightarrow> bytes" where
  "marshal_link_result p = write_object
     ([(''relayCiphertext'', sr_RelayCiphertext p), (''relayIv'', sr_RelayIV p),
       (''relayPublicKey'', sr_RelayPublicKey p), (''deviceId'', sr_DeviceID p)] @
      omitempty ''instanceUrl'' (sr_InstanceURL p))"

definition decode_link_result :: "bytes \<Rightarrow> storedLinkResult option" where
  "decode_link_result b = do {
     fs \<leftarrow> Unmarshal_object b;
     relayCiphertext \<leftarrow> string_field ''relayciphertext'' fs;
     relayIV \<leftarrow> string_field ''relayiv'' fs;
     relayPublicKey \<leftarrow> string_field ''relaypublickey'' fs;
     deviceID \<leftarrow> string_field ''deviceid'' fs;
     instanceURL \<leftarrow> string_field ''instanceurl'' fs;
     Some \<lparr>sr_RelayCiphertext = relayCiphertext, sr_RelayIV = relayIV, sr_RelayPublicKey = relayPublicKey,
           sr_DeviceID = deviceID, sr_InstanceURL = instanceURL\<rparr> }"

section \<open>Names of the link records\<close>

definition linkCodeExpiry :: time where
  "linkCodeExpiry = 5 * minute"

definition ed25519CertLen :: nat where
  "ed25519CertLen = 64"

text \<open>\<open>strings.ToUpper\<close> and the layout \<open>time.RFC3339\<close> are parameters.\<close>

record device_env =
  de_auth :: auth_env
  ToUpper :: "string \<Rightarrow> string"
  Format_RFC3339 :: "time \<Rightarrow> string"

definition linkRequestNonce :: "string \<Rightarrow> string \<Rightarrow> string" where
  "linkRequestNonce requestID secret = ''link:req:'' @ requestID @ '':'' @ secret"

definition linkCodeNonce :: "device_env \<Rightarrow> string \<Rightarrow> string" where
  "linkCodeNonce E code = ''link:code:'' @ ToUpper E (TrimSpace code)"

definition linkClaimNonce :: "string \<Rightarrow> string" where
  "linkClaimNonce claimToken = ''link:claim:'' @ claimToken"

definition linkResultNonce :: "string \<Rightarrow> string \<Rightarrow> string" where
  "linkResultNonce requestID secret = ''link:result:'' @ requestID @ '':'' @ secret"

definition linkCodeCharset :: string where
  "linkCodeCharset = ''ABCDEFGHIJKLMNOPQRSTUVWXYZ0123456789''"

definition generateLinkCode :: "nat list \<Rightarrow> string" where
  "generateLinkCode rnd = map (\<lambda>n. linkCodeCharset ! (n mod 36)) (take 8 rnd)"

section \<open>Devices\<close>

record deviceView =
  vw_DeviceID :: string
  vw_Label :: "string option"
  vw_CertifiedAt :: time
  vw_LastSeen :: "time option"

datatype device_body =
    Devices "deviceView list"
  | LinkCreated string string string string
  | LinkClaimed string storedLinkRequest
  | LinkPending
  | LinkDone storedLinkResult
  | Ok

type_synonym device_answer = "device_body response"

definition listDevices :: "string \<Rightarrow> auth_state \<Rightarrow> device_answer \<times> auth_state" where
  "listDevices userID s =
     (if userID = [] then (Fail 401 ''not authenticated'', s)
      else case run_db (ListDeviceKeys userID) s of
        (Inl _, s') \<Rightarrow> (Fail 500 ''could not list devices'', s')
      | (Inr ks, s') \<Rightarrow> (Done 200 (Devices (map (\<lambda>k. \<lparr>vw_DeviceID = dk_DeviceID k, vw_Label = dk_Label k,
                           vw_CertifiedAt = dk_CertifiedAt k, vw_LastSeen = dk_LastSeen k\<rparr>) ks)), s'))"

definition findDevicePublicKey :: "string \<Rightarrow> string \<Rightarrow> auth_state \<Rightarrow> (db_error + bytes option) \<times> auth_state" where
  "findDevicePublicKey userID deviceID s =
     (case run_db (ListDeviceKeys userID) s of
        (Inl e, s') \<Rightarrow> (Inl e, s')
      | (Inr ks, s') \<Rightarrow> (Inr (map_option dk_DevicePublicKey (find (\<lambda>k. dk_DeviceID k = deviceID) ks)), s'))"

text \<open>\<open>ed25519.Verify\<close> panics when the key does not have 32 bytes.\<close>

definition verify_cert :: "device_env \<Rightarrow> bytes \<Rightarrow> bytes \<Rightarrow> bytes \<Rightarrow> bool option" where
  "verify_cert E signingPub msg cert =
     (if length signingPub \<noteq> 32 then None else Some (ed25519_verify (ae_log (de_auth E)) signingPub msg cert))"

definition log_device_event ::
  "device_env \<Rightarrow> time \<Rightarrow> string \<Rightarrow> bytes option \<Rightarrow> bytes \<Rightarrow> string \<Rightarrow> auth_state \<Rightarrow> auth_state" where
  "log_device_event E now op userKey subject userID s =
     log_key_event (de_auth E)
       \<lparr>OperationType = op, UserPublicKey = userKey, SubjectKey = Some subject,
        Timestamp = now div second, UserSignature = None\<rparr> userID s"

definition register_label :: "time \<Rightarrow> string \<Rightarrow> string \<Rightarrow> string \<Rightarrow> auth_state \<Rightarrow> auth_state" where
  "register_label now userID deviceID label s =
     (if label = [] then s else snd (run_db (UpsertDevice now userID deviceID label) s))"

definition decode_key :: "nat \<Rightarrow> string \<Rightarrow> bytes option" where
  "decode_key n s =
     (case DecodeString StdEncoding s of None \<Rightarrow> None | Some b \<Rightarrow> if length b = n then Some b else None)"

definition certifyDevice ::
  "device_env \<Rightarrow> time \<Rightarrow> string \<Rightarrow> certify_request option \<Rightarrow> auth_state \<Rightarrow> device_answer \<times> auth_state" where
  "certifyDevice E now userID body s =
     (if userID = [] then (Fail 401 ''not authenticated'', s)
      else case body of
        None \<Rightarrow> (Fail 400 ''invalid body'', s)
      | Some req \<Rightarrow>
      (case decode_key 32 (cf_DevicePublicKey req) of
         None \<Rightarrow> (Fail 400 ''devicePublicKey must be 32 bytes (Ed25519)'', s)
       | Some newPub \<Rightarrow>
      (case decode_key ed25519CertLen (cf_Certificate req) of
         None \<Rightarrow> (Fail 400 ''certificate must be 64 bytes (Ed25519 signature)'', s)
       | Some cert \<Rightarrow>
      (if cf_DeviceID req = [] then (Fail 400 ''deviceId is required'', s)
       else if cf_SigningDeviceID req = [] then (Fail 400 ''signingDeviceId is required'', s)
       else case findDevicePublicKey userID (cf_SigningDeviceID req) s of
         (Inl _, s1) \<Rightarrow> (Fail 500 ''could not look up signing device'', s1)
       | (Inr None, s1) \<Rightarrow> (Fail 400 ''signing device not found'', s1)
       | (Inr (Some signingPub), s1) \<Rightarrow>
      (case verify_cert E signingPub newPub cert of
         None \<Rightarrow> (Fail 500 [], s1)
       | Some False \<Rightarrow> (Fail 401 ''invalid certificate'', s1)
       | Some True \<Rightarrow>
      (let label = TrimSpace (cf_Label req)
       in case run_db (InsertDeviceKey now userID (cf_DeviceID req) label newPub (Some cert)) s1 of
         (Inl _, s2) \<Rightarrow> (Fail 500 ''could not register device'', s2)
       | (Inr _, s2) \<Rightarrow>
           (let s3 = register_label now userID (cf_DeviceID req) label s2
            in (Done 201 Ok, log_device_event E now OpDeviceAdd (Some signingPub) newPub userID s3))))))))"

definition revokeDevice :: "device_env \<Rightarrow> time \<Rightarrow> string \<Rightarrow> string \<Rightarrow> app \<Rightarrow> device_answer \<times> app" where
  "revokeDevice E now userID deviceID s =
     (if userID = [] then (Fail 401 ''not authenticated'', s)
      else if deviceID = [] then (Fail 400 ''deviceId is required'', s)
      else case findDevicePublicKey userID deviceID (accounts s) of (found, s1) \<Rightarrow>
        (case run_db (RevokeDeviceKey userID deviceID) s1 of
           (Inl _, s2) \<Rightarrow> (Fail 500 ''could not revoke device'', s\<lparr>accounts := s2\<rparr>)
         | (Inr _, s2) \<Rightarrow>
             (let s3 = (case found of Inr (Some pub) \<Rightarrow> log_device_event E now OpDeviceRevoke None pub userID s2
                                    | _ \<Rightarrow> s2)
              in (Done 204 Ok, s\<lparr>accounts := s3,
                   site := (site s)\<lparr>hub := DisconnectDevice userID deviceID (hub (site s))\<rparr>\<rparr>))))"

definition revokeAllDevices :: "string \<Rightarrow> string \<Rightarrow> auth_state \<Rightarrow> device_answer \<times> auth_state" where
  "revokeAllDevices all_param userID s =
     (if all_param \<noteq> ''true'' then (Fail 400 ''use ?all=true to revoke all devices'', s)
      else if userID = [] then (Fail 401 ''not authenticated'', s)
      else case run_db (RevokeAllDeviceKeys userID) s of
        (Inl _, s') \<Rightarrow> (Fail 500 ''could not revoke all devices'', s')
      | (Inr _, s') \<Rightarrow> (Done 204 Ok, s'))"

section \<open>Linking a device\<close>

text \<open>The new device asks: \<open>requestID\<close> and \<open>secret\<close> are fresh, \<open>rnd\<close> is what \<open>rand.Intn\<close> draws.\<close>

definition link_payload ::
  "device_env \<Rightarrow> time \<Rightarrow> string \<Rightarrow> string \<Rightarrow> nat list \<Rightarrow> link_request \<Rightarrow> storedLinkRequest" where
  "link_payload E now requestID secret rnd req =
     \<lparr>sq_RequestID = requestID, sq_Secret = secret, sq_Code = generateLinkCode rnd,
      sq_DeviceID = TrimSpace (lk_DeviceID req), sq_DevicePublicKey = lk_DevicePublicKey req,
      sq_SessionPublicKey = lk_SessionPublicKey req, sq_Label = TrimSpace (lk_Label req),
      sq_InstanceURL = TrimSpace (lk_InstanceURL req), sq_ExpiresAt = Format_RFC3339 E (now + linkCodeExpiry)\<rparr>"

definition linkRequest ::
  "device_env \<Rightarrow> time \<Rightarrow> string \<Rightarrow> string \<Rightarrow> nat list \<Rightarrow> link_request option \<Rightarrow> auth_state \<Rightarrow>
   device_answer \<times> auth_state" where
  "linkRequest E now requestID secret rnd body s =
     (case body of
        None \<Rightarrow> (Fail 400 ''invalid body'', s)
      | Some req \<Rightarrow>
      (if decode_key 32 (lk_DevicePublicKey req) = None
       then (Fail 400 ''devicePublicKey must be 32 bytes (Ed25519)'', s)
       else if (case DecodeString StdEncoding (lk_SessionPublicKey req) of None \<Rightarrow> True | Some b \<Rightarrow> b = [])
       then (Fail 400 ''sessionPublicKey is required'', s)
       else if TrimSpace (lk_DeviceID req) = [] then (Fail 400 ''deviceId is required'', s)
       else
         (let payload = link_payload E now requestID secret rnd req;
              payloadBytes = marshal_link_request payload;
              requestNonce = linkRequestNonce (sq_RequestID payload) (sq_Secret payload);
              codeNonce = linkCodeNonce E (sq_Code payload);
              expiresAt = now + linkCodeExpiry
          in case run_db (InsertAuthNonce requestNonce payloadBytes expiresAt) s of
               (Inl _, s1) \<Rightarrow> (Fail 500 ''could not create link request'', s1)
             | (Inr _, s1) \<Rightarrow>
                 (case run_db (InsertAuthNonce codeNonce payloadBytes expiresAt) s1 of
                    (Inl _, s2) \<Rightarrow>
                      (Fail 500 ''could not create link request'', snd (run_db (DeleteAuthNonce requestNonce) s2))
                  | (Inr _, s2) \<Rightarrow>
                      (Done 200 (LinkCreated (sq_RequestID payload) (sq_Secret payload) (sq_Code payload)
                                   (sq_ExpiresAt payload)), s2)))))"

text \<open>
  An existing device claims it. The record is consumed first (\<open>claimed_nonce\<close> says which one);
  \<open>finish_claim\<close> is the handler after that query, so that two claims can be interleaved there.
\<close>

definition claimed_nonce :: "device_env \<Rightarrow> resolve_request \<Rightarrow> (bool \<times> string) option" where
  "claimed_nonce E req =
     (if TrimSpace (rs_Code req) \<noteq> [] then Some (True, linkCodeNonce E (rs_Code req))
      else if TrimSpace (rs_RequestID req) \<noteq> [] \<and> TrimSpace (rs_Secret req) \<noteq> []
      then Some (False, linkRequestNonce (rs_RequestID req) (rs_Secret req))
      else None)"

definition finish_claim ::
  "device_env \<Rightarrow> time \<Rightarrow> string \<Rightarrow> bool \<Rightarrow> bytes \<Rightarrow> auth_state \<Rightarrow> device_answer \<times> auth_state" where
  "finish_claim E now claimToken usingCode payloadBytes s =
     (case decodeStoredLinkRequest payloadBytes of
        None \<Rightarrow> (Fail 500 ''link request is corrupted'', s)
      | Some payload \<Rightarrow>
      (let companionNonce = (if usingCode then linkRequestNonce (sq_RequestID payload) (sq_Secret payload)
                             else linkCodeNonce E (sq_Code payload));
           s1 = snd (run_db (DeleteAuthNonce companionNonce) s)
       in case run_db (InsertAuthNonce (linkClaimNonce claimToken) payloadBytes (now + linkCodeExpiry)) s1 of
            (Inl _, s2) \<Rightarrow> (Fail 500 ''could not claim link request'', s2)
          | (Inr _, s2) \<Rightarrow> (Done 200 (LinkClaimed claimToken payload), s2)))"

definition linkResolve ::
  "device_env \<Rightarrow> time \<Rightarrow> string \<Rightarrow> string \<Rightarrow> resolve_request option \<Rightarrow> auth_state \<Rightarrow>
   device_answer \<times> auth_state" where
  "linkResolve E now claimToken userID body s =
     (if userID = [] then (Fail 401 ''not authenticated'', s)
      else case body of
        None \<Rightarrow> (Fail 400 ''invalid body'', s)
      | Some req \<Rightarrow>
      (case claimed_nonce E req of
         None \<Rightarrow> (Fail 400 ''requestId + secret or code is required'', s)
       | Some (usingCode, nonce) \<Rightarrow>
      (case run_db (ConsumeAuthNonce now nonce) s of
         (Inl _, s1) \<Rightarrow> (Fail 401 ''link request expired or already claimed'', s1)
       | (Inr payloadBytes, s1) \<Rightarrow> finish_claim E now claimToken usingCode payloadBytes s1)))"

text \<open>The approvals of a device in the last ten minutes are counted, and only reported.\<close>

definition approvalRateWindow :: time where
  "approvalRateWindow = 10 * minute"

definition approvalRateThreshold :: nat where
  "approvalRateThreshold = 5"

definition recordApproval :: "time \<Rightarrow> string \<Rightarrow> (string \<Rightarrow> time list) \<Rightarrow> bool \<times> (string \<Rightarrow> time list)" where
  "recordApproval now signingDeviceID tracker =
     (let fresh = filter (\<lambda>ts. ts > now - approvalRateWindow) (tracker signingDeviceID) @ [now]
      in (length fresh \<ge> approvalRateThreshold, tracker(signingDeviceID := fresh)))"

record device_state =
  dapp :: app
  approvals :: "string \<Rightarrow> time list"
  approval_warnings :: "string list"

definition note_approval :: "time \<Rightarrow> string \<Rightarrow> device_state \<Rightarrow> device_state" where
  "note_approval now d S =
     (case recordApproval now d (approvals S) of
        (warn, tracker) \<Rightarrow> S\<lparr>approvals := tracker,
          approval_warnings := approval_warnings S @ (if warn then [d] else [])\<rparr>)"

definition errLinkingFailed :: string where
  "errLinkingFailed = ''Linking failed. Please try again.''"

text \<open>The approval. Its first part checks, its second (\<open>finish_link\<close>) registers and relays.\<close>

definition finish_link ::
  "device_env \<Rightarrow> time \<Rightarrow> string \<Rightarrow> approve_request \<Rightarrow> storedLinkRequest \<Rightarrow> bytes \<Rightarrow> bytes \<Rightarrow> bytes \<Rightarrow>
   auth_state \<Rightarrow> device_answer \<times> bool \<times> auth_state" where
  "finish_link E now userID req payload newPub cert signingPub s =
     (let label = TrimSpace (sq_Label payload)
      in case run_db (InsertDeviceKey now userID (sq_DeviceID payload) label signingPub (Some cert)) s of
           (Inl _, s1) \<Rightarrow> (Fail 500 ''could not register device'', False, s1)
         | (Inr _, s1) \<Rightarrow>
         (let s2 = register_label now userID (sq_DeviceID payload) label s1;
              result = \<lparr>sr_RelayCiphertext = ap_RelayCiphertext req, sr_RelayIV = ap_RelayIV req,
                        sr_RelayPublicKey = ap_RelayPublicKey req, sr_DeviceID = sq_DeviceID payload,
                        sr_InstanceURL = sq_InstanceURL payload\<rparr>
          in case run_db (InsertAuthNonce (linkResultNonce (sq_RequestID payload) (sq_Secret payload))
                            (marshal_link_result result) (now + linkCodeExpiry)) s2 of
               (Inl _, s3) \<Rightarrow> (Fail 500 ''could not finalize link'', True, s3)
             | (Inr _, s3) \<Rightarrow>
                 (Done 201 Ok, True, log_device_event E now OpDeviceAdd (Some signingPub) newPub userID s3)))"

definition linkVerify_db ::
  "device_env \<Rightarrow> time \<Rightarrow> string \<Rightarrow> approve_request \<Rightarrow> auth_state \<Rightarrow> device_answer \<times> bool \<times> auth_state" where
  "linkVerify_db E now userID req s =
     (case run_db (ConsumeAuthNonce now (linkClaimNonce (ap_ClaimToken req))) s of
        (Inl _, s1) \<Rightarrow> (Fail 401 ''link request expired or already used'', False, s1)
      | (Inr requestBytes, s1) \<Rightarrow>
      (case decodeStoredLinkRequest requestBytes of
         None \<Rightarrow> (Fail 500 ''link request is corrupted'', False, s1)
       | Some payload \<Rightarrow>
      (case decode_key 32 (sq_DevicePublicKey payload) of
         None \<Rightarrow> (Fail 400 ''invalid devicePublicKey'', False, s1)
       | Some newPub \<Rightarrow>
      (case decode_key ed25519CertLen (ap_Certificate req) of
         None \<Rightarrow> (Fail 400 ''certificate must be 64 bytes (Ed25519 signature)'', False, s1)
       | Some cert \<Rightarrow>
      (case findDevicePublicKey userID (ap_SigningDeviceID req) s1 of
         (Inl _, s2) \<Rightarrow> (Fail 500 ''could not look up signing device'', False, s2)
       | (Inr None, s2) \<Rightarrow> (Fail 401 errLinkingFailed, False, s2)
       | (Inr (Some signingPub), s2) \<Rightarrow>
      (case verify_cert E signingPub newPub cert of
         None \<Rightarrow> (Fail 500 [], False, s2)
       | Some False \<Rightarrow> (Fail 401 errLinkingFailed, False, s2)
       | Some True \<Rightarrow> finish_link E now userID req payload newPub cert signingPub s2))))))"

definition linkVerify ::
  "device_env \<Rightarrow> time \<Rightarrow> string \<Rightarrow> approve_request option \<Rightarrow> device_state \<Rightarrow> device_answer \<times> device_state" where
  "linkVerify E now userID body S =
     (if userID = [] then (Fail 401 ''not authenticated'', S)
      else case body of
        None \<Rightarrow> (Fail 400 ''invalid body'', S)
      | Some req \<Rightarrow>
      (if ap_ClaimToken req = [] \<or> ap_Certificate req = [] \<or> ap_SigningDeviceID req = []
       then (Fail 400 ''claimToken, certificate, and signingDeviceId are required'', S)
       else if ap_RelayCiphertext req = [] \<or> ap_RelayIV req = [] \<or> ap_RelayPublicKey req = []
       then (Fail 400 ''relayCiphertext, relayIv, and relayPublicKey are required'', S)
       else case linkVerify_db E now userID req (accounts (dapp S)) of
         (a, approved, s') \<Rightarrow>
           (let S' = S\<lparr>dapp := (dapp S)\<lparr>accounts := s'\<rparr>\<rparr>
            in (a, if approved then note_approval now (ap_SigningDeviceID req) S' else S'))))"

definition linkResult ::
  "time \<Rightarrow> (string \<times> string) option \<Rightarrow> auth_state \<Rightarrow> device_answer \<times> auth_state" where
  "linkResult now body s =
     (case body of
        None \<Rightarrow> (Fail 400 ''invalid body'', s)
      | Some (requestID, secret) \<Rightarrow>
      (if TrimSpace requestID = [] \<or> TrimSpace secret = []
       then (Fail 400 ''requestId and secret are required'', s)
       else case run_db (ConsumeAuthNonce now (linkResultNonce requestID secret)) s of
         (Inl _, s1) \<Rightarrow> (Done 202 LinkPending, s1)
       | (Inr resultBytes, s1) \<Rightarrow>
           (case decode_link_result resultBytes of
              None \<Rightarrow> (Fail 500 ''link result is corrupted'', s1)
            | Some result \<Rightarrow> (Done 200 (LinkDone result), s1))))"

section \<open>The routes\<close>

datatype device_request =
    DListDevices
  | DCertify "certify_request option"
  | DRevokeAll string
  | DRevoke string
  | DLinkRequest string string "nat list" "link_request option"
  | DLinkResolve string "resolve_request option"
  | DLinkVerify "approve_request option"
  | DLinkResult "(string \<times> string) option"

definition on_accounts ::
  "(auth_state \<Rightarrow> device_answer \<times> auth_state) \<Rightarrow> device_state \<Rightarrow> device_answer \<times> device_state" where
  "on_accounts f S = (case f (accounts (dapp S)) of (a, s') \<Rightarrow> (a, S\<lparr>dapp := (dapp S)\<lparr>accounts := s'\<rparr>\<rparr>))"

fun DeviceRoutes :: "device_env \<Rightarrow> time \<Rightarrow> string \<Rightarrow> device_request \<Rightarrow> device_state \<Rightarrow> device_answer \<times> device_state" where
  "DeviceRoutes E now u DListDevices S = on_accounts (listDevices u) S"
| "DeviceRoutes E now u (DCertify b) S = on_accounts (certifyDevice E now u b) S"
| "DeviceRoutes E now u (DRevokeAll p) S = on_accounts (revokeAllDevices p u) S"
| "DeviceRoutes E now u (DRevoke d) S = (case revokeDevice E now u d (dapp S) of (a, p) \<Rightarrow> (a, S\<lparr>dapp := p\<rparr>))"
| "DeviceRoutes E now u (DLinkRequest i k rnd b) S = on_accounts (linkRequest E now i k rnd b) S"
| "DeviceRoutes E now u (DLinkResolve t b) S = on_accounts (linkResolve E now t u b) S"
| "DeviceRoutes E now u (DLinkVerify b) S = linkVerify E now u b S"
| "DeviceRoutes E now u (DLinkResult b) S = on_accounts (linkResult now b) S"

end
