(* ===== verification/Handler_Rules.thy ===== *)
theory Handler_Rules
  imports Hush_Prelude
begin

text \<open>
  Rules for handlers that return an answer and a state: \<open>ends P r\<close> says that the state in \<open>r\<close>
  has \<open>P\<close>. The collection \<open>ends\<close> takes a handler apart along its text; every query leaves its
  equation as a premise of the goals for what follows.
\<close>

named_theorems ends \<open>rules for the parts of a handler\<close>

definition ends :: "('s \<Rightarrow> bool) \<Rightarrow> 'a \<times> 's \<Rightarrow> bool" where
  "ends P r \<longleftrightarrow> P (snd r)"

lemma ends_pair [ends]: "P s \<Longrightarrow> ends P (a, s)"
  by (simp add: ends_def)

lemma ends_if [ends]: "(b \<Longrightarrow> ends P x) \<Longrightarrow> (\<not> b \<Longrightarrow> ends P y) \<Longrightarrow> ends P (if b then x else y)"
  by simp

lemma ends_option [ends]:
  "(v = None \<Longrightarrow> ends P n) \<Longrightarrow> (\<And>x. v = Some x \<Longrightarrow> ends P (f x)) \<Longrightarrow> ends P (case v of None \<Rightarrow> n | Some x \<Rightarrow> f x)"
  by (cases v) auto

lemma ends_bool [ends]:
  "(b \<Longrightarrow> ends P x) \<Longrightarrow> (\<not> b \<Longrightarrow> ends P y) \<Longrightarrow> ends P (case b of True \<Rightarrow> x | False \<Rightarrow> y)"
  by (cases b) auto

lemma ends_sum [ends]:
  "(\<And>e. r = Inl e \<Longrightarrow> ends P (f e)) \<Longrightarrow> (\<And>x. r = Inr x \<Longrightarrow> ends P (g x)) \<Longrightarrow>
   ends P (case r of Inl e \<Rightarrow> f e | Inr x \<Rightarrow> g x)"
  by (cases r) auto

lemma ends_prod [ends]:
  "(\<And>r s. q = (r, s) \<Longrightarrow> ends P (h r s)) \<Longrightarrow> ends P (case q of (r, s) \<Rightarrow> h r s)"
  by (cases q) auto

lemma ends_Let [ends]: "ends P (f x) \<Longrightarrow> ends P (Let x f)"
  by simp

lemma endsI: "(\<And>a s. r = (a, s) \<Longrightarrow> P s) \<Longrightarrow> ends P r"
  by (cases r) (simp add: ends_def)

lemma endsD: "ends P r \<Longrightarrow> r = (a, s) \<Longrightarrow> P s"
  by (simp add: ends_def)

end
