(* ===== verification/Device_Facts.thy ===== *)
theory Device_Facts
  imports Devices Auth_Nonces Handler_Rules
begin

text \<open>
  What the device requests do to the account tables: which rows a request can bring into the
  table of device keys, and the queries of the linking on a database that answers.
\<close>

section \<open>Rows of device keys\<close>

definition key_rows :: "auth_state \<Rightarrow> DeviceKey set" where
  "key_rows s = set (device_keys (adb s))"

text \<open>The row carries a signature that a key of the same account, present before, has made.\<close>

definition certified_row :: "device_env \<Rightarrow> string \<Rightarrow> DeviceKey set \<Rightarrow> DeviceKey \<Rightarrow> bool" where
  "certified_row E u ks r \<longleftrightarrow> dk_UserID r = u \<and>
     (\<exists>k \<in> ks. dk_UserID k = u \<and>
       (\<exists>subject cert. dk_Certificate r = Some cert \<and> length cert = 64 \<and>
          ed25519_verify (ae_log (de_auth E)) (dk_DevicePublicKey k) subject cert \<and>
          (dk_DevicePublicKey r = subject \<or> dk_DevicePublicKey r = dk_DevicePublicKey k)))"

lemma db_query_cases:
  assumes "db_query q d = (r, d')"
  obtains (outage) fs where "r = Inl DbOutage" "d' = d\<lparr>db_faults := fs\<rparr>"
    | (answer) fs where "q (d\<lparr>db_faults := fs\<rparr>) = (r, d')"
  using assms by (auto simp: db_query_def split: prod.splits bool.splits)

text \<open>Queries that do not touch the keys.\<close>

lemma key_rows_insert_nonce: "run_db (InsertAuthNonce n b t) s = (r, s') \<Longrightarrow> key_rows s' = key_rows s"
  by (auto simp: run_db_def key_rows_def InsertAuthNonce_def split: prod.splits if_splits elim!: db_query_cases)

lemma key_rows_consume: "run_db (ConsumeAuthNonce now n) s = (r, s') \<Longrightarrow> key_rows s' = key_rows s"
  by (auto simp: run_db_def key_rows_def ConsumeAuthNonce_def Let_def split: prod.splits option.splits elim!: db_query_cases)

lemma key_rows_delete_nonce: "key_rows (snd (run_db (DeleteAuthNonce n) s)) = key_rows s"
  by (auto simp: run_db_def key_rows_def DeleteAuthNonce_def db_query_def split: prod.splits bool.splits)

lemma key_rows_label: "key_rows (register_label now u dev l s) = key_rows s"
  by (auto simp: register_label_def run_db_def key_rows_def UpsertDevice_def db_query_def Let_def
      split: prod.splits bool.splits if_splits)

lemma key_rows_log: "key_rows (log_device_event E now op k subj u s) = key_rows s"
  by (auto simp: log_device_event_def log_key_event_def key_rows_def split: option.splits prod.splits)

lemma key_rows_list:
  "run_db (ListDeviceKeys u) s = (r, s') \<Longrightarrow>
   key_rows s' = key_rows s \<and> (\<forall>ks. r = Inr ks \<longrightarrow> set ks = {k \<in> key_rows s. dk_UserID k = u})"
  by (auto simp: run_db_def key_rows_def ListDeviceKeys_def split: prod.splits elim!: db_query_cases)

lemma key_rows_find:
  "findDevicePublicKey u dev s = (r, s') \<Longrightarrow>
   key_rows s' = key_rows s \<and>
   (\<forall>pub. r = Inr (Some pub) \<longrightarrow> (\<exists>k \<in> key_rows s. dk_UserID k = u \<and> dk_DeviceID k = dev \<and> dk_DevicePublicKey k = pub))"
  by (auto simp: findDevicePublicKey_def split: prod.splits sum.splits
      dest!: key_rows_list find_Some_iff_mem)

text \<open>Queries that do.\<close>

lemma key_rows_revoke: "run_db (RevokeDeviceKey u dev) s = (r, s') \<Longrightarrow> key_rows s' \<subseteq> key_rows s"
  by (auto simp: run_db_def key_rows_def RevokeDeviceKey_def sql split: prod.splits elim!: db_query_cases)

lemma key_rows_revoke_all: "run_db (RevokeAllDeviceKeys u) s = (r, s') \<Longrightarrow> key_rows s' \<subseteq> key_rows s"
  by (auto simp: run_db_def key_rows_def RevokeAllDeviceKeys_def sql split: prod.splits elim!: db_query_cases)

lemma key_rows_insert:
  assumes "run_db (InsertDeviceKey now u dev l pub cert) s = (r, s')" and "k \<in> key_rows s'"
  shows "k \<in> key_rows s \<or> dk_UserID k = u \<and> dk_DevicePublicKey k = pub \<and> dk_Certificate k = cert"
  using assms
  by (auto simp: run_db_def key_rows_def InsertDeviceKey_def dk_is_def sql split: prod.splits if_splits elim!: db_query_cases)

section \<open>Every new key is certified\<close>

definition brings :: "device_env \<Rightarrow> string \<Rightarrow> auth_state \<Rightarrow> auth_state \<Rightarrow> bool" where
  "brings E u s s' \<longleftrightarrow> (\<forall>r \<in> key_rows s'. r \<in> key_rows s \<or> certified_row E u (key_rows s) r)"

lemma brings_same: "key_rows s' \<subseteq> key_rows s \<Longrightarrow> brings E u s s'"
  by (auto simp: brings_def)

lemma brings_trans_same:
  "brings E u s s1 \<Longrightarrow> key_rows s2 \<subseteq> key_rows s1 \<Longrightarrow> brings E u s s2"
  by (auto simp: brings_def)

text \<open>The handlers below reach each of their states through one of these.\<close>

lemma brings_query:
  "findDevicePublicKey u dev s = (r, s1) \<Longrightarrow> brings E u s0 s \<Longrightarrow> brings E u s0 s1"
  "run_db (ListDeviceKeys u) s = (r', s1) \<Longrightarrow> brings E u s0 s \<Longrightarrow> brings E u s0 s1"
  "run_db (ConsumeAuthNonce now n) s = (r'', s1) \<Longrightarrow> brings E u s0 s \<Longrightarrow> brings E u s0 s1"
  "run_db (InsertAuthNonce n b t) s = (r3, s1) \<Longrightarrow> brings E u s0 s \<Longrightarrow> brings E u s0 s1"
  "run_db (RevokeAllDeviceKeys u) s = (r4, s1) \<Longrightarrow> brings E u s0 s \<Longrightarrow> brings E u s0 s1"
  "run_db (RevokeDeviceKey u dev) s = (r5, s1) \<Longrightarrow> brings E u s0 s \<Longrightarrow> brings E u s0 s1"
  by (auto intro: brings_trans_same dest: key_rows_find key_rows_list key_rows_consume key_rows_insert_nonce
      key_rows_revoke_all key_rows_revoke)

lemma brings_frame:
  "brings E u s s"
  "brings E u s0 s \<Longrightarrow> brings E u s0 (register_label now u' dev l s)"
  "brings E u s0 s \<Longrightarrow> brings E u s0 (log_device_event E' now op k subj u' s)"
  "brings E u s0 s \<Longrightarrow> brings E u s0 (snd (run_db (DeleteAuthNonce n) s))"
  by (auto simp: brings_def key_rows_label key_rows_log key_rows_delete_nonce)

lemma decode_key_length: "decode_key n x = Some b \<Longrightarrow> length b = n"
  by (auto simp: decode_key_def split: option.splits if_splits)

lemma brings_insert:
  assumes "run_db (InsertDeviceKey now u dev l key (Some cert)) s1 = (r, s2)"
    and "verify_cert E pub subject cert = Some True" and "findDevicePublicKey u sdev s = (Inr (Some pub), s1)"
    and "decode_key ed25519CertLen c = Some cert" and "key_rows s = key_rows s0" and "key = subject \<or> key = pub"
  shows "brings E u s0 s2"
proof -
  obtain k where k: "k \<in> key_rows s" "dk_UserID k = u" "dk_DevicePublicKey k = pub" and s1: "key_rows s1 = key_rows s"
    using key_rows_find [OF assms(3)] by auto
  have "ed25519_verify (ae_log (de_auth E)) pub subject cert"
    using assms(2) by (auto simp: verify_cert_def split: if_splits)
  moreover have "length cert = 64" using decode_key_length [OF assms(4)] by (simp add: ed25519CertLen_def)
  ultimately show ?thesis
    unfolding brings_def certified_row_def using key_rows_insert [OF assms(1)] k s1 assms(5,6) by metis
qed

lemma certifyDevice_brings: "ends (brings E u s) (certifyDevice E now u b s)"
  unfolding certifyDevice_def
  by (intro ends) (auto intro: brings_frame brings_query brings_insert)

lemma linkRequest_brings: "ends (brings E u s) (linkRequest E now i k rnd b s)"
  unfolding linkRequest_def
  by (intro ends) ((assumption | rule brings_frame | erule brings_query)+)

lemma linkResolve_brings: "ends (brings E u s) (linkResolve E now t u b s)"
  unfolding linkResolve_def finish_claim_def
  by (intro ends) ((assumption | rule brings_frame | erule brings_query)+)

lemma linkResult_brings: "ends (brings E u s) (linkResult now b s)"
  unfolding linkResult_def
  by (intro ends) ((assumption | rule brings_frame | erule brings_query)+)

lemma listDevices_brings: "ends (brings E u s) (listDevices u s)"
  unfolding listDevices_def
  by (intro ends) ((assumption | rule brings_frame | erule brings_query)+)

lemma revokeAllDevices_brings: "ends (brings E u s) (revokeAllDevices p u s)"
  unfolding revokeAllDevices_def
  by (intro ends) ((assumption | rule brings_frame | erule brings_query)+)

lemma brings_revoked:
  "brings E u s0 s \<Longrightarrow>
   brings E u s0 (case found of Inr (Some pub) \<Rightarrow> log_device_event E' now op k pub u' s | _ \<Rightarrow> s)"
  by (auto intro: brings_frame split: sum.split option.split)

lemma revokeDevice_brings: "ends (\<lambda>p'. brings E u (accounts p) (accounts p')) (revokeDevice E now u dev p)"
  unfolding revokeDevice_def Let_def
  by (intro ends; simp?; (assumption | rule brings_frame brings_revoked | erule brings_query)+)

lemma linkVerify_db_brings:
  "ends (\<lambda>r. brings E u s (snd r)) (linkVerify_db E now u req s)"
  unfolding linkVerify_db_def finish_link_def
  by (intro ends; simp only: snd_conv;
      (assumption | rule brings_frame | erule (2) brings_insert | erule key_rows_consume | erule brings_query | simp)+)

lemma note_approval_dapp [simp]: "dapp (note_approval now d S) = dapp S"
  by (simp add: note_approval_def split: prod.splits)

definition account_keys :: "device_state \<Rightarrow> auth_state" where
  "account_keys S = accounts (dapp S)"

lemma linkVerify_brings: "ends (\<lambda>S'. brings E u (account_keys S) (account_keys S')) (linkVerify E now u b S)"
  unfolding linkVerify_def account_keys_def
  by (intro ends) (auto simp: brings_frame split: if_splits dest: endsD [OF linkVerify_db_brings])

lemma on_accounts_brings:
  "ends (brings E u (accounts (dapp S))) (f (accounts (dapp S))) \<Longrightarrow>
   ends (\<lambda>S'. brings E u (account_keys S) (account_keys S')) (on_accounts f S)"
  by (auto simp: on_accounts_def ends_def account_keys_def split: prod.splits)

lemma DeviceRoutes_brings:
  "ends (\<lambda>S'. brings E u (account_keys S) (account_keys S')) (DeviceRoutes E now u req S)"
proof (cases req)
  case (DRevoke d)
  then show ?thesis
    using revokeDevice_brings [of E u "dapp S" now d] by (auto simp: ends_def account_keys_def split: prod.splits)
qed (simp_all add: on_accounts_brings linkVerify_brings certifyDevice_brings linkRequest_brings linkResolve_brings
    linkResult_brings listDevices_brings revokeAllDevices_brings)

end
