(* ===== verification/Link_Facts.thy ===== *)
theory Link_Facts
  imports Device_Facts
begin

text \<open>
  The linking of a device on a database that answers. \<open>link_view\<close> is what the steps of the
  linking see of it: the records that wait to be claimed, the keys and the accounts. Every query
  has one rule, and the stored records are read as they were written.
\<close>

section \<open>Stored records\<close>

definition text_fields :: "storedLinkRequest \<Rightarrow> string list" where
  "text_fields p = [sq_RequestID p, sq_Secret p, sq_Code p, sq_DeviceID p, sq_DevicePublicKey p,
     sq_SessionPublicKey p, sq_Label p, sq_InstanceURL p, sq_ExpiresAt p]"

definition relay_fields :: "storedLinkResult \<Rightarrow> string list" where
  "relay_fields p = [sr_RelayCiphertext p, sr_RelayIV p, sr_RelayPublicKey p, sr_DeviceID p, sr_InstanceURL p]"

lemma ascii_utf8:
  assumes "\<forall>c \<in> set s. (of_char c :: nat) < 128"
  shows "valid_utf8 s"
  using assms
proof (induction s)
  case Nil
  then show ?case by (simp add: valid_utf8.simps)
next
  case (Cons c cs)
  have "rune_len (map of_char (c # cs)) = 1" using Cons.prems rune_ascii [of c cs] by (auto simp del: rune_len.simps)
  then show ?case using Cons by (simp add: valid_utf8.simps(2) Let_def del: rune_len.simps)
qed

lemma names_utf8:
  "valid_utf8 ''requestId''" "valid_utf8 ''secret''" "valid_utf8 ''code''" "valid_utf8 ''deviceId''"
  "valid_utf8 ''devicePublicKey''" "valid_utf8 ''sessionPublicKey''" "valid_utf8 ''label''"
  "valid_utf8 ''instanceUrl''" "valid_utf8 ''expiresAt''" "valid_utf8 ''relayCiphertext''"
  "valid_utf8 ''relayIv''" "valid_utf8 ''relayPublicKey''"
  by (rule ascii_utf8; simp)+

lemma key_hits:
  "key_matches name ''requestId'' \<longleftrightarrow> name = ''requestid''"
  "key_matches name ''secret'' \<longleftrightarrow> name = ''secret''"
  "key_matches name ''code'' \<longleftrightarrow> name = ''code''"
  "key_matches name ''deviceId'' \<longleftrightarrow> name = ''deviceid''"
  "key_matches name ''devicePublicKey'' \<longleftrightarrow> name = ''devicepublickey''"
  "key_matches name ''sessionPublicKey'' \<longleftrightarrow> name = ''sessionpublickey''"
  "key_matches name ''label'' \<longleftrightarrow> name = ''label''"
  "key_matches name ''instanceUrl'' \<longleftrightarrow> name = ''instanceurl''"
  "key_matches name ''expiresAt'' \<longleftrightarrow> name = ''expiresat''"
  "key_matches name ''relayCiphertext'' \<longleftrightarrow> name = ''relayciphertext''"
  "key_matches name ''relayIv'' \<longleftrightarrow> name = ''relayiv''"
  "key_matches name ''relayPublicKey'' \<longleftrightarrow> name = ''relaypublickey''"
proof -
  have *: "key_matches name k \<longleftrightarrow> name = map ascii_lower k" for k by (auto simp: key_matches_def)
  have "map ascii_lower ''requestId'' = ''requestid''" by code_simp
  then show "key_matches name ''requestId'' \<longleftrightarrow> name = ''requestid''" by (simp only: *)
  have "map ascii_lower ''secret'' = ''secret''" by code_simp
  then show "key_matches name ''secret'' \<longleftrightarrow> name = ''secret''" by (simp only: *)
  have "map ascii_lower ''code'' = ''code''" by code_simp
  then show "key_matches name ''code'' \<longleftrightarrow> name = ''code''" by (simp only: *)
  have "map ascii_lower ''deviceId'' = ''deviceid''" by code_simp
  then show "key_matches name ''deviceId'' \<longleftrightarrow> name = ''deviceid''" by (simp only: *)
  have "map ascii_lower ''devicePublicKey'' = ''devicepublickey''" by code_simp
  then show "key_matches name ''devicePublicKey'' \<longleftrightarrow> name = ''devicepublickey''" by (simp only: *)
  have "map ascii_lower ''sessionPublicKey'' = ''sessionpublickey''" by code_simp
  then show "key_matches name ''sessionPublicKey'' \<longleftrightarrow> name = ''sessionpublickey''" by (simp only: *)
  have "map ascii_lower ''label'' = ''label''" by code_simp
  then show "key_matches name ''label'' \<longleftrightarrow> name = ''label''" by (simp only: *)
  have "map ascii_lower ''instanceUrl'' = ''instanceurl''" by code_simp
  then show "key_matches name ''instanceUrl'' \<longleftrightarrow> name = ''instanceurl''" by (simp only: *)
  have "map ascii_lower ''expiresAt'' = ''expiresat''" by code_simp
  then show "key_matches name ''expiresAt'' \<longleftrightarrow> name = ''expiresat''" by (simp only: *)
  have "map ascii_lower ''relayCiphertext'' = ''relayciphertext''" by code_simp
  then show "key_matches name ''relayCiphertext'' \<longleftrightarrow> name = ''relayciphertext''" by (simp only: *)
  have "map ascii_lower ''relayIv'' = ''relayiv''" by code_simp
  then show "key_matches name ''relayIv'' \<longleftrightarrow> name = ''relayiv''" by (simp only: *)
  have "map ascii_lower ''relayPublicKey'' = ''relaypublickey''" by code_simp
  then show "key_matches name ''relayPublicKey'' \<longleftrightarrow> name = ''relaypublickey''" by (simp only: *)
qed

lemma Unmarshal_fields:
  assumes "fs \<noteq> []" and "\<And>k v. (k, v) \<in> set fs \<Longrightarrow> valid_utf8 k \<and> valid_utf8 v"
  shows "Unmarshal_object (write_object fs) = Some (map (\<lambda>(k, v). (k, JStr v)) fs)"
  by (rule Unmarshal_written) (use assms in auto)

lemma decode_marshal_request:
  assumes "list_all valid_utf8 (text_fields p)"
  shows "decodeStoredLinkRequest (marshal_link_request p) = Some p"
proof -
  let ?fs = "[(''requestId'', sq_RequestID p), (''secret'', sq_Secret p), (''code'', sq_Code p),
       (''deviceId'', sq_DeviceID p), (''devicePublicKey'', sq_DevicePublicKey p),
       (''sessionPublicKey'', sq_SessionPublicKey p)] @
      omitempty ''label'' (sq_Label p) @ omitempty ''instanceUrl'' (sq_InstanceURL p) @
      [(''expiresAt'', sq_ExpiresAt p)]"
  have "Unmarshal_object (write_object ?fs) = Some (map (\<lambda>(k, v). (k, JStr v)) ?fs)"
    by (rule Unmarshal_fields) (use assms names_utf8 in \<open>auto simp: text_fields_def omitempty_def split: if_splits\<close>)
  then show ?thesis
    by (cases p) (auto simp: decodeStoredLinkRequest_def marshal_link_request_def omitempty_def key_hits)
qed

lemma decode_marshal_result:
  assumes "list_all valid_utf8 (relay_fields p)"
  shows "decode_link_result (marshal_link_result p) = Some p"
proof -
  let ?fs = "[(''relayCiphertext'', sr_RelayCiphertext p), (''relayIv'', sr_RelayIV p),
       (''relayPublicKey'', sr_RelayPublicKey p), (''deviceId'', sr_DeviceID p)] @
      omitempty ''instanceUrl'' (sr_InstanceURL p)"
  have "Unmarshal_object (write_object ?fs) = Some (map (\<lambda>(k, v). (k, JStr v)) ?fs)"
    by (rule Unmarshal_fields) (use assms names_utf8 in \<open>auto simp: relay_fields_def omitempty_def split: if_splits\<close>)
  then show ?thesis
    by (cases p) (auto simp: decode_link_result_def marshal_link_result_def omitempty_def key_hits)
qed

section \<open>Waiting records\<close>

definition waiting :: "auth_state \<Rightarrow> string \<Rightarrow> (bytes \<times> time) option" where
  "waiting s = pending_nonce (adb s)"

definition answering :: "auth_state \<Rightarrow> bool" where
  "answering s \<longleftrightarrow> nonces_ok (adb s) \<and> db_faults (adb s) = []"

lemma run_db_answering:
  "answering s \<Longrightarrow> run_db (db_query q) s = (case q (adb s) of (r, d) \<Rightarrow> (r, s\<lparr>adb := d\<rparr>))"
proof -
  assume "answering s"
  then have f: "db_faults (adb s) = []" by (simp add: answering_def)
  then have e: "(adb s)\<lparr>db_faults := []\<rparr> = adb s" by (cases "adb s") simp
  show ?thesis by (simp add: run_db_def db_query_def f e)
qed

lemma run_db_back: "run_db q s = (r, s\<lparr>adb := d\<rparr>) \<Longrightarrow> q (adb s) = (r, d)"
  by (auto simp: run_db_def split: prod.splits dest: arg_cong [where f = adb])

text \<open>The nonce queries, by the contract of the table.\<close>

lemma insert_waiting:
  assumes "answering s" and "waiting s n = None"
  obtains s' where "run_db (InsertAuthNonce n b t) s = (Inr (), s')" "answering s'"
    "waiting s' = (waiting s)(n \<mapsto> (b, t))" "device_keys (adb s') = device_keys (adb s)" "users (adb s') = users (adb s)"
proof -
  have ok: "nonces_ok (adb s)" using assms(1) by (simp add: answering_def)
  have "\<not> sql_exists (\<lambda>r. n_Nonce r = n) (auth_nonces (adb s))"
    using assms(2) by (auto simp: waiting_def pending_nonce_None sql_exists_iff)
  then have q: "run_db (InsertAuthNonce n b t) s = (Inr (), s\<lparr>adb := (adb s)\<lparr>auth_nonces := auth_nonces (adb s) @
      [\<lparr>n_Nonce = n, n_UserPublicKey = b, n_ExpiresAt = t\<rparr>]\<rparr>\<rparr>)" (is "_ = (_, ?s)")
    using assms(1) by (simp add: InsertAuthNonce_def run_db_answering)
  then have i: "InsertAuthNonce n b t (adb s) = (Inr (), adb ?s)"
    by (auto dest: run_db_back)
  show thesis
    by (rule that [OF q]) (use nonce_table.ins_Inr [OF ok i] assms(1) in \<open>simp_all add: waiting_def answering_def\<close>)
qed

lemma insert_taken:
  assumes "answering s" and "waiting s n \<noteq> None"
  obtains e where "run_db (InsertAuthNonce n b t) s = (Inl e, s)"
proof -
  have "sql_exists (\<lambda>r. n_Nonce r = n) (auth_nonces (adb s))"
    using assms(2) by (auto simp: waiting_def pending_nonce_None sql_exists_iff)
  then show thesis using assms(1) that by (auto simp: InsertAuthNonce_def run_db_answering)
qed

lemma consume_waiting:
  assumes "answering s" and "waiting s n = Some (b, t)" and "now < t"
  obtains s' where "run_db (ConsumeAuthNonce now n) s = (Inr b, s')" "answering s'"
    "waiting s' = (waiting s)(n := None)" "device_keys (adb s') = device_keys (adb s)" "users (adb s') = users (adb s)"
proof -
  let ?live = "\<lambda>r. n_Nonce r = n \<and> now < n_ExpiresAt r"
  have ok: "nonces_ok (adb s)" using assms(1) by (simp add: answering_def)
  obtain r where r: "r \<in> set (auth_nonces (adb s))" "n_Nonce r = n" "n_UserPublicKey r = b" "n_ExpiresAt r = t"
    using pending_nonce_Some assms(2) unfolding waiting_def by blast
  have "find ?live (auth_nonces (adb s)) = Some r"
    by (rule find_unique) (use r assms(3) ok in \<open>auto simp: nonces_ok_def distinct_map dest: inj_onD\<close>)
  then have q: "run_db (ConsumeAuthNonce now n) s =
      (Inr b, s\<lparr>adb := (adb s)\<lparr>auth_nonces := sql_delete ?live (auth_nonces (adb s))\<rparr>\<rparr>)" (is "_ = (_, ?s)")
    using assms(1) r(3) by (simp add: ConsumeAuthNonce_def run_db_answering Let_def)
  then have c: "ConsumeAuthNonce now n (adb s) = (Inr b, adb ?s)"
    by (auto dest: run_db_back)
  show thesis
    by (rule that [OF q]) (use nonce_table.con_Inr [OF ok c] assms(1) in \<open>simp_all add: waiting_def answering_def\<close>)
qed

lemma consume_absent:
  assumes "answering s" and "waiting s n = None"
  obtains s' where "run_db (ConsumeAuthNonce now n) s = (Inl DbNoRows, s')" "answering s'" "waiting s' = waiting s"
    "device_keys (adb s') = device_keys (adb s)" "users (adb s') = users (adb s)"
proof -
  have "find (\<lambda>r. n_Nonce r = n \<and> now < n_ExpiresAt r) (auth_nonces (adb s)) = None"
    using assms(2) by (auto simp: waiting_def pending_nonce_None find_None_iff)
  then have "run_db (ConsumeAuthNonce now n) s = (Inl DbNoRows, s)"
    using assms(1) by (simp add: ConsumeAuthNonce_def run_db_answering Let_def)
  then show thesis using assms(1) that by blast
qed

lemma delete_waiting:
  assumes "answering s"
  shows "answering (snd (run_db (DeleteAuthNonce n) s))"
    and "waiting (snd (run_db (DeleteAuthNonce n) s)) = (waiting s)(n := None)"
    and "device_keys (adb (snd (run_db (DeleteAuthNonce n) s))) = device_keys (adb s)"
    and "users (adb (snd (run_db (DeleteAuthNonce n) s))) = users (adb s)"
proof -
  have q: "run_db (DeleteAuthNonce n) s =
      (Inr (), s\<lparr>adb := (adb s)\<lparr>auth_nonces := sql_delete (\<lambda>r. n_Nonce r = n) (auth_nonces (adb s))\<rparr>\<rparr>)"
    using assms by (simp add: DeleteAuthNonce_def run_db_answering)
  have "pending_nonce (adb (snd (run_db (DeleteAuthNonce n) s))) k = ((waiting s)(n := None)) k" for k
    by (cases "k = n") (auto simp: q pending_nonce_def waiting_def find_sql_delete_None
        find_sql_delete_other [where p = "\<lambda>r. n_Nonce r = k" and q = "\<lambda>r. n_Nonce r = n"])
  then show "waiting (snd (run_db (DeleteAuthNonce n) s)) = (waiting s)(n := None)"
    by (auto simp: waiting_def)
  show "answering (snd (run_db (DeleteAuthNonce n) s))"
    using assms by (simp add: q answering_def nonces_ok_def distinct_map_sql_delete)
qed (use assms in \<open>simp_all add: DeleteAuthNonce_def run_db_answering\<close>)

lemma find_waiting:
  assumes "answering s"
  shows "findDevicePublicKey u dev s = (Inr (map_option dk_DevicePublicKey (find (\<lambda>k. dk_DeviceID k = dev)
      (sort_key dk_CertifiedAt (filter (\<lambda>r. dk_UserID r = u) (device_keys (adb s)))))), s)"
  using assms by (simp add: findDevicePublicKey_def ListDeviceKeys_def run_db_answering)

lemma insert_key_waiting:
  assumes "answering s" and "sql_exists (\<lambda>x. u_ID x = u) (users (adb s))"
  obtains s' where "run_db (InsertDeviceKey now u dev l pub (Some cert)) s = (Inr (), s')" "answering s'"
    "waiting s' = waiting s" "users (adb s') = users (adb s)"
    "\<exists>r \<in> set (device_keys (adb s')). dk_is u dev r \<and> dk_DevicePublicKey r = pub \<and> dk_Certificate r = Some cert"
proof -
  obtain d where d: "run_db (InsertDeviceKey now u dev l pub (Some cert)) s = (Inr (), s\<lparr>adb := d\<rparr>)"
    "auth_nonces d = auth_nonces (adb s)" "db_faults d = []" "users d = users (adb s)"
    "\<exists>r \<in> set (device_keys d). dk_is u dev r \<and> dk_DevicePublicKey r = pub \<and> dk_Certificate r = Some cert"
  proof (cases "sql_exists (dk_is u dev) (device_keys (adb s))")
    case True
    then obtain r where "r \<in> set (device_keys (adb s))" "dk_is u dev r" by (auto simp: sql_exists_iff)
    let ?f = "\<lambda>r. r\<lparr>dk_DevicePublicKey := pub, dk_Certificate := Some cert, dk_CertifiedAt := now,
        dk_Label := (case nullif_empty l of None \<Rightarrow> dk_Label r | Some l \<Rightarrow> Some l)\<rparr>"
    let ?d = "(adb s)\<lparr>device_keys := sql_update (dk_is u dev) ?f (device_keys (adb s))\<rparr>"
    have "?f r \<in> set (device_keys ?d)" using \<open>r \<in> _\<close> \<open>dk_is u dev r\<close> by (force simp: set_sql_update)
    moreover have "dk_is u dev (?f r)" using \<open>dk_is u dev r\<close> by (simp add: dk_is_def)
    moreover have "run_db (InsertDeviceKey now u dev l pub (Some cert)) s = (Inr (), s\<lparr>adb := ?d\<rparr>)"
      using assms(1) True by (simp add: InsertDeviceKey_def run_db_answering)
    ultimately show ?thesis using assms(1) by (intro that [of ?d]) (auto simp: answering_def)
  next
    case False
    then show ?thesis
      using assms(2)
      by (intro that) (simp add: InsertDeviceKey_def run_db_answering [OF assms(1)], use assms(1) in \<open>simp_all add: answering_def dk_is_def\<close>)
  qed
  show thesis
    by (rule that [OF d(1)]) (use d assms(1) in \<open>simp_all add: answering_def waiting_def pending_nonce_def nonces_ok_def fun_eq_iff\<close>)
qed

lemma label_waiting:
  assumes "answering s"
  shows "answering (register_label now u dev l s)" and "waiting (register_label now u dev l s) = waiting s"
    and "users (adb (register_label now u dev l s)) = users (adb s)"
    and "device_keys (adb (register_label now u dev l s)) = device_keys (adb s)"
proof -
  have "\<exists>ds. adb (register_label now u dev l s) = (adb s)\<lparr>devices := ds\<rparr>"
  proof (cases "l = []")
    case True
    then show ?thesis by (intro exI [of _ "devices (adb s)"]) (simp add: register_label_def)
  next
    case False
    then show ?thesis
      using assms unfolding register_label_def UpsertDevice_def Let_def
      by (auto simp: run_db_answering intro: exI [of _ "devices (adb s)"])
  qed
  then obtain ds where ds: "adb (register_label now u dev l s) = (adb s)\<lparr>devices := ds\<rparr>" ..
  show "answering (register_label now u dev l s)" "waiting (register_label now u dev l s) = waiting s"
    "users (adb (register_label now u dev l s)) = users (adb s)"
    "device_keys (adb (register_label now u dev l s)) = device_keys (adb s)"
    using assms by (simp_all add: ds answering_def waiting_def pending_nonce_def nonces_ok_def fun_eq_iff)
qed

lemma log_waiting [simp]: "adb (log_device_event E now op k subj u s) = adb s"
  by (auto simp: log_device_event_def log_key_event_def split: option.splits prod.splits)

section \<open>The steps of a linking\<close>

text \<open>The four kinds of records have different names.\<close>

lemma link_names [simp]:
  "linkRequestNonce i k \<noteq> linkCodeNonce E c" "linkCodeNonce E c \<noteq> linkRequestNonce i k"
  "linkRequestNonce i k \<noteq> linkClaimNonce t" "linkClaimNonce t \<noteq> linkRequestNonce i k"
  "linkRequestNonce i k \<noteq> linkResultNonce i' k'" "linkResultNonce i' k' \<noteq> linkRequestNonce i k"
  "linkCodeNonce E c \<noteq> linkClaimNonce t" "linkClaimNonce t \<noteq> linkCodeNonce E c"
  "linkCodeNonce E c \<noteq> linkResultNonce i k" "linkResultNonce i k \<noteq> linkCodeNonce E c"
  "linkClaimNonce t \<noteq> linkResultNonce i k" "linkResultNonce i k \<noteq> linkClaimNonce t"
  by (simp_all add: linkRequestNonce_def linkCodeNonce_def linkClaimNonce_def linkResultNonce_def)

lemma linkRequest_opens:
  assumes "answering s" and "decode_key 32 (lk_DevicePublicKey req) = Some key"
    and "DecodeString StdEncoding (lk_SessionPublicKey req) = Some sb" "sb \<noteq> []" and "TrimSpace (lk_DeviceID req) \<noteq> []"
    and "waiting s (linkRequestNonce i k) = None" and "waiting s (linkCodeNonce E (generateLinkCode rnd)) = None"
  obtains s' where
    "linkRequest E now i k rnd (Some req) s =
       (Done 200 (LinkCreated i k (generateLinkCode rnd) (Format_RFC3339 E (now + linkCodeExpiry))), s')"
    "answering s'" "device_keys (adb s') = device_keys (adb s)" "users (adb s') = users (adb s)"
    "waiting s' = (waiting s)
       (linkRequestNonce i k \<mapsto> (marshal_link_request (link_payload E now i k rnd req), now + linkCodeExpiry),
        linkCodeNonce E (generateLinkCode rnd) \<mapsto> (marshal_link_request (link_payload E now i k rnd req), now + linkCodeExpiry))"
proof -
  let ?b = "marshal_link_request (link_payload E now i k rnd req)"
  have p: "sq_RequestID (link_payload E now i k rnd req) = i" "sq_Secret (link_payload E now i k rnd req) = k"
    "sq_Code (link_payload E now i k rnd req) = generateLinkCode rnd"
    "sq_ExpiresAt (link_payload E now i k rnd req) = Format_RFC3339 E (now + linkCodeExpiry)"
    by (simp_all add: link_payload_def)
  obtain s1 where s1: "run_db (InsertAuthNonce (linkRequestNonce i k) ?b (now + linkCodeExpiry)) s = (Inr (), s1)"
    "answering s1" "waiting s1 = (waiting s)(linkRequestNonce i k \<mapsto> (?b, now + linkCodeExpiry))"
    "device_keys (adb s1) = device_keys (adb s)" "users (adb s1) = users (adb s)"
    by (rule insert_waiting [OF assms(1,6)])
  have "waiting s1 (linkCodeNonce E (generateLinkCode rnd)) = None" using assms(7) s1(3) by simp
  then obtain s2 where s2: "run_db (InsertAuthNonce (linkCodeNonce E (generateLinkCode rnd)) ?b (now + linkCodeExpiry)) s1 = (Inr (), s2)"
    "answering s2" "waiting s2 = (waiting s1)(linkCodeNonce E (generateLinkCode rnd) \<mapsto> (?b, now + linkCodeExpiry))"
    "device_keys (adb s2) = device_keys (adb s1)" "users (adb s2) = users (adb s1)"
    by (rule insert_waiting [OF s1(2)])
  show thesis
    by (rule that [of s2]) (use assms(2-5) s1 s2 in \<open>simp_all add: linkRequest_def Let_def p\<close>)
qed

lemma linkResolve_claims:
  assumes "answering s" and "u \<noteq> []" and "claimed_nonce E req = Some (c, n)"
    and "waiting s n = Some (b, t)" "now < t" and "decodeStoredLinkRequest b = Some p"
    and "waiting s (linkClaimNonce tok) = None"
    and "n = (if c then linkCodeNonce E (sq_Code p) else linkRequestNonce (sq_RequestID p) (sq_Secret p))"
  obtains s' where "linkResolve E now tok u (Some req) s = (Done 200 (LinkClaimed tok p), s')"
    "answering s'" "device_keys (adb s') = device_keys (adb s)" "users (adb s') = users (adb s)"
    "waiting s' = (waiting s)
       (linkRequestNonce (sq_RequestID p) (sq_Secret p) := None, linkCodeNonce E (sq_Code p) := None,
        linkClaimNonce tok \<mapsto> (b, now + linkCodeExpiry))"
proof -
  let ?m = "if c then linkRequestNonce (sq_RequestID p) (sq_Secret p) else linkCodeNonce E (sq_Code p)"
  obtain s1 where s1: "run_db (ConsumeAuthNonce now n) s = (Inr b, s1)" "answering s1"
    "waiting s1 = (waiting s)(n := None)" "device_keys (adb s1) = device_keys (adb s)" "users (adb s1) = users (adb s)"
    by (rule consume_waiting [OF assms(1,4,5)])
  define s2 where "s2 = snd (run_db (DeleteAuthNonce ?m) s1)"
  have s2: "answering s2" "waiting s2 = (waiting s1)(?m := None)" "device_keys (adb s2) = device_keys (adb s1)"
    "users (adb s2) = users (adb s1)"
    unfolding s2_def by (simp_all only: delete_waiting [OF s1(2)])
  have "waiting s2 (linkClaimNonce tok) = None" using assms(7) s1(3) s2(2) by simp
  then obtain s3 where s3: "run_db (InsertAuthNonce (linkClaimNonce tok) b (now + linkCodeExpiry)) s2 = (Inr (), s3)"
    "answering s3" "waiting s3 = (waiting s2)(linkClaimNonce tok \<mapsto> (b, now + linkCodeExpiry))"
    "device_keys (adb s3) = device_keys (adb s2)" "users (adb s3) = users (adb s2)"
    by (rule insert_waiting [OF s2(1)])
  have "finish_claim E now tok c b s1 = (Done 200 (LinkClaimed tok p), s3)"
    using s3(1) assms(6) by (simp add: finish_claim_def Let_def s2_def)
  then have "linkResolve E now tok u (Some req) s = (Done 200 (LinkClaimed tok p), s3)"
    using assms(2,3) s1(1) by (simp add: linkResolve_def)
  then show thesis
    by (rule that) (use assms(8) s1 s2 s3 in \<open>auto simp: fun_upd_twist\<close>)
qed

text \<open>What the approving device sends is complete, and one of its keys has signed the new one.\<close>

definition approves :: "device_env \<Rightarrow> string \<Rightarrow> storedLinkRequest \<Rightarrow> approve_request \<Rightarrow> DeviceKey list \<Rightarrow> bytes \<Rightarrow> bytes \<Rightarrow> bool" where
  "approves E u p req ks pub cert \<longleftrightarrow>
     ap_ClaimToken req \<noteq> [] \<and> ap_Certificate req \<noteq> [] \<and> ap_SigningDeviceID req \<noteq> [] \<and>
     ap_RelayCiphertext req \<noteq> [] \<and> ap_RelayIV req \<noteq> [] \<and> ap_RelayPublicKey req \<noteq> [] \<and>
     decode_key ed25519CertLen (ap_Certificate req) = Some cert \<and>
     map_option dk_DevicePublicKey (find (\<lambda>k. dk_DeviceID k = ap_SigningDeviceID req)
        (sort_key dk_CertifiedAt (filter (\<lambda>r. dk_UserID r = u) ks))) = Some pub \<and>
     (\<exists>key. decode_key 32 (sq_DevicePublicKey p) = Some key \<and> verify_cert E pub key cert = Some True)"

definition relayed :: "approve_request \<Rightarrow> storedLinkRequest \<Rightarrow> storedLinkResult" where
  "relayed req p = \<lparr>sr_RelayCiphertext = ap_RelayCiphertext req, sr_RelayIV = ap_RelayIV req,
     sr_RelayPublicKey = ap_RelayPublicKey req, sr_DeviceID = sq_DeviceID p, sr_InstanceURL = sq_InstanceURL p\<rparr>"

lemma linkVerify_registers:
  assumes a: "answering s" and ap: "approves E u p req (device_keys (adb s)) pub cert"
    and w: "waiting s (linkClaimNonce (ap_ClaimToken req)) = Some (b, t)" "now < t" "decodeStoredLinkRequest b = Some p"
    and f: "waiting s (linkResultNonce (sq_RequestID p) (sq_Secret p)) = None"
    and user: "sql_exists (\<lambda>x. u_ID x = u) (users (adb s))"
  obtains s' where "linkVerify_db E now u req s = (Done 201 Ok, True, s')" "answering s'"
    "waiting s' (linkResultNonce (sq_RequestID p) (sq_Secret p)) =
       Some (marshal_link_result (relayed req p), now + linkCodeExpiry)"
    "\<exists>r \<in> set (device_keys (adb s')). dk_is u (sq_DeviceID p) r \<and> dk_DevicePublicKey r = pub \<and> dk_Certificate r = Some cert"
proof -
  obtain key where key: "decode_key 32 (sq_DevicePublicKey p) = Some key" "verify_cert E pub key cert = Some True"
    using ap by (auto simp: approves_def)
  obtain s1 where s1: "run_db (ConsumeAuthNonce now (linkClaimNonce (ap_ClaimToken req))) s = (Inr b, s1)" "answering s1"
    "waiting s1 = (waiting s)(linkClaimNonce (ap_ClaimToken req) := None)"
    "device_keys (adb s1) = device_keys (adb s)" "users (adb s1) = users (adb s)"
    by (rule consume_waiting [OF a w(1,2)])
  have fd: "findDevicePublicKey u (ap_SigningDeviceID req) s1 = (Inr (Some pub), s1)"
    using ap by (simp add: find_waiting [OF s1(2)] s1(4) approves_def)
  have "sql_exists (\<lambda>x. u_ID x = u) (users (adb s1))" using user s1(5) by simp
  then obtain s2 where s2: "run_db (InsertDeviceKey now u (sq_DeviceID p) (TrimSpace (sq_Label p)) pub (Some cert)) s1 = (Inr (), s2)"
    "answering s2" "waiting s2 = waiting s1" "users (adb s2) = users (adb s1)"
    "\<exists>r \<in> set (device_keys (adb s2)). dk_is u (sq_DeviceID p) r \<and> dk_DevicePublicKey r = pub \<and> dk_Certificate r = Some cert"
    by (rule insert_key_waiting [OF s1(2)])
  let ?s3 = "register_label now u (sq_DeviceID p) (TrimSpace (sq_Label p)) s2"
  note s3 = label_waiting [OF s2(2), of now u "sq_DeviceID p" "TrimSpace (sq_Label p)"]
  have "waiting ?s3 (linkResultNonce (sq_RequestID p) (sq_Secret p)) = None"
    using f s1(3) s2(3) s3(2) by simp
  then obtain s4 where s4: "run_db (InsertAuthNonce (linkResultNonce (sq_RequestID p) (sq_Secret p))
      (marshal_link_result (relayed req p)) (now + linkCodeExpiry)) ?s3 = (Inr (), s4)" "answering s4"
    "waiting s4 = (waiting ?s3)(linkResultNonce (sq_RequestID p) (sq_Secret p) \<mapsto>
       (marshal_link_result (relayed req p), now + linkCodeExpiry))"
    "device_keys (adb s4) = device_keys (adb ?s3)"
    by (rule insert_waiting [OF s3(1)])
  let ?s5 = "log_device_event E now OpDeviceAdd (Some pub) key u s4"
  have "finish_link E now u req p key cert pub s1 = (Done 201 Ok, True, ?s5)"
    using s2(1) s4(1) by (simp add: finish_link_def Let_def relayed_def)
  then have "linkVerify_db E now u req s = (Done 201 Ok, True, ?s5)"
    using s1(1) w(3) key fd ap by (simp add: linkVerify_db_def approves_def)
  then show thesis
    by (rule that) (use s2(5) s3(4) s4(2-4) in \<open>simp_all add: answering_def waiting_def\<close>)
qed

lemma linkResult_answers:
  assumes "answering s" and "TrimSpace i \<noteq> []" "TrimSpace k \<noteq> []"
  shows "waiting s (linkResultNonce i k) = Some (b, t) \<Longrightarrow> now < t \<Longrightarrow> decode_link_result b = Some r \<Longrightarrow>
      \<exists>s'. linkResult now (Some (i, k)) s = (Done 200 (LinkDone r), s') \<and> answering s' \<and>
        waiting s' = (waiting s)(linkResultNonce i k := None) \<and> device_keys (adb s') = device_keys (adb s)"
    and "waiting s (linkResultNonce i k) = None \<Longrightarrow> fst (linkResult now (Some (i, k)) s) = Done 202 LinkPending"
proof -
  assume w: "waiting s (linkResultNonce i k) = Some (b, t)" "now < t" "decode_link_result b = Some r"
  obtain s' where "run_db (ConsumeAuthNonce now (linkResultNonce i k)) s = (Inr b, s')" "answering s'"
    "waiting s' = (waiting s)(linkResultNonce i k := None)" "device_keys (adb s') = device_keys (adb s)"
    by (rule consume_waiting [OF assms(1) w(1,2)])
  then show "\<exists>s'. linkResult now (Some (i, k)) s = (Done 200 (LinkDone r), s') \<and> answering s' \<and>
        waiting s' = (waiting s)(linkResultNonce i k := None) \<and> device_keys (adb s') = device_keys (adb s)"
    using assms(2,3) w(3) by (simp add: linkResult_def)
next
  assume w: "waiting s (linkResultNonce i k) = None"
  obtain s' where "run_db (ConsumeAuthNonce now (linkResultNonce i k)) s = (Inl DbNoRows, s')"
    by (rule consume_absent [OF assms(1) w])
  then show "fst (linkResult now (Some (i, k)) s) = Done 202 LinkPending"
    using assms(2,3) by (simp add: linkResult_def)
qed

end
