(* ===== verification/Device_Props.thy ===== *)
theory Device_Props
  imports Link_Facts Mls_Props
begin

text \<open>
  Properties of the device endpoints: a chain of certificates leads to every key of an account,
  a link request is claimed once, and a linking hands the relayed secret to the device that asked.
\<close>

section \<open>Series of requests\<close>

fun serve_devices ::
  "device_env \<Rightarrow> (time \<times> string \<times> device_request) list \<Rightarrow> device_state \<Rightarrow> device_answer list \<times> device_state" where
  "serve_devices E [] S = ([], S)"
| "serve_devices E ((now, u, req) # rs) S =
     (case DeviceRoutes E now u req S of (a, S1) \<Rightarrow>
       (case serve_devices E rs S1 of (as, S2) \<Rightarrow> (a # as, S2)))"

definition keys_of :: "string \<Rightarrow> device_state \<Rightarrow> bytes set" where
  "keys_of u S = dk_DevicePublicKey ` {k \<in> key_rows (account_keys S). dk_UserID k = u}"

section \<open>The chain of certificates\<close>

inductive endorsed :: "device_env \<Rightarrow> bytes set \<Rightarrow> bytes \<Rightarrow> bool" for E R where
  root: "K \<in> R \<Longrightarrow> endorsed E R K"
| signed: "endorsed E R K \<Longrightarrow> length cert = 64 \<Longrightarrow> ed25519_verify (ae_log (de_auth E)) K K' cert \<Longrightarrow> endorsed E R K'"

lemma endorsed_trans: "endorsed E R' K \<Longrightarrow> (\<And>L. L \<in> R' \<Longrightarrow> endorsed E R L) \<Longrightarrow> endorsed E R K"
  by (induction rule: endorsed.induct) (auto intro: endorsed.intros)

lemma request_endorsed:
  assumes "DeviceRoutes E now u req S = (a, S')" and "K \<in> keys_of v S'"
  shows "endorsed E (keys_of v S) K" and "v \<noteq> u \<Longrightarrow> K \<in> keys_of v S"
proof -
  obtain r where r: "r \<in> key_rows (account_keys S')" "dk_UserID r = v" "K = dk_DevicePublicKey r"
    using assms(2) by (auto simp: keys_of_def)
  have b: "brings E u (account_keys S) (account_keys S')"
    by (rule endsD [OF DeviceRoutes_brings assms(1)])
  have old: "r \<in> key_rows (account_keys S) \<or> certified_row E u (key_rows (account_keys S)) r"
    using b r(1) by (simp add: brings_def)
  then consider "K \<in> keys_of v S" | "v = u" "certified_row E u (key_rows (account_keys S)) r"
    using r(2,3) by (auto simp: keys_of_def certified_row_def)
  then show "endorsed E (keys_of v S) K"
  proof cases
    case 2
    then obtain k subject cert where k: "k \<in> key_rows (account_keys S)" "dk_UserID k = u"
      and c: "length cert = 64" "ed25519_verify (ae_log (de_auth E)) (dk_DevicePublicKey k) subject cert"
        "K = subject \<or> K = dk_DevicePublicKey k"
      using r(3) by (auto simp: certified_row_def)
    have "endorsed E (keys_of v S) (dk_DevicePublicKey k)"
      by (rule endorsed.root) (use k 2 in \<open>auto simp: keys_of_def\<close>)
    with c show ?thesis by (auto intro: endorsed.signed)
  qed (rule endorsed.root)
  show "v \<noteq> u \<Longrightarrow> K \<in> keys_of v S"
    using old r(2,3) by (auto simp: keys_of_def certified_row_def)
qed

text \<open>C25. Whatever requests are made to the device endpoints, by anyone: every key that an account
  has afterwards is the end of a chain of Ed25519 signatures that starts at a key the account had
  before, and an account that made none of the requests has no new key.\<close>

theorem device_keys_endorsed:
  assumes "serve_devices E rs S = (as, S')" and "K \<in> keys_of v S'"
  shows "endorsed E (keys_of v S) K \<and> (v \<notin> (\<lambda>(t, u, q). u) ` set rs \<longrightarrow> K \<in> keys_of v S)"
  using assms
proof (induction rs arbitrary: S as)
  case Nil
  then show ?case by (auto intro: endorsed.root)
next
  case (Cons r rs)
  obtain now u req where q: "r = (now, u, req)" by (metis surj_pair)
  obtain a S1 where S1: "DeviceRoutes E now u req S = (a, S1)" by (metis surj_pair)
  obtain bs where rest: "serve_devices E rs S1 = (bs, S')"
    using Cons.prems(1) q S1 by (auto split: prod.splits)
  note IH = Cons.IH [OF rest Cons.prems(2)]
  have "endorsed E (keys_of v S) K"
    by (rule endorsed_trans [OF IH [THEN conjunct1]]) (rule request_endorsed(1) [OF S1])
  moreover have "v \<notin> (\<lambda>(t, u, q). u) ` set (r # rs) \<longrightarrow> K \<in> keys_of v S"
    using IH request_endorsed(2) [OF S1] q by auto
  ultimately show ?case ..
qed

section \<open>A link request is claimed once\<close>

definition claimable_name :: "device_env \<Rightarrow> string \<Rightarrow> bool" where
  "claimable_name E n \<longleftrightarrow> (\<exists>i k. n = linkRequestNonce i k) \<or> (\<exists>c. n = linkCodeNonce E c)"

text \<open>No record that can be claimed is new.\<close>

definition no_new :: "device_env \<Rightarrow> auth_state \<Rightarrow> auth_state \<Rightarrow> bool" where
  "no_new E s s' \<longleftrightarrow> (answering s \<longrightarrow> answering s' \<and>
     (\<forall>n v. claimable_name E n \<longrightarrow> waiting s' n = Some v \<longrightarrow> waiting s n = Some v))"

lemma not_claimable: "\<not> claimable_name E (linkClaimNonce t)" "\<not> claimable_name E (linkResultNonce i k)"
  by (auto simp: claimable_name_def)

lemma no_new_refl: "no_new E s s"
  by (simp add: no_new_def)

lemma no_new_trans: "no_new E s s1 \<Longrightarrow> no_new E s1 s2 \<Longrightarrow> no_new E s s2"
  by (auto simp: no_new_def)

lemma no_new_consume: "run_db (ConsumeAuthNonce now n) s = (r, s') \<Longrightarrow> no_new E s s'"
proof -
  assume "run_db (ConsumeAuthNonce now n) s = (r, s')"
  then obtain d where d: "ConsumeAuthNonce now n (adb s) = (r, d)" "s' = s\<lparr>adb := d\<rparr>"
    by (auto simp: run_db_def split: prod.splits)
  have f: "db_faults (adb s) = [] \<Longrightarrow> db_faults d = []"
    using d(1) by (auto simp: ConsumeAuthNonce_def db_query_def Let_def split: option.splits)
  show ?thesis
    using d f by (cases r) (auto simp: no_new_def answering_def waiting_def
        dest: nonce_table.con_Inr nonce_table.con_Inl split: if_splits)
qed

lemma no_new_insert:
  assumes "run_db (InsertAuthNonce n b t) s = (r, s')" and "\<not> claimable_name E n"
  shows "no_new E s s'"
proof -
  obtain d where d: "InsertAuthNonce n b t (adb s) = (r, d)" "s' = s\<lparr>adb := d\<rparr>"
    using assms(1) by (auto simp: run_db_def split: prod.splits)
  have f: "db_faults (adb s) = [] \<Longrightarrow> db_faults d = []"
    using d(1) by (auto simp: InsertAuthNonce_def db_query_def split: if_splits)
  show ?thesis
    using d f assms(2) by (cases r) (auto simp: no_new_def answering_def waiting_def
        dest: nonce_table.ins_Inr nonce_table.ins_Inl split: if_splits)
qed

lemma no_new_delete: "no_new E s (snd (run_db (DeleteAuthNonce n) s))"
  by (auto simp: no_new_def delete_waiting split: if_splits)

lemma no_new_label: "no_new E s (register_label now u dev l s)"
  by (auto simp: no_new_def label_waiting)

lemma no_new_log: "no_new E s (log_device_event E' now op k subj u s)"
  by (auto simp: no_new_def answering_def waiting_def)

text \<open>Queries on the other tables.\<close>

lemma no_new_other:
  assumes "\<And>d r d'. q d = (r, d') \<Longrightarrow> auth_nonces d' = auth_nonces d \<and> (db_faults d = [] \<longrightarrow> db_faults d' = [])"
    and "run_db q s = (r, s')"
  shows "no_new E s s'"
  using assms by (auto simp: no_new_def answering_def waiting_def pending_nonce_def nonces_ok_def run_db_def split: prod.splits)

lemma no_new_keys:
  "run_db (ListDeviceKeys u) s = (r1, s') \<Longrightarrow> no_new E s s'"
  "run_db (RevokeDeviceKey u dev) s = (r2, s') \<Longrightarrow> no_new E s s'"
  "run_db (RevokeAllDeviceKeys u) s = (r3, s') \<Longrightarrow> no_new E s s'"
  "run_db (InsertDeviceKey now u dev l pub cert) s = (r4, s') \<Longrightarrow> no_new E s s'"
  by (erule no_new_other [rotated],
      auto simp: ListDeviceKeys_def RevokeDeviceKey_def RevokeAllDeviceKeys_def InsertDeviceKey_def db_query_def
        split: prod.splits bool.splits if_splits)+

lemma no_new_find: "findDevicePublicKey u dev s = (r, s') \<Longrightarrow> no_new E s s'"
  by (auto simp: findDevicePublicKey_def split: prod.splits sum.splits dest: no_new_keys)

text \<open>What every request but the opening of a link does to the records, and what a claim takes.\<close>

lemmas no_new_steps = no_new_consume [THEN no_new_trans [rotated]] no_new_find [THEN no_new_trans [rotated]]
  no_new_keys [THEN no_new_trans [rotated]]

lemmas no_new_frames = no_new_refl no_new_trans [OF _ no_new_delete] no_new_trans [OF _ no_new_label]
  no_new_trans [OF _ no_new_log] not_claimable

lemma no_new_accounts:
  "ends (no_new E s) (listDevices u s)" "ends (no_new E s) (certifyDevice E' now u cb s)"
  "ends (no_new E s) (revokeAllDevices p u s)" "ends (no_new E s) (linkResolve E now t u rb s)"
  "ends (no_new E s) (linkResult now lb s)"
  "ends (\<lambda>r. no_new E s (snd r)) (linkVerify_db E'' now u req s)"
  unfolding listDevices_def certifyDevice_def revokeAllDevices_def linkResolve_def finish_claim_def linkResult_def
    linkVerify_db_def finish_link_def
  by (intro ends; (simp only: snd_conv)?;
      (assumption | rule no_new_frames | erule no_new_steps no_new_insert [THEN no_new_trans [rotated]])+)+

lemma no_new_revoke: "ends (\<lambda>p'. no_new E (accounts p) (accounts p')) (revokeDevice E' now u dev p)"
proof -
  have found: "no_new E s0 (case found of Inr (Some pub) \<Rightarrow> log_device_event E' now op k pub u' s | _ \<Rightarrow> s)"
    if "no_new E s0 s" for s0 s op k u' and found :: "db_error + bytes option"
    using that by (auto intro: no_new_frames split: sum.split option.split)
  show ?thesis
    unfolding revokeDevice_def Let_def
    by (intro ends; simp?; (assumption | rule no_new_frames found | erule no_new_steps)+)
qed

definition opens_link :: "string \<Rightarrow> device_request \<Rightarrow> bool" where
  "opens_link i req \<longleftrightarrow> (case req of DLinkRequest j k rnd b \<Rightarrow> i = j | _ \<Rightarrow> False)"

lemma no_new_request:
  assumes "DeviceRoutes E now u req S = (a, S')" and "\<And>j k rnd b. req \<noteq> DLinkRequest j k rnd b"
  shows "no_new E (account_keys S) (account_keys S')"
  using assms
  by (cases req)
     (auto simp: on_accounts_def linkVerify_def account_keys_def Let_def no_new_refl split: prod.splits if_splits option.splits
       dest: endsD [OF no_new_accounts(1)] endsD [OF no_new_accounts(2)] endsD [OF no_new_accounts(3)]
         endsD [OF no_new_accounts(4)] endsD [OF no_new_accounts(5)] endsD [OF no_new_accounts(6)] endsD [OF no_new_revoke])

lemma linkRequest_new:
  assumes a: "answering s" and r: "linkRequest E now i k rnd b s = (x, s')"
  shows "answering s'"
    and "waiting s' n = Some v \<Longrightarrow> waiting s n = Some v \<or>
      (\<exists>req. b = Some req \<and> n \<in> {linkRequestNonce i k, linkCodeNonce E (generateLinkCode rnd)} \<and>
        fst v = marshal_link_request (link_payload E now i k rnd req))"
proof -
  have "answering s' \<and> (\<forall>n v. waiting s' n = Some v \<longrightarrow> waiting s n = Some v \<or>
      (\<exists>req. b = Some req \<and> n \<in> {linkRequestNonce i k, linkCodeNonce E (generateLinkCode rnd)} \<and>
        fst v = marshal_link_request (link_payload E now i k rnd req)))"
  proof (cases "s' = s")
    case True
    then show ?thesis using a by auto
  next
    case False
    then obtain req where req: "b = Some req" using r by (auto simp: linkRequest_def split: option.splits)
    let ?b = "marshal_link_request (link_payload E now i k rnd req)" and ?t = "now + linkCodeExpiry"
    let ?n = "linkRequestNonce i k" and ?c = "linkCodeNonce E (generateLinkCode rnd)"
    have p: "sq_RequestID (link_payload E now i k rnd req) = i" "sq_Secret (link_payload E now i k rnd req) = k"
      "sq_Code (link_payload E now i k rnd req) = generateLinkCode rnd"
      by (simp_all add: link_payload_def)
    have ins: "(case run_db (InsertAuthNonce ?n ?b ?t) s of
        (Inl _, s1) \<Rightarrow> s1
      | (Inr _, s1) \<Rightarrow> (case run_db (InsertAuthNonce ?c ?b ?t) s1 of
          (Inl _, s2) \<Rightarrow> snd (run_db (DeleteAuthNonce ?n) s2) | (Inr _, s2) \<Rightarrow> s2)) = s'"
      using r False unfolding linkRequest_def req option.case Let_def p
      by (auto split: if_splits prod.splits sum.splits)
    show ?thesis
    proof (cases "waiting s ?n = None")
      case True
      obtain s1 where s1: "run_db (InsertAuthNonce ?n ?b ?t) s = (Inr (), s1)" "answering s1"
        "waiting s1 = (waiting s)(?n \<mapsto> (?b, ?t))"
        by (rule insert_waiting [OF a True])
      show ?thesis
      proof (cases "waiting s1 ?c = None")
        case True
        obtain s2 where s2: "run_db (InsertAuthNonce ?c ?b ?t) s1 = (Inr (), s2)" "answering s2"
          "waiting s2 = (waiting s1)(?c \<mapsto> (?b, ?t))"
          by (rule insert_waiting [OF s1(2) True])
        then have "s' = s2" using ins s1(1) by simp
        then show ?thesis using s1(3) s2 req by auto
      next
        case False
        then obtain e where "run_db (InsertAuthNonce ?c ?b ?t) s1 = (Inl e, s1)" by (rule insert_taken [OF s1(2)])
        then have "s' = snd (run_db (DeleteAuthNonce ?n) s1)" using ins s1(1) by simp
        then show ?thesis using delete_waiting(1,2) [OF s1(2), of ?n] s1(3) by auto
      qed
    next
      case False
      then obtain e where "run_db (InsertAuthNonce ?n ?b ?t) s = (Inl e, s)" by (rule insert_taken [OF a])
      then have "s' = s" using ins by simp
      then show ?thesis using a by auto
    qed
  qed
  then show "answering s'" and "waiting s' n = Some v \<Longrightarrow> waiting s n = Some v \<or>
      (\<exists>req. b = Some req \<and> n \<in> {linkRequestNonce i k, linkCodeNonce E (generateLinkCode rnd)} \<and>
        fst v = marshal_link_request (link_payload E now i k rnd req))"
    by blast+
qed

text \<open>The records under which a link request can be claimed, and that there are none.\<close>

definition open_for :: "device_env \<Rightarrow> string \<Rightarrow> auth_state \<Rightarrow> storedLinkRequest \<Rightarrow> bool" where
  "open_for E i s p \<longleftrightarrow> (\<forall>n b t q. claimable_name E n \<longrightarrow> waiting s n = Some (b, t) \<longrightarrow>
     decodeStoredLinkRequest b = Some q \<longrightarrow> sq_RequestID q = i \<longrightarrow>
     q = p \<and> n \<in> {linkRequestNonce i (sq_Secret p), linkCodeNonce E (sq_Code p)})"

definition closed_for :: "device_env \<Rightarrow> string \<Rightarrow> auth_state \<Rightarrow> bool" where
  "closed_for E i s \<longleftrightarrow> (\<forall>n b t q. claimable_name E n \<longrightarrow> waiting s n = Some (b, t) \<longrightarrow>
     decodeStoredLinkRequest b = Some q \<longrightarrow> sq_RequestID q \<noteq> i)"

fun claims :: "string \<Rightarrow> device_answer \<Rightarrow> bool" where
  "claims i (Done st (LinkClaimed tok p)) = (sq_RequestID p = i)"
| "claims i a = False"

text \<open>The texts of a link request are UTF-8, as Go's JSON decoder makes them.\<close>

definition encoded :: "device_env \<Rightarrow> time \<Rightarrow> device_request \<Rightarrow> bool" where
  "encoded E now req \<longleftrightarrow> (case req of
     DLinkRequest i k rnd (Some b) \<Rightarrow> list_all valid_utf8 (text_fields (link_payload E now i k rnd b))
   | _ \<Rightarrow> True)"

lemma no_new_open:
  assumes "no_new E s s'" and "answering s"
  shows "answering s'" and "open_for E i s p \<Longrightarrow> open_for E i s' p" and "closed_for E i s \<Longrightarrow> closed_for E i s'"
  using assms unfolding no_new_def open_for_def closed_for_def by blast+

lemma removed_twice: "(f(a := None, b := None)) k = Some v \<Longrightarrow> f k = Some v \<and> k \<noteq> a \<and> k \<noteq> b"
  by (auto split: if_splits)

lemma claim_closes:
  assumes a: "answering s" and r: "linkResolve E now tok u b s = (x, s')" and c: "claims i x"
  shows "\<not> closed_for E i s" and "open_for E i s p \<Longrightarrow> closed_for E i s'"
proof -
  have "u \<noteq> []" using r c by (auto simp: linkResolve_def)
  obtain req where req: "b = Some req" using r c \<open>u \<noteq> []\<close> by (cases b) (auto simp: linkResolve_def)
  obtain uc n where cl: "claimed_nonce E req = Some (uc, n)"
    using r c \<open>u \<noteq> []\<close> req by (cases "claimed_nonce E req") (auto simp: linkResolve_def)
  obtain y s1 where y: "run_db (ConsumeAuthNonce now n) s = (y, s1)" by (metis surj_pair)
  obtain pb where pb: "y = Inr pb" using r c \<open>u \<noteq> []\<close> req cl y by (cases y) (auto simp: linkResolve_def)
  have con: "run_db (ConsumeAuthNonce now n) s = (Inr pb, s1)" using y pb by simp
  have fin: "finish_claim E now tok uc pb s1 = (x, s')"
    using r \<open>u \<noteq> []\<close> req cl con by (simp add: linkResolve_def)
  obtain q where q: "decodeStoredLinkRequest pb = Some q"
    using fin c by (auto simp: finish_claim_def split: option.splits)
  let ?m = "if uc then linkRequestNonce (sq_RequestID q) (sq_Secret q) else linkCodeNonce E (sq_Code q)"
  define s2 where "s2 = snd (run_db (DeleteAuthNonce ?m) s1)"
  have ins: "run_db (InsertAuthNonce (linkClaimNonce tok) pb (now + linkCodeExpiry)) s2 = (Inr (), s')" "sq_RequestID q = i"
    using fin q c by (auto simp: finish_claim_def Let_def s2_def split: prod.splits sum.splits)
  have s1: "waiting s1 = (waiting s)(n := None)" "\<exists>t. waiting s n = Some (pb, t)" "answering s1"
  proof -
    obtain d where d: "ConsumeAuthNonce now n (adb s) = (Inr pb, d)" "s1 = s\<lparr>adb := d\<rparr>"
      using con by (auto simp: run_db_def split: prod.splits)
    then show "waiting s1 = (waiting s)(n := None)" "\<exists>t. waiting s n = Some (pb, t)"
      using nonce_table.con_Inr [OF _ d(1)] a by (auto simp: waiting_def answering_def)
    show "answering s1" using no_new_consume [OF con, of E] a by (simp add: no_new_def)
  qed
  have name: "claimable_name E n" using cl by (auto simp: claimed_nonce_def claimable_name_def split: if_splits)
  show "\<not> closed_for E i s" using name s1(2) q ins(2) by (auto simp: closed_for_def)
  assume o: "open_for E i s p"
  then have qp: "q = p" "n \<in> {linkRequestNonce i (sq_Secret p), linkCodeNonce E (sq_Code p)}"
    using name s1(2) q ins(2) by (auto simp: open_for_def)
  have both: "{n, ?m} = {linkRequestNonce i (sq_Secret p), linkCodeNonce E (sq_Code p)}"
    using cl qp ins(2) by (auto simp: claimed_nonce_def split: if_splits)
  have w2: "waiting s2 = (waiting s1)(?m := None)" "answering s2"
    unfolding s2_def by (rule delete_waiting(2) [OF s1(3)], rule delete_waiting(1) [OF s1(3)])
  have "no_new E s2 s'" by (rule no_new_insert [OF ins(1) not_claimable(1)])
  then have kept: "waiting s2 n' = Some v" if "claimable_name E n'" "waiting s' n' = Some v" for n' v
    using that w2(2) unfolding no_new_def by blast
  have w: "waiting s n' = Some v \<and> n' \<noteq> n \<and> n' \<noteq> ?m" if "claimable_name E n'" "waiting s' n' = Some v" for n' v
    using kept [OF that] unfolding w2(1) s1(1) by (rule removed_twice)
  show "closed_for E i s'"
    unfolding closed_for_def
  proof (intro allI impI notI)
    fix n' b' t' q'
    assume n': "claimable_name E n'" "waiting s' n' = Some (b', t')" "decodeStoredLinkRequest b' = Some q'" "sq_RequestID q' = i"
    then have "n' \<in> {n, ?m}" using w [OF n'(1,2)] o both by (auto simp: open_for_def)
    then show False using w [OF n'(1,2)] by blast
  qed
qed

lemma linkRequest_opening:
  assumes a: "answering s" and r: "linkRequest E now j k rnd b s = (x, s')" and e: "encoded E now (DLinkRequest j k rnd b)"
  shows "j \<noteq> i \<Longrightarrow> open_for E i s p \<Longrightarrow> open_for E i s' p" and "j \<noteq> i \<Longrightarrow> closed_for E i s \<Longrightarrow> closed_for E i s'"
    and "closed_for E j s \<Longrightarrow> \<exists>p. open_for E j s' p"
proof -
  have new: "waiting s n = Some (c, t) \<or> (\<exists>req. b = Some req \<and> q = link_payload E now j k rnd req \<and>
      n \<in> {linkRequestNonce j k, linkCodeNonce E (generateLinkCode rnd)})"
    if "waiting s' n = Some (c, t)" "decodeStoredLinkRequest c = Some q" for n c t q
    using linkRequest_new(2) [OF a r that(1)] that(2) e
    by (auto simp: encoded_def decode_marshal_request)
  have i: "sq_RequestID (link_payload E now j k rnd req) = j" "sq_Secret (link_payload E now j k rnd req) = k"
    "sq_Code (link_payload E now j k rnd req) = generateLinkCode rnd" for req
    by (simp_all add: link_payload_def)
  have old: "waiting s n = Some (c, t)"
    if "waiting s' n = Some (c, t)" "decodeStoredLinkRequest c = Some q" "sq_RequestID q \<noteq> j" for n c t q
    using new [OF that(1,2)] that(3) i by blast
  show "j \<noteq> i \<Longrightarrow> open_for E i s p \<Longrightarrow> open_for E i s' p" unfolding open_for_def by (metis old)
  show "j \<noteq> i \<Longrightarrow> closed_for E i s \<Longrightarrow> closed_for E i s'" unfolding closed_for_def by (metis old)
  assume cl: "closed_for E j s"
  show "\<exists>p. open_for E j s' p"
  proof (cases b)
    case None
    then have "s' = s" using r by (simp add: linkRequest_def)
    then show ?thesis using cl by (auto simp: open_for_def closed_for_def)
  next
    case (Some req)
    have "open_for E j s' (link_payload E now j k rnd req)"
      unfolding open_for_def i using new cl Some unfolding closed_for_def by blast
    then show ?thesis ..
  qed
qed

text \<open>One request, from an open or a closed state.\<close>

lemma request_claims:
  assumes r: "DeviceRoutes E now u req S = (a, S')" and s: "answering (account_keys S)" and e: "encoded E now req"
  shows "answering (account_keys S')"
    and "\<not> opens_link i req \<Longrightarrow> closed_for E i (account_keys S) \<Longrightarrow> closed_for E i (account_keys S') \<and> \<not> claims i a"
    and "\<not> opens_link i req \<Longrightarrow> open_for E i (account_keys S) p \<Longrightarrow>
      open_for E i (account_keys S') p \<and> (claims i a \<longrightarrow> closed_for E i (account_keys S'))"
    and "opens_link i req \<Longrightarrow> closed_for E i (account_keys S) \<Longrightarrow> (\<exists>p. open_for E i (account_keys S') p) \<and> \<not> claims i a"
proof -
  consider (opened) j k rnd b where "req = DLinkRequest j k rnd b" | (claim) t b where "req = DLinkResolve t b"
    | (other) "\<And>j k rnd b. req \<noteq> DLinkRequest j k rnd b" "\<And>t b. req \<noteq> DLinkResolve t b"
    by (cases req) auto
  then have "answering (account_keys S') \<and>
    (\<not> opens_link i req \<longrightarrow> closed_for E i (account_keys S) \<longrightarrow> closed_for E i (account_keys S') \<and> \<not> claims i a) \<and>
    (\<not> opens_link i req \<longrightarrow> open_for E i (account_keys S) p \<longrightarrow>
      open_for E i (account_keys S') p \<and> (claims i a \<longrightarrow> closed_for E i (account_keys S'))) \<and>
    (opens_link i req \<longrightarrow> closed_for E i (account_keys S) \<longrightarrow> (\<exists>p. open_for E i (account_keys S') p) \<and> \<not> claims i a)"
  proof cases
    case opened
    then have l: "linkRequest E now j k rnd b (account_keys S) = (a, account_keys S')"
      using r by (auto simp: on_accounts_def account_keys_def split: prod.splits)
    have "\<not> claims i a"
      using l by (auto simp: linkRequest_def Let_def split: option.splits if_splits prod.splits sum.splits)
    then show ?thesis
      using linkRequest_new(1) [OF s l] linkRequest_opening [OF s l e [unfolded opened]] opened by (auto simp: opens_link_def)
  next
    case claim
    then have l: "linkResolve E now t u b (account_keys S) = (a, account_keys S')"
      using r by (auto simp: on_accounts_def account_keys_def split: prod.splits)
    have n: "no_new E (account_keys S) (account_keys S')" by (rule endsD [OF no_new_accounts(4) l])
    then show ?thesis
      using no_new_open [OF n s] claim_closes [OF s l] claim by (auto simp: opens_link_def)
  next
    case other
    then have n: "no_new E (account_keys S) (account_keys S')" by (intro no_new_request [OF r])
    moreover have "\<not> claims i a"
      using r other by (cases req) (auto simp: on_accounts_def listDevices_def certifyDevice_def revokeAllDevices_def
          revokeDevice_def linkVerify_def linkVerify_db_def finish_link_def linkResult_def Let_def
          split: prod.splits sum.splits option.splits if_splits bool.splits)
    moreover have "\<not> opens_link i req"
      using other(1) by (auto simp: opens_link_def split: device_request.splits)
    ultimately show ?thesis using no_new_open [OF n s] by blast
  qed
  then show "answering (account_keys S')"
    and "\<not> opens_link i req \<Longrightarrow> closed_for E i (account_keys S) \<Longrightarrow> closed_for E i (account_keys S') \<and> \<not> claims i a"
    and "\<not> opens_link i req \<Longrightarrow> open_for E i (account_keys S) p \<Longrightarrow>
      open_for E i (account_keys S') p \<and> (claims i a \<longrightarrow> closed_for E i (account_keys S'))"
    and "opens_link i req \<Longrightarrow> closed_for E i (account_keys S) \<Longrightarrow> (\<exists>p. open_for E i (account_keys S') p) \<and> \<not> claims i a"
    by blast+
qed

definition opens_in :: "string \<Rightarrow> (time \<times> string \<times> device_request) list \<Rightarrow> nat" where
  "opens_in i rs = length (filter (\<lambda>(now, u, req). opens_link i req) rs)"

lemma claims_bound:
  assumes "serve_devices E rs S = (as, S')" and "answering (account_keys S)"
    and "\<forall>(now, u, req) \<in> set rs. encoded E now req"
  shows "closed_for E i (account_keys S) \<Longrightarrow> opens_in i rs = 0 \<Longrightarrow> length (filter (claims i) as) = 0"
    and "open_for E i (account_keys S) p \<Longrightarrow> opens_in i rs = 0 \<Longrightarrow> length (filter (claims i) as) \<le> 1"
    and "closed_for E i (account_keys S) \<Longrightarrow> opens_in i rs \<le> 1 \<Longrightarrow> length (filter (claims i) as) \<le> 1"
proof -
  have "(closed_for E i (account_keys S) \<longrightarrow> opens_in i rs = 0 \<longrightarrow> length (filter (claims i) as) = 0) \<and>
    (\<forall>p. open_for E i (account_keys S) p \<longrightarrow> opens_in i rs = 0 \<longrightarrow> length (filter (claims i) as) \<le> 1) \<and>
    (closed_for E i (account_keys S) \<longrightarrow> opens_in i rs \<le> 1 \<longrightarrow> length (filter (claims i) as) \<le> 1)"
    using assms
  proof (induction rs arbitrary: S as)
    case Nil
    then show ?case by simp
  next
    case (Cons r rs)
    obtain now u req where q: "r = (now, u, req)" by (metis surj_pair)
    obtain a S1 where S1: "DeviceRoutes E now u req S = (a, S1)" by (metis surj_pair)
    obtain bs where rest: "serve_devices E rs S1 = (bs, S')" and as: "as = a # bs"
      using Cons.prems(1) q S1 by (auto split: prod.splits)
    have e: "encoded E now req" "\<forall>(now, u, req) \<in> set rs. encoded E now req" using Cons.prems(3) q by auto
    note step = request_claims [OF S1 Cons.prems(2) e(1)]
    note IH = Cons.IH [OF rest step(1) e(2)]
    have o: "opens_in i (r # rs) = (if opens_link i req then 1 else 0) + opens_in i rs"
      by (simp add: q opens_in_def)
    show ?case
    proof (cases "opens_link i req")
      case True
      then show ?thesis using step(4) [of i] IH by (auto simp: o as)
    next
      case False
      have one: "length (filter (claims i) as) \<le> 1" if p: "open_for E i (account_keys S) p" and "opens_in i rs = 0" for p
      proof -
        have "open_for E i (account_keys S1) p \<and> (claims i a \<longrightarrow> closed_for E i (account_keys S1))"
          by (rule step(3) [OF False p])
        then show ?thesis using IH \<open>opens_in i rs = 0\<close> by (cases "claims i a") (auto simp: as)
      qed
      have two: "closed_for E i (account_keys S) \<Longrightarrow> closed_for E i (account_keys S1) \<and> \<not> claims i a"
        by (rule step(2) [OF False])
      show ?thesis using IH one two False by (auto simp: o as)
    qed
  qed
  then show "closed_for E i (account_keys S) \<Longrightarrow> opens_in i rs = 0 \<Longrightarrow> length (filter (claims i) as) = 0"
    and "open_for E i (account_keys S) p \<Longrightarrow> opens_in i rs = 0 \<Longrightarrow> length (filter (claims i) as) \<le> 1"
    and "closed_for E i (account_keys S) \<Longrightarrow> opens_in i rs \<le> 1 \<Longrightarrow> length (filter (claims i) as) \<le> 1"
    by blast+
qed

text \<open>C24. While the database answers, a link request is claimed at most once, by its code or by its
  handle, whoever asks how often and whatever other requests come in between: the first scan wins.
  The identifier of the request is fresh, and the texts in requests are UTF-8.\<close>

theorem link_claimed_once:
  assumes "serve_devices E rs S = (as, S')" and "answering (account_keys S)"
    and "\<forall>(now, u, req) \<in> set rs. encoded E now req"
    and "closed_for E i (account_keys S)" and "opens_in i rs \<le> 1"
  shows "length (filter (claims i) as) \<le> 1"
  by (rule claims_bound(3) [OF assms(1-5)])

text \<open>The two records of a link request are consumed by separate queries. When two devices, of any two
  accounts, scan it at the same time, one by the code and one by the handle, so that both have consumed
  their record before either deletes the other's, both claims succeed.\<close>

theorem link_claim_race:
  assumes "answering s" and "decodeStoredLinkRequest b = Some p"
    and "waiting s (linkRequestNonce (sq_RequestID p) (sq_Secret p)) = Some (b, t)"
    and "waiting s (linkCodeNonce E (sq_Code p)) = Some (b, t)" and "now < t"
    and "waiting s (linkClaimNonce tok) = None" and "waiting s (linkClaimNonce tok') = None" and "tok \<noteq> tok'"
  shows "\<exists>s1 s2 s3 s4.
    run_db (ConsumeAuthNonce now (linkCodeNonce E (sq_Code p))) s = (Inr b, s1) \<and>
    run_db (ConsumeAuthNonce now (linkRequestNonce (sq_RequestID p) (sq_Secret p))) s1 = (Inr b, s2) \<and>
    finish_claim E now tok True b s2 = (Done 200 (LinkClaimed tok p), s3) \<and>
    finish_claim E now tok' False b s3 = (Done 200 (LinkClaimed tok' p), s4)"
proof -
  let ?r = "linkRequestNonce (sq_RequestID p) (sq_Secret p)" and ?c = "linkCodeNonce E (sq_Code p)"
  obtain s1 where s1: "run_db (ConsumeAuthNonce now ?c) s = (Inr b, s1)" "answering s1" "waiting s1 = (waiting s)(?c := None)"
    by (rule consume_waiting [OF assms(1,4,5)])
  have "waiting s1 ?r = Some (b, t)" using s1(3) assms(3) by simp
  then obtain s2 where s2: "run_db (ConsumeAuthNonce now ?r) s1 = (Inr b, s2)" "answering s2" "waiting s2 = (waiting s1)(?r := None)"
    by (rule consume_waiting [OF s1(2) _ assms(5)])
  have finish: "\<exists>s''. finish_claim E now k uc b s' = (Done 200 (LinkClaimed k p), s'') \<and> answering s'' \<and>
      (\<forall>k'. k' \<noteq> k \<longrightarrow> waiting s'' (linkClaimNonce k') = waiting s' (linkClaimNonce k'))"
    if a: "answering s'" and w: "waiting s' (linkClaimNonce k) = None" for s' k uc
  proof -
    let ?m = "if uc then ?r else ?c"
    note del = delete_waiting [OF a, of ?m]
    have "waiting (snd (run_db (DeleteAuthNonce ?m) s')) (linkClaimNonce k) = None" using w by (simp add: del(2))
    then obtain s'' where s'': "run_db (InsertAuthNonce (linkClaimNonce k) b (now + linkCodeExpiry))
        (snd (run_db (DeleteAuthNonce ?m) s')) = (Inr (), s'')" "answering s''"
      "waiting s'' = (waiting (snd (run_db (DeleteAuthNonce ?m) s')))(linkClaimNonce k \<mapsto> (b, now + linkCodeExpiry))"
      by (rule insert_waiting [OF del(1)])
    have "linkClaimNonce k' \<noteq> linkClaimNonce k \<longleftrightarrow> k' \<noteq> k" for k' by (simp add: linkClaimNonce_def)
    then have "\<forall>k'. k' \<noteq> k \<longrightarrow> waiting s'' (linkClaimNonce k') = waiting s' (linkClaimNonce k')"
      by (simp add: s''(3) del(2))
    moreover have "finish_claim E now k uc b s' = (Done 200 (LinkClaimed k p), s'')"
      using s''(1) assms(2) by (simp add: finish_claim_def Let_def)
    ultimately show ?thesis using s''(2) by blast
  qed
  have "waiting s2 (linkClaimNonce tok) = None" using assms(6) s1(3) s2(3) by simp
  then obtain s3 where s3: "finish_claim E now tok True b s2 = (Done 200 (LinkClaimed tok p), s3)" "answering s3"
    "\<forall>k'. k' \<noteq> tok \<longrightarrow> waiting s3 (linkClaimNonce k') = waiting s2 (linkClaimNonce k')"
    using finish [OF s2(2)] by blast
  have "waiting s3 (linkClaimNonce tok') = None" using s3(3) assms(7,8) s1(3) s2(3) by simp
  then show ?thesis using finish [OF s3(2)] s1(1) s2(1) s3(1) by blast
qed

section \<open>A linking reaches its end\<close>

text \<open>The four requests on the account store: each leaves what the next one looks for.\<close>

lemma link_steps:
  assumes db: "answering (s)" and user: "u \<noteq> []" "sql_exists (\<lambda>x. u_ID x = u) (users (adb (s)))"
    and lr: "decode_key 32 (lk_DevicePublicKey lr) = Some key" "DecodeString StdEncoding (lk_SessionPublicKey lr) = Some sb"
      "sb \<noteq> []" "TrimSpace (lk_DeviceID lr) \<noteq> []"
    and p: "p = link_payload E t0 i k rnd lr" "list_all valid_utf8 (text_fields p)" "TrimSpace i \<noteq> []" "TrimSpace k \<noteq> []"
    and fresh: "waiting (s) (linkRequestNonce i k) = None" "waiting (s) (linkCodeNonce E (sq_Code p)) = None"
      "waiting (s) (linkClaimNonce tok) = None" "waiting (s) (linkResultNonce i k) = None"
    and cl: "claimed_nonce E rr = Some (True, linkCodeNonce E (sq_Code p)) \<or> claimed_nonce E rr = Some (False, linkRequestNonce i k)"
    and ap: "approves E u p ar (device_keys (adb (s))) pub cert" "ap_ClaimToken ar = tok"
      "list_all valid_utf8 (relay_fields (relayed ar p))"
    and time: "t1 < t0 + linkCodeExpiry" "t2 < t1 + linkCodeExpiry" "t3 < t2 + linkCodeExpiry"
  shows "\<exists>exp s1 s2 s3 s4.
    linkRequest E t0 i k rnd (Some lr) s = (Done 200 (LinkCreated i k (sq_Code p) exp), s1) \<and>
    linkResolve E t1 tok u (Some rr) s1 = (Done 200 (LinkClaimed tok p), s2) \<and>
    linkVerify_db E t2 u ar s2 = (Done 201 Ok, True, s3) \<and>
    linkResult t3 (Some (i, k)) s3 = (Done 200 (LinkDone (relayed ar p)), s4) \<and>
    answering s4 \<and> waiting s4 (linkResultNonce i k) = None \<and>
    (\<exists>r \<in> key_rows s4. dk_is u (sq_DeviceID p) r \<and> dk_DevicePublicKey r = pub \<and> dk_Certificate r = Some cert)"
proof -
  let ?b = "marshal_link_request p"
  have pf: "sq_RequestID p = i" "sq_Secret p = k" "sq_Code p = generateLinkCode rnd" by (simp_all add: p(1) link_payload_def)
  obtain s1 where s1: "linkRequest E t0 i k rnd (Some lr) s =
      (Done 200 (LinkCreated i k (sq_Code p) (Format_RFC3339 E (t0 + linkCodeExpiry))), s1)"
    "answering s1" "device_keys (adb s1) = device_keys (adb s)" "users (adb s1) = users (adb s)"
    "waiting s1 = (waiting s)(linkRequestNonce i k \<mapsto> (?b, t0 + linkCodeExpiry), linkCodeNonce E (sq_Code p) \<mapsto> (?b, t0 + linkCodeExpiry))"
    using linkRequest_opens [OF db lr fresh(1) fresh(2) [unfolded pf], where now = t0] unfolding pf p(1) [symmetric] by blast
  obtain c n where cn: "claimed_nonce E rr = Some (c, n)" "n = (if c then linkCodeNonce E (sq_Code p) else linkRequestNonce i k)"
  proof (cases "claimed_nonce E rr = Some (True, linkCodeNonce E (sq_Code p))")
    case True
    then show thesis using that by simp
  next
    case False
    then show thesis using cl that [of False "linkRequestNonce i k"] by simp
  qed
  have w1: "waiting s1 n = Some (?b, t0 + linkCodeExpiry)" "waiting s1 (linkClaimNonce tok) = None"
    using cn(2) fresh(3) s1(5) by auto
  obtain s2 where s2: "linkResolve E t1 tok u (Some rr) s1 = (Done 200 (LinkClaimed tok p), s2)" "answering s2"
    "device_keys (adb s2) = device_keys (adb s1)" "users (adb s2) = users (adb s1)"
    "waiting s2 = (waiting s1)(linkRequestNonce i k := None, linkCodeNonce E (sq_Code p) := None,
       linkClaimNonce tok \<mapsto> (?b, t1 + linkCodeExpiry))"
    using linkResolve_claims [OF s1(2) user(1) cn(1) w1(1) time(1) decode_marshal_request [OF p(2)] w1(2)] cn(2)
    unfolding pf by blast
  have w2: "waiting s2 (linkClaimNonce (ap_ClaimToken ar)) = Some (?b, t1 + linkCodeExpiry)"
    "waiting s2 (linkResultNonce (sq_RequestID p) (sq_Secret p)) = None"
    using ap(2) fresh(4) s1(5) s2(5) pf by auto
  have u2: "sql_exists (\<lambda>x. u_ID x = u) (users (adb s2))" "approves E u p ar (device_keys (adb s2)) pub cert"
    using user(2) ap(1) s1(3,4) s2(3,4) by simp_all
  obtain s3 where s3: "linkVerify_db E t2 u ar s2 = (Done 201 Ok, True, s3)" "answering s3"
    "waiting s3 (linkResultNonce i k) = Some (marshal_link_result (relayed ar p), t2 + linkCodeExpiry)"
    "\<exists>r \<in> set (device_keys (adb s3)). dk_is u (sq_DeviceID p) r \<and> dk_DevicePublicKey r = pub \<and> dk_Certificate r = Some cert"
    using linkVerify_registers [OF s2(2) u2(2) w2(1) time(2) decode_marshal_request [OF p(2)] w2(2) u2(1)]
    unfolding pf by blast
  obtain s4 where s4: "linkResult t3 (Some (i, k)) s3 = (Done 200 (LinkDone (relayed ar p)), s4)" "answering s4"
    "waiting s4 = (waiting s3)(linkResultNonce i k := None)" "device_keys (adb s4) = device_keys (adb s3)"
    using linkResult_answers(1) [OF s3(2) p(3,4) s3(3) time(3) decode_marshal_result [OF ap(3)]] by blast
  have "waiting s4 (linkResultNonce i k) = None" "key_rows s4 = key_rows s3" using s4(3,4) by (simp_all add: key_rows_def)
  with s1(1) s2(1) s3(1,4) s4(1,2) show ?thesis by (auto simp: key_rows_def)
qed

text \<open>C23. A link request that is claimed, by its code or its handle, and approved in time with a valid
  certificate hands the new device exactly the sealed payload that the approving device sent, once, and
  registers the device for the account of the approver; the time limits are five minutes for each step.\<close>

theorem link_transfer:
  assumes db: "answering (account_keys S)" and user: "u \<noteq> []" "sql_exists (\<lambda>x. u_ID x = u) (users (adb (account_keys S)))"
    and lr: "decode_key 32 (lk_DevicePublicKey lr) = Some key" "DecodeString StdEncoding (lk_SessionPublicKey lr) = Some sb"
      "sb \<noteq> []" "TrimSpace (lk_DeviceID lr) \<noteq> []"
    and p: "p = link_payload E t0 i k rnd lr" "list_all valid_utf8 (text_fields p)" "TrimSpace i \<noteq> []" "TrimSpace k \<noteq> []"
    and fresh: "waiting (account_keys S) (linkRequestNonce i k) = None" "waiting (account_keys S) (linkCodeNonce E (sq_Code p)) = None"
      "waiting (account_keys S) (linkClaimNonce tok) = None" "waiting (account_keys S) (linkResultNonce i k) = None"
    and cl: "claimed_nonce E rr = Some (True, linkCodeNonce E (sq_Code p)) \<or> claimed_nonce E rr = Some (False, linkRequestNonce i k)"
    and ap: "approves E u p ar (device_keys (adb (account_keys S))) pub cert" "ap_ClaimToken ar = tok"
      "list_all valid_utf8 (relay_fields (relayed ar p))"
    and time: "t1 < t0 + linkCodeExpiry" "t2 < t1 + linkCodeExpiry" "t3 < t2 + linkCodeExpiry"
  shows "\<exists>exp S1 S2 S3 S4.
    DeviceRoutes E t0 v (DLinkRequest i k rnd (Some lr)) S = (Done 200 (LinkCreated i k (sq_Code p) exp), S1) \<and>
    DeviceRoutes E t1 u (DLinkResolve tok (Some rr)) S1 = (Done 200 (LinkClaimed tok p), S2) \<and>
    DeviceRoutes E t2 u (DLinkVerify (Some ar)) S2 = (Done 201 Ok, S3) \<and>
    DeviceRoutes E t3 w (DLinkResult (Some (i, k))) S3 = (Done 200 (LinkDone (relayed ar p)), S4) \<and>
    (\<exists>r \<in> key_rows (account_keys S4). dk_is u (sq_DeviceID p) r \<and> dk_DevicePublicKey r = pub \<and> dk_Certificate r = Some cert) \<and>
    (\<forall>t x. fst (DeviceRoutes E t x (DLinkResult (Some (i, k))) S4) = Done 202 LinkPending)"
proof -
  obtain exp s1 s2 s3 s4 where st:
    "linkRequest E t0 i k rnd (Some lr) (account_keys S) = (Done 200 (LinkCreated i k (sq_Code p) exp), s1)"
    "linkResolve E t1 tok u (Some rr) s1 = (Done 200 (LinkClaimed tok p), s2)"
    "linkVerify_db E t2 u ar s2 = (Done 201 Ok, True, s3)"
    "linkResult t3 (Some (i, k)) s3 = (Done 200 (LinkDone (relayed ar p)), s4)"
    "answering s4" "waiting s4 (linkResultNonce i k) = None"
    "\<exists>r \<in> key_rows s4. dk_is u (sq_DeviceID p) r \<and> dk_DevicePublicKey r = pub \<and> dk_Certificate r = Some cert"
    using link_steps [OF assms] by blast
  let ?S1 = "S\<lparr>dapp := (dapp S)\<lparr>accounts := s1\<rparr>\<rparr>"
  let ?S2 = "?S1\<lparr>dapp := (dapp ?S1)\<lparr>accounts := s2\<rparr>\<rparr>"
  let ?S3 = "note_approval t2 (ap_SigningDeviceID ar) (?S2\<lparr>dapp := (dapp ?S2)\<lparr>accounts := s3\<rparr>\<rparr>)"
  let ?S4 = "?S3\<lparr>dapp := (dapp ?S3)\<lparr>accounts := s4\<rparr>\<rparr>"
  have r1: "DeviceRoutes E t0 v (DLinkRequest i k rnd (Some lr)) S =
      (Done 200 (LinkCreated i k (sq_Code p) exp), ?S1)"
    using st(1) by (simp add: on_accounts_def account_keys_def)
  have r2: "DeviceRoutes E t1 u (DLinkResolve tok (Some rr)) ?S1 = (Done 200 (LinkClaimed tok p), ?S2)"
    using st(2) by (simp add: on_accounts_def)
  have r3: "DeviceRoutes E t2 u (DLinkVerify (Some ar)) ?S2 = (Done 201 Ok, ?S3)"
    using st(3) user(1) ap(1) by (simp add: linkVerify_def approves_def Let_def)
  have r4: "DeviceRoutes E t3 w (DLinkResult (Some (i, k))) ?S3 = (Done 200 (LinkDone (relayed ar p)), ?S4)"
    using st(4) by (simp add: on_accounts_def)
  have k4: "account_keys ?S4 = s4" by (simp add: account_keys_def)
  have r5: "\<forall>t x. fst (DeviceRoutes E t x (DLinkResult (Some (i, k))) ?S4) = Done 202 LinkPending"
    using linkResult_answers(2) [OF st(5) p(3,4) st(6)] by (simp add: on_accounts_def split: prod.splits) (metis fst_conv)
  have "\<exists>r \<in> key_rows (account_keys ?S4). dk_is u (sq_DeviceID p) r \<and> dk_DevicePublicKey r = pub \<and> dk_Certificate r = Some cert"
    unfolding k4 by (rule st(7))
  then show ?thesis using r1 r2 r3 r4 r5 by blast
qed

section \<open>Witnesses\<close>

definition toy_device :: device_env where
  "toy_device = \<lparr>de_auth = toy_auth, ToUpper = (\<lambda>s. s), Format_RFC3339 = (\<lambda>t. ''t'')\<rparr>"

definition toy_key :: DeviceKey where
  "toy_key = \<lparr>dk_UserID = ''u1'', dk_DeviceID = ''d0'', dk_DevicePublicKey = replicate 32 9, dk_Certificate = None,
     dk_CertifiedAt = 0, dk_LastSeen = None, dk_Label = None\<rparr>"

definition toy_accounts :: auth_state where
  "toy_accounts = \<lparr>adb = empty_auth_db\<lparr>users := [toy_user], device_keys := [toy_key]\<rparr>, tlog = None, notices = []\<rparr>"

definition toy_devices :: device_state where
  "toy_devices = \<lparr>dapp = toy_app\<lparr>accounts := toy_accounts\<rparr>, approvals = (\<lambda>d. []), approval_warnings = []\<rparr>"

definition toy_cert :: bytes where
  "toy_cert = replicate 32 1 @ replicate 32 0"

definition toy_certify :: certify_request where
  "toy_certify = \<lparr>cf_DevicePublicKey = EncodeToString StdEncoding (replicate 32 1),
     cf_Certificate = EncodeToString StdEncoding toy_cert, cf_DeviceID = ''d1'', cf_Label = [], cf_SigningDeviceID = ''d0''\<rparr>"

definition toy_link :: link_request where
  "toy_link = \<lparr>lk_DevicePublicKey = EncodeToString StdEncoding (replicate 32 1),
     lk_SessionPublicKey = EncodeToString StdEncoding [1], lk_DeviceID = ''d1'', lk_Label = [], lk_InstanceURL = []\<rparr>"

definition toy_payload :: storedLinkRequest where
  "toy_payload = link_payload toy_device 0 ''i'' ''k'' (replicate 8 0) toy_link"

definition toy_scan :: resolve_request where
  "toy_scan = \<lparr>rs_RequestID = ''i'', rs_Secret = ''k'', rs_Code = []\<rparr>"

definition toy_approval :: approve_request where
  "toy_approval = \<lparr>ap_ClaimToken = ''c'', ap_Certificate = EncodeToString StdEncoding toy_cert, ap_SigningDeviceID = ''d0'',
     ap_RelayCiphertext = ''x'', ap_RelayIV = ''y'', ap_RelayPublicKey = ''z''\<rparr>"

lemma toy_trim: "TrimSpace ''d1'' = ''d1''" "TrimSpace ''i'' = ''i''" "TrimSpace ''k'' = ''k''" "TrimSpace ''AAAAAAAA'' = ''AAAAAAAA''"
  by (simp_all add: TrimSpace_id visible_def)

lemma toy_code: "generateLinkCode (replicate 8 0) = ''AAAAAAAA''"
  by code_simp

lemma toy_payload_fields:
  "sq_RequestID toy_payload = ''i''" "sq_Secret toy_payload = ''k''" "sq_Code toy_payload = ''AAAAAAAA''"
  "sq_DeviceID toy_payload = ''d1''" "sq_DevicePublicKey toy_payload = EncodeToString StdEncoding (replicate 32 1)"
  "sq_SessionPublicKey toy_payload = EncodeToString StdEncoding [1]" "sq_Label toy_payload = []"
  "sq_InstanceURL toy_payload = []" "sq_ExpiresAt toy_payload = ''t''"
  by (simp_all add: toy_payload_def link_payload_def toy_link_def toy_device_def toy_trim toy_code)

lemma toy_utf8: "list_all valid_utf8 (text_fields toy_payload)" "list_all valid_utf8 (relay_fields (relayed toy_approval toy_payload))"
proof -
  have "\<forall>c \<in> set (EncodeToString StdEncoding (replicate 32 1)). (of_char c :: nat) < 128" by code_simp
  then have a: "valid_utf8 (EncodeToString StdEncoding (replicate 32 1))" by (rule ascii_utf8)
  have "\<forall>c \<in> set (EncodeToString StdEncoding [1]). (of_char c :: nat) < 128" by code_simp
  then have b: "valid_utf8 (EncodeToString StdEncoding [1])" by (rule ascii_utf8)
  have c: "valid_utf8 ''i''" "valid_utf8 ''k''" "valid_utf8 ''AAAAAAAA''" "valid_utf8 ''d1''" "valid_utf8 ''t''"
    "valid_utf8 ''x''" "valid_utf8 ''y''" "valid_utf8 ''z''" "valid_utf8 []"
    by (rule ascii_utf8; simp)+
  show "list_all valid_utf8 (text_fields toy_payload)" by (simp add: text_fields_def toy_payload_fields a b c)
  show "list_all valid_utf8 (relay_fields (relayed toy_approval toy_payload))"
    by (simp add: relay_fields_def relayed_def toy_approval_def toy_payload_fields c)
qed

lemma toy_answering: "answering toy_accounts" "waiting toy_accounts n = None"
  by (simp_all add: answering_def waiting_def toy_accounts_def empty_auth_db_def nonces_ok_def pending_nonce_def)

lemma toy_account_keys: "account_keys toy_devices = toy_accounts"
  by (simp add: account_keys_def toy_devices_def)

lemma toy_link_ok:
  "decode_key 32 (lk_DevicePublicKey toy_link) = Some (replicate 32 1)"
  "DecodeString StdEncoding (lk_SessionPublicKey toy_link) = Some [1]" "TrimSpace (lk_DeviceID toy_link) \<noteq> []"
  by (simp_all add: toy_link_def decode_key_def base64_roundtrip toy_trim)

lemma toy_verify: "verify_cert toy_device (replicate 32 9) (replicate 32 1) toy_cert = Some True"
  by (simp add: verify_cert_def toy_device_def toy_auth_def toy_cert_def)

lemma toy_scan_name: "claimed_nonce E toy_scan = Some (False, linkRequestNonce ''i'' ''k'')"
  by (simp add: claimed_nonce_def toy_scan_def toy_trim)

lemma toy_approves: "approves toy_device ''u1'' toy_payload toy_approval [toy_key] (replicate 32 9) toy_cert"
proof -
  have c: "EncodeToString StdEncoding (replicate 32 1 @ replicate 32 0) \<noteq> []" by code_simp
  show ?thesis
    by (simp add: approves_def toy_approval_def toy_payload_fields decode_key_def base64_roundtrip toy_key_def toy_verify
      ed25519CertLen_def) (simp add: toy_cert_def c)
qed

lemma device_keys_endorsed_witness:
  "\<exists>as S'. serve_devices toy_device [(5, ''u1'', DCertify (Some toy_certify))] toy_devices = (as, S') \<and>
     replicate 32 1 \<in> keys_of ''u1'' S' \<and> replicate 32 1 \<notin> keys_of ''u1'' toy_devices \<and>
     endorsed toy_device (keys_of ''u1'' toy_devices) (replicate 32 1)"
proof -
  have "\<exists>s'. certifyDevice toy_device 5 ''u1'' (Some toy_certify) toy_accounts = (Done 201 Ok, s') \<and>
      (\<exists>r \<in> key_rows s'. dk_UserID r = ''u1'' \<and> dk_DevicePublicKey r = replicate 32 1)"
    by (simp add: certifyDevice_def toy_certify_def decode_key_def base64_roundtrip ed25519CertLen_def findDevicePublicKey_def
        run_db_def ListDeviceKeys_def db_query_def toy_accounts_def empty_auth_db_def toy_key_def toy_verify InsertDeviceKey_def
        dk_is_def sql_exists_def toy_user_def register_label_def log_device_event_def log_key_event_def key_rows_def Let_def)
      (simp add: toy_cert_def)
  then obtain s' where s': "certifyDevice toy_device 5 ''u1'' (Some toy_certify) toy_accounts = (Done 201 Ok, s')"
    "\<exists>r \<in> key_rows s'. dk_UserID r = ''u1'' \<and> dk_DevicePublicKey r = replicate 32 1" by blast
  let ?S = "toy_devices\<lparr>dapp := (dapp toy_devices)\<lparr>accounts := s'\<rparr>\<rparr>"
  have run: "serve_devices toy_device [(5, ''u1'', DCertify (Some toy_certify))] toy_devices = ([Done 201 Ok], ?S)"
    using s'(1) by (simp add: on_accounts_def toy_account_keys [unfolded account_keys_def])
  have new: "replicate 32 1 \<in> keys_of ''u1'' ?S" using s'(2) by (force simp: keys_of_def account_keys_def)
  have "dk_UserID toy_key = ''u1''" by (simp add: toy_key_def)
  then have "keys_of ''u1'' toy_devices = {dk_DevicePublicKey toy_key}"
    by (auto simp: keys_of_def toy_account_keys key_rows_def toy_accounts_def)
  moreover have "dk_DevicePublicKey toy_key \<noteq> replicate 32 1" by (simp add: toy_key_def)
  ultimately have "replicate 32 1 \<notin> keys_of ''u1'' toy_devices" by simp
  then show ?thesis using run new device_keys_endorsed [OF run new] by blast
qed

lemma link_transfer_witness:
  "\<exists>S4 exp S1 S2 S3. DeviceRoutes toy_device 0 [] (DLinkRequest ''i'' ''k'' (replicate 8 0) (Some toy_link)) toy_devices =
       (Done 200 (LinkCreated ''i'' ''k'' (sq_Code toy_payload) exp), S1) \<and>
     DeviceRoutes toy_device 1 ''u1'' (DLinkResolve ''c'' (Some toy_scan)) S1 = (Done 200 (LinkClaimed ''c'' toy_payload), S2) \<and>
     DeviceRoutes toy_device 2 ''u1'' (DLinkVerify (Some toy_approval)) S2 = (Done 201 Ok, S3) \<and>
     DeviceRoutes toy_device 3 [] (DLinkResult (Some (''i'', ''k''))) S3 = (Done 200 (LinkDone (relayed toy_approval toy_payload)), S4)"
proof -
  have u: "sql_exists (\<lambda>x. u_ID x = ''u1'') (users (adb (account_keys toy_devices)))"
    by (simp add: toy_account_keys toy_accounts_def toy_user_def sql_exists_def)
  have a: "approves toy_device ''u1'' toy_payload toy_approval (device_keys (adb (account_keys toy_devices))) (replicate 32 9) toy_cert"
    using toy_approves by (simp add: toy_account_keys toy_accounts_def)
  have n: "waiting (account_keys toy_devices) m = None" for m by (simp add: toy_account_keys toy_answering)
  have t: "(1::time) < 0 + linkCodeExpiry" "(2::time) < 1 + linkCodeExpiry" "(3::time) < 2 + linkCodeExpiry"
    by (simp_all add: linkCodeExpiry_def)
  have i: "TrimSpace ''i'' \<noteq> []" "TrimSpace ''k'' \<noteq> []" by (simp_all add: toy_trim)
  have c: "ap_ClaimToken toy_approval = ''c''" by (simp add: toy_approval_def)
  have ans: "answering (account_keys toy_devices)" by (simp add: toy_account_keys toy_answering)
  have "\<exists>exp S1 S2 S3 S4.
    DeviceRoutes toy_device 0 [] (DLinkRequest ''i'' ''k'' (replicate 8 0) (Some toy_link)) toy_devices =
       (Done 200 (LinkCreated ''i'' ''k'' (sq_Code toy_payload) exp), S1) \<and>
    DeviceRoutes toy_device 1 ''u1'' (DLinkResolve ''c'' (Some toy_scan)) S1 = (Done 200 (LinkClaimed ''c'' toy_payload), S2) \<and>
    DeviceRoutes toy_device 2 ''u1'' (DLinkVerify (Some toy_approval)) S2 = (Done 201 Ok, S3) \<and>
    DeviceRoutes toy_device 3 [] (DLinkResult (Some (''i'', ''k''))) S3 = (Done 200 (LinkDone (relayed toy_approval toy_payload)), S4) \<and>
    (\<exists>r \<in> key_rows (account_keys S4). dk_is ''u1'' (sq_DeviceID toy_payload) r \<and> dk_DevicePublicKey r = replicate 32 9 \<and>
       dk_Certificate r = Some toy_cert) \<and>
    (\<forall>t x. fst (DeviceRoutes toy_device t x (DLinkResult (Some (''i'', ''k''))) S4) = Done 202 LinkPending)"
    by (rule link_transfer [OF ans _ u toy_link_ok(1,2) _ toy_link_ok(3) toy_payload_def toy_utf8(1) i n n n n _ a c toy_utf8(2) t])
       (simp_all add: toy_scan_name)
  then show ?thesis by blast
qed

lemma toy_closed: "closed_for toy_device ''i'' (account_keys toy_devices)"
  by (simp add: closed_for_def toy_account_keys toy_answering)

lemma link_claimed_once_witness:
  "\<exists>a b c S'. serve_devices toy_device
       [(0, [], DLinkRequest ''i'' ''k'' (replicate 8 0) (Some toy_link)), (1, ''u1'', DLinkResolve ''c'' (Some toy_scan)),
        (2, ''u2'', DLinkResolve ''e'' (Some toy_scan))] toy_devices = ([a, b, c], S') \<and>
     claims ''i'' b \<and> \<not> claims ''i'' c"
proof -
  let ?rs = "[(0, [], DLinkRequest ''i'' ''k'' (replicate 8 0) (Some toy_link)), (1, ''u1'', DLinkResolve ''c'' (Some toy_scan)),
        (2, ''u2'', DLinkResolve ''e'' (Some toy_scan))]"
  have w: "waiting toy_accounts (linkRequestNonce ''i'' ''k'') = None"
    "waiting toy_accounts (linkCodeNonce toy_device (generateLinkCode (replicate 8 0))) = None"
    by (simp_all add: toy_answering)
  obtain s1 where s1: "linkRequest toy_device 0 ''i'' ''k'' (replicate 8 0) (Some toy_link) toy_accounts =
      (Done 200 (LinkCreated ''i'' ''k'' (generateLinkCode (replicate 8 0)) (Format_RFC3339 toy_device (0 + linkCodeExpiry))), s1)"
    "answering s1"
    "waiting s1 = (waiting toy_accounts)
       (linkRequestNonce ''i'' ''k'' \<mapsto> (marshal_link_request toy_payload, 0 + linkCodeExpiry),
        linkCodeNonce toy_device (generateLinkCode (replicate 8 0)) \<mapsto> (marshal_link_request toy_payload, 0 + linkCodeExpiry))"
    using linkRequest_opens [OF toy_answering(1) toy_link_ok(1,2) _ toy_link_ok(3) w, where now = 0] unfolding toy_payload_def by blast
  have w1: "waiting s1 (linkRequestNonce ''i'' ''k'') = Some (marshal_link_request toy_payload, 0 + linkCodeExpiry)"
    "waiting s1 (linkClaimNonce ''c'') = None" "(1::time) < 0 + linkCodeExpiry"
    by (simp_all add: s1(3) toy_answering linkCodeExpiry_def)
  obtain s2 where s2: "linkResolve toy_device 1 ''c'' ''u1'' (Some toy_scan) s1 = (Done 200 (LinkClaimed ''c'' toy_payload), s2)"
    using linkResolve_claims [OF s1(2) _ toy_scan_name w1(1,3) decode_marshal_request [OF toy_utf8(1)] w1(2), where u = "''u1''"]
    by (auto simp: toy_payload_fields)
  obtain c s3 where s3: "linkResolve toy_device 2 ''e'' ''u2'' (Some toy_scan) s2 = (c, s3)" by (metis surj_pair)
  obtain S' where run: "serve_devices toy_device ?rs toy_devices =
      ([Done 200 (LinkCreated ''i'' ''k'' (generateLinkCode (replicate 8 0)) (Format_RFC3339 toy_device (0 + linkCodeExpiry))),
        Done 200 (LinkClaimed ''c'' toy_payload), c], S')"
    using s1(1) s2 s3 by (simp add: on_accounts_def toy_account_keys [unfolded account_keys_def])
  have e: "\<forall>(now, u, req) \<in> set ?rs. encoded toy_device now req"
    using toy_utf8(1) by (simp add: encoded_def toy_payload_def)
  have ans: "answering (account_keys toy_devices)" by (simp add: toy_account_keys toy_answering)
  have o: "opens_in ''i'' ?rs \<le> 1" by (simp add: opens_in_def opens_link_def)
  have "\<not> claims ''i'' c"
    using link_claimed_once [OF run ans e toy_closed o] by (auto simp: toy_payload_fields split: if_splits)
  then show ?thesis using run by (auto simp: toy_payload_fields)
qed

end
