(* ===== verification/Archive_DB.thy ===== *)
theory Archive_DB
  imports Auth_DB "HOL-Library.Monad_Syntax"
begin

text \<open>
  The tables of the chunked device transfer and their queries (\<open>internal/db/link_archives.go\<close>,
  \<open>link_archive_chunk_blobs.go\<close>), and the object store as an interface
  (\<open>internal/storage/backend.go\<close>) with its implementation on PostgreSQL
  (\<open>internal/storage/postgres.go\<close>). A backend works on the whole store: the database and
  whatever objects it keeps elsewhere. The S3 backend is a parameter.
\<close>

section \<open>Rows\<close>

datatype LinkArchiveState =
    StateCreated | StateUploading | StateUploadPaused | StateUploaded | StateAvailable | StateImporting
  | StateImportPaused | StateImported | StateAcknowledged | StateAborted | StateExpired | StateTerminalFailure

definition LinkArchiveActiveStates :: "LinkArchiveState list" where
  "LinkArchiveActiveStates =
     [StateCreated, StateUploading, StateUploadPaused, StateUploaded, StateAvailable, StateImporting,
      StateImportPaused, StateImported]"

record LinkArchive =
  la_ID :: string
  la_UserID :: string
  la_UploadTokenHash :: bytes
  la_DownloadTokenHash :: bytes
  la_TotalChunks :: int
  la_TotalBytes :: int
  la_ChunkSize :: int
  la_ManifestHash :: bytes
  la_ArchiveSHA256 :: bytes
  la_Finalized :: bool
  la_State :: LinkArchiveState
  la_CreatedAt :: time
  la_ExpiresAt :: time
  la_HardDeadlineAt :: time

record LinkArchiveChunkRow =
  lc_ArchiveID :: string
  lc_Idx :: int
  lc_ChunkSize :: int
  lc_ChunkHash :: bytes
  lc_StorageBackend :: string
  lc_StorageKey :: string

record ChunkBlob =
  cb_Key :: string
  cb_Bytes :: bytes

record archive_db =
  link_archives :: "LinkArchive list"
  link_archive_chunks :: "LinkArchiveChunkRow list"
  chunk_blobs :: "ChunkBlob list"
  archive_users :: "string list"
  archive_faults :: "bool list"

record LinkArchiveInsert =
  li_UserID :: string
  li_UploadTokenHash :: bytes
  li_DownloadTokenHash :: bytes
  li_TotalChunks :: int
  li_TotalBytes :: int
  li_ChunkSize :: int
  li_ManifestHash :: bytes
  li_ArchiveSHA256 :: bytes
  li_ExpiresAt :: time
  li_HardDeadlineAt :: time

datatype archive_error =
    ArOutage | ArNoRows | ArConstraint | ErrLinkArchiveExpired | ErrLinkArchiveChunkConflict | ErrNotFound | ArSize

type_synonym 'a archive_query = "archive_db \<Rightarrow> (archive_error + 'a) \<times> archive_db"

definition ar_query :: "'a archive_query \<Rightarrow> 'a archive_query" where
  "ar_query q d =
     (case next_fault (archive_faults d) of
        (True, fs) \<Rightarrow> (Inl ArOutage, d\<lparr>archive_faults := fs\<rparr>)
      | (False, fs) \<Rightarrow> q (d\<lparr>archive_faults := fs\<rparr>))"

section \<open>Archives\<close>

definition fresh_archive :: "time \<Rightarrow> LinkArchive \<Rightarrow> bool" where
  "fresh_archive now a \<longleftrightarrow> la_ExpiresAt a > now \<and> la_HardDeadlineAt a > now"

definition scanLinkArchive :: "time \<Rightarrow> LinkArchive option \<Rightarrow> archive_error + LinkArchive" where
  "scanLinkArchive now row =
     (case row of
        None \<Rightarrow> Inl ArNoRows
      | Some a \<Rightarrow> if \<not> (la_ExpiresAt a > now) \<or> \<not> (la_HardDeadlineAt a > now) then Inl ErrLinkArchiveExpired else Inr a)"

definition new_archive :: "time \<Rightarrow> string \<Rightarrow> LinkArchiveInsert \<Rightarrow> LinkArchive" where
  "new_archive now newID i =
     \<lparr>la_ID = newID, la_UserID = li_UserID i, la_UploadTokenHash = li_UploadTokenHash i,
      la_DownloadTokenHash = li_DownloadTokenHash i, la_TotalChunks = li_TotalChunks i,
      la_TotalBytes = li_TotalBytes i, la_ChunkSize = li_ChunkSize i, la_ManifestHash = li_ManifestHash i,
      la_ArchiveSHA256 = li_ArchiveSHA256 i, la_Finalized = False, la_State = StateCreated,
      la_CreatedAt = now, la_ExpiresAt = li_ExpiresAt i, la_HardDeadlineAt = li_HardDeadlineAt i\<rparr>"

text \<open>The constraints of the table: column widths, positive sizes, unique tokens, an owner that exists.\<close>

definition InsertLinkArchive :: "time \<Rightarrow> string \<Rightarrow> LinkArchiveInsert \<Rightarrow> LinkArchive archive_query" where
  "InsertLinkArchive now newID i = ar_query (\<lambda>d.
     if li_TotalChunks i \<le> 0 \<or> 2 ^ 31 \<le> li_TotalChunks i \<or> li_TotalBytes i \<le> 0 \<or> 2 ^ 63 \<le> li_TotalBytes i \<or>
        li_ChunkSize i \<le> 0 \<or> 2 ^ 31 \<le> li_ChunkSize i \<or>
        sql_exists (\<lambda>a. la_ID a = newID \<or> la_UploadTokenHash a = li_UploadTokenHash i \<or>
                        la_DownloadTokenHash a = li_DownloadTokenHash i) (link_archives d) \<or>
        li_UserID i \<notin> set (archive_users d)
     then (Inl ArConstraint, d)
     else (scanLinkArchive now (Some (new_archive now newID i)),
           d\<lparr>link_archives := link_archives d @ [new_archive now newID i]\<rparr>))"

definition archive_active :: "LinkArchive \<Rightarrow> bool" where
  "archive_active a \<longleftrightarrow> la_State a \<in> set LinkArchiveActiveStates"

definition CountActiveLinkArchivesForUser :: "string \<Rightarrow> nat archive_query" where
  "CountActiveLinkArchivesForUser userID = ar_query (\<lambda>d.
     (Inr (sql_count (\<lambda>a. la_UserID a = userID \<and> archive_active a) (link_archives d)), d))"

definition ListSupersedableLinkArchivesForUser :: "string \<Rightarrow> time \<Rightarrow> string list archive_query" where
  "ListSupersedableLinkArchivesForUser userID lastTouchBefore = ar_query (\<lambda>d.
     (Inr (map la_ID (sort_key la_CreatedAt (filter (\<lambda>a. la_UserID a = userID \<and> archive_active a \<and>
              la_ExpiresAt a < lastTouchBefore) (link_archives d)))), d))"

definition active_bytes :: "LinkArchive list \<Rightarrow> int" where
  "active_bytes as = sum_list (map la_TotalBytes (filter archive_active as))"

definition SumActiveLinkArchiveBytes :: "int archive_query" where
  "SumActiveLinkArchiveBytes = ar_query (\<lambda>d.
     (if active_bytes (link_archives d) < 2 ^ 63 then Inr (active_bytes (link_archives d)) else Inl ArSize, d))"

definition TransitionLinkArchiveState ::
  "string \<Rightarrow> LinkArchiveState \<Rightarrow> LinkArchiveState list \<Rightarrow> unit archive_query" where
  "TransitionLinkArchiveState archiveID nextState allowedFrom = ar_query (\<lambda>d.
     let hit = (\<lambda>a. la_ID a = archiveID \<and> la_State a \<in> set allowedFrom)
     in (if sql_exists hit (link_archives d) then Inr () else Inl ArNoRows,
         d\<lparr>link_archives := sql_update hit (\<lambda>a. a\<lparr>la_State := nextState\<rparr>) (link_archives d)\<rparr>))"

definition GetLinkArchiveByUploadTokenHash :: "time \<Rightarrow> string \<Rightarrow> bytes \<Rightarrow> LinkArchive archive_query" where
  "GetLinkArchiveByUploadTokenHash now archiveID tokenHash = ar_query (\<lambda>d.
     (scanLinkArchive now (find (\<lambda>a. la_ID a = archiveID \<and> la_UploadTokenHash a = tokenHash) (link_archives d)), d))"

definition GetLinkArchiveByDownloadTokenHash :: "time \<Rightarrow> string \<Rightarrow> bytes \<Rightarrow> LinkArchive archive_query" where
  "GetLinkArchiveByDownloadTokenHash now archiveID tokenHash = ar_query (\<lambda>d.
     (scanLinkArchive now (find (\<lambda>a. la_ID a = archiveID \<and> la_DownloadTokenHash a = tokenHash) (link_archives d)), d))"

definition GetLinkArchiveByID :: "time \<Rightarrow> string \<Rightarrow> LinkArchive archive_query" where
  "GetLinkArchiveByID now archiveID = ar_query (\<lambda>d.
     (scanLinkArchive now (find (\<lambda>a. la_ID a = archiveID) (link_archives d)), d))"

definition RefreshLinkArchiveExpiry :: "time \<Rightarrow> string \<Rightarrow> time \<Rightarrow> unit archive_query" where
  "RefreshLinkArchiveExpiry now archiveID ttl = ar_query (\<lambda>d.
     (if sql_exists (\<lambda>a. la_ID a = archiveID) (link_archives d) then Inr () else Inl ArNoRows,
      d\<lparr>link_archives := sql_update (\<lambda>a. la_ID a = archiveID)
          (\<lambda>a. a\<lparr>la_ExpiresAt := min (now + ttl) (la_HardDeadlineAt a)\<rparr>) (link_archives d)\<rparr>))"

definition MarkLinkArchiveFinalized :: "string \<Rightarrow> unit archive_query" where
  "MarkLinkArchiveFinalized archiveID = ar_query (\<lambda>d.
     (Inr (), d\<lparr>link_archives := sql_update (\<lambda>a. la_ID a = archiveID) (\<lambda>a. a\<lparr>la_Finalized := True\<rparr>) (link_archives d)\<rparr>))"

text \<open>The chunk rows go with the archive.\<close>

definition DeleteLinkArchive :: "string \<Rightarrow> unit archive_query" where
  "DeleteLinkArchive archiveID = ar_query (\<lambda>d.
     (Inr (), d\<lparr>link_archives := sql_delete (\<lambda>a. la_ID a = archiveID) (link_archives d),
                link_archive_chunks := sql_delete (\<lambda>c. lc_ArchiveID c = archiveID) (link_archive_chunks d)\<rparr>))"

definition gc_eligible :: "time \<Rightarrow> LinkArchive \<Rightarrow> bool" where
  "gc_eligible now a \<longleftrightarrow> la_State a \<in> {StateAcknowledged, StateAborted} \<or>
     (la_State a \<in> {StateTerminalFailure, StateImported} \<and> la_ExpiresAt a < now - 24 * hour) \<or>
     la_ExpiresAt a < now \<or> la_HardDeadlineAt a < now"

definition ListGcEligibleLinkArchives :: "time \<Rightarrow> nat \<Rightarrow> string list archive_query" where
  "ListGcEligibleLinkArchives now limit = ar_query (\<lambda>d.
     (Inr (map la_ID (take limit (sort_key la_CreatedAt (filter (gc_eligible now) (link_archives d))))), d))"

definition PurgeExpiredLinkArchives :: "time \<Rightarrow> nat archive_query" where
  "PurgeExpiredLinkArchives now = ar_query (\<lambda>d.
     let old = (\<lambda>a. la_ExpiresAt a < now \<or> la_HardDeadlineAt a < now);
         gone = map la_ID (filter old (link_archives d))
     in (Inr (sql_count old (link_archives d)),
         d\<lparr>link_archives := sql_delete old (link_archives d),
           link_archive_chunks := sql_delete (\<lambda>c. lc_ArchiveID c \<in> set gone) (link_archive_chunks d)\<rparr>))"

section \<open>Chunks\<close>

definition chunk_is :: "string \<Rightarrow> int \<Rightarrow> LinkArchiveChunkRow \<Rightarrow> bool" where
  "chunk_is archiveID idx c \<longleftrightarrow> lc_ArchiveID c = archiveID \<and> lc_Idx c = idx"

text \<open>\<open>INSERT ... ON CONFLICT DO NOTHING\<close>, with whether a row was written.\<close>

definition insert_chunk :: "LinkArchiveChunkRow \<Rightarrow> bool archive_query" where
  "insert_chunk c = ar_query (\<lambda>d.
     if sql_exists (chunk_is (lc_ArchiveID c) (lc_Idx c)) (link_archive_chunks d) then (Inr False, d)
     else if lc_Idx c < 0 \<or> lc_ChunkSize c \<le> 0 \<or> \<not> sql_exists (\<lambda>a. la_ID a = lc_ArchiveID c) (link_archives d)
     then (Inl ArConstraint, d)
     else (Inr True, d\<lparr>link_archive_chunks := link_archive_chunks d @ [c]\<rparr>))"

definition select_chunk_hash :: "string \<Rightarrow> int \<Rightarrow> bytes archive_query" where
  "select_chunk_hash archiveID idx = ar_query (\<lambda>d.
     (case find (chunk_is archiveID idx) (link_archive_chunks d) of
        None \<Rightarrow> Inl ArNoRows | Some c \<Rightarrow> Inr (lc_ChunkHash c), d))"

definition InsertLinkArchiveChunk :: "LinkArchiveChunkRow \<Rightarrow> unit archive_query" where
  "InsertLinkArchiveChunk c d =
     (case insert_chunk c d of
        (Inl e, d1) \<Rightarrow> (Inl e, d1)
      | (Inr True, d1) \<Rightarrow> (Inr (), d1)
      | (Inr False, d1) \<Rightarrow>
          (case select_chunk_hash (lc_ArchiveID c) (lc_Idx c) d1 of
             (Inl e, d2) \<Rightarrow> (Inl e, d2)
           | (Inr existing, d2) \<Rightarrow>
               (if existing \<noteq> lc_ChunkHash c then Inl ErrLinkArchiveChunkConflict else Inr (), d2)))"

definition GetLinkArchiveChunkPointer :: "string \<Rightarrow> int \<Rightarrow> (string \<times> string) archive_query" where
  "GetLinkArchiveChunkPointer archiveID idx = ar_query (\<lambda>d.
     (case find (chunk_is archiveID idx) (link_archive_chunks d) of
        None \<Rightarrow> Inl ArNoRows | Some c \<Rightarrow> Inr (lc_StorageBackend c, lc_StorageKey c), d))"

definition ListLinkArchiveChunkRows :: "string \<Rightarrow> LinkArchiveChunkRow list archive_query" where
  "ListLinkArchiveChunkRows archiveID = ar_query (\<lambda>d.
     (Inr (sort_key lc_Idx (filter (\<lambda>c. lc_ArchiveID c = archiveID) (link_archive_chunks d))), d))"

section \<open>Blobs\<close>

definition UpsertChunkBlob :: "string \<Rightarrow> bytes \<Rightarrow> unit archive_query" where
  "UpsertChunkBlob storageKey b = ar_query (\<lambda>d.
     (Inr (), if sql_exists (\<lambda>x. cb_Key x = storageKey) (chunk_blobs d) then d
              else d\<lparr>chunk_blobs := chunk_blobs d @ [\<lparr>cb_Key = storageKey, cb_Bytes = b\<rparr>]\<rparr>))"

definition GetChunkBlob :: "string \<Rightarrow> bytes archive_query" where
  "GetChunkBlob storageKey = ar_query (\<lambda>d.
     (case find (\<lambda>x. cb_Key x = storageKey) (chunk_blobs d) of None \<Rightarrow> Inl ArNoRows | Some x \<Rightarrow> Inr (cb_Bytes x), d))"

definition DeleteChunkBlob :: "string \<Rightarrow> unit archive_query" where
  "DeleteChunkBlob storageKey = ar_query (\<lambda>d.
     (Inr (), d\<lparr>chunk_blobs := sql_delete (\<lambda>x. cb_Key x = storageKey) (chunk_blobs d)\<rparr>))"

definition ChunkBlobExists :: "string \<Rightarrow> bool archive_query" where
  "ChunkBlobExists storageKey = ar_query (\<lambda>d.
     (Inr (sql_exists (\<lambda>x. cb_Key x = storageKey) (chunk_blobs d)), d))"

section \<open>The object store\<close>

record 'o archive_store =
  ar_db :: archive_db
  ar_objects :: 'o

type_synonym ('o, 'a) store_op = "'o archive_store \<Rightarrow> (archive_error + 'a) \<times> 'o archive_store"

definition on_db :: "'a archive_query \<Rightarrow> ('o, 'a) store_op" where
  "on_db q s = (case q (ar_db s) of (r, d) \<Rightarrow> (r, s\<lparr>ar_db := d\<rparr>))"

record PresignedURL =
  pu_URL :: string
  pu_Method :: string
  pu_Headers :: "(string \<times> string) list"
  pu_ContentSha256Header :: string

text \<open>
  \<open>Put\<close> answers with the SHA-256 of what it was given. \<open>StatChecksum\<close> is the type switch on
  \<open>*storage.S3Backend\<close>: only that backend has it.
\<close>

record 'o Backend =
  Kind :: string
  Put :: "string \<Rightarrow> bytes \<Rightarrow> ('o, bytes) store_op"
  Get :: "string \<Rightarrow> ('o, bytes) store_op"
  Delete :: "string \<Rightarrow> ('o, unit) store_op"
  Exists :: "string \<Rightarrow> ('o, bool) store_op"
  PresignPut :: "string \<Rightarrow> time \<Rightarrow> archive_error + PresignedURL"
  PresignGet :: "string \<Rightarrow> time \<Rightarrow> archive_error + PresignedURL"
  StatChecksum :: "(string \<Rightarrow> ('o, bytes) store_op) option"

definition pg_Put :: "(bytes \<Rightarrow> bytes) \<Rightarrow> string \<Rightarrow> bytes \<Rightarrow> (unit, bytes) store_op" where
  "pg_Put H key b s =
     (if b = [] then (Inl ArSize, s)
      else case on_db (UpsertChunkBlob key b) s of
        (Inl e, s1) \<Rightarrow> (Inl e, s1)
      | (Inr _, s1) \<Rightarrow> (Inr (H b), s1))"

definition pg_Get :: "string \<Rightarrow> (unit, bytes) store_op" where
  "pg_Get key s =
     (case on_db (GetChunkBlob key) s of
        (Inl e, s1) \<Rightarrow> (Inl (if e = ArNoRows then ErrNotFound else e), s1)
      | (Inr raw, s1) \<Rightarrow> (Inr raw, s1))"

definition inAPIChunkURL :: "string \<Rightarrow> string" where
  "inAPIChunkURL key = ''/api/auth/link-archive-chunk/'' @ key"

definition PostgresBytea :: "(bytes \<Rightarrow> bytes) \<Rightarrow> unit Backend" where
  "PostgresBytea H =
     \<lparr>Kind = ''postgres_bytea'', Put = pg_Put H, Get = pg_Get, Delete = (\<lambda>key. on_db (DeleteChunkBlob key)),
      Exists = (\<lambda>key. on_db (ChunkBlobExists key)),
      PresignPut = (\<lambda>key ttl. Inr \<lparr>pu_URL = inAPIChunkURL key, pu_Method = ''PUT'', pu_Headers = [], pu_ContentSha256Header = []\<rparr>),
      PresignGet = (\<lambda>key ttl. Inr \<lparr>pu_URL = inAPIChunkURL key, pu_Method = ''GET'', pu_Headers = [], pu_ContentSha256Header = []\<rparr>),
      StatChecksum = None\<rparr>"

end
