(* ===== verification/Archives.thy ===== *)
theory Archives
  imports Archive_DB Codec
begin

text \<open>
  The chunked transfer of a link archive (\<open>internal/api/link_archives.go\<close>): the old device opens an
  archive, uploads its chunks and finalizes it; the new device reads the manifest, downloads the
  chunks and acknowledges. Tokens are capabilities, stored as hashes. A purger reaps what has
  expired. The requests are functions of the store, for any object store. The requests of the old
  device pass \<open>RequireAuth\<close> (\<open>Auth\<close>) first, which names the user of \<open>linkArchiveInit\<close>; what follows starts
  behind it. A tick of the purger has no answer; \<open>ArchiveRoutes\<close> gives it an empty one.
\<close>

section \<open>Limits\<close>

definition linkArchiveChunkSize :: int where
  "linkArchiveChunkSize = 4 * 1024 * 1024"

definition linkArchiveChunkBodyMax :: int where
  "linkArchiveChunkBodyMax = linkArchiveChunkSize + 256"

definition linkArchiveDefaultExpiry :: time where
  "linkArchiveDefaultExpiry = 60 * minute"

definition linkArchiveMaxLifetime :: time where
  "linkArchiveMaxLifetime = 7 * 24 * hour"

definition linkArchivePurgeBatchLimit :: nat where
  "linkArchivePurgeBatchLimit = 64"

definition linkArchiveDefaultUserQuota :: int where
  "linkArchiveDefaultUserQuota = 1"

definition linkArchiveDefaultStagingCap :: int where
  "linkArchiveDefaultStagingCap = 8 * 1024 * 1024 * 1024"

definition linkArchiveWindowSize :: int where
  "linkArchiveWindowSize = 8"

definition linkArchivePresignTTL :: time where
  "linkArchivePresignTTL = 15 * minute"

definition linkArchiveDefaultSupersedeGrace :: time where
  "linkArchiveDefaultSupersedeGrace = 30 * minute"

text \<open>Go's \<open>int64\<close> arithmetic wraps.\<close>

definition int64 :: "int \<Rightarrow> int" where
  "int64 n = sint (word_of_int n :: 64 word)"

lemma int64_id: "- (2 ^ 63) \<le> n \<Longrightarrow> n < 2 ^ 63 \<Longrightarrow> int64 n = n"
  by (simp add: int64_def signed_of_int signed_take_bit_int_eq_self)

record 'o archive_env =
  av_sha256 :: "bytes \<Rightarrow> bytes"
  Getenv :: "string \<Rightarrow> string"
  backend :: "'o Backend"

definition positive_setting :: "string \<Rightarrow> int option" where
  "positive_setting v =
     (if v = [] then None else case Atoi v of Some n \<Rightarrow> if n > 0 then Some n else None | None \<Rightarrow> None)"

definition archiveQuotaForUser :: "'o archive_env \<Rightarrow> int" where
  "archiveQuotaForUser E =
     (case positive_setting (Getenv E ''LINK_ARCHIVE_USER_QUOTA'') of Some n \<Rightarrow> n | None \<Rightarrow> linkArchiveDefaultUserQuota)"

definition archiveSupersedeGrace :: "'o archive_env \<Rightarrow> time" where
  "archiveSupersedeGrace E =
     (case positive_setting (Getenv E ''LINK_ARCHIVE_SUPERSEDE_GRACE_SECONDS'') of
        Some n \<Rightarrow> int64 (n * second) | None \<Rightarrow> linkArchiveDefaultSupersedeGrace)"

definition instanceStagingBytesCap :: "'o archive_env \<Rightarrow> int" where
  "instanceStagingBytesCap E =
     (case positive_setting (Getenv E ''LINK_ARCHIVE_STAGING_BYTES_CAP'') of Some n \<Rightarrow> n | None \<Rightarrow> linkArchiveDefaultStagingCap)"

section \<open>Answers\<close>

type_synonym window = "int \<times> int \<times> (int \<times> PresignedURL) list"

record manifest =
  mf_totalChunks :: int
  mf_chunkSize :: int
  mf_totalBytes :: int
  mf_manifestHash :: string
  mf_archiveSha256 :: string
  mf_chunkHashes :: "string list"
  mf_expiresAt :: time

datatype archive_body =
    ArchiveCreated string string string string window time time
  | Window window
  | StatusOk
  | NoContent
  | Incomplete "int list"
  | Manifest manifest
  | Chunk bytes

type_synonym archive_answer = "archive_body response"

section \<open>Helpers\<close>

definition storage_key :: "string \<Rightarrow> int \<Rightarrow> string" where
  "storage_key archiveID idx = archiveID @ ''/'' @ itoa idx"

fun first_hash :: "b64_encoding list \<Rightarrow> string \<Rightarrow> bytes option" where
  "first_hash [] v = None"
| "first_hash (e # es) v =
     (case DecodeString e v of
        Some raw \<Rightarrow> if length raw \<noteq> 32 then first_hash es v else Some raw
      | None \<Rightarrow> first_hash es v)"

definition decodeHashB64 :: "string \<Rightarrow> bytes option" where
  "decodeHashB64 v =
     (let value = TrimSpace v
      in if value = [] then None
         else first_hash [StdEncoding, RawStdEncoding, URLEncoding, RawURLEncoding] value)"

fun xor_all :: "bytes \<Rightarrow> bytes \<Rightarrow> byte \<Rightarrow> byte" where
  "xor_all (a # as) (b # bs) diff = xor_all as bs (or diff (xor a b))"
| "xor_all _ _ diff = diff"

definition slicesEqualConstantTime :: "bytes \<Rightarrow> bytes \<Rightarrow> bool" where
  "slicesEqualConstantTime a b = (if length a \<noteq> length b then False else xor_all a b 0 = 0)"

text \<open>\<open>rnd\<close> is what \<open>rand.Read\<close> fills the buffer with, \<open>None\<close> when it fails.\<close>

definition newBearerToken :: "'o archive_env \<Rightarrow> bytes option \<Rightarrow> (string \<times> bytes) option" where
  "newBearerToken E rnd =
     (case rnd of
        None \<Rightarrow> None
      | Some b \<Rightarrow> (let raw = EncodeToString RawURLEncoding b in Some (raw, av_sha256 E (bytes_of_string raw))))"

definition requireTokenHash :: "'o archive_env \<Rightarrow> string \<Rightarrow> bytes option" where
  "requireTokenHash E header =
     (let raw = TrimSpace header in if raw = [] then None else Some (av_sha256 E (bytes_of_string raw)))"

definition archiveOrError :: "archive_error + LinkArchive \<Rightarrow> archive_answer + LinkArchive" where
  "archiveOrError r =
     (case r of
        Inr a \<Rightarrow> Inr a
      | Inl e \<Rightarrow> Inl (if e = ErrLinkArchiveExpired then Fail 410 ''archive expired'' else Fail 404 ''archive not found''))"

definition lookupArchiveByUploadHash ::
  "time \<Rightarrow> string \<Rightarrow> bytes \<Rightarrow> 'o archive_store \<Rightarrow> (archive_answer + LinkArchive) \<times> 'o archive_store" where
  "lookupArchiveByUploadHash now archiveID tokenHash s =
     (case on_db (GetLinkArchiveByUploadTokenHash now archiveID tokenHash) s of (r, s1) \<Rightarrow> (archiveOrError r, s1))"

definition lookupArchiveByDownloadHash ::
  "time \<Rightarrow> string \<Rightarrow> bytes \<Rightarrow> 'o archive_store \<Rightarrow> (archive_answer + LinkArchive) \<times> 'o archive_store" where
  "lookupArchiveByDownloadHash now archiveID tokenHash s =
     (case on_db (GetLinkArchiveByDownloadTokenHash now archiveID tokenHash) s of (r, s1) \<Rightarrow> (archiveOrError r, s1))"

definition refreshArchive :: "time \<Rightarrow> string \<Rightarrow> 'o archive_store \<Rightarrow> 'o archive_store" where
  "refreshArchive now archiveID s = snd (on_db (RefreshLinkArchiveExpiry now archiveID linkArchiveDefaultExpiry) s)"

section \<open>Windows\<close>

fun mint_urls :: "(string \<Rightarrow> time \<Rightarrow> archive_error + PresignedURL) \<Rightarrow> string \<Rightarrow> int list \<Rightarrow> (int \<times> PresignedURL) list option" where
  "mint_urls presign archiveID [] = Some []"
| "mint_urls presign archiveID (idx # is) =
     (case presign (storage_key archiveID idx) linkArchivePresignTTL of
        Inl e \<Rightarrow> None
      | Inr u \<Rightarrow> map_option (\<lambda>us. (idx, u) # us) (mint_urls presign archiveID is))"

definition mintUploadWindow :: "'o archive_env \<Rightarrow> LinkArchive \<Rightarrow> int \<Rightarrow> int \<Rightarrow> window option" where
  "mintUploadWindow E a from_idx to_idx =
     map_option (\<lambda>us. (from_idx, to_idx, us)) (mint_urls (PresignPut (backend E)) (la_ID a) [from_idx..to_idx - 1])"

definition mintDownloadWindow :: "'o archive_env \<Rightarrow> LinkArchive \<Rightarrow> int \<Rightarrow> int \<Rightarrow> window option" where
  "mintDownloadWindow E a from_idx to_idx =
     map_option (\<lambda>us. (from_idx, to_idx, us)) (mint_urls (PresignGet (backend E)) (la_ID a) [from_idx..to_idx - 1])"

definition decodeWindowRange :: "(int \<times> int) option \<Rightarrow> int \<Rightarrow> archive_answer + int \<times> int" where
  "decodeWindowRange body totalChunks =
     (case body of
        None \<Rightarrow> Inl (Fail 400 ''invalid body'')
      | Some (f, t) \<Rightarrow>
          if f < 0 \<or> t \<le> f \<or> t > totalChunks then Inl (Fail 400 ''from/to out of range'')
          else if t - f > linkArchiveWindowSize then Inl (Fail 400 ''window size exceeds server cap'')
          else Inr (f, t))"

definition linkArchiveUploadWindow ::
  "'o archive_env \<Rightarrow> time \<Rightarrow> string \<Rightarrow> string \<Rightarrow> (int \<times> int) option \<Rightarrow> 'o archive_store \<Rightarrow> archive_answer \<times> 'o archive_store" where
  "linkArchiveUploadWindow E now archiveID token body s =
     (case requireTokenHash E token of
        None \<Rightarrow> (Fail 401 ''missing X-Upload-Token'', s)
      | Some h \<Rightarrow>
      (case lookupArchiveByUploadHash now archiveID h s of
         (Inl a, s1) \<Rightarrow> (a, s1)
       | (Inr archive, s1) \<Rightarrow>
      (if la_Finalized archive then (Fail 409 ''archive already finalized'', s1)
       else case decodeWindowRange body (la_TotalChunks archive) of
         Inl a \<Rightarrow> (a, s1)
       | Inr (f, t) \<Rightarrow>
      (case mintUploadWindow E archive f t of
         None \<Rightarrow> (Fail 500 ''could not mint upload window'', s1)
       | Some w \<Rightarrow> (Done 200 (Window w), refreshArchive now archiveID s1)))))"

definition linkArchiveDownloadWindow ::
  "'o archive_env \<Rightarrow> time \<Rightarrow> string \<Rightarrow> string \<Rightarrow> (int \<times> int) option \<Rightarrow> 'o archive_store \<Rightarrow> archive_answer \<times> 'o archive_store" where
  "linkArchiveDownloadWindow E now archiveID token body s =
     (case requireTokenHash E token of
        None \<Rightarrow> (Fail 401 ''missing X-Download-Token'', s)
      | Some h \<Rightarrow>
      (case lookupArchiveByDownloadHash now archiveID h s of
         (Inl a, s1) \<Rightarrow> (a, s1)
       | (Inr archive, s1) \<Rightarrow>
      (if \<not> la_Finalized archive then (Fail 425 ''archive not finalized'', s1)
       else case decodeWindowRange body (la_TotalChunks archive) of
         Inl a \<Rightarrow> (a, s1)
       | Inr (f, t) \<Rightarrow>
      (case mintDownloadWindow E archive f t of
         None \<Rightarrow> (Fail 500 ''could not mint download window'', s1)
       | Some w \<Rightarrow> (Done 200 (Window w), refreshArchive now archiveID s1)))))"

section \<open>Removing archives\<close>

text \<open>A failed delete of an object is only logged.\<close>

fun delete_objects :: "'o archive_env \<Rightarrow> LinkArchiveChunkRow list \<Rightarrow> 'o archive_store \<Rightarrow> 'o archive_store" where
  "delete_objects E [] s = s"
| "delete_objects E (c # cs) s = delete_objects E cs (snd (Delete (backend E) (lc_StorageKey c) s))"

definition purgeArchive :: "'o archive_env \<Rightarrow> string \<Rightarrow> 'o archive_store \<Rightarrow> (archive_error + unit) \<times> 'o archive_store" where
  "purgeArchive E archiveID s =
     (case on_db (ListLinkArchiveChunkRows archiveID) s of
        (Inl _, s1) \<Rightarrow> on_db (DeleteLinkArchive archiveID) s1
      | (Inr chunks, s1) \<Rightarrow> on_db (DeleteLinkArchive archiveID) (delete_objects E chunks s1))"

fun purge_all :: "'o archive_env \<Rightarrow> string list \<Rightarrow> 'o archive_store \<Rightarrow> 'o archive_store" where
  "purge_all E [] s = s"
| "purge_all E (i # is) s = purge_all E is (snd (purgeArchive E i s))"

definition supersedeAbandonedArchives :: "'o archive_env \<Rightarrow> time \<Rightarrow> string \<Rightarrow> 'o archive_store \<Rightarrow> 'o archive_store" where
  "supersedeAbandonedArchives E now userID s =
     (let threshold = now + (linkArchiveDefaultExpiry - archiveSupersedeGrace E)
      in case on_db (ListSupersedableLinkArchivesForUser userID threshold) s of
           (Inl _, s1) \<Rightarrow> s1
         | (Inr ids, s1) \<Rightarrow> purge_all E ids s1)"

definition runPurgerTick :: "'o archive_env \<Rightarrow> time \<Rightarrow> 'o archive_store \<Rightarrow> 'o archive_store" where
  "runPurgerTick E now s =
     (case on_db (ListGcEligibleLinkArchives now linkArchivePurgeBatchLimit) s of
        (Inl _, s1) \<Rightarrow> s1
      | (Inr ids, s1) \<Rightarrow> purge_all E ids s1)"

definition cleanupAndDeleteArchive :: "'o archive_env \<Rightarrow> string \<Rightarrow> 'o archive_store \<Rightarrow> archive_answer \<times> 'o archive_store" where
  "cleanupAndDeleteArchive E archiveID s =
     (case purgeArchive E archiveID s of
        (Inl _, s1) \<Rightarrow> (Fail 500 ''could not delete archive'', s1)
      | (Inr _, s1) \<Rightarrow> (Done 204 NoContent, s1))"

text \<open>The upload token is tried first, then the download token; an absent header is \<open>[]\<close>.\<close>

definition linkArchiveDelete ::
  "'o archive_env \<Rightarrow> time \<Rightarrow> string \<Rightarrow> string \<Rightarrow> string \<Rightarrow> 'o archive_store \<Rightarrow> archive_answer \<times> 'o archive_store" where
  "linkArchiveDelete E now archiveID upload download s =
     (let try_download = (\<lambda>s1. case requireTokenHash E download of
            None \<Rightarrow> (Fail 404 ''archive not found'', s1)
          | Some h \<Rightarrow> (case on_db (GetLinkArchiveByDownloadTokenHash now archiveID h) s1 of
              (Inr _, s2) \<Rightarrow> cleanupAndDeleteArchive E archiveID s2
            | (Inl _, s2) \<Rightarrow> (Fail 404 ''archive not found'', s2)))
      in if requireTokenHash E upload = None \<and> requireTokenHash E download = None
         then (Fail 401 ''upload or download token required'', s)
         else case requireTokenHash E upload of
           None \<Rightarrow> try_download s
         | Some h \<Rightarrow> (case on_db (GetLinkArchiveByUploadTokenHash now archiveID h) s of
             (Inr _, s1) \<Rightarrow> cleanupAndDeleteArchive E archiveID s1
           | (Inl _, s1) \<Rightarrow> try_download s1))"

section \<open>Opening an archive\<close>

record archive_init =
  ai_TotalChunks :: int
  ai_TotalBytes :: int
  ai_ChunkSize :: int
  ai_ManifestHash :: string
  ai_ArchiveSHA256 :: string

text \<open>The checks of the body, and what they leave.\<close>

definition check_init :: "archive_init \<Rightarrow> archive_answer + bytes \<times> bytes" where
  "check_init req =
     (if ai_ChunkSize req \<noteq> linkArchiveChunkSize then Inl (Fail 400 ''chunkSize must equal server-fixed value'')
      else if ai_TotalChunks req \<le> 0 then Inl (Fail 400 ''totalChunks must be positive'')
      else if ai_TotalBytes req \<le> 0 then Inl (Fail 400 ''totalBytes must be positive'')
      else if ai_TotalBytes req > int64 (ai_TotalChunks req * linkArchiveChunkBodyMax)
      then Inl (Fail 400 ''totalBytes inconsistent with totalChunks * chunkBodyMax'')
      else case decodeHashB64 (ai_ManifestHash req) of
        None \<Rightarrow> Inl (Fail 400 ''manifestHash must be base64 sha256'')
      | Some m \<Rightarrow> (case decodeHashB64 (ai_ArchiveSHA256 req) of
          None \<Rightarrow> Inl (Fail 400 ''archiveSha256 must be base64 sha256'')
        | Some h \<Rightarrow> Inr (m, h)))"

text \<open>From the tokens on: the row, its first transition, the first upload window.\<close>

definition allocate_archive ::
  "'o archive_env \<Rightarrow> time \<Rightarrow> string \<Rightarrow> string \<Rightarrow> archive_init \<Rightarrow> bytes \<times> bytes \<Rightarrow> string \<times> bytes \<Rightarrow> string \<times> bytes \<Rightarrow>
   'o archive_store \<Rightarrow> archive_answer \<times> 'o archive_store" where
  "allocate_archive E now newID userID req hashes upload download s =
     (case on_db (InsertLinkArchive now newID
             \<lparr>li_UserID = userID, li_UploadTokenHash = snd upload, li_DownloadTokenHash = snd download,
              li_TotalChunks = ai_TotalChunks req, li_TotalBytes = ai_TotalBytes req, li_ChunkSize = ai_ChunkSize req,
              li_ManifestHash = fst hashes, li_ArchiveSHA256 = snd hashes,
              li_ExpiresAt = now + linkArchiveDefaultExpiry, li_HardDeadlineAt = now + linkArchiveMaxLifetime\<rparr>) s of
        (Inl _, s1) \<Rightarrow> (Fail 500 ''could not allocate archive'', s1)
      | (Inr archive, s1) \<Rightarrow>
          (let s2 = snd (on_db (TransitionLinkArchiveState (la_ID archive) StateUploading [StateCreated]) s1)
           in case mintUploadWindow E archive 0 (min (la_TotalChunks archive) linkArchiveWindowSize) of
                None \<Rightarrow> (Fail 500 ''could not mint upload window'', s2)
              | Some w \<Rightarrow> (Done 200 (ArchiveCreated (la_ID archive) (fst upload) (fst download) (Kind (backend E)) w
                                      (la_ExpiresAt archive) (la_HardDeadlineAt archive)), s2)))"

definition linkArchiveInit ::
  "'o archive_env \<Rightarrow> time \<Rightarrow> string \<Rightarrow> bytes option \<Rightarrow> bytes option \<Rightarrow> string \<Rightarrow> archive_init option \<Rightarrow>
   'o archive_store \<Rightarrow> archive_answer \<times> 'o archive_store" where
  "linkArchiveInit E now newID rnd1 rnd2 userID body s =
     (if userID = [] then (Fail 401 ''not authenticated'', s)
      else case body of
        None \<Rightarrow> (Fail 400 ''invalid body'', s)
      | Some req \<Rightarrow>
      (case check_init req of
         Inl a \<Rightarrow> (a, s)
       | Inr hashes \<Rightarrow>
      (case on_db (CountActiveLinkArchivesForUser userID) (supersedeAbandonedArchives E now userID s) of
         (Inl _, s1) \<Rightarrow> (Fail 500 ''could not check quota'', s1)
       | (Inr activeCount, s1) \<Rightarrow>
      (if int activeCount \<ge> archiveQuotaForUser E
       then (Fail 409 ''concurrent archive quota exhausted; finish or abort an existing archive before starting a new one'', s1)
       else case on_db SumActiveLinkArchiveBytes s1 of
         (Inl _, s2) \<Rightarrow> (Fail 500 ''could not check staging cap'', s2)
       | (Inr currentStaging, s2) \<Rightarrow>
      (if int64 (currentStaging + ai_TotalBytes req) > instanceStagingBytesCap E
       then (Fail 503 ''instance staging-bytes ceiling reached; retry shortly'', s2)
       else case newBearerToken E rnd1 of
         None \<Rightarrow> (Fail 500 ''could not allocate archive'', s2)
       | Some upload \<Rightarrow> (case newBearerToken E rnd2 of
           None \<Rightarrow> (Fail 500 ''could not allocate archive'', s2)
         | Some download \<Rightarrow> allocate_archive E now newID userID req hashes upload download s2))))))"

section \<open>Chunks\<close>

definition parse_idx :: "string \<Rightarrow> int option" where
  "parse_idx v = (case Atoi v of None \<Rightarrow> None | Some n \<Rightarrow> if n < 0 then None else Some n)"

text \<open>\<open>body\<close> is what the request carries; more than the limit cannot be read.\<close>

definition store_chunk ::
  "'o archive_env \<Rightarrow> time \<Rightarrow> string \<Rightarrow> int \<Rightarrow> bytes \<Rightarrow> bytes \<Rightarrow> 'o archive_store \<Rightarrow> archive_answer \<times> 'o archive_store" where
  "store_chunk E now archiveID idx declaredHash body s =
     (case Put (backend E) (storage_key archiveID idx) body s of
        (Inl _, s1) \<Rightarrow> (Fail 500 ''could not store chunk'', s1)
      | (Inr put, s1) \<Rightarrow>
      (if \<not> slicesEqualConstantTime put declaredHash
       then (Fail 400 ''body hash does not match X-Chunk-Sha256'', snd (Delete (backend E) (storage_key archiveID idx) s1))
       else case on_db (InsertLinkArchiveChunk
               \<lparr>lc_ArchiveID = archiveID, lc_Idx = idx, lc_ChunkSize = int (length body), lc_ChunkHash = put,
                lc_StorageBackend = Kind (backend E), lc_StorageKey = storage_key archiveID idx\<rparr>) s1 of
         (Inl e, s2) \<Rightarrow> (if e = ErrLinkArchiveChunkConflict then Fail 409 ''chunk hash conflict for index''
                         else Fail 500 ''could not store chunk'', s2)
       | (Inr _, s2) \<Rightarrow> (Done 204 NoContent, refreshArchive now archiveID s2)))"

definition linkArchiveUploadChunk ::
  "'o archive_env \<Rightarrow> time \<Rightarrow> string \<Rightarrow> string \<Rightarrow> string \<Rightarrow> string \<Rightarrow> bytes \<Rightarrow> 'o archive_store \<Rightarrow>
   archive_answer \<times> 'o archive_store" where
  "linkArchiveUploadChunk E now archiveID idx_param token hash_header body s =
     (case parse_idx idx_param of
        None \<Rightarrow> (Fail 400 ''invalid idx'', s)
      | Some idx \<Rightarrow>
      (case requireTokenHash E token of
         None \<Rightarrow> (Fail 401 ''missing X-Upload-Token'', s)
       | Some h \<Rightarrow>
      (case lookupArchiveByUploadHash now archiveID h s of
         (Inl a, s1) \<Rightarrow> (a, s1)
       | (Inr archive, s1) \<Rightarrow>
      (if la_Finalized archive then (Fail 409 ''archive already finalized'', s1)
       else if idx \<ge> la_TotalChunks archive then (Fail 400 ''idx out of range'', s1)
       else case decodeHashB64 hash_header of
         None \<Rightarrow> (Fail 400 ''X-Chunk-Sha256 header is required (base64 sha256)'', s1)
       | Some declaredHash \<Rightarrow>
      (if int (length body) > linkArchiveChunkBodyMax then (Fail 413 ''chunk exceeds maximum size'', s1)
       else if body = [] then (Fail 400 ''chunk body is empty'', s1)
       else store_chunk E now archiveID idx declaredHash body s1)))))"

text \<open>After an upload to S3 the chunk row is written here; for PostgreSQL it has been.\<close>

definition confirm_s3 ::
  "'o archive_env \<Rightarrow> (string \<Rightarrow> ('o, bytes) store_op) \<Rightarrow> time \<Rightarrow> string \<Rightarrow> int \<Rightarrow> bytes \<Rightarrow> int \<Rightarrow> 'o archive_store \<Rightarrow>
   archive_answer \<times> 'o archive_store" where
  "confirm_s3 E stat now archiveID idx declaredHash chunkSize s =
     (case stat (storage_key archiveID idx) s of
        (Inl e, s1) \<Rightarrow> (if e = ErrNotFound then Fail 404 ''chunk not found in storage'' else Fail 500 ''could not verify chunk'', s1)
      | (Inr stored, s1) \<Rightarrow>
      (if stored = [] then (Fail 422 ''chunk uploaded without x-amz-checksum-sha256; reupload with the checksum header'', s1)
       else if \<not> slicesEqualConstantTime stored declaredHash
       then (Fail 422 ''stored checksum does not match declared hash'', snd (Delete (backend E) (storage_key archiveID idx) s1))
       else case on_db (InsertLinkArchiveChunk
               \<lparr>lc_ArchiveID = archiveID, lc_Idx = idx, lc_ChunkSize = chunkSize, lc_ChunkHash = declaredHash,
                lc_StorageBackend = Kind (backend E), lc_StorageKey = storage_key archiveID idx\<rparr>) s1 of
         (Inl e, s2) \<Rightarrow> (if e = ErrLinkArchiveChunkConflict then Fail 409 ''chunk hash conflict for index''
                         else Fail 500 ''could not confirm chunk'', s2)
       | (Inr _, s2) \<Rightarrow> (Done 204 NoContent, refreshArchive now archiveID s2)))"

definition linkArchiveConfirmChunk ::
  "'o archive_env \<Rightarrow> time \<Rightarrow> string \<Rightarrow> string \<Rightarrow> string \<Rightarrow> (string \<times> int) option \<Rightarrow> 'o archive_store \<Rightarrow>
   archive_answer \<times> 'o archive_store" where
  "linkArchiveConfirmChunk E now archiveID idx_param token body s =
     (case parse_idx idx_param of
        None \<Rightarrow> (Fail 400 ''invalid idx'', s)
      | Some idx \<Rightarrow>
      (case requireTokenHash E token of
         None \<Rightarrow> (Fail 401 ''missing X-Upload-Token'', s)
       | Some h \<Rightarrow>
      (case lookupArchiveByUploadHash now archiveID h s of
         (Inl a, s1) \<Rightarrow> (a, s1)
       | (Inr archive, s1) \<Rightarrow>
      (if la_Finalized archive then (Fail 409 ''archive already finalized'', s1)
       else if idx \<ge> la_TotalChunks archive then (Fail 400 ''idx out of range'', s1)
       else case body of
         None \<Rightarrow> (Fail 400 ''invalid body'', s1)
       | Some (sha, chunkSize) \<Rightarrow>
      (case decodeHashB64 sha of
         None \<Rightarrow> (Fail 400 ''chunkSha256 must be base64 sha256'', s1)
       | Some declaredHash \<Rightarrow>
      (if chunkSize \<le> 0 \<or> chunkSize > linkArchiveChunkBodyMax then (Fail 400 ''chunkSize out of range'', s1)
       else case StatChecksum (backend E) of
         Some stat \<Rightarrow> confirm_s3 E stat now archiveID idx declaredHash chunkSize s1
       | None \<Rightarrow>
      (case Exists (backend E) (storage_key archiveID idx) s1 of
         (Inr True, s2) \<Rightarrow> (Done 204 NoContent, refreshArchive now archiveID s2)
       | (_, s2) \<Rightarrow> (Fail 404 ''chunk not found in storage'', s2))))))))"

section \<open>Finalizing\<close>

text \<open>The Go map of the chunk rows by index: a later row replaces an earlier one.\<close>

definition present_map :: "LinkArchiveChunkRow list \<Rightarrow> int \<Rightarrow> LinkArchiveChunkRow option" where
  "present_map chunks = map_of (rev (map (\<lambda>c. (lc_Idx c, c)) chunks))"

definition missing_chunks :: "LinkArchiveChunkRow list \<Rightarrow> int \<Rightarrow> int list" where
  "missing_chunks chunks n = filter (\<lambda>i. present_map chunks i = None) [0..n - 1]"

text \<open>The loop over the indices: the hashes that are written to the digest, and the sum of the sizes.\<close>

fun manifest_loop :: "(int \<Rightarrow> LinkArchiveChunkRow option) \<Rightarrow> int list \<Rightarrow> bytes \<Rightarrow> int \<Rightarrow> bytes \<times> int" where
  "manifest_loop present [] digest totalBytes = (digest, totalBytes)"
| "manifest_loop present (i # is) digest totalBytes =
     (case present i of
        None \<Rightarrow> manifest_loop present is digest totalBytes
      | Some row \<Rightarrow> manifest_loop present is (digest @ lc_ChunkHash row) (int64 (totalBytes + lc_ChunkSize row)))"

definition check_complete :: "'o archive_env \<Rightarrow> LinkArchive \<Rightarrow> LinkArchiveChunkRow list \<Rightarrow> archive_answer option" where
  "check_complete E archive chunks =
     (let missing = missing_chunks chunks (la_TotalChunks archive);
          (digest, totalBytes) = manifest_loop (present_map chunks) [0..la_TotalChunks archive - 1] [] 0
      in if missing \<noteq> [] then Some (Done 409 (Incomplete missing))
         else if \<not> slicesEqualConstantTime (av_sha256 E digest) (la_ManifestHash archive)
         then Some (Fail 422 ''manifest hash mismatch'')
         else if totalBytes \<noteq> la_TotalBytes archive then Some (Fail 422 ''total bytes mismatch'')
         else None)"

definition linkArchiveFinalize ::
  "'o archive_env \<Rightarrow> time \<Rightarrow> string \<Rightarrow> string \<Rightarrow> 'o archive_store \<Rightarrow> archive_answer \<times> 'o archive_store" where
  "linkArchiveFinalize E now archiveID token s =
     (case requireTokenHash E token of
        None \<Rightarrow> (Fail 401 ''missing X-Upload-Token'', s)
      | Some h \<Rightarrow>
      (case lookupArchiveByUploadHash now archiveID h s of
         (Inl a, s1) \<Rightarrow> (a, s1)
       | (Inr archive, s1) \<Rightarrow>
      (if la_Finalized archive then (Done 200 StatusOk, s1)
       else case on_db (ListLinkArchiveChunkRows archiveID) s1 of
         (Inl _, s2) \<Rightarrow> (Fail 500 ''could not enumerate chunks'', s2)
       | (Inr chunks, s2) \<Rightarrow>
      (case check_complete E archive chunks of
         Some a \<Rightarrow> (a, s2)
       | None \<Rightarrow>
      (case on_db (MarkLinkArchiveFinalized archiveID) s2 of
         (Inl _, s3) \<Rightarrow> (Fail 500 ''could not finalize archive'', s3)
       | (Inr _, s3) \<Rightarrow>
           (let s4 = snd (on_db (TransitionLinkArchiveState archiveID StateUploaded [StateUploading, StateUploadPaused]) s3);
                s5 = snd (on_db (TransitionLinkArchiveState archiveID StateAvailable [StateUploaded]) s4)
            in (Done 200 StatusOk, refreshArchive now archiveID s5)))))))"

section \<open>Downloading\<close>

text \<open>\<open>hashes[c.Idx]\<close> panics when the index is outside; \<open>None\<close> is that panic.\<close>

fun fill_hashes :: "LinkArchiveChunkRow list \<Rightarrow> string list \<Rightarrow> string list option" where
  "fill_hashes [] hs = Some hs"
| "fill_hashes (c # cs) hs =
     (if 0 \<le> lc_Idx c \<and> lc_Idx c < int (length hs)
      then fill_hashes cs (hs[nat (lc_Idx c) := EncodeToString StdEncoding (lc_ChunkHash c)]) else None)"

definition linkArchiveManifest ::
  "'o archive_env \<Rightarrow> time \<Rightarrow> string \<Rightarrow> string \<Rightarrow> 'o archive_store \<Rightarrow> archive_answer \<times> 'o archive_store" where
  "linkArchiveManifest E now archiveID token s =
     (case requireTokenHash E token of
        None \<Rightarrow> (Fail 401 ''missing X-Download-Token'', s)
      | Some h \<Rightarrow>
      (case lookupArchiveByDownloadHash now archiveID h s of
         (Inl a, s1) \<Rightarrow> (a, s1)
       | (Inr archive, s1) \<Rightarrow>
      (if \<not> la_Finalized archive then (Fail 425 ''archive not finalized'', s1)
       else case on_db (ListLinkArchiveChunkRows archiveID) s1 of
         (Inl _, s2) \<Rightarrow> (Fail 500 ''could not read manifest'', s2)
       | (Inr chunks, s2) \<Rightarrow>
      (case fill_hashes chunks (replicate (nat (la_TotalChunks archive)) []) of
         None \<Rightarrow> (Fail 500 [], s2)
       | Some hashes \<Rightarrow>
           (Done 200 (Manifest \<lparr>mf_totalChunks = la_TotalChunks archive, mf_chunkSize = la_ChunkSize archive,
              mf_totalBytes = la_TotalBytes archive,
              mf_manifestHash = EncodeToString StdEncoding (la_ManifestHash archive),
              mf_archiveSha256 = EncodeToString StdEncoding (la_ArchiveSHA256 archive),
              mf_chunkHashes = hashes, mf_expiresAt = la_ExpiresAt archive\<rparr>),
            refreshArchive now archiveID s2)))))"

definition linkArchiveDownloadChunk ::
  "'o archive_env \<Rightarrow> time \<Rightarrow> string \<Rightarrow> string \<Rightarrow> string \<Rightarrow> 'o archive_store \<Rightarrow> archive_answer \<times> 'o archive_store" where
  "linkArchiveDownloadChunk E now archiveID idx_param token s =
     (case parse_idx idx_param of
        None \<Rightarrow> (Fail 400 ''invalid idx'', s)
      | Some idx \<Rightarrow>
      (case requireTokenHash E token of
         None \<Rightarrow> (Fail 401 ''missing X-Download-Token'', s)
       | Some h \<Rightarrow>
      (case lookupArchiveByDownloadHash now archiveID h s of
         (Inl a, s1) \<Rightarrow> (a, s1)
       | (Inr archive, s1) \<Rightarrow>
      (if \<not> la_Finalized archive then (Fail 425 ''archive not finalized'', s1)
       else if idx \<ge> la_TotalChunks archive then (Fail 400 ''idx out of range'', s1)
       else case on_db (GetLinkArchiveChunkPointer archiveID idx) s1 of
         (Inl e, s2) \<Rightarrow> (if e = ArNoRows then Fail 404 ''chunk not found'' else Fail 500 ''could not read chunk metadata'', s2)
       | (Inr (_, storageKey), s2) \<Rightarrow>
      (case Get (backend E) storageKey s2 of
         (Inl e, s3) \<Rightarrow> (if e = ErrNotFound then Fail 404 ''chunk not found'' else Fail 500 ''could not read chunk'', s3)
       | (Inr b, s3) \<Rightarrow> (Done 200 (Chunk b), refreshArchive now archiveID s3))))))"

definition linkArchiveAck ::
  "'o archive_env \<Rightarrow> time \<Rightarrow> string \<Rightarrow> string \<Rightarrow> 'o archive_store \<Rightarrow> archive_answer \<times> 'o archive_store" where
  "linkArchiveAck E now archiveID token s =
     (case requireTokenHash E token of
        None \<Rightarrow> (Fail 401 ''missing X-Download-Token'', s)
      | Some h \<Rightarrow>
      (case lookupArchiveByDownloadHash now archiveID h s of
         (Inl a, s1) \<Rightarrow> (a, s1)
       | (Inr archive, s1) \<Rightarrow>
      (case on_db (TransitionLinkArchiveState (la_ID archive) StateAcknowledged
               [StateAvailable, StateImporting, StateImportPaused, StateImported]) s1 of
         (Inl e, s2) \<Rightarrow> (if e = ArNoRows then Fail 409 ''archive not in an ack-able state'' else Fail 500 ''could not ack archive'', s2)
       | (Inr _, s2) \<Rightarrow> (Done 204 NoContent, s2))))"

section \<open>The routes\<close>

datatype archive_request =
    AInit string "bytes option" "bytes option" string "archive_init option"
  | AUploadWindow string string "(int \<times> int) option"
  | AConfirm string string string "(string \<times> int) option"
  | AUpload string string string string bytes
  | AFinalize string string
  | AManifest string string
  | ADownloadWindow string string "(int \<times> int) option"
  | ADownload string string string
  | AAck string string
  | ADelete string string string
  | APurgerTick

fun ArchiveRoutes :: "'o archive_env \<Rightarrow> time \<Rightarrow> archive_request \<Rightarrow> 'o archive_store \<Rightarrow> archive_answer \<times> 'o archive_store" where
  "ArchiveRoutes E now (AInit i r1 r2 u b) s = linkArchiveInit E now i r1 r2 u b s"
| "ArchiveRoutes E now (AUploadWindow i t b) s = linkArchiveUploadWindow E now i t b s"
| "ArchiveRoutes E now (AConfirm i x t b) s = linkArchiveConfirmChunk E now i x t b s"
| "ArchiveRoutes E now (AUpload i x t h b) s = linkArchiveUploadChunk E now i x t h b s"
| "ArchiveRoutes E now (AFinalize i t) s = linkArchiveFinalize E now i t s"
| "ArchiveRoutes E now (AManifest i t) s = linkArchiveManifest E now i t s"
| "ArchiveRoutes E now (ADownloadWindow i t b) s = linkArchiveDownloadWindow E now i t b s"
| "ArchiveRoutes E now (ADownload i x t) s = linkArchiveDownloadChunk E now i x t s"
| "ArchiveRoutes E now (AAck i t) s = linkArchiveAck E now i t s"
| "ArchiveRoutes E now (ADelete i tu td) s = linkArchiveDelete E now i tu td s"
| "ArchiveRoutes E now APurgerTick s = (Done 204 NoContent, runPurgerTick E now s)"

end
