(* ===== verification/Archive_Facts.thy ===== *)
theory Archive_Facts
  imports Archives Handler_Rules
begin

text \<open>
  The transfer of archives as an abstract machine over the catalogue, the rows of archives and
  chunks: its steps are an inductive relation, and every request is a finite run of it, for any object
  store that keeps the contract \<open>object_store\<close>.
\<close>

type_synonym catalog = "LinkArchive list \<times> LinkArchiveChunkRow list"

definition catalog :: "'o archive_store \<Rightarrow> catalog" where
  "catalog s = (link_archives (ar_db s), link_archive_chunks (ar_db s))"

section \<open>The contract of an object store\<close>

text \<open>
  \<open>stored\<close> is what lies under a key. A \<open>Put\<close> that succeeds answers with the hash of what it was
  given and leaves something under the key, the new bytes or what was there; one that fails may have
  written. No call touches the catalogue.
\<close>

locale object_store =
  fixes E :: "'o archive_env"
    and stored :: "'o archive_store \<Rightarrow> string \<Rightarrow> bytes option"
  assumes put_catalog: "Put (backend E) k b s = (r, s') \<Longrightarrow> catalog s' = catalog s"
    and put_hash: "Put (backend E) k b s = (Inr h, s') \<Longrightarrow> h = av_sha256 E b"
    and put_stored: "Put (backend E) k b s = (r, s') \<Longrightarrow>
      (\<forall>k'. k' \<noteq> k \<longrightarrow> stored s' k' = stored s k') \<and> (stored s' k = stored s k \<or> stored s' k = Some b)"
    and delete_catalog: "Delete (backend E) k s = (r2, s') \<Longrightarrow> catalog s' = catalog s"
    and delete_stored: "Delete (backend E) k s = (r2, s') \<Longrightarrow>
      (\<forall>k'. k' \<noteq> k \<longrightarrow> stored s' k' = stored s k') \<and> (stored s' k = stored s k \<or> stored s' k = None)"
    and get_catalog: "Get (backend E) k s = (r3, s') \<Longrightarrow> catalog s' = catalog s \<and> stored s' = stored s"
    and get_stored: "Get (backend E) k s = (Inr b, s') \<Longrightarrow> stored s k = Some b"
    and exists_catalog: "Exists (backend E) k s = (r4, s') \<Longrightarrow> catalog s' = catalog s \<and> stored s' = stored s"
    and stat_catalog: "StatChecksum (backend E) = Some stat \<Longrightarrow> stat k s = (r5, s') \<Longrightarrow>
      catalog s' = catalog s \<and> stored s' = stored s"
    and query_stored: "chunk_blobs d = chunk_blobs (ar_db s) \<Longrightarrow> stored (s\<lparr>ar_db := d\<rparr>) = stored s"

section \<open>The abstract machine\<close>

definition archive_edges :: "(LinkArchiveState list \<times> LinkArchiveState) list" where
  "archive_edges =
     [([StateCreated], StateUploading), ([StateUploading, StateUploadPaused], StateUploaded),
      ([StateUploaded], StateAvailable),
      ([StateAvailable, StateImporting, StateImportPaused, StateImported], StateAcknowledged)]"

text \<open>When an archive may be opened: a fresh identifier, within the quota of its user and the cap.\<close>

definition admissible :: "'o archive_env \<Rightarrow> LinkArchive list \<Rightarrow> LinkArchive \<Rightarrow> bool" where
  "admissible E as a \<longleftrightarrow>
     (\<forall>x \<in> set as. la_ID x \<noteq> la_ID a) \<and> \<not> la_Finalized a \<and> la_State a = StateCreated \<and>
     0 < la_TotalChunks a \<and> la_TotalChunks a < 2 ^ 31 \<and> 0 < la_TotalBytes a \<and>
     la_TotalBytes a \<le> int64 (la_TotalChunks a * linkArchiveChunkBodyMax) \<and>
     int (sql_count (\<lambda>x. la_UserID x = la_UserID a \<and> archive_active x) as) < archiveQuotaForUser E \<and>
     int64 (active_bytes as + la_TotalBytes a) \<le> instanceStagingBytesCap E \<and> la_ExpiresAt a \<le> la_HardDeadlineAt a"

definition rows_of :: "string \<Rightarrow> LinkArchiveChunkRow list \<Rightarrow> LinkArchiveChunkRow list" where
  "rows_of i cs = sort_key lc_Idx (filter (\<lambda>c. lc_ArchiveID c = i) cs)"

definition chunk_for :: "LinkArchive \<Rightarrow> LinkArchiveChunkRow \<Rightarrow> bool" where
  "chunk_for a c \<longleftrightarrow> lc_ArchiveID c = la_ID a \<and> 0 \<le> lc_Idx c \<and> lc_Idx c < la_TotalChunks a \<and>
     0 < lc_ChunkSize c \<and> lc_ChunkSize c \<le> linkArchiveChunkBodyMax \<and> lc_StorageKey c = storage_key (la_ID a) (lc_Idx c)"

inductive archive_step :: "'o archive_env \<Rightarrow> catalog \<Rightarrow> catalog \<Rightarrow> bool" for E where
  opened: "admissible E as a \<Longrightarrow> archive_step E (as, cs) (as @ [a], cs)"
| chunked: "a \<in> set as \<Longrightarrow> \<not> la_Finalized a \<Longrightarrow> chunk_for a c \<Longrightarrow> \<not> sql_exists (chunk_is (la_ID a) (lc_Idx c)) cs \<Longrightarrow>
    archive_step E (as, cs) (as, cs @ [c])"
| finalized: "a \<in> set as \<Longrightarrow> check_complete E a (rows_of (la_ID a) cs) = None \<Longrightarrow>
    archive_step E (as, cs) (sql_update (\<lambda>x. la_ID x = la_ID a) (\<lambda>x. x\<lparr>la_Finalized := True\<rparr>) as, cs)"
| moved: "(from_states, to_state) \<in> set archive_edges \<Longrightarrow>
    (to_state = StateUploaded \<Longrightarrow> \<forall>x \<in> set as. la_ID x = i \<longrightarrow> la_Finalized x) \<Longrightarrow>
    archive_step E (as, cs)
      (sql_update (\<lambda>x. la_ID x = i \<and> la_State x \<in> set from_states) (\<lambda>x. x\<lparr>la_State := to_state\<rparr>) as, cs)"
| touched: "archive_step E (as, cs)
    (sql_update (\<lambda>x. la_ID x = i) (\<lambda>x. x\<lparr>la_ExpiresAt := min t (la_HardDeadlineAt x)\<rparr>) as, cs)"
| removed: "archive_step E (as, cs) (sql_delete (\<lambda>x. la_ID x = i) as, sql_delete (\<lambda>c. lc_ArchiveID c = i) cs)"

abbreviation archive_run :: "'o archive_env \<Rightarrow> catalog \<Rightarrow> catalog \<Rightarrow> bool" where
  "archive_run E \<equiv> rtranclp (archive_step E)"

section \<open>Queries as runs\<close>

text \<open>The store reached so far, in the proofs about a handler.\<close>

definition runs :: "'o archive_env \<Rightarrow> 'o archive_store \<Rightarrow> 'o archive_store \<Rightarrow> bool" where
  "runs E s s' \<longleftrightarrow> archive_run E (catalog s) (catalog s')"

lemma runs_refl: "runs E s s"
  by (simp add: runs_def)

lemma runs_trans: "runs E s s1 \<Longrightarrow> runs E s1 s2 \<Longrightarrow> runs E s s2"
  by (auto simp: runs_def)

lemma runs_same: "catalog s' = catalog s \<Longrightarrow> runs E s0 s \<Longrightarrow> runs E s0 s'"
  by (simp add: runs_def)

lemma runs_step: "archive_step E (catalog s) (catalog s') \<Longrightarrow> runs E s0 s \<Longrightarrow> runs E s0 s'"
  by (auto simp: runs_def intro: rtranclp.rtrancl_into_rtrancl)

lemma ar_query_cases:
  assumes "ar_query q d = (r, d')"
  obtains (outage) fs where "r = Inl ArOutage" "d' = d\<lparr>archive_faults := fs\<rparr>"
    | (answer) fs where "q (d\<lparr>archive_faults := fs\<rparr>) = (r, d')"
  using assms by (auto simp: ar_query_def split: prod.splits bool.splits)

lemma on_db_cases:
  assumes "on_db q s = (r, s')"
  obtains d where "q (ar_db s) = (r, d)" "s' = s\<lparr>ar_db := d\<rparr>"
  using assms by (auto simp: on_db_def split: prod.splits)

text \<open>Reading queries.\<close>

definition reads :: "'a archive_query \<Rightarrow> bool" where
  "reads q \<longleftrightarrow> (\<forall>d r d'. q d = (r, d') \<longrightarrow> link_archives d' = link_archives d \<and>
     link_archive_chunks d' = link_archive_chunks d \<and> chunk_blobs d' = chunk_blobs d)"

lemma reads_catalog: "on_db q s = (r, s') \<Longrightarrow> reads q \<Longrightarrow> catalog s' = catalog s"
  by (auto simp: reads_def catalog_def elim!: on_db_cases)

lemma reads_ar:
  assumes "\<And>d. snd (q d) = d"
  shows "reads (ar_query q)"
  unfolding reads_def
proof (intro allI impI)
  fix d r d'
  assume "ar_query q d = (r, d')"
  then show "link_archives d' = link_archives d \<and> link_archive_chunks d' = link_archive_chunks d \<and>
      chunk_blobs d' = chunk_blobs d"
  proof (cases rule: ar_query_cases)
    case (answer fs)
    then have "d' = d\<lparr>archive_faults := fs\<rparr>" using assms [of "d\<lparr>archive_faults := fs\<rparr>"] by simp
    then show ?thesis by simp
  qed simp
qed

lemma reads_queries:
  "reads (CountActiveLinkArchivesForUser u)" "reads (ListSupersedableLinkArchivesForUser u t)"
  "reads SumActiveLinkArchiveBytes" "reads (GetLinkArchiveByUploadTokenHash now i h)"
  "reads (GetLinkArchiveByDownloadTokenHash now i h)" "reads (GetLinkArchiveByID now i)"
  "reads (ListGcEligibleLinkArchives now n)" "reads (GetLinkArchiveChunkPointer i x)"
  "reads (ListLinkArchiveChunkRows i)" "reads (select_chunk_hash i x)"
  unfolding CountActiveLinkArchivesForUser_def ListSupersedableLinkArchivesForUser_def SumActiveLinkArchiveBytes_def
    GetLinkArchiveByUploadTokenHash_def GetLinkArchiveByDownloadTokenHash_def GetLinkArchiveByID_def
    ListGcEligibleLinkArchives_def GetLinkArchiveChunkPointer_def ListLinkArchiveChunkRows_def select_chunk_hash_def
  by (rule reads_ar; simp)+

lemmas runs_read = reads_catalog [THEN runs_same, OF _ reads_queries(1)] reads_catalog [THEN runs_same, OF _ reads_queries(2)]
  reads_catalog [THEN runs_same, OF _ reads_queries(3)] reads_catalog [THEN runs_same, OF _ reads_queries(4)]
  reads_catalog [THEN runs_same, OF _ reads_queries(5)] reads_catalog [THEN runs_same, OF _ reads_queries(7)]
  reads_catalog [THEN runs_same, OF _ reads_queries(8)] reads_catalog [THEN runs_same, OF _ reads_queries(9)]

text \<open>Writing queries are one step or none.\<close>

lemma ar_query_catalog:
  assumes "on_db (ar_query q) s = (r, s')"
    and "\<And>d r d'. q d = (r, d') \<Longrightarrow> link_archives d = fst (catalog s) \<Longrightarrow> link_archive_chunks d = snd (catalog s) \<Longrightarrow>
      P r (link_archives d', link_archive_chunks d')"
    and "P (Inl ArOutage) (catalog s)"
  shows "P r (catalog s')"
proof -
  obtain d where d: "ar_query q (ar_db s) = (r, d)" "s' = s\<lparr>ar_db := d\<rparr>" using assms(1) by (rule on_db_cases)
  show ?thesis
    using d(1)
  proof (cases rule: ar_query_cases)
    case (outage fs)
    then have "catalog s' = catalog s" using d(2) by (simp add: catalog_def)
    then show ?thesis using outage assms(3) by simp
  next
    case (answer fs)
    have "P r (link_archives d, link_archive_chunks d)"
      by (rule assms(2) [OF answer]) (simp_all add: catalog_def)
    then show ?thesis using d(2) by (simp add: catalog_def)
  qed
qed

lemma insert_archive_catalog:
  assumes "on_db (InsertLinkArchive now newID i) s = (r, s')"
  shows "catalog s' = catalog s \<and> isl r \<or>
    catalog s' = (fst (catalog s) @ [new_archive now newID i], snd (catalog s)) \<and>
    (\<forall>x \<in> set (fst (catalog s)). la_ID x \<noteq> newID) \<and> 0 < li_TotalChunks i \<and> li_TotalChunks i < 2 ^ 31 \<and>
    0 < li_TotalBytes i \<and> (\<forall>a. r = Inr a \<longrightarrow> a = new_archive now newID i)"
  using assms unfolding InsertLinkArchive_def
proof (rule ar_query_catalog [where P = "\<lambda>r c. c = catalog s \<and> isl r \<or>
    c = (fst (catalog s) @ [new_archive now newID i], snd (catalog s)) \<and>
    (\<forall>x \<in> set (fst (catalog s)). la_ID x \<noteq> newID) \<and> 0 < li_TotalChunks i \<and> li_TotalChunks i < 2 ^ 31 \<and>
    0 < li_TotalBytes i \<and> (\<forall>a. r = Inr a \<longrightarrow> a = new_archive now newID i)"], goal_cases)
  case (1 d r d')
  then show ?case by (auto simp: scanLinkArchive_def sql split: if_splits)
qed simp

lemma transition_catalog:
  assumes "on_db (TransitionLinkArchiveState i to_state from_states) s = (r, s')"
  shows "catalog s' = catalog s \<or>
    catalog s' = (sql_update (\<lambda>x. la_ID x = i \<and> la_State x \<in> set from_states) (\<lambda>x. x\<lparr>la_State := to_state\<rparr>) (fst (catalog s)),
      snd (catalog s))"
  using assms unfolding TransitionLinkArchiveState_def
  by (rule ar_query_catalog [where P = "\<lambda>r c. c = catalog s \<or> c = (sql_update (\<lambda>x. la_ID x = i \<and> la_State x \<in> set from_states)
      (\<lambda>x. x\<lparr>la_State := to_state\<rparr>) (fst (catalog s)), snd (catalog s))"]) (auto simp: Let_def)

lemma refresh_catalog:
  "catalog (refreshArchive now i s) = catalog s \<or>
   catalog (refreshArchive now i s) = (sql_update (\<lambda>x. la_ID x = i)
      (\<lambda>x. x\<lparr>la_ExpiresAt := min (now + linkArchiveDefaultExpiry) (la_HardDeadlineAt x)\<rparr>) (fst (catalog s)), snd (catalog s))"
proof -
  obtain r s' where r: "on_db (RefreshLinkArchiveExpiry now i linkArchiveDefaultExpiry) s = (r, s')" by (metis surj_pair)
  have "catalog s' = catalog s \<or> catalog s' = (sql_update (\<lambda>x. la_ID x = i)
      (\<lambda>x. x\<lparr>la_ExpiresAt := min (now + linkArchiveDefaultExpiry) (la_HardDeadlineAt x)\<rparr>) (fst (catalog s)), snd (catalog s))"
    using r unfolding RefreshLinkArchiveExpiry_def
    by (rule ar_query_catalog [where P = "\<lambda>r c. c = catalog s \<or> c = (sql_update (\<lambda>x. la_ID x = i)
        (\<lambda>x. x\<lparr>la_ExpiresAt := min (now + linkArchiveDefaultExpiry) (la_HardDeadlineAt x)\<rparr>) (fst (catalog s)), snd (catalog s))"]) auto
  then show ?thesis by (simp add: refreshArchive_def r)
qed

lemma mark_catalog:
  assumes "on_db (MarkLinkArchiveFinalized i) s = (r, s')"
  shows "catalog s' = catalog s \<and> isl r \<or> catalog s' =
    (sql_update (\<lambda>x. la_ID x = i) (\<lambda>x. x\<lparr>la_Finalized := True\<rparr>) (fst (catalog s)), snd (catalog s))"
  using assms unfolding MarkLinkArchiveFinalized_def
  by (rule ar_query_catalog [where P = "\<lambda>r c. c = catalog s \<and> isl r \<or>
      c = (sql_update (\<lambda>x. la_ID x = i) (\<lambda>x. x\<lparr>la_Finalized := True\<rparr>) (fst (catalog s)), snd (catalog s))"]) auto

lemma delete_catalog_query:
  assumes "on_db (DeleteLinkArchive i) s = (r, s')"
  shows "catalog s' = catalog s \<or> catalog s' =
    (sql_delete (\<lambda>x. la_ID x = i) (fst (catalog s)), sql_delete (\<lambda>c. lc_ArchiveID c = i) (snd (catalog s)))"
  using assms unfolding DeleteLinkArchive_def
  by (rule ar_query_catalog [where P = "\<lambda>r c. c = catalog s \<or>
      c = (sql_delete (\<lambda>x. la_ID x = i) (fst (catalog s)), sql_delete (\<lambda>c. lc_ArchiveID c = i) (snd (catalog s)))"]) auto

lemma insert_chunk_catalog:
  assumes "on_db (insert_chunk c) s = (r, s')"
  shows "catalog s' = catalog s \<or> catalog s' = (fst (catalog s), snd (catalog s) @ [c]) \<and>
    \<not> sql_exists (chunk_is (lc_ArchiveID c) (lc_Idx c)) (snd (catalog s))"
  using assms unfolding insert_chunk_def
  by (rule ar_query_catalog [where P = "\<lambda>r d. d = catalog s \<or> d = (fst (catalog s), snd (catalog s) @ [c]) \<and>
      \<not> sql_exists (chunk_is (lc_ArchiveID c) (lc_Idx c)) (snd (catalog s))"]) (auto split: if_splits)

lemma insert_chunk_row_catalog:
  assumes "on_db (InsertLinkArchiveChunk c) s = (r, s')"
  shows "catalog s' = catalog s \<or> catalog s' = (fst (catalog s), snd (catalog s) @ [c]) \<and>
    \<not> sql_exists (chunk_is (lc_ArchiveID c) (lc_Idx c)) (snd (catalog s))"
proof -
  obtain d where d: "InsertLinkArchiveChunk c (ar_db s) = (r, d)" "s' = s\<lparr>ar_db := d\<rparr>" using assms by (rule on_db_cases)
  obtain x d1 where x: "insert_chunk c (ar_db s) = (x, d1)" by (metis surj_pair)
  have one: "on_db (insert_chunk c) s = (x, s\<lparr>ar_db := d1\<rparr>)" by (simp add: on_db_def x)
  have "catalog s' = catalog (s\<lparr>ar_db := d1\<rparr>)"
  proof (cases "x = Inr False")
    case True
    obtain y d2 where y: "select_chunk_hash (lc_ArchiveID c) (lc_Idx c) d1 = (y, d2)" by (metis surj_pair)
    have "d2 = d" using d(1) x y True by (auto simp: InsertLinkArchiveChunk_def split: sum.splits)
    then show ?thesis
      using reads_queries(10) y d(2) unfolding reads_def by (auto simp: catalog_def)
  next
    case False
    then have "d1 = d" using d(1) x by (auto simp: InsertLinkArchiveChunk_def split: sum.splits bool.splits)
    then show ?thesis by (simp add: d(2))
  qed
  then show ?thesis using insert_chunk_catalog [OF one] by simp
qed

text \<open>The rules for handlers.\<close>

lemma runs_transition:
  assumes "runs E s0 s" and "(from_states, to_state) \<in> set archive_edges"
    and "to_state = StateUploaded \<Longrightarrow> \<forall>x \<in> set (fst (catalog s)). la_ID x = i \<longrightarrow> la_Finalized x"
  shows "runs E s0 (snd (on_db (TransitionLinkArchiveState i to_state from_states) s))"
proof -
  obtain r s' where r: "on_db (TransitionLinkArchiveState i to_state from_states) s = (r, s')" by (metis surj_pair)
  obtain as cs where c: "catalog s = (as, cs)" by (metis surj_pair)
  have "catalog s' = catalog s \<or> archive_step E (catalog s) (catalog s')"
    using transition_catalog [OF r] archive_step.moved [OF assms(2), of as i E cs] assms(3) by (auto simp: c)
  then show ?thesis using assms(1) by (auto simp: r intro: runs_same runs_step)
qed

lemma runs_refresh:
  assumes "runs E s0 s"
  shows "runs E s0 (refreshArchive now i s)"
proof -
  obtain as cs where c: "catalog s = (as, cs)" by (metis surj_pair)
  have "catalog (refreshArchive now i s) = catalog s \<or> archive_step E (catalog s) (catalog (refreshArchive now i s))"
    using refresh_catalog [of now i s] archive_step.touched [of E as cs i "now + linkArchiveDefaultExpiry"] by (auto simp: c)
  then show ?thesis using assms by (auto intro: runs_same runs_step)
qed

lemma runs_delete: "on_db (DeleteLinkArchive i) s = (r, s') \<Longrightarrow> runs E s0 s \<Longrightarrow> runs E s0 s'"
proof -
  assume r: "on_db (DeleteLinkArchive i) s = (r, s')" and s: "runs E s0 s"
  obtain as cs where c: "catalog s = (as, cs)" by (metis surj_pair)
  have "catalog s' = catalog s \<or> archive_step E (catalog s) (catalog s')"
    using delete_catalog_query [OF r] archive_step.removed [of E as cs i] by (auto simp: c)
  then show "runs E s0 s'" using s by (auto intro: runs_same runs_step)
qed

lemma runs_chunk:
  assumes "on_db (InsertLinkArchiveChunk c) s = (r, s')" and "runs E s0 s"
    and "a \<in> set (fst (catalog s))" "\<not> la_Finalized a" "chunk_for a c"
  shows "runs E s0 s'"
proof -
  obtain as cs where c: "catalog s = (as, cs)" by (metis surj_pair)
  have "lc_ArchiveID c = la_ID a" using assms(5) by (simp add: chunk_for_def)
  then have "catalog s' = catalog s \<or> archive_step E (catalog s) (catalog s')"
    using insert_chunk_row_catalog [OF assms(1)] archive_step.chunked [of a as c cs E] assms(3-5) by (auto simp: c)
  then show ?thesis using assms(2) by (auto intro: runs_same runs_step)
qed

section \<open>What the lookups know\<close>

lemma lookup_upload:
  assumes "lookupArchiveByUploadHash now i h s = (r, s1)"
  shows "catalog s1 = catalog s" and "r = Inr a \<Longrightarrow> a \<in> set (fst (catalog s)) \<and> la_ID a = i \<and> la_UploadTokenHash a = h"
proof -
  obtain x where x: "on_db (GetLinkArchiveByUploadTokenHash now i h) s = (x, s1)" "r = archiveOrError x"
    using assms by (auto simp: lookupArchiveByUploadHash_def split: prod.splits)
  show "catalog s1 = catalog s" by (rule reads_catalog [OF x(1) reads_queries(4)])
  assume "r = Inr a"
  then have "x = Inr a" using x(2) by (auto simp: archiveOrError_def split: sum.splits)
  then show "a \<in> set (fst (catalog s)) \<and> la_ID a = i \<and> la_UploadTokenHash a = h"
    using x(1) unfolding GetLinkArchiveByUploadTokenHash_def
    by (auto simp: catalog_def scanLinkArchive_def split: option.splits if_splits elim!: on_db_cases ar_query_cases
        dest: find_Some_iff_mem)
qed

lemma lookup_download:
  assumes "lookupArchiveByDownloadHash now i h s = (r, s1)"
  shows "catalog s1 = catalog s" and "r = Inr a \<Longrightarrow> a \<in> set (fst (catalog s)) \<and> la_ID a = i \<and> la_DownloadTokenHash a = h"
proof -
  obtain x where x: "on_db (GetLinkArchiveByDownloadTokenHash now i h) s = (x, s1)" "r = archiveOrError x"
    using assms by (auto simp: lookupArchiveByDownloadHash_def split: prod.splits)
  show "catalog s1 = catalog s" by (rule reads_catalog [OF x(1) reads_queries(5)])
  assume "r = Inr a"
  then have "x = Inr a" using x(2) by (auto simp: archiveOrError_def split: sum.splits)
  then show "a \<in> set (fst (catalog s)) \<and> la_ID a = i \<and> la_DownloadTokenHash a = h"
    using x(1) unfolding GetLinkArchiveByDownloadTokenHash_def
    by (auto simp: catalog_def scanLinkArchive_def split: option.splits if_splits elim!: on_db_cases ar_query_cases
        dest: find_Some_iff_mem)
qed

lemmas runs_lookup = lookup_upload(1) [THEN runs_same] lookup_download(1) [THEN runs_same]

lemma count_result:
  assumes "on_db (CountActiveLinkArchivesForUser u) s = (Inr n, s1)"
  shows "n = sql_count (\<lambda>x. la_UserID x = u \<and> archive_active x) (fst (catalog s)) \<and> catalog s1 = catalog s"
  using assms reads_catalog [OF assms reads_queries(1)]
  by (auto simp: CountActiveLinkArchivesForUser_def catalog_def elim!: on_db_cases ar_query_cases)

lemma sum_result:
  assumes "on_db SumActiveLinkArchiveBytes s = (Inr n, s1)"
  shows "n = active_bytes (fst (catalog s)) \<and> catalog s1 = catalog s"
  using assms reads_catalog [OF assms reads_queries(3)]
  by (auto simp: SumActiveLinkArchiveBytes_def catalog_def split: if_splits elim!: on_db_cases ar_query_cases)

lemma rows_result:
  assumes "on_db (ListLinkArchiveChunkRows i) s = (Inr cs, s1)"
  shows "cs = rows_of i (snd (catalog s)) \<and> catalog s1 = catalog s"
  using assms reads_catalog [OF assms reads_queries(9)]
  by (auto simp: ListLinkArchiveChunkRows_def rows_of_def catalog_def elim!: on_db_cases ar_query_cases)

section \<open>Every request is a run of the machine\<close>

lemma runs_insert:
  assumes r: "on_db (InsertLinkArchive now newID i) s = (r, s')" and "runs E s0 s"
    and "int (sql_count (\<lambda>x. la_UserID x = li_UserID i \<and> archive_active x) (fst (catalog s))) < archiveQuotaForUser E"
    and "int64 (active_bytes (fst (catalog s)) + li_TotalBytes i) \<le> instanceStagingBytesCap E"
    and "li_TotalBytes i \<le> int64 (li_TotalChunks i * linkArchiveChunkBodyMax)" "li_ExpiresAt i \<le> li_HardDeadlineAt i"
  shows "runs E s0 s'"
proof -
  obtain as cs where c: "catalog s = (as, cs)" by (metis surj_pair)
  consider "catalog s' = catalog s" | "catalog s' = (as @ [new_archive now newID i], cs)" "\<forall>x \<in> set as. la_ID x \<noteq> newID"
      "0 < li_TotalChunks i" "li_TotalChunks i < 2 ^ 31" "0 < li_TotalBytes i"
    using insert_archive_catalog [OF r] by (auto simp: c)
  then show ?thesis
  proof cases
    case 1
    then show ?thesis using assms(2) by (rule runs_same)
  next
    case 2
    have "admissible E as (new_archive now newID i)"
      using 2 assms(3-6) by (simp add: admissible_def new_archive_def c)
    then have "archive_step E (catalog s) (catalog s')" unfolding c 2(1) by (rule archive_step.opened)
    then show ?thesis using assms(2) by (rule runs_step)
  qed
qed

lemma check_init_props:
  "check_init req = Inr hashes \<Longrightarrow> 0 < ai_TotalChunks req \<and> 0 < ai_TotalBytes req \<and>
   ai_TotalBytes req \<le> int64 (ai_TotalChunks req * linkArchiveChunkBodyMax) \<and> ai_ChunkSize req = linkArchiveChunkSize \<and>
   decodeHashB64 (ai_ManifestHash req) = Some (fst hashes) \<and> decodeHashB64 (ai_ArchiveSHA256 req) = Some (snd hashes)"
  by (auto simp: check_init_def split: if_splits option.splits)

lemma allocate_runs:
  assumes "runs E s0 s" and "check_init req = Inr hashes"
    and "int (sql_count (\<lambda>x. la_UserID x = u \<and> archive_active x) (fst (catalog s))) < archiveQuotaForUser E"
    and "int64 (active_bytes (fst (catalog s)) + ai_TotalBytes req) \<le> instanceStagingBytesCap E"
  shows "ends (runs E s0) (allocate_archive E now newID u req hashes up down s)"
proof -
  note c = check_init_props [OF assms(2)]
  have d: "now + linkArchiveDefaultExpiry \<le> now + linkArchiveMaxLifetime"
    by (simp add: linkArchiveDefaultExpiry_def linkArchiveMaxLifetime_def)
  have u: "([StateCreated], StateUploading) \<in> set archive_edges" by (simp add: archive_edges_def)
  have ins: "runs E s0 s1" if "on_db (InsertLinkArchive now newID
             \<lparr>li_UserID = u, li_UploadTokenHash = snd up, li_DownloadTokenHash = snd down,
              li_TotalChunks = ai_TotalChunks req, li_TotalBytes = ai_TotalBytes req, li_ChunkSize = ai_ChunkSize req,
              li_ManifestHash = fst hashes, li_ArchiveSHA256 = snd hashes,
              li_ExpiresAt = now + linkArchiveDefaultExpiry, li_HardDeadlineAt = now + linkArchiveMaxLifetime\<rparr>) s = (r, s1)" for r s1
    by (rule runs_insert [OF that assms(1)]) (use assms(3,4) c d in simp_all)
  show ?thesis
    unfolding allocate_archive_def
    by (intro ends) (erule ins runs_transition [OF ins u]; simp)+
qed

lemma ball_sql_update: "(\<forall>y \<in> set (sql_update p f xs). Q y) \<longleftrightarrow> (\<forall>x \<in> set xs. Q (if p x then f x else x))"
  by (auto simp: sql_update_def)

lemma runs_mark:
  assumes "on_db (MarkLinkArchiveFinalized i) s = (r, s')" and "runs E s0 s"
    and "a \<in> set (fst (catalog s))" "la_ID a = i" "check_complete E a (rows_of i (snd (catalog s))) = None"
  shows "runs E s0 s'" and "r = Inr () \<Longrightarrow> \<forall>x \<in> set (fst (catalog s')). la_ID x = i \<longrightarrow> la_Finalized x"
proof -
  obtain as cs where c: "catalog s = (as, cs)" by (metis surj_pair)
  have st: "archive_step E (as, cs) (sql_update (\<lambda>x. la_ID x = i) (\<lambda>x. x\<lparr>la_Finalized := True\<rparr>) as, cs)"
    using archive_step.finalized [of a as E cs] assms(3-5) by (simp add: c)
  have m: "catalog s' = (as, cs) \<and> isl r \<or> catalog s' = (sql_update (\<lambda>x. la_ID x = i) (\<lambda>x. x\<lparr>la_Finalized := True\<rparr>) as, cs)"
    using mark_catalog [OF assms(1)] by (simp add: c)
  then show "runs E s0 s'"
  proof
    assume "catalog s' = (as, cs) \<and> isl r"
    then show ?thesis using runs_same [OF _ assms(2)] c by simp
  next
    assume e: "catalog s' = (sql_update (\<lambda>x. la_ID x = i) (\<lambda>x. x\<lparr>la_Finalized := True\<rparr>) as, cs)"
    show ?thesis by (rule runs_step [OF _ assms(2)]) (unfold c e, rule st)
  qed
  show "r = Inr () \<Longrightarrow> \<forall>x \<in> set (fst (catalog s')). la_ID x = i \<longrightarrow> la_Finalized x"
    using m by (elim disjE) (simp_all add: ball_sql_update)
qed

lemma transition_finalized:
  assumes "\<forall>x \<in> set (fst (catalog s)). la_ID x = i \<longrightarrow> la_Finalized x"
  shows "\<forall>x \<in> set (fst (catalog (snd (on_db (TransitionLinkArchiveState j t f) s)))). la_ID x = i \<longrightarrow> la_Finalized x"
proof -
  obtain r s' where r: "on_db (TransitionLinkArchiveState j t f) s = (r, s')" by (metis surj_pair)
  from transition_catalog [OF r] show ?thesis
    by (elim disjE) (use assms in \<open>simp_all add: r ball_sql_update\<close>)
qed

lemma finalize_runs: "ends (runs E s) (linkArchiveFinalize E now i token s)"
  unfolding linkArchiveFinalize_def
proof (intro ends, goal_cases)
  case 1
  show ?case by (rule runs_refl)
next
  case (2 h r s1 a)
  show ?case by (rule runs_lookup(1) [OF 2(2) runs_refl])
next
  case (3 h r s1 a)
  show ?case by (rule runs_lookup(1) [OF 3(2) runs_refl])
next
  case (4 h r s1 a ra s2 x)
  show ?case by (rule runs_read(8) [OF 4(5) runs_lookup(1) [OF 4(2) runs_refl]])
next
  case (5 h r s1 a ra s2 cs rb s3 x)
  have a: "a \<in> set (fst (catalog s1))" "la_ID a = i"
    using lookup_upload [OF 5(2)] 5(3) by auto
  have rows: "cs = rows_of i (snd (catalog s1))" "catalog s2 = catalog s1"
    using rows_result 5(5,6) by auto
  have s2: "runs E s s2" by (rule runs_read(8) [OF 5(5) runs_lookup(1) [OF 5(2) runs_refl]])
  show ?case by (rule runs_mark(1) [OF 5(8) s2 _ a(2)]) (use a rows 5(7) in auto)
next
  case (6 h r s1 a ra s2 cs rb s3 x)
  have a: "a \<in> set (fst (catalog s1))" "la_ID a = i"
    using lookup_upload [OF 6(2)] 6(3) by auto
  have rows: "cs = rows_of i (snd (catalog s1))" "catalog s2 = catalog s1"
    using rows_result 6(5,6) by auto
  have s2: "runs E s s2" by (rule runs_read(8) [OF 6(5) runs_lookup(1) [OF 6(2) runs_refl]])
  have s3: "runs E s s3" "\<forall>x \<in> set (fst (catalog s3)). la_ID x = i \<longrightarrow> la_Finalized x"
    using runs_mark [OF 6(8) s2 _ a(2)] a rows 6(7,9) by auto
  have e: "([StateUploading, StateUploadPaused], StateUploaded) \<in> set archive_edges"
    "([StateUploaded], StateAvailable) \<in> set archive_edges" by (simp_all add: archive_edges_def)
  show ?case
    by (intro runs_refresh runs_transition [OF _ e(2)] runs_transition [OF s3(1) e(1)]) (use s3(2) in simp_all)
next
  case (7 h r s1 a ra s2 cs x)
  show ?case by (rule runs_read(8) [OF 7(5) runs_lookup(1) [OF 7(2) runs_refl]])
qed

lemma parse_idx_ge: "parse_idx x = Some n \<Longrightarrow> 0 \<le> n"
  by (auto simp: parse_idx_def split: option.splits if_splits)

context object_store
begin

lemma runs_put: "Put (backend E) k b s = (r, s') \<Longrightarrow> runs E s0 s \<Longrightarrow> runs E s0 s'"
  by (rule runs_same [OF put_catalog])

lemma runs_drop: "runs E s0 s \<Longrightarrow> runs E s0 (snd (Delete (backend E) k s))"
  by (cases "Delete (backend E) k s") (auto intro: runs_same [OF delete_catalog])

lemma runs_objects: "runs E s0 s \<Longrightarrow> runs E s0 (delete_objects E cs s)"
  by (induction cs arbitrary: s) (auto intro: runs_drop)

lemma runs_purge: "runs E s0 s \<Longrightarrow> runs E s0 (snd (purgeArchive E i s))"
proof -
  assume s: "runs E s0 s"
  have "ends (runs E s0) (purgeArchive E i s)"
    unfolding purgeArchive_def
  proof (intro ends, goal_cases)
    case (1 r s1 e)
    show ?case by (rule endsI) (erule runs_delete, rule runs_read(8) [OF 1(1) s])
  next
    case (2 r s1 cs)
    show ?case by (rule endsI) (erule runs_delete, rule runs_objects [OF runs_read(8) [OF 2(1) s]])
  qed
  then show ?thesis by (simp add: ends_def)
qed

lemma runs_purge_all: "runs E s0 s \<Longrightarrow> runs E s0 (purge_all E is s)"
  by (induction "is" arbitrary: s) (auto intro: runs_purge)

lemma runs_supersede: "runs E s0 s \<Longrightarrow> runs E s0 (supersedeAbandonedArchives E now u s)"
  by (auto simp: supersedeAbandonedArchives_def Let_def split: prod.splits sum.splits
      intro: runs_purge_all runs_read(2))

lemma runs_tick: "runs E s0 s \<Longrightarrow> runs E s0 (runPurgerTick E now s)"
  by (auto simp: runPurgerTick_def split: prod.splits sum.splits intro: runs_purge_all runs_read(6))

lemma init_runs: "ends (runs E s) (linkArchiveInit E now newID r1 r2 u b s)"
  unfolding linkArchiveInit_def
proof (intro ends)
  show "runs E s s" "runs E s s" "runs E s s" by (rule runs_refl)+
  note start = runs_supersede [OF runs_refl]
  fix req hashes r s1
  assume q: "on_db (CountActiveLinkArchivesForUser u) (supersedeAbandonedArchives E now u s) = (r, s1)"
  have s1: "runs E s s1" by (rule runs_read(1) [OF q start])
  show "runs E s s1" "runs E s s1" by (rule s1)+
  fix n ra s2
  assume n: "r = Inr n" "\<not> archiveQuotaForUser E \<le> int n" "check_init req = Inr hashes"
    and q2: "on_db SumActiveLinkArchiveBytes s1 = (ra, s2)"
  have s2: "runs E s s2" by (rule runs_read(3) [OF q2 s1])
  show "runs E s s2" "runs E s s2" "runs E s s2" "runs E s s2" by (rule s2)+
  fix m up down
  assume m: "ra = Inr m" "\<not> instanceStagingBytesCap E < int64 (m + ai_TotalBytes req)"
  have c1: "n = sql_count (\<lambda>x. la_UserID x = u \<and> archive_active x) (fst (catalog s1))"
    using q n(1) reads_catalog [OF q reads_queries(1)] count_result [of u "supersedeAbandonedArchives E now u s" n s1] by simp
  have c2: "m = active_bytes (fst (catalog s1))" "catalog s2 = catalog s1"
    using q2 m(1) sum_result [of s1 m s2] by simp_all
  show "ends (runs E s) (allocate_archive E now newID u req hashes up down s2)"
    by (rule allocate_runs [OF s2 n(3)]) (use n(2) m(2) c1 c2 in simp_all)
qed

lemma store_chunk_runs:
  assumes s: "runs E s0 s" and a: "a \<in> set (fst (catalog s))" "la_ID a = i" "\<not> la_Finalized a"
    and x: "0 \<le> x" "x < la_TotalChunks a" and body: "body \<noteq> []" "int (length body) \<le> linkArchiveChunkBodyMax"
  shows "ends (runs E s0) (store_chunk E now i x h body s)"
  unfolding store_chunk_def
proof (intro ends)
  fix r s1
  assume p: "Put (backend E) (storage_key i x) body s = (r, s1)"
  have s1: "runs E s0 s1" "catalog s1 = catalog s" using runs_put [OF p s] put_catalog [OF p] by simp_all
  show "runs E s0 s1" by (rule s1)
  show "runs E s0 (snd (Delete (backend E) (storage_key i x) s1))" by (rule runs_drop [OF s1(1)])
  fix put rb s2
  assume q: "on_db (InsertLinkArchiveChunk
      \<lparr>lc_ArchiveID = i, lc_Idx = x, lc_ChunkSize = int (length body), lc_ChunkHash = put,
       lc_StorageBackend = Kind (backend E), lc_StorageKey = storage_key i x\<rparr>) s1 = (rb, s2)"
  show s2: "runs E s0 s2"
    by (rule runs_chunk [OF q s1(1)]) (use a x body in \<open>auto simp: s1(2) chunk_for_def\<close>)
  show "runs E s0 (refreshArchive now i s2)" by (rule runs_refresh [OF s2])
qed

lemma upload_runs: "ends (runs E s) (linkArchiveUploadChunk E now i x t h body s)"
  unfolding linkArchiveUploadChunk_def
proof (intro ends)
  show "runs E s s" "runs E s s" by (rule runs_refl)+
  fix n th r s1
  assume l: "parse_idx x = Some n" "lookupArchiveByUploadHash now i th s = (r, s1)"
  show s1: "runs E s s1" by (rule runs_lookup(1) [OF l(2) runs_refl])
  then show "runs E s s1" "runs E s s1" "runs E s s1" "runs E s s1" "runs E s s1" by this+
  fix a d
  assume "r = Inr a" "\<not> la_Finalized a" "\<not> la_TotalChunks a \<le> n" "\<not> linkArchiveChunkBodyMax < int (length body)" "body \<noteq> []"
  then show "ends (runs E s) (store_chunk E now i n d body s1)"
    using lookup_upload [OF l(2)] parse_idx_ge [OF l(1)] by (intro store_chunk_runs [OF s1, of a]) auto
qed

lemma confirm_s3_runs:
  assumes s: "runs E s0 s" and a: "a \<in> set (fst (catalog s))" "la_ID a = i" "\<not> la_Finalized a"
    and x: "0 \<le> x" "x < la_TotalChunks a" and sz: "0 < n" "n \<le> linkArchiveChunkBodyMax"
    and st: "StatChecksum (backend E) = Some stat"
  shows "ends (runs E s0) (confirm_s3 E stat now i x h n s)"
  unfolding confirm_s3_def
proof (intro ends)
  fix r s1
  assume p: "stat (storage_key i x) s = (r, s1)"
  have s1: "runs E s0 s1" "catalog s1 = catalog s" using stat_catalog [OF st p] runs_same [OF _ s] by simp_all
  show "runs E s0 s1" "runs E s0 s1" by (rule s1)+
  show "runs E s0 (snd (Delete (backend E) (storage_key i x) s1))" by (rule runs_drop [OF s1(1)])
  fix put rb s2
  assume q: "on_db (InsertLinkArchiveChunk
      \<lparr>lc_ArchiveID = i, lc_Idx = x, lc_ChunkSize = n, lc_ChunkHash = h,
       lc_StorageBackend = Kind (backend E), lc_StorageKey = storage_key i x\<rparr>) s1 = (rb, s2)"
  show s2: "runs E s0 s2"
    by (rule runs_chunk [OF q s1(1)]) (use a x sz in \<open>auto simp: s1(2) chunk_for_def\<close>)
  show "runs E s0 (refreshArchive now i s2)" by (rule runs_refresh [OF s2])
qed

lemma confirm_runs: "ends (runs E s) (linkArchiveConfirmChunk E now i x t body s)"
  unfolding linkArchiveConfirmChunk_def
proof (intro ends)
  show "runs E s s" "runs E s s" by (rule runs_refl)+
  fix n th r s1
  assume l: "parse_idx x = Some n" "lookupArchiveByUploadHash now i th s = (r, s1)"
  show s1: "runs E s s1" by (rule runs_lookup(1) [OF l(2) runs_refl])
  then show "runs E s s1" "runs E s s1" "runs E s s1" "runs E s s1" "runs E s s1" by this+
  { fix ra s2
    assume e: "Exists (backend E) (storage_key i n) s1 = (ra, s2)"
    show s2: "runs E s s2" using exists_catalog [OF e] by (intro runs_same [OF _ s1]) simp
    then show "runs E s s2" by this
    show "runs E s (refreshArchive now i s2)" by (rule runs_refresh [OF s2]) }
  fix a d sz stat
  assume "r = Inr a" "\<not> la_Finalized a" "\<not> la_TotalChunks a \<le> n" "\<not> (sz \<le> 0 \<or> linkArchiveChunkBodyMax < sz)"
    "StatChecksum (backend E) = Some stat"
  then show "ends (runs E s) (confirm_s3 E stat now i n d sz s1)"
    using lookup_upload [OF l(2)] parse_idx_ge [OF l(1)] by (intro confirm_s3_runs [OF s1, of a]) auto
qed

lemma window_runs:
  "ends (runs E s) (linkArchiveUploadWindow E now i t b s)" "ends (runs E s) (linkArchiveDownloadWindow E now i t b s)"
  unfolding linkArchiveUploadWindow_def linkArchiveDownloadWindow_def
  by (intro ends; (assumption | rule runs_refl runs_refresh | erule runs_lookup(1) runs_lookup(2))+)+

lemma cleanup_runs: "runs E s0 s \<Longrightarrow> ends (runs E s0) (cleanupAndDeleteArchive E i s)"
  unfolding cleanupAndDeleteArchive_def
  by (intro ends; frule runs_purge [of s0 s i]; simp)

lemma delete_runs: "ends (runs E s) (linkArchiveDelete E now i tu td s)"
  unfolding linkArchiveDelete_def
  by (intro ends; (assumption | rule runs_refl cleanup_runs | erule runs_read(4) runs_read(5))+)

lemma download_runs: "ends (runs E s) (linkArchiveDownloadChunk E now i x t s)"
  unfolding linkArchiveDownloadChunk_def
  by (intro ends; (assumption | rule runs_refl runs_refresh | erule runs_lookup(2) runs_read(7) get_catalog [THEN conjunct1, THEN runs_same])+)

lemma manifest_runs: "ends (runs E s) (linkArchiveManifest E now i t s)"
  unfolding linkArchiveManifest_def
  by (intro ends; (assumption | rule runs_refl runs_refresh | erule runs_lookup(2) runs_read(8))+)

lemma ack_runs: "ends (runs E s) (linkArchiveAck E now i t s)"
  unfolding linkArchiveAck_def
proof (intro ends)
  show "runs E s s" by (rule runs_refl)
  fix h r s1
  assume "lookupArchiveByDownloadHash now i h s = (r, s1)"
  then show s1: "runs E s s1" by (rule runs_lookup(2) [OF _ runs_refl])
  fix a ra s2
  assume q: "on_db (TransitionLinkArchiveState (la_ID a) StateAcknowledged
      [StateAvailable, StateImporting, StateImportPaused, StateImported]) s1 = (ra, s2)"
  have "runs E s (snd (on_db (TransitionLinkArchiveState (la_ID a) StateAcknowledged
      [StateAvailable, StateImporting, StateImportPaused, StateImported]) s1))"
    by (rule runs_transition [OF s1]) (simp_all add: archive_edges_def)
  then show "runs E s s2" "runs E s s2" by (simp_all add: q)
qed

lemma routes_run: "runs E s (snd (ArchiveRoutes E now req s))"
proof (cases req)
  case APurgerTick
  then show ?thesis by (simp add: runs_tick runs_refl)
qed (use init_runs window_runs confirm_runs upload_runs finalize_runs manifest_runs download_runs ack_runs delete_runs
  in \<open>simp_all add: ends_def\<close>)

end

end
