(* ===== verification/Archive_Invariants.thy ===== *)
theory Archive_Invariants
  imports Archive_Facts
begin

text \<open>
  Invariants of the abstract machine of the archives: the catalogue stays well formed, an archive that
  was finalized is complete, and the quota of a user and the cap of the instance hold. Everything is
  by rule induction over \<open>archive_step\<close>.
\<close>

section \<open>What the check at finalize says\<close>

text \<open>Rows of one archive, as the query orders them: by index, each index once, within the archive.\<close>

definition proper_rows :: "int \<Rightarrow> LinkArchiveChunkRow list \<Rightarrow> bool" where
  "proper_rows n rows \<longleftrightarrow> sorted (map lc_Idx rows) \<and> distinct (map lc_Idx rows) \<and>
     (\<forall>c \<in> set rows. 0 \<le> lc_Idx c \<and> lc_Idx c < n \<and> 0 < lc_ChunkSize c \<and> lc_ChunkSize c \<le> linkArchiveChunkBodyMax)"

lemma present_map_iff:
  assumes "distinct (map lc_Idx rows)"
  shows "present_map rows i = Some c \<longleftrightarrow> c \<in> set rows \<and> lc_Idx c = i"
proof -
  have "distinct (map fst (rev (map (\<lambda>c. (lc_Idx c, c)) rows)))"
    using assms by (simp add: rev_map [symmetric] comp_def)
  then show ?thesis by (auto simp: present_map_def)
qed

lemma present_map_None: "present_map rows i = None \<longleftrightarrow> i \<notin> lc_Idx ` set rows"
  by (auto simp: present_map_def map_of_eq_None_iff image_comp)

lemma missing_chunks_spec: "missing_chunks rows n = filter (\<lambda>i. i \<notin> lc_Idx ` set rows) [0..n - 1]"
  by (simp add: missing_chunks_def present_map_None)

lemma manifest_loop_spec:
  assumes "0 \<le> t" "t + int (length is) * linkArchiveChunkBodyMax < 2 ^ 63"
    and "\<And>i c. p i = Some c \<Longrightarrow> 0 < lc_ChunkSize c \<and> lc_ChunkSize c \<le> linkArchiveChunkBodyMax"
  shows "manifest_loop p is d t =
    (d @ concat (map lc_ChunkHash (List.map_filter p is)), t + sum_list (map lc_ChunkSize (List.map_filter p is)))"
  using assms(1,2)
proof (induction "is" arbitrary: d t)
  case Nil
  then show ?case by simp
next
  case (Cons i "is")
  have m: "0 \<le> linkArchiveChunkBodyMax" by (simp add: linkArchiveChunkBodyMax_def linkArchiveChunkSize_def)
  have r: "t + (linkArchiveChunkBodyMax + int (length is) * linkArchiveChunkBodyMax) < 2 ^ 63"
    using Cons.prems(2) by (simp add: ring_distribs)
  have k: "0 \<le> int (length is) * linkArchiveChunkBodyMax" using m by simp
  show ?case
  proof (cases "p i")
    case None
    then show ?thesis using Cons.IH [of t d] Cons.prems(1) r m k by simp
  next
    case (Some c)
    note sz = assms(3) [OF Some]
    have "int64 (t + lc_ChunkSize c) = t + lc_ChunkSize c"
      by (rule int64_id) (use Cons.prems(1) r sz k in linarith)+
    moreover have "manifest_loop p is (d @ lc_ChunkHash c) (t + lc_ChunkSize c) =
        ((d @ lc_ChunkHash c) @ concat (map lc_ChunkHash (List.map_filter p is)),
         t + lc_ChunkSize c + sum_list (map lc_ChunkSize (List.map_filter p is)))"
      by (rule Cons.IH) (use Cons.prems(1) r sz in linarith)+
    ultimately show ?thesis using Some by simp
  qed
qed

lemma sorted_distinct_upto:
  assumes "sorted (xs :: int list)" "distinct xs"
  shows "filter (\<lambda>i. i \<in> set xs) [0..n - 1] = filter (\<lambda>i. 0 \<le> i \<and> i < n) xs"
  by (rule sorted_distinct_set_unique) (use assms in \<open>auto intro: sorted_wrt_filter\<close>)

lemma proper_rows_map:
  assumes "proper_rows n rows"
  shows "List.map_filter (present_map rows) [0..n - 1] = rows"
proof -
  have d: "distinct (map lc_Idx rows)" "sorted (map lc_Idx rows)" using assms by (simp_all add: proper_rows_def)
  have p: "present_map rows (lc_Idx c) = Some c" if "c \<in> set rows" for c
    using that present_map_iff [OF d(1)] by simp
  have "List.map_filter (present_map rows) [0..n - 1] =
      map (\<lambda>i. the (present_map rows i)) (filter (\<lambda>i. i \<in> set (map lc_Idx rows)) [0..n - 1])"
    using present_map_None [of rows] by (simp add: List.map_filter_def comp_def)
  also have "filter (\<lambda>i. i \<in> set (map lc_Idx rows)) [0..n - 1] = filter (\<lambda>i. 0 \<le> i \<and> i < n) (map lc_Idx rows)"
    by (rule sorted_distinct_upto [OF d(2,1)])
  also have "\<dots> = map lc_Idx rows" using assms by (auto simp: proper_rows_def intro!: filter_True)
  finally show ?thesis using p by (simp add: map_idI)
qed

text \<open>The check, without the loop and without the map.\<close>

lemma check_complete_rows:
  assumes "proper_rows (la_TotalChunks a) rows" "la_TotalChunks a < 2 ^ 31"
  shows "check_complete E a rows =
    (let missing = filter (\<lambda>i. i \<notin> lc_Idx ` set rows) [0..la_TotalChunks a - 1]
     in if missing \<noteq> [] then Some (Done 409 (Incomplete missing))
        else if \<not> slicesEqualConstantTime (av_sha256 E (concat (map lc_ChunkHash rows))) (la_ManifestHash a)
        then Some (Fail 422 ''manifest hash mismatch'')
        else if sum_list (map lc_ChunkSize rows) \<noteq> la_TotalBytes a then Some (Fail 422 ''total bytes mismatch'')
        else None)"
proof -
  have "int (length [0..la_TotalChunks a - 1]) \<le> 2 ^ 31" using assms(2) by simp
  then have "0 + int (length [0..la_TotalChunks a - 1]) * linkArchiveChunkBodyMax < 2 ^ 63"
    by (simp add: linkArchiveChunkBodyMax_def linkArchiveChunkSize_def)
  moreover have "0 < lc_ChunkSize c \<and> lc_ChunkSize c \<le> linkArchiveChunkBodyMax" if "present_map rows i = Some c" for i c
    using that present_map_iff [of rows i c] assms(1) by (auto simp: proper_rows_def)
  ultimately have "manifest_loop (present_map rows) [0..la_TotalChunks a - 1] [] 0 =
      (concat (map lc_ChunkHash rows), sum_list (map lc_ChunkSize rows))"
    using manifest_loop_spec [of 0 "[0..la_TotalChunks a - 1]" "present_map rows" "[]"]
    by (simp add: proper_rows_map [OF assms(1)])
  then show ?thesis by (simp add: check_complete_def missing_chunks_spec Let_def)
qed

lemma xor_byte_zero: "xor a b = 0 \<longleftrightarrow> a = b" for a b :: byte
proof
  assume "xor a b = 0"
  then have "xor (xor a b) b = xor 0 b" by simp
  then show "a = b" by (simp add: xor.assoc)
qed simp

lemma xor_all_zero: "length a = length b \<Longrightarrow> xor_all a b d = 0 \<longleftrightarrow> a = b \<and> d = 0"
  by (induction a b d rule: xor_all.induct) (auto simp: or_eq_0_iff xor_byte_zero)

lemma slicesEqual_iff: "slicesEqualConstantTime a b \<longleftrightarrow> a = b"
  by (auto simp: slicesEqualConstantTime_def xor_all_zero)

lemma check_complete_None:
  assumes "proper_rows (la_TotalChunks a) rows" "la_TotalChunks a < 2 ^ 31"
  shows "check_complete E a rows = None \<longleftrightarrow> map lc_Idx rows = [0..la_TotalChunks a - 1] \<and>
    av_sha256 E (concat (map lc_ChunkHash rows)) = la_ManifestHash a \<and> sum_list (map lc_ChunkSize rows) = la_TotalBytes a"
proof -
  have "filter (\<lambda>i. i \<notin> lc_Idx ` set rows) [0..la_TotalChunks a - 1] = [] \<longleftrightarrow> map lc_Idx rows = [0..la_TotalChunks a - 1]"
  proof
    assume "filter (\<lambda>i. i \<notin> lc_Idx ` set rows) [0..la_TotalChunks a - 1] = []"
    then have "set (map lc_Idx rows) = set [0..la_TotalChunks a - 1]"
      using assms(1) by (auto simp: proper_rows_def filter_empty_conv)
    then show "map lc_Idx rows = [0..la_TotalChunks a - 1]"
      using assms(1) by (intro sorted_distinct_set_unique) (simp_all add: proper_rows_def)
  next
    assume "map lc_Idx rows = [0..la_TotalChunks a - 1]"
    then have "lc_Idx ` set rows = {0..la_TotalChunks a - 1}" by (metis set_map set_upto)
    then show "filter (\<lambda>i. i \<notin> lc_Idx ` set rows) [0..la_TotalChunks a - 1] = []" by (auto simp: filter_empty_conv)
  qed
  then show ?thesis unfolding check_complete_rows [OF assms] slicesEqual_iff Let_def by (simp split: if_splits)
qed

section \<open>A catalogue stays well formed\<close>

text \<open>The states that an archive reaches after the finalize.\<close>

definition complete_states :: "LinkArchiveState list" where
  "complete_states = [StateUploaded, StateAvailable, StateImporting, StateImportPaused, StateImported, StateAcknowledged]"

definition archive_ok :: "'o archive_env \<Rightarrow> LinkArchiveChunkRow list \<Rightarrow> LinkArchive \<Rightarrow> bool" where
  "archive_ok E cs a \<longleftrightarrow> 0 < la_TotalChunks a \<and> la_TotalChunks a < 2 ^ 31 \<and> la_ExpiresAt a \<le> la_HardDeadlineAt a \<and>
     (la_Finalized a \<longrightarrow> check_complete E a (rows_of (la_ID a) cs) = None) \<and>
     (la_State a \<in> set complete_states \<longrightarrow> la_Finalized a)"

definition chunk_key :: "LinkArchiveChunkRow \<Rightarrow> string \<times> int" where
  "chunk_key c = (lc_ArchiveID c, lc_Idx c)"

definition catalog_ok :: "'o archive_env \<Rightarrow> catalog \<Rightarrow> bool" where
  "catalog_ok E c \<longleftrightarrow> (case c of (as, cs) \<Rightarrow>
     distinct (map la_ID as) \<and> distinct (map chunk_key cs) \<and>
     (\<forall>c \<in> set cs. \<exists>a \<in> set as. chunk_for a c) \<and> (\<forall>a \<in> set as. archive_ok E cs a))"

text \<open>The check does not look at the state, the expiry or the flag itself.\<close>

lemma check_complete_fields [simp]:
  "check_complete E (a\<lparr>la_Finalized := b\<rparr>) = check_complete E a"
  "check_complete E (a\<lparr>la_State := t\<rparr>) = check_complete E a"
  "check_complete E (a\<lparr>la_ExpiresAt := e\<rparr>) = check_complete E a"
  by (simp_all add: check_complete_def fun_eq_iff Let_def split: prod.split)

lemma chunk_for_fields [simp]:
  "chunk_for (a\<lparr>la_Finalized := b\<rparr>) = chunk_for a" "chunk_for (a\<lparr>la_State := t\<rparr>) = chunk_for a"
  "chunk_for (a\<lparr>la_ExpiresAt := e\<rparr>) = chunk_for a"
  by (simp_all add: chunk_for_def fun_eq_iff)

lemma bex_sql_update: "(\<exists>y \<in> set (sql_update p f xs). Q y) \<longleftrightarrow> (\<exists>x \<in> set xs. Q (if p x then f x else x))"
  by (auto simp: sql_update_def)

text \<open>An update of archives that keeps the identifiers and the chunks keeps a catalogue well formed.\<close>

lemma update_ok:
  assumes "catalog_ok E (as, cs)" and f: "\<And>x. la_ID (f x) = la_ID x" "\<And>x. chunk_for (f x) = chunk_for x"
    and "\<And>x. x \<in> set as \<Longrightarrow> p x \<Longrightarrow> archive_ok E cs x \<Longrightarrow> archive_ok E cs (f x)"
  shows "catalog_ok E (sql_update p f as, cs)"
proof -
  have c: "chunk_for (if p x then f x else x) = chunk_for x" for x by (simp add: f(2))
  show ?thesis
    using assms(1,4) by (simp add: catalog_ok_def ball_sql_update bex_sql_update map_sql_update f(1) c)
qed

lemma rows_of_append_other: "lc_ArchiveID c \<noteq> i \<Longrightarrow> rows_of i (cs @ [c]) = rows_of i cs"
  by (simp add: rows_of_def)

lemma rows_of_delete: "i \<noteq> j \<Longrightarrow> rows_of i (sql_delete (\<lambda>c. lc_ArchiveID c = j) cs) = rows_of i cs"
  by (simp add: rows_of_def sql_delete_def) (metis (mono_tags, lifting))

lemma unique_archive: "distinct (map la_ID as) \<Longrightarrow> a \<in> set as \<Longrightarrow> b \<in> set as \<Longrightarrow> la_ID a = la_ID b \<Longrightarrow> a = b"
  by (metis distinct_map inj_onD)

lemma step_ok:
  assumes "archive_step E c c'" "catalog_ok E c"
  shows "catalog_ok E c'"
  using assms
proof (induction rule: archive_step.induct)
  case (opened as a cs)
  have "archive_ok E cs a"
    using opened(1) by (simp add: admissible_def archive_ok_def complete_states_def)
  then show ?case using opened by (auto simp: catalog_ok_def admissible_def)
next
  case (chunked a as c cs)
  have c: "lc_ArchiveID c = la_ID a" using chunked(3) by (simp add: chunk_for_def)
  have "archive_ok E (cs @ [c]) b" if "b \<in> set as" for b
  proof (cases "b = a")
    case True
    then show ?thesis using chunked that by (auto simp: catalog_ok_def archive_ok_def)
  next
    case False
    then have "la_ID b \<noteq> la_ID a" using unique_archive [of as b a] chunked that by (auto simp: catalog_ok_def)
    then show ?thesis using chunked that c rows_of_append_other [of c "la_ID b" cs] by (simp add: catalog_ok_def archive_ok_def)
  qed
  moreover have "chunk_key c \<notin> chunk_key ` set cs"
    using chunked(4) c by (auto simp: sql chunk_is_def chunk_key_def)
  ultimately show ?case using chunked by (auto simp: catalog_ok_def)
next
  case (finalized a as cs)
  show ?case
  proof (rule update_ok [OF finalized(3)])
    fix x
    assume x: "x \<in> set as" "la_ID x = la_ID a" "archive_ok E cs x"
    then have "x = a" using unique_archive [of as x a] finalized by (auto simp: catalog_ok_def)
    then show "archive_ok E cs (x\<lparr>la_Finalized := True\<rparr>)" using x(3) finalized(2) by (simp add: archive_ok_def)
  qed simp_all
next
  case (moved from_states to_state as i cs)
  show ?case
  proof (rule update_ok [OF moved(3)])
    fix x
    assume x: "x \<in> set as" "la_ID x = i \<and> la_State x \<in> set from_states" "archive_ok E cs x"
    have "to_state \<in> set complete_states \<Longrightarrow> la_Finalized x"
      using x moved(1,2) by (auto simp: archive_edges_def archive_ok_def complete_states_def)
    then show "archive_ok E cs (x\<lparr>la_State := to_state\<rparr>)" using x(3) by (simp add: archive_ok_def)
  qed simp_all
next
  case (touched as cs i t)
  show ?case by (rule update_ok [OF touched]) (simp_all add: archive_ok_def)
next
  case (removed as cs i)
  have "archive_ok E (sql_delete (\<lambda>c. lc_ArchiveID c = i) cs) a" if "a \<in> set as" "la_ID a \<noteq> i" for a
    using removed that rows_of_delete [of "la_ID a" i cs] by (simp add: catalog_ok_def archive_ok_def)
  moreover have "\<exists>a. a \<in> set as \<and> la_ID a \<noteq> i \<and> chunk_for a c" if "c \<in> set cs" "lc_ArchiveID c \<noteq> i" for c
    using removed that by (auto simp: catalog_ok_def chunk_for_def)
  ultimately show ?case using removed by (auto simp: catalog_ok_def sql)
qed

lemma run_ok: "archive_run E c c' \<Longrightarrow> catalog_ok E c \<Longrightarrow> catalog_ok E c'"
  by (induction rule: rtranclp_induct) (auto intro: step_ok)

text \<open>What a finalized archive has.\<close>

lemma rows_of_proper:
  assumes "catalog_ok E (as, cs)" "a \<in> set as"
  shows "proper_rows (la_TotalChunks a) (rows_of (la_ID a) cs)"
proof -
  have "chunk_for a c" if c: "c \<in> set cs" "lc_ArchiveID c = la_ID a" for c
  proof -
    obtain b where "b \<in> set as" "chunk_for b c" using assms(1) c(1) by (auto simp: catalog_ok_def)
    moreover have "distinct (map la_ID as)" using assms(1) by (simp add: catalog_ok_def)
    moreover have "la_ID b = la_ID a" using c(2) \<open>chunk_for b c\<close> by (simp add: chunk_for_def)
    ultimately have "b = a" using unique_archive assms(2) by blast
    then have "chunk_for a c" using \<open>chunk_for b c\<close> by simp
    then show ?thesis .
  qed
  then have "\<forall>c \<in> set (rows_of (la_ID a) cs). chunk_for a c" by (simp add: rows_of_def)
  moreover have "distinct (map lc_Idx (rows_of (la_ID a) cs))"
    using assms(1) by (auto simp: catalog_ok_def rows_of_def distinct_map chunk_key_def inj_on_def)
  moreover have "sorted (map lc_Idx (rows_of (la_ID a) cs))" by (simp add: rows_of_def)
  ultimately show ?thesis by (simp add: proper_rows_def chunk_for_def)
qed

lemma finalized_rows:
  assumes "catalog_ok E (as, cs)" "a \<in> set as" "la_Finalized a"
  shows "map lc_Idx (rows_of (la_ID a) cs) = [0..la_TotalChunks a - 1] \<and>
    av_sha256 E (concat (map lc_ChunkHash (rows_of (la_ID a) cs))) = la_ManifestHash a \<and>
    sum_list (map lc_ChunkSize (rows_of (la_ID a) cs)) = la_TotalBytes a"
proof -
  have "archive_ok E cs a" using assms(1,2) by (simp add: catalog_ok_def)
  then show ?thesis
    using check_complete_None [OF rows_of_proper [OF assms(1,2)], of E] assms(3) by (simp add: archive_ok_def)
qed

section \<open>Quotas\<close>

text \<open>
  The cap is at most \<open>2 ^ 62\<close>: the handler adds the bytes of the request in 64 bits and does not guard
  against the wrap that a larger setting would allow.
\<close>

definition quota_ok :: "'o archive_env \<Rightarrow> LinkArchive list \<Rightarrow> bool" where
  "quota_ok E as \<longleftrightarrow> (\<forall>a \<in> set as. 0 < la_TotalBytes a) \<and>
     (\<forall>u. int (sql_count (\<lambda>x. la_UserID x = u \<and> archive_active x) as) \<le> archiveQuotaForUser E) \<and>
     active_bytes as \<le> instanceStagingBytesCap E"

lemma setting_positive: "positive_setting v = Some n \<Longrightarrow> 0 < n"
  by (auto simp: positive_setting_def split: if_splits option.splits)

lemma limits_positive: "0 < archiveQuotaForUser E" "0 < instanceStagingBytesCap E"
  by (auto simp: archiveQuotaForUser_def instanceStagingBytesCap_def linkArchiveDefaultUserQuota_def
      linkArchiveDefaultStagingCap_def split: option.splits dest: setting_positive)

lemma quota_empty: "quota_ok E []"
  using limits_positive [of E] by (simp add: quota_ok_def sql_count_def active_bytes_def)

text \<open>Neither an update that activates nothing nor a deletion raises a count or the sum.\<close>

lemma active_update:
  assumes "\<And>x. la_UserID (f x) = la_UserID x" "\<And>x. la_TotalBytes (f x) = la_TotalBytes x"
    and "\<And>x. p x \<Longrightarrow> archive_active (f x) \<Longrightarrow> archive_active x" and "\<forall>x \<in> set as. 0 < la_TotalBytes x"
  shows "sql_count (\<lambda>x. la_UserID x = u \<and> archive_active x) (sql_update p f as) \<le>
      sql_count (\<lambda>x. la_UserID x = u \<and> archive_active x) as"
    and "active_bytes (sql_update p f as) \<le> active_bytes as"
  using assms(4)
proof (induction as)
  case (Cons a as)
  { case 1
    then show ?case using Cons.IH(1) assms(1,3) [of a] by (auto simp: sql_count_def sql_update_def)
  next
    case 2
    then show ?case using Cons.IH(2) assms(2,3) [of a] by (auto simp: active_bytes_def sql_update_def) }
qed (simp_all add: sql_count_def sql_update_def active_bytes_def)

lemma active_delete:
  assumes "\<forall>x \<in> set as. 0 < la_TotalBytes x"
  shows "sql_count (\<lambda>x. la_UserID x = u \<and> archive_active x) (sql_delete p as) \<le>
      sql_count (\<lambda>x. la_UserID x = u \<and> archive_active x) as"
    and "active_bytes (sql_delete p as) \<le> active_bytes as"
  using assms
proof (induction as)
  case (Cons a as)
  { case 1
    then show ?case using Cons.IH(1) by (auto simp: sql_count_def sql_delete_def)
  next
    case 2
    then show ?case using Cons.IH(2) by (auto simp: active_bytes_def sql_delete_def) }
qed (simp_all add: sql_count_def sql_delete_def active_bytes_def)

lemma quota_update:
  assumes "quota_ok E as" "\<And>x. la_UserID (f x) = la_UserID x" "\<And>x. la_TotalBytes (f x) = la_TotalBytes x"
    and "\<And>x. p x \<Longrightarrow> archive_active (f x) \<Longrightarrow> archive_active x"
  shows "quota_ok E (sql_update p f as)"
proof -
  have b: "\<forall>x \<in> set as. 0 < la_TotalBytes x" using assms(1) by (simp add: quota_ok_def)
  note u = active_update [of f p as, OF assms(2) assms(3) assms(4) b]
  have "int (sql_count (\<lambda>x. la_UserID x = u \<and> archive_active x) (sql_update p f as)) \<le> archiveQuotaForUser E" for u
  proof -
    have "int (sql_count (\<lambda>x. la_UserID x = u \<and> archive_active x) as) \<le> archiveQuotaForUser E"
      using assms(1) by (simp add: quota_ok_def)
    then show ?thesis using u(1) [of u] by simp
  qed
  moreover have "active_bytes (sql_update p f as) \<le> instanceStagingBytesCap E"
    using assms(1) u(2) by (simp add: quota_ok_def)
  moreover have "\<forall>x \<in> set (sql_update p f as). 0 < la_TotalBytes x"
    using b by (simp add: ball_sql_update assms(3))
  ultimately show ?thesis by (simp add: quota_ok_def)
qed

lemma active_bytes_ge: "\<forall>x \<in> set as. 0 < la_TotalBytes x \<Longrightarrow> 0 \<le> active_bytes as"
  by (induction as) (auto simp: active_bytes_def)

lemma quota_opened:
  assumes "quota_ok E as" "admissible E as a" "instanceStagingBytesCap E \<le> 2 ^ 62"
  shows "quota_ok E (as @ [a])"
proof -
  have b: "\<forall>x \<in> set as. 0 < la_TotalBytes x" using assms(1) by (simp add: quota_ok_def)
  have t: "la_TotalChunks a * linkArchiveChunkBodyMax < 2 ^ 61" "0 < la_TotalChunks a * linkArchiveChunkBodyMax"
    using assms(2) by (simp_all add: admissible_def linkArchiveChunkBodyMax_def linkArchiveChunkSize_def)
  have "int64 (la_TotalChunks a * linkArchiveChunkBodyMax) = la_TotalChunks a * linkArchiveChunkBodyMax"
    by (rule int64_id) (use t in simp_all)
  then have n: "0 < la_TotalBytes a" "la_TotalBytes a < 2 ^ 61" using assms(2) t by (auto simp: admissible_def)
  have "int64 (active_bytes as + la_TotalBytes a) = active_bytes as + la_TotalBytes a"
    by (rule int64_id) (use n active_bytes_ge [OF b] assms(1,3) in \<open>simp_all add: quota_ok_def\<close>)
  then have cap: "active_bytes as + la_TotalBytes a \<le> instanceStagingBytesCap E" using assms(2) by (simp add: admissible_def)
  have u: "int (sql_count (\<lambda>x. la_UserID x = u \<and> archive_active x) (as @ [a])) \<le> archiveQuotaForUser E" for u
  proof (cases "la_UserID a = u")
    case True
    then show ?thesis using assms(2) by (auto simp: admissible_def sql_count_def)
  next
    case False
    then show ?thesis using assms(1) by (auto simp: quota_ok_def sql_count_def)
  qed
  have "active_bytes (as @ [a]) \<le> instanceStagingBytesCap E"
    using cap n(1) assms(1) by (auto simp: active_bytes_def quota_ok_def)
  then show ?thesis using u b n(1) by (simp add: quota_ok_def)
qed

lemma step_quota:
  assumes "archive_step E c c'" "quota_ok E (fst c)" "instanceStagingBytesCap E \<le> 2 ^ 62"
  shows "quota_ok E (fst c')"
  using assms
proof (induction rule: archive_step.induct)
  case (opened as a cs)
  then show ?case using quota_opened [of E as a] by simp
next
  case (finalized a as cs)
  then have "quota_ok E as" by simp
  then show ?case unfolding fst_conv by (rule quota_update) (simp_all add: archive_active_def)
next
  case (moved from_states to_state as i cs)
  have "set from_states \<subseteq> set LinkArchiveActiveStates"
    using moved(1) by (auto simp: archive_edges_def LinkArchiveActiveStates_def)
  moreover have "quota_ok E as" using moved by simp
  ultimately show ?case unfolding fst_conv by (intro quota_update) (auto simp: archive_active_def)
next
  case (touched as cs i t)
  then have "quota_ok E as" by simp
  then show ?case unfolding fst_conv by (rule quota_update) (simp_all add: archive_active_def)
next
  case (removed as cs i)
  have b: "\<forall>x \<in> set as. 0 < la_TotalBytes x" using removed by (simp add: quota_ok_def)
  have "int (sql_count (\<lambda>x. la_UserID x = u \<and> archive_active x) (sql_delete (\<lambda>x. la_ID x = i) as)) \<le> archiveQuotaForUser E" for u
  proof -
    have "int (sql_count (\<lambda>x. la_UserID x = u \<and> archive_active x) as) \<le> archiveQuotaForUser E"
      using removed by (simp add: quota_ok_def)
    then show ?thesis using active_delete(1) [OF b, of u "\<lambda>x. la_ID x = i"] by simp
  qed
  then show ?case using removed b active_delete(2) [OF b, of "\<lambda>x. la_ID x = i"] by (simp add: quota_ok_def sql)
qed simp_all

lemma run_quota:
  "archive_run E c c' \<Longrightarrow> quota_ok E (fst c) \<Longrightarrow> instanceStagingBytesCap E \<le> 2 ^ 62 \<Longrightarrow> quota_ok E (fst c')"
  by (induction rule: rtranclp_induct) (auto intro: step_quota)

end
