(* ===== verification/Archive_Stored.thy ===== *)
theory Archive_Stored
  imports Archive_Invariants
begin

text \<open>
  What lies in the object store: only an upload puts something there, so whatever a download hands out
  was uploaded with the token of the archive. The contract is discharged for the store on
  PostgreSQL, and a history of requests is a list with the time of each.
\<close>

section \<open>Queries that leave the objects alone\<close>

definition keeps_blobs :: "'a archive_query \<Rightarrow> bool" where
  "keeps_blobs q \<longleftrightarrow> (\<forall>d. chunk_blobs (snd (q d)) = chunk_blobs d)"

lemma keeps_blobs_ar: "(\<And>d. chunk_blobs (snd (q d)) = chunk_blobs d) \<Longrightarrow> keeps_blobs (ar_query q)"
  by (simp add: keeps_blobs_def ar_query_def split: prod.split bool.split)

lemma keeps_blobs_rows:
  "keeps_blobs (InsertLinkArchive now newID i)" "keeps_blobs (TransitionLinkArchiveState a t f)"
  "keeps_blobs (RefreshLinkArchiveExpiry now a ttl)" "keeps_blobs (MarkLinkArchiveFinalized a)"
  "keeps_blobs (DeleteLinkArchive a)" "keeps_blobs (insert_chunk c)" "keeps_blobs (select_chunk_hash a x)"
  "keeps_blobs (CountActiveLinkArchivesForUser u)" "keeps_blobs (ListSupersedableLinkArchivesForUser u t2)"
  "keeps_blobs SumActiveLinkArchiveBytes" "keeps_blobs (GetLinkArchiveByUploadTokenHash now a h)"
  "keeps_blobs (GetLinkArchiveByDownloadTokenHash now a h)" "keeps_blobs (ListGcEligibleLinkArchives now n)"
  "keeps_blobs (GetLinkArchiveChunkPointer a x)" "keeps_blobs (ListLinkArchiveChunkRows a)"
  unfolding InsertLinkArchive_def TransitionLinkArchiveState_def RefreshLinkArchiveExpiry_def MarkLinkArchiveFinalized_def
    DeleteLinkArchive_def insert_chunk_def select_chunk_hash_def CountActiveLinkArchivesForUser_def
    ListSupersedableLinkArchivesForUser_def SumActiveLinkArchiveBytes_def GetLinkArchiveByUploadTokenHash_def
    GetLinkArchiveByDownloadTokenHash_def ListGcEligibleLinkArchives_def GetLinkArchiveChunkPointer_def
    ListLinkArchiveChunkRows_def
  by (rule keeps_blobs_ar; simp add: Let_def)+

lemma keeps_blobs_insert: "keeps_blobs (InsertLinkArchiveChunk c)"
  using keeps_blobs_rows(6) [of c] keeps_blobs_rows(7) [of "lc_ArchiveID c" "lc_Idx c"]
  by (auto simp: keeps_blobs_def InsertLinkArchiveChunk_def split: prod.split sum.split bool.split)
     (metis snd_conv)+

lemmas keeps_blobs_all = keeps_blobs_rows keeps_blobs_insert

section \<open>Only an upload adds an object\<close>

text \<open>What an upload may put into the store, and what a request may.\<close>

definition upload_of ::
  "'o archive_env \<Rightarrow> 'o archive_store \<Rightarrow> string \<Rightarrow> string \<Rightarrow> string \<Rightarrow> bytes \<Rightarrow> string \<Rightarrow> bytes \<Rightarrow> bool" where
  "upload_of E s i x t body k b \<longleftrightarrow> b = body \<and> (\<exists>n a. parse_idx x = Some n \<and> k = storage_key i n \<and>
     a \<in> set (link_archives (ar_db s)) \<and> la_ID a = i \<and> \<not> la_Finalized a \<and> requireTokenHash E t = Some (la_UploadTokenHash a))"

fun put_by :: "'o archive_env \<Rightarrow> 'o archive_store \<Rightarrow> archive_request \<Rightarrow> string \<Rightarrow> bytes \<Rightarrow> bool" where
  "put_by E s (AUpload i x t h body) = upload_of E s i x t body"
| "put_by E s _ = (\<lambda>_ _. False)"

text \<open>A key names its archive and index: the index has no slash.\<close>

lemma itoa_no_slash: "CHR ''/'' \<notin> set (itoa n)"
proof -
  have "CHR ''/'' \<notin> set (digits_of m)" for m
    using digits_of_digits [of m] by (auto simp: list_all_iff is_digit_def)
  then show ?thesis by (simp add: itoa_def)
qed

lemma split_at_last:
  assumes "xs @ c # ys = xs' @ c # ys'" "c \<notin> set ys" "c \<notin> set ys'"
  shows "xs = xs' \<and> ys = ys'"
proof -
  have "ys = rev (takeWhile (\<lambda>d. d \<noteq> c) (rev (xs @ c # ys)))" if "c \<notin> set ys" for xs ys
    using that by (auto simp: takeWhile_append)
  from this [OF assms(2), of xs] this [OF assms(3), of xs'] assms(1) have "ys = ys'" by metis
  then show ?thesis using assms(1) by simp
qed

lemma parse_idx_range: "parse_idx x = Some n \<Longrightarrow> 0 \<le> n \<and> n < 2 ^ 63"
  by (auto simp: parse_idx_def Atoi_def signed_value_def Let_def split: option.splits if_splits)

lemma storage_key_inject:
  assumes "storage_key i n = storage_key j m" "0 \<le> n \<and> n < 2 ^ 63" "0 \<le> m \<and> m < 2 ^ 63"
  shows "i = j \<and> n = m"
proof -
  have "i @ CHR ''/'' # itoa n = j @ CHR ''/'' # itoa m" using assms(1) by (simp add: storage_key_def)
  then have e: "i = j \<and> itoa n = itoa m" by (rule split_at_last [OF _ itoa_no_slash itoa_no_slash])
  have "Atoi (itoa n) = Some n" "Atoi (itoa m) = Some m" by (rule Atoi_itoa; use assms(2,3) in linarith)+
  then show ?thesis using e by (metis option.inject)
qed

context object_store
begin

text \<open>From \<open>s0\<close> to \<open>s\<close> nothing came into the store but what \<open>P\<close> allows.\<close>

definition adds :: "(string \<Rightarrow> bytes \<Rightarrow> bool) \<Rightarrow> 'o archive_store \<Rightarrow> 'o archive_store \<Rightarrow> bool" where
  "adds P s0 s \<longleftrightarrow> (\<forall>k b. stored s k = Some b \<longrightarrow> stored s0 k = Some b \<or> P k b)"

lemma adds_refl: "adds P s s"
  by (simp add: adds_def)

lemma adds_query: "on_db q s = (r, s') \<Longrightarrow> keeps_blobs q \<Longrightarrow> adds P s0 s \<Longrightarrow> adds P s0 s'"
  using query_stored [of "snd (q (ar_db s))" s]
  by (auto simp: on_db_def keeps_blobs_def adds_def split: prod.splits)

lemmas adds_queries = keeps_blobs_all [THEN adds_query [rotated 1], rotated 1]

lemma adds_move: "adds P s0 s \<Longrightarrow> adds P s0 (snd (on_db (TransitionLinkArchiveState a t f) s))"
  by (cases "on_db (TransitionLinkArchiveState a t f) s") (auto intro: adds_query keeps_blobs_all)

lemma adds_refresh: "adds P s0 s \<Longrightarrow> adds P s0 (refreshArchive now a s)"
  unfolding refreshArchive_def
  by (cases "on_db (RefreshLinkArchiveExpiry now a linkArchiveDefaultExpiry) s") (auto intro: adds_query keeps_blobs_all)

lemma adds_lookup:
  "lookupArchiveByUploadHash now i h s = (r, s') \<Longrightarrow> adds P s0 s \<Longrightarrow> adds P s0 s'"
  "lookupArchiveByDownloadHash now i h s = (r2, s') \<Longrightarrow> adds P s0 s \<Longrightarrow> adds P s0 s'"
  by (auto simp: lookupArchiveByUploadHash_def lookupArchiveByDownloadHash_def split: prod.splits
      intro: adds_query keeps_blobs_all)

lemma adds_drop: "adds P s0 s \<Longrightarrow> adds P s0 (snd (Delete (backend E) k s))"
proof (cases "Delete (backend E) k s")
  case (Pair r s')
  assume s: "adds P s0 s"
  have "stored s x = Some b" if "stored s' x = Some b" for x b
    using that delete_stored [OF Pair] by (cases "x = k") auto
  then show ?thesis using s by (auto simp: Pair adds_def)
qed

lemma adds_same: "stored s' = stored s \<Longrightarrow> adds P s0 s \<Longrightarrow> adds P s0 s'"
  by (simp add: adds_def)

lemma adds_objects: "adds P s0 s \<Longrightarrow> adds P s0 (delete_objects E cs s)"
  by (induction cs arbitrary: s) (auto intro: adds_drop)

lemma adds_purge: "adds P s0 s \<Longrightarrow> adds P s0 (snd (purgeArchive E i s))"
proof -
  assume s: "adds P s0 s"
  have "ends (adds P s0) (purgeArchive E i s)"
    unfolding purgeArchive_def
    by (intro ends; rule endsI; erule adds_queries; (assumption | rule s adds_objects | erule adds_queries)+)
  then show ?thesis by (simp add: ends_def)
qed

lemma adds_purge_all: "adds P s0 s \<Longrightarrow> adds P s0 (purge_all E is s)"
  by (induction "is" arbitrary: s) (auto intro: adds_purge)

lemma adds_supersede: "adds P s0 s \<Longrightarrow> adds P s0 (supersedeAbandonedArchives E now u s)"
  by (auto simp: supersedeAbandonedArchives_def Let_def split: prod.splits sum.splits
      intro: adds_purge_all adds_queries)

lemma adds_tick: "adds P s0 s \<Longrightarrow> adds P s0 (runPurgerTick E now s)"
  by (auto simp: runPurgerTick_def split: prod.splits sum.splits intro: adds_purge_all adds_queries)

lemma adds_cleanup: "adds P s0 s \<Longrightarrow> ends (adds P s0) (cleanupAndDeleteArchive E i s)"
  unfolding cleanupAndDeleteArchive_def
  by (intro ends; frule adds_purge [of P s0 s i]; simp)

lemma adds_handlers:
  "ends (adds P s) (linkArchiveInit E now newID r1 r2 u b s)"
  "ends (adds P s) (linkArchiveUploadWindow E now i t w s)"
  "ends (adds P s) (linkArchiveFinalize E now i t s)"
  "ends (adds P s) (linkArchiveManifest E now i t s)"
  "ends (adds P s) (linkArchiveDownloadWindow E now i t w s)"
  "ends (adds P s) (linkArchiveDownloadChunk E now i x t s)"
  "ends (adds P s) (linkArchiveAck E now i t s)"
  "ends (adds P s) (linkArchiveDelete E now i tu td s)"
  unfolding linkArchiveInit_def allocate_archive_def linkArchiveUploadWindow_def linkArchiveFinalize_def
    linkArchiveManifest_def linkArchiveDownloadWindow_def linkArchiveDownloadChunk_def linkArchiveAck_def linkArchiveDelete_def
  by (intro ends; (assumption | rule adds_refl adds_refresh adds_move adds_cleanup adds_supersede
      | erule adds_lookup adds_queries get_catalog [THEN conjunct2, THEN adds_same])+)+

lemma adds_confirm: "ends (adds P s) (linkArchiveConfirmChunk E now i x t b s)"
  unfolding linkArchiveConfirmChunk_def confirm_s3_def
  by (intro ends; (assumption | rule adds_refl adds_refresh adds_drop
      | erule adds_lookup adds_queries exists_catalog [THEN conjunct2, THEN adds_same]
        stat_catalog [THEN conjunct2, THEN adds_same, rotated 1])+)

lemma adds_put:
  assumes "Put (backend E) k b s = (r, s')" "adds P s0 s" "P k b"
  shows "adds P s0 s'"
proof -
  have "stored s x = Some c \<or> P x c" if "stored s' x = Some c" for x c
    using that put_stored [OF assms(1)] assms(3) by (cases "x = k") auto
  then show ?thesis using assms(2) by (auto simp: adds_def)
qed

lemma adds_store_chunk:
  assumes "adds P s0 s" "P (storage_key i n) body"
  shows "ends (adds P s0) (store_chunk E now i n h body s)"
  unfolding store_chunk_def
  by (intro ends; (assumption | rule assms adds_refresh adds_drop | erule adds_put adds_queries)+)

lemma adds_upload: "ends (adds (upload_of E s i x t body) s) (linkArchiveUploadChunk E now i x t h body s)"
  unfolding linkArchiveUploadChunk_def
proof (intro ends)
  let ?P = "upload_of E s i x t body"
  show "adds ?P s s" "adds ?P s s" by (rule adds_refl)+
  fix n th r s1
  assume l: "parse_idx x = Some n" "requireTokenHash E t = Some th" "lookupArchiveByUploadHash now i th s = (r, s1)"
  show s1: "adds ?P s s1" by (rule adds_lookup(1) [OF l(3) adds_refl])
  then show "adds ?P s s1" "adds ?P s s1" "adds ?P s s1" "adds ?P s s1" "adds ?P s s1" by this+
  fix a d
  assume "r = Inr a" "\<not> la_Finalized a"
  then have "?P (storage_key i n) body"
    using lookup_upload [OF l(3)] l(1,2) by (auto simp: upload_of_def catalog_def)
  then show "ends (adds ?P s) (store_chunk E now i n d body s1)" by (rule adds_store_chunk [OF s1])
qed

text \<open>Every request adds nothing but its own upload.\<close>

lemma routes_add: "adds (put_by E s req) s (snd (ArchiveRoutes E now req s))"
proof (cases req)
  case (AUpload i x t h b)
  then show ?thesis using adds_upload by (simp add: ends_def)
next
  case APurgerTick
  then show ?thesis using adds_tick [OF adds_refl] by simp
qed (use adds_handlers adds_confirm in \<open>simp_all add: ends_def\<close>)

end

section \<open>Histories\<close>

fun serve :: "'o archive_env \<Rightarrow> (time \<times> archive_request) list \<Rightarrow> 'o archive_store \<Rightarrow> 'o archive_store" where
  "serve E [] s = s"
| "serve E ((now, req) # reqs) s = serve E reqs (snd (ArchiveRoutes E now req s))"

lemma serve_append: "serve E (xs @ ys) s = serve E ys (serve E xs s)"
  by (induction xs arbitrary: s) auto

definition unused :: "'o archive_store \<Rightarrow> bool" where
  "unused s \<longleftrightarrow> link_archives (ar_db s) = [] \<and> link_archive_chunks (ar_db s) = [] \<and> chunk_blobs (ar_db s) = []"

context object_store
begin

lemma serve_runs: "archive_run E (catalog s) (catalog (serve E reqs s))"
proof (induction reqs arbitrary: s)
  case (Cons r reqs)
  obtain now req where r: "r = (now, req)" by (cases r)
  have "archive_run E (catalog s) (catalog (snd (ArchiveRoutes E now req s)))"
    using routes_run [of s now req] by (simp add: runs_def)
  then show ?case using Cons.IH [of "snd (ArchiveRoutes E now req s)"] by (simp add: r)
qed simp

lemma serve_ok: "unused s \<Longrightarrow> catalog_ok E (catalog (serve E reqs s))"
  by (rule run_ok [OF serve_runs]) (simp add: unused_def catalog_def catalog_ok_def)

lemma serve_quota:
  "unused s \<Longrightarrow> instanceStagingBytesCap E \<le> 2 ^ 62 \<Longrightarrow> quota_ok E (fst (catalog (serve E reqs s)))"
  by (rule run_quota [OF serve_runs]) (simp_all add: unused_def catalog_def quota_empty)

lemma serve_stored:
  assumes "stored (serve E reqs s) k = Some b"
  shows "stored s k = Some b \<or> (\<exists>before now i x t h after. reqs = before @ (now, AUpload i x t h b) # after \<and>
    upload_of E (serve E before s) i x t b k b)"
  using assms
proof (induction reqs arbitrary: s)
  case (Cons r reqs)
  obtain now req where r: "r = (now, req)" by (cases r)
  let ?s = "snd (ArchiveRoutes E now req s)"
  have "stored ?s k = Some b \<or> (\<exists>before now' i x t h after. reqs = before @ (now', AUpload i x t h b) # after \<and>
      upload_of E (serve E before ?s) i x t b k b)"
    using Cons.IH [of ?s] Cons.prems by (simp add: r)
  then show ?case
  proof (elim disjE exE conjE)
    assume "stored ?s k = Some b"
    then have "stored s k = Some b \<or> put_by E s req k b" using routes_add [of s req now] by (auto simp: adds_def)
    then show ?thesis
    proof
      assume "put_by E s req k b"
      then obtain i x t h where "req = AUpload i x t h b" "upload_of E s i x t b k b"
        by (cases req) (auto simp: upload_of_def)
      then have "(now, req) # reqs = [] @ (now, AUpload i x t h b) # reqs \<and> upload_of E (serve E [] s) i x t b k b" by simp
      then show ?thesis unfolding r by blast
    qed blast
  next
    fix before now' i x t h after
    assume "reqs = before @ (now', AUpload i x t h b) # after" "upload_of E (serve E before ?s) i x t b k b"
    then have "(now, req) # reqs = ((now, req) # before) @ (now', AUpload i x t h b) # after \<and>
        upload_of E (serve E ((now, req) # before) s) i x t b k b" by simp
    then show ?thesis unfolding r by blast
  qed
qed simp

lemma lookup_refuses [simp]: "lookupArchiveByDownloadHash now i h s \<noteq> (Inl (Done n d), s1)"
  by (auto simp: lookupArchiveByDownloadHash_def archiveOrError_def split: prod.splits sum.splits if_splits)

lemma download_stored:
  assumes "catalog_ok E (catalog s)" "linkArchiveDownloadChunk E now i x t s = (Done 200 (Chunk b), s')"
  obtains n where "parse_idx x = Some n" "stored s (storage_key i n) = Some b"
proof -
  obtain n h r s1 a c k s2 s3 where p: "parse_idx x = Some n" "lookupArchiveByDownloadHash now i h s = (r, s1)"
    "on_db (GetLinkArchiveChunkPointer i n) s1 = (Inr (c, k), s2)" "Get (backend E) k s2 = (Inr b, s3)"
    using assms(2)
    by (auto simp: linkArchiveDownloadChunk_def split: option.splits prod.splits sum.splits if_splits)
  have cat: "catalog s1 = catalog s" by (rule lookup_download(1) [OF p(2)])
  have "\<exists>row \<in> set (snd (catalog s1)). lc_ArchiveID row = i \<and> lc_Idx row = n \<and> lc_StorageKey row = k"
    using p(3) unfolding GetLinkArchiveChunkPointer_def
    by (auto simp: catalog_def chunk_is_def split: option.splits elim!: on_db_cases ar_query_cases dest!: find_Some_iff_mem)
       blast
  then have k: "k = storage_key i n" using assms(1) cat by (auto simp: catalog_ok_def chunk_for_def split: prod.splits)
  have sub: "stored s1 k = Some b"
    using get_stored [OF p(4)] adds_queries(14) [OF p(3), of "\<lambda>_ _. False" s1] by (simp add: adds_refl adds_def)
  have "adds (\<lambda>_ _. False) s s1" by (rule adds_lookup(2) [OF p(2) adds_refl])
  then have "stored s k = Some b" using sub by (simp add: adds_def)
  then show ?thesis using that p(1) k by simp
qed

end

section \<open>The store on PostgreSQL\<close>

definition pg_env :: "(bytes \<Rightarrow> bytes) \<Rightarrow> (string \<Rightarrow> string) \<Rightarrow> unit archive_env" where
  "pg_env H g = \<lparr>av_sha256 = H, Getenv = g, backend = PostgresBytea H\<rparr>"

definition pg_stored :: "unit archive_store \<Rightarrow> string \<Rightarrow> bytes option" where
  "pg_stored s k = map_option cb_Bytes (find (\<lambda>x. cb_Key x = k) (chunk_blobs (ar_db s)))"

lemma pg_env_fields [simp]:
  "av_sha256 (pg_env H g) = H" "Put (backend (pg_env H g)) = pg_Put H" "Get (backend (pg_env H g)) = pg_Get"
  "Delete (backend (pg_env H g)) = (\<lambda>key. on_db (DeleteChunkBlob key))"
  "Exists (backend (pg_env H g)) = (\<lambda>key. on_db (ChunkBlobExists key))"
  "StatChecksum (backend (pg_env H g)) = None" "Kind (backend (pg_env H g)) = ''postgres_bytea''"
  by (simp_all add: pg_env_def PostgresBytea_def)

lemma pg_upsert:
  assumes "on_db (UpsertChunkBlob k b) s = (r, s')"
  shows "catalog s' = catalog s \<and> (\<forall>k'. k' \<noteq> k \<longrightarrow> pg_stored s' k' = pg_stored s k') \<and>
    (pg_stored s' k = pg_stored s k \<or> pg_stored s' k = Some b)"
  using assms unfolding UpsertChunkBlob_def
  by (auto simp: catalog_def pg_stored_def find_append split: if_splits option.splits elim!: on_db_cases ar_query_cases)

lemma find_other_blob: "k' \<noteq> k \<Longrightarrow>
    find (\<lambda>x. cb_Key x = k') (sql_delete (\<lambda>x. cb_Key x = k) bs) = find (\<lambda>x. cb_Key x = k') bs"
  by (rule find_sql_delete_other) simp

lemma pg_delete:
  assumes "on_db (DeleteChunkBlob k) s = (r, s')"
  shows "catalog s' = catalog s \<and> (\<forall>k'. k' \<noteq> k \<longrightarrow> pg_stored s' k' = pg_stored s k') \<and>
    (pg_stored s' k = pg_stored s k \<or> pg_stored s' k = None)"
  using assms unfolding DeleteChunkBlob_def
  by (auto simp: catalog_def pg_stored_def find_sql_delete_None find_other_blob
      elim!: on_db_cases ar_query_cases)

lemma pg_get:
  assumes "pg_Get k s = (r, s')"
  shows "catalog s' = catalog s \<and> pg_stored s' = pg_stored s \<and> (\<forall>b. r = Inr b \<longrightarrow> pg_stored s k = Some b)"
  using assms unfolding pg_Get_def GetChunkBlob_def
  by (auto simp: catalog_def pg_stored_def fun_eq_iff split: prod.splits sum.splits option.splits
      elim!: on_db_cases ar_query_cases)

lemma pg_exists:
  assumes "on_db (ChunkBlobExists k) s = (r, s')"
  shows "catalog s' = catalog s \<and> pg_stored s' = pg_stored s"
  using assms unfolding ChunkBlobExists_def
  by (auto simp: catalog_def pg_stored_def fun_eq_iff elim!: on_db_cases ar_query_cases)

lemma pg_Put_cases:
  assumes "pg_Put H k b s = (r, s')"
  obtains (not_tried) "s' = s" "isl r"
    | (tried) r0 where "on_db (UpsertChunkBlob k b) s = (r0, s')" "\<And>h. r = Inr h \<Longrightarrow> h = H b"
  using assms by (auto simp: pg_Put_def split: if_splits prod.splits sum.splits)

interpretation pg: object_store "pg_env H g" pg_stored for H g
proof (unfold_locales, goal_cases)
  case (1 k b s r s')
  then show ?case by (auto elim!: pg_Put_cases dest: pg_upsert)
next
  case (2 k b s h s')
  then show ?case by (auto elim!: pg_Put_cases)
next
  case (3 k b s r s')
  then show ?case using pg_upsert [of k b s _ s'] by (auto elim!: pg_Put_cases)
next
  case (4 k s r s')
  then show ?case by (auto dest: pg_delete)
next
  case (5 k s r s')
  then show ?case using pg_delete [of k s r s'] by auto
next
  case (10 d s)
  then show ?case by (simp add: pg_stored_def fun_eq_iff)
qed (auto dest: pg_get pg_exists)

end
