(* ===== verification/Archive_Quiet.thy ===== *)
theory Archive_Quiet
  imports Archive_Stored
begin

text \<open>
  Archives while the database answers: what each request does then, exactly, over the store on
  PostgreSQL. A transfer from the first request to the last chunk, and what ticks of the purger leave.
\<close>

section \<open>Queries that answer\<close>

definition quiet :: "'o archive_store \<Rightarrow> bool" where
  "quiet s \<longleftrightarrow> archive_faults (ar_db s) = []"

lemma on_db_quiet: "quiet s \<Longrightarrow> on_db (ar_query q) s = (fst (q (ar_db s)), s\<lparr>ar_db := snd (q (ar_db s))\<rparr>)"
  by (cases "ar_db s") (simp add: quiet_def on_db_def ar_query_def split: prod.split)

lemma quiet_update [simp]:
  "quiet (s\<lparr>ar_db := ar_db s\<lparr>link_archives := x\<rparr>\<rparr>) = quiet s"
  "quiet (s\<lparr>ar_db := ar_db s\<lparr>link_archive_chunks := y\<rparr>\<rparr>) = quiet s"
  "quiet (s\<lparr>ar_db := ar_db s\<lparr>chunk_blobs := z\<rparr>\<rparr>) = quiet s"
  by (simp_all add: quiet_def)

lemma archive_store_id [simp]: "s\<lparr>ar_db := ar_db s\<rparr> = s"
  by simp

lemmas query_defs = CountActiveLinkArchivesForUser_def ListSupersedableLinkArchivesForUser_def SumActiveLinkArchiveBytes_def
  GetLinkArchiveByUploadTokenHash_def GetLinkArchiveByDownloadTokenHash_def ListGcEligibleLinkArchives_def
  GetLinkArchiveChunkPointer_def ListLinkArchiveChunkRows_def TransitionLinkArchiveState_def RefreshLinkArchiveExpiry_def
  MarkLinkArchiveFinalized_def DeleteLinkArchive_def InsertLinkArchive_def UpsertChunkBlob_def GetChunkBlob_def
  DeleteChunkBlob_def ChunkBlobExists_def

section \<open>What the purger leaves\<close>

text \<open>The store without the archives \<open>is\<close>, their chunks and the objects of these.\<close>

definition without :: "string set \<Rightarrow> unit archive_store \<Rightarrow> unit archive_store" where
  "without is s = s\<lparr>ar_db := ar_db s\<lparr>
     link_archives := sql_delete (\<lambda>a. la_ID a \<in> is) (link_archives (ar_db s)),
     link_archive_chunks := sql_delete (\<lambda>c. lc_ArchiveID c \<in> is) (link_archive_chunks (ar_db s)),
     chunk_blobs := sql_delete (\<lambda>b. \<exists>c \<in> set (link_archive_chunks (ar_db s)). lc_ArchiveID c \<in> is \<and> lc_StorageKey c = cb_Key b)
       (chunk_blobs (ar_db s))\<rparr>\<rparr>"

lemma without_stored:
  "pg_stored (without is s) k =
    (if \<exists>c \<in> set (link_archive_chunks (ar_db s)). lc_ArchiveID c \<in> is \<and> lc_StorageKey c = k then None else pg_stored s k)"
proof (cases "\<exists>c \<in> set (link_archive_chunks (ar_db s)). lc_ArchiveID c \<in> is \<and> lc_StorageKey c = k")
  case True
  then show ?thesis by (auto simp: pg_stored_def without_def intro!: find_sql_delete_None)
next
  case False
  then have "find (\<lambda>b. cb_Key b = k) (sql_delete (\<lambda>b. \<exists>c \<in> set (link_archive_chunks (ar_db s)).
      lc_ArchiveID c \<in> is \<and> lc_StorageKey c = cb_Key b) (chunk_blobs (ar_db s))) = find (\<lambda>b. cb_Key b = k) (chunk_blobs (ar_db s))"
    by (intro find_sql_delete_other) simp
  then show ?thesis by (subst if_not_P [OF False]) (simp add: pg_stored_def without_def)
qed

lemma without_quiet [simp]: "quiet (without is s) = quiet s"
  by (simp add: without_def quiet_def)

lemma without_none [simp]: "without {} s = s"
  by (simp add: without_def sql_delete_def)

lemma without_without: "without is (without js s) = without (is \<union> js) s"
proof -
  have "link_archives (ar_db (without is (without js s))) = link_archives (ar_db (without (is \<union> js) s))"
    "link_archive_chunks (ar_db (without is (without js s))) = link_archive_chunks (ar_db (without (is \<union> js) s))"
    by (auto simp: without_def sql_delete_def intro!: filter_cong)
  moreover have "chunk_blobs (ar_db (without is (without js s))) = chunk_blobs (ar_db (without (is \<union> js) s))"
    by (auto simp: without_def sql_delete_def intro!: filter_cong)
  ultimately show ?thesis by (simp add: without_def)
qed

lemma delete_objects_quiet:
  "quiet s \<Longrightarrow> delete_objects (pg_env H g) cs s =
     s\<lparr>ar_db := ar_db s\<lparr>chunk_blobs := sql_delete (\<lambda>b. cb_Key b \<in> lc_StorageKey ` set cs) (chunk_blobs (ar_db s))\<rparr>\<rparr>"
proof (induction cs arbitrary: s)
  case Nil
  then show ?case by (simp add: sql_delete_def)
next
  case (Cons c cs)
  have "snd (on_db (DeleteChunkBlob (lc_StorageKey c)) s) =
      s\<lparr>ar_db := ar_db s\<lparr>chunk_blobs := sql_delete (\<lambda>b. cb_Key b = lc_StorageKey c) (chunk_blobs (ar_db s))\<rparr>\<rparr>"
    using Cons.prems by (simp add: DeleteChunkBlob_def on_db_quiet)
  then show ?case
    using Cons by (simp add: sql_delete_def conj_commute)
qed

lemma purge_quiet:
  assumes "quiet s"
  shows "purgeArchive (pg_env H g) i s = (Inr (), without {i} s)"
proof -
  have q: "on_db (ListLinkArchiveChunkRows i) s = (Inr (rows_of i (link_archive_chunks (ar_db s))), s)"
    using assms by (simp add: ListLinkArchiveChunkRows_def on_db_quiet rows_of_def)
  have k: "cb_Key b \<in> lc_StorageKey ` set (rows_of i (link_archive_chunks (ar_db s))) \<longleftrightarrow>
      (\<exists>c \<in> set (link_archive_chunks (ar_db s)). lc_ArchiveID c = i \<and> lc_StorageKey c = cb_Key b)" for b
    by (auto simp: rows_of_def intro: rev_image_eqI)
  show ?thesis
    using assms by (simp add: purgeArchive_def q delete_objects_quiet k DeleteLinkArchive_def on_db_quiet without_def)
qed

lemma purge_all_quiet: "quiet s \<Longrightarrow> purge_all (pg_env H g) is s = without (set is) s"
  by (induction "is" arbitrary: s) (simp_all add: purge_quiet without_without)

definition eligible :: "time \<Rightarrow> unit archive_store \<Rightarrow> LinkArchive list" where
  "eligible now s = filter (gc_eligible now) (link_archives (ar_db s))"

lemma tick_quiet:
  assumes "quiet s"
  obtains "is" where "runPurgerTick (pg_env H g) now s = without is s" "is \<subseteq> la_ID ` set (eligible now s)"
    "length (eligible now (without is s)) \<le> length (eligible now s) - 64"
proof -
  let ?picked = "take 64 (sort_key la_CreatedAt (eligible now s))"
  have r: "runPurgerTick (pg_env H g) now s = without (la_ID ` set ?picked) s"
    using assms by (simp add: runPurgerTick_def ListGcEligibleLinkArchives_def on_db_quiet purge_all_quiet eligible_def
        linkArchivePurgeBatchLimit_def)
  have sub: "la_ID ` set ?picked \<subseteq> la_ID ` set (eligible now s)"
    using set_take_subset [of 64 "sort_key la_CreatedAt (eligible now s)"] by auto
  have e: "eligible now (without (la_ID ` set ?picked) s) = filter (\<lambda>a. la_ID a \<notin> la_ID ` set ?picked) (eligible now s)"
    by (simp add: eligible_def without_def sql_delete_def conj_commute)
  have "length (filter (\<lambda>a. la_ID a \<notin> la_ID ` set ?picked) (eligible now s)) =
      length (filter (\<lambda>a. la_ID a \<notin> la_ID ` set ?picked) (sort_key la_CreatedAt (eligible now s)))"
    by (simp add: filter_sort)
  also have "\<dots> = length (filter (\<lambda>a. la_ID a \<notin> la_ID ` set ?picked) (drop 64 (sort_key la_CreatedAt (eligible now s))))"
    by (subst append_take_drop_id [of 64, symmetric]) (simp only: filter_append, simp)
  also have "\<dots> \<le> length (eligible now s) - 64"
    by (rule order_trans [OF length_filter_le]) simp
  finally show ?thesis using that [OF r sub] e by simp
qed

lemma ticks_quiet:
  assumes "quiet s"
  shows "\<exists>is. serve (pg_env H g) (replicate n (now, APurgerTick)) s = without is s \<and>
    is \<subseteq> la_ID ` set (eligible now s) \<and> length (eligible now (without is s)) \<le> length (eligible now s) - 64 * n"
proof (induction n)
  case 0
  show ?case by (rule exI [of _ "{}"]) simp
next
  case (Suc n)
  then obtain js where js: "serve (pg_env H g) (replicate n (now, APurgerTick)) s = without js s"
    "js \<subseteq> la_ID ` set (eligible now s)" "length (eligible now (without js s)) \<le> length (eligible now s) - 64 * n" by blast
  obtain "is" where i: "runPurgerTick (pg_env H g) now (without js s) = without is (without js s)"
    "is \<subseteq> la_ID ` set (eligible now (without js s))"
    "length (eligible now (without is (without js s))) \<le> length (eligible now (without js s)) - 64"
    using tick_quiet [of "without js s" H g now] assms by auto
  have "replicate (Suc n) (now, APurgerTick) = replicate n (now, APurgerTick) @ [(now, APurgerTick)]"
    by (simp add: replicate_append_same)
  then have "serve (pg_env H g) (replicate (Suc n) (now, APurgerTick)) s = without (is \<union> js) s"
    by (simp only: serve_append js(1)) (simp add: i(1) without_without)
  moreover have "set (eligible now (without js s)) \<subseteq> set (eligible now s)"
    by (auto simp: eligible_def without_def sql_delete_def)
  then have "is \<union> js \<subseteq> la_ID ` set (eligible now s)" using i(2) js(2) by blast
  ultimately show ?case using i(3) js(3) by (intro exI [of _ "is \<union> js"]) (simp add: without_without)
qed

text \<open>Enough ticks remove the eligible archives and nothing else.\<close>

lemma ticks_drain:
  assumes "quiet s" "length (eligible now s) \<le> 64 * n"
  shows "serve (pg_env H g) (replicate n (now, APurgerTick)) s = without (la_ID ` set (eligible now s)) s"
proof -
  obtain "is" where i: "serve (pg_env H g) (replicate n (now, APurgerTick)) s = without is s"
    "is \<subseteq> la_ID ` set (eligible now s)" "length (eligible now (without is s)) \<le> length (eligible now s) - 64 * n"
    using ticks_quiet [OF assms(1)] by blast
  then have "eligible now (without is s) = []" using assms(2) by simp
  then have "la_ID ` set (eligible now s) \<subseteq> is"
    by (auto simp: eligible_def without_def sql_delete_def filter_empty_conv)
  then have "is = la_ID ` set (eligible now s)" using i(2) by (rule subset_antisym [rotated])
  then show ?thesis using i(1) by simp
qed

end
