(* ===== verification/Archive_Transfer.thy ===== *)
theory Archive_Transfer
  imports Archive_Quiet
begin

text \<open>
  A whole transfer while the database answers: opening, uploads in any order and any number of times,
  finalize, manifest and downloads, over the store on PostgreSQL.
\<close>

section \<open>Headers and tokens\<close>

lemma encode_visible:
  assumes "c \<in> set (EncodeToString enc bs)"
  shows "visible c"
proof -
  have "\<forall>c \<in> set (b64_alphabet enc). visible c"
    by (cases enc) (simp_all add: std_alphabet_def url_alphabet_def visible_def)
  moreover have "visible (CHR ''='')" by (simp add: visible_def)
  moreover have "c \<in> set (b64_alphabet enc) \<or> c = CHR ''=''"
    using assms sextets_less [of _ bs] alphabet_props [of enc]
    by (auto simp: EncodeToString_def intro!: nth_mem split: if_splits)
  ultimately show ?thesis by auto
qed

lemma encode_Nil: "EncodeToString enc bs = [] \<longleftrightarrow> bs = []"
proof -
  have "sextets bs = [] \<longleftrightarrow> bs = []" by (induction bs rule: sextets.induct) simp_all
  then show ?thesis by (auto simp: EncodeToString_def)
qed

lemma TrimSpace_encode: "bs \<noteq> [] \<Longrightarrow> TrimSpace (EncodeToString enc bs) = EncodeToString enc bs"
  by (rule TrimSpace_id) (use encode_visible [of _ enc bs] in \<open>simp_all add: encode_Nil\<close>)

lemma decodeHash_encode: "length h = 32 \<Longrightarrow> decodeHashB64 (EncodeToString StdEncoding h) = Some h"
  using TrimSpace_encode [of h StdEncoding] by (cases h) (auto simp: decodeHashB64_def Let_def base64_roundtrip encode_Nil)

definition token_of :: "bytes \<Rightarrow> string" where
  "token_of r = EncodeToString RawURLEncoding r"

definition token_hash :: "(bytes \<Rightarrow> bytes) \<Rightarrow> bytes \<Rightarrow> bytes" where
  "token_hash H r = H (bytes_of_string (token_of r))"

lemma newBearerToken_some: "newBearerToken (pg_env H g) (Some r) = Some (token_of r, token_hash H r)"
  by (simp add: newBearerToken_def Let_def token_of_def token_hash_def)

lemma requireTokenHash_token: "r \<noteq> [] \<Longrightarrow> requireTokenHash (pg_env H g) (token_of r) = Some (token_hash H r)"
  by (simp add: requireTokenHash_def Let_def token_of_def token_hash_def TrimSpace_encode encode_Nil)

lemma parse_idx_itoa: "int k < 2 ^ 31 \<Longrightarrow> parse_idx (itoa (int k)) = Some (int k)"
  using Atoi_itoa [of "int k"] by (simp add: parse_idx_def)

section \<open>Requests that succeed\<close>

lemma lookup_quiet:
  assumes "quiet s"
  shows "lookupArchiveByUploadHash now i h s =
      (archiveOrError (scanLinkArchive now (find (\<lambda>a. la_ID a = i \<and> la_UploadTokenHash a = h) (link_archives (ar_db s)))), s)"
    and "lookupArchiveByDownloadHash now i h s =
      (archiveOrError (scanLinkArchive now (find (\<lambda>a. la_ID a = i \<and> la_DownloadTokenHash a = h) (link_archives (ar_db s)))), s)"
  using assms by (simp_all add: lookupArchiveByUploadHash_def lookupArchiveByDownloadHash_def query_defs on_db_quiet)

definition refreshed :: "time \<Rightarrow> string \<Rightarrow> LinkArchive list \<Rightarrow> LinkArchive list" where
  "refreshed now i as = sql_update (\<lambda>a. la_ID a = i) (\<lambda>a. a\<lparr>la_ExpiresAt := min (now + linkArchiveDefaultExpiry) (la_HardDeadlineAt a)\<rparr>) as"

lemma refresh_quiet:
  "quiet s \<Longrightarrow> refreshArchive now i s = s\<lparr>ar_db := ar_db s\<lparr>link_archives := refreshed now i (link_archives (ar_db s))\<rparr>\<rparr>"
  by (simp add: refreshArchive_def query_defs on_db_quiet refreshed_def)

definition blob_added :: "string \<Rightarrow> bytes \<Rightarrow> ChunkBlob list \<Rightarrow> ChunkBlob list" where
  "blob_added k b bs = (if sql_exists (\<lambda>x. cb_Key x = k) bs then bs else bs @ [\<lparr>cb_Key = k, cb_Bytes = b\<rparr>])"

definition pg_row :: "string \<Rightarrow> int \<Rightarrow> bytes \<Rightarrow> bytes \<Rightarrow> LinkArchiveChunkRow" where
  "pg_row i n h b = \<lparr>lc_ArchiveID = i, lc_Idx = n, lc_ChunkSize = int (length b), lc_ChunkHash = h,
     lc_StorageBackend = ''postgres_bytea'', lc_StorageKey = storage_key i n\<rparr>"

definition row_added :: "LinkArchiveChunkRow \<Rightarrow> LinkArchiveChunkRow list \<Rightarrow> LinkArchiveChunkRow list" where
  "row_added c cs = (if sql_exists (chunk_is (lc_ArchiveID c) (lc_Idx c)) cs then cs else cs @ [c])"

lemma insert_chunk_quiet:
  assumes "quiet s" "0 \<le> lc_Idx c" "0 < lc_ChunkSize c" "sql_exists (\<lambda>a. la_ID a = lc_ArchiveID c) (link_archives (ar_db s))"
    and "\<And>x. x \<in> set (link_archive_chunks (ar_db s)) \<Longrightarrow> chunk_is (lc_ArchiveID c) (lc_Idx c) x \<Longrightarrow> lc_ChunkHash x = lc_ChunkHash c"
  shows "on_db (InsertLinkArchiveChunk c) s =
    (Inr (), s\<lparr>ar_db := ar_db s\<lparr>link_archive_chunks := row_added c (link_archive_chunks (ar_db s))\<rparr>\<rparr>)"
proof -
  have e: "sql_exists (chunk_is (lc_ArchiveID c) (lc_Idx c)) (link_archive_chunks (ar_db s)) \<longleftrightarrow>
      find (chunk_is (lc_ArchiveID c) (lc_Idx c)) (link_archive_chunks (ar_db s)) \<noteq> None"
    by (auto simp: sql find_None_iff)
  show ?thesis
  proof (cases "find (chunk_is (lc_ArchiveID c) (lc_Idx c)) (link_archive_chunks (ar_db s))")
    case None
    then show ?thesis
      using assms(1-4) e by (cases "ar_db s") (simp add: quiet_def on_db_def InsertLinkArchiveChunk_def insert_chunk_def
          ar_query_def row_added_def)
  next
    case (Some x)
    then have "lc_ChunkHash x = lc_ChunkHash c" using assms(5) by (auto dest: find_Some_iff_mem)
    then show ?thesis
      using Some assms(1) e by (cases "ar_db s") (simp add: quiet_def on_db_def InsertLinkArchiveChunk_def insert_chunk_def
          select_chunk_hash_def ar_query_def row_added_def)
  qed
qed

lemma store_chunk_quiet:
  assumes "quiet s" "H b = h" "b \<noteq> []" "0 \<le> n" "sql_exists (\<lambda>a. la_ID a = i) (link_archives (ar_db s))"
    and "\<And>x. x \<in> set (link_archive_chunks (ar_db s)) \<Longrightarrow> chunk_is i n x \<Longrightarrow> lc_ChunkHash x = h"
  shows "store_chunk (pg_env H g) now i n h b s = (Done 204 NoContent, s\<lparr>ar_db := ar_db s\<lparr>
      link_archives := refreshed now i (link_archives (ar_db s)),
      link_archive_chunks := row_added (pg_row i n h b) (link_archive_chunks (ar_db s)),
      chunk_blobs := blob_added (storage_key i n) b (chunk_blobs (ar_db s))\<rparr>\<rparr>)"
proof -
  define s1 where "s1 = s\<lparr>ar_db := ar_db s\<lparr>chunk_blobs := blob_added (storage_key i n) b (chunk_blobs (ar_db s))\<rparr>\<rparr>"
  have put: "pg_Put H (storage_key i n) b s = (Inr h, s1)"
    using assms(1-3) by (cases "ar_db s") (simp add: pg_Put_def query_defs on_db_quiet blob_added_def s1_def)
  have s1: "quiet s1" "link_archives (ar_db s1) = link_archives (ar_db s)"
    "link_archive_chunks (ar_db s1) = link_archive_chunks (ar_db s)" using assms(1) by (simp_all add: s1_def)
  have ins: "on_db (InsertLinkArchiveChunk (pg_row i n h b)) s1 =
      (Inr (), s1\<lparr>ar_db := ar_db s1\<lparr>link_archive_chunks := row_added (pg_row i n h b) (link_archive_chunks (ar_db s1))\<rparr>\<rparr>)"
    by (rule insert_chunk_quiet) (use assms s1 in \<open>simp_all add: pg_row_def\<close>)
  show ?thesis
    using s1 ins [unfolded pg_row_def] by (simp add: store_chunk_def put slicesEqual_iff refresh_quiet pg_row_def s1_def quiet_def)
qed

lemma upload_quiet:
  assumes s: "quiet s" "link_archives (ar_db s) = [a]" and a: "la_ID a = i" "la_UploadTokenHash a = token_hash H r"
      "\<not> la_Finalized a" "fresh_archive now a" "int k < la_TotalChunks a" "la_TotalChunks a < 2 ^ 31"
    and r: "r \<noteq> []" and b: "b \<noteq> []" "int (length b) \<le> linkArchiveChunkBodyMax" "length (H b) = 32"
    and x: "\<And>x. x \<in> set (link_archive_chunks (ar_db s)) \<Longrightarrow> chunk_is i (int k) x \<Longrightarrow> lc_ChunkHash x = H b"
  shows "linkArchiveUploadChunk (pg_env H g) now i (itoa (int k)) (token_of r) (EncodeToString StdEncoding (H b)) b s =
    (Done 204 NoContent, s\<lparr>ar_db := ar_db s\<lparr>
      link_archives := [a\<lparr>la_ExpiresAt := min (now + linkArchiveDefaultExpiry) (la_HardDeadlineAt a)\<rparr>],
      link_archive_chunks := row_added (pg_row i (int k) (H b) b) (link_archive_chunks (ar_db s)),
      chunk_blobs := blob_added (storage_key i (int k)) b (chunk_blobs (ar_db s))\<rparr>\<rparr>)"
proof -
  have k: "int k < 2 ^ 31" using a(5,6) by linarith
  have st: "store_chunk (pg_env H g) now i (int k) (H b) b s = (Done 204 NoContent, s\<lparr>ar_db := ar_db s\<lparr>
      link_archives := refreshed now i (link_archives (ar_db s)),
      link_archive_chunks := row_added (pg_row i (int k) (H b) b) (link_archive_chunks (ar_db s)),
      chunk_blobs := blob_added (storage_key i (int k)) b (chunk_blobs (ar_db s))\<rparr>\<rparr>)"
    by (rule store_chunk_quiet) (use s a(1) b x in \<open>simp_all add: sql\<close>)
  have re: "refreshed now i [a] = [a\<lparr>la_ExpiresAt := min (now + linkArchiveDefaultExpiry) (la_HardDeadlineAt a)\<rparr>]"
    using a(1) by (simp add: refreshed_def sql_update_def)
  have up: "linkArchiveUploadChunk (pg_env H g) now i (itoa (int k)) (token_of r) (EncodeToString StdEncoding (H b)) b s =
      store_chunk (pg_env H g) now i (int k) (H b) b s"
    using a(1-5) b s parse_idx_itoa [OF k]
    by (simp add: linkArchiveUploadChunk_def requireTokenHash_token [OF r] lookup_quiet scanLinkArchive_def fresh_archive_def
        archiveOrError_def decodeHash_encode)
  show ?thesis unfolding up st s(2) re ..
qed

section \<open>The uploads\<close>

definition chunk_row :: "(bytes \<Rightarrow> bytes) \<Rightarrow> string \<Rightarrow> bytes list \<Rightarrow> nat \<Rightarrow> LinkArchiveChunkRow" where
  "chunk_row H i bs k = pg_row i (int k) (H (bs ! k)) (bs ! k)"

text \<open>\<open>s\<close> has the archive \<open>a\<close> and of the chunks \<open>bs\<close> those in \<open>K\<close>.\<close>

definition holds :: "(bytes \<Rightarrow> bytes) \<Rightarrow> LinkArchive \<Rightarrow> bytes list \<Rightarrow> nat set \<Rightarrow> unit archive_store \<Rightarrow> bool" where
  "holds H a bs K s \<longleftrightarrow> quiet s \<and> link_archives (ar_db s) = [a] \<and>
     distinct (map lc_Idx (link_archive_chunks (ar_db s))) \<and>
     set (link_archive_chunks (ar_db s)) = chunk_row H (la_ID a) bs ` K \<and>
     (\<forall>k < length bs. pg_stored s (storage_key (la_ID a) (int k)) = (if k \<in> K then Some (bs ! k) else None))"

text \<open>An index fixes the key of its chunk.\<close>

lemma storage_key_inj: "int k < 2 ^ 31 \<Longrightarrow> int l < 2 ^ 31 \<Longrightarrow> storage_key i (int k) = storage_key i (int l) \<longleftrightarrow> k = l"
proof
  assume k: "int k < 2 ^ 31" "int l < 2 ^ 31" and "storage_key i (int k) = storage_key i (int l)"
  then have "parse_idx (itoa (int k)) = parse_idx (itoa (int l))" by (simp add: storage_key_def)
  then show "k = l" unfolding parse_idx_itoa [OF k(1)] parse_idx_itoa [OF k(2)] by simp
qed simp

lemma pg_stored_added:
  "pg_stored (s\<lparr>ar_db := ar_db s\<lparr>link_archives := as, link_archive_chunks := cs, chunk_blobs := blob_added k b (chunk_blobs (ar_db s))\<rparr>\<rparr>) k' =
   (if k' = k \<and> pg_stored s k = None then Some b else pg_stored s k')"
proof -
  have e: "sql_exists (\<lambda>x. cb_Key x = k) (chunk_blobs (ar_db s)) \<longleftrightarrow> pg_stored s k \<noteq> None"
    by (auto simp: pg_stored_def sql find_None_iff)
  show ?thesis
    by (cases "pg_stored s k = None"; cases "k' = k")
       (simp_all add: e blob_added_def find_append pg_stored_def split: option.splits)
qed

definition proper_archive :: "LinkArchive \<Rightarrow> bytes list \<Rightarrow> bool" where
  "proper_archive a bs \<longleftrightarrow> la_TotalChunks a = int (length bs) \<and> int (length bs) < 2 ^ 31 \<and>
     (\<forall>b \<in> set bs. b \<noteq> [] \<and> int (length b) \<le> linkArchiveChunkBodyMax)"

lemma upload_holds:
  assumes h: "holds H a bs K s" "K \<subseteq> {..<length bs}" and k: "k < length bs" and p: "proper_archive a bs"
    and a: "la_UploadTokenHash a = token_hash H r" "\<not> la_Finalized a" "fresh_archive now a"
    and r: "r \<noteq> []" and H: "\<And>b. length (H b) = 32"
  shows "holds H (a\<lparr>la_ExpiresAt := min (now + linkArchiveDefaultExpiry) (la_HardDeadlineAt a)\<rparr>) bs (insert k K)
    (snd (linkArchiveUploadChunk (pg_env H g) now (la_ID a) (itoa (int k)) (token_of r) (EncodeToString StdEncoding (H (bs ! k))) (bs ! k) s))"
proof -
  have b: "bs ! k \<noteq> []" "int (length (bs ! k)) \<le> linkArchiveChunkBodyMax" using p k by (simp_all add: proper_archive_def)
  have lt: "int k < la_TotalChunks a" "la_TotalChunks a < 2 ^ 31" using p k by (simp_all add: proper_archive_def)
  have old: "lc_ChunkHash x = H (bs ! k)" if "x \<in> set (link_archive_chunks (ar_db s))" "chunk_is (la_ID a) (int k) x" for x
    using that h(1) by (auto simp: holds_def chunk_row_def pg_row_def chunk_is_def)
  have q: "quiet s" "link_archives (ar_db s) = [a]" using h(1) by (simp_all add: holds_def)
  note up = upload_quiet [OF q refl a lt r b H old]
  have in_K: "sql_exists (chunk_is (la_ID a) (int k)) (link_archive_chunks (ar_db s)) \<longleftrightarrow> k \<in> K"
    using h(1) by (auto simp: holds_def sql chunk_is_def chunk_row_def pg_row_def)
  have rows: "distinct (map lc_Idx (row_added (chunk_row H (la_ID a) bs k) (link_archive_chunks (ar_db s)))) \<and>
      set (row_added (chunk_row H (la_ID a) bs k) (link_archive_chunks (ar_db s))) = chunk_row H (la_ID a) bs ` insert k K"
  proof (cases "k \<in> K")
    case True
    then show ?thesis using in_K h(1) by (auto simp: row_added_def chunk_row_def pg_row_def holds_def insert_absorb)
  next
    case False
    then have "int k \<notin> lc_Idx ` set (link_archive_chunks (ar_db s))"
      using h(1) by (auto simp: holds_def chunk_row_def pg_row_def)
    then show ?thesis using False in_K h(1) by (auto simp: row_added_def chunk_row_def pg_row_def holds_def)
  qed
  have keys: "storage_key (la_ID a) (int l) = storage_key (la_ID a) (int k) \<longleftrightarrow> l = k" if "l < length bs" for l
    by (rule storage_key_inj) (use that k p in \<open>simp_all add: proper_archive_def\<close>)
  have blobs: "(if storage_key (la_ID a) (int l) = storage_key (la_ID a) (int k) \<and> pg_stored s (storage_key (la_ID a) (int k)) = None
      then Some (bs ! k) else pg_stored s (storage_key (la_ID a) (int l))) = (if l \<in> insert k K then Some (bs ! l) else None)"
    if "l < length bs" for l
    using h(1) k that keys [OF that] by (auto simp: holds_def)
  show ?thesis
    using rows blobs q(1) by (simp add: up holds_def pg_stored_added chunk_row_def quiet_def)
qed

text \<open>Uploads of the chunks \<open>ks\<close>, each with its time.\<close>

definition uploads :: "(bytes \<Rightarrow> bytes) \<Rightarrow> string \<Rightarrow> string \<Rightarrow> bytes list \<Rightarrow> (time \<times> nat) list \<Rightarrow> (time \<times> archive_request) list" where
  "uploads H i tok bs ks =
     map (\<lambda>(t, k). (t, AUpload i (itoa (int k)) tok (EncodeToString StdEncoding (H (bs ! k))) (bs ! k))) ks"

lemma uploads_hold:
  assumes "holds H a bs K s" "K \<subseteq> {..<length bs}" "proper_archive a bs" "la_UploadTokenHash a = token_hash H r" "\<not> la_Finalized a"
    and "r \<noteq> []" "\<And>b. length (H b) = 32"
    and "\<forall>(t, k) \<in> set ks. start \<le> t \<and> t < start + linkArchiveDefaultExpiry \<and> k < length bs"
    and "start + linkArchiveDefaultExpiry \<le> la_ExpiresAt a" "start + linkArchiveDefaultExpiry \<le> la_HardDeadlineAt a"
  shows "\<exists>e \<ge> start + linkArchiveDefaultExpiry.
    holds H (a\<lparr>la_ExpiresAt := e\<rparr>) bs (K \<union> snd ` set ks) (serve (pg_env H g) (uploads H (la_ID a) (token_of r) bs ks) s)"
  using assms
proof (induction ks arbitrary: a K s)
  case Nil
  then show ?case by (intro exI [of _ "la_ExpiresAt a"]) (simp add: uploads_def)
next
  case (Cons tk ks)
  obtain t k where tk: "tk = (t, k)" by (cases tk)
  let ?a = "a\<lparr>la_ExpiresAt := min (t + linkArchiveDefaultExpiry) (la_HardDeadlineAt a)\<rparr>"
  let ?s = "snd (linkArchiveUploadChunk (pg_env H g) t (la_ID a) (itoa (int k)) (token_of r) (EncodeToString StdEncoding (H (bs ! k))) (bs ! k) s)"
  have t: "start \<le> t" "t < start + linkArchiveDefaultExpiry" "k < length bs" using Cons.prems(8) by (simp_all add: tk)
  have "fresh_archive t a" using t Cons.prems(9,10) by (simp add: fresh_archive_def)
  then have h: "holds H ?a bs (insert k K) ?s"
    by (intro upload_holds Cons.prems(1-7) t(3)) simp_all
  have "\<exists>e \<ge> start + linkArchiveDefaultExpiry. holds H (?a\<lparr>la_ExpiresAt := e\<rparr>) bs (insert k K \<union> snd ` set ks)
      (serve (pg_env H g) (uploads H (la_ID ?a) (token_of r) bs ks) ?s)"
    by (rule Cons.IH [OF h]) (use Cons.prems t in \<open>simp_all add: proper_archive_def tk\<close>)
  then show ?case by (simp add: tk uploads_def)
qed

section \<open>Finalize, manifest and downloads\<close>

lemma holds_rows:
  assumes "holds H a bs {..<length bs} s"
  shows "rows_of (la_ID a) (link_archive_chunks (ar_db s)) = map (chunk_row H (la_ID a) bs) [0..<length bs]"
proof -
  let ?cs = "link_archive_chunks (ar_db s)"
  have f: "filter (\<lambda>c. lc_ArchiveID c = la_ID a) ?cs = ?cs"
    using assms by (auto simp: holds_def chunk_row_def pg_row_def intro!: filter_True)
  have idx: "map lc_Idx (sort_key lc_Idx ?cs) = map int [0..<length bs]"
  proof (rule sorted_distinct_set_unique)
    show "set (map lc_Idx (sort_key lc_Idx ?cs)) = set (map int [0..<length bs])"
      using assms by (auto simp: holds_def chunk_row_def pg_row_def image_image)
    show "sorted (map int [0..<length bs])" by (simp add: sorted_map sorted_wrt_upt sorted_wrt_map)
    have "distinct (map lc_Idx ?cs)" using assms by (simp add: holds_def)
    then show "distinct (map lc_Idx (sort_key lc_Idx ?cs))" by (simp add: distinct_map)
  qed (simp_all add: distinct_map)
  have row: "chunk_row H (la_ID a) bs (nat (lc_Idx c)) = c" if "c \<in> set ?cs" for c
    using that assms by (auto simp: holds_def chunk_row_def pg_row_def)
  have "sort_key lc_Idx ?cs = map (\<lambda>c. chunk_row H (la_ID a) bs (nat (lc_Idx c))) (sort_key lc_Idx ?cs)"
    by (rule map_idI [symmetric]) (simp add: row)
  also have "\<dots> = map (\<lambda>x. chunk_row H (la_ID a) bs (nat x)) (map lc_Idx (sort_key lc_Idx ?cs))" by simp
  also have "\<dots> = map (chunk_row H (la_ID a) bs) [0..<length bs]" by (simp add: idx)
  finally show ?thesis by (simp add: rows_of_def f)
qed

lemma map_chunk_rows:
  "map lc_ChunkHash (map (chunk_row H i bs) [0..<length bs]) = map H bs"
  "map lc_ChunkSize (map (chunk_row H i bs) [0..<length bs]) = map (int \<circ> length) bs"
  "map lc_Idx (map (chunk_row H i bs) [0..<length bs]) = [0..int (length bs) - 1]"
  by (rule nth_equalityI; simp add: chunk_row_def pg_row_def)+

definition bytes_total :: "bytes list \<Rightarrow> int" where
  "bytes_total bs = sum_list (map (int \<circ> length) bs)"

lemma holds_complete:
  assumes "holds H a bs {..<length bs} s" "proper_archive a bs"
    and "la_ManifestHash a = H (concat (map H bs))" "la_TotalBytes a = bytes_total bs"
  shows "check_complete (pg_env H g) a (rows_of (la_ID a) (link_archive_chunks (ar_db s))) = None"
proof -
  let ?rows = "map (chunk_row H (la_ID a) bs) [0..<length bs]"
  have "proper_rows (la_TotalChunks a) ?rows"
    using assms(2) map_chunk_rows(3) [of H "la_ID a" bs]
    by (auto simp: proper_rows_def proper_archive_def chunk_row_def pg_row_def)
  moreover have "la_TotalChunks a < 2 ^ 31" using assms(2) by (simp add: proper_archive_def)
  ultimately show ?thesis
    using assms(2-4) by (simp only: holds_rows [OF assms(1)] check_complete_None map_chunk_rows)
      (simp add: proper_archive_def bytes_total_def)
qed

definition delivered :: "time \<Rightarrow> LinkArchive \<Rightarrow> LinkArchive" where
  "delivered now a = a\<lparr>la_Finalized := True, la_State := StateAvailable,
     la_ExpiresAt := min (now + linkArchiveDefaultExpiry) (la_HardDeadlineAt a)\<rparr>"

lemma finalize_quiet:
  assumes h: "holds H a bs {..<length bs} s" and p: "proper_archive a bs"
    and m: "la_ManifestHash a = H (concat (map H bs))" "la_TotalBytes a = bytes_total bs"
    and a: "la_UploadTokenHash a = token_hash H r" "\<not> la_Finalized a" "fresh_archive now a" "la_State a = StateUploading"
    and r: "r \<noteq> []"
  shows "linkArchiveFinalize (pg_env H g) now (la_ID a) (token_of r) s =
    (Done 200 StatusOk, s\<lparr>ar_db := ar_db s\<lparr>link_archives := [delivered now a]\<rparr>\<rparr>)"
proof -
  have q: "quiet s" "link_archives (ar_db s) = [a]" using h by (simp_all add: holds_def)
  have c: "check_complete (pg_env H g) a (sort_key lc_Idx (filter (\<lambda>c. lc_ArchiveID c = la_ID a) (link_archive_chunks (ar_db s)))) = None"
    using holds_complete [OF h p m, of g] by (simp add: rows_of_def)
  show ?thesis
    using q a c by (simp add: linkArchiveFinalize_def requireTokenHash_token [OF r] lookup_quiet scanLinkArchive_def fresh_archive_def
        archiveOrError_def query_defs on_db_quiet sql_update_def refresh_quiet refreshed_def delivered_def)
qed

lemma fill_hashes_rows:
  assumes "m \<le> length bs" "length hs = length bs"
  shows "fill_hashes (map (chunk_row H i bs) [m..<length bs]) hs =
    Some (take m hs @ map (\<lambda>k. EncodeToString StdEncoding (H (bs ! k))) [m..<length bs])"
  using assms
proof (induction "length bs - m" arbitrary: m hs)
  case (Suc d)
  then have m: "m < length bs" by simp
  let ?v = "EncodeToString StdEncoding (H (bs ! m))"
  have "fill_hashes (map (chunk_row H i bs) [Suc m..<length bs]) (hs[m := ?v]) =
      Some (take (Suc m) (hs[m := ?v]) @ map (\<lambda>k. EncodeToString StdEncoding (H (bs ! k))) [Suc m..<length bs])"
    by (rule Suc.hyps(1)) (use Suc.hyps(2) Suc.prems m in simp_all)
  then show ?case
    using m Suc.prems(2) by (simp add: upt_conv_Cons chunk_row_def pg_row_def take_Suc_conv_app_nth)
qed simp

lemma manifest_quiet:
  assumes h: "holds H a bs {..<length bs} s" and p: "proper_archive a bs"
    and a: "la_DownloadTokenHash a = token_hash H r" "la_Finalized a" "fresh_archive now a" and r: "r \<noteq> []"
  shows "fst (linkArchiveManifest (pg_env H g) now (la_ID a) (token_of r) s) =
    Done 200 (Manifest \<lparr>mf_totalChunks = la_TotalChunks a, mf_chunkSize = la_ChunkSize a, mf_totalBytes = la_TotalBytes a,
      mf_manifestHash = EncodeToString StdEncoding (la_ManifestHash a), mf_archiveSha256 = EncodeToString StdEncoding (la_ArchiveSHA256 a),
      mf_chunkHashes = map (\<lambda>b. EncodeToString StdEncoding (H b)) bs, mf_expiresAt = la_ExpiresAt a\<rparr>)"
proof -
  have q: "quiet s" "link_archives (ar_db s) = [a]" using h by (simp_all add: holds_def)
  have rows: "sort_key lc_Idx (filter (\<lambda>c. lc_ArchiveID c = la_ID a) (link_archive_chunks (ar_db s))) =
      map (chunk_row H (la_ID a) bs) [0..<length bs]"
    using holds_rows [OF h] by (simp add: rows_of_def)
  have "map (\<lambda>k. EncodeToString StdEncoding (H (bs ! k))) [0..<length bs] = map (\<lambda>b. EncodeToString StdEncoding (H b)) bs"
    by (rule nth_equalityI) simp_all
  then have f: "fill_hashes (map (chunk_row H (la_ID a) bs) [0..<length bs]) (replicate (length bs) []) =
      Some (map (\<lambda>b. EncodeToString StdEncoding (H b)) bs)"
    using fill_hashes_rows [of 0 bs "replicate (length bs) []" H "la_ID a"] by simp
  show ?thesis
    using q a f p by (simp add: linkArchiveManifest_def requireTokenHash_token [OF r] lookup_quiet scanLinkArchive_def
        fresh_archive_def archiveOrError_def query_defs on_db_quiet rows proper_archive_def)
qed

lemma download_quiet:
  assumes h: "holds H a bs {..<length bs} s" and p: "proper_archive a bs" and k: "k < length bs"
    and a: "la_DownloadTokenHash a = token_hash H r" "la_Finalized a" "fresh_archive now a" and r: "r \<noteq> []"
  shows "fst (linkArchiveDownloadChunk (pg_env H g) now (la_ID a) (itoa (int k)) (token_of r) s) = Done 200 (Chunk (bs ! k))"
proof -
  have q: "quiet s" "link_archives (ar_db s) = [a]" using h by (simp_all add: holds_def)
  have "int k < 2 ^ 31" using k p by (simp add: proper_archive_def)
  note x = parse_idx_itoa [OF this]
  have lt: "\<not> la_TotalChunks a \<le> int k" using k p by (simp add: proper_archive_def)
  have d: "distinct (map lc_Idx (link_archive_chunks (ar_db s)))" using h by (simp add: holds_def)
  have "chunk_row H (la_ID a) bs k \<in> set (link_archive_chunks (ar_db s))" using h k by (simp add: holds_def)
  then have f: "find (chunk_is (la_ID a) (int k)) (link_archive_chunks (ar_db s)) = Some (chunk_row H (la_ID a) bs k)"
  proof (rule find_unique)
    fix c
    assume "c \<in> set (link_archive_chunks (ar_db s))" "chunk_is (la_ID a) (int k) c"
    then show "c = chunk_row H (la_ID a) bs k"
      using h by (auto simp: holds_def chunk_row_def pg_row_def chunk_is_def)
  qed (simp add: chunk_is_def chunk_row_def pg_row_def)
  have "map_option cb_Bytes (find (\<lambda>b. cb_Key b = storage_key (la_ID a) (int k)) (chunk_blobs (ar_db s))) = Some (bs ! k)"
    using h k by (simp add: holds_def pg_stored_def)
  then obtain b where b: "find (\<lambda>b. cb_Key b = storage_key (la_ID a) (int k)) (chunk_blobs (ar_db s)) = Some b" "cb_Bytes b = bs ! k"
    by auto
  show ?thesis
    using q a f lt b by (simp add: linkArchiveDownloadChunk_def x requireTokenHash_token [OF r] lookup_quiet scanLinkArchive_def
        fresh_archive_def archiveOrError_def query_defs on_db_quiet pg_Get_def chunk_row_def pg_row_def)
qed

section \<open>Opening\<close>

definition init_for :: "(bytes \<Rightarrow> bytes) \<Rightarrow> bytes list \<Rightarrow> bytes \<Rightarrow> archive_init" where
  "init_for H bs whole = \<lparr>ai_TotalChunks = int (length bs), ai_TotalBytes = bytes_total bs, ai_ChunkSize = linkArchiveChunkSize,
     ai_ManifestHash = EncodeToString StdEncoding (H (concat (map H bs))), ai_ArchiveSHA256 = EncodeToString StdEncoding whole\<rparr>"

definition opened_archive :: "(bytes \<Rightarrow> bytes) \<Rightarrow> time \<Rightarrow> string \<Rightarrow> string \<Rightarrow> bytes \<Rightarrow> bytes \<Rightarrow> bytes list \<Rightarrow> bytes \<Rightarrow> LinkArchive" where
  "opened_archive H now i u r1 r2 bs whole =
     \<lparr>la_ID = i, la_UserID = u, la_UploadTokenHash = token_hash H r1, la_DownloadTokenHash = token_hash H r2,
      la_TotalChunks = int (length bs), la_TotalBytes = bytes_total bs, la_ChunkSize = linkArchiveChunkSize,
      la_ManifestHash = H (concat (map H bs)), la_ArchiveSHA256 = whole, la_Finalized = False, la_State = StateUploading,
      la_CreatedAt = now, la_ExpiresAt = now + linkArchiveDefaultExpiry, la_HardDeadlineAt = now + linkArchiveMaxLifetime\<rparr>"

definition sendable :: "bytes list \<Rightarrow> bool" where
  "sendable bs \<longleftrightarrow> bs \<noteq> [] \<and> int (length bs) < 2 ^ 31 \<and> (\<forall>b \<in> set bs. b \<noteq> [] \<and> int (length b) \<le> linkArchiveChunkBodyMax)"

lemma bytes_total_bounds:
  assumes "sendable bs"
  shows "0 < bytes_total bs" "bytes_total bs \<le> int64 (int (length bs) * linkArchiveChunkBodyMax)" "bytes_total bs < 2 ^ 61"
proof -
  have le: "bytes_total xs \<le> int (length xs) * linkArchiveChunkBodyMax"
    if "\<forall>b \<in> set xs. int (length b) \<le> linkArchiveChunkBodyMax" for xs
    using that by (induction xs) (auto simp: bytes_total_def ring_distribs)
  have up: "int (length bs) * linkArchiveChunkBodyMax < 2 ^ 61"
    using assms by (simp add: sendable_def linkArchiveChunkBodyMax_def linkArchiveChunkSize_def)
  have "0 \<le> int (length bs) * linkArchiveChunkBodyMax" by (simp add: linkArchiveChunkBodyMax_def linkArchiveChunkSize_def)
  then have "int64 (int (length bs) * linkArchiveChunkBodyMax) = int (length bs) * linkArchiveChunkBodyMax"
    by (intro int64_id) (use up in simp_all)
  then show "bytes_total bs \<le> int64 (int (length bs) * linkArchiveChunkBodyMax)" "bytes_total bs < 2 ^ 61"
    using le [of bs] assms up by (simp_all add: sendable_def)
  obtain b cs where bs: "bs = b # cs" using assms by (cases bs) (auto simp: sendable_def)
  have "0 \<le> bytes_total cs" by (induction cs) (auto simp: bytes_total_def)
  moreover have "1 \<le> int (length b)" using assms by (cases b) (simp_all add: bs sendable_def)
  moreover have "bytes_total bs = int (length b) + bytes_total cs" by (simp add: bs bytes_total_def)
  ultimately show "0 < bytes_total bs" by linarith
qed

lemma init_quiet:
  assumes s: "quiet s" "unused s" and u: "u \<noteq> []" "u \<in> set (archive_users (ar_db s))"
    and bs: "sendable bs" "bytes_total bs \<le> instanceStagingBytesCap (pg_env H g)" "length whole = 32"
    and H: "\<And>b. length (H b) = 32"
  shows "linkArchiveInit (pg_env H g) now i (Some r1) (Some r2) u (Some (init_for H bs whole)) s =
    (Done 200 (ArchiveCreated i (token_of r1) (token_of r2) ''postgres_bytea''
        (the (mintUploadWindow (pg_env H g) (opened_archive H now i u r1 r2 bs whole) 0 (min (int (length bs)) linkArchiveWindowSize)))
        (now + linkArchiveDefaultExpiry) (now + linkArchiveMaxLifetime)),
     s\<lparr>ar_db := ar_db s\<lparr>link_archives := [opened_archive H now i u r1 r2 bs whole]\<rparr>\<rparr>)"
proof -
  note t = bytes_total_bounds [OF bs(1)]
  have len: "0 < length bs" "int (length bs) < 2 ^ 31" using bs(1) by (simp_all add: sendable_def)
  have c: "check_init (init_for H bs whole) = Inr (H (concat (map H bs)), whole)"
    using t len bs(3) by (simp add: check_init_def init_for_def decodeHash_encode H)
  have e: "link_archives (ar_db s) = []" using s(2) by (simp add: unused_def)
  have sup: "supersedeAbandonedArchives (pg_env H g) now u s = s"
    using s(1) e by (simp add: supersedeAbandonedArchives_def Let_def query_defs on_db_quiet)
  have cap: "\<not> instanceStagingBytesCap (pg_env H g) < int64 (bytes_total bs)"
    using int64_id [of "bytes_total bs"] t bs(2) by simp
  have mint: "mint_urls (PresignPut (backend (pg_env H g))) a xs \<noteq> None" for a xs
    by (induction xs) (auto simp: pg_env_def PostgresBytea_def)
  have w: "mintUploadWindow (pg_env H g) a x y = Some (the (mintUploadWindow (pg_env H g) a' x y))" if "la_ID a = la_ID a'" for a a' x y
    using mint that by (auto simp: mintUploadWindow_def)
  have lim: "linkArchiveDefaultExpiry > 0" "linkArchiveMaxLifetime > 0" "0 < linkArchiveChunkSize" "linkArchiveChunkSize < 2 ^ 31"
    by (simp_all add: linkArchiveDefaultExpiry_def linkArchiveMaxLifetime_def linkArchiveChunkSize_def)
  define row where "row = \<lparr>li_UserID = u, li_UploadTokenHash = token_hash H r1, li_DownloadTokenHash = token_hash H r2,
    li_TotalChunks = int (length bs), li_TotalBytes = bytes_total bs, li_ChunkSize = linkArchiveChunkSize,
    li_ManifestHash = H (concat (map H bs)), li_ArchiveSHA256 = whole,
    li_ExpiresAt = now + linkArchiveDefaultExpiry, li_HardDeadlineAt = now + linkArchiveMaxLifetime\<rparr>"
  let ?a = "opened_archive H now i u r1 r2 bs whole"
  have new: "new_archive now i row = ?a\<lparr>la_State := StateCreated\<rparr>"
    by (simp add: new_archive_def row_def opened_archive_def)
  define s1 where "s1 = s\<lparr>ar_db := ar_db s\<lparr>link_archives := [?a\<lparr>la_State := StateCreated\<rparr>]\<rparr>\<rparr>"
  have ins: "on_db (InsertLinkArchive now i row) s = (Inr (?a\<lparr>la_State := StateCreated\<rparr>), s1)"
    using s(1) e u(2) len t lim by (simp add: InsertLinkArchive_def on_db_quiet sql scanLinkArchive_def new s1_def)
      (simp add: row_def opened_archive_def)
  have q1: "quiet s1" using s(1) by (simp add: s1_def)
  have move: "snd (on_db (TransitionLinkArchiveState i StateUploading [StateCreated]) s1) = s\<lparr>ar_db := ar_db s\<lparr>link_archives := [?a]\<rparr>\<rparr>"
    using q1 by (simp add: TransitionLinkArchiveState_def on_db_quiet Let_def s1_def sql_update_def)
      (simp add: opened_archive_def)
  have al: "allocate_archive (pg_env H g) now i u (init_for H bs whole) (H (concat (map H bs)), whole)
      (token_of r1, token_hash H r1) (token_of r2, token_hash H r2) s =
    (Done 200 (ArchiveCreated i (token_of r1) (token_of r2) ''postgres_bytea''
        (the (mintUploadWindow (pg_env H g) ?a 0 (min (int (length bs)) linkArchiveWindowSize)))
        (now + linkArchiveDefaultExpiry) (now + linkArchiveMaxLifetime)),
     s\<lparr>ar_db := ar_db s\<lparr>link_archives := [?a]\<rparr>\<rparr>)"
    using ins move w [of "?a\<lparr>la_State := StateCreated\<rparr>" ?a]
    by (simp add: allocate_archive_def row_def [symmetric] init_for_def Let_def)
      (simp add: opened_archive_def)
  show ?thesis
    using s(1) u(1) cap limits_positive(1) [of "pg_env H g"]
    by (simp add: linkArchiveInit_def c sup query_defs on_db_quiet e sql_count_def active_bytes_def newBearerToken_some al)
      (simp add: init_for_def)
qed

text \<open>All of it up to the finalize, and what the store holds then.\<close>

definition transfer ::
  "(bytes \<Rightarrow> bytes) \<Rightarrow> time \<Rightarrow> string \<Rightarrow> string \<Rightarrow> bytes \<Rightarrow> bytes \<Rightarrow> bytes list \<Rightarrow> bytes \<Rightarrow> (time \<times> nat) list \<Rightarrow> time \<Rightarrow>
   (time \<times> archive_request) list" where
  "transfer H now i u r1 r2 bs whole ks t =
     (now, AInit i (Some r1) (Some r2) u (Some (init_for H bs whole))) #
     uploads H i (token_of r1) bs ks @ [(t, AFinalize i (token_of r1))]"

lemma transfer_holds:
  assumes s: "quiet s" "unused s" and u: "u \<noteq> []" "u \<in> set (archive_users (ar_db s))"
    and bs: "sendable bs" "bytes_total bs \<le> instanceStagingBytesCap (pg_env H g)" "length whole = 32"
    and H: "\<And>b. length (H b) = 32" and r: "r1 \<noteq> []"
    and ks: "\<forall>(t, k) \<in> set ks. now \<le> t \<and> t < now + linkArchiveDefaultExpiry" "snd ` set ks = {..<length bs}"
    and t: "now \<le> t" "t < now + linkArchiveDefaultExpiry"
  obtains a where "holds H a bs {..<length bs} (serve (pg_env H g) (transfer H now i u r1 r2 bs whole ks t) s)"
    "proper_archive a bs" "la_ID a = i" "la_DownloadTokenHash a = token_hash H r2" "la_Finalized a"
    "la_TotalBytes a = bytes_total bs" "la_ManifestHash a = H (concat (map H bs))" "la_ArchiveSHA256 a = whole"
    "now + linkArchiveDefaultExpiry \<le> la_ExpiresAt a" "now + linkArchiveDefaultExpiry \<le> la_HardDeadlineAt a"
proof -
  let ?a = "opened_archive H now i u r1 r2 bs whole" and ?E = "pg_env H g"
  let ?s1 = "s\<lparr>ar_db := ar_db s\<lparr>link_archives := [?a]\<rparr>\<rparr>"
  have lim: "linkArchiveDefaultExpiry \<le> linkArchiveMaxLifetime" "0 < linkArchiveDefaultExpiry"
    by (simp_all add: linkArchiveDefaultExpiry_def linkArchiveMaxLifetime_def)
  have a: "la_ID ?a = i" "la_UploadTokenHash ?a = token_hash H r1" "\<not> la_Finalized ?a" "proper_archive ?a bs"
    "la_ExpiresAt ?a = now + linkArchiveDefaultExpiry" "la_HardDeadlineAt ?a = now + linkArchiveMaxLifetime"
    "la_ManifestHash ?a = H (concat (map H bs))" "la_TotalBytes ?a = bytes_total bs" "la_State ?a = StateUploading"
    "la_DownloadTokenHash ?a = token_hash H r2" "la_ArchiveSHA256 ?a = whole"
    using bs(1) by (simp_all add: opened_archive_def proper_archive_def sendable_def)
  have s1: "holds H ?a bs {} ?s1"
    using s by (simp add: holds_def unused_def pg_stored_def)
  have ks': "\<forall>(t, k) \<in> set ks. now \<le> t \<and> t < now + linkArchiveDefaultExpiry \<and> k < length bs"
    using ks by force
  obtain e where e: "now + linkArchiveDefaultExpiry \<le> e"
    "holds H (?a\<lparr>la_ExpiresAt := e\<rparr>) bs ({} \<union> snd ` set ks) (serve ?E (uploads H (la_ID ?a) (token_of r1) bs ks) ?s1)"
    using uploads_hold [OF s1 _ a(4,2,3) r H ks', of g] lim by (auto simp: a(5,6))
  let ?s2 = "serve ?E (uploads H i (token_of r1) bs ks) ?s1" and ?b = "?a\<lparr>la_ExpiresAt := e\<rparr>"
  have s2: "holds H ?b bs {..<length bs} ?s2" using e(2) by (simp add: ks(2) a(1))
  have fin: "linkArchiveFinalize ?E t (la_ID ?b) (token_of r1) ?s2 =
      (Done 200 StatusOk, ?s2\<lparr>ar_db := ar_db ?s2\<lparr>link_archives := [delivered t ?b]\<rparr>\<rparr>)"
    by (rule finalize_quiet [OF s2]) (use a r t e(1) lim in \<open>simp_all add: proper_archive_def fresh_archive_def\<close>)
  have "serve ?E (transfer H now i u r1 r2 bs whole ks t) s =
      ?s2\<lparr>ar_db := ar_db ?s2\<lparr>link_archives := [delivered t ?b]\<rparr>\<rparr>"
    using fin by (simp add: transfer_def serve_append init_quiet [OF s u bs H] a(1))
  moreover have "holds H (delivered t ?b) bs {..<length bs} (?s2\<lparr>ar_db := ar_db ?s2\<lparr>link_archives := [delivered t ?b]\<rparr>\<rparr>)"
    using s2 by (simp add: holds_def delivered_def pg_stored_def)
  ultimately have h: "holds H (delivered t ?b) bs {..<length bs} (serve ?E (transfer H now i u r1 r2 bs whole ks t) s)" by simp
  show ?thesis
    by (rule that [OF h]) (use a t lim in \<open>simp_all add: delivered_def proper_archive_def\<close>)
qed

end
