(* ===== verification/Archive_Props.thy ===== *)
theory Archive_Props
  imports Archive_Transfer
begin

text \<open>
  Properties of the chunked transfer between devices, over the store on PostgreSQL: each is a few
  steps from the contract of the object store, the invariants of the machine and the transfer.
\<close>

section \<open>A concrete transfer\<close>

definition toy_sha :: "bytes \<Rightarrow> bytes" where
  "toy_sha b = take 32 (b @ replicate 32 0)"

definition toy_chunks :: "bytes list" where
  "toy_chunks = [[1, 2], [3]]"

definition toy_uploads :: "(time \<times> nat) list" where
  "toy_uploads = [(5, 1), (6, 0), (7, 1)]"

definition no_setting :: "string \<Rightarrow> string" where
  "no_setting k = []"

definition empty_store :: "unit archive_store" where
  "empty_store = \<lparr>ar_db = \<lparr>link_archives = [], link_archive_chunks = [], chunk_blobs = [],
     archive_users = [''u''], archive_faults = []\<rparr>, ar_objects = ()\<rparr>"

definition toy_transfer :: "(time \<times> archive_request) list" where
  "toy_transfer = transfer toy_sha 0 ''i'' ''u'' [1] [2] toy_chunks (replicate 32 7) toy_uploads 8"

lemma length_toy_sha: "length (toy_sha b) = 32"
  by (simp add: toy_sha_def)

lemma toy_limits: "archiveQuotaForUser (pg_env H no_setting) = 1" "instanceStagingBytesCap (pg_env H no_setting) = 8589934592"
  by (simp_all add: archiveQuotaForUser_def instanceStagingBytesCap_def pg_env_def no_setting_def positive_setting_def
      linkArchiveDefaultUserQuota_def linkArchiveDefaultStagingCap_def)

lemma toy_start: "quiet empty_store" "unused empty_store" "''u'' \<in> set (archive_users (ar_db empty_store))"
  by (simp_all add: empty_store_def quiet_def unused_def)

lemma toy_sendable: "sendable toy_chunks" "bytes_total toy_chunks = 3"
  by (simp_all add: toy_chunks_def sendable_def bytes_total_def linkArchiveChunkBodyMax_def linkArchiveChunkSize_def)

lemma toy_uploads: "\<forall>(t, k) \<in> set toy_uploads. 0 \<le> t \<and> t < 0 + linkArchiveDefaultExpiry" "snd ` set toy_uploads = {..<length toy_chunks}"
  by (simp_all add: toy_uploads_def toy_chunks_def linkArchiveDefaultExpiry_def lessThan_Suc insert_commute)

lemma toy_times: "(0::time) \<le> 8" "(8::time) < 0 + linkArchiveDefaultExpiry"
  by (simp_all add: linkArchiveDefaultExpiry_def)

lemma toy_holds:
  obtains a where "holds toy_sha a toy_chunks {..<length toy_chunks} (serve (pg_env toy_sha no_setting) toy_transfer empty_store)"
    "proper_archive a toy_chunks" "la_ID a = ''i''" "la_DownloadTokenHash a = token_hash toy_sha [2]" "la_Finalized a"
    "0 + linkArchiveDefaultExpiry \<le> la_ExpiresAt a" "0 + linkArchiveDefaultExpiry \<le> la_HardDeadlineAt a"
  unfolding toy_transfer_def
  by (rule transfer_holds [of empty_store "''u''" toy_chunks toy_sha no_setting "replicate 32 7" "[1]" toy_uploads 0 8])
    (use toy_start toy_sendable toy_limits length_toy_sha toy_uploads toy_times in simp_all)

section \<open>Transfers\<close>



section \<open>Invariants\<close>

text \<open>
  C27. After any requests, whatever fails, an archive that is finalized has exactly the chunks \<open>0 ..< n\<close>
  that it was opened for, their hashes give the manifest hash and their sizes the declared total; an
  archive that is available or acknowledged is finalized.
\<close>

theorem finalized_complete:
  assumes "unused s" "a \<in> set (link_archives (ar_db (serve (pg_env H g) reqs s)))"
    and "la_Finalized a \<or> la_State a \<in> {StateUploaded, StateAvailable, StateAcknowledged}"
  shows "let rows = rows_of (la_ID a) (link_archive_chunks (ar_db (serve (pg_env H g) reqs s)))
    in la_Finalized a \<and> map lc_Idx rows = [0..la_TotalChunks a - 1] \<and> H (concat (map lc_ChunkHash rows)) = la_ManifestHash a \<and>
       sum_list (map lc_ChunkSize rows) = la_TotalBytes a"
proof -
  have ok: "catalog_ok (pg_env H g) (link_archives (ar_db (serve (pg_env H g) reqs s)), link_archive_chunks (ar_db (serve (pg_env H g) reqs s)))"
    using pg.serve_ok [OF assms(1), of H g reqs] by (simp add: catalog_def)
  then have "archive_ok (pg_env H g) (link_archive_chunks (ar_db (serve (pg_env H g) reqs s))) a"
    using assms(2) by (simp add: catalog_ok_def)
  then have f: "la_Finalized a" using assms(3) by (auto simp: archive_ok_def complete_states_def)
  show ?thesis using finalized_rows [OF ok assms(2) f] f by (simp add: Let_def)
qed

lemma finalized_complete_witness:
  "\<exists>a \<in> set (link_archives (ar_db (serve (pg_env toy_sha no_setting) toy_transfer empty_store))).
     map lc_Idx (rows_of (la_ID a) (link_archive_chunks (ar_db (serve (pg_env toy_sha no_setting) toy_transfer empty_store)))) = [0, 1]"
proof (rule toy_holds)
  fix a
  assume a: "holds toy_sha a toy_chunks {..<length toy_chunks} (serve (pg_env toy_sha no_setting) toy_transfer empty_store)"
    "proper_archive a toy_chunks" "la_Finalized a"
  then have m: "a \<in> set (link_archives (ar_db (serve (pg_env toy_sha no_setting) toy_transfer empty_store)))" by (simp add: holds_def)
  have "la_TotalChunks a = 2" using a(2) by (simp add: proper_archive_def toy_chunks_def)
  then show ?thesis
    using finalized_complete [OF toy_start(2) m] a(3) m by (intro bexI [of _ a]) (simp_all add: Let_def upto_rec1)
qed

text \<open>
  After any requests, whatever fails, no user has more active archives than the quota, and the
  declared bytes of all active archives stay within the cap of the instance, for a cap of at most
  \<open>2 ^ 62\<close> bytes.
\<close>

theorem archive_quota:
  assumes "unused s" "instanceStagingBytesCap (pg_env H g) \<le> 2 ^ 62"
  shows "let as = link_archives (ar_db (serve (pg_env H g) reqs s))
    in int (sql_count (\<lambda>a. la_UserID a = u \<and> archive_active a) as) \<le> archiveQuotaForUser (pg_env H g) \<and>
       active_bytes as \<le> instanceStagingBytesCap (pg_env H g)"
  using pg.serve_quota [OF assms, of reqs] by (simp add: quota_ok_def catalog_def Let_def)

lemma archive_quota_witness:
  "sql_count (\<lambda>a. la_UserID a = ''u'' \<and> archive_active a)
     (link_archives (ar_db (serve (pg_env toy_sha no_setting) toy_transfer empty_store))) \<le> 1"
  using archive_quota [OF toy_start(2), of toy_sha no_setting toy_transfer "''u''"] by (simp add: toy_limits Let_def)

text \<open>
  C28. After any requests, whatever fails, a download hands out only bytes that an earlier upload brought
  under the same archive and index, with the upload token of an archive that was not finalized then.
\<close>

theorem download_was_uploaded:
  assumes "unused s"
    and "fst (ArchiveRoutes (pg_env H g) now (ADownload i x t) (serve (pg_env H g) reqs s)) = Done 200 (Chunk b)"
  shows "\<exists>before now' x' t' h after a. reqs = before @ (now', AUpload i x' t' h b) # after \<and> parse_idx x' = parse_idx x \<and>
    a \<in> set (link_archives (ar_db (serve (pg_env H g) before s))) \<and> la_ID a = i \<and> \<not> la_Finalized a \<and>
    requireTokenHash (pg_env H g) t' = Some (la_UploadTokenHash a)"
proof -
  let ?E = "pg_env H g"
  obtain s' where "linkArchiveDownloadChunk ?E now i x t (serve ?E reqs s) = (Done 200 (Chunk b), s')"
    using assms(2) by (cases "linkArchiveDownloadChunk ?E now i x t (serve ?E reqs s)") simp
  then obtain n where n: "parse_idx x = Some n" "pg_stored (serve ?E reqs s) (storage_key i n) = Some b"
    using pg.download_stored [OF pg.serve_ok [OF assms(1)]] by blast
  have "pg_stored s (storage_key i n) = None" using assms(1) by (simp add: unused_def pg_stored_def)
  then obtain before now' i' x' t' h after where
    u: "reqs = before @ (now', AUpload i' x' t' h b) # after" "upload_of ?E (serve ?E before s) i' x' t' b (storage_key i n) b"
    using pg.serve_stored [OF n(2)] by auto
  then obtain n' a where a: "parse_idx x' = Some n'" "storage_key i n = storage_key i' n'"
    "a \<in> set (link_archives (ar_db (serve ?E before s)))" "la_ID a = i'" "\<not> la_Finalized a"
    "requireTokenHash ?E t' = Some (la_UploadTokenHash a)" by (auto simp: upload_of_def)
  have e: "i = i' \<and> n = n'" by (rule storage_key_inject [OF a(2) parse_idx_range [OF n(1)] parse_idx_range [OF a(1)]])
  show ?thesis
    by (intro exI [of _ before] exI [of _ now'] exI [of _ x'] exI [of _ t'] exI [of _ h] exI [of _ after] exI [of _ a])
      (use u(1) a n(1) e in simp)
qed

lemma download_was_uploaded_witness:
  "\<exists>x t h. AUpload ''i'' x t h [3] \<in> snd ` set toy_transfer"
proof (rule toy_holds)
  fix a
  let ?s = "serve (pg_env toy_sha no_setting) toy_transfer empty_store"
  assume a: "holds toy_sha a toy_chunks {..<length toy_chunks} ?s" "proper_archive a toy_chunks" "la_ID a = ''i''"
    "la_DownloadTokenHash a = token_hash toy_sha [2]" "la_Finalized a"
    "0 + linkArchiveDefaultExpiry \<le> la_ExpiresAt a" "0 + linkArchiveDefaultExpiry \<le> la_HardDeadlineAt a"
  have f: "fresh_archive 8 a" using a(6,7) toy_times by (simp add: fresh_archive_def)
  have "fst (linkArchiveDownloadChunk (pg_env toy_sha no_setting) 8 ''i'' (itoa (int 1)) (token_of [2]) ?s) = Done 200 (Chunk [3])"
    using download_quiet [OF a(1,2) _ a(4,5) f, of 1 no_setting] a(3) by (simp add: toy_chunks_def)
  then have d: "fst (ArchiveRoutes (pg_env toy_sha no_setting) 8 (ADownload ''i'' (itoa (int 1)) (token_of [2])) ?s) = Done 200 (Chunk [3])"
    by simp
  from download_was_uploaded [OF toy_start(2) d]
  have "\<exists>before now' x' t' h after. toy_transfer = before @ (now', AUpload ''i'' x' t' h [3]) # after" by metis
  then obtain before now' x' t' h after where e: "toy_transfer = before @ (now', AUpload ''i'' x' t' h [3]) # after"
    by (elim exE)
  have "AUpload ''i'' x' t' h [3] \<in> snd ` set toy_transfer" unfolding e by simp
  then show ?thesis by (intro exI)
qed

section \<open>The purger\<close>

text \<open>
  C29. While the database answers, \<open>n\<close> ticks are enough for \<open>64 * n\<close> expired, acknowledged or failed archives: then
  these are gone with their chunks and the objects of their chunks, and nothing else is.
\<close>

theorem purger_drains:
  assumes "quiet s" "distinct (map la_ID (link_archives (ar_db s)))"
    and "sql_count (gc_eligible now) (link_archives (ar_db s)) \<le> 64 * n"
  shows "let s' = serve (pg_env H g) (replicate n (now, APurgerTick)) s;
      gone = la_ID ` set (filter (gc_eligible now) (link_archives (ar_db s)));
      old = (\<lambda>k. \<exists>c \<in> set (link_archive_chunks (ar_db s)). lc_ArchiveID c \<in> gone \<and> lc_StorageKey c = k)
    in link_archives (ar_db s') = filter (\<lambda>a. \<not> gc_eligible now a) (link_archives (ar_db s)) \<and>
       link_archive_chunks (ar_db s') = filter (\<lambda>c. lc_ArchiveID c \<notin> gone) (link_archive_chunks (ar_db s)) \<and>
       (\<forall>k. pg_stored s' k = (if old k then None else pg_stored s k))"
proof -
  let ?gone = "la_ID ` set (eligible now s)"
  have r: "serve (pg_env H g) (replicate n (now, APurgerTick)) s = without ?gone s"
    by (rule ticks_drain) (use assms in \<open>simp_all add: eligible_def sql_count_def\<close>)
  have e: "la_ID a \<in> ?gone \<longleftrightarrow> gc_eligible now a" if "a \<in> set (link_archives (ar_db s))" for a
    using that unique_archive [OF assms(2) that] by (auto simp: eligible_def)
  then have as: "filter (\<lambda>a. la_ID a \<notin> ?gone) (link_archives (ar_db s)) = filter (\<lambda>a. \<not> gc_eligible now a) (link_archives (ar_db s))"
    by (intro filter_cong) simp_all
  have st: "\<forall>k. pg_stored (without ?gone s) k =
      (if \<exists>c \<in> set (link_archive_chunks (ar_db s)). lc_ArchiveID c \<in> ?gone \<and> lc_StorageKey c = k then None else pg_stored s k)"
    by (intro allI) (rule without_stored)
  show ?thesis
    unfolding Let_def r eligible_def [symmetric]
    by (intro conjI) (use as in \<open>simp add: without_def sql_delete_def\<close>, simp add: without_def sql_delete_def, rule st)
qed

definition late_store :: "unit archive_store" where
  "late_store = empty_store\<lparr>ar_db := ar_db empty_store\<lparr>
     link_archives := [opened_archive toy_sha 0 ''i'' ''u'' [1] [2] toy_chunks []],
     link_archive_chunks := [pg_row ''i'' 0 [9] [1]], chunk_blobs := [\<lparr>cb_Key = storage_key ''i'' 0, cb_Bytes = [1]\<rparr>]\<rparr>\<rparr>"

lemma purger_drains_witness:
  "pg_stored (serve (pg_env toy_sha no_setting) (replicate 1 (7200000000000, APurgerTick)) late_store) (storage_key ''i'' 0) = None"
proof -
  have l: "quiet late_store" "distinct (map la_ID (link_archives (ar_db late_store)))"
    by (simp_all add: late_store_def empty_store_def quiet_def)
  have e: "link_archives (ar_db late_store) = [opened_archive toy_sha 0 ''i'' ''u'' [1] [2] toy_chunks []]"
    "link_archive_chunks (ar_db late_store) = [pg_row ''i'' 0 [9] [1]]" by (simp_all add: late_store_def)
  have g: "gc_eligible 7200000000000 (opened_archive toy_sha 0 ''i'' ''u'' [1] [2] toy_chunks [])"
    by (simp add: gc_eligible_def opened_archive_def linkArchiveDefaultExpiry_def)
  have i: "la_ID (opened_archive toy_sha 0 ''i'' ''u'' [1] [2] toy_chunks []) = ''i''" by (simp add: opened_archive_def)
  have p: "lc_ArchiveID (pg_row ''i'' 0 [9] [1]) = ''i''" "lc_StorageKey (pg_row ''i'' 0 [9] [1]) = storage_key ''i'' 0"
    by (simp_all add: pg_row_def)
  have "sql_count (gc_eligible 7200000000000) (link_archives (ar_db late_store)) \<le> 64 * 1" by (simp add: e sql_count_def)
  from purger_drains [OF l this, of toy_sha no_setting]
  have "pg_stored (serve (pg_env toy_sha no_setting) (replicate 1 (7200000000000, APurgerTick)) late_store) (storage_key ''i'' 0) =
      (if \<exists>c \<in> set [pg_row ''i'' 0 [9] [1]]. lc_ArchiveID c \<in> la_ID ` set (filter (gc_eligible 7200000000000)
          [opened_archive toy_sha 0 ''i'' ''u'' [1] [2] toy_chunks []]) \<and> lc_StorageKey c = storage_key ''i'' 0
       then None else pg_stored late_store (storage_key ''i'' 0))"
    unfolding Let_def e by (elim conjE allE)
  then show ?thesis by (simp add: p i g)
qed

section \<open>The check at finalize\<close>

text \<open>
  C30. The check at finalize, with its map and its loop, is the specification: on the rows of an archive it names
  the missing indices in order, then compares the hash of all chunk hashes, then the sum of the sizes, and the
  sum does not overflow.
\<close>

theorem check_complete_exact:
  assumes "proper_rows (la_TotalChunks a) rows" "la_TotalChunks a < 2 ^ 31"
  shows "check_complete E a rows =
    (let missing = filter (\<lambda>i. i \<notin> lc_Idx ` set rows) [0..la_TotalChunks a - 1]
     in if missing \<noteq> [] then Some (Done 409 (Incomplete missing))
        else if av_sha256 E (concat (map lc_ChunkHash rows)) \<noteq> la_ManifestHash a then Some (Fail 422 ''manifest hash mismatch'')
        else if sum_list (map lc_ChunkSize rows) \<noteq> la_TotalBytes a then Some (Fail 422 ''total bytes mismatch'')
        else None)"
  by (simp only: check_complete_rows [OF assms] slicesEqual_iff)

lemma check_complete_exact_witness:
  "check_complete (pg_env toy_sha no_setting) (opened_archive toy_sha 0 ''i'' ''u'' [1] [2] toy_chunks [])
     [pg_row ''i'' 1 (toy_sha [3]) [3]] = Some (Done 409 (Incomplete [0]))"
proof -
  let ?a = "opened_archive toy_sha 0 ''i'' ''u'' [1] [2] toy_chunks []" and ?rows = "[pg_row ''i'' 1 (toy_sha [3]) [3]]"
  have n: "la_TotalChunks ?a = 2" by (simp add: opened_archive_def toy_chunks_def)
  have "proper_rows (la_TotalChunks ?a) ?rows"
    by (simp add: proper_rows_def n pg_row_def linkArchiveChunkBodyMax_def linkArchiveChunkSize_def)
  then show ?thesis
    using check_complete_exact [of ?a ?rows "pg_env toy_sha no_setting"] n by (simp add: Let_def pg_row_def upto_rec1)
qed

section \<open>An upload that fails half way\<close>

definition upload :: "(bytes \<Rightarrow> bytes) \<Rightarrow> (string \<Rightarrow> string) \<Rightarrow> time \<Rightarrow> string \<Rightarrow> nat \<Rightarrow> bytes \<Rightarrow> bytes \<Rightarrow> unit archive_store \<Rightarrow>
    archive_answer \<times> unit archive_store" where
  "upload H g now i k r b =
     linkArchiveUploadChunk (pg_env H g) now i (itoa (int k)) (token_of r) (EncodeToString StdEncoding (H b)) b"

text \<open>The object is written and the row is not.\<close>

lemma upload_half:
  assumes s: "archive_faults (ar_db s) = [False, False, True]" "link_archives (ar_db s) = [a]"
    and a: "la_ID a = i" "la_UploadTokenHash a = token_hash H r" "\<not> la_Finalized a" "fresh_archive now a"
      "int k < la_TotalChunks a" "la_TotalChunks a < 2 ^ 31"
    and r: "r \<noteq> []" and b: "b \<noteq> []" "int (length b) \<le> linkArchiveChunkBodyMax" "length (H b) = 32"
  shows "upload H g now i k r b s = (Fail 500 ''could not store chunk'',
    s\<lparr>ar_db := ar_db s\<lparr>chunk_blobs := blob_added (storage_key i (int k)) b (chunk_blobs (ar_db s)), archive_faults := []\<rparr>\<rparr>)"
proof -
  have k: "int k < 2 ^ 31" using a(5,6) by linarith
  define s1 where "s1 = s\<lparr>ar_db := ar_db s\<lparr>archive_faults := [False, True]\<rparr>\<rparr>"
  define s2 where "s2 = s\<lparr>ar_db := ar_db s\<lparr>chunk_blobs := blob_added (storage_key i (int k)) b (chunk_blobs (ar_db s)),
    archive_faults := [True]\<rparr>\<rparr>"
  have look: "lookupArchiveByUploadHash now i (token_hash H r) s = (Inr a, s1)"
    using s a by (simp add: lookupArchiveByUploadHash_def query_defs on_db_def ar_query_def scanLinkArchive_def
        fresh_archive_def archiveOrError_def s1_def)
  have put: "pg_Put H (storage_key i (int k)) b s1 = (Inr (H b), s2)"
    using b(1) by (simp add: pg_Put_def query_defs on_db_def ar_query_def blob_added_def s1_def s2_def)
  have ins: "on_db (InsertLinkArchiveChunk c) s2 = (Inl ArOutage, s2\<lparr>ar_db := ar_db s2\<lparr>archive_faults := []\<rparr>\<rparr>)" for c
    by (simp add: InsertLinkArchiveChunk_def insert_chunk_def on_db_def ar_query_def s2_def)
  have "store_chunk (pg_env H g) now i (int k) (H b) b s1 =
      (Fail 500 ''could not store chunk'', s2\<lparr>ar_db := ar_db s2\<lparr>archive_faults := []\<rparr>\<rparr>)"
    by (simp add: store_chunk_def put ins slicesEqual_iff)
  then show ?thesis
    using a(3,5) b parse_idx_itoa [OF k]
    by (simp add: upload_def linkArchiveUploadChunk_def requireTokenHash_token [OF r] look decodeHash_encode s2_def)
qed

text \<open>
  When the row of an uploaded chunk cannot be written, its bytes stay in the store, and an upload of other bytes for
  this index then succeeds: the row has the hash of the new bytes, the store keeps the old ones and downloads hand them out.
\<close>

theorem retried_chunk_mismatch:
  assumes "archive_faults (ar_db s) = [False, False, True]" "link_archives (ar_db s) = [a]"
    and "la_ID a = i" "la_UploadTokenHash a = token_hash H r" "\<not> la_Finalized a" "fresh_archive now a"
    and "int k < la_TotalChunks a" "la_TotalChunks a < 2 ^ 31" "r \<noteq> []" "\<And>b. length (H b) = 32"
    and "b1 \<noteq> []" "int (length b1) \<le> linkArchiveChunkBodyMax" "b2 \<noteq> []" "int (length b2) \<le> linkArchiveChunkBodyMax"
    and "\<not> sql_exists (chunk_is i (int k)) (link_archive_chunks (ar_db s))" "pg_stored s (storage_key i (int k)) = None"
  shows "\<exists>s1 s2. upload H g now i k r b1 s = (Fail 500 ''could not store chunk'', s1) \<and>
    upload H g now i k r b2 s1 = (Done 204 NoContent, s2) \<and>
    (\<exists>c \<in> set (link_archive_chunks (ar_db s2)). chunk_is i (int k) c \<and> lc_ChunkHash c = H b2) \<and>
    pg_stored s2 (storage_key i (int k)) = Some b1"
proof -
  let ?key = "storage_key i (int k)"
  let ?s1 = "s\<lparr>ar_db := ar_db s\<lparr>chunk_blobs := blob_added ?key b1 (chunk_blobs (ar_db s)), archive_faults := []\<rparr>\<rparr>"
  let ?s2 = "?s1\<lparr>ar_db := ar_db ?s1\<lparr>
      link_archives := [a\<lparr>la_ExpiresAt := min (now + linkArchiveDefaultExpiry) (la_HardDeadlineAt a)\<rparr>],
      link_archive_chunks := row_added (pg_row i (int k) (H b2) b2) (link_archive_chunks (ar_db ?s1)),
      chunk_blobs := blob_added ?key b2 (chunk_blobs (ar_db ?s1))\<rparr>\<rparr>"
  have one: "upload H g now i k r b1 s = (Fail 500 ''could not store chunk'', ?s1)"
    by (rule upload_half [OF assms(1-9,11,12,10)])
  have two: "upload H g now i k r b2 ?s1 = (Done 204 NoContent, ?s2)"
    unfolding upload_def
    by (rule upload_quiet) (use assms in \<open>simp_all add: quiet_def sql\<close>)
  have row: "pg_row i (int k) (H b2) b2 \<in> set (link_archive_chunks (ar_db ?s2))"
    using assms(15) by (simp add: row_added_def pg_row_def)
  have "\<not> sql_exists (\<lambda>x. cb_Key x = ?key) (chunk_blobs (ar_db s))"
    using assms(16) by (auto simp: pg_stored_def sql find_None_iff)
  then have "pg_stored ?s2 ?key = Some b1"
    by (simp add: pg_stored_def blob_added_def find_append sql find_None_iff)
       (auto simp: find_append split: option.splits dest: find_Some_iff_mem)
  then show ?thesis
    using one two row by (intro exI [of _ ?s1] exI [of _ ?s2] conjI bexI [of _ "pg_row i (int k) (H b2) b2"])
      (simp_all add: chunk_is_def pg_row_def)
qed

definition half_store :: "unit archive_store" where
  "half_store = empty_store\<lparr>ar_db := ar_db empty_store\<lparr>
     link_archives := [opened_archive toy_sha 0 ''i'' ''u'' [1] [2] toy_chunks []], archive_faults := [False, False, True]\<rparr>\<rparr>"

lemma retried_chunk_mismatch_witness:
  "\<exists>s2. pg_stored s2 (storage_key ''i'' 0) = Some [1] \<and> (\<exists>c \<in> set (link_archive_chunks (ar_db s2)). lc_ChunkHash c = toy_sha [2])"
proof -
  let ?a = "opened_archive toy_sha 0 ''i'' ''u'' [1] [2] toy_chunks []"
  have s: "archive_faults (ar_db half_store) = [False, False, True]" "link_archives (ar_db half_store) = [?a]"
    "\<not> sql_exists (chunk_is ''i'' (int 0)) (link_archive_chunks (ar_db half_store))" "pg_stored half_store (storage_key ''i'' (int 0)) = None"
    by (simp_all add: half_store_def empty_store_def sql pg_stored_def)
  have a: "la_ID ?a = ''i''" "la_UploadTokenHash ?a = token_hash toy_sha [1]" "\<not> la_Finalized ?a" "fresh_archive 0 ?a"
    "int 0 < la_TotalChunks ?a" "la_TotalChunks ?a < 2 ^ 31"
    by (simp_all add: opened_archive_def fresh_archive_def toy_chunks_def linkArchiveDefaultExpiry_def linkArchiveMaxLifetime_def)
  have b: "[1] \<noteq> ([] :: bytes)" "int (length ([1] :: bytes)) \<le> linkArchiveChunkBodyMax" "[2] \<noteq> ([] :: bytes)"
    "int (length ([2] :: bytes)) \<le> linkArchiveChunkBodyMax"
    by (simp_all add: linkArchiveChunkBodyMax_def linkArchiveChunkSize_def)
  show ?thesis
    using retried_chunk_mismatch [OF s(1,2) a b(1) length_toy_sha b s(3,4), of no_setting]
    by (elim exE conjE bexE) (intro exI conjI bexI; simp)
qed

end
