(* ===== verification/Attachments.thy ===== *)
theory Attachments
  imports Guild Archives "HOL-Library.List_Lexorder"
begin

text \<open>
  Encrypted attachments of channels (\<open>internal/api/attachments.go\<close>, \<open>internal/db/attachments.go\<close>) and the
  retention cleanup of \<open>cmd/hush/main.go\<close>. The client uploads to the object store with a presigned URL; the
  server keeps the row, the quota of the guild, and who may download. The keys of the objects that a
  request deletes in the object store are part of its answer: such a delete is best effort and its
  outcome is only logged.
\<close>

section \<open>Queries\<close>

definition attachment_active :: "Attachment \<Rightarrow> bool" where
  "attachment_active a \<longleftrightarrow> at_DeletedAt a = None"

definition InsertAttachment :: "string \<Rightarrow> string \<Rightarrow> string \<Rightarrow> string \<Rightarrow> int \<Rightarrow> Attachment chat_op" where
  "InsertAttachment channelID ownerID storageKey contentType sz = chat_query (\<lambda>now uuid d.
     let a = \<lparr>at_ID = uuid, at_ChannelID = channelID, at_OwnerID = ownerID, at_StorageKey = storageKey,
              at_Size = sz, at_ContentType = contentType, at_CreatedAt = now, at_DeletedAt = None\<rparr>
     in if sz \<le> 0 \<or> 2 ^ 63 \<le> sz then (Inl DbCheck, d)
        else if sql_exists (\<lambda>r. at_ID r = uuid) (cd_attachments d) then (Inl (DbUnique ''attachments_pkey''), d)
        else if \<not> sql_exists (\<lambda>c. ch_ID c = channelID) (cd_channels d) \<or> ownerID \<notin> set (cd_users d)
        then (Inl DbForeignKey, d)
        else (Inr a, d\<lparr>cd_attachments := cd_attachments d @ [a]\<rparr>))"

definition GetAttachmentByID :: "string \<Rightarrow> Attachment chat_op" where
  "GetAttachmentByID attachmentID = chat_query (\<lambda>_ _ d.
     case find (\<lambda>a. at_ID a = attachmentID) (cd_attachments d) of None \<Rightarrow> (Inl DbNoRows, d) | Some a \<Rightarrow> (Inr a, d))"

definition SoftDeleteAttachment :: "string \<Rightarrow> string \<Rightarrow> Attachment chat_op" where
  "SoftDeleteAttachment attachmentID ownerID = chat_query (\<lambda>now _ d.
     let hit = (\<lambda>a. at_ID a = attachmentID \<and> at_OwnerID a = ownerID \<and> attachment_active a)
     in case find hit (cd_attachments d) of
          None \<Rightarrow> (Inl DbNoRows, d)
        | Some a \<Rightarrow> (Inr (a\<lparr>at_DeletedAt := Some now\<rparr>),
            d\<lparr>cd_attachments := sql_update hit (\<lambda>a. a\<lparr>at_DeletedAt := Some now\<rparr>) (cd_attachments d)\<rparr>))"

definition SoftDeleteAttachmentsByID :: "string list \<Rightarrow> Attachment list chat_op" where
  "SoftDeleteAttachmentsByID attachmentIDs d =
     (if attachmentIDs = [] then (Inr [], d)
      else chat_query (\<lambda>now _ d.
        let hit = (\<lambda>a. at_ID a \<in> set attachmentIDs \<and> attachment_active a)
        in (Inr (map (\<lambda>a. a\<lparr>at_DeletedAt := Some now\<rparr>) (filter hit (cd_attachments d))),
            d\<lparr>cd_attachments := sql_update hit (\<lambda>a. a\<lparr>at_DeletedAt := Some now\<rparr>) (cd_attachments d)\<rparr>)) d)"

text \<open>The attachments of a guild that are not deleted, oldest first; equal times are ordered by identifier.\<close>

definition guild_attachment :: "chat_db \<Rightarrow> string \<Rightarrow> Attachment \<Rightarrow> bool" where
  "guild_attachment d serverID a \<longleftrightarrow> attachment_active a \<and>
     sql_exists (\<lambda>c. ch_ID c = at_ChannelID a \<and> ch_ServerID c = Some serverID) (cd_channels d)"

definition oldest_first :: "Attachment list \<Rightarrow> Attachment list" where
  "oldest_first as = sort_key at_CreatedAt (sort_key (\<lambda>a. map (of_char :: char \<Rightarrow> nat) (at_ID a)) as)"

text \<open>A channel without a guild makes the scan of its \<open>server_id\<close> fail.\<close>

definition ListAttachmentsForGuildQuota :: "string \<Rightarrow> (string \<times> Attachment list) chat_op" where
  "ListAttachmentsForGuildQuota channelID = bind_op
     (chat_query (\<lambda>_ _ d. case find (\<lambda>c. ch_ID c = channelID) (cd_channels d) of
          None \<Rightarrow> (Inl DbNoRows, d)
        | Some c \<Rightarrow> (case ch_ServerID c of None \<Rightarrow> Inl DbOutage | Some s \<Rightarrow> Inr s, d)))
     (\<lambda>serverID. chat_read (\<lambda>_ d. (serverID, oldest_first (filter (guild_attachment d serverID) (cd_attachments d)))))"

definition ListExpiredAttachments :: "int \<Rightarrow> int \<Rightarrow> Attachment list chat_op" where
  "ListExpiredAttachments retentionDays limit d =
     (if retentionDays \<le> 0 \<or> limit \<le> 0 then (Inr [], d)
      else chat_read (\<lambda>now d. take (nat limit) (oldest_first (filter (\<lambda>a. attachment_active a \<and>
             at_CreatedAt a < now - retentionDays * day) (cd_attachments d)))) d)"

section \<open>Limits\<close>

definition presignTTL :: time where
  "presignTTL = 5 * minute"

definition allowedAttachmentContentTypes :: "string list" where
  "allowedAttachmentContentTypes =
     [''image/gif'', ''image/heic'', ''image/jpeg'', ''image/png'', ''image/webp'', ''audio/mpeg'', ''audio/mp4'',
      ''audio/ogg'', ''audio/wav'', ''audio/webm'', ''video/mp4'', ''video/webm'', ''text/plain'', ''application/pdf'']"

text \<open>
  No letter outside ASCII has a lower case among the letters of the list (only the Kelvin sign has one in ASCII, a
  k, which no entry has), so lower-casing ASCII decides the same.
\<close>

definition contentTypeAllowed :: "string \<Rightarrow> bool" where
  "contentTypeAllowed ct =
     (let t = map ascii_lower (TrimSpace ct) in t \<noteq> [] \<and> t \<in> set allowedAttachmentContentTypes)"

definition buildAttachmentKey :: "string \<Rightarrow> string \<Rightarrow> string" where
  "buildAttachmentKey channelID uuid = ''attachments/'' @ channelID @ ''/'' @ uuid"

definition methodOrDefault :: "string \<Rightarrow> string \<Rightarrow> string" where
  "methodOrDefault m def = (if m = [] then def else m)"

section \<open>Handlers\<close>

datatype attachment_body = Presigned string string string "(string \<times> string) list" | DownloadURL string | Gone

type_synonym attachment_result = "(attachment_body response \<times> string list) \<times> world"

abbreviation refuse :: "nat \<Rightarrow> string \<Rightarrow> world \<Rightarrow> attachment_result" where
  "refuse status msg w \<equiv> ((Fail status msg, []), w)"

text \<open>The loop over the attachments, oldest first, until enough is to go.\<close>

fun to_evict :: "Attachment list \<Rightarrow> int \<Rightarrow> string list" where
  "to_evict [] excess = []"
| "to_evict (a # as) excess = (if excess \<le> 0 then [] else at_ID a # to_evict as (int64 (excess - at_Size a)))"

fun total_size :: "Attachment list \<Rightarrow> int \<Rightarrow> int" where
  "total_size [] total_bytes = total_bytes"
| "total_size (a # as) total_bytes = total_size as (int64 (total_bytes + at_Size a))"

definition enforceGuildAttachmentQuota :: "string \<Rightarrow> int \<Rightarrow> world \<Rightarrow> (db_error + string list) \<times> world" where
  "enforceGuildAttachmentQuota channelID quotaBytes w =
     (if quotaBytes \<le> 0 then (Inr [], w)
      else case run_chat (ListAttachmentsForGuildQuota channelID) w of
        (Inl e, w1) \<Rightarrow> (Inl e, w1)
      | (Inr (_, active), w1) \<Rightarrow>
          (let t = total_size active 0
           in if t \<le> quotaBytes then (Inr [], w1)
              else case run_chat (SoftDeleteAttachmentsByID (to_evict active (int64 (t - quotaBytes)))) w1 of
                (Inl e, w2) \<Rightarrow> (Inl e, w2)
              | (Inr deleted, w2) \<Rightarrow> (Inr (map at_StorageKey deleted), w2)))"

text \<open>From the row on: the quota, the URL, and the row withdrawn when one of them fails.\<close>

definition finish_presign ::
  "'o Backend \<Rightarrow> string \<Rightarrow> string \<Rightarrow> int option \<Rightarrow> Attachment \<Rightarrow> world \<Rightarrow> attachment_result" where
  "finish_presign blobs channelID userID quota row w =
     (case (case quota of None \<Rightarrow> (Inr [], w) | Some q \<Rightarrow> enforceGuildAttachmentQuota channelID q w) of
        (Inl _, w1) \<Rightarrow> refuse 500 ''failed to enforce attachment quota'' (snd (run_chat (SoftDeleteAttachment (at_ID row) userID) w1))
      | (Inr gone, w1) \<Rightarrow>
      (case PresignPut blobs (at_StorageKey row) presignTTL of
         Inl _ \<Rightarrow> ((Fail 500 ''presign failed'', gone), snd (run_chat (SoftDeleteAttachment (at_ID row) userID) w1))
       | Inr u \<Rightarrow> ((Done 200 (Presigned (at_ID row) (pu_URL u) (methodOrDefault (pu_Method u) ''PUT'') (pu_Headers u)), gone), w1)))"

text \<open>\<open>blobs\<close> is \<open>None\<close> when none is configured.\<close>

definition presign ::
  "'o Backend option \<Rightarrow> string \<Rightarrow> string \<Rightarrow> string \<Rightarrow> (int \<times> string) option \<Rightarrow> world \<Rightarrow> attachment_result" where
  "presign blobs uuid channelID userID body w =
     (if userID = [] then refuse 401 ''not authenticated'' w
      else if channelID = [] then refuse 400 ''missing channel id'' w
      else case body of
        None \<Rightarrow> refuse 400 ''invalid body'' w
      | Some (sz, contentType) \<Rightarrow>
      (if sz \<le> 0 then refuse 400 ''size must be positive'' w
       else case run_chat GetInstancePolicy w of
         (Inl _, w1) \<Rightarrow> refuse 500 ''config lookup failed'' w1
       | (Inr cfg, w1) \<Rightarrow>
      (let maxBytes = (if gp_MaxAttachmentBytes cfg \<le> 0 then MaxAttachmentBytes else gp_MaxAttachmentBytes cfg)
       in if sz > maxBytes then refuse 413 (''attachment exceeds '' @ itoa maxBytes @ '' bytes'') w1
       else if (case gp_MaxGuildAttachmentStorageBytes cfg of None \<Rightarrow> False | Some q \<Rightarrow> sz > q)
       then refuse 413 (''attachment exceeds guild storage quota of '' @
              itoa (the (gp_MaxGuildAttachmentStorageBytes cfg)) @ '' bytes'') w1
       else if \<not> contentTypeAllowed contentType then refuse 415 ''content type not allowed'' w1
       else case blobs of
         None \<Rightarrow> refuse 503 ''attachment storage is not configured on this instance'' w1
       | Some be \<Rightarrow>
      (case run_chat (IsChannelMember channelID userID) w1 of
         (Inl _, w2) \<Rightarrow> refuse 500 ''membership check failed'' w2
       | (Inr ok, w2) \<Rightarrow>
      (if \<not> ok then refuse 403 ''not a channel member'' w2
       else case run_chat (InsertAttachment channelID userID (buildAttachmentKey channelID uuid) contentType sz) w2 of
         (Inl _, w3) \<Rightarrow> refuse 500 ''failed to record attachment'' w3
       | (Inr row, w3) \<Rightarrow> finish_presign be channelID userID (gp_MaxGuildAttachmentStorageBytes cfg) row w3)))))"

definition download :: "'o Backend option \<Rightarrow> string \<Rightarrow> string \<Rightarrow> world \<Rightarrow> attachment_result" where
  "download blobs attachmentID userID w =
     (if userID = [] then refuse 401 ''not authenticated'' w
      else if attachmentID = [] then refuse 400 ''missing attachment id'' w
      else case run_chat (GetAttachmentByID attachmentID) w of
        (Inl e, w1) \<Rightarrow> (if e = DbNoRows then refuse 404 ''attachment not found'' w1 else refuse 500 ''lookup failed'' w1)
      | (Inr row, w1) \<Rightarrow>
      (if at_DeletedAt row \<noteq> None then refuse 410 ''attachment no longer available'' w1
       else case run_chat (IsChannelMember (at_ChannelID row) userID) w1 of
         (Inl _, w2) \<Rightarrow> refuse 500 ''membership check failed'' w2
       | (Inr ok, w2) \<Rightarrow>
      (if \<not> ok then refuse 403 ''not a channel member'' w2
       else case blobs of
         None \<Rightarrow> refuse 503 ''attachment storage is not configured on this instance'' w2
       | Some be \<Rightarrow> (case PresignGet be (at_StorageKey row) presignTTL of
           Inl _ \<Rightarrow> refuse 500 ''presign failed'' w2
         | Inr u \<Rightarrow> ((Done 200 (DownloadURL (pu_URL u)), []), w2)))))"

definition delete_attachment :: "'o Backend option \<Rightarrow> string \<Rightarrow> string \<Rightarrow> world \<Rightarrow> attachment_result" where
  "delete_attachment blobs attachmentID userID w =
     (if userID = [] then refuse 401 ''not authenticated'' w
      else if attachmentID = [] then refuse 400 ''missing attachment id'' w
      else case run_chat (SoftDeleteAttachment attachmentID userID) w of
        (Inl e, w1) \<Rightarrow> (if e = DbNoRows then refuse 404 ''attachment not found'' w1 else refuse 500 ''delete failed'' w1)
      | (Inr row, w1) \<Rightarrow>
          ((Done 204 Gone, (case blobs of None \<Rightarrow> [] | Some _ \<Rightarrow> [at_StorageKey row])), w1))"

section \<open>Retention\<close>

text \<open>\<open>True\<close> as the first part when the cleanup ran to its end; the second part are the deleted objects.\<close>

definition runMessageRetentionCleanup :: "'o Backend option \<Rightarrow> world \<Rightarrow> (bool \<times> string list) \<times> world" where
  "runMessageRetentionCleanup blobs w =
     (case run_chat GetInstancePolicy w of
        (Inl _, w1) \<Rightarrow> ((False, []), w1)
      | (Inr cfg, w1) \<Rightarrow>
      (if gp_MessageRetentionDays cfg \<le> 0 then ((True, []), w1)
       else case run_chat (ListExpiredAttachments (gp_MessageRetentionDays cfg) 500) w1 of
         (Inl _, w2) \<Rightarrow> ((False, []), w2)
       | (Inr expired, w2) \<Rightarrow>
      (case run_chat (SoftDeleteAttachmentsByID (map at_ID expired)) w2 of
         (Inl _, w3) \<Rightarrow> ((False, []), w3)
       | (Inr deleted, w3) \<Rightarrow>
      (let gone = (case blobs of None \<Rightarrow> [] | Some _ \<Rightarrow> map at_StorageKey deleted)
       in case run_chat (PurgeExpiredMessages (gp_MessageRetentionDays cfg)) w3 of
            (Inl _, w4) \<Rightarrow> ((False, gone), w4)
          | (Inr _, w4) \<Rightarrow> ((True, gone), w4)))))"

section \<open>The routes\<close>

datatype attachment_request =
    TPresign string string string "(int \<times> string) option"
  | TDownload string string
  | TDelete string string
  | TRetention

text \<open>The guild routes lead to \<open>presign\<close> behind \<open>RequireGuildMember\<close>, which names the guild of the path only.\<close>

fun AttachmentRoutes :: "'o Backend option \<Rightarrow> attachment_request \<Rightarrow> world \<Rightarrow> attachment_result" where
  "AttachmentRoutes be (TPresign uuid c u b) w = presign be uuid c u b w"
| "AttachmentRoutes be (TDownload i u) w = download be i u w"
| "AttachmentRoutes be (TDelete i u) w = delete_attachment be i u w"
| "AttachmentRoutes be TRetention w =
     (case runMessageRetentionCleanup be w of ((ok, gone), w') \<Rightarrow> ((Done 204 Gone, gone), w'))"

end
