(* ===== verification/Attachment_Props.thy ===== *)
theory Attachment_Props
  imports Attachments Ws_Props "HOL-Library.Multiset"
begin

text \<open>
  Who gets the URL of an attachment, and that the storage of a guild stays within its quota.
\<close>

section \<open>Statements of the chat database\<close>

lemma run_chat_query:
  "run_chat (chat_query q) w =
     (let d = cdb w; t = cd_tick d; d' = d\<lparr>cd_tick := Suc t\<rparr>
      in if cd_fault d t then (Inl DbOutage, w\<lparr>cdb := d'\<rparr>)
         else (case q (cd_clock d t) (cd_uuid d t) d' of (r, d'') \<Rightarrow> (r, w\<lparr>cdb := d''\<rparr>)))"
  by (simp add: run_chat_def chat_query_def Let_def)

lemma run_chat_bind:
  "run_chat (bind_op q k) w = (case run_chat q w of (Inl e, w1) \<Rightarrow> (Inl e, w1) | (Inr x, w1) \<Rightarrow> run_chat (k x) w1)"
  by (auto simp: run_chat_def bind_op_def split: prod.split sum.split)

lemma member_answer:
  "run_chat (IsChannelMember c u) w = (Inr ok, w1) \<Longrightarrow>
     ok = channel_member (cdb w) c u \<and> w1 = w\<lparr>cdb := cdb w\<lparr>cd_tick := Suc (cd_tick (cdb w))\<rparr>\<rparr>"
  by (auto simp: IsChannelMember_def chat_read_def run_chat_query Let_def channel_member_def split: if_splits)

lemma policy_answer:
  "run_chat GetInstancePolicy w = (Inr cfg, w1) \<Longrightarrow>
     cfg = cd_policy (cdb w) \<and> w1 = w\<lparr>cdb := cdb w\<lparr>cd_tick := Suc (cd_tick (cdb w))\<rparr>\<rparr>"
  by (auto simp: GetInstancePolicy_def chat_read_def run_chat_query Let_def split: if_splits)

lemma insert_answer:
  assumes "run_chat (InsertAttachment c u key ct sz) w = (Inr row, w1)"
  shows "at_ID row \<notin> at_ID ` set (cd_attachments (cdb w)) \<and>
    row = \<lparr>at_ID = cd_uuid (cdb w) (cd_tick (cdb w)), at_ChannelID = c, at_OwnerID = u, at_StorageKey = key, at_Size = sz,
           at_ContentType = ct, at_CreatedAt = cd_clock (cdb w) (cd_tick (cdb w)), at_DeletedAt = None\<rparr> \<and>
    w1 = w\<lparr>cdb := cdb w\<lparr>cd_tick := Suc (cd_tick (cdb w)), cd_attachments := cd_attachments (cdb w) @ [row]\<rparr>\<rparr>"
  using assms by (auto simp: InsertAttachment_def run_chat_query Let_def sql split: if_splits)

section \<open>The loop of the quota\<close>

lemma total_size_sum:
  assumes "0 \<le> t" "\<forall>a \<in> set as. 0 < at_Size a" "t + sum_list (map at_Size as) < 2 ^ 63"
  shows "total_size as t = t + sum_list (map at_Size as)"
  using assms
proof (induction as arbitrary: t)
  case (Cons a as)
  have s: "0 \<le> sum_list (map at_Size as)" using Cons.prems(2) by (intro sum_list_nonneg) (auto simp: less_imp_le)
  have "int64 (t + at_Size a) = t + at_Size a" by (rule int64_id) (use Cons.prems s in simp_all)
  then show ?case using Cons by simp
qed simp

text \<open>What is evicted is a prefix, and long enough.\<close>

lemma to_evict_prefix:
  assumes "e \<le> sum_list (map at_Size bs)" "- (2 ^ 62) \<le> e" "e < 2 ^ 62" "\<forall>a \<in> set bs. 0 < at_Size a \<and> at_Size a < 2 ^ 62"
  shows "\<exists>k \<le> length bs. to_evict (bs @ cs) e = map at_ID (take k bs) \<and> e \<le> sum_list (map at_Size (take k bs))"
  using assms
proof (induction bs arbitrary: e)
  case Nil
  then have "to_evict cs e = []" by (cases cs) auto
  then show ?case using Nil by simp
next
  case (Cons b bs)
  show ?case
  proof (cases "e \<le> 0")
    case True
    then show ?thesis by (intro exI [of _ 0]) simp
  next
    case False
    have "int64 (e - at_Size b) = e - at_Size b" by (rule int64_id) (use Cons.prems False in simp_all)
    moreover obtain k where "k \<le> length bs" "to_evict (bs @ cs) (e - at_Size b) = map at_ID (take k bs)"
      "e - at_Size b \<le> sum_list (map at_Size (take k bs))"
      using Cons.IH [of "e - at_Size b"] Cons.prems False by auto
    ultimately show ?thesis using False by (intro exI [of _ "Suc k"]) simp
  qed
qed

section \<open>The storage of a guild\<close>

definition guild_storage :: "chat_db \<Rightarrow> string \<Rightarrow> int" where
  "guild_storage d g = sum_list (map at_Size (filter (guild_attachment d g) (cd_attachments d)))"

lemma mset_oldest_first [simp]: "mset (oldest_first as) = mset as"
  by (simp add: oldest_first_def)

lemma set_oldest_first [simp]: "set (oldest_first as) = set as"
  by (simp add: oldest_first_def)

lemma sum_oldest_first [simp]: "sum_list (map at_Size (oldest_first as)) = sum_list (map at_Size as)"
  by (metis mset_oldest_first mset_map sum_mset_sum_list)

lemma oldest_first_last:
  assumes "\<forall>a \<in> set as. at_CreatedAt a < at_CreatedAt row"
  obtains bs where "oldest_first (as @ [row]) = bs @ [row]"
proof -
  define L where "L = oldest_first (as @ [row])"
  have s: "sorted (map at_CreatedAt L)" by (simp add: L_def oldest_first_def)
  have e: "set L = insert row (set as)" by (simp add: L_def)
  then obtain bs y where L: "L = bs @ [y]" by (cases L rule: rev_cases) auto
  have "y = row"
  proof (rule ccontr)
    assume "y \<noteq> row"
    then have "y \<in> set as" "row \<in> set bs" using e L by auto
    then have "at_CreatedAt row \<le> at_CreatedAt y" "at_CreatedAt y < at_CreatedAt row"
      using s L assms by (auto simp: sorted_append)
    then show False by simp
  qed
  then show thesis using that L by (simp add: L_def)
qed

lemma active_after_update:
  "filter (guild_attachment (d\<lparr>cd_attachments := sql_update (\<lambda>a. at_ID a \<in> I \<and> attachment_active a)
       (\<lambda>a. a\<lparr>at_DeletedAt := Some t\<rparr>) as\<rparr>) g)
     (sql_update (\<lambda>a. at_ID a \<in> I \<and> attachment_active a) (\<lambda>a. a\<lparr>at_DeletedAt := Some t\<rparr>) as) =
   filter (\<lambda>a. at_ID a \<notin> I) (filter (guild_attachment d g) as)"
  by (induction as) (auto simp: sql_update_def guild_attachment_def attachment_active_def)

lemma sum_filter_split:
  fixes f :: "'a \<Rightarrow> int"
  shows "sum_list (map f (filter P xs)) + sum_list (map f (filter (\<lambda>x. \<not> P x) xs)) = sum_list (map f xs)"
  by (induction xs) auto

lemma evicted_sum:
  assumes "oldest_first as = bs @ cs" "distinct (map at_ID as)" "k \<le> length bs"
  shows "sum_list (map at_Size (filter (\<lambda>a. at_ID a \<in> at_ID ` set (take k bs)) as)) = sum_list (map at_Size (take k bs))"
proof -
  define P where "P = (\<lambda>a :: Attachment. at_ID a \<in> at_ID ` set (take k bs))"
  have "mset (map at_ID (bs @ cs)) = mset (map at_ID as)"
    using arg_cong [OF assms(1), of "\<lambda>l. mset (map at_ID l)"] by simp
  then have d: "distinct (map at_ID (take k bs @ drop k bs @ cs))"
    using assms(2) by (metis append_assoc append_take_drop_id mset_eq_imp_distinct_iff)
  then have "filter P (drop k bs @ cs) = []" by (force simp: P_def filter_empty_conv)
  then have f: "filter P (take k bs @ (drop k bs @ cs)) = take k bs"
    by (simp only: filter_append) (simp add: P_def filter_id_conv)
  have "mset (filter P as) = mset (filter P (oldest_first as))" by (simp add: mset_filter)
  also have "\<dots> = mset (take k bs)" using f assms(1) by (metis append_assoc append_take_drop_id)
  finally have "mset (map at_Size (filter P as)) = mset (map at_Size (take k bs))" by simp
  then show ?thesis unfolding P_def by (metis sum_mset_sum_list)
qed

lemma find_key: "distinct (map f xs) \<Longrightarrow> x \<in> set xs \<Longrightarrow> find (\<lambda>y. f y = f x) xs = Some x"
  by (induction xs) (auto simp: image_iff)

lemma quota_rows:
  assumes "run_chat (ListAttachmentsForGuildQuota c) w = (Inr (g', as), w1)"
    "distinct (map ch_ID (cd_channels (cdb w)))" "ch \<in> set (cd_channels (cdb w))" "ch_ID ch = c" "ch_ServerID ch = Some g"
  shows "as = oldest_first (filter (guild_attachment (cdb w) g) (cd_attachments (cdb w))) \<and>
    (\<exists>t. w1 = w\<lparr>cdb := cdb w\<lparr>cd_tick := t\<rparr>\<rparr>)"
proof -
  have "find (\<lambda>x. ch_ID x = c) (cd_channels (cdb w)) = Some ch" using find_key [OF assms(2,3)] assms(4) by simp
  then show ?thesis using assms(1,5)
    by (auto simp: ListAttachmentsForGuildQuota_def run_chat_bind run_chat_query chat_read_def Let_def
        guild_attachment_def [abs_def] split: if_splits)
qed

lemma withdraw_query:
  "ids \<noteq> [] \<Longrightarrow> SoftDeleteAttachmentsByID ids = chat_query (\<lambda>now _ d.
     let hit = (\<lambda>a. at_ID a \<in> set ids \<and> attachment_active a)
     in (Inr (map (\<lambda>a. a\<lparr>at_DeletedAt := Some now\<rparr>) (filter hit (cd_attachments d))),
         d\<lparr>cd_attachments := sql_update hit (\<lambda>a. a\<lparr>at_DeletedAt := Some now\<rparr>) (cd_attachments d)\<rparr>))"
  by (simp add: SoftDeleteAttachmentsByID_def fun_eq_iff)

lemma withdraw_answer:
  assumes "run_chat (SoftDeleteAttachmentsByID ids) w = (Inr deleted, w1)"
  shows "\<exists>t k. cdb w1 = (cdb w)\<lparr>cd_tick := k, cd_attachments :=
      sql_update (\<lambda>a. at_ID a \<in> set ids \<and> attachment_active a) (\<lambda>a. a\<lparr>at_DeletedAt := Some t\<rparr>) (cd_attachments (cdb w))\<rparr> \<and>
    deleted = map (\<lambda>a. a\<lparr>at_DeletedAt := Some t\<rparr>)
      (filter (\<lambda>a. at_ID a \<in> set ids \<and> attachment_active a) (cd_attachments (cdb w)))"
proof (cases "ids = []")
  case True
  have "sql_update (\<lambda>_. False) f xs = xs" for f and xs :: "Attachment list" by (simp add: sql_update_def)
  then show ?thesis using assms True
    by (intro exI [of _ 0] exI [of _ "cd_tick (cdb w)"]) (auto simp: SoftDeleteAttachmentsByID_def run_chat_def)
next
  case False
  then show ?thesis using assms
    by (intro exI [of _ "cd_clock (cdb w) (cd_tick (cdb w))"] exI [of _ "Suc (cd_tick (cdb w))"])
      (auto simp: withdraw_query run_chat_query Let_def split: if_splits)
qed

text \<open>Channels and attachments as a database keeps them: keys are unique, sizes positive and far from the wrap.\<close>

definition attachments_ok :: "chat_db \<Rightarrow> bool" where
  "attachments_ok d \<longleftrightarrow> distinct (map ch_ID (cd_channels d)) \<and> distinct (map at_ID (cd_attachments d)) \<and>
     (\<forall>a \<in> set (cd_attachments d). 0 < at_Size a \<and> at_Size a < 2 ^ 62)"

lemma evicted_storage:
  assumes as: "filter (guild_attachment d g) (cd_attachments d) = as" and bs: "oldest_first as = bs @ [row]"
    and ids: "distinct (map at_ID as)" and j: "j \<le> length bs" and I: "I = at_ID ` set (take j bs)"
    and d': "d' = d\<lparr>cd_tick := k, cd_attachments :=
      sql_update (\<lambda>a. at_ID a \<in> I \<and> attachment_active a) (\<lambda>a. a\<lparr>at_DeletedAt := Some t\<rparr>) (cd_attachments d)\<rparr>"
  shows "guild_storage d' g = guild_storage d g - sum_list (map at_Size (take j bs)) \<and> row \<in> set (cd_attachments d')"
proof
  have "guild_storage d' g = sum_list (map at_Size (filter (\<lambda>a. at_ID a \<notin> I) as))"
    using active_after_update [where d = "d\<lparr>cd_tick := k\<rparr>" and I = I and t = t and as = "cd_attachments d" and g = g]
    by (simp add: guild_storage_def d' as [symmetric]) (simp add: guild_attachment_def [abs_def])
  also have "\<dots> = guild_storage d g - sum_list (map at_Size (take j bs))"
    using sum_filter_split [of at_Size "\<lambda>a. at_ID a \<in> I" as] evicted_sum [OF bs ids j]
    by (simp add: guild_storage_def as I)
  finally show "guild_storage d' g = guild_storage d g - sum_list (map at_Size (take j bs))" .
  have "mset (map at_ID (bs @ [row])) = mset (map at_ID as)"
    using arg_cong [OF bs, of "\<lambda>l. mset (map at_ID l)"] by simp
  then have "distinct (map at_ID (bs @ [row]))" using ids by (metis mset_eq_imp_distinct_iff)
  then have "at_ID row \<notin> I" by (auto simp: I dest: in_set_takeD)
  moreover have "row \<in> set as" using arg_cong [OF bs, of set] by simp
  then have "row \<in> set (cd_attachments d)" using as by auto
  ultimately show "row \<in> set (cd_attachments d')" by (force simp: d' sql_update_def)
qed

lemma storage_nonneg: "attachments_ok d \<Longrightarrow> 0 \<le> guild_storage d g"
  unfolding guild_storage_def by (rule sum_list_nonneg) (fastforce simp: attachments_ok_def)

lemma quota_enforced:
  assumes run: "enforceGuildAttachmentQuota c q w = (Inr gone, w')" and q: "0 < q"
    and ok: "attachments_ok (cdb w)" and rows: "cd_attachments (cdb w) = as @ [row]"
    and new: "\<forall>a \<in> set as. at_CreatedAt a < at_CreatedAt row" "attachment_active row" "at_ChannelID row = c" "at_Size row \<le> q"
    and small: "guild_storage (cdb w) g < 2 ^ 62"
    and ch: "ch \<in> set (cd_channels (cdb w))" "ch_ID ch = c" "ch_ServerID ch = Some g"
  shows "guild_storage (cdb w') g \<le> q \<and> row \<in> set (cd_attachments (cdb w'))"
proof -
  define G where "G = filter (guild_attachment (cdb w) g) as"
  have row: "guild_attachment (cdb w) g row"
    using new(2,3) ch by (auto simp: guild_attachment_def sql)
  then have G: "filter (guild_attachment (cdb w) g) (cd_attachments (cdb w)) = G @ [row]" by (simp add: rows G_def)
  have d: "distinct (map ch_ID (cd_channels (cdb w)))" "distinct (map at_ID (G @ [row]))"
    using ok by (auto simp: attachments_ok_def rows G_def distinct_map_filter inj_on_def)
  obtain bs where bs: "oldest_first (G @ [row]) = bs @ [row]"
    using oldest_first_last [of G row] new(1) by (auto simp: G_def)
  have s: "guild_storage (cdb w) g = sum_list (map at_Size bs) + at_Size row"
    using arg_cong [OF bs, of "\<lambda>l. sum_list (map at_Size l)"] by (simp add: guild_storage_def G)
  have "set (bs @ [row]) \<subseteq> set (cd_attachments (cdb w))"
    using arg_cong [OF bs, of set] by (auto simp: G_def rows)
  then have z: "\<forall>a \<in> set (bs @ [row]). 0 < at_Size a \<and> at_Size a < 2 ^ 62" using ok by (auto simp: attachments_ok_def)
  then have z0: "0 \<le> sum_list (map at_Size bs)" "0 < at_Size row" by (auto intro!: sum_list_nonneg simp: less_imp_le)
  have t: "total_size (bs @ [row]) 0 = guild_storage (cdb w) g"
    by (subst total_size_sum) (use z s small in auto)
  obtain g' act w1 where l: "run_chat (ListAttachmentsForGuildQuota c) w = (Inr (g', act), w1)"
    using run q by (cases "run_chat (ListAttachmentsForGuildQuota c) w")
      (auto simp: enforceGuildAttachmentQuota_def split: sum.splits)
  from quota_rows [OF l d(1) ch] obtain k where act: "act = bs @ [row]" and w1: "w1 = w\<lparr>cdb := cdb w\<lparr>cd_tick := k\<rparr>\<rparr>"
    by (auto simp: G bs)
  show ?thesis
  proof (cases "guild_storage (cdb w) g \<le> q")
    case True
    then have "w' = w1" using run q by (simp add: enforceGuildAttachmentQuota_def l act t)
    then show ?thesis using True rows by (simp add: w1 guild_storage_def guild_attachment_def [abs_def])
  next
    case False
    define e where "e = guild_storage (cdb w) g - q"
    have e: "int64 e = e" by (rule int64_id) (use False small q in \<open>simp_all add: e_def\<close>)
    obtain j where j: "j \<le> length bs" "to_evict (bs @ [row]) e = map at_ID (take j bs)" "e \<le> sum_list (map at_Size (take j bs))"
      using to_evict_prefix [of e bs "[row]"] z False small q new(4) s by (auto simp: e_def)
    define I where "I = at_ID ` set (take j bs)"
    obtain deleted where "run_chat (SoftDeleteAttachmentsByID (map at_ID (take j bs))) w1 = (Inr deleted, w')"
      using run q False by (auto simp: enforceGuildAttachmentQuota_def l act t e j(2) e_def [symmetric] split: sum.splits prod.splits)
    from withdraw_answer [OF this] obtain tm k' where w': "cdb w' = (cdb w)\<lparr>cd_tick := k', cd_attachments :=
        sql_update (\<lambda>a. at_ID a \<in> I \<and> attachment_active a) (\<lambda>a. a\<lparr>at_DeletedAt := Some tm\<rparr>) (cd_attachments (cdb w))\<rparr>"
      by (auto simp: w1 I_def)
    from evicted_storage [OF G bs d(2) j(1) I_def w'] show ?thesis using j(3) by (simp add: e_def)
  qed
qed

section \<open>The handlers\<close>

text \<open>What an uploader has passed when the URL is handed out.\<close>

definition upload_granted :: "'o Backend option \<Rightarrow> string \<Rightarrow> string \<Rightarrow> (int \<times> string) option \<Rightarrow> world \<Rightarrow> Attachment \<Rightarrow> bool" where
  "upload_granted blobs channelID userID body w row \<longleftrightarrow>
     body = Some (at_Size row, at_ContentType row) \<and> 0 < at_Size row \<and>
     at_Size row \<le> (let m = gp_MaxAttachmentBytes (cd_policy (cdb w)) in if m \<le> 0 then MaxAttachmentBytes else m) \<and>
     (\<forall>q. gp_MaxGuildAttachmentStorageBytes (cd_policy (cdb w)) = Some q \<longrightarrow> at_Size row \<le> q) \<and>
     contentTypeAllowed (at_ContentType row) \<and> channel_member (cdb w) channelID userID \<and>
     at_ChannelID row = channelID \<and> at_OwnerID row = userID \<and> attachment_active row \<and>
     at_ID row \<notin> at_ID ` set (cd_attachments (cdb w)) \<and> (\<exists>n. at_CreatedAt row = cd_clock (cdb w) n)"

lemma channel_member_tick [simp]: "channel_member (d\<lparr>cd_tick := t\<rparr>) c u = channel_member d c u"
  by (simp add: channel_member_def)

lemma finish_steps:
  assumes "finish_presign be c u quota row w = ((Done s b, gone), w')"
  shows "(case quota of None \<Rightarrow> (Inr [], w) | Some q \<Rightarrow> enforceGuildAttachmentQuota c q w) = (Inr gone, w') \<and>
    (\<exists>url. PresignPut be (at_StorageKey row) presignTTL = Inr url \<and>
       b = Presigned (at_ID row) (pu_URL url) (methodOrDefault (pu_Method url) ''PUT'') (pu_Headers url))"
  using assms by (auto simp: finish_presign_def split: prod.splits sum.splits)

lemma presign_steps:
  assumes "presign blobs uuid c u body w = ((Done s b, gone), w')"
  obtains be row w3 k where "blobs = Some be" "upload_granted blobs c u body w row"
    "w3 = w\<lparr>cdb := (cdb w)\<lparr>cd_tick := k, cd_attachments := cd_attachments (cdb w) @ [row]\<rparr>\<rparr>"
    "finish_presign be c u (gp_MaxGuildAttachmentStorageBytes (cd_policy (cdb w))) row w3 = ((Done s b, gone), w')"
proof -
  obtain sz ct where body: "body = Some (sz, ct)"
    using assms by (cases body) (auto simp: presign_def split: if_splits)
  obtain cfg w1 where p: "run_chat GetInstancePolicy w = (Inr cfg, w1)"
    using assms by (cases "run_chat GetInstancePolicy w") (auto simp: presign_def body split: if_splits sum.splits)
  obtain be where be: "blobs = Some be"
    using assms by (cases blobs) (auto simp: presign_def body p Let_def split: if_splits)
  obtain w2 where m: "run_chat (IsChannelMember c u) w1 = (Inr True, w2)"
    using assms by (cases "run_chat (IsChannelMember c u) w1")
      (auto simp: presign_def body p be Let_def split: if_splits sum.splits)
  obtain row w3 where i: "run_chat (InsertAttachment c u (buildAttachmentKey c uuid) ct sz) w2 = (Inr row, w3)"
    using assms by (cases "run_chat (InsertAttachment c u (buildAttachmentKey c uuid) ct sz) w2")
      (auto simp: presign_def body p be m Let_def split: if_splits sum.splits)
  have f: "finish_presign be c u (gp_MaxGuildAttachmentStorageBytes cfg) row w3 = ((Done s b, gone), w')"
    and c: "0 < sz" "sz \<le> (if gp_MaxAttachmentBytes cfg \<le> 0 then MaxAttachmentBytes else gp_MaxAttachmentBytes cfg)"
      "\<not> (case gp_MaxGuildAttachmentStorageBytes cfg of None \<Rightarrow> False | Some q \<Rightarrow> sz > q)" "contentTypeAllowed ct"
    using assms by (auto simp: presign_def body p be m i Let_def split: if_splits)
  have cfg: "cfg = cd_policy (cdb w)" "channel_member (cdb w) c u" using policy_answer [OF p] member_answer [OF m] by auto
  show thesis
  proof (rule that [OF be])
    show "upload_granted blobs c u body w row" using insert_answer [OF i] c cfg policy_answer [OF p] member_answer [OF m]
      by (auto simp: upload_granted_def body Let_def attachment_active_def split: option.splits)
    show "finish_presign be c u (gp_MaxGuildAttachmentStorageBytes (cd_policy (cdb w))) row w3 = ((Done s b, gone), w')"
      using f cfg by simp
    show "w3 = w\<lparr>cdb := (cdb w)\<lparr>cd_tick := cd_tick (cdb w3), cd_attachments := cd_attachments (cdb w) @ [row]\<rparr>\<rparr>"
      using insert_answer [OF i] policy_answer [OF p] member_answer [OF m] by simp
  qed
qed

lemma download_steps:
  assumes "download blobs i u w = ((Done s b, gone), w')"
  obtains be row url where "blobs = Some be" "row \<in> set (cd_attachments (cdb w))" "at_ID row = i" "attachment_active row"
    "channel_member (cdb w) (at_ChannelID row) u" "PresignGet be (at_StorageKey row) presignTTL = Inr url"
    "b = DownloadURL (pu_URL url)" "gone = []"
proof -
  obtain row w1 where g: "run_chat (GetAttachmentByID i) w = (Inr row, w1)"
    using assms by (cases "run_chat (GetAttachmentByID i) w") (auto simp: download_def split: if_splits sum.splits)
  then have r: "row \<in> set (cd_attachments (cdb w))" "at_ID row = i" "w1 = w\<lparr>cdb := (cdb w)\<lparr>cd_tick := Suc (cd_tick (cdb w))\<rparr>\<rparr>"
    by (auto simp: GetAttachmentByID_def run_chat_query Let_def split: if_splits option.splits dest: find_Some_iff_mem)
  obtain w2 where m: "run_chat (IsChannelMember (at_ChannelID row) u) w1 = (Inr True, w2)"
    using assms by (cases "run_chat (IsChannelMember (at_ChannelID row) u) w1")
      (auto simp: download_def g split: if_splits sum.splits)
  from assms m g show thesis using member_answer [OF m] r
    by (auto simp: download_def attachment_active_def split: if_splits option.splits sum.splits intro!: that)
qed

section \<open>The properties\<close>

text \<open>A backend that signs every URL, and a guild with one old attachment and a quota of 10 bytes.\<close>

definition toy_blobs :: "unit Backend" where
  "toy_blobs = \<lparr>Kind = ''toy'', Put = (\<lambda>_ _ s. (Inr [], s)), Get = (\<lambda>_ s. (Inr [], s)), Delete = (\<lambda>_ s. (Inr (), s)),
     Exists = (\<lambda>_ s. (Inr False, s)),
     PresignPut = (\<lambda>key _. Inr \<lparr>pu_URL = ''put/'' @ key, pu_Method = [], pu_Headers = [], pu_ContentSha256Header = []\<rparr>),
     PresignGet = (\<lambda>key _. Inr \<lparr>pu_URL = ''get/'' @ key, pu_Method = [], pu_Headers = [], pu_ContentSha256Header = []\<rparr>),
     StatChecksum = None\<rparr>"

definition toy_old_attachment :: Attachment where
  "toy_old_attachment = \<lparr>at_ID = ''a'', at_ChannelID = ''k'', at_OwnerID = ''u'', at_StorageKey = ''old'', at_Size = 8,
     at_ContentType = ''image/png'', at_CreatedAt = -1, at_DeletedAt = None\<rparr>"

definition toy_shelf :: world where
  "toy_shelf = toy_world\<lparr>cdb := toy_db\<lparr>cd_attachments := [toy_old_attachment],
     cd_policy := (cd_policy toy_db)\<lparr>gp_MaxGuildAttachmentStorageBytes := Some 10\<rparr>\<rparr>\<rparr>"

lemmas toy_attach_eval = presign_def finish_presign_def enforceGuildAttachmentQuota_def run_chat_query GetInstancePolicy_def
  IsChannelMember_def chat_read_def InsertAttachment_def ListAttachmentsForGuildQuota_def run_chat_bind
  withdraw_query channel_member_def guild_attachment_def oldest_first_def attachment_active_def
  toy_shelf_def toy_world_def toy_db_def toy_policy_def toy_blobs_def toy_old_attachment_def sql sql_update_def Let_def

lemma png_allowed: "contentTypeAllowed ''image/png''"
  by code_simp

lemma toy_uploaded:
  "\<exists>b w'. AttachmentRoutes (Some toy_blobs) (TPresign ''x'' ''k'' ''u'' (Some (5, ''image/png''))) toy_shelf = ((Done 200 b, [''old'']), w')"
  by (simp add: png_allowed MaxAttachmentBytes_def int64_id toy_attach_eval)

text \<open>
  C31. \<^bold>\<open>The storage of a guild stays within its quota.\<close> When an upload URL is handed out and the instance sets a quota,
  the attachments of the guild that are not deleted fit the quota afterwards, and the new one is among them: the older
  ones go first.
\<close>

theorem guild_quota_kept:
  assumes "AttachmentRoutes blobs (TPresign uuid c u (Some (sz, ct))) w = ((Done s b, gone), w')"
    and "gp_MaxGuildAttachmentStorageBytes (cd_policy (cdb w)) = Some q" and "0 < q"
    and "attachments_ok (cdb w)" and "\<forall>a \<in> set (cd_attachments (cdb w)). \<forall>n. at_CreatedAt a < cd_clock (cdb w) n"
    and "ch \<in> set (cd_channels (cdb w))" and "ch_ID ch = c" and "ch_ServerID ch = Some g"
    and "guild_storage (cdb w) g + sz < 2 ^ 62"
  shows "guild_storage (cdb w') g \<le> q \<and>
    (\<exists>row url m hs. b = Presigned (at_ID row) url m hs \<and> row \<in> set (cd_attachments (cdb w')) \<and> attachment_active row \<and> at_Size row = sz)"
proof -
  have "presign blobs uuid c u (Some (sz, ct)) w = ((Done s b, gone), w')" using assms(1) by simp
  then obtain be row w3 k where p0: "blobs = Some be" and p: "upload_granted blobs c u (Some (sz, ct)) w row"
    "w3 = w\<lparr>cdb := (cdb w)\<lparr>cd_tick := k, cd_attachments := cd_attachments (cdb w) @ [row]\<rparr>\<rparr>"
    "finish_presign be c u (gp_MaxGuildAttachmentStorageBytes (cd_policy (cdb w))) row w3 = ((Done s b, gone), w')"
    by (rule presign_steps)
  have sz: "at_Size row = sz" "0 < sz" "sz \<le> q" and new: "attachment_active row" "at_ChannelID row = c"
    "at_ID row \<notin> at_ID ` set (cd_attachments (cdb w))" "\<forall>a \<in> set (cd_attachments (cdb w)). at_CreatedAt a < at_CreatedAt row"
    using p(1) assms(2,5) by (auto simp: upload_granted_def)
  have st: "guild_storage (cdb w3) g = guild_storage (cdb w) g + sz" "0 \<le> guild_storage (cdb w) g"
    using storage_nonneg [OF assms(4)] assms(6-8) new sz
    by (auto simp: guild_storage_def p(2) guild_attachment_def [abs_def] sql)
  have e: "enforceGuildAttachmentQuota c q w3 = (Inr gone, w')" using finish_steps [OF p(3)] assms(2) by simp
  have "attachments_ok (cdb w3)" using assms(4,9) new(3) sz st(2) by (auto simp: attachments_ok_def p(2))
  then have "guild_storage (cdb w') g \<le> q \<and> row \<in> set (cd_attachments (cdb w'))"
    by (rule quota_enforced [OF e assms(3) _ _ new(4,1,2) _ _ _ assms(7,8)]) (use sz st assms(6,9) in \<open>simp_all add: p(2)\<close>)
  then show ?thesis using finish_steps [OF p(3)] new(1) sz(1) by blast
qed

theorem guild_quota_kept_witness:
  "\<exists>b w'. AttachmentRoutes (Some toy_blobs) (TPresign ''x'' ''k'' ''u'' (Some (5, ''image/png''))) toy_shelf = ((Done 200 b, [''old'']), w') \<and>
     guild_storage (cdb w') ''g'' \<le> 10"
proof -
  obtain b w' where u: "AttachmentRoutes (Some toy_blobs) (TPresign ''x'' ''k'' ''u'' (Some (5, ''image/png''))) toy_shelf =
      ((Done 200 b, [''old'']), w')"
    using toy_uploaded by blast
  then have "guild_storage (cdb w') ''g'' \<le> 10"
    using guild_quota_kept [OF u, of 10 "hd (cd_channels toy_db)" "''g''"]
    by (simp add: attachments_ok_def guild_storage_def toy_attach_eval)
  then show ?thesis using u by blast
qed

text \<open>
  \<^bold>\<open>Only members of the channel get the URL of an attachment.\<close> An upload URL goes to a member of the channel, for
  a new row of its own, of an allowed type and within the size limits; a download URL goes to a member of the
  attachment's channel, for an attachment that is not deleted. Either is the backend's URL for the object of that row.
\<close>

theorem attachment_urls:
  assumes "AttachmentRoutes blobs req w = ((Done s b, gone), w')"
  shows "case b of
      Presigned i url m hs \<Rightarrow> \<exists>uuid c u body be row pu. req = TPresign uuid c u body \<and> blobs = Some be \<and>
        upload_granted blobs c u body w row \<and> i = at_ID row \<and>
        PresignPut be (at_StorageKey row) presignTTL = Inr pu \<and> url = pu_URL pu
    | DownloadURL url \<Rightarrow> \<exists>i u be row pu. req = TDownload i u \<and> blobs = Some be \<and> row \<in> set (cd_attachments (cdb w)) \<and>
        at_ID row = i \<and> attachment_active row \<and> channel_member (cdb w) (at_ChannelID row) u \<and>
        PresignGet be (at_StorageKey row) presignTTL = Inr pu \<and> url = pu_URL pu
    | Gone \<Rightarrow> (\<exists>i u. req = TDelete i u) \<or> req = TRetention"
proof (cases req)
  case (TPresign uuid c u body)
  with assms have "presign blobs uuid c u body w = ((Done s b, gone), w')" by simp
  then show ?thesis
  proof (rule presign_steps)
    fix be row w3 k
    assume h: "blobs = Some be" "upload_granted blobs c u body w row"
      "finish_presign be c u (gp_MaxGuildAttachmentStorageBytes (cd_policy (cdb w))) row w3 = ((Done s b, gone), w')"
    then obtain url where "PresignPut be (at_StorageKey row) presignTTL = Inr url"
      "b = Presigned (at_ID row) (pu_URL url) (methodOrDefault (pu_Method url) ''PUT'') (pu_Headers url)"
      using finish_steps [OF h(3)] by blast
    then show ?thesis using h(1,2) TPresign by simp blast
  qed
next
  case (TDownload i u)
  with assms have "download blobs i u w = ((Done s b, gone), w')" by simp
  then show ?thesis by (rule download_steps) (use TDownload in auto)
next
  case (TDelete i u)
  with assms show ?thesis by (auto simp: delete_attachment_def split: if_splits prod.splits sum.splits)
next
  case TRetention
  with assms show ?thesis by (auto split: prod.splits)
qed

theorem attachment_urls_witness:
  "\<exists>b w'. AttachmentRoutes (Some toy_blobs) (TDownload ''a'' ''u'') toy_shelf = ((Done 200 (DownloadURL ''get/old''), []), w') \<and>
     channel_member (cdb toy_shelf) ''k'' ''u''"
proof -
  obtain w' where d: "AttachmentRoutes (Some toy_blobs) (TDownload ''a'' ''u'') toy_shelf = ((Done 200 (DownloadURL ''get/old''), []), w')"
    by (simp add: download_def GetAttachmentByID_def toy_attach_eval)
  have "channel_member (cdb toy_shelf) ''k'' ''u''"
    using attachment_urls [OF d] by (auto simp: toy_shelf_def toy_old_attachment_def)
  then show ?thesis using d by blast
qed

section \<open>Objects that are deleted\<close>

text \<open>What a request withdraws stays withdrawn; the keys of the objects it deletes are those of rows that it withdrew.\<close>

definition withdrawn :: "Attachment list \<Rightarrow> Attachment list \<Rightarrow> string list \<Rightarrow> bool" where
  "withdrawn as as' gone \<longleftrightarrow> distinct (map at_ID as') \<and> (\<forall>a \<in> set as. \<not> attachment_active a \<longrightarrow> a \<in> set as') \<and>
     (\<forall>k \<in> set gone. \<exists>a \<in> set as'. at_StorageKey a = k \<and> \<not> attachment_active a \<and> a \<notin> set as)"

lemma withdrawn_refl: "distinct (map at_ID as) \<Longrightarrow> withdrawn as as []"
  by (simp add: withdrawn_def)

lemma withdrawn_trans:
  assumes "withdrawn as as' gone" "withdrawn as' as'' gone'"
  shows "withdrawn as as'' (gone @ gone')"
proof -
  have "\<exists>a \<in> set as''. at_StorageKey a = k \<and> \<not> attachment_active a \<and> a \<notin> set as" if "k \<in> set gone" for k
    using assms that unfolding withdrawn_def by metis
  moreover have "\<exists>a \<in> set as''. at_StorageKey a = k \<and> \<not> attachment_active a \<and> a \<notin> set as" if "k \<in> set gone'" for k
    using assms that unfolding withdrawn_def by metis
  ultimately show ?thesis using assms unfolding withdrawn_def by auto
qed

lemma same_ids_update [simp]: "map at_ID (sql_update hit (\<lambda>a. a\<lparr>at_DeletedAt := t\<rparr>) as) = map at_ID as"
  by (simp add: sql_update_def)

lemma withdrawn_update:
  assumes "\<And>a. hit a \<Longrightarrow> attachment_active a" "\<forall>k \<in> set gone. \<exists>a \<in> set as. hit a \<and> at_StorageKey a = k"
    "distinct (map at_ID as)"
  shows "withdrawn as (sql_update hit (\<lambda>a. a\<lparr>at_DeletedAt := Some t\<rparr>) as) gone"
  unfolding withdrawn_def
proof (intro conjI ballI)
  show "distinct (map at_ID (sql_update hit (\<lambda>a. a\<lparr>at_DeletedAt := Some t\<rparr>) as))" using assms(3) by simp
next
  fix k
  assume "k \<in> set gone"
  then obtain a where a: "a \<in> set as" "hit a" "at_StorageKey a = k" using assms(2) by blast
  let ?b = "a\<lparr>at_DeletedAt := Some t\<rparr>"
  have "?b \<notin> set as"
  proof
    assume "?b \<in> set as"
    then have "?b = a" using assms(3) a(1) by (auto simp: distinct_map inj_on_def)
    moreover have "\<not> attachment_active ?b" by (simp add: attachment_active_def)
    ultimately show False using assms(1) [OF a(2)] by argo
  qed
  then show "\<exists>a \<in> set (sql_update hit (\<lambda>a. a\<lparr>at_DeletedAt := Some t\<rparr>) as). at_StorageKey a = k \<and> \<not> attachment_active a \<and> a \<notin> set as"
    using a by (intro bexI [of _ ?b]) (auto simp: attachment_active_def sql_update_def)
qed (use assms(1) in \<open>auto simp: sql_update_def\<close>)

lemma withdraw_withdrawn:
  assumes "run_chat (SoftDeleteAttachmentsByID ids) w = (r, w1)" "distinct (map at_ID (cd_attachments (cdb w)))"
  shows "withdrawn (cd_attachments (cdb w)) (cd_attachments (cdb w1)) (case r of Inl _ \<Rightarrow> [] | Inr deleted \<Rightarrow> map at_StorageKey deleted)"
proof (cases r)
  case (Inl e)
  then have "cd_attachments (cdb w1) = cd_attachments (cdb w)" using assms(1)
    by (cases "ids = []") (auto simp: SoftDeleteAttachmentsByID_def run_chat_def chat_query_def Let_def split: if_splits)
  then show ?thesis using Inl withdrawn_refl assms(2) by simp
next
  case (Inr deleted)
  obtain t where t: "cd_attachments (cdb w1) = sql_update (\<lambda>a. at_ID a \<in> set ids \<and> attachment_active a)
      (\<lambda>a. a\<lparr>at_DeletedAt := Some t\<rparr>) (cd_attachments (cdb w))"
    "deleted = map (\<lambda>a. a\<lparr>at_DeletedAt := Some t\<rparr>) (filter (\<lambda>a. at_ID a \<in> set ids \<and> attachment_active a) (cd_attachments (cdb w)))"
    using withdraw_answer [OF assms(1) [unfolded Inr]] by auto
  show ?thesis unfolding t(1) Inr sum.case by (rule withdrawn_update) (auto simp: t(2) assms(2))
qed

lemma delete_withdrawn:
  assumes "run_chat (SoftDeleteAttachment i u) w = (r, w1)" "distinct (map at_ID (cd_attachments (cdb w)))"
  shows "withdrawn (cd_attachments (cdb w)) (cd_attachments (cdb w1)) (case r of Inl _ \<Rightarrow> [] | Inr a \<Rightarrow> [at_StorageKey a])"
proof (cases "cd_attachments (cdb w1) = cd_attachments (cdb w) \<and> \<not> (\<exists>a. r = Inr a)")
  case True
  then show ?thesis using withdrawn_refl assms(2) by (cases r) auto
next
  case False
  let ?hit = "\<lambda>a. at_ID a = i \<and> at_OwnerID a = u \<and> attachment_active a"
  obtain a t where a: "find ?hit (cd_attachments (cdb w)) = Some a" "r = Inr (a\<lparr>at_DeletedAt := Some t\<rparr>)"
    "cd_attachments (cdb w1) = sql_update ?hit (\<lambda>a. a\<lparr>at_DeletedAt := Some t\<rparr>) (cd_attachments (cdb w))"
    using assms(1) False by (auto simp: SoftDeleteAttachment_def run_chat_query Let_def split: if_splits option.splits)
  then show ?thesis unfolding a(2,3) sum.case
    by (intro withdrawn_update) (use find_Some_iff_mem [OF a(1)] assms(2) in auto)
qed

lemma same_rows:
  assumes "run_chat q w = (r, w1)" "\<And>d. cd_attachments (snd (q d)) = cd_attachments d"
  shows "cd_attachments (cdb w1) = cd_attachments (cdb w)"
proof -
  have "w1 = w\<lparr>cdb := snd (q (cdb w))\<rparr>" using assms(1) by (auto simp: run_chat_def split: prod.splits)
  then show ?thesis by (simp add: assms(2))
qed

lemma reads_rows:
  "cd_attachments (snd (chat_read p d)) = cd_attachments d"
  by (simp add: chat_read_def chat_query_def Let_def)

lemma enforce_withdrawn:
  assumes "enforceGuildAttachmentQuota c q w = (r, w1)" "distinct (map at_ID (cd_attachments (cdb w)))"
  shows "withdrawn (cd_attachments (cdb w)) (cd_attachments (cdb w1)) (case r of Inl _ \<Rightarrow> [] | Inr gone \<Rightarrow> gone)"
proof (cases "q \<le> 0")
  case True
  then show ?thesis using assms by (auto simp: enforceGuildAttachmentQuota_def withdrawn_refl)
next
  case False
  obtain x w0 where l: "run_chat (ListAttachmentsForGuildQuota c) w = (x, w0)" by fastforce
  have s: "cd_attachments (cdb w0) = cd_attachments (cdb w)" using l
    by (auto simp: ListAttachmentsForGuildQuota_def run_chat_bind run_chat_query chat_read_def Let_def
        split: if_splits option.splits)
  show ?thesis
  proof (cases "\<exists>g as. x = Inr (g, as) \<and> q < total_size as 0")
    case True
    then obtain g as where x: "x = Inr (g, as)" "q < total_size as 0" by blast
    let ?ids = "to_evict as (int64 (total_size as 0 - q))"
    obtain y w2 where y: "run_chat (SoftDeleteAttachmentsByID ?ids) w0 = (y, w2)" by fastforce
    have "r = map_sum id (map at_StorageKey) y" "w1 = w2"
      using assms(1) False x by (auto simp: enforceGuildAttachmentQuota_def l y Let_def split: sum.splits)
    then show ?thesis using withdraw_withdrawn [OF y] s assms(2) by (simp split: sum.splits)
  next
    case False
    then show ?thesis using assms s withdrawn_refl \<open>\<not> q \<le> 0\<close>
      by (auto simp: enforceGuildAttachmentQuota_def l Let_def split: sum.splits if_splits)
  qed
qed

lemma finish_withdrawn:
  assumes "finish_presign be c u quota row w = ((r, gone), w')" "distinct (map at_ID (cd_attachments (cdb w)))"
  shows "withdrawn (cd_attachments (cdb w)) (cd_attachments (cdb w')) gone"
proof -
  obtain x w1 where x: "(case quota of None \<Rightarrow> (Inr [], w) | Some q \<Rightarrow> enforceGuildAttachmentQuota c q w) = (x, w1)" by fastforce
  have w1: "withdrawn (cd_attachments (cdb w)) (cd_attachments (cdb w1)) (case x of Inl _ \<Rightarrow> [] | Inr k \<Rightarrow> k)"
    using x enforce_withdrawn [of c _ w x w1] assms(2) withdrawn_refl by (auto split: option.splits)
  obtain y w2 where y: "run_chat (SoftDeleteAttachment (at_ID row) u) w1 = (y, w2)" by fastforce
  have "withdrawn (cd_attachments (cdb w1)) (cd_attachments (cdb w2)) []"
    using delete_withdrawn [OF y] w1 unfolding withdrawn_def by auto
  from withdrawn_trans [OF w1 this] w1 show ?thesis
    using assms(1) by (auto simp: finish_presign_def x y split: sum.splits)
qed

lemma presign_withdrawn:
  assumes "presign blobs uuid c u body w = ((r, gone), w')" "distinct (map at_ID (cd_attachments (cdb w)))"
  shows "withdrawn (cd_attachments (cdb w)) (cd_attachments (cdb w')) gone"
proof -
  obtain sz ct where ct: "body = None \<or> body = Some (sz, ct)" by (cases body) auto
  obtain p w1 where p: "run_chat GetInstancePolicy w = (p, w1)" by fastforce
  obtain m w2 where m: "run_chat (IsChannelMember c u) w1 = (m, w2)" by fastforce
  obtain i w3 where i: "run_chat (InsertAttachment c u (buildAttachmentKey c uuid) ct sz) w2 = (i, w3)" by fastforce
  have eq: "cd_attachments (cdb w1) = cd_attachments (cdb w)" "cd_attachments (cdb w2) = cd_attachments (cdb w)"
    using same_rows [OF p] same_rows [OF m] by (simp_all add: GetInstancePolicy_def IsChannelMember_def reads_rows)
  have i3: "case i of Inl e \<Rightarrow> cd_attachments (cdb w3) = cd_attachments (cdb w)
      | Inr row \<Rightarrow> withdrawn (cd_attachments (cdb w)) (cd_attachments (cdb w3)) []"
  proof (cases i)
    case (Inl e)
    then show ?thesis using i eq(2) by (auto simp: InsertAttachment_def run_chat_query Let_def split: if_splits)
  next
    case (Inr row)
    have "at_ID row \<notin> at_ID ` set (cd_attachments (cdb w))" "cd_attachments (cdb w3) = cd_attachments (cdb w) @ [row]"
      using insert_answer [OF i [unfolded Inr]] eq(2) by auto
    then show ?thesis using Inr assms(2) by (simp add: withdrawn_def)
  qed
  have "gone = [] \<and> (w' = w \<or> w' = w1 \<or> w' = w2 \<or> w' = w3 \<and> (\<exists>e. i = Inl e)) \<or>
      (\<exists>be quota row. blobs = Some be \<and> i = Inr row \<and> finish_presign be c u quota row w3 = ((r, gone), w'))"
    using ct assms(1) by (auto simp: presign_def p m i Let_def split: if_splits sum.splits option.splits)
  then consider "gone = []" "cd_attachments (cdb w') = cd_attachments (cdb w)"
    | be quota row where "blobs = Some be" "i = Inr row" "finish_presign be c u quota row w3 = ((r, gone), w')"
    using eq i3 by auto
  then show ?thesis
  proof cases
    case 1
    then show ?thesis using withdrawn_refl [OF assms(2)] by simp
  next
    case 2
    have w3: "withdrawn (cd_attachments (cdb w)) (cd_attachments (cdb w3)) []" using i3 2(2) by simp
    then have "withdrawn (cd_attachments (cdb w3)) (cd_attachments (cdb w')) gone"
      using finish_withdrawn [OF 2(3)] by (simp add: withdrawn_def)
    from withdrawn_trans [OF w3 this] show ?thesis by simp
  qed
qed

lemma retention_withdrawn:
  assumes "runMessageRetentionCleanup blobs w = ((ok, gone), w')" "distinct (map at_ID (cd_attachments (cdb w)))"
  shows "withdrawn (cd_attachments (cdb w)) (cd_attachments (cdb w')) gone"
proof -
  let ?days = "gp_MessageRetentionDays"
  obtain p w1 where p: "run_chat GetInstancePolicy w = (p, w1)" by fastforce
  have w1: "cd_attachments (cdb w1) = cd_attachments (cdb w)"
    using same_rows [OF p] by (simp add: GetInstancePolicy_def reads_rows)
  show ?thesis
  proof (cases "\<exists>cfg. p = Inr cfg \<and> 0 < ?days cfg")
    case False
    then have "gone = [] \<and> w' = w1" using assms(1) by (auto simp: runMessageRetentionCleanup_def p split: sum.splits if_splits)
    then show ?thesis using w1 withdrawn_refl [OF assms(2)] by simp
  next
    case True
    then obtain cfg where cfg: "p = Inr cfg" "0 < ?days cfg" by blast
    obtain l w2 where l: "run_chat (ListExpiredAttachments (?days cfg) 500) w1 = (l, w2)" by fastforce
    have w2: "cd_attachments (cdb w2) = cd_attachments (cdb w)"
      using same_rows [OF l] w1 cfg(2) by (simp add: ListExpiredAttachments_def reads_rows)
    show ?thesis
    proof (cases l)
      case (Inl e)
      then have "gone = [] \<and> w' = w2" using assms(1) cfg by (auto simp: runMessageRetentionCleanup_def p l)
      then show ?thesis using w2 withdrawn_refl [OF assms(2)] by simp
    next
      case (Inr expired)
      obtain x w3 where x: "run_chat (SoftDeleteAttachmentsByID (map at_ID expired)) w2 = (x, w3)" by fastforce
      have w3: "withdrawn (cd_attachments (cdb w)) (cd_attachments (cdb w3)) (case x of Inl _ \<Rightarrow> [] | Inr k \<Rightarrow> map at_StorageKey k)"
        using withdraw_withdrawn [OF x] w2 assms(2) by simp
      obtain y w4 where y: "run_chat (PurgeExpiredMessages (?days cfg)) w3 = (y, w4)" by fastforce
      have "cd_attachments (cdb w4) = cd_attachments (cdb w3)"
        using same_rows [OF y] by (simp add: PurgeExpiredMessages_def chat_query_def drop_messages_def Let_def split: if_splits)
      then show ?thesis using assms(1) w3 cfg Inr
        by (auto simp: runMessageRetentionCleanup_def p l x y Let_def withdrawn_def split: sum.splits option.splits)
    qed
  qed
qed

text \<open>
  \<^bold>\<open>An object is deleted only with its attachment, and once.\<close> Every object that a request deletes belongs to an
  attachment that this request withdrew; and what is withdrawn stays so. An object whose deletion fails is
  therefore not deleted by any later request for that attachment.
\<close>

theorem objects_deleted_once:
  assumes "AttachmentRoutes blobs req w = ((r, gone), w')" and "distinct (map at_ID (cd_attachments (cdb w)))" and "key \<in> set gone"
  shows "\<exists>a \<in> set (cd_attachments (cdb w')). at_StorageKey a = key \<and> \<not> attachment_active a \<and>
    (\<forall>b \<in> set (cd_attachments (cdb w)). at_ID b = at_ID a \<longrightarrow> attachment_active b)"
proof -
  have "withdrawn (cd_attachments (cdb w)) (cd_attachments (cdb w')) gone"
  proof (cases req)
    case (TPresign uuid c u body)
    then show ?thesis using presign_withdrawn [OF _ assms(2)] assms(1) by simp
  next
    case (TDownload i u)
    then have "gone = []" using assms(1) by (auto simp: download_def split: if_splits option.splits prod.splits sum.splits)
    then show ?thesis using assms(3) by simp
  next
    case (TDelete i u)
    obtain x w1 where x: "run_chat (SoftDeleteAttachment i u) w = (x, w1)" by fastforce
    show ?thesis using TDelete assms(1,3) delete_withdrawn [OF x assms(2)]
      by (auto simp: delete_attachment_def x split: if_splits sum.splits option.splits)
  next
    case TRetention
    then show ?thesis using assms(1) retention_withdrawn [OF _ assms(2)] by (auto split: prod.splits)
  qed
  then show ?thesis using assms(3) unfolding withdrawn_def
    by (metis (no_types, lifting) distinct_map inj_on_eq_iff)
qed

theorem objects_deleted_once_witness:
  "\<exists>w'. AttachmentRoutes (Some toy_blobs) (TDelete ''a'' ''u'') toy_shelf = ((Done 204 Gone, [''old'']), w') \<and>
     (\<exists>a \<in> set (cd_attachments (cdb w')). at_StorageKey a = ''old'' \<and> \<not> attachment_active a)"
proof -
  obtain w' where d: "AttachmentRoutes (Some toy_blobs) (TDelete ''a'' ''u'') toy_shelf = ((Done 204 Gone, [''old'']), w')"
    by (simp add: delete_attachment_def SoftDeleteAttachment_def toy_attach_eval)
  have "\<exists>a \<in> set (cd_attachments (cdb w')). at_StorageKey a = ''old'' \<and> \<not> attachment_active a"
    using objects_deleted_once [OF d, of "''old''"] by (auto simp: toy_shelf_def)
  then show ?thesis using d by blast
qed

end
