(* ===== verification/Invites.thy ===== *)
theory Invites
  imports Mls Moderation "HOL-Library.List_Lexorder"
begin

text \<open>
  Invites, guild discovery and direct messages: \<open>internal/api/invites.go\<close>, \<open>discover.go\<close>, \<open>internal/db/invites.go\<close>,
  \<open>discover.go\<close>, \<open>federated_identities.go\<close>. They join the accounts (users, invite codes) with the guilds, so they work
  on both parts of \<open>app\<close>, and on the pairs of direct messages. \<open>ILIKE\<close> and the collation of names are the
  database's (\<open>lobby_env\<close>).
\<close>

section \<open>State\<close>

record FederatedIdentity =
  fi_ID :: string
  fi_PublicKey :: bytes
  fi_HomeInstance :: string
  fi_Username :: string
  fi_DisplayName :: string
  fi_CachedAt :: time

record dm_pair =
  dp_ServerID :: string
  dp_UserA :: string
  dp_UserB :: string

record lobby =
  core :: app
  dm_pairs :: "dm_pair list"
  identities :: "FederatedIdentity list"
  guild_discovery :: "string option"

record lobby_env =
  ilike :: "string \<Rightarrow> string \<Rightarrow> bool"
  collation :: "string \<Rightarrow> nat list"
  guild_env :: ws_env

type_synonym 'a lobby_op = "lobby \<Rightarrow> (db_error + 'a) \<times> lobby"

abbreviation guilds :: "lobby \<Rightarrow> chat_db" where
  "guilds s \<equiv> cdb (site (core s))"

abbreviation people :: "lobby \<Rightarrow> auth_db" where
  "people s \<equiv> adb (accounts (core s))"

definition on_guilds :: "'a chat_op \<Rightarrow> 'a lobby_op" where
  "on_guilds q s = (case run_site q (core s) of (r, a) \<Rightarrow> (r, s\<lparr>core := a\<rparr>))"

definition on_people :: "'a query \<Rightarrow> 'a lobby_op" where
  "on_people q s = (case run_db q (accounts (core s)) of (r, a) \<Rightarrow> (r, s\<lparr>core := (core s)\<lparr>accounts := a\<rparr>\<rparr>))"

text \<open>A statement that reads or writes both sides: it fails with the guild tables' schedule.\<close>

definition lobby_query :: "(time \<Rightarrow> string \<Rightarrow> 'a lobby_op) \<Rightarrow> 'a lobby_op" where
  "lobby_query q s = (case on_guilds (chat_query (\<lambda>now uuid d. (Inr (now, uuid), d))) s of
     (Inl e, s') \<Rightarrow> (Inl e, s') | (Inr (now, uuid), s') \<Rightarrow> q now uuid s')"

definition bind_lobby :: "'a lobby_op \<Rightarrow> ('a \<Rightarrow> 'b lobby_op) \<Rightarrow> 'b lobby_op" where
  "bind_lobby q k s = (case q s of (Inl e, s') \<Rightarrow> (Inl e, s') | (Inr x, s') \<Rightarrow> k x s')"

text \<open>A transaction: an error undoes everything but the number of statements.\<close>

definition lobby_tx :: "'a lobby_op \<Rightarrow> 'a lobby_op" where
  "lobby_tx q s = (case q s of
     (Inl e, s') \<Rightarrow> (Inl e, snd (on_guilds (\<lambda>d. (Inr (), d\<lparr>cd_tick := cd_tick (guilds s')\<rparr>)) s))
   | (Inr x, s') \<Rightarrow> (Inr x, s'))"

definition lobby_hub :: "(Hub \<Rightarrow> Hub option) \<Rightarrow> lobby \<Rightarrow> lobby option" where
  "lobby_hub f s = map_option (\<lambda>w. s\<lparr>core := (core s)\<lparr>site := w\<rparr>\<rparr>) (run_hub f (site (core s)))"

section \<open>Invite codes\<close>

definition CreateInvite :: "string \<Rightarrow> string \<Rightarrow> string \<Rightarrow> int \<Rightarrow> time \<Rightarrow> InviteCode lobby_op" where
  "CreateInvite serverID code createdBy maxUses expiresAt = lobby_query (\<lambda>_ _ s.
     let i = \<lparr>iv_Code = code, iv_ServerID = Some serverID, iv_CreatedBy = createdBy, iv_ExpiresAt = expiresAt,
              iv_MaxUses = maxUses, iv_Uses = 0\<rparr>
     in if \<not> int4 maxUses then (Inl DbCheck, s)
        else if sql_exists (\<lambda>r. iv_Code r = code) (invite_codes (people s)) then (Inl (DbUnique ''invite_codes_pkey''), s)
        else if \<not> sql_exists (\<lambda>g. sv_ID g = serverID) (cd_servers (guilds s)) \<or>
                \<not> sql_exists (\<lambda>u. u_ID u = createdBy) (users (people s)) then (Inl DbForeignKey, s)
        else (Inr i, s\<lparr>core := (core s)\<lparr>accounts := (accounts (core s))\<lparr>adb := (people s)\<lparr>invite_codes :=
               invite_codes (people s) @ [i]\<rparr>\<rparr>\<rparr>\<rparr>))"

section \<open>Federated identities\<close>

definition GetOrCreateFederatedIdentity :: "bytes \<Rightarrow> string \<Rightarrow> string \<Rightarrow> string \<Rightarrow> FederatedIdentity lobby_op" where
  "GetOrCreateFederatedIdentity publicKey homeInstance username displayName = lobby_query (\<lambda>now uuid s.
     case find (\<lambda>f. fi_PublicKey f = publicKey) (identities s) of
       Some f \<Rightarrow>
         (let f' = f\<lparr>fi_Username := username, fi_DisplayName := displayName, fi_CachedAt := now\<rparr>
          in (Inr f', s\<lparr>identities := sql_update (\<lambda>r. fi_PublicKey r = publicKey)
               (\<lambda>r. r\<lparr>fi_Username := username, fi_DisplayName := displayName, fi_CachedAt := now\<rparr>) (identities s)\<rparr>))
     | None \<Rightarrow>
         (let f = \<lparr>fi_ID = uuid, fi_PublicKey = publicKey, fi_HomeInstance = homeInstance, fi_Username = username,
                   fi_DisplayName = displayName, fi_CachedAt = now\<rparr>
          in if sql_exists (\<lambda>r. fi_ID r = uuid) (identities s) then (Inl (DbUnique ''federated_identities_pkey''), s)
             else (Inr f, s\<lparr>identities := identities s @ [f]\<rparr>)))"

definition GetFederatedIdentityByPublicKey :: "bytes \<Rightarrow> FederatedIdentity option lobby_op" where
  "GetFederatedIdentityByPublicKey publicKey =
     lobby_query (\<lambda>_ _ s. (Inr (find (\<lambda>f. fi_PublicKey f = publicKey) (identities s)), s))"

definition GetFederatedIdentityByID :: "string \<Rightarrow> FederatedIdentity option lobby_op" where
  "GetFederatedIdentityByID i = lobby_query (\<lambda>_ _ s. (Inr (find (\<lambda>f. fi_ID f = i) (identities s)), s))"

definition UpdateFederatedIdentityProfile :: "string \<Rightarrow> string \<Rightarrow> string \<Rightarrow> unit lobby_op" where
  "UpdateFederatedIdentityProfile i username displayName = lobby_query (\<lambda>now _ s.
     (Inr (), s\<lparr>identities := sql_update (\<lambda>f. fi_ID f = i)
        (\<lambda>f. f\<lparr>fi_Username := username, fi_DisplayName := displayName, fi_CachedAt := now\<rparr>) (identities s)\<rparr>))"

section \<open>Direct messages\<close>

text \<open>Go compares strings byte by byte.\<close>

fun str_less :: "string \<Rightarrow> string \<Rightarrow> bool" where
  "str_less _ [] = False"
| "str_less [] (_ # _) = True"
| "str_less (x # xs) (y # ys) =
     ((of_char x :: nat) < of_char y \<or> x = y \<and> str_less xs ys)"

definition canonicalUserOrder :: "string \<Rightarrow> string \<Rightarrow> string \<times> string" where
  "canonicalUserOrder userAID userBID = (if str_less userAID userBID then (userAID, userBID) else (userBID, userAID))"

definition FindDMGuild :: "string \<Rightarrow> string \<Rightarrow> Server lobby_op" where
  "FindDMGuild userAID userBID = lobby_query (\<lambda>_ _ s.
     let (lo, hi) = canonicalUserOrder userAID userBID
     in case find (\<lambda>g. list_ex (\<lambda>p. dp_ServerID p = sv_ID g \<and> dp_UserA p = lo \<and> dp_UserB p = hi) (dm_pairs s))
               (cd_servers (guilds s)) of
          None \<Rightarrow> (Inl DbNoRows, s)
        | Some g \<Rightarrow> (Inr g, s))"

definition new_dm :: "string \<Rightarrow> time \<Rightarrow> Server" where
  "new_dm serverID now = (new_server serverID now None)\<lparr>sv_IsDm := True, sv_AccessPolicy := ''closed''\<rparr>"

definition insert_dm_server :: "Server chat_op" where
  "insert_dm_server = chat_query (\<lambda>now uuid d.
     let g = new_dm uuid now
     in if sql_exists (\<lambda>r. sv_ID r = uuid) (cd_servers d) then (Inl (DbUnique ''servers_pkey''), d)
        else (Inr g, d\<lparr>cd_servers := cd_servers d @ [g]\<rparr>))"

definition insert_dm_pair :: "string \<Rightarrow> string \<Rightarrow> string \<Rightarrow> unit lobby_op" where
  "insert_dm_pair serverID lo hi = lobby_query (\<lambda>_ _ s.
     if \<not> str_less lo hi then (Inl DbCheck, s)
     else if sql_exists (\<lambda>p. dp_ServerID p = serverID) (dm_pairs s) then (Inl (DbUnique ''dm_pairs_pkey''), s)
     else if sql_exists (\<lambda>p. dp_UserA p = lo \<and> dp_UserB p = hi) (dm_pairs s)
     then (Inl (DbUnique ''dm_pairs_user_a_id_user_b_id_key''), s)
     else (Inr (), s\<lparr>dm_pairs := dm_pairs s @ [\<lparr>dp_ServerID = serverID, dp_UserA = lo, dp_UserB = hi\<rparr>]\<rparr>))"

definition set_dm_counts :: "string \<Rightarrow> unit chat_op" where
  "set_dm_counts serverID = chat_query (\<lambda>_ _ d.
     (Inr (), d\<lparr>cd_servers := sql_update (\<lambda>g. sv_ID g = serverID)
        (\<lambda>g. g\<lparr>sv_MemberCount := 2, sv_TextChannelCount := 1\<rparr>) (cd_servers d)\<rparr>))"

definition CreateDMGuild :: "string \<Rightarrow> string \<Rightarrow> (Server \<times> Channel) lobby_op" where
  "CreateDMGuild userAID userBID = lobby_tx (let (lo, hi) = canonicalUserOrder userAID userBID in
     bind_lobby (on_guilds insert_dm_server) (\<lambda>server.
     bind_lobby (insert_dm_pair (sv_ID server) lo hi) (\<lambda>_.
     bind_lobby (on_guilds (AddServerMember (sv_ID server) userAID PermissionLevelOwner)) (\<lambda>_.
     bind_lobby (on_guilds (AddServerMember (sv_ID server) userBID PermissionLevelOwner)) (\<lambda>_.
     bind_lobby (on_guilds (CreateChannel (sv_ID server) None ''text'' None 0)) (\<lambda>ch.
     bind_lobby (on_guilds (set_dm_counts (sv_ID server))) (\<lambda>_ s.
       (Inr (server\<lparr>sv_MemberCount := 2, sv_TextChannelCount := 1\<rparr>, ch), s))))))))"

section \<open>Discovery\<close>

record DiscoverGuild =
  dg_ID :: string
  dg_PublicName :: string
  dg_PublicDescription :: string
  dg_Category :: string
  dg_AccessPolicy :: string
  dg_MemberCount :: int
  dg_CreatedAt :: time

record UserSearchPublicResult =
  us_ID :: string
  us_Username :: string
  us_DisplayName :: string

definition coalesce :: "string option \<Rightarrow> string" where
  "coalesce x = (case x of None \<Rightarrow> [] | Some v \<Rightarrow> v)"

definition discover_card :: "Server \<Rightarrow> DiscoverGuild" where
  "discover_card g = \<lparr>dg_ID = sv_ID g, dg_PublicName = coalesce (sv_PublicName g),
     dg_PublicDescription = coalesce (sv_PublicDescription g), dg_Category = coalesce (sv_Category g),
     dg_AccessPolicy = sv_AccessPolicy g, dg_MemberCount = sv_MemberCount g, dg_CreatedAt = sv_CreatedAt g\<rparr>"

text \<open>Without a configuration row the comparison is \<open>NULL\<close>, which admits nothing.\<close>

definition discoverable :: "lobby_env \<Rightarrow> lobby \<Rightarrow> string \<Rightarrow> string \<Rightarrow> Server \<Rightarrow> bool" where
  "discoverable L s category search g \<longleftrightarrow> sv_Discoverable g \<and> sv_AccessPolicy g \<noteq> ''closed'' \<and> \<not> sv_IsDm g \<and>
     instance_config (people s) \<noteq> None \<and>
     (case guild_discovery s of None \<Rightarrow> True | Some v \<Rightarrow> v \<noteq> ''disabled'') \<and>
     (category \<noteq> [] \<longrightarrow> sv_Category g = Some category) \<and>
     (search \<noteq> [] \<longrightarrow> (case sv_PublicName g of None \<Rightarrow> False | Some n \<Rightarrow> ilike L (''%'' @ search @ ''%'') n))"

definition discover_order :: "string \<Rightarrow> Server list \<Rightarrow> Server list" where
  "discover_order srt gs =
     (if srt = ''newest'' then sort_key (\<lambda>g. - sv_CreatedAt g) (sort_key (\<lambda>g. - sv_MemberCount g) gs)
      else sort_key (\<lambda>g. - sv_MemberCount g) (sort_key (\<lambda>g. - sv_CreatedAt g) gs))"

text \<open>The offset is a product of 64-bit integers; PostgreSQL refuses a negative one. The count comes with the rows.\<close>

definition page_offset :: "int \<Rightarrow> int \<Rightarrow> int" where
  "page_offset page pageSize = sint (word_of_int ((page - 1) * pageSize) :: 64 word)"

definition DiscoverGuilds :: "lobby_env \<Rightarrow> string \<Rightarrow> string \<Rightarrow> string \<Rightarrow> int \<Rightarrow> int \<Rightarrow> (DiscoverGuild list \<times> int) lobby_op" where
  "DiscoverGuilds L category search srt page pageSize = lobby_query (\<lambda>_ _ s.
     let offset = page_offset (if page < 1 then 1 else page) pageSize;
         hits = discover_order srt (filter (discoverable L s category search) (cd_servers (guilds s)));
         rows = take (nat pageSize) (drop (nat offset) hits)
     in if offset < 0 \<or> pageSize < 0 then (Inl DbCheck, s)
        else (Inr (map discover_card rows, if rows = [] then 0 else int (length hits)), s))"

definition SearchUsersPublic :: "lobby_env \<Rightarrow> string \<Rightarrow> nat \<Rightarrow> UserSearchPublicResult list lobby_op" where
  "SearchUsersPublic L q limit = on_people (db_query (\<lambda>d.
     (Inr (map (\<lambda>u. \<lparr>us_ID = u_ID u, us_Username = u_Username u, us_DisplayName = u_DisplayName u\<rparr>)
        (take limit (sort_key (\<lambda>u. collation L (u_Username u)) (filter (\<lambda>u. ilike L (''%'' @ q @ ''%'') (u_Username u) \<or>
           ilike L (''%'' @ q @ ''%'') (u_DisplayName u)) (users d))))), d)))"

section \<open>Answers\<close>

datatype lobby_body =
    InviteInfo string int time string
  | InviteBody InviteCode
  | Claimed string
  | GuildsBody "DiscoverGuild list" int int int
  | DMResponse Server UserSearchPublicResult string
  | UsersBody "UserSearchPublicResult list"
  | GuildAnswer guild_body

type_synonym lobby_result = "(lobby_body response \<times> lobby) option"

abbreviation decline :: "nat \<Rightarrow> string \<Rightarrow> lobby \<Rightarrow> lobby_result" where
  "decline status msg s \<equiv> Some (Fail status msg, s)"

section \<open>Invite handlers\<close>

definition defaultInviteMaxUses :: int where
  "defaultInviteMaxUses = 50"

definition defaultInviteExpiresIn :: int where
  "defaultInviteExpiresIn = 7 * 24 * 3600"

definition inviteCodeAlphabet :: string where
  "inviteCodeAlphabet = ''ABCDEFGHJKLMNPQRSTUVWXYZabcdefghjkmnpqrstuvwxyz23456789''"

text \<open>The draws of \<open>rand.Int\<close>, one for each of the eight letters, \<open>None\<close> where it fails.\<close>

fun generateInviteCode :: "nat option list \<Rightarrow> string option" where
  "generateInviteCode [] = Some []"
| "generateInviteCode (None # ds) = None"
| "generateInviteCode (Some n # ds) =
     map_option ((#) (inviteCodeAlphabet ! (n mod length inviteCodeAlphabet))) (generateInviteCode ds)"

definition getInviteInfo :: "time \<Rightarrow> string \<Rightarrow> lobby \<Rightarrow> lobby_result" where
  "getInviteInfo now code s =
     (if code = [] then decline 400 ''invite code required'' s
      else case on_people (GetInviteByCode code) s of
        (Inl _, s1) \<Rightarrow> decline 500 ''failed to lookup invite'' s1
      | (Inr None, s1) \<Rightarrow> decline 404 ''invite not found'' s1
      | (Inr (Some iv), s1) \<Rightarrow>
      (if now > iv_ExpiresAt iv \<or> iv_MaxUses iv > 0 \<and> iv_Uses iv \<ge> iv_MaxUses iv
       then decline 404 ''invite expired or no longer valid'' s1
       else case coalesce (iv_ServerID iv) of
         [] \<Rightarrow> decline 404 ''invite not associated with a guild'' s1
       | serverID \<Rightarrow>
      (case on_guilds (GetServerByID serverID) s1 of
         (Inr (Some g), s2) \<Rightarrow> Some (Done 200 (InviteInfo (iv_Code iv) (sv_MemberCount g) (iv_ExpiresAt iv) (sv_ID g)), s2)
       | (_, s2) \<Rightarrow> decline 500 ''failed to load guild info'' s2)))"

record create_invite =
  ci_MaxUses :: "int option"
  ci_ExpiresIn :: "int option"

text \<open>A body that does not decode counts as an empty one.\<close>

definition createInvite ::
  "time \<Rightarrow> nat option list \<Rightarrow> string \<Rightarrow> string \<Rightarrow> int \<Rightarrow> create_invite option \<Rightarrow> lobby \<Rightarrow> lobby_result" where
  "createInvite now draws serverID userID level body s =
     (if userID = [] then decline 401 ''not authenticated'' s
      else if level < PermissionLevelMod then decline 403 ''mod level or higher required to create invites'' s
      else let req = (case body of None \<Rightarrow> \<lparr>ci_MaxUses = None, ci_ExpiresIn = None\<rparr> | Some r \<Rightarrow> r);
               maxUses = (case ci_MaxUses req of None \<Rightarrow> defaultInviteMaxUses | Some n \<Rightarrow> n);
               expiresInSec = (case ci_ExpiresIn req of None \<Rightarrow> defaultInviteExpiresIn | Some n \<Rightarrow> n)
           in if maxUses < 1 then decline 400 ''maxUses must be at least 1'' s
              else if expiresInSec < 60 then decline 400 ''expiresIn must be at least 60 seconds'' s
              else case generateInviteCode draws of
                None \<Rightarrow> decline 500 ''failed to generate invite'' s
              | Some code \<Rightarrow>
              (case CreateInvite serverID code userID maxUses (now + seconds_duration expiresInSec) s of
                 (Inl _, s1) \<Rightarrow> decline 500 ''failed to create invite'' s1
               | (Inr iv, s1) \<Rightarrow> Some (Done 201 (InviteBody iv), s1)))"

text \<open>\<open>encoding/json\<close> writes the keys of a map in order.\<close>

definition joined_member :: "string \<Rightarrow> string \<Rightarrow> lobby \<Rightarrow> json \<times> lobby" where
  "joined_member userID fedID s =
     (let level = (''permissionLevel'', JInt PermissionLevelMember)
      in if fedID \<noteq> [] then
        (case GetFederatedIdentityByID fedID s of
           (Inr (Some f), s1) \<Rightarrow> (JObj [(''displayName'', JStr (fi_DisplayName f)), (''homeInstance'', JStr (fi_HomeInstance f)),
             (''id'', JStr fedID), level, (''username'', JStr (fi_Username f))], s1)
         | (_, s1) \<Rightarrow> (JObj [(''id'', JStr fedID), level], s1))
      else
        (case on_people (GetUserByID userID) s of
           (Inr u, s1) \<Rightarrow> (JObj [(''displayName'', JStr (u_DisplayName u)), (''id'', JStr userID), level,
             (''username'', JStr (u_Username u))], s1)
         | (Inl _, s1) \<Rightarrow> (JObj [(''id'', JStr userID), level], s1)))"

definition announce_join :: "string \<Rightarrow> string \<Rightarrow> string \<Rightarrow> lobby \<Rightarrow> lobby option" where
  "announce_join serverID userID fedID s = do {
     (let (member, s1) = joined_member userID fedID s;
          msg = RawFrame (JObj [(''member'', member), (''server_id'', JStr serverID), (''type'', JStr ''member_joined'')])
      in do {
        s2 \<leftarrow> lobby_hub (BroadcastToServer serverID msg) s1;
        s3 \<leftarrow> lobby_hub (BroadcastToUser userID msg) s2;
        w \<leftarrow> EmitSystemMessage serverID ''member_joined'' (if fedID \<noteq> [] then fedID else userID) None [] None
               (site (core s3));
        Some (s3\<lparr>core := (core s3)\<lparr>site := w\<rparr>\<rparr>) }) }"

text \<open>From the claim of a use on.\<close>

definition finish_join :: "time \<Rightarrow> string \<Rightarrow> string \<Rightarrow> string \<Rightarrow> string \<Rightarrow> lobby \<Rightarrow> lobby_result" where
  "finish_join dbNow code serverID userID fedID s =
     (case on_people (ClaimInviteUse dbNow code) s of
        (Inl _, s1) \<Rightarrow> decline 500 ''failed to claim invite'' s1
      | (Inr False, s1) \<Rightarrow> decline 400 ''invite code has reached maximum uses'' s1
      | (Inr True, s1) \<Rightarrow>
      (case on_guilds (if fedID \<noteq> [] then AddFederatedServerMember serverID fedID PermissionLevelMember
                       else AddServerMember serverID userID PermissionLevelMember) s1 of
         (Inl _, s2) \<Rightarrow> decline 500 ''failed to join guild'' s2
       | (Inr _, s2) \<Rightarrow>
           map_option (\<lambda>s3. (Done 200 (Claimed serverID), s3))
             (announce_join serverID userID fedID (snd (on_guilds (IncrementGuildMemberCount serverID 1) s2)))))"

text \<open>\<open>now\<close> is the clock of the server, \<open>dbNow\<close> the database's.\<close>

definition claimInvite :: "time \<Rightarrow> time \<Rightarrow> string \<Rightarrow> string \<Rightarrow> string option \<Rightarrow> lobby \<Rightarrow> lobby_result" where
  "claimInvite now dbNow userID fedID body s =
     (if userID = [] \<and> fedID = [] then decline 401 ''not authenticated'' s
      else case coalesce body of
        [] \<Rightarrow> decline 400 ''code is required'' s
      | code \<Rightarrow>
      (case on_people (GetInviteByCode code) s of
         (Inl _, s1) \<Rightarrow> decline 500 ''failed to validate invite'' s1
       | (Inr None, s1) \<Rightarrow> decline 400 ''invalid or expired invite code'' s1
       | (Inr (Some iv), s1) \<Rightarrow>
      (if now > iv_ExpiresAt iv then decline 400 ''invalid or expired invite code'' s1
       else case coalesce (iv_ServerID iv) of
         [] \<Rightarrow> decline 400 ''invite not associated with a guild'' s1
       | serverID \<Rightarrow>
      (case (if fedID \<noteq> [] then (Inr None, s1) else on_guilds (GetActiveBan serverID userID) s1) of
         (Inl _, s2) \<Rightarrow> decline 500 ''failed to check ban status'' s2
       | (Inr (Some _), s2) \<Rightarrow> decline 403 ''You are banned from this guild.'' s2
       | (Inr None, s2) \<Rightarrow>
      (case on_guilds (GetServerByID serverID) s2 of
         (Inl _, s3) \<Rightarrow> decline 400 ''server not found'' s3
       | (Inr None, s3) \<Rightarrow> decline 400 ''server not found'' s3
       | (Inr (Some srv), s3) \<Rightarrow>
      (case on_guilds GetInstancePolicy s3 of (r, s4) \<Rightarrow>
       (let cfg = (case r of Inl _ \<Rightarrow> None | Inr c \<Rightarrow> Some c)
        in if (case effectiveMemberCap (Some srv) cfg of None \<Rightarrow> False | Some cap \<Rightarrow> sv_MemberCount srv \<ge> cap)
           then decline 403 ''this server has reached its member limit'' s4
           else finish_join dbNow code serverID userID fedID s4)))))))"

section \<open>Discovery handlers\<close>

definition discoverPageSizeMax :: int where
  "discoverPageSizeMax = 50"

definition parse_page :: "int \<Rightarrow> string \<Rightarrow> int option" where
  "parse_page def str = (if str = [] then Some def else case Atoi str of None \<Rightarrow> None | Some n \<Rightarrow> if n < 1 then None else Some n)"

definition discoverGuilds ::
  "lobby_env \<Rightarrow> string \<Rightarrow> string \<Rightarrow> string \<Rightarrow> string \<Rightarrow> string \<Rightarrow> lobby \<Rightarrow> lobby_result" where
  "discoverGuilds L category search srt pageStr sizeStr s =
     (case parse_page 1 pageStr of
        None \<Rightarrow> decline 400 ''invalid page'' s
      | Some page \<Rightarrow>
      (case parse_page 20 sizeStr of
         None \<Rightarrow> decline 400 ''invalid pageSize'' s
       | Some n \<Rightarrow>
      (let pageSize = min n discoverPageSizeMax
       in case DiscoverGuilds L category search (if srt = [] then ''members'' else srt) page pageSize s of
            (Inl _, s1) \<Rightarrow> decline 500 ''failed to fetch guilds'' s1
          | (Inr (gs, n), s1) \<Rightarrow> Some (Done 200 (GuildsBody gs n page pageSize), s1))))"

definition createOrFindDM :: "string \<Rightarrow> string option \<Rightarrow> lobby \<Rightarrow> lobby_result" where
  "createOrFindDM callerID body s =
     (if callerID = [] then decline 401 ''not authenticated'' s
      else case body of
        None \<Rightarrow> decline 400 ''invalid body'' s
      | Some otherID \<Rightarrow>
      (if otherID = [] then decline 400 ''otherUserId is required'' s
       else if otherID = callerID then decline 400 ''cannot create a DM with yourself'' s
       else case on_people (GetUserByID otherID) s of
         (Inl _, s1) \<Rightarrow> decline 500 ''failed to look up user'' s1
       | (Inr other, s1) \<Rightarrow>
      (let public = \<lparr>us_ID = u_ID other, us_Username = u_Username other, us_DisplayName = u_DisplayName other\<rparr>
       in case FindDMGuild callerID otherID s1 of
         (Inr g, s2) \<Rightarrow>
           (case on_guilds (ListChannels (sv_ID g)) s2 of
              (Inl _, s3) \<Rightarrow> decline 500 ''failed to fetch DM channel'' s3
            | (Inr cs, s3) \<Rightarrow> Some (Done 200 (DMResponse g public (case cs of [] \<Rightarrow> [] | c # _ \<Rightarrow> ch_ID c)), s3))
       | (Inl e, s2) \<Rightarrow>
           (if e \<noteq> DbNoRows then decline 500 ''failed to look up DM'' s2
            else case CreateDMGuild callerID otherID s2 of
              (Inl _, s3) \<Rightarrow> decline 500 ''failed to create DM'' s3
            | (Inr (g, ch), s3) \<Rightarrow>
                map_option (\<lambda>s4. (Done 201 (DMResponse g public (ch_ID ch)), s4))
                  (lobby_hub (BroadcastToUser otherID (MemberJoined (sv_ID g) callerID)) s3)))))"

definition searchUsers :: "lobby_env \<Rightarrow> string \<Rightarrow> lobby \<Rightarrow> lobby_result" where
  "searchUsers L q s =
     (if length q < 2 then decline 400 ''query must be at least 2 characters'' s
      else case SearchUsersPublic L q 20 s of
        (Inl _, s1) \<Rightarrow> decline 500 ''failed to search users'' s1
      | (Inr us, s1) \<Rightarrow> Some (Done 200 (UsersBody us), s1))"

section \<open>The routes\<close>

text \<open>The foreign keys of \<open>invite_codes\<close> and \<open>dm_pairs\<close>: what belongs to a deleted guild goes with it.\<close>

definition lobby_cascade :: "lobby \<Rightarrow> lobby" where
  "lobby_cascade s =
     (let there = (\<lambda>g. sql_exists (\<lambda>r. sv_ID r = g) (cd_servers (guilds s)))
      in s\<lparr>dm_pairs := filter (\<lambda>p. there (dp_ServerID p)) (dm_pairs s),
           core := (core s)\<lparr>accounts := (accounts (core s))\<lparr>adb := (people s)\<lparr>invite_codes :=
             filter (\<lambda>i. case iv_ServerID i of None \<Rightarrow> True | Some g \<Rightarrow> there g) (invite_codes (people s))\<rparr>\<rparr>\<rparr>\<rparr>)"

datatype lobby_request =
    InviteInfoReq string
  | CreateInviteReq string "nat option list" "create_invite option"
  | ClaimReq string "string option"
  | DiscoverReq string string string string string
  | DMReq "string option"
  | SearchReq string
  | GuildReq guild_request

text \<open>
  Invites are created behind \<open>RequireGuildMember\<close>, like the other requests to a guild. A request comes with the two
  clocks and the user that \<open>RequireAuth\<close> found.
\<close>

fun LobbyRoutes :: "lobby_env \<Rightarrow> time \<Rightarrow> time \<Rightarrow> string \<Rightarrow> lobby_request \<Rightarrow> lobby \<Rightarrow> lobby_result" where
  "LobbyRoutes L now dbNow u (InviteInfoReq code) s = getInviteInfo now code s"
| "LobbyRoutes L now dbNow u (CreateInviteReq g draws b) s =
     (if g = [] then decline 400 ''missing server ID'' s
      else case on_guilds (GetServerMemberLevel g u) s of
        (Inl _, s1) \<Rightarrow> decline 403 ''not a guild member'' s1
      | (Inr level, s1) \<Rightarrow> createInvite now draws g u level b s1)"
| "LobbyRoutes L now dbNow u (ClaimReq fedID b) s = claimInvite now dbNow u fedID b s"
| "LobbyRoutes L now dbNow u (DiscoverReq category search srt page sz) s = discoverGuilds L category search srt page sz s"
| "LobbyRoutes L now dbNow u (DMReq b) s = createOrFindDM u b s"
| "LobbyRoutes L now dbNow u (SearchReq q) s = searchUsers L q s"
| "LobbyRoutes L now dbNow u (GuildReq r) s =
     (case ServerRoutes (guild_env L) now u r (site (core s)) of
        None \<Rightarrow> None
      | Some (r, w) \<Rightarrow> Some (case r of Done n b \<Rightarrow> Done n (GuildAnswer b) | Fail n m \<Rightarrow> Fail n m,
                              lobby_cascade (s\<lparr>core := (core s)\<lparr>site := w\<rparr>\<rparr>)))"

end
