(* ===== verification/Invite_Facts.thy ===== *)
theory Invite_Facts
  imports Invites Db_Frame
begin

text \<open>
  What the handlers of invites and direct messages do to the codes, the pairs and the guilds. \<open>yields P r\<close> says that
  the answer and the state of \<open>r\<close>, if there is one, have \<open>P\<close>; its rules take a handler apart along its text.
\<close>

named_theorems yields \<open>rules for the parts of a handler with an answer\<close>

definition yields :: "('a \<Rightarrow> 's \<Rightarrow> bool) \<Rightarrow> ('a \<times> 's) option \<Rightarrow> bool" where
  "yields P r \<longleftrightarrow> (\<forall>a s. r = Some (a, s) \<longrightarrow> P a s)"

lemma yields_Some [yields]: "P a s \<Longrightarrow> yields P (Some (a, s))"
  by (simp add: yields_def)

lemma yields_map [yields]: "(\<And>s. r = Some s \<Longrightarrow> P a s) \<Longrightarrow> yields P (map_option (\<lambda>s. (a, s)) r)"
  by (auto simp: yields_def)

lemma yields_if [yields]: "(b \<Longrightarrow> yields P x) \<Longrightarrow> (\<not> b \<Longrightarrow> yields P y) \<Longrightarrow> yields P (if b then x else y)"
  by simp

lemma yields_option [yields]:
  "(v = None \<Longrightarrow> yields P n) \<Longrightarrow> (\<And>x. v = Some x \<Longrightarrow> yields P (f x)) \<Longrightarrow> yields P (case v of None \<Rightarrow> n | Some x \<Rightarrow> f x)"
  by (cases v) auto

lemma yields_list [yields]:
  "(v = [] \<Longrightarrow> yields P n) \<Longrightarrow> (\<And>x xs. v = x # xs \<Longrightarrow> yields P (f x xs)) \<Longrightarrow> yields P (case v of [] \<Rightarrow> n | x # xs \<Rightarrow> f x xs)"
  by (cases v) auto

lemma yields_bool [yields]:
  "(b \<Longrightarrow> yields P x) \<Longrightarrow> (\<not> b \<Longrightarrow> yields P y) \<Longrightarrow> yields P (case b of True \<Rightarrow> x | False \<Rightarrow> y)"
  by (cases b) auto

lemma yields_sum [yields]:
  "(\<And>e. r = Inl e \<Longrightarrow> yields P (f e)) \<Longrightarrow> (\<And>x. r = Inr x \<Longrightarrow> yields P (g x)) \<Longrightarrow>
   yields P (case r of Inl e \<Rightarrow> f e | Inr x \<Rightarrow> g x)"
  by (cases r) auto

lemma yields_prod [yields]:
  "(\<And>r s. q = (r, s) \<Longrightarrow> yields P (h r s)) \<Longrightarrow> yields P (case q of (r, s) \<Rightarrow> h r s)"
  by (cases q) auto

lemma yields_Let [yields]: "yields P (f x) \<Longrightarrow> yields P (Let x f)"
  by simp

lemma yieldsD: "yields P r \<Longrightarrow> r = Some (a, s) \<Longrightarrow> P a s"
  by (simp add: yields_def)

section \<open>Which query touches what\<close>

lemma on_guilds_keeps:
  "on_guilds q s = (r, s') \<Longrightarrow> accounts (core s') = accounts (core s) \<and> dm_pairs s' = dm_pairs s \<and>
     identities s' = identities s \<and> guild_discovery s' = guild_discovery s"
  by (auto simp: on_guilds_def run_site_def split: prod.splits)

lemma on_guilds_run: "on_guilds q s = (r, s') \<Longrightarrow> run_chat q (site (core s)) = (r, site (core s'))"
  by (auto simp: on_guilds_def run_site_def split: prod.splits)

lemma on_people_keeps:
  "on_people q s = (r, s') \<Longrightarrow> site (core s') = site (core s) \<and> dm_pairs s' = dm_pairs s \<and>
     identities s' = identities s \<and> guild_discovery s' = guild_discovery s"
  by (auto simp: on_people_def run_db_def split: prod.splits)

lemma on_people_run: "on_people q s = (r, s') \<Longrightarrow> q (people s) = (r, people s')"
  by (auto simp: on_people_def run_db_def split: prod.splits)

lemma lobby_hub_keeps:
  "lobby_hub f s = Some s' \<Longrightarrow> accounts (core s') = accounts (core s) \<and> dm_pairs s' = dm_pairs s \<and> guilds s' = guilds s"
  by (auto simp: lobby_hub_def dest: run_hub_cdb)

lemma query_Inr: "db_query q d = (Inr x, d') \<Longrightarrow> \<exists>fs. q (d\<lparr>db_faults := fs\<rparr>) = (Inr x, d')"
  by (auto simp: db_query_def split: prod.splits bool.splits if_splits)

lemma query_cases:
  assumes "db_query q d = (r, d')"
  obtains fs where "r = Inl DbOutage" "d' = d\<lparr>db_faults := fs\<rparr>" | fs where "q (d\<lparr>db_faults := fs\<rparr>) = (r, d')"
  using assms by (auto simp: db_query_def split: prod.splits bool.splits if_splits)

text \<open>The reads of the accounts.\<close>

lemma people_read:
  assumes "on_people (db_query q) s = (r, s')" "\<And>d. snd (q d) = d"
  shows "\<exists>fs. people s' = (people s)\<lparr>db_faults := fs\<rparr>"
  using on_people_run [OF assms(1)] assms(2) by (elim query_cases) (auto, metis snd_conv)

lemma people_reads:
  "on_people (GetInviteByCode c) s = (r, s') \<Longrightarrow> \<exists>fs. people s' = (people s)\<lparr>db_faults := fs\<rparr>"
  "on_people (GetUserByID u) s = (r', s') \<Longrightarrow> \<exists>fs. people s' = (people s)\<lparr>db_faults := fs\<rparr>"
  "SearchUsersPublic L q n s = (r'', s') \<Longrightarrow> \<exists>fs. people s' = (people s)\<lparr>db_faults := fs\<rparr>"
  unfolding SearchUsersPublic_def GetInviteByCode_def GetUserByID_def
  by (rule people_read, assumption, simp split: option.split)+

lemma same_codes:
  "on_guilds q s = (r1, s') \<Longrightarrow> invite_codes (people s') = invite_codes (people s)"
  "on_people (GetInviteByCode c) s = (r2, s') \<Longrightarrow> invite_codes (people s') = invite_codes (people s)"
  "on_people (GetUserByID u) s = (r3, s') \<Longrightarrow> invite_codes (people s') = invite_codes (people s)"
  "lobby_hub f s = Some s' \<Longrightarrow> invite_codes (people s') = invite_codes (people s)"
  "SearchUsersPublic L q' n s = (r4, s') \<Longrightarrow> invite_codes (people s') = invite_codes (people s)"
  using on_guilds_keeps [of q s r1 s'] people_reads(1) [of c s r2 s'] people_reads(2) [of u s r3 s']
    lobby_hub_keeps [of f s s'] people_reads(3) [of L q' n s r4 s'] by auto

lemma lobby_query_reads:
  assumes "lobby_query q s = (r, s')"
  obtains "r = Inl DbOutage" "accounts (core s') = accounts (core s)" "dm_pairs s' = dm_pairs s"
      "\<exists>t. guilds s' = (guilds s)\<lparr>cd_tick := t\<rparr>"
    | s1 now uuid where "accounts (core s1) = accounts (core s)" "dm_pairs s1 = dm_pairs s" "identities s1 = identities s"
      "guild_discovery s1 = guild_discovery s" "\<exists>t. guilds s1 = (guilds s)\<lparr>cd_tick := t\<rparr>" "hub (site (core s1)) = hub (site (core s))"
      "q now uuid s1 = (r, s')"
proof -
  obtain x s1 where x: "on_guilds (chat_query (\<lambda>now uuid d. (Inr (now, uuid), d))) s = (x, s1)" by fastforce
  have k: "\<exists>t. guilds s1 = (guilds s)\<lparr>cd_tick := t\<rparr>" "hub (site (core s1)) = hub (site (core s))"
      "case x of Inl e \<Rightarrow> e = DbOutage | Inr _ \<Rightarrow> True"
    using on_guilds_run [OF x, symmetric] by (auto simp: run_chat_def chat_query_def Let_def split: if_splits)
  show thesis
  proof (cases x)
    case (Inl e)
    then show thesis using that(1) assms x k on_guilds_keeps [OF x] by (simp add: lobby_query_def)
  next
    case (Inr p)
    then show thesis using that(2) [of s1 "fst p" "snd p"] assms x k on_guilds_keeps [OF x]
      by (simp add: lobby_query_def split: prod.splits)
  qed
qed

lemma lobby_read:
  assumes "lobby_query q s = (r, s')" "\<And>now uuid s. snd (q now uuid s) = s"
  shows "accounts (core s') = accounts (core s) \<and> dm_pairs s' = dm_pairs s \<and> (\<exists>t. guilds s' = (guilds s)\<lparr>cd_tick := t\<rparr>)"
  using assms(1)
proof (rule lobby_query_reads)
  fix s1 now uuid
  assume "q now uuid s1 = (r, s')" and "accounts (core s1) = accounts (core s)" "dm_pairs s1 = dm_pairs s"
    "\<exists>t. guilds s1 = (guilds s)\<lparr>cd_tick := t\<rparr>"
  then show ?thesis using assms(2) [of now uuid s1] by simp
qed simp

lemma lobby_reads:
  "FindDMGuild a b s = (r1, s') \<Longrightarrow> accounts (core s') = accounts (core s) \<and> dm_pairs s' = dm_pairs s \<and> (\<exists>t. guilds s' = (guilds s)\<lparr>cd_tick := t\<rparr>)"
  "GetFederatedIdentityByID i s = (r2, s') \<Longrightarrow> accounts (core s') = accounts (core s) \<and> dm_pairs s' = dm_pairs s \<and> (\<exists>t. guilds s' = (guilds s)\<lparr>cd_tick := t\<rparr>)"
  "DiscoverGuilds L ca se so pa pg s = (r3, s') \<Longrightarrow> accounts (core s') = accounts (core s) \<and> dm_pairs s' = dm_pairs s \<and> (\<exists>t. guilds s' = (guilds s)\<lparr>cd_tick := t\<rparr>)"
  unfolding FindDMGuild_def GetFederatedIdentityByID_def DiscoverGuilds_def
  by (rule lobby_read, assumption, simp add: Let_def split: prod.split option.split)+

section \<open>The places of an invite\<close>

text \<open>How many uses the code still has.\<close>

definition invite_places :: "string \<Rightarrow> lobby \<Rightarrow> nat" where
  "invite_places c s = sum_list (map (\<lambda>i. nat (iv_MaxUses i - iv_Uses i)) (filter (\<lambda>i. iv_Code i = c) (invite_codes (people s))))"

lemma same_places: "invite_codes (people s') = invite_codes (people s) \<Longrightarrow> invite_places c s' = invite_places c s"
  by (simp add: invite_places_def)

lemma claimed_places:
  fixes ivs :: "InviteCode list"
  assumes "\<And>i. v i \<Longrightarrow> iv_Uses i < iv_MaxUses i"
  shows "sum_list (map (\<lambda>i. nat (iv_MaxUses i - iv_Uses i)) (filter (\<lambda>i. iv_Code i = c)
      (sql_update v (\<lambda>i. i\<lparr>iv_Uses := iv_Uses i + 1\<rparr>) ivs))) +
      (if \<exists>i \<in> set ivs. v i \<and> iv_Code i = c then 1 else 0)
    \<le> sum_list (map (\<lambda>i. nat (iv_MaxUses i - iv_Uses i)) (filter (\<lambda>i. iv_Code i = c) ivs))"
proof (induction ivs)
  case (Cons i ivs)
  have "nat (iv_MaxUses i - (iv_Uses i + 1)) + 1 = nat (iv_MaxUses i - iv_Uses i)" if "v i"
    using assms [OF that] by simp
  then show ?case using Cons by (auto simp: sql_update_def split: if_splits)
qed (simp add: sql_update_def)

lemma claim_places:
  assumes "on_people (ClaimInviteUse t c') s = (r, s')"
  shows "invite_places c s' + (if r = Inr True \<and> c' = c then 1 else 0) \<le> invite_places c s"
proof -
  let ?v = "\<lambda>i. iv_Code i = c' \<and> iv_Uses i < iv_MaxUses i \<and> iv_ExpiresAt i > t"
  have "r = Inl DbOutage \<and> invite_codes (people s') = invite_codes (people s) \<or>
      r = Inr (sql_exists ?v (invite_codes (people s))) \<and>
      invite_codes (people s') = sql_update ?v (\<lambda>i. i\<lparr>iv_Uses := iv_Uses i + 1\<rparr>) (invite_codes (people s))"
    using on_people_run [OF assms] unfolding ClaimInviteUse_def
    by (elim query_cases) (auto simp: Let_def dest!: sym [of _ "people s'"])
  then show ?thesis using claimed_places [of ?v c "invite_codes (people s)"]
    by (auto simp: invite_places_def sql split: if_splits)
qed

lemma create_places:
  assumes "CreateInvite g code u n e s = (r, s')" "code \<noteq> c"
  shows "invite_places c s' = invite_places c s"
  using assms(1) unfolding CreateInvite_def
  by (rule lobby_query_reads) (use assms(2) in \<open>auto simp: invite_places_def Let_def split: if_splits\<close>)

lemma cascade_places: "invite_places c (lobby_cascade s) \<le> invite_places c s"
proof -
  have "sum_list (map f (filter q (filter p xs))) \<le> sum_list (map f (filter q xs))" for f :: "InviteCode \<Rightarrow> nat" and p q xs
    by (induction xs) auto
  then show ?thesis by (simp add: invite_places_def lobby_cascade_def Let_def)
qed

end
