(* ===== verification/Invite_Props.thy ===== *)
theory Invite_Props
  imports Invite_Facts Guild_Bans Mls_Props
begin

text \<open>
  Properties of invites and direct messages: how often an invite lets somebody in, whom and into what, and that two
  users have one conversation.
\<close>

section \<open>Codes along the handlers\<close>

lemma joined_member_keeps:
  assumes "joined_member u f s = (m, s')"
  shows "invite_codes (people s') = invite_codes (people s) \<and> dm_pairs s' = dm_pairs s \<and> (\<exists>t. guilds s' = (guilds s)\<lparr>cd_tick := t\<rparr>)"
proof (cases "f = []")
  case False
  obtain r where "GetFederatedIdentityByID f s = (r, s')"
    using assms False by (auto simp: joined_member_def Let_def split: prod.splits sum.splits option.splits)
  from lobby_reads(2) [OF this] show ?thesis by simp
next
  case True
  obtain r where r: "on_people (GetUserByID u) s = (r, s')"
    using assms True by (auto simp: joined_member_def Let_def split: prod.splits sum.splits)
  from same_codes(3) [OF r] on_people_keeps [OF r] show ?thesis
    by (auto intro: exI [of _ "cd_tick (guilds s)"])
qed

lemma announce_join_keeps:
  assumes "announce_join g u f s = Some s'"
  shows "invite_codes (people s') = invite_codes (people s) \<and> dm_pairs s' = dm_pairs s \<and> same_members (guilds s) (guilds s')"
proof -
  obtain m s1 where m: "joined_member u f s = (m, s1)" by fastforce
  obtain msg s2 s3 w where h: "lobby_hub (BroadcastToServer g msg) s1 = Some s2" "lobby_hub (BroadcastToUser u msg) s2 = Some s3"
      "EmitSystemMessage g ''member_joined'' (if f \<noteq> [] then f else u) None [] None (site (core s3)) = Some w"
      "s' = s3\<lparr>core := (core s3)\<lparr>site := w\<rparr>\<rparr>"
    using assms by (auto simp: announce_join_def m Let_def bind_eq_Some_conv)
  have "holds (same_members (guilds s)) (site (core s3))"
    using joined_member_keeps [OF m] lobby_hub_keeps [OF h(1)] lobby_hub_keeps [OF h(2)]
    by (auto simp: holds_def same_members_def)
  from roster.emit_arrives [OF roster.closed_R this] h(3) have "same_members (guilds s) (cdb w)"
    by (auto simp: arrives_def holds_def)
  then show ?thesis using joined_member_keeps [OF m] lobby_hub_keeps [OF h(1)] lobby_hub_keeps [OF h(2)] h(4) by simp
qed

definition admits :: "string \<Rightarrow> string option \<Rightarrow> lobby_body response \<Rightarrow> bool" where
  "admits c body a \<longleftrightarrow> body = Some c \<and> (\<exists>n b. a = Done n b)"

lemma finish_join_places:
  "yields (\<lambda>a s'. invite_places c s' + (if admits c (Some c') a then 1 else 0) \<le> invite_places c s)
     (finish_join t c' g u f s)"
proof -
  obtain r s1 where r: "on_people (ClaimInviteUse t c') s = (r, s1)" by fastforce
  have p: "invite_places c s1 + (if r = Inr True \<and> c' = c then 1 else 0) \<le> invite_places c s" by (rule claim_places [OF r])
  have "invite_places c s3 = invite_places c s1"
    if "on_guilds q s1 = (x, s2)" "announce_join g u f (snd (on_guilds q' s2)) = Some s3" for q :: "unit chat_op" and q' :: "unit chat_op" and x s2 s3
  proof -
    obtain y s2' where y: "on_guilds q' s2 = (y, s2')" by fastforce
    have "announce_join g u f s2' = Some s3" using that(2) y by simp
    from announce_join_keeps [OF this] same_codes(1) [OF that(1)] same_codes(1) [OF y] show ?thesis
      by (intro same_places) simp
  qed
  note joined = this
  have failed: "invite_places c s2 = invite_places c s1" if "on_guilds q s1 = (x, s2)" for q :: "unit chat_op" and x s2
    using same_codes(1) [OF that] by (rule same_places)
  show ?thesis
    unfolding finish_join_def r
    by (intro yields; use p joined failed in \<open>fastforce simp: admits_def\<close>)
qed

text \<open>Steps back along the premises that the queries leave.\<close>

lemma places_back:
  "on_guilds q s1 = (r1, s2) \<Longrightarrow> invite_places c s1 = n \<Longrightarrow> invite_places c s2 = n"
  "on_people (GetInviteByCode k) s1 = (r2, s2) \<Longrightarrow> invite_places c s1 = n \<Longrightarrow> invite_places c s2 = n"
  "(if b then (Inr None, s1) else on_guilds q' s1) = (r3, s2) \<Longrightarrow> invite_places c s1 = n \<Longrightarrow> invite_places c s2 = n"
  by (drule same_codes(1), simp add: invite_places_def)
    (drule same_codes(2), simp add: invite_places_def,
     cases b, simp, simp, drule same_codes(1), simp add: invite_places_def)

lemma refused_places:
  "invite_places c s' = n \<Longrightarrow> invite_places c s' + (if admits c body (Fail k m) then 1 else 0) \<le> n"
  by (simp add: admits_def)

lemma claim_places_run:
  "yields (\<lambda>a s'. invite_places c s' + (if admits c body a then 1 else 0) \<le> invite_places c s) (claimInvite now t u f body s)"
proof -
  have finish: "yields (\<lambda>a s'. invite_places c s' + (if admits c body a then 1 else 0) \<le> invite_places c s)
      (finish_join t (k # ks) g u f s4)" if "coalesce body = k # ks" "invite_places c s4 = invite_places c s" for k ks g s4
  proof -
    have "body = Some (k # ks)" using that(1) by (auto simp: coalesce_def split: option.splits)
    then show ?thesis using finish_join_places [where c = c and c' = "k # ks" and s = s4] that(2) by simp
  qed
  show ?thesis
    unfolding claimInvite_def Let_def
    by (intro yields; (rule refused_places finish, assumption?)?; (rule refl | erule places_back)+)
qed

section \<open>Operations that leave the accounts alone\<close>

definition spares :: "'a lobby_op \<Rightarrow> bool" where
  "spares q \<longleftrightarrow> (\<forall>s. accounts (core (snd (q s))) = accounts (core s))"

lemma sparesD: "q s = (r, s') \<Longrightarrow> spares q \<Longrightarrow> accounts (core s') = accounts (core s)"
  unfolding spares_def by (metis snd_conv)

lemma spares_guilds [intro]: "spares (on_guilds q)"
  unfolding spares_def using on_guilds_keeps [of q] by (metis prod.collapse)

lemma spares_bind [intro]: "spares q \<Longrightarrow> (\<And>x. spares (k x)) \<Longrightarrow> spares (bind_lobby q k)"
  unfolding spares_def bind_lobby_def by (auto split: prod.split sum.split) (metis snd_conv)+

lemma spares_tx [intro]: "spares q \<Longrightarrow> spares (lobby_tx q)"
  unfolding spares_def lobby_tx_def using spares_guilds [unfolded spares_def]
  by (auto split: prod.split sum.split) (metis snd_conv)

lemma spares_pair [intro]: "spares (insert_dm_pair g lo hi)"
proof -
  have "accounts (core s') = accounts (core s)" if "insert_dm_pair g lo hi s = (r, s')" for s r s'
    using that unfolding insert_dm_pair_def by (rule lobby_query_reads) (auto split: if_splits)
  then show ?thesis unfolding spares_def by (metis prod.collapse)
qed

lemma spares_return [intro]: "spares (\<lambda>s. (x, s))"
  by (simp add: spares_def)

lemma spares_dm: "spares (CreateDMGuild a b)"
  unfolding CreateDMGuild_def Let_def
  by (cases "canonicalUserOrder a b"; simp) (rule spares_tx spares_bind spares_guilds spares_pair spares_return)+

lemma dm_codes:
  "yields (\<lambda>a s'. invite_codes (people s') = invite_codes (people s)) (createOrFindDM u b s)"
proof -
  have backw: "on_people (GetUserByID i) s1 = (r1, s2) \<Longrightarrow> invite_codes (people s1) = n \<Longrightarrow> invite_codes (people s2) = n"
    "FindDMGuild x y s1 = (r2, s2) \<Longrightarrow> invite_codes (people s1) = n \<Longrightarrow> invite_codes (people s2) = n"
    "on_guilds (ListChannels g) s1 = (r3, s2) \<Longrightarrow> invite_codes (people s1) = n \<Longrightarrow> invite_codes (people s2) = n"
    "CreateDMGuild x y s1 = (r4, s2) \<Longrightarrow> invite_codes (people s1) = n \<Longrightarrow> invite_codes (people s2) = n"
    "lobby_hub h s1 = Some s2 \<Longrightarrow> invite_codes (people s1) = n \<Longrightarrow> invite_codes (people s2) = n"
    for i s1 s2 n r1 r2 r3 r4 x y g h
    using same_codes(3) [of i s1 r1 s2] lobby_reads(1) [of x y s1 r2 s2] same_codes(1) [of "ListChannels g" s1 r3 s2]
      sparesD [OF _ spares_dm, of x y s1 r4 s2] same_codes(4) [of h s1 s2] by simp_all
  show ?thesis unfolding createOrFindDM_def Let_def
    by (intro yields; (rule refl | erule backw)+)
qed

section \<open>Series of requests\<close>

text \<open>A request comes with the clock of the server, the clock of the database, and the user.\<close>

fun serve_lobby :: "lobby_env \<Rightarrow> (time \<times> time \<times> string \<times> lobby_request) list \<Rightarrow> lobby \<Rightarrow>
    (lobby_body response list \<times> lobby) option" where
  "serve_lobby L [] s = Some ([], s)"
| "serve_lobby L ((now, t, u, req) # reqs) s =
     (case LobbyRoutes L now t u req s of
        None \<Rightarrow> None
      | Some (a, s1) \<Rightarrow> map_option (\<lambda>(as, s2). (a # as, s2)) (serve_lobby L reqs s1))"

fun let_in :: "string \<Rightarrow> lobby_request \<Rightarrow> lobby_body response \<Rightarrow> bool" where
  "let_in c (ClaimReq f body) a = admits c body a"
| "let_in c _ a = False"

fun mints :: "string \<Rightarrow> lobby_request \<Rightarrow> bool" where
  "mints c (CreateInviteReq g draws b) = (generateInviteCode draws = Some c)"
| "mints c _ = False"

lemma create_places_run:
  assumes "generateInviteCode draws \<noteq> Some c"
  shows "yields (\<lambda>a s'. invite_places c s' = invite_places c s) (createInvite now draws g u l b s)"
proof -
  have backw: "CreateInvite g code v n e s1 = (r, s2) \<Longrightarrow> code \<noteq> c \<Longrightarrow> invite_places c s2 = invite_places c s1" for code v n e s1 s2 r
    by (rule create_places)
  show ?thesis unfolding createInvite_def Let_def
    by (intro yields; (rule refl)?) (use assms backw in \<open>auto\<close>)
qed

lemma request_places:
  assumes "LobbyRoutes L now t u req s = Some (a, s')" "\<not> mints c req"
  shows "invite_places c s' + (if let_in c req a then 1 else 0) \<le> invite_places c s"
proof (cases req)
  case (InviteInfoReq code)
  have "yields (\<lambda>a s'. invite_places c s' = invite_places c s) (getInviteInfo now code s)"
    unfolding getInviteInfo_def by (intro yields; (rule refl | erule places_back)+)
  then show ?thesis using assms(1) InviteInfoReq by (auto simp: yields_def)
next
  case (CreateInviteReq g draws b)
  show ?thesis
  proof (cases "g = []")
    case False
    obtain r s1 where r: "on_guilds (GetServerMemberLevel g u) s = (r, s1)" by fastforce
    have "invite_places c s1 = invite_places c s" using r by (rule places_back) simp
    then show ?thesis using assms CreateInviteReq False r create_places_run [of draws c s1 now g u _ b]
      by (auto simp: yields_def split: sum.splits)
  qed (use assms CreateInviteReq in simp)
next
  case (ClaimReq f b)
  then show ?thesis using assms(1) yieldsD [OF claim_places_run [of c b s now t u f]] by simp
next
  case (DiscoverReq ca se so pa sz)
  have backw: "invite_places c s2 = invite_places c s" if "DiscoverGuilds L x y z p q s = (r, s2)" for x y z p q r s2
    using lobby_reads(3) [OF that] by (simp add: invite_places_def)
  have "yields (\<lambda>a s'. invite_places c s' = invite_places c s) (discoverGuilds L ca se so pa sz s)"
    unfolding discoverGuilds_def Let_def by (intro yields; (rule refl | erule backw))
  then show ?thesis using assms(1) DiscoverReq by (auto simp: yields_def)
next
  case (DMReq b)
  then show ?thesis using assms(1) yieldsD [OF dm_codes [of s u b]] by (simp add: invite_places_def)
next
  case (SearchReq q)
  have backw: "invite_places c s2 = invite_places c s" if "SearchUsersPublic L q' n s = (r, s2)" for q' n r s2
    using same_codes(5) [OF that] by (rule same_places)
  have "yields (\<lambda>a s'. invite_places c s' = invite_places c s) (searchUsers L q s)"
    unfolding searchUsers_def by (intro yields; (rule refl | erule backw))
  then show ?thesis using assms(1) SearchReq by (auto simp: yields_def)
next
  case (GuildReq r)
  obtain w where "s' = lobby_cascade (s\<lparr>core := (core s)\<lparr>site := w\<rparr>\<rparr>)"
    using assms(1) GuildReq by (auto split: option.splits)
  then show ?thesis using cascade_places [of c "s\<lparr>core := (core s)\<lparr>site := w\<rparr>\<rparr>"] GuildReq by (simp add: invite_places_def)
qed

section \<open>Whom a claim lets in\<close>

lemma guild_answer:
  assumes "on_guilds (chat_read p) s = (r, s')"
  shows "\<exists>k. guilds s' = (guilds s)\<lparr>cd_tick := k\<rparr> \<and> (r = Inl DbOutage \<and> cd_fault (guilds s) (cd_tick (guilds s)) \<or>
    r = Inr (p (cd_clock (guilds s) (cd_tick (guilds s))) ((guilds s)\<lparr>cd_tick := k\<rparr>)))"
  using on_guilds_run [OF assms, symmetric]
  by (auto simp: run_chat_def chat_read_def chat_query_def Let_def split: if_splits)

lemma no_active_ban:
  assumes "on_guilds (GetActiveBan g u) s = (Inr None, s')"
  shows "(\<exists>k. \<forall>b \<in> set (cd_bans (guilds s)). \<not> (guild_ban_active (cd_clock (guilds s) k) g b \<and> bn_UserID b = u)) \<and>
    (\<exists>k. guilds s' = (guilds s)\<lparr>cd_tick := k\<rparr>)"
proof -
  define P where "P t b \<longleftrightarrow> guild_ban_active t g b \<and> bn_UserID b = u" for t b
  have "GetActiveBan g u = chat_read (\<lambda>now d. case rev (sort_key bn_CreatedAt (filter (P now) (cd_bans d))) of [] \<Rightarrow> None | b # _ \<Rightarrow> Some b)"
    by (simp add: GetActiveBan_def P_def [abs_def])
  with guild_answer [of _ s "Inr None" s'] assms obtain k where
    k: "guilds s' = (guilds s)\<lparr>cd_tick := k\<rparr>"
      "(case rev (sort_key bn_CreatedAt (filter (P (cd_clock (guilds s) (cd_tick (guilds s)))) (cd_bans (guilds s)))) of
         [] \<Rightarrow> None | b # _ \<Rightarrow> Some b) = None" by fastforce
  then have "sort_key bn_CreatedAt (filter (P (cd_clock (guilds s) (cd_tick (guilds s)))) (cd_bans (guilds s))) = []"
    by (auto split: list.splits)
  then have "filter (P (cd_clock (guilds s) (cd_tick (guilds s)))) (cd_bans (guilds s)) = []"
    by (metis length_0_conv length_sort)
  then show ?thesis using k(1) by (auto simp: P_def filter_empty_conv)
qed

lemma code_answer:
  assumes "on_people (GetInviteByCode c) s = (Inr x, s')"
  shows "x = find (\<lambda>i. iv_Code i = c) (invite_codes (people s)) \<and> (\<exists>fs. people s' = (people s)\<lparr>db_faults := fs\<rparr>)"
  using on_people_run [OF assms] people_reads(1) [OF assms] unfolding GetInviteByCode_def by (auto dest!: query_Inr)

definition under_cap :: "chat_db \<Rightarrow> string \<Rightarrow> bool" where
  "under_cap d g \<longleftrightarrow> (\<exists>srv. find (\<lambda>s. sv_ID s = g) (cd_servers d) = Some srv \<and>
     ((\<forall>n. \<not> cd_fault d n) \<longrightarrow> (\<forall>cap. effectiveMemberCap (Some srv) (Some (cd_policy d)) = Some cap \<longrightarrow> sv_MemberCount srv < cap)))"

lemma under_cap_tick [simp]: "under_cap (d\<lparr>cd_tick := k\<rparr>) g = under_cap d g"
  by (simp add: under_cap_def)

lemma cap_answer:
  assumes "on_guilds (GetServerByID g) s = (Inr (Some srv), s1)" "on_guilds GetInstancePolicy s1 = (r, s2)"
    and "\<not> (case effectiveMemberCap (Some srv) (case r of Inl _ \<Rightarrow> None | Inr c \<Rightarrow> Some c) of None \<Rightarrow> False | Some cap \<Rightarrow> sv_MemberCount srv \<ge> cap)"
  shows "under_cap (guilds s) g \<and> (\<exists>k. guilds s2 = (guilds s)\<lparr>cd_tick := k\<rparr>)"
proof -
  obtain k where k: "guilds s1 = (guilds s)\<lparr>cd_tick := k\<rparr>" "find (\<lambda>x. sv_ID x = g) (cd_servers (guilds s)) = Some srv"
    using guild_answer [OF assms(1) [unfolded GetServerByID_def]] by auto
  obtain j where j: "guilds s2 = (guilds s1)\<lparr>cd_tick := j\<rparr>"
      "r = Inl DbOutage \<and> cd_fault (guilds s1) (cd_tick (guilds s1)) \<or> r = Inr (cd_policy (guilds s))"
    using guild_answer [OF assms(2) [unfolded GetInstancePolicy_def]] k(1) by auto
  have "sv_MemberCount srv < cap" if "\<forall>n. \<not> cd_fault (guilds s) n" "effectiveMemberCap (Some srv) (Some (cd_policy (guilds s))) = Some cap" for cap
    using j(2) that k(1) assms(3) by auto
  then show ?thesis using k j(1) by (auto simp: under_cap_def)
qed

lemma claim_steps:
  assumes "claimInvite now t u [] (Some c) s = Some (Done n b, s')"
  obtains iv g s4 k where "u \<noteq> []" "find (\<lambda>i. iv_Code i = c) (invite_codes (people s)) = Some iv" "now \<le> iv_ExpiresAt iv" "iv_ServerID iv = Some g"
    "\<exists>k. \<forall>b \<in> set (cd_bans (guilds s)). \<not> (guild_ban_active (cd_clock (guilds s) k) g b \<and> bn_UserID b = u)" "under_cap (guilds s) g"
    "invite_codes (people s4) = invite_codes (people s)" "guilds s4 = (guilds s)\<lparr>cd_tick := k\<rparr>"
    "finish_join t c g u [] s4 = Some (Done n b, s')"
proof -
  have u: "u \<noteq> []" "c \<noteq> []" using assms by (auto simp: claimInvite_def coalesce_def split: list.splits if_splits)
  obtain x xs where c: "c = x # xs" using u(2) by (cases c) auto
  note run = assms [unfolded c]
  obtain iv s1 where i: "on_people (GetInviteByCode (x # xs)) s = (Inr (Some iv), s1)"
    using run u(1) by (cases "on_people (GetInviteByCode (x # xs)) s") (auto simp: claimInvite_def coalesce_def split: sum.splits option.splits)
  obtain y ys where g: "iv_ServerID iv = Some (y # ys)" "\<not> now > iv_ExpiresAt iv"
    using run u(1) i by (auto simp: claimInvite_def coalesce_def split: if_splits option.splits list.splits)
  let ?g = "y # ys"
  obtain s2 where b: "on_guilds (GetActiveBan ?g u) s1 = (Inr None, s2)"
    using run u(1) i g by (cases "on_guilds (GetActiveBan ?g u) s1") (auto simp: claimInvite_def coalesce_def split: sum.splits option.splits)
  obtain srv s3 where v: "on_guilds (GetServerByID ?g) s2 = (Inr (Some srv), s3)"
    using run u(1) i g b by (cases "on_guilds (GetServerByID ?g) s2") (auto simp: claimInvite_def coalesce_def split: sum.splits option.splits)
  obtain r s4 where p: "on_guilds GetInstancePolicy s3 = (r, s4)" by fastforce
  have f: "\<not> (case effectiveMemberCap (Some srv) (case r of Inl _ \<Rightarrow> None | Inr c \<Rightarrow> Some c) of None \<Rightarrow> False | Some cap \<Rightarrow> sv_MemberCount srv \<ge> cap)"
    "finish_join t c ?g u [] s4 = Some (Done n b, s')"
    using run u(1) i g b v p by (auto simp: claimInvite_def coalesce_def c Let_def split: if_splits)
  have s1: "guilds s1 = guilds s" using on_people_keeps [OF i] by simp
  show thesis
  proof (rule that [OF u(1) _ _ g(1) _ _ _ _ f(2)])
    show "find (\<lambda>i. iv_Code i = c) (invite_codes (people s)) = Some iv" using code_answer [OF i] c by simp
    show "now \<le> iv_ExpiresAt iv" using g(2) by simp
    show "\<exists>k. \<forall>b \<in> set (cd_bans (guilds s)). \<not> (guild_ban_active (cd_clock (guilds s) k) ?g b \<and> bn_UserID b = u)"
      using no_active_ban [OF b] s1 by simp
    show "under_cap (guilds s) ?g" using cap_answer [OF v p f(1)] no_active_ban [OF b] s1 by auto
    show "invite_codes (people s4) = invite_codes (people s)"
      using same_codes(2) [OF i] same_codes(1) [OF b] same_codes(1) [OF v] same_codes(1) [OF p] by simp
    show "guilds s4 = (guilds s)\<lparr>cd_tick := cd_tick (guilds s4)\<rparr>" using cap_answer [OF v p f(1)] no_active_ban [OF b] s1 by auto
  qed
qed

lemma add_member_done:
  assumes "on_guilds (AddServerMember g u l) s = (Inr (), s')"
  shows "level_of (guilds s) g u = None \<and> (\<exists>m k. guilds s' = (guilds s)\<lparr>cd_tick := k, cd_members := cd_members (guilds s) @ [m]\<rparr> \<and>
    sm_ServerID m = g \<and> sm_UserID m = Some u \<and> sm_PermissionLevel m = l)"
  using on_guilds_run [OF assms, symmetric]
  by (auto simp: run_chat_def AddServerMember_def chat_query_def Let_def level_of_None split: if_splits)

lemma count_done:
  assumes "on_guilds (IncrementGuildMemberCount g n) s = (r, s')"
  shows "cd_members (guilds s') = cd_members (guilds s)"
  using on_guilds_run [OF assms, symmetric]
  by (auto simp: run_chat_def IncrementGuildMemberCount_def chat_query_def Let_def split: if_splits)

definition live_code :: "time \<Rightarrow> string \<Rightarrow> InviteCode \<Rightarrow> bool" where
  "live_code t c i \<longleftrightarrow> iv_Code i = c \<and> iv_Uses i < iv_MaxUses i \<and> iv_ExpiresAt i > t"

lemma claim_done:
  assumes "on_people (ClaimInviteUse t c) s = (Inr True, s')"
  shows "(\<exists>i \<in> set (invite_codes (people s)). live_code t c i) \<and>
    invite_codes (people s') = sql_update (live_code t c) (\<lambda>i. i\<lparr>iv_Uses := iv_Uses i + 1\<rparr>) (invite_codes (people s))"
  using on_people_run [OF assms] unfolding ClaimInviteUse_def live_code_def [abs_def]
  by (auto dest!: query_Inr sym [of _ "people s'"] simp: Let_def sql)

lemma finish_join_done:
  assumes "finish_join t c g u [] s = Some (Done n b, s')"
  shows "b = Claimed g \<and> (\<exists>i \<in> set (invite_codes (people s)). live_code t c i) \<and>
    invite_codes (people s') = sql_update (live_code t c) (\<lambda>i. i\<lparr>iv_Uses := iv_Uses i + 1\<rparr>) (invite_codes (people s)) \<and>
    level_of (guilds s) g u = None \<and>
    (\<exists>m. cd_members (guilds s') = cd_members (guilds s) @ [m] \<and> sm_ServerID m = g \<and> sm_UserID m = Some u \<and>
       sm_PermissionLevel m = PermissionLevelMember)"
proof -
  obtain s1 where 1: "on_people (ClaimInviteUse t c) s = (Inr True, s1)"
    using assms by (cases "on_people (ClaimInviteUse t c) s") (auto simp: finish_join_def split: sum.splits bool.splits)
  obtain s2 where 2: "on_guilds (AddServerMember g u PermissionLevelMember) s1 = (Inr (), s2)"
    using assms 1 by (cases "on_guilds (AddServerMember g u PermissionLevelMember) s1") (auto simp: finish_join_def split: sum.splits)
  obtain r s3 where 3: "on_guilds (IncrementGuildMemberCount g 1) s2 = (r, s3)" by fastforce
  have 4: "announce_join g u [] s3 = Some s'" "b = Claimed g" using assms 1 2 3 by (auto simp: finish_join_def)
  have "guilds s1 = guilds s" using on_people_keeps [OF 1] by simp
  moreover have "invite_codes (people s') = invite_codes (people s1)"
    using announce_join_keeps [OF 4(1)] same_codes(1) [OF 2] same_codes(1) [OF 3] by simp
  moreover have "cd_members (guilds s') = cd_members (guilds s2)"
    using announce_join_keeps [OF 4(1)] count_done [OF 3] by (simp add: same_members_def)
  ultimately show ?thesis using claim_done [OF 1] add_member_done [OF 2] 4(2) by auto
qed

section \<open>Properties of invites\<close>

text \<open>
  C32. \<^bold>\<open>An invite lets in at most as many as it says.\<close> Over every series of requests, by anybody and
  at any times, in which no new invite happens to get the same code, the claims of a code that are answered with success
  are at most the uses that it had left.
\<close>

theorem invite_admits_at_most:
  assumes "serve_lobby L reqs s = Some (as, s')" and "\<forall>(now, t, u, req) \<in> set reqs. \<not> mints c req"
  shows "length (filter (\<lambda>((now, t, u, req), a). let_in c req a) (zip reqs as)) \<le> invite_places c s"
proof -
  have "invite_places c s' + length (filter (\<lambda>((now, t, u, req), a). let_in c req a) (zip reqs as)) \<le> invite_places c s"
    using assms
  proof (induction reqs arbitrary: s as)
    case (Cons r reqs)
    obtain now t u req where r: "r = (now, t, u, req)" by (cases r) auto
    obtain a s1 as' where a: "LobbyRoutes L now t u req s = Some (a, s1)" "serve_lobby L reqs s1 = Some (as', s')" "as = a # as'"
      using Cons.prems(1) by (auto simp: r split: option.splits)
    have "\<not> mints c req" using Cons.prems(2) by (simp add: r)
    from request_places [OF a(1) this] Cons.IH [OF a(2)] Cons.prems(2) show ?case by (auto simp: r a(3) split: if_splits)
  qed simp
  then show ?thesis by simp
qed

text \<open>
  C33. \<^bold>\<open>Whom a claim lets in.\<close> A claim that succeeds was made by a logged-in user with the code of an invite that is not
  expired and has a use left, into the guild of this invite, in which the user was no member, under which no ban of the
  user was active, and whose member limit was not reached while the database answered. It counts one use, adds the user
  with the level of a plain member, and changes no other membership and no other code.
\<close>

theorem claim_admission:
  assumes "LobbyRoutes L now t u (ClaimReq [] (Some c)) s = Some (Done n b, s')" and "distinct (map iv_Code (invite_codes (people s)))"
  shows "u \<noteq> [] \<and> (\<exists>i g m. i \<in> set (invite_codes (people s)) \<and> iv_Code i = c \<and> now \<le> iv_ExpiresAt i \<and> t < iv_ExpiresAt i \<and>
      iv_Uses i < iv_MaxUses i \<and> iv_ServerID i = Some g \<and> b = Claimed g \<and> level_of (guilds s) g u = None \<and> under_cap (guilds s) g \<and>
      (\<exists>k. \<forall>x \<in> set (cd_bans (guilds s)). \<not> (guild_ban_active (cd_clock (guilds s) k) g x \<and> bn_UserID x = u)) \<and>
      cd_members (guilds s') = cd_members (guilds s) @ [m] \<and> sm_ServerID m = g \<and> sm_UserID m = Some u \<and> sm_PermissionLevel m = PermissionLevelMember \<and>
      invite_codes (people s') = sql_update (\<lambda>j. iv_Code j = c) (\<lambda>j. j\<lparr>iv_Uses := iv_Uses j + 1\<rparr>) (invite_codes (people s)))"
proof -
  from assms(1) have "claimInvite now t u [] (Some c) s = Some (Done n b, s')" by simp
  then show ?thesis
  proof (rule claim_steps)
    fix iv g s4 k
    assume h: "u \<noteq> []" "find (\<lambda>i. iv_Code i = c) (invite_codes (people s)) = Some iv" "now \<le> iv_ExpiresAt iv" "iv_ServerID iv = Some g"
      "\<exists>k. \<forall>b \<in> set (cd_bans (guilds s)). \<not> (guild_ban_active (cd_clock (guilds s) k) g b \<and> bn_UserID b = u)" "under_cap (guilds s) g"
      "invite_codes (people s4) = invite_codes (people s)" "guilds s4 = (guilds s)\<lparr>cd_tick := k\<rparr>"
      "finish_join t c g u [] s4 = Some (Done n b, s')"
    have iv: "iv \<in> set (invite_codes (people s))" "iv_Code iv = c" using find_Some_iff_mem [OF h(2)] by auto
    have only: "j = iv" if "j \<in> set (invite_codes (people s))" "iv_Code j = c" for j
      using assms(2) that iv by (auto simp: distinct_map inj_on_def)
    note f = finish_join_done [OF h(9), unfolded h(7)]
    then have live: "live_code t c iv" using only by (auto simp: live_code_def)
    have "sql_update (live_code t c) F (invite_codes (people s)) = sql_update (\<lambda>j. iv_Code j = c) F (invite_codes (people s))" for F
      unfolding sql_update_def by (rule map_cong) (use only live in \<open>auto simp: live_code_def\<close>)
    then show ?thesis using f h iv live by (auto simp: live_code_def level_of_def)
  qed
qed

text \<open>A guild \<open>g\<close> with the member \<open>u\<close>, and an invite for one person.\<close>

definition toy_lobby_env :: lobby_env where
  "toy_lobby_env = \<lparr>ilike = (\<lambda>_ _. False), collation = (\<lambda>_. []), guild_env = toy_env\<rparr>"

definition toy_invite :: InviteCode where
  "toy_invite = \<lparr>iv_Code = ''c'', iv_ServerID = Some ''g'', iv_CreatedBy = ''u'', iv_ExpiresAt = 100, iv_MaxUses = 1, iv_Uses = 0\<rparr>"

definition toy_lobby :: lobby where
  "toy_lobby = \<lparr>core = \<lparr>accounts = \<lparr>adb = empty_auth_db\<lparr>invite_codes := [toy_invite]\<rparr>, tlog = None, notices = []\<rparr>, site = toy_world\<rparr>,
     dm_pairs = [], identities = [], guild_discovery = None\<rparr>"

lemmas toy_lobby_eval = claimInvite_def coalesce_def on_people_def on_guilds_def run_db_def run_site_def GetInviteByCode_def db_query_def
  toy_lobby_def toy_invite_def empty_auth_db_def toy_world_def toy_db_def toy_policy_def GetActiveBan_def chat_read_def chat_query_def run_chat_def
  GetServerByID_def GetInstancePolicy_def finish_join_def ClaimInviteUse_def AddServerMember_def IncrementGuildMemberCount_def
  announce_join_def joined_member_def GetUserByID_def lobby_hub_def run_hub_def EmitSystemMessage_def InsertSystemMessage_def to_server_def
  toy_hub_def effectiveMemberCap_def new_server_def BroadcastToServer_def subscribers_def permission_levels actors_known_def known_def BroadcastToUser_def client_at_def NewClient_def sql sql_update_def Let_def

lemma toy_claimed:
  "\<exists>s'. LobbyRoutes toy_lobby_env 0 0 ''v'' (ClaimReq [] (Some ''c'')) toy_lobby = Some (Done 200 (Claimed ''g''), s')"
  by (simp add: toy_lobby_eval)

theorem invite_admits_at_most_witness:
  "\<exists>as s'. serve_lobby toy_lobby_env [(0, 0, ''v'', ClaimReq [] (Some ''c''))] toy_lobby = Some (as, s') \<and>
     length (filter (\<lambda>((now, t, u, req), a). let_in ''c'' req a) (zip [(0, 0, ''v'', ClaimReq [] (Some ''c''))] as)) \<le> 1"
proof -
  obtain s' where "LobbyRoutes toy_lobby_env 0 0 ''v'' (ClaimReq [] (Some ''c'')) toy_lobby = Some (Done 200 (Claimed ''g''), s')"
    using toy_claimed by blast
  then have r: "serve_lobby toy_lobby_env [(0, 0, ''v'', ClaimReq [] (Some ''c''))] toy_lobby = Some ([Done 200 (Claimed ''g'')], s')"
    by simp
  from invite_admits_at_most [OF r, of "''c''"] r show ?thesis
    by (simp add: invite_places_def toy_lobby_def toy_invite_def)
qed

theorem claim_admission_witness:
  "\<exists>s'. LobbyRoutes toy_lobby_env 0 0 ''v'' (ClaimReq [] (Some ''c'')) toy_lobby = Some (Done 200 (Claimed ''g''), s') \<and>
     level_of (guilds toy_lobby) ''g'' ''v'' = None \<and> under_cap (guilds toy_lobby) ''g''"
proof -
  obtain s' where r: "LobbyRoutes toy_lobby_env 0 0 ''v'' (ClaimReq [] (Some ''c'')) toy_lobby = Some (Done 200 (Claimed ''g''), s')"
    using toy_claimed by blast
  have "distinct (map iv_Code (invite_codes (people toy_lobby)))" by (simp add: toy_lobby_def)
  from claim_admission [OF r this] r show ?thesis by auto
qed

section \<open>Conversations\<close>

lemma bind_lobby_Inr:
  assumes "bind_lobby q k s = (Inr y, s')"
  obtains x s1 where "q s = (Inr x, s1)" "k x s1 = (Inr y, s')"
  using assms by (auto simp: bind_lobby_def split: prod.splits sum.splits)

lemma lobby_tx_Inr: "lobby_tx q s = (Inr x, s') \<Longrightarrow> q s = (Inr x, s')"
  by (auto simp: lobby_tx_def split: prod.splits sum.splits)

lemma dm_server_done:
  assumes "on_guilds insert_dm_server s = (Inr g, s')"
  shows "sv_ID g \<notin> sv_ID ` set (cd_servers (guilds s)) \<and> sv_IsDm g \<and> sv_AccessPolicy g = ''closed'' \<and>
    (\<exists>k. guilds s' = (guilds s)\<lparr>cd_tick := k, cd_servers := cd_servers (guilds s) @ [g]\<rparr>)"
  using on_guilds_run [OF assms, symmetric]
  by (auto simp: run_chat_def insert_dm_server_def chat_query_def Let_def sql new_dm_def new_server_def split: if_splits)

lemma dm_pair_done:
  assumes "insert_dm_pair g lo hi s = (Inr (), s')"
  shows "str_less lo hi \<and> g \<notin> dp_ServerID ` set (dm_pairs s) \<and> (lo, hi) \<notin> (\<lambda>p. (dp_UserA p, dp_UserB p)) ` set (dm_pairs s) \<and>
    dm_pairs s' = dm_pairs s @ [\<lparr>dp_ServerID = g, dp_UserA = lo, dp_UserB = hi\<rparr>] \<and> (\<exists>k. guilds s' = (guilds s)\<lparr>cd_tick := k\<rparr>)"
  using assms unfolding insert_dm_pair_def by (rule lobby_query_reads) (auto simp: sql split: if_splits)

lemma dm_channel_done:
  assumes "on_guilds (CreateChannel g mt ty p pos) s = (Inr c, s')"
  shows "ch_ServerID c = Some g \<and> (\<exists>k. guilds s' = (guilds s)\<lparr>cd_tick := k, cd_channels := cd_channels (guilds s) @ [c]\<rparr>)"
  using on_guilds_run [OF assms, symmetric]
  by (auto simp: run_chat_def CreateChannel_def chat_query_def Let_def split: if_splits)

lemma dm_counts_done:
  assumes "on_guilds (set_dm_counts g) s = (Inr (), s')"
  shows "\<exists>k. guilds s' = (guilds s)\<lparr>cd_tick := k, cd_servers := sql_update (\<lambda>x. sv_ID x = g)
    (\<lambda>x. x\<lparr>sv_MemberCount := 2, sv_TextChannelCount := 1\<rparr>) (cd_servers (guilds s))\<rparr>"
  using on_guilds_run [OF assms, symmetric]
  by (auto simp: run_chat_def set_dm_counts_def chat_query_def Let_def split: if_splits)

lemma untouched_update: "g \<notin> sv_ID ` set xs \<Longrightarrow> sql_update (\<lambda>x. sv_ID x = g) f xs = xs"
  by (induction xs) (auto simp: sql_update_def)

lemma create_dm_done:
  assumes "CreateDMGuild a b s = (Inr (g, ch), s')" and "canonicalUserOrder a b = (lo, hi)"
  shows "sv_ID g \<notin> sv_ID ` set (cd_servers (guilds s)) \<and> sv_IsDm g \<and> sv_AccessPolicy g = ''closed'' \<and>
    (\<exists>k ma mb. guilds s' = (guilds s)\<lparr>cd_tick := k, cd_servers := cd_servers (guilds s) @ [g],
       cd_members := cd_members (guilds s) @ [ma, mb], cd_channels := cd_channels (guilds s) @ [ch]\<rparr> \<and>
       sm_ServerID ma = sv_ID g \<and> sm_UserID ma = Some a \<and> sm_ServerID mb = sv_ID g \<and> sm_UserID mb = Some b \<and>
       sm_PermissionLevel ma = PermissionLevelOwner \<and> sm_PermissionLevel mb = PermissionLevelOwner) \<and>
    ch_ServerID ch = Some (sv_ID g) \<and> str_less lo hi \<and> (lo, hi) \<notin> (\<lambda>p. (dp_UserA p, dp_UserB p)) ` set (dm_pairs s) \<and>
    dm_pairs s' = dm_pairs s @ [\<lparr>dp_ServerID = sv_ID g, dp_UserA = lo, dp_UserB = hi\<rparr>] \<and>
    accounts (core s') = accounts (core s)"
proof -
  note run = lobby_tx_Inr [OF assms(1) [unfolded CreateDMGuild_def]]
  obtain g0 s1 s2 s3 s4 s5 s6 where
    1: "on_guilds insert_dm_server s = (Inr g0, s1)" and 2: "insert_dm_pair (sv_ID g0) lo hi s1 = (Inr (), s2)" and
    3: "on_guilds (AddServerMember (sv_ID g0) a PermissionLevelOwner) s2 = (Inr (), s3)" and
    4: "on_guilds (AddServerMember (sv_ID g0) b PermissionLevelOwner) s3 = (Inr (), s4)" and
    5: "on_guilds (CreateChannel (sv_ID g0) None ''text'' None 0) s4 = (Inr ch, s5)" and
    6: "on_guilds (set_dm_counts (sv_ID g0)) s5 = (Inr (), s')" and g: "g = g0\<lparr>sv_MemberCount := 2, sv_TextChannelCount := 1\<rparr>"
    using run by (auto simp: assms(2) Let_def elim!: bind_lobby_Inr)
  have id: "sv_ID g = sv_ID g0" by (simp add: g)
  note d1 = dm_server_done [OF 1] and d2 = dm_pair_done [OF 2] and d5 = dm_channel_done [OF 5] and d6 = dm_counts_done [OF 6]
  obtain k1 where k1: "guilds s1 = (guilds s)\<lparr>cd_tick := k1, cd_servers := cd_servers (guilds s) @ [g0]\<rparr>" using d1 by auto
  obtain k2 where k2: "guilds s2 = (guilds s1)\<lparr>cd_tick := k2\<rparr>" using d2 by auto
  obtain ma k3 where k3: "guilds s3 = (guilds s2)\<lparr>cd_tick := k3, cd_members := cd_members (guilds s2) @ [ma]\<rparr>"
    "sm_ServerID ma = sv_ID g0" "sm_UserID ma = Some a" "sm_PermissionLevel ma = PermissionLevelOwner" using add_member_done [OF 3] by auto
  obtain mb k4 where k4: "guilds s4 = (guilds s3)\<lparr>cd_tick := k4, cd_members := cd_members (guilds s3) @ [mb]\<rparr>"
    "sm_ServerID mb = sv_ID g0" "sm_UserID mb = Some b" "sm_PermissionLevel mb = PermissionLevelOwner" using add_member_done [OF 4] by auto
  obtain k5 where k5: "guilds s5 = (guilds s4)\<lparr>cd_tick := k5, cd_channels := cd_channels (guilds s4) @ [ch]\<rparr>" using d5 by auto
  obtain k6 where k6: "guilds s' = (guilds s5)\<lparr>cd_tick := k6, cd_servers := sql_update (\<lambda>x. sv_ID x = sv_ID g0)
    (\<lambda>x. x\<lparr>sv_MemberCount := 2, sv_TextChannelCount := 1\<rparr>) (cd_servers (guilds s5))\<rparr>" using d6 by auto
  have "cd_servers (guilds s') = cd_servers (guilds s) @ [g]"
    using d1 untouched_update [of "sv_ID g0" "cd_servers (guilds s)"] by (simp add: k6 k5 k4 k3 k2 k1 g) (simp add: sql_update_def)
  then have "guilds s' = (guilds s)\<lparr>cd_tick := k6, cd_servers := cd_servers (guilds s) @ [g],
       cd_members := cd_members (guilds s) @ [ma, mb], cd_channels := cd_channels (guilds s) @ [ch]\<rparr>"
    by (simp add: k6 k5 k4 k3 k2 k1)
  moreover have "dm_pairs s1 = dm_pairs s" "dm_pairs s' = dm_pairs s2"
    using on_guilds_keeps [OF 1] on_guilds_keeps [OF 3] on_guilds_keeps [OF 4] on_guilds_keeps [OF 5] on_guilds_keeps [OF 6] by simp_all
  moreover have "accounts (core s') = accounts (core s)" by (rule sparesD [OF assms(1) spares_dm])
  moreover have "sv_IsDm g" "sv_AccessPolicy g = ''closed''" using d1 by (simp_all add: g)
  ultimately show ?thesis using d1 d2 d5 k3 k4 id by auto
qed

lemma str_less_asym: "str_less a b \<Longrightarrow> \<not> str_less b a"
  by (induction a b rule: str_less.induct) auto

lemma str_less_total: "a \<noteq> b \<Longrightarrow> str_less a b \<or> str_less b a"
proof (induction a b rule: str_less.induct)
  case (3 x xs y ys)
  have "(of_char x :: nat) < of_char y \<or> (of_char y :: nat) < of_char x" if "x \<noteq> y"
    using that by (metis linorder_neqE_nat of_char_eq_iff)
  then show ?case using 3 by auto
qed (auto simp: neq_Nil_conv)

lemma canonical_sym: "a \<noteq> b \<Longrightarrow> canonicalUserOrder b a = canonicalUserOrder a b"
  using str_less_asym [of a b] str_less_asym [of b a] str_less_total [of a b] by (auto simp: canonicalUserOrder_def)

lemma find_dm_answer:
  assumes "FindDMGuild a b s = (r, s')" "canonicalUserOrder a b = (lo, hi)"
    and "find (\<lambda>g. list_ex (\<lambda>p. dp_ServerID p = sv_ID g \<and> dp_UserA p = lo \<and> dp_UserB p = hi) (dm_pairs s)) (cd_servers (guilds s)) = Some g"
  shows "r = Inr g \<or> r = Inl DbOutage"
  using assms(1) unfolding FindDMGuild_def
  by (rule lobby_query_reads) (use assms(2,3) in \<open>auto simp: Let_def\<close>)

lemma new_dm_found:
  assumes "CreateDMGuild a b s = (Inr (g, ch), s')" "canonicalUserOrder a b = (lo, hi)"
  shows "find (\<lambda>g. list_ex (\<lambda>p. dp_ServerID p = sv_ID g \<and> dp_UserA p = lo \<and> dp_UserB p = hi) (dm_pairs s')) (cd_servers (guilds s')) = Some g"
proof (rule find_unique)
  note d = create_dm_done [OF assms]
  show "g \<in> set (cd_servers (guilds s'))" using d by auto
  show "list_ex (\<lambda>p. dp_ServerID p = sv_ID g \<and> dp_UserA p = lo \<and> dp_UserB p = hi) (dm_pairs s')" using d by auto
  fix g'
  assume g': "g' \<in> set (cd_servers (guilds s'))" "list_ex (\<lambda>p. dp_ServerID p = sv_ID g' \<and> dp_UserA p = lo \<and> dp_UserB p = hi) (dm_pairs s')"
  then have "sv_ID g' = sv_ID g" using d by (auto simp: list_ex_iff)
  moreover have "g' \<in> set (cd_servers (guilds s)) \<or> g' = g" using d g'(1) by auto
  moreover have "sv_ID g \<notin> sv_ID ` set (cd_servers (guilds s))" using d by simp
  ultimately show "g' = g" by (metis image_eqI)
qed

definition channels_placed :: "chat_db \<Rightarrow> bool" where
  "channels_placed d \<longleftrightarrow> (\<forall>c \<in> set (cd_channels d). \<forall>g. ch_ServerID c = Some g \<longrightarrow> g \<in> sv_ID ` set (cd_servers d))"

text \<open>The first of two requests, of either user, makes the conversation.\<close>

lemma dm_created:
  assumes "createOrFindDM a (Some b) s = Some (Done 201 (DMResponse g pub c), s')"
  obtains s0 s1 ch k where "a \<noteq> b" "CreateDMGuild a b s0 = (Inr (g, ch), s1)" "c = ch_ID ch" "dm_pairs s' = dm_pairs s1" "guilds s' = guilds s1"
    "guilds s0 = (guilds s)\<lparr>cd_tick := k\<rparr>" "dm_pairs s0 = dm_pairs s"
proof -
  have ab: "a \<noteq> b" using assms by (auto simp: createOrFindDM_def split: if_splits)
  obtain o1 s1 where 1: "on_people (GetUserByID b) s = (Inr o1, s1)"
    using assms by (cases "on_people (GetUserByID b) s") (auto simp: createOrFindDM_def split: if_splits sum.splits)
  obtain r s2 where 2: "FindDMGuild a b s1 = (r, s2)" by fastforce
  have r: "r = Inl DbNoRows" using assms 1 2 ab
    by (auto simp: createOrFindDM_def Let_def split: if_splits sum.splits prod.splits)
  obtain ch s3 where 3: "CreateDMGuild a b s2 = (Inr (g, ch), s3)" "c = ch_ID ch"
      "lobby_hub (BroadcastToUser b (MemberJoined (sv_ID g) a)) s3 = Some s'"
    using assms 1 2 r ab by (auto simp: createOrFindDM_def Let_def split: if_splits sum.splits prod.splits)
  show thesis
    using that [OF ab 3(1,2)] lobby_hub_keeps [OF 3(3)] lobby_reads(1) [OF 2] on_people_keeps [OF 1] by auto
qed

lemma dm_levels:
  assumes "cd_members d = ms @ [ma, mb]" "\<forall>m \<in> set ms. sm_ServerID m \<noteq> g"
    "sm_ServerID ma = g" "sm_UserID ma = Some a" "sm_PermissionLevel ma = l"
    "sm_ServerID mb = g" "sm_UserID mb = Some b" "sm_PermissionLevel mb = l"
  shows "level_of d g v = (if v = a \<or> v = b then Some l else None)"
proof -
  have "find (\<lambda>m. sm_ServerID m = g \<and> sm_UserID m = Some v) ms = None" using assms(2) by (auto simp: find_None_iff)
  then show ?thesis using assms by (auto simp: level_of_def find_append)
qed

text \<open>
  C34. \<^bold>\<open>Two users have one conversation.\<close> When a request for a direct message created one, the guild is closed, has
  the two users as owners and nobody else, and one channel; and a request of the other user for the first one, while the
  database answers, finds the same guild and the same channel.
\<close>

theorem dm_same_conversation:
  assumes "LobbyRoutes L now t a (DMReq (Some b)) s = Some (Done 201 (DMResponse g pub c), s1)"
    and "channels_placed (guilds s)" and "\<forall>m \<in> set (cd_members (guilds s)). sm_ServerID m \<in> sv_ID ` set (cd_servers (guilds s))"
  shows "sv_IsDm g \<and> sv_AccessPolicy g = ''closed'' \<and>
    (\<forall>v. level_of (guilds s1) (sv_ID g) v = (if v = a \<or> v = b then Some PermissionLevelOwner else None)) \<and>
    (\<forall>n r s2. LobbyRoutes L now' t' b (DMReq (Some a)) s1 = Some (Done n r, s2) \<longrightarrow> (\<exists>o'. n = 200 \<and> r = DMResponse g o' c))"
proof -
  from assms(1) have run: "createOrFindDM a (Some b) s = Some (Done 201 (DMResponse g pub c), s1)" by simp
  obtain s0 s01 ch k where ab: "a \<noteq> b" and dm: "CreateDMGuild a b s0 = (Inr (g, ch), s01)" and c: "c = ch_ID ch"
    and s1: "dm_pairs s1 = dm_pairs s01" "guilds s1 = guilds s01" and s0: "guilds s0 = (guilds s)\<lparr>cd_tick := k\<rparr>"
    using dm_created [OF run] by metis
  obtain lo hi where o: "canonicalUserOrder a b = (lo, hi)" by fastforce
  note d = create_dm_done [OF dm o]
  have o': "canonicalUserOrder b a = (lo, hi)" using o canonical_sym [OF ab] by simp
  have find: "find (\<lambda>g. list_ex (\<lambda>p. dp_ServerID p = sv_ID g \<and> dp_UserA p = lo \<and> dp_UserB p = hi) (dm_pairs s1)) (cd_servers (guilds s1)) = Some g"
    using new_dm_found [OF dm o] s1 by simp
  have new: "sv_ID g \<notin> sv_ID ` set (cd_servers (guilds s))" using d s0 by simp
  have chs: "filter (\<lambda>x. ch_ServerID x = Some (sv_ID g)) (cd_channels (guilds s1)) = [ch]"
    using d s0 s1 new assms(2) by (auto simp: channels_placed_def filter_empty_conv)
  have lv: "level_of (guilds s1) (sv_ID g) v = (if v = a \<or> v = b then Some PermissionLevelOwner else None)" for v
  proof -
    obtain ma mb where m: "cd_members (guilds s1) = cd_members (guilds s) @ [ma, mb]" "sm_ServerID ma = sv_ID g" "sm_UserID ma = Some a"
      "sm_ServerID mb = sv_ID g" "sm_UserID mb = Some b" "sm_PermissionLevel ma = PermissionLevelOwner" "sm_PermissionLevel mb = PermissionLevelOwner"
      using d s0 s1 by auto
    show ?thesis by (rule dm_levels [OF m(1) _ m(2,3,6,4,5,7)]) (use assms(3) new in metis)
  qed
  have "n = 200 \<and> (\<exists>o'. r = DMResponse g o' c)" if again: "createOrFindDM b (Some a) s1 = Some (Done n r, s2)" for n r s2
  proof -
    obtain o1 t1 where 1: "on_people (GetUserByID a) s1 = (Inr o1, t1)"
      using again by (cases "on_people (GetUserByID a) s1") (auto simp: createOrFindDM_def split: if_splits sum.splits)
    obtain x t2 where 2: "FindDMGuild b a t1 = (x, t2)" by fastforce
    have x: "x = Inr g" using find_dm_answer [OF 2 o', of g] find on_people_keeps [OF 1] again 1 2
      by (auto simp: createOrFindDM_def Let_def split: if_splits)
    obtain y t3 where 3: "on_guilds (ListChannels (sv_ID g)) t2 = (y, t3)" by fastforce
    have "y = Inl DbOutage \<or> y = Inr [ch]"
      using guild_answer [OF 3 [unfolded ListChannels_def]] lobby_reads(1) [OF 2] on_people_keeps [OF 1] chs by auto
    then show ?thesis using again 1 2 3 x c by (auto simp: createOrFindDM_def Let_def split: if_splits)
  qed
  then show ?thesis using d lv by auto
qed

definition toy_strangers :: lobby where
  "toy_strangers = toy_lobby\<lparr>core := (core toy_lobby)\<lparr>accounts := \<lparr>adb = empty_auth_db\<lparr>users := [toy_user\<lparr>u_ID := ''u''\<rparr>, toy_user\<lparr>u_ID := ''v''\<rparr>]\<rparr>,
     tlog = None, notices = []\<rparr>\<rparr>\<rparr>"

lemma toy_dm:
  "\<exists>g pub c s1. LobbyRoutes toy_lobby_env 0 0 ''u'' (DMReq (Some ''v'')) toy_strangers = Some (Done 201 (DMResponse g pub c), s1)"
  by (simp add: createOrFindDM_def FindDMGuild_def CreateDMGuild_def lobby_query_def lobby_tx_def bind_lobby_def insert_dm_server_def
      insert_dm_pair_def CreateChannel_def set_dm_counts_def canonicalUserOrder_def new_dm_def channel_types_def int4_def toy_user_def
      toy_strangers_def toy_lobby_eval)

theorem dm_same_conversation_witness:
  "\<exists>g pub c s1. LobbyRoutes toy_lobby_env 0 0 ''u'' (DMReq (Some ''v'')) toy_strangers = Some (Done 201 (DMResponse g pub c), s1) \<and>
     sv_IsDm g \<and> level_of (guilds s1) (sv_ID g) ''v'' = Some 3"
proof -
  obtain g pub c s1 where r: "LobbyRoutes toy_lobby_env 0 0 ''u'' (DMReq (Some ''v'')) toy_strangers = Some (Done 201 (DMResponse g pub c), s1)"
    using toy_dm by blast
  have "channels_placed (guilds toy_strangers)" "\<forall>m \<in> set (cd_members (guilds toy_strangers)). sm_ServerID m \<in> sv_ID ` set (cd_servers (guilds toy_strangers))"
    by (simp_all add: channels_placed_def toy_strangers_def toy_lobby_def toy_world_def toy_db_def new_server_def)
  from dm_same_conversation [OF r this] r show ?thesis by (auto simp: permission_levels)
qed

end
