(* ===== verification/Passwords.thy ===== *)
theory Passwords
  imports Codec Go_Strings
begin

text \<open>
  The secrets of the administration: password hashes (\<open>internal/auth/admin_password.go\<close>), session tokens
  (\<open>admin_session.go\<close>) and the wrapping of the service identity's key (\<open>service_identity.go\<close>). Argon2id and
  AES-GCM are functions of \<open>secret_env\<close>; random bytes are arguments, \<open>None\<close> where \<open>rand.Read\<close> fails.
\<close>

record secret_env =
  IDKey :: "bytes \<Rightarrow> bytes \<Rightarrow> int \<Rightarrow> int \<Rightarrow> int \<Rightarrow> nat \<Rightarrow> bytes option"
  gcm_seal :: "bytes \<Rightarrow> bytes \<Rightarrow> bytes \<Rightarrow> bytes"

text \<open>
  What the package documents of \<open>argon2.IDKey\<close>: it panics (\<open>None\<close>) without a round or a thread, and otherwise
  gives a key of the length asked for.
\<close>

definition argon2_documented :: "secret_env \<Rightarrow> bool" where
  "argon2_documented K \<longleftrightarrow> (\<forall>p s t m th n. (1 \<le> t \<and> 1 \<le> th \<longrightarrow> (\<exists>k. IDKey K p s t m th n = Some k \<and> length k = n)) \<and>
     (t < 1 \<or> th < 1 \<longrightarrow> IDKey K p s t m th n = None))"

section \<open>Go library\<close>

text \<open>\<open>strings.Split\<close> for a one-byte separator.\<close>

fun Split :: "char \<Rightarrow> string \<Rightarrow> string list" where
  "Split sep [] = [[]]"
| "Split sep (c # cs) = (if c = sep then [] # Split sep cs
     else case Split sep cs of [] \<Rightarrow> [[c]] | p # ps \<Rightarrow> (c # p) # ps)"

text \<open>\<open>fmt.Sscanf(s, "%d", &n)\<close> for an unsigned integer of \<open>w\<close> bits: no sign is read.\<close>

definition Sscanf_u :: "nat \<Rightarrow> string \<Rightarrow> int option" where
  "Sscanf_u w s =
     (let ds = takeWhile is_digit (trim_front (filter (\<lambda>p. p \<noteq> [CHR ''\<newline>'']) space_seqs) s)
      in if ds = [] \<or> digits_value ds \<ge> 2 ^ w then None else Some (digits_value ds))"

section \<open>Password hashes\<close>

definition adminPasswordMemoryKiB :: int where "adminPasswordMemoryKiB = 64 * 1024"
definition adminPasswordIterations :: int where "adminPasswordIterations = 3"
definition adminPasswordParallelism :: int where "adminPasswordParallelism = 1"
definition adminPasswordSaltSize :: nat where "adminPasswordSaltSize = 16"
definition adminPasswordKeySize :: nat where "adminPasswordKeySize = 32"

definition HashAdminPassword :: "secret_env \<Rightarrow> bytes option \<Rightarrow> string \<Rightarrow> string option" where
  "HashAdminPassword K rnd password =
     (case rnd of
        None \<Rightarrow> None
      | Some b \<Rightarrow>
          (let salt = take adminPasswordSaltSize b
           in case IDKey K (bytes_of_string password) salt adminPasswordIterations adminPasswordMemoryKiB
                     adminPasswordParallelism adminPasswordKeySize of
                None \<Rightarrow> None
              | Some key \<Rightarrow> Some (''argon2id$'' @ itoa adminPasswordIterations @ ''$'' @ itoa adminPasswordMemoryKiB @ ''$'' @
                  itoa adminPasswordParallelism @ ''$'' @ EncodeToString RawStdEncoding salt @ ''$'' @
                  EncodeToString RawStdEncoding key)))"

text \<open>\<open>None\<close> is the panic of \<open>argon2.IDKey\<close>, \<open>Inl\<close> an error.\<close>

definition VerifyAdminPassword :: "secret_env \<Rightarrow> string \<Rightarrow> string \<Rightarrow> (string + bool) option" where
  "VerifyAdminPassword K password encodedHash =
     (case Split (CHR ''$'') encodedHash of
        [p0, p1, p2, p3, p4, p5] \<Rightarrow>
          (if p0 \<noteq> ''argon2id'' then Some (Inl ''invalid password hash format'')
           else case Sscanf_u 32 p1 of
             None \<Rightarrow> Some (Inl ''parse password hash iterations'')
           | Some iterations \<Rightarrow>
           (case Sscanf_u 32 p2 of
              None \<Rightarrow> Some (Inl ''parse password hash memory'')
            | Some memoryKiB \<Rightarrow>
           (case Sscanf_u 8 p3 of
              None \<Rightarrow> Some (Inl ''parse password hash parallelism'')
            | Some parallelism \<Rightarrow>
           (case DecodeString RawStdEncoding p4 of
              None \<Rightarrow> Some (Inl ''decode password hash salt'')
            | Some salt \<Rightarrow>
           (case DecodeString RawStdEncoding p5 of
              None \<Rightarrow> Some (Inl ''decode password hash key'')
            | Some expectedKey \<Rightarrow>
                map_option (\<lambda>actualKey. Inr (actualKey = expectedKey))
                  (IDKey K (bytes_of_string password) salt iterations memoryKiB parallelism (length expectedKey)))))))
      | _ \<Rightarrow> Some (Inl ''invalid password hash format''))"

section \<open>Session tokens\<close>

definition adminSessionTokenSize :: nat where
  "adminSessionTokenSize = 32"

definition GenerateSessionToken :: "bytes option \<Rightarrow> string option" where
  "GenerateSessionToken rnd = map_option (\<lambda>b. EncodeToString RawURLEncoding (take adminSessionTokenSize b)) rnd"

section \<open>The service identity\<close>

definition serviceIdentityWrappingKeyVersion :: string where
  "serviceIdentityWrappingKeyVersion = ''aesgcm-v1''"

text \<open>The first encoding that gives 32 bytes: hexadecimal, then base64 without and with padding.\<close>

definition decodeSymmetricKey :: "string \<Rightarrow> string + bytes" where
  "decodeSymmetricKey raw =
     (let trimmed = TrimSpace raw;
          key = (\<lambda>d. case d of None \<Rightarrow> None | Some k \<Rightarrow> if length k = 32 then Some k else None)
      in if trimmed = [] then Inl ''service identity master key is required''
         else case key (hex_decode trimmed) of
           Some k \<Rightarrow> Inr k
         | None \<Rightarrow>
         (case key (DecodeString RawStdEncoding trimmed) of
            Some k \<Rightarrow> Inr k
          | None \<Rightarrow>
         (case key (DecodeString StdEncoding trimmed) of
            Some k \<Rightarrow> Inr k
          | None \<Rightarrow> Inl ''service identity master key must decode to 32 bytes'')))"

text \<open>The nonce of 12 bytes stands before what \<open>Seal\<close> gives. A key of 32 bytes makes a cipher.\<close>

definition WrapServiceIdentityPrivateKey :: "secret_env \<Rightarrow> bytes option \<Rightarrow> bytes \<Rightarrow> string \<Rightarrow> string + bytes \<times> string" where
  "WrapServiceIdentityPrivateKey K rnd privateKey masterKey =
     (case decodeSymmetricKey masterKey of
        Inl e \<Rightarrow> Inl e
      | Inr key \<Rightarrow>
          (case rnd of
             None \<Rightarrow> Inl ''generate service identity nonce''
           | Some b \<Rightarrow> (let nonce = take 12 b
                        in Inr (nonce @ gcm_seal K key nonce privateKey, serviceIdentityWrappingKeyVersion))))"

section \<open>A hash is verified against its password\<close>

lemma Split_append:
  assumes "sep \<notin> set p"
  shows "Split sep (p @ sep # s) = p # Split sep s" and "Split sep p = [p]"
  using assms by (induction p) auto

lemma raw_alphabet: "CHR ''$'' \<notin> set (EncodeToString RawStdEncoding bs)"
proof -
  have "set (EncodeToString RawStdEncoding bs) \<subseteq> set std_alphabet"
    using sextets_less alphabet_props [of RawStdEncoding]
    by (fastforce simp: EncodeToString_def intro!: nth_mem)
  then show ?thesis by (auto simp: std_alphabet_def)
qed

lemma itoa_no_dollar: "0 \<le> n \<Longrightarrow> CHR ''$'' \<notin> set (itoa n)"
  using digits_of_digits [of "nat n"] by (auto simp: itoa_def list_all_iff is_digit_def)

lemma Sscanf_u_itoa:
  assumes "0 \<le> n" and "n < 2 ^ w"
  shows "Sscanf_u w (itoa n) = Some n"
proof -
  obtain c cs where c: "itoa n = c # cs" by (cases "itoa n") auto
  then have "visible c" by (rule itoa_visible)
  then have "trim_front (filter (\<lambda>p. p \<noteq> [CHR ''\<newline>'']) space_seqs) (c # cs) = c # cs"
    by (intro trim_front_id) (use space_heads in fastforce)
  then have "takeWhile is_digit (trim_front (filter (\<lambda>p. p \<noteq> [CHR ''\<newline>'']) space_seqs) (itoa n)) = itoa n"
    using assms(1) by (simp add: c [symmetric] itoa_def takeWhile_digits)
  then show ?thesis using assms digits_value_digits_of [of "nat n"] digits_of_digits [of "nat n"]
    unfolding Sscanf_u_def Let_def by (simp add: itoa_def)
qed

text \<open>
  Hashing a password succeeds with 16 random bytes, and the stored hash accepts exactly the passwords that
  Argon2id maps to the same key under the same salt, the password itself among them.
\<close>

theorem password_roundtrip:
  assumes "argon2_documented K" and "length salt = 16"
  shows "\<exists>h. HashAdminPassword K (Some salt) p = Some h \<and> VerifyAdminPassword K p h = Some (Inr True) \<and>
    (\<forall>q. VerifyAdminPassword K q h =
       Some (Inr (IDKey K (bytes_of_string q) salt 3 65536 1 32 = IDKey K (bytes_of_string p) salt 3 65536 1 32)))"
proof -
  have k: "\<exists>k. IDKey K (bytes_of_string q) salt 3 65536 1 32 = Some k \<and> length k = 32" for q
    using assms(1) by (simp add: argon2_documented_def)
  then obtain key where key: "IDKey K (bytes_of_string p) salt 3 65536 1 32 = Some key" "length key = 32" by blast
  let ?s = "EncodeToString RawStdEncoding salt" and ?k = "EncodeToString RawStdEncoding key"
  let ?h = "''argon2id'' @ CHR ''$'' # itoa 3 @ CHR ''$'' # itoa 65536 @ CHR ''$'' # itoa 1 @ CHR ''$'' # ?s @ CHR ''$'' # ?k"
  have h: "HashAdminPassword K (Some salt) p = Some ?h"
    using assms(2) key by (simp add: HashAdminPassword_def adminPasswordIterations_def adminPasswordMemoryKiB_def
        adminPasswordParallelism_def adminPasswordSaltSize_def adminPasswordKeySize_def)
  have sp: "Split (CHR ''$'') ?h = [''argon2id'', itoa 3, itoa 65536, itoa 1, ?s, ?k]"
    using raw_alphabet [of salt] raw_alphabet [of key] by (simp add: Split_append itoa_no_dollar)
  have n: "Sscanf_u 32 (itoa 3) = Some 3" "Sscanf_u 32 (itoa 65536) = Some 65536" "Sscanf_u 8 (itoa 1) = Some 1"
    by (simp_all add: Sscanf_u_itoa)
  have v: "VerifyAdminPassword K q ?h = map_option (\<lambda>a. Inr (a = key)) (IDKey K (bytes_of_string q) salt 3 65536 1 32)" for q
    unfolding VerifyAdminPassword_def sp using key by (simp add: n base64_roundtrip)
  have "VerifyAdminPassword K q ?h =
      Some (Inr (IDKey K (bytes_of_string q) salt 3 65536 1 32 = IDKey K (bytes_of_string p) salt 3 65536 1 32))" for q
    using k [of q] key(1) v [of q] by auto
  then show ?thesis by (intro exI [of _ ?h] conjI allI h) simp_all
qed

definition toy_secrets :: secret_env where
  "toy_secrets = \<lparr>IDKey = (\<lambda>p s t m th n. if t < 1 \<or> th < 1 then None else Some (take n (p @ replicate n 0))),
     gcm_seal = (\<lambda>k n p. p)\<rparr>"

theorem password_roundtrip_witness:
  "\<exists>h. HashAdminPassword toy_secrets (Some (replicate 16 7)) ''correct horse'' = Some h \<and>
     VerifyAdminPassword toy_secrets ''correct horse'' h = Some (Inr True) \<and>
     VerifyAdminPassword toy_secrets ''battery staple'' h = Some (Inr False)"
proof -
  have "argon2_documented toy_secrets" by (auto simp: argon2_documented_def toy_secrets_def min_def)
  moreover have "bytes_of_string ''correct horse'' \<noteq> take 13 (bytes_of_string ''battery staple'')"
    by (simp add: bytes_of_string_def)
  ultimately show ?thesis
    using password_roundtrip [of toy_secrets "replicate 16 7" "''correct horse''"]
    by (simp add: toy_secrets_def bytes_of_string_def) (elim exE conjE, intro exI conjI, assumption, assumption, simp)
qed

end
