(* ===== verification/Handshake.thy ===== *)
theory Handshake
  imports Mls
begin

text \<open>
  The handshake document and the snapshot of the configuration behind it: \<open>internal/api/handshake.go\<close>, and the
  constants of \<open>internal/version/version.go\<close>. The three version strings can be set at build time.
\<close>

section \<open>The snapshot\<close>

record InstanceCache =
  ca_name :: string
  ca_iconURL :: "string option"
  ca_registrationMode :: string
  ca_guildDiscovery :: string
  ca_voiceKeyRotationHours :: int
  ca_serverCreationPolicy :: string
  ca_screenShareResolutionCap :: string
  ca_maxAttachmentBytes :: int
  ca_transparencyURL :: "string option"
  ca_logPublicKey :: "string option"

definition voiceKeyRotationHoursDefault :: int where
  "voiceKeyRotationHoursDefault = 2"

definition default_to :: "string \<Rightarrow> string \<Rightarrow> string" where
  "default_to d s = (if s \<noteq> [] then s else d)"

definition NewInstanceCache :: InstanceCache where
  "NewInstanceCache = \<lparr>ca_name = [], ca_iconURL = None, ca_registrationMode = [], ca_guildDiscovery = ''allowed'',
     ca_voiceKeyRotationHours = voiceKeyRotationHoursDefault, ca_serverCreationPolicy = ''open'',
     ca_screenShareResolutionCap = ''1080p'', ca_maxAttachmentBytes = MaxAttachmentBytes, ca_transparencyURL = None,
     ca_logPublicKey = None\<rparr>"

definition cache_Set :: "string \<Rightarrow> string option \<Rightarrow> string \<Rightarrow> string \<Rightarrow> int \<Rightarrow> string \<Rightarrow> string \<Rightarrow> InstanceCache \<Rightarrow> InstanceCache" where
  "cache_Set name iconURL regMode gd hours policy cap k = k\<lparr>ca_name := name, ca_iconURL := iconURL,
     ca_registrationMode := regMode, ca_guildDiscovery := gd,
     ca_voiceKeyRotationHours := (if hours > 0 then hours else voiceKeyRotationHoursDefault),
     ca_serverCreationPolicy := default_to ''open'' policy, ca_screenShareResolutionCap := default_to ''1080p'' cap\<rparr>"

definition SetAttachmentPolicy :: "int \<Rightarrow> InstanceCache \<Rightarrow> InstanceCache" where
  "SetAttachmentPolicy n k = k\<lparr>ca_maxAttachmentBytes := (if n > 0 then n else MaxAttachmentBytes)\<rparr>"

definition SetTransparencyInfo :: "string option \<Rightarrow> string option \<Rightarrow> InstanceCache \<Rightarrow> InstanceCache" where
  "SetTransparencyInfo url key k = k\<lparr>ca_transparencyURL := url, ca_logPublicKey := key\<rparr>"

definition snapshot :: "InstanceCache \<Rightarrow> InstanceCache" where
  "snapshot k = k\<lparr>
     ca_guildDiscovery := default_to ''allowed'' (ca_guildDiscovery k),
     ca_voiceKeyRotationHours :=
       (if ca_voiceKeyRotationHours k = 0 then voiceKeyRotationHoursDefault else ca_voiceKeyRotationHours k),
     ca_serverCreationPolicy := default_to ''open'' (ca_serverCreationPolicy k),
     ca_screenShareResolutionCap := default_to ''1080p'' (ca_screenShareResolutionCap k),
     ca_maxAttachmentBytes := (if ca_maxAttachmentBytes k \<le> 0 then MaxAttachmentBytes else ca_maxAttachmentBytes k)\<rparr>"

section \<open>The handshake\<close>

record version_env =
  ServerVersion :: string
  APIVersion :: string
  MinClientVersion :: string

definition CurrentDBSchemaVersion :: nat where
  "CurrentDBSchemaVersion = 37"

definition MinCompatibleDBSchemaVersion :: nat where
  "MinCompatibleDBSchemaVersion = 37"

definition CryptoCompatRanges :: "(string \<times> string) list" where
  "CryptoCompatRanges = [(''@gethush/hush-crypto'', ''0.2.2'')]"

record handshakeResponse =
  hs_ServerVersion :: string
  hs_APIVersion :: string
  hs_MinClientVersion :: string
  hs_MinCompatibleClientVersion :: string
  hs_CurrentDBSchemaVersion :: nat
  hs_MinCompatibleDBSchemaVersion :: nat
  hs_CryptoCompatRanges :: "(string \<times> string) list"
  hs_KeyPackageLowThreshold :: nat
  hs_GuildDiscovery :: string
  hs_ServerCreationPolicy :: string
  hs_ScreenShareResolutionCap :: string
  hs_MaxAttachmentBytes :: int
  hs_Capabilities :: "(string \<times> bool) list"
  hs_CurrentMLSCiphersuite :: int
  hs_Name :: string
  hs_IconURL :: "string option"
  hs_RegistrationMode :: string
  hs_VoiceKeyRotationHours :: int
  hs_TransparencyURL :: "string option"
  hs_LogPublicKey :: "string option"

definition HandshakeHandler :: "version_env \<Rightarrow> bool \<Rightarrow> InstanceCache \<Rightarrow> handshakeResponse" where
  "HandshakeHandler V voiceEnabled cached = (let k = snapshot cached in
     \<lparr>hs_ServerVersion = ServerVersion V, hs_APIVersion = APIVersion V, hs_MinClientVersion = MinClientVersion V,
      hs_MinCompatibleClientVersion = MinClientVersion V, hs_CurrentDBSchemaVersion = CurrentDBSchemaVersion,
      hs_MinCompatibleDBSchemaVersion = MinCompatibleDBSchemaVersion, hs_CryptoCompatRanges = CryptoCompatRanges,
      hs_KeyPackageLowThreshold = KeyPackageLowThreshold, hs_GuildDiscovery = ca_guildDiscovery k,
      hs_ServerCreationPolicy = ca_serverCreationPolicy k, hs_ScreenShareResolutionCap = ca_screenShareResolutionCap k,
      hs_MaxAttachmentBytes = ca_maxAttachmentBytes k,
      hs_Capabilities = [(''e2ee.chat'', True), (''e2ee.media'', True), (''voice.channels'', voiceEnabled)],
      hs_CurrentMLSCiphersuite = CurrentMLSCiphersuite, hs_Name = ca_name k, hs_IconURL = ca_iconURL k,
      hs_RegistrationMode = ca_registrationMode k, hs_VoiceKeyRotationHours = ca_voiceKeyRotationHours k,
      hs_TransparencyURL = ca_transparencyURL k, hs_LogPublicKey = ca_logPublicKey k\<rparr>)"

section \<open>Schema and binary\<close>

text \<open>
  \<open>internal/dbcompat/schema.go\<close>: what the reader of \<open>schema_migrations\<close> says, and whether this binary may start. The
  texts of the refusals are left out.
\<close>

datatype schema_state = ErrNilVersion | ReadError | SchemaAt nat bool

datatype schema_error = NilReader | SchemaUnreadable | dirtySchemaError nat | aheadOfBinaryError nat

definition CheckSchemaCompatibility :: "schema_state option \<Rightarrow> schema_error option" where
  "CheckSchemaCompatibility r =
     (case r of
        None \<Rightarrow> Some NilReader
      | Some ErrNilVersion \<Rightarrow> None
      | Some ReadError \<Rightarrow> Some SchemaUnreadable
      | Some (SchemaAt dbVersion dirty) \<Rightarrow>
          (if dirty then Some (dirtySchemaError dbVersion)
           else if dbVersion > CurrentDBSchemaVersion then Some (aheadOfBinaryError dbVersion)
           else None))"

end
