(* ===== verification/Admin_DB.thy ===== *)
theory Admin_DB
  imports Invites Passwords Handshake
begin

text \<open>
  The tables of the instance administration and their queries: \<open>internal/db/instance.go\<close>, \<open>admin_accounts.go\<close>,
  \<open>admin_sessions.go\<close>, \<open>service_identity.go\<close>, and the list of a user's guilds from \<open>servers.go\<close>. They stand over
  the accounts and guilds of \<open>lobby\<close>. The row of \<open>instance_config\<close> is spread over the parts of the state that read
  it: mode and user limit with the accounts, discovery with the lobby, the limits of guilds in \<open>cd_policy\<close>, and
  what is left in \<open>plate\<close>; \<open>GetInstanceConfig\<close> puts it together.
\<close>

section \<open>State\<close>

record InstanceAdmin =
  am_ID :: string
  am_Username :: string
  am_Email :: "string option"
  am_PasswordHash :: string
  am_Role :: string
  am_IsActive :: bool
  am_LastLoginAt :: "time option"
  am_CreatedAt :: time
  am_UpdatedAt :: time

record InstanceAdminSession =
  as_ID :: string
  as_AdminID :: string
  as_TokenHash :: string
  as_ExpiresAt :: time
  as_LastSeenAt :: "time option"
  as_CreatedIP :: "string option"
  as_UserAgent :: "string option"
  as_CreatedAt :: time
  as_RevokedAt :: "time option"

record InstanceServiceIdentity =
  si_ID :: string
  si_Username :: string
  si_PublicKey :: bytes
  si_WrappedPrivateKey :: bytes
  si_WrappingKeyVersion :: string
  si_CreatedAt :: time
  si_UpdatedAt :: time

record InstanceAuditLogEntry =
  ia_ID :: string
  ia_ActorID :: string
  ia_TargetID :: "string option"
  ia_Action :: string
  ia_Reason :: string
  ia_Metadata :: "metadata option"
  ia_CreatedAt :: time

record plate =
  pl_ID :: string
  pl_Name :: string
  pl_IconURL :: "string option"
  pl_ScreenShareResolutionCap :: string
  pl_VoiceKeyRotationHours :: int
  pl_CreatedAt :: time

record console =
  hall :: lobby
  admins :: "InstanceAdmin list"
  admin_sessions :: "InstanceAdminSession list"
  service_identities :: "InstanceServiceIdentity list"
  instance_audit :: "InstanceAuditLogEntry list"
  config_plate :: plate
  cache :: "InstanceCache option"

type_synonym 'a console_op = "console \<Rightarrow> (db_error + 'a) \<times> console"

definition on_hall :: "'a lobby_op \<Rightarrow> 'a console_op" where
  "on_hall q c = (case q (hall c) of (r, s) \<Rightarrow> (r, c\<lparr>hall := s\<rparr>))"

abbreviation with_guilds :: "'a chat_op \<Rightarrow> 'a console_op" where
  "with_guilds q \<equiv> on_hall (on_guilds q)"

abbreviation with_people :: "'a query \<Rightarrow> 'a console_op" where
  "with_people q \<equiv> on_hall (on_people q)"

text \<open>A statement on the tables of this theory: it fails with the guild tables' schedule.\<close>

definition console_query :: "(time \<Rightarrow> string \<Rightarrow> 'a console_op) \<Rightarrow> 'a console_op" where
  "console_query q c = (case with_guilds (chat_query (\<lambda>now uuid d. (Inr (now, uuid), d))) c of
     (Inl e, c') \<Rightarrow> (Inl e, c') | (Inr (now, uuid), c') \<Rightarrow> q now uuid c')"

definition console_read :: "(time \<Rightarrow> console \<Rightarrow> 'a) \<Rightarrow> 'a console_op" where
  "console_read p = console_query (\<lambda>now _ c. (Inr (p now c), c))"

definition hall_hub :: "(Hub \<Rightarrow> Hub option) \<Rightarrow> console \<Rightarrow> console option" where
  "hall_hub f c = map_option (\<lambda>s. c\<lparr>hall := s\<rparr>) (lobby_hub f (hall c))"

text \<open>A change of the user accounts, of the guild tables.\<close>

definition set_people :: "(auth_db \<Rightarrow> auth_db) \<Rightarrow> lobby \<Rightarrow> lobby" where
  "set_people f s = s\<lparr>core := (core s)\<lparr>accounts := (accounts (core s))\<lparr>adb := f (people s)\<rparr>\<rparr>\<rparr>"

definition set_guilds :: "(chat_db \<Rightarrow> chat_db) \<Rightarrow> lobby \<Rightarrow> lobby" where
  "set_guilds f s = s\<lparr>core := (core s)\<lparr>site := (site (core s))\<lparr>cdb := f (guilds s)\<rparr>\<rparr>\<rparr>"

section \<open>Admin accounts\<close>

definition CountInstanceAdmins :: "nat console_op" where
  "CountInstanceAdmins = console_read (\<lambda>_ c. length (admins c))"

definition CreateInstanceAdmin :: "string \<Rightarrow> string option \<Rightarrow> string \<Rightarrow> string \<Rightarrow> InstanceAdmin console_op" where
  "CreateInstanceAdmin username email passwordHash role = console_query (\<lambda>now uuid c.
     let a = \<lparr>am_ID = uuid, am_Username = username, am_Email = email, am_PasswordHash = passwordHash, am_Role = role,
              am_IsActive = True, am_LastLoginAt = None, am_CreatedAt = now, am_UpdatedAt = now\<rparr>
     in if role \<notin> {''owner'', ''admin''} then (Inl DbCheck, c)
        else if sql_exists (\<lambda>r. am_ID r = uuid) (admins c) then (Inl (DbUnique ''instance_admins_pkey''), c)
        else if sql_exists (\<lambda>r. am_Username r = username) (admins c)
        then (Inl (DbUnique ''instance_admins_username_key''), c)
        else if email \<noteq> None \<and> sql_exists (\<lambda>r. am_Email r = email) (admins c)
        then (Inl (DbUnique ''idx_instance_admins_email_unique''), c)
        else (Inr a, c\<lparr>admins := admins c @ [a]\<rparr>))"

definition GetInstanceAdminByUsername :: "string \<Rightarrow> InstanceAdmin option console_op" where
  "GetInstanceAdminByUsername username = console_read (\<lambda>_ c. find (\<lambda>a. am_Username a = username) (admins c))"

definition GetInstanceAdminByID :: "string \<Rightarrow> InstanceAdmin option console_op" where
  "GetInstanceAdminByID i = console_read (\<lambda>_ c. find (\<lambda>a. am_ID a = i) (admins c))"

definition ListInstanceAdmins :: "InstanceAdmin list console_op" where
  "ListInstanceAdmins = console_read (\<lambda>_ c. sort_key am_CreatedAt (admins c))"

definition UpdateInstanceAdmin :: "string \<Rightarrow> string option \<Rightarrow> string \<Rightarrow> bool \<Rightarrow> InstanceAdmin option console_op" where
  "UpdateInstanceAdmin i email role isActive = console_query (\<lambda>now _ c.
     let f = (\<lambda>a. a\<lparr>am_Email := email, am_Role := role, am_IsActive := isActive, am_UpdatedAt := now\<rparr>)
     in case find (\<lambda>a. am_ID a = i) (admins c) of
          None \<Rightarrow> (Inr None, c)
        | Some a \<Rightarrow>
            (if role \<notin> {''owner'', ''admin''} then (Inl DbCheck, c)
             else if email \<noteq> None \<and> sql_exists (\<lambda>r. am_Email r = email \<and> am_ID r \<noteq> i) (admins c)
             then (Inl (DbUnique ''idx_instance_admins_email_unique''), c)
             else (Inr (Some (f a)), c\<lparr>admins := sql_update (\<lambda>r. am_ID r = i) f (admins c)\<rparr>)))"

definition UpdateInstanceAdminPassword :: "string \<Rightarrow> string \<Rightarrow> unit console_op" where
  "UpdateInstanceAdminPassword i passwordHash = console_query (\<lambda>now _ c.
     (Inr (), c\<lparr>admins := sql_update (\<lambda>a. am_ID a = i)
        (\<lambda>a. a\<lparr>am_PasswordHash := passwordHash, am_UpdatedAt := now\<rparr>) (admins c)\<rparr>))"

definition TouchInstanceAdminLastLogin :: "string \<Rightarrow> time \<Rightarrow> unit console_op" where
  "TouchInstanceAdminLastLogin i loginAt = console_query (\<lambda>now _ c.
     (Inr (), c\<lparr>admins := sql_update (\<lambda>a. am_ID a = i)
        (\<lambda>a. a\<lparr>am_LastLoginAt := Some loginAt, am_UpdatedAt := now\<rparr>) (admins c)\<rparr>))"

section \<open>Admin sessions\<close>

definition CreateInstanceAdminSession ::
  "string \<Rightarrow> string \<Rightarrow> string \<Rightarrow> time \<Rightarrow> string option \<Rightarrow> string option \<Rightarrow> InstanceAdminSession console_op" where
  "CreateInstanceAdminSession sessionID adminID tokenHash expiresAt createdIP userAgent = console_query (\<lambda>now _ c.
     let s = \<lparr>as_ID = sessionID, as_AdminID = adminID, as_TokenHash = tokenHash, as_ExpiresAt = expiresAt,
              as_LastSeenAt = None, as_CreatedIP = createdIP, as_UserAgent = userAgent, as_CreatedAt = now,
              as_RevokedAt = None\<rparr>
     in if sql_exists (\<lambda>r. as_ID r = sessionID) (admin_sessions c)
        then (Inl (DbUnique ''instance_admin_sessions_pkey''), c)
        else if sql_exists (\<lambda>r. as_TokenHash r = tokenHash) (admin_sessions c)
        then (Inl (DbUnique ''instance_admin_sessions_token_hash_key''), c)
        else if \<not> sql_exists (\<lambda>a. am_ID a = adminID) (admins c) then (Inl DbForeignKey, c)
        else (Inr s, c\<lparr>admin_sessions := admin_sessions c @ [s]\<rparr>))"

definition GetInstanceAdminSessionByTokenHash :: "string \<Rightarrow> InstanceAdminSession option console_op" where
  "GetInstanceAdminSessionByTokenHash tokenHash = console_read (\<lambda>now c.
     find (\<lambda>s. as_TokenHash s = tokenHash \<and> as_RevokedAt s = None \<and> as_ExpiresAt s > now) (admin_sessions c))"

definition DeleteInstanceAdminSessionByID :: "string \<Rightarrow> unit console_op" where
  "DeleteInstanceAdminSessionByID sessionID = console_query (\<lambda>now _ c.
     (Inr (), c\<lparr>admin_sessions := sql_update (\<lambda>s. as_ID s = sessionID \<and> as_RevokedAt s = None)
        (\<lambda>s. s\<lparr>as_RevokedAt := Some now\<rparr>) (admin_sessions c)\<rparr>))"

definition PurgeStaleAdminSessions :: "time \<Rightarrow> nat console_op" where
  "PurgeStaleAdminSessions revokedRetention = console_query (\<lambda>now _ c.
     let old = (\<lambda>s. as_ExpiresAt s < now \<or> (case as_RevokedAt s of None \<Rightarrow> False | Some t \<Rightarrow> t < now - revokedRetention))
     in (Inr (sql_count old (admin_sessions c)), c\<lparr>admin_sessions := sql_delete old (admin_sessions c)\<rparr>))"

definition UpdateInstanceAdminSessionLastSeen :: "string \<Rightarrow> time \<Rightarrow> unit console_op" where
  "UpdateInstanceAdminSessionLastSeen sessionID seenAt = console_query (\<lambda>_ _ c.
     (Inr (), c\<lparr>admin_sessions := sql_update (\<lambda>s. as_ID s = sessionID \<and> as_RevokedAt s = None)
        (\<lambda>s. s\<lparr>as_LastSeenAt := Some seenAt\<rparr>) (admin_sessions c)\<rparr>))"

section \<open>The service identity\<close>

definition GetInstanceServiceIdentity :: "InstanceServiceIdentity option console_op" where
  "GetInstanceServiceIdentity = console_read (\<lambda>_ c. case service_identities c of [] \<Rightarrow> None | i # _ \<Rightarrow> Some i)"

definition UpsertInstanceServiceIdentity ::
  "string \<Rightarrow> bytes \<Rightarrow> bytes \<Rightarrow> string \<Rightarrow> InstanceServiceIdentity console_op" where
  "UpsertInstanceServiceIdentity username publicKey wrappedPrivateKey version = console_query (\<lambda>now uuid c.
     let f = (\<lambda>i. i\<lparr>si_PublicKey := publicKey, si_WrappedPrivateKey := wrappedPrivateKey,
                   si_WrappingKeyVersion := version, si_UpdatedAt := now\<rparr>);
         n = \<lparr>si_ID = uuid, si_Username = username, si_PublicKey = publicKey, si_WrappedPrivateKey = wrappedPrivateKey,
              si_WrappingKeyVersion = version, si_CreatedAt = now, si_UpdatedAt = now\<rparr>
     in case find (\<lambda>i. si_Username i = username) (service_identities c) of
          Some i \<Rightarrow> (Inr (f i), c\<lparr>service_identities := sql_update (\<lambda>i. si_Username i = username) f (service_identities c)\<rparr>)
        | None \<Rightarrow>
            (if sql_exists (\<lambda>i. si_ID i = uuid) (service_identities c)
             then (Inl (DbUnique ''instance_service_identity_pkey''), c)
             else (Inr n, c\<lparr>service_identities := service_identities c @ [n]\<rparr>)))"

section \<open>The configuration\<close>

record InstanceSettings =
  is_ID :: string
  is_Name :: string
  is_IconURL :: "string option"
  is_RegistrationMode :: string
  is_GuildDiscovery :: string
  is_ServerCreationPolicy :: string
  is_MaxServersPerUser :: "int option"
  is_MaxMembersPerServer :: "int option"
  is_MaxRegisteredUsers :: "int option"
  is_ScreenShareResolutionCap :: string
  is_MaxAttachmentBytes :: int
  is_MaxGuildAttachmentStorageBytes :: "int option"
  is_MessageRetentionDays :: int
  is_CreatedAt :: time

text \<open>Without a row the scan fails; so does the scan of a \<open>NULL\<close> into a string.\<close>

definition GetInstanceConfig_row :: "InstanceSettings console_op" where
  "GetInstanceConfig_row = console_query (\<lambda>_ _ c.
     let p = config_plate c; g = cd_policy (guilds (hall c))
     in case (instance_config (people (hall c)), guild_discovery (hall c)) of
          (None, _) \<Rightarrow> (Inl DbNoRows, c)
        | (Some i, None) \<Rightarrow> (Inl DbCheck, c)
        | (Some i, Some gd) \<Rightarrow> (Inr \<lparr>is_ID = pl_ID p, is_Name = pl_Name p, is_IconURL = pl_IconURL p,
            is_RegistrationMode = ic_RegistrationMode i, is_GuildDiscovery = gd,
            is_ServerCreationPolicy = gp_ServerCreationPolicy g, is_MaxServersPerUser = gp_MaxServersPerUser g,
            is_MaxMembersPerServer = gp_MaxMembersPerServer g, is_MaxRegisteredUsers = ic_MaxRegisteredUsers i,
            is_ScreenShareResolutionCap = pl_ScreenShareResolutionCap p, is_MaxAttachmentBytes = gp_MaxAttachmentBytes g,
            is_MaxGuildAttachmentStorageBytes = gp_MaxGuildAttachmentStorageBytes g,
            is_MessageRetentionDays = gp_MessageRetentionDays g, is_CreatedAt = pl_CreatedAt p\<rparr>, c))"

definition GetVoiceKeyRotationHours :: "int console_op" where
  "GetVoiceKeyRotationHours = console_read (\<lambda>_ c.
     if instance_config (people (hall c)) = None then 2 else pl_VoiceKeyRotationHours (config_plate c))"

text \<open>The fields of an update, \<open>None\<close> where the request leaves them alone.\<close>

record settings_update =
  su_Name :: "string option"
  su_IconURL :: "string option"
  su_RegistrationMode :: "string option"
  su_GuildDiscovery :: "string option"
  su_ServerCreationPolicy :: "string option"
  su_MaxServersPerUser :: "int option"
  su_MaxMembersPerServer :: "int option"
  su_MaxRegisteredUsers :: "int option"
  su_ScreenShareResolutionCap :: "string option"
  su_MaxAttachmentBytes :: "int option"
  su_MaxGuildAttachmentStorageBytes :: "int option"
  su_MessageRetentionDays :: "int option"

definition no_update :: settings_update where
  "no_update = \<lparr>su_Name = None, su_IconURL = None, su_RegistrationMode = None, su_GuildDiscovery = None,
     su_ServerCreationPolicy = None, su_MaxServersPerUser = None, su_MaxMembersPerServer = None,
     su_MaxRegisteredUsers = None, su_ScreenShareResolutionCap = None, su_MaxAttachmentBytes = None,
     su_MaxGuildAttachmentStorageBytes = None, su_MessageRetentionDays = None\<rparr>"

text \<open>A zero takes the limit away.\<close>

definition set_limit :: "int option \<Rightarrow> int option \<Rightarrow> int option" where
  "set_limit u old = (case u of None \<Rightarrow> old | Some n \<Rightarrow> if n = 0 then None else Some n)"

abbreviation set_field :: "'a option \<Rightarrow> 'a \<Rightarrow> 'a" where
  "set_field u old \<equiv> (case u of None \<Rightarrow> old | Some v \<Rightarrow> v)"

text \<open>
  The \<open>CHECK\<close> constraints of the migrations on the values that an update brings, and the ranges of the columns. The
  mode \<open>closed\<close> is not among those of migration 000005.
\<close>

definition update_checks :: "settings_update \<Rightarrow> bool" where
  "update_checks u \<longleftrightarrow>
     (case su_RegistrationMode u of None \<Rightarrow> True | Some v \<Rightarrow> v \<in> {''open'', ''invite_only''}) \<and>
     (case su_GuildDiscovery u of None \<Rightarrow> True | Some v \<Rightarrow> v \<in> {''disabled'', ''allowed'', ''required''}) \<and>
     (case su_ServerCreationPolicy u of None \<Rightarrow> True | Some v \<Rightarrow> v \<in> {''open'', ''paid'', ''disabled''}) \<and>
     (case su_MaxServersPerUser u of None \<Rightarrow> True | Some n \<Rightarrow> int4 n) \<and>
     (case su_MaxMembersPerServer u of None \<Rightarrow> True | Some n \<Rightarrow> int4 n) \<and>
     (case su_MaxRegisteredUsers u of None \<Rightarrow> True | Some n \<Rightarrow> int4 n \<and> n \<ge> 0) \<and>
     (case su_ScreenShareResolutionCap u of None \<Rightarrow> True | Some v \<Rightarrow> v \<in> {''1080p'', ''720p''}) \<and>
     (case su_MaxAttachmentBytes u of None \<Rightarrow> True | Some n \<Rightarrow> n \<ge> 1) \<and>
     (case su_MaxGuildAttachmentStorageBytes u of None \<Rightarrow> True | Some n \<Rightarrow> n \<ge> 0) \<and>
     (case su_MessageRetentionDays u of None \<Rightarrow> True | Some n \<Rightarrow> int4 n \<and> n \<ge> 1)"

definition apply_update :: "settings_update \<Rightarrow> console \<Rightarrow> console" where
  "apply_update u c = c\<lparr>
     hall := set_people (\<lambda>d. d\<lparr>instance_config := map_option (\<lambda>i. i\<lparr>
                 ic_RegistrationMode := set_field (su_RegistrationMode u) (ic_RegistrationMode i),
                 ic_MaxRegisteredUsers := set_limit (su_MaxRegisteredUsers u) (ic_MaxRegisteredUsers i)\<rparr>)
               (instance_config d)\<rparr>)
             (set_guilds (\<lambda>d. d\<lparr>cd_policy := (cd_policy d)\<lparr>
                 gp_ServerCreationPolicy := set_field (su_ServerCreationPolicy u) (gp_ServerCreationPolicy (cd_policy d)),
                 gp_MaxServersPerUser := set_limit (su_MaxServersPerUser u) (gp_MaxServersPerUser (cd_policy d)),
                 gp_MaxMembersPerServer := set_limit (su_MaxMembersPerServer u) (gp_MaxMembersPerServer (cd_policy d)),
                 gp_MaxAttachmentBytes := set_field (su_MaxAttachmentBytes u) (gp_MaxAttachmentBytes (cd_policy d)),
                 gp_MaxGuildAttachmentStorageBytes :=
                   set_limit (su_MaxGuildAttachmentStorageBytes u) (gp_MaxGuildAttachmentStorageBytes (cd_policy d)),
                 gp_MessageRetentionDays := set_field (su_MessageRetentionDays u) (gp_MessageRetentionDays (cd_policy d))\<rparr>\<rparr>)
               ((hall c)\<lparr>guild_discovery := (case su_GuildDiscovery u of None \<Rightarrow> guild_discovery (hall c) | Some v \<Rightarrow> Some v)\<rparr>)),
     config_plate := (config_plate c)\<lparr>
       pl_Name := set_field (su_Name u) (pl_Name (config_plate c)),
       pl_IconURL := (case su_IconURL u of None \<Rightarrow> pl_IconURL (config_plate c) | Some v \<Rightarrow> Some v),
       pl_ScreenShareResolutionCap :=
         set_field (su_ScreenShareResolutionCap u) (pl_ScreenShareResolutionCap (config_plate c))\<rparr>\<rparr>"

text \<open>Without a field there is no statement; without a row it updates nothing.\<close>

definition UpdateInstanceConfig :: "settings_update \<Rightarrow> unit console_op" where
  "UpdateInstanceConfig u c =
     (if u = no_update then (Inr (), c)
      else console_query (\<lambda>_ _ c.
        if instance_config (people (hall c)) = None then (Inr (), c)
        else if \<not> update_checks u then (Inl DbCheck, c)
        else (Inr (), apply_update u c)) c)"

section \<open>Server templates\<close>

text \<open>Characters, for \<open>VARCHAR(n)\<close>: the bytes that do not continue one in UTF-8.\<close>

definition char_length :: "string \<Rightarrow> nat" where
  "char_length s = length (filter (\<lambda>c. (of_char c :: nat) < 128 \<or> 192 \<le> (of_char c :: nat)) s)"

definition templates_query :: "(time \<Rightarrow> string \<Rightarrow> ServerTemplate list \<Rightarrow> (db_error + 'a) \<times> ServerTemplate list) \<Rightarrow> 'a console_op" where
  "templates_query q = with_guilds (chat_query (\<lambda>now uuid d.
     case q now uuid (cd_templates d) of (r, ts) \<Rightarrow> (r, d\<lparr>cd_templates := ts\<rparr>)))"

definition ListServerTemplates :: "ServerTemplate list console_op" where
  "ListServerTemplates = templates_query (\<lambda>_ _ ts. (Inr (sort_key st_Position (sort_key st_CreatedAt ts)), ts))"

text \<open>\<open>clear_defaults\<close>, \<open>next_position\<close> and the insertion are statements of their own, with no transaction around them.\<close>

definition clear_defaults :: "(string \<Rightarrow> bool) \<Rightarrow> unit console_op" where
  "clear_defaults other = templates_query (\<lambda>_ _ ts.
     (Inr (), sql_update (\<lambda>t. st_IsDefault t \<and> other (st_ID t)) (\<lambda>t. t\<lparr>st_IsDefault := False\<rparr>) ts))"

definition next_position :: "int console_op" where
  "next_position = templates_query (\<lambda>_ _ ts.
     (Inr (if ts = [] then 0 else Max (set (map st_Position ts)) + 1), ts))"

definition insert_template :: "string \<Rightarrow> TemplateChannel list \<Rightarrow> bool \<Rightarrow> int \<Rightarrow> ServerTemplate console_op" where
  "insert_template name tcs isDefault pos = templates_query (\<lambda>now uuid ts.
     let t = \<lparr>st_ID = uuid, st_Name = name, st_Channels = tcs, st_IsDefault = isDefault, st_Position = pos,
              st_CreatedAt = now, st_UpdatedAt = now\<rparr>
     in if char_length name > 100 \<or> \<not> int4 pos then (Inl DbCheck, ts)
        else if sql_exists (\<lambda>r. st_ID r = uuid) ts then (Inl (DbUnique ''server_templates_pkey''), ts)
        else (Inr t, ts @ [t]))"

text \<open>A position that cannot be read counts as 0.\<close>

definition CreateServerTemplate :: "string \<Rightarrow> TemplateChannel list \<Rightarrow> bool \<Rightarrow> ServerTemplate console_op" where
  "CreateServerTemplate name tcs isDefault c =
     (case (if isDefault then clear_defaults (\<lambda>_. True) c else (Inr (), c)) of
        (Inl e, c1) \<Rightarrow> (Inl e, c1)
      | (Inr _, c1) \<Rightarrow>
          (case next_position c1 of
             (Inl _, c2) \<Rightarrow> insert_template name tcs isDefault 0 c2
           | (Inr pos, c2) \<Rightarrow> insert_template name tcs isDefault pos c2))"

definition update_template :: "string \<Rightarrow> string \<Rightarrow> TemplateChannel list \<Rightarrow> bool \<Rightarrow> unit console_op" where
  "update_template i name tcs isDefault = templates_query (\<lambda>now _ ts.
     if char_length name > 100 \<and> sql_exists (\<lambda>t. st_ID t = i) ts then (Inl DbCheck, ts)
     else (Inr (), sql_update (\<lambda>t. st_ID t = i) (\<lambda>t. t\<lparr>st_Name := name, st_Channels := tcs,
             st_IsDefault := isDefault, st_UpdatedAt := now\<rparr>) ts))"

definition UpdateServerTemplate :: "string \<Rightarrow> string \<Rightarrow> TemplateChannel list \<Rightarrow> bool \<Rightarrow> unit console_op" where
  "UpdateServerTemplate i name tcs isDefault c =
     (case (if isDefault then clear_defaults (\<lambda>j. j \<noteq> i) c else (Inr (), c)) of
        (Inl e, c1) \<Rightarrow> (Inl e, c1)
      | (Inr _, c1) \<Rightarrow> update_template i name tcs isDefault c1)"

definition DeleteServerTemplate :: "string \<Rightarrow> unit console_op" where
  "DeleteServerTemplate i = templates_query (\<lambda>_ _ ts. (Inr (), sql_delete (\<lambda>t. st_ID t = i) ts))"

section \<open>Users\<close>

record Member =
  mb_ID :: string
  mb_Username :: string
  mb_DisplayName :: string
  mb_Role :: string
  mb_CreatedAt :: time

record UserSearchResult = Member +
  sr_IsBanned :: bool
  sr_BanReason :: "string option"
  sr_BanExpiresAt :: "time option"

definition GetUserRole :: "string \<Rightarrow> string console_op" where
  "GetUserRole userID = with_people (db_query (\<lambda>d.
     case find (\<lambda>u. u_ID u = userID) (users d) of None \<Rightarrow> (Inl DbNoRows, d) | Some u \<Rightarrow> (Inr (u_Role u), d)))"

text \<open>\<open>users.role\<close> is \<open>member\<close> or \<open>admin\<close>.\<close>

definition UpdateUserRole :: "string \<Rightarrow> string \<Rightarrow> unit console_op" where
  "UpdateUserRole userID role = with_people (db_query (\<lambda>d.
     if role \<notin> {''member'', ''admin''} \<and> sql_exists (\<lambda>u. u_ID u = userID) (users d) then (Inl DbCheck, d)
     else (Inr (), d\<lparr>users := sql_update (\<lambda>u. u_ID u = userID) (\<lambda>u. u\<lparr>u_Role := role\<rparr>) (users d)\<rparr>)))"

definition ListMembers :: "Member list console_op" where
  "ListMembers = with_people (db_query (\<lambda>d.
     (Inr (map (\<lambda>u. \<lparr>mb_ID = u_ID u, mb_Username = u_Username u, mb_DisplayName = u_DisplayName u, mb_Role = u_Role u,
                     mb_CreatedAt = u_CreatedAt u\<rparr>) (sort_key u_CreatedAt (users d))), d)))"

text \<open>The join gives a row for every active ban of the user, and one without a ban where there is none.\<close>

definition search_rows :: "time \<Rightarrow> InstanceBan list \<Rightarrow> User \<Rightarrow> UserSearchResult list" where
  "search_rows now bans u =
     (let row = (\<lambda>b. \<lparr>mb_ID = u_ID u, mb_Username = u_Username u, mb_DisplayName = u_DisplayName u, mb_Role = u_Role u,
                      mb_CreatedAt = u_CreatedAt u, sr_IsBanned = (b \<noteq> None), sr_BanReason = map_option ib_Reason b,
                      sr_BanExpiresAt = Option.bind b ib_ExpiresAt\<rparr>)
      in case filter (ban_active now (u_ID u)) bans of [] \<Rightarrow> [row None] | bs \<Rightarrow> map (\<lambda>b. row (Some b)) bs)"

definition SearchUsers :: "lobby_env \<Rightarrow> time \<Rightarrow> string \<Rightarrow> int \<Rightarrow> UserSearchResult list console_op" where
  "SearchUsers L now q limit = with_people (db_query (\<lambda>d.
     let n = (if limit \<le> 0 \<or> limit > 25 then 25 else limit)
     in (Inr (take (nat n) (concat (map (search_rows now (instance_bans d))
           (sort_key (\<lambda>u. collation L (u_Username u)) (filter (\<lambda>u. ilike L (q @ ''%'') (u_Username u)) (users d)))))), d)))"

definition DeleteSessionsByUserID :: "string \<Rightarrow> unit console_op" where
  "DeleteSessionsByUserID userID = with_people (db_query (\<lambda>d.
     (Inr (), d\<lparr>sessions := sql_delete (\<lambda>s. s_UserID s = userID) (sessions d)\<rparr>)))"

section \<open>Instance bans\<close>

definition insert_ban :: "(console \<Rightarrow> bool) \<Rightarrow> string \<Rightarrow> string \<Rightarrow> string \<Rightarrow> time option \<Rightarrow> InstanceBan console_op" where
  "insert_ban actor_known userID actorID reason expiresAt = console_query (\<lambda>now uuid c.
     let b = \<lparr>ib_ID = uuid, ib_UserID = userID, ib_ActorID = actorID, ib_Reason = reason, ib_ExpiresAt = expiresAt,
              ib_CreatedAt = now, ib_LiftedAt = None, ib_LiftedBy = None\<rparr>
     in if sql_exists (\<lambda>r. ib_ID r = uuid) (instance_bans (people (hall c))) then (Inl (DbUnique ''instance_bans_pkey''), c)
        else if \<not> sql_exists (\<lambda>u. u_ID u = userID) (users (people (hall c))) \<or> \<not> actor_known c then (Inl DbForeignKey, c)
        else (Inr b, c\<lparr>hall := set_people (\<lambda>d. d\<lparr>instance_bans := instance_bans d @ [b]\<rparr>) (hall c)\<rparr>))"

definition InsertInstanceBan :: "string \<Rightarrow> string \<Rightarrow> string \<Rightarrow> time option \<Rightarrow> InstanceBan console_op" where
  "InsertInstanceBan userID actorID reason expiresAt =
     insert_ban (\<lambda>c. sql_exists (\<lambda>u. u_ID u = actorID) (users (people (hall c)))) userID actorID reason expiresAt"

definition InsertInstanceBanByAdmin :: "string \<Rightarrow> string \<Rightarrow> string \<Rightarrow> time option \<Rightarrow> InstanceBan console_op" where
  "InsertInstanceBanByAdmin userID actorAdminID reason expiresAt =
     insert_ban (\<lambda>c. sql_exists (\<lambda>a. am_ID a = actorAdminID) (admins c)) userID actorAdminID reason expiresAt"

definition lift_ban :: "(console \<Rightarrow> bool) \<Rightarrow> string \<Rightarrow> string \<Rightarrow> unit console_op" where
  "lift_ban lifter_known banID liftedBy = console_query (\<lambda>now _ c.
     let p = (\<lambda>b. ib_ID b = banID \<and> ib_LiftedAt b = None)
     in if sql_exists p (instance_bans (people (hall c))) \<and> \<not> lifter_known c then (Inl DbForeignKey, c)
        else (Inr (), c\<lparr>hall := set_people (\<lambda>d. d\<lparr>instance_bans := sql_update p
               (\<lambda>b. b\<lparr>ib_LiftedAt := Some now, ib_LiftedBy := Some liftedBy\<rparr>) (instance_bans d)\<rparr>) (hall c)\<rparr>))"

definition LiftInstanceBan :: "string \<Rightarrow> string \<Rightarrow> unit console_op" where
  "LiftInstanceBan banID liftedByID =
     lift_ban (\<lambda>c. sql_exists (\<lambda>u. u_ID u = liftedByID) (users (people (hall c)))) banID liftedByID"

definition LiftInstanceBanByAdmin :: "string \<Rightarrow> string \<Rightarrow> unit console_op" where
  "LiftInstanceBanByAdmin banID liftedByAdminID =
     lift_ban (\<lambda>c. sql_exists (\<lambda>a. am_ID a = liftedByAdminID) (admins c)) banID liftedByAdminID"

section \<open>The audit log of the instance\<close>

definition InsertInstanceAuditLog :: "string \<Rightarrow> string option \<Rightarrow> string \<Rightarrow> string \<Rightarrow> metadata option \<Rightarrow> unit console_op" where
  "InsertInstanceAuditLog actorID targetID action reason meta = console_query (\<lambda>now uuid c.
     let known = (\<lambda>i. sql_exists (\<lambda>u. u_ID u = i) (users (people (hall c))));
         e = \<lparr>ia_ID = uuid, ia_ActorID = actorID, ia_TargetID = targetID, ia_Action = action, ia_Reason = reason,
              ia_Metadata = meta, ia_CreatedAt = now\<rparr>
     in if sql_exists (\<lambda>r. ia_ID r = uuid) (instance_audit c) then (Inl (DbUnique ''instance_audit_log_pkey''), c)
        else if \<not> known actorID \<or> (case targetID of None \<Rightarrow> False | Some i \<Rightarrow> \<not> known i) then (Inl DbForeignKey, c)
        else (Inr (), c\<lparr>instance_audit := instance_audit c @ [e]\<rparr>))"

definition ListInstanceAuditLog :: "int \<Rightarrow> int \<Rightarrow> (string \<times> string) option \<Rightarrow> InstanceAuditLogEntry list console_op" where
  "ListInstanceAuditLog limit offset filt = console_read (\<lambda>_ c.
     let p = (\<lambda>e. case filt of None \<Rightarrow> True | Some (action, targetID) \<Rightarrow>
                (action \<noteq> [] \<longrightarrow> ia_Action e = action) \<and> (targetID \<noteq> [] \<longrightarrow> ia_TargetID e = Some targetID))
     in take (nat limit) (drop (nat offset) (sort_key (\<lambda>e. - ia_CreatedAt e) (filter p (instance_audit c)))))"

section \<open>The guilds of a user\<close>

record my_guild =
  mg_Server :: Server
  mg_OtherUser :: "UserSearchPublicResult option"
  mg_ChannelID :: "string option"
  mg_Unread :: "nat option"

text \<open>The other side of a direct message, and its first channel, which is given only with the other side.\<close>

definition guild_row :: "string \<Rightarrow> lobby \<Rightarrow> Server \<Rightarrow> my_guild" where
  "guild_row userID s g =
     (let pair = (if sv_IsDm g then find (\<lambda>p. dp_ServerID p = sv_ID g) (dm_pairs s) else None);
          otherID = (case pair of None \<Rightarrow> None | Some p \<Rightarrow>
             if dp_UserA p = userID then Some (dp_UserB p) else if dp_UserB p = userID then Some (dp_UserA p) else None);
          other = Option.bind otherID (\<lambda>i. find (\<lambda>u. u_ID u = i) (users (people s)));
          chan = (if sv_IsDm g then (case sort_key ch_Position (filter (\<lambda>c. ch_ServerID c = Some (sv_ID g)) (cd_channels (guilds s)))
                                     of [] \<Rightarrow> None | c # _ \<Rightarrow> Some (ch_ID c)) else None)
      in \<lparr>mg_Server = g,
          mg_OtherUser = map_option (\<lambda>u. \<lparr>us_ID = u_ID u, us_Username = u_Username u, us_DisplayName = u_DisplayName u\<rparr>) other,
          mg_ChannelID = (if other = None then None else chan), mg_Unread = None\<rparr>)"

fun count_unread :: "string \<Rightarrow> my_guild list \<Rightarrow> my_guild list lobby_op" where
  "count_unread userID [] s = (Inr [], s)"
| "count_unread userID (g # gs) s =
     (case (if sv_IsDm (mg_Server g) then mg_ChannelID g else None) of
        None \<Rightarrow> (case count_unread userID gs s of (Inl e, s') \<Rightarrow> (Inl e, s') | (Inr rs, s') \<Rightarrow> (Inr (g # rs), s'))
      | Some ch \<Rightarrow>
          (case on_guilds (GetUnreadCount ch userID) s of
             (Inl e, s') \<Rightarrow> (Inl e, s')
           | (Inr n, s') \<Rightarrow>
               (case count_unread userID gs s' of
                  (Inl e, s'') \<Rightarrow> (Inl e, s'') | (Inr rs, s'') \<Rightarrow> (Inr (g\<lparr>mg_Unread := Some n\<rparr> # rs), s''))))"

definition ListServersForUser :: "string \<Rightarrow> my_guild list lobby_op" where
  "ListServersForUser userID = bind_lobby (lobby_query (\<lambda>_ _ s.
       (Inr (map (guild_row userID s) (sort_key sv_CreatedAt (filter (\<lambda>g. list_ex (\<lambda>m. sm_ServerID m = sv_ID g \<and>
          sm_UserID m = Some userID) (cd_members (guilds s))) (cd_servers (guilds s))))), s)))
     (count_unread userID)"

end
