(* ===== verification/Admin.thy ===== *)
theory Admin
  imports Admin_DB
begin

text \<open>
  The operators' interface: their accounts, sessions and first claim (\<open>internal/api/admin_auth.go\<close>,
  \<open>admin_context.go\<close>, \<open>admin_management.go\<close>), and the resources behind them (\<open>admin.go\<close>). A handler gives an answer
  and the next state, or \<open>None\<close> where it panics. The clock, the random draws and the decoded body (\<open>None\<close> where it
  does not decode) are arguments; the cookie of an answer stands with its body.
\<close>

section \<open>Requests and answers\<close>

record admin_env =
  ad_auth :: auth_env
  ad_lobby :: lobby_env
  ad_secrets :: secret_env
  EqualFold :: "string \<Rightarrow> string \<Rightarrow> bool"
  ParseAddress :: "string \<Rightarrow> string option"
  bootstrapSecret :: string
  sessionTTL :: time
  secureCookies :: bool
  serviceIdentityMasterKey :: string
  hasRoomService :: bool

record admin_http =
  ah_http :: http_request
  ah_Origin :: string
  ah_Cookie :: "string option"
  ah_ForwardedFor :: string
  ah_RemoteAddr :: string
  ah_UserAgent :: string

text \<open>What a request draws at random.\<close>

record draws =
  dr_salt :: "bytes option"
  dr_token :: "bytes option"
  dr_sessionID :: string
  dr_keys :: "(bytes \<times> bytes) option"
  dr_nonce :: "bytes option"

record admin_cookie =
  ck_Value :: string
  ck_Secure :: bool
  ck_Expires :: time
  ck_Deleted :: bool

record serviceIdentityResponse =
  sv_Configured :: bool
  sv_Provisioned :: bool
  sv_Identity :: "(string \<times> string \<times> string) option"

record member_cap =
  mc_ServerID :: string
  mc_Override :: "int option"
  mc_Effective :: "int option"

datatype admin_body =
    NoBody
  | BootstrapStatus bool bool bool
  | SignedIn InstanceAdmin admin_cookie
  | SignedOut admin_cookie
  | AdminBody "InstanceAdmin option"
  | AdminsBody "InstanceAdmin list"
  | IdentityBody serviceIdentityResponse
  | StatsBody "GuildBillingStats list"
  | MembersBody "Member list"
  | HealthBody bool time
  | SettingsBody InstanceSettings
  | TemplatesBody "ServerTemplate list"
  | TemplateBody ServerTemplate
  | Banned "(string \<times> string) list"
  | InstanceAuditBody "InstanceAuditLogEntry list"
  | CapBody member_cap

type_synonym admin_result = "(admin_body response \<times> console) option"

abbreviation refuse :: "nat \<Rightarrow> string \<Rightarrow> console \<Rightarrow> ('a response \<times> console) option" where
  "refuse status msg c \<equiv> Some (Fail status msg, c)"

abbreviation answer :: "nat \<Rightarrow> 'a \<Rightarrow> console \<Rightarrow> ('a response \<times> console) option" where
  "answer status b c \<equiv> Some (Done status b, c)"

text \<open>The password hash is never part of an answer.\<close>

definition admin_view :: "InstanceAdmin \<Rightarrow> InstanceAdmin" where
  "admin_view a = a\<lparr>am_PasswordHash := []\<rparr>"

section \<open>The doors\<close>

definition TrimRight :: "char \<Rightarrow> string \<Rightarrow> string" where
  "TrimRight ch s = rev (dropWhile (\<lambda>x. x = ch) (rev s))"

definition sameOrigin :: "admin_env \<Rightarrow> string \<Rightarrow> admin_http \<Rightarrow> bool" where
  "sameOrigin D origin r =
     (if origin = [] then False else EqualFold D (TrimRight (CHR ''/'') origin) (requestOrigin (ah_http r)))"

definition clientAddress :: "admin_http \<Rightarrow> string" where
  "clientAddress r =
     (let forwardedFor = TrimSpace (ah_ForwardedFor r)
      in if forwardedFor \<noteq> [] then TrimSpace (split_first (CHR '','') forwardedFor) else TrimSpace (ah_RemoteAddr r))"

text \<open>The identity that the middleware leaves in the context: id and role.\<close>

definition RequireAdminSession ::
  "admin_env \<Rightarrow> time \<Rightarrow> admin_http \<Rightarrow> (string \<Rightarrow> string \<Rightarrow> console \<Rightarrow> admin_result) \<Rightarrow> console \<Rightarrow> admin_result" where
  "RequireAdminSession D now r k c =
     (case ah_Cookie r of
        None \<Rightarrow> refuse 401 ''authentication required'' c
      | Some token \<Rightarrow>
      (case GetInstanceAdminSessionByTokenHash (TokenHash (ad_auth D) token) c of
         (Inr (Some s), c1) \<Rightarrow>
           (case GetInstanceAdminByID (as_AdminID s) c1 of
              (Inr (Some a), c2) \<Rightarrow>
                (if am_IsActive a
                 then k (am_ID a) (am_Role a) (snd (UpdateInstanceAdminSessionLastSeen (as_ID s) now c2))
                 else refuse 401 ''authentication required'' c2)
            | (_, c2) \<Rightarrow> refuse 401 ''authentication required'' c2)
       | (_, c1) \<Rightarrow> refuse 401 ''authentication required'' c1))"

definition RequireAdminOrigin :: "admin_env \<Rightarrow> string \<Rightarrow> admin_http \<Rightarrow> (console \<Rightarrow> admin_result) \<Rightarrow> console \<Rightarrow> admin_result" where
  "RequireAdminOrigin D method r k c =
     (if method \<in> {''GET'', ''HEAD'', ''OPTIONS''} then k c
      else if ah_Origin r = [] \<or> \<not> sameOrigin D (ah_Origin r) r then refuse 403 ''invalid admin request origin'' c
      else k c)"

definition RequireAdminRole :: "string list \<Rightarrow> string \<Rightarrow> (console \<Rightarrow> admin_result) \<Rightarrow> console \<Rightarrow> admin_result" where
  "RequireAdminRole roles role k c =
     (if role \<notin> set roles then refuse 403 ''insufficient admin role'' c else k c)"

section \<open>Accounts\<close>

definition normalizeAdminEmail :: "admin_env \<Rightarrow> string option \<Rightarrow> string + string option" where
  "normalizeAdminEmail D email =
     (case email of
        None \<Rightarrow> Inr None
      | Some e \<Rightarrow>
          (let trimmed = TrimSpace e
           in if trimmed = [] then Inr None
              else case ParseAddress D trimmed of
                None \<Rightarrow> Inl ''invalid email''
              | Some address \<Rightarrow> Inr (Some (ToLower (ad_auth D) (TrimSpace address)))))"

text \<open>
  The errors of \<open>createAdmin\<close>: those of \<open>errBadRequest\<close> (\<open>True\<close>) and others, such as what \<open>validateUsername\<close> or the
  random source gives.
\<close>

definition createAdmin ::
  "admin_env \<Rightarrow> draws \<Rightarrow> string \<Rightarrow> string option \<Rightarrow> string \<Rightarrow> string \<Rightarrow> console \<Rightarrow> ((bool \<times> string) + InstanceAdmin) \<times> console" where
  "createAdmin D ds username email password role c =
     (let name = TrimSpace username
      in case validateUsername name of
        Some msg \<Rightarrow> (Inl (False, msg), c)
      | None \<Rightarrow>
      (case normalizeAdminEmail D email of
         Inl msg \<Rightarrow> (Inl (True, msg), c)
       | Inr normalizedEmail \<Rightarrow>
      (if length password < 12 then (Inl (True, ''password must be at least 12 characters''), c)
       else case HashAdminPassword (ad_secrets D) (dr_salt ds) password of
         None \<Rightarrow> (Inl (False, ''generate password salt''), c)
       | Some hash \<Rightarrow>
      (case CreateInstanceAdmin name normalizedEmail hash role c of
         (Inl _, c1) \<Rightarrow> (Inl (True, ''failed to create admin account''), c1)
       | (Inr a, c1) \<Rightarrow> (Inr a, c1)))))"

text \<open>The session and its cookie; a failure to note the login is only logged.\<close>

definition issueAdminSession ::
  "admin_env \<Rightarrow> time \<Rightarrow> draws \<Rightarrow> admin_http \<Rightarrow> InstanceAdmin \<Rightarrow> console \<Rightarrow> (InstanceAdmin \<times> admin_cookie) option \<times> console" where
  "issueAdminSession D now ds r a c =
     (case GenerateSessionToken (dr_token ds) of
        None \<Rightarrow> (None, c)
      | Some token \<Rightarrow>
          (let expiresAt = now + sessionTTL D
           in case CreateInstanceAdminSession (dr_sessionID ds) (am_ID a) (TokenHash (ad_auth D) token) expiresAt
                     (nullif_empty (clientAddress r)) (nullif_empty (TrimSpace (ah_UserAgent r))) c of
                (Inl _, c1) \<Rightarrow> (None, c1)
              | (Inr _, c1) \<Rightarrow>
                  (Some (a\<lparr>am_LastLoginAt := Some now\<rparr>,
                         \<lparr>ck_Value = token, ck_Secure = secureCookies D, ck_Expires = expiresAt, ck_Deleted = False\<rparr>),
                   snd (TouchInstanceAdminLastLogin (am_ID a) now c1))))"

definition ensureServiceIdentity :: "admin_env \<Rightarrow> draws \<Rightarrow> console \<Rightarrow> ((bool \<times> string) + InstanceServiceIdentity) \<times> console" where
  "ensureServiceIdentity D ds c =
     (if serviceIdentityMasterKey D = [] then (Inl (True, ''service identity master key is not configured''), c)
      else case GetInstanceServiceIdentity c of
        (Inl _, c1) \<Rightarrow> (Inl (False, ''database error''), c1)
      | (Inr (Some i), c1) \<Rightarrow> (Inr i, c1)
      | (Inr None, c1) \<Rightarrow>
      (case dr_keys ds of
         None \<Rightarrow> (Inl (False, ''generate service identity''), c1)
       | Some (publicKey, privateKey) \<Rightarrow>
      (case WrapServiceIdentityPrivateKey (ad_secrets D) (dr_nonce ds) privateKey (serviceIdentityMasterKey D) of
         Inl msg \<Rightarrow> (Inl (False, msg), c1)
       | Inr (wrapped, version) \<Rightarrow>
      (case UpsertInstanceServiceIdentity ''@instance-service'' publicKey wrapped version c1 of
         (Inl _, c2) \<Rightarrow> (Inl (False, ''database error''), c2)
       | (Inr i, c2) \<Rightarrow> (Inr i, c2)))))"

section \<open>Bootstrap and sessions\<close>

definition bootstrapStatus :: "admin_env \<Rightarrow> console \<Rightarrow> admin_result" where
  "bootstrapStatus D c =
     (case CountInstanceAdmins c of
        (Inl _, c1) \<Rightarrow> refuse 500 ''failed to read admin bootstrap status'' c1
      | (Inr n, c1) \<Rightarrow> answer 200 (BootstrapStatus (n = 0 \<and> bootstrapSecret D \<noteq> []) (n > 0) (bootstrapSecret D \<noteq> [])) c1)"

record bootstrap_claim =
  bc_BootstrapSecret :: string
  bc_Username :: string
  bc_Email :: "string option"
  bc_Password :: string

text \<open>The service identity is provisioned where it can be; a failure is only logged.\<close>

definition bootstrapClaim ::
  "admin_env \<Rightarrow> time \<Rightarrow> draws \<Rightarrow> admin_http \<Rightarrow> bootstrap_claim option \<Rightarrow> console \<Rightarrow> admin_result" where
  "bootstrapClaim D now ds r body c =
     (case body of
        None \<Rightarrow> refuse 400 ''invalid body'' c
      | Some req \<Rightarrow>
      (if TrimSpace (bc_BootstrapSecret req) \<noteq> bootstrapSecret D \<or> bootstrapSecret D = []
       then refuse 401 ''invalid bootstrap secret'' c
       else case CountInstanceAdmins c of
         (Inl _, c1) \<Rightarrow> refuse 500 ''failed to read admin bootstrap state'' c1
       | (Inr n, c1) \<Rightarrow>
      (if n > 0 then refuse 409 ''bootstrap already completed'' c1
       else case createAdmin D ds (bc_Username req) (bc_Email req) (bc_Password req) ''owner'' c1 of
         (Inl (_, msg), c2) \<Rightarrow> refuse 400 msg c2
       | (Inr a, c2) \<Rightarrow>
      (case issueAdminSession D now ds r a (snd (ensureServiceIdentity D ds c2)) of
         (None, c3) \<Rightarrow> refuse 500 ''failed to create admin session'' c3
       | (Some (a', ck), c3) \<Rightarrow> answer 201 (SignedIn (admin_view a') ck) c3))))"

definition adminLogin :: "admin_env \<Rightarrow> time \<Rightarrow> draws \<Rightarrow> admin_http \<Rightarrow> (string \<times> string) option \<Rightarrow> console \<Rightarrow> admin_result" where
  "adminLogin D now ds r body c =
     (case body of
        None \<Rightarrow> refuse 400 ''invalid body'' c
      | Some (username, password) \<Rightarrow>
      (case GetInstanceAdminByUsername (TrimSpace username) c of
         (Inl _, c1) \<Rightarrow> refuse 500 ''login failed'' c1
       | (Inr None, c1) \<Rightarrow> refuse 401 ''invalid username or password'' c1
       | (Inr (Some a), c1) \<Rightarrow>
      (if \<not> am_IsActive a then refuse 401 ''invalid username or password'' c1
       else case VerifyAdminPassword (ad_secrets D) password (am_PasswordHash a) of
         None \<Rightarrow> None
       | Some (Inl _) \<Rightarrow> refuse 500 ''login failed'' c1
       | Some (Inr valid) \<Rightarrow>
      (if \<not> valid then refuse 401 ''invalid username or password'' c1
       else case issueAdminSession D now ds r a c1 of
         (None, c2) \<Rightarrow> refuse 500 ''login failed'' c2
       | (Some (a', ck), c2) \<Rightarrow> answer 200 (SignedIn (admin_view a') ck) c2))))"

definition adminLogout :: "admin_env \<Rightarrow> admin_http \<Rightarrow> console \<Rightarrow> admin_result" where
  "adminLogout D r c =
     (let gone = \<lparr>ck_Value = [], ck_Secure = secureCookies D, ck_Expires = 0, ck_Deleted = True\<rparr>
      in case ah_Cookie r of
        None \<Rightarrow> answer 204 (SignedOut gone) c
      | Some token \<Rightarrow>
      (case GetInstanceAdminSessionByTokenHash (TokenHash (ad_auth D) token) c of
         (Inr (Some s), c1) \<Rightarrow> answer 204 (SignedOut gone) (snd (DeleteInstanceAdminSessionByID (as_ID s) c1))
       | (_, c1) \<Rightarrow> answer 204 (SignedOut gone) c1))"

definition adminMe :: "string \<Rightarrow> console \<Rightarrow> admin_result" where
  "adminMe adminID c =
     (case GetInstanceAdminByID adminID c of
        (Inr (Some a), c1) \<Rightarrow>
          (if am_IsActive a then answer 200 (AdminBody (Some (admin_view a))) c1
           else refuse 401 ''authentication required'' c1)
      | (_, c1) \<Rightarrow> refuse 401 ''authentication required'' c1)"

definition changePassword :: "admin_env \<Rightarrow> draws \<Rightarrow> string \<Rightarrow> (string \<times> string) option \<Rightarrow> console \<Rightarrow> admin_result" where
  "changePassword D ds adminID body c =
     (case body of
        None \<Rightarrow> refuse 400 ''invalid body'' c
      | Some (current, new) \<Rightarrow>
      (if current = [] \<or> new = [] then refuse 400 ''currentPassword and newPassword are required'' c
       else case GetInstanceAdminByID adminID c of
         (Inl _, c1) \<Rightarrow> refuse 401 ''authentication required'' c1
       | (Inr None, c1) \<Rightarrow> refuse 401 ''authentication required'' c1
       | (Inr (Some a), c1) \<Rightarrow>
      (if \<not> am_IsActive a then refuse 401 ''authentication required'' c1
       else case VerifyAdminPassword (ad_secrets D) current (am_PasswordHash a) of
         None \<Rightarrow> None
       | Some (Inl _) \<Rightarrow> refuse 500 ''password verification failed'' c1
       | Some (Inr valid) \<Rightarrow>
      (if \<not> valid then refuse 401 ''current password is incorrect'' c1
       else if new = current then refuse 400 ''new password must differ from current password'' c1
       else if length new < 12 then refuse 400 ''password must be at least 12 characters'' c1
       else case HashAdminPassword (ad_secrets D) (dr_salt ds) new of
         None \<Rightarrow> refuse 500 ''failed to hash password'' c1
       | Some hash \<Rightarrow>
      (case UpdateInstanceAdminPassword (am_ID a) hash c1 of
         (Inl _, c2) \<Rightarrow> refuse 500 ''failed to update password'' c2
       | (Inr _, c2) \<Rightarrow> answer 204 NoBody c2)))))"

section \<open>Account management\<close>

definition listAdmins :: "console \<Rightarrow> admin_result" where
  "listAdmins c =
     (case ListInstanceAdmins c of
        (Inl _, c1) \<Rightarrow> refuse 500 ''failed to list admins'' c1
      | (Inr xs, c1) \<Rightarrow> answer 200 (AdminsBody (map admin_view xs)) c1)"

record create_admin =
  ca_Username :: string
  ca_Email :: "string option"
  ca_Password :: string
  ca_Role :: string

definition createAdminAccount :: "admin_env \<Rightarrow> draws \<Rightarrow> create_admin option \<Rightarrow> console \<Rightarrow> admin_result" where
  "createAdminAccount D ds body c =
     (case body of
        None \<Rightarrow> refuse 400 ''invalid body'' c
      | Some req \<Rightarrow>
      (let role = TrimSpace (ca_Role req)
       in if role \<noteq> ''owner'' \<and> role \<noteq> ''admin'' then refuse 400 ''role must be owner or admin'' c
          else case createAdmin D ds (ca_Username req) (ca_Email req) (ca_Password req) role c of
            (Inl (bad, msg), c1) \<Rightarrow> refuse (if bad then 400 else 500) msg c1
          | (Inr a, c1) \<Rightarrow> answer 201 (AdminBody (Some (admin_view a))) c1))"

text \<open>Whether an owner may become \<open>nextRole\<close> and \<open>nextIsActive\<close>; \<open>Some\<close> is the refusal.\<close>

definition ensureOwnerSafety :: "InstanceAdmin \<Rightarrow> string \<Rightarrow> bool \<Rightarrow> console \<Rightarrow> string option \<times> console" where
  "ensureOwnerSafety target nextRole nextIsActive c =
     (if am_Role target \<noteq> ''owner'' then (None, c)
      else if nextRole = ''owner'' \<and> nextIsActive then (None, c)
      else case ListInstanceAdmins c of
        (Inl _, c1) \<Rightarrow> (Some ''failed to validate owner transition'', c1)
      | (Inr xs, c1) \<Rightarrow>
          (if length (filter (\<lambda>a. am_Role a = ''owner'' \<and> am_IsActive a) xs) \<le> 1
           then (Some ''cannot remove or deactivate the last active owner'', c1) else (None, c1)))"

record patch_admin =
  pa_Email :: "string option"
  pa_Role :: "string option"
  pa_IsActive :: "bool option"

definition patchAdminAccount :: "admin_env \<Rightarrow> string \<Rightarrow> patch_admin option \<Rightarrow> console \<Rightarrow> admin_result" where
  "patchAdminAccount D adminID body c =
     (if adminID = [] then refuse 400 ''missing admin ID'' c
      else case body of
        None \<Rightarrow> refuse 400 ''invalid body'' c
      | Some req \<Rightarrow>
      (case GetInstanceAdminByID adminID c of
         (Inl _, c1) \<Rightarrow> refuse 500 ''failed to load admin'' c1
       | (Inr None, c1) \<Rightarrow> refuse 404 ''admin not found'' c1
       | (Inr (Some current), c1) \<Rightarrow>
      (case (if pa_Email req = None then Inr (am_Email current) else normalizeAdminEmail D (pa_Email req)) of
         Inl msg \<Rightarrow> refuse 400 msg c1
       | Inr email \<Rightarrow>
      (if pa_Role req \<notin> {None, Some ''owner'', Some ''admin''} then refuse 400 ''role must be owner or admin'' c1
       else let role = set_field (pa_Role req) (am_Role current);
                isActive = set_field (pa_IsActive req) (am_IsActive current)
            in case ensureOwnerSafety current role isActive c1 of
              (Some msg, c2) \<Rightarrow> refuse 409 msg c2
            | (None, c2) \<Rightarrow>
            (case UpdateInstanceAdmin adminID email role isActive c2 of
               (Inl _, c3) \<Rightarrow> refuse 500 ''failed to update admin'' c3
             | (Inr a, c3) \<Rightarrow> answer 200 (AdminBody (map_option admin_view a)) c3)))))"

definition resetAdminPassword :: "admin_env \<Rightarrow> draws \<Rightarrow> string \<Rightarrow> string option \<Rightarrow> console \<Rightarrow> admin_result" where
  "resetAdminPassword D ds adminID body c =
     (if adminID = [] then refuse 400 ''missing admin ID'' c
      else case body of
        None \<Rightarrow> refuse 400 ''invalid body'' c
      | Some password \<Rightarrow>
      (if length password < 12 then refuse 400 ''password must be at least 12 characters'' c
       else case HashAdminPassword (ad_secrets D) (dr_salt ds) password of
         None \<Rightarrow> refuse 500 ''failed to reset password'' c
       | Some hash \<Rightarrow>
      (case UpdateInstanceAdminPassword adminID hash c of
         (Inl _, c1) \<Rightarrow> refuse 500 ''failed to reset password'' c1
       | (Inr _, c1) \<Rightarrow> answer 204 NoBody c1)))"

definition encodePublicKeyBase64 :: "bytes \<Rightarrow> string" where
  "encodePublicKeyBase64 key = EncodeToString StdEncoding key"

definition identity_public :: "InstanceServiceIdentity \<Rightarrow> string \<times> string \<times> string" where
  "identity_public i = (si_Username i, encodePublicKeyBase64 (si_PublicKey i), si_WrappingKeyVersion i)"

definition getServiceIdentity :: "admin_env \<Rightarrow> console \<Rightarrow> admin_result" where
  "getServiceIdentity D c =
     (case GetInstanceServiceIdentity c of
        (Inl _, c1) \<Rightarrow> refuse 500 ''failed to read service identity'' c1
      | (Inr i, c1) \<Rightarrow> answer 200 (IdentityBody \<lparr>sv_Configured = (serviceIdentityMasterKey D \<noteq> []),
                          sv_Provisioned = (i \<noteq> None), sv_Identity = map_option identity_public i\<rparr>) c1)"

definition provisionServiceIdentity :: "admin_env \<Rightarrow> draws \<Rightarrow> console \<Rightarrow> admin_result" where
  "provisionServiceIdentity D ds c =
     (case ensureServiceIdentity D ds c of
        (Inl (bad, msg), c1) \<Rightarrow> refuse (if bad then 400 else 500) msg c1
      | (Inr i, c1) \<Rightarrow> answer 201 (IdentityBody \<lparr>sv_Configured = True, sv_Provisioned = True,
                          sv_Identity = Some (identity_public i)\<rparr>) c1)"

section \<open>Configuration\<close>

definition getConfig :: "console \<Rightarrow> admin_result" where
  "getConfig c =
     (case GetInstanceConfig_row c of
        (Inl _, c1) \<Rightarrow> refuse 500 ''failed to load config'' c1
      | (Inr cfg, c1) \<Rightarrow> answer 200 (SettingsBody cfg) c1)"

text \<open>The checks of a request, in their order; \<open>Some\<close> is the message of the refusal.\<close>

definition check_settings :: "settings_update \<Rightarrow> string option" where
  "check_settings u =
     (let member = (\<lambda>f vs. case f of None \<Rightarrow> True | Some v \<Rightarrow> v \<in> set vs);
          atleast = (\<lambda>f n. case f of None \<Rightarrow> True | Some v \<Rightarrow> (n :: int) \<le> v)
      in if su_Name u \<noteq> None \<and> TrimSpace (the (su_Name u)) = [] then Some ''name cannot be empty''
         else if \<not> member (su_RegistrationMode u) [''open'', ''invite_only'', ''closed'']
         then Some ''registrationMode must be open, invite_only, or closed''
         else if \<not> member (su_GuildDiscovery u) [''disabled'', ''allowed'', ''required'']
         then Some ''guildDiscovery must be disabled, allowed, or required''
         else if \<not> member (su_ServerCreationPolicy u) [''open'', ''paid'', ''disabled'']
         then Some ''serverCreationPolicy must be open, paid, or disabled''
         else if \<not> atleast (su_MaxServersPerUser u) 0 then Some ''maxServersPerUser must be 0 (no limit) or at least 1''
         else if \<not> atleast (su_MaxMembersPerServer u) 0 then Some ''maxMembersPerServer must be 0 (no limit) or at least 1''
         else if \<not> atleast (su_MaxRegisteredUsers u) 0 then Some ''maxRegisteredUsers must be 0 (no limit) or at least 1''
         else if \<not> member (su_ScreenShareResolutionCap u) [''1080p'', ''720p'']
         then Some ''screenShareResolutionCap must be 1080p or 720p''
         else if \<not> atleast (su_MaxAttachmentBytes u) 1 then Some ''maxAttachmentBytes must be at least 1''
         else if \<not> atleast (su_MaxGuildAttachmentStorageBytes u) 0
         then Some ''maxGuildAttachmentStorageBytes must be 0 (no limit) or at least 1''
         else if \<not> atleast (su_MessageRetentionDays u) 1 then Some ''messageRetentionDays must be at least 1''
         else None)"

text \<open>The new row as it is read back, and the cache after it.\<close>

definition refresh_cache :: "console \<Rightarrow> InstanceSettings option \<times> console" where
  "refresh_cache c =
     (case GetInstanceConfig_row c of
        (Inl _, c1) \<Rightarrow> (None, c1)
      | (Inr cfg, c1) \<Rightarrow>
          (case cache c1 of
             None \<Rightarrow> (Some cfg, c1)
           | Some k \<Rightarrow>
               (case GetVoiceKeyRotationHours c1 of
                  (h, c2) \<Rightarrow> (Some cfg, c2\<lparr>cache := Some (SetAttachmentPolicy (is_MaxAttachmentBytes cfg)
                    (cache_Set (is_Name cfg) (is_IconURL cfg) (is_RegistrationMode cfg) (is_GuildDiscovery cfg)
                       (case h of Inl _ \<Rightarrow> 2 | Inr n \<Rightarrow> n) (is_ServerCreationPolicy cfg) (is_ScreenShareResolutionCap cfg) k))\<rparr>))))"

definition json_opt :: "string option \<Rightarrow> json" where
  "json_opt s = (case s of None \<Rightarrow> JNull | Some v \<Rightarrow> JStr v)"

definition instance_updated :: "InstanceSettings option \<Rightarrow> frame" where
  "instance_updated cfg = RawFrame (JObj (case cfg of
       None \<Rightarrow> [(''type'', JStr ''instance_updated'')]
     | Some k \<Rightarrow> [(''guild_discovery'', JStr (is_GuildDiscovery k)), (''iconUrl'', json_opt (is_IconURL k)),
         (''icon_url'', json_opt (is_IconURL k)), (''max_attachment_bytes'', JInt (is_MaxAttachmentBytes k)),
         (''message_retention_days'', JInt (is_MessageRetentionDays k)), (''name'', JStr (is_Name k)),
         (''registrationMode'', JStr (is_RegistrationMode k)), (''registration_mode'', JStr (is_RegistrationMode k)),
         (''screen_share_resolution_cap'', JStr (is_ScreenShareResolutionCap k)),
         (''server_creation_policy'', JStr (is_ServerCreationPolicy k)), (''type'', JStr ''instance_updated'')]))"

definition updateConfig :: "settings_update option \<Rightarrow> console \<Rightarrow> admin_result" where
  "updateConfig body c =
     (case body of
        None \<Rightarrow> refuse 400 ''invalid body'' c
      | Some u0 \<Rightarrow>
      (case check_settings u0 of
         Some msg \<Rightarrow> refuse 400 msg c
       | None \<Rightarrow>
      (case UpdateInstanceConfig (u0\<lparr>su_Name := map_option TrimSpace (su_Name u0)\<rparr>) c of
         (Inl _, c1) \<Rightarrow> refuse 500 ''failed to update config'' c1
       | (Inr _, c1) \<Rightarrow>
      (case refresh_cache c1 of (cfg, c2) \<Rightarrow>
         map_option (\<lambda>c3. (Done 204 NoBody, c3)) (hall_hub (BroadcastToAll (instance_updated cfg)) c2)))))"

section \<open>Reports\<close>

definition listGuilds :: "console \<Rightarrow> admin_result" where
  "listGuilds c =
     (case with_guilds ListGuildBillingStats c of
        (Inl _, c1) \<Rightarrow> refuse 500 ''failed to load guild stats'' c1
      | (Inr xs, c1) \<Rightarrow> answer 200 (StatsBody xs) c1)"

definition listUsers :: "console \<Rightarrow> admin_result" where
  "listUsers c =
     (case ListMembers c of
        (Inl _, c1) \<Rightarrow> refuse 500 ''failed to list users'' c1
      | (Inr xs, c1) \<Rightarrow> answer 200 (MembersBody xs) c1)"

text \<open>Whether the database answers a ping, and the time since the start.\<close>

definition health :: "time \<Rightarrow> time \<Rightarrow> console \<Rightarrow> admin_result" where
  "health now startedAt c =
     (case console_read (\<lambda>_ _. ()) c of (r, c1) \<Rightarrow> answer 200 (HealthBody (r = Inr ()) (now - startedAt)) c1)"

definition query_int :: "string \<Rightarrow> int \<Rightarrow> (int \<Rightarrow> bool) \<Rightarrow> int" where
  "query_int v def ok = (if v = [] then def else case Atoi v of None \<Rightarrow> def | Some n \<Rightarrow> if ok n then n else def)"

definition instanceAuditLog :: "string \<Rightarrow> string \<Rightarrow> string \<Rightarrow> string \<Rightarrow> console \<Rightarrow> admin_result" where
  "instanceAuditLog limitStr offsetStr action targetID c =
     (let limit = min 100 (query_int limitStr 50 (\<lambda>n. n > 0));
          offset = query_int offsetStr 0 (\<lambda>n. n \<ge> 0);
          filt = (if action \<noteq> [] \<or> targetID \<noteq> [] then Some (action, targetID) else None)
      in case ListInstanceAuditLog limit offset filt c of
           (Inl _, c1) \<Rightarrow> refuse 500 ''failed to load audit log'' c1
         | (Inr es, c1) \<Rightarrow> answer 200 (InstanceAuditBody es) c1)"

section \<open>Templates\<close>

definition listServerTemplates :: "console \<Rightarrow> admin_result" where
  "listServerTemplates c =
     (case ListServerTemplates c of
        (Inl _, c1) \<Rightarrow> refuse 500 ''failed to list templates'' c1
      | (Inr ts, c1) \<Rightarrow> answer 200 (TemplatesBody ts) c1)"

record template_request =
  tr_Name :: string
  tr_Channels :: "TemplateChannel list"
  tr_IsDefault :: bool

text \<open>The first channel that is refused decides the message.\<close>

fun bad_channel :: "TemplateChannel list \<Rightarrow> string" where
  "bad_channel [] = []"
| "bad_channel (t # ts) =
     (if tc_Type t \<notin> channel_types then ''invalid channel type: '' @ tc_Type t
      else if tc_Type t = ''category'' \<and> tc_ParentRef t \<noteq> None then ''categories cannot have parentRef''
      else bad_channel ts)"

definition validateAdminTemplateChannels :: "TemplateChannel list \<Rightarrow> string" where
  "validateAdminTemplateChannels ts =
     (if ts = [] then ''channels must not be empty''
      else if bad_channel ts \<noteq> [] then bad_channel ts
      else if \<not> list_ex (\<lambda>t. tc_Type t = ''system'') ts then ''system channel is required in template''
      else [])"

definition check_template :: "template_request option \<Rightarrow> string + template_request" where
  "check_template body =
     (case body of
        None \<Rightarrow> Inl ''invalid body''
      | Some req \<Rightarrow>
          (if TrimSpace (tr_Name req) = [] then Inl ''name is required''
           else if validateAdminTemplateChannels (tr_Channels req) \<noteq> []
           then Inl (validateAdminTemplateChannels (tr_Channels req))
           else Inr req))"

definition createServerTemplate :: "template_request option \<Rightarrow> console \<Rightarrow> admin_result" where
  "createServerTemplate body c =
     (case check_template body of
        Inl msg \<Rightarrow> refuse 400 msg c
      | Inr req \<Rightarrow>
      (case CreateServerTemplate (TrimSpace (tr_Name req)) (tr_Channels req) (tr_IsDefault req) c of
         (Inl _, c1) \<Rightarrow> refuse 500 ''failed to create template'' c1
       | (Inr t, c1) \<Rightarrow> answer 201 (TemplateBody t) c1))"

definition updateServerTemplate :: "string \<Rightarrow> template_request option \<Rightarrow> console \<Rightarrow> admin_result" where
  "updateServerTemplate templateID body c =
     (case check_template body of
        Inl msg \<Rightarrow> refuse 400 msg c
      | Inr req \<Rightarrow>
      (case UpdateServerTemplate templateID (TrimSpace (tr_Name req)) (tr_Channels req) (tr_IsDefault req) c of
         (Inl _, c1) \<Rightarrow> refuse 500 ''failed to update template'' c1
       | (Inr _, c1) \<Rightarrow> answer 204 NoBody c1))"

definition deleteServerTemplate :: "string \<Rightarrow> console \<Rightarrow> admin_result" where
  "deleteServerTemplate templateID c =
     (case with_guilds (GetServerTemplateByID templateID) c of
        (Inl _, c1) \<Rightarrow> refuse 404 ''template not found'' c1
      | (Inr _, c1) \<Rightarrow>
      (case DeleteServerTemplate templateID c1 of
         (Inl _, c2) \<Rightarrow> refuse 500 ''failed to delete template'' c2
       | (Inr _, c2) \<Rightarrow> answer 204 NoBody c2))"

section \<open>Bans\<close>

text \<open>The voice rooms of the user's guilds; a guild whose channels cannot be read is passed over.\<close>

fun evictUserFromAllVoice :: "string \<Rightarrow> my_guild list \<Rightarrow> console \<Rightarrow> (string \<times> string) list \<times> console" where
  "evictUserFromAllVoice userID [] c = ([], c)"
| "evictUserFromAllVoice userID (g # gs) c =
     (case with_guilds (ListChannels (sv_ID (mg_Server g))) c of
        (Inl _, c1) \<Rightarrow> evictUserFromAllVoice userID gs c1
      | (Inr chs, c1) \<Rightarrow>
          (case evictUserFromAllVoice userID gs c1 of
             (rooms, c2) \<Rightarrow> (map (\<lambda>ch. (''channel-'' @ ch_ID ch, userID)) (filter (\<lambda>ch. ch_Type ch = ''voice'') chs) @ rooms, c2)))"

fun leave_guilds :: "string \<Rightarrow> my_guild list \<Rightarrow> console \<Rightarrow> console option" where
  "leave_guilds userID [] c = Some c"
| "leave_guilds userID (g # gs) c = do {
     c1 \<leftarrow> hall_hub (BroadcastToServer (sv_ID (mg_Server g))
            (RawFrame (JObj [(''type'', JStr ''member_left''), (''user_id'', JStr userID)])))
            (snd (with_guilds (RemoveServerMember (sv_ID (mg_Server g)) userID) c));
     leave_guilds userID gs c1 }"

definition banned_notice :: "string \<Rightarrow> frame" where
  "banned_notice reason = RawFrame (JObj [(''reason'', JStr reason), (''type'', JStr ''instance_banned'')])"

text \<open>
  What both ban handlers do, in this order: end the sessions, tell the user, record the ban, leave all guilds, and
  finish. \<open>ListServersForUser\<close> failing counts as no guild.
\<close>

definition ban_cascade ::
  "InstanceBan console_op \<Rightarrow> string \<Rightarrow> string \<Rightarrow> (my_guild list \<Rightarrow> console \<Rightarrow> ('a response \<times> console) option) \<Rightarrow> console \<Rightarrow> ('a response \<times> console) option" where
  "ban_cascade record_ban userID reason finish c =
     (case hall_hub (BroadcastToUser userID (banned_notice reason)) (snd (DeleteSessionsByUserID userID c)) of
        None \<Rightarrow> None
      | Some c1 \<Rightarrow>
      (case record_ban c1 of
         (Inl _, c2) \<Rightarrow> refuse 500 ''failed to create ban'' c2
       | (Inr _, c2) \<Rightarrow>
      (case on_hall (ListServersForUser userID) c2 of
         (r, c3) \<Rightarrow>
      (let gs = (case r of Inl _ \<Rightarrow> [] | Inr gs \<Rightarrow> gs)
       in case leave_guilds userID gs c3 of
            None \<Rightarrow> None
          | Some c4 \<Rightarrow> finish gs c4))))"

text \<open>The connections are closed half a second later, when the handler is through.\<close>

definition disconnect_later :: "string \<Rightarrow> ('a response \<times> console) option \<Rightarrow> ('a response \<times> console) option" where
  "disconnect_later userID r = map_option (\<lambda>(a, c). (a, the (hall_hub (\<lambda>h. Some (DisconnectUser userID h)) c))) r"

record ban_request =
  br_UserID :: string
  br_Reason :: string
  br_ExpiresIn :: "int option"

definition instanceBan :: "admin_env \<Rightarrow> time \<Rightarrow> string \<Rightarrow> ban_request option \<Rightarrow> console \<Rightarrow> admin_result" where
  "instanceBan D now adminID body c =
     (case body of
        None \<Rightarrow> refuse 400 ''invalid body'' c
      | Some req \<Rightarrow>
      (let reason = TrimSpace (br_Reason req); u = br_UserID req
       in if u = [] then refuse 400 ''userId is required'' c
          else if reason = [] then refuse 400 ''reason is required'' c
          else disconnect_later u (ban_cascade (InsertInstanceBanByAdmin u adminID reason (expiry now (br_ExpiresIn req)))
            u reason (\<lambda>gs c1. case (if hasRoomService D then evictUserFromAllVoice u gs c1 else ([], c1)) of
                         (rooms, c2) \<Rightarrow> answer 204 (Banned rooms) c2) c)))"

text \<open>The reason of the request is read and dropped.\<close>

definition instanceUnban :: "time \<Rightarrow> string \<Rightarrow> string \<Rightarrow> console \<Rightarrow> admin_result" where
  "instanceUnban dbNow adminID targetUserID c =
     (if targetUserID = [] then refuse 400 ''userId is required'' c
      else case with_people (GetActiveInstanceBan dbNow targetUserID) c of
        (Inl _, c1) \<Rightarrow> refuse 500 ''failed to check ban status'' c1
      | (Inr None, c1) \<Rightarrow> refuse 404 ''no active instance ban for this user'' c1
      | (Inr (Some b), c1) \<Rightarrow>
      (case LiftInstanceBanByAdmin (ib_ID b) adminID c1 of
         (Inl _, c2) \<Rightarrow> refuse 500 ''failed to lift ban'' c2
       | (Inr _, c2) \<Rightarrow> answer 204 NoBody c2))"

section \<open>Member caps\<close>

text \<open>\<open>body\<close> is \<open>None\<close> where it does not decode, \<open>Some None\<close> without the field. The guild is read before the update.\<close>

definition setServerMemberCap :: "string \<Rightarrow> int option option \<Rightarrow> console \<Rightarrow> admin_result" where
  "setServerMemberCap serverID body c =
     (case body of
        None \<Rightarrow> refuse 400 ''invalid body'' c
      | Some None \<Rightarrow> refuse 400 ''memberCapOverride is required (0 to clear, >= 1 to set)'' c
      | Some (Some n) \<Rightarrow>
      (if n < 0 then refuse 400 ''memberCapOverride must be 0 (clear) or >= 1'' c
       else case with_guilds (GetServerByID serverID) c of
         (Inl _, c1) \<Rightarrow> refuse 404 ''server not found'' c1
       | (Inr None, c1) \<Rightarrow> refuse 404 ''server not found'' c1
       | (Inr (Some srv), c1) \<Rightarrow>
      (let capValue = (if n > 0 then Some n else None)
       in case with_guilds (UpdateServerMemberCapOverride serverID capValue) c1 of
         (Inl _, c2) \<Rightarrow> refuse 500 ''failed to update member cap'' c2
       | (Inr _, c2) \<Rightarrow>
      (case GetInstanceConfig_row c2 of
         (r, c3) \<Rightarrow>
           (let inherited = (case (sv_MemberCapOverride srv, r) of (Some k, _) \<Rightarrow> Some k | (None, Inr cfg) \<Rightarrow> is_MaxMembersPerServer cfg
                             | (None, Inl _) \<Rightarrow> None)
            in answer 200 (CapBody \<lparr>mc_ServerID = serverID, mc_Override = capValue,
                 mc_Effective = (if capValue \<noteq> None then capValue else inherited)\<rparr>) c3)))))"

section \<open>The routes\<close>

datatype admin_call =
    BootstrapStatusReq
  | BootstrapClaimReq "bootstrap_claim option"
  | LoginReq "(string \<times> string) option"
  | LogoutReq
  | MeReq
  | ChangePasswordReq "(string \<times> string) option"
  | GuildsReq
  | UsersReq
  | HealthReq time
  | ConfigReq
  | UpdateConfigReq "settings_update option"
  | TemplatesReq
  | CreateTemplateReq "template_request option"
  | UpdateTemplateReq string "template_request option"
  | DeleteTemplateReq string
  | BanReq "ban_request option"
  | UnbanReq string
  | AuditLogReq string string string string
  | MemberCapReq string "int option option"
  | ServiceIdentityReq
  | AdminsReq
  | CreateAdminReq "create_admin option"
  | PatchAdminReq string "patch_admin option"
  | ResetPasswordReq string "string option"
  | ProvisionReq

fun public_call :: "admin_call \<Rightarrow> bool" where
  "public_call BootstrapStatusReq = True"
| "public_call (BootstrapClaimReq _) = True"
| "public_call (LoginReq _) = True"
| "public_call _ = False"

fun owner_call :: "admin_call \<Rightarrow> bool" where
  "owner_call AdminsReq = True"
| "owner_call (CreateAdminReq _) = True"
| "owner_call (PatchAdminReq _ _) = True"
| "owner_call (ResetPasswordReq _ _) = True"
| "owner_call ProvisionReq = True"
| "owner_call _ = False"

fun call_method :: "admin_call \<Rightarrow> string" where
  "call_method MeReq = ''GET''"
| "call_method GuildsReq = ''GET''"
| "call_method UsersReq = ''GET''"
| "call_method (HealthReq _) = ''GET''"
| "call_method ConfigReq = ''GET''"
| "call_method TemplatesReq = ''GET''"
| "call_method (AuditLogReq _ _ _ _) = ''GET''"
| "call_method ServiceIdentityReq = ''GET''"
| "call_method AdminsReq = ''GET''"
| "call_method (UpdateConfigReq _) = ''PUT''"
| "call_method (UpdateTemplateReq _ _) = ''PUT''"
| "call_method (MemberCapReq _ _) = ''PUT''"
| "call_method (DeleteTemplateReq _) = ''DELETE''"
| "call_method (UnbanReq _) = ''DELETE''"
| "call_method (PatchAdminReq _ _) = ''PATCH''"
| "call_method _ = ''POST''"

text \<open>The handler of a call, for the admin that the middleware found.\<close>

fun handle_call :: "admin_env \<Rightarrow> time \<Rightarrow> time \<Rightarrow> draws \<Rightarrow> admin_http \<Rightarrow> string \<Rightarrow> admin_call \<Rightarrow> console \<Rightarrow> admin_result" where
  "handle_call D now dbNow ds r aid BootstrapStatusReq c = bootstrapStatus D c"
| "handle_call D now dbNow ds r aid (BootstrapClaimReq b) c = bootstrapClaim D now ds r b c"
| "handle_call D now dbNow ds r aid (LoginReq b) c = adminLogin D now ds r b c"
| "handle_call D now dbNow ds r aid LogoutReq c = adminLogout D r c"
| "handle_call D now dbNow ds r aid MeReq c = adminMe aid c"
| "handle_call D now dbNow ds r aid (ChangePasswordReq b) c = changePassword D ds aid b c"
| "handle_call D now dbNow ds r aid GuildsReq c = listGuilds c"
| "handle_call D now dbNow ds r aid UsersReq c = listUsers c"
| "handle_call D now dbNow ds r aid (HealthReq startedAt) c = health now startedAt c"
| "handle_call D now dbNow ds r aid ConfigReq c = getConfig c"
| "handle_call D now dbNow ds r aid (UpdateConfigReq b) c = updateConfig b c"
| "handle_call D now dbNow ds r aid TemplatesReq c = listServerTemplates c"
| "handle_call D now dbNow ds r aid (CreateTemplateReq b) c = createServerTemplate b c"
| "handle_call D now dbNow ds r aid (UpdateTemplateReq i b) c = updateServerTemplate i b c"
| "handle_call D now dbNow ds r aid (DeleteTemplateReq i) c = deleteServerTemplate i c"
| "handle_call D now dbNow ds r aid (BanReq b) c = instanceBan D now aid b c"
| "handle_call D now dbNow ds r aid (UnbanReq u) c = instanceUnban dbNow aid u c"
| "handle_call D now dbNow ds r aid (AuditLogReq l off a t) c = instanceAuditLog l off a t c"
| "handle_call D now dbNow ds r aid (MemberCapReq i b) c = setServerMemberCap i b c"
| "handle_call D now dbNow ds r aid ServiceIdentityReq c = getServiceIdentity D c"
| "handle_call D now dbNow ds r aid AdminsReq c = listAdmins c"
| "handle_call D now dbNow ds r aid (CreateAdminReq b) c = createAdminAccount D ds b c"
| "handle_call D now dbNow ds r aid (PatchAdminReq i b) c = patchAdminAccount D i b c"
| "handle_call D now dbNow ds r aid (ResetPasswordReq i b) c = resetAdminPassword D ds i b c"
| "handle_call D now dbNow ds r aid ProvisionReq c = provisionServiceIdentity D ds c"

text \<open>
  Session, origin and role, in this order; \<open>/session/me\<close> alone comes without the check of the origin, which reads
  pass anyway.
\<close>

definition AdminAPIRoutes ::
  "admin_env \<Rightarrow> time \<Rightarrow> time \<Rightarrow> draws \<Rightarrow> admin_http \<Rightarrow> admin_call \<Rightarrow> console \<Rightarrow> admin_result" where
  "AdminAPIRoutes D now dbNow ds r q c =
     (if public_call q then handle_call D now dbNow ds r [] q c
      else RequireAdminSession D now r (\<lambda>aid role.
        let go = handle_call D now dbNow ds r aid q;
            inner = (if owner_call q then RequireAdminRole [''owner''] role go else go)
        in if q = MeReq then inner else RequireAdminOrigin D (call_method q) r inner) c)"

end
