(* ===== verification/Instance.thy ===== *)
theory Instance
  imports Admin
begin

text \<open>
  What users see of the instance: \<open>internal/api/instance.go\<close>, with the bans by users of the role \<open>admin\<close>, and
  \<open>GET /api/servers\<close> of \<open>servers.go\<close>. The routes stand behind \<open>RequireAuth\<close>: the user is an argument.
\<close>

datatype instance_body =
    EmptyBody
  | ConfigBody string string "string option" string string string
  | InstanceMembers "Member list"
  | FoundUsers "UserSearchResult list"
  | InstanceTemplates "ServerTemplate list"
  | MyGuilds "my_guild list"

type_synonym instance_result = "(instance_body response \<times> console) option"

text \<open>A role that cannot be read counts as \<open>member\<close>.\<close>

definition getInstanceConfig :: "string \<Rightarrow> console \<Rightarrow> instance_result" where
  "getInstanceConfig userID c =
     (case GetInstanceConfig_row c of
        (Inl _, c1) \<Rightarrow> refuse 500 ''failed to load instance config'' c1
      | (Inr cfg, c1) \<Rightarrow>
          (case GetUserRole userID c1 of
             (r, c2) \<Rightarrow> answer 200 (ConfigBody (is_ID cfg) (is_Name cfg) (is_IconURL cfg) (is_RegistrationMode cfg)
               (is_GuildDiscovery cfg) (case r of Inl _ \<Rightarrow> ''member'' | Inr role \<Rightarrow> role)) c2))"

definition listInstanceMembers :: "console \<Rightarrow> instance_result" where
  "listInstanceMembers c =
     (case ListMembers c of
        (Inl _, c1) \<Rightarrow> refuse 500 ''failed to list members'' c1
      | (Inr ms, c1) \<Rightarrow> answer 200 (InstanceMembers ms) c1)"

definition searchInstanceUsers :: "lobby_env \<Rightarrow> time \<Rightarrow> string \<Rightarrow> string \<Rightarrow> console \<Rightarrow> instance_result" where
  "searchInstanceUsers L dbNow actorID q0 c =
     (case GetUserRole actorID c of
        (Inl _, c1) \<Rightarrow> refuse 500 ''failed to verify role'' c1
      | (Inr role, c1) \<Rightarrow>
      (if role \<noteq> ''admin'' then refuse 403 ''admin role required'' c1
       else if TrimSpace q0 = [] then refuse 400 ''query parameter q is required'' c1
       else case SearchUsers L dbNow (TrimSpace q0) 25 c1 of
         (Inl _, c2) \<Rightarrow> refuse 500 ''search failed'' c2
       | (Inr us, c2) \<Rightarrow> answer 200 (FoundUsers us) c2))"

text \<open>The audit entry comes last; its failure is only logged.\<close>

definition banByUser :: "time \<Rightarrow> string \<Rightarrow> ban_request option \<Rightarrow> console \<Rightarrow> instance_result" where
  "banByUser now actorID body c =
     (case GetUserRole actorID c of
        (Inl _, c1) \<Rightarrow> refuse 500 ''failed to verify role'' c1
      | (Inr role, c1) \<Rightarrow>
      (if role \<noteq> ''admin'' then refuse 403 ''admin role required'' c1
       else case body of
         None \<Rightarrow> refuse 400 ''invalid body'' c1
       | Some req \<Rightarrow>
      (let reason = TrimSpace (br_Reason req); u = br_UserID req
       in if u = [] then refuse 400 ''userId is required'' c1
          else if reason = [] then refuse 400 ''reason is required'' c1
          else if u = actorID then refuse 400 ''cannot ban yourself'' c1
          else case GetUserRole u c1 of
            (Inl _, c2) \<Rightarrow> refuse 500 ''failed to verify target role'' c2
          | (Inr targetRole, c2) \<Rightarrow>
          (if role = ''admin'' \<and> targetRole = ''admin'' then refuse 403 ''admin cannot ban another admin'' c2
           else disconnect_later u (ban_cascade (InsertInstanceBan u actorID reason (expiry now (br_ExpiresIn req))) u reason
             (\<lambda>_ c3. answer 204 EmptyBody (snd (InsertInstanceAuditLog actorID (Some u) ''instance_ban'' reason
               (map_option (\<lambda>n. [(''expires_in'', JInt n)]) (br_ExpiresIn req)) c3))) c2)))))"

definition unbanByUser :: "time \<Rightarrow> string \<Rightarrow> (string \<times> string) option \<Rightarrow> console \<Rightarrow> instance_result" where
  "unbanByUser dbNow actorID body c =
     (case GetUserRole actorID c of
        (Inl _, c1) \<Rightarrow> refuse 500 ''failed to verify role'' c1
      | (Inr role, c1) \<Rightarrow>
      (if role \<noteq> ''admin'' then refuse 403 ''admin role required'' c1
       else case body of
         None \<Rightarrow> refuse 400 ''invalid body'' c1
       | Some (u, reason0) \<Rightarrow>
      (let reason = TrimSpace reason0
       in if u = [] then refuse 400 ''userId is required'' c1
          else if reason = [] then refuse 400 ''reason is required'' c1
          else case with_people (GetActiveInstanceBan dbNow u) c1 of
            (Inl _, c2) \<Rightarrow> refuse 500 ''failed to check ban status'' c2
          | (Inr None, c2) \<Rightarrow> refuse 404 ''no active instance ban for this user'' c2
          | (Inr (Some b), c2) \<Rightarrow>
          (case LiftInstanceBan (ib_ID b) actorID c2 of
             (Inl _, c3) \<Rightarrow> refuse 500 ''failed to lift ban'' c3
           | (Inr _, c3) \<Rightarrow>
               answer 204 EmptyBody (snd (InsertInstanceAuditLog actorID (Some u) ''instance_unban'' reason None c3))))))"

definition listInstanceTemplates :: "console \<Rightarrow> instance_result" where
  "listInstanceTemplates c =
     (case ListServerTemplates c of
        (Inl _, c1) \<Rightarrow> refuse 500 ''failed to list templates'' c1
      | (Inr ts, c1) \<Rightarrow> answer 200 (InstanceTemplates ts) c1)"

definition listMyServers :: "string \<Rightarrow> console \<Rightarrow> instance_result" where
  "listMyServers userID c =
     (case on_hall (ListServersForUser userID) c of
        (Inl _, c1) \<Rightarrow> refuse 500 ''failed to list servers'' c1
      | (Inr gs, c1) \<Rightarrow> answer 200 (MyGuilds gs) c1)"

section \<open>The routes\<close>

datatype instance_call =
    InstanceConfigReq
  | InstanceMembersReq
  | InstanceUsersReq string
  | UserBanReq "ban_request option"
  | UserUnbanReq "(string \<times> string) option"
  | InstanceTemplatesReq
  | MyServersReq

fun InstanceRoutes :: "lobby_env \<Rightarrow> time \<Rightarrow> time \<Rightarrow> string \<Rightarrow> instance_call \<Rightarrow> console \<Rightarrow> instance_result" where
  "InstanceRoutes L now dbNow u InstanceConfigReq c = getInstanceConfig u c"
| "InstanceRoutes L now dbNow u InstanceMembersReq c = listInstanceMembers c"
| "InstanceRoutes L now dbNow u (InstanceUsersReq q) c = searchInstanceUsers L dbNow u q c"
| "InstanceRoutes L now dbNow u (UserBanReq b) c = banByUser now u b c"
| "InstanceRoutes L now dbNow u (UserUnbanReq b) c = unbanByUser dbNow u b c"
| "InstanceRoutes L now dbNow u InstanceTemplatesReq c = listInstanceTemplates c"
| "InstanceRoutes L now dbNow u MyServersReq c = listMyServers u c"

section \<open>Series of requests\<close>

text \<open>
  A step of the whole: a request of an operator, of a user to the instance, of anybody to the lobby (and through it
  to a guild), or the purge of the operators' sessions. A request that panics counts as no step.
\<close>

datatype console_call =
    AdminCall draws admin_http admin_call
  | UserCall string instance_call
  | LobbyCall string lobby_request
  | PurgeCall time

fun console_step :: "admin_env \<Rightarrow> (time \<times> time) \<times> console_call \<Rightarrow> console \<Rightarrow> console" where
  "console_step D ((now, dbNow), AdminCall ds r q) c =
     (case AdminAPIRoutes D now dbNow ds r q c of None \<Rightarrow> c | Some (_, c') \<Rightarrow> c')"
| "console_step D ((now, dbNow), UserCall u q) c =
     (case InstanceRoutes (ad_lobby D) now dbNow u q c of None \<Rightarrow> c | Some (_, c') \<Rightarrow> c')"
| "console_step D ((now, dbNow), LobbyCall u q) c =
     (case LobbyRoutes (ad_lobby D) now dbNow u q (hall c) of None \<Rightarrow> c | Some (_, s) \<Rightarrow> c\<lparr>hall := s\<rparr>)"
| "console_step D ((now, dbNow), PurgeCall retention) c = snd (PurgeStaleAdminSessions retention c)"

definition console_run :: "admin_env \<Rightarrow> ((time \<times> time) \<times> console_call) list \<Rightarrow> console \<Rightarrow> console" where
  "console_run D qs c = fold (console_step D) qs c"

end
