(* ===== verification/State_Frame.thy ===== *)
theory State_Frame
  imports Invite_Facts Handler_Rules
begin

text \<open>
  How handlers act on a state of any kind. The locale \<open>state_frame\<close> is a relation between states; it lifts the
  relation from operations, which give a value and the next state, to the handlers built from them. A handler with an
  answer is taken apart by the rules \<open>yields\<close>, one with a value by the rules \<open>ends\<close>.
\<close>

lemma yields_None [yields]: "yields P None"
  by (simp add: yields_def)

locale state_frame =
  fixes R :: "'s \<Rightarrow> 's \<Rightarrow> bool"
  assumes refl: "R c c"
    and trans: "R c c' \<Longrightarrow> R c' c'' \<Longrightarrow> R c c''"
begin

definition keeps :: "('s \<Rightarrow> 'a \<times> 's) \<Rightarrow> bool" where
  "keeps q \<longleftrightarrow> (\<forall>c. R c (snd (q c)))"

lemma step: "keeps q \<Longrightarrow> q c = (r, c') \<Longrightarrow> R c0 c \<Longrightarrow> R c0 c'"
  unfolding keeps_def by (metis snd_conv trans)

lemma stays_run:
  "keeps q \<Longrightarrow> R c0 c \<Longrightarrow> (\<And>r c'. q c = (r, c') \<Longrightarrow> R c0 c' \<Longrightarrow> yields (\<lambda>_ c'. R c0 c') (h r c')) \<Longrightarrow>
   yields (\<lambda>_ c'. R c0 c') (case q c of (r, c') \<Rightarrow> h r c')"
  by (cases "q c") (simp add: step)

lemma ends_run:
  "keeps q \<Longrightarrow> R c0 c \<Longrightarrow> (\<And>r c'. q c = (r, c') \<Longrightarrow> R c0 c' \<Longrightarrow> ends (R c0) (h r c')) \<Longrightarrow>
   ends (R c0) (case q c of (r, c') \<Rightarrow> h r c')"
  by (cases "q c") (simp add: step)

lemma snd_keeps: "keeps q \<Longrightarrow> R c0 c \<Longrightarrow> R c0 (snd (q c))"
  by (rule step [OF _ prod.collapse [symmetric]])

lemma keepsI: "(\<And>c. ends (R c) (q c)) \<Longrightarrow> keeps q"
  unfolding keeps_def using endsD [OF _ prod.collapse [symmetric]] by blast

lemma ends_keeps: "keeps q \<Longrightarrow> R c0 c \<Longrightarrow> ends (R c0) (q c)"
  using snd_keeps [of q c0 c] by (cases "q c") (simp add: ends_def)

lemma cond_keeps: "keeps q \<Longrightarrow> keeps (\<lambda>c. if b then q c else (x, c))"
  using refl by (auto simp: keeps_def)

end

end
