(* ===== verification/Admin_Facts.thy ===== *)
theory Admin_Facts
  imports Instance State_Frame
begin

text \<open>
  How the requests of operators and users act on the state. The locale \<open>console_frame\<close> is a relation between states
  that reads respect; it lifts the relation from statements to handlers and routes, once for all relations.
\<close>

section \<open>Reads\<close>

text \<open>The state without the count of the statements, the schedule of failures and the hub.\<close>

definition still_hall :: "lobby \<Rightarrow> lobby" where
  "still_hall s = s\<lparr>core := \<lparr>accounts = (accounts (core s))\<lparr>adb := (people s)\<lparr>db_faults := []\<rparr>\<rparr>,
     site = \<lparr>hub = NewHub, cdb = (guilds s)\<lparr>cd_tick := 0\<rparr>\<rparr>\<rparr>\<rparr>"

definition still :: "console \<Rightarrow> console" where
  "still c = c\<lparr>hall := still_hall (hall c)\<rparr>"

definition calm :: "console \<Rightarrow> console \<Rightarrow> bool" where
  "calm c c' \<longleftrightarrow> still c' = still c"

lemma calm_refl [simp, intro]: "calm c c"
  by (simp add: calm_def)

lemma calm_trans: "calm c c' \<Longrightarrow> calm c' c'' \<Longrightarrow> calm c c''"
  by (simp add: calm_def)

lemma calm_hall: "still_hall s = still_hall (hall c) \<Longrightarrow> calm c (c\<lparr>hall := s\<rparr>)"
  by (simp add: calm_def still_def)

lemma still_parts:
  "admins (still c) = admins c" "admin_sessions (still c) = admin_sessions c"
  "service_identities (still c) = service_identities c" "instance_audit (still c) = instance_audit c"
  "config_plate (still c) = config_plate c" "cache (still c) = cache c" "hall (still c) = still_hall (hall c)"
  by (simp_all add: still_def)

lemma calm_console:
  assumes "calm c c'"
  shows "admins c' = admins c" "admin_sessions c' = admin_sessions c" "service_identities c' = service_identities c"
    "instance_audit c' = instance_audit c" "config_plate c' = config_plate c" "cache c' = cache c"
    "still_hall (hall c') = still_hall (hall c)"
proof -
  have e: "f (still c') = f (still c)" for f :: "console \<Rightarrow> 'b" using assms by (simp add: calm_def)
  show "admins c' = admins c" "admin_sessions c' = admin_sessions c" "service_identities c' = service_identities c"
    "instance_audit c' = instance_audit c" "config_plate c' = config_plate c" "cache c' = cache c"
    "still_hall (hall c') = still_hall (hall c)"
    using e [of admins] e [of admin_sessions] e [of service_identities] e [of instance_audit] e [of config_plate]
      e [of cache] e [of hall] by (simp_all only: still_parts)
qed

lemma still_hall_parts:
  "users (people (still_hall s)) = users (people s)" "sessions (people (still_hall s)) = sessions (people s)"
  "instance_bans (people (still_hall s)) = instance_bans (people s)"
  "instance_config (people (still_hall s)) = instance_config (people s)"
  "cd_policy (guilds (still_hall s)) = cd_policy (guilds s)" "cd_members (guilds (still_hall s)) = cd_members (guilds s)"
  "cd_servers (guilds (still_hall s)) = cd_servers (guilds s)"
  "cd_fault (guilds (still_hall s)) = cd_fault (guilds s)" "cd_clock (guilds (still_hall s)) = cd_clock (guilds s)"
  "cd_templates (guilds (still_hall s)) = cd_templates (guilds s)"
  "guild_discovery (still_hall s) = guild_discovery s" "dm_pairs (still_hall s) = dm_pairs s"
  by (simp_all add: still_hall_def)

lemma still_hall_eq:
  assumes "still_hall s' = still_hall s"
  shows "users (people s') = users (people s)" "sessions (people s') = sessions (people s)"
    "instance_bans (people s') = instance_bans (people s)" "instance_config (people s') = instance_config (people s)"
    "cd_policy (guilds s') = cd_policy (guilds s)" "cd_members (guilds s') = cd_members (guilds s)"
    "cd_servers (guilds s') = cd_servers (guilds s)" "cd_fault (guilds s') = cd_fault (guilds s)"
    "cd_clock (guilds s') = cd_clock (guilds s)" "cd_templates (guilds s') = cd_templates (guilds s)"
    "guild_discovery s' = guild_discovery s" "dm_pairs s' = dm_pairs s"
proof -
  have e: "f (still_hall s') = f (still_hall s)" for f :: "lobby \<Rightarrow> 'b" using assms by simp
  note p = e [of "\<lambda>s. users (people s)"] e [of "\<lambda>s. sessions (people s)"] e [of "\<lambda>s. instance_bans (people s)"]
    e [of "\<lambda>s. instance_config (people s)"] e [of "\<lambda>s. cd_policy (guilds s)"] e [of "\<lambda>s. cd_members (guilds s)"]
    e [of "\<lambda>s. cd_servers (guilds s)"] e [of "\<lambda>s. cd_fault (guilds s)"] e [of "\<lambda>s. cd_clock (guilds s)"]
    e [of "\<lambda>s. cd_templates (guilds s)"] e [of guild_discovery] e [of dm_pairs]
  show "users (people s') = users (people s)" "sessions (people s') = sessions (people s)"
    "instance_bans (people s') = instance_bans (people s)" "instance_config (people s') = instance_config (people s)"
    "cd_policy (guilds s') = cd_policy (guilds s)" "cd_members (guilds s') = cd_members (guilds s)"
    "cd_servers (guilds s') = cd_servers (guilds s)" "cd_fault (guilds s') = cd_fault (guilds s)"
    "cd_clock (guilds s') = cd_clock (guilds s)" "cd_templates (guilds s') = cd_templates (guilds s)"
    "guild_discovery s' = guild_discovery s" "dm_pairs s' = dm_pairs s"
    using p by (simp_all only: still_hall_parts)
qed

lemmas calm_lobby = calm_console(7) [THEN still_hall_eq(1)] calm_console(7) [THEN still_hall_eq(2)]
  calm_console(7) [THEN still_hall_eq(3)] calm_console(7) [THEN still_hall_eq(4)] calm_console(7) [THEN still_hall_eq(5)]
  calm_console(7) [THEN still_hall_eq(6)] calm_console(7) [THEN still_hall_eq(7)] calm_console(7) [THEN still_hall_eq(8)]
  calm_console(7) [THEN still_hall_eq(9)] calm_console(7) [THEN still_hall_eq(10)] calm_console(7) [THEN still_hall_eq(11)]
  calm_console(7) [THEN still_hall_eq(12)]

definition reads :: "'a console_op \<Rightarrow> bool" where
  "reads q \<longleftrightarrow> (\<forall>c. calm c (snd (q c)))"

lemma on_guilds_still:
  assumes "\<And>now uuid d. snd (q now uuid d) = d"
  shows "still_hall (snd (on_guilds (chat_query q) s)) = still_hall s"
  by (simp add: on_guilds_def run_site_def run_chat_def chat_query_def Let_def still_hall_def case_prod_beta assms)

lemma on_people_still:
  assumes "\<And>d. snd (q d) = d"
  shows "still_hall (snd (on_people (db_query q) s)) = still_hall s"
  by (simp add: on_people_def run_db_def db_query_def still_hall_def case_prod_beta assms split: bool.splits)

lemma reads_hall: "(\<And>s. still_hall (snd (q s)) = still_hall s) \<Longrightarrow> reads (on_hall q)"
  by (auto simp: reads_def on_hall_def case_prod_beta intro!: calm_hall)

lemma reads_guilds: "(\<And>now uuid d. snd (q now uuid d) = d) \<Longrightarrow> reads (with_guilds (chat_query q))"
  by (rule reads_hall) (rule on_guilds_still)

lemma reads_people: "(\<And>d. snd (q d) = d) \<Longrightarrow> reads (with_people (db_query q))"
  by (rule reads_hall) (rule on_people_still)

lemma console_query_cases:
  assumes "console_query q c = (r, c')"
  obtains "r = Inl DbOutage" "calm c c'" "cd_fault (guilds (hall c)) (cd_tick (guilds (hall c)))"
    | c1 uuid where "calm c c1" "q (cd_clock (guilds (hall c)) (cd_tick (guilds (hall c)))) uuid c1 = (r, c')"
proof -
  let ?t = "with_guilds (chat_query (\<lambda>now uuid d. (Inr (now, uuid), d))) :: (time \<times> string) console_op"
  obtain x c1 where x: "?t c = (x, c1)" by fastforce
  have "reads ?t" by (rule reads_guilds) simp
  then have calm: "calm c c1" using x unfolding reads_def by (metis snd_conv)
  have "x = (if cd_fault (guilds (hall c)) (cd_tick (guilds (hall c))) then Inl DbOutage
      else Inr (cd_clock (guilds (hall c)) (cd_tick (guilds (hall c))), cd_uuid (guilds (hall c)) (cd_tick (guilds (hall c)))))"
    using x by (auto simp: on_hall_def on_guilds_def run_site_def run_chat_def chat_query_def Let_def split: if_splits)
  then show thesis using that assms x calm by (auto simp: console_query_def split: if_splits)
qed

lemma reads_console: "(\<And>now uuid c. snd (q now uuid c) = c) \<Longrightarrow> reads (console_query q)"
proof (unfold reads_def, intro allI)
  fix c
  assume k: "\<And>now uuid c. snd (q now uuid c) = c"
  obtain r c' where e: "console_query q c = (r, c')" by fastforce
  then have "calm c c'"
  proof (rule console_query_cases)
    fix c1 uuid
    assume "calm c c1" "q (cd_clock (guilds (hall c)) (cd_tick (guilds (hall c)))) uuid c1 = (r, c')"
    then show ?thesis using k by (metis snd_conv)
  qed
  then show "calm c (snd (console_query q c))" by (simp add: e)
qed

lemma reads_read: "reads (console_read p)"
  unfolding console_read_def by (rule reads_console) simp

lemma count_unread_still: "still_hall (snd (count_unread u gs s)) = still_hall s"
proof (induction gs arbitrary: s)
  case (Cons g gs)
  have "still_hall (snd (on_guilds (GetUnreadCount ch u) s)) = still_hall s" for ch s
    unfolding GetUnreadCount_def chat_read_def by (rule on_guilds_still) simp
  then show ?case using Cons by (simp add: case_prod_beta split: option.split sum.split)
qed simp

lemma hall_hub_calm: "hall_hub f c = Some c' \<Longrightarrow> calm c c'"
  by (auto simp: hall_hub_def lobby_hub_def run_hub_def calm_def still_def still_hall_def)

lemma reads_templates: "(\<And>now uuid ts. snd (q now uuid ts) = ts) \<Longrightarrow> reads (templates_query q)"
  unfolding templates_query_def by (rule reads_guilds) (simp add: case_prod_beta)

lemma account_reads:
  "reads CountInstanceAdmins" "reads (GetInstanceAdminByUsername n)" "reads (GetInstanceAdminByID i)"
  "reads ListInstanceAdmins" "reads (GetInstanceAdminSessionByTokenHash h)" "reads GetInstanceServiceIdentity"
  "reads GetVoiceKeyRotationHours" "reads (ListInstanceAuditLog l off f)" "reads (console_read p)"
  unfolding CountInstanceAdmins_def GetInstanceAdminByUsername_def GetInstanceAdminByID_def ListInstanceAdmins_def
    GetInstanceAdminSessionByTokenHash_def GetInstanceServiceIdentity_def GetVoiceKeyRotationHours_def
    ListInstanceAuditLog_def by (rule reads_read)+

lemma config_read: "reads GetInstanceConfig_row"
  unfolding GetInstanceConfig_row_def by (rule reads_console) (simp add: Let_def split: option.split)

lemma template_reads: "reads ListServerTemplates" "reads next_position" "reads (with_guilds (GetServerTemplateByID i))"
  unfolding ListServerTemplates_def next_position_def GetServerTemplateByID_def
  by (rule reads_templates, simp, rule reads_templates, simp, rule reads_guilds, simp split: option.split)

lemma people_console_reads:
  "reads (GetUserRole u)" "reads ListMembers" "reads (SearchUsers L t q n)" "reads (with_people (GetActiveInstanceBan t u))"
  unfolding GetUserRole_def ListMembers_def SearchUsers_def GetActiveInstanceBan_def
  by (rule reads_people, simp add: Let_def split: option.split)+

lemma guild_reads:
  "reads (with_guilds ListGuildBillingStats)" "reads (with_guilds (ListChannels g))" "reads (with_guilds (GetServerByID g))"
  unfolding ListGuildBillingStats_def ListChannels_def GetServerByID_def chat_read_def
  by (rule reads_guilds, simp split: option.split)+

lemma ListServersForUser_reads: "reads (on_hall (ListServersForUser u))"
proof (rule reads_hall)
  fix s
  let ?q = "\<lambda>_ _ s. (Inr (map (guild_row u s) (sort_key sv_CreatedAt (filter (\<lambda>g. list_ex (\<lambda>m. sm_ServerID m = sv_ID g \<and>
          sm_UserID m = Some u) (cd_members (guilds s))) (cd_servers (guilds s))))), s)"
  obtain r s' where e: "lobby_query ?q s = (r, s')" by fastforce
  have "still_hall (snd (on_guilds (chat_query (\<lambda>now uuid d. (Inr (now, uuid), d))) s)) = still_hall s"
    by (rule on_guilds_still) simp
  then have "still_hall s' = still_hall s"
    using e by (auto simp: lobby_query_def split: prod.splits sum.splits)
  then show "still_hall (snd (ListServersForUser u s)) = still_hall s"
    unfolding ListServersForUser_def bind_lobby_def e using count_unread_still by (simp split: sum.split)
qed

lemmas admin_reads = account_reads config_read template_reads people_console_reads guild_reads ListServersForUser_reads

section \<open>Relations that every statement keeps\<close>

locale console_frame = state_frame R for R :: "console \<Rightarrow> console \<Rightarrow> bool" +
  assumes calm: "calm c c' \<Longrightarrow> R c c'"
begin

lemma reads_keeps: "reads q \<Longrightarrow> keeps q"
  by (auto simp: reads_def keeps_def intro: calm)

lemma keeps_query: "(\<And>now uuid c. R c (snd (q now uuid c))) \<Longrightarrow> keeps (console_query q)"
proof (unfold keeps_def, intro allI)
  fix c
  assume k: "\<And>now uuid c. R c (snd (q now uuid c))"
  obtain r c' where e: "console_query q c = (r, c')" by fastforce
  then have "R c c'"
  proof (rule console_query_cases)
    fix c1 uuid
    assume "calm c c1" "q (cd_clock (guilds (hall c)) (cd_tick (guilds (hall c)))) uuid c1 = (r, c')"
    then show ?thesis using k trans calm by (metis snd_conv)
  qed (rule calm)
  then show "R c (snd (console_query q c))" by (simp add: e)
qed

lemma hub_keeps: "hall_hub f c = Some c' \<Longrightarrow> R c0 c \<Longrightarrow> R c0 c'"
  using trans calm hall_hub_calm by blast

lemmas reads = admin_reads [THEN reads_keeps]

end

text \<open>
  A relation that the writes of most handlers keep: not those of accounts, of bans that are lifted and of the
  configuration, which each relation judges for itself.
\<close>

locale console_writes = console_frame +
  assumes account_writes: "keeps (CreateInstanceAdmin u e h role)" "keeps (UpdateInstanceAdminPassword i h)"
      "keeps (TouchInstanceAdminLastLogin i t)"
    and session_writes: "keeps (CreateInstanceAdminSession i a h t ip ua)" "keeps (DeleteInstanceAdminSessionByID i)"
      "keeps (UpdateInstanceAdminSessionLastSeen i t)" "keeps (PurgeStaleAdminSessions t)"
    and identity_writes: "keeps (UpsertInstanceServiceIdentity n p w v)"
    and template_writes: "keeps (clear_defaults other)" "keeps (insert_template n tcs d pos)" "keeps (update_template i n tcs d)"
      "keeps (DeleteServerTemplate i)"
    and user_writes: "keeps (DeleteSessionsByUserID u)"
    and ban_writes: "keeps (InsertInstanceBan u a rs ex)" "keeps (InsertInstanceBanByAdmin u a rs ex)"
    and audit_writes: "keeps (InsertInstanceAuditLog a tg ac rs m)"
    and guild_writes: "keeps (with_guilds (RemoveServerMember g u))" "keeps (with_guilds (UpdateServerMemberCapOverride g cap))"
    and cache_write: "R c (c\<lparr>cache := k\<rparr>)"
begin

lemmas ops = reads account_writes session_writes identity_writes template_writes user_writes ban_writes audit_writes
  guild_writes

lemma stays_hub:
  "R c0 c \<Longrightarrow> (\<And>c'. R c0 c' \<Longrightarrow> yields (\<lambda>_ c'. R c0 c') (h c')) \<Longrightarrow>
   yields (\<lambda>_ c'. R c0 c') (case hall_hub f c of None \<Rightarrow> None | Some c' \<Rightarrow> h c')"
  using hub_keeps [of f c _ c0] by (auto split: option.split simp: yields_None)

lemma createAdmin_keeps: "keeps (createAdmin D ds u e p role)"
  by (rule keepsI, unfold createAdmin_def) (rule ends_run, rule ops | rule ends | assumption | rule refl)+

lemma issueAdminSession_keeps: "keeps (issueAdminSession D now ds r a)"
  by (rule keepsI, unfold issueAdminSession_def)
    (rule ends_run, rule ops | rule ends | assumption | rule refl | rule snd_keeps, rule ops)+

lemma ensureServiceIdentity_keeps: "keeps (ensureServiceIdentity D ds)"
  by (rule keepsI, unfold ensureServiceIdentity_def) (rule ends_run, rule ops | rule ends | assumption | rule refl)+

lemma ensureOwnerSafety_keeps: "keeps (ensureOwnerSafety a role act)"
  by (rule keepsI, unfold ensureOwnerSafety_def) (rule ends_run, rule ops | rule ends | assumption | rule refl)+

lemma create_template_keeps: "keeps (CreateServerTemplate n tcs d)"
  by (rule keepsI, unfold CreateServerTemplate_def, rule ends_run [OF cond_keeps [OF template_writes(1)] refl])
    (rule ends_run, rule ops | rule ends_keeps, rule ops | rule ends | assumption)+

lemma update_template_keeps: "keeps (UpdateServerTemplate i n tcs d)"
  by (rule keepsI, unfold UpdateServerTemplate_def, rule ends_run [OF cond_keeps [OF template_writes(1)] refl])
    (rule ends_keeps, rule ops | rule ends | assumption)+

lemma evict_keeps: "keeps (evictUserFromAllVoice u gs)"
proof (induction gs)
  case (Cons g gs)
  show ?case
    by (rule keepsI, unfold evictUserFromAllVoice.simps)
      (rule ends_run, rule ops | rule ends_run, rule Cons | rule ends_keeps, rule Cons | rule ends | assumption | rule refl)+
qed (simp add: keeps_def refl)

lemma leave_keeps: "leave_guilds u gs c = Some c' \<Longrightarrow> R c0 c \<Longrightarrow> R c0 c'"
proof (induction gs arbitrary: c)
  case (Cons g gs)
  obtain c1 where c1: "hall_hub (BroadcastToServer (sv_ID (mg_Server g))
        (RawFrame (JObj [(''type'', JStr ''member_left''), (''user_id'', JStr u)])))
        (snd (with_guilds (RemoveServerMember (sv_ID (mg_Server g)) u) c)) = Some c1"
    and l: "leave_guilds u gs c1 = Some c'"
    using Cons.prems(1) by (auto simp: bind_eq_Some_conv)
  have "R c0 c1" by (rule hub_keeps [OF c1]) (rule snd_keeps [OF guild_writes(1) Cons.prems(2)])
  then show ?case by (rule Cons.IH [OF l])
qed simp

lemma stays_leave:
  "R c0 c \<Longrightarrow> (\<And>c'. R c0 c' \<Longrightarrow> yields (\<lambda>_ c'. R c0 c') (h c')) \<Longrightarrow>
   yields (\<lambda>_ c'. R c0 c') (case leave_guilds u gs c of None \<Rightarrow> None | Some c' \<Rightarrow> h c')"
  using leave_keeps [of u gs c _ c0] by (auto split: option.split simp: yields_None)

lemma ban_cascade_stays:
  assumes "keeps ins" and "\<And>gs c. R c0 c \<Longrightarrow> yields (\<lambda>_ c'. R c0 c') (finish gs c)" and "R c0 c"
  shows "yields (\<lambda>_ c'. R c0 c') (ban_cascade ins u reason finish c)"
  unfolding ban_cascade_def Let_def
  by (rule stays_hub stays_run stays_leave yields assms(1) assms(2) snd_keeps user_writes assms(3) reads | assumption)+

lemma disconnect_stays:
  "yields (\<lambda>_ c'. R c0 c') r \<Longrightarrow> yields (\<lambda>_ c'. R c0 c') (disconnect_later u r)"
proof -
  have "\<exists>c'. hall_hub (\<lambda>h. Some (DisconnectUser u h)) c = Some c'" for c
    by (simp add: hall_hub_def lobby_hub_def run_hub_def)
  then show "yields (\<lambda>_ c'. R c0 c') r \<Longrightarrow> yields (\<lambda>_ c'. R c0 c') (disconnect_later u r)"
    by (auto simp: yields_def disconnect_later_def) (metis hub_keeps option.sel)
qed

lemma refresh_keeps: "keeps refresh_cache"
  by (rule keepsI, unfold refresh_cache_def)
    (rule ends_run, rule ops | rule ends | assumption | rule refl | rule trans [OF _ cache_write])+

lemmas all_ops = ops createAdmin_keeps issueAdminSession_keeps ensureServiceIdentity_keeps ensureOwnerSafety_keeps
  create_template_keeps update_template_keeps refresh_keeps evict_keeps

lemma account_handlers:
  assumes "R c0 c"
  shows "yields (\<lambda>_ c'. R c0 c') (bootstrapStatus D c)" "yields (\<lambda>_ c'. R c0 c') (bootstrapClaim D now ds r bc c)"
    "yields (\<lambda>_ c'. R c0 c') (adminLogin D now ds r bl c)" "yields (\<lambda>_ c'. R c0 c') (adminLogout D r c)"
    "yields (\<lambda>_ c'. R c0 c') (adminMe aid c)" "yields (\<lambda>_ c'. R c0 c') (changePassword D ds aid bp c)"
    "yields (\<lambda>_ c'. R c0 c') (listAdmins c)" "yields (\<lambda>_ c'. R c0 c') (createAdminAccount D ds ba c)"
    "yields (\<lambda>_ c'. R c0 c') (resetAdminPassword D ds i br c)" "yields (\<lambda>_ c'. R c0 c') (getServiceIdentity D c)"
    "yields (\<lambda>_ c'. R c0 c') (provisionServiceIdentity D ds c)"
  unfolding bootstrapStatus_def bootstrapClaim_def adminLogin_def adminLogout_def adminMe_def changePassword_def
    listAdmins_def createAdminAccount_def resetAdminPassword_def getServiceIdentity_def provisionServiceIdentity_def
  by (rule stays_run, rule all_ops | rule yields | rule snd_keeps, rule all_ops | assumption | rule assms)+

lemma report_handlers:
  assumes "R c0 c"
  shows "yields (\<lambda>_ c'. R c0 c') (listGuilds c)" "yields (\<lambda>_ c'. R c0 c') (listUsers c)"
    "yields (\<lambda>_ c'. R c0 c') (health now st c)" "yields (\<lambda>_ c'. R c0 c') (getConfig c)"
    "yields (\<lambda>_ c'. R c0 c') (listServerTemplates c)" "yields (\<lambda>_ c'. R c0 c') (createServerTemplate bt c)"
    "yields (\<lambda>_ c'. R c0 c') (updateServerTemplate i bt c)" "yields (\<lambda>_ c'. R c0 c') (deleteServerTemplate i c)"
    "yields (\<lambda>_ c'. R c0 c') (instanceAuditLog l off a t c)" "yields (\<lambda>_ c'. R c0 c') (setServerMemberCap i bm c)"
  unfolding listGuilds_def listUsers_def health_def getConfig_def listServerTemplates_def createServerTemplate_def
    updateServerTemplate_def deleteServerTemplate_def instanceAuditLog_def setServerMemberCap_def
  by (rule stays_run, rule all_ops | rule yields | assumption | rule assms)+

lemma ban_handlers:
  assumes "R c0 c"
  shows "yields (\<lambda>_ c'. R c0 c') (instanceBan D now aid b c)" "yields (\<lambda>_ c'. R c0 c') (banByUser now u b c)"
proof -
  have e: "keeps (\<lambda>c. if hasRoomService D then evictUserFromAllVoice u gs c else ([], c))" for u gs
    by (rule cond_keeps) (rule evict_keeps)
  show "yields (\<lambda>_ c'. R c0 c') (instanceBan D now aid b c)"
    unfolding instanceBan_def
    by (rule stays_run [OF e] | rule yields | rule disconnect_stays | rule ban_cascade_stays | rule ops | assumption | rule assms)+
  show "yields (\<lambda>_ c'. R c0 c') (banByUser now u b c)"
    unfolding banByUser_def
    by (rule stays_run, rule ops | rule yields | rule disconnect_stays | rule ban_cascade_stays | rule ops |
        rule snd_keeps, rule ops | assumption | rule assms)+
qed

lemma patch_stays:
  assumes "\<And>i e role act. keeps (UpdateInstanceAdmin i e role act)" and "R c0 c"
  shows "yields (\<lambda>_ c'. R c0 c') (patchAdminAccount D i b c)"
  unfolding patchAdminAccount_def
  by (rule stays_run, rule all_ops assms(1) | rule yields | assumption | rule assms(2))+

lemma update_stays:
  assumes "\<And>u. keeps (UpdateInstanceConfig u)" and "R c0 c"
  shows "yields (\<lambda>_ c'. R c0 c') (updateConfig b c)"
  unfolding updateConfig_def
  by (rule stays_run, rule all_ops assms(1) | rule yields | rule hub_keeps, assumption | assumption | rule assms(2))+

lemma unban_stays:
  assumes "R c0 c"
  shows "(\<And>i. keeps (LiftInstanceBanByAdmin i aid)) \<Longrightarrow> yields (\<lambda>_ c'. R c0 c') (instanceUnban t aid u c)"
    and "(\<And>i. keeps (LiftInstanceBan i aid)) \<Longrightarrow> yields (\<lambda>_ c'. R c0 c') (unbanByUser t aid b c)"
  unfolding instanceUnban_def unbanByUser_def
  by (rule stays_run, rule all_ops | rule stays_run, assumption | rule yields | rule snd_keeps, rule ops | assumption | rule assms)+

lemma session_door:
  assumes "\<And>aid role c. R c0 c \<Longrightarrow> yields (\<lambda>_ c'. R c0 c') (k aid role c)" and "R c0 c"
  shows "yields (\<lambda>_ c'. R c0 c') (RequireAdminSession D now r k c)"
  unfolding RequireAdminSession_def
  by (rule stays_run, rule all_ops | rule yields | rule assms(1) | rule snd_keeps, rule ops | assumption | rule assms(2))+

text \<open>What a request does, if the special writes it makes are kept.\<close>

fun special_ok :: "admin_call \<Rightarrow> bool" where
  "special_ok (PatchAdminReq i b) = (\<forall>i e role act. keeps (UpdateInstanceAdmin i e role act))"
| "special_ok (UpdateConfigReq b) = (\<forall>u. keeps (UpdateInstanceConfig u))"
| "special_ok (UnbanReq u) = (\<forall>i a. keeps (LiftInstanceBanByAdmin i a))"
| "special_ok _ = True"

lemma handle_stays:
  assumes "special_ok q" and "R c0 c"
  shows "yields (\<lambda>_ c'. R c0 c') (handle_call D now dbNow ds r aid q c)"
  using assms by (cases q) (simp_all add: account_handlers report_handlers ban_handlers patch_stays update_stays unban_stays)

lemma routes_via:
  assumes "\<And>aid c. R c0 c \<Longrightarrow> yields (\<lambda>_ c'. R c0 c') (handle_call D now dbNow ds r aid q c)" and "R c0 c"
  shows "yields (\<lambda>_ c'. R c0 c') (AdminAPIRoutes D now dbNow ds r q c)"
proof -
  have "yields (\<lambda>_ c'. R c0 c') (RequireAdminRole roles role go c)"
    if "R c0 c" "\<And>c. R c0 c \<Longrightarrow> yields (\<lambda>_ c'. R c0 c') (go c)" for roles role go c
    using that by (auto simp: RequireAdminRole_def intro: yields)
  moreover have "yields (\<lambda>_ c'. R c0 c') (RequireAdminOrigin D m r go c)"
    if "R c0 c" "\<And>c. R c0 c \<Longrightarrow> yields (\<lambda>_ c'. R c0 c') (go c)" for m go c
    using that by (auto simp: RequireAdminOrigin_def intro: yields)
  ultimately show ?thesis using assms
    by (auto simp: AdminAPIRoutes_def Let_def intro!: session_door)
qed

lemmas routes_stay = routes_via [OF handle_stays]

lemma instance_handlers:
  assumes "R c0 c"
  shows "yields (\<lambda>_ c'. R c0 c') (getInstanceConfig u c)" "yields (\<lambda>_ c'. R c0 c') (listInstanceMembers c)"
    "yields (\<lambda>_ c'. R c0 c') (searchInstanceUsers L t u q c)" "yields (\<lambda>_ c'. R c0 c') (listInstanceTemplates c)"
    "yields (\<lambda>_ c'. R c0 c') (listMyServers u c)"
  unfolding getInstanceConfig_def listInstanceMembers_def searchInstanceUsers_def listInstanceTemplates_def listMyServers_def
  by (rule stays_run, rule all_ops | rule yields | assumption | rule assms)+

lemma instance_stays:
  assumes "\<And>b. q = UserUnbanReq b \<Longrightarrow> yields (\<lambda>_ c'. R c0 c') (unbanByUser dbNow u b c)" and "R c0 c"
  shows "yields (\<lambda>_ c'. R c0 c') (InstanceRoutes L now dbNow u q c)"
  using assms by (cases q) (simp_all add: instance_handlers ban_handlers)

text \<open>A step of a series: what else of its writes has to be kept.\<close>

fun call_ok :: "admin_env \<Rightarrow> console_call \<Rightarrow> bool" where
  "call_ok D (AdminCall ds r q) = (\<forall>c0 now dbNow aid c. R c0 c \<longrightarrow> yields (\<lambda>_ c'. R c0 c') (handle_call D now dbNow ds r aid q c))"
| "call_ok D (UserCall u (UserUnbanReq b)) = (\<forall>c dbNow. yields (\<lambda>_ c'. R c c') (unbanByUser dbNow u b c))"
| "call_ok D (UserCall u q) = True"
| "call_ok D (LobbyCall u q) = (\<forall>L now dbNow c a s. LobbyRoutes L now dbNow u q (hall c) = Some (a, s) \<longrightarrow> R c (c\<lparr>hall := s\<rparr>))"
| "call_ok D (PurgeCall t) = True"

lemma step_stays:
  assumes "call_ok D q"
  shows "R c (console_step D (t, q) c)"
proof (cases q)
  case (AdminCall ds r k)
  obtain now dbNow where t: "t = (now, dbNow)" by (cases t)
  have "yields (\<lambda>_ c'. R c c') (AdminAPIRoutes D now dbNow ds r k c)"
    by (rule routes_via [OF _ refl]) (use assms AdminCall in auto)
  then show ?thesis using refl by (auto simp: AdminCall t yields_def split: option.split)
next
  case (UserCall u k)
  obtain now dbNow where t: "t = (now, dbNow)" by (cases t)
  have "yields (\<lambda>_ c'. R c c') (InstanceRoutes (ad_lobby D) now dbNow u k c)"
    by (rule instance_stays [OF _ refl]) (use assms UserCall in auto)
  then show ?thesis using refl by (auto simp: UserCall t yields_def split: option.split)
next
  case (LobbyCall u k)
  then show ?thesis using assms refl by (cases t) (auto split: option.split)
next
  case (PurgeCall r)
  then show ?thesis using snd_keeps [OF session_writes(4) refl] by (cases t) simp
qed

lemma run_stays:
  assumes "\<And>t q. (t, q) \<in> set qs \<Longrightarrow> call_ok D q" and "R c0 c"
  shows "R c0 (console_run D qs c)"
  using assms
proof (induction qs arbitrary: c)
  case (Cons x qs)
  obtain t q where x: "x = (t, q)" by (cases x)
  have ok: "call_ok D q'" if "(t', q') \<in> set qs" for t' q'
    by (rule Cons.prems(1)) (use that in \<open>rule list.set_intros(2)\<close>)
  have "R c0 (console_step D (t, q) c)"
    by (rule trans [OF Cons.prems(2) step_stays]) (use Cons.prems(1) [of t q] x in simp)
  from Cons.IH [OF ok this] show ?case by (simp add: console_run_def x)
qed (simp add: console_run_def)

end

end
