(* ===== verification/Admin_Props.thy ===== *)
theory Admin_Props
  imports Admin_Facts Invite_Props Auth_Props
begin

text \<open>
  The properties of the administration: an owner always remains, the first claim is the only one, who may do what, and
  what the configuration may hold.
\<close>

section \<open>An owner remains\<close>

definition active_owner :: "InstanceAdmin \<Rightarrow> bool" where
  "active_owner a \<longleftrightarrow> am_Role a = ''owner'' \<and> am_IsActive a"

definition owned :: "console \<Rightarrow> bool" where
  "owned c \<longleftrightarrow> distinct (map am_ID (admins c)) \<and> (\<exists>a \<in> set (admins c). active_owner a)"

definition stays_owned :: "console \<Rightarrow> console \<Rightarrow> bool" where
  "stays_owned c c' \<longleftrightarrow> (owned c \<longrightarrow> owned c')"

lemma stays_owned_same: "admins c' = admins c \<Longrightarrow> stays_owned c c'"
  by (simp add: stays_owned_def owned_def)

interpretation owners: console_frame stays_owned
  by unfold_locales (auto simp: stays_owned_def intro: stays_owned_same [unfolded stays_owned_def, rule_format] calm_console)

lemma owners_query: "(\<And>now uuid c. admins (snd (q now uuid c)) = admins c) \<Longrightarrow> owners.keeps (console_query q)"
  by (rule owners.keeps_query) (rule stays_owned_same)

lemma owners_hall: "owners.keeps (on_hall q)"
  unfolding owners.keeps_def by (auto simp: on_hall_def split: prod.split intro: stays_owned_same)

lemma owners_update:
  assumes "\<And>a. am_ID (f a) = am_ID a \<and> am_Role (f a) = am_Role a \<and> am_IsActive (f a) = am_IsActive a"
  shows "stays_owned c (c\<lparr>admins := sql_update p f (admins c)\<rparr>)"
proof -
  have "\<exists>b \<in> set (sql_update p f xs). active_owner b" if "a \<in> set xs" "active_owner a" for a xs
    by (rule bexI [of _ "if p a then f a else a"]) (use that assms in \<open>auto simp: active_owner_def set_sql_update\<close>)
  then show ?thesis using map_sql_update [of am_ID f p "admins c"] assms
    by (auto simp: stays_owned_def owned_def)
qed

interpretation owners: console_writes stays_owned
proof unfold_locales
  show "owners.keeps (CreateInstanceAdmin u e h role)" for u e h role
    unfolding CreateInstanceAdmin_def
    by (rule owners.keeps_query) (auto simp: stays_owned_def owned_def Let_def sql)
qed (unfold UpdateInstanceAdminPassword_def TouchInstanceAdminLastLogin_def CreateInstanceAdminSession_def
    DeleteInstanceAdminSessionByID_def UpdateInstanceAdminSessionLastSeen_def PurgeStaleAdminSessions_def
    UpsertInstanceServiceIdentity_def clear_defaults_def insert_template_def update_template_def
    DeleteServerTemplate_def templates_query_def DeleteSessionsByUserID_def InsertInstanceBan_def
    InsertInstanceBanByAdmin_def insert_ban_def InsertInstanceAuditLog_def Let_def,
    (rule owners_hall | rule stays_owned_same, simp |
     rule owners_query, (simp split: option.split; fail) | rule owners.keeps_query, (simp add: owners_update; fail))+)

text \<open>A read answers from the state it finds.\<close>

lemma read_value:
  assumes "console_read p c = (r, c')"
  shows "calm c c'" and "r = Inr x \<Longrightarrow> x = p (cd_clock (guilds (hall c)) (cd_tick (guilds (hall c)))) c'"
    and "\<not> cd_fault (guilds (hall c)) (cd_tick (guilds (hall c))) \<Longrightarrow>
      r = Inr (p (cd_clock (guilds (hall c)) (cd_tick (guilds (hall c)))) c')"
  using assms unfolding console_read_def by (auto elim!: console_query_cases)

lemma admin_by_id:
  assumes "GetInstanceAdminByID i c = (Inr (Some a), c')"
  shows "a \<in> set (admins c)" "am_ID a = i"
proof -
  note v = read_value [OF assms [unfolded GetInstanceAdminByID_def]]
  have "find (\<lambda>a. am_ID a = i) (admins c) = Some a"
    using v(2) [of "Some a"] calm_console(1) [OF v(1)] by simp
  then show "a \<in> set (admins c)" "am_ID a = i" using find_Some_iff_mem by fast+
qed

lemma two_owners:
  assumes "distinct (map am_ID xs)" and "length (filter active_owner xs) > 1"
  shows "\<exists>a \<in> set xs. active_owner a \<and> am_ID a \<noteq> i"
proof (rule ccontr)
  assume "\<not> ?thesis"
  then have "set (map am_ID (filter active_owner xs)) \<subseteq> {i}" by auto
  moreover from assms(1) have "distinct (map am_ID (filter active_owner xs))" by (rule distinct_map_filter)
  then have "length (map am_ID (filter active_owner xs)) = card (set (map am_ID (filter active_owner xs)))"
    by (rule distinct_card [symmetric])
  ultimately have "length (map am_ID (filter active_owner xs)) \<le> 1"
    using card_mono [of "{i}" "set (map am_ID (filter active_owner xs))"] by simp
  with assms(2) show False by simp
qed

lemma safe_transition:
  assumes "ensureOwnerSafety cur role act c = (None, c')" and "distinct (map am_ID (admins c))"
    and "cur \<in> set (admins c)"
  shows "am_Role cur \<noteq> ''owner'' \<or> role = ''owner'' \<and> act \<or>
    (\<exists>a \<in> set (admins c). active_owner a \<and> am_ID a \<noteq> am_ID cur)"
proof (cases "am_Role cur = ''owner'' \<and> \<not> (role = ''owner'' \<and> act)")
  case True
  then obtain xs where l: "ListInstanceAdmins c = (Inr xs, c')" "length (filter active_owner xs) > 1"
    using assms(1) by (auto simp: ensureOwnerSafety_def active_owner_def [abs_def] split: prod.splits sum.splits if_splits)
  have "xs = sort_key am_CreatedAt (admins c')" "calm c c'"
    using read_value(1,2) [OF l(1) [unfolded ListInstanceAdmins_def]] by auto
  then have "length (filter active_owner (admins c)) > 1"
    using l(2) calm_console(1) by (simp add: filter_sort)
  then show ?thesis using two_owners [OF assms(2)] by blast
qed auto

lemma patched_owned:
  assumes "owned c" and g: "GetInstanceAdminByID i c = (Inr (Some cur), c1)"
    and e: "ensureOwnerSafety cur role act c1 = (None, c2)" and u: "UpdateInstanceAdmin i em role act c2 = (r, c3)"
  shows "owned c3"
proof -
  have same: "admins c1 = admins c" "admins c2 = admins c1"
    using calm_console(1) [OF read_value(1) [OF g [unfolded GetInstanceAdminByID_def]]] e
    by (auto simp: ensureOwnerSafety_def ListInstanceAdmins_def split: prod.splits sum.splits if_splits
        dest: read_value(1) [THEN calm_console(1)])
  note cur = admin_by_id [OF g]
  have d: "distinct (map am_ID (admins c))" and "\<exists>a \<in> set (admins c). active_owner a"
    using assms(1) by (auto simp: owned_def)
  then obtain a where a: "a \<in> set (admins c)" "active_owner a" by blast
  have keep: "b = cur" if "b \<in> set (admins c)" "am_ID b = i" for b
    using that cur d by (auto dest: eq_key_imp_eq_value simp: distinct_map inj_on_def)
  have safe: "am_Role cur \<noteq> ''owner'' \<or> role = ''owner'' \<and> act \<or> (\<exists>a \<in> set (admins c). active_owner a \<and> am_ID a \<noteq> i)"
    using safe_transition [OF e] same(1) d cur by simp
  show ?thesis using u unfolding UpdateInstanceAdmin_def
  proof (rule console_query_cases)
    assume "calm c2 c3"
    then show ?thesis using assms(1) same calm_console(1) by (simp add: owned_def)
  next
    fix c4 uuid
    define f where "f = (\<lambda>a :: InstanceAdmin. a\<lparr>am_Email := em, am_Role := role, am_IsActive := act,
      am_UpdatedAt := cd_clock (guilds (hall c2)) (cd_tick (guilds (hall c2)))\<rparr>)"
    assume "calm c2 c4" and q: "(let f = \<lambda>a. a\<lparr>am_Email := em, am_Role := role, am_IsActive := act,
          am_UpdatedAt := cd_clock (guilds (hall c2)) (cd_tick (guilds (hall c2)))\<rparr>
       in case find (\<lambda>a. am_ID a = i) (admins c4) of
            None \<Rightarrow> (Inr None, c4)
          | Some a \<Rightarrow> if role \<notin> {''owner'', ''admin''} then (Inl DbCheck, c4)
              else if em \<noteq> None \<and> sql_exists (\<lambda>r. am_Email r = em \<and> am_ID r \<noteq> i) (admins c4)
              then (Inl (DbUnique ''idx_instance_admins_email_unique''), c4)
              else (Inr (Some (f a)), c4\<lparr>admins := sql_update (\<lambda>r. am_ID r = i) f (admins c4)\<rparr>)) = (r, c3)"
    then have c4: "admins c4 = admins c" using same calm_console(1) by simp
    then consider "admins c3 = admins c" | "admins c3 = sql_update (\<lambda>r. am_ID r = i) f (admins c)"
      using q by (auto simp: f_def split: option.splits if_splits)
    then show ?thesis
    proof cases
      case 2
      have ids: "map am_ID (admins c3) = map am_ID (admins c)" unfolding 2 by (rule map_sql_update) (simp add: f_def)
      have "\<exists>b \<in> set (admins c3). active_owner b" if "b \<in> set (admins c)" "active_owner b" "am_ID b \<noteq> i" for b
        using that by (auto simp: 2 set_sql_update)
      moreover have "\<exists>b \<in> set (admins c3). active_owner b" if "role = ''owner'' \<and> act"
        by (rule bexI [of _ "f cur"]) (use that cur in \<open>auto simp: 2 set_sql_update f_def active_owner_def\<close>)
      moreover have "am_ID a \<noteq> i" if "am_Role cur \<noteq> ''owner''"
        using that keep [OF a(1)] a(2) by (auto simp: active_owner_def)
      ultimately show ?thesis using safe a ids d by (auto simp: owned_def)
    qed (use assms(1) in \<open>simp add: owned_def\<close>)
  qed
qed

lemma patch_owned:
  assumes "owned c"
  shows "yields (\<lambda>_ c'. owned c') (patchAdminAccount D i b c)"
proof -
  have o: "owned c'" if "owners.keeps q" "q c1 = (r, c')" "owned c1" for q :: "console \<Rightarrow> 'a \<times> console" and c1 r c'
    using owners.step [OF that(1,2) owners.refl] that(3) by (simp add: stays_owned_def)
  show ?thesis unfolding patchAdminAccount_def Let_def
    by (intro yields)
      (use assms in \<open>auto intro: patched_owned elim: o [OF owners.ensureOwnerSafety_keeps] o [OF owners.reads(3)]\<close>)
qed

lemma owners_special: "owners.keeps (UpdateInstanceConfig u)" "owners.keeps (LiftInstanceBanByAdmin i a)"
  "owners.keeps (LiftInstanceBan i a)"
proof -
  have "owners.keeps (console_query (\<lambda>_ _ c. if instance_config (people (hall c)) = None then (Inr (), c)
      else if \<not> update_checks u then (Inl DbCheck, c) else (Inr (), apply_update u c)))"
    by (rule owners_query) (simp add: apply_update_def)
  then show "owners.keeps (UpdateInstanceConfig u)"
    by (auto simp: owners.keeps_def UpdateInstanceConfig_def intro: owners.refl)
  show "owners.keeps (LiftInstanceBanByAdmin i a)" "owners.keeps (LiftInstanceBan i a)"
    unfolding LiftInstanceBanByAdmin_def LiftInstanceBan_def lift_ban_def by (rule owners_query, simp add: Let_def)+
qed

lemma owners_call: "owners.call_ok D q"
proof (cases q)
  case (AdminCall ds r k)
  have "yields (\<lambda>_ c'. stays_owned c0 c') (handle_call D now dbNow ds r aid k c)" if "stays_owned c0 c" for c0 now dbNow aid c
  proof (cases "\<exists>i b. k = PatchAdminReq i b")
    case True
    then obtain i b where k: "k = PatchAdminReq i b" by blast
    have "yields (\<lambda>_ c'. owned c') (patchAdminAccount D i b c)" if "owned c0"
      using \<open>stays_owned c0 c\<close> that by (intro patch_owned) (simp add: stays_owned_def)
    then show ?thesis unfolding k by (auto simp: stays_owned_def yields_def)
  next
    case False
    then have "owners.special_ok k" using owners_special by (cases k) auto
    then show ?thesis using that by (rule owners.handle_stays)
  qed
  then show ?thesis by (simp add: AdminCall)
next
  case (UserCall u k)
  then show ?thesis using owners.unban_stays(2) [OF owners.refl owners_special(3)] by (cases k) simp_all
qed (auto intro: stays_owned_same)

lemma run_owned: "owned c \<Longrightarrow> owned (console_run D qs c)"
  using owners.run_stays [of qs D c c, OF owners_call owners.refl] by (simp add: stays_owned_def)

text \<open>
  C35. Over any series of requests by operators, users and guests, whatever fails and in whatever order: while the ids
  of the operators are unique, an active owner always remains.
\<close>

theorem last_owner_kept:
  assumes "distinct (map am_ID (admins c))" and "\<exists>a \<in> set (admins c). am_Role a = ''owner'' \<and> am_IsActive a"
  shows "distinct (map am_ID (admins (console_run D qs c))) \<and>
    (\<exists>a \<in> set (admins (console_run D qs c)). am_Role a = ''owner'' \<and> am_IsActive a)"
  using run_owned [of c D qs] assms by (auto simp: owned_def active_owner_def)

definition toy_admin_env :: admin_env where
  "toy_admin_env = \<lparr>ad_auth = toy_auth, ad_lobby = toy_lobby_env, ad_secrets = toy_secrets, EqualFold = (=),
     ParseAddress = Some, bootstrapSecret = ''open sesame'', sessionTTL = 100, secureCookies = True,
     serviceIdentityMasterKey = [], hasRoomService = True\<rparr>"

definition toy_owner :: InstanceAdmin where
  "toy_owner = \<lparr>am_ID = ''o'', am_Username = ''root'', am_Email = None, am_PasswordHash = ''x'', am_Role = ''owner'',
     am_IsActive = True, am_LastLoginAt = None, am_CreatedAt = 0, am_UpdatedAt = 0\<rparr>"

definition toy_draws :: draws where
  "toy_draws = \<lparr>dr_salt = Some (replicate 16 7), dr_token = Some (replicate 32 1), dr_sessionID = ''s'', dr_keys = None,
     dr_nonce = None\<rparr>"

definition toy_browser :: admin_http where
  "toy_browser = \<lparr>ah_http = toy_http [], ah_Origin = ''https://h'', ah_Cookie = Some ''token'',
     ah_ForwardedFor = [], ah_RemoteAddr = ''10.0.0.1'', ah_UserAgent = []\<rparr>"

definition toy_session :: InstanceAdminSession where
  "toy_session = \<lparr>as_ID = ''s'', as_AdminID = ''o'', as_TokenHash = TokenHash toy_auth ''token'', as_ExpiresAt = 100,
     as_LastSeenAt = None, as_CreatedIP = None, as_UserAgent = None, as_CreatedAt = 0, as_RevokedAt = None\<rparr>"

definition toy_console :: console where
  "toy_console = \<lparr>hall = toy_lobby, admins = [toy_owner], admin_sessions = [toy_session], service_identities = [],
     instance_audit = [], config_plate = \<lparr>pl_ID = ''i'', pl_Name = ''Hush'', pl_IconURL = None,
       pl_ScreenShareResolutionCap = ''1080p'', pl_VoiceKeyRotationHours = 2, pl_CreatedAt = 0\<rparr>,
     cache = Some NewInstanceCache\<rparr>"

text \<open>The only owner asks to be demoted.\<close>

definition toy_demotion :: "((time \<times> time) \<times> console_call) list" where
  "toy_demotion = [((0, 0), AdminCall toy_draws toy_browser (PatchAdminReq ''o''
     (Some \<lparr>pa_Email = None, pa_Role = Some ''admin'', pa_IsActive = None\<rparr>)))]"

theorem last_owner_kept_witness:
  "distinct (map am_ID (admins toy_console)) \<and> (\<exists>a \<in> set (admins toy_console). am_Role a = ''owner'' \<and> am_IsActive a) \<and>
   (\<exists>a \<in> set (admins (console_run toy_admin_env toy_demotion toy_console)). am_Role a = ''owner'' \<and> am_IsActive a)"
proof -
  have "distinct (map am_ID (admins toy_console)) \<and> (\<exists>a \<in> set (admins toy_console). am_Role a = ''owner'' \<and> am_IsActive a)"
    by (simp add: toy_console_def toy_owner_def)
  then show ?thesis using last_owner_kept [of toy_console toy_admin_env toy_demotion] by blast
qed

section \<open>One bootstrap\<close>

lemma counted_admins:
  assumes "CountInstanceAdmins c = (Inr n, c')"
  shows "n = length (admins c)" "admins c' = admins c"
  using read_value(1,2) [OF assms [unfolded CountInstanceAdmins_def]] calm_console(1) by force+

lemma created_admin:
  assumes "createAdmin D ds u e p role c = (Inr a, c')"
  obtains em hash where "CreateInstanceAdmin (TrimSpace u) em hash role c = (Inr a, c')"
  using assms by (auto simp: createAdmin_def Let_def split: option.splits sum.splits prod.splits if_splits)

lemma first_owner:
  assumes "createAdmin D ds u e p ''owner'' c = (Inr a, c')" and "admins c = []"
  shows "owned c'"
proof -
  obtain em hash where "CreateInstanceAdmin (TrimSpace u) em hash ''owner'' c = (Inr a, c')"
    using created_admin [OF assms(1)] .
  then show ?thesis unfolding CreateInstanceAdmin_def
    by (rule console_query_cases) (use assms(2) calm_console(1) in \<open>auto simp: Let_def sql owned_def active_owner_def split: if_splits\<close>)
qed

lemma claimed:
  assumes "bootstrapClaim D now ds r body c = Some (Done st b, c1)"
  obtains req where "body = Some req" "admins c = []" "bootstrapSecret D \<noteq> []"
    "TrimSpace (bc_BootstrapSecret req) = bootstrapSecret D" "owned c1"
proof -
  obtain req n ca a cb x where req: "body = Some req" "bootstrapSecret D \<noteq> []"
      "TrimSpace (bc_BootstrapSecret req) = bootstrapSecret D"
    and ca: "CountInstanceAdmins c = (Inr n, ca)" "n = 0"
    and cb: "createAdmin D ds (bc_Username req) (bc_Email req) (bc_Password req) ''owner'' ca = (Inr a, cb)"
    and i: "issueAdminSession D now ds r a (snd (ensureServiceIdentity D ds cb)) = (Some x, c1)"
    using assms by (auto simp: bootstrapClaim_def split: option.splits prod.splits sum.splits if_splits)
  have none: "admins c = []" "admins ca = []" using counted_admins [OF ca(1)] ca(2) by simp_all
  have "owned cb" by (rule first_owner [OF cb none(2)])
  then have "owned (snd (ensureServiceIdentity D ds cb))"
    using owners.snd_keeps [OF owners.ensureServiceIdentity_keeps owners.refl, of cb D ds] by (simp add: stays_owned_def)
  then have "owned c1"
    using owners.step [OF owners.issueAdminSession_keeps i owners.refl] by (simp add: stays_owned_def)
  with req none show thesis by (intro that)
qed


definition toy_fresh :: console where
  "toy_fresh = toy_console\<lparr>admins := [], admin_sessions := []\<rparr>"

definition toy_claim :: bootstrap_claim where
  "toy_claim = \<lparr>bc_BootstrapSecret = ''open sesame'', bc_Username = ''root'', bc_Email = None, bc_Password = ''correct horse''\<rparr>"

lemmas toy_admin_eval = AdminAPIRoutes_def toy_console_def toy_admin_env_def toy_draws_def toy_browser_def toy_owner_def
  console_read_def console_query_def on_hall_def on_guilds_def run_site_def run_chat_def chat_query_def Let_def sql
  toy_lobby_def toy_world_def toy_db_def

lemma toy_first_claim:
  "\<exists>b c1. AdminAPIRoutes toy_admin_env 0 0 toy_draws toy_browser (BootstrapClaimReq (Some toy_claim)) toy_fresh = Some (Done 201 b, c1)"
proof -
  obtain h where h: "HashAdminPassword toy_secrets (Some (replicate 16 7)) ''correct horse'' = Some h"
    by (simp add: HashAdminPassword_def toy_secrets_def adminPasswordIterations_def adminPasswordParallelism_def)
  obtain t where t: "GenerateSessionToken (Some (replicate 32 1)) = Some t" by (simp add: GenerateSessionToken_def)
  have "TrimSpace ''open sesame'' = ''open sesame''" "TrimSpace ''root'' = ''root''"
    by (rule TrimSpace_id; simp add: visible_def)+
  moreover have "validateUsername ''root'' = None" by (simp add: validateUsername_def username_char_def)
  ultimately show ?thesis
    by (simp add: toy_fresh_def toy_claim_def bootstrapClaim_def CountInstanceAdmins_def createAdmin_def normalizeAdminEmail_def
        h t CreateInstanceAdmin_def ensureServiceIdentity_def issueAdminSession_def CreateInstanceAdminSession_def toy_admin_eval)
qed


section \<open>Authority\<close>

text \<open>Nothing but the note when a session was last seen.\<close>

definition unseen :: "console \<Rightarrow> console" where
  "unseen c = c\<lparr>admin_sessions := map (\<lambda>s. s\<lparr>as_LastSeenAt := None\<rparr>) (admin_sessions c)\<rparr>"

definition untouched :: "console \<Rightarrow> console \<Rightarrow> bool" where
  "untouched c c' \<longleftrightarrow> calm (unseen c) (unseen c')"

lemma calm_untouched: "calm c c' \<Longrightarrow> untouched c c'"
proof -
  assume a: "calm c c'"
  have "still (unseen c) = unseen (still c)" for c by (simp add: unseen_def still_def)
  with a show "untouched c c'" by (simp add: untouched_def calm_def)
qed

lemma untouched_trans: "untouched c c' \<Longrightarrow> untouched c' c'' \<Longrightarrow> untouched c c''"
  unfolding untouched_def by (rule calm_trans)

lemma last_seen_untouched: "untouched c (snd (UpdateInstanceAdminSessionLastSeen i t c))"
proof -
  obtain r c' where e: "UpdateInstanceAdminSessionLastSeen i t c = (r, c')" by fastforce
  then have "untouched c c'" unfolding UpdateInstanceAdminSessionLastSeen_def
  proof (rule console_query_cases)
    fix c1 uuid
    let ?p = "\<lambda>s. as_ID s = i \<and> as_RevokedAt s = None"
    assume "calm c c1" "(Inr (), c1\<lparr>admin_sessions := sql_update ?p (\<lambda>s. s\<lparr>as_LastSeenAt := Some t\<rparr>) (admin_sessions c1)\<rparr>) = (r, c')"
    moreover have "map (\<lambda>s. s\<lparr>as_LastSeenAt := None\<rparr>) (sql_update ?p (\<lambda>s. s\<lparr>as_LastSeenAt := Some t\<rparr>) (admin_sessions c1)) =
        map (\<lambda>s. s\<lparr>as_LastSeenAt := None\<rparr>) (admin_sessions c1)"
      by (rule map_sql_update) simp
    ultimately have "untouched c1 c'" by (auto simp: untouched_def unseen_def)
    with \<open>calm c c1\<close> show ?thesis using calm_untouched untouched_trans by blast
  qed (rule calm_untouched)
  then show ?thesis by (simp add: e)
qed

lemma session_by_hash:
  assumes "GetInstanceAdminSessionByTokenHash h c = (Inr (Some s), c')"
  shows "s \<in> set (admin_sessions c)" "as_TokenHash s = h" "as_RevokedAt s = None"
    "as_ExpiresAt s > cd_clock (guilds (hall c)) (cd_tick (guilds (hall c)))"
proof -
  note v = read_value [OF assms [unfolded GetInstanceAdminSessionByTokenHash_def]]
  have "find (\<lambda>s. as_TokenHash s = h \<and> as_RevokedAt s = None \<and> as_ExpiresAt s > cd_clock (guilds (hall c)) (cd_tick (guilds (hall c))))
      (admin_sessions c) = Some s"
    using v(2) [of "Some s"] calm_console(2) [OF v(1)] by simp
  then show "s \<in> set (admin_sessions c)" "as_TokenHash s = h" "as_RevokedAt s = None"
    "as_ExpiresAt s > cd_clock (guilds (hall c)) (cd_tick (guilds (hall c)))"
    using find_Some_iff_mem by fast+
qed

lemma door_opens:
  assumes "RequireAdminSession D now r k c = Some (ans, c')"
  obtains "\<exists>msg. ans = Fail 401 msg" "untouched c c'"
    | token s a c1 where "ah_Cookie r = Some token" "s \<in> set (admin_sessions c)" "as_TokenHash s = TokenHash (ad_auth D) token"
      "as_RevokedAt s = None" "as_ExpiresAt s > cd_clock (guilds (hall c)) (cd_tick (guilds (hall c)))"
      "a \<in> set (admins c)" "am_ID a = as_AdminID s" "am_IsActive a" "k (am_ID a) (am_Role a) c1 = Some (ans, c')" "untouched c c1"
proof (cases "ah_Cookie r")
  case None
  then show thesis using that(1) assms calm_untouched by (auto simp: RequireAdminSession_def)
next
  case (Some token)
  obtain x c1 where g: "GetInstanceAdminSessionByTokenHash (TokenHash (ad_auth D) token) c = (x, c1)" by fastforce
  have c1: "calm c c1" using read_value(1) [OF g [unfolded GetInstanceAdminSessionByTokenHash_def]] .
  show thesis
  proof (cases "\<exists>s. x = Inr (Some s)")
    case False
    then show thesis using that(1) assms c1 Some calm_untouched g
      by (auto simp: RequireAdminSession_def split: sum.splits option.splits)
  next
    case True
    then obtain s where s: "x = Inr (Some s)" by blast
    obtain y c2 where h: "GetInstanceAdminByID (as_AdminID s) c1 = (y, c2)" by fastforce
    have c2: "calm c c2" using read_value(1) [OF h [unfolded GetInstanceAdminByID_def]] calm_trans [OF c1] by simp
    show thesis
    proof (cases "\<exists>a. y = Inr (Some a) \<and> am_IsActive a")
      case False
      then show thesis using that(1) assms c2 Some calm_untouched g h s
        by (auto simp: RequireAdminSession_def split: sum.splits option.splits)
    next
      case True
      then obtain a where a: "y = Inr (Some a)" "am_IsActive a" by blast
      have "k (am_ID a) (am_Role a) (snd (UpdateInstanceAdminSessionLastSeen (as_ID s) now c2)) = Some (ans, c')"
        using assms Some g h s a by (simp add: RequireAdminSession_def)
      moreover have "untouched c (snd (UpdateInstanceAdminSessionLastSeen (as_ID s) now c2))"
        using untouched_trans [OF calm_untouched [OF c2] last_seen_untouched] .
      ultimately show thesis
        using that(2) Some session_by_hash [OF g [unfolded s]] admin_by_id [OF h [unfolded a(1)]] a(2) calm_console(1) [OF c1] by simp
    qed
  qed
qed

text \<open>
  C37. A request behind the door either comes with the cookie of a live session of an active operator, who has the role of
  an owner where the route asks for it, and from the page's own origin where it can change anything, or it is refused
  with 401 or 403 and nothing changes but the note when the session was last seen.
\<close>

theorem admin_authority:
  assumes "AdminAPIRoutes D now dbNow ds r q c = Some (ans, c')" and "\<not> public_call q"
  shows "(\<exists>token s a. ah_Cookie r = Some token \<and> s \<in> set (admin_sessions c) \<and>
      as_TokenHash s = TokenHash (ad_auth D) token \<and> as_RevokedAt s = None \<and>
      as_ExpiresAt s > cd_clock (guilds (hall c)) (cd_tick (guilds (hall c))) \<and>
      a \<in> set (admins c) \<and> am_ID a = as_AdminID s \<and> am_IsActive a \<and>
      (owner_call q \<longrightarrow> am_Role a = ''owner'') \<and>
      (call_method q \<noteq> ''GET'' \<longrightarrow> sameOrigin D (ah_Origin r) r)) \<or>
    (\<exists>status msg. ans = Fail status msg \<and> status \<in> {401, 403} \<and> untouched c c')"
proof -
  let ?k = "\<lambda>aid role.
      let go = handle_call D now dbNow ds r aid q;
          inner = (if owner_call q then RequireAdminRole [''owner''] role go else go)
      in if q = MeReq then inner else RequireAdminOrigin D (call_method q) r inner"
  have m: "call_method q \<noteq> ''HEAD''" "call_method q \<noteq> ''OPTIONS''" by (cases q; simp)+
  have "RequireAdminSession D now r ?k c = Some (ans, c')" using assms by (simp add: AdminAPIRoutes_def)
  then show ?thesis
  proof (rule door_opens)
    fix token s a c1
    assume d: "ah_Cookie r = Some token" "s \<in> set (admin_sessions c)" "as_TokenHash s = TokenHash (ad_auth D) token"
      "as_RevokedAt s = None" "as_ExpiresAt s > cd_clock (guilds (hall c)) (cd_tick (guilds (hall c)))"
      "a \<in> set (admins c)" "am_ID a = as_AdminID s" "am_IsActive a" and k: "?k (am_ID a) (am_Role a) c1 = Some (ans, c')"
      and u: "untouched c c1"
    have "(owner_call q \<longrightarrow> am_Role a = ''owner'') \<and> (call_method q \<noteq> ''GET'' \<longrightarrow> sameOrigin D (ah_Origin r) r) \<or>
        (\<exists>status msg. ans = Fail status msg \<and> status \<in> {401, 403} \<and> c' = c1)"
      using k m by (auto simp: Let_def RequireAdminOrigin_def RequireAdminRole_def split: if_splits)
    then show ?thesis using d u by blast
  qed auto
qed

theorem admin_authority_witness:
  "\<exists>ans c'. AdminAPIRoutes toy_admin_env 0 0 toy_draws (toy_browser\<lparr>ah_Origin := ''https://evil''\<rparr>) (BanReq None) toy_console =
     Some (ans, c') \<and> ans = Fail 403 ''invalid admin request origin'' \<and> untouched toy_console c'"
proof -
  let ?r = "toy_browser\<lparr>ah_Origin := ''https://evil''\<rparr>"
  have n: "\<not> sameOrigin toy_admin_env (ah_Origin ?r) ?r"
    by (simp add: sameOrigin_def TrimRight_def toy_admin_env_def toy_browser_def requestOrigin_def toy_http_def)
  obtain c' where e: "AdminAPIRoutes toy_admin_env 0 0 toy_draws ?r (BanReq None) toy_console =
      Some (Fail 403 ''invalid admin request origin'', c')"
    using n by (simp add: toy_admin_eval RequireAdminSession_def GetInstanceAdminSessionByTokenHash_def toy_session_def
        GetInstanceAdminByID_def RequireAdminOrigin_def)
  have "untouched toy_console c'" using admin_authority [OF e] n by auto
  with e show ?thesis by blast
qed

end
