(* ===== verification/Admin_Bans.thy ===== *)
theory Admin_Bans
  imports Admin_Props
begin

text \<open>
  What an instance ban does: the sessions of the user end, the user leaves all guilds and cannot log in again while the
  ban lasts, whatever requests follow, except those that lift bans of this very user.
\<close>

section \<open>Sessions and bans along the lobby\<close>

definition same_logins :: "lobby \<Rightarrow> lobby \<Rightarrow> bool" where
  "same_logins s s' \<longleftrightarrow> sessions (people s') = sessions (people s) \<and> instance_bans (people s') = instance_bans (people s)"

interpretation logins: state_frame same_logins
  by unfold_locales (auto simp: same_logins_def)

lemma logins_guilds: "logins.keeps (on_guilds q)"
  by (auto simp: logins.keeps_def same_logins_def on_guilds_def run_site_def split: prod.split)

lemma logins_people:
  assumes "\<And>d. sessions (snd (q d)) = sessions d \<and> instance_bans (snd (q d)) = instance_bans d"
  shows "logins.keeps (on_people (db_query q))"
  by (simp add: logins.keeps_def same_logins_def on_people_def run_db_def db_query_def case_prod_beta assms split: bool.splits)

lemma logins_query:
  assumes "\<And>now uuid. logins.keeps (q now uuid)"
  shows "logins.keeps (lobby_query q)"
proof (rule logins.keepsI)
  fix s
  show "ends (same_logins s) (lobby_query q s)"
    unfolding lobby_query_def
    by (rule logins.ends_run [OF logins_guilds logins.refl]) (rule ends | rule logins.ends_keeps, rule assms | assumption)+
qed

lemma logins_bind:
  assumes "logins.keeps q" and "\<And>x. logins.keeps (k x)"
  shows "logins.keeps (bind_lobby q k)"
proof (rule logins.keepsI)
  fix s
  show "ends (same_logins s) (bind_lobby q k s)"
    unfolding bind_lobby_def
    by (rule logins.ends_run [OF assms(1) logins.refl]) (rule ends | rule logins.ends_keeps, rule assms | assumption)+
qed

lemma logins_tx: "logins.keeps q \<Longrightarrow> logins.keeps (lobby_tx q)"
  using logins_guilds [unfolded logins.keeps_def]
  by (auto simp: logins.keeps_def lobby_tx_def split: prod.split sum.split) (metis snd_conv)

lemma people_logins:
  "logins.keeps (on_people (GetInviteByCode c))" "logins.keeps (on_people (GetUserByID u))"
  "logins.keeps (on_people (ClaimInviteUse t c))" "logins.keeps (SearchUsersPublic L q n)"
  unfolding GetInviteByCode_def GetUserByID_def ClaimInviteUse_def SearchUsersPublic_def
  by (rule logins_people, simp add: Let_def split: option.split)+

lemma lobby_logins:
  "logins.keeps (CreateInvite g code u n e)" "logins.keeps (GetFederatedIdentityByID i)" "logins.keeps (FindDMGuild a b)"
  "logins.keeps (insert_dm_pair g lo hi)" "logins.keeps (DiscoverGuilds L ca se so pa pg)"
  unfolding CreateInvite_def GetFederatedIdentityByID_def FindDMGuild_def insert_dm_pair_def DiscoverGuilds_def
  by (rule logins_query, simp add: logins.keeps_def same_logins_def Let_def split: prod.split option.split)+

lemma dm_logins: "logins.keeps (CreateDMGuild a b)"
proof -
  obtain lo hi where o: "canonicalUserOrder a b = (lo, hi)" by fastforce
  have "logins.keeps (\<lambda>s. (Inr x, s))" for x :: "Server \<times> Channel" using logins.refl by (simp add: logins.keeps_def)
  then show ?thesis unfolding CreateDMGuild_def o Let_def prod.case
    by (intro logins_tx logins_bind logins_guilds lobby_logins)
qed

lemmas login_ops = logins_guilds people_logins lobby_logins dm_logins

lemma hub_logins: "lobby_hub f s = Some s' \<Longrightarrow> same_logins s0 s \<Longrightarrow> same_logins s0 s'"
  using lobby_hub_keeps [of f s s'] by (simp add: same_logins_def)

lemma site_logins: "same_logins s0 s \<Longrightarrow> same_logins s0 (s\<lparr>core := (core s)\<lparr>site := w\<rparr>\<rparr>)"
  by (simp add: same_logins_def)

lemma member_logins: "logins.keeps (joined_member u f)"
  by (rule logins.keepsI, unfold joined_member_def Let_def)
    (rule logins.ends_run, rule login_ops | rule ends | assumption | rule logins.refl)+

lemma announce_logins:
  assumes "announce_join g u f s = Some s'" and "same_logins s0 s"
  shows "same_logins s0 s'"
proof -
  obtain m s1 where m: "joined_member u f s = (m, s1)" by fastforce
  have "same_logins s0 s1" by (rule logins.step [OF member_logins m assms(2)])
  then show ?thesis using assms(1)
    by (auto simp: announce_join_def m Let_def bind_eq_Some_conv intro: site_logins hub_logins)
qed

lemma lobby_handlers:
  assumes "same_logins s0 s"
  shows "yields (\<lambda>_ s'. same_logins s0 s') (getInviteInfo now code s)"
    "yields (\<lambda>_ s'. same_logins s0 s') (createInvite now dr g u level b1 s)"
    "yields (\<lambda>_ s'. same_logins s0 s') (discoverGuilds L ca se so pg sz s)"
    "yields (\<lambda>_ s'. same_logins s0 s') (createOrFindDM u b3 s)"
    "yields (\<lambda>_ s'. same_logins s0 s') (searchUsers L q s)"
    "yields (\<lambda>_ s'. same_logins s0 s') (finish_join dbNow code g u f s)"
  unfolding getInviteInfo_def createInvite_def discoverGuilds_def createOrFindDM_def searchUsers_def finish_join_def
  by (rule logins.stays_run, rule login_ops | rule yields | rule hub_logins, assumption | rule announce_logins, assumption |
      rule logins.snd_keeps, rule login_ops | assumption | rule assms)+

lemma claim_logins:
  assumes "same_logins s0 s"
  shows "yields (\<lambda>_ s'. same_logins s0 s') (claimInvite now dbNow u f b s)"
proof -
  have e: "logins.keeps (\<lambda>s. if f \<noteq> [] then (Inr None, s) else on_guilds (GetActiveBan g u) s)" for g
    using logins_guilds [of "GetActiveBan g u", unfolded logins.keeps_def] logins.refl by (simp add: logins.keeps_def)
  show ?thesis unfolding claimInvite_def
    by (rule logins.stays_run [OF e] | rule logins.stays_run, rule login_ops | rule yields | rule lobby_handlers | assumption | rule assms)+
qed

lemma LobbyRoutes_logins:
  assumes "LobbyRoutes L now dbNow u q s = Some (a, s')"
  shows "same_logins s s'"
proof (cases q)
  case (CreateInviteReq g dr b)
  have "yields (\<lambda>_ s'. same_logins s s') (LobbyRoutes L now dbNow u q s)"
    unfolding CreateInviteReq LobbyRoutes.simps
    by (rule logins.stays_run, rule login_ops | rule yields | rule lobby_handlers | assumption | rule logins.refl)+
  then show ?thesis using assms by (rule yieldsD)
next
  case (GuildReq r)
  then show ?thesis using assms by (auto simp: same_logins_def lobby_cascade_def Let_def split: option.splits)
qed (use assms lobby_handlers [OF logins.refl, THEN yieldsD] claim_logins [OF logins.refl, THEN yieldsD] in auto)

section \<open>A user who is locked out\<close>

text \<open>No session of the user begins, and while the ids of the bans are unique, the bans of the user stay as they are.\<close>

abbreviation all_bans :: "console \<Rightarrow> InstanceBan list" where
  "all_bans c \<equiv> instance_bans (people (hall c))"

definition locked :: "string \<Rightarrow> console \<Rightarrow> console \<Rightarrow> bool" where
  "locked u c c' \<longleftrightarrow>
     (\<forall>x \<in> set (sessions (people (hall c'))). s_UserID x = u \<longrightarrow> x \<in> set (sessions (people (hall c)))) \<and>
     (distinct (map ib_ID (all_bans c)) \<longrightarrow>
        distinct (map ib_ID (all_bans c')) \<and> (\<forall>b \<in> set (all_bans c). ib_UserID b = u \<longrightarrow> b \<in> set (all_bans c')))"

lemma locked_same: "same_logins (hall c) (hall c') \<Longrightarrow> locked u c c'"
  by (simp add: locked_def same_logins_def)

interpretation lock: console_frame "locked u" for u
proof
  show "locked u c c'' " if "locked u c c'" "locked u c' c''" for c c' c''
    using that unfolding locked_def by blast
  show "locked u c c'" if "calm c c'" for c c'
    by (rule locked_same) (use calm_lobby [OF that] in \<open>simp add: same_logins_def\<close>)
qed (simp add: locked_def)

lemma lock_query: "(\<And>now uuid c. hall (snd (q now uuid c)) = hall c) \<Longrightarrow> lock.keeps u (console_query q)"
  by (rule lock.keeps_query) (rule locked_same, simp add: same_logins_def)

lemma lock_guilds: "lock.keeps u (with_guilds q)"
  using logins_guilds [of q, unfolded logins.keeps_def]
  by (auto simp: lock.keeps_def on_hall_def case_prod_beta intro!: locked_same)

lemma lock_insert: "lock.keeps u (insert_ban ok v a rs ex)"
  unfolding insert_ban_def by (rule lock.keeps_query) (auto simp: locked_def Let_def set_people_def sql)

lemma lock_sessions: "lock.keeps u (DeleteSessionsByUserID v)"
  by (auto simp: lock.keeps_def locked_def DeleteSessionsByUserID_def on_hall_def on_people_def run_db_def db_query_def sql
      split: prod.split bool.split)

interpretation lock: console_writes "locked u" for u
proof unfold_locales
  show "lock.keeps u (DeleteSessionsByUserID v)" for v by (rule lock_sessions)
  show "lock.keeps u (InsertInstanceBan v a rs ex)" "lock.keeps u (InsertInstanceBanByAdmin v a rs ex)" for v a rs ex
    unfolding InsertInstanceBan_def InsertInstanceBanByAdmin_def by (rule lock_insert)+
  show "locked u c (c\<lparr>cache := k\<rparr>)" for c k by (rule locked_same) (simp add: same_logins_def)
qed (unfold CreateInstanceAdmin_def UpdateInstanceAdminPassword_def TouchInstanceAdminLastLogin_def CreateInstanceAdminSession_def
    DeleteInstanceAdminSessionByID_def UpdateInstanceAdminSessionLastSeen_def PurgeStaleAdminSessions_def
    UpsertInstanceServiceIdentity_def clear_defaults_def insert_template_def update_template_def
    DeleteServerTemplate_def templates_query_def InsertInstanceAuditLog_def Let_def,
    (rule lock_guilds | rule lock_query, (simp split: option.split; fail))+)

lemma lock_config: "lock.keeps u (UpdateInstanceConfig s)"
proof -
  have "lock.keeps u (console_query (\<lambda>_ _ c. if instance_config (people (hall c)) = None then (Inr (), c)
      else if \<not> update_checks s then (Inl DbCheck, c) else (Inr (), apply_update s c)))"
    by (rule lock.keeps_query) (auto intro!: locked_same simp: same_logins_def apply_update_def set_people_def set_guilds_def)
  then show ?thesis using lock.refl by (auto simp: lock.keeps_def UpdateInstanceConfig_def)
qed

lemma lock_patch: "lock.keeps u (UpdateInstanceAdmin i e role act)"
  unfolding UpdateInstanceAdmin_def by (rule lock_query) (simp add: Let_def split: option.split)

text \<open>Lifting a ban of another user.\<close>

lemma found_ban:
  assumes "with_people (GetActiveInstanceBan t v) c = (Inr (Some b), c')"
  shows "b \<in> set (all_bans c)" "ib_UserID b = v" "calm c c'"
proof -
  show "calm c c'"
    using people_console_reads(4) [of t v] assms unfolding reads_def by (metis snd_conv)
  have "rev (sort_key ib_CreatedAt (filter (ban_active t v) (all_bans c))) \<noteq> [] \<and>
      b = hd (rev (sort_key ib_CreatedAt (filter (ban_active t v) (all_bans c))))"
    using assms by (auto simp: GetActiveInstanceBan_def on_hall_def on_people_def run_db_def db_query_def
        split: prod.splits bool.splits list.splits)
  then have "b \<in> set (filter (ban_active t v) (all_bans c))" by (metis hd_in_set set_rev set_sort)
  then show "b \<in> set (all_bans c)" "ib_UserID b = v" by (auto simp: ban_active_def)
qed

lemma lift_other:
  assumes "lift_ban ok i a c = (r, c')" and "b \<in> set (all_bans c)" and "ib_ID b = i" and "ib_UserID b \<noteq> u"
  shows "locked u c c'"
  using assms(1) unfolding lift_ban_def
proof (rule console_query_cases)
  fix c1 uuid
  let ?p = "\<lambda>b. ib_ID b = i \<and> ib_LiftedAt b = None"
  let ?f = "\<lambda>b. b\<lparr>ib_LiftedAt := Some (cd_clock (guilds (hall c)) (cd_tick (guilds (hall c)))), ib_LiftedBy := Some a\<rparr>"
  assume c1: "calm c c1" and "(let p = ?p in if sql_exists p (all_bans c1) \<and> \<not> ok c1 then (Inl DbForeignKey, c1)
      else (Inr (), c1\<lparr>hall := set_people (\<lambda>d. d\<lparr>instance_bans := sql_update p ?f (instance_bans d)\<rparr>) (hall c1)\<rparr>)) = (r, c')"
  then consider "c' = c1" | "all_bans c' = sql_update ?p ?f (all_bans c1)" "sessions (people (hall c')) = sessions (people (hall c1))"
    by (auto simp: Let_def set_people_def split: if_splits)
  then show ?thesis
  proof cases
    case 2
    note e = 2 [unfolded calm_lobby(2,3) [OF c1]]
    have ids: "map ib_ID (all_bans c') = map ib_ID (all_bans c)" unfolding e(1) by (rule map_sql_update) simp
    have "x \<in> set (all_bans c')" if "distinct (map ib_ID (all_bans c))" "x \<in> set (all_bans c)" "ib_UserID x = u" for x
    proof -
      have "ib_ID x \<noteq> i" using that assms(2-4) by (auto simp: distinct_map dest: inj_onD)
      then show ?thesis using that(2) by (auto simp: e(1) set_sql_update)
    qed
    then show ?thesis using ids e(2) by (simp add: locked_def)
  qed (use c1 in \<open>simp add: lock.calm\<close>)
qed (rule lock.calm)

lemma unban_locked:
  assumes "v \<noteq> u"
  shows "yields (\<lambda>_ c'. locked u c c') (instanceUnban t aid v c)"
proof -
  have g: "locked u c c1" if "with_people (GetActiveInstanceBan t v) c = (x, c1)" for x c1
    by (rule lock.step [OF people_console_reads(4) [THEN lock.reads_keeps] that lock.refl])
  have l: "locked u c c2" if "with_people (GetActiveInstanceBan t v) c = (Inr (Some b), c1)"
      "LiftInstanceBanByAdmin (ib_ID b) aid c1 = (y, c2)" for b c1 y c2
  proof -
    note b = found_ban [OF that(1)]
    have "locked u c1 c2" using that(2) unfolding LiftInstanceBanByAdmin_def
      by (rule lift_other [of _ _ _ _ _ _ b]) (use b assms calm_lobby(3) [OF b(3)] in simp_all)
    then show ?thesis by (rule lock.trans [OF g [OF that(1)]])
  qed
  show ?thesis unfolding instanceUnban_def by (intro yields) (auto intro: g l lock.refl)
qed

lemma user_unban_locked:
  assumes "\<And>v rs. b = Some (v, rs) \<Longrightarrow> v \<noteq> u"
  shows "yields (\<lambda>_ c'. locked u c c') (unbanByUser t aid b c)"
proof -
  have role: "locked u c c1" if "GetUserRole aid c = (x, c1)" for x c1
    by (rule lock.step [OF people_console_reads(1) [THEN lock.reads_keeps] that lock.refl])
  have g: "locked u c c2" if "GetUserRole aid c = (x, c1)" "with_people (GetActiveInstanceBan t v) c1 = (y, c2)" for x c1 v y c2
    by (rule lock.step [OF people_console_reads(4) [THEN lock.reads_keeps] that(2) role [OF that(1)]])
  have l: "locked u c c3" if "GetUserRole aid c = (x, c1)" "with_people (GetActiveInstanceBan t v) c1 = (Inr (Some d), c2)"
      "LiftInstanceBan (ib_ID d) aid c2 = (y, c3)" "v \<noteq> u" for x c1 v d c2 y c3
  proof -
    note b = found_ban [OF that(2)]
    have "locked u c2 c3" using that(3) unfolding LiftInstanceBan_def
      by (rule lift_other [of _ _ _ _ _ _ d]) (use b that(4) calm_lobby(3) [OF b(3)] in simp_all)
    then show ?thesis by (rule lock.trans [OF g [OF that(1,2)]])
  qed
  have a: "locked u c (snd (InsertInstanceAuditLog i tg ac rs m c'))" if "locked u c c'" for i tg ac rs m c'
    by (rule lock.snd_keeps [OF lock.audit_writes that])
  show ?thesis unfolding unbanByUser_def
    by (intro yields) (use assms in \<open>auto intro: role g l a lock.refl\<close>)
qed

text \<open>The requests that lift a ban of this user.\<close>

fun lifts_ban_of :: "string \<Rightarrow> console_call \<Rightarrow> bool" where
  "lifts_ban_of u (AdminCall ds r (UnbanReq v)) = (v = u)"
| "lifts_ban_of u (UserCall a (UserUnbanReq (Some (v, _)))) = (v = u)"
| "lifts_ban_of u _ = False"

lemma lock_call:
  assumes "\<not> lifts_ban_of u q"
  shows "lock.call_ok u D q"
proof (cases q)
  case (AdminCall ds r k)
  have "yields (\<lambda>_ c'. locked u c0 c') (handle_call D now dbNow ds r aid k c)" if l: "locked u c0 c" for c0 now dbNow aid c
  proof (cases "\<exists>v. k = UnbanReq v")
    case True
    then obtain v where k: "k = UnbanReq v" by blast
    then have "v \<noteq> u" using assms AdminCall by simp
    from unban_locked [OF this] show ?thesis
      unfolding k handle_call.simps yields_def using lock.trans [OF l] by blast
  next
    case False
    then have "lock.special_ok u k" using lock_config lock_patch by (cases k) auto
    then show ?thesis using l by (rule lock.handle_stays)
  qed
  then show ?thesis by (simp add: AdminCall)
next
  case (UserCall a k)
  then show ?thesis using assms by (cases k) (auto intro!: user_unban_locked)
next
  case (LobbyCall a k)
  then show ?thesis by (auto intro!: locked_same dest!: LobbyRoutes_logins)
qed simp

lemma run_locked:
  assumes "\<forall>x \<in> set qs. \<not> lifts_ban_of u (snd x)"
  shows "locked u c (console_run D qs c)"
  by (rule lock.run_stays [OF _ lock.refl]) (use assms lock_call in force)

section \<open>The ban itself\<close>

text \<open>A database whose tables answer.\<close>

definition answers :: "console \<Rightarrow> bool" where
  "answers c \<longleftrightarrow> (\<forall>k. \<not> cd_fault (guilds (hall c)) k)"

lemma calm_answers: "calm c c' \<Longrightarrow> answers c' = answers c"
  by (simp add: answers_def calm_lobby(8))

lemma count_unread_answers:
  assumes "\<forall>k. \<not> cd_fault (guilds s) k"
  shows "\<exists>rs s'. count_unread u gs s = (Inr rs, s') \<and> map mg_Server rs = map mg_Server gs"
  using assms
proof (induction gs arbitrary: s)
  case (Cons g gs)
  show ?case
  proof (cases "if sv_IsDm (mg_Server g) then mg_ChannelID g else None")
    case None
    then show ?thesis using Cons.IH [OF Cons.prems] by auto
  next
    case (Some ch)
    obtain n s1 where n: "on_guilds (GetUnreadCount ch u) s = (Inr n, s1)" "cd_fault (guilds s1) = cd_fault (guilds s)"
      using Cons.prems by (simp add: on_guilds_def run_site_def run_chat_def GetUnreadCount_def chat_read_def chat_query_def Let_def)
    then show ?thesis using Cons.IH [of s1] Cons.prems Some by auto
  qed
qed simp

lemma listed_guilds:
  assumes "on_hall (ListServersForUser u) c = (r, c')" and "answers c"
  obtains gs where "r = Inr gs" "\<forall>g \<in> set (cd_servers (guilds (hall c))). \<forall>m \<in> set (cd_members (guilds (hall c))).
      sm_ServerID m = sv_ID g \<longrightarrow> sm_UserID m = Some u \<longrightarrow> g \<in> mg_Server ` set gs"
proof -
  define s where "s = snd (on_guilds (chat_query (\<lambda>now uuid d. (Inr (now, uuid), d))) (hall c)
    :: (db_error + time \<times> string) \<times> lobby)"
  let ?mine = "filter (\<lambda>g. list_ex (\<lambda>m. sm_ServerID m = sv_ID g \<and> sm_UserID m = Some u) (cd_members (guilds s))) (cd_servers (guilds s))"
  let ?rows = "map (guild_row u s) (sort_key sv_CreatedAt ?mine)"
  have s: "cd_servers (guilds s) = cd_servers (guilds (hall c))" "cd_members (guilds s) = cd_members (guilds (hall c))"
      "\<forall>k. \<not> cd_fault (guilds s) k"
    using assms(2) by (simp_all add: s_def answers_def on_guilds_def run_site_def run_chat_def chat_query_def Let_def)
  obtain gs s' where gs: "count_unread u ?rows s = (Inr gs, s')" "map mg_Server gs = map mg_Server ?rows"
    using count_unread_answers [OF s(3)] by blast
  have "ListServersForUser u (hall c) = count_unread u ?rows s"
    using assms(2) by (simp add: ListServersForUser_def bind_lobby_def lobby_query_def s_def answers_def on_guilds_def
        run_site_def run_chat_def chat_query_def Let_def)
  then have "r = Inr gs" using assms(1) gs(1) by (simp add: on_hall_def)
  moreover have "mg_Server ` set gs = set ?mine"
    using arg_cong [OF gs(2), of set] by (simp add: guild_row_def Let_def image_image)
  ultimately show thesis using that s(1,2) by (auto simp: list_ex_iff)
qed

lemma left_guild:
  assumes "answers c"
  shows "cd_servers (guilds (hall (snd (with_guilds (RemoveServerMember g u) c)))) = cd_servers (guilds (hall c))"
    and "cd_members (guilds (hall (snd (with_guilds (RemoveServerMember g u) c)))) =
      sql_delete (\<lambda>m. sm_ServerID m = g \<and> sm_UserID m = Some u) (cd_members (guilds (hall c)))"
    and "answers (snd (with_guilds (RemoveServerMember g u) c))"
  using assms by (simp_all add: answers_def on_hall_def on_guilds_def run_site_def run_chat_def RemoveServerMember_def
      chat_query_def Let_def)

lemma left_guilds:
  assumes "leave_guilds u gs c = Some c'" and "answers c"
  shows "cd_servers (guilds (hall c')) = cd_servers (guilds (hall c)) \<and>
    (\<forall>m \<in> set (cd_members (guilds (hall c'))). m \<in> set (cd_members (guilds (hall c))) \<and>
      (sm_UserID m = Some u \<longrightarrow> (\<forall>g \<in> set gs. sm_ServerID m \<noteq> sv_ID (mg_Server g))))"
  using assms
proof (induction gs arbitrary: c)
  case (Cons g gs)
  let ?c = "snd (with_guilds (RemoveServerMember (sv_ID (mg_Server g)) u) c)"
  obtain c1 where c1: "hall_hub (BroadcastToServer (sv_ID (mg_Server g))
        (RawFrame (JObj [(''type'', JStr ''member_left''), (''user_id'', JStr u)]))) ?c = Some c1"
    and l: "leave_guilds u gs c1 = Some c'"
    using Cons.prems(1) by (auto simp: bind_eq_Some_conv)
  note calm = hall_hub_calm [OF c1]
  note r = left_guild [OF Cons.prems(2), of "sv_ID (mg_Server g)" u]
  have "answers c1" using r(3) calm_answers [OF calm] by simp
  from Cons.IH [OF l this] show ?case
    using r(1,2) calm_lobby(6,7) [OF calm] by (auto simp: sql)
qed simp

lemma inserted_ban:
  assumes "InsertInstanceBanByAdmin u a rs ex c = (Inr b, c')"
  shows "b \<in> set (all_bans c')" "ib_UserID b = u" "ib_ExpiresAt b = ex" "ib_LiftedAt b = None" and "answers c' = answers c"
  using assms unfolding InsertInstanceBanByAdmin_def insert_ban_def
  by (auto elim!: console_query_cases simp: Let_def set_people_def answers_def calm_lobby(8) split: if_splits)

lemma ended_sessions:
  assumes "db_faults (people (hall c)) = []"
  shows "\<forall>x \<in> set (sessions (people (hall (snd (DeleteSessionsByUserID u c))))). s_UserID x \<noteq> u"
  using assms by (simp add: DeleteSessionsByUserID_def on_hall_def on_people_def run_db_def db_query_def sql)

lemma sessions_answer: "answers (snd (DeleteSessionsByUserID u c)) = answers c"
  by (simp add: answers_def DeleteSessionsByUserID_def on_hall_def on_people_def run_db_def split: prod.split)

lemma calm_evict: "evictUserFromAllVoice u gs c = (rs, c') \<Longrightarrow> calm c c'"
proof (induction gs arbitrary: c rs)
  case (Cons g gs)
  obtain x c1 where x: "with_guilds (ListChannels (sv_ID (mg_Server g))) c = (x, c1)" by fastforce
  have "calm c c1" using guild_reads(2) [of "sv_ID (mg_Server g)"] x unfolding reads_def by (metis snd_conv)
  moreover obtain rs' where "evictUserFromAllVoice u gs c1 = (rs', c')"
    using Cons.prems x by (auto split: sum.splits prod.splits)
  ultimately show ?case using Cons.IH calm_trans by blast
qed simp

text \<open>No membership of the user in a guild that exists.\<close>

definition in_no_guild :: "string \<Rightarrow> console \<Rightarrow> bool" where
  "in_no_guild u c \<longleftrightarrow> (\<forall>m \<in> set (cd_members (guilds (hall c))). sm_UserID m = Some u \<longrightarrow>
     (\<forall>g \<in> set (cd_servers (guilds (hall c))). sv_ID g \<noteq> sm_ServerID m))"

lemma ban_done:
  assumes "instanceBan D now aid (Some req) c = Some (Done st b, c')" and "answers c"
    and "db_faults (people (hall c)) = []" and "distinct (map ib_ID (all_bans c))"
  shows "in_no_guild (br_UserID req) c'" and "\<forall>x \<in> set (sessions (people (hall c'))). s_UserID x \<noteq> br_UserID req"
    and "\<exists>d \<in> set (all_bans c'). ib_UserID d = br_UserID req \<and> ib_LiftedAt d = None \<and> ib_ExpiresAt d = expiry now (br_ExpiresIn req)"
    and "distinct (map ib_ID (all_bans c'))"
proof -
  let ?u = "br_UserID req"
  let ?ex = "expiry now (br_ExpiresIn req)"
  let ?c0 = "snd (DeleteSessionsByUserID ?u c)"
  obtain rs ca d cb r cc gs cd ce rooms where
    ca: "hall_hub (BroadcastToUser ?u (banned_notice rs)) ?c0 = Some ca"
    and cb: "InsertInstanceBanByAdmin ?u aid rs ?ex ca = (Inr d, cb)"
    and cc: "on_hall (ListServersForUser ?u) cb = (r, cc)"
    and gs: "gs = (case r of Inl _ \<Rightarrow> [] | Inr gs \<Rightarrow> gs)"
    and cd: "leave_guilds ?u gs cc = Some cd"
    and ce: "(if hasRoomService D then evictUserFromAllVoice ?u gs cd else ([], cd)) = (rooms, ce)"
    and c': "c' = the (hall_hub (\<lambda>h. Some (DisconnectUser ?u h)) ce)"
    using assms(1) by (auto simp: instanceBan_def disconnect_later_def ban_cascade_def Let_def
        split: if_splits option.splits prod.splits sum.splits)
  have calm1: "calm ?c0 ca" by (rule hall_hub_calm [OF ca])
  have calm2: "calm cb cc"
    using admin_reads(21) [of ?u] cc unfolding reads_def by (metis snd_conv)
  have e: "lock.keeps v (\<lambda>c. if hasRoomService D then evictUserFromAllVoice ?u gs c else ([], c))" for v
    by (rule lock.cond_keeps) (rule lock.evict_keeps)
  have calm3: "calm cd ce" using calm_evict ce by (auto split: if_splits)
  have calm4: "calm ce c'"
    unfolding c' by (simp add: hall_hub_calm [of "\<lambda>h. Some (DisconnectUser ?u h)"] hall_hub_def lobby_hub_def run_hub_def)
  have ok: "answers ca" "answers cb" "answers cc"
    using assms(2) sessions_answer calm_answers calm1 calm2 inserted_ban(5) [OF cb] by blast+
  obtain gs' where r: "r = Inr gs'" and listed: "\<forall>g \<in> set (cd_servers (guilds (hall cb))).
      \<forall>m \<in> set (cd_members (guilds (hall cb))). sm_ServerID m = sv_ID g \<longrightarrow> sm_UserID m = Some ?u \<longrightarrow> g \<in> mg_Server ` set gs'"
    using listed_guilds [OF cc ok(2)] .
  note left = left_guilds [OF cd ok(3)]
  have "in_no_guild ?u cd"
    using left listed gs r calm_lobby(6,7) [OF calm2] by (fastforce simp: in_no_guild_def)
  then show "in_no_guild ?u c'"
    using calm_lobby(6,7) [OF calm_trans [OF calm3 calm4]] by (simp add: in_no_guild_def)
  have l1: "locked ?u ?c0 cb"
    by (rule lock.step [OF lock.ban_writes(2) cb lock.calm [OF calm1]])
  have "locked ?u cb cd" by (rule lock.leave_keeps [OF cd lock.calm [OF calm2]])
  then have l2: "locked ?u cb c'" by (rule lock.trans [OF _ lock.calm [OF calm_trans [OF calm3 calm4]]])
  have l3: "locked ?u c cb" by (rule lock.trans [OF lock.snd_keeps [OF lock_sessions lock.refl] l1])
  show "\<forall>x \<in> set (sessions (people (hall c'))). s_UserID x \<noteq> ?u"
    using ended_sessions [OF assms(3), of ?u] lock.trans [OF l1 l2] by (auto simp: locked_def)
  have "distinct (map ib_ID (all_bans cb))" using l3 assms(4) by (simp add: locked_def)
  then show "distinct (map ib_ID (all_bans c'))"
    "\<exists>d \<in> set (all_bans c'). ib_UserID d = ?u \<and> ib_LiftedAt d = None \<and> ib_ExpiresAt d = ?ex"
    using l2 inserted_ban [OF cb] by (auto simp: locked_def)
qed

lemma ban_behind_door:
  assumes "AdminAPIRoutes D now dbNow ds r (BanReq body) c = Some (Done st b, c')"
  obtains aid c0 where "instanceBan D now aid body c0 = Some (Done st b, c')"
    "accounts (core (hall c0)) = accounts (core (hall c))" "answers c0 = answers c"
proof -
  have k: "accounts (core (hall c')) = accounts (core (hall c)) \<and> answers c' = answers c"
    if "console_query q c = (x, c')" "\<And>now uuid c. hall (snd (q now uuid c)) = hall c" for q :: "time \<Rightarrow> string \<Rightarrow> 'a console_op" and c x c'
  proof -
    obtain y c1 where y: "with_guilds (chat_query (\<lambda>now uuid d. (Inr (now, uuid), d))) c = (y :: db_error + time \<times> string, c1)"
      by fastforce
    then have c1: "accounts (core (hall c1)) = accounts (core (hall c)) \<and> answers c1 = answers c"
      by (auto simp: answers_def on_hall_def on_guilds_def run_site_def run_chat_def chat_query_def Let_def split: if_splits)
    show ?thesis
    proof (cases y)
      case (Inr p)
      then have "(x, c') = q (fst p) (snd p) c1" using that(1) y by (simp add: console_query_def split: prod.splits)
      then have "hall c' = hall c1" using that(2) [of "fst p" "snd p" c1] by (metis snd_conv)
      then show ?thesis using c1 by (simp add: answers_def)
    qed (use that(1) y c1 in \<open>simp add: console_query_def\<close>)
  qed
  obtain token s a c1 c2 where d: "GetInstanceAdminSessionByTokenHash (TokenHash (ad_auth D) token) c = (Inr (Some s), c1)"
      "GetInstanceAdminByID (as_AdminID s) c1 = (Inr (Some a), c2)"
      "instanceBan D now (am_ID a) body (snd (UpdateInstanceAdminSessionLastSeen (as_ID s) now c2)) = Some (Done st b, c')"
    using assms by (auto simp: AdminAPIRoutes_def RequireAdminSession_def RequireAdminOrigin_def Let_def
        split: option.splits prod.splits sum.splits if_splits)
  obtain x c3 where c3: "UpdateInstanceAdminSessionLastSeen (as_ID s) now c2 = (x, c3)" by fastforce
  show thesis
    using that [of "am_ID a" c3] d(3) c3 k [OF d(1) [unfolded GetInstanceAdminSessionByTokenHash_def console_read_def]]
      k [OF d(2) [unfolded GetInstanceAdminByID_def console_read_def]]
      k [OF c3 [unfolded UpdateInstanceAdminSessionLastSeen_def]] by simp
qed


text \<open>The only operator bans a user who has a session and is in a guild.\<close>

definition toy_full :: console where
  "toy_full = toy_console\<lparr>hall := toy_lobby\<lparr>core := \<lparr>
     accounts = \<lparr>adb = empty_auth_db\<lparr>users := [toy_user\<lparr>u_ID := ''u''\<rparr>], sessions :=
       [\<lparr>s_ID = ''z'', s_UserID = ''u'', s_TokenHash = [], s_ExpiresAt = 100\<rparr>]\<rparr>, tlog = None, notices = []\<rparr>,
     site = \<lparr>hub = NewHub, cdb = toy_db\<rparr>\<rparr>\<rparr>\<rparr>"

definition toy_ban :: ban_request where
  "toy_ban = \<lparr>br_UserID = ''u'', br_Reason = ''spam'', br_ExpiresIn = None\<rparr>"

lemmas toy_ban_eval = toy_full_def toy_ban_def toy_admin_eval RequireAdminSession_def GetInstanceAdminSessionByTokenHash_def
  toy_session_def GetInstanceAdminByID_def UpdateInstanceAdminSessionLastSeen_def RequireAdminOrigin_def instanceBan_def
  disconnect_later_def ban_cascade_def hall_hub_def lobby_hub_def run_hub_def DeleteSessionsByUserID_def on_people_def
  run_db_def db_query_def empty_auth_db_def BroadcastToUser_def BroadcastToServer_def NewHub_def InsertInstanceBanByAdmin_def
  insert_ban_def set_people_def ListServersForUser_def bind_lobby_def lobby_query_def guild_row_def new_server_def
  RemoveServerMember_def ListChannels_def toy_user_def subscribers_def chat_read_def

lemma toy_instance_ban:
  "\<exists>b c1. AdminAPIRoutes toy_admin_env 0 0 toy_draws toy_browser (BanReq (Some toy_ban)) toy_full = Some (Done 204 b, c1)"
proof -
  have o: "sameOrigin toy_admin_env ''https://h'' toy_browser"
    by (simp add: sameOrigin_def TrimRight_def toy_admin_env_def toy_browser_def requestOrigin_def toy_http_def)
  have "TrimSpace ''spam'' = ''spam''" by (rule TrimSpace_id; simp add: visible_def)
  with o [unfolded toy_admin_env_def toy_browser_def] show ?thesis by (simp add: toy_ban_eval)
qed


end
