(* ===== verification/Voice.thy ===== *)
theory Voice
  imports Invites
begin

text \<open>
  Voice: tokens for LiveKit rooms and the snapshot of who is in them (\<open>internal/api/livekit.go\<close>), the webhook by which
  LiveKit tells who comes and goes (\<open>internal/api/webhook.go\<close>), and the client of its room service
  (\<open>internal/livekit\<close>). The LiveKit library is a parameter: what signs a token (\<open>lk_env\<close>), the decoded and verified
  webhook event (an argument, \<open>None\<close> where the signature fails), the outcome of a call of the room service.
\<close>

section \<open>Tokens\<close>

record VideoGrant =
  vg_RoomJoin :: bool
  vg_RoomAdmin :: bool
  vg_Room :: string
  vg_CanPublish :: bool
  vg_CanSubscribe :: bool
  vg_CanPublishData :: bool

record AccessToken =
  tk_Grant :: VideoGrant
  tk_Identity :: string
  tk_Name :: string
  tk_Metadata :: string
  tk_ValidFor :: time

record lk_env =
  ToJWT :: "string \<Rightarrow> string \<Rightarrow> AccessToken \<Rightarrow> string option"
  lk_lower :: "string \<Rightarrow> string"

record TokenOptions =
  to_APIKey :: string
  to_APISecret :: string
  to_Identity :: string
  to_RoomName :: string
  to_ParticipantName :: string
  to_Metadata :: string
  to_ValidFor :: time

definition GenerateAccessToken :: "lk_env \<Rightarrow> TokenOptions \<Rightarrow> string option" where
  "GenerateAccessToken K opts =
     (if to_APIKey opts = [] \<or> to_APISecret opts = [] then None
      else ToJWT K (to_APIKey opts) (to_APISecret opts) \<lparr>
        tk_Grant = \<lparr>vg_RoomJoin = True, vg_RoomAdmin = False, vg_Room = to_RoomName opts, vg_CanPublish = True,
          vg_CanSubscribe = True, vg_CanPublishData = True\<rparr>,
        tk_Identity = to_Identity opts, tk_Name = to_ParticipantName opts, tk_Metadata = to_Metadata opts,
        tk_ValidFor = to_ValidFor opts\<rparr>)"

definition GenerateToken :: "lk_env \<Rightarrow> string \<Rightarrow> string \<Rightarrow> string \<Rightarrow> string \<Rightarrow> string \<Rightarrow> time \<Rightarrow> string option" where
  "GenerateToken K apiKey apiSecret ident roomName participantName validFor =
     GenerateAccessToken K \<lparr>to_APIKey = apiKey, to_APISecret = apiSecret, to_Identity = ident, to_RoomName = roomName,
       to_ParticipantName = participantName, to_Metadata = [], to_ValidFor = validFor\<rparr>"

section \<open>The room service\<close>

definition adminTokenValidFor :: time where
  "adminTokenValidFor = 5 * 60 * 1000000000"

definition withAdminAuth :: "lk_env \<Rightarrow> string \<Rightarrow> string \<Rightarrow> string \<Rightarrow> string option" where
  "withAdminAuth K apiKey apiSecret room =
     map_option (\<lambda>jwt. ''Bearer '' @ jwt) (ToJWT K apiKey apiSecret \<lparr>
       tk_Grant = \<lparr>vg_RoomJoin = False, vg_RoomAdmin = True, vg_Room = room, vg_CanPublish = False,
         vg_CanSubscribe = False, vg_CanPublishData = False\<rparr>,
       tk_Identity = [], tk_Name = [], tk_Metadata = [], tk_ValidFor = adminTokenValidFor\<rparr>)"

definition normalizeRoomServiceURL :: "string \<Rightarrow> string" where
  "normalizeRoomServiceURL url =
     (case drop_prefix ''wss://'' url of
        Some rest \<Rightarrow> ''https://'' @ rest
      | None \<Rightarrow> (case drop_prefix ''ws://'' url of Some rest \<Rightarrow> ''http://'' @ rest | None \<Rightarrow> url))"

datatype RoomService = NoopRoomService | TwirpRoomService string string string

definition NewTwirpRoomService :: "string \<Rightarrow> string \<Rightarrow> string \<Rightarrow> RoomService" where
  "NewTwirpRoomService liveKitURL apiKey apiSecret =
     (if liveKitURL = [] \<or> apiKey = [] \<or> apiSecret = [] then NoopRoomService
      else TwirpRoomService (normalizeRoomServiceURL liveKitURL) apiKey apiSecret)"

fun Contains :: "string \<Rightarrow> string \<Rightarrow> bool" where
  "Contains [] sub = (sub = [])"
| "Contains (c # cs) sub = (HasPrefix (c # cs) sub \<or> Contains cs sub)"

definition isParticipantNotFound :: "lk_env \<Rightarrow> string \<Rightarrow> bool" where
  "isParticipantNotFound K err =
     (let msg = lk_lower K err
      in Contains msg ''participant not found'' \<or> Contains msg ''not_found'' \<or> Contains msg ''404'')"

text \<open>\<open>call\<close> is the remote call: the endpoint, the header, the room and the participant to the text of its error.\<close>

definition RemoveParticipant ::
  "lk_env \<Rightarrow> (string \<Rightarrow> string \<Rightarrow> string \<Rightarrow> string \<Rightarrow> string option) \<Rightarrow> RoomService \<Rightarrow> string \<Rightarrow> string \<Rightarrow> string option" where
  "RemoveParticipant K call svc room ident =
     (case svc of
        NoopRoomService \<Rightarrow> None
      | TwirpRoomService url apiKey apiSecret \<Rightarrow>
          (if room = [] \<or> ident = [] then Some ''livekit: room and identity are required''
           else case withAdminAuth K apiKey apiSecret room of
             None \<Rightarrow> Some ''livekit: build admin auth''
           | Some header \<Rightarrow>
               (case call url header room ident of
                  None \<Rightarrow> None
                | Some err \<Rightarrow> if isParticipantNotFound K err then None else Some (''livekit: remove participant: '' @ err))))"

section \<open>Who is in which room\<close>

text \<open>
  A Go map is a list of its entries here: in the order of the first entry, one of the orders in which Go may go through
  it. The properties speak of the set of the entries.
\<close>

record voiceParticipant =
  vp_UserID :: string
  vp_DisplayName :: string

type_synonym VoiceState = "(string \<times> (string \<times> voiceParticipant) list) list"

definition NewVoiceState :: VoiceState where
  "NewVoiceState = []"

definition listLocked :: "string \<Rightarrow> VoiceState \<Rightarrow> voiceParticipant list" where
  "listLocked roomName vs = (case map_of vs roomName of None \<Rightarrow> [] | Some m \<Rightarrow> map snd m)"

definition voice_join :: "string \<Rightarrow> string \<Rightarrow> string \<Rightarrow> VoiceState \<Rightarrow> voiceParticipant list \<times> VoiceState" where
  "voice_join roomName ident displayName vs =
     (let m = (case map_of vs roomName of None \<Rightarrow> [] | Some m \<Rightarrow> m);
          vs' = AList.update roomName
            (AList.update ident \<lparr>vp_UserID = ident, vp_DisplayName = displayName\<rparr> m) vs
      in (listLocked roomName vs', vs'))"

definition voice_leave :: "string \<Rightarrow> string \<Rightarrow> VoiceState \<Rightarrow> voiceParticipant list \<times> VoiceState" where
  "voice_leave roomName ident vs =
     (let vs' = (case map_of vs roomName of
            None \<Rightarrow> vs
          | Some m \<Rightarrow>
              (let m' = AList.delete ident m
               in if m' = [] then AList.delete roomName vs else AList.update roomName m' vs))
      in (listLocked roomName vs', vs'))"

text \<open>\<open>strings.Index\<close>: what follows the first occurrence.\<close>

fun after_first :: "string \<Rightarrow> string \<Rightarrow> string option" where
  "after_first sep [] = (if sep = [] then Some [] else None)"
| "after_first sep (c # cs) = (case drop_prefix sep (c # cs) of Some rest \<Rightarrow> Some rest | None \<Rightarrow> after_first sep cs)"

definition parseRoomName :: "string \<Rightarrow> string option" where
  "parseRoomName roomName =
     (case (case drop_prefix ''channel-'' roomName of
              Some channelID \<Rightarrow> Some channelID
            | None \<Rightarrow> after_first ''-channel-'' roomName) of
        Some [] \<Rightarrow> None
      | r \<Rightarrow> r)"

definition snapshotByChannel :: "string list \<Rightarrow> VoiceState \<Rightarrow> (string \<times> voiceParticipant list) list" where
  "snapshotByChannel channelIDs vs =
     fold (\<lambda>(roomName, participants) res. case parseRoomName roomName of
         None \<Rightarrow> res
       | Some channelID \<Rightarrow>
           if channelID \<notin> set channelIDs \<or> participants = [] then res
           else AList.update channelID (map snd participants) res) vs []"

section \<open>The endpoints\<close>

record studio =
  floor :: lobby
  rooms :: VoiceState

record voice_env =
  ve_lk :: lk_env
  ve_APIKey :: string
  ve_APISecret :: string
  ve_PublicURL :: string

datatype voice_body =
    TokenBody string "string option"
  | SnapshotBody "(string \<times> voiceParticipant list) list"

type_synonym voice_result = "voice_body response \<times> studio"

definition on_floor :: "'a lobby_op \<Rightarrow> studio \<Rightarrow> (db_error + 'a) \<times> studio" where
  "on_floor q s = (case q (floor s) of (r, l) \<Rightarrow> (r, s\<lparr>floor := l\<rparr>))"

definition maxRoomNameLen :: nat where "maxRoomNameLen = 256"
definition maxParticipantNameLen :: nat where "maxParticipantNameLen = 128"
definition defaultParticipantName :: string where "defaultParticipantName = ''Participant''"
definition livekitTokenValidFor :: time where "livekitTokenValidFor = 12 * 3600 * 1000000000"

text \<open>The class \<open>[a-zA-Z0-9._=-]\<close> of the room names.\<close>

definition room_char :: "char \<Rightarrow> bool" where
  "room_char c = (let n = (of_char c :: nat) in 97 \<le> n \<and> n \<le> 122 \<or> 65 \<le> n \<and> n \<le> 90 \<or> 48 \<le> n \<and> n \<le> 57 \<or> c \<in> set ''._=-'')"

definition control_char :: "char \<Rightarrow> bool" where
  "control_char c = (let n = (of_char c :: nat) in n < 32 \<or> n = 127)"

text \<open>What is wrong with the names of a request.\<close>

definition check_names :: "string \<Rightarrow> string \<Rightarrow> string option" where
  "check_names roomName participantName =
     (if roomName = [] then Some ''roomName is required''
      else if length roomName > maxRoomNameLen then Some ''roomName too long''
      else if \<not> list_all room_char roomName then Some ''roomName contains invalid characters''
      else if length participantName > maxParticipantNameLen then Some ''participantName too long''
      else if list_ex control_char participantName then Some ''participantName must not contain control characters''
      else None)"

text \<open>
  The checks in the guild of the room, if it has one: a lookup that fails lets pass, but for the membership. The result
  is the message of the refusal; each has its own code in the answer.
\<close>

definition guild_gate :: "string \<Rightarrow> string \<Rightarrow> studio \<Rightarrow> string option \<times> studio" where
  "guild_gate roomName userID s =
     (case drop_prefix ''channel-'' roomName of
        None \<Rightarrow> (None, s)
      | Some channelID \<Rightarrow>
      (case on_floor (on_guilds (GetChannelByID channelID)) s of
         (Inr (Some ch), s1) \<Rightarrow>
           (case ch_ServerID ch of
              None \<Rightarrow> (None, s1)
            | Some g \<Rightarrow>
            (case on_floor (on_guilds (GetActiveBan g userID)) s1 of
               (Inr (Some _), s2) \<Rightarrow> (Some ''You are banned from this server and cannot join voice channels.'', s2)
             | (_, s2) \<Rightarrow>
            (case on_floor (on_guilds (GetServerMemberLevel g userID)) s2 of
               (Inl _, s3) \<Rightarrow> (Some ''You are not a member of this server.'', s3)
             | (Inr _, s3) \<Rightarrow>
            (case on_floor (on_guilds (GetActiveMute g userID)) s3 of
               (Inr (Some _), s4) \<Rightarrow> (Some ''You are muted in this server and cannot join voice channels.'', s4)
             | (_, s4) \<Rightarrow> (None, s4)))))
       | (_, s1) \<Rightarrow> (None, s1)))"

text \<open>\<open>json.Marshal\<close> of the three names, in the order of the keys.\<close>

definition voice_metadata :: "string \<Rightarrow> string \<Rightarrow> string" where
  "voice_metadata userID deviceID =
     ''{'' @ json_quote ''deviceId'' @ '':'' @ json_quote deviceID @ '','' @
     json_quote ''mlsIdentity'' @ '':'' @ json_quote (userID @ '':'' @ deviceID) @ '','' @
     json_quote ''userId'' @ '':'' @ json_quote userID @ ''}''"

text \<open>\<open>body\<close> holds the names of the room and of the participant; user and device come from \<open>RequireAuth\<close>.\<close>

definition voice_token :: "voice_env \<Rightarrow> time \<Rightarrow> string \<Rightarrow> string \<Rightarrow> (string \<times> string) option \<Rightarrow> studio \<Rightarrow> voice_result" where
  "voice_token V dbNow userID device body s =
     (if ve_APIKey V = [] \<or> ve_APISecret V = [] then (Fail 500 ''LiveKit not configured'', s)
      else case body of
        None \<Rightarrow> (Fail 400 ''invalid body'', s)
      | Some (room, name) \<Rightarrow>
      (let roomName = TrimSpace room;
           participantName = (if TrimSpace name = [] then defaultParticipantName else TrimSpace name);
           deviceID = TrimSpace device
       in case check_names roomName participantName of
            Some msg \<Rightarrow> (Fail 400 msg, s)
          | None \<Rightarrow>
          (if deviceID = [] then (Fail 403 ''Device identity required to join voice. Sign in again on this device.'', s)
           else case on_floor (on_people (GetActiveInstanceBan dbNow userID)) s of
             (Inr (Some _), s1) \<Rightarrow> (Fail 403 ''You are banned from this instance and cannot join voice channels.'', s1)
           | (_, s1) \<Rightarrow>
           (case guild_gate roomName userID s1 of
              (Some msg, s2) \<Rightarrow> (Fail 403 msg, s2)
            | (None, s2) \<Rightarrow>
                (case GenerateAccessToken (ve_lk V) \<lparr>to_APIKey = ve_APIKey V, to_APISecret = ve_APISecret V,
                        to_Identity = userID, to_RoomName = roomName, to_ParticipantName = participantName,
                        to_Metadata = voice_metadata userID deviceID, to_ValidFor = livekitTokenValidFor\<rparr> of
                   None \<Rightarrow> (Fail 500 ''token generation failed'', s2)
                 | Some t \<Rightarrow> (Done 200 (TokenBody t (if TrimSpace (ve_PublicURL V) = [] then None
                                                     else Some (TrimSpace (ve_PublicURL V)))), s2))))))"

definition voiceStateSnapshot :: "string \<Rightarrow> string \<Rightarrow> studio \<Rightarrow> voice_result" where
  "voiceStateSnapshot userID param s =
     (let serverID = TrimSpace param
      in if serverID = [] then (Fail 400 ''serverId is required'', s)
         else case on_floor (on_guilds (GetServerMemberLevel serverID userID)) s of
           (Inl _, s1) \<Rightarrow> (Fail 403 ''not a server member'', s1)
         | (Inr _, s1) \<Rightarrow>
         (case on_floor (on_guilds (ListChannels serverID)) s1 of
            (Inl _, s2) \<Rightarrow> (Fail 500 ''failed to list channels'', s2)
          | (Inr chs, s2) \<Rightarrow>
              (Done 200 (SnapshotBody (snapshotByChannel (map ch_ID (filter (\<lambda>ch. ch_Type ch = ''voice'') chs)) (rooms s2))), s2)))"

section \<open>The webhook\<close>

record voice_event =
  ev_Event :: string
  ev_Room :: "string option"
  ev_Participant :: "(string \<times> string) option"

definition participantDisplayName :: "string \<times> string \<Rightarrow> string" where
  "participantDisplayName p = (if snd p \<noteq> [] then snd p else fst p)"

definition resolveChannelServerID :: "string \<Rightarrow> studio \<Rightarrow> string \<times> studio" where
  "resolveChannelServerID channelID s =
     (if channelID = [] then ([], s)
      else case on_floor (on_guilds (GetChannelByID channelID)) s of
        (Inr (Some ch), s1) \<Rightarrow> (case ch_ServerID ch of None \<Rightarrow> [] | Some g \<Rightarrow> g, s1)
      | (_, s1) \<Rightarrow> ([], s1))"

definition tell_guild :: "string \<Rightarrow> frame \<Rightarrow> studio \<Rightarrow> studio option" where
  "tell_guild serverID msg s = map_option (\<lambda>l. s\<lparr>floor := l\<rparr>)
     (lobby_hub (if serverID \<noteq> [] then BroadcastToServer serverID msg else BroadcastToAll msg) (floor s))"

definition participant_json :: "voiceParticipant \<Rightarrow> json" where
  "participant_json p = JObj [(''userId'', JStr (vp_UserID p)), (''displayName'', JStr (vp_DisplayName p))]"

text \<open>What follows a change of a room. The group of the channel goes with its last participant.\<close>

definition announce_voice :: "string \<Rightarrow> bool \<Rightarrow> voiceParticipant list \<Rightarrow> studio \<Rightarrow> (unit response \<times> studio) option" where
  "announce_voice channelID left participants s =
     (case resolveChannelServerID channelID s of (serverID, s1) \<Rightarrow> do {
        s2 \<leftarrow> tell_guild serverID (RawFrame (JObj [(''channel_id'', JStr channelID),
                (''participants'', JArr (map participant_json participants)), (''type'', JStr ''voice_state_update'')])) s1;
        s3 \<leftarrow> (if left \<and> participants = []
               then tell_guild serverID (RawFrame (JObj [(''channel_id'', JStr channelID), (''type'', JStr ''voice_group_destroyed'')]))
                      (snd (on_floor (on_guilds (DeleteMLSGroupInfo channelID ''voice'')) s2))
               else Some s2);
        Some (Done 200 (), s3) })"

definition LiveKitWebhookHandler :: "voice_event option \<Rightarrow> studio \<Rightarrow> (unit response \<times> studio) option" where
  "LiveKitWebhookHandler event s =
     (case event of
        None \<Rightarrow> Some (Fail 401 ''unauthorized'', s)
      | Some e \<Rightarrow>
      (case (ev_Room e, ev_Participant e) of
         (Some room, Some p) \<Rightarrow>
           (case parseRoomName room of
              None \<Rightarrow> Some (Done 200 (), s)
            | Some channelID \<Rightarrow>
                (if ev_Event e = ''participant_joined''
                 then case voice_join room (fst p) (participantDisplayName p) (rooms s) of
                   (ps, vs) \<Rightarrow> announce_voice channelID False ps (s\<lparr>rooms := vs\<rparr>)
                 else if ev_Event e = ''participant_left''
                 then case voice_leave room (fst p) (rooms s) of
                   (ps, vs) \<Rightarrow> announce_voice channelID True ps (s\<lparr>rooms := vs\<rparr>)
                 else Some (Done 200 (), s)))
       | _ \<Rightarrow> Some (Done 200 (), s)))"

end
