(* ===== verification/Voice_Props.thy ===== *)
theory Voice_Props
  imports Voice Invite_Props Auth_Props
begin

text \<open>
  Properties of voice: who gets a token, and that the tracker of the rooms holds what the webhook events so far say.
\<close>

section \<open>Queries of a database that answers\<close>

definition answering :: "studio \<Rightarrow> bool" where
  "answering s \<longleftrightarrow> (\<forall>k. \<not> cd_fault (guilds (floor s)) k)"

definition next_tick :: "studio \<Rightarrow> studio" where
  "next_tick s = s\<lparr>floor := (floor s)\<lparr>core := (core (floor s))\<lparr>site := (site (core (floor s)))\<lparr>cdb :=
     (guilds (floor s))\<lparr>cd_tick := Suc (cd_tick (guilds (floor s)))\<rparr>\<rparr>\<rparr>\<rparr>\<rparr>"

lemma next_tick [simp]:
  "answering (next_tick s) = answering s" "rooms (next_tick s) = rooms s" "people (floor (next_tick s)) = people (floor s)"
  "cd_clock (guilds (floor (next_tick s))) = cd_clock (guilds (floor s))"
  "cd_tick (guilds (floor (next_tick s))) = Suc (cd_tick (guilds (floor s)))"
  "cd_channels (guilds (floor (next_tick s))) = cd_channels (guilds (floor s))"
  "cd_members (guilds (floor (next_tick s))) = cd_members (guilds (floor s))"
  "cd_bans (guilds (floor (next_tick s))) = cd_bans (guilds (floor s))"
  "cd_mutes (guilds (floor (next_tick s))) = cd_mutes (guilds (floor s))"
  by (simp_all add: next_tick_def answering_def)

lemma floor_query:
  assumes "answering s" and "\<And>now uuid d. snd (q now uuid d) = d"
  shows "on_floor (on_guilds (chat_query q)) s = (fst (q (cd_clock (guilds (floor s)) (cd_tick (guilds (floor s))))
    (cd_uuid (guilds (floor s)) (cd_tick (guilds (floor s)))) (guilds (floor (next_tick s)))), next_tick s)"
  using assms by (simp add: on_floor_def on_guilds_def run_site_def run_chat_def chat_query_def Let_def next_tick_def
      answering_def case_prod_beta)

lemma floor_read:
  assumes "answering s"
  shows "on_floor (on_guilds (chat_read p)) s =
    (Inr (p (cd_clock (guilds (floor s)) (cd_tick (guilds (floor s)))) (guilds (floor (next_tick s)))), next_tick s)"
  unfolding chat_read_def by (subst floor_query [OF assms]) simp_all

lemma no_instance_ban:
  assumes "on_floor (on_people (GetActiveInstanceBan t u)) s = (r, s')" and "db_faults (people (floor s)) = []"
    and "\<forall>b. r \<noteq> Inr (Some b)"
  shows "\<forall>b \<in> set (instance_bans (people (floor s))). \<not> ban_active t u b"
    and "guilds (floor s') = guilds (floor s)" and "rooms s' = rooms s"
proof -
  have "rev (sort_key ib_CreatedAt (filter (ban_active t u) (instance_bans (people (floor s))))) = []"
    using assms by (auto simp: on_floor_def on_people_def run_db_def GetActiveInstanceBan_def db_query_def split: list.splits)
  then have "filter (ban_active t u) (instance_bans (people (floor s))) = []"
    by (metis rev_is_Nil_conv length_sort length_0_conv)
  then show "\<forall>b \<in> set (instance_bans (people (floor s))). \<not> ban_active t u b" by (simp add: filter_empty_conv)
  show "guilds (floor s') = guilds (floor s)" "rooms s' = rooms s"
    using assms(1) by (auto simp: on_floor_def on_people_def run_db_def split: prod.splits)
qed

section \<open>Who gets a token\<close>

text \<open>What the gate of a guild asks for, at the times of its queries.\<close>

definition may_talk :: "string \<Rightarrow> string \<Rightarrow> chat_db \<Rightarrow> bool" where
  "may_talk g u d \<longleftrightarrow> (\<exists>m \<in> set (cd_members d). sm_ServerID m = g \<and> sm_UserID m = Some u) \<and>
     (\<forall>b \<in> set (cd_bans d). \<not> (guild_ban_active (cd_clock d (Suc (cd_tick d))) g b \<and> bn_UserID b = u)) \<and>
     (\<forall>m \<in> set (cd_mutes d). \<not> mute_active (cd_clock d (Suc (Suc (Suc (cd_tick d))))) g u m)"

lemma gate_open:
  assumes "guild_gate (''channel-'' @ cid) u s = (None, s')" and "answering s"
    and "find (\<lambda>c. ch_ID c = cid) (cd_channels (guilds (floor s))) = Some ch" and "ch_ServerID ch = Some g"
  shows "may_talk g u (guilds (floor s))"
proof -
  have p: "drop_prefix ''channel-'' (''channel-'' @ cid) = Some cid" by simp
  have l: "on_floor (on_guilds (GetServerMemberLevel g u)) (next_tick (next_tick s)) =
      (fst (case find (\<lambda>m. sm_ServerID m = g \<and> sm_UserID m = Some u) (cd_members (guilds (floor s))) of
         None \<Rightarrow> (Inl DbNoRows, ()) | Some m \<Rightarrow> (Inr (sm_PermissionLevel m), ())), next_tick (next_tick (next_tick s)))"
    unfolding GetServerMemberLevel_def by (subst floor_query) (use assms(2) in \<open>auto split: option.splits\<close>)
  show ?thesis
    using assms(1) unfolding guild_gate_def p option.case GetChannelByID_def GetActiveBan_def GetActiveMute_def
    by (simp add: floor_read assms(2-4) l may_talk_def newest_None filter_empty_conv Bex_def find_None_iff split: option.splits)
       (auto simp: newest_None filter_empty_conv dest!: find_Some_iff_mem)
qed


definition toy_voice :: voice_env where
  "toy_voice = \<lparr>ve_lk = \<lparr>ToJWT = (\<lambda>k s a. Some (tk_Identity a @ ''@'' @ vg_Room (tk_Grant a))), lk_lower = id\<rparr>,
     ve_APIKey = ''k'', ve_APISecret = ''s'', ve_PublicURL = []\<rparr>"

definition toy_studio :: studio where
  "toy_studio = \<lparr>floor = toy_lobby, rooms = NewVoiceState\<rparr>"

lemma toy_token:
  "\<exists>s'. voice_token toy_voice 0 ''u'' ''d'' (Some (''channel-k'', ''ann'')) toy_studio =
     (Done 200 (TokenBody ''u@channel-k'' None), s')"
proof -
  have "TrimSpace ''channel-k'' = ''channel-k''" "TrimSpace ''ann'' = ''ann''" "TrimSpace ''d'' = ''d''"
    by (rule TrimSpace_id; simp add: visible_def)+
  moreover have "check_names ''channel-k'' ''ann'' = None"
    by (simp add: check_names_def maxRoomNameLen_def maxParticipantNameLen_def room_char_def control_char_def)
  ultimately show ?thesis
    by (simp add: voice_token_def toy_voice_def toy_studio_def GenerateAccessToken_def on_floor_def on_people_def run_db_def
        GetActiveInstanceBan_def db_query_def toy_lobby_def empty_auth_db_def guild_gate_def on_guilds_def run_site_def
        run_chat_def GetChannelByID_def GetActiveBan_def GetServerMemberLevel_def GetActiveMute_def chat_read_def chat_query_def
        Let_def toy_world_def toy_db_def)
qed


section \<open>The tracker and the history\<close>

text \<open>Who is in a room, told from the webhook events, the newest first: the name under which a participant is shown.\<close>

fun in_room :: "string \<Rightarrow> string \<Rightarrow> voice_event option list \<Rightarrow> string option" where
  "in_room room i [] = None"
| "in_room room i (None # es) = in_room room i es"
| "in_room room i (Some e # es) =
     (if ev_Room e = Some room \<and> map_option fst (ev_Participant e) = Some i
      then if ev_Event e = ''participant_joined'' then map_option participantDisplayName (ev_Participant e)
           else if ev_Event e = ''participant_left'' then None else in_room room i es
      else in_room room i es)"

fun serve_hooks :: "voice_event option list \<Rightarrow> studio \<Rightarrow> studio option" where
  "serve_hooks [] s = Some s"
| "serve_hooks (e # es) s = (case LiveKitWebhookHandler e s of None \<Rightarrow> None | Some (_, s') \<Rightarrow> serve_hooks es s')"

definition occupants :: "string \<Rightarrow> VoiceState \<Rightarrow> (string \<times> voiceParticipant) list" where
  "occupants room vs = (case map_of vs room of None \<Rightarrow> [] | Some m \<Rightarrow> m)"

text \<open>The tracker is a map of maps, without empty rooms.\<close>

definition tidy :: "VoiceState \<Rightarrow> bool" where
  "tidy vs \<longleftrightarrow> distinct (map fst vs) \<and> (\<forall>room m. map_of vs room = Some m \<longrightarrow> m \<noteq> [] \<and> distinct (map fst m))"

lemma tidy_occupants: "tidy vs \<Longrightarrow> distinct (map fst (occupants room vs))"
  by (simp add: tidy_def occupants_def split: option.split)

lemma tidy_changes:
  "tidy vs \<Longrightarrow> m \<noteq> [] \<Longrightarrow> distinct (map fst m) \<Longrightarrow> tidy (AList.update room m vs)"
  "tidy vs \<Longrightarrow> tidy (AList.delete room vs)"
  by (auto simp: tidy_def AList.distinct_update AList.distinct_delete AList.update_conv AList.delete_conv split: if_splits)

lemma join_effect:
  assumes "tidy vs"
  shows "tidy (snd (voice_join room i n vs))"
    and "occupants r (snd (voice_join room i n vs)) =
      (if r = room then AList.update i \<lparr>vp_UserID = i, vp_DisplayName = n\<rparr> (occupants room vs) else occupants r vs)"
  using tidy_changes(1) [OF assms AList.update_nonempty AList.distinct_update] tidy_occupants [OF assms]
  by (auto simp: voice_join_def Let_def occupants_def AList.update_conv split: option.split)

lemma leave_effect:
  assumes "tidy vs"
  shows "tidy (snd (voice_leave room i vs))"
    and "occupants r (snd (voice_leave room i vs)) =
      (if r = room then AList.delete i (occupants room vs) else occupants r vs)"
proof -
  have "distinct (map fst m)" if "map_of vs room = Some m" for m using assms that by (simp add: tidy_def)
  then show "tidy (snd (voice_leave room i vs))"
    using assms by (auto simp: voice_leave_def Let_def tidy_changes AList.distinct_delete split: option.split)
  show "occupants r (snd (voice_leave room i vs)) =
      (if r = room then AList.delete i (occupants room vs) else occupants r vs)"
    by (auto simp: voice_leave_def Let_def occupants_def AList.update_conv AList.delete_conv split: option.split)
qed

definition hook_rooms :: "voice_event option \<Rightarrow> VoiceState \<Rightarrow> VoiceState" where
  "hook_rooms e vs =
     (case e of Some (ev :: voice_event) \<Rightarrow>
        (case (ev_Room ev, ev_Participant ev) of
           (Some room, Some p) \<Rightarrow>
             (if parseRoomName room = None then vs
              else if ev_Event ev = ''participant_joined'' then snd (voice_join room (fst p) (participantDisplayName p) vs)
              else if ev_Event ev = ''participant_left'' then snd (voice_leave room (fst p) vs) else vs)
         | _ \<Rightarrow> vs)
      | None \<Rightarrow> vs)"

lemma announce_rooms:
  assumes "announce_voice cid lft ps s = Some (r, s')"
  shows "rooms s' = rooms s"
proof -
  have f: "rooms (snd (on_floor q x)) = rooms x" for q :: "'a lobby_op" and x by (simp add: on_floor_def case_prod_beta)
  have "rooms y = rooms x" if "tell_guild g f x = Some y" for g f x y using that by (auto simp: tell_guild_def)
  moreover obtain g s1 where g: "resolveChannelServerID cid s = (g, s1)" by fastforce
  moreover have "rooms s1 = rooms s"
    using g f [of "on_guilds (GetChannelByID cid)" s]
    by (auto simp: resolveChannelServerID_def split: if_splits prod.splits sum.splits option.splits)
  ultimately show ?thesis using assms f [of "on_guilds (DeleteMLSGroupInfo cid ''voice'')"]
    by (auto simp: announce_voice_def bind_eq_Some_conv split: if_splits)
qed

lemma handler_rooms:
  assumes "LiveKitWebhookHandler e s = Some (r, s')"
  shows "rooms s' = hook_rooms e (rooms s)"
  using assms
  by (auto simp: LiveKitWebhookHandler_def hook_rooms_def split: option.splits if_splits prod.splits dest!: announce_rooms)

text \<open>The tracker after the events \<open>es\<close>, the newest first.\<close>

definition tracks :: "voice_event option list \<Rightarrow> VoiceState \<Rightarrow> bool" where
  "tracks es vs \<longleftrightarrow> tidy vs \<and> (\<forall>room i. map_of (occupants room vs) i =
     (if parseRoomName room = None then None
      else map_option (\<lambda>n. \<lparr>vp_UserID = i, vp_DisplayName = n\<rparr>) (in_room room i es)))"

lemma tracks_hook:
  assumes "tracks es vs"
  shows "tracks (e # es) (hook_rooms e vs)"
proof (cases "\<exists>ev room p. e = Some ev \<and> ev_Room ev = Some room \<and> ev_Participant ev = Some p \<and> parseRoomName room \<noteq> None")
  case True
  then obtain ev room p where e: "e = Some ev" "ev_Room ev = Some room" "ev_Participant ev = Some p" "parseRoomName room \<noteq> None"
    by blast
  have t: "tidy vs" using assms by (simp add: tracks_def)
  show ?thesis
    using assms e join_effect [OF t] leave_effect [OF t]
    by (auto simp: tracks_def hook_rooms_def AList.update_conv AList.delete_conv)
next
  case False
  then have "hook_rooms e vs = vs" by (auto simp: hook_rooms_def split: option.splits)
  moreover have "in_room room i (e # es) = in_room room i es" if "parseRoomName room \<noteq> None" for room i
    using False that by (cases e) auto
  ultimately show ?thesis using assms by (auto simp: tracks_def)
qed

lemma tracks_hooks:
  "serve_hooks es s = Some s' \<Longrightarrow> tracks es0 (rooms s) \<Longrightarrow> tracks (rev es @ es0) (rooms s')"
proof (induction es arbitrary: s es0)
  case (Cons e es)
  obtain r s1 where s1: "LiveKitWebhookHandler e s = Some (r, s1)" "serve_hooks es s1 = Some s'"
    using Cons.prems(1) by (auto split: option.splits)
  have "tracks (e # es0) (rooms s1)" using tracks_hook [OF Cons.prems(2)] handler_rooms [OF s1(1)] by simp
  from Cons.IH [OF s1(2) this] show ?case by simp
qed simp

text \<open>
  C40. After any series of webhook requests, forged, repeated or out of order, the tracker is the function of the
  history: the participants of a room of a channel are those whose last event in this room was that they joined, each
  once and under the name of that event; other rooms have none.
\<close>

theorem voice_rooms_from_history:
  assumes "serve_hooks es (s\<lparr>rooms := NewVoiceState\<rparr>) = Some s'"
  shows "set (listLocked room (rooms s')) = {\<lparr>vp_UserID = i, vp_DisplayName = n\<rparr> | i n.
      parseRoomName room \<noteq> None \<and> in_room room i (rev es) = Some n} \<and>
    distinct (map vp_UserID (listLocked room (rooms s')))"
proof -
  let ?m = "occupants room (rooms s')"
  have "tracks [] (rooms (s\<lparr>rooms := NewVoiceState\<rparr>))"
    by (simp add: tracks_def tidy_def occupants_def NewVoiceState_def)
  from tracks_hooks [OF assms this] have t: "tracks (rev es) (rooms s')" by simp
  then have d: "distinct (map fst ?m)" by (simp add: tracks_def tidy_occupants)
  have m: "map_of ?m i = (if parseRoomName room = None then None
      else map_option (\<lambda>n. \<lparr>vp_UserID = i, vp_DisplayName = n\<rparr>) (in_room room i (rev es)))" for i
    using t by (simp add: tracks_def)
  have l: "listLocked room (rooms s') = map snd ?m" by (simp add: listLocked_def occupants_def split: option.split)
  have mem: "(i, p) \<in> set ?m \<longleftrightarrow> map_of ?m i = Some p" for i p using d by simp
  have "set (listLocked room (rooms s')) = {p. \<exists>i. map_of ?m i = Some p}"
    using mem by (auto simp: l image_iff) (metis snd_conv)+
  moreover have "map vp_UserID (listLocked room (rooms s')) = map fst ?m"
    unfolding l map_map by (rule map_cong [OF HOL.refl]) (use mem m in \<open>auto split: if_splits\<close>)
  ultimately show ?thesis using d by (auto simp: m split: if_splits)
qed

text \<open>One joins twice, another joins and leaves, and a forged request comes between.\<close>

definition toy_hooks :: "voice_event option list" where
  "toy_hooks =
     [Some \<lparr>ev_Event = ''participant_joined'', ev_Room = Some ''channel-k'', ev_Participant = Some (''u'', [])\<rparr>,
      None,
      Some \<lparr>ev_Event = ''participant_joined'', ev_Room = Some ''channel-k'', ev_Participant = Some (''v'', ''bob'')\<rparr>,
      Some \<lparr>ev_Event = ''participant_joined'', ev_Room = Some ''channel-k'', ev_Participant = Some (''u'', ''ann'')\<rparr>,
      Some \<lparr>ev_Event = ''participant_left'', ev_Room = Some ''channel-k'', ev_Participant = Some (''v'', ''bob'')\<rparr>]"

definition toy_quiet_studio :: studio where
  "toy_quiet_studio = toy_studio\<lparr>floor := toy_lobby\<lparr>core := (core toy_lobby)\<lparr>site := \<lparr>hub = NewHub, cdb = toy_db\<rparr>\<rparr>\<rparr>\<rparr>"

lemma toy_hooks_served: "\<exists>s'. serve_hooks toy_hooks (toy_quiet_studio\<lparr>rooms := NewVoiceState\<rparr>) = Some s'"
proof -
  have "parseRoomName ''channel-k'' = Some ''k''" by (simp add: parseRoomName_def)
  then show ?thesis
    by (simp add: toy_hooks_def toy_quiet_studio_def toy_studio_def toy_lobby_def LiveKitWebhookHandler_def voice_join_def
        voice_leave_def participantDisplayName_def NewVoiceState_def listLocked_def announce_voice_def resolveChannelServerID_def
        on_floor_def on_guilds_def run_site_def run_chat_def GetChannelByID_def chat_read_def chat_query_def Let_def toy_db_def
        tell_guild_def lobby_hub_def run_hub_def BroadcastToServer_def NewHub_def subscribers_def)
qed

theorem voice_rooms_from_history_witness:
  "\<exists>s'. serve_hooks toy_hooks (toy_quiet_studio\<lparr>rooms := NewVoiceState\<rparr>) = Some s' \<and>
     set (listLocked ''channel-k'' (rooms s')) = {\<lparr>vp_UserID = ''u'', vp_DisplayName = ''ann''\<rparr>}"
proof -
  obtain s' where s': "serve_hooks toy_hooks (toy_quiet_studio\<lparr>rooms := NewVoiceState\<rparr>) = Some s'"
    using toy_hooks_served by blast
  have "in_room ''channel-k'' i (rev toy_hooks) = (if i = ''u'' then Some ''ann'' else None)" for i
    by (simp add: toy_hooks_def participantDisplayName_def)
  moreover have "parseRoomName ''channel-k'' \<noteq> None" by (simp add: parseRoomName_def)
  ultimately show ?thesis using voice_rooms_from_history [OF s', of "''channel-k''"] s' by auto
qed

end
