(* ===== verification/Spec2Isabelle.thy ===== *)
theory Spec2Isabelle
  imports Transparency_Props Auth_Props Ws_Props Mls_Props Guild_Props Device_Props Archive_Props Attachment_Props Invite_Props Admin_Bans Voice_Props
begin

text \<open>
  Hush server, the back end of an end-to-end encrypted chat: a verification development.

  \<^bold>\<open>The program.\<close> Clients log in by signing a nonce (\<open>internal/api/auth.go\<close>, \<open>internal/auth\<close>), hold a
  WebSocket (\<open>internal/ws\<close>) over which they send ciphertexts to channels, and use HTTP endpoints
  (\<open>internal/api\<close>) for guilds, channels, moderation and the MLS group state. All of it keeps its
  state in PostgreSQL (\<open>internal/db\<close>) and in the hub of the open connections (\<open>internal/ws/hub.go\<close>).
  A transparency log (\<open>internal/transparency\<close>) commits to every change of a device key with a
  Merkle tree, whose heads the server signs.

  \<^bold>\<open>How the code becomes definitions.\<close> Definitions carry the names of the Go functions. A Go
  struct is a record, a closed set of answers or frames a datatype, a machine integer whose width
  matters a word, an integer elsewhere. A table is the list of its rows (\<open>Hush_Prelude\<close>); a query is
  a function of the database to a result or an error and the database after it, and any query
  can fail, as the database says by a schedule of faults that it carries along with its clock and its fresh
  identifiers. A handler is a function of the request and the state to the answer and the state;
  every early return is a branch of it. A broadcast to a closed channel is a panic, the result
  \<open>None\<close>. Goroutines run where they are started. Hashes, signatures, tokens, CBOR, and parsers of
  the standard library for times, URLs and UUIDs are parameters. Handlers are atomic, except
  where a property speaks of the steps between two parts of one.

  \<^bold>\<open>Theories.\<close>
  \<^item> \<open>Hush_Prelude\<close>: bytes, time, responses, tables and their laws. \<open>Codec\<close>: base64 and hex.
    \<open>Go_Strings\<close>: \<open>strings.TrimSpace\<close>, \<open>strconv\<close>. \<open>Json\<close>: decoding into structs, quoting.
  \<^item> \<open>Merkle\<close> (\<open>transparency/merkle.go\<close>) and \<open>Merkle_Correct\<close>: the incremental tree computes the
    RFC 6962 hash, proofs verify, verification is sound, fringes round trip.
  \<^item> \<open>Transparency\<close>, \<open>Transparency_DB\<close>, \<open>Transparency_Service\<close>, \<open>Transparency_Props\<close>: entries and
    signatures, the log tables, the service (append, proof, recovery), and that they fit: what is
    appended can be proved, a restart rebuilds the tree, what a failed write leaves.
  \<^item> \<open>Auth_DB\<close>, \<open>Auth_Nonces\<close>, \<open>Auth\<close>, \<open>Auth_Props\<close>: the account tables, nonces as a locale
    interpreted on the table, challenge, verify, register, logout, the middleware \<open>RequireAuth\<close>.
  \<^item> \<open>Hub\<close> and \<open>Hub_Props\<close> (\<open>ws/hub.go\<close>): connections, subscriptions, presence, broadcasts; the
    steps of the hub as an inductive relation with its invariant.
  \<^item> \<open>Chat_Rows\<close>, \<open>Chat_DB\<close>: the rows and queries of guilds, channels, members, messages.
    \<open>Ws\<close>, \<open>Ws_Facts\<close>, \<open>Ws_Props\<close> (\<open>ws/client.go\<close>, \<open>ws/handlers.go\<close>): dispatch, all message
    handlers, the read loop; who can send, what arrives, what history shows.
  \<^item> \<open>Mls_DB\<close>, \<open>Mls\<close>, \<open>Mls_Facts\<close>, \<open>Mls_Props\<close> (\<open>api/mls.go\<close>): credentials, key packages, group
    information, the queue of commits.
  \<^item> \<open>Guild_DB\<close>, \<open>Guild\<close>, \<open>Moderation\<close> (\<open>api/servers.go\<close>, \<open>channels.go\<close>, \<open>system_messages.go\<close>,
    \<open>moderation.go\<close>): guilds, memberships, channels, bans, mutes, the routes \<open>ServerRoutes\<close>.
    \<open>Guild_Facts\<close>, \<open>Guild_Steps\<close>, \<open>Guild_Bans\<close>, \<open>Guild_Props\<close>: the hierarchy of levels, the owner,
    what bans exclude, the order of channels.
  \<^item> \<open>Db_Frame\<close>: the locales \<open>db_frame\<close> and \<open>tick_frame\<close>, a relation that every query of a handler
    respects, with rules that lift it to the handler. \<open>Guild_Facts\<close> extends them to \<open>log_frame\<close>.
    They are interpreted on the relations that the properties need (\<open>shelf\<close> and \<open>mls_guard\<close> for
    MLS, \<open>roster\<close>, \<open>quiet\<close> and \<open>bans\<close> for guilds).

  \<^item> \<open>Json_Read\<close>: reading back what the server wrote. \<open>Devices\<close> (\<open>api/devices.go\<close>): certification,
    revocation, and the link flow whose records lie among the nonces. \<open>Handler_Rules\<close>: rules that take a
    handler apart along its text. \<open>Device_Facts\<close>, \<open>Link_Facts\<close>, \<open>Device_Props\<close>: where device keys come from,
    a link request is claimed once, a link works.
  \<^item> \<open>Archive_DB\<close>, \<open>Archives\<close> (\<open>api/link_archives.go\<close>, \<open>storage/postgres.go\<close>): the chunked transfer of
    history between devices, its tables, the object store as an interface and its PostgreSQL implementation.
    \<open>Archive_Facts\<close>: the locale \<open>object_store\<close>, an abstract machine over the rows of archives and chunks as an
    inductive relation, and the refinement: each request is a run of it. \<open>Archive_Invariants\<close>: completeness and quotas by
    rule induction. \<open>Archive_Stored\<close>: where objects come from; the locale interpreted on PostgreSQL. \<open>Archive_Quiet\<close>,
    \<open>Archive_Transfer\<close>: what requests do while the database answers. \<open>Archive_Props\<close>: the properties.
  \<^item> \<open>Attachments\<close>, \<open>Attachment_Props\<close> (\<open>api/attachments.go\<close>, the retention cleanup of \<open>cmd/hush/main.go\<close>): presigned
    URLs, the storage quota of a guild, what is deleted in the object store.
  \<^item> \<open>Invites\<close>, \<open>Invite_Facts\<close>, \<open>Invite_Props\<close> (\<open>api/invites.go\<close>, \<open>api/discover.go\<close>): invite codes, discovery, direct messages, on
    the accounts and the guilds together; whom an invite lets in and how often, that two users have one conversation.
  \<^item> \<open>Handshake\<close> (\<open>api/handshake.go\<close>, \<open>version\<close>, \<open>dbcompat\<close>): the snapshot of the configuration, the handshake document, the
    check of the schema at start. \<open>Passwords\<close> (\<open>auth/admin_password.go\<close>, \<open>admin_session.go\<close>, \<open>service_identity.go\<close>): the
    secrets of operators; a password verifies against its own hash.
  \<^item> \<open>Admin_DB\<close>, \<open>Admin\<close>, \<open>Instance\<close> (\<open>api/admin*.go\<close>, \<open>api/instance.go\<close>, \<open>db/instance.go\<close>, \<open>db/admin_*.go\<close>): the operators' accounts,
    sessions and roles, settings, templates and instance bans, on the state of the lobby (\<open>console\<close>). A \<open>console_step\<close> is a
    request of an operator, of a user or of the lobby. \<open>State_Frame\<close>: the locale \<open>state_frame\<close> over any state; \<open>Admin_Facts\<close>
    extends it to the routes of the console. \<open>Admin_Props\<close>: an owner is left, the first claim, who is served.
    \<open>Admin_Bans\<close>: what a ban of the instance means for the login and the guilds, over requests of all parts.
  \<^item> \<open>Voice\<close>, \<open>Voice_Props\<close> (\<open>api/livekit.go\<close>, \<open>api/webhook.go\<close>, \<open>livekit\<close>): tokens for voice rooms, the webhook and its
    tracker of the rooms; who gets a token, and that the tracker is the function of the events.

  \<^bold>\<open>Interplay.\<close> The frames of the hub are those that the HTTP handlers and the WebSocket handlers
  broadcast (\<open>world\<close> in \<open>Ws\<close> is the hub and the chat database). The MLS routes use both the accounts and this
  world (\<open>app\<close> in \<open>Mls\<close>). The guild handlers decide through \<open>RequireGuildMember\<close> who acts, and the
  memberships they change are those that \<open>IsChannelMember\<close> of the WebSocket handlers reads. The device handlers share the account tables and the
  nonces with the login, and append to the transparency log. An archive has the identifier of a user and is else
  apart: its tokens are its own.

  \<^bold>\<open>Bounds.\<close> There is no fuel: loops are structural, or have a measure (the halving loops of the
  tree). Sizes of the tree, durations and counters that can wrap are words of 64 bits; positions
  of channels are checked against the 32 bits of their column. Properties over series of requests
  hold for every finite series.

  \<^bold>\<open>Not modelled.\<close> Left out for good: federation between instances (switched off in this version),
  the GIF search (a proxy of an external service), the S3 client, configuration, routing, headers, metrics,
  static pages, rate limits as token buckets (the limiter is a parameter of the read loop), timers of the
  purge loops, and the interleaving of queries of two handlers within PostgreSQL. What LiveKit does with
  a token is its own.
\<close>

end
